(* ===== verification/Prelude.thy ===== *)
theory Prelude
  imports Complex_Main "HOL-Library.Monad_Syntax" "HOL-Library.AList"
    "HOL-Library.Product_Lexorder"
begin

text \<open>
  Shared vocabulary of the development: Python control flow that may raise, as loops in the
  option monad (\<^term>\<open>None\<close> is "an exception leaves the function"), Python's list, string
  and number operations that the sources use, and the lemmas the component theories share.
  The collections \<open>py_loops\<close> and \<open>py_text\<close> hold the rewrite rules of the loops and
  of the text operations.
\<close>

named_theorems py_loops \<open>results of loops in the option monad\<close>
named_theorems py_text \<open>decimal text and string operations\<close>

section \<open>Loops that may raise\<close>

primrec omap :: "('a \<Rightarrow> 'b option) \<Rightarrow> 'a list \<Rightarrow> 'b list option" where
  "omap f [] = Some []"
| "omap f (x # xs) = do { y \<leftarrow> f x; ys \<leftarrow> omap f xs; Some (y # ys) }"

primrec ofilter :: "('a \<Rightarrow> bool option) \<Rightarrow> 'a list \<Rightarrow> 'a list option" where
  "ofilter p [] = Some []"
| "ofilter p (x # xs) =
     do { b \<leftarrow> p x; ys \<leftarrow> ofilter p xs; Some (if b then x # ys else ys) }"

primrec ofold :: "('s \<Rightarrow> 'a \<Rightarrow> 's option) \<Rightarrow> 's \<Rightarrow> 'a list \<Rightarrow> 's option" where
  "ofold f s [] = Some s"
| "ofold f s (x # xs) = do { s' \<leftarrow> f s x; ofold f s' xs }"

primrec oany :: "('a \<Rightarrow> bool option) \<Rightarrow> 'a list \<Rightarrow> bool option" where
  "oany p [] = Some False"
| "oany p (x # xs) = do { b \<leftarrow> p x; if b then Some True else oany p xs }"

primrec ofind :: "('a \<Rightarrow> bool option) \<Rightarrow> 'a list \<Rightarrow> 'a option option" where
  "ofind p [] = Some None"
| "ofind p (x # xs) = do { b \<leftarrow> p x; if b then Some (Some x) else ofind p xs }"

lemma omap_Some [py_loops]:
  "omap f xs = Some ys \<longleftrightarrow> list_all2 (\<lambda>x y. f x = Some y) xs ys"
  by (induction xs arbitrary: ys) (auto simp: bind_eq_Some_conv list_all2_Cons1)

lemma omap_defined: "omap f xs = Some ys \<Longrightarrow> x \<in> set xs \<Longrightarrow> \<exists>y. f x = Some y"
  by (induction xs arbitrary: ys) (auto simp: bind_eq_Some_conv)

lemma omap_result: "omap f xs = Some ys \<Longrightarrow> y \<in> set ys \<Longrightarrow> \<exists>x\<in>set xs. f x = Some y"
  by (induction xs arbitrary: ys) (auto simp: bind_eq_Some_conv)

lemma omap_member: "omap f xs = Some ys \<Longrightarrow> x \<in> set xs \<Longrightarrow> \<exists>y\<in>set ys. f x = Some y"
  by (induction xs arbitrary: ys) (auto simp: bind_eq_Some_conv)

lemma omap_length: "omap f xs = Some ys \<Longrightarrow> length ys = length xs"
  by (auto simp: py_loops dest: list_all2_lengthD)

lemma omap_total: "(\<And>x. x \<in> set xs \<Longrightarrow> f x = Some (g x)) \<Longrightarrow> omap f xs = Some (map g xs)"
  by (induction xs) auto

lemma ofilter_eq:
  "ofilter p xs =
     (if \<forall>x\<in>set xs. p x \<noteq> None then Some (filter (\<lambda>x. p x = Some True) xs) else None)"
proof (induction xs)
  case Nil
  then show ?case by simp
next
  case (Cons x xs)
  then show ?case by (cases "p x") auto
qed

lemma ofilter_Some [py_loops]:
  "ofilter p xs = Some ys \<longleftrightarrow>
     (\<forall>x\<in>set xs. p x \<noteq> None) \<and> ys = filter (\<lambda>x. p x = Some True) xs"
  by (auto simp: ofilter_eq)

lemma ofilter_total: "(\<And>x. x \<in> set xs \<Longrightarrow> p x = Some (q x)) \<Longrightarrow> ofilter p xs = Some (filter q xs)"
  by (induction xs) auto

lemma oany_Some_True: "oany p xs = Some True \<Longrightarrow> \<exists>x\<in>set xs. p x = Some True"
  by (induction xs) (auto simp: bind_eq_Some_conv split: if_splits)

lemma oany_Some_False [py_loops]: "oany p xs = Some False \<longleftrightarrow> (\<forall>x\<in>set xs. p x = Some False)"
  by (induction xs) (auto simp: bind_eq_Some_conv)

lemma oany_total: "(\<And>x. x \<in> set xs \<Longrightarrow> p x = Some (q x)) \<Longrightarrow> oany p xs = Some (\<exists>x\<in>set xs. q x)"
  by (induction xs) auto

lemma ofind_Some_Some: "ofind p xs = Some (Some x) \<Longrightarrow> x \<in> set xs \<and> p x = Some True"
  by (induction xs) (auto simp: bind_eq_Some_conv split: if_splits)

lemma ofind_Some_None [py_loops]: "ofind p xs = Some None \<longleftrightarrow> (\<forall>x\<in>set xs. p x = Some False)"
  by (induction xs) (auto simp: bind_eq_Some_conv)

lemma ofold_append [py_loops]:
  "ofold f s (xs @ ys) = do { s' \<leftarrow> ofold f s xs; ofold f s' ys }"
  by (induction xs arbitrary: s) (auto simp: bind_eq_Some_conv split: bind_splits)

lemma ofold_invariant:
  assumes "ofold f s xs = Some t" "I s"
    and "\<And>u x v. x \<in> set xs \<Longrightarrow> I u \<Longrightarrow> f u x = Some v \<Longrightarrow> I v"
  shows "I t"
  using assms
proof (induction xs arbitrary: s)
  case Nil
  then show ?case by simp
next
  case (Cons x xs)
  from Cons.prems(1) obtain s' where s': "f s x = Some s'" "ofold f s' xs = Some t"
    by (auto simp: bind_eq_Some_conv)
  have "I s'" using Cons.prems(2,3) s'(1) by auto
  with s'(2) show ?case using Cons.IH Cons.prems(3) by (meson list.set_intros(2))
qed

lemma ofold_total:
  "(\<And>s x. x \<in> set xs \<Longrightarrow> f s x = Some (g s x)) \<Longrightarrow> ofold f s xs = Some (foldl g s xs)"
  by (induction xs arbitrary: s) auto

text \<open>A loop that adds up pairs.\<close>

lemma ofold_pair_sum:
  fixes g :: "'a \<Rightarrow> ('n::monoid_add \<times> 'm::monoid_add) option"
  assumes "\<And>acc x. f acc x = map_option (\<lambda>(a, b). (fst acc + a, snd acc + b)) (g x)"
  shows "ofold f s xs = Some t \<longleftrightarrow> (\<forall>x\<in>set xs. g x \<noteq> None) \<and>
    t = (fst s + sum_list (map (\<lambda>x. fst (the (g x))) xs), snd s + sum_list (map (\<lambda>x. snd (the (g x))) xs))"
proof (induction xs arbitrary: s)
  case Nil
  then show ?case by (auto simp: prod_eq_iff)
next
  case (Cons x xs)
  show ?case
  proof (cases "g x")
    case None
    then show ?thesis by (simp add: assms)
  next
    case (Some ab)
    then have "f s x = Some (fst s + fst ab, snd s + snd ab)" by (simp add: assms split_beta)
    with Some show ?thesis by (simp add: Cons add.assoc)
  qed
qed

lemma case_option_ex: "(case x of None \<Rightarrow> False | Some y \<Rightarrow> P y) \<Longrightarrow> \<exists>y. x = Some y \<and> P y"
  by (cases x) simp_all

section \<open>Python numbers\<close>

text \<open>\<open>int(x)\<close> on a float truncates towards zero. Floats are modelled by the rationals
  they denote.\<close>

definition py_int :: "rat \<Rightarrow> int" where
  "py_int x = (if x < 0 then \<lceil>x\<rceil> else \<lfloor>x\<rfloor>)"

lemma py_int_le: "0 \<le> x \<Longrightarrow> of_int (py_int x) \<le> x"
  by (simp add: py_int_def)

lemma py_int_of_int [simp]: "py_int (of_int i) = i"
  by (simp add: py_int_def)

section \<open>Sorting and selection\<close>

text \<open>\<open>sorted(xs, key=f)\<close> is \<^const>\<open>sort_key\<close>: both are stable.
  \<open>reverse=True\<close> keeps the order of equal keys, so it is sorting by the negated key.\<close>

lemma insort_key_map: "insort_key k (f x) (map f xs) = map f (insort_key (\<lambda>x. k (f x)) x xs)"
  by (induction xs) auto

lemma sort_key_map: "sort_key k (map f xs) = map f (sort_key (\<lambda>x. k (f x)) xs)"
  by (induction xs) (simp_all add: insort_key_map)

lemma sort_key_hd_least:
  assumes "sort_key f xs = y # ys" "x \<in> set xs"
  shows "f y \<le> f x"
proof -
  have "sorted (map f (y # ys))" using sorted_sort_key [of f xs] assms(1) by simp
  moreover have "x \<in> set (y # ys)" using assms by (metis set_sort)
  ultimately show ?thesis by auto
qed

text \<open>\<open>max(xs, key=f)\<close>: the first element with the largest key; raises on no element.\<close>

fun py_max_key :: "('a \<Rightarrow> 'b::linorder) \<Rightarrow> 'a list \<Rightarrow> 'a option" where
  "py_max_key f [] = None"
| "py_max_key f (x # xs) =
     Some (foldl (\<lambda>best y. if f best < f y then y else best) x xs)"

lemma foldl_best:
  "foldl (\<lambda>best y. if f best < f y then y else best) x xs \<in> insert x (set xs) \<and>
   (\<forall>y \<in> insert x (set xs). f y \<le> f (foldl (\<lambda>best y. if f best < f y then y else best) x xs))"
  for f :: "'a \<Rightarrow> 'b::linorder"
proof (induction xs arbitrary: x)
  case Nil
  then show ?case by simp
next
  case (Cons z zs)
  show ?case
  proof (cases "f x < f z")
    case True
    with Cons [of z] show ?thesis by (auto intro: order_trans less_imp_le)
  next
    case False
    with Cons [of x] show ?thesis by (auto intro: order_trans)
  qed
qed

lemma py_max_key_Some:
  assumes "py_max_key f xs = Some m"
  shows "m \<in> set xs" and "\<forall>x \<in> set xs. f x \<le> f m"
  using assms foldl_best [of f] by (cases xs; auto)+

lemma py_max_key_None [simp]: "py_max_key f xs = None \<longleftrightarrow> xs = []"
  by (cases xs) auto

section \<open>Decimal text\<close>

text \<open>\<open>str(n)\<close> of an integer and \<open>int(s)\<close> of a text: surrounding blanks, one sign,
  and digits that may be grouped by single underscores.\<close>

definition digit_char :: "nat \<Rightarrow> char" where
  "digit_char d = char_of (48 + d)"

fun nat_digits :: "nat \<Rightarrow> nat list" where
  "nat_digits n = (if n < 10 then [n] else nat_digits (n div 10) @ [n mod 10])"

declare nat_digits.simps [simp del]

definition nat_str :: "nat \<Rightarrow> string" where
  "nat_str n = map digit_char (nat_digits n)"

definition int_str :: "int \<Rightarrow> string" where
  "int_str i = (if i < 0 then CHR ''-'' # nat_str (nat (- i)) else nat_str (nat i))"

definition is_blank :: "char \<Rightarrow> bool" where
  "is_blank c = (c \<in> {CHR '' '', CHR 0x09, CHR 0x0A, CHR 0x0B, CHR 0x0C, CHR 0x0D})"

definition py_strip :: "string \<Rightarrow> string" where
  "py_strip s = rev (dropWhile is_blank (rev (dropWhile is_blank s)))"

definition is_digit :: "char \<Rightarrow> bool" where
  "is_digit c = (48 \<le> (of_char c :: nat) \<and> (of_char c :: nat) \<le> 57)"

text \<open>\<open>s.split(c)\<close>.\<close>

fun py_split :: "char \<Rightarrow> string \<Rightarrow> string list" where
  "py_split c [] = [[]]"
| "py_split c (x # xs) =
     (if x = c then [] # py_split c xs
      else (case py_split c xs of [] \<Rightarrow> [[x]] | y # ys \<Rightarrow> (x # y) # ys))"

definition digits_val :: "string \<Rightarrow> nat" where
  "digits_val s = foldl (\<lambda>n c. 10 * n + (of_char c - 48)) 0 s"

definition parse_digits :: "string \<Rightarrow> nat option" where
  "parse_digits s =
     (let parts = py_split (CHR ''_'') s
      in if list_all (\<lambda>p. p \<noteq> [] \<and> list_all is_digit p) parts
         then Some (digits_val (concat parts)) else None)"

definition parse_int :: "string \<Rightarrow> int option" where
  "parse_int s =
     (case py_strip s of
        [] \<Rightarrow> None
      | c # cs \<Rightarrow>
          if c = CHR ''-'' then map_option (\<lambda>n. - int n) (parse_digits cs)
          else if c = CHR ''+'' then map_option int (parse_digits cs)
          else map_option int (parse_digits (c # cs)))"

definition starts_with :: "string \<Rightarrow> string \<Rightarrow> bool" where
  "starts_with s p \<longleftrightarrow> take (length p) s = p"

definition ends_with :: "string \<Rightarrow> string \<Rightarrow> bool" where
  "ends_with s p \<longleftrightarrow> length p \<le> length s \<and> drop (length s - length p) s = p"

definition lower_char :: "char \<Rightarrow> char" where
  "lower_char c = (if 65 \<le> (of_char c :: nat) \<and> (of_char c :: nat) \<le> 90
     then char_of ((of_char c :: nat) + 32) else c)"

definition py_lower :: "string \<Rightarrow> string" where
  "py_lower s = map lower_char s"

lemma nat_digits_less: "d \<in> set (nat_digits n) \<Longrightarrow> d < 10"
proof (induction n rule: nat_digits.induct)
  case (1 n)
  then show ?case
    by (subst (asm) nat_digits.simps [of n]) (auto split: if_splits)
qed

lemma nat_digits_not_Nil [simp]: "nat_digits n \<noteq> []"
  by (subst nat_digits.simps) simp

lemma nat_str_not_Nil [simp]: "nat_str n \<noteq> []"
  by (simp add: nat_str_def)

lemma of_char_digit: "d < 10 \<Longrightarrow> (of_char (digit_char d) :: nat) = 48 + d"
  by (simp add: digit_char_def)

lemma is_digit_digit_char [simp]: "d < 10 \<Longrightarrow> is_digit (digit_char d)"
  by (simp add: is_digit_def of_char_digit)

lemma nat_str_digits: "list_all is_digit (nat_str n)"
  using nat_digits_less by (auto simp: nat_str_def list_all_iff)

lemma digits_val_nat_str [simp]: "digits_val (nat_str n) = n"
proof (induction n rule: nat_digits.induct)
  case (1 n)
  show ?case
  proof (cases "n < 10")
    case True
    then show ?thesis
      by (subst nat_str_def, subst nat_digits.simps) (simp add: digits_val_def of_char_digit)
  next
    case False
    then have "digits_val (nat_str (n div 10)) = n div 10" using 1 by simp
    with False show ?thesis
      by (subst nat_str_def, subst nat_digits.simps)
        (simp add: digits_val_def of_char_digit nat_str_def)
  qed
qed

lemma py_split_no_sep: "c \<notin> set s \<Longrightarrow> py_split c s = [s]"
  by (induction s) auto

lemma digit_not_special:
  assumes "is_digit c"
  shows "c \<noteq> CHR ''_''" "c \<noteq> CHR ''-''" "c \<noteq> CHR ''+''" "\<not> is_blank c" "c \<noteq> CHR ''.''"
  using assms by (auto simp: is_digit_def is_blank_def)

lemma parse_digits_nat_str [simp]: "parse_digits (nat_str n) = Some n"
proof -
  have "CHR ''_'' \<notin> set (nat_str n)"
    using nat_str_digits [of n] digit_not_special(1) by (auto simp: list_all_iff)
  then show ?thesis
    by (simp add: parse_digits_def py_split_no_sep nat_str_digits)
qed

lemma py_strip_solid: "\<forall>c\<in>set s. \<not> is_blank c \<Longrightarrow> py_strip s = s"
proof -
  assume a: "\<forall>c\<in>set s. \<not> is_blank c"
  have "dropWhile is_blank s = s" using a by (cases s) auto
  moreover have "dropWhile is_blank (rev s) = rev s" using a by (cases "rev s") auto
  ultimately show ?thesis by (simp add: py_strip_def)
qed

lemma int_str_solid: "\<forall>c\<in>set (int_str i). \<not> is_blank c"
proof -
  have "\<forall>c\<in>set (nat_str n). \<not> is_blank c" for n
    using nat_str_digits [of n] digit_not_special(4) by (auto simp: list_all_iff)
  then show ?thesis by (auto simp: int_str_def is_blank_def)
qed

theorem parse_int_int_str [simp, py_text]: "parse_int (int_str i) = Some i"
proof -
  obtain c cs where cs: "nat_str (nat i) = c # cs" by (cases "nat_str (nat i)") auto
  then have "is_digit c" using nat_str_digits [of "nat i"] by simp
  then have "c \<noteq> CHR ''-''" "c \<noteq> CHR ''+''" by (auto dest: digit_not_special)
  then have pos: "parse_int (int_str i) = Some i" if "0 \<le> i"
    using that cs parse_digits_nat_str [of "nat i"]
    by (simp add: parse_int_def py_strip_solid [OF int_str_solid]) (simp add: int_str_def)
  have neg: "parse_int (int_str i) = Some i" if "i < 0"
    using that by (simp add: parse_int_def py_strip_solid [OF int_str_solid]) (simp add: int_str_def)
  show ?thesis using pos neg by (cases "i < 0") auto
qed

lemma int_str_inject [simp]: "int_str i = int_str j \<longleftrightarrow> i = j"
  by (metis option.inject parse_int_int_str)

lemma nat_str_inject [simp]: "nat_str m = nat_str n \<longleftrightarrow> m = n"
  by (metis digits_val_nat_str)

lemma int_str_no_dot: "CHR ''.'' \<notin> set (int_str i)"
proof -
  have "CHR ''.'' \<notin> set (nat_str n)" for n
    using nat_str_digits [of n] digit_not_special(5) by (auto simp: list_all_iff)
  then show ?thesis by (simp add: int_str_def)
qed

lemma append_sep_inject:
  "c \<notin> set a \<Longrightarrow> c \<notin> set a' \<Longrightarrow> a @ c # b = a' @ c # b' \<longleftrightarrow> a = a' \<and> b = b'"
proof (induction a arbitrary: a')
  case Nil
  then show ?case by (cases a') auto
next
  case (Cons x a)
  then show ?case by (cases a') auto
qed

text \<open>A greatest element with a default, as \<open>max(xs, default=d)\<close>.\<close>

definition max_default :: "int list \<Rightarrow> int \<Rightarrow> int" where
  "max_default xs d = (case xs of [] \<Rightarrow> d | y # ys \<Rightarrow> foldl max y ys)"

lemma foldl_max_ge: "x \<le> foldl max x xs \<and> (\<forall>y\<in>set xs. y \<le> foldl max x xs)"
  for x :: "'a::linorder"
proof (induction xs arbitrary: x)
  case Nil
  then show ?case by simp
next
  case (Cons z zs)
  from Cons [of "max x z"] show ?case by auto
qed

lemma foldl_max_in: "foldl max x xs \<in> insert x (set xs)"
  for x :: "'a::linorder"
proof (induction xs arbitrary: x)
  case Nil
  then show ?case by simp
next
  case (Cons z zs)
  from Cons [of "max x z"] show ?case by (auto simp: max_def split: if_splits)
qed

lemma max_default_in: "xs \<noteq> [] \<Longrightarrow> max_default xs d \<in> set xs"
  using foldl_max_in [of "hd xs" "tl xs"] by (cases xs) (auto simp: max_default_def)

lemma max_default_ge: "x \<in> set xs \<Longrightarrow> x \<le> max_default xs d"
  using foldl_max_ge [of "hd xs" "tl xs"] by (cases xs) (auto simp: max_default_def)

lemma max_default_lower: "(\<forall>x\<in>set xs. d \<le> x) \<Longrightarrow> d \<le> max_default xs d"
  using max_default_in [of xs d] by (cases "xs = []") (auto simp: max_default_def)

section \<open>Dictionaries as association lists\<close>

text \<open>\<open>d[k] = v\<close> keeps the position of an existing key and appends a new one, which is
  \<^const>\<open>AList.update\<close>; \<open>d.pop(k, None)\<close> is \<^const>\<open>AList.delete\<close>.\<close>

lemma update_new: "k \<notin> fst ` set d \<Longrightarrow> AList.update k v d = d @ [(k, v)]"
  by (induction d) auto

lemma map_fst_update_new: "k \<notin> fst ` set d \<Longrightarrow> map fst (AList.update k v d) = map fst d @ [k]"
  by (induction d) auto

lemma distinct_update_keys: "distinct (map fst d) \<Longrightarrow> distinct (map fst (AList.update k v d))"
  by (rule AList.distinct_update)

lemma map_of_update: "map_of (AList.update k v d) = (map_of d)(k \<mapsto> v)"
  by (rule AList.update_conv')

lemma set_update_new: "k \<notin> fst ` set d \<Longrightarrow> set (AList.update k v d) = insert (k, v) (set d)"
  by (induction d) auto

lemma update_entries_subset: "set (AList.update k v d) \<subseteq> insert (k, v) (set d)"
  by (induction d) auto

lemma update_values_subset: "snd ` set (AList.update k v d) \<subseteq> insert v (snd ` set d)"
  by (induction d) auto

lemma distinct_update_values:
  "v \<notin> snd ` set d \<Longrightarrow> distinct (map snd d) \<Longrightarrow> distinct (map snd (AList.update k v d))"
proof (induction d)
  case Nil
  then show ?case by simp
next
  case (Cons kv d)
  then show ?case using update_values_subset [of k v d] by (cases kv) auto
qed

definition dict_get :: "('k \<times> 'v) list \<Rightarrow> 'k \<Rightarrow> 'v \<Rightarrow> 'v" where
  "dict_get d k dflt = (case map_of d k of None \<Rightarrow> dflt | Some v \<Rightarrow> v)"

lemma dict_get_update [simp]:
  "dict_get (AList.update k v d) k' dflt = (if k = k' then v else dict_get d k' dflt)"
  by (simp add: dict_get_def map_of_update)

lemma dict_get_delete [simp]:
  "dict_get (AList.delete k d) k' dflt = (if k = k' then dflt else dict_get d k' dflt)"
  by (simp add: dict_get_def AList.delete_conv')

lemma dict_get_Nil [simp]: "dict_get [] k dflt = dflt"
  by (simp add: dict_get_def)

section \<open>Invariants of transition systems\<close>

text \<open>A run of events is a path of the step relation they make.\<close>

lemma ofold_reachable: "ofold f x es = Some y \<Longrightarrow> (\<lambda>x y. \<exists>e. f x e = Some y)\<^sup>*\<^sup>* x y"
proof (induction es arbitrary: x)
  case (Cons e es)
  then obtain z where z: "f x e = Some z" "ofold f z es = Some y" by (auto simp: bind_eq_Some_conv)
  then have "\<exists>e. f x e = Some z" by blast
  then show ?case using Cons.IH [OF z(2)] by (rule converse_rtranclp_into_rtranclp)
qed simp

text \<open>The contract the state machines of the development share: an invariant that holds
  initially and that every step keeps. Clients get it for every reachable state.\<close>

locale invariant_system =
  fixes init :: "'s \<Rightarrow> bool"
    and step :: "'s \<Rightarrow> 's \<Rightarrow> bool"
    and inv :: "'s \<Rightarrow> bool"
  assumes inv_init: "init s \<Longrightarrow> inv s"
    and inv_step: "inv s \<Longrightarrow> step s t \<Longrightarrow> inv t"
begin

lemma inv_steps: "step\<^sup>*\<^sup>* s t \<Longrightarrow> inv s \<Longrightarrow> inv t"
  by (induction rule: rtranclp_induct) (auto intro: inv_step)

lemma reachable_inv: "init s \<Longrightarrow> step\<^sup>*\<^sup>* s t \<Longrightarrow> inv t"
  using inv_init inv_steps by blast

end

end
