(* ===== verification/Py_Json.thy ===== *)
theory Py_Json
  imports Prelude
begin

text \<open>
  The dynamic values of the canvas topology. A project's topology, its nodes and their
  \<open>data\<close> are JSON documents (JSONB columns of \<open>src/src/backend/app/models/project.py\<close>)
  that the services read with \<open>d.get(k)\<close>, \<open>d.get(k, default)\<close> and \<open>d[k]\<close>.
  \<open>json\<close> has one constructor per Python type such a document decodes to; an object is an
  association list in insertion order. Every access that raises in Python (AttributeError,
  KeyError, TypeError) is \<^term>\<open>None\<close> here.
\<close>

datatype json =
    JNull
  | JBool bool
  | JInt int
  | JFloat rat
  | JStr string
  | JList "json list"
  | JObj "(string \<times> json) list"

text \<open>Truth value testing, and the \<open>or\<close> operator that returns an operand.\<close>

fun truthy :: "json \<Rightarrow> bool" where
  "truthy JNull = False"
| "truthy (JBool b) = b"
| "truthy (JInt i) = (i \<noteq> 0)"
| "truthy (JFloat r) = (r \<noteq> 0)"
| "truthy (JStr s) = (s \<noteq> [])"
| "truthy (JList xs) = (xs \<noteq> [])"
| "truthy (JObj kvs) = (kvs \<noteq> [])"

definition py_or :: "json \<Rightarrow> json \<Rightarrow> json" where
  "py_or a b = (if truthy a then a else b)"

text \<open>\<open>d.get(k, v)\<close>, \<open>d.get(k)\<close> and \<open>d[k]\<close>.\<close>

fun get_or :: "json \<Rightarrow> string \<Rightarrow> json \<Rightarrow> json option" where
  "get_or (JObj kvs) k v = Some (case map_of kvs k of None \<Rightarrow> v | Some x \<Rightarrow> x)"
| "get_or _ k v = None"

definition get :: "json \<Rightarrow> string \<Rightarrow> json option" where
  "get d k = get_or d k JNull"

fun index :: "json \<Rightarrow> string \<Rightarrow> json option" where
  "index (JObj kvs) k = map_of kvs k"
| "index _ k = None"

text \<open>\<open>d[k] = v\<close>.\<close>

fun set_item :: "json \<Rightarrow> string \<Rightarrow> json \<Rightarrow> json option" where
  "set_item (JObj kvs) k v = Some (JObj (AList.update k v kvs))"
| "set_item _ k v = None"

text \<open>The values a \<open>for\<close> loop visits: the items of a list, the keys of an object, the
  characters of a text. Numbers and null are not iterable.\<close>

fun iter :: "json \<Rightarrow> json list option" where
  "iter (JList xs) = Some xs"
| "iter (JObj kvs) = Some (map (\<lambda>kv. JStr (fst kv)) kvs)"
| "iter (JStr s) = Some (map (\<lambda>c. JStr [c]) s)"
| "iter _ = None"

fun py_values :: "json \<Rightarrow> json list option" where
  "py_values (JObj kvs) = Some (map snd kvs)"
| "py_values _ = None"

definition py_len :: "json \<Rightarrow> int option" where
  "py_len j = map_option (\<lambda>xs. int (length xs)) (iter j)"

text \<open>Arithmetic on a value: ints, floats and bools are numbers, anything else raises.\<close>

fun num_of :: "json \<Rightarrow> rat option" where
  "num_of (JInt i) = Some (of_int i)"
| "num_of (JFloat r) = Some r"
| "num_of (JBool b) = Some (if b then 1 else 0)"
| "num_of _ = None"

text \<open>\<open>int(v)\<close>: numbers truncate, texts parse, anything else raises.\<close>

fun int_of_json :: "json \<Rightarrow> int option" where
  "int_of_json (JInt i) = Some i"
| "int_of_json (JFloat r) = Some (py_int r)"
| "int_of_json (JBool b) = Some (if b then 1 else 0)"
| "int_of_json (JStr s) = parse_int s"
| "int_of_json _ = None"

text \<open>\<open>isinstance(v, int)\<close> (bools are ints in Python) and \<open>isinstance(v, str)\<close>.\<close>

fun as_int :: "json \<Rightarrow> int option" where
  "as_int (JInt i) = Some i"
| "as_int (JBool b) = Some (if b then 1 else 0)"
| "as_int _ = None"

fun is_str :: "json \<Rightarrow> bool" where
  "is_str (JStr _) = True"
| "is_str _ = False"

fun as_str :: "json \<Rightarrow> string option" where
  "as_str (JStr s) = Some s"
| "as_str _ = None"

text \<open>\<open>str(v) == s\<close> for a text \<open>s\<close> without a point or a bracket: the text form of a
  float has a point (or an exponent), that of a list or object a bracket.\<close>

fun str_is :: "json \<Rightarrow> string \<Rightarrow> bool" where
  "str_is (JStr t) s = (t = s)"
| "str_is (JInt i) s = (int_str i = s)"
| "str_is (JBool b) s = ((if b then ''True'' else ''False'') = s)"
| "str_is JNull s = (''None'' = s)"
| "str_is _ s = False"

text \<open>\<open>str(v)\<close> of the values the sources turn into text (ids, ports, addresses); the text
  form of a float, a list or an object is not modelled.\<close>

fun py_str :: "json \<Rightarrow> string option" where
  "py_str (JStr t) = Some t"
| "py_str (JInt i) = Some (int_str i)"
| "py_str (JBool b) = Some (if b then ''True'' else ''False'')"
| "py_str JNull = Some ''None''"
| "py_str _ = None"

text \<open>A value usable as a dictionary key: lists and objects are unhashable.\<close>

fun hkey :: "json \<Rightarrow> json option" where
  "hkey (JList xs) = None"
| "hkey (JObj kvs) = None"
| "hkey j = Some j"

text \<open>Two accesses nearly every topology function starts with: \<open>n.get("data", {})\<close> and
  \<open>n.get("type")\<close> compared with a node type.\<close>

definition node_data :: "json \<Rightarrow> json option" where
  "node_data n = get_or n ''data'' (JObj [])"

definition has_type :: "string \<Rightarrow> json \<Rightarrow> bool option" where
  "has_type t n = map_option (\<lambda>v. v = JStr t) (get n ''type'')"

definition topo_nodes :: "json \<Rightarrow> json list option" where
  "topo_nodes topology = do { ns \<leftarrow> get_or topology ''nodes'' (JList []); iter ns }"

section \<open>Laws of the accesses\<close>

fun is_obj :: "json \<Rightarrow> bool" where
  "is_obj (JObj kvs) = True"
| "is_obj _ = False"

lemma get_or_eq_None [simp]: "get_or j k v = None \<longleftrightarrow> \<not> is_obj j"
  by (cases j) auto

lemma get_eq_None [simp]: "get j k = None \<longleftrightarrow> \<not> is_obj j"
  by (simp add: get_def)

lemma get_JObj [simp]: "get (JObj kvs) k = Some (case map_of kvs k of None \<Rightarrow> JNull | Some x \<Rightarrow> x)"
  by (simp add: get_def)

lemma get_Some_iff:
  "get d k = Some v \<longleftrightarrow> (\<exists>kvs. d = JObj kvs \<and> v = (case map_of kvs k of None \<Rightarrow> JNull | Some x \<Rightarrow> x))"
  by (cases d) (auto simp: get_def)

lemma index_of_truthy_get: "get d k = Some v \<Longrightarrow> truthy v \<Longrightarrow> index d k = Some v"
  by (auto simp: get_Some_iff split: option.splits)

lemma index_get: "index d k = Some v \<Longrightarrow> get d k = Some v"
  by (cases d) auto

lemma get_or_set_item:
  "set_item j k v = Some j' \<Longrightarrow> get_or j' k' d = (if k' = k then Some v else get_or j k' d)"
  by (cases j) (auto simp: map_of_update)

lemma index_set_item:
  "set_item j k v = Some j' \<Longrightarrow> index j' k' = (if k' = k then Some v else index j k')"
  by (cases j) (auto simp: map_of_update)

lemma set_item_again: "set_item j k v = Some j' \<Longrightarrow> set_item j' k v = Some j'"
  by (cases j) (auto simp: update_last)

lemma set_item_is_obj: "set_item j k v \<noteq> None \<longleftrightarrow> is_obj j"
  by (cases j) auto

lemma str_is_int [simp]: "str_is (JStr (int_str i)) (int_str j) \<longleftrightarrow> i = j"
  by simp

lemma hkey_SomeD: "hkey j = Some k \<Longrightarrow> k = j"
  by (cases j) auto

lemma omap_hkey: "omap hkey js = Some ks \<Longrightarrow> ks = js"
  by (induction js arbitrary: ks) (auto simp: bind_eq_Some_conv dest: hkey_SomeD)

end
