(* ===== verification/Models.thy ===== *)
theory Models
  imports Py_Json
begin

text \<open>
  The rows of the database tables the modelled services read and write
  (\<open>src/src/backend/app/models/\<close>): one record per table with the columns those services
  use, and the database as the record of its tables. A table is the list of its rows;
  a query is a filter over it, and a nullable column is an option, so that a comparison
  with a null column selects nothing, as in SQL. Times are integers (microseconds, UTC).
\<close>

type_synonym time = int

record host =
  h_id :: string
  h_provider_id :: "string option"
  h_state :: string
  h_host_type :: string
  h_total_vcpus :: int
  h_total_ram_mb :: int
  h_used_vcpus :: rat
  h_used_ram_mb :: rat
  h_ip_address :: "string option"
  h_private_ip :: "string option"
  h_agent_status :: string
  h_max_eips :: int
  h_uplink_mtu :: "int option"
  h_storage_pool_id :: "string option"
  h_accepting_work :: bool

record project =
  p_id :: string
  p_name :: string
  p_owner_id :: string
  p_provider_id :: "string option"
  p_host_id :: "string option"
  p_mesh_network_host_id :: "string option"
  p_host_assignments :: "(json \<times> string) list option"
  p_state :: string
  p_auto_stop_started_at :: "time option"
  p_auto_stop_expires_at :: "time option"
  p_auto_stop_warned :: bool
  p_auto_delete_warned :: bool
  p_auto_stopped :: bool
  p_lifetime_expires_at :: "time option"
  p_topology :: json
  p_vni_map :: json
  p_deploy_error :: "string option"
  p_deploy_started_at :: "time option"
  p_updated_at :: time
  p_deployed_topology :: json
  p_dns_provider_id :: "string option"
  p_domain :: "string option"

record elastic_ip =
  e_id :: string
  e_provider_id :: string
  e_project_id :: "string option"
  e_canvas_eip_id :: string
  e_allocation_id :: string
  e_public_ip :: string
  e_private_ip :: "string option"
  e_host_id :: "string option"
  e_association_id :: "string option"
  e_state :: string
  e_port_map :: "(string \<times> int) list option"

record provider =
  v_id :: string
  v_type :: string
  v_security_group_id :: "string option"
  v_max_eips :: "int option"

record pattern_location =
  l_pattern_disk_id :: string
  l_provider_id :: "string option"
  l_location_type :: string
  l_state :: string

record storage_pool =
  sp_id :: string
  sp_status :: string

record database =
  d_hosts :: "host list"
  d_projects :: "project list"
  d_eips :: "elastic_ip list"
  d_providers :: "provider list"
  d_locations :: "pattern_location list"
  d_pools :: "storage_pool list"

text \<open>\<open>db.query(T).filter_by(id=i).first()\<close>.\<close>

definition host_by_id :: "database \<Rightarrow> string \<Rightarrow> host option" where
  "host_by_id db i = find (\<lambda>h. h_id h = i) (d_hosts db)"

definition provider_by_id :: "database \<Rightarrow> string \<Rightarrow> provider option" where
  "provider_by_id db i = find (\<lambda>v. v_id v = i) (d_providers db)"

definition project_by_id :: "database \<Rightarrow> string \<Rightarrow> project option" where
  "project_by_id db i = find (\<lambda>p. p_id p = i) (d_projects db)"

text \<open>Committing a changed row: the row of that id is replaced.\<close>

definition store_host :: "host \<Rightarrow> database \<Rightarrow> database" where
  "store_host h db = db\<lparr>d_hosts := map (\<lambda>x. if h_id x = h_id h then h else x) (d_hosts db)\<rparr>"

definition store_project :: "project \<Rightarrow> database \<Rightarrow> database" where
  "store_project p db =
     db\<lparr>d_projects := map (\<lambda>x. if p_id x = p_id p then p else x) (d_projects db)\<rparr>"

definition store_eip :: "elastic_ip \<Rightarrow> database \<Rightarrow> database" where
  "store_eip e db = db\<lparr>d_eips := map (\<lambda>x. if e_id x = e_id e then e else x) (d_eips db)\<rparr>"

text \<open>\<open>if x:\<close> on an optional text: null and the empty text are false.\<close>

fun opt_truthy :: "string option \<Rightarrow> bool" where
  "opt_truthy None = False"
| "opt_truthy (Some s) = (s \<noteq> [])"

lemma find_SomeD: "find P xs = Some x \<Longrightarrow> x \<in> set xs \<and> P x"
  by (auto simp: find_Some_iff)

lemma host_by_idD: "host_by_id db i = Some h \<Longrightarrow> h \<in> set (d_hosts db) \<and> h_id h = i"
  unfolding host_by_id_def by (rule find_SomeD)

lemma project_by_idD: "project_by_id db i = Some p \<Longrightarrow> p \<in> set (d_projects db) \<and> p_id p = i"
  unfolding project_by_id_def by (rule find_SomeD)

lemma provider_by_idD: "provider_by_id db i = Some v \<Longrightarrow> v \<in> set (d_providers db) \<and> v_id v = i"
  unfolding provider_by_id_def by (rule find_SomeD)

lemma store_frames [simp]:
  "d_projects (store_host h db) = d_projects db"
  "d_eips (store_host h db) = d_eips db"
  "d_providers (store_host h db) = d_providers db"
  "d_locations (store_host h db) = d_locations db"
  "d_pools (store_host h db) = d_pools db"
  "d_hosts (store_project p db) = d_hosts db"
  "d_eips (store_project p db) = d_eips db"
  "d_providers (store_project p db) = d_providers db"
  "d_locations (store_project p db) = d_locations db"
  "d_pools (store_project p db) = d_pools db"
  "d_hosts (store_eip e db) = d_hosts db"
  "d_projects (store_eip e db) = d_projects db"
  "d_providers (store_eip e db) = d_providers db"
  "d_locations (store_eip e db) = d_locations db"
  "d_pools (store_eip e db) = d_pools db"
  by (simp_all add: store_host_def store_project_def store_eip_def)

section \<open>Sample rows\<close>

text \<open>Rows for concrete instances of the theorems.\<close>

definition empty_db :: database where
  "empty_db = \<lparr>d_hosts = [], d_projects = [], d_eips = [], d_providers = [], d_locations = [], d_pools = []\<rparr>"

definition sample_host :: "string \<Rightarrow> host" where
  "sample_host i = \<lparr>h_id = i, h_provider_id = Some ''prov'', h_state = ''active'', h_host_type = ''shared'',
     h_total_vcpus = 8, h_total_ram_mb = 16384, h_used_vcpus = 0, h_used_ram_mb = 0,
     h_ip_address = Some ''192.0.2.1'', h_private_ip = None, h_agent_status = ''connected'',
     h_max_eips = 5, h_uplink_mtu = Some 9000, h_storage_pool_id = None, h_accepting_work = True\<rparr>"

definition sample_eip :: "string \<Rightarrow> elastic_ip" where
  "sample_eip i = \<lparr>e_id = i, e_provider_id = ''prov'', e_project_id = Some ''pr'', e_canvas_eip_id = ''c'',
     e_allocation_id = ''alloc-'' @ i, e_public_ip = ''198.51.100.7'', e_private_ip = Some ''10.1.2.3'',
     e_host_id = Some ''h'', e_association_id = Some ''assoc-'', e_state = ''associated'',
     e_port_map = None\<rparr>"

definition sample_provider :: "string \<Rightarrow> provider" where
  "sample_provider ty = \<lparr>v_id = ''prov'', v_type = ty, v_security_group_id = Some ''sg'', v_max_eips = None\<rparr>"

definition sample_project :: "string \<Rightarrow> json \<Rightarrow> project" where
  "sample_project i topo = \<lparr>p_id = i, p_name = ''demo'', p_owner_id = ''u'', p_provider_id = None,
     p_host_id = None, p_mesh_network_host_id = None, p_host_assignments = None, p_state = ''draft'', p_auto_stop_started_at = None, p_auto_stop_expires_at = None,
     p_auto_stop_warned = False, p_auto_delete_warned = False, p_auto_stopped = False,
     p_lifetime_expires_at = None, p_topology = topo, p_vni_map = JNull, p_deploy_error = None,
     p_deploy_started_at = None, p_updated_at = 0, p_deployed_topology = JNull,
     p_dns_provider_id = None, p_domain = None\<rparr>"

end
