(* ===== verification/Eip_Service.thy ===== *)
theory Eip_Service
  imports Models
begin

text \<open>
  \<open>src/src/backend/app/services/eip_service.py\<close>: the life cycle of elastic IPs (allocate,
  associate, disassociate, release, detach and reattach around a power cycle, migrate), host
  usage, and the transit ports of route-based providers. The cloud (provider drivers and the
  EC2 client) is a parameter: which calls succeed and what they return. The state is the
  database with the trace of cloud calls made; an operation returns the new state and the
  exception that left it, if one did. A commit writes the row at once, so an exception keeps
  what was committed before it.
\<close>

section \<open>The cloud\<close>

datatype namespace = NoNamespace | CredentialsNamespace | ProjectNamespace string

datatype cloud_call =
    DriverAllocate string
  | DriverAssociate string string
  | DisassociateAddress string
  | UnassignPrivateIp string string
  | AssociateAddress string string string
  | DriverRelease string namespace

text \<open>\<open>cl_allocate\<close> and \<open>cl_associate\<close> are the driver's answers (allocation id and public
  address; private address and association id), \<open>cl_primary_eni\<close> the interface of device
  index 0 of a host's instance (outer \<^term>\<open>None\<close>: the description call raised),
  \<open>cl_ok\<close> whether a call without an answer succeeds, \<open>cl_reassociate\<close> the association
  id that associating an address to an interface returns.\<close>

record cloud =
  cl_allocate :: "string \<Rightarrow> (string \<times> string) option"
  cl_associate :: "string \<Rightarrow> string \<Rightarrow> (string option \<times> string option) option"
  cl_primary_eni :: "string \<Rightarrow> string option option"
  cl_ok :: "cloud_call \<Rightarrow> bool"
  cl_reassociate :: "string \<Rightarrow> string \<Rightarrow> string \<Rightarrow> string option"

datatype eip_error = ProviderNotFound | CloudError | PortsExhausted | BadForward

type_synonym eip_state = "database \<times> cloud_call list"

abbreviation committed :: "elastic_ip \<Rightarrow> eip_state \<Rightarrow> cloud_call list \<Rightarrow> eip_state" where
  "committed e st calls \<equiv> (store_eip e (fst st), snd st @ calls)"

section \<open>Operations\<close>

definition allocate_eip ::
    "cloud \<Rightarrow> provider \<Rightarrow> string \<Rightarrow> string \<Rightarrow> string \<Rightarrow> eip_state \<Rightarrow> eip_state \<times> eip_error option" where
  "allocate_eip cl provider project_id canvas_eip_id eip_id st =
     (case cl_allocate cl eip_id of
        None \<Rightarrow> (st, Some CloudError)
      | Some (alloc, pub) \<Rightarrow>
          let eip = \<lparr>e_id = eip_id, e_provider_id = v_id provider, e_project_id = Some project_id,
                e_canvas_eip_id = canvas_eip_id, e_allocation_id = alloc, e_public_ip = pub,
                e_private_ip = None, e_host_id = None, e_association_id = None,
                e_state = ''allocated'', e_port_map = None\<rparr>
          in (((fst st)\<lparr>d_eips := d_eips (fst st) @ [eip]\<rparr>, snd st @ [DriverAllocate eip_id]), None))"

definition associate_eip ::
    "cloud \<Rightarrow> elastic_ip \<Rightarrow> host \<Rightarrow> eip_state \<Rightarrow> eip_state \<times> eip_error option" where
  "associate_eip cl eip host st =
     (case provider_by_id (fst st) (e_provider_id eip) of
        None \<Rightarrow> (st, Some ProviderNotFound)
      | Some provider \<Rightarrow>
     (case cl_associate cl (e_allocation_id eip) (h_id host) of
        None \<Rightarrow> (st, Some CloudError)
      | Some (priv, assoc) \<Rightarrow>
          (committed (eip\<lparr>e_private_ip := priv, e_association_id := assoc,
               e_host_id := Some (h_id host), e_state := ''associated''\<rparr>) st
             [DriverAssociate (e_allocation_id eip) (h_id host)], None)))"

text \<open>The EC2 part of a disassociation: the calls it makes, in order, up to the first that
  raises, and whether all succeeded.\<close>

definition ec2_disassociate :: "cloud \<Rightarrow> elastic_ip \<Rightarrow> host \<Rightarrow> cloud_call list \<times> bool" where
  "ec2_disassociate cl eip host =
     (case e_association_id eip of
        None \<Rightarrow> ([], True)
      | Some aid \<Rightarrow>
          let c1 = DisassociateAddress aid
          in if \<not> cl_ok cl c1 then ([c1], False)
             else (case e_private_ip eip of
                     None \<Rightarrow> ([c1], True)
                   | Some priv \<Rightarrow>
                       if priv = [] then ([c1], True)
                       else (case cl_primary_eni cl (h_id host) of
                               None \<Rightarrow> ([c1], False)
                             | Some None \<Rightarrow> ([c1], True)
                             | Some (Some eni) \<Rightarrow>
                                 let c2 = UnassignPrivateIp eni priv in ([c1, c2], cl_ok cl c2))))"

definition disassociate_eip ::
    "cloud \<Rightarrow> elastic_ip \<Rightarrow> host \<Rightarrow> eip_state \<Rightarrow> eip_state \<times> eip_error option" where
  "disassociate_eip cl eip host st =
     (if e_state eip \<noteq> ''associated'' then (st, None)
      else (case provider_by_id (fst st) (e_provider_id eip) of
        None \<Rightarrow> (st, Some ProviderNotFound)
      | Some provider \<Rightarrow>
          let (calls, ok) = (if v_type provider = ''ec2'' \<and> opt_truthy (e_association_id eip)
                             then ec2_disassociate cl eip host else ([], True))
          in if \<not> ok then ((fst st, snd st @ calls), Some CloudError)
             else (committed (eip\<lparr>e_private_ip := None, e_host_id := None, e_association_id := None,
                       e_port_map := None, e_state := ''allocated''\<rparr>) st calls, None)))"

definition release_namespace :: "provider \<Rightarrow> elastic_ip \<Rightarrow> namespace" where
  "release_namespace provider eip =
     (if v_type provider = ''ocpvirt'' then CredentialsNamespace
      else if v_type provider = ''kubevirt'' \<and> opt_truthy (e_project_id eip)
      then ProjectNamespace (the (e_project_id eip)) else NoNamespace)"

definition release_eip ::
    "cloud \<Rightarrow> elastic_ip \<Rightarrow> eip_state \<Rightarrow> eip_state \<times> eip_error option" where
  "release_eip cl eip st =
     (let (st1, err) =
        (if e_state eip = ''associated'' \<and> opt_truthy (e_host_id eip)
         then (case host_by_id (fst st) (the (e_host_id eip)) of
                 None \<Rightarrow> (st, None)
               | Some host \<Rightarrow> disassociate_eip cl eip host st)
         else (st, None))
      in if err \<noteq> None then (st1, err)
         else (case provider_by_id (fst st1) (e_provider_id eip) of
                 None \<Rightarrow> (st1, Some ProviderNotFound)
               | Some provider \<Rightarrow>
                   let call = DriverRelease (e_allocation_id eip) (release_namespace provider eip)
                   in if \<not> cl_ok cl call then ((fst st1, snd st1 @ [call]), Some CloudError)
                      else (((fst st1)\<lparr>d_eips := filter (\<lambda>x. e_id x \<noteq> e_id eip) (d_eips (fst st1))\<rparr>,
                             snd st1 @ [call]), None)))"

text \<open>The rows a power cycle touches.\<close>

definition host_eips :: "database \<Rightarrow> host \<Rightarrow> string \<Rightarrow> elastic_ip list" where
  "host_eips db host state =
     filter (\<lambda>e. e_host_id e = Some (h_id host) \<and> e_state e = state) (d_eips db)"

fun detach_loop :: "cloud \<Rightarrow> elastic_ip list \<Rightarrow> eip_state \<Rightarrow> eip_state \<times> eip_error option" where
  "detach_loop cl [] st = (st, None)"
| "detach_loop cl (eip # eips) st =
     (let calls = (case provider_by_id (fst st) (e_provider_id eip) of
            None \<Rightarrow> []
          | Some provider \<Rightarrow>
              if v_type provider = ''ec2'' \<and> opt_truthy (e_association_id eip)
              then [DisassociateAddress (the (e_association_id eip))] else [])
      in if \<not> list_all (cl_ok cl) calls then ((fst st, snd st @ calls), Some CloudError)
         else detach_loop cl eips
           (committed (eip\<lparr>e_association_id := None, e_state := ''reattach_pending''\<rparr>) st calls))"

definition detach_host_eips_preserve_ip ::
    "cloud \<Rightarrow> host \<Rightarrow> eip_state \<Rightarrow> eip_state \<times> eip_error option" where
  "detach_host_eips_preserve_ip cl host st = detach_loop cl (host_eips (fst st) host ''associated'') st"

text \<open>Re-associating one address: the calls made, the association id to store, and whether
  it went without an exception.\<close>

definition reassociate ::
    "cloud \<Rightarrow> database \<Rightarrow> host \<Rightarrow> elastic_ip \<Rightarrow> cloud_call list \<times> string option \<times> bool" where
  "reassociate cl db host eip =
     (case provider_by_id db (e_provider_id eip) of
        None \<Rightarrow> ([], e_association_id eip, True)
      | Some provider \<Rightarrow>
          if v_type provider = ''ec2'' \<and> opt_truthy (e_private_ip eip)
          then (case cl_primary_eni cl (h_id host) of
                  None \<Rightarrow> ([], e_association_id eip, False)
                | Some None \<Rightarrow> ([], e_association_id eip, True)
                | Some (Some eni) \<Rightarrow>
                    if eni = [] then ([], e_association_id eip, True)
                    else let priv = the (e_private_ip eip)
                    in (case cl_reassociate cl (e_allocation_id eip) eni priv of
                          None \<Rightarrow> ([AssociateAddress (e_allocation_id eip) eni priv], e_association_id eip, False)
                        | Some aid \<Rightarrow> ([AssociateAddress (e_allocation_id eip) eni priv], Some aid, True)))
          else ([], e_association_id eip, True))"

fun reattach_loop :: "cloud \<Rightarrow> host \<Rightarrow> elastic_ip list \<Rightarrow> eip_state \<Rightarrow> eip_state \<times> eip_error option" where
  "reattach_loop cl host [] st = (st, None)"
| "reattach_loop cl host (eip # eips) st =
     (let (calls, aid, ok) = reassociate cl (fst st) host eip
      in if \<not> ok then ((fst st, snd st @ calls), Some CloudError)
         else reattach_loop cl host eips
           (committed (eip\<lparr>e_association_id := aid, e_state := ''associated''\<rparr>) st calls))"

definition reattach_host_eips ::
    "cloud \<Rightarrow> host \<Rightarrow> eip_state \<Rightarrow> eip_state \<times> eip_error option" where
  "reattach_host_eips cl host st = reattach_loop cl host (host_eips (fst st) host ''reattach_pending'') st"

text \<open>Migration works on one row object: the association reads the fields the
  disassociation left in it.\<close>

definition reload_eip :: "database \<Rightarrow> elastic_ip \<Rightarrow> elastic_ip" where
  "reload_eip db eip = (case find (\<lambda>x. e_id x = e_id eip) (d_eips db) of None \<Rightarrow> eip | Some x \<Rightarrow> x)"

definition migrate_eip ::
    "cloud \<Rightarrow> elastic_ip \<Rightarrow> host \<Rightarrow> host \<Rightarrow> eip_state \<Rightarrow> eip_state \<times> eip_error option" where
  "migrate_eip cl eip from_host to_host st =
     (case disassociate_eip cl eip from_host st of
        (st1, Some err) \<Rightarrow> (st1, Some err)
      | (st1, None) \<Rightarrow> associate_eip cl (reload_eip (fst st1) eip) to_host st1)"

definition get_host_eip_usage :: "database \<Rightarrow> string \<Rightarrow> int" where
  "get_host_eip_usage db hid =
     int (length (filter (\<lambda>e. e_host_id e = Some hid \<and> e_state e = ''associated'') (d_eips db)))"

section \<open>Transit ports\<close>

definition TRANSIT_PORT_START :: int where "TRANSIT_PORT_START = 40000"
definition TRANSIT_PORT_END :: int where "TRANSIT_PORT_END = 49999"

definition used_transit_ports_on_host :: "database \<Rightarrow> host \<Rightarrow> int list" where
  "used_transit_ports_on_host db host =
     concat (map (\<lambda>e. case e_port_map e of None \<Rightarrow> [] | Some m \<Rightarrow> map snd m)
       (filter (\<lambda>e. e_host_id e = Some (h_id host) \<and> e_port_map e \<noteq> None) (d_eips db)))"

text \<open>\<open>while next_port in used: next_port += 1\<close>.\<close>

function next_free :: "int list \<Rightarrow> int \<Rightarrow> int" where
  "next_free used p = (if p \<in> set used then next_free used (p + 1) else p)"
  by pat_completeness auto
termination
proof (relation "measure (\<lambda>(used, p). card {u \<in> set used. p \<le> u})")
  fix used :: "int list" and p
  assume "p \<in> set used"
  then have "p \<in> {u \<in> set used. p \<le> u}" "p \<notin> {u \<in> set used. p + 1 \<le> u}" by auto
  moreover have "{u \<in> set used. p + 1 \<le> u} \<subseteq> {u \<in> set used. p \<le> u}" by auto
  ultimately have "{u \<in> set used. p + 1 \<le> u} \<subset> {u \<in> set used. p \<le> u}" by blast
  then show "((used, p + 1), (used, p)) \<in> measure (\<lambda>(used, p). card {u \<in> set used. p \<le> u})"
    by (simp add: psubset_card_mono)
qed simp

declare next_free.simps [simp del]

fun transit_loop ::
    "json list \<Rightarrow> int list \<Rightarrow> int \<Rightarrow> (string \<times> int) list \<Rightarrow> eip_error + (string \<times> int) list" where
  "transit_loop [] used next_port port_map = Inr port_map"
| "transit_loop (pf # pfs) used next_port port_map =
     (let p = next_free used next_port
      in if p > TRANSIT_PORT_END then Inl PortsExhausted
         else (case Option.bind (index pf ''extPort'') py_str of
                 None \<Rightarrow> Inl BadForward
               | Some k \<Rightarrow> transit_loop pfs (p # used) (p + 1) (AList.update k p port_map)))"

definition allocate_transit_ports ::
    "elastic_ip \<Rightarrow> host \<Rightarrow> json list \<Rightarrow> database \<Rightarrow> eip_error + (database \<times> (string \<times> int) list)" where
  "allocate_transit_ports eip host port_forwards db =
     (case transit_loop port_forwards (used_transit_ports_on_host db host) TRANSIT_PORT_START [] of
        Inl e \<Rightarrow> Inl e
      | Inr pm \<Rightarrow> Inr (store_eip (eip\<lparr>e_port_map := Some pm\<rparr>) db, pm))"

definition allocate_standalone_transit_port ::
    "database \<Rightarrow> host \<Rightarrow> int list \<Rightarrow> eip_error + int" where
  "allocate_standalone_transit_port db host extra_used =
     (let p = next_free (used_transit_ports_on_host db host @ extra_used) TRANSIT_PORT_START
      in if p > TRANSIT_PORT_END then Inl PortsExhausted else Inr p)"

section \<open>Port allocation\<close>

lemma next_free_fresh: "next_free used p \<notin> set used"
proof (induction used p rule: next_free.induct)
  case (1 used p)
  then show ?case by (subst next_free.simps) auto
qed

lemma next_free_ge: "p \<le> next_free used p"
proof (induction used p rule: next_free.induct)
  case (1 used p)
  then show ?case by (subst next_free.simps) force
qed

lemma next_free_least: "p \<le> q \<Longrightarrow> q \<notin> set used \<Longrightarrow> next_free used p \<le> q"
proof (induction used p rule: next_free.induct)
  case (1 used p)
  show ?case
  proof (cases "p \<in> set used")
    case True
    with 1(2,3) have "p + 1 \<le> q" by (cases "p = q") auto
    with 1(1) [OF True] 1(3) True show ?thesis by (subst next_free.simps) simp
  next
    case False
    with 1(2) show ?thesis by (subst next_free.simps) simp
  qed
qed

definition ports_ok :: "int list \<Rightarrow> int \<Rightarrow> (string \<times> int) list \<Rightarrow> bool" where
  "ports_ok used0 n m \<longleftrightarrow> distinct (map fst m) \<and> distinct (map snd m) \<and>
     (\<forall>v\<in>snd ` set m. TRANSIT_PORT_START \<le> v \<and> v \<le> TRANSIT_PORT_END \<and> v < n \<and> v \<notin> set used0)"

lemma transit_loop_ok:
  "transit_loop pfs used n m = Inr m' \<Longrightarrow> set used0 \<subseteq> set used \<Longrightarrow> TRANSIT_PORT_START \<le> n \<Longrightarrow>
     ports_ok used0 n m \<Longrightarrow> \<exists>n'. ports_ok used0 n' m'"
proof (induction pfs used n m rule: transit_loop.induct)
  case (1 used n m)
  then show ?case by auto
next
  case (2 pf pfs used n m)
  define p where "p = next_free used n"
  from 2(2) obtain k where k: "Option.bind (index pf ''extPort'') py_str = Some k"
      "\<not> p > TRANSIT_PORT_END" "transit_loop pfs (p # used) (p + 1) (AList.update k p m) = Inr m'"
    by (auto simp: p_def Let_def split: if_splits option.splits)
  have p: "n \<le> p" "p \<notin> set used" by (simp_all add: p_def next_free_ge next_free_fresh)
  have "p \<notin> snd ` set m" using 2(5) p(1) by (auto simp: ports_ok_def)
  moreover have "\<forall>v\<in>snd ` set (AList.update k p m). TRANSIT_PORT_START \<le> v \<and> v \<le> TRANSIT_PORT_END \<and>
      v < p + 1 \<and> v \<notin> set used0"
    using update_values_subset [of k p m] 2(3-5) p k(2) by (fastforce simp: ports_ok_def)
  ultimately have "ports_ok used0 (p + 1) (AList.update k p m)"
    using 2(5) by (simp add: ports_ok_def distinct_update_values distinct_update_keys)
  with 2(1) [OF p_def k(2,1,3)] 2(3,4) p(1) show ?case by auto
qed

lemma transit_loop_keys:
  "transit_loop pfs used n m = Inr m' \<Longrightarrow>
     fst ` set m' = fst ` set m \<union> {k. \<exists>pf\<in>set pfs. Option.bind (index pf ''extPort'') py_str = Some k}"
  by (induction pfs used n m rule: transit_loop.induct)
    (auto simp: Let_def AList.dom_update split: if_splits option.splits)

lemma transit_loop_enough:
  assumes "\<forall>pf\<in>set pfs. Option.bind (index pf ''extPort'') py_str \<noteq> None"
    and "length pfs \<le> card ({n..TRANSIT_PORT_END} - set used)"
  shows "\<exists>m'. transit_loop pfs used n m = Inr m'"
  using assms
proof (induction pfs used n m rule: transit_loop.induct)
  case (1 used n m)
  then show ?case by simp
next
  case (2 pf pfs used n m)
  define p where "p = next_free used n"
  let ?F = "{n..TRANSIT_PORT_END} - set used"
  have "?F \<noteq> {}"
  proof
    assume "?F = {}"
    then have "card ?F = 0" by (simp only: card.empty)
    with 2(3) show False by simp
  qed
  then obtain q where q: "n \<le> q" "q \<le> TRANSIT_PORT_END" "q \<notin> set used"
    by (metis DiffE all_not_in_conv atLeastAtMost_iff)
  have p: "p \<le> q" "n \<le> p" "p \<notin> set used"
    using q by (auto simp: p_def next_free_least next_free_ge next_free_fresh)
  have "\<forall>x\<in>?F. p \<le> x" by (auto simp: p_def next_free_least)
  then have "?F = insert p ({p + 1..TRANSIT_PORT_END} - set (p # used))"
    using p q(2) by force
  then have "length pfs \<le> card ({p + 1..TRANSIT_PORT_END} - set (p # used))"
    using 2(3) by simp
  moreover obtain k where k: "Option.bind (index pf ''extPort'') py_str = Some k" using 2(2) by auto
  ultimately have "\<exists>m'. transit_loop pfs (p # used) (p + 1) (AList.update k p m) = Inr m'"
    using 2(1) [OF p_def _ k] 2(2) p(1) q(2) by auto
  then show ?case using k p(1) q(2) by (auto simp: p_def Let_def)
qed

text \<open>Transit ports allocated for an address's forwards are one per external port, all
  different, within 40000 to 49999 and not in use by any address on the host; allocation
  succeeds whenever the range still has as many free ports as there are forwards.\<close>

theorem transit_ports_allocated:
  assumes "\<forall>pf\<in>set pfs. Option.bind (index pf ''extPort'') py_str \<noteq> None"
    and "length pfs \<le> card ({40000..49999} - set (used_transit_ports_on_host db host))"
  shows "\<exists>db' pm. allocate_transit_ports eip host pfs db = Inr (db', pm) \<and>
    fst ` set pm = {k. \<exists>pf\<in>set pfs. Option.bind (index pf ''extPort'') py_str = Some k} \<and>
    distinct (map snd pm) \<and>
    (\<forall>v\<in>snd ` set pm. 40000 \<le> v \<and> v \<le> 49999 \<and> v \<notin> set (used_transit_ports_on_host db host))"
proof -
  let ?u = "used_transit_ports_on_host db host"
  obtain pm where pm: "transit_loop pfs ?u TRANSIT_PORT_START [] = Inr pm"
    using transit_loop_enough [OF assms(1), of TRANSIT_PORT_START ?u "[]"] assms(2)
    by (auto simp: TRANSIT_PORT_START_def TRANSIT_PORT_END_def)
  have "ports_ok ?u TRANSIT_PORT_START []" by (simp add: ports_ok_def)
  with transit_loop_ok [OF pm, of ?u] obtain n where "ports_ok ?u n pm" by auto
  with pm transit_loop_keys [OF pm] show ?thesis
    by (auto simp: allocate_transit_ports_def ports_ok_def TRANSIT_PORT_START_def TRANSIT_PORT_END_def)
qed

text \<open>The route-only transit port is the smallest port from 40000 on that neither an
  address of the host nor the supplied extra ports use, and the range is reported exhausted
  exactly when no port up to 49999 is free.\<close>

theorem standalone_port_least_free:
  "case allocate_standalone_transit_port db host extra of
     Inr p \<Rightarrow> 40000 \<le> p \<and> p \<le> 49999 \<and> p \<notin> set (used_transit_ports_on_host db host) \<union> set extra \<and>
       {40000..<p} \<subseteq> set (used_transit_ports_on_host db host) \<union> set extra
   | Inl e \<Rightarrow> e = PortsExhausted \<and>
       {40000..49999} \<subseteq> set (used_transit_ports_on_host db host) \<union> set extra"
proof -
  let ?used = "used_transit_ports_on_host db host @ extra"
  define p where "p = next_free ?used 40000"
  have l: "q \<in> set ?used" if "40000 \<le> q" "q < p" for q
    using next_free_least [of 40000 q ?used] that by (auto simp: p_def)
  have p: "40000 \<le> p" "p \<notin> set ?used"
    by (simp_all add: p_def next_free_ge next_free_fresh del: set_append)
  show ?thesis
  proof (cases "p > 49999")
    case True
    then have "{40000..49999} \<subseteq> set ?used" using l by (meson atLeastAtMost_iff order.strict_trans1 subsetI)
    with True show ?thesis
      by (simp add: allocate_standalone_transit_port_def p_def TRANSIT_PORT_START_def TRANSIT_PORT_END_def)
  next
    case False
    have "{40000..<p} \<subseteq> set ?used" using l by (meson atLeastLessThan_iff subsetI)
    with False p show ?thesis
      by (auto simp: allocate_standalone_transit_port_def TRANSIT_PORT_START_def TRANSIT_PORT_END_def
          simp flip: p_def)
  qed
qed

lemma image_some_pair: "f a = Some x \<Longrightarrow> f b = Some y \<Longrightarrow> {k. \<exists>c\<in>set [a, b]. f c = Some k} = {x, y}"
  by auto

theorem transit_ports_allocated_witness:
  "\<exists>db' pm. allocate_transit_ports (sample_eip ''e'') (sample_host ''h'')
      [JObj [(''extPort'', JInt 22)], JObj [(''extPort'', JStr ''443'')]] empty_db = Inr (db', pm) \<and>
      fst ` set pm = {int_str 22, ''443''} \<and> distinct (map snd pm)"
proof -
  let ?pfs = "[JObj [(''extPort'', JInt 22)], JObj [(''extPort'', JStr ''443'')]]"
  have u: "used_transit_ports_on_host empty_db (sample_host ''h'') = []"
    by (simp add: used_transit_ports_on_host_def empty_db_def)
  have a: "\<forall>pf\<in>set ?pfs. Option.bind (index pf ''extPort'') py_str \<noteq> None" by simp
  have b: "length ?pfs \<le> card ({40000..49999} - set (used_transit_ports_on_host empty_db (sample_host ''h'')))"
    unfolding u by (simp only: list.set Diff_empty card_atLeastAtMost_int) simp
  have "Option.bind (index (JObj [(''extPort'', JInt 22)]) ''extPort'') py_str = Some (int_str 22)"
    "Option.bind (index (JObj [(''extPort'', JStr ''443'')]) ''extPort'') py_str = Some ''443''"
    by simp_all
  then have k: "{k. \<exists>pf\<in>set ?pfs. Option.bind (index pf ''extPort'') py_str = Some k} = {int_str 22, ''443''}"
    by (rule image_some_pair [where f = "\<lambda>pf. Option.bind (index pf ''extPort'') py_str"])
  show ?thesis
    using transit_ports_allocated [OF a b, of "sample_eip ''e''"] unfolding k
    by (elim exE conjE) (intro exI conjI, assumption+)
qed

section \<open>The life cycle of an address\<close>

definition eip_ok :: "elastic_ip \<Rightarrow> bool" where
  "eip_ok e \<longleftrightarrow>
     (e_state e = ''allocated'' \<and> e_host_id e = None \<and> e_association_id e = None \<and> e_private_ip e = None) \<or>
     (e_state e = ''associated'' \<and> e_host_id e \<noteq> None) \<or>
     (e_state e = ''reattach_pending'' \<and> e_host_id e \<noteq> None \<and> e_association_id e = None)"

inductive eip_step :: "cloud \<Rightarrow> eip_state \<Rightarrow> eip_state \<Rightarrow> bool" for cl where
  es_allocate: "eip_step cl st (fst (allocate_eip cl provider project_id canvas i st))"
| es_associate: "eip \<in> set (d_eips (fst st)) \<Longrightarrow> eip_step cl st (fst (associate_eip cl eip host st))"
| es_disassociate: "eip \<in> set (d_eips (fst st)) \<Longrightarrow> eip_step cl st (fst (disassociate_eip cl eip host st))"
| es_release: "eip \<in> set (d_eips (fst st)) \<Longrightarrow> eip_step cl st (fst (release_eip cl eip st))"
| es_detach: "eip_step cl st (fst (detach_host_eips_preserve_ip cl host st))"
| es_reattach: "eip_step cl st (fst (reattach_host_eips cl host st))"
| es_migrate: "eip \<in> set (d_eips (fst st)) \<Longrightarrow> eip_step cl st (fst (migrate_eip cl eip h h' st))"
| es_ports: "eip \<in> set (d_eips (fst st)) \<Longrightarrow>
    allocate_transit_ports eip host pfs (fst st) = Inr (db', pm) \<Longrightarrow> eip_step cl st (db', snd st)"

definition eips_ok :: "eip_state \<Rightarrow> bool" where
  "eips_ok st \<longleftrightarrow> (\<forall>e\<in>set (d_eips (fst st)). eip_ok e)"

lemma d_eips_store: "d_eips (store_eip e db) = map (\<lambda>x. if e_id x = e_id e then e else x) (d_eips db)"
  by (simp add: store_eip_def)

lemma eips_ok_committed: "eips_ok st \<Longrightarrow> eip_ok e \<Longrightarrow> eips_ok (committed e st calls)"
  by (auto simp: eips_ok_def d_eips_store)

lemma eips_ok_calls [simp]: "eips_ok (fst st, cs) \<longleftrightarrow> eips_ok st"
  by (simp add: eips_ok_def)

lemma provider_by_id_store [simp]: "provider_by_id (store_eip e db) i = provider_by_id db i"
  by (simp add: provider_by_id_def)

lemma allocate_eip_ok: "eips_ok st \<Longrightarrow> eips_ok (fst (allocate_eip cl v p c i st))"
  by (auto simp: allocate_eip_def eips_ok_def eip_ok_def Let_def split: option.splits prod.splits)

lemma associate_eip_ok: "eips_ok st \<Longrightarrow> eips_ok (fst (associate_eip cl e h st))"
  by (auto simp: associate_eip_def eip_ok_def intro!: eips_ok_committed split: option.splits prod.splits)

lemma eips_ok_store: "eips_ok st \<Longrightarrow> eip_ok e \<Longrightarrow> eips_ok (store_eip e (fst st), cs)"
  by (auto simp: eips_ok_def d_eips_store)

lemma disassociate_eip_ok: "eips_ok st \<Longrightarrow> eips_ok (fst (disassociate_eip cl e h st))"
  by (auto simp: disassociate_eip_def eip_ok_def Let_def intro!: eips_ok_store
      split: option.splits prod.splits)

lemma release_eip_ok:
  assumes "eips_ok st"
  shows "eips_ok (fst (release_eip cl e st))"
proof -
  define r where "r = (if e_state e = ''associated'' \<and> opt_truthy (e_host_id e)
    then (case host_by_id (fst st) (the (e_host_id e)) of
            None \<Rightarrow> (st, None) | Some host \<Rightarrow> disassociate_eip cl e host st)
    else (st, None))"
  have "eips_ok (fst r)" using assms by (simp add: r_def disassociate_eip_ok split: option.splits)
  moreover obtain st1 err where "r = (st1, err)" by fastforce
  ultimately show ?thesis
    by (auto simp: release_eip_def eips_ok_def Let_def simp flip: r_def split: option.splits)
qed

lemma detach_loop_ok:
  "eips_ok st \<Longrightarrow> \<forall>e\<in>set es. e_host_id e \<noteq> None \<Longrightarrow> eips_ok (fst (detach_loop cl es st))"
proof (induction cl es st rule: detach_loop.induct)
  case (1 cl st)
  then show ?case by simp
next
  case (2 cl e es st)
  have "eip_ok (e\<lparr>e_association_id := None, e_state := ''reattach_pending''\<rparr>)"
    using 2(3) by (simp add: eip_ok_def)
  with 2 show ?case by (simp add: Let_def eips_ok_store)
qed

lemma reattach_loop_ok:
  "eips_ok st \<Longrightarrow> \<forall>e\<in>set es. e_host_id e \<noteq> None \<Longrightarrow> eips_ok (fst (reattach_loop cl h es st))"
proof (induction cl h es st rule: reattach_loop.induct)
  case (1 cl h st)
  then show ?case by simp
next
  case (2 cl h e es st)
  obtain calls aid ok where r: "reassociate cl (fst st) h e = (calls, aid, ok)" by (metis prod_cases3)
  moreover have "eip_ok (e\<lparr>e_association_id := aid, e_state := ''associated''\<rparr>)"
    using 2(3) by (simp add: eip_ok_def)
  ultimately show ?case using 2 by (simp add: eips_ok_store)
qed

lemma migrate_eip_ok: "eips_ok st \<Longrightarrow> eips_ok (fst (migrate_eip cl e h h' st))"
  using disassociate_eip_ok [of st cl e h]
  by (auto simp: migrate_eip_def associate_eip_ok split: prod.splits option.splits)

lemma transit_ports_ok:
  assumes "eips_ok st" "e \<in> set (d_eips (fst st))"
    and "allocate_transit_ports e h pfs (fst st) = Inr (db', pm)"
  shows "eips_ok (db', cs)"
proof -
  have "eip_ok (e\<lparr>e_port_map := Some pm\<rparr>)" using assms(1,2) by (simp add: eips_ok_def eip_ok_def)
  moreover have "db' = store_eip (e\<lparr>e_port_map := Some pm\<rparr>) (fst st)"
    using assms(3) by (auto simp: allocate_transit_ports_def split: sum.splits)
  ultimately show ?thesis using eips_ok_store assms(1) by simp
qed

lemmas eip_ops_ok = allocate_eip_ok associate_eip_ok disassociate_eip_ok release_eip_ok migrate_eip_ok
  detach_loop_ok reattach_loop_ok

interpretation eip_life: invariant_system "\<lambda>st. d_eips (fst st) = []" "eip_step cl" eips_ok for cl
proof
  show "d_eips (fst st) = [] \<Longrightarrow> eips_ok st" for st by (simp add: eips_ok_def)
  show "eips_ok st \<Longrightarrow> eip_step cl st st' \<Longrightarrow> eips_ok st'" for st st'
    by (erule eip_step.cases)
      (auto simp: eip_ops_ok transit_ports_ok detach_host_eips_preserve_ip_def
        reattach_host_eips_def host_eips_def intro!: detach_loop_ok reattach_loop_ok)
qed

text \<open>C11: starting from no addresses, whatever sequence of operations runs and whichever cloud
  calls fail, every stored address is either unbound (no host, no private address, no
  association), associated with a host, or waiting for re-attachment to a host with its
  association cleared. No other combination of state and columns is reachable.\<close>

theorem eip_lifecycle_invariant:
  assumes "d_eips (fst st) = []" "(eip_step cl)\<^sup>*\<^sup>* st st'" "e \<in> set (d_eips (fst st'))"
  shows "(e_state e = ''allocated'' \<and> e_host_id e = None \<and> e_association_id e = None \<and> e_private_ip e = None) \<or>
    (e_state e = ''associated'' \<and> e_host_id e \<noteq> None) \<or>
    (e_state e = ''reattach_pending'' \<and> e_host_id e \<noteq> None \<and> e_association_id e = None)"
  using eip_life.reachable_inv [OF assms(1,2)] assms(3) by (simp add: eips_ok_def eip_ok_def)

section \<open>A power cycle\<close>

lemma reassociate_store [simp]: "reassociate cl (store_eip x db) h e = reassociate cl db h e"
  by (simp add: reassociate_def)

lemma detach_loop_fold:
  "\<forall>c. cl_ok cl c \<Longrightarrow>
    \<exists>cs. detach_loop cl es st =
      ((foldl (\<lambda>db e. store_eip (e\<lparr>e_association_id := None, e_state := ''reattach_pending''\<rparr>) db)
         (fst st) es, cs), None)"
proof (induction cl es st rule: detach_loop.induct)
  case (2 cl e es st)
  then have "list_all (cl_ok cl) calls" for calls by (simp add: list_all_iff)
  with 2 show ?case by (simp add: Let_def)
qed (cases st, simp add: prod_eq_iff)

definition reattached :: "cloud \<Rightarrow> database \<Rightarrow> host \<Rightarrow> elastic_ip \<Rightarrow> elastic_ip" where
  "reattached cl db h e =
     e\<lparr>e_association_id := fst (snd (reassociate cl db h e)), e_state := ''associated''\<rparr>"

lemma reattached_store [simp]: "reattached cl (store_eip x db) h = reattached cl db h"
  by (simp add: reattached_def fun_eq_iff)

lemma reattach_loop_fold:
  "\<forall>e. snd (snd (reassociate cl (fst st) h e)) \<Longrightarrow>
    \<exists>cs. reattach_loop cl h es st =
      ((foldl (\<lambda>db e. store_eip (reattached cl (fst st) h e) db) (fst st) es, cs), None)"
proof (induction cl h es st rule: reattach_loop.induct)
  case (2 cl h e es st)
  obtain calls aid ok where r: "reassociate cl (fst st) h e = (calls, aid, ok)" by (metis prod_cases3)
  moreover have ok using 2(2) r by (metis snd_conv)
  moreover have "reattached cl (fst st) h e = e\<lparr>e_association_id := aid, e_state := ''associated''\<rparr>"
    by (simp add: reattached_def r)
  ultimately show ?case using 2 by simp
qed (cases st, simp add: prod_eq_iff)

lemma foldl_store_eips:
  assumes "distinct (map e_id rows)" "set es \<subseteq> set rows" "\<And>e. e_id (f e) = e_id e" "\<And>e. e_id (g e) = e_id e"
    and "d_eips db = map g rows"
  shows "d_eips (foldl (\<lambda>db e. store_eip (f e) db) db es) = map (\<lambda>e. if e \<in> set es then f e else g e) rows"
  using assms(2,4,5)
proof (induction es arbitrary: db g)
  case Nil
  then show ?case by simp
next
  case (Cons x es)
  define g' where "g' = (\<lambda>e. if e_id e = e_id x then f x else g e)"
  have "d_eips (store_eip (f x) db) = map g' rows"
    using Cons(3,4) by (simp add: d_eips_store g'_def assms(3))
  moreover have "e_id (g' e) = e_id e" for e by (simp add: g'_def assms(3) Cons(3))
  ultimately have "d_eips (foldl (\<lambda>db e. store_eip (f e) db) (store_eip (f x) db) es) =
      map (\<lambda>e. if e \<in> set es then f e else g' e) rows"
    using Cons(1) [of g'] Cons(2) by simp
  moreover have "e_id e = e_id x \<longleftrightarrow> e = x" if "e \<in> set rows" for e
    using that Cons(2) assms(1) by (auto simp: distinct_map inj_on_def)
  ultimately show ?case by (auto simp: g'_def)
qed

lemma foldl_store_providers: "d_providers (foldl (\<lambda>db e. store_eip (f e) db) db es) = d_providers db"
  by (induction es arbitrary: db) simp_all

lemma reassociate_all_ok:
  "cl_primary_eni cl (h_id h) \<noteq> None \<Longrightarrow> \<forall>a n p. cl_reassociate cl a n p \<noteq> None \<Longrightarrow>
     snd (snd (reassociate cl db h e))"
  by (auto simp: reassociate_def Let_def split: option.splits) (metis option.distinct(1))

abbreviation cycled :: "host \<Rightarrow> elastic_ip \<Rightarrow> bool" where
  "cycled h e \<equiv> e_host_id e = Some (h_id h) \<and> (e_state e = ''associated'' \<or> e_state e = ''reattach_pending'')"

text \<open>When no cloud call fails, detaching a host's addresses before a power cycle and
  re-attaching them afterwards gives every row back as it was, up to the association id:
  the same host, the same private and public address, state associated. Other rows are not
  touched. In between the host counts no address as used.\<close>

theorem power_cycle_restores:
  assumes ids: "distinct (map e_id (d_eips (fst st)))"
    and ok: "\<forall>c. cl_ok cl c" "cl_primary_eni cl (h_id h) \<noteq> None" "\<forall>a n p. cl_reassociate cl a n p \<noteq> None"
  shows "\<exists>st1 st2. detach_host_eips_preserve_ip cl h st = (st1, None) \<and> reattach_host_eips cl h st1 = (st2, None) \<and>
    get_host_eip_usage (fst st1) (h_id h) = 0 \<and>
    map (\<lambda>e. e\<lparr>e_association_id := None\<rparr>) (d_eips (fst st2)) =
      map (\<lambda>e. (if cycled h e then e\<lparr>e_state := ''associated''\<rparr> else e)\<lparr>e_association_id := None\<rparr>) (d_eips (fst st))"
proof -
  let ?d = "\<lambda>e. e\<lparr>e_association_id := None, e_state := ''reattach_pending''\<rparr>"
  let ?m = "\<lambda>e. if e_host_id e = Some (h_id h) \<and> e_state e = ''associated'' then ?d e else e"
  obtain st1 where st1: "detach_host_eips_preserve_ip cl h st = (st1, None)"
    and f1: "fst st1 = foldl (\<lambda>db e. store_eip (?d e) db) (fst st) (host_eips (fst st) h ''associated'')"
    using detach_loop_fold [OF ok(1), of "host_eips (fst st) h ''associated''" st]
    by (auto simp: detach_host_eips_preserve_ip_def)
  have "d_eips (fst st1) =
      map (\<lambda>e. if e \<in> set (host_eips (fst st) h ''associated'') then ?d e else e) (d_eips (fst st))"
    unfolding f1 by (rule foldl_store_eips [OF ids]) (auto simp: host_eips_def)
  then have e1: "d_eips (fst st1) = map ?m (d_eips (fst st))" by (auto simp: host_eips_def)
  obtain st2 where st2: "reattach_host_eips cl h st1 = (st2, None)"
    and f2: "fst st2 = foldl (\<lambda>db e. store_eip (reattached cl (fst st1) h e) db) (fst st1)
      (host_eips (fst st1) h ''reattach_pending'')"
    using reattach_loop_fold [of cl st1 h "host_eips (fst st1) h ''reattach_pending''"]
      reassociate_all_ok [OF ok(2,3)] by (auto simp: reattach_host_eips_def)
  have "distinct (map e_id (d_eips (fst st1)))"
    using ids by (simp add: e1 comp_def if_distrib [of e_id] cong: if_cong)
  then have "d_eips (fst st2) = map (\<lambda>e. if e \<in> set (host_eips (fst st1) h ''reattach_pending'')
      then reattached cl (fst st1) h e else e) (d_eips (fst st1))"
    unfolding f2 by (rule foldl_store_eips) (auto simp: host_eips_def reattached_def)
  then have e2: "d_eips (fst st2) = map (\<lambda>e. if e_host_id e = Some (h_id h) \<and> e_state e = ''reattach_pending''
      then reattached cl (fst st1) h e else e) (d_eips (fst st1))"
    by (auto simp: host_eips_def)
  have "get_host_eip_usage (fst st1) (h_id h) = 0"
    by (auto simp: get_host_eip_usage_def e1 filter_empty_conv)
  moreover have "map (\<lambda>e. e\<lparr>e_association_id := None\<rparr>) (d_eips (fst st2)) =
      map (\<lambda>e. (if cycled h e then e\<lparr>e_state := ''associated''\<rparr> else e)\<lparr>e_association_id := None\<rparr>) (d_eips (fst st))"
    by (auto simp: e2 e1 reattached_def)
  ultimately show ?thesis using st1 st2 by blast
qed

text \<open>A cloud in which every call succeeds.\<close>

definition sample_cloud :: cloud where
  "sample_cloud = \<lparr>cl_allocate = (\<lambda>i. Some (''alloc-'' @ i, ''198.51.100.9'')),
     cl_associate = (\<lambda>a h. Some (Some ''10.1.2.4'', Some ''assoc'')),
     cl_primary_eni = (\<lambda>h. Some (Some ''eni'')), cl_ok = (\<lambda>c. True),
     cl_reassociate = (\<lambda>a n p. Some ''assoc2'')\<rparr>"

theorem power_cycle_restores_witness:
  "\<exists>st1 st2. detach_host_eips_preserve_ip sample_cloud (sample_host ''h'')
      (empty_db\<lparr>d_eips := [sample_eip ''a'', sample_eip ''b'']\<rparr>, []) = (st1, None) \<and>
    reattach_host_eips sample_cloud (sample_host ''h'') st1 = (st2, None) \<and>
    get_host_eip_usage (fst st1) ''h'' = 0 \<and> map e_state (d_eips (fst st2)) = [''associated'', ''associated'']"
proof -
  let ?st = "(empty_db\<lparr>d_eips := [sample_eip ''a'', sample_eip ''b'']\<rparr>, []) :: eip_state"
  obtain st1 st2 where r: "detach_host_eips_preserve_ip sample_cloud (sample_host ''h'') ?st = (st1, None)"
      "reattach_host_eips sample_cloud (sample_host ''h'') st1 = (st2, None)"
      "get_host_eip_usage (fst st1) (h_id (sample_host ''h'')) = 0"
    and m: "map (\<lambda>e. e\<lparr>e_association_id := None\<rparr>) (d_eips (fst st2)) =
      map (\<lambda>e. (if cycled (sample_host ''h'') e then e\<lparr>e_state := ''associated''\<rparr> else e)\<lparr>e_association_id := None\<rparr>)
        (d_eips (fst ?st))"
    using power_cycle_restores [of ?st sample_cloud "sample_host ''h''"]
    by (auto simp: sample_cloud_def empty_db_def sample_eip_def)
  from m have "map e_state (map (\<lambda>e. e\<lparr>e_association_id := None\<rparr>) (d_eips (fst st2))) = [''associated'', ''associated'']"
    by (simp only:) (simp add: sample_eip_def sample_host_def empty_db_def)
  then have "map e_state (d_eips (fst st2)) = [''associated'', ''associated'']"
    by (simp add: comp_def)
  moreover have "get_host_eip_usage (fst st1) ''h'' = 0" using r(3) by (simp add: sample_host_def)
  ultimately show ?thesis using r(1,2) by (intro exI conjI)
qed

theorem eip_lifecycle_invariant_witness:
  "\<exists>st' e. (eip_step sample_cloud)\<^sup>*\<^sup>* (empty_db, []) st' \<and> e \<in> set (d_eips (fst st')) \<and> e_id e = ''e'' \<and>
     e_host_id e = None"
proof -
  define st' where "st' = fst (allocate_eip sample_cloud (sample_provider ''ec2'') ''pr'' ''c'' ''e'' (empty_db, []))"
  have steps: "(eip_step sample_cloud)\<^sup>*\<^sup>* (empty_db, []) st'"
    unfolding st'_def by (intro r_into_rtranclp es_allocate)
  obtain e where e: "e \<in> set (d_eips (fst st'))" "e_id e = ''e''" "e_state e = ''allocated''"
    by (simp add: st'_def allocate_eip_def sample_cloud_def empty_db_def Let_def)
  have "e_host_id e = None"
    using eip_lifecycle_invariant [OF _ steps e(1)] e(3) by (simp add: empty_db_def)
  with steps e show ?thesis by blast
qed

end
