(* ===== verification/Pattern_Locations.thy ===== *)
theory Pattern_Locations
  imports Models
begin

text \<open>
  \<open>src/src/backend/app/services/pattern_locations.py\<close>: which disks of a topology come from
  a captured pattern, and where each of them can be sourced from on a given cluster. The
  locale \<open>disk_sourcing\<close> is the contract placement relies on: readiness of a set of disks
  is readiness of each of them.
\<close>

definition pattern_disk_step :: "json list \<Rightarrow> json \<Rightarrow> json list option" where
  "pattern_disk_step ids node = do {
     t \<leftarrow> has_type ''storageNode'' node;
     if \<not> t then Some ids
     else do {
       data \<leftarrow> node_data node;
       source \<leftarrow> get data ''source'';
       did \<leftarrow> get data ''patternDiskId'';
       if source = JStr ''pattern'' \<and> truthy did
       then do { d \<leftarrow> index data ''patternDiskId''; Some (ids @ [d]) }
       else Some ids
     }
   }"

definition pattern_disk_ids_from_topology :: "json \<Rightarrow> json list option" where
  "pattern_disk_ids_from_topology topology = do {
     nodes \<leftarrow> topo_nodes (py_or topology (JObj []));
     ofold pattern_disk_step [] nodes
   }"

text \<open>The synced rows of one disk at one kind of location.\<close>

definition synced_at :: "database \<Rightarrow> json \<Rightarrow> string option \<Rightarrow> string \<Rightarrow> bool" where
  "synced_at db did prov kind = list_ex (\<lambda>l. JStr (l_pattern_disk_id l) = did \<and>
     l_provider_id l = prov \<and> l_location_type l = kind \<and> l_state l = ''synced'') (d_locations db)"

definition pattern_disk_source_for_cluster ::
    "database \<Rightarrow> json \<Rightarrow> string option \<Rightarrow> string option" where
  "pattern_disk_source_for_cluster db did target =
     (if opt_truthy target \<and> synced_at db did target ''obc'' then Some ''obc''
      else if synced_at db did None ''central'' then Some ''central''
      else if synced_at db did None ''gold'' then Some ''gold''
      else None)"

definition pattern_disks_ready_on_provider ::
    "database \<Rightarrow> json list \<Rightarrow> string option \<Rightarrow> bool" where
  "pattern_disks_ready_on_provider db dids target =
     (if dids = [] then True
      else list_all (\<lambda>did. pattern_disk_source_for_cluster db did target \<noteq> None) dids)"

section \<open>The contract of disk sourcing\<close>

locale disk_sourcing =
  fixes source :: "'db \<Rightarrow> 'disk \<Rightarrow> 'prov \<Rightarrow> 'loc option"
    and ready :: "'db \<Rightarrow> 'disk list \<Rightarrow> 'prov \<Rightarrow> bool"
    and shared :: "'db \<Rightarrow> 'disk \<Rightarrow> bool"
  assumes ready_iff: "ready db ds p \<longleftrightarrow> (\<forall>d\<in>set ds. source db d p \<noteq> None)"
    and shared_everywhere: "shared db d \<Longrightarrow> source db d p \<noteq> None"
begin

lemma ready_append: "ready db (ds @ ds') p \<longleftrightarrow> ready db ds p \<and> ready db ds' p"
  by (auto simp: ready_iff)

lemma ready_antimono: "set ds' \<subseteq> set ds \<Longrightarrow> ready db ds p \<Longrightarrow> ready db ds' p"
  by (auto simp: ready_iff)

lemma ready_all_shared: "(\<And>d. d \<in> set ds \<Longrightarrow> shared db d) \<Longrightarrow> ready db ds p"
  by (simp add: ready_iff shared_everywhere)

lemma not_ready_missing: "\<not> ready db ds p \<Longrightarrow> \<exists>d\<in>set ds. source db d p = None \<and> \<not> shared db d"
  using shared_everywhere by (metis ready_iff)

end

definition shared_source :: "database \<Rightarrow> json \<Rightarrow> bool" where
  "shared_source db did = (synced_at db did None ''central'' \<or> synced_at db did None ''gold'')"

interpretation pattern_src: disk_sourcing
  pattern_disk_source_for_cluster pattern_disks_ready_on_provider shared_source
  by unfold_locales
    (auto simp: pattern_disks_ready_on_provider_def list_all_iff
      pattern_disk_source_for_cluster_def shared_source_def)

lemma synced_at_mono:
  "set (d_locations db) \<subseteq> set (d_locations db') \<Longrightarrow> synced_at db did p k \<Longrightarrow> synced_at db' did p k"
  by (auto simp: synced_at_def list_ex_iff)

lemma disks_ready_iff:
  "pattern_disks_ready_on_provider db dids p \<longleftrightarrow>
     (\<forall>did\<in>set dids. opt_truthy p \<and> synced_at db did p ''obc'' \<or> shared_source db did)"
  by (auto simp: pattern_src.ready_iff pattern_disk_source_for_cluster_def shared_source_def)

lemma disks_ready_mono:
  assumes "set (d_locations db) \<subseteq> set (d_locations db')" "pattern_disks_ready_on_provider db dids p"
  shows "pattern_disks_ready_on_provider db' dids p"
  using assms synced_at_mono [OF assms(1)] by (fastforce simp: disks_ready_iff shared_source_def)

section \<open>Pattern disks of a topology\<close>

definition is_pattern_disk :: "json \<Rightarrow> json \<Rightarrow> bool" where
  "is_pattern_disk node did = (\<exists>data. has_type ''storageNode'' node = Some True \<and>
     node_data node = Some data \<and> get data ''source'' = Some (JStr ''pattern'') \<and>
     index data ''patternDiskId'' = Some did \<and> truthy did)"

lemma pattern_disk_step_set:
  assumes "pattern_disk_step ids n = Some ids'"
  shows "set ids' = set ids \<union> {d. is_pattern_disk n d}"
proof (cases "has_type ''storageNode'' n = Some True")
  case True
  with assms obtain data source did where d: "node_data n = Some data"
      "get data ''source'' = Some source" "get data ''patternDiskId'' = Some did"
    by (auto simp: pattern_disk_step_def bind_eq_Some_conv)
  show ?thesis
  proof (cases "source = JStr ''pattern'' \<and> truthy did")
    case True
    with d have "index data ''patternDiskId'' = Some did" by (simp add: index_of_truthy_get)
    with True d \<open>has_type ''storageNode'' n = Some True\<close> assms show ?thesis
      by (auto simp: pattern_disk_step_def is_pattern_disk_def)
  next
    case False
    with d True assms show ?thesis
      by (auto simp: pattern_disk_step_def is_pattern_disk_def dest: index_get)
  qed
next
  case False
  with assms show ?thesis
    by (auto simp: pattern_disk_step_def is_pattern_disk_def bind_eq_Some_conv split: if_splits)
qed

lemma pattern_disk_fold:
  "ofold pattern_disk_step ids0 nodes = Some ids \<Longrightarrow>
     set ids = set ids0 \<union> {d. \<exists>n\<in>set nodes. is_pattern_disk n d}"
proof (induction nodes arbitrary: ids0)
  case Nil
  then show ?case by simp
next
  case (Cons n ns)
  then obtain ids1 where "pattern_disk_step ids0 n = Some ids1" "ofold pattern_disk_step ids1 ns = Some ids"
    by (auto simp: bind_eq_Some_conv)
  with Cons.IH pattern_disk_step_set show ?case by fastforce
qed

text \<open>The disks placement waits for are exactly the ids of the storage nodes whose
  source is a pattern, and a provider is ready for them exactly when each has a synced copy in
  that provider's own object store or in a store shared by all providers (central or gold);
  further synced copies never make a ready provider unready.\<close>

theorem pattern_disks_ready:
  assumes "pattern_disk_ids_from_topology topology = Some dids"
    and "topo_nodes (py_or topology (JObj [])) = Some nodes"
    and "set (d_locations db) \<subseteq> set (d_locations db')"
  shows "set dids = {d. \<exists>n\<in>set nodes. is_pattern_disk n d} \<and>
    (pattern_disks_ready_on_provider db dids p \<longleftrightarrow>
      (\<forall>n\<in>set nodes. \<forall>d. is_pattern_disk n d \<longrightarrow>
         opt_truthy p \<and> synced_at db d p ''obc'' \<or> shared_source db d)) \<and>
    (pattern_disks_ready_on_provider db dids p \<longrightarrow> pattern_disks_ready_on_provider db' dids p)"
proof -
  have ids: "set dids = {d. \<exists>n\<in>set nodes. is_pattern_disk n d}"
    using assms(1,2) pattern_disk_fold [of "[]"] by (auto simp: pattern_disk_ids_from_topology_def)
  moreover have "pattern_disks_ready_on_provider db dids p \<longleftrightarrow>
      (\<forall>n\<in>set nodes. \<forall>d. is_pattern_disk n d \<longrightarrow>
         opt_truthy p \<and> synced_at db d p ''obc'' \<or> shared_source db d)"
    by (auto simp: disks_ready_iff ids)
  ultimately show ?thesis using disks_ready_mono [OF assms(3)] by blast
qed

theorem pattern_disks_ready_witness:
  "\<exists>n. is_pattern_disk n (JStr ''pd1'') \<and>
     pattern_disks_ready_on_provider
       (empty_db\<lparr>d_locations := [\<lparr>l_pattern_disk_id = ''pd1'', l_provider_id = None,
          l_location_type = ''central'', l_state = ''synced''\<rparr>]\<rparr>) [JStr ''pd1''] None"
proof -
  define n where "n = JObj [(''type'', JStr ''storageNode''),
     (''data'', JObj [(''source'', JStr ''pattern''), (''patternDiskId'', JStr ''pd1'')])]"
  define pd where "pd = JStr ''pd1''"
  define db where "db = empty_db\<lparr>d_locations := [\<lparr>l_pattern_disk_id = ''pd1'', l_provider_id = None,
     l_location_type = ''central'', l_state = ''synced''\<rparr>]\<rparr>"
  have s: "shared_source db pd" unfolding db_def pd_def by code_simp
  have t: "pattern_disk_ids_from_topology (JObj [(''nodes'', JList [n])]) = Some [pd]"
      "topo_nodes (py_or (JObj [(''nodes'', JList [n])]) (JObj [])) = Some [n]"
    unfolding n_def pd_def by code_simp+
  note r = pattern_disks_ready [OF t subset_refl, of db None]
  then have "is_pattern_disk n pd" "pattern_disks_ready_on_provider db [pd] None"
    using s by auto
  then show ?thesis unfolding db_def pd_def by blast
qed

end
