(* ===== verification/Capacity.thy ===== *)
theory Capacity
  imports Eip_Service Pattern_Locations "HOL-Library.Product_Lexorder"
begin

text \<open>
  The single-host half of \<open>src/src/backend/app/services/placement.py\<close>: what a topology
  needs, what a host has left, and the choice of the least loaded host that fits. The
  overcommit section of the configuration and the Redis counter of deployments in flight
  are parameters. A function that changes rows of the session returns the database with
  those rows replaced. Floats are exact rationals.
\<close>

section \<open>Requirements of a topology\<close>

record requirements =
  r_vm_count :: int
  r_container_count :: int
  r_total_vcpus :: rat
  r_total_ram_mb :: rat
  r_requested_eips :: int

text \<open>The two accumulation loops: \<open>data.get(k, default)\<close> as a number.\<close>

definition data_num :: "string \<Rightarrow> int \<Rightarrow> json \<Rightarrow> rat option" where
  "data_num k dflt n = do { data \<leftarrow> node_data n; v \<leftarrow> get_or data k (JInt dflt); num_of v }"

definition vm_need :: "json \<Rightarrow> (rat \<times> rat) option" where
  "vm_need n = do { c \<leftarrow> data_num ''vcpus'' 2 n; r \<leftarrow> data_num ''ram'' 4 n; Some (c, r * 1024) }"

definition container_need :: "json \<Rightarrow> (rat \<times> rat) option" where
  "container_need n = do { c \<leftarrow> data_num ''cpus'' 1 n; r \<leftarrow> data_num ''memory'' 512 n; Some (c, r) }"

definition add_need :: "(json \<Rightarrow> (rat \<times> rat) option) \<Rightarrow> rat \<times> rat \<Rightarrow> json \<Rightarrow> (rat \<times> rat) option" where
  "add_need need acc n = do { (c, r) \<leftarrow> need n; Some (fst acc + c, snd acc + r) }"

definition calculate_project_requirements :: "json \<Rightarrow> requirements option" where
  "calculate_project_requirements topology = do {
     nodes \<leftarrow> get_or topology ''nodes'' (JList []);
     ns \<leftarrow> iter nodes;
     vms \<leftarrow> ofilter (has_type ''vmNode'') ns;
     containers \<leftarrow> ofilter (has_type ''containerNode'') ns;
     t1 \<leftarrow> ofold (add_need vm_need) (0, 0) vms;
     t2 \<leftarrow> ofold (add_need container_need) t1 containers;
     external_ips \<leftarrow> get_or topology ''externalIps'' (JList []);
     eips \<leftarrow> py_len external_ips;
     Some \<lparr>r_vm_count = int (length vms), r_container_count = int (length containers),
           r_total_vcpus = fst t2, r_total_ram_mb = snd t2, r_requested_eips = eips\<rparr>
   }"

section \<open>Capacity of a host\<close>

text \<open>The configuration's overcommit section (\<^term>\<open>None\<close>: absent), with each ratio
  possibly absent; an absent or zero ratio falls back to the default.\<close>

type_synonym overcommit = "(rat option \<times> rat option) option"

definition ratio_or :: "rat option \<Rightarrow> rat \<Rightarrow> rat" where
  "ratio_or r dflt = (case r of None \<Rightarrow> dflt | Some x \<Rightarrow> if x = 0 then dflt else x)"

definition get_overcommit_ratios :: "overcommit \<Rightarrow> rat \<times> rat" where
  "get_overcommit_ratios oc =
     (case oc of None \<Rightarrow> (4, 3 / 2) | Some (c, r) \<Rightarrow> (ratio_or c 4, ratio_or r (3 / 2)))"

definition get_allocatable :: "overcommit \<Rightarrow> host \<Rightarrow> int \<times> int" where
  "get_allocatable oc h =
     (let (cpu_ratio, ram_ratio) = get_overcommit_ratios oc
      in (py_int (of_int (h_total_vcpus h) * cpu_ratio), py_int (of_int (h_total_ram_mb h) * ram_ratio)))"

definition counted_states :: "string list" where
  "counted_states = [''active'', ''stopped'', ''deploying'', ''reconfiguring'', ''starting'', ''stopping'']"

definition counted_on :: "host \<Rightarrow> project \<Rightarrow> bool" where
  "counted_on h p \<longleftrightarrow> p_host_id p = Some (h_id h) \<and> p_state p \<in> set counted_states"

definition add_project :: "rat \<times> rat \<Rightarrow> project \<Rightarrow> (rat \<times> rat) option" where
  "add_project acc p = do {
     reqs \<leftarrow> calculate_project_requirements (py_or (p_topology p) (JObj []));
     Some (fst acc + r_total_vcpus reqs, snd acc + r_total_ram_mb reqs)
   }"

definition sync_host_capacity :: "database \<Rightarrow> host \<Rightarrow> host option" where
  "sync_host_capacity db h = do {
     (cpu, ram) \<leftarrow> ofold add_project (0, 0) (filter (counted_on h) (d_projects db));
     Some (h\<lparr>h_used_vcpus := cpu, h_used_ram_mb := ram\<rparr>)
   }"

text \<open>\<open>for host in hosts: sync_host_capacity(db, host)\<close>.\<close>

definition sync_hosts :: "database \<Rightarrow> host list \<Rightarrow> (database \<times> host list) option" where
  "sync_hosts db hs = do {
     hs' \<leftarrow> omap (sync_host_capacity db) hs;
     Some (foldl (\<lambda>d h. store_host h d) db hs', hs')
   }"

definition concrete_mtu :: "json \<Rightarrow> int list option" where
  "concrete_mtu n = do {
     t \<leftarrow> has_type ''networkNode'' n;
     if \<not> t then Some []
     else do {
       d \<leftarrow> get n ''data'';
       m \<leftarrow> get (py_or d (JObj [])) ''mtu'';
       Some (case as_int m of None \<Rightarrow> [] | Some i \<Rightarrow> if i > 0 then [i] else [])
     }
   }"

definition required_network_mtu :: "json \<Rightarrow> int option option" where
  "required_network_mtu topology = do {
     nodes \<leftarrow> topo_nodes (py_or topology (JObj []));
     vals \<leftarrow> omap concrete_mtu nodes;
     Some (if concat vals = [] then None else Some (Max (set (concat vals))))
   }"

definition host_mtu_ok :: "host \<Rightarrow> int option \<Rightarrow> bool" where
  "host_mtu_ok h required =
     (case required of None \<Rightarrow> True
      | Some m \<Rightarrow> (case h_uplink_mtu h of None \<Rightarrow> False | Some u \<Rightarrow> u \<ge> m))"

text \<open>\<open>counter\<close> answers for the Redis key of a host; \<^term>\<open>None\<close> is an exception, read as 0.\<close>

definition get_inflight_deploys :: "(string \<Rightarrow> int option) \<Rightarrow> string \<Rightarrow> int" where
  "get_inflight_deploys counter hid =
     (case counter (''inflight:deploys:'' @ hid) of None \<Rightarrow> 0 | Some n \<Rightarrow> n)"

definition check_eip_capacity :: "database \<Rightarrow> host \<Rightarrow> int \<Rightarrow> bool" where
  "check_eip_capacity db h required =
     (if h_max_eips h - get_host_eip_usage db (h_id h) < required then False
      else if opt_truthy (h_provider_id h) then
        (case provider_by_id db (the (h_provider_id h)) of
           None \<Rightarrow> True
         | Some prov \<Rightarrow> (case v_max_eips prov of
             None \<Rightarrow> True
           | Some cap \<Rightarrow> \<not> int (length (filter (\<lambda>e. e_provider_id e = v_id prov \<and>
                 e_state e = ''associated'') (d_eips db))) + required > cap))
      else True)"

text \<open>\<open>_PLACEMENT_HOST_FILTERS\<close>.\<close>

definition placement_host :: "host \<Rightarrow> bool" where
  "placement_host h \<longleftrightarrow> h_state h = ''active'' \<and> h_agent_status h = ''connected'' \<and> h_accepting_work h"

definition storage_ready_anywhere :: "database \<Rightarrow> json list \<Rightarrow> bool" where
  "storage_ready_anywhere db dids =
     (dids = [] \<or> list_ex (\<lambda>h. pattern_disks_ready_on_provider db dids (h_provider_id h))
        (filter placement_host (d_hosts db)))"

definition host_has_pattern_storage :: "database \<Rightarrow> host \<Rightarrow> json list \<Rightarrow> bool" where
  "host_has_pattern_storage db h dids =
     (dids = [] \<or> pattern_disks_ready_on_provider db dids (h_provider_id h))"

definition topology_requires_kubevirt :: "json \<Rightarrow> bool option" where
  "topology_requires_kubevirt topology =
     (if \<not> truthy topology then Some False
      else do {
        p \<leftarrow> get topology ''placement'';
        a \<leftarrow> get (py_or p (JObj [])) ''requires_kubevirt'';
        b \<leftarrow> get (py_or p (JObj [])) ''requiresKubevirt'';
        Some (truthy a \<or> truthy b)
      })"

section \<open>Choosing a host\<close>

text \<open>What a deployment asks of one host.\<close>

record demand =
  q_vcpus :: rat
  q_ram_mb :: rat
  q_eips :: int
  q_disk_ids :: "json list"
  q_mtu :: "int option"

definition free_vcpus :: "overcommit \<Rightarrow> host \<Rightarrow> rat" where
  "free_vcpus oc h = of_int (fst (get_allocatable oc h)) - h_used_vcpus h"

definition free_ram :: "overcommit \<Rightarrow> host \<Rightarrow> rat" where
  "free_ram oc h = of_int (snd (get_allocatable oc h)) - h_used_ram_mb h"

definition host_fits_requirements ::
    "overcommit \<Rightarrow> (string \<Rightarrow> int option) \<Rightarrow> database \<Rightarrow> demand \<Rightarrow> host \<Rightarrow>
     (host \<times> rat \<times> rat \<times> int) option" where
  "host_fits_requirements oc counter db q h =
     (if free_vcpus oc h < q_vcpus q \<or> free_ram oc h < q_ram_mb q then None
      else if q_eips q > 0 \<and> \<not> check_eip_capacity db h (q_eips q) then None
      else if \<not> host_has_pattern_storage db h (q_disk_ids q) then None
      else if \<not> host_mtu_ok h (q_mtu q) then None
      else Some (h, free_vcpus oc h, free_ram oc h, get_inflight_deploys counter (h_id h)))"

text \<open>The optional restrictions of the query.\<close>

definition host_query ::
    "string option \<Rightarrow> string option \<Rightarrow> bool \<Rightarrow> host \<Rightarrow> bool" where
  "host_query pool prov kubevirt h \<longleftrightarrow>
     (opt_truthy pool \<longrightarrow> h_storage_pool_id h = pool) \<and>
     (opt_truthy prov \<longrightarrow> h_provider_id h = prov) \<and>
     (kubevirt \<longrightarrow> h_host_type h = ''kubevirt-cluster'')"

definition candidate_key :: "host \<times> rat \<times> rat \<times> int \<Rightarrow> int \<times> rat" where
  "candidate_key c = (case c of (h, cpu, ram, inflight) \<Rightarrow> (inflight, - ram))"

definition find_available_host ::
    "overcommit \<Rightarrow> (string \<Rightarrow> int option) \<Rightarrow> demand \<Rightarrow> string option \<Rightarrow> string option \<Rightarrow> bool \<Rightarrow>
     database \<Rightarrow> (database \<times> host option) option" where
  "find_available_host oc counter q pool prov kubevirt db = do {
     (db', hosts) \<leftarrow> sync_hosts db (filter (\<lambda>h. placement_host h \<and> h_host_type h \<noteq> ''pattern_buffer'' \<and>
        host_query pool prov kubevirt h) (d_hosts db));
     let candidates = List.map_filter (host_fits_requirements oc counter db' q) hosts;
     Some (db', case sort_key candidate_key candidates of
                  [] \<Rightarrow> None
                | c # _ \<Rightarrow> Some (fst c))
   }"

section \<open>Why no host was found\<close>

text \<open>The operator's message, with the figures it prints.\<close>

datatype diagnosis =
    NoKubevirtHosts | NoHosts | NoneAccepting | DisksUnavailable
  | ShortCpuAndRam rat rat rat rat
  | ShortRam rat rat
  | ShortCpu rat rat
  | Fragmented

definition best_free :: "(host \<Rightarrow> rat) \<Rightarrow> host list \<Rightarrow> rat" where
  "best_free f hs = foldl (\<lambda>b h. max b (f h)) 0 hs"

definition capacity_shortfall_reason :: "overcommit \<Rightarrow> host list \<Rightarrow> rat \<Rightarrow> rat \<Rightarrow> diagnosis" where
  "capacity_shortfall_reason oc hosts vcpus ram =
     (let best_cpu = best_free (free_vcpus oc) hosts;
          best_ram = best_free (free_ram oc) hosts;
          cpu_short = best_cpu < vcpus;
          ram_short = best_ram < ram
      in if cpu_short \<and> ram_short then ShortCpuAndRam vcpus ram best_cpu best_ram
         else if ram_short then ShortRam ram best_ram
         else if cpu_short then ShortCpu vcpus best_cpu
         else Fragmented)"

definition diagnose_placement_failure ::
    "overcommit \<Rightarrow> rat \<Rightarrow> rat \<Rightarrow> string option \<Rightarrow> string option \<Rightarrow> json list \<Rightarrow> bool \<Rightarrow>
     database \<Rightarrow> (database \<times> diagnosis) option" where
  "diagnose_placement_failure oc vcpus ram pool prov dids kubevirt db =
     (let hosts = filter (\<lambda>h. h_state h = ''active'' \<and> h_agent_status h = ''connected'' \<and>
            h_host_type h \<noteq> ''pattern_buffer'' \<and> host_query pool prov kubevirt h) (d_hosts db)
      in if hosts = [] then Some (db, if kubevirt then NoKubevirtHosts else NoHosts)
         else let accepting = filter h_accepting_work hosts
         in if accepting = [] then Some (db, NoneAccepting)
         else do {
           (db', hs) \<leftarrow> sync_hosts db accepting;
           let storage_ok = filter (\<lambda>h. host_has_pattern_storage db' h dids) hs;
           Some (db', if dids \<noteq> [] \<and> storage_ok = [] then DisksUnavailable
                      else capacity_shortfall_reason oc (if storage_ok = [] then hs else storage_ok) vcpus ram)
         })"

section \<open>Storage pools\<close>

definition pool_free :: "overcommit \<Rightarrow> database \<Rightarrow> storage_pool \<Rightarrow> rat" where
  "pool_free oc db pool =
     sum_list (map (free_ram oc) (filter (\<lambda>h. h_storage_pool_id h = Some (sp_id pool) \<and> placement_host h)
       (d_hosts db)))"

definition better_pool ::
    "overcommit \<Rightarrow> database \<Rightarrow> string option \<times> rat \<Rightarrow> storage_pool \<Rightarrow> string option \<times> rat" where
  "better_pool oc db best pool =
     (if pool_free oc db pool > snd best then (Some (sp_id pool), pool_free oc db pool) else best)"

definition auto_select_pool :: "overcommit \<Rightarrow> database \<Rightarrow> string option" where
  "auto_select_pool oc db =
     (case filter (\<lambda>s. sp_status s = ''available'') (d_pools db) of
        [] \<Rightarrow> None
      | [pool] \<Rightarrow> Some (sp_id pool)
      | pools \<Rightarrow> fst (foldl (better_pool oc db) (None, - 1) pools))"

definition find_pool_for_anti_affinity :: "database \<Rightarrow> string option" where
  "find_pool_for_anti_affinity db =
     map_option sp_id (find (\<lambda>s. length (filter (\<lambda>h. h_storage_pool_id h = Some (sp_id s) \<and>
         placement_host h \<and> h_host_type h \<noteq> ''pattern_buffer'') (d_hosts db)) \<ge> 2)
       (filter (\<lambda>s. sp_status s = ''available'') (d_pools db)))"

end
