(* ===== verification/Bin_Packing.thy ===== *)
theory Bin_Packing
  imports Capacity
begin

text \<open>
  The multi-host half of \<open>src/src/backend/app/services/placement.py\<close>: affinity groups and
  placement units, the hosts that can be mesh peers, bin packing, and the choice of the network
  host. Dictionaries are association lists in insertion order. An outer \<^term>\<open>None\<close> is an
  exception, an inner one Python's \<open>None\<close>.
\<close>

section \<open>Affinity groups and placement units\<close>

record affinity =
  g_groups :: "(json \<times> json list) list"
  g_ungrouped :: "json list"
  g_anti :: "(json \<times> string) list"

definition parse_anti :: "affinity \<Rightarrow> json \<Rightarrow> json \<Rightarrow> affinity option" where
  "parse_anti g node aa =
     (case as_str aa of
        None \<Rightarrow> Some g
      | Some s \<Rightarrow> if s = [] then Some g
          else do { i \<leftarrow> index node ''id''; k \<leftarrow> hkey i; Some (g\<lparr>g_anti := AList.update k s (g_anti g)\<rparr>) })"

definition parse_affinity_step :: "affinity \<Rightarrow> json \<Rightarrow> affinity option" where
  "parse_affinity_step g node = do {
     data \<leftarrow> node_data node;
     aa \<leftarrow> get data ''separateHost'';
     g1 \<leftarrow> parse_anti g node aa;
     ag \<leftarrow> get data ''affinityGroup'';
     if truthy ag
     then do { k \<leftarrow> hkey ag;
               Some (g1\<lparr>g_groups := AList.update k (dict_get (g_groups g1) k [] @ [node]) (g_groups g1)\<rparr>) }
     else Some (g1\<lparr>g_ungrouped := g_ungrouped g1 @ [node]\<rparr>)
   }"

definition parse_affinity_groups :: "json list \<Rightarrow> affinity option" where
  "parse_affinity_groups vm_nodes =
     ofold parse_affinity_step \<lparr>g_groups = [], g_ungrouped = [], g_anti = []\<rparr> vm_nodes"

record unit_vms =
  u_vm_ids :: "json list"
  u_ram_mb :: rat
  u_vcpus :: rat

text \<open>A value that is no number raises here; in the source it may survive until the first
  comparison, but only after the same value made the sum of the project's requirements raise.\<close>

definition node_ram_mb :: "json \<Rightarrow> rat option" where
  "node_ram_mb node = do {
     c \<leftarrow> has_type ''containerNode'' node;
     if c then data_num ''memory'' 512 node
     else do { r \<leftarrow> data_num ''ram'' 4 node; Some (r * 1024) }
   }"

definition node_vcpus :: "json \<Rightarrow> rat option" where
  "node_vcpus node = do {
     c \<leftarrow> has_type ''containerNode'' node;
     if c then data_num ''cpus'' 1 node else data_num ''vcpus'' 2 node
   }"

definition unit_of :: "json list \<Rightarrow> unit_vms option" where
  "unit_of nodes = do {
     ids \<leftarrow> omap (\<lambda>n. index n ''id'') nodes;
     rams \<leftarrow> omap node_ram_mb nodes;
     cpus \<leftarrow> omap node_vcpus nodes;
     Some \<lparr>u_vm_ids = ids, u_ram_mb = sum_list rams, u_vcpus = sum_list cpus\<rparr>
   }"

definition build_placement_units :: "affinity \<Rightarrow> unit_vms list option" where
  "build_placement_units g = do {
     grouped \<leftarrow> omap (\<lambda>kv. unit_of (snd kv)) (g_groups g);
     single \<leftarrow> omap (\<lambda>n. unit_of [n]) (g_ungrouped g);
     Some (sort_key (\<lambda>u. - u_ram_mb u) (grouped @ single))
   }"

section \<open>Packing\<close>

type_synonym remaining = "(string \<times> rat \<times> rat) list"
type_synonym assignments = "(string \<times> json list) list"

definition aa_groups :: "(json \<times> string) list \<Rightarrow> json list \<Rightarrow> string list option" where
  "aa_groups anti ids = do { ks \<leftarrow> omap hkey ids; Some (List.map_filter (map_of anti) ks) }"

definition can_place_on_host ::
    "unit_vms \<Rightarrow> rat \<times> rat \<Rightarrow> json list \<Rightarrow> (json \<times> string) list \<Rightarrow> bool option" where
  "can_place_on_host u remaining assigned anti =
     (if fst remaining < u_ram_mb u \<or> snd remaining < u_vcpus u then Some False
      else do {
        ug \<leftarrow> aa_groups anti (u_vm_ids u);
        if ug = [] then Some True
        else do { hg \<leftarrow> aa_groups anti assigned; Some (list_all (\<lambda>g. g \<notin> set hg) ug) }
      })"

definition hosts_by_ram :: "remaining \<Rightarrow> string list" where
  "hosts_by_ram rem = sort_key (\<lambda>hid. - fst (the (map_of rem hid))) (map fst rem)"

definition try_host ::
    "(json \<times> string) list \<Rightarrow> unit_vms \<Rightarrow> assignments \<Rightarrow> remaining \<Rightarrow> string \<Rightarrow> bool option" where
  "try_host anti u asg rem hid = do {
     r \<leftarrow> map_of rem hid;
     a \<leftarrow> map_of asg hid;
     can_place_on_host u r a anti
   }"

definition take_unit :: "unit_vms \<Rightarrow> string \<Rightarrow> assignments \<times> remaining \<Rightarrow> assignments \<times> remaining" where
  "take_unit u hid st =
     (let (ram, cpu) = the (map_of (snd st) hid)
      in (AList.update hid (the (map_of (fst st) hid) @ u_vm_ids u) (fst st),
          AList.update hid (ram - u_ram_mb u, cpu - u_vcpus u) (snd st)))"

fun pack_loop ::
    "(json \<times> string) list \<Rightarrow> unit_vms list \<Rightarrow> assignments \<times> remaining \<Rightarrow> assignments option option" where
  "pack_loop anti [] st = Some (Some (fst st))"
| "pack_loop anti (u # us) st =
     (case ofind (try_host anti u (fst st) (snd st)) (hosts_by_ram (snd st)) of
        None \<Rightarrow> None
      | Some None \<Rightarrow> Some None
      | Some (Some hid) \<Rightarrow> pack_loop anti us (take_unit u hid st))"

definition bin_pack_units ::
    "unit_vms list \<Rightarrow> string list \<Rightarrow> remaining \<Rightarrow> (json \<times> string) list \<Rightarrow> assignments option option" where
  "bin_pack_units units hids rem anti =
     map_option (map_option (filter (\<lambda>hv. snd hv \<noteq> [])))
       (pack_loop anti units (map (\<lambda>hid. (hid, [])) hids, rem))"

section \<open>Hosts of a mesh\<close>

definition mesh_host :: "string option \<Rightarrow> string option \<Rightarrow> host \<Rightarrow> bool" where
  "mesh_host pool prov h \<longleftrightarrow> placement_host h \<and> h_host_type h \<noteq> ''pattern_buffer'' \<and>
     h_host_type h \<noteq> ''kubevirt-cluster'' \<and> host_query pool prov False h"

definition host_remaining_entry :: "host \<Rightarrow> string \<times> rat \<times> rat" where
  "host_remaining_entry h = (h_id h, of_int (h_total_ram_mb h) - h_used_ram_mb h,
     of_int (py_int (of_int (h_total_vcpus h) * 2)) - h_used_vcpus h)"

definition prepare_hosts ::
    "string option \<Rightarrow> string option \<Rightarrow> int option \<Rightarrow> database \<Rightarrow>
     (database \<times> (host list \<times> remaining) option) option" where
  "prepare_hosts pool prov mtu db =
     (let available = filter (mesh_host pool prov) (d_hosts db);
          ok = filter (\<lambda>h. host_mtu_ok h mtu) available
      in if available = [] \<or> ok = [] then Some (db, None)
         else do {
           (db', hosts) \<leftarrow> sync_hosts db ok;
           Some (db', Some (hosts, map host_remaining_entry hosts))
         })"

definition is_workload :: "json \<Rightarrow> bool option" where
  "is_workload n = map_option (\<lambda>t. t = JStr ''vmNode'' \<or> t = JStr ''containerNode'') (get n ''type'')"

definition find_multihost_placement ::
    "json \<Rightarrow> string option \<Rightarrow> string option \<Rightarrow> int option \<Rightarrow> database \<Rightarrow>
     (database \<times> assignments option) option" where
  "find_multihost_placement topology pool prov mtu db = do {
     nodes \<leftarrow> topo_nodes topology;
     vm_nodes \<leftarrow> ofilter is_workload nodes;
     if vm_nodes = [] then Some (db, None)
     else do {
       g \<leftarrow> parse_affinity_groups vm_nodes;
       units \<leftarrow> build_placement_units g;
       (db', prep) \<leftarrow> prepare_hosts pool prov mtu db;
       case prep of
         None \<Rightarrow> Some (db', None)
       | Some (hosts, rem) \<Rightarrow> do {
           r \<leftarrow> bin_pack_units units (map h_id hosts) rem (g_anti g);
           Some (db', r)
         }
     }
   }"

section \<open>The network host and anti-affinity\<close>

definition gateway_step :: "json list \<Rightarrow> json \<Rightarrow> json list option" where
  "gateway_step ids node = do {
     t \<leftarrow> has_type ''vmNode'' node;
     if \<not> t then Some ids
     else do {
       data \<leftarrow> node_data node;
       gw \<leftarrow> get data ''isGateway'';
       if truthy gw then do { i \<leftarrow> index node ''id''; k \<leftarrow> hkey i; Some (ids @ [k]) } else Some ids
     }
   }"

definition select_network_host :: "assignments \<Rightarrow> json \<Rightarrow> string option" where
  "select_network_host asg topology = do {
     nodes \<leftarrow> topo_nodes topology;
     gws \<leftarrow> ofold gateway_step [] nodes;
     hit \<leftarrow> (if gws = [] then Some None
             else ofind (\<lambda>hv. do { ks \<leftarrow> omap hkey (snd hv); Some (list_ex (\<lambda>g. g \<in> set ks) gws) }) asg);
     case hit of
       Some hv \<Rightarrow> Some (fst hv)
     | None \<Rightarrow> py_max_key (\<lambda>hid. length (dict_get asg hid [])) (map fst asg)
   }"

definition count_aa :: "(string \<times> nat) list \<Rightarrow> json \<Rightarrow> (string \<times> nat) list option" where
  "count_aa m n = do {
     w \<leftarrow> is_workload n;
     if \<not> w then Some m
     else do {
       data \<leftarrow> node_data n;
       aa \<leftarrow> get data ''separateHost'';
       Some (case as_str aa of
               Some s \<Rightarrow> if s \<noteq> [] then AList.update s (dict_get m s 0 + 1) m else m
             | None \<Rightarrow> m)
     }
   }"

definition has_anti_affinity :: "json \<Rightarrow> bool option" where
  "has_anti_affinity topology = do {
     nodes \<leftarrow> topo_nodes topology;
     m \<leftarrow> ofold count_aa [] nodes;
     Some (list_ex (\<lambda>kv. snd kv > 1) m)
   }"

end
