(* ===== verification/Vni_Alloc.thy ===== *)
theory Vni_Alloc
  imports Models
begin

unbundle bit_operations_syntax

text \<open>
  VNI allocation and transit addressing of \<open>src/src/backend/app/services/vxlan.py\<close>: which
  VNIs are taken, the allocation loop with its high-water-mark file, and the transit subnet
  derived from a VNI. The state is the project table and the high-water-mark file; the lock
  makes one allocation one step.
\<close>

definition VNI_MIN :: int where "VNI_MIN = 1000"
definition VNI_MAX :: int where "VNI_MAX = 16777000"

record transit =
  t_host_ip :: string
  t_ns_ip :: string
  t_cidr :: string

definition ip4 :: "int \<Rightarrow> int \<Rightarrow> string" where
  "ip4 c d = ''172.30.'' @ int_str c @ ''.'' @ int_str d"

definition transit_subnet :: "int \<Rightarrow> transit" where
  "transit_subnet vni =
     (let octet3 = drop_bit 2 vni AND 0xFF;
          octet4_base = (vni AND 0x03) * 4
      in \<lparr>t_host_ip = ip4 octet3 (octet4_base + 1),
          t_ns_ip = ip4 octet3 (octet4_base + 2),
          t_cidr = ip4 octet3 octet4_base @ ''/30''\<rparr>)"

text \<open>The values of every stored \<open>vni_map\<close>; rows without a map are skipped.\<close>

definition project_vnis :: "project \<Rightarrow> int list option" where
  "project_vnis p =
     (if p_vni_map p = JNull then Some []
      else do {
        vals \<leftarrow> py_values (py_or (p_vni_map p) (JObj []));
        omap int_of_json vals
      })"

definition get_all_used_vnis :: "project list \<Rightarrow> int list option" where
  "get_all_used_vnis projects = map_option concat (omap project_vnis projects)"

datatype file_text = Missing | Content string | Unreadable

datatype vni_error = PoolExhausted | BadTopology | HwmUnreadable

text \<open>A missing file and a file that is no number leave the default; any other failure to
  open the file is not caught.\<close>

fun read_hwm :: "file_text \<Rightarrow> int option" where
  "read_hwm Missing = Some (VNI_MIN - 1)"
| "read_hwm (Content s) =
     Some (case parse_int (py_strip s) of None \<Rightarrow> VNI_MIN - 1 | Some n \<Rightarrow> n)"
| "read_hwm Unreadable = None"

definition is_vni_network :: "json \<Rightarrow> bool option" where
  "is_vni_network n = do {
     t \<leftarrow> has_type ''networkNode'' n;
     if \<not> t then Some False
     else do {
       data \<leftarrow> node_data n;
       st \<leftarrow> get data ''subtype'';
       nt \<leftarrow> get data ''networkType'';
       Some (st = JStr ''network'' \<and> nt \<noteq> JStr ''bmc'')
     }
   }"

fun vni_loop :: "int \<Rightarrow> json list \<Rightarrow> (json \<times> int) list \<Rightarrow> vni_error + (json \<times> int) list" where
  "vni_loop next_vni [] vni_map = Inr vni_map"
| "vni_loop next_vni (node # nodes) vni_map =
     (if next_vni > VNI_MAX then Inl PoolExhausted
      else (case Option.bind (index node ''id'') hkey of
              None \<Rightarrow> Inl BadTopology
            | Some i \<Rightarrow> vni_loop (next_vni + 1) nodes (AList.update i next_vni vni_map)))"

definition write_hwm :: "bool \<Rightarrow> (json \<times> int) list \<Rightarrow> file_text \<Rightarrow> file_text" where
  "write_hwm writable vni_map hwm_file =
     (if vni_map \<noteq> [] \<and> writable
      then Content (int_str (max_default (map snd vni_map) 0)) else hwm_file)"

definition allocate_vnis_for_project ::
    "project list \<Rightarrow> file_text \<Rightarrow> bool \<Rightarrow> json \<Rightarrow> vni_error + ((json \<times> int) list \<times> file_text)" where
  "allocate_vnis_for_project projects hwm_file writable topology =
     (case Option.bind (topo_nodes topology) (ofilter is_vni_network) of
        None \<Rightarrow> Inl BadTopology
      | Some network_nodes \<Rightarrow>
     (case get_all_used_vnis projects of
        None \<Rightarrow> Inl BadTopology
      | Some used_vnis \<Rightarrow>
     (case read_hwm hwm_file of
        None \<Rightarrow> Inl HwmUnreadable
      | Some file_hwm \<Rightarrow>
          let db_max = max_default used_vnis (VNI_MIN - 1);
              next_vni = max db_max file_hwm + 1
          in (case vni_loop next_vni network_nodes [] of
                Inl e \<Rightarrow> Inl e
              | Inr vni_map \<Rightarrow> Inr (vni_map, write_hwm writable vni_map hwm_file)))))"

section \<open>What one allocation returns\<close>

definition vni_ok :: "int \<Rightarrow> int \<Rightarrow> (json \<times> int) list \<Rightarrow> bool" where
  "vni_ok lo n m \<longleftrightarrow> distinct (map fst m) \<and> distinct (map snd m) \<and>
     (\<forall>v\<in>snd ` set m. lo \<le> v \<and> v < n)"

lemma vni_ok_update:
  assumes "vni_ok lo n m" "lo \<le> n"
  shows "vni_ok lo (n + 1) (AList.update i n m)"
proof -
  have "n \<notin> snd ` set m" using assms(1) by (auto simp: vni_ok_def)
  moreover have "\<forall>v\<in>snd ` set (AList.update i n m). lo \<le> v \<and> v < n + 1"
    using assms update_values_subset [of i n m] by (fastforce simp: vni_ok_def)
  ultimately show ?thesis
    using assms(1) by (simp add: vni_ok_def distinct_update_values distinct_update_keys)
qed

lemma vni_loop_ok:
  "vni_loop n nodes m = Inr m' \<Longrightarrow> vni_ok lo n m \<Longrightarrow> lo \<le> n \<Longrightarrow> n \<le> VNI_MAX + 1 \<or> m = m' \<Longrightarrow>
     vni_ok lo (max n (VNI_MAX + 1)) m'"
proof (induction n nodes m rule: vni_loop.induct)
  case (1 n m)
  then show ?case by (auto simp: vni_ok_def)
next
  case (2 n node nodes m)
  from 2(2) obtain i where i: "Option.bind (index node ''id'') hkey = Some i" "\<not> n > VNI_MAX"
      "vni_loop (n + 1) nodes (AList.update i n m) = Inr m'"
    by (auto split: if_splits option.splits)
  have "vni_ok lo (max (n + 1) (VNI_MAX + 1)) m'"
    using 2(1) [OF i(2,1,3)] 2(3,4) i(2) vni_ok_update by auto
  with i(2) show ?case by simp
qed

lemma vni_loop_no_room:
  assumes "\<forall>nd\<in>set nodes. Option.bind (index nd ''id'') hkey \<noteq> None"
    and "VNI_MAX + 1 < n + int (length nodes)"
  shows "vni_loop n nodes m = Inl PoolExhausted \<or> nodes = []"
  using assms
  by (induction n nodes m rule: vni_loop.induct) (auto split: option.splits)

lemma vni_loop_enough:
  assumes "\<forall>nd\<in>set nodes. Option.bind (index nd ''id'') hkey \<noteq> None"
    and "n + int (length nodes) \<le> VNI_MAX + 1"
  shows "\<exists>m'. vni_loop n nodes m = Inr m' \<and>
    fst ` set m' = fst ` set m \<union> {i. \<exists>nd\<in>set nodes. Option.bind (index nd ''id'') hkey = Some i}"
  using assms
proof (induction n nodes m rule: vni_loop.induct)
  case (1 n m)
  then show ?case by simp
next
  case (2 n node nodes m)
  then obtain i where i: "Option.bind (index node ''id'') hkey = Some i" by auto
  from 2 i obtain m' where "vni_loop (n + 1) nodes (AList.update i n m) = Inr m'"
      "fst ` set m' = fst ` set (AList.update i n m) \<union>
        {i. \<exists>nd\<in>set nodes. Option.bind (index nd ''id'') hkey = Some i}"
    by force
  with i 2(3) show ?case by (auto simp: AList.dom_update)
qed

lemma allocate_vnis_cases:
  assumes "allocate_vnis_for_project projects hwm w topology = Inr (m, hwm')"
  obtains nodes used h where
    "Option.bind (topo_nodes topology) (ofilter is_vni_network) = Some nodes"
    "get_all_used_vnis projects = Some used" "read_hwm hwm = Some h"
    "vni_loop (max (max_default used (VNI_MIN - 1)) h + 1) nodes [] = Inr m"
    "hwm' = write_hwm w m hwm"
  using assms
  by (auto simp: allocate_vnis_for_project_def Let_def split: option.splits sum.splits)

lemma allocate_vnis_fresh:
  assumes "allocate_vnis_for_project projects hwm w topology = Inr (m, hwm')"
    and "get_all_used_vnis projects = Some used" "read_hwm hwm = Some h"
  shows "distinct (map fst m)" "distinct (map snd m)"
    "\<forall>v\<in>snd ` set m. max (max_default used (VNI_MIN - 1)) h < v \<and> v \<le> VNI_MAX"
proof -
  let ?n = "max (max_default used (VNI_MIN - 1)) h + 1"
  from assms(1) obtain nodes where nodes: "vni_loop ?n nodes [] = Inr m"
    by (rule allocate_vnis_cases) (use assms(2,3) in auto)
  have "vni_ok ?n ?n []" by (simp add: vni_ok_def)
  moreover have "?n \<le> VNI_MAX + 1 \<or> [] = m" using nodes by (cases nodes) (auto split: if_splits)
  ultimately have "vni_ok ?n (max ?n (VNI_MAX + 1)) m" "?n \<le> VNI_MAX + 1 \<or> m = []"
    using vni_loop_ok [OF nodes, of ?n] by auto
  then show "distinct (map fst m)" "distinct (map snd m)"
    "\<forall>v\<in>snd ` set m. max (max_default used (VNI_MIN - 1)) h < v \<and> v \<le> VNI_MAX"
    by (auto simp: vni_ok_def)
qed

section \<open>A VNI is never issued twice\<close>

text \<open>The allocator over time: \<open>s_issued\<close> records every VNI it ever returned. Between
  allocations the project table changes freely (projects are stored, edited, deleted), as
  long as the VNIs stored in it were issued.\<close>

record vni_sys =
  s_projects :: "project list"
  s_hwm :: file_text
  s_issued :: "int list"

inductive vni_step :: "vni_sys \<Rightarrow> vni_sys \<Rightarrow> bool" where
  vni_allocate: "allocate_vnis_for_project (s_projects s) (s_hwm s) True topology = Inr (m, hwm') \<Longrightarrow>
    vni_step s (s\<lparr>s_hwm := hwm', s_issued := s_issued s @ map snd m\<rparr>)"
| vni_store: "get_all_used_vnis ps = Some used \<Longrightarrow> set used \<subseteq> set (s_issued s) \<Longrightarrow>
    vni_step s (s\<lparr>s_projects := ps\<rparr>)"

inductive_cases vni_stepE: "vni_step s t"

definition vni_init :: "vni_sys \<Rightarrow> bool" where
  "vni_init s \<longleftrightarrow> get_all_used_vnis (s_projects s) = Some [] \<and> s_hwm s = Missing \<and> s_issued s = []"

definition vni_inv :: "vni_sys \<Rightarrow> bool" where
  "vni_inv s \<longleftrightarrow> distinct (s_issued s) \<and>
     (\<forall>v\<in>set (s_issued s). VNI_MIN \<le> v \<and> v \<le> VNI_MAX) \<and>
     (\<exists>h. read_hwm (s_hwm s) = Some h \<and> VNI_MIN - 1 \<le> h \<and> (\<forall>v\<in>set (s_issued s). v \<le> h)) \<and>
     (\<exists>used. get_all_used_vnis (s_projects s) = Some used \<and> set used \<subseteq> set (s_issued s))"

lemma read_write_hwm:
  assumes "m \<noteq> []"
  shows "read_hwm (write_hwm True m hwm) = Some (max_default (map snd m) 0)"
  using assms by (simp add: write_hwm_def py_strip_solid [OF int_str_solid])

lemma write_hwm_Nil [simp]: "write_hwm w [] hwm = hwm"
  by (simp add: write_hwm_def)

lemma vni_inv_allocate:
  assumes "vni_inv s"
    and alloc: "allocate_vnis_for_project (s_projects s) (s_hwm s) True topology = Inr (m, hwm')"
  shows "vni_inv (s\<lparr>s_hwm := hwm', s_issued := s_issued s @ map snd m\<rparr>)"
proof -
  from assms(1) obtain h used where h: "read_hwm (s_hwm s) = Some h" "VNI_MIN - 1 \<le> h"
      "\<forall>v\<in>set (s_issued s). v \<le> h" "get_all_used_vnis (s_projects s) = Some used"
      "set used \<subseteq> set (s_issued s)"
    by (auto simp: vni_inv_def)
  note fresh = allocate_vnis_fresh [OF alloc h(4,1)]
  have hwm': "hwm' = write_hwm True m (s_hwm s)"
    using alloc by (rule allocate_vnis_cases) simp
  have above: "\<forall>v\<in>snd ` set m. h < v \<and> v \<le> VNI_MAX" using fresh(3) by auto
  show ?thesis
  proof (cases "m = []")
    case True
    then show ?thesis using assms(1) by (simp add: hwm' vni_inv_def)
  next
    case False
    let ?top = "max_default (map snd m) 0"
    have top: "?top \<in> set (map snd m)" "\<forall>v\<in>set (map snd m). v \<le> ?top"
      using False max_default_in [of "map snd m" 0] max_default_ge [of _ "map snd m" 0] by auto
    have "distinct (s_issued s @ map snd m)"
      using assms(1) fresh(2) above h(3) by (fastforce simp: vni_inv_def)
    moreover have "\<forall>v\<in>set (s_issued s @ map snd m). VNI_MIN \<le> v \<and> v \<le> VNI_MAX"
      using assms(1) above h(2) by (fastforce simp: vni_inv_def)
    moreover have "VNI_MIN - 1 \<le> ?top" "\<forall>v\<in>set (s_issued s @ map snd m). v \<le> ?top"
      using top above h(2,3) by fastforce+
    ultimately show ?thesis
      using h(4,5) by (auto simp: vni_inv_def hwm' read_write_hwm [OF False])
  qed
qed

interpretation vni: invariant_system vni_init vni_step vni_inv
proof
  show "vni_init s \<Longrightarrow> vni_inv s" for s
    by (auto simp: vni_init_def vni_inv_def)
  show "vni_inv s \<Longrightarrow> vni_step s t \<Longrightarrow> vni_inv t" for s t
    by (erule vni_stepE) (simp_all add: vni_inv_allocate, auto simp: vni_inv_def)
qed

section \<open>Transit addresses\<close>

lemma and_mask_mod: "(v::int) AND 0xFF = v mod 256" "(v::int) AND 0x03 = v mod 4"
  using take_bit_eq_mask [of 8 v] take_bit_eq_mask [of 2 v]
  by (simp_all add: take_bit_eq_mod mask_eq_exp_minus_1)

lemma transit_subnet_eq:
  "transit_subnet vni =
     \<lparr>t_host_ip = ip4 (vni div 4 mod 256) (vni mod 4 * 4 + 1),
      t_ns_ip = ip4 (vni div 4 mod 256) (vni mod 4 * 4 + 2),
      t_cidr = ip4 (vni div 4 mod 256) (vni mod 4 * 4) @ ''/30''\<rparr>"
  by (simp add: transit_subnet_def and_mask_mod drop_bit_eq_div Let_def)

lemma ip4_inject [simp]: "ip4 c d = ip4 c' d' \<longleftrightarrow> c = c' \<and> d = d'"
  by (simp add: ip4_def append_sep_inject int_str_no_dot)

lemma split_1024: "v div 4 mod 256 = w div 4 mod 256 \<and> v mod 4 = w mod 4 \<longleftrightarrow> v mod 1024 = w mod 1024"
  for v w :: int
proof -
  have m: "x mod 1024 = 4 * (x div 4 mod 256) + x mod 4" for x :: int
    using zmod_zmult2_eq [of 256 x 4] by simp
  have "0 \<le> x mod 4 \<and> x mod 4 < 4" for x :: int by simp
  then show ?thesis unfolding m by (smt (verit) div_mult_self4 div_pos_pos_trivial mod_mult_self4)
qed

text \<open>Two VNIs get the same transit subnet exactly when they agree modulo 1024, so the
  subnet is unique among any 1024 consecutive VNIs and not beyond; the two ends of the link
  are the two usable addresses of the subnet's /30 block.\<close>

theorem transit_subnet_unique_mod_1024:
  "(transit_subnet v = transit_subnet w \<longleftrightarrow> v mod 1024 = w mod 1024) \<and>
   (\<exists>c d. transit_subnet v = \<lparr>t_host_ip = ip4 c (d + 1), t_ns_ip = ip4 c (d + 2),
        t_cidr = ip4 c d @ ''/30''\<rparr> \<and> 0 \<le> c \<and> c \<le> 255 \<and> 4 dvd d \<and> 0 \<le> d \<and> d \<le> 12)"
proof
  show "transit_subnet v = transit_subnet w \<longleftrightarrow> v mod 1024 = w mod 1024"
    using split_1024 [of v w] by (auto simp: transit_subnet_eq)
  show "\<exists>c d. transit_subnet v = \<lparr>t_host_ip = ip4 c (d + 1), t_ns_ip = ip4 c (d + 2),
        t_cidr = ip4 c d @ ''/30''\<rparr> \<and> 0 \<le> c \<and> c \<le> 255 \<and> 4 dvd d \<and> 0 \<le> d \<and> d \<le> 12"
    by (rule exI [of _ "v div 4 mod 256"], rule exI [of _ "v mod 4 * 4"])
      (simp add: transit_subnet_eq, presburger)
qed

section \<open>The allocator's properties\<close>


definition net_node :: "string \<Rightarrow> json" where
  "net_node i = JObj [(''id'', JStr i), (''type'', JStr ''networkNode''),
     (''data'', JObj [(''subtype'', JStr ''network''), (''networkType'', JStr ''lab'')])]"

definition two_networks :: json where
  "two_networks = JObj [(''nodes'', JList [net_node ''n1'', net_node ''n2''])]"

lemma allocate_two_networks:
  "allocate_vnis_for_project [] Missing True two_networks =
     Inr ([(JStr ''n1'', 1000), (JStr ''n2'', 1001)], Content ''1001'')"
  by code_simp


text \<open>When the topology's lab networks have ids and the pool above every VNI in use and
  the high-water mark has room for them, allocation succeeds with exactly one VNI per network
  id, all above the VNIs in use and the mark; it reports an exhausted pool only when there is
  no such room.\<close>

theorem allocate_vnis_total:
  assumes nodes: "Option.bind (topo_nodes topology) (ofilter is_vni_network) = Some nodes"
    and used: "get_all_used_vnis projects = Some used" and h: "read_hwm hwm = Some h"
    and ids: "\<forall>nd\<in>set nodes. Option.bind (index nd ''id'') hkey \<noteq> None"
  shows "if max (max_default used 999) h + int (length nodes) \<le> 16777000
    then \<exists>m hwm'. allocate_vnis_for_project projects hwm w topology = Inr (m, hwm') \<and>
      distinct (map fst m) \<and> distinct (map snd m) \<and>
      fst ` set m = {i. \<exists>nd\<in>set nodes. Option.bind (index nd ''id'') hkey = Some i} \<and>
      (\<forall>v\<in>snd ` set m. h < v \<and> v \<notin> set used \<and> v \<le> 16777000)
    else allocate_vnis_for_project projects hwm w topology = Inl PoolExhausted \<or> nodes = []"
proof -
  let ?n = "max (max_default used 999) h + 1"
  have alloc: "allocate_vnis_for_project projects hwm w topology =
      (case vni_loop ?n nodes [] of Inl e \<Rightarrow> Inl e | Inr m \<Rightarrow> Inr (m, write_hwm w m hwm))"
    using nodes used h by (simp add: allocate_vnis_for_project_def VNI_MIN_def)
  show ?thesis
  proof (cases "max (max_default used 999) h + int (length nodes) \<le> 16777000")
    case True
    then obtain m where m: "vni_loop ?n nodes [] = Inr m"
        "fst ` set m = {i. \<exists>nd\<in>set nodes. Option.bind (index nd ''id'') hkey = Some i}"
      using vni_loop_enough [OF ids, of ?n "[]"] by (auto simp: VNI_MAX_def)
    then have "allocate_vnis_for_project projects hwm w topology = Inr (m, write_hwm w m hwm)"
      by (simp add: alloc)
    moreover note allocate_vnis_fresh [OF this used h]
    moreover have "\<forall>v\<in>set used. v \<le> max_default used 999" by (auto intro: max_default_ge)
    ultimately show ?thesis using True m(2) by (fastforce simp: VNI_MIN_def VNI_MAX_def)
  next
    case False
    then have "vni_loop ?n nodes [] = Inl PoolExhausted \<or> nodes = []"
      by (intro vni_loop_no_room [OF ids]) (simp add: VNI_MAX_def)
    with False show ?thesis by (auto simp: alloc)
  qed
qed

theorem allocate_vnis_total_witness:
  "\<exists>m hwm'. allocate_vnis_for_project [] Missing True two_networks = Inr (m, hwm') \<and>
     fst ` set m = {JStr ''n1'', JStr ''n2''} \<and> (\<forall>v\<in>snd ` set m. 999 < v)"
proof -
  have "Option.bind (topo_nodes two_networks) (ofilter is_vni_network) =
      Some [net_node ''n1'', net_node ''n2'']"
    by code_simp
  moreover have "get_all_used_vnis [] = Some []" "read_hwm Missing = Some 999"
    by (simp_all add: get_all_used_vnis_def VNI_MIN_def)
  ultimately have "if max (max_default [] 999) 999 + int (length [net_node ''n1'', net_node ''n2'']) \<le> 16777000
    then \<exists>m hwm'. allocate_vnis_for_project [] Missing True two_networks = Inr (m, hwm') \<and>
      distinct (map fst m) \<and> distinct (map snd m) \<and>
      fst ` set m = {i. \<exists>nd\<in>set [net_node ''n1'', net_node ''n2''].
        Option.bind (index nd ''id'') hkey = Some i} \<and>
      (\<forall>v\<in>snd ` set m. 999 < v \<and> v \<notin> set [] \<and> v \<le> 16777000)
    else allocate_vnis_for_project [] Missing True two_networks = Inl PoolExhausted \<or>
      [net_node ''n1'', net_node ''n2''] = []"
    by (rule allocate_vnis_total) (simp add: net_node_def)
  then show ?thesis by (auto simp: max_default_def net_node_def)
qed

end
