(* ===== verification/Ipv4.thy ===== *)
theory Ipv4
  imports Py_Json
begin

text \<open>
  What \<open>vxlan.py\<close> uses of Python's \<open>ipaddress\<close> module for IPv4 networks
  (\<open>ip_network(text, strict=False)\<close>, \<open>network_address\<close>, \<open>hosts()\<close>, \<open>str\<close> of an
  address), and its own deterministic MAC address for a reservation. An address is its value
  as an integer; a text that is no IPv4 network is rejected, IPv6 networks included.
\<close>

record ip4_network =
  net_addr :: int
  net_prefix :: nat

definition octet_of_text :: "string \<Rightarrow> int option" where
  "octet_of_text s =
     (if s = [] \<or> \<not> list_all is_digit s \<or> length s > 3 then None
      else if s \<noteq> ''0'' \<and> hd s = CHR ''0'' then None
      else (let n = digits_val s in if n > 255 then None else Some (int n)))"

definition addr_of_text :: "string \<Rightarrow> int option" where
  "addr_of_text s =
     (case py_split (CHR ''.'') s of
        [a, b, c, d] \<Rightarrow> do {
          w \<leftarrow> octet_of_text a; x \<leftarrow> octet_of_text b; y \<leftarrow> octet_of_text c; z \<leftarrow> octet_of_text d;
          Some (((w * 256 + x) * 256 + y) * 256 + z) }
      | _ \<Rightarrow> None)"

text \<open>The prefix: a number up to 32, or else a netmask or a hostmask.\<close>

definition prefix_of_text :: "string \<Rightarrow> nat option" where
  "prefix_of_text s =
     (if s \<noteq> [] \<and> list_all is_digit s \<and> digits_val s \<le> 32 then Some (digits_val s)
      else do {
        m \<leftarrow> addr_of_text s;
        case find (\<lambda>k. m = 2 ^ 32 - 2 ^ (32 - k)) [0..<33] of
          Some k \<Rightarrow> Some k
        | None \<Rightarrow> find (\<lambda>k. m = 2 ^ (32 - k) - 1) [0..<33]
      })"

definition mask_addr :: "int \<Rightarrow> nat \<Rightarrow> int" where
  "mask_addr a k = a - a mod 2 ^ (32 - k)"

definition ip_network :: "string \<Rightarrow> ip4_network option" where
  "ip_network s =
     (case py_split (CHR ''/'') s of
        [a] \<Rightarrow> map_option (\<lambda>v. \<lparr>net_addr = v, net_prefix = 32\<rparr>) (addr_of_text a)
      | [a, p] \<Rightarrow> do {
          v \<leftarrow> addr_of_text a; k \<leftarrow> prefix_of_text p;
          Some \<lparr>net_addr = mask_addr v k, net_prefix = k\<rparr> }
      | _ \<Rightarrow> None)"

definition addr_text :: "int \<Rightarrow> string" where
  "addr_text a = int_str (a div 2 ^ 24 mod 256) @ ''.'' @ int_str (a div 2 ^ 16 mod 256) @ ''.'' @
     int_str (a div 2 ^ 8 mod 256) @ ''.'' @ int_str (a mod 256)"

text \<open>\<open>list(network.hosts())\<close> as its first address and its length: all addresses but the
  first and the last, except on /31 and /32 networks.\<close>

definition hosts_first :: "ip4_network \<Rightarrow> int" where
  "hosts_first n = (if net_prefix n \<ge> 31 then net_addr n else net_addr n + 1)"

definition hosts_len :: "ip4_network \<Rightarrow> int" where
  "hosts_len n = (if net_prefix n = 32 then 1 else if net_prefix n = 31 then 2
     else 2 ^ (32 - net_prefix n) - 2)"

text \<open>\<open>hosts[i]\<close> with Python's negative indices.\<close>

definition hosts_nth :: "ip4_network \<Rightarrow> int \<Rightarrow> int option" where
  "hosts_nth n i = (let j = (if i < 0 then i + hosts_len n else i)
     in if 0 \<le> j \<and> j < hosts_len n then Some (hosts_first n + j) else None)"

section \<open>The MAC address of a reservation\<close>

definition hex_digit :: "int \<Rightarrow> char" where
  "hex_digit d = (if d < 10 then char_of (48 + nat d) else char_of (87 + nat d))"

definition hex2 :: "int \<Rightarrow> string" where
  "hex2 n = [hex_digit (n div 16), hex_digit (n mod 16)]"

definition bogus_mac_for_ip :: "string \<Rightarrow> string option" where
  "bogus_mac_for_ip ip = do {
     parts \<leftarrow> omap (\<lambda>p. map_option (\<lambda>i. i mod 256) (parse_int p)) (py_split (CHR ''.'') ip);
     (case parts of
        a # b # c # d # _ \<Rightarrow>
          Some (''02:00:'' @ hex2 a @ '':'' @ hex2 b @ '':'' @ hex2 c @ '':'' @ hex2 d)
      | _ \<Rightarrow> None)
   }"

lemma py_split_sep: "c \<notin> set a \<Longrightarrow> py_split c (a @ c # b) = a # py_split c b"
  by (induction a) auto

lemma py_split_addr_text:
  "py_split (CHR ''.'') (addr_text a) =
     [int_str (a div 2 ^ 24 mod 256), int_str (a div 2 ^ 16 mod 256),
      int_str (a div 2 ^ 8 mod 256), int_str (a mod 256)]"
  by (simp add: addr_text_def py_split_sep py_split_no_sep int_str_no_dot)

lemma addr_split:
  fixes a :: int
  assumes "0 \<le> a" "a < 2 ^ 32"
  shows "a = ((a div 2 ^ 24 mod 256 * 256 + a div 2 ^ 16 mod 256) * 256 + a div 2 ^ 8 mod 256) * 256 +
    a mod 256"
proof -
  define p q r where "p = a div 256" and "q = p div 256" and "r = q div 256"
  have d: "a div 2 ^ 8 = p" "a div 2 ^ 16 = q" "a div 2 ^ 24 = r"
    by (simp_all add: p_def q_def r_def flip: zdiv_zmult2_eq)
  have "0 \<le> r" "r < 256" using assms by (simp_all add: div_less_iff_less_mult flip: d)
  then have "r mod 256 = r" by simp
  moreover have "r * 256 + q mod 256 = q" "q * 256 + p mod 256 = p" "p * 256 + a mod 256 = a"
    by (simp_all add: p_def q_def r_def)
  ultimately show ?thesis unfolding d by simp
qed

lemma addr_eqI:
  fixes a b :: int
  assumes "0 \<le> a" "a < 2 ^ 32" "0 \<le> b" "b < 2 ^ 32"
    and "a div 2 ^ 24 mod 256 = b div 2 ^ 24 mod 256" "a div 2 ^ 16 mod 256 = b div 2 ^ 16 mod 256"
    "a div 2 ^ 8 mod 256 = b div 2 ^ 8 mod 256" "a mod 256 = b mod 256"
  shows "a = b"
  by (rule trans [OF addr_split [OF assms(1,2)]], subst addr_split [OF assms(3,4)])
    (simp only: assms(5-8))

lemma addr_text_inject:
  assumes "0 \<le> a" "a < 2 ^ 32" "0 \<le> b" "b < 2 ^ 32" "addr_text a = addr_text b"
  shows "a = b"
proof -
  have "a div 2 ^ 24 mod 256 = b div 2 ^ 24 mod 256" "a div 2 ^ 16 mod 256 = b div 2 ^ 16 mod 256"
    "a div 2 ^ 8 mod 256 = b div 2 ^ 8 mod 256" "a mod 256 = b mod 256"
    using arg_cong [OF assms(5), of "py_split (CHR ''.'')"] by (simp_all add: py_split_addr_text)
  then show ?thesis by (rule addr_eqI [OF assms(1-4)])
qed

lemma hex_digit_inject:
  assumes "0 \<le> d" "d < 16" "0 \<le> e" "e < 16" "hex_digit d = hex_digit e"
  shows "d = e"
proof -
  have v: "(of_char (hex_digit x) :: nat) = (if x < 10 then 48 + nat x else 87 + nat x)"
    if "0 \<le> x" "x < 16" for x
    using that by (auto simp: hex_digit_def)
  have "(of_char (hex_digit d) :: nat) = of_char (hex_digit e)" using assms(5) by simp
  then show ?thesis using v [of d] v [of e] assms by (auto split: if_splits)
qed

lemma hex2_inject:
  assumes "0 \<le> m" "m < 256" "0 \<le> n" "n < 256" "hex2 m = hex2 n"
  shows "m = n"
proof -
  have "m div 16 < 16" "n div 16 < 16" "0 \<le> m div 16" "0 \<le> n div 16" using assms by auto
  then have "m div 16 = n div 16" "m mod 16 = n mod 16"
    using assms(5) hex_digit_inject by (auto simp: hex2_def)
  then show ?thesis by (metis div_mult_mod_eq)
qed

lemma bogus_mac_addr_text:
  "bogus_mac_for_ip (addr_text a) = Some (''02:00:'' @ hex2 (a div 2 ^ 24 mod 256) @ '':'' @
     hex2 (a div 2 ^ 16 mod 256) @ '':'' @ hex2 (a div 2 ^ 8 mod 256) @ '':'' @ hex2 (a mod 256))"
  by (simp add: bogus_mac_for_ip_def py_split_addr_text)

text \<open>The MAC address derived for a reserved IPv4 address is defined for every address,
  starts with the locally administered prefix \<open>02:00:\<close> (so it is never a VM NIC's
  \<open>52:54:\<close> address) and differs for different addresses.\<close>

theorem bogus_mac_injective:
  assumes "0 \<le> a" "a < 2 ^ 32" "0 \<le> b" "b < 2 ^ 32"
  shows "\<exists>m n. bogus_mac_for_ip (addr_text a) = Some m \<and> bogus_mac_for_ip (addr_text b) = Some n \<and>
    starts_with m ''02:00:'' \<and> \<not> starts_with m ''52:54:'' \<and> (m = n \<longleftrightarrow> a = b)"
proof -
  have inj: "a = b" if "bogus_mac_for_ip (addr_text a) = bogus_mac_for_ip (addr_text b)"
  proof -
    have len: "length (hex2 x) = 2" for x by (simp add: hex2_def)
    have "hex2 (a div 2 ^ 24 mod 256) = hex2 (b div 2 ^ 24 mod 256)"
      "hex2 (a div 2 ^ 16 mod 256) = hex2 (b div 2 ^ 16 mod 256)"
      "hex2 (a div 2 ^ 8 mod 256) = hex2 (b div 2 ^ 8 mod 256)"
      "hex2 (a mod 256) = hex2 (b mod 256)"
      using that by (simp_all add: bogus_mac_addr_text len)
    then have "a div 2 ^ 24 mod 256 = b div 2 ^ 24 mod 256" "a div 2 ^ 16 mod 256 = b div 2 ^ 16 mod 256"
      "a div 2 ^ 8 mod 256 = b div 2 ^ 8 mod 256" "a mod 256 = b mod 256"
      by (auto intro: hex2_inject)
    then show ?thesis by (rule addr_eqI [OF assms])
  qed
  obtain m n where mn: "bogus_mac_for_ip (addr_text a) = Some m" "bogus_mac_for_ip (addr_text b) = Some n"
    and m: "\<exists>rest. m = ''02:00:'' @ rest"
    using bogus_mac_addr_text by blast
  have "starts_with m ''02:00:''" "\<not> starts_with m ''52:54:''"
    using m by (auto simp: starts_with_def)
  moreover have "m = n \<longleftrightarrow> a = b" using mn inj by auto
  ultimately show ?thesis using mn by blast
qed

theorem bogus_mac_injective_witness:
  "\<exists>m n. bogus_mac_for_ip (addr_text 167772161) = Some m \<and> bogus_mac_for_ip (addr_text 167772162) = Some n \<and>
    starts_with m ''02:00:'' \<and> \<not> starts_with m ''52:54:'' \<and> (m = n \<longleftrightarrow> (167772161::int) = 167772162)"
  by (rule bogus_mac_injective) simp_all

lemma octet_bounds: "octet_of_text s = Some v \<Longrightarrow> 0 \<le> v \<and> v \<le> 255"
  by (auto simp: octet_of_text_def Let_def split: if_splits)

lemma addr_of_text_nonneg: "addr_of_text s = Some a \<Longrightarrow> 0 \<le> a"
  by (auto simp: addr_of_text_def bind_eq_Some_conv dest!: octet_bounds split: list.splits)

lemma ip_network_nonneg: "ip_network s = Some n \<Longrightarrow> 0 \<le> net_addr n"
proof -
  have "0 \<le> a \<Longrightarrow> 0 \<le> mask_addr a k" for a k
    by (simp add: mask_addr_def zmod_le_nonneg_dividend)
  then show "ip_network s = Some n \<Longrightarrow> 0 \<le> net_addr n"
    by (auto simp: ip_network_def bind_eq_Some_conv dest: addr_of_text_nonneg split: list.splits)
qed

end
