(* ===== verification/Vxlan.thy ===== *)
theory Vxlan
  imports Vni_Alloc Ipv4
begin

text \<open>
  The network configuration \<open>src/src/backend/app/services/vxlan.py\<close> computes for the host
  agent: per lab network its connected workloads, DHCP reservations, DNS records and PXE
  settings. Python sets are lists without repetition; where the source iterates over a set
  of ids the order is a parameter. The helpers it calls from \<open>template_loader.py\<close> and
  \<open>deploy_topology.py\<close> are modelled here too.
\<close>

definition add_once :: "'a \<Rightarrow> 'a list \<Rightarrow> 'a list" where
  "add_once x xs = (if x \<in> set xs then xs else xs @ [x])"

lemma set_add_once [simp]: "set (add_once x xs) = insert x (set xs)"
  by (auto simp: add_once_def)

lemma distinct_add_once [simp]: "distinct xs \<Longrightarrow> distinct (add_once x xs)"
  by (simp add: add_once_def)

section \<open>Workloads of a network\<close>

definition is_nic_on_network :: "json \<Rightarrow> json \<Rightarrow> json \<Rightarrow> json list \<Rightarrow> bool option" where
  "is_nic_on_network vm_node_id network_node_id nic_id edges = do {
     s \<leftarrow> py_str nic_id;
     let handle_top = JStr (''nic-'' @ s @ ''-top'');
     let handle_bottom = JStr (''nic-'' @ s @ ''-bottom'');
     oany (\<lambda>e. do {
       src \<leftarrow> get e ''source'';
       tgt \<leftarrow> get e ''target'';
       if src = vm_node_id \<and> tgt = network_node_id then do {
         sh \<leftarrow> get e ''sourceHandle''; Some (sh = handle_top \<or> sh = handle_bottom) }
       else if tgt = vm_node_id \<and> src = network_node_id then do {
         th \<leftarrow> get e ''targetHandle''; Some (th = handle_top \<or> th = handle_bottom) }
       else Some False
     }) edges
   }"

definition extract_pxe_boot_config :: "json \<Rightarrow> (string \<times> json) list option" where
  "extract_pxe_boot_config vm_data =
     ofold (\<lambda>config field. do {
       v \<leftarrow> get vm_data field;
       Some (if truthy v then AList.update field v config else config)
     }) [] [''pxeMethod'', ''pxeNextServer'', ''pxeBootFile'', ''ipxeScriptUrl'', ''uefiBootUrl'']"

record dhcp_host =
  dh_mac :: json
  dh_ip :: json
  dh_name :: json

definition collect_dhcp_hosts_for_vm ::
    "json \<Rightarrow> json \<Rightarrow> json \<Rightarrow> json list \<Rightarrow> dhcp_host list option" where
  "collect_dhcp_hosts_for_vm vm_node vm_data network_node_id edges = do {
     nics0 \<leftarrow> get_or vm_data ''nics'' (JList []);
     nics \<leftarrow> iter nics0;
     ofold (\<lambda>hosts vm_nic. do {
       ip \<leftarrow> get vm_nic ''ip'';
       mac \<leftarrow> get vm_nic ''mac'';
       if \<not> truthy ip \<or> \<not> truthy mac then Some hosts
       else do {
         vid \<leftarrow> index vm_node ''id'';
         nid \<leftarrow> index vm_nic ''id'';
         on \<leftarrow> is_nic_on_network vid network_node_id nid edges;
         nm \<leftarrow> get_or vm_data ''name'' (JStr []);
         Some (if on then hosts @ [\<lparr>dh_mac = mac, dh_ip = ip, dh_name = nm\<rparr>] else hosts)
       }
     }) [] nics
   }"

definition connected_ids :: "json \<Rightarrow> json list \<Rightarrow> json list option" where
  "connected_ids node_id edges =
     ofold (\<lambda>ids edge. do {
       src \<leftarrow> index edge ''source'';
       if src = node_id then do { t \<leftarrow> index edge ''target''; Some (add_once t ids) }
       else do {
         tgt \<leftarrow> index edge ''target'';
         if tgt = node_id then Some (add_once src ids) else Some ids
       }
     }) [] edges"

record workloads =
  w_connected_vms :: "(json \<times> json) list"
  w_dhcp_hosts :: "dhcp_host list"
  w_iso_ids :: "json list"
  w_boot_config :: "(string \<times> json) list"

definition workload_step ::
    "json \<Rightarrow> json list \<Rightarrow> json list \<Rightarrow> workloads \<Rightarrow> json \<Rightarrow> workloads option" where
  "workload_step node_id edges ids w vm_node = do {
     vid \<leftarrow> index vm_node ''id'';
     if vid \<notin> set ids then Some w
     else do {
       ty \<leftarrow> get vm_node ''type'';
       if ty \<noteq> JStr ''vmNode'' \<and> ty \<noteq> JStr ''containerNode'' then Some w
       else do {
         vm_data \<leftarrow> node_data vm_node;
         nm \<leftarrow> get vm_data ''name'';
         iso \<leftarrow> get vm_data ''pxeBootIsoId'';
         boot \<leftarrow> (if w_boot_config w = [] then extract_pxe_boot_config vm_data
                  else Some (w_boot_config w));
         hosts \<leftarrow> collect_dhcp_hosts_for_vm vm_node vm_data node_id edges;
         Some \<lparr>w_connected_vms = w_connected_vms w @ [(vid, nm)],
               w_dhcp_hosts = w_dhcp_hosts w @ hosts,
               w_iso_ids = (if truthy iso then add_once iso (w_iso_ids w) else w_iso_ids w),
               w_boot_config = boot\<rparr>
       }
     }
   }"

definition find_connected_workloads ::
    "json \<Rightarrow> json list \<Rightarrow> json list \<Rightarrow> workloads option" where
  "find_connected_workloads node_id nodes edges = do {
     ids \<leftarrow> connected_ids node_id edges;
     ofold (workload_step node_id edges ids)
       \<lparr>w_connected_vms = [], w_dhcp_hosts = [], w_iso_ids = [], w_boot_config = []\<rparr> nodes
   }"

section \<open>Reservations\<close>

definition cluster_boundary_vips :: "json \<Rightarrow> (string \<times> string) list option" where
  "cluster_boundary_vips boundary = do {
     d \<leftarrow> node_data boundary;
     ofold (\<lambda>out lk. do {
       v \<leftarrow> get d (snd lk);
       s \<leftarrow> py_str (py_or v (JStr []));
       let vip = py_strip s;
       Some (if vip \<noteq> [] then out @ [(fst lk, vip)] else out)
     }) [] [(''api'', ''apiVip''), (''ingress'', ''ingressVip'')]
   }"

definition cluster_member_ids :: "json list \<Rightarrow> json \<Rightarrow> json list option" where
  "cluster_member_ids nodes boundary_id =
     ofold (\<lambda>ids n. do {
       t \<leftarrow> has_type ''vmNode'' n;
       par \<leftarrow> get n ''parentId'';
       if t \<and> par = boundary_id then do { i \<leftarrow> index n ''id''; Some (add_once i ids) }
       else Some ids
     }) [] nodes"

definition members_on_network :: "json \<Rightarrow> json list \<Rightarrow> json list \<Rightarrow> bool option" where
  "members_on_network net_node_id members edges =
     oany (\<lambda>e. do {
       src \<leftarrow> get e ''source'';
       tgt \<leftarrow> get e ''target'';
       Some (src = net_node_id \<and> tgt \<in> set members \<or> tgt = net_node_id \<and> src \<in> set members)
     }) edges"

fun vip_reservations_loop ::
    "json \<Rightarrow> json list \<Rightarrow> string list \<Rightarrow> (string \<times> string) list \<Rightarrow> dhcp_host list \<Rightarrow>
     dhcp_host list option" where
  "vip_reservations_loop name reserved seen [] out = Some out"
| "vip_reservations_loop name reserved seen ((label, vip) # vips) out =
     (if vip \<in> set seen \<or> JStr vip \<in> set reserved
      then vip_reservations_loop name reserved seen vips out
      else do {
        mac \<leftarrow> bogus_mac_for_ip vip;
        nm \<leftarrow> py_str name;
        vip_reservations_loop name reserved (vip # seen) vips
          (out @ [\<lparr>dh_mac = JStr mac, dh_ip = JStr vip, dh_name = JStr (nm @ ''-'' @ label)\<rparr>])
      })"

definition vip_reservations_for_cluster ::
    "json \<Rightarrow> (string \<times> string) list \<Rightarrow> json list \<Rightarrow> dhcp_host list option" where
  "vip_reservations_for_cluster name vips reserved_ips =
     vip_reservations_loop name reserved_ips [] vips []"

definition cluster_vip_step ::
    "json \<Rightarrow> json list \<Rightarrow> json list \<Rightarrow> json list \<Rightarrow> dhcp_host list \<Rightarrow> json \<Rightarrow> dhcp_host list option" where
  "cluster_vip_step net_node_id nodes edges reserved_ips reservations boundary = do {
       t \<leftarrow> has_type ''clusterNode'' boundary;
       if \<not> t then Some reservations
       else do {
         vips \<leftarrow> cluster_boundary_vips boundary;
         if vips = [] then Some reservations
         else do {
           bid \<leftarrow> index boundary ''id'';
           members \<leftarrow> cluster_member_ids nodes bid;
           on \<leftarrow> members_on_network net_node_id members edges;
           if \<not> on then Some reservations
           else do {
             d \<leftarrow> node_data boundary;
             name \<leftarrow> get_or d ''name'' (JStr ''cluster'');
             rs \<leftarrow> vip_reservations_for_cluster name vips reserved_ips;
             Some (reservations @ rs)
           }
         }
       }
     }"

definition cluster_vip_reservations ::
    "json \<Rightarrow> json list \<Rightarrow> json list \<Rightarrow> json list \<Rightarrow> dhcp_host list option" where
  "cluster_vip_reservations net_node_id nodes edges reserved_ips =
     ofold (cluster_vip_step net_node_id nodes edges reserved_ips) [] nodes"

text \<open>The address \<open>offset\<close> steps into a network; past the last IPv4 address it raises.\<close>

definition infra_ip :: "ip4_network \<Rightarrow> int \<Rightarrow> string option" where
  "infra_ip net offset =
     (if net_addr net + offset < 2 ^ 32 then Some (addr_text (net_addr net + offset)) else None)"

definition infra_step ::
    "ip4_network \<Rightarrow> json list \<Rightarrow> dhcp_host list \<Rightarrow> int \<times> string \<Rightarrow> dhcp_host list option" where
  "infra_step net reserved_ips out ol = do {
     ip \<leftarrow> infra_ip net (fst ol);
     if JStr ip \<in> set reserved_ips then Some out
     else do {
       mac \<leftarrow> bogus_mac_for_ip ip;
       Some (out @ [\<lparr>dh_mac = JStr mac, dh_ip = JStr ip, dh_name = JStr (''infra-'' @ snd ol)\<rparr>])
     }
   }"

definition infra_ip_reservations :: "json \<Rightarrow> json list \<Rightarrow> dhcp_host list option" where
  "infra_ip_reservations net_data reserved_ips = do {
     cidr \<leftarrow> get_or net_data ''cidr'' (JStr []);
     if \<not> truthy cidr then Some []
     else (case Option.bind (as_str cidr) ip_network of
       None \<Rightarrow> Some []
     | Some net \<Rightarrow> ofold (infra_step net reserved_ips) []
         [(1, ''gateway''), (2, ''dnsmasq''), (3, ''exec''), (9, ''showroom'')])
   }"

section \<open>DHCP, PXE and DNS settings\<close>

record dhcp_config =
  dc_range_start :: json
  dc_range_end :: json
  dc_gateway :: json
  dc_lease_time :: json

definition build_dhcp_config :: "json \<Rightarrow> dhcp_config option" where
  "build_dhcp_config data = do {
     range_start \<leftarrow> get_or data ''dhcpRangeStart'' (JStr []);
     range_end \<leftarrow> get_or data ''dhcpRangeEnd'' (JStr []);
     gateway \<leftarrow> get_or data ''dhcpGateway'' (JStr []);
     net_cidr \<leftarrow> get_or data ''cidr'' (JStr []);
     lease \<leftarrow> get_or data ''dhcpLeaseTime'' (JStr ''24h'');
     let net = (if truthy net_cidr \<and> (\<not> truthy range_start \<or> \<not> truthy range_end \<or> \<not> truthy gateway)
                then Option.bind (as_str net_cidr) ip_network else None);
     let pick = (\<lambda>given i. case net of
           None \<Rightarrow> given
         | Some n \<Rightarrow> (if truthy given then given else
             (case hosts_nth n i of None \<Rightarrow> given | Some a \<Rightarrow> JStr (addr_text a))));
     Some \<lparr>dc_range_start = pick range_start (case net of None \<Rightarrow> 0 | Some n \<Rightarrow> min 9 (hosts_len n - 2)),
           dc_range_end = pick range_end (-1),
           dc_gateway = pick gateway 0,
           dc_lease_time = lease\<rparr>
   }"

record pxe_config =
  px_method :: json
  px_server_mode :: json
  px_next_server :: json
  px_boot_file :: json
  px_ipxe_script_url :: json
  px_uefi_boot_url :: json
  px_iso_path :: "string option"
  px_tftp_root :: "string option"
  px_http_port :: "int option"

text \<open>\<open>pick\<close> chooses an element of the set of boot images, \<open>next(iter(s))\<close>.\<close>

definition build_pxe_config ::
    "(json list \<Rightarrow> json) \<Rightarrow> json \<Rightarrow> (string \<times> json) list \<Rightarrow> json list \<Rightarrow> int \<Rightarrow> pxe_config option option"
    where
  "build_pxe_config pick data boot iso_ids vni = do {
     en \<leftarrow> get data ''pxeEnabled'';
     if \<not> truthy en then Some None
     else do {
       server_mode \<leftarrow> get_or data ''pxeServerMode'' (JStr ''builtin'');
       let base = \<lparr>px_method = dict_get boot ''pxeMethod'' (JStr ''legacy''),
             px_server_mode = server_mode,
             px_next_server = dict_get boot ''pxeNextServer'' (JStr []),
             px_boot_file = dict_get boot ''pxeBootFile'' (JStr []),
             px_ipxe_script_url = dict_get boot ''ipxeScriptUrl'' (JStr []),
             px_uefi_boot_url = dict_get boot ''uefiBootUrl'' (JStr []),
             px_iso_path = None, px_tftp_root = None, px_http_port = None\<rparr>;
       if server_mode = JStr ''builtin'' \<and> iso_ids \<noteq> [] then do {
         iso \<leftarrow> py_str (pick iso_ids);
         Some (Some (base\<lparr>px_iso_path := Some (''/var/lib/troshka/images/'' @ iso @ ''.iso''),
           px_tftp_root := Some (''/var/lib/troshka/pxe/'' @ int_str vni @ ''/tftpboot''),
           px_http_port := Some (8080 + vni mod 1000)\<rparr>)) }
       else Some (Some base)
     }
   }"

definition is_showroom_node :: "json \<Rightarrow> bool option" where
  "is_showroom_node node = do {
     t \<leftarrow> has_type ''containerNode'' node;
     if \<not> t then Some False
     else do {
       data \<leftarrow> node_data node;
       s \<leftarrow> get data ''isShowroom'';
       nm \<leftarrow> get data ''name'';
       Some (truthy s \<or> nm = JStr ''showroom'')
     }
   }"

definition showroom_transit_octet3 :: "(json \<times> int) list \<Rightarrow> int option" where
  "showroom_transit_octet3 vni_map =
     (case vni_map of [] \<Rightarrow> None
      | (_, v) # rest \<Rightarrow> Some (foldl min v (map snd rest) AND 0xFF))"

definition showroom_infra_ip :: "(json \<times> int) list \<Rightarrow> string" where
  "showroom_infra_ip vni_map =
     (case showroom_transit_octet3 vni_map of None \<Rightarrow> [] | Some o3 \<Rightarrow> ip4 o3 3)"

definition first_nic_ip :: "json list \<Rightarrow> json option" where
  "first_nic_ip nics = do {
     r \<leftarrow> ofind (\<lambda>nic. map_option truthy (get nic ''ip'')) nics;
     case r of None \<Rightarrow> Some (JStr []) | Some nic \<Rightarrow> index nic ''ip''
   }"

definition collect_workload_ips :: "json list \<Rightarrow> (json \<times> json) list option" where
  "collect_workload_ips nodes =
     ofold (\<lambda>ips n. do {
       ty \<leftarrow> get n ''type'';
       if ty \<noteq> JStr ''vmNode'' \<and> ty \<noteq> JStr ''containerNode'' then Some ips
       else do {
         data \<leftarrow> node_data n;
         nics0 \<leftarrow> get_or data ''nics'' (JList []);
         nics \<leftarrow> iter nics0;
         ip \<leftarrow> first_nic_ip nics;
         if \<not> truthy ip then Some ips
         else do {
           name \<leftarrow> get_or data ''name'' (JStr []);
           label \<leftarrow> get_or data ''label'' (JStr []);
           let ips1 = (if truthy name then AList.update name ip ips else ips);
           Some (if truthy label then AList.update label ip ips1 else ips1)
         }
       }
     }) [] nodes"

definition resolve_dns_record_entry :: "json \<Rightarrow> (json \<times> json) list \<Rightarrow> json option" where
  "resolve_dns_record_entry rec workload_ips = do {
     name \<leftarrow> get_or rec ''name'' (JStr []);
     if \<not> truthy name then Some rec
     else do {
       rip \<leftarrow> get rec ''ip'';
       ips \<leftarrow> py_str (py_or rip (JStr []));
       rt \<leftarrow> get rec ''target'';
       ts \<leftarrow> py_str (py_or rt (JStr []));
       let ip = py_strip ips;
       let target = py_strip ts;
       set_item rec ''ip''
         (if ip = [] \<and> target \<noteq> [] then dict_get workload_ips (JStr target) (JStr [])
          else JStr ip)
     }
   }"

definition resolved_dns_records_for_network ::
    "json \<Rightarrow> json list \<Rightarrow> (json \<times> int) list \<Rightarrow> (json \<times> json) list option" where
  "resolved_dns_records_for_network net_data nodes vni_map = do {
     ips0 \<leftarrow> collect_workload_ips nodes;
     show \<leftarrow> oany is_showroom_node nodes;
     let infra = showroom_infra_ip vni_map;
     let ips = (if show \<and> infra \<noteq> [] then AList.update (JStr ''showroom'') (JStr infra) ips0 else ips0);
     recs0 \<leftarrow> get_or net_data ''dnsRecords'' (JList []);
     recs \<leftarrow> iter recs0;
     ofold (\<lambda>out rec. do {
       resolved \<leftarrow> resolve_dns_record_entry rec ips;
       name \<leftarrow> get_or resolved ''name'' (JStr []);
       ip \<leftarrow> get_or resolved ''ip'' (JStr []);
       Some (if truthy name \<and> truthy ip then out @ [(name, ip)] else out)
     }) [] recs
   }"

section \<open>One network, and all of them\<close>

record net_config =
  nc_node_id :: json
  nc_name :: json
  nc_cidr :: json
  nc_vni :: int
  nc_bridge_name :: string
  nc_vxlan_name :: string
  nc_dhcp_enabled :: json
  nc_dns_enabled :: json
  nc_dns_domain :: json
  nc_dns_records :: "(json \<times> json) list"
  nc_connected_vms :: "(json \<times> json) list"
  nc_dhcp_hosts :: "dhcp_host list"
  nc_peers :: "string list"
  nc_mtu :: json
  nc_dhcp_config :: "dhcp_config option"
  nc_pxe_config :: "pxe_config option"

definition apply_dhcp_reservations ::
    "net_config \<Rightarrow> json \<Rightarrow> json \<Rightarrow> json list \<Rightarrow> json list \<Rightarrow> net_config option" where
  "apply_dhcp_reservations net_config data node_id nodes edges =
     (if \<not> truthy (nc_dhcp_enabled net_config) then Some net_config
      else do {
        dc \<leftarrow> build_dhcp_config data;
        let hosts0 = nc_dhcp_hosts net_config;
        vips \<leftarrow> cluster_vip_reservations node_id nodes edges (map dh_ip hosts0);
        let hosts1 = hosts0 @ vips;
        infra \<leftarrow> infra_ip_reservations data (map dh_ip hosts1);
        Some (net_config\<lparr>nc_dhcp_config := Some dc, nc_dhcp_hosts := hosts1 @ infra\<rparr>)
      })"

definition one_network_config ::
    "(json list \<Rightarrow> json) \<Rightarrow> json \<Rightarrow> json list \<Rightarrow> json list \<Rightarrow> (json \<times> int) list \<Rightarrow> string list \<Rightarrow>
     net_config option option" where
  "one_network_config pick node nodes edges vni_map peer_ips = do {
     data \<leftarrow> node_data node;
     st \<leftarrow> get_or data ''subtype'' (JStr ''network'');
     if st \<noteq> JStr ''network'' then Some None
     else do {
       node_id \<leftarrow> index node ''id'';
       (case map_of vni_map node_id of
          None \<Rightarrow> Some None
        | Some vni \<Rightarrow>
            if vni = 0 then Some None
            else do {
              w \<leftarrow> find_connected_workloads node_id nodes edges;
              name \<leftarrow> get data ''name'';
              cidr \<leftarrow> get data ''cidr'';
              dhcp \<leftarrow> get_or data ''dhcp'' (JBool False);
              dns \<leftarrow> get_or data ''dns'' (JBool False);
              dom \<leftarrow> get_or data ''dnsDomain'' (JStr []);
              recs \<leftarrow> resolved_dns_records_for_network data nodes vni_map;
              mtu \<leftarrow> get data ''mtu'';
              cfg \<leftarrow> apply_dhcp_reservations
                \<lparr>nc_node_id = node_id, nc_name = name, nc_cidr = cidr, nc_vni = vni,
                 nc_bridge_name = ''br-'' @ int_str vni, nc_vxlan_name = ''vxlan-'' @ int_str vni,
                 nc_dhcp_enabled = dhcp, nc_dns_enabled = dns, nc_dns_domain = dom,
                 nc_dns_records = recs, nc_connected_vms = w_connected_vms w,
                 nc_dhcp_hosts = w_dhcp_hosts w, nc_peers = peer_ips, nc_mtu = mtu,
                 nc_dhcp_config = None, nc_pxe_config = None\<rparr> data node_id nodes edges;
              px \<leftarrow> build_pxe_config pick data (w_boot_config w) (w_iso_ids w) vni;
              Some (Some (cfg\<lparr>nc_pxe_config := px\<rparr>))
            })
     }
   }"

definition build_network_configs ::
    "(json list \<Rightarrow> json) \<Rightarrow> json list \<Rightarrow> json list \<Rightarrow> (json \<times> int) list \<Rightarrow> string list \<Rightarrow>
     net_config list option" where
  "build_network_configs pick nodes edges vni_map peer_ips =
     ofold (\<lambda>networks node. do {
       t \<leftarrow> has_type ''networkNode'' node;
       if \<not> t then Some networks
       else do {
         cfg \<leftarrow> one_network_config pick node nodes edges vni_map peer_ips;
         Some (case cfg of None \<Rightarrow> networks | Some c \<Rightarrow> networks @ [c])
       }
     }) [] nodes"

end
