(* ===== verification/Vxlan_Gateway.thy ===== *)
theory Vxlan_Gateway
  imports Vxlan
begin

text \<open>
  The gateway, router and load balancer parts of
  \<open>src/src/backend/app/services/vxlan.py\<close> and the whole host network configuration: port
  forwards enriched with elastic-IP data, the managed showroom forward, and the ids each
  router and load balancer is wired to. \<open>ord\<close> is the order in which Python iterates over a
  set of node ids.
\<close>

definition topology_has_showroom :: "json \<Rightarrow> bool option" where
  "topology_has_showroom topology = do { ns \<leftarrow> topo_nodes topology; oany is_showroom_node ns }"

definition is_showroom_infra_forward :: "json \<Rightarrow> bool option" where
  "is_showroom_infra_forward pf = do {
     ii \<leftarrow> get pf ''intIp'';
     ip0 \<leftarrow> as_str (py_or ii (JStr []));
     let int_ip = py_strip ip0;
     ext_port \<leftarrow> get pf ''extPort'';
     int_port \<leftarrow> get pf ''intPort'';
     Some (str_is ext_port ''443'' \<and> starts_with int_ip ''172.30.'' \<and>
       (ends_with int_ip ''.2'' \<and> str_is int_port ''443'' \<or>
        ends_with int_ip ''.1'' \<and> str_is int_port ''443'' \<or>
        ends_with int_ip ''.3'' \<and> str_is int_port ''80''))
   }"

definition showroom_forward :: "int \<Rightarrow> bool \<Rightarrow> json" where
  "showroom_forward first_vni route_web =
     (let octet3 = first_vni AND 0xFF
      in JObj [(''extPort'', JStr ''443''),
           (''intIp'', JStr (if route_web then ip4 octet3 3 else ip4 octet3 2)),
           (''intPort'', JStr (if route_web then ''80'' else ''443'')),
           (''proto'', JStr ''tcp''), (''extIpId'', JStr []), (''managedByShowroom'', JBool True)])"

definition inject_showroom_port_forward ::
    "json list \<Rightarrow> json \<Rightarrow> int option \<Rightarrow> bool \<Rightarrow> json list option" where
  "inject_showroom_port_forward port_forwards topology first_vni route_web =
     (case first_vni of
        None \<Rightarrow> Some port_forwards
      | Some v \<Rightarrow>
          if v = 0 then Some port_forwards
          else do {
            has \<leftarrow> topology_has_showroom topology;
            if \<not> has then Some port_forwards
            else do {
              out \<leftarrow> ofilter (\<lambda>pf. map_option (\<lambda>p. \<not> str_is p ''443'') (get pf ''extPort'')) port_forwards;
              Some (out @ [showroom_forward v route_web])
            }
          })"

definition enrich_gateway_port_forwards ::
    "json list \<Rightarrow> (json \<times> json) list \<Rightarrow> json list option" where
  "enrich_gateway_port_forwards raw_forwards eip_map =
     omap (\<lambda>pf. do {
       eid \<leftarrow> get_or pf ''extIpId'' (JStr []);
       let ext_ip = dict_get eip_map eid (JObj []);
       priv \<leftarrow> get_or ext_ip ''_private_ip'' (JStr []);
       pf1 \<leftarrow> set_item pf ''_private_ip'' priv;
       tm \<leftarrow> get ext_ip ''_transit_port_map'';
       if truthy tm then do {
         ep \<leftarrow> get_or pf ''extPort'' (JStr []);
         eps \<leftarrow> py_str ep;
         tp \<leftarrow> get tm eps;
         set_item pf1 ''_transit_port'' tp }
       else Some pf1
     }) raw_forwards"

text \<open>The private address of the first elastic IP that has one, and its binding to managed
  forwards that have none yet.\<close>

definition first_private :: "json list \<Rightarrow> json option" where
  "first_private external_ips = do {
     r \<leftarrow> ofind (\<lambda>eip. map_option truthy (get eip ''_private_ip'')) external_ips;
     case r of None \<Rightarrow> Some (JStr []) | Some eip \<Rightarrow> get eip ''_private_ip''
   }"

definition bind_showroom_private_ip :: "json list \<Rightarrow> json list \<Rightarrow> json list option" where
  "bind_showroom_private_ip port_forwards external_ips = do {
     first_priv \<leftarrow> first_private external_ips;
     if \<not> truthy first_priv then Some port_forwards
     else omap (\<lambda>pf. do {
       m \<leftarrow> get pf ''managedByShowroom'';
       p \<leftarrow> get pf ''_private_ip'';
       if truthy m \<and> \<not> truthy p then set_item pf ''_private_ip'' first_priv else Some pf
     }) port_forwards
   }"

record gateway_config =
  g_name :: json
  g_mode :: json
  g_outbound_policy :: json
  g_outbound_ports :: json
  g_port_forwards :: "json list"
  g_eip_private_ips :: "json list"
  g_transit_ns_ip :: "string option"

definition eip_map_of :: "json list \<Rightarrow> (json \<times> json) list option" where
  "eip_map_of external_ips = ofold (\<lambda>m eip. do {
     i \<leftarrow> index eip ''id''; k \<leftarrow> hkey i; Some (AList.update k eip m) }) [] external_ips"

definition gateway_config_from_node ::
    "json \<Rightarrow> json \<Rightarrow> net_config list \<Rightarrow> gateway_config option" where
  "gateway_config_from_node data topology networks = do {
     ext0 \<leftarrow> get_or topology ''externalIps'' (JList []);
     external_ips \<leftarrow> iter ext0;
     eip_map \<leftarrow> eip_map_of external_ips;
     raw0 \<leftarrow> get_or data ''portForwards'' (JList []);
     raw \<leftarrow> iter raw0;
     pf1 \<leftarrow> enrich_gateway_port_forwards raw eip_map;
     let first_vni = (case networks of [] \<Rightarrow> None | n # _ \<Rightarrow> Some (nc_vni n));
     pf2 \<leftarrow> inject_showroom_port_forward pf1 topology first_vni False;
     pf3 \<leftarrow> bind_showroom_private_ip pf2 external_ips;
     name \<leftarrow> get data ''name'';
     mode \<leftarrow> get_or data ''gatewayMode'' (JStr ''nat'');
     pol \<leftarrow> get_or data ''outboundPolicy'' (JStr ''allow-all'');
     ports \<leftarrow> get_or data ''outboundPorts'' (JStr []);
     with_priv \<leftarrow> ofilter (\<lambda>eip. map_option truthy (get eip ''_private_ip'')) external_ips;
     privs \<leftarrow> omap (\<lambda>eip. get_or eip ''_private_ip'' (JStr [])) with_priv;
     Some \<lparr>g_name = name, g_mode = mode, g_outbound_policy = pol, g_outbound_ports = ports,
           g_port_forwards = pf3, g_eip_private_ips = privs,
           g_transit_ns_ip = (case first_vni of None \<Rightarrow> None
             | Some v \<Rightarrow> if v = 0 then None else Some (t_ns_ip (transit_subnet v)))\<rparr>
   }"

definition is_gateway_network_node :: "json \<Rightarrow> bool option" where
  "is_gateway_network_node node = do {
     t \<leftarrow> has_type ''networkNode'' node;
     if \<not> t then Some False
     else do { data \<leftarrow> node_data node; st \<leftarrow> get data ''subtype''; Some (st = JStr ''gateway'') }
   }"

definition build_gateway_config ::
    "json list \<Rightarrow> json \<Rightarrow> net_config list \<Rightarrow> gateway_config option option" where
  "build_gateway_config nodes topology networks = do {
     r \<leftarrow> ofind is_gateway_network_node nodes;
     case r of
       None \<Rightarrow> Some None
     | Some node \<Rightarrow> do {
         data \<leftarrow> node_data node;
         g \<leftarrow> gateway_config_from_node data topology networks;
         Some (Some g) }
   }"

record router_config =
  r_name :: json
  r_connected_vnis :: "int list"
  r_static_routes :: json

definition is_router_node :: "json \<Rightarrow> bool option" where
  "is_router_node node = do {
     t \<leftarrow> has_type ''networkNode'' node;
     if \<not> t then Some False
     else do { data \<leftarrow> node_data node; st \<leftarrow> get data ''subtype''; Some (st = JStr ''router'') }
   }"

definition build_router_configs ::
    "(json list \<Rightarrow> json list) \<Rightarrow> json list \<Rightarrow> json list \<Rightarrow> (json \<times> int) list \<Rightarrow> router_config list option" where
  "build_router_configs ord nodes edges vni_map = do {
     routers \<leftarrow> ofilter is_router_node nodes;
     omap (\<lambda>node. do {
       data \<leftarrow> node_data node;
       nid \<leftarrow> index node ''id'';
       ids \<leftarrow> connected_ids nid edges;
       name \<leftarrow> get data ''name'';
       routes \<leftarrow> get_or data ''staticRoutes'' (JList []);
       Some \<lparr>r_name = name, r_connected_vnis = List.map_filter (map_of vni_map) (ord ids),
             r_static_routes = routes\<rparr>
     }) routers
   }"

definition edge_peer_id :: "json \<Rightarrow> json \<Rightarrow> json option" where
  "edge_peer_id edge node_id = do {
     src \<leftarrow> index edge ''source'';
     if src = node_id then index edge ''target''
     else do { tgt \<leftarrow> index edge ''target''; Some (if tgt = node_id then src else JNull) }
   }"

definition lb_backend_id_for_node :: "json \<Rightarrow> json \<Rightarrow> json option" where
  "lb_backend_id_for_node other_node other_id = do {
     ty \<leftarrow> get other_node ''type'';
     if ty = JStr ''vmNode'' then Some other_id
     else if ty \<noteq> JStr ''containerNode'' then Some JNull
     else do {
       data \<leftarrow> node_data other_node;
       s \<leftarrow> get data ''isShowroom'';
       nm \<leftarrow> get data ''name'';
       pod \<leftarrow> get data ''isPod'';
       Some (if truthy s \<or> nm = JStr ''showroom'' then JNull
             else if truthy pod then other_id else JNull)
     }
   }"

definition find_connected_lb_backend_ids :: "json \<Rightarrow> json list \<Rightarrow> json list \<Rightarrow> json list option" where
  "find_connected_lb_backend_ids node_id nodes edges = do {
     nodes_by_id \<leftarrow> ofold (\<lambda>m n. do { i \<leftarrow> index n ''id''; Some (AList.update i n m) }) [] nodes;
     ofold (\<lambda>ids edge. do {
       other_id \<leftarrow> edge_peer_id edge node_id;
       if \<not> truthy other_id then Some ids
       else (case map_of nodes_by_id other_id of
         None \<Rightarrow> Some ids
       | Some other_node \<Rightarrow>
           if \<not> truthy other_node then Some ids
           else do {
             b \<leftarrow> lb_backend_id_for_node other_node other_id;
             Some (if truthy b then add_once b ids else ids) })
     }) [] edges
   }"

text \<open>\<open>node_id[:8]\<close> on a text id.\<close>

definition build_lb_backends ::
    "(json list \<Rightarrow> json list) \<Rightarrow> json list \<Rightarrow> json list \<Rightarrow> (json \<times> json) list option" where
  "build_lb_backends ord backend_ids nodes =
     ofold (\<lambda>backends node_id. do {
       r \<leftarrow> ofind (\<lambda>n. map_option (\<lambda>i. i = node_id) (index n ''id'')) nodes;
       case r of
         None \<Rightarrow> Some backends
       | Some node \<Rightarrow> do {
           data \<leftarrow> node_data node;
           s \<leftarrow> as_str node_id;
           name \<leftarrow> get_or data ''name'' (JStr (take 8 s));
           nics0 \<leftarrow> get_or data ''nics'' (JList []);
           nics \<leftarrow> iter nics0;
           ip \<leftarrow> first_nic_ip nics;
           Some (if truthy ip then backends @ [(name, ip)] else backends) }
     }) [] (ord backend_ids)"

record lb_config =
  lb_name :: json
  lb_frontends :: json
  lb_lb_ip :: json
  lb_external :: json
  lb_ext_ip_id :: json
  lb_backends :: "(json \<times> json) list"
  lb_dns_records :: json
  lb_dns_ttl :: json

definition is_lb_node :: "json \<Rightarrow> bool option" where
  "is_lb_node node = do {
     t \<leftarrow> has_type ''networkNode'' node;
     if \<not> t then Some False
     else do { data \<leftarrow> node_data node; nt \<leftarrow> get data ''networkType''; Some (nt = JStr ''loadbalancer'') }
   }"

definition build_lb_config ::
    "(json list \<Rightarrow> json list) \<Rightarrow> json list \<Rightarrow> json list \<Rightarrow> lb_config option option" where
  "build_lb_config ord nodes edges = do {
     r \<leftarrow> ofind is_lb_node nodes;
     case r of
       None \<Rightarrow> Some None
     | Some node \<Rightarrow> do {
         data \<leftarrow> node_data node;
         nid \<leftarrow> index node ''id'';
         ids \<leftarrow> find_connected_lb_backend_ids nid nodes edges;
         backends \<leftarrow> build_lb_backends ord ids nodes;
         name \<leftarrow> get data ''name'';
         fes \<leftarrow> get_or data ''frontends'' (JList []);
         ip \<leftarrow> get_or data ''lbIp'' (JStr []);
         ext \<leftarrow> get_or data ''external'' (JBool True);
         eid \<leftarrow> get_or data ''extIpId'' (JStr []);
         recs \<leftarrow> get_or data ''dnsRecords'' (JList []);
         ttl \<leftarrow> get_or data ''dnsTtl'' (JInt 30);
         Some (Some \<lparr>lb_name = name, lb_frontends = fes, lb_lb_ip = ip, lb_external = ext,
           lb_ext_ip_id = eid, lb_backends = backends, lb_dns_records = recs, lb_dns_ttl = ttl\<rparr>) }
   }"

record host_network_config =
  hn_networks :: "net_config list"
  hn_gateway :: "gateway_config option"
  hn_routers :: "router_config list"
  hn_loadbalancer :: "lb_config option"
  hn_vni_map :: "(json \<times> int) list"

definition build_host_network_config ::
    "(json list \<Rightarrow> json) \<Rightarrow> (json list \<Rightarrow> json list) \<Rightarrow> json \<Rightarrow> (json \<times> int) list \<Rightarrow> string list \<Rightarrow>
     host_network_config option" where
  "build_host_network_config pick ord topology vni_map peer_ips = do {
     nodes \<leftarrow> topo_nodes topology;
     edges0 \<leftarrow> get_or topology ''edges'' (JList []);
     edges \<leftarrow> iter edges0;
     networks \<leftarrow> build_network_configs pick nodes edges vni_map peer_ips;
     gateway \<leftarrow> build_gateway_config nodes topology networks;
     routers \<leftarrow> build_router_configs ord nodes edges vni_map;
     lb \<leftarrow> build_lb_config ord nodes edges;
     Some \<lparr>hn_networks = networks, hn_gateway = gateway, hn_routers = routers,
           hn_loadbalancer = lb, hn_vni_map = vni_map\<rparr>
   }"

section \<open>The managed showroom forward\<close>

definition ext443 :: "json \<Rightarrow> bool" where
  "ext443 pf = (case get pf ''extPort'' of None \<Rightarrow> False | Some p \<Rightarrow> str_is p ''443'')"

lemma inject_showroom_eq:
  assumes "topology_has_showroom topology = Some True" "v \<noteq> 0"
  shows "inject_showroom_port_forward pfs topology (Some v) rw =
    (if \<forall>pf\<in>set pfs. is_obj pf then Some (filter (\<lambda>pf. \<not> ext443 pf) pfs @ [showroom_forward v rw])
     else None)"
proof -
  have "(map_option (\<lambda>p. \<not> str_is p ''443'') (get pf ''extPort'') = Some True) = (\<not> ext443 pf)"
    if "is_obj pf" for pf
    using that get_eq_None [of pf "''extPort''"] by (auto simp: ext443_def split: option.splits)
  then show ?thesis
    using assms by (auto simp: inject_showroom_port_forward_def ofilter_eq cong: filter_cong)
qed

lemma showroom_forward_ext443: "ext443 (showroom_forward v rw)"
  by (simp add: ext443_def showroom_forward_def Let_def)

lemma int_str_small: "int_str 2 = ''2''" "int_str 3 = ''3''"
  by code_simp+

lemma ip4_shape: "starts_with (ip4 c d) ''172.30.''" "ends_with (ip4 c 2) ''.2''" "ends_with (ip4 c 3) ''.3''"
  by (simp_all add: ip4_def starts_with_def ends_with_def int_str_small)

lemma py_strip_ip4: "py_strip (ip4 c d) = ip4 c d"
proof (rule py_strip_solid)
  show "\<forall>x\<in>set (ip4 c d). \<not> is_blank x"
    using int_str_solid [of c] int_str_solid [of d] by (auto simp: ip4_def is_blank_def)
qed

lemma ip4_not_Nil [simp]: "ip4 c d \<noteq> []"
  by (simp add: ip4_def)

lemma showroom_forward_recognised: "is_showroom_infra_forward (showroom_forward v rw) = Some True"
  by (simp add: is_showroom_infra_forward_def showroom_forward_def Let_def py_or_def py_strip_ip4 ip4_shape)

text \<open>On a topology with a showroom and a network, injecting the showroom forward leaves
  every forward of another external port unchanged and in order, drops every forward of port
  443 and ends with exactly one, the managed one, which the code's own recogniser accepts;
  injecting again changes nothing.\<close>

theorem showroom_forward_injected:
  assumes "topology_has_showroom topology = Some True" "v \<noteq> 0"
    and "inject_showroom_port_forward pfs topology (Some v) rw = Some out"
  shows "out = filter (\<lambda>pf. \<not> ext443 pf) pfs @ [showroom_forward v rw] \<and>
    filter ext443 out = [showroom_forward v rw] \<and>
    is_showroom_infra_forward (showroom_forward v rw) = Some True \<and>
    inject_showroom_port_forward out topology (Some v) rw = Some out"
proof -
  have o: "out = filter (\<lambda>pf. \<not> ext443 pf) pfs @ [showroom_forward v rw]" "\<forall>pf\<in>set pfs. is_obj pf"
    using assms(3) by (auto simp: inject_showroom_eq [OF assms(1,2)] split: if_splits)
  have "is_obj (showroom_forward v rw)" by (simp add: showroom_forward_def Let_def)
  then show ?thesis
    using o showroom_forward_recognised
    by (auto simp: inject_showroom_eq [OF assms(1,2)] showroom_forward_ext443)
qed

definition showroom_topology :: json where
  "showroom_topology = JObj [(''nodes'', JList [JObj [(''id'', JStr ''s''),
     (''type'', JStr ''containerNode''), (''data'', JObj [(''isShowroom'', JBool True)])]])]"

definition demo_forwards :: "json list" where
  "demo_forwards = [JObj [(''extPort'', JInt 22), (''intIp'', JStr ''10.0.0.5'')],
     JObj [(''extPort'', JInt 443), (''intIp'', JStr ''10.0.0.9'')]]"

theorem showroom_forward_injected_witness:
  "\<exists>out. inject_showroom_port_forward demo_forwards showroom_topology (Some 1000) False = Some out \<and>
     filter ext443 out = [showroom_forward 1000 False] \<and> length out = 2"
proof -
  have t: "topology_has_showroom showroom_topology = Some True" by code_simp
  have "map_option length
      (inject_showroom_port_forward demo_forwards showroom_topology (Some 1000) False) = Some 2"
    by code_simp
  then obtain out where out: "inject_showroom_port_forward demo_forwards showroom_topology (Some 1000) False = Some out"
      "length out = 2"
    by auto
  have "filter ext443 out = [showroom_forward 1000 False]"
    using showroom_forward_injected [OF t _ out(1)] by (simp add: showroom_forward_ext443)
  with out show ?thesis by blast
qed

section \<open>Transit addresses of the gateway\<close>

lemma low_bits_zero:
  fixes a b c :: int
  assumes "0 \<le> a" "a < 64" "0 \<le> b" "b < 4" "0 \<le> c"
  shows "64 * b + a = 4 * a + c \<and> c = 0 \<longleftrightarrow> 4 * (64 * b + a) + c = 0"
proof -
  have "b = 0 \<or> b = 1 \<or> b = 2 \<or> b = 3" using assms(3,4) by linarith
  then show ?thesis
    using assms(1,2,5) by (elim disjE) (simp; presburger)+
qed

lemma mod_1024_zero: "v div 4 mod 256 = v mod 256 \<and> v mod 4 = 0 \<longleftrightarrow> v mod 1024 = 0" for v :: int
proof -
  have m: "v mod 1024 = 4 * (v div 4 mod 256) + v mod 4" "v mod 256 = 4 * (v div 4 mod 64) + v mod 4"
    using zmod_zmult2_eq [of 256 v 4] zmod_zmult2_eq [of 64 v 4] by simp_all
  have n: "v div 4 mod 256 = 64 * (v div 256 mod 4) + v div 4 mod 64"
    using zmod_zmult2_eq [of 4 "v div 4" 64] by (simp flip: zdiv_zmult2_eq)
  show ?thesis
    unfolding m n by (rule low_bits_zero) simp_all
qed

text \<open>The namespace address a gateway configuration announces for its transit link is the
  address its own managed showroom forward targets only when the VNI of the first network is
  a multiple of 1024; for every other VNI the two disagree.\<close>

theorem transit_ns_ip_agrees_iff:
  assumes "gateway_config_from_node data topology (n # ns) = Some g" "nc_vni n \<noteq> 0"
  shows "g_transit_ns_ip g = Some (ip4 (nc_vni n AND 0xFF) 2) \<longleftrightarrow> nc_vni n mod 1024 = 0"
proof -
  have "g_transit_ns_ip g = Some (t_ns_ip (transit_subnet (nc_vni n)))"
    using assms by (auto simp: gateway_config_from_node_def bind_eq_Some_conv Let_def)
  then show ?thesis
    using mod_1024_zero [of "nc_vni n"] by (auto simp: transit_subnet_eq and_mask_mod)
qed

theorem transit_ns_ip_agrees_iff_witness:
  "\<exists>g. gateway_config_from_node (JObj []) (JObj []) [(\<lparr>nc_node_id = JStr ''n'', nc_name = JNull,
      nc_cidr = JNull, nc_vni = 1000, nc_bridge_name = [], nc_vxlan_name = [], nc_dhcp_enabled = JNull,
      nc_dns_enabled = JNull, nc_dns_domain = JNull, nc_dns_records = [], nc_connected_vms = [],
      nc_dhcp_hosts = [], nc_peers = [], nc_mtu = JNull, nc_dhcp_config = None, nc_pxe_config = None\<rparr>)] =
      Some g \<and> g_transit_ns_ip g \<noteq> Some (ip4 (1000 AND 0xFF) 2)"
proof -
  let ?n = "\<lparr>nc_node_id = JStr ''n'', nc_name = JNull,
      nc_cidr = JNull, nc_vni = 1000, nc_bridge_name = [], nc_vxlan_name = [], nc_dhcp_enabled = JNull,
      nc_dns_enabled = JNull, nc_dns_domain = JNull, nc_dns_records = [], nc_connected_vms = [],
      nc_dhcp_hosts = [], nc_peers = [], nc_mtu = JNull, nc_dhcp_config = None, nc_pxe_config = None\<rparr>"
  have "gateway_config_from_node (JObj []) (JObj []) [?n] \<noteq> None" by code_simp
  then obtain g where g: "gateway_config_from_node (JObj []) (JObj []) [?n] = Some g" by auto
  show ?thesis using transit_ns_ip_agrees_iff [OF g] g by auto
qed

end
