(* ===== verification/Placement.thy ===== *)
theory Placement
  imports Bin_Packing Vxlan_Gateway Vni_Alloc
begin

text \<open>
  \<open>place_project\<close> of \<open>src/src/backend/app/services/placement.py\<close>, the entry point of a
  deployment: the checks on the topology, an admin-specified host or the search for one, the
  multi-host fallback, auto-provisioning, and the finalisation that assigns the project. The
  state is the database session, the VNI high-water-mark file and the hosts whose in-flight
  counter was incremented. A Python exception is the outcome \<open>Raised\<close>, an error dictionary
  the outcome \<open>Failed\<close>. Cloud provisioning, the clock, Redis and the iteration order of sets
  are parameters.
\<close>

record new_host =
  nh_host_id :: string
  nh_total_vcpus :: int
  nh_total_ram_mb :: int
  nh_max_eips :: "int option"
  nh_public_ip :: "string option"

record place_env =
  pe_overcommit :: overcommit
  pe_counter :: "string \<Rightarrow> int option"
  pe_pick :: "json list \<Rightarrow> json"
  pe_ord :: "json list \<Rightarrow> json list"
  pe_hwm_writable :: bool
  pe_now :: time
  pe_provision :: "new_host option"

record place_state =
  ps_db :: database
  ps_hwm :: file_text
  ps_started :: "string list"

datatype place_failure =
    NoTopology | NoVms | StorageSyncing
  | HostNotFound string | HostUnavailable string | HostNotInPool string
  | NotKubevirt string | MtuTooSmall string
  | NoKubevirtHost | NoPoolForAntiAffinity | ProvisionFailed requirements

record multihost_result =
  mr_assignments :: assignments
  mr_network_host_id :: string
  mr_host_ips :: "(string \<times> string option) list"
  mr_vni_map :: "(json \<times> int) list"

record single_result =
  sr_host_id :: string
  sr_host_ip :: "string option"
  sr_requirements :: requirements
  sr_vni_map :: "(json \<times> int) list"
  sr_network_config :: host_network_config

datatype outcome = Raised | Failed place_failure | MultiHost multihost_result | SingleHost single_result

section \<open>Selecting a host\<close>

definition resolve_specified_host :: "database \<Rightarrow> string \<Rightarrow> place_failure + host" where
  "resolve_specified_host db hid =
     (case host_by_id db hid of
        None \<Rightarrow> Inl (HostNotFound (take 8 hid))
      | Some h \<Rightarrow>
          if h_state h \<noteq> ''active'' \<or> h_agent_status h \<noteq> ''connected'' then Inl (HostUnavailable (take 8 hid))
          else if \<not> h_accepting_work h then Inl (HostNotInPool (take 8 hid))
          else Inr h)"

definition validate_specified_host_for_select ::
    "host \<Rightarrow> string option \<Rightarrow> int option \<Rightarrow> bool \<Rightarrow> place_failure + (host \<times> string option)" where
  "validate_specified_host_for_select h pool mtu kubevirt =
     (if kubevirt \<and> h_host_type h \<noteq> ''kubevirt-cluster'' then Inl (NotKubevirt (take 8 (h_id h)))
      else if \<not> host_mtu_ok h mtu then Inl (MtuTooSmall (take 8 (h_id h)))
      else Inr (h, if \<not> opt_truthy pool \<and> opt_truthy (h_storage_pool_id h) then h_storage_pool_id h else pool))"

definition demand_of :: "requirements \<Rightarrow> json list \<Rightarrow> int option \<Rightarrow> demand" where
  "demand_of reqs dids mtu = \<lparr>q_vcpus = r_total_vcpus reqs, q_ram_mb = r_total_ram_mb reqs,
     q_eips = r_requested_eips reqs, q_disk_ids = dids, q_mtu = mtu\<rparr>"

text \<open>The host, if any, and the storage pool to go on with.\<close>

definition select_host ::
    "place_env \<Rightarrow> project \<Rightarrow> requirements \<Rightarrow> bool \<Rightarrow> string option \<Rightarrow> string option \<Rightarrow> json list \<Rightarrow>
     int option \<Rightarrow> bool \<Rightarrow> database \<Rightarrow> (database \<times> (place_failure + (host option \<times> string option))) option" where
  "select_host env project reqs anti pool host_id dids mtu kubevirt db =
     (if opt_truthy host_id then
        (case resolve_specified_host db (the host_id) of
           Inl err \<Rightarrow> Some (db, Inl err)
         | Inr h \<Rightarrow> Some (db, map_sum (\<lambda>e. e) (map_prod Some (\<lambda>p. p))
             (validate_specified_host_for_select h pool mtu kubevirt)))
      else
        let pool = (if \<not> opt_truthy pool then auto_select_pool (pe_overcommit env) db else pool);
            search = find_available_host (pe_overcommit env) (pe_counter env) (demand_of reqs dids mtu)
        in if anti then Some (db, Inr (None, pool))
           else do {
             (db1, host) \<leftarrow> search pool (p_provider_id project) kubevirt db;
             if host = None \<and> opt_truthy pool
             then do {
               (db2, host2) \<leftarrow> search None (p_provider_id project) kubevirt db1;
               Some (db2, Inr (host2, pool))
             }
             else Some (db1, Inr (host, pool))
           })"

section \<open>Multi-host placement\<close>

definition host_ip_entry :: "bool \<Rightarrow> host \<Rightarrow> string \<times> string option" where
  "host_ip_entry same_pool h =
     (h_id h, if same_pool \<and> opt_truthy (h_private_ip h) then h_private_ip h else h_ip_address h)"

definition hosts_in_mesh :: "database \<Rightarrow> assignments \<Rightarrow> host list" where
  "hosts_in_mesh db asg = List.map_filter (\<lambda>hv. host_by_id db (fst hv)) asg"

definition build_multihost_result ::
    "place_env \<Rightarrow> assignments \<Rightarrow> json \<Rightarrow> place_state \<Rightarrow> place_state \<times> outcome" where
  "build_multihost_result env asg topology st =
     (case select_network_host asg topology of
        None \<Rightarrow> (st, Raised)
      | Some network_host_id \<Rightarrow>
          let mesh = hosts_in_mesh (ps_db st) asg;
              same_pool = length (remdups (filter opt_truthy (map h_storage_pool_id mesh))) \<le> 1
          in (case allocate_vnis_for_project (d_projects (ps_db st)) (ps_hwm st) (pe_hwm_writable env) topology of
                Inl _ \<Rightarrow> (st, Raised)
              | Inr (vni_map, hwm) \<Rightarrow>
                  (st\<lparr>ps_hwm := hwm\<rparr>,
                   MultiHost \<lparr>mr_assignments = asg, mr_network_host_id = network_host_id,
                     mr_host_ips = map (host_ip_entry same_pool) mesh, mr_vni_map = vni_map\<rparr>)))"

text \<open>\<^term>\<open>None\<close> as outcome: no placement found, go on.\<close>

definition try_multihost_placement ::
    "place_env \<Rightarrow> project \<Rightarrow> string option \<Rightarrow> bool \<Rightarrow> int option \<Rightarrow> place_state \<Rightarrow>
     place_state \<times> outcome option" where
  "try_multihost_placement env project pool anti mtu st =
     (let prov = p_provider_id project;
          need_pool = anti \<and> \<not> opt_truthy prov \<and> \<not> opt_truthy pool;
          pool = (if need_pool then find_pool_for_anti_affinity (ps_db st) else pool)
      in if need_pool \<and> \<not> opt_truthy pool then (st, Some (Failed NoPoolForAntiAffinity))
         else (case find_multihost_placement (p_topology project) pool prov mtu (ps_db st) of
                 None \<Rightarrow> (st, Some Raised)
               | Some (db, r) \<Rightarrow>
                   (let st = st\<lparr>ps_db := db\<rparr>
                    in (case r of
                          None \<Rightarrow> (st, None)
                        | Some asg \<Rightarrow>
                            if asg = [] then (st, None)
                            else map_prod (\<lambda>s. s) Some (build_multihost_result env asg (p_topology project) st)))))"

section \<open>Auto-provisioning and finalisation\<close>

definition provisioned_host :: "new_host \<Rightarrow> host" where
  "provisioned_host r =
     \<lparr>h_id = nh_host_id r, h_provider_id = None, h_state = ''active'', h_host_type = ''shared'',
      h_total_vcpus = nh_total_vcpus r, h_total_ram_mb = nh_total_ram_mb r, h_used_vcpus = 0,
      h_used_ram_mb = 0, h_ip_address = nh_public_ip r, h_private_ip = None,
      h_agent_status = ''disconnected'', h_max_eips = (case nh_max_eips r of None \<Rightarrow> 0 | Some n \<Rightarrow> n),
      h_uplink_mtu = None, h_storage_pool_id = None, h_accepting_work = True\<rparr>"

definition auto_provision_host ::
    "place_env \<Rightarrow> requirements \<Rightarrow> place_state \<Rightarrow> place_state \<times> (place_failure + host)" where
  "auto_provision_host env reqs st =
     (case pe_provision env of
        None \<Rightarrow> (st, Inl (ProvisionFailed reqs))
      | Some r \<Rightarrow>
          let h = provisioned_host r
          in (st\<lparr>ps_db := (ps_db st)\<lparr>d_hosts := d_hosts (ps_db st) @ [h]\<rparr>\<rparr>, Inr h))"

definition peer_ips_of :: "database \<Rightarrow> string list" where
  "peer_ips_of db = map the (filter opt_truthy (map h_ip_address (filter (\<lambda>h. h_state h = ''active'') (d_hosts db))))"

definition finalize_single_host ::
    "place_env \<Rightarrow> project \<Rightarrow> host \<Rightarrow> requirements \<Rightarrow> place_state \<Rightarrow> place_state \<times> outcome" where
  "finalize_single_host env project h reqs st =
     (case allocate_vnis_for_project (d_projects (ps_db st)) (ps_hwm st) (pe_hwm_writable env) (p_topology project) of
        Inl _ \<Rightarrow> (st, Raised)
      | Inr (vni_map, hwm) \<Rightarrow>
          let st = st\<lparr>ps_hwm := hwm\<rparr>
          in (case build_host_network_config (pe_pick env) (pe_ord env) (p_topology project) vni_map
                    (peer_ips_of (ps_db st)) of
                None \<Rightarrow> (st, Raised)
              | Some network_config \<Rightarrow>
          (case sync_host_capacity (ps_db st) h of
             None \<Rightarrow> (st, Raised)
           | Some h' \<Rightarrow>
               let project' = project\<lparr>p_host_id := Some (h_id h), p_state := ''deploying'',
                     p_deploy_started_at := Some (pe_now env)\<rparr>
               in (st\<lparr>ps_db := store_project project' (store_host h' (ps_db st)),
                      ps_started := ps_started st @ [h_id h]\<rparr>,
                   SingleHost \<lparr>sr_host_id = h_id h, sr_host_ip = h_ip_address h, sr_requirements = reqs,
                     sr_vni_map = vni_map, sr_network_config = network_config\<rparr>))))"

definition provision_and_finalize ::
    "place_env \<Rightarrow> project \<Rightarrow> requirements \<Rightarrow> place_state \<Rightarrow> place_state \<times> outcome" where
  "provision_and_finalize env project reqs st =
     (case auto_provision_host env reqs st of
        (st, Inl err) \<Rightarrow> (st, Failed err)
      | (st, Inr h) \<Rightarrow> finalize_single_host env project h reqs st)"

section \<open>Placing a project\<close>

text \<open>What the topology asks for: requirements, pattern disks, anti-affinity, MTU, KubeVirt.\<close>

definition place_selected ::
    "place_env \<Rightarrow> project \<Rightarrow> string option \<Rightarrow> string option \<Rightarrow> requirements \<Rightarrow> json list \<Rightarrow> place_state \<Rightarrow>
     place_state \<times> outcome" where
  "place_selected env project pool host_id reqs dids st =
     (case do {
        anti \<leftarrow> has_anti_affinity (p_topology project);
        mtu \<leftarrow> required_network_mtu (p_topology project);
        kubevirt \<leftarrow> topology_requires_kubevirt (p_topology project);
        (db, sel) \<leftarrow> select_host env project reqs anti pool host_id dids mtu kubevirt (ps_db st);
        Some (anti, mtu, kubevirt, db, sel)
      } of
        None \<Rightarrow> (st, Raised)
      | Some (anti, mtu, kubevirt, db, sel) \<Rightarrow>
          (let st = st\<lparr>ps_db := db\<rparr>
           in (case sel of
                 Inl err \<Rightarrow> (st, Failed err)
               | Inr (Some h, _) \<Rightarrow> finalize_single_host env project h reqs st
               | Inr (None, pool) \<Rightarrow>
                   if kubevirt then (st, Failed NoKubevirtHost)
                   else (case try_multihost_placement env project pool anti mtu st of
                           (st, Some out) \<Rightarrow> (st, out)
                         | (st, None) \<Rightarrow> provision_and_finalize env project reqs st))))"

definition place_project ::
    "place_env \<Rightarrow> project \<Rightarrow> string option \<Rightarrow> string option \<Rightarrow> place_state \<Rightarrow> place_state \<times> outcome" where
  "place_project env project pool host_id st =
     (if \<not> truthy (p_topology project) then (st, Failed NoTopology)
      else (case calculate_project_requirements (p_topology project) of
        None \<Rightarrow> (st, Raised)
      | Some reqs \<Rightarrow>
          if r_vm_count reqs = 0 then (st, Failed NoVms)
          else (case pattern_disk_ids_from_topology (p_topology project) of
            None \<Rightarrow> (st, Raised)
          | Some dids \<Rightarrow>
              if dids \<noteq> [] \<and> \<not> opt_truthy host_id \<and> \<not> storage_ready_anywhere (ps_db st) dids
              then (st, Failed StorageSyncing)
              else place_selected env project pool host_id reqs dids st)))"

section \<open>Persisting a placement\<close>

text \<open>\<open>_setup_multi_host_placement\<close> of \<open>api/projects.py\<close>: the caller of a multi-host
  placement flattens the assignments and stores them with the project. The VNI map is stored
  as a JSON object.\<close>

definition vni_json :: "(json \<times> int) list \<Rightarrow> json" where
  "vni_json m = JObj (map (\<lambda>(k, v). (case py_str k of None \<Rightarrow> [] | Some s \<Rightarrow> s, JInt v)) m)"

definition flatten_assignments :: "assignments \<Rightarrow> (json \<times> string) list" where
  "flatten_assignments asg =
     foldl (\<lambda>flat hv. foldl (\<lambda>f v. AList.update v (fst hv) f) flat (snd hv)) [] asg"

definition setup_multi_host_placement :: "project \<Rightarrow> multihost_result \<Rightarrow> database \<Rightarrow> database" where
  "setup_multi_host_placement project r db =
     store_project (project\<lparr>p_state := ''deploying'', p_mesh_network_host_id := Some (mr_network_host_id r),
       p_host_id := Some (mr_network_host_id r), p_vni_map := vni_json (mr_vni_map r),
       p_host_assignments := Some (flatten_assignments (mr_assignments r))\<rparr>) db"

end
