(* ===== verification/Host_Choice.thy ===== *)
theory Host_Choice
  imports Capacity
begin

text \<open>
  What the single-host choice of \<open>Capacity\<close> guarantees: recounting the capacity of a host,
  soundness, optimality and completeness of the search for a host, the diagnosis of a failed
  search, and the choice of a storage pool.
\<close>

section \<open>Recounting capacity\<close>

abbreviation project_need :: "project \<Rightarrow> requirements option" where
  "project_need p \<equiv> calculate_project_requirements (py_or (p_topology p) (JObj []))"

lemma add_project_sum:
  "add_project acc p = map_option (\<lambda>(a, b). (fst acc + a, snd acc + b))
     (map_option (\<lambda>r. (r_total_vcpus r, r_total_ram_mb r)) (project_need p))"
  by (cases "project_need p") (simp_all add: add_project_def)

lemma sync_host_capacity_Some:
  "sync_host_capacity db h = Some h' \<longleftrightarrow>
     (\<forall>p\<in>set (filter (counted_on h) (d_projects db)). project_need p \<noteq> None) \<and>
     h' = h\<lparr>h_used_vcpus := (\<Sum>p\<leftarrow>filter (counted_on h) (d_projects db). r_total_vcpus (the (project_need p))),
            h_used_ram_mb := (\<Sum>p\<leftarrow>filter (counted_on h) (d_projects db). r_total_ram_mb (the (project_need p)))\<rparr>"
  (is "?l \<longleftrightarrow> ?all \<and> h' = ?h")
proof -
  have m: "map (\<lambda>p. k (the (map_option (\<lambda>r. (r_total_vcpus r, r_total_ram_mb r)) (project_need p))))
      (filter (counted_on h) (d_projects db)) =
      map (\<lambda>p. k (r_total_vcpus (the (project_need p)), r_total_ram_mb (the (project_need p))))
      (filter (counted_on h) (d_projects db))" if ?all for k
    using that by (intro map_cong refl) (auto simp: option.map_sel)
  show ?thesis
  proof (cases ?all)
    case True
    then show ?thesis
      by (auto simp: sync_host_capacity_def bind_eq_Some_conv ofold_pair_sum [OF add_project_sum]
          m [OF True, of fst] m [OF True, of snd] simp del: set_filter)
  next
    case False
    then show ?thesis
      by (auto simp: sync_host_capacity_def bind_eq_Some_conv ofold_pair_sum [OF add_project_sum])
  qed
qed

lemma sync_keeps:
  assumes "sync_host_capacity db h = Some h'"
  shows "h_id h' = h_id h" "h_state h' = h_state h" "h_agent_status h' = h_agent_status h"
    "h_accepting_work h' = h_accepting_work h" "h_host_type h' = h_host_type h"
    "h_storage_pool_id h' = h_storage_pool_id h" "h_provider_id h' = h_provider_id h"
    "h_uplink_mtu h' = h_uplink_mtu h" "h_max_eips h' = h_max_eips h"
    "h_total_ram_mb h' = h_total_ram_mb h" "h_total_vcpus h' = h_total_vcpus h"
  using assms by (auto simp: sync_host_capacity_Some)


text \<open>Recounting a host sets its used vCPUs and RAM to the sums of what the projects on it
  need, over the projects whose state is one of the six counted ones, and changes nothing
  else of the row; recounting again changes nothing.\<close>

theorem sync_host_capacity_sums:
  assumes "sync_host_capacity db h = Some h'"
  shows "h' = h\<lparr>h_used_vcpus := (\<Sum>p\<leftarrow>filter (counted_on h) (d_projects db). r_total_vcpus (the (project_need p))),
                h_used_ram_mb := (\<Sum>p\<leftarrow>filter (counted_on h) (d_projects db). r_total_ram_mb (the (project_need p)))\<rparr> \<and>
    sync_host_capacity (store_host h' db) h' = Some h'"
proof -
  have "counted_on h' = counted_on h" using sync_keeps(1) [OF assms] by (auto simp: counted_on_def fun_eq_iff)
  then show ?thesis using assms by (auto simp: sync_host_capacity_Some)
qed

section \<open>The search for a host\<close>

definition eligible :: "string option \<Rightarrow> string option \<Rightarrow> bool \<Rightarrow> host \<Rightarrow> bool" where
  "eligible pool prov kubevirt h \<longleftrightarrow>
     placement_host h \<and> h_host_type h \<noteq> ''pattern_buffer'' \<and> host_query pool prov kubevirt h"

definition demand_met :: "overcommit \<Rightarrow> database \<Rightarrow> demand \<Rightarrow> host \<Rightarrow> bool" where
  "demand_met oc db q h \<longleftrightarrow> q_vcpus q \<le> free_vcpus oc h \<and> q_ram_mb q \<le> free_ram oc h \<and>
     (q_eips q > 0 \<longrightarrow> check_eip_capacity db h (q_eips q)) \<and>
     host_has_pattern_storage db h (q_disk_ids q) \<and> host_mtu_ok h (q_mtu q)"

lemma store_hosts_frames [simp]:
  "d_projects (foldl (\<lambda>d h. store_host h d) db hs) = d_projects db"
  "d_eips (foldl (\<lambda>d h. store_host h d) db hs) = d_eips db"
  "d_providers (foldl (\<lambda>d h. store_host h d) db hs) = d_providers db"
  "d_locations (foldl (\<lambda>d h. store_host h d) db hs) = d_locations db"
  "d_pools (foldl (\<lambda>d h. store_host h d) db hs) = d_pools db"
  by (induction hs arbitrary: db) simp_all

lemma ready_cong:
  "d_locations db' = d_locations db \<Longrightarrow> host_has_pattern_storage db' = host_has_pattern_storage db"
  by (simp add: fun_eq_iff host_has_pattern_storage_def disks_ready_iff shared_source_def synced_at_def)

lemma demand_met_frame:
  "demand_met oc (foldl (\<lambda>d h. store_host h d) db hs) = demand_met oc db"
  by (simp add: fun_eq_iff demand_met_def check_eip_capacity_def get_host_eip_usage_def provider_by_id_def
      ready_cong [of "foldl (\<lambda>d h. store_host h d) db hs" db] cong: option.case_cong)

lemma fits_iff:
  "host_fits_requirements oc counter db q h =
     (if demand_met oc db q h then Some (h, free_vcpus oc h, free_ram oc h, get_inflight_deploys counter (h_id h))
      else None)"
  by (auto simp: host_fits_requirements_def demand_met_def)

definition load_key :: "overcommit \<Rightarrow> (string \<Rightarrow> int option) \<Rightarrow> host \<Rightarrow> int \<times> rat" where
  "load_key oc counter h = (get_inflight_deploys counter (h_id h), - free_ram oc h)"

lemma map_filter_fits:
  "List.map_filter (host_fits_requirements oc counter db q) hs =
     map (\<lambda>h. (h, free_vcpus oc h, free_ram oc h, get_inflight_deploys counter (h_id h)))
       (filter (demand_met oc db q) hs)"
  by (induction hs) (auto simp: fits_iff map_filter_simps)

lemma find_available_host_unfold:
  assumes "find_available_host oc counter q pool prov kubevirt db = Some (db', r)"
  obtains hs where "omap (sync_host_capacity db) (filter (eligible pool prov kubevirt) (d_hosts db)) = Some hs"
    "db' = foldl (\<lambda>d h. store_host h d) db hs"
    "r = (case sort_key (load_key oc counter) (filter (demand_met oc db q) hs) of [] \<Rightarrow> None | h # _ \<Rightarrow> Some h)"
proof -
  let ?c = "\<lambda>h. (h, free_vcpus oc h, free_ram oc h, get_inflight_deploys counter (h_id h))"
  have "(\<lambda>h. candidate_key (?c h)) = load_key oc counter" by (simp add: fun_eq_iff candidate_key_def load_key_def)
  then have k: "sort_key candidate_key (map ?c xs) = map ?c (sort_key (load_key oc counter) xs)" for xs
    by (simp add: sort_key_map)
  have e: "(\<lambda>h. placement_host h \<and> h_host_type h \<noteq> ''pattern_buffer'' \<and> host_query pool prov kubevirt h) =
      eligible pool prov kubevirt" by (simp add: fun_eq_iff eligible_def)
  have c: "(case map ?c xs of [] \<Rightarrow> None | c # _ \<Rightarrow> Some (fst c)) = (case xs of [] \<Rightarrow> None | h # _ \<Rightarrow> Some h)" for xs
    by (cases xs) simp_all
  from assms that show ?thesis
    by (auto simp: find_available_host_def sync_hosts_def bind_eq_Some_conv Let_def map_filter_fits
        demand_met_frame k e c)
qed

lemma synced_set:
  "omap (sync_host_capacity db) hs = Some hs' \<Longrightarrow>
     set hs' = {h'. \<exists>h\<in>set hs. sync_host_capacity db h = Some h'}"
  by (induction hs arbitrary: hs') (auto simp: bind_eq_Some_conv)

lemma sorted_head:
  "(case sort_key f xs of [] \<Rightarrow> None | x # _ \<Rightarrow> Some x) = None \<longleftrightarrow> xs = []"
  "(case sort_key f xs of [] \<Rightarrow> None | x # _ \<Rightarrow> Some x) = Some y \<Longrightarrow> y \<in> set xs \<and> (\<forall>x\<in>set xs. f y \<le> f x)"
proof -
  show "(case sort_key f xs of [] \<Rightarrow> None | x # _ \<Rightarrow> Some x) = None \<longleftrightarrow> xs = []"
    by (metis list.exhaust list.simps(4,5) option.distinct(1) set_empty set_sort)
  show "(case sort_key f xs of [] \<Rightarrow> None | x # _ \<Rightarrow> Some x) = Some y \<Longrightarrow> y \<in> set xs \<and> (\<forall>x\<in>set xs. f y \<le> f x)"
    by (auto split: list.splits dest: sort_key_hd_least) (metis list.set_intros(1) set_sort)
qed

text \<open>C2: the host the search returns is one of the eligible hosts, recounted; it has the free
  vCPUs and RAM, the external addresses, the pattern disks and the MTU the deployment asks for;
  and no other eligible host that has them comes before it in the order "fewest deployments in
  flight, then most free RAM". When the search returns no host, no eligible host meets the
  demand. Apart from the recounted rows the database is unchanged.\<close>

theorem find_available_host_correct:
  assumes "find_available_host oc counter q pool prov kubevirt db = Some (db', r)"
  shows "(\<forall>h'. r = Some h' \<longrightarrow>
      (\<exists>h\<in>set (d_hosts db). eligible pool prov kubevirt h \<and> sync_host_capacity db h = Some h') \<and>
      demand_met oc db q h' \<and>
      (\<forall>g\<in>set (d_hosts db). \<forall>g'. eligible pool prov kubevirt g \<and> sync_host_capacity db g = Some g' \<and>
         demand_met oc db q g' \<longrightarrow> load_key oc counter h' \<le> load_key oc counter g')) \<and>
    (r = None \<longrightarrow> (\<forall>h\<in>set (d_hosts db). \<forall>h'. eligible pool prov kubevirt h \<and>
         sync_host_capacity db h = Some h' \<longrightarrow> \<not> demand_met oc db q h')) \<and>
    d_projects db' = d_projects db \<and> d_eips db' = d_eips db \<and> map h_id (d_hosts db') = map h_id (d_hosts db)"
proof -
  obtain hs where hs: "omap (sync_host_capacity db) (filter (eligible pool prov kubevirt) (d_hosts db)) = Some hs"
    and db': "db' = foldl (\<lambda>d h. store_host h d) db hs"
    and r: "r = (case sort_key (load_key oc counter) (filter (demand_met oc db q) hs) of [] \<Rightarrow> None | h # _ \<Rightarrow> Some h)"
    using find_available_host_unfold [OF assms] by blast
  have ids: "map h_id (d_hosts (foldl (\<lambda>d h. store_host h d) d xs)) = map h_id (d_hosts d)" for d xs
    by (induction xs arbitrary: d) (auto simp: store_host_def)
  note s = synced_set [OF hs]
  show ?thesis
  proof (cases r)
    case None
    with r sorted_head(1) have "filter (demand_met oc db q) hs = []" by metis
    with None s db' ids show ?thesis by (auto simp: filter_empty_conv)
  next
    case (Some h')
    with r sorted_head(2) have "h' \<in> set (filter (demand_met oc db q) hs)"
        "\<forall>x\<in>set (filter (demand_met oc db q) hs). load_key oc counter h' \<le> load_key oc counter x"
      by metis+
    with Some s db' ids show ?thesis by auto
  qed
qed

lemma sync_total:
  assumes "\<forall>p\<in>set (d_projects db). project_need p \<noteq> None"
  shows "sync_host_capacity db h \<noteq> None"
  using assms sync_host_capacity_Some [of db h] by auto

lemma sync_hosts_total:
  assumes "\<forall>p\<in>set (d_projects db). project_need p \<noteq> None"
  shows "\<exists>r. sync_hosts db hs = Some r"
proof -
  have "omap (sync_host_capacity db) hs = Some (map (\<lambda>h. the (sync_host_capacity db h)) hs)"
    by (rule omap_total) (use sync_total [OF assms] in auto)
  then show ?thesis by (simp add: sync_hosts_def)
qed


section \<open>The diagnosis\<close>

lemma best_free_ge:
  "b \<le> foldl (\<lambda>b h. max b (f h)) b hs \<and> (\<forall>h\<in>set hs. f h \<le> foldl (\<lambda>b h. max b (f h)) b hs)" for b :: rat
proof (induction hs arbitrary: b)
  case (Cons h hs)
  then show ?case using max.bounded_iff by fastforce
qed simp

lemma best_free_attained:
  "foldl (\<lambda>b h. max b (f h)) b hs = b \<or> (\<exists>h\<in>set hs. foldl (\<lambda>b h. max b (f h)) b hs = f h)" for b :: rat
proof (induction hs arbitrary: b)
  case (Cons h hs)
  then show ?case by (auto simp: max_def)
qed simp

lemma best_free_less_iff: "0 < x \<Longrightarrow> best_free f hs < x \<longleftrightarrow> (\<forall>h\<in>set hs. f h < x)"
  using best_free_ge [of 0 f hs] best_free_attained [of f 0 hs]
  by (auto simp: best_free_def)

text \<open>What each message says, over the recounted hosts \<open>hs\<close> that could take the deployment
  (those with the disks, if any).\<close>

fun shortfall_true :: "overcommit \<Rightarrow> rat \<Rightarrow> rat \<Rightarrow> host list \<Rightarrow> diagnosis \<Rightarrow> bool" where
  "shortfall_true oc c r hs (ShortCpuAndRam c' r' bc br) =
     (c' = c \<and> r' = r \<and> (\<forall>h\<in>set hs. free_vcpus oc h < c \<and> free_ram oc h < r))"
| "shortfall_true oc c r hs (ShortRam r' br) =
     (r' = r \<and> (\<forall>h\<in>set hs. free_ram oc h < r) \<and> (\<exists>h\<in>set hs. c \<le> free_vcpus oc h))"
| "shortfall_true oc c r hs (ShortCpu c' bc) =
     (c' = c \<and> (\<forall>h\<in>set hs. free_vcpus oc h < c) \<and> (\<exists>h\<in>set hs. r \<le> free_ram oc h))"
| "shortfall_true oc c r hs Fragmented =
     ((\<exists>h\<in>set hs. c \<le> free_vcpus oc h) \<and> (\<exists>h\<in>set hs. r \<le> free_ram oc h) \<and>
      (\<forall>h\<in>set hs. free_vcpus oc h < c \<or> free_ram oc h < r))"
| "shortfall_true oc c r hs _ = False"

lemma shortfall_reason_true:
  assumes "0 < c" "0 < r" "\<forall>h\<in>set hs. free_vcpus oc h < c \<or> free_ram oc h < r"
  shows "shortfall_true oc c r hs (capacity_shortfall_reason oc hs c r)"
  using assms by (auto simp: capacity_shortfall_reason_def Let_def best_free_less_iff not_less)

lemma accepting_eligible:
  "filter h_accepting_work (filter (\<lambda>h. h_state h = ''active'' \<and> h_agent_status h = ''connected'' \<and>
     h_host_type h \<noteq> ''pattern_buffer'' \<and> host_query pool prov kubevirt h) hs) =
   filter (eligible pool prov kubevirt) hs"
  by (auto simp: eligible_def placement_host_def intro: filter_cong)

lemma diagnose_cases:
  assumes "diagnose_placement_failure oc c r pool prov dids kubevirt db = Some (db', d)"
  obtains (none) "\<forall>h\<in>set (d_hosts db). \<not> eligible pool prov kubevirt h"
      "d \<in> {NoKubevirtHosts, NoHosts, NoneAccepting}"
  | (some) hs where "omap (sync_host_capacity db) (filter (eligible pool prov kubevirt) (d_hosts db)) = Some hs"
      "hs \<noteq> []" "d = (if dids \<noteq> [] \<and> filter (\<lambda>h. host_has_pattern_storage db h dids) hs = [] then DisksUnavailable
        else capacity_shortfall_reason oc (filter (\<lambda>h. host_has_pattern_storage db h dids) hs) c r)"
proof (cases "filter (eligible pool prov kubevirt) (d_hosts db) = []")
  case True
  with assms show ?thesis
    by (intro none) (auto simp: diagnose_placement_failure_def accepting_eligible Let_def filter_empty_conv
        simp del: filter_filter split: if_splits)
next
  case False
  let ?act = "filter (\<lambda>h. h_state h = ''active'' \<and> h_agent_status h = ''connected'' \<and>
     h_host_type h \<noteq> ''pattern_buffer'' \<and> host_query pool prov kubevirt h) (d_hosts db)"
  have "?act \<noteq> []" using False accepting_eligible [of pool prov kubevirt "d_hosts db"] by (metis filter.simps(1))
  with False obtain hs where hs: "omap (sync_host_capacity db) (filter (eligible pool prov kubevirt) (d_hosts db)) = Some hs"
    and d: "d = (let ok = filter (\<lambda>h. host_has_pattern_storage db h dids) hs
       in if dids \<noteq> [] \<and> ok = [] then DisksUnavailable
          else capacity_shortfall_reason oc (if ok = [] then hs else ok) c r)"
    using assms
    by (auto simp: diagnose_placement_failure_def accepting_eligible Let_def sync_hosts_def bind_eq_Some_conv
        ready_cong [of "foldl (\<lambda>d h. store_host h d) db _" db] simp del: filter_filter)
  have "hs \<noteq> []" using False omap_length [OF hs] by auto
  moreover have "filter (\<lambda>h. host_has_pattern_storage db h []) hs = hs"
    by (simp add: host_has_pattern_storage_def)
  ultimately show ?thesis using d hs by (intro some [of hs]) (auto simp: Let_def)
qed

text \<open>When the search for a host (asking for vCPUs, RAM and pattern disks) found none, the
  message the operator gets is true: "no hosts" or "none accepting" only when no host is
  eligible, "disks unavailable" only when no eligible host's provider has them all, and
  otherwise "CPU", "RAM", "CPU and RAM" or "fragmented" describe exactly what the hosts that
  have the disks are short of.\<close>

theorem diagnosis_explains_failure:
  assumes "find_available_host oc counter q pool prov kubevirt db = Some (db1, None)"
    and "diagnose_placement_failure oc (q_vcpus q) (q_ram_mb q) pool prov (q_disk_ids q) kubevirt db = Some (db2, d)"
    and "q_eips q = 0" "q_mtu q = None" "0 < q_vcpus q" "0 < q_ram_mb q"
  shows "if d \<in> {NoKubevirtHosts, NoHosts, NoneAccepting} then \<forall>h\<in>set (d_hosts db). \<not> eligible pool prov kubevirt h
    else if d = DisksUnavailable then \<forall>h\<in>set (d_hosts db). eligible pool prov kubevirt h \<longrightarrow>
        \<not> pattern_disks_ready_on_provider db (q_disk_ids q) (h_provider_id h)
    else \<exists>hs. set hs = {h'. \<exists>h\<in>set (d_hosts db). eligible pool prov kubevirt h \<and>
        sync_host_capacity db h = Some h' \<and> host_has_pattern_storage db h' (q_disk_ids q)} \<and>
      shortfall_true oc (q_vcpus q) (q_ram_mb q) hs d"
  using assms(2)
proof (cases rule: diagnose_cases)
  case none
  then show ?thesis by auto
next
  case (some hs)
  let ?ok = "filter (\<lambda>h. host_has_pattern_storage db h (q_disk_ids q)) hs"
  obtain hs' where "omap (sync_host_capacity db) (filter (eligible pool prov kubevirt) (d_hosts db)) = Some hs'"
    "None = (case sort_key (load_key oc counter) (filter (demand_met oc db q) hs') of [] \<Rightarrow> None | h # _ \<Rightarrow> Some h)"
    by (rule find_available_host_unfold [OF assms(1)])
  then have "filter (demand_met oc db q) hs = []" using some(1) sorted_head(1) by (metis option.inject)
  then have "\<forall>h\<in>set ?ok. free_vcpus oc h < q_vcpus q \<or> free_ram oc h < q_ram_mb q"
    using assms(3,4) by (auto simp: filter_empty_conv demand_met_def host_mtu_ok_def not_le)
  note t = shortfall_reason_true [OF assms(5,6) this]
  have s: "set ?ok = {h'. \<exists>h\<in>set (d_hosts db). eligible pool prov kubevirt h \<and>
      sync_host_capacity db h = Some h' \<and> host_has_pattern_storage db h' (q_disk_ids q)}"
    using synced_set [OF some(1)] by auto
  show ?thesis
  proof (cases "q_disk_ids q \<noteq> [] \<and> ?ok = []")
    case True
    have "\<not> pattern_disks_ready_on_provider db (q_disk_ids q) (h_provider_id h)"
      if h: "h \<in> set (d_hosts db)" "eligible pool prov kubevirt h" for h
    proof -
      obtain h' where h': "sync_host_capacity db h = Some h'" using omap_defined [OF some(1), of h] h by auto
      have "\<not> host_has_pattern_storage db h' (q_disk_ids q)" using s True h h' by auto
      then show ?thesis using sync_keeps(7) [OF h'] by (simp add: host_has_pattern_storage_def)
    qed
    then show ?thesis using some(3) True by simp
  next
    case False
    with some(3) have "d = capacity_shortfall_reason oc ?ok (q_vcpus q) (q_ram_mb q)" by metis
    with t have d: "shortfall_true oc (q_vcpus q) (q_ram_mb q) ?ok d" by simp
    have "\<exists>hs. set hs = {h'. \<exists>h\<in>set (d_hosts db). eligible pool prov kubevirt h \<and>
        sync_host_capacity db h = Some h' \<and> host_has_pattern_storage db h' (q_disk_ids q)} \<and>
      shortfall_true oc (q_vcpus q) (q_ram_mb q) hs d"
      using s d by (intro exI [of _ ?ok] conjI)
    moreover from d have "d \<notin> {NoKubevirtHosts, NoHosts, NoneAccepting}" "d \<noteq> DisksUnavailable" by auto
    ultimately show ?thesis by simp
  qed
qed

section \<open>Storage pools\<close>

lemma better_pool_fold:
  "case foldl (better_pool oc db) (b, x) pools of (b', x') \<Rightarrow>
     x \<le> x' \<and> (\<forall>s\<in>set pools. pool_free oc db s \<le> x') \<and>
     (b' = b \<and> x' = x \<or> (\<exists>s\<in>set pools. b' = Some (sp_id s) \<and> x' = pool_free oc db s \<and> x < x'))"
proof (induction pools arbitrary: b x)
  case (Cons s pools)
  show ?case
  proof (cases "pool_free oc db s > x")
    case True
    then have "better_pool oc db (b, x) s = (Some (sp_id s), pool_free oc db s)" by (simp add: better_pool_def)
    with True Cons.IH [where b = "Some (sp_id s)" and x = "pool_free oc db s"] show ?thesis by auto
  next
    case False
    then have "better_pool oc db (b, x) s = (b, x)" by (simp add: better_pool_def)
    with False Cons.IH [where b = b and x = x] show ?thesis by auto
  qed
qed simp

text \<open>The automatic choice among two or more available storage pools is one with the most
  free RAM over its placeable hosts, and none is chosen exactly when no pool is available or
  every pool is overdrawn by one MB or more; a single available pool is chosen whatever it
  has left.\<close>

theorem auto_select_pool_best:
  "(let pools = filter (\<lambda>s. sp_status s = ''available'') (d_pools db)
    in case auto_select_pool oc db of
         None \<Rightarrow> length pools \<noteq> 1 \<and> list_all (\<lambda>s. pool_free oc db s \<le> - 1) pools
       | Some i \<Rightarrow> list_ex (\<lambda>s. sp_id s = i \<and> (length pools = 1 \<or> - 1 < pool_free oc db s \<and>
           list_all (\<lambda>t. pool_free oc db t \<le> pool_free oc db s) pools)) pools)"
proof -
  define pools where "pools = filter (\<lambda>s. sp_status s = ''available'') (d_pools db)"
  consider "pools = []" | s where "pools = [s]" | s t ps where "pools = s # t # ps"
    by (metis list.exhaust)
  then show ?thesis
  proof cases
    case 3
    obtain b x where bx: "foldl (better_pool oc db) (None, - 1) pools = (b, x)" by fastforce
    with 3 have "auto_select_pool oc db = b" by (simp add: auto_select_pool_def flip: pools_def)
    moreover have "\<forall>s\<in>set pools. pool_free oc db s \<le> x"
        "b = None \<and> x = - 1 \<or> (\<exists>s\<in>set pools. b = Some (sp_id s) \<and> x = pool_free oc db s \<and> - 1 < x)"
      using better_pool_fold [where oc = oc and db = db and b = None and x = "- 1" and pools = pools] bx by auto
    ultimately show ?thesis using 3
      unfolding pools_def [symmetric] Let_def
      by (auto simp: list_all_iff list_ex_iff simp del: list.set split: option.splits)
  qed (simp_all add: auto_select_pool_def flip: pools_def)
qed

section \<open>Concrete instances\<close>

definition vm_node :: "string \<Rightarrow> int \<Rightarrow> int \<Rightarrow> json" where
  "vm_node i cpus ram = JObj [(''id'', JStr i), (''type'', JStr ''vmNode''),
     (''data'', JObj [(''vcpus'', JInt cpus), (''ram'', JInt ram)])]"

text \<open>Two hosts; a running project with a 4 vCPU, 8 GB VM on the first.\<close>

definition lab_db :: database where
  "lab_db = empty_db\<lparr>d_hosts := [sample_host ''h'', sample_host ''g''],
     d_projects := [(sample_project ''p'' (JObj [(''nodes'', JList [vm_node ''vm1'' 4 8])]))
       \<lparr>p_host_id := Some ''h'', p_state := ''active''\<rparr>]\<rparr>"

definition lab_demand :: "rat \<Rightarrow> demand" where
  "lab_demand c = \<lparr>q_vcpus = c, q_ram_mb = 4096, q_eips = 0, q_disk_ids = [], q_mtu = None\<rparr>"

lemma lab_sync: "sync_host_capacity lab_db (sample_host ''h'') =
    Some ((sample_host ''h'')\<lparr>h_used_vcpus := 4, h_used_ram_mb := 8192\<rparr>)"
  "sync_host_capacity lab_db (sample_host ''g'') = Some (sample_host ''g'')"
  by code_simp+

lemma lab_hosts: "set (d_hosts lab_db) = {sample_host ''h'', sample_host ''g''}"
  by (simp add: lab_db_def)

theorem sync_host_capacity_sums_witness:
  "sync_host_capacity lab_db (sample_host ''h'') =
     Some ((sample_host ''h'')\<lparr>h_used_vcpus := 4, h_used_ram_mb := 8192\<rparr>) \<and>
   (\<Sum>p\<leftarrow>filter (counted_on (sample_host ''h'')) (d_projects lab_db). r_total_ram_mb (the (project_need p))) = 8192"
  using sync_host_capacity_sums [OF lab_sync(1)] lab_sync(1) by (simp add: sample_host_def)

lemma lab_find: "find_available_host None (\<lambda>k. Some 0) (lab_demand 2) None None False lab_db =
    Some (store_host (sample_host ''g'')
      (store_host ((sample_host ''h'')\<lparr>h_used_vcpus := 4, h_used_ram_mb := 8192\<rparr>) lab_db), Some (sample_host ''g''))"
  by code_simp

theorem find_available_host_correct_witness:
  "find_available_host None (\<lambda>k. Some 0) (lab_demand 2) None None False lab_db =
     Some (store_host (sample_host ''g'')
      (store_host ((sample_host ''h'')\<lparr>h_used_vcpus := 4, h_used_ram_mb := 8192\<rparr>) lab_db), Some (sample_host ''g'')) \<and>
   demand_met None lab_db (lab_demand 2) (sample_host ''g'')"
  using find_available_host_correct [OF lab_find] lab_find by blast


lemma lab_diagnose: "diagnose_placement_failure None (q_vcpus (lab_demand 100)) (q_ram_mb (lab_demand 100))
    None None (q_disk_ids (lab_demand 100)) False lab_db =
    Some (store_host (sample_host ''g'')
      (store_host ((sample_host ''h'')\<lparr>h_used_vcpus := 4, h_used_ram_mb := 8192\<rparr>) lab_db), ShortCpu 100 32)"
  by code_simp

lemma lab_find_fails: "find_available_host None (\<lambda>k. Some 0) (lab_demand 100) None None False lab_db =
    Some (store_host (sample_host ''g'')
      (store_host ((sample_host ''h'')\<lparr>h_used_vcpus := 4, h_used_ram_mb := 8192\<rparr>) lab_db), None)"
  by code_simp

theorem diagnosis_explains_failure_witness:
  "\<exists>hs. set hs = {h'. \<exists>h\<in>set (d_hosts lab_db). eligible None None False h \<and>
        sync_host_capacity lab_db h = Some h' \<and> host_has_pattern_storage lab_db h' []} \<and>
      shortfall_true None 100 4096 hs (ShortCpu 100 32)"
  using diagnosis_explains_failure [OF lab_find_fails lab_diagnose] by (simp add: lab_demand_def)

end
