(* ===== verification/Bin_Packing_Laws.thy ===== *)
theory Bin_Packing_Laws
  imports Bin_Packing Host_Choice "HOL-Library.Multiset"
begin

text \<open>
  What multi-host placement guarantees. The abstract view of a packing is a placement list
  \<open>pl\<close> of pairs (host, unit) in the order the units were placed; the dictionaries of the code
  are functions of it. Soundness: every unit is placed once, within the capacity of its host
  and apart from the units it has to be separated from. Completeness: packing succeeds
  whenever some host could hold everything and no two units have to be separated.
\<close>

section \<open>Placement lists\<close>

definition units_on :: "string \<Rightarrow> (string \<times> unit_vms) list \<Rightarrow> unit_vms list" where
  "units_on h pl = map snd (filter (\<lambda>p. fst p = h) pl)"

definition unit_groups :: "(json \<times> string) list \<Rightarrow> json list \<Rightarrow> string set" where
  "unit_groups anti ids = {g. \<exists>i\<in>set ids. map_of anti i = Some g}"

abbreviation apart :: "(json \<times> string) list \<Rightarrow> unit_vms \<Rightarrow> unit_vms \<Rightarrow> bool" where
  "apart anti u v \<equiv> unit_groups anti (u_vm_ids u) \<inter> unit_groups anti (u_vm_ids v) = {}"

abbreviation ram_on :: "string \<Rightarrow> (string \<times> unit_vms) list \<Rightarrow> rat" where
  "ram_on h pl \<equiv> sum_list (map u_ram_mb (units_on h pl))"

abbreviation cpus_on :: "string \<Rightarrow> (string \<times> unit_vms) list \<Rightarrow> rat" where
  "cpus_on h pl \<equiv> sum_list (map u_vcpus (units_on h pl))"

abbreviation vms_on :: "string \<Rightarrow> (string \<times> unit_vms) list \<Rightarrow> json list" where
  "vms_on h pl \<equiv> concat (map u_vm_ids (units_on h pl))"

lemma units_on_simps [simp]:
  "units_on h [] = []"
  "units_on h (pl @ [(h', u)]) = (if h' = h then units_on h pl @ [u] else units_on h pl)"
  by (simp_all add: units_on_def)

lemma unit_groups_append [simp]: "unit_groups anti (xs @ ys) = unit_groups anti xs \<union> unit_groups anti ys"
  by (auto simp: unit_groups_def)

lemma unit_groups_concat: "unit_groups anti (concat xss) = (\<Union>xs\<in>set xss. unit_groups anti xs)"
  by (induction xss) (auto simp: unit_groups_def)

lemma aa_groups_set: "aa_groups anti ids = Some gs \<Longrightarrow> set gs = unit_groups anti ids"
  by (force simp: aa_groups_def unit_groups_def bind_eq_Some_conv map_filter_def dest!: omap_hkey)

section \<open>One step\<close>

lemma can_place_True:
  assumes "can_place_on_host u r a anti = Some True"
  shows "u_ram_mb u \<le> fst r" "u_vcpus u \<le> snd r"
    "unit_groups anti (u_vm_ids u) \<inter> unit_groups anti a = {}"
  using assms
  by (auto simp: can_place_on_host_def bind_eq_Some_conv list_all_iff simp flip: aa_groups_set
      split: if_splits)

lemma hosts_by_ram_set [simp]: "set (hosts_by_ram rem) = fst ` set rem"
  by (simp add: hosts_by_ram_def)

definition host_ok ::
    "(json \<times> string) list \<Rightarrow> remaining \<Rightarrow> (string \<times> unit_vms) list \<Rightarrow> string \<Rightarrow>
     json list option \<Rightarrow> (rat \<times> rat) option \<Rightarrow> bool" where
  "host_ok anti rem0 pl h assigned left \<longleftrightarrow>
     (\<exists>r c. map_of rem0 h = Some (r, c) \<and> assigned = Some (vms_on h pl) \<and>
        left = Some (r - ram_on h pl, c - cpus_on h pl) \<and>
        (units_on h pl \<noteq> [] \<longrightarrow> ram_on h pl \<le> r \<and> cpus_on h pl \<le> c) \<and>
        sorted_wrt (apart anti) (units_on h pl))"

definition pack_inv ::
    "(json \<times> string) list \<Rightarrow> string list \<Rightarrow> remaining \<Rightarrow> (string \<times> unit_vms) list \<Rightarrow>
     assignments \<times> remaining \<Rightarrow> bool" where
  "pack_inv anti hids rem0 pl st \<longleftrightarrow>
     map fst (fst st) = hids \<and> map fst (snd st) = hids \<and> fst ` set pl \<subseteq> set hids \<and>
     (\<forall>h\<in>set hids. host_ok anti rem0 pl h (map_of (fst st) h) (map_of (snd st) h))"

lemma pack_inv_init:
  assumes "map fst rem = hids"
  shows "pack_inv anti hids rem [] (map (\<lambda>hid. (hid, [])) hids, rem)"
proof -
  have "host_ok anti rem [] h (map_of (map (\<lambda>hid. (hid, [])) hids) h) (map_of rem h)" if "h \<in> set hids" for h
  proof -
    have "h \<in> fst ` set rem" using that assms by (metis image_set)
    then obtain rc where "map_of rem h = Some rc" by (cases "map_of rem h") (auto simp: map_of_eq_None_iff)
    then show ?thesis using that by (cases rc) (simp add: host_ok_def map_of_map_restrict)
  qed
  then show ?thesis using assms by (simp add: pack_inv_def comp_def)
qed

lemma host_ok_other:
  "hid \<noteq> h \<Longrightarrow> host_ok anti rem0 (pl @ [(hid, u)]) h a l \<longleftrightarrow> host_ok anti rem0 pl h a l"
  by (simp add: host_ok_def)

lemma host_ok_take:
  assumes ok: "host_ok anti rem0 pl hid (Some a) (Some l)"
    and q: "u_ram_mb u \<le> fst l" "u_vcpus u \<le> snd l" "unit_groups anti (u_vm_ids u) \<inter> unit_groups anti a = {}"
  shows "host_ok anti rem0 (pl @ [(hid, u)]) hid (Some (a @ u_vm_ids u)) (Some (fst l - u_ram_mb u, snd l - u_vcpus u))"
proof -
  have "a = vms_on hid pl" using ok by (auto simp: host_ok_def)
  with q(3) have "unit_groups anti (u_vm_ids u) \<inter> (\<Union>v\<in>set (units_on hid pl). unit_groups anti (u_vm_ids v)) = {}"
    by (simp add: unit_groups_concat)
  then have "\<forall>v\<in>set (units_on hid pl). apart anti v u" by blast
  with ok have "sorted_wrt (apart anti) (units_on hid pl @ [u])"
    by (auto simp: host_ok_def sorted_wrt_append)
  with ok q(1,2) show ?thesis by (auto simp: host_ok_def algebra_simps)
qed

lemma pack_inv_step:
  assumes inv: "pack_inv anti hids rem0 pl st"
    and hid: "ofind (try_host anti u (fst st) (snd st)) (hosts_by_ram (snd st)) = Some (Some hid)"
  shows "pack_inv anti hids rem0 (pl @ [(hid, u)]) (take_unit u hid st)"
proof -
  have "hid \<in> set (map fst (snd st))" and t: "try_host anti u (fst st) (snd st) hid = Some True"
    using ofind_Some_Some [OF hid] by simp_all
  with inv have mem: "hid \<in> set hids" by (simp only: pack_inv_def)
  obtain l a where la: "map_of (snd st) hid = Some l" "map_of (fst st) hid = Some a"
      "can_place_on_host u l a anti = Some True"
    using t by (auto simp: try_host_def bind_eq_Some_conv)
  have st': "take_unit u hid st = (AList.update hid (a @ u_vm_ids u) (fst st),
      AList.update hid (fst l - u_ram_mb u, snd l - u_vcpus u) (snd st))"
    by (simp add: take_unit_def la split_beta)
  have "host_ok anti rem0 pl hid (Some a) (Some l)" using inv mem la by (auto simp: pack_inv_def)
  note ok = host_ok_take [OF this can_place_True [OF la(3)]]
  show ?thesis
    using inv mem ok
    by (auto simp: pack_inv_def st' AList.update_keys map_of_update host_ok_other simp del: set_map)
qed

section \<open>The whole loop\<close>

lemma pack_loop_sound:
  assumes "pack_loop anti us st = Some (Some asg)" "pack_inv anti hids rem0 pl st"
  shows "\<exists>pl' rem'. map snd pl' = us \<and> pack_inv anti hids rem0 (pl @ pl') (asg, rem')"
  using assms
proof (induction anti us st arbitrary: pl rule: pack_loop.induct)
  case (1 anti st)
  then have "pack_inv anti hids rem0 (pl @ []) (asg, snd st)" by (cases st) simp
  then show ?case by (intro exI [of _ "[] :: (string \<times> unit_vms) list"] exI [of _ "snd st"]) simp
next
  case (2 anti u us st)
  from 2(2) obtain hid where hid: "ofind (try_host anti u (fst st) (snd st)) (hosts_by_ram (snd st)) = Some (Some hid)"
      "pack_loop anti us (take_unit u hid st) = Some (Some asg)"
    by (auto split: option.splits)
  with 2(1) pack_inv_step [OF 2(3) hid(1)] obtain pl' rem' where
      "map snd pl' = us" "pack_inv anti hids rem0 ((pl @ [(hid, u)]) @ pl') (asg, rem')"
    by blast
  then show ?case by (intro exI [of _ "(hid, u) # pl'"] exI [of _ rem']) simp
qed

lemma alist_eq_map: "map fst al = ks \<Longrightarrow> distinct ks \<Longrightarrow> (\<And>k. k \<in> set ks \<Longrightarrow> map_of al k = Some (f k)) \<Longrightarrow>
    al = map (\<lambda>k. (k, f k)) ks"
proof -
  assume a: "map fst al = ks" "distinct ks" "\<And>k. k \<in> set ks \<Longrightarrow> map_of al k = Some (f k)"
  have "kv = (fst kv, f (fst kv))" if "kv \<in> set al" for kv
  proof -
    have "map_of al (fst kv) = Some (snd kv)" using that a(1,2) by (simp add: map_of_eq_Some_iff)
    moreover have "fst kv \<in> set ks" using that a(1) by auto
    ultimately show ?thesis using a(3) by (metis option.inject prod.collapse)
  qed
  then have "map (\<lambda>kv. (fst kv, f (fst kv))) al = al" by (intro map_idI) metis
  moreover have "map (\<lambda>k. (k, f k)) ks = map (\<lambda>kv. (fst kv, f (fst kv))) al" using a(1) by auto
  ultimately show ?thesis by metis
qed

lemma bin_pack_sound:
  assumes "bin_pack_units units hids rem anti = Some (Some asg)" "map fst rem = hids" "distinct hids"
  shows "\<exists>pl. map snd pl = units \<and> fst ` set pl \<subseteq> set hids \<and>
    asg = filter (\<lambda>hv. snd hv \<noteq> []) (map (\<lambda>h. (h, vms_on h pl)) hids) \<and>
    (\<forall>h\<in>fst ` set pl. \<exists>r c. map_of rem h = Some (r, c) \<and> ram_on h pl \<le> r \<and> cpus_on h pl \<le> c \<and>
       sorted_wrt (apart anti) (units_on h pl))"
proof -
  obtain asg0 where a: "pack_loop anti units (map (\<lambda>hid. (hid, [])) hids, rem) = Some (Some asg0)"
      "asg = filter (\<lambda>hv. snd hv \<noteq> []) asg0"
    using assms(1) by (auto simp: bin_pack_units_def)
  obtain pl rem' where pl: "map snd pl = units" "pack_inv anti hids rem pl (asg0, rem')"
    using pack_loop_sound [OF a(1) pack_inv_init [OF assms(2)]] by auto
  have ok: "host_ok anti rem pl h (map_of asg0 h) (map_of rem' h)" if "h \<in> set hids" for h
    using pl(2) that by (simp add: pack_inv_def)
  have "asg0 = map (\<lambda>h. (h, vms_on h pl)) hids"
    by (rule alist_eq_map) (use pl(2) assms(3) ok in \<open>auto simp: pack_inv_def host_ok_def\<close>)
  with a(2) have asg: "asg = filter (\<lambda>hv. snd hv \<noteq> []) (map (\<lambda>h. (h, vms_on h pl)) hids)" by simp
  have sub: "fst ` set pl \<subseteq> set hids" using pl(2) by (simp add: pack_inv_def)
  have "\<exists>r c. map_of rem h = Some (r, c) \<and> ram_on h pl \<le> r \<and> cpus_on h pl \<le> c \<and>
      sorted_wrt (apart anti) (units_on h pl)" if h: "h \<in> fst ` set pl" for h
  proof -
    have "units_on h pl \<noteq> []" using h by (auto simp: units_on_def filter_empty_conv)
    then show ?thesis using ok [of h] sub h by (auto simp: host_ok_def)
  qed
  with pl(1) sub asg show ?thesis by blast
qed

section \<open>Units of a topology\<close>

definition node_field :: "string \<Rightarrow> json \<Rightarrow> json option" where
  "node_field k n = Option.bind (node_data n) (\<lambda>d. get d k)"

lemma mset_update_append:
  "mset (concat (map snd (AList.update k (dict_get m k [] @ [x]) m))) = add_mset x (mset (concat (map snd m)))"
  by (induction m) (auto simp: dict_get_def split: option.splits)

lemma parse_affinity_stepD:
  assumes "parse_affinity_step g n = Some g'"
  obtains aa g1 ag where "node_field ''separateHost'' n = Some aa" "parse_anti g n aa = Some g1"
    "node_field ''affinityGroup'' n = Some ag" "g_anti g' = g_anti g1"
    "truthy ag \<and> g_groups g' = AList.update ag (dict_get (g_groups g) ag [] @ [n]) (g_groups g) \<and>
       g_ungrouped g' = g_ungrouped g \<or>
     \<not> truthy ag \<and> g_groups g' = g_groups g \<and> g_ungrouped g' = g_ungrouped g @ [n]"
proof -
  obtain data aa g1 ag where s: "node_data n = Some data" "get data ''separateHost'' = Some aa"
      "parse_anti g n aa = Some g1" "get data ''affinityGroup'' = Some ag"
      "(if truthy ag then do { k \<leftarrow> hkey ag;
               Some (g1\<lparr>g_groups := AList.update k (dict_get (g_groups g1) k [] @ [n]) (g_groups g1)\<rparr>) }
     else Some (g1\<lparr>g_ungrouped := g_ungrouped g1 @ [n]\<rparr>)) = Some g'"
    using assms unfolding parse_affinity_step_def bind_eq_Some_conv by blast
  have "g_groups g1 = g_groups g" "g_ungrouped g1 = g_ungrouped g"
    using s(3) by (auto simp: parse_anti_def bind_eq_Some_conv split: option.splits if_splits)
  with s show ?thesis
    by (intro that [of aa g1 ag])
      (auto simp: node_field_def bind_eq_Some_conv dest!: hkey_SomeD split: if_splits)
qed

abbreviation grouped_nodes :: "affinity \<Rightarrow> json list" where
  "grouped_nodes g \<equiv> concat (map snd (g_groups g)) @ g_ungrouped g"

lemma parse_affinity_mset:
  "ofold parse_affinity_step g ns = Some g' \<Longrightarrow> mset (grouped_nodes g') = mset (grouped_nodes g) + mset ns"
proof (induction ns arbitrary: g)
  case (Cons n ns)
  then obtain g1 where g1: "parse_affinity_step g n = Some g1" "ofold parse_affinity_step g1 ns = Some g'"
    by (auto simp: bind_eq_Some_conv)
  from g1(1) have "mset (grouped_nodes g1) = add_mset n (mset (grouped_nodes g))"
    by (rule parse_affinity_stepD) (auto simp: mset_update_append simp del: mset_concat)
  with Cons.IH [OF g1(2)] show ?case by simp
qed simp

lemma parse_affinity_partition:
  "parse_affinity_groups ns = Some g \<Longrightarrow> mset (grouped_nodes g) = mset ns"
  using parse_affinity_mset by (fastforce simp: parse_affinity_groups_def)

definition groups_ok :: "affinity \<Rightarrow> bool" where
  "groups_ok g \<longleftrightarrow> (\<forall>(k, l)\<in>set (g_groups g). truthy k \<and> (\<forall>n\<in>set l. node_field ''affinityGroup'' n = Some k))"

lemma groups_ok_step: "groups_ok g \<Longrightarrow> parse_affinity_step g n = Some g' \<Longrightarrow> groups_ok g'"
proof (erule parse_affinity_stepD)
  fix ag g1 aa
  assume g: "groups_ok g" and ag: "node_field ''affinityGroup'' n = Some ag"
    and c: "truthy ag \<and> g_groups g' = AList.update ag (dict_get (g_groups g) ag [] @ [n]) (g_groups g) \<and>
       g_ungrouped g' = g_ungrouped g \<or>
     \<not> truthy ag \<and> g_groups g' = g_groups g \<and> g_ungrouped g' = g_ungrouped g @ [n]"
  have "\<forall>m\<in>set (dict_get (g_groups g) ag []). node_field ''affinityGroup'' m = Some ag"
  proof (cases "map_of (g_groups g) ag")
    case (Some l)
    from map_of_SomeD [OF this] g Some show ?thesis by (auto simp: groups_ok_def dict_get_def)
  qed (simp add: dict_get_def)
  with g ag c show "groups_ok g'"
    using update_entries_subset [of ag "dict_get (g_groups g) ag [] @ [n]" "g_groups g"]
    by (fastforce simp: groups_ok_def)
qed

lemma groups_ok_parsed: "parse_affinity_groups ns = Some g \<Longrightarrow> groups_ok g"
  unfolding parse_affinity_groups_def
  by (erule ofold_invariant [where I = groups_ok]) (simp_all add: groups_ok_def [of "\<lparr>g_groups = _, g_ungrouped = _, g_anti = _\<rparr>"] groups_ok_step)

lemma anti_step_other:
  assumes "parse_affinity_step g n = Some g'" "index n ''id'' \<noteq> Some i"
  shows "map_of (g_anti g') i = map_of (g_anti g) i"
  using assms(1)
proof (rule parse_affinity_stepD)
  fix aa g1
  assume "parse_anti g n aa = Some g1" "g_anti g' = g_anti g1"
  with assms(2) show ?thesis
    by (auto simp: parse_anti_def bind_eq_Some_conv map_of_update dest!: hkey_SomeD split: option.splits if_splits)
qed

lemma anti_step_same:
  assumes "parse_affinity_step g n = Some g'" "index n ''id'' = Some i"
    "node_field ''separateHost'' n = Some (JStr s)" "s \<noteq> []"
  shows "map_of (g_anti g') i = Some s"
  using assms(1)
proof (rule parse_affinity_stepD)
  fix aa g1
  assume "node_field ''separateHost'' n = Some aa" "parse_anti g n aa = Some g1" "g_anti g' = g_anti g1"
  with assms(2-4) show ?thesis
    by (auto simp: parse_anti_def bind_eq_Some_conv map_of_update dest!: hkey_SomeD)
qed

lemma anti_parsed:
  assumes "ofold parse_affinity_step g0 ns = Some g" "distinct (map (\<lambda>n. index n ''id'') ns)"
    "n \<in> set ns" "index n ''id'' = Some i" "node_field ''separateHost'' n = Some (JStr s)" "s \<noteq> []"
  shows "map_of (g_anti g) i = Some s"
  using assms(1-3)
proof (induction ns arbitrary: g0)
  case (Cons m ns)
  then obtain g1 where g1: "parse_affinity_step g0 m = Some g1" "ofold parse_affinity_step g1 ns = Some g"
    by (auto simp: bind_eq_Some_conv)
  show ?case
  proof (cases "n = m")
    case True
    have other: "index x ''id'' \<noteq> Some i" if "x \<in> set ns" for x
      using that Cons.prems(2) True assms(4) by (auto simp: image_iff)
    have "map_of (g_anti g) i = map_of (g_anti g1) i"
      using g1(2)
    proof (rule ofold_invariant [where I = "\<lambda>g. map_of (g_anti g) i = map_of (g_anti g1) i"])
      show "map_of (g_anti v) i = map_of (g_anti g1) i"
        if "x \<in> set ns" "map_of (g_anti u) i = map_of (g_anti g1) i" "parse_affinity_step u x = Some v" for u x v
        using anti_step_other [OF that(3) other [OF that(1)]] that(2) by simp
    qed simp
    with anti_step_same [OF g1(1)] True assms(4-6) show ?thesis by simp
  next
    case False
    with Cons g1 show ?thesis by auto
  qed
qed simp

lemma unit_of_ids: "unit_of l = Some u \<Longrightarrow> map Some (u_vm_ids u) = map (\<lambda>n. index n ''id'') l"
  by (auto simp: unit_of_def bind_eq_Some_conv omap_Some list_all2_conv_all_nth intro: nth_equalityI)

lemma omap_unit_ids:
  "omap (\<lambda>x. unit_of (f x)) xs = Some us \<Longrightarrow>
     map Some (concat (map u_vm_ids us)) = map (\<lambda>n. index n ''id'') (concat (map f xs))"
proof (induction xs arbitrary: us)
  case (Cons x xs)
  then obtain u us' where "unit_of (f x) = Some u" "omap (\<lambda>x. unit_of (f x)) xs = Some us'" "us = u # us'"
    by (auto simp: bind_eq_Some_conv)
  with Cons.IH unit_of_ids [of "f x" u] show ?case by simp
qed simp

lemma build_unitsE:
  assumes "build_placement_units g = Some units"
  obtains gu su where "omap (\<lambda>kv. unit_of (snd kv)) (g_groups g) = Some gu"
    "omap (\<lambda>n. unit_of [n]) (g_ungrouped g) = Some su" "mset units = mset (gu @ su)"
  using assms by (auto simp: build_placement_units_def bind_eq_Some_conv)

lemma units_ids_mset:
  assumes "parse_affinity_groups ns = Some g" "build_placement_units g = Some units"
  shows "mset (map Some (concat (map u_vm_ids units))) = mset (map (\<lambda>n. index n ''id'') ns)"
  using assms(2)
proof (rule build_unitsE)
  fix gu su
  assume u: "omap (\<lambda>kv. unit_of (snd kv)) (g_groups g) = Some gu"
    "omap (\<lambda>n. unit_of [n]) (g_ungrouped g) = Some su" "mset units = mset (gu @ su)"
  have "mset (concat (map u_vm_ids units)) = mset (concat (map u_vm_ids (gu @ su)))"
    using arg_cong [OF u(3), of "\<lambda>M. \<Sum>\<^sub># (image_mset (\<lambda>u. mset (u_vm_ids u)) M)"]
    by (simp add: mset_concat sum_mset_sum_list comp_def flip: mset_map)
  then have "mset (map Some (concat (map u_vm_ids units))) =
      mset (map Some (concat (map u_vm_ids gu))) + mset (map Some (concat (map u_vm_ids su)))"
    by (metis (no_types, lifting) concat_append map_append mset_append mset_map)
  also have "\<dots> = mset (map (\<lambda>n. index n ''id'') (grouped_nodes g))"
    using omap_unit_ids [OF u(1)] omap_unit_ids [OF u(2)] by (simp add: concat_map_singleton)
  also have "\<dots> = mset (map (\<lambda>n. index n ''id'') ns)"
    using parse_affinity_partition [OF assms(1)] by (metis mset_map)
  finally show ?thesis .
qed

lemma unit_nodes:
  assumes "parse_affinity_groups ns = Some g" "build_placement_units g = Some units" "u \<in> set units"
  obtains l where "unit_of l = Some u" "set l \<subseteq> set ns"
    "length l = 1 \<or> (\<exists>k. truthy k \<and> (\<forall>n\<in>set l. node_field ''affinityGroup'' n = Some k))"
  using assms(2)
proof (rule build_unitsE)
  fix gu su
  assume u: "omap (\<lambda>kv. unit_of (snd kv)) (g_groups g) = Some gu"
    "omap (\<lambda>n. unit_of [n]) (g_ungrouped g) = Some su" "mset units = mset (gu @ su)"
  have sub: "set (grouped_nodes g) = set ns"
    using parse_affinity_partition [OF assms(1)] by (metis set_mset_mset)
  from u(3) assms(3) consider "u \<in> set gu" | "u \<in> set su" by (metis Un_iff set_append set_mset_mset)
  then show thesis
  proof cases
    case 1
    then obtain kv where "kv \<in> set (g_groups g)" "unit_of (snd kv) = Some u"
      using omap_result [OF u(1)] by blast
    moreover from this have "truthy (fst kv) \<and> (\<forall>n\<in>set (snd kv). node_field ''affinityGroup'' n = Some (fst kv))"
      using groups_ok_parsed [OF assms(1)] by (auto simp: groups_ok_def)
    moreover from \<open>kv \<in> set (g_groups g)\<close> have "set (snd kv) \<subseteq> set ns" using sub by auto
    ultimately show thesis by (intro that [of "snd kv"]) blast+
  next
    case 2
    then obtain n where "n \<in> set (g_ungrouped g)" "unit_of [n] = Some u"
      using omap_result [OF u(2)] by auto
    with sub show thesis by (intro that [of "[n]"]) auto
  qed
qed

section \<open>Multi-host placement\<close>

text \<open>The rows a placement may use: mesh hosts that carry the MTU, recounted.\<close>

definition mesh_rows :: "string option \<Rightarrow> string option \<Rightarrow> int option \<Rightarrow> database \<Rightarrow> host list" where
  "mesh_rows pool prov mtu db = filter (\<lambda>h. host_mtu_ok h mtu) (filter (mesh_host pool prov) (d_hosts db))"

lemma prepare_hostsE:
  assumes "prepare_hosts pool prov mtu db = Some (db', Some (hosts, rem))"
  shows "omap (sync_host_capacity db) (mesh_rows pool prov mtu db) = Some hosts"
    and "rem = map host_remaining_entry hosts"
    and "map h_id hosts = map h_id (mesh_rows pool prov mtu db)"
proof -
  show s: "omap (sync_host_capacity db) (mesh_rows pool prov mtu db) = Some hosts"
    and "rem = map host_remaining_entry hosts"
    using assms by (auto simp: prepare_hosts_def sync_hosts_def mesh_rows_def bind_eq_Some_conv Let_def
        simp del: filter_filter split: if_splits)
  then show "map h_id hosts = map h_id (mesh_rows pool prov mtu db)"
    using sync_keeps(1) by (auto simp: omap_Some list_all2_conv_all_nth intro!: nth_equalityI)
qed

lemma find_multihostE:
  assumes "find_multihost_placement topology pool prov mtu db = Some (db', Some asg)"
  obtains nodes g units hosts where "topo_nodes topology = Some nodes"
    "parse_affinity_groups (filter (\<lambda>n. is_workload n = Some True) nodes) = Some g"
    "build_placement_units g = Some units"
    "prepare_hosts pool prov mtu db = Some (db', Some (hosts, map host_remaining_entry hosts))"
    "bin_pack_units units (map h_id hosts) (map host_remaining_entry hosts) (g_anti g) = Some (Some asg)"
proof -
  obtain nodes vms g units hosts rem where m: "topo_nodes topology = Some nodes" "ofilter is_workload nodes = Some vms"
      "parse_affinity_groups vms = Some g" "build_placement_units g = Some units"
      "prepare_hosts pool prov mtu db = Some (db', Some (hosts, rem))"
      "bin_pack_units units (map h_id hosts) rem (g_anti g) = Some (Some asg)"
    using assms
    by (auto simp: find_multihost_placement_def bind_eq_Some_conv split: if_splits option.splits)
  with prepare_hostsE(2) [OF m(5)] show ?thesis
    by (intro that [of nodes g units hosts]) (auto simp: ofilter_Some)
qed

lemma sorted_wrt_two: "sorted_wrt P xs \<Longrightarrow> x \<in> set xs \<Longrightarrow> y \<in> set xs \<Longrightarrow> x = y \<or> P x y \<or> P y x"
  by (induction xs) auto

lemma host_entries [simp]: "map fst (map host_remaining_entry hosts) = map h_id hosts"
  by (simp add: comp_def host_remaining_entry_def)

lemma py_int_double [simp]: "py_int (of_int x * 2) = 2 * x"
  using py_int_of_int [of "2 * x"] by (simp add: mult.commute)

lemma distinct_mesh_ids: "distinct (map h_id (d_hosts db)) \<Longrightarrow> distinct (map h_id (mesh_rows pool prov mtu db))"
  by (simp add: mesh_rows_def distinct_map_filter)

lemma vms_partition:
  assumes "fst ` set pl \<subseteq> set hids" "distinct hids"
  shows "mset (concat (map (\<lambda>h. vms_on h pl) hids)) = mset (concat (map (u_vm_ids \<circ> snd) pl))"
  using assms(1)
proof (induction pl)
  case (Cons p pl)
  have "mset (concat (map (\<lambda>h. vms_on h (p # pl)) hids)) =
      (\<Sum>h\<leftarrow>hids. (if h = fst p then mset (u_vm_ids (snd p)) else {#}) + mset (vms_on h pl))"
    by (simp add: mset_concat comp_def units_on_def) (auto intro!: arg_cong [where f = sum_list] map_cong)
  also have "\<dots> = (\<Sum>h\<leftarrow>hids. if h = fst p then mset (u_vm_ids (snd p)) else {#}) + (\<Sum>h\<leftarrow>hids. mset (vms_on h pl))"
    by (simp add: sum_list_addf)
  also have "(\<Sum>h\<leftarrow>hids. if h = fst p then mset (u_vm_ids (snd p)) else {#}) = mset (u_vm_ids (snd p))"
    using Cons.prems assms(2) by (simp add: sum_list_distinct_conv_sum_set)
  finally show ?case using Cons by (simp add: mset_concat comp_def)
qed (induction hids, simp_all)

text \<open>C4: a multi-host placement assigns every VM and container of the topology to exactly one
  host; only connected mesh hosts that accept work and carry the required MTU are used; and
  what a host is given fits what it has left: its RAM without overcommit and twice its vCPUs,
  each less what its projects already use.\<close>

theorem multihost_placement_sound:
  assumes "find_multihost_placement topology pool prov mtu db = Some (db', Some asg)"
    and "topo_nodes topology = Some nodes" and "distinct (map h_id (d_hosts db))"
  shows "mset (map Some (concat (map snd asg))) =
      mset (map (\<lambda>n. index n ''id'') (filter (\<lambda>n. is_workload n = Some True) nodes)) \<and>
    distinct (map fst asg) \<and>
    (\<forall>(hid, vms)\<in>set asg. \<exists>h\<in>set (mesh_rows pool prov mtu db). \<exists>h' us.
       h_id h = hid \<and> sync_host_capacity db h = Some h' \<and> vms = concat (map u_vm_ids us) \<and>
       (\<forall>u\<in>set us. \<exists>l. unit_of l = Some u \<and> set l \<subseteq> set nodes) \<and>
       sum_list (map u_ram_mb us) \<le> of_int (h_total_ram_mb h) - h_used_ram_mb h' \<and>
       sum_list (map u_vcpus us) \<le> of_int (2 * h_total_vcpus h) - h_used_vcpus h')"
proof -
  obtain g units hosts where g: "parse_affinity_groups (filter (\<lambda>n. is_workload n = Some True) nodes) = Some g"
    and units: "build_placement_units g = Some units"
    and prep: "prepare_hosts pool prov mtu db = Some (db', Some (hosts, map host_remaining_entry hosts))"
    and pack: "bin_pack_units units (map h_id hosts) (map host_remaining_entry hosts) (g_anti g) = Some (Some asg)"
    using find_multihostE [OF assms(1)] assms(2) by (metis option.inject)
  note h = prepare_hostsE [OF prep]
  have dist: "distinct (map h_id hosts)" using h(3) distinct_mesh_ids [OF assms(3)] by metis
  obtain pl where pl: "map snd pl = units" "fst ` set pl \<subseteq> set (map h_id hosts)"
      "asg = filter (\<lambda>hv. snd hv \<noteq> []) (map (\<lambda>h. (h, vms_on h pl)) (map h_id hosts))"
      "\<forall>h\<in>fst ` set pl. \<exists>r c. map_of (map host_remaining_entry hosts) h = Some (r, c) \<and>
         ram_on h pl \<le> r \<and> cpus_on h pl \<le> c \<and> sorted_wrt (apart (g_anti g)) (units_on h pl)"
    using bin_pack_sound [OF pack host_entries dist] by blast
  have "concat (map snd (filter (\<lambda>hv. snd hv \<noteq> []) xs)) = concat (map snd xs)" for xs :: "(string \<times> json list) list"
    by (induction xs) auto
  then have "mset (concat (map snd asg)) = mset (concat (map u_vm_ids units))"
    using vms_partition [OF pl(2) dist] pl(1,3) by (auto simp: comp_def)
  then have "mset (map Some (concat (map snd asg))) =
      mset (map (\<lambda>n. index n ''id'') (filter (\<lambda>n. is_workload n = Some True) nodes))"
    using units_ids_mset [OF g units] by (metis mset_map)
  moreover have "distinct (map fst asg)"
    unfolding pl(3) by (rule distinct_map_filter) (use dist in \<open>simp add: comp_def\<close>)
  moreover have "\<exists>h\<in>set (mesh_rows pool prov mtu db). \<exists>h' us.
       h_id h = hid \<and> sync_host_capacity db h = Some h' \<and> vms = concat (map u_vm_ids us) \<and>
       (\<forall>u\<in>set us. \<exists>l. unit_of l = Some u \<and> set l \<subseteq> set nodes) \<and>
       sum_list (map u_ram_mb us) \<le> of_int (h_total_ram_mb h) - h_used_ram_mb h' \<and>
       sum_list (map u_vcpus us) \<le> of_int (2 * h_total_vcpus h) - h_used_vcpus h'" if "(hid, vms) \<in> set asg" for hid vms
  proof -
    have v: "vms = vms_on hid pl" "vms \<noteq> []" using that pl(3) by auto
    then have "hid \<in> fst ` set pl" by (force simp: units_on_def)
    with pl(4) obtain r c where rc: "map_of (map host_remaining_entry hosts) hid = Some (r, c)"
        "ram_on hid pl \<le> r" "cpus_on hid pl \<le> c" by blast
    from map_of_SomeD [OF rc(1)] obtain h' where h': "h' \<in> set hosts" "host_remaining_entry h' = (hid, r, c)" by auto
    obtain h where h: "h \<in> set (mesh_rows pool prov mtu db)" "sync_host_capacity db h = Some h'"
      using omap_result [OF h(1) h'(1)] by blast
    have "\<exists>l. unit_of l = Some u \<and> set l \<subseteq> set nodes" if "u \<in> set (units_on hid pl)" for u
    proof -
      have "u \<in> set units" using that pl(1) by (force simp: units_on_def)
      from unit_nodes [OF g units this] show ?thesis by (metis filter_is_subset order_trans)
    qed
    with rc h h' v(1) sync_keeps [OF h(2)] show ?thesis
      by (intro bexI [of _ h] exI [of _ h'] exI [of _ "units_on hid pl"])
        (auto simp: host_remaining_entry_def)
  qed
  ultimately show ?thesis by blast
qed

text \<open>C5: in a multi-host placement, two VMs or containers that name the same \<open>separateHost\<close>
  group are never on the same host, unless they were put into the same affinity group, which
  is placed as one unit.\<close>

theorem anti_affinity_respected:
  assumes place: "find_multihost_placement topology pool prov mtu db = Some (db', Some asg)"
    and nodes: "topo_nodes topology = Some nodes" and hids: "distinct (map h_id (d_hosts db))"
    and ids: "distinct (map (\<lambda>n. index n ''id'') nodes)"
    and n: "n1 \<in> set nodes" "n2 \<in> set nodes" "is_workload n1 = Some True" "is_workload n2 = Some True"
      "index n1 ''id'' = Some i1" "index n2 ''id'' = Some i2" "i1 \<noteq> i2"
    and sep: "node_field ''separateHost'' n1 = Some (JStr s)" "node_field ''separateHost'' n2 = Some (JStr s)" "s \<noteq> []"
    and diff: "node_field ''affinityGroup'' n1 \<noteq> node_field ''affinityGroup'' n2 \<or>
      (\<forall>k. node_field ''affinityGroup'' n1 = Some k \<longrightarrow> \<not> truthy k)"
  shows "\<not> (\<exists>(hid, vms)\<in>set asg. i1 \<in> set vms \<and> i2 \<in> set vms)"
proof
  let ?ns = "filter (\<lambda>n. is_workload n = Some True) nodes"
  assume "\<exists>(hid, vms)\<in>set asg. i1 \<in> set vms \<and> i2 \<in> set vms"
  then obtain hid vms where v: "(hid, vms) \<in> set asg" "i1 \<in> set vms" "i2 \<in> set vms" by blast
  obtain g units hosts where g: "parse_affinity_groups ?ns = Some g"
    and units: "build_placement_units g = Some units"
    and prep: "prepare_hosts pool prov mtu db = Some (db', Some (hosts, map host_remaining_entry hosts))"
    and pack: "bin_pack_units units (map h_id hosts) (map host_remaining_entry hosts) (g_anti g) = Some (Some asg)"
    using find_multihostE [OF place] nodes by (metis option.inject)
  have dist: "distinct (map h_id hosts)" using prepare_hostsE(3) [OF prep] distinct_mesh_ids [OF hids] by metis
  obtain pl where pl: "map snd pl = units"
      "asg = filter (\<lambda>hv. snd hv \<noteq> []) (map (\<lambda>h. (h, vms_on h pl)) (map h_id hosts))"
      "\<forall>h\<in>fst ` set pl. sorted_wrt (apart (g_anti g)) (units_on h pl)"
    using bin_pack_sound [OF pack host_entries dist] by blast
  from v pl(2) have "vms = vms_on hid pl" by auto
  with v(2,3) obtain u1 u2 where u: "u1 \<in> set (units_on hid pl)" "u2 \<in> set (units_on hid pl)"
      "i1 \<in> set (u_vm_ids u1)" "i2 \<in> set (u_vm_ids u2)" by auto
  from u(1) pl(3) have "sorted_wrt (apart (g_anti g)) (units_on hid pl)" by (auto simp: units_on_def)
  moreover have "map_of (g_anti g) i1 = Some s" "map_of (g_anti g) i2 = Some s"
    using anti_parsed [OF g [unfolded parse_affinity_groups_def] distinct_map_filter [OF ids]] n sep by auto
  ultimately have "u1 = u2"
    using sorted_wrt_two [OF _ u(1,2)] u(3,4) by (fastforce simp: unit_groups_def)
  have "u1 \<in> set units" using u(1) pl(1) by (force simp: units_on_def)
  then obtain l where l: "unit_of l = Some u1" "set l \<subseteq> set ?ns"
      "length l = 1 \<or> (\<exists>k. truthy k \<and> (\<forall>n\<in>set l. node_field ''affinityGroup'' n = Some k))"
    using unit_nodes [OF g units] by metis
  have mem: "m \<in> set l" if "i \<in> set (u_vm_ids u1)" "m \<in> set nodes" "index m ''id'' = Some i" for m i
  proof -
    have "Some i \<in> set (map (\<lambda>n. index n ''id'') l)" using that(1) unit_of_ids [OF l(1)] by (metis imageI image_set)
    then obtain m' where m': "m' \<in> set l" "index m' ''id'' = Some i" by auto
    moreover from m'(1) l(2) have "m' \<in> set nodes" by auto
    ultimately have "m' = m" using that(2,3) ids by (metis (mono_tags, lifting) distinct_map inj_onD)
    with m' show ?thesis by simp
  qed
  have "n1 \<in> set l" "n2 \<in> set l" using mem u(3,4) \<open>u1 = u2\<close> n by auto
  then show False using l(3) diff n(5-7) by (cases l) auto
qed

section \<open>When packing succeeds\<close>

lemma ofind_hit: "\<forall>x\<in>set xs. p x \<noteq> None \<Longrightarrow> \<exists>x\<in>set xs. p x = Some True \<Longrightarrow> \<exists>y. ofind p xs = Some (Some y)"
  by (induction xs) (auto, blast)

lemma aa_groups_total: "\<forall>i\<in>set ids. hkey i \<noteq> None \<Longrightarrow> \<exists>gs. aa_groups anti ids = Some gs \<and> set gs = unit_groups anti ids"
proof -
  assume "\<forall>i\<in>set ids. hkey i \<noteq> None"
  then have "omap hkey ids = Some (map (\<lambda>i. the (hkey i)) ids)" by (intro omap_total) auto
  then obtain gs where "aa_groups anti ids = Some gs" by (simp add: aa_groups_def)
  with aa_groups_set show ?thesis by blast
qed

lemma can_place_total:
  assumes "\<forall>i\<in>set (u_vm_ids u). hkey i \<noteq> None" "\<forall>i\<in>set a. hkey i \<noteq> None"
  shows "can_place_on_host u r a anti = Some (u_ram_mb u \<le> fst r \<and> u_vcpus u \<le> snd r \<and>
    unit_groups anti (u_vm_ids u) \<inter> unit_groups anti a = {})"
proof -
  obtain ug hg where "aa_groups anti (u_vm_ids u) = Some ug" "set ug = unit_groups anti (u_vm_ids u)"
      "aa_groups anti a = Some hg" "set hg = unit_groups anti a"
    using aa_groups_total assms by meson
  then show ?thesis by (auto simp: can_place_on_host_def list_all_iff not_less)
qed

lemma ram_on_le:
  "\<forall>u\<in>snd ` set pl. 0 \<le> f u \<Longrightarrow> sum_list (map f (units_on h pl)) \<le> sum_list (map f (map snd pl))" for f :: "unit_vms \<Rightarrow> rat"
  by (induction pl) (auto simp: units_on_def add_increasing)

lemma pack_loop_complete:
  assumes inv: "pack_inv anti hids rem0 pl st"
    and h0: "h0 \<in> set hids" "map_of rem0 h0 = Some (r, c)"
    and all: "units = map snd pl @ us" "sorted_wrt (apart anti) units"
      "sum_list (map u_ram_mb units) \<le> r" "sum_list (map u_vcpus units) \<le> c"
      "\<forall>u\<in>set units. 0 \<le> u_ram_mb u \<and> 0 \<le> u_vcpus u \<and> (\<forall>i\<in>set (u_vm_ids u). hkey i \<noteq> None)"
  shows "\<exists>asg. pack_loop anti us st = Some (Some asg)"
  using inv all(1)
proof (induction us arbitrary: pl st)
  case (Cons u us)
  let ?tries = "try_host anti u (fst st) (snd st)"
  have u: "u \<in> set units" and pl: "set (map snd pl) \<subseteq> set units" using Cons.prems(2) by auto
  have ok: "host_ok anti rem0 pl h (map_of (fst st) h) (map_of (snd st) h)" if "h \<in> set hids" for h
    using Cons.prems(1) that by (simp add: pack_inv_def)
  have hk: "\<forall>i\<in>set (vms_on h pl). hkey i \<noteq> None" for h
    using pl all(5) by (fastforce simp: units_on_def)
  have try_eq: "\<exists>r c. map_of rem0 h = Some (r, c) \<and> ?tries h = Some (u_ram_mb u \<le> r - ram_on h pl \<and>
      u_vcpus u \<le> c - cpus_on h pl \<and> unit_groups anti (u_vm_ids u) \<inter> unit_groups anti (vms_on h pl) = {})"
    if "h \<in> set hids" for h
    using ok [OF that] can_place_total [of u "vms_on h pl"] hk u all(5)
    by (auto simp: host_ok_def try_host_def)
  have "sum_list (map f (units_on h0 pl)) + f u \<le> sum_list (map f units)"
    if "\<forall>v\<in>set units. 0 \<le> f v" for f :: "unit_vms \<Rightarrow> rat"
  proof -
    have "sum_list (map f (units_on h0 pl)) \<le> sum_list (map f (map snd pl))" by (rule ram_on_le) (use that pl in auto)
    moreover have "0 \<le> sum_list (map f us)" by (rule sum_list_nonneg) (use that Cons.prems(2) in auto)
    ultimately show ?thesis using Cons.prems(2) by simp
  qed
  then have "u_ram_mb u \<le> r - ram_on h0 pl" "u_vcpus u \<le> c - cpus_on h0 pl"
    using all(3-5) by (fastforce simp: algebra_simps)+
  moreover have "unit_groups anti (u_vm_ids u) \<inter> unit_groups anti (vms_on h0 pl) = {}"
    using all(2) Cons.prems(2) by (fastforce simp: unit_groups_concat units_on_def sorted_wrt_append)
  ultimately have "?tries h0 = Some True" using try_eq [OF h0(1)] h0(2) by auto
  moreover have keys: "set (hosts_by_ram (snd st)) = set hids"
    using Cons.prems(1) by (metis hosts_by_ram_set image_set pack_inv_def)
  ultimately obtain hid where hid: "ofind ?tries (hosts_by_ram (snd st)) = Some (Some hid)"
    using ofind_hit [of "hosts_by_ram (snd st)" ?tries] try_eq h0(1) by fastforce
  from Cons.IH [OF pack_inv_step [OF Cons.prems(1) hid]] Cons.prems(2) hid show ?case by simp
qed simp

text \<open>C36: packing succeeds whenever one host alone has the RAM and the vCPUs for all units and
  no two units have to be kept apart, however the other hosts are loaded: the greedy order
  never uses up the host that could have held everything.\<close>

theorem bin_pack_complete:
  assumes "map fst rem = hids" "h0 \<in> set hids" "map_of rem h0 = Some (r, c)"
    and "sum_list (map u_ram_mb units) \<le> r" "sum_list (map u_vcpus units) \<le> c"
    and "sorted_wrt (apart anti) units"
    and "\<forall>u\<in>set units. 0 \<le> u_ram_mb u \<and> 0 \<le> u_vcpus u \<and> (\<forall>i\<in>set (u_vm_ids u). hkey i \<noteq> None)"
  shows "\<exists>asg. bin_pack_units units hids rem anti = Some (Some asg)"
proof -
  obtain asg where "pack_loop anti units (map (\<lambda>hid. (hid, [])) hids, rem) = Some (Some asg)"
    using pack_loop_complete [OF pack_inv_init [OF assms(1)] assms(2,3), of units units anti] assms(4-7) by auto
  then show ?thesis by (simp add: bin_pack_units_def)
qed

end
