(* ===== verification/Mesh_Laws.thy ===== *)
theory Mesh_Laws
  imports Bin_Packing_Laws
begin

text \<open>
  The choice of the network host among the hosts of a placement, when a topology needs
  separate hosts, and concrete instances of the packing theorems.
\<close>

section \<open>The network host\<close>

definition is_gateway_vm :: "json \<Rightarrow> json \<Rightarrow> bool" where
  "is_gateway_vm n i \<longleftrightarrow> has_type ''vmNode'' n = Some True \<and>
     (\<exists>v. node_field ''isGateway'' n = Some v \<and> truthy v) \<and> index n ''id'' = Some i"

lemma gateway_step_set: "gateway_step ids n = Some ids' \<Longrightarrow> set ids' = set ids \<union> {i. is_gateway_vm n i}"
  by (auto simp: gateway_step_def is_gateway_vm_def node_field_def bind_eq_Some_conv dest!: hkey_SomeD
      split: if_splits)

lemma gateway_fold:
  "ofold gateway_step ids nodes = Some gws \<Longrightarrow> set gws = set ids \<union> {i. \<exists>n\<in>set nodes. is_gateway_vm n i}"
proof (induction nodes arbitrary: ids)
  case (Cons n nodes)
  then obtain ids' where i: "gateway_step ids n = Some ids'" "ofold gateway_step ids' nodes = Some gws"
    by (auto simp: bind_eq_Some_conv)
  from Cons.IH [OF i(2)] gateway_step_set [OF i(1)] show ?case by auto
qed simp

text \<open>The network host is one of the hosts of the placement; it runs a gateway VM whenever
  some host of the placement does, and otherwise no host of the placement runs more VMs.\<close>

theorem select_network_host_correct:
  assumes "select_network_host asg topology = Some hid"
    and "topo_nodes topology = Some nodes" and "distinct (map fst asg)"
  shows "\<exists>vms. (hid, vms) \<in> set asg \<and>
    (if \<exists>(h, vs)\<in>set asg. \<exists>n\<in>set nodes. \<exists>i\<in>set vs. is_gateway_vm n i
     then \<exists>n\<in>set nodes. \<exists>i\<in>set vms. is_gateway_vm n i
     else \<forall>(h, vs)\<in>set asg. length vs \<le> length vms)"
proof -
  let ?hit = "\<lambda>hv gws. list_ex (\<lambda>g. g \<in> set (snd hv)) gws"
  obtain gws hit where g: "ofold gateway_step [] nodes = Some gws"
    "(if gws = [] then Some None
      else ofind (\<lambda>hv. do { ks \<leftarrow> omap hkey (snd hv); Some (list_ex (\<lambda>g. g \<in> set ks) gws) }) asg) = Some hit"
    "(case hit of Some hv \<Rightarrow> Some (fst hv)
      | None \<Rightarrow> py_max_key (\<lambda>hid. length (dict_get asg hid [])) (map fst asg)) = Some hid"
    using assms(1,2) by (auto simp: select_network_host_def bind_eq_Some_conv)
  have s: "set gws = {i. \<exists>n\<in>set nodes. is_gateway_vm n i}" using gateway_fold [OF g(1)] by simp
  show ?thesis
  proof (cases hit)
    case (Some hv)
    with g(2,3) have "hv \<in> set asg" "?hit hv gws" "hid = fst hv"
      using ofind_Some_Some by (fastforce simp: bind_eq_Some_conv dest: omap_hkey split: if_splits)+
    moreover from this have "\<exists>n\<in>set nodes. \<exists>i\<in>set (snd hv). is_gateway_vm n i"
      using s by (auto simp: list_ex_iff)
    moreover from calculation have "\<exists>(h, vs)\<in>set asg. \<exists>n\<in>set nodes. \<exists>i\<in>set vs. is_gateway_vm n i"
      by (intro bexI [of _ hv]) (simp_all add: split_beta)
    ultimately show ?thesis by (intro exI [of _ "snd hv"]) simp
  next
    case None
    with g(2) have no: "\<not> ?hit hv gws" if "hv \<in> set asg" for hv
      using that by (fastforce simp: ofind_Some_None bind_eq_Some_conv dest: omap_hkey split: if_splits)
    have len: "dict_get asg h [] = vs" if "(h, vs) \<in> set asg" for h vs
      using that assms(3) by (simp add: dict_get_def map_of_is_SomeI)
    from None g(3) have m: "py_max_key (\<lambda>hid. length (dict_get asg hid [])) (map fst asg) = Some hid" by simp
    from py_max_key_Some(1) [OF m] obtain vms where vms: "(hid, vms) \<in> set asg" by auto
    moreover have "\<forall>(h, vs)\<in>set asg. length vs \<le> length vms"
      using py_max_key_Some(2) [OF m] len vms by fastforce
    moreover have "\<not> (\<exists>(h, vs)\<in>set asg. \<exists>n\<in>set nodes. \<exists>i\<in>set vs. is_gateway_vm n i)"
      using no s by (fastforce simp: list_ex_iff)
    ultimately show ?thesis by auto
  qed
qed

section \<open>When a topology needs separate hosts\<close>

abbreviation in_aa_group :: "string \<Rightarrow> json \<Rightarrow> bool" where
  "in_aa_group s n \<equiv> is_workload n = Some True \<and> node_field ''separateHost'' n = Some (JStr s)"

lemma as_str_SomeD: "as_str j = Some s \<Longrightarrow> j = JStr s"
  by (cases j) auto

lemma count_aaE:
  assumes "count_aa m n = Some m'"
  obtains (grouped) s where "in_aa_group s n" "s \<noteq> []" "m' = AList.update s (dict_get m s 0 + 1) m"
  | (free) "m' = m" "\<And>s. in_aa_group s n \<Longrightarrow> s = []"
proof (cases "is_workload n = Some True")
  case True
  then obtain aa where aa: "node_field ''separateHost'' n = Some aa"
      "m' = (case as_str aa of Some s \<Rightarrow> if s \<noteq> [] then AList.update s (dict_get m s 0 + 1) m else m | None \<Rightarrow> m)"
    using assms by (auto simp: count_aa_def node_field_def bind_eq_Some_conv)
  show ?thesis
  proof (cases "\<exists>s. aa = JStr s \<and> s \<noteq> []")
    case True
    with aa \<open>is_workload n = Some True\<close> show ?thesis by (auto intro: grouped)
  next
    case False
    then have "m' = m" using aa(2) by (cases aa) auto
    with aa(1) False show ?thesis by (intro free) auto
  qed
next
  case False
  with assms show ?thesis by (intro free) (auto simp: count_aa_def bind_eq_Some_conv split: if_splits)
qed

lemma count_aa_step:
  assumes "count_aa m n = Some m'" "s \<noteq> []"
  shows "dict_get m' s 0 = dict_get m s 0 + (if in_aa_group s n then 1 else 0)"
  using assms(1) by (cases rule: count_aaE) (use assms(2) in auto)

lemma count_aa_keys:
  assumes "count_aa m n = Some m'" "distinct (map fst m) \<and> [] \<notin> fst ` set m"
  shows "distinct (map fst m') \<and> [] \<notin> fst ` set m'"
  using assms(1) by (cases rule: count_aaE) (use assms(2) in \<open>auto simp: AList.dom_update distinct_update_keys\<close>)

lemma count_aa_fold:
  "ofold count_aa m ns = Some m' \<Longrightarrow> s \<noteq> [] \<Longrightarrow> dict_get m' s 0 = dict_get m s 0 + length (filter (in_aa_group s) ns)"
proof (induction ns arbitrary: m)
  case (Cons n ns)
  then obtain m1 where m1: "count_aa m n = Some m1" "ofold count_aa m1 ns = Some m'"
    by (auto simp: bind_eq_Some_conv)
  from Cons.IH [OF m1(2) Cons.prems(2)] count_aa_step [OF m1(1) Cons.prems(2)] show ?case by simp
qed simp

text \<open>A topology is recognised as needing several hosts exactly when some \<open>separateHost\<close>
  group has two or more of its VMs and containers.\<close>

theorem has_anti_affinity_iff:
  assumes "has_anti_affinity topology = Some b" "topo_nodes topology = Some nodes"
  shows "b \<longleftrightarrow> (\<exists>s. s \<noteq> [] \<and> 2 \<le> length (filter (in_aa_group s) nodes))"
proof -
  obtain m where m: "ofold count_aa [] nodes = Some m" "b = list_ex (\<lambda>kv. snd kv > 1) m"
    using assms by (auto simp: has_anti_affinity_def bind_eq_Some_conv)
  have keys: "distinct (map fst m) \<and> [] \<notin> fst ` set m"
    using m(1) by (rule ofold_invariant) (simp_all add: count_aa_keys)
  have count: "dict_get m s 0 = length (filter (in_aa_group s) nodes)" if "s \<noteq> []" for s
    using count_aa_fold [OF m(1) that] by simp
  have entry: "(s, n) \<in> set m \<longleftrightarrow> map_of m s = Some n" for s n
    using keys by (simp add: map_of_eq_Some_iff)
  have "b \<longleftrightarrow> (\<exists>s n. (s, n) \<in> set m \<and> 1 < n)" by (force simp: m(2) list_ex_iff)
  also have "\<dots> \<longleftrightarrow> (\<exists>s. 1 < dict_get m s 0)"
    unfolding entry by (auto simp: dict_get_def split: option.splits)
  also have "\<dots> \<longleftrightarrow> (\<exists>s. s \<noteq> [] \<and> 1 < dict_get m s 0)"
    using keys by (metis dict_get_def less_nat_zero_code map_of_eq_None_iff option.simps(4))
  finally show ?thesis using count by (metis (no_types, lifting) Suc_1 Suc_le_eq)
qed

section \<open>Concrete instances\<close>

definition sep_vm :: "string \<Rightarrow> json" where
  "sep_vm i = JObj [(''id'', JStr i), (''type'', JStr ''vmNode''),
     (''data'', JObj [(''separateHost'', JStr ''etcd''), (''isGateway'', JBool (i = ''b''))])]"

definition mesh_topology :: json where
  "mesh_topology = JObj [(''nodes'', JList [sep_vm ''a'', sep_vm ''b''])]"

definition mesh_db :: database where
  "mesh_db = empty_db\<lparr>d_hosts := [sample_host ''h'', sample_host ''g'']\<rparr>"

lemma mesh_nodes: "topo_nodes mesh_topology = Some [sep_vm ''a'', sep_vm ''b'']"
  by code_simp

lemma mesh_placed: "find_multihost_placement mesh_topology None None None mesh_db =
    Some (store_host (sample_host ''g'') (store_host (sample_host ''h'') mesh_db),
      Some [(''h'', [JStr ''a'']), (''g'', [JStr ''b''])])"
  by code_simp

lemma mesh_distinct: "distinct (map h_id (d_hosts mesh_db))"
  by code_simp

theorem multihost_placement_sound_witness:
  "\<exists>db' asg. find_multihost_placement mesh_topology None None None mesh_db = Some (db', Some asg) \<and>
     distinct (map fst asg) \<and> size (mset (map Some (concat (map snd asg)))) = 2"
proof -
  define asg where "asg = [(''h'', [JStr ''a'']), (''g'', [JStr ''b''])]"
  define nodes where "nodes = [sep_vm ''a'', sep_vm ''b'']"
  have s: "size (mset (map (\<lambda>n. index n ''id'') (filter (\<lambda>n. is_workload n = Some True) nodes))) = 2"
    unfolding nodes_def by code_simp
  note placed = mesh_placed [folded asg_def]
  note r = multihost_placement_sound [OF placed mesh_nodes [folded nodes_def] mesh_distinct]
  have "size (mset (map Some (concat (map snd asg)))) = 2" using s by (simp only: conjunct1 [OF r])
  with placed r show ?thesis by blast
qed

theorem anti_affinity_respected_witness:
  "\<exists>db' asg. find_multihost_placement mesh_topology None None None mesh_db = Some (db', Some asg) \<and>
     \<not> (\<exists>(hid, vms)\<in>set asg. JStr ''a'' \<in> set vms \<and> JStr ''b'' \<in> set vms)"
proof -
  have n: "is_workload (sep_vm x) = Some True" "index (sep_vm x) ''id'' = Some (JStr x)"
    "node_field ''separateHost'' (sep_vm x) = Some (JStr ''etcd'')" "node_field ''affinityGroup'' (sep_vm x) = Some JNull" for x
    by (simp_all add: is_workload_def sep_vm_def node_field_def node_data_def get_def)
  have d: "distinct (map (\<lambda>n. index n ''id'') [sep_vm ''a'', sep_vm ''b''])" by (simp add: n)
  have "\<not> (\<exists>(hid, vms)\<in>set [(''h'', [JStr ''a'']), (''g'', [JStr ''b''])]. JStr ''a'' \<in> set vms \<and> JStr ''b'' \<in> set vms)"
    by (rule anti_affinity_respected [OF mesh_placed mesh_nodes mesh_distinct d, of "sep_vm ''a''" "sep_vm ''b''" _ _ "''etcd''"])
      (simp_all add: n)
  with mesh_placed show ?thesis by blast
qed

theorem bin_pack_complete_witness:
  "\<exists>asg. bin_pack_units [\<lparr>u_vm_ids = [JStr ''a''], u_ram_mb = 4, u_vcpus = 2\<rparr>, \<lparr>u_vm_ids = [JStr ''b''], u_ram_mb = 3, u_vcpus = 2\<rparr>]
     [''h'', ''g''] [(''h'', (5, 5)), (''g'', (7, 4))] [] = Some (Some asg)"
  by (rule bin_pack_complete [where ?h0.0 = "''g''" and r = 7 and c = 4]) (simp_all add: unit_groups_def)

lemma mesh_select: "select_network_host [(''h'', [JStr ''a'']), (''g'', [JStr ''b''])] mesh_topology = Some ''g''"
  by code_simp

theorem select_network_host_correct_witness:
  "\<exists>vms. (''g'', vms) \<in> set [(''h'', [JStr ''a'']), (''g'', [JStr ''b''])]"
  using select_network_host_correct [OF mesh_select mesh_nodes] by auto

theorem has_anti_affinity_iff_witness:
  "\<exists>s. s \<noteq> [] \<and> 2 \<le> length (filter (in_aa_group s) [sep_vm ''a'', sep_vm ''b''])"
proof -
  have "has_anti_affinity mesh_topology = Some True" by code_simp
  from has_anti_affinity_iff [OF this mesh_nodes] show ?thesis by simp
qed

end
