(* ===== verification/Placement_Laws.thy ===== *)
theory Placement_Laws
  imports Placement Mesh_Laws
begin

text \<open>
  What placing a project guarantees: which host an outcome names and why, what a failed or
  raising placement leaves alone, and that a sequence of automatic placements and releases
  never books a host beyond its allocatable capacity.
\<close>

section \<open>Frames\<close>

text \<open>What a step that only recounts hosts keeps: every project, and every host row up to its
  two counters.\<close>

definition uncounted :: "host \<Rightarrow> host" where
  "uncounted h = h\<lparr>h_used_vcpus := 0, h_used_ram_mb := 0\<rparr>"

definition kept :: "database \<Rightarrow> database \<Rightarrow> bool" where
  "kept db db' \<longleftrightarrow> d_projects db' = d_projects db \<and>
     (distinct (map h_id (d_hosts db)) \<longrightarrow> map uncounted (d_hosts db') = map uncounted (d_hosts db))"

lemma uncounted_id: "h_id (uncounted h) = h_id h"
  by (simp add: uncounted_def)

lemma same_uncounted_ids:
  assumes "map uncounted hs' = map uncounted hs"
  shows "map h_id hs' = map h_id hs"
proof -
  have "map h_id (map uncounted hs') = map h_id (map uncounted hs)" by (simp only: assms)
  then show ?thesis by (simp add: comp_def uncounted_id)
qed

lemma kept_refl [simp]: "kept db db"
  by (simp add: kept_def)

lemma kept_trans: "kept a b \<Longrightarrow> kept b c \<Longrightarrow> kept a c"
  using same_uncounted_ids [of "d_hosts b" "d_hosts a"] by (auto simp: kept_def)

lemma kept_projects: "kept db db' \<Longrightarrow> d_projects db' = d_projects db"
  by (simp add: kept_def)

lemma store_host_kept:
  assumes "uncounted h \<in> uncounted ` set (d_hosts db)"
  shows "kept db (store_host h db)"
proof -
  obtain g where g: "g \<in> set (d_hosts db)" "uncounted g = uncounted h" using assms by force
  have "uncounted (if h_id x = h_id h then h else x) = uncounted x"
    if "x \<in> set (d_hosts db)" "distinct (map h_id (d_hosts db))" for x
    using that g by (metis distinct_map inj_onD uncounted_id)
  then show ?thesis by (simp add: kept_def store_host_def)
qed

lemma store_hosts_kept:
  "uncounted ` set hs \<subseteq> uncounted ` set (d_hosts db) \<Longrightarrow> distinct (map h_id (d_hosts db)) \<Longrightarrow>
     kept db (foldl (\<lambda>d h. store_host h d) db hs)"
proof (induction hs arbitrary: db)
  case (Cons h hs)
  have k: "kept db (store_host h db)" using Cons.prems(1) by (intro store_host_kept) auto
  then have "map uncounted (d_hosts (store_host h db)) = map uncounted (d_hosts db)"
    using Cons.prems(2) by (simp add: kept_def)
  then have "uncounted ` set (d_hosts (store_host h db)) = uncounted ` set (d_hosts db)"
      "distinct (map h_id (d_hosts (store_host h db)))"
    using Cons.prems(2) by (metis image_set, metis same_uncounted_ids)
  with Cons k kept_trans show ?case by fastforce
qed simp

lemma sync_uncounted: "sync_host_capacity db h = Some h' \<Longrightarrow> uncounted h' = uncounted h"
  by (auto simp: sync_host_capacity_Some uncounted_def)

lemma sync_hosts_kept:
  assumes "sync_hosts db hs = Some (db', hs')" "set hs \<subseteq> set (d_hosts db)"
  shows "kept db db'"
proof -
  have hs': "omap (sync_host_capacity db) hs = Some hs'" and db': "db' = foldl (\<lambda>d h. store_host h d) db hs'"
    using assms(1) by (auto simp: sync_hosts_def bind_eq_Some_conv)
  have "uncounted ` set hs' \<subseteq> uncounted ` set (d_hosts db)"
    using assms(2) omap_result [OF hs'] sync_uncounted by fastforce
  with store_hosts_kept show ?thesis unfolding db' by (fastforce simp: kept_def)
qed

lemma find_available_host_kept:
  "find_available_host oc counter q pool prov kv db = Some (db', r) \<Longrightarrow> kept db db'"
  by (auto simp: find_available_host_def bind_eq_Some_conv intro!: sync_hosts_kept)

lemma prepare_hosts_kept: "prepare_hosts pool prov mtu db = Some (db', r) \<Longrightarrow> kept db db'"
  by (auto simp: prepare_hosts_def Let_def bind_eq_Some_conv intro!: sync_hosts_kept split: if_splits)

lemma find_multihost_kept: "find_multihost_placement topology pool prov mtu db = Some (db', r) \<Longrightarrow> kept db db'"
  by (auto simp: find_multihost_placement_def bind_eq_Some_conv dest!: prepare_hosts_kept
      split: if_splits option.splits)

lemma select_host_kept:
  "select_host env project reqs anti pool host_id dids mtu kv db = Some (db', r) \<Longrightarrow> kept db db'"
  by (auto simp: select_host_def Let_def bind_eq_Some_conv dest!: find_available_host_kept intro: kept_trans
      split: if_splits sum.splits)

lemma build_multihost_kept:
  "build_multihost_result env asg topology st = (st', out) \<Longrightarrow>
     ps_db st' = ps_db st \<and> ps_started st' = ps_started st \<and> (\<forall>r. out \<noteq> SingleHost r)"
  by (auto simp: build_multihost_result_def Let_def split: option.splits sum.splits)

lemma map_prod_Some [simp]: "map_prod (\<lambda>s. s) Some x = (a, b) \<longleftrightarrow> (\<exists>c. x = (a, c) \<and> b = Some c)"
  by (cases x) auto

lemma try_multihost_kept:
  assumes "try_multihost_placement env project pool anti mtu st = (st', out)"
  shows "kept (ps_db st) (ps_db st') \<and> ps_started st' = ps_started st \<and> (\<forall>r. out \<noteq> Some (SingleHost r))"
  using assms
  by (auto simp: try_multihost_placement_def Let_def dest!: find_multihost_kept build_multihost_kept
      split: option.splits if_splits)

lemma finalize_cases:
  assumes "finalize_single_host env project h reqs st = (st', out)"
  obtains (raised) "out = Raised" "ps_db st' = ps_db st" "ps_started st' = ps_started st"
  | (placed) r h' where "out = SingleHost r" "sr_host_id r = h_id h" "sync_host_capacity (ps_db st) h = Some h'"
      "sr_host_ip r = h_ip_address h" "sr_requirements r = reqs"
      "ps_db st' = store_project (project\<lparr>p_host_id := Some (h_id h), p_state := ''deploying'',
         p_deploy_started_at := Some (pe_now env)\<rparr>) (store_host h' (ps_db st))"
      "ps_started st' = ps_started st @ [h_id h]"
proof (cases "allocate_vnis_for_project (d_projects (ps_db st)) (ps_hwm st) (pe_hwm_writable env) (p_topology project)")
  case (Inl e)
  with assms show ?thesis by (intro raised) (auto simp: finalize_single_host_def)
next
  case (Inr mh)
  obtain m hwm where mh: "mh = (m, hwm)" by fastforce
  show ?thesis
  proof (cases "build_host_network_config (pe_pick env) (pe_ord env) (p_topology project) m (peer_ips_of (ps_db st))")
    case None
    with Inr mh assms show ?thesis by (intro raised) (auto simp: finalize_single_host_def Let_def)
  next
    case (Some nc)
    note nc = this
    show ?thesis
    proof (cases "sync_host_capacity (ps_db st) h")
      case None
      with Inr mh nc assms show ?thesis by (intro raised) (auto simp: finalize_single_host_def Let_def)
    next
      case (Some h')
      with Inr mh nc assms show ?thesis by (intro placed) (auto simp: finalize_single_host_def Let_def)
    qed
  qed
qed

section \<open>Where a single host comes from\<close>

text \<open>The topology's demands, once they were read without an exception.\<close>

definition topology_reads ::
    "json \<Rightarrow> requirements \<Rightarrow> json list \<Rightarrow> bool \<Rightarrow> int option \<Rightarrow> bool \<Rightarrow> bool" where
  "topology_reads topology reqs dids anti mtu kv \<longleftrightarrow> truthy topology \<and>
     calculate_project_requirements topology = Some reqs \<and> pattern_disk_ids_from_topology topology = Some dids \<and>
     has_anti_affinity topology = Some anti \<and> required_network_mtu topology = Some mtu \<and>
     topology_requires_kubevirt topology = Some kv"

text \<open>An admin's host was checked for state, MTU and type; a searched host is an eligible row that
  met the whole demand.\<close>

definition specified_ok :: "database \<Rightarrow> string option \<Rightarrow> int option \<Rightarrow> bool \<Rightarrow> host \<Rightarrow> bool" where
  "specified_ok db host_id mtu kv h \<longleftrightarrow> opt_truthy host_id \<and> host_by_id db (the host_id) = Some h \<and>
     placement_host h \<and> host_mtu_ok h mtu \<and> (kv \<longrightarrow> h_host_type h = ''kubevirt-cluster'')"

definition searched_ok ::
    "place_env \<Rightarrow> project \<Rightarrow> requirements \<Rightarrow> json list \<Rightarrow> int option \<Rightarrow> bool \<Rightarrow> database \<Rightarrow> host \<Rightarrow> bool" where
  "searched_ok env project reqs dids mtu kv db h \<longleftrightarrow>
     (\<exists>h0\<in>set (d_hosts db). eligible None (p_provider_id project) kv h0 \<and> sync_host_capacity db h0 = Some h \<and>
        demand_met (pe_overcommit env) db (demand_of reqs dids mtu) h)"

lemma eligible_any_pool: "eligible pool prov kv h \<Longrightarrow> eligible None prov kv h"
  by (auto simp: eligible_def host_query_def)

lemma find_available_searched:
  assumes "find_available_host (pe_overcommit env) counter (demand_of reqs dids mtu) pool (p_provider_id project) kv db =
      Some (db', Some h)"
  shows "searched_ok env project reqs dids mtu kv db h"
  using assms
proof (rule find_available_host_unfold)
  fix hs
  assume hs: "omap (sync_host_capacity db) (filter (eligible pool (p_provider_id project) kv) (d_hosts db)) = Some hs"
    and r: "Some h = (case sort_key (load_key (pe_overcommit env) counter)
        (filter (demand_met (pe_overcommit env) db (demand_of reqs dids mtu)) hs) of [] \<Rightarrow> None | h # _ \<Rightarrow> Some h)"
  from sorted_head(2) [OF r [symmetric]] have "h \<in> set hs"
      "demand_met (pe_overcommit env) db (demand_of reqs dids mtu) h" by auto
  moreover obtain h0 where "h0 \<in> set (filter (eligible pool (p_provider_id project) kv) (d_hosts db))"
      "sync_host_capacity db h0 = Some h"
    using omap_result [OF hs \<open>h \<in> set hs\<close>] by blast
  ultimately show ?thesis using eligible_any_pool [of pool] unfolding searched_ok_def by auto
qed

lemma sync_same_projects: "d_projects db' = d_projects db \<Longrightarrow> sync_host_capacity db' = sync_host_capacity db"
  by (simp add: fun_eq_iff sync_host_capacity_def)

lemma store_hosts_subset: "set (d_hosts (foldl (\<lambda>d h. store_host h d) d xs)) \<subseteq> set xs \<union> set (d_hosts d)"
proof (induction xs arbitrary: d)
  case (Cons x xs)
  have "set (d_hosts (store_host x d)) \<subseteq> insert x (set (d_hosts d))" by (auto simp: store_host_def)
  with Cons [of "store_host x d"] show ?case by auto
qed simp

text \<open>A second search runs on rows the first one recounted: recounting does not change which
  rows are eligible or what they are recounted to.\<close>

lemma searched_ok_resynced:
  assumes "sync_hosts db hs = Some (db', hs')" "distinct (map h_id (d_hosts db))" "set hs \<subseteq> set (d_hosts db)"
    and "searched_ok env project reqs dids mtu kv db' h"
  shows "searched_ok env project reqs dids mtu kv db h"
proof -
  have p: "d_projects db' = d_projects db" and db': "db' = foldl (\<lambda>d h. store_host h d) db hs'"
    and hs': "omap (sync_host_capacity db) hs = Some hs'"
    using assms(1) by (auto simp: sync_hosts_def bind_eq_Some_conv)
  obtain h0 where h0: "h0 \<in> set (d_hosts db')" "eligible None (p_provider_id project) kv h0"
      "sync_host_capacity db h0 = Some h" "demand_met (pe_overcommit env) db (demand_of reqs dids mtu) h"
    using assms(4) sync_same_projects [OF p] demand_met_frame unfolding searched_ok_def db' by auto
  from h0(1) consider "h0 \<in> set (d_hosts db)" | "h0 \<in> set hs'" using store_hosts_subset [of db hs'] unfolding db' by blast
  then show ?thesis
  proof cases
    case 1
    with h0 show ?thesis by (auto simp: searched_ok_def)
  next
    case 2
    then obtain h1 where h1: "h1 \<in> set hs" "sync_host_capacity db h1 = Some h0" using omap_result [OF hs'] by blast
    note k = sync_keeps [OF h1(2)]
    have "counted_on h0 = counted_on h1" using k(1) by (auto simp: counted_on_def fun_eq_iff)
    then have "sync_host_capacity db h1 = Some h" using h0(3) h1(2) by (auto simp: sync_host_capacity_Some)
    moreover have "eligible None (p_provider_id project) kv h1"
      using h0(2) k by (auto simp: eligible_def placement_host_def host_query_def)
    ultimately show ?thesis using h0(4) h1(1) assms(3) unfolding searched_ok_def by blast
  qed
qed

lemma select_host_source:
  assumes "select_host env project reqs anti pool host_id dids mtu kv db = Some (db', Inr (Some h, pool'))"
    and "distinct (map h_id (d_hosts db))"
  shows "specified_ok db host_id mtu kv h \<or> \<not> opt_truthy host_id \<and> \<not> anti \<and> searched_ok env project reqs dids mtu kv db h"
proof (cases "opt_truthy host_id")
  case True
  with assms(1) show ?thesis
    by (auto simp: select_host_def resolve_specified_host_def validate_specified_host_for_select_def specified_ok_def
        placement_host_def split: sum.splits option.splits if_splits)
next
  case False
  let ?search = "\<lambda>pool. find_available_host (pe_overcommit env) (pe_counter env) (demand_of reqs dids mtu) pool
    (p_provider_id project) kv"
  from False assms(1) have "\<not> anti" by (auto simp: select_host_def Let_def split: if_splits)
  with False assms(1) obtain q where "?search q db = Some (db', Some h) \<or>
      (\<exists>db1. ?search q db = Some (db1, None) \<and> ?search None db1 = Some (db', Some h))"
    by (auto simp: select_host_def Let_def bind_eq_Some_conv split: if_splits)
  then show ?thesis
  proof (elim disjE exE conjE)
    assume "?search q db = Some (db', Some h)"
    with find_available_searched False \<open>\<not> anti\<close> show ?thesis by blast
  next
    fix db1
    assume s: "?search q db = Some (db1, None)" "?search None db1 = Some (db', Some h)"
    obtain hs hs' where "sync_hosts db hs = Some (db1, hs')" "set hs \<subseteq> set (d_hosts db)"
      using s(1) by (auto simp: find_available_host_def bind_eq_Some_conv)
    with find_available_searched [OF s(2)] searched_ok_resynced assms(2) False \<open>\<not> anti\<close> show ?thesis by blast
  qed
qed

lemma place_projectE:
  assumes "place_project env project pool host_id st = (st', out)"
  obtains (no_single) "\<forall>r. out \<noteq> SingleHost r"
      "(\<exists>m. out = MultiHost m) \<Longrightarrow> topology_requires_kubevirt (p_topology project) = Some False" "kept (ps_db st) (ps_db st')"
      "ps_started st' = ps_started st"
  | (selected) reqs dids anti mtu kv db h pool' where "topology_reads (p_topology project) reqs dids anti mtu kv"
      "select_host env project reqs anti pool host_id dids mtu kv (ps_db st) = Some (db, Inr (Some h, pool'))"
      "finalize_single_host env project h reqs (st\<lparr>ps_db := db\<rparr>) = (st', out)"
  | (provisioned) reqs dids anti mtu db pool' st1 st2 r where "topology_reads (p_topology project) reqs dids anti mtu False"
      "select_host env project reqs anti pool host_id dids mtu False (ps_db st) = Some (db, Inr (None, pool'))"
      "try_multihost_placement env project pool' anti mtu (st\<lparr>ps_db := db\<rparr>) = (st1, None)"
      "pe_provision env = Some r" "d_projects (ps_db st2) = d_projects (ps_db st1)" "ps_started st2 = ps_started st1"
      "finalize_single_host env project (provisioned_host r) reqs st2 = (st', out)"
proof (cases "\<exists>reqs dids. truthy (p_topology project) \<and>
    calculate_project_requirements (p_topology project) = Some reqs \<and> pattern_disk_ids_from_topology (p_topology project) = Some dids \<and>
    place_selected env project pool host_id reqs dids st = (st', out)")
  case False
  with assms show ?thesis
    by (intro no_single) (auto simp: place_project_def split: if_splits option.splits)
next
  case True
  then obtain reqs dids where rd: "truthy (p_topology project)" "calculate_project_requirements (p_topology project) = Some reqs"
      "pattern_disk_ids_from_topology (p_topology project) = Some dids"
      "place_selected env project pool host_id reqs dids st = (st', out)" by blast
  show ?thesis
  proof (cases "\<exists>anti mtu kv db sel. topology_reads (p_topology project) reqs dids anti mtu kv \<and>
      select_host env project reqs anti pool host_id dids mtu kv (ps_db st) = Some (db, sel)")
    case False
    with rd have "(st', out) = (st, Raised)"
      by (auto simp: place_selected_def topology_reads_def bind_eq_Some_conv split: option.splits)
    then show ?thesis by (intro no_single) auto
  next
    case True
    then obtain anti mtu kv db sel where t: "topology_reads (p_topology project) reqs dids anti mtu kv"
        "select_host env project reqs anti pool host_id dids mtu kv (ps_db st) = Some (db, sel)" by blast
    note fr = select_host_kept [OF t(2)]
    from t rd(4) have body: "(case sel of Inl err \<Rightarrow> (st\<lparr>ps_db := db\<rparr>, Failed err)
        | Inr (Some h, _) \<Rightarrow> finalize_single_host env project h reqs (st\<lparr>ps_db := db\<rparr>)
        | Inr (None, pool) \<Rightarrow> if kv then (st\<lparr>ps_db := db\<rparr>, Failed NoKubevirtHost)
           else (case try_multihost_placement env project pool anti mtu (st\<lparr>ps_db := db\<rparr>) of
              (st, Some out) \<Rightarrow> (st, out) | (st, None) \<Rightarrow> provision_and_finalize env project reqs st)) = (st', out)"
      by (simp add: place_selected_def topology_reads_def Let_def)
    consider err where "sel = Inl err" | h p where "sel = Inr (Some h, p)" | p where "sel = Inr (None, p)"
      by (metis option.exhaust surj_pair sum.exhaust)
    then show ?thesis
    proof cases
      case 1
      with body fr show ?thesis by (intro no_single) auto
    next
      case 2
      with body t show ?thesis by (intro selected) auto
    next
      case 3
      show ?thesis
      proof (cases kv)
        case True
        with 3 body fr show ?thesis by (intro no_single) auto
      next
        case False
        obtain st1 o1 where m: "try_multihost_placement env project p anti mtu (st\<lparr>ps_db := db\<rparr>) = (st1, o1)" by fastforce
        note f = try_multihost_kept [OF m]
        show ?thesis
        proof (cases "o1 = None \<and> pe_provision env \<noteq> None")
          case True
          then obtain y where y: "o1 = None" "pe_provision env = Some y" by auto
          let ?st2 = "st1\<lparr>ps_db := (ps_db st1)\<lparr>d_hosts := d_hosts (ps_db st1) @ [provisioned_host y]\<rparr>\<rparr>"
          have "finalize_single_host env project (provisioned_host y) reqs ?st2 = (st', out)"
            using 3 False body m y by (simp add: provision_and_finalize_def auto_provision_host_def Let_def)
          with 3 False m t y show ?thesis by (intro provisioned [of reqs dids anti mtu db p st1 y ?st2]) auto
        next
          case c: False
          with 3 False body m f fr t show ?thesis
            by (intro no_single)
              (auto simp: kept_trans provision_and_finalize_def auto_provision_host_def topology_reads_def split: option.splits)
        qed
      qed
    qed
  qed
qed

text \<open>The host a single-host placement names, by where it came from.\<close>

definition host_source ::
    "place_env \<Rightarrow> project \<Rightarrow> string option \<Rightarrow> place_state \<Rightarrow> requirements \<Rightarrow> json list \<Rightarrow> bool \<Rightarrow> int option \<Rightarrow> bool \<Rightarrow>
     host \<Rightarrow> bool" where
  "host_source env project host_id st reqs dids anti mtu kv h \<longleftrightarrow>
     specified_ok (ps_db st) host_id mtu kv h \<or>
     \<not> opt_truthy host_id \<and> \<not> anti \<and> searched_ok env project reqs dids mtu kv (ps_db st) h \<or>
     \<not> kv \<and> (\<exists>n. pe_provision env = Some n \<and> h = provisioned_host n)"

abbreviation deploying :: "place_env \<Rightarrow> project \<Rightarrow> string \<Rightarrow> project" where
  "deploying env project hid \<equiv> project\<lparr>p_host_id := Some hid, p_state := ''deploying'',
     p_deploy_started_at := Some (pe_now env)\<rparr>"

lemma d_projects_store: "d_projects (store_project p db) = map (\<lambda>x. if p_id x = p_id p then p else x) (d_projects db)"
  by (simp add: store_project_def)

lemma place_single_host:
  assumes "place_project env project pool host_id st = (st', SingleHost r)"
    and "distinct (map h_id (d_hosts (ps_db st)))"
  obtains reqs dids anti mtu kv h where "topology_reads (p_topology project) reqs dids anti mtu kv"
    "host_source env project host_id st reqs dids anti mtu kv h" "sr_host_id r = h_id h" "sr_requirements r = reqs"
    "ps_started st' = ps_started st @ [h_id h]"
    "d_projects (ps_db st') = map (\<lambda>p. if p_id p = p_id project then deploying env project (h_id h) else p) (d_projects (ps_db st))"
  using assms(1)
proof (cases rule: place_projectE)
  case no_single
  then show ?thesis by simp
next
  case (selected reqs dids anti mtu kv db h pool')
  note src = select_host_source [OF selected(2) assms(2)]
  from selected(3) show ?thesis
  proof (cases rule: finalize_cases)
    case (placed r' h')
    then show ?thesis
      using selected(1) src kept_projects [OF select_host_kept [OF selected(2)]]
      by (intro that [of reqs dids anti mtu kv h]) (auto simp: host_source_def d_projects_store)
  qed simp
next
  case (provisioned reqs dids anti mtu db pool' st1 st2 n)
  have f: "d_projects (ps_db st2) = d_projects (ps_db st)" "ps_started st2 = ps_started st"
    using provisioned(5,6) kept_projects [OF select_host_kept [OF provisioned(2)]] try_multihost_kept [OF provisioned(3)]
    by (simp_all add: kept_def)
  from provisioned(7) show ?thesis
  proof (cases rule: finalize_cases)
    case (placed r' h')
    then show ?thesis
      using provisioned(1,4) f
      by (intro that [of reqs dids anti mtu False "provisioned_host n"]) (auto simp: host_source_def d_projects_store)
  qed simp
qed

text \<open>C6: a placement that succeeds on one host marks exactly that project as deploying on it
  and starts its in-flight count; the host is the admin's choice (active, connected, in the
  pool, with the MTU and type the topology requires), or an eligible host that met the whole
  demand, or a freshly provisioned one. Every other outcome, error or exception, leaves every
  project row and every counter as it was.\<close>

theorem place_project_outcomes:
  assumes "place_project env project pool host_id st = (st', out)" "distinct (map h_id (d_hosts (ps_db st)))"
  shows "case out of
      SingleHost r \<Rightarrow> \<exists>reqs dids anti mtu kv h. topology_reads (p_topology project) reqs dids anti mtu kv \<and>
        host_source env project host_id st reqs dids anti mtu kv h \<and> sr_host_id r = h_id h \<and> sr_requirements r = reqs \<and>
        ps_started st' = ps_started st @ [h_id h] \<and>
        d_projects (ps_db st') =
          map (\<lambda>p. if p_id p = p_id project then deploying env project (h_id h) else p) (d_projects (ps_db st))
    | _ \<Rightarrow> d_projects (ps_db st') = d_projects (ps_db st) \<and> ps_started st' = ps_started st"
proof (cases "\<exists>r. out = SingleHost r")
  case True
  then obtain r where r: "out = SingleHost r" by blast
  obtain reqs dids anti mtu kv h where "topology_reads (p_topology project) reqs dids anti mtu kv"
    "host_source env project host_id st reqs dids anti mtu kv h" "sr_host_id r = h_id h" "sr_requirements r = reqs"
    "ps_started st' = ps_started st @ [h_id h]"
    "d_projects (ps_db st') = map (\<lambda>p. if p_id p = p_id project then deploying env project (h_id h) else p) (d_projects (ps_db st))"
    by (rule place_single_host [OF assms(1) [unfolded r] assms(2)])
  then show ?thesis unfolding r outcome.case by (intro exI conjI)
next
  case False
  from assms(1) have "d_projects (ps_db st') = d_projects (ps_db st) \<and> ps_started st' = ps_started st"
  proof (cases rule: place_projectE)
    case no_single
    then show ?thesis by (simp add: kept_projects)
  next
    case (selected reqs dids anti mtu kv db h pool')
    from selected(3) show ?thesis
      by (cases rule: finalize_cases) (use False kept_projects [OF select_host_kept [OF selected(2)]] in auto)
  next
    case (provisioned reqs dids anti mtu db pool' st1 st2 n)
    from provisioned(7) show ?thesis
      by (cases rule: finalize_cases)
        (use False provisioned(5,6) kept_projects [OF select_host_kept [OF provisioned(2)]]
          try_multihost_kept [OF provisioned(3)] in \<open>auto simp: kept_def\<close>)
  qed
  with False show ?thesis by (cases out) auto
qed

text \<open>A topology that requires KubeVirt is never placed across a mesh and never on a host
  that is not a KubeVirt cluster, whatever host is specified and whatever else is available.\<close>

theorem kubevirt_only_on_clusters:
  assumes "place_project env project pool host_id st = (st', out)" "distinct (map h_id (d_hosts (ps_db st)))"
    and "topology_requires_kubevirt (p_topology project) = Some True"
  shows "(\<forall>m. out \<noteq> MultiHost m) \<and>
    (\<forall>r. out = SingleHost r \<longrightarrow> (\<exists>h\<in>set (d_hosts (ps_db st)). h_id h = sr_host_id r \<and> h_host_type h = ''kubevirt-cluster''))"
proof -
  have "out \<noteq> MultiHost m" for m
    using assms(1)
  proof (cases rule: place_projectE)
    case no_single
    with assms(3) show ?thesis by auto
  next
    case (selected reqs dids anti mtu kv db h pool')
    from selected(3) show ?thesis by (cases rule: finalize_cases) auto
  next
    case (provisioned reqs dids anti mtu db pool' st1 st2 n)
    with assms(3) show ?thesis by (simp add: topology_reads_def)
  qed
  moreover have "\<exists>h\<in>set (d_hosts (ps_db st)). h_id h = sr_host_id r \<and> h_host_type h = ''kubevirt-cluster''"
    if r: "out = SingleHost r" for r
  proof (rule place_single_host [OF assms(1) [unfolded r] assms(2)])
    fix reqs dids anti mtu kv h
    assume t: "topology_reads (p_topology project) reqs dids anti mtu kv" and id: "sr_host_id r = h_id h"
      and src: "host_source env project host_id st reqs dids anti mtu kv h"
    have kv using t assms(3) by (simp add: topology_reads_def)
    with src consider "specified_ok (ps_db st) host_id mtu True h" | "searched_ok env project reqs dids mtu True (ps_db st) h"
      by (auto simp: host_source_def)
    then show ?thesis
    proof cases
      case 1
      with id host_by_idD show ?thesis by (auto simp: specified_ok_def)
    next
      case 2
      then obtain h0 where "h0 \<in> set (d_hosts (ps_db st))" "eligible None (p_provider_id project) True h0"
          "sync_host_capacity (ps_db st) h0 = Some h" by (auto simp: searched_ok_def)
      with id sync_keeps(1) show ?thesis by (auto simp: eligible_def host_query_def)
    qed
  qed
  ultimately show ?thesis by blast
qed

section \<open>A concrete placement\<close>

definition lab_env :: place_env where
  "lab_env = \<lparr>pe_overcommit = None, pe_counter = (\<lambda>k. Some 0), pe_pick = hd, pe_ord = (\<lambda>xs. xs),
     pe_hwm_writable = True, pe_now = 0, pe_provision = None\<rparr>"

definition lab_project :: project where
  "lab_project = sample_project ''p'' (JObj [(''nodes'', JList [vm_node ''vm1'' 4 8])])"

definition lab_state :: place_state where
  "lab_state = \<lparr>ps_db = empty_db\<lparr>d_hosts := [sample_host ''h''], d_projects := [lab_project]\<rparr>,
     ps_hwm = Missing, ps_started = []\<rparr>"

definition lab_placed :: "place_state \<times> outcome" where
  "lab_placed = place_project lab_env lab_project None None lab_state"

lemma lab_placed_state: "ps_started (fst lab_placed) = [''h''] \<and> d_hosts (ps_db (fst lab_placed)) = [sample_host ''h''] \<and>
    sync_host_capacity (ps_db (fst lab_placed)) (sample_host ''h'') =
      Some ((sample_host ''h'')\<lparr>h_used_vcpus := 4, h_used_ram_mb := 8192\<rparr>)"
  by code_simp

theorem place_project_outcomes_witness:
  "\<exists>r. snd lab_placed = SingleHost r \<and> (\<exists>reqs dids anti mtu kv h. topology_reads (p_topology lab_project) reqs dids anti mtu kv \<and>
      host_source lab_env lab_project None lab_state reqs dids anti mtu kv h \<and> sr_host_id r = h_id h)"
proof -
  have "case snd lab_placed of SingleHost r \<Rightarrow> True | _ \<Rightarrow> False" by code_simp
  then obtain r where r: "snd lab_placed = SingleHost r" by (auto split: outcome.splits)
  have "place_project lab_env lab_project None None lab_state = (fst lab_placed, SingleHost r)"
    using r by (simp add: lab_placed_def prod_eq_iff)
  from place_project_outcomes [OF this] r show ?thesis
    by (simp add: lab_state_def) blast
qed

definition kv_project :: project where
  "kv_project = sample_project ''p'' (JObj [(''nodes'', JList [vm_node ''vm1'' 4 8]),
     (''placement'', JObj [(''requires_kubevirt'', JBool True)])])"

definition kv_state :: place_state where
  "kv_state = \<lparr>ps_db = empty_db\<lparr>d_hosts := [sample_host ''h'', (sample_host ''k'')\<lparr>h_host_type := ''kubevirt-cluster''\<rparr>],
     d_projects := [kv_project]\<rparr>, ps_hwm = Missing, ps_started = []\<rparr>"

theorem kubevirt_only_on_clusters_witness:
  "\<exists>r h. snd (place_project lab_env kv_project None None kv_state) = SingleHost r \<and> sr_host_id r = ''k'' \<and>
     h \<in> set (d_hosts (ps_db kv_state)) \<and> h_id h = ''k'' \<and> h_host_type h = ''kubevirt-cluster''"
proof -
  have "case snd (place_project lab_env kv_project None None kv_state) of SingleHost r \<Rightarrow> sr_host_id r = ''k'' | _ \<Rightarrow> False"
    by code_simp
  then obtain r where r: "snd (place_project lab_env kv_project None None kv_state) = SingleHost r" "sr_host_id r = ''k''"
    by (auto split: outcome.splits)
  have k: "topology_requires_kubevirt (p_topology kv_project) = Some True" "distinct (map h_id (d_hosts (ps_db kv_state)))"
    by code_simp+
  have "place_project lab_env kv_project None None kv_state =
      (fst (place_project lab_env kv_project None None kv_state), SingleHost r)"
    using r(1) by (metis prod.collapse)
  from kubevirt_only_on_clusters [OF this k(2,1)] obtain h where
      "h \<in> set (d_hosts (ps_db kv_state))" "h_id h = sr_host_id r" "h_host_type h = ''kubevirt-cluster''" by auto
  with r show ?thesis by metis
qed

end
