(* ===== verification/Booking.thy ===== *)
theory Booking
  imports Placement_Laws
begin

text \<open>
  Capacity safety of sequences of operations. A host's booking is the sum of what the counted
  projects on it need; the transition system interleaves automatic placements of draft
  projects (whatever their outcome), state changes of placed projects and releases. The
  invariant, that every host stays within its allocatable capacity, is an instance of the
  locale \<open>invariant_system\<close>.
\<close>

definition counted_at :: "string \<Rightarrow> project \<Rightarrow> bool" where
  "counted_at hid p \<longleftrightarrow> p_host_id p = Some hid \<and> p_state p \<in> set counted_states"

definition booked :: "(requirements \<Rightarrow> rat) \<Rightarrow> project list \<Rightarrow> string \<Rightarrow> rat" where
  "booked f ps hid = (\<Sum>p\<leftarrow>ps. if counted_at hid p then f (the (project_need p)) else 0)"

definition within_capacity :: "overcommit \<Rightarrow> project list \<Rightarrow> host \<Rightarrow> bool" where
  "within_capacity oc ps h \<longleftrightarrow>
     booked r_total_vcpus ps (h_id h) \<le> of_int (fst (get_allocatable oc h)) \<and>
     booked r_total_ram_mb ps (h_id h) \<le> of_int (snd (get_allocatable oc h))"

definition need_ok :: "project \<Rightarrow> bool" where
  "need_ok p \<longleftrightarrow> (case project_need p of None \<Rightarrow> False | Some r \<Rightarrow> 0 \<le> r_total_vcpus r \<and> 0 \<le> r_total_ram_mb r)"

definition booking_inv :: "overcommit \<Rightarrow> place_state \<Rightarrow> bool" where
  "booking_inv oc st \<longleftrightarrow> distinct (map h_id (d_hosts (ps_db st))) \<and> distinct (map p_id (d_projects (ps_db st))) \<and>
     (\<forall>p\<in>set (d_projects (ps_db st)). need_ok p) \<and>
     (\<forall>h\<in>set (d_hosts (ps_db st)). within_capacity oc (d_projects (ps_db st)) h)"

inductive booking_step :: "overcommit \<Rightarrow> place_state \<Rightarrow> place_state \<Rightarrow> bool" for oc where
  bs_place: "pe_overcommit env = oc \<Longrightarrow> pe_provision env = None \<Longrightarrow> project \<in> set (d_projects (ps_db st)) \<Longrightarrow>
    p_state project = ''draft'' \<Longrightarrow> place_project env project pool None st = (st', out) \<Longrightarrow> booking_step oc st st'"
| bs_state: "project \<in> set (d_projects (ps_db st)) \<Longrightarrow> p_state project \<in> set counted_states \<Longrightarrow>
    booking_step oc st (st\<lparr>ps_db := store_project (project\<lparr>p_state := s\<rparr>) (ps_db st)\<rparr>)"
| bs_release: "project \<in> set (d_projects (ps_db st)) \<Longrightarrow> hid = None \<or> s \<notin> set counted_states \<Longrightarrow>
    booking_step oc st (st\<lparr>ps_db := store_project (project\<lparr>p_host_id := hid, p_state := s\<rparr>) (ps_db st)\<rparr>)"

inductive_cases booking_stepE: "booking_step oc st st'"

section \<open>Sums\<close>

lemma sum_list_filter_if: "sum_list (map f (filter P xs)) = (\<Sum>x\<leftarrow>xs. if P x then f x else (0 :: rat))"
  by (induction xs) auto

lemma counted_on_at: "counted_on h = counted_at (h_id h)"
  by (simp add: counted_on_def counted_at_def fun_eq_iff)

lemma sync_booked:
  assumes "sync_host_capacity db h = Some h'"
  shows "h_used_vcpus h' = booked r_total_vcpus (d_projects db) (h_id h)"
    and "h_used_ram_mb h' = booked r_total_ram_mb (d_projects db) (h_id h)"
  using assms by (simp_all add: sync_host_capacity_Some booked_def sum_list_filter_if counted_on_at)

lemma sum_list_replace:
  fixes g :: "project \<Rightarrow> rat"
  assumes "distinct (map p_id ps)" "p \<in> set ps" "p_id p' = p_id p"
  shows "sum_list (map g (map (\<lambda>x. if p_id x = p_id p' then p' else x) ps)) = sum_list (map g ps) - g p + g p'"
  using assms(1,2)
proof (induction ps)
  case (Cons x ps)
  show ?case
  proof (cases "x = p")
    case True
    then have "map (\<lambda>x. if p_id x = p_id p' then p' else x) ps = ps"
      using Cons.prems(1) assms(3) by (intro map_idI) (auto simp: image_iff)
    then show ?thesis using True assms(3) by (simp only: list.map sum_list.Cons) simp
  next
    case False
    then have "p \<in> set ps" "p_id x \<noteq> p_id p'" using Cons.prems assms(3) by auto
    with Cons show ?thesis by simp
  qed
qed simp

lemma booked_replace:
  assumes "distinct (map p_id ps)" "p \<in> set ps" "p_id p' = p_id p"
  shows "booked f (map (\<lambda>x. if p_id x = p_id p' then p' else x) ps) hid =
    booked f ps hid - (if counted_at hid p then f (the (project_need p)) else 0) +
    (if counted_at hid p' then f (the (project_need p')) else 0)"
  unfolding booked_def by (rule sum_list_replace [OF assms])

lemma uncounted_capacity:
  "uncounted h' = uncounted h \<Longrightarrow> within_capacity oc ps h' \<longleftrightarrow> within_capacity oc ps h"
proof -
  assume u: "uncounted h' = uncounted h"
  have "h_id h' = h_id h" "h_total_vcpus h' = h_total_vcpus h" "h_total_ram_mb h' = h_total_ram_mb h"
    using arg_cong [OF u, of h_id] arg_cong [OF u, of h_total_vcpus] arg_cong [OF u, of h_total_ram_mb]
    by (simp_all add: uncounted_def)
  then show ?thesis by (simp add: within_capacity_def get_allocatable_def)
qed

section \<open>Placement keeps every host within its capacity\<close>

lemma place_hosts_kept:
  assumes "place_project env project pool host_id st = (st', out)" "pe_provision env = None"
    and "distinct (map h_id (d_hosts (ps_db st)))"
  shows "map uncounted (d_hosts (ps_db st')) = map uncounted (d_hosts (ps_db st))"
  using assms(1)
proof (cases rule: place_projectE)
  case no_single
  with assms(3) show ?thesis by (simp add: kept_def)
next
  case (selected reqs dids anti mtu kv db h pool')
  have k: "kept (ps_db st) db" by (rule select_host_kept [OF selected(2)])
  then have eq: "map uncounted (d_hosts db) = map uncounted (d_hosts (ps_db st))" using assms(3) by (simp add: kept_def)
  from selected(3) show ?thesis
  proof (cases rule: finalize_cases)
    case raised
    with eq show ?thesis by simp
  next
    case (placed r h')
    have "uncounted h \<in> uncounted ` set (d_hosts (ps_db st))"
      using select_host_source [OF selected(2) assms(3)] host_by_idD sync_uncounted
      by (fastforce simp: specified_ok_def searched_ok_def)
    then have "uncounted h' \<in> uncounted ` set (d_hosts db)"
      using eq sync_uncounted [OF placed(3)] by (metis image_set)
    then have "kept db (store_host h' db)" by (rule store_host_kept)
    moreover have "distinct (map h_id (d_hosts db))" using same_uncounted_ids [OF eq] assms(3) by simp
    ultimately show ?thesis using eq placed(6) by (simp add: kept_def)
  qed
next
  case provisioned
  with assms(2) show ?thesis by simp
qed

lemma booking_place:
  assumes inv: "booking_inv (pe_overcommit env) st" and prov: "pe_provision env = None"
    and mem: "project \<in> set (d_projects (ps_db st))" and draft: "p_state project = ''draft''"
    and place: "place_project env project pool None st = (st', out)"
  shows "booking_inv (pe_overcommit env) st'"
proof -
  let ?ps = "d_projects (ps_db st)"
  have dh: "distinct (map h_id (d_hosts (ps_db st)))" and dp: "distinct (map p_id ?ps)"
    and ok: "\<forall>p\<in>set ?ps. need_ok p"
    and cap: "\<And>h. h \<in> set (d_hosts (ps_db st)) \<Longrightarrow> within_capacity (pe_overcommit env) ?ps h"
    using inv by (auto simp: booking_inv_def)
  have rows: "map uncounted (d_hosts (ps_db st')) = map uncounted (d_hosts (ps_db st))"
    by (rule place_hosts_kept [OF place prov dh])
  have old: "within_capacity (pe_overcommit env) ps h'"
    if "\<And>h. h \<in> set (d_hosts (ps_db st)) \<Longrightarrow> within_capacity (pe_overcommit env) ps h" "h' \<in> set (d_hosts (ps_db st'))" for ps h'
  proof -
    have "uncounted h' \<in> uncounted ` set (d_hosts (ps_db st))" using rows that(2) by (metis image_eqI image_set)
    then obtain h where "h \<in> set (d_hosts (ps_db st))" "uncounted h' = uncounted h" by auto
    with that(1) uncounted_capacity show ?thesis by metis
  qed
  show ?thesis
  proof (cases "\<exists>r. out = SingleHost r")
    case False
    have "d_projects (ps_db st') = ?ps"
      using place
    proof (cases rule: place_projectE)
      case no_single
      then show ?thesis by (simp add: kept_projects)
    next
      case (selected reqs dids anti mtu kv db h pool')
      from selected(3) show ?thesis
        by (cases rule: finalize_cases) (use False kept_projects [OF select_host_kept [OF selected(2)]] in auto)
    qed (use prov in simp)
    with old cap dh dp ok same_uncounted_ids [OF rows] show ?thesis by (simp add: booking_inv_def)
  next
    case True
    then obtain r where r: "out = SingleHost r" by blast
    from place [unfolded r] dh show ?thesis
    proof (rule place_single_host)
      fix reqs dids anti mtu kv and h :: host
      let ?p' = "deploying env project (h_id h)"
      assume t: "topology_reads (p_topology project) reqs dids anti mtu kv"
        and src: "host_source env project None st reqs dids anti mtu kv h"
        and ps': "d_projects (ps_db st') = map (\<lambda>p. if p_id p = p_id project then ?p' else p) ?ps"
      have need: "project_need project = Some reqs" "project_need ?p' = Some reqs"
        using t by (auto simp: topology_reads_def py_or_def)
      obtain h0 where h0: "h0 \<in> set (d_hosts (ps_db st))" "sync_host_capacity (ps_db st) h0 = Some h"
          "demand_met (pe_overcommit env) (ps_db st) (demand_of reqs dids mtu) h"
        using src prov by (auto simp: host_source_def specified_ok_def searched_ok_def)
      have booked': "booked f (d_projects (ps_db st')) hid = booked f ?ps hid + (if hid = h_id h then f reqs else 0)" for f hid
        using booked_replace [OF dp mem, of ?p' f hid] need draft
        by (auto simp: ps' counted_at_def counted_states_def)
      have "within_capacity (pe_overcommit env) (d_projects (ps_db st')) h1" if "h1 \<in> set (d_hosts (ps_db st))" for h1
      proof (cases "h_id h1 = h_id h")
        case True
        then have "h1 = h0" using that h0(1) dh sync_keeps(1) [OF h0(2)] by (metis distinct_map inj_onD)
        with h0(3) sync_booked [OF h0(2)] sync_keeps [OF h0(2)] booked' show ?thesis
          by (simp add: within_capacity_def demand_met_def demand_of_def free_vcpus_def free_ram_def
              get_allocatable_def algebra_simps)
      next
        case False
        with cap [OF that] booked' show ?thesis by (simp add: within_capacity_def)
      qed
      moreover have "map p_id (d_projects (ps_db st')) = map p_id ?ps" unfolding ps' by auto
      moreover have "\<forall>p\<in>set (d_projects (ps_db st')). need_ok p"
        using ok mem need by (auto simp: ps' need_ok_def)
      ultimately show ?thesis using old dh dp same_uncounted_ids [OF rows] by (simp add: booking_inv_def)
    qed
  qed
qed

section \<open>Other steps\<close>

lemma booking_store:
  assumes inv: "booking_inv oc st" and mem: "project \<in> set (d_projects (ps_db st))"
    and same: "p_id p' = p_id project" "p_topology p' = p_topology project"
    and less: "\<And>hid. counted_at hid p' \<Longrightarrow> counted_at hid project"
  shows "booking_inv oc (st\<lparr>ps_db := store_project p' (ps_db st)\<rparr>)"
proof -
  let ?ps = "d_projects (ps_db st)"
  have dp: "distinct (map p_id ?ps)" and ok: "\<forall>p\<in>set ?ps. need_ok p" using inv by (auto simp: booking_inv_def)
  have need: "project_need p' = project_need project" by (simp add: same)
  obtain r where r: "project_need project = Some r" "0 \<le> r_total_vcpus r" "0 \<le> r_total_ram_mb r"
    using ok mem by (fastforce simp: need_ok_def split: option.splits)
  have le: "booked f (d_projects (store_project p' (ps_db st))) hid \<le> booked f ?ps hid" if "0 \<le> f r" for f hid
    using booked_replace [OF dp mem same(1), of f hid] need r(1) less [of hid] that
    by (auto simp: d_projects_store)
  have "within_capacity oc (d_projects (store_project p' (ps_db st))) h" if "h \<in> set (d_hosts (ps_db st))" for h
    using inv that le [of r_total_vcpus] le [of r_total_ram_mb] r(2,3)
    by (fastforce simp: booking_inv_def within_capacity_def intro: order_trans)
  moreover have "map p_id (d_projects (store_project p' (ps_db st))) = map p_id ?ps"
    by (auto simp: d_projects_store)
  moreover have "\<forall>p\<in>set (d_projects (store_project p' (ps_db st))). need_ok p"
    using ok mem need by (auto simp: d_projects_store need_ok_def)
  ultimately show ?thesis using inv by (simp add: booking_inv_def)
qed

lemma booking_step_inv: "booking_inv oc st \<Longrightarrow> booking_step oc st st' \<Longrightarrow> booking_inv oc st'"
  by (erule booking_stepE) (auto intro: booking_place intro!: booking_store simp: counted_at_def)

definition booking_init :: "overcommit \<Rightarrow> place_state \<Rightarrow> bool" where
  "booking_init oc st \<longleftrightarrow> distinct (map h_id (d_hosts (ps_db st))) \<and> distinct (map p_id (d_projects (ps_db st))) \<and>
     (\<forall>p\<in>set (d_projects (ps_db st)). need_ok p \<and> p_host_id p = None) \<and>
     (\<forall>h\<in>set (d_hosts (ps_db st)). 0 \<le> fst (get_allocatable oc h) \<and> 0 \<le> snd (get_allocatable oc h))"

lemma booked_none: "\<forall>p\<in>set ps. \<not> counted_at hid p \<Longrightarrow> booked f ps hid = 0"
  unfolding booked_def by (induction ps) auto

lemma booking_init_inv: "booking_init oc st \<Longrightarrow> booking_inv oc st"
proof -
  assume i: "booking_init oc st"
  have "booked f (d_projects (ps_db st)) hid = 0" for f hid
    using i by (intro booked_none) (auto simp: booking_init_def counted_at_def)
  with i show ?thesis by (auto simp: booking_init_def booking_inv_def within_capacity_def)
qed

interpretation booking: invariant_system "booking_init oc" "booking_step oc" "booking_inv oc" for oc
  by unfold_locales (auto intro: booking_init_inv booking_step_inv)


section \<open>A concrete placement\<close>

lemma lab_init: "booking_init None lab_state"
  by code_simp

lemma lab_step: "booking_step None lab_state (fst lab_placed)"
proof (rule bs_place)
  show "place_project lab_env lab_project None None lab_state = (fst lab_placed, snd lab_placed)"
    by (simp add: lab_placed_def)
qed (simp_all add: lab_env_def lab_state_def lab_project_def sample_project_def)


section \<open>Where a multi-host project is booked\<close>

text \<open>After a multi-host placement is stored, the recount charges the whole project to its
  network host and nothing to the other hosts that run its VMs.\<close>

theorem multihost_booked_on_network_host:
  assumes "distinct (map p_id (d_projects db))" "project \<in> set (d_projects db)" "p_state project = ''draft''"
    and "sync_host_capacity db h = Some h1"
    and "sync_host_capacity (setup_multi_host_placement project r db) h = Some h2"
  shows "h_used_ram_mb h2 = h_used_ram_mb h1 +
      (if h_id h = mr_network_host_id r then r_total_ram_mb (the (project_need project)) else 0) \<and>
    h_used_vcpus h2 = h_used_vcpus h1 +
      (if h_id h = mr_network_host_id r then r_total_vcpus (the (project_need project)) else 0)"
proof -
  define p' where "p' = project\<lparr>p_state := ''deploying'', p_mesh_network_host_id := Some (mr_network_host_id r),
       p_host_id := Some (mr_network_host_id r), p_vni_map := vni_json (mr_vni_map r),
       p_host_assignments := Some (flatten_assignments (mr_assignments r))\<rparr>"
  have p': "p_id p' = p_id project" "project_need p' = project_need project" by (simp_all add: p'_def)
  have "d_projects (setup_multi_host_placement project r db) =
      map (\<lambda>x. if p_id x = p_id p' then p' else x) (d_projects db)"
    by (simp add: setup_multi_host_placement_def d_projects_store flip: p'_def)
  then have "booked f (d_projects (setup_multi_host_placement project r db)) (h_id h) = booked f (d_projects db) (h_id h) +
      (if h_id h = mr_network_host_id r then f (the (project_need project)) else 0)" for f
    using booked_replace [OF assms(1,2) p'(1), of f "h_id h"] assms(3)
    by (auto simp: p'(2) counted_at_def counted_states_def p'_def)
  then show ?thesis using sync_booked [OF assms(4)] sync_booked [OF assms(5)] by simp
qed

definition mesh_project :: project where
  "mesh_project = (sample_project ''p'' mesh_topology)\<lparr>p_provider_id := Some ''prov''\<rparr>"

definition mesh_result :: multihost_result where
  "mesh_result = \<lparr>mr_assignments = [(''h'', [JStr ''a'']), (''g'', [JStr ''b''])], mr_network_host_id = ''g'',
     mr_host_ips = [(''h'', Some ''192.0.2.1''), (''g'', Some ''192.0.2.1'')], mr_vni_map = []\<rparr>"

lemma mesh_result_placed: "snd (place_project lab_env mesh_project None None
    \<lparr>ps_db = mesh_db\<lparr>d_projects := [mesh_project]\<rparr>, ps_hwm = Missing, ps_started = []\<rparr>) = MultiHost mesh_result"
  by code_simp

theorem multihost_booked_on_network_host_witness:
  "snd (place_project lab_env mesh_project None None
    \<lparr>ps_db = mesh_db\<lparr>d_projects := [mesh_project]\<rparr>, ps_hwm = Missing, ps_started = []\<rparr>) = MultiHost mesh_result \<and>
   (''h'', [JStr ''a'']) \<in> set (mr_assignments mesh_result) \<and>
   (\<exists>h2. sync_host_capacity (setup_multi_host_placement mesh_project mesh_result
      (mesh_db\<lparr>d_projects := [mesh_project]\<rparr>)) (sample_host ''h'') = Some h2 \<and> h_used_ram_mb h2 = 0)"
proof -
  let ?db = "mesh_db\<lparr>d_projects := [mesh_project]\<rparr>"
  have s: "sync_host_capacity ?db (sample_host ''h'') = Some (sample_host ''h'')"
      "sync_host_capacity (setup_multi_host_placement mesh_project mesh_result ?db) (sample_host ''h'') = Some (sample_host ''h'')"
    by code_simp+
  have "h_id (sample_host ''h'') \<noteq> mr_network_host_id mesh_result" "h_used_ram_mb (sample_host ''h'') = 0"
    by (simp_all add: sample_host_def mesh_result_def)
  with multihost_booked_on_network_host [OF _ _ _ s] s(2) mesh_result_placed show ?thesis
    by (auto simp: mesh_result_def mesh_project_def sample_project_def)
qed

end
