(* ===== verification/Vxlan_Dhcp.thy ===== *)
theory Vxlan_Dhcp
  imports Vxlan
begin

text \<open>
  Address uniqueness of the DHCP reservations: dnsmasq exits when two \<open>dhcp-host\<close> lines
  name one address, so the configuration must not reserve an address twice. The lemmas
  follow the three sources of reservations in the order the code adds them: VM NICs, cluster
  VIPs, infrastructure addresses.
\<close>

section \<open>Cluster VIPs\<close>

lemma vip_reservations_loop_ips:
  assumes "vip_reservations_loop name reserved seen vips out = Some rs"
    and "distinct (map dh_ip out)" "set (map dh_ip out) = JStr ` set seen"
    "set (map dh_ip out) \<inter> set reserved = {}"
  shows "distinct (map dh_ip rs) \<and> set (map dh_ip rs) \<inter> set reserved = {} \<and>
    set (map dh_ip rs) = JStr ` set seen \<union> (JStr ` snd ` set vips - set reserved)"
  using assms
proof (induction name reserved seen vips out rule: vip_reservations_loop.induct)
  case (1 name reserved seen out)
  then show ?case by auto
next
  case (2 name reserved seen label vip vips out)
  show ?case
  proof (cases "vip \<in> set seen \<or> JStr vip \<in> set reserved")
    case True
    with 2 show ?thesis by auto
  next
    case False
    with 2(3) obtain mac nm where m: "bogus_mac_for_ip vip = Some mac" "py_str name = Some nm"
      and rs: "vip_reservations_loop name reserved (vip # seen) vips
        (out @ [\<lparr>dh_mac = JStr mac, dh_ip = JStr vip, dh_name = JStr (nm @ ''-'' @ label)\<rparr>]) = Some rs"
      by (auto simp: bind_eq_Some_conv)
    have "JStr vip \<notin> set (map dh_ip out)" using 2(5) False by auto
    with 2(2) [OF False m rs] 2(4,5,6) False show ?thesis by auto
  qed
qed

lemma vip_reservations_ips:
  assumes "vip_reservations_for_cluster name vips reserved = Some rs"
  shows "distinct (map dh_ip rs)" "set (map dh_ip rs) = JStr ` snd ` set vips - set reserved"
  using vip_reservations_loop_ips [of name reserved "[]" vips "[]" rs] assms
  by (auto simp: vip_reservations_for_cluster_def)

definition boundary_vip_set :: "json \<Rightarrow> json set" where
  "boundary_vip_set b =
     (if has_type ''clusterNode'' b = Some True
      then (case cluster_boundary_vips b of None \<Rightarrow> {} | Some vs \<Rightarrow> JStr ` snd ` set vs)
      else {})"

lemma cluster_vip_step_ips:
  assumes "cluster_vip_step net nodes edges reserved out b = Some out'"
  shows "\<exists>rs. out' = out @ rs \<and> distinct (map dh_ip rs) \<and>
    set (map dh_ip rs) \<subseteq> boundary_vip_set b - set reserved"
  using assms vip_reservations_ips
  by (auto simp: cluster_vip_step_def boundary_vip_set_def bind_eq_Some_conv split: if_splits)

lemma cluster_vip_fold_ips:
  assumes "ofold (cluster_vip_step net nodes edges reserved) out bs = Some rs"
    and "distinct (map dh_ip out)" "set (map dh_ip out) \<inter> set reserved = {}"
    and "\<forall>b\<in>set bs. set (map dh_ip out) \<inter> boundary_vip_set b = {}"
    and "sorted_wrt (\<lambda>b c. boundary_vip_set b \<inter> boundary_vip_set c = {}) bs"
  shows "distinct (map dh_ip rs) \<and> set (map dh_ip rs) \<inter> set reserved = {}"
  using assms
proof (induction bs arbitrary: out)
  case Nil
  then show ?case by simp
next
  case (Cons b bs)
  then obtain out' where out': "cluster_vip_step net nodes edges reserved out b = Some out'"
      "ofold (cluster_vip_step net nodes edges reserved) out' bs = Some rs"
    by (auto simp: bind_eq_Some_conv)
  from cluster_vip_step_ips [OF out'(1)] obtain xs where xs: "out' = out @ xs"
      "distinct (map dh_ip xs)" "set (map dh_ip xs) \<subseteq> boundary_vip_set b - set reserved"
    by auto
  show ?case
  proof (rule Cons.IH [OF out'(2)])
    show "distinct (map dh_ip out')"
      using xs Cons.prems(2,4) by auto
    show "set (map dh_ip out') \<inter> set reserved = {}"
      using xs Cons.prems(3) by auto
    show "\<forall>c\<in>set bs. set (map dh_ip out') \<inter> boundary_vip_set c = {}"
      using xs Cons.prems(4,5) by fastforce
    show "sorted_wrt (\<lambda>b c. boundary_vip_set b \<inter> boundary_vip_set c = {}) bs"
      using Cons.prems(5) by simp
  qed
qed

section \<open>Infrastructure addresses\<close>

lemma infra_fold_ips:
  assumes "ofold (infra_step net reserved) out ols = Some rs" "0 \<le> net_addr net"
    and "sorted_wrt (<) (map fst ols)" "\<forall>o3\<in>set (map fst ols). 0 \<le> o3"
    and "distinct (map dh_ip out)" "set (map dh_ip out) \<inter> set reserved = {}"
    and "\<forall>i\<in>set (map dh_ip out). \<exists>k. i = JStr (addr_text (net_addr net + k)) \<and> 0 \<le> k \<and>
      net_addr net + k < 2 ^ 32 \<and> (\<forall>o3\<in>set (map fst ols). k < o3)"
  shows "distinct (map dh_ip rs) \<and> set (map dh_ip rs) \<inter> set reserved = {}"
  using assms
proof (induction ols arbitrary: out)
  case Nil
  then show ?case by simp
next
  case (Cons ol ols)
  obtain k label where ol: "ol = (k, label)" by (cases ol)
  from Cons.prems(1) obtain out' where out': "infra_step net reserved out ol = Some out'"
      "ofold (infra_step net reserved) out' ols = Some rs"
    by (auto simp: bind_eq_Some_conv)
  from out'(1) obtain ip where ip: "ip = addr_text (net_addr net + k)" "net_addr net + k < 2 ^ 32"
    and o': "out' = (if JStr ip \<in> set reserved then out else out') \<and>
      (JStr ip \<notin> set reserved \<longrightarrow> map dh_ip out' = map dh_ip out @ [JStr ip])"
    by (auto simp: infra_step_def infra_ip_def ol bind_eq_Some_conv split: if_splits)
  have new: "JStr ip \<notin> set (map dh_ip out)"
  proof
    assume "JStr ip \<in> set (map dh_ip out)"
    then obtain j where j: "JStr ip = JStr (addr_text (net_addr net + j))" "0 \<le> j"
        "net_addr net + j < 2 ^ 32" "j < k"
      using Cons.prems(7) ol by auto
    then have "net_addr net + k = net_addr net + j"
      using Cons.prems(2,4) ip ol by (intro addr_text_inject) auto
    with j(4) show False by simp
  qed
  show ?case
  proof (cases "JStr ip \<in> set reserved")
    case True
    with o' have "out' = out" by simp
    with Cons.IH [OF out'(2) Cons.prems(2)] Cons.prems(3-7) show ?thesis by fastforce
  next
    case False
    with o' have m: "map dh_ip out' = map dh_ip out @ [JStr ip]" by simp
    show ?thesis
    proof (rule Cons.IH [OF out'(2) Cons.prems(2)])
      show "distinct (map dh_ip out')" using m new Cons.prems(5) by simp
      show "set (map dh_ip out') \<inter> set reserved = {}" unfolding m using False Cons.prems(6) by auto
      show "\<forall>i\<in>set (map dh_ip out'). \<exists>k. i = JStr (addr_text (net_addr net + k)) \<and> 0 \<le> k \<and>
          net_addr net + k < 2 ^ 32 \<and> (\<forall>o3\<in>set (map fst ols). k < o3)"
        unfolding m using Cons.prems(3,4,7) ip ol by fastforce
    qed (use Cons.prems(3,4) in auto)
  qed
qed

lemma infra_ip_reservations_ips:
  assumes "infra_ip_reservations data reserved = Some rs"
  shows "distinct (map dh_ip rs) \<and> set (map dh_ip rs) \<inter> set reserved = {}"
proof -
  let ?ols = "[(1, ''gateway''), (2, ''dnsmasq''), (3, ''exec''), (9, ''showroom'')] :: (int \<times> string) list"
  from assms consider "rs = []"
    | net s where "ip_network s = Some net" "ofold (infra_step net reserved) [] ?ols = Some rs"
    by (auto simp: infra_ip_reservations_def bind_eq_Some_conv simp del: ofold.simps
        split: if_splits option.splits)
  then show ?thesis
  proof cases
    case 1
    then show ?thesis by simp
  next
    case 2
    then show ?thesis
      using infra_fold_ips [OF 2(2) ip_network_nonneg [OF 2(1)]] by simp
  qed
qed

section \<open>The whole network\<close>

text \<open>When the VM NICs of a network have distinct addresses and no VIP is shared by two
  clusters, the DHCP reservations the configuration ends up with (NICs, cluster VIPs,
  infrastructure addresses) name every address at most once.\<close>

theorem dhcp_reservations_distinct:
  assumes "apply_dhcp_reservations cfg data node_id nodes edges = Some cfg'"
    and "distinct (map dh_ip (nc_dhcp_hosts cfg))"
    and "sorted_wrt (\<lambda>b c. boundary_vip_set b \<inter> boundary_vip_set c = {}) nodes"
  shows "distinct (map dh_ip (nc_dhcp_hosts cfg'))"
proof (cases "truthy (nc_dhcp_enabled cfg)")
  case False
  with assms show ?thesis by (simp add: apply_dhcp_reservations_def)
next
  case True
  with assms(1) obtain vips infra where
      v: "cluster_vip_reservations node_id nodes edges (map dh_ip (nc_dhcp_hosts cfg)) = Some vips"
    and i: "infra_ip_reservations data (map dh_ip (nc_dhcp_hosts cfg @ vips)) = Some infra"
    and c: "nc_dhcp_hosts cfg' = (nc_dhcp_hosts cfg @ vips) @ infra"
    by (auto simp: apply_dhcp_reservations_def bind_eq_Some_conv Let_def)
  have "distinct (map dh_ip vips) \<and> set (map dh_ip vips) \<inter> set (map dh_ip (nc_dhcp_hosts cfg)) = {}"
    using cluster_vip_fold_ips [of node_id nodes edges "map dh_ip (nc_dhcp_hosts cfg)" "[]" nodes vips]
      v assms(3)
    by (simp add: cluster_vip_reservations_def)
  with infra_ip_reservations_ips [OF i] assms(2) show ?thesis
    unfolding c by auto
qed

text \<open>A network with one VM NIC and one cluster whose API VIP is a separate address and whose
  ingress VIP is the node's own address.\<close>

definition cluster_vm :: "string \<Rightarrow> string \<Rightarrow> string \<Rightarrow> json" where
  "cluster_vm i parent ip = JObj [(''id'', JStr i), (''type'', JStr ''vmNode''),
     (''parentId'', JStr parent),
     (''data'', JObj [(''name'', JStr i), (''nics'', JList [JObj [(''id'', JStr ''0''),
        (''ip'', JStr ip), (''mac'', JStr ''52:54:00:00:00:01'')]])])]"

definition cluster_box :: "string \<Rightarrow> string \<Rightarrow> string \<Rightarrow> json" where
  "cluster_box i api ingress = JObj [(''id'', JStr i), (''type'', JStr ''clusterNode''),
     (''data'', JObj [(''name'', JStr i), (''apiVip'', JStr api), (''ingressVip'', JStr ingress)])]"

definition nic_edge :: "string \<Rightarrow> json" where
  "nic_edge vm = JObj [(''source'', JStr vm), (''target'', JStr ''net''),
     (''sourceHandle'', JStr ''nic-0-top'')]"

definition lab_net :: json where
  "lab_net = JObj [(''id'', JStr ''net''), (''type'', JStr ''networkNode''),
     (''data'', JObj [(''subtype'', JStr ''network''), (''name'', JStr ''lab''),
        (''cidr'', JStr ''10.0.0.0/24''), (''dhcp'', JBool True)])]"

definition lab_nodes :: "json list" where
  "lab_nodes = [lab_net, cluster_box ''c1'' ''10.0.0.5'' ''10.0.0.20'', cluster_vm ''a'' ''c1'' ''10.0.0.20'']"

definition lab_edges :: "json list" where
  "lab_edges = [nic_edge ''a'', nic_edge ''b'']"

definition net_ips :: "json list \<Rightarrow> json list option" where
  "net_ips nodes = do {
     cfgs \<leftarrow> build_network_configs hd nodes lab_edges [(JStr ''net'', 1000)] [];
     Some (concat (map (\<lambda>c. map dh_ip (nc_dhcp_hosts c)) cfgs))
   }"

lemma lab_net_ips:
  "net_ips lab_nodes = Some (map JStr [''10.0.0.20'', ''10.0.0.5'', ''10.0.0.1'', ''10.0.0.2'',
     ''10.0.0.3'', ''10.0.0.9''])"
  by code_simp

definition lab_cfg :: net_config where
  "lab_cfg = \<lparr>nc_node_id = JStr ''net'', nc_name = JStr ''lab'', nc_cidr = JStr ''10.0.0.0/24'',
     nc_vni = 1000, nc_bridge_name = ''br-1000'', nc_vxlan_name = ''vxlan-1000'',
     nc_dhcp_enabled = JBool True, nc_dns_enabled = JBool False, nc_dns_domain = JStr [],
     nc_dns_records = [], nc_connected_vms = [(JStr ''a'', JStr ''a'')],
     nc_dhcp_hosts = [\<lparr>dh_mac = JStr ''52:54:00:00:00:01'', dh_ip = JStr ''10.0.0.20'',
       dh_name = JStr ''a''\<rparr>],
     nc_peers = [], nc_mtu = JNull, nc_dhcp_config = None, nc_pxe_config = None\<rparr>"

definition lab_data :: json where
  "lab_data = JObj [(''subtype'', JStr ''network''), (''cidr'', JStr ''10.0.0.0/24'')]"

theorem dhcp_reservations_distinct_witness:
  "\<exists>cfg'. apply_dhcp_reservations lab_cfg lab_data (JStr ''net'') lab_nodes lab_edges = Some cfg' \<and>
     distinct (map dh_ip (nc_dhcp_hosts cfg')) \<and> length (nc_dhcp_hosts cfg') = 6"
proof -
  have l: "map_option (\<lambda>c. length (nc_dhcp_hosts c))
      (apply_dhcp_reservations lab_cfg lab_data (JStr ''net'') lab_nodes lab_edges) = Some 6"
    by code_simp
  then obtain cfg' where c:
      "apply_dhcp_reservations lab_cfg lab_data (JStr ''net'') lab_nodes lab_edges = Some cfg'"
    by auto
  have d: "distinct (map dh_ip (nc_dhcp_hosts lab_cfg))" by (simp add: lab_cfg_def)
  have "sorted_wrt (\<lambda>b c. boundary_vip_set b \<inter> boundary_vip_set c = {}) lab_nodes" by code_simp
  with dhcp_reservations_distinct [OF c d] c l show ?thesis by simp
qed

text \<open>Two clusters on one network that name the same VIP make the configuration reserve
  that address twice, since each cluster's VIPs are compared with the NIC addresses only and
  not with the VIPs reserved for earlier clusters.\<close>

theorem shared_vip_reserved_twice:
  "net_ips [lab_net, cluster_box ''c1'' ''10.0.0.5'' ''10.0.0.6'', cluster_vm ''a'' ''c1'' ''10.0.0.20'',
      cluster_box ''c2'' ''10.0.0.5'' ''10.0.0.7'', cluster_vm ''b'' ''c2'' ''10.0.0.21''] =
   Some (map JStr [''10.0.0.20'', ''10.0.0.21'', ''10.0.0.5'', ''10.0.0.6'', ''10.0.0.5'', ''10.0.0.7'',
     ''10.0.0.1'', ''10.0.0.2'', ''10.0.0.3'', ''10.0.0.9''])"
  by code_simp

end
