(* ===== verification/Metering_Math.thy ===== *)
theory Metering_Math
  imports Py_Json "HOL-Library.List_Lexorder" "HOL-Library.Char_ord"
begin

text \<open>
  \<open>src/src/backend/app/services/metering_math.py\<close>: rates, spend, calendar months, usage of a
  billing period, the resources a project should be metered for and the difference to the open
  meters. A time is the number of microseconds since the epoch (a naive datetime counts as
  UTC); an hour is 3600000000 of them. Floats are exact rationals. A usage row is a record
  whose fields may be null.
\<close>

section \<open>Rates and spend\<close>

definition KIND_TO_RATE :: "(string \<times> string) list" where
  "KIND_TO_RATE = [(''vcpu'', ''vcpu_hour''), (''ram'', ''ram_gib_hour''), (''disk'', ''disk_gib_hour''),
     (''eip'', ''eip_hour''), (''ceph'', ''ceph_gib_hour'')]"

text \<open>A rate table maps rate keys to numbers or null; a null table has no entries.\<close>

type_synonym rates = "(string \<times> rat option) list"

definition rate_of :: "rates \<Rightarrow> string \<Rightarrow> rat option" where
  "rate_of tbl key = dict_get tbl key None"

definition resolve_rate ::
    "string \<Rightarrow> string \<Rightarrow> rates \<Rightarrow> (string \<times> rates) list \<Rightarrow> rates \<Rightarrow> rat" where
  "resolve_rate kind provider_type host_rates type_rates fallback =
     (case map_of KIND_TO_RATE kind of
        None \<Rightarrow> 0
      | Some key \<Rightarrow>
          (case rate_of host_rates key of
             Some r \<Rightarrow> r
           | None \<Rightarrow>
               (case rate_of (dict_get type_rates provider_type []) key of
                  Some r \<Rightarrow> r
                | None \<Rightarrow> (case rate_of fallback key of Some r \<Rightarrow> r | None \<Rightarrow> 0))))"

definition hours_between :: "int \<Rightarrow> int \<Rightarrow> rat" where
  "hours_between start stop = (if stop - start \<le> 0 then 0 else of_int (stop - start) / 3600000000)"

definition interval_cost :: "rat \<Rightarrow> rat \<Rightarrow> int \<Rightarrow> int \<Rightarrow> rat" where
  "interval_cost qty unit_rate start stop = qty * unit_rate * hours_between start stop"

record usage_row =
  ur_kind :: "string option"
  ur_qty :: "rat option"
  ur_rate :: "rat option"
  ur_started_at :: "int option"
  ur_ended_at :: "int option"

abbreviation row_end :: "usage_row \<Rightarrow> int \<Rightarrow> int" where
  "row_end row now \<equiv> (case ur_ended_at row of None \<Rightarrow> now | Some t \<Rightarrow> t)"

definition add_spend :: "int \<Rightarrow> rat \<Rightarrow> usage_row \<Rightarrow> rat option" where
  "add_spend now acc row = do {
     q \<leftarrow> ur_qty row;
     r \<leftarrow> ur_rate row;
     s \<leftarrow> ur_started_at row;
     Some (acc + interval_cost q r s (row_end row now))
   }"

definition spend_total :: "usage_row list \<Rightarrow> int \<Rightarrow> rat option" where
  "spend_total rows now = ofold (add_spend now) 0 rows"

text \<open>Merging sorted spans: the accumulator is the list \<open>merged\<close>, last span first.\<close>

fun merge_spans :: "(int \<times> int) list \<Rightarrow> (int \<times> int) list \<Rightarrow> (int \<times> int) list" where
  "merge_spans merged [] = merged"
| "merge_spans [] (p # ps) = merge_spans [p] ps"
| "merge_spans ((last_s, last_e) # merged) ((start, stop) # ps) =
     (if start \<le> last_e then merge_spans ((last_s, max last_e stop) # merged) ps
      else merge_spans ((start, stop) # (last_s, last_e) # merged) ps)"

definition spans_of :: "usage_row list \<Rightarrow> int \<Rightarrow> (int \<times> int) list" where
  "spans_of rows now =
     List.map_filter (\<lambda>row. map_option (\<lambda>s. (s, row_end row now)) (ur_started_at row)) rows"

definition covered_seconds :: "usage_row list \<Rightarrow> int \<Rightarrow> rat" where
  "covered_seconds rows now =
     (let merged = rev (merge_spans [] (sort_key fst (spans_of rows now)))
      in sum_list (map (\<lambda>(start, stop). hours_between start stop * 3600) merged))"

section \<open>Calendar months\<close>

text \<open>The proleptic Gregorian calendar of \<open>datetime\<close>: leap years, days before a year and a
  month, and the time of the first of a month. Years are 1 to 9999.\<close>

definition is_leap :: "int \<Rightarrow> bool" where
  "is_leap y \<longleftrightarrow> y mod 4 = 0 \<and> (y mod 100 \<noteq> 0 \<or> y mod 400 = 0)"

definition days_before_year :: "int \<Rightarrow> int" where
  "days_before_year y = (y - 1) * 365 + (y - 1) div 4 - (y - 1) div 100 + (y - 1) div 400"

definition days_in_month :: "int \<Rightarrow> int \<Rightarrow> int" where
  "days_in_month y m =
     (if m = 2 then (if is_leap y then 29 else 28)
      else if m \<in> {4, 6, 9, 11} then 30 else 31)"

definition days_before_month :: "int \<Rightarrow> int \<Rightarrow> int" where
  "days_before_month y m = (\<Sum>k\<leftarrow>[1..m - 1]. days_in_month y k)"

definition DAY :: int where "DAY = 86400000000"

text \<open>\<open>datetime(y, m, 1, tzinfo=UTC)\<close>; 719162 days lie between the first of year 1 and 1970.\<close>

definition month_start :: "int \<Rightarrow> int \<Rightarrow> int" where
  "month_start y m = (days_before_year y + days_before_month y m - 719162) * DAY"

definition valid_month :: "int \<Rightarrow> int \<Rightarrow> bool" where
  "valid_month y m \<longleftrightarrow> 1 \<le> y \<and> y \<le> 9999 \<and> 1 \<le> m \<and> m \<le> 12"

definition month_bounds :: "int \<Rightarrow> int \<Rightarrow> (int \<times> int) option" where
  "month_bounds year month =
     (if \<not> valid_month year month then None
      else if month = 12
      then (if valid_month (year + 1) 1 then Some (month_start year month, month_start (year + 1) 1) else None)
      else Some (month_start year month, month_start year (month + 1)))"

definition previous_month :: "int \<times> int \<Rightarrow> int \<times> int" where
  "previous_month now = (if snd now = 1 then (fst now - 1, 12) else (fst now, snd now - 1))"

abbreviation next_month :: "int \<Rightarrow> int \<Rightarrow> int \<times> int" where
  "next_month y m \<equiv> (if m = 12 then (y + 1, 1) else (y, m + 1))"

text \<open>The loop of \<open>months_spanned\<close> from the first of a month; leaving year 9999 raises. The
  measure is the number of months left in the calendar.\<close>

function months_loop :: "int \<Rightarrow> int \<Rightarrow> int \<Rightarrow> (int \<times> int) list option" where
  "months_loop y m stop =
     (if \<not> valid_month y m then None
      else if month_start y m \<le> stop
      then do { rest \<leftarrow> (let (y', m') = next_month y m in months_loop y' m' stop); Some ((y, m) # rest) }
      else Some [])"
  by auto
termination
  by (relation "measure (\<lambda>(y, m, stop). nat (12 * (10000 - y) + 13 - m))")
    (auto simp: valid_month_def split: if_splits)

declare months_loop.simps [simp del]

definition months_spanned :: "int \<times> int \<Rightarrow> int \<Rightarrow> (int \<times> int) list option" where
  "months_spanned start stop = months_loop (fst start) (snd start) stop"

section \<open>Usage of a period\<close>

record usage_line =
  ul_kind :: string
  ul_hours :: rat
  ul_qty_hours :: rat
  ul_subtotal :: rat
  ul_unit_rate :: rat

record usage_acc =
  ua_total :: rat
  ua_lines :: "(string \<times> usage_line) list"
  ua_spans :: "(string \<times> usage_row list) list"

definition or_zero :: "rat option \<Rightarrow> rat" where
  "or_zero q = (case q of None \<Rightarrow> 0 | Some x \<Rightarrow> x)"

definition kind_text :: "string option \<Rightarrow> string" where
  "kind_text k = (case k of None \<Rightarrow> ''unknown'' | Some s \<Rightarrow> if s = [] then ''unknown'' else s)"

definition span_row :: "int \<Rightarrow> int \<Rightarrow> usage_row" where
  "span_row s e = \<lparr>ur_kind = None, ur_qty = None, ur_rate = None, ur_started_at = Some s, ur_ended_at = Some e\<rparr>"

definition usage_step :: "int \<Rightarrow> int \<Rightarrow> int \<Rightarrow> usage_acc \<Rightarrow> usage_row \<Rightarrow> usage_acc" where
  "usage_step p0 p1 now acc row =
     (case ur_started_at row of
        None \<Rightarrow> acc
      | Some start \<Rightarrow>
          let clip_s = max start p0;
              clip_e = min (row_end row now) p1
          in if clip_e \<le> clip_s then acc
             else let qty = or_zero (ur_qty row);
                      rate = or_zero (ur_rate row);
                      hours = hours_between clip_s clip_e;
                      cost = qty * rate * hours;
                      kind = kind_text (ur_kind row);
                      bucket = dict_get (ua_lines acc) kind
                        \<lparr>ul_kind = kind, ul_hours = 0, ul_qty_hours = 0, ul_subtotal = 0, ul_unit_rate = 0\<rparr>
                  in \<lparr>ua_total = ua_total acc + cost,
                      ua_lines = AList.update kind
                        (bucket\<lparr>ul_qty_hours := ul_qty_hours bucket + qty * hours,
                                ul_subtotal := ul_subtotal bucket + cost\<rparr>) (ua_lines acc),
                      ua_spans = AList.update kind
                        (dict_get (ua_spans acc) kind [] @ [span_row clip_s clip_e]) (ua_spans acc)\<rparr>)"

definition finish_line :: "int \<Rightarrow> (string \<times> usage_row list) list \<Rightarrow> usage_line \<Rightarrow> usage_line" where
  "finish_line now spans line =
     line\<lparr>ul_hours := covered_seconds (dict_get spans (ul_kind line) []) now / 3600,
          ul_unit_rate := (if ul_qty_hours line > 0 then ul_subtotal line / ul_qty_hours line else 0)\<rparr>"

text \<open>Texts compare by the code points of their characters: the lexicographic order of
  \<open>List_Lexorder\<close> over \<open>Char_ord\<close>.\<close>

definition period_usage :: "usage_row list \<Rightarrow> int \<Rightarrow> int \<Rightarrow> int \<Rightarrow> rat \<times> usage_line list" where
  "period_usage rows p0 p1 now =
     (let acc = foldl (usage_step p0 p1 now) \<lparr>ua_total = 0, ua_lines = [], ua_spans = []\<rparr> rows;
          lines = sort_key ul_kind (map snd (ua_lines acc))
      in (ua_total acc, map (finish_line now (ua_spans acc)) lines))"

section \<open>Desired resources\<close>

definition RUNNING_STATES :: "string list" where
  "RUNNING_STATES = [''running'', ''active'', ''on'', ''paused'']"

definition STOPPED_STATES :: "string list" where
  "STOPPED_STATES = [''stopped'', ''shutoff'', ''off'', ''halted'', ''hibernated'', ''shut_off'']"

text \<open>A value whose text form is not modelled (a float, a list, an object) has a text that is
  none of the state words.\<close>

definition state_running :: "json \<Rightarrow> bool option" where
  "state_running v =
     (if v = JBool True then Some True
      else if v = JBool False then Some False
      else (case py_str (py_or v (JStr [])) of
              None \<Rightarrow> None
            | Some s \<Rightarrow> if py_lower s \<in> set RUNNING_STATES then Some True
                else if py_lower s \<in> set STOPPED_STATES then Some False else None))"

text \<open>Functions on a VM of the snapshot: the outer option is an exception.\<close>

definition intended_off :: "json \<Rightarrow> bool option" where
  "intended_off vm = do {
     a \<leftarrow> get vm ''auto_start'';
     p \<leftarrow> get vm ''power_on_at_deploy'';
     d \<leftarrow> get vm ''defer_ocp_install'';
     Some (a = JBool False \<or> p = JBool False \<or> truthy d)
   }"

fun first_known :: "json list \<Rightarrow> bool option" where
  "first_known [] = None"
| "first_known (v # vs) = (case state_running v of None \<Rightarrow> first_known vs | Some b \<Rightarrow> Some b)"

definition vm_running :: "json \<Rightarrow> string \<Rightarrow> bool option" where
  "vm_running vm project_state = do {
     vs \<leftarrow> omap (get vm) [''live_state'', ''state'', ''power'', ''running''];
     off \<leftarrow> intended_off vm;
     Some (case first_known vs of
             Some b \<Rightarrow> b
           | None \<Rightarrow> \<not> off \<and> project_state \<in> {''active'', ''starting''})
   }"

text \<open>A desired meter: kind, resource id, quantity, host, provider type. A set of them is a list
  without repetitions.\<close>

type_synonym desired = "string \<times> string \<times> rat \<times> json \<times> json"

text \<open>\<open>float(v)\<close>: numbers, and texts of whole numbers; texts with a fraction or an exponent
  are not modelled.\<close>

fun py_float :: "json \<Rightarrow> rat option" where
  "py_float (JStr s) = map_option of_int (parse_int s)"
| "py_float j = num_of j"

definition quantity :: "json \<Rightarrow> string \<Rightarrow> rat option" where
  "quantity item k = do { v \<leftarrow> get item k; py_float (py_or v (JInt 0)) }"

definition item_host :: "json \<Rightarrow> json \<Rightarrow> json option" where
  "item_host default_host item = do { h \<leftarrow> get item ''host_id''; Some (py_or h default_host) }"

definition item_id :: "json \<Rightarrow> string option" where
  "item_id item = do { i \<leftarrow> index item ''id''; py_str i }"

definition add_vm :: "json \<Rightarrow> json \<Rightarrow> string \<Rightarrow> desired list \<Rightarrow> json \<Rightarrow> desired list option" where
  "add_vm default_host ptype project_state out vm = do {
     hid \<leftarrow> item_host default_host vm;
     vid \<leftarrow> item_id vm;
     run \<leftarrow> vm_running vm project_state;
     if run then do {
       c \<leftarrow> quantity vm ''vcpus'';
       r \<leftarrow> quantity vm ''ram_gib'';
       Some (List.insert (''ram'', vid, r, hid, ptype) (List.insert (''vcpu'', vid, c, hid, ptype) out))
     } else Some out
   }"

definition add_persistent_item ::
    "string \<Rightarrow> string \<Rightarrow> json \<Rightarrow> json \<Rightarrow> desired list \<Rightarrow> json \<Rightarrow> desired list option" where
  "add_persistent_item kind qty_key default_host ptype out item = do {
     hid \<leftarrow> item_host default_host item;
     i \<leftarrow> item_id item;
     q \<leftarrow> quantity item qty_key;
     Some (List.insert (kind, i, q, hid, ptype) out)
   }"

definition add_eip_item :: "json \<Rightarrow> json \<Rightarrow> desired list \<Rightarrow> json \<Rightarrow> desired list option" where
  "add_eip_item default_host ptype out item = do {
     hid \<leftarrow> item_host default_host item;
     i \<leftarrow> item_id item;
     Some (List.insert (''eip'', i, 1, hid, ptype) out)
   }"

definition items_of :: "json \<Rightarrow> string \<Rightarrow> json list option" where
  "items_of snapshot k = do { v \<leftarrow> get snapshot k; iter (py_or v (JList [])) }"

definition dedicated_host_resources :: "json \<Rightarrow> json \<Rightarrow> json \<Rightarrow> desired list option" where
  "dedicated_host_resources snapshot ptype hid = do {
     rid \<leftarrow> (if truthy hid then do { s \<leftarrow> py_str hid; Some (''host:'' @ s) } else Some ''host'');
     vcpus \<leftarrow> quantity snapshot ''host_vcpus'';
     ram \<leftarrow> quantity snapshot ''host_ram_gib'';
     Some ((if vcpus > 0 then [(''vcpu'', rid, vcpus, hid, ptype)] else []) @
           (if ram > 0 then [(''ram'', rid, ram, hid, ptype)] else []))
   }"

definition text_field :: "json \<Rightarrow> string \<Rightarrow> string \<Rightarrow> string option" where
  "text_field snapshot k dflt = do { v \<leftarrow> get snapshot k; py_str (py_or v (JStr dflt)) }"

definition desired_resources :: "json \<Rightarrow> desired list option" where
  "desired_resources snapshot = do {
     p \<leftarrow> get snapshot ''provider_type'';
     let ptype = py_or p (JStr ''unknown'');
     default_host \<leftarrow> get snapshot ''host_id'';
     project_state \<leftarrow> text_field snapshot ''project_state'' [];
     billing_mode \<leftarrow> text_field snapshot ''billing_mode'' ''shared'';
     if project_state = ''error'' then Some []
     else if billing_mode = ''dedicated'' then dedicated_host_resources snapshot ptype default_host
     else if project_state \<in> {''stopped'', ''stopping''} then Some []
     else do {
       vms \<leftarrow> items_of snapshot ''vms'';
       out1 \<leftarrow> ofold (add_vm default_host ptype project_state) [] vms;
       disks \<leftarrow> items_of snapshot ''disks'';
       out2 \<leftarrow> ofold (add_persistent_item ''disk'' ''size_gib'' default_host ptype) out1 disks;
       eips \<leftarrow> items_of snapshot ''eips'';
       out3 \<leftarrow> ofold (add_eip_item default_host ptype) out2 eips;
       ceph \<leftarrow> items_of snapshot ''ceph'';
       ofold (add_persistent_item ''ceph'' ''size_gib'' default_host ptype) out3 ceph
     }
   }"

section \<open>Opening and closing meters\<close>

text \<open>The desired set is given in its iteration order.\<close>

type_synonym open_row = "string \<times> string \<times> rat"

abbreviation same_qty :: "rat \<Rightarrow> rat \<Rightarrow> bool" where
  "same_qty a b \<equiv> \<not> \<bar>a - b\<bar> > 1 / 1000000000"

definition open_map_of :: "open_row list \<Rightarrow> ((string \<times> string) \<times> rat) list" where
  "open_map_of rows = foldl (\<lambda>m (kind, rid, qty). AList.update (kind, rid) qty m) [] rows"

definition desired_map_of :: "desired list \<Rightarrow> ((string \<times> string) \<times> rat \<times> json \<times> json) list" where
  "desired_map_of ds = foldl (\<lambda>m (k, r, q, h, p). AList.update (k, r) (q, h, p) m) [] ds"

definition diff_intervals :: "open_row list \<Rightarrow> desired list \<Rightarrow> open_row list \<times> desired list" where
  "diff_intervals open_rows desired =
     (let open_map = open_map_of open_rows;
          desired_map = desired_map_of desired
      in (List.map_filter (\<lambda>((k, r), qty).
            (case map_of desired_map (k, r) of
               None \<Rightarrow> Some (k, r, qty)
             | Some (q, _, _) \<Rightarrow> if same_qty q qty then None else Some (k, r, qty))) open_map,
          List.map_filter (\<lambda>((k, r), (qty, hid, ptype)).
            (case map_of open_map (k, r) of
               None \<Rightarrow> Some (k, r, qty, hid, ptype)
             | Some q \<Rightarrow> if same_qty q qty then None else Some (k, r, qty, hid, ptype))) desired_map))"

end
