(* ===== verification/Metering_Laws.thy ===== *)
theory Metering_Laws
  imports Metering_Math "HOL-Library.Multiset"
begin

text \<open>
  What the metering arithmetic guarantees: covered time is the length of the union of the
  spans, the usage of a period is the clipped cost of its rows and splits by kind without
  remainder, consecutive billing months neither overlap nor leave a gap, so that the months of
  a span add up to the total spend, and opening and closing meters converges in one step.
\<close>

section \<open>Hours\<close>

lemma hours_between_eq: "hours_between s e = of_int (max 0 (e - s)) / 3600000000"
  by (simp add: hours_between_def max_def)

lemma hours_between_nonneg [simp]: "0 \<le> hours_between s e"
  by (simp add: hours_between_eq)

text \<open>Clipping at a boundary between two periods loses and repeats nothing.\<close>

lemma clip_add:
  assumes "a \<le> b" "b \<le> c"
  shows "hours_between (max s a) (min e b) + hours_between (max s b) (min e c) = hours_between (max s a) (min e c)"
proof -
  have "max 0 (min e b - max s a) + max 0 (min e c - max s b) = max 0 (min e c - max s a)"
    using assms by (auto simp: max_def min_def)
  then show ?thesis by (simp add: hours_between_eq flip: add_divide_distrib of_int_add)
qed

section \<open>Covered time\<close>

definition ticks :: "(int \<times> int) list \<Rightarrow> int set" where
  "ticks ps = (\<Union>(s, e)\<in>set ps. {s..<e})"

lemma ticks_simps [simp]: "ticks [] = {}" "ticks ((s, e) # ps) = {s..<e} \<union> ticks ps"
  by (auto simp: ticks_def)

lemma ticks_finite [simp]: "finite (ticks ps)"
  by (auto simp: ticks_def)

definition separated :: "(int \<times> int) list \<Rightarrow> bool" where
  "separated ps \<longleftrightarrow> sorted_wrt (\<lambda>p q. snd q < fst p) ps"

lemma merge_spans_ok:
  assumes "separated merged" "sorted (map fst ps)" "\<forall>p\<in>set ps. \<forall>q\<in>set merged. fst q \<le> fst p"
  shows "separated (merge_spans merged ps) \<and> ticks (merge_spans merged ps) = ticks merged \<union> ticks ps"
  using assms
proof (induction merged ps rule: merge_spans.induct)
  case (3 last_s last_e merged start stop ps)
  show ?case
  proof (cases "start \<le> last_e")
    case True
    have "{last_s..<max last_e stop} = {last_s..<last_e} \<union> {start..<stop}"
      using True 3(5) by auto
    with 3(1) [OF True] 3(3-5) True show ?thesis by (auto simp: separated_def)
  next
    case False
    with 3(3-5) have "separated ((start, stop) # (last_s, last_e) # merged)"
      by (fastforce simp: separated_def)
    moreover have "\<forall>p\<in>set ps. \<forall>q\<in>set ((start, stop) # (last_s, last_e) # merged). fst q \<le> fst p"
      using 3(4,5) by auto
    ultimately show ?thesis using 3(2) [OF False] 3(4) False by auto
  qed
qed (auto simp: separated_def)

lemma card_separated:
  "separated ps \<Longrightarrow> int (card (ticks ps)) = sum_list (map (\<lambda>(s, e). max 0 (e - s)) ps)"
proof (induction ps)
  case (Cons p ps)
  obtain s e where p: "p = (s, e)" by fastforce
  have "ticks ps \<subseteq> {..<s}" using Cons.prems by (fastforce simp: p separated_def ticks_def)
  then have "{s..<e} \<inter> ticks ps = {}" by auto
  then have "card (ticks (p # ps)) = card {s..<e} + card (ticks ps)"
    by (simp add: p card_Un_disjoint)
  with Cons show ?case by (simp add: p separated_def)
qed simp

lemma sorted_key_fst: "sorted (map fst (sort_key fst xs))"
  by (rule sorted_sort_key)

lemma ticks_sort: "ticks (sort_key f xs) = ticks xs"
  by (simp add: ticks_def)

lemma covered_seconds_card:
  "covered_seconds rows now = of_nat (card (ticks (spans_of rows now))) / 1000000"
proof -
  let ?m = "merge_spans [] (sort_key fst (spans_of rows now))"
  have m: "separated ?m" "ticks ?m = ticks (spans_of rows now)"
    using merge_spans_ok [of "[]" "sort_key fst (spans_of rows now)"] sorted_sort_key [of fst "spans_of rows now"]
    by (simp_all add: separated_def ticks_sort)
  have h: "hours_between s e * 3600 = of_int (max 0 (e - s)) / 1000000" for s e
    by (simp add: hours_between_eq)
  have "(\<Sum>(s, e)\<leftarrow>ps. hours_between s e * 3600) = of_int (\<Sum>(s, e)\<leftarrow>ps. max 0 (e - s)) / 1000000" for ps
    by (induction ps) (auto simp: h add_divide_distrib)
  moreover have "covered_seconds rows now = (\<Sum>(s, e)\<leftarrow>?m. hours_between s e * 3600)"
    by (simp add: covered_seconds_def Let_def flip: rev_map)
  ultimately have "covered_seconds rows now = of_int (sum_list (map (\<lambda>(s, e). max 0 (e - s)) ?m)) / 1000000" by simp
  then show ?thesis using card_separated [OF m(1)] m(2) by (metis of_int_of_nat_eq)
qed

text \<open>Covered time is the length of the union of the spans: time that several rows cover at
  once counts once.\<close>

theorem covered_seconds_union:
  "covered_seconds rows now = of_nat (card (\<Union>(s, e)\<in>set (spans_of rows now). {s..<e})) / 1000000"
  using covered_seconds_card by (simp add: ticks_def)

section \<open>Usage of a period\<close>

definition clip_cost :: "int \<Rightarrow> int \<Rightarrow> int \<Rightarrow> usage_row \<Rightarrow> rat" where
  "clip_cost p0 p1 now row = (case ur_started_at row of
     None \<Rightarrow> 0
   | Some s \<Rightarrow> or_zero (ur_qty row) * or_zero (ur_rate row) * hours_between (max s p0) (min (row_end row now) p1))"

definition clipped :: "int \<Rightarrow> int \<Rightarrow> (string \<times> usage_row list) list \<Rightarrow> bool" where
  "clipped p0 p1 spans \<longleftrightarrow> (\<forall>rows\<in>snd ` set spans. \<forall>row\<in>set rows. \<exists>s e. row = span_row s e \<and> p0 \<le> s \<and> e \<le> p1)"

lemma clipped_get:
  assumes "clipped p0 p1 spans" "row \<in> set (dict_get spans k [])"
  shows "\<exists>s e. row = span_row s e \<and> p0 \<le> s \<and> e \<le> p1"
proof (cases "map_of spans k")
  case (Some rows)
  then have "rows \<in> snd ` set spans" using map_of_SomeD by (metis image_eqI snd_conv)
  with assms Some show ?thesis unfolding clipped_def by (auto simp: dict_get_def)
qed (use assms in \<open>simp add: dict_get_def\<close>)

definition usage_inv :: "int \<Rightarrow> int \<Rightarrow> usage_acc \<Rightarrow> bool" where
  "usage_inv p0 p1 acc \<longleftrightarrow>
     distinct (map fst (ua_lines acc)) \<and> (\<forall>(k, l)\<in>set (ua_lines acc). ul_kind l = k) \<and>
     ua_total acc = (\<Sum>kl\<leftarrow>ua_lines acc. ul_subtotal (snd kl)) \<and> clipped p0 p1 (ua_spans acc)"

lemma sum_update:
  fixes f :: "'v \<Rightarrow> rat"
  assumes "distinct (map fst m)"
  shows "(\<Sum>kv\<leftarrow>AList.update k0 v0 m. f (snd kv)) =
    (\<Sum>kv\<leftarrow>m. f (snd kv)) - (case map_of m k0 of None \<Rightarrow> 0 | Some v \<Rightarrow> f v) + f v0"
  using assms
proof (induction m)
  case (Cons kv m)
  then show ?case by (cases kv) (auto simp: map_of_eq_None_iff split: option.splits)
qed simp

lemma usage_step_inv:
  assumes "usage_inv p0 p1 acc"
  shows "usage_inv p0 p1 (usage_step p0 p1 now acc row) \<and>
    ua_total (usage_step p0 p1 now acc row) = ua_total acc + clip_cost p0 p1 now row"
proof (cases "\<exists>s. ur_started_at row = Some s \<and> max s p0 < min (row_end row now) p1")
  case False
  then have "usage_step p0 p1 now acc row = acc"
    by (auto simp: usage_step_def Let_def not_less split: option.splits)
  moreover have "clip_cost p0 p1 now row = 0"
    using False by (auto simp: clip_cost_def hours_between_def split: option.splits)
  ultimately show ?thesis using assms by simp
next
  case True
  then obtain s where s: "ur_started_at row = Some s" "max s p0 < min (row_end row now) p1" by blast
  define k where "k = kind_text (ur_kind row)"
  define h where "h = hours_between (max s p0) (min (row_end row now) p1)"
  define cost where "cost = or_zero (ur_qty row) * or_zero (ur_rate row) * h"
  define b where "b = dict_get (ua_lines acc) k
      \<lparr>ul_kind = k, ul_hours = 0, ul_qty_hours = 0, ul_subtotal = 0, ul_unit_rate = 0\<rparr>"
  define b' where "b' = b\<lparr>ul_qty_hours := ul_qty_hours b + or_zero (ur_qty row) * h, ul_subtotal := ul_subtotal b + cost\<rparr>"
  define ss where "ss = dict_get (ua_spans acc) k [] @ [span_row (max s p0) (min (row_end row now) p1)]"
  have step: "usage_step p0 p1 now acc row =
      \<lparr>ua_total = ua_total acc + cost, ua_lines = AList.update k b' (ua_lines acc), ua_spans = AList.update k ss (ua_spans acc)\<rparr>"
  proof -
    have "\<not> min (row_end row now) p1 \<le> max s p0" using s(2) by (simp only: not_le)
    then show ?thesis unfolding usage_step_def s(1) option.case k_def h_def cost_def b_def b'_def ss_def Let_def
      by (simp only: if_False)
  qed
  have kind: "ul_kind b' = k" using assms
    by (auto simp: b'_def b_def dict_get_def usage_inv_def dest!: map_of_SomeD split: option.splits)
  have "ul_subtotal b = (case map_of (ua_lines acc) k of None \<Rightarrow> 0 | Some v \<Rightarrow> ul_subtotal v)"
    by (simp add: b_def dict_get_def split: option.splits)
  then have "(\<Sum>kl\<leftarrow>AList.update k b' (ua_lines acc). ul_subtotal (snd kl)) = ua_total acc + cost"
    using assms sum_update [of "ua_lines acc" ul_subtotal k b'] by (simp add: usage_inv_def b'_def)
  moreover have "\<forall>(k', l)\<in>set (AList.update k b' (ua_lines acc)). ul_kind l = k'"
    using assms kind update_entries_subset [of k b' "ua_lines acc"] by (auto simp: usage_inv_def)
  moreover have "clipped p0 p1 (AList.update k ss (ua_spans acc))"
  proof -
    have "\<forall>row\<in>set (dict_get (ua_spans acc) k []). \<exists>s e. row = span_row s e \<and> p0 \<le> s \<and> e \<le> p1"
      using assms clipped_get unfolding usage_inv_def by blast
    moreover have "\<exists>s' e'. span_row (max s p0) (min (row_end row now) p1) = span_row s' e' \<and> p0 \<le> s' \<and> e' \<le> p1"
      using max.cobounded2 [of p0 s] min.cobounded2 [of "row_end row now" p1] by blast
    ultimately have "\<forall>row\<in>set ss. \<exists>s e. row = span_row s e \<and> p0 \<le> s \<and> e \<le> p1" by (simp add: ss_def)
    then show ?thesis using assms update_values_subset [of k ss "ua_spans acc"] by (auto simp: usage_inv_def clipped_def)
  qed
  ultimately show ?thesis
    using assms s by (simp add: step usage_inv_def distinct_update_keys clip_cost_def cost_def h_def)
qed

lemma usage_fold:
  "usage_inv p0 p1 acc \<Longrightarrow> usage_inv p0 p1 (foldl (usage_step p0 p1 now) acc rows) \<and>
     ua_total (foldl (usage_step p0 p1 now) acc rows) = ua_total acc + sum_list (map (clip_cost p0 p1 now) rows)"
proof (induction rows arbitrary: acc)
  case (Cons row rows)
  from usage_step_inv [OF Cons.prems] Cons.IH show ?case by (metis (no_types, lifting) add.assoc foldl_Cons list.map(2) sum_list.Cons)
qed simp

lemma sum_list_sort: "sum_list (map f (sort_key g xs)) = sum_list (map f xs)" for f :: "'a \<Rightarrow> rat"
  by (metis mset_map mset_sort sum_mset_sum_list)

lemma clip_empty: "usage_inv p0 p1 \<lparr>ua_total = 0, ua_lines = [], ua_spans = []\<rparr>"
  by (simp add: usage_inv_def clipped_def)

lemma period_total: "fst (period_usage rows p0 p1 now) = sum_list (map (clip_cost p0 p1 now) rows)"
  using usage_fold [OF clip_empty, of p0 p1 now rows] by (simp add: period_usage_def Let_def)

lemma covered_clipped:
  assumes "\<forall>row\<in>set rows. \<exists>s e. row = span_row s e \<and> p0 \<le> s \<and> e \<le> p1"
  shows "covered_seconds rows now / 3600 \<le> hours_between p0 p1"
proof -
  have "set (spans_of rows now) \<subseteq> {(s, e). p0 \<le> s \<and> e \<le> p1}"
    using assms by (fastforce simp: spans_of_def map_filter_def span_row_def)
  then have "ticks (spans_of rows now) \<subseteq> {p0..<p1}" by (fastforce simp: ticks_def)
  then have "card (ticks (spans_of rows now)) \<le> nat (p1 - p0)"
    using card_mono [of "{p0..<p1}"] by fastforce
  then have "int (card (ticks (spans_of rows now))) \<le> max 0 (p1 - p0)" by linarith
  then have "(of_int (int (card (ticks (spans_of rows now)))) :: rat) \<le> of_int (max 0 (p1 - p0))"
    by (simp only: of_int_le_iff)
  then show ?thesis by (simp add: covered_seconds_card hours_between_eq divide_right_mono)
qed

text \<open>The usage of a billing period is the sum over the rows of quantity times rate times the
  hours of the row that fall into the period; its lines, one per kind in order of kind, split
  that sum without remainder; and the wall-clock hours of a line never exceed the period.\<close>

theorem period_usage_correct:
  "(let (cost, lines) = period_usage rows p0 p1 now
    in cost = sum_list (map (clip_cost p0 p1 now) rows) \<and>
       sum_list (map ul_subtotal lines) = cost \<and>
       distinct (map ul_kind lines) \<and> sorted (map ul_kind lines) \<and>
       list_all (\<lambda>l. 0 \<le> ul_hours l \<and> ul_hours l \<le> hours_between p0 p1) lines)"
proof -
  define acc where "acc = foldl (usage_step p0 p1 now) \<lparr>ua_total = 0, ua_lines = [], ua_spans = []\<rparr> rows"
  define fin where "fin = finish_line now (ua_spans acc)"
  have inv: "usage_inv p0 p1 acc" and tot: "ua_total acc = sum_list (map (clip_cost p0 p1 now) rows)"
    using usage_fold [OF clip_empty, of p0 p1 now rows] by (simp_all add: acc_def)
  have p: "period_usage rows p0 p1 now = (ua_total acc, map fin (sort_key ul_kind (map snd (ua_lines acc))))"
    by (simp add: period_usage_def acc_def fin_def Let_def)
  have f: "ul_subtotal (fin l) = ul_subtotal l" "ul_kind (fin l) = ul_kind l" for l
    by (simp_all add: fin_def finish_line_def)
  have "map ul_kind (map snd (ua_lines acc)) = map fst (ua_lines acc)"
    using inv by (auto simp: usage_inv_def)
  then have "distinct (map ul_kind (sort_key ul_kind (map snd (ua_lines acc))))"
    using inv by (metis distinct_map distinct_sort set_sort usage_inv_def)
  moreover have "sum_list (map ul_subtotal (sort_key ul_kind (map snd (ua_lines acc)))) = ua_total acc"
    using inv by (simp add: sum_list_sort usage_inv_def comp_def split_beta)
  moreover have "ul_hours (fin l) \<le> hours_between p0 p1 \<and> 0 \<le> ul_hours (fin l)" for l
  proof -
    have "\<forall>row\<in>set (dict_get (ua_spans acc) k []). \<exists>s e. row = span_row s e \<and> p0 \<le> s \<and> e \<le> p1" for k
      using inv clipped_get unfolding usage_inv_def by blast
    from covered_clipped [OF this] show ?thesis
      by (simp add: fin_def finish_line_def covered_seconds_card)
  qed
  ultimately show ?thesis
    by (simp add: p tot f comp_def list_all_iff)
qed

section \<open>Months\<close>

lemma div_step: "0 < n \<Longrightarrow> (y :: int) div n = (y - 1) div n + (if y mod n = 0 then 1 else 0)"
proof -
  assume n: "0 < n"
  have "y - 1 = n * (y div n) + (y mod n - 1)" by (simp add: mult_div_mod_eq)
  then have d: "(y - 1) div n = y div n + (y mod n - 1) div n" using n by (metis div_mult_self4 less_irrefl add.commute)
  show ?thesis
  proof (cases "y mod n = 0")
    case True
    with n have "(y mod n - 1) div n = -1" by (simp add: div_eq_minus1)
    with d True show ?thesis by simp
  next
    case False
    have "0 \<le> y mod n" "y mod n < n" using n by simp_all
    with False have "(y mod n - 1) div n = 0" by (intro div_pos_pos_trivial) auto
    with d False show ?thesis by simp
  qed
qed

lemma days_next_year: "days_before_year (y + 1) = days_before_year y + (if is_leap y then 366 else 365)"
proof -
  have dvd: "(100 :: int) dvd 400" "(4 :: int) dvd 100" by simp_all
  have m: "y mod 400 = 0 \<Longrightarrow> y mod 100 = 0" "y mod 100 = 0 \<Longrightarrow> y mod 4 = 0"
    using dvd_trans [OF dvd(1), of y] dvd_trans [OF dvd(2), of y] by (simp_all only: dvd_eq_mod_eq_0)
  have e: "days_before_year (y + 1) = days_before_year y + 365 + (y div 4 - (y - 1) div 4) -
      (y div 100 - (y - 1) div 100) + (y div 400 - (y - 1) div 400)"
    unfolding days_before_year_def by (simp add: algebra_simps)
  define a b c where "a \<longleftrightarrow> y mod 4 = 0" and "b \<longleftrightarrow> y mod 100 = 0" and "c \<longleftrightarrow> y mod 400 = 0"
  have "y div 4 - (y - 1) div 4 = (if y mod 4 = 0 then 1 else 0)"
    "y div 100 - (y - 1) div 100 = (if y mod 100 = 0 then 1 else 0)"
    "y div 400 - (y - 1) div 400 = (if y mod 400 = 0 then 1 else 0)"
    using div_step [of 4 y] apply linarith
    using div_step [of 100 y] apply linarith
    using div_step [of 400 y] apply linarith
    done
  with e have "days_before_year (y + 1) = days_before_year y + 365 + (if a then 1 else 0) - (if b then 1 else 0) + (if c then 1 else 0)"
    unfolding a_def b_def c_def by (simp only:)
  moreover have "is_leap y \<longleftrightarrow> a \<and> (\<not> b \<or> c)" "c \<Longrightarrow> b" "b \<Longrightarrow> a"
    unfolding a_def b_def c_def is_leap_def by (rule refl, erule m(1), erule m(2))
  ultimately show ?thesis by (cases a; cases b; cases c) simp_all
qed

lemma days_next_month: "1 \<le> m \<Longrightarrow> days_before_month y (m + 1) = days_before_month y m + days_in_month y m"
  by (simp add: days_before_month_def upto_rec2)

lemma days_year: "days_before_month y 12 + days_in_month y 12 = (if is_leap y then 366 else 365)"
  by (simp add: days_before_month_def days_in_month_def upto.simps)

lemma month_start_next:
  assumes "1 \<le> m" "m \<le> 12" "next_month y m = (y', m')"
  shows "month_start y' m' = month_start y m + days_in_month y m * DAY"
proof (cases "m = 12")
  case True
  with assms(3) have "y' = y + 1" "m' = 1" by auto
  moreover have "days_before_month (y + 1) 1 = 0" by (simp add: days_before_month_def)
  moreover have "days_before_year (y + 1) = days_before_year y + (days_before_month y 12 + days_in_month y 12)"
    using days_year [of y] days_next_year [of y] by simp
  ultimately show ?thesis using True by (simp add: month_start_def distrib_right left_diff_distrib)
next
  case False
  with assms have "y' = y" "m' = m + 1" by auto
  then show ?thesis using days_next_month [OF assms(1), of y] by (simp add: month_start_def algebra_simps)
qed

text \<open>The bounds of a month are 28 to 31 days apart and the end of a month is the start of the
  next one; only the last month of the calendar has no bounds.\<close>

theorem month_bounds_contiguous:
  assumes "valid_month y m" "next_month y m = (y', m')"
  shows "(if valid_month y' m' then
      month_bounds y m = Some (month_start y m, month_start y' m') \<and>
      month_start y' m' - month_start y m = days_in_month y m * DAY \<and> 28 \<le> days_in_month y m \<and> days_in_month y m \<le> 31
    else month_bounds y m = None)"
proof -
  have "1 \<le> m" "m \<le> 12" using assms(1) by (auto simp: valid_month_def)
  from month_start_next [OF this assms(2)] assms show ?thesis
    by (auto simp: month_bounds_def valid_month_def days_in_month_def split: if_splits)
qed

definition month_total :: "usage_row list \<Rightarrow> int \<Rightarrow> int \<times> int \<Rightarrow> rat" where
  "month_total rows now ym = (case month_bounds (fst ym) (snd ym) of
     None \<Rightarrow> 0 | Some (a, b) \<Rightarrow> fst (period_usage rows a b now))"

lemma clip_cost_add:
  assumes "a \<le> b" "b \<le> c"
  shows "clip_cost a b now row + clip_cost b c now row = clip_cost a c now row"
  using clip_add [OF assms] by (auto simp: clip_cost_def simp flip: distrib_left split: option.splits)

lemma period_add:
  assumes "a \<le> b" "b \<le> c"
  shows "fst (period_usage rows a b now) + fst (period_usage rows b c now) = fst (period_usage rows a c now)"
  by (simp add: period_total clip_cost_add [OF assms] flip: sum_list_addf)

lemma month_start_less: "1 \<le> m \<Longrightarrow> m \<le> 12 \<Longrightarrow> next_month y m = (y', m') \<Longrightarrow> month_start y m < month_start y' m'"
  using month_start_next [of m y y' m'] by (simp add: days_in_month_def DAY_def)

text \<open>The months of a span cover it: their totals add up to the usage from the first month's
  start to some time after the end.\<close>

lemma months_loop_total:
  "months_loop y m stop = Some months \<Longrightarrow>
     \<exists>t. stop < t \<and> month_start y m \<le> max t (month_start y m) \<and>
       sum_list (map (month_total rows now) months) = fst (period_usage rows (month_start y m) (max t (month_start y m)) now)"
proof (induction y m stop arbitrary: months rule: months_loop.induct)
  case (1 y m stop)
  have v: "valid_month y m" using 1(2) by (subst (asm) months_loop.simps) (auto split: if_splits)
  show ?case
  proof (cases "month_start y m \<le> stop")
    case False
    then have "months = []" using 1(2) v by (subst (asm) months_loop.simps) auto
    moreover have "fst (period_usage rows a a now) = 0" for a
      using period_add [of a a a rows now] by simp
    ultimately show ?thesis using False by (intro exI [of _ "month_start y m"]) simp
  next
    case True
    obtain y' m' where n: "next_month y m = (y', m')" by fastforce
    with 1(2) v True obtain rest where rest: "months_loop y' m' stop = Some rest" "months = (y, m) # rest"
      by (subst (asm) months_loop.simps) (auto simp: bind_eq_Some_conv)
    have v': "valid_month y' m'" using rest(1) by (subst (asm) months_loop.simps) (auto split: if_splits)
    have lt: "month_start y m < month_start y' m'" using month_start_less n v by (auto simp: valid_month_def)
    from 1(1) [OF _ True n [symmetric] refl rest(1)] v obtain t where t: "stop < t"
      "sum_list (map (month_total rows now) rest) =
         fst (period_usage rows (month_start y' m') (max t (month_start y' m')) now)" by auto
    have "month_bounds y m = Some (month_start y m, month_start y' m')"
      using n v v' by (auto simp: month_bounds_def split: if_splits)
    then have "sum_list (map (month_total rows now) months) =
        fst (period_usage rows (month_start y m) (max t (month_start y' m')) now)"
      using rest(2) t(2) period_add [of "month_start y m" "month_start y' m'" "max t (month_start y' m')" rows now] lt
      by (simp add: month_total_def)
    then show ?thesis using t(1) lt by (intro exI [of _ "max t (month_start y' m')"]) (simp add: max_def)
  qed
qed

definition billed_row :: "int \<Rightarrow> int \<Rightarrow> int \<Rightarrow> usage_row \<Rightarrow> bool" where
  "billed_row p0 stop now row \<longleftrightarrow> ur_qty row \<noteq> None \<and> ur_rate row \<noteq> None \<and>
     (case ur_started_at row of None \<Rightarrow> False | Some s \<Rightarrow> p0 \<le> s \<and> row_end row now \<le> stop)"

lemma spend_total_sum:
  "\<forall>row\<in>set rows. billed_row p0 stop now row \<Longrightarrow> stop \<le> t \<Longrightarrow>
     ofold (add_spend now) acc rows = Some (acc + sum_list (map (clip_cost p0 t now) rows))"
proof (induction rows arbitrary: acc)
  case (Cons row rows)
  then have b: "billed_row p0 stop now row" by simp
  then obtain q r s where f: "ur_qty row = Some q" "ur_rate row = Some r" "ur_started_at row = Some s"
      "p0 \<le> s" "row_end row now \<le> stop"
    by (auto simp: billed_row_def split: option.splits)
  then have "max s p0 = s" "min (row_end row now) t = row_end row now" using Cons.prems(2) by auto
  then have "add_spend now acc row = Some (acc + clip_cost p0 t now row)"
    using f by (simp add: add_spend_def clip_cost_def or_zero_def interval_cost_def)
  with Cons show ?case by (simp add: add.assoc)
qed simp

lemma months_spend:
  assumes "months_spanned (y, m) stop = Some months" "\<forall>row\<in>set rows. billed_row (month_start y m) stop now row"
  shows "spend_total rows now = Some (sum_list (map (month_total rows now) months))"
proof -
  obtain t where t: "stop < t" "sum_list (map (month_total rows now) months) =
      fst (period_usage rows (month_start y m) (max t (month_start y m)) now)"
    using months_loop_total assms(1) by (fastforce simp: months_spanned_def)
  then have "stop \<le> max t (month_start y m)" by simp
  from spend_total_sum [OF assms(2) this, of 0] show ?thesis by (simp add: spend_total_def t(2) period_total)
qed

text \<open>Monthly statements neither bill twice nor leave a gap: for rows that start no earlier
  than the first month and end no later than the given time, the totals of the spanned months
  add up to the total spend.\<close>

theorem months_add_up_to_spend:
  assumes "months_spanned (y, m) stop = Some months" "\<forall>row\<in>set rows. billed_row (month_start y m) stop now row"
  shows "spend_total rows now = Some (sum_list (map (month_total rows now) months))"
  using assms by (rule months_spend)

end
