(* ===== verification/Meter_Diff.thy ===== *)
theory Meter_Diff
  imports Metering_Laws
begin

text \<open>
  Opening and closing meters: one application of the difference brings the open meters to the
  desired ones, and a second finds nothing to do. What a project in error or stopped is
  metered for, and concrete instances of the metering theorems.
\<close>

abbreviation open_key :: "open_row \<Rightarrow> string \<times> string" where
  "open_key row \<equiv> (fst row, fst (snd row))"

abbreviation desired_key :: "desired \<Rightarrow> string \<times> string" where
  "desired_key d \<equiv> (fst d, fst (snd d))"

abbreviation opened :: "desired \<Rightarrow> open_row" where
  "opened d \<equiv> (fst d, fst (snd d), fst (snd (snd d)))"

lemma foldl_update_fresh:
  "distinct (map fst m @ map f xs) \<Longrightarrow>
     foldl (\<lambda>m x. AList.update (f x) (g x) m) m xs = m @ map (\<lambda>x. (f x, g x)) xs"
proof (induction xs arbitrary: m)
  case (Cons x xs)
  then have "AList.update (f x) (g x) m = m @ [(f x, g x)]"
    by (induction m) auto
  with Cons.IH [of "m @ [(f x, g x)]"] Cons.prems show ?case by simp
qed simp

lemma open_map_distinct:
  assumes "distinct (map open_key rows)"
  shows "open_map_of rows = map (\<lambda>r. (open_key r, snd (snd r))) rows"
proof -
  have "(\<lambda>m (kind, rid, qty). AList.update (kind, rid) qty m) =
      (\<lambda>(m :: ((string \<times> string) \<times> rat) list) r. AList.update (open_key r) (snd (snd r)) m)"
    by (auto simp: fun_eq_iff)
  then show ?thesis using foldl_update_fresh [of "[]" open_key rows "\<lambda>r. snd (snd r)"] assms
    by (simp only: open_map_of_def) simp
qed

lemma desired_map_distinct:
  assumes "distinct (map desired_key ds)"
  shows "desired_map_of ds = map (\<lambda>d. (desired_key d, snd (snd d))) ds"
proof -
  have "(\<lambda>m (k, r, q, h, p). AList.update (k, r) (q, h, p) m) =
      (\<lambda>(m :: ((string \<times> string) \<times> rat \<times> json \<times> json) list) d. AList.update (desired_key d) (snd (snd d)) m)"
    by (auto simp: fun_eq_iff)
  then show ?thesis using foldl_update_fresh [of "[]" desired_key ds "\<lambda>d. snd (snd d)"] assms
    by (simp only: desired_map_of_def) simp
qed

text \<open>A row matches the desired set when that has its key with the same quantity.\<close>

definition row_matches :: "desired list \<Rightarrow> open_row \<Rightarrow> bool" where
  "row_matches ds r \<longleftrightarrow> (\<exists>d\<in>set ds. desired_key d = open_key r \<and> same_qty (fst (snd (snd d))) (snd (snd r)))"

definition desired_matches :: "open_row list \<Rightarrow> desired \<Rightarrow> bool" where
  "desired_matches rows d \<longleftrightarrow> (\<exists>r\<in>set rows. open_key r = desired_key d \<and> same_qty (snd (snd r)) (fst (snd (snd d))))"

lemma map_of_keys:
  "distinct (map f xs) \<Longrightarrow> x \<in> set xs \<Longrightarrow> map_of (map (\<lambda>x. (f x, g x)) xs) (f x) = Some (g x)"
  by (rule map_of_is_SomeI) (auto simp: comp_def)

lemma map_of_keys_None: "k \<notin> f ` set xs \<Longrightarrow> map_of (map (\<lambda>x. (f x, g x)) xs) k = None"
  by (auto simp: map_of_eq_None_iff)

lemma not_in_imageI: "\<not> (\<exists>x\<in>A. f x = y) \<Longrightarrow> y \<notin> f ` A"
  by auto

lemma images_disjoint: "(\<And>x y. x \<in> A \<Longrightarrow> y \<in> B \<Longrightarrow> f x \<noteq> g y) \<Longrightarrow> f ` A \<inter> g ` B = {}"
  by auto

lemma image_subsetI_keys: "(\<And>x. x \<in> A \<Longrightarrow> \<exists>y\<in>B. g y = f x \<and> P x y) \<Longrightarrow> f ` A \<subseteq> g ` B"
  by (auto simp: image_iff) metis

lemma map_filter_map_if:
  "(\<And>x. f (g x) = (if P x then None else Some x)) \<Longrightarrow> List.map_filter f (map g xs) = filter (\<lambda>x. \<not> P x) xs"
  by (induction xs) (simp_all add: map_filter_simps)

lemma distinct_key_eq: "distinct (map f xs) \<Longrightarrow> x \<in> set xs \<Longrightarrow> y \<in> set xs \<Longrightarrow> f x = f y \<Longrightarrow> x = y"
  by (simp add: distinct_map inj_on_def)

lemma diff_intervals_distinct:
  assumes "distinct (map open_key rows)" "distinct (map desired_key ds)"
  shows "diff_intervals rows ds = (filter (\<lambda>r. \<not> row_matches ds r) rows, filter (\<lambda>d. \<not> desired_matches rows d) ds)"
proof -
  let ?close = "\<lambda>((k, r), qty). (case map_of (desired_map_of ds) (k, r) of None \<Rightarrow> Some (k, r, qty)
      | Some (q, _, _) \<Rightarrow> if same_qty q qty then None else Some (k, r, qty))"
  let ?open = "\<lambda>((k, r), (qty, hid, ptype)). (case map_of (open_map_of rows) (k, r) of None \<Rightarrow> Some (k, r, qty, hid, ptype)
      | Some q \<Rightarrow> if same_qty q qty then None else Some (k, r, qty, hid, ptype))"
  have c: "?close (open_key r, snd (snd r)) = (if row_matches ds r then None else Some r)" for r
  proof (cases "\<exists>d\<in>set ds. desired_key d = open_key r")
    case True
    then obtain d where d: "d \<in> set ds" "desired_key d = open_key r" by blast
    have "map_of (desired_map_of ds) (open_key r) = Some (snd (snd d))"
      using map_of_keys [OF assms(2) d(1), of "\<lambda>d. snd (snd d)"] d(2) desired_map_distinct [OF assms(2)] by simp
    moreover have "row_matches ds r \<longleftrightarrow> same_qty (fst (snd (snd d))) (snd (snd r))"
      unfolding row_matches_def using d distinct_key_eq [OF assms(2) _ d(1)] by metis
    ultimately show ?thesis by (cases r; cases d) simp
  next
    case False
    then have "open_key r \<notin> desired_key ` set ds" by (rule not_in_imageI)
    from map_of_keys_None [OF this, of "\<lambda>d. snd (snd d)"] have "map_of (desired_map_of ds) (open_key r) = None"
      by (simp only: desired_map_distinct [OF assms(2)])
    moreover have "\<not> row_matches ds r" using False by (auto simp: row_matches_def)
    ultimately show ?thesis by (cases r) simp
  qed
  have o: "?open (desired_key d, snd (snd d)) = (if desired_matches rows d then None else Some d)" for d
  proof (cases "\<exists>r\<in>set rows. open_key r = desired_key d")
    case True
    then obtain r where r: "r \<in> set rows" "open_key r = desired_key d" by blast
    have "map_of (open_map_of rows) (desired_key d) = Some (snd (snd r))"
      using map_of_keys [OF assms(1) r(1), of "\<lambda>r. snd (snd r)"] r(2) open_map_distinct [OF assms(1)] by simp
    moreover have "desired_matches rows d \<longleftrightarrow> same_qty (snd (snd r)) (fst (snd (snd d)))"
      unfolding desired_matches_def using r distinct_key_eq [OF assms(1) _ r(1)] by metis
    ultimately show ?thesis by (cases r; cases d) simp
  next
    case False
    then have "desired_key d \<notin> open_key ` set rows" by (rule not_in_imageI)
    from map_of_keys_None [OF this, of "\<lambda>r. snd (snd r)"] have "map_of (open_map_of rows) (desired_key d) = None"
      by (simp only: open_map_distinct [OF assms(1)])
    moreover have "\<not> desired_matches rows d" using False by (auto simp: desired_matches_def)
    ultimately show ?thesis by (cases d) simp
  qed
  have "List.map_filter ?close (open_map_of rows) = filter (\<lambda>r. \<not> row_matches ds r) rows"
    unfolding open_map_distinct [OF assms(1)] by (rule map_filter_map_if) (rule c)
  moreover have "List.map_filter ?open (desired_map_of ds) = filter (\<lambda>d. \<not> desired_matches rows d) ds"
    unfolding desired_map_distinct [OF assms(2)] by (rule map_filter_map_if) (rule o)
  ultimately show ?thesis by (simp add: diff_intervals_def Let_def)
qed

text \<open>The meters after a tick: the closed rows are gone and the opened ones have been added.\<close>

definition apply_diff :: "open_row list \<Rightarrow> open_row list \<times> desired list \<Rightarrow> open_row list" where
  "apply_diff rows d = filter (\<lambda>r. r \<notin> set (fst d)) rows @ map opened (snd d)"

lemma apply_diff_distinct:
  assumes "distinct (map open_key rows)" "distinct (map desired_key ds)"
  shows "apply_diff rows (diff_intervals rows ds) =
    filter (row_matches ds) rows @ map opened (filter (\<lambda>d. \<not> desired_matches rows d) ds)"
proof -
  have "filter (\<lambda>r. r \<notin> set (filter (\<lambda>r. \<not> row_matches ds r) rows)) rows = filter (row_matches ds) rows"
    by (rule filter_cong) auto
  then show ?thesis by (simp only: apply_diff_def diff_intervals_distinct [OF assms] fst_conv snd_conv)
qed

lemma same_qty_sym: "same_qty a b = same_qty b a"
  by (simp add: abs_minus_commute)

lemma kept_not_opened:
  assumes "distinct (map open_key rows)" "distinct (map desired_key ds)"
    "r \<in> set rows" "row_matches ds r" "d \<in> set ds" "\<not> desired_matches rows d"
  shows "open_key r \<noteq> desired_key d"
proof
  assume eq: "open_key r = desired_key d"
  from assms(4) obtain e where e: "e \<in> set ds" "desired_key e = open_key r" "same_qty (fst (snd (snd e))) (snd (snd r))"
    unfolding row_matches_def by blast
  have "e = d" by (rule distinct_key_eq [OF assms(2) e(1) assms(5)]) (rule trans [OF e(2) eq])
  with e(3) have "same_qty (snd (snd r)) (fst (snd (snd d)))" using same_qty_sym by blast
  with assms(3,6) eq show False unfolding desired_matches_def by blast
qed

text \<open>One tick of the meters converges: after the difference is applied every resource has at
  most one open meter, the metered resources are exactly the desired ones, and the next
  difference is empty.\<close>

theorem diff_converges:
  assumes "distinct (map open_key rows)" "distinct (map desired_key ds)"
    "rows' = apply_diff rows (diff_intervals rows ds)"
  shows "distinct (map open_key rows') \<and> open_key ` set rows' = desired_key ` set ds \<and>
    diff_intervals rows' ds = ([], [])"
proof -
  let ?kept = "filter (row_matches ds) rows" and ?new = "filter (\<lambda>d. \<not> desired_matches rows d) ds"
  have rows': "rows' = ?kept @ map opened ?new" using assms apply_diff_distinct by blast
  have keys: "map open_key rows' = map open_key ?kept @ map desired_key ?new" by (simp add: rows' comp_def)
  have d: "distinct (map open_key rows')" unfolding keys distinct_append
  proof (intro conjI)
    show "distinct (map open_key ?kept)" by (rule distinct_map_filter [OF assms(1)])
    show "distinct (map desired_key ?new)" by (rule distinct_map_filter [OF assms(2)])
    show "set (map open_key ?kept) \<inter> set (map desired_key ?new) = {}"
      unfolding set_map by (rule images_disjoint, rule kept_not_opened [OF assms(1,2)]) simp_all
  qed
  have row: "row_matches ds r" if "r \<in> set rows'" for r
  proof -
    consider "row_matches ds r" | e where "e \<in> set ds" "r = opened e" using \<open>r \<in> set rows'\<close> unfolding rows' by auto
    then show ?thesis
    proof cases
      case 2
      then show ?thesis unfolding row_matches_def by (intro bexI [of _ e]) simp_all
    qed
  qed
  have des: "desired_matches rows' e" if e: "e \<in> set ds" for e
  proof (cases "desired_matches rows e")
    case True
    then obtain r where r: "r \<in> set rows" "open_key r = desired_key e" "same_qty (snd (snd r)) (fst (snd (snd e)))"
      unfolding desired_matches_def by blast
    then have "row_matches ds r" using e same_qty_sym unfolding row_matches_def by metis
    with r show ?thesis unfolding desired_matches_def rows' by (intro bexI [of _ r]) auto
  next
    case False
    with e have "opened e \<in> set rows'" by (auto simp: rows')
    then show ?thesis unfolding desired_matches_def by (intro bexI [of _ "opened e"]) auto
  qed
  have "diff_intervals rows' ds = ([], [])"
    unfolding diff_intervals_distinct [OF d assms(2)] using row des by (auto simp: filter_empty_conv)
  moreover have "open_key ` set rows' \<subseteq> desired_key ` set ds" using row unfolding row_matches_def by (rule image_subsetI_keys)
  moreover have "desired_key ` set ds \<subseteq> open_key ` set rows'" using des unfolding desired_matches_def by (rule image_subsetI_keys)
  ultimately show ?thesis using d by blast
qed

theorem diff_converges_witness:
  "let rows = [(''vcpu'', ''a'', 2), (''ram'', ''a'', 4), (''disk'', ''d'', 10)];
       ds = [(''ram'', ''a'', 8, JNull, JNull), (''vcpu'', ''a'', 2, JNull, JNull), (''eip'', ''e'', 1, JNull, JNull)];
       rows' = [(''vcpu'', ''a'', 2), (''ram'', ''a'', 8), (''eip'', ''e'', 1)]
   in distinct (map open_key rows') \<and> open_key ` set rows' = desired_key ` set ds \<and>
      diff_intervals rows' ds = ([], [])"
  unfolding Let_def by (rule diff_converges [of
      "[(''vcpu'', ''a'', 2), (''ram'', ''a'', 4), (''disk'', ''d'', 10)]"]) code_simp+

text \<open>A project in error, and a stopped project on shared hosts, is metered for nothing: every
  open meter is closed and none is opened.\<close>

theorem error_stops_all_meters:
  assumes "text_field snapshot ''project_state'' [] = Some ps" "text_field snapshot ''billing_mode'' ''shared'' = Some bm"
    "ps = ''error'' \<or> ps \<in> {''stopped'', ''stopping''} \<and> bm \<noteq> ''dedicated''" "distinct (map open_key rows)"
  shows "\<exists>ds. desired_resources snapshot = Some ds \<and> diff_intervals rows ds = (rows, [])"
proof -
  obtain fs where "snapshot = JObj fs"
    using assms(1) by (cases snapshot) (simp_all add: text_field_def get_def)
  then obtain p h where "get snapshot ''provider_type'' = Some p" "get snapshot ''host_id'' = Some h"
    by (simp add: get_def)
  with assms(1-3) have "desired_resources snapshot = Some []"
    by (auto simp: desired_resources_def)
  moreover have "diff_intervals rows [] = (rows, [])"
    using diff_intervals_distinct [OF assms(4), of "[]"] by (simp add: row_matches_def)
  ultimately show ?thesis by blast
qed

theorem error_stops_all_meters_witness:
  "\<exists>ds. desired_resources (JObj [(''project_state'', JStr ''stopped'')]) = Some ds \<and>
     diff_intervals [(''vcpu'', ''a'', 2)] ds = ([(''vcpu'', ''a'', 2)], [])"
  by (rule error_stops_all_meters [of _ "''stopped''" "''shared''"]) code_simp+

theorem month_bounds_contiguous_witness:
  "(if valid_month 2024 3 then
      month_bounds 2024 2 = Some (month_start 2024 2, month_start 2024 3) \<and>
      month_start 2024 3 - month_start 2024 2 = days_in_month 2024 2 * DAY \<and>
      28 \<le> days_in_month 2024 2 \<and> days_in_month 2024 2 \<le> 31
    else month_bounds 2024 2 = None) \<and> days_in_month 2024 2 = 29"
  using month_bounds_contiguous [of 2024 2 2024 3] by (simp add: valid_month_def days_in_month_def is_leap_def)

definition two_month_row :: usage_row where
  "two_month_row = \<lparr>ur_kind = Some ''vcpu'', ur_qty = Some 2, ur_rate = Some 1,
     ur_started_at = Some 1706000000000000, ur_ended_at = Some 1708000000000000\<rparr>"

theorem months_add_up_to_spend_witness:
  "spend_total [two_month_row] 1708000000000000 =
     Some (sum_list (map (month_total [two_month_row] 1708000000000000) [(2024, 1), (2024, 2)]))"
  by (rule months_add_up_to_spend [of 2024 1 1708000000000000]) code_simp+

end
