(* ===== verification/Redis_Store.thy ===== *)
theory Redis_Store
  imports Py_Json
begin

text \<open>
  \<open>src/src/backend/app/core/redis.py\<close>, shared state: progress documents, cancellation marks,
  sets, counters and the sliding window, each kept in Redis when it answers and in the memory
  of the process otherwise.

  The keyspace of the Redis server is a state component, as the tables of the database are: a
  key has a value and possibly a time at which it expires, and the commands the sources use
  are functions on it (\<^term>\<open>None\<close> is an error reply, which redis-py raises as an exception
  other than a connection error). A JSON document stored as text is kept as the document.
  What the environment decides about one call is the record \<open>call\<close>: the time, whether a first
  connection succeeds, and which of the call's commands reach the server; a command that does
  not raises a connection error.
\<close>

section \<open>The keyspace\<close>

type_synonym rtime = rat

datatype rvalue =
    RText string
  | RJson json
  | RSet "string list"
  | RZset "(string \<times> rtime) list"

type_synonym keyspace = "(string \<times> rvalue \<times> rtime option) list"

definition entry_live :: "rtime \<Rightarrow> rvalue \<times> rtime option \<Rightarrow> bool" where
  "entry_live now e = (case snd e of None \<Rightarrow> True | Some t \<Rightarrow> now < t)"

definition entry :: "rtime \<Rightarrow> keyspace \<Rightarrow> string \<Rightarrow> (rvalue \<times> rtime option) option" where
  "entry now ks k = (case map_of ks k of None \<Rightarrow> None | Some e \<Rightarrow> if entry_live now e then Some e else None)"

abbreviation live :: "rtime \<Rightarrow> keyspace \<Rightarrow> string \<Rightarrow> rvalue option" where
  "live now ks k \<equiv> map_option fst (entry now ks k)"

definition put :: "string \<Rightarrow> rvalue \<Rightarrow> rtime option \<Rightarrow> keyspace \<Rightarrow> keyspace" where
  "put k v e ks = AList.update k (v, e) ks"

definition cmd_del :: "string \<Rightarrow> keyspace \<Rightarrow> keyspace" where
  "cmd_del k ks = AList.delete k ks"

definition cmd_set :: "rtime \<Rightarrow> string \<Rightarrow> rvalue \<Rightarrow> int \<Rightarrow> keyspace \<Rightarrow> keyspace option" where
  "cmd_set now k v ex ks = (if ex \<le> 0 then None else Some (put k v (Some (now + of_int ex)) ks))"

definition cmd_expire :: "rtime \<Rightarrow> string \<Rightarrow> int \<Rightarrow> keyspace \<Rightarrow> keyspace" where
  "cmd_expire now k ex ks =
     (case entry now ks k of
        None \<Rightarrow> ks
      | Some (v, e) \<Rightarrow> if ex \<le> 0 then cmd_del k ks else put k v (Some (now + of_int ex)) ks)"

definition cmd_get :: "rtime \<Rightarrow> string \<Rightarrow> keyspace \<Rightarrow> rvalue option option" where
  "cmd_get now k ks =
     (case live now ks k of
        None \<Rightarrow> Some None
      | Some (RText s) \<Rightarrow> Some (Some (RText s))
      | Some (RJson j) \<Rightarrow> Some (Some (RJson j))
      | Some _ \<Rightarrow> None)"

definition cmd_sadd :: "rtime \<Rightarrow> string \<Rightarrow> string \<Rightarrow> keyspace \<Rightarrow> keyspace option" where
  "cmd_sadd now k m ks =
     (case entry now ks k of
        None \<Rightarrow> Some (put k (RSet [m]) None ks)
      | Some (RSet xs, e) \<Rightarrow> Some (put k (RSet (List.insert m xs)) e ks)
      | Some _ \<Rightarrow> None)"

definition cmd_srem :: "rtime \<Rightarrow> string \<Rightarrow> string \<Rightarrow> keyspace \<Rightarrow> keyspace option" where
  "cmd_srem now k m ks =
     (case entry now ks k of
        None \<Rightarrow> Some ks
      | Some (RSet xs, e) \<Rightarrow>
          let ys = removeAll m xs in Some (if ys = [] then cmd_del k ks else put k (RSet ys) e ks)
      | Some _ \<Rightarrow> None)"

definition cmd_sismember :: "rtime \<Rightarrow> string \<Rightarrow> string \<Rightarrow> keyspace \<Rightarrow> bool option" where
  "cmd_sismember now k m ks =
     (case live now ks k of
        None \<Rightarrow> Some False
      | Some (RSet xs) \<Rightarrow> Some (m \<in> set xs)
      | Some _ \<Rightarrow> None)"

definition cmd_incrby :: "rtime \<Rightarrow> string \<Rightarrow> int \<Rightarrow> keyspace \<Rightarrow> (int \<times> keyspace) option" where
  "cmd_incrby now k d ks =
     (case entry now ks k of
        None \<Rightarrow> Some (d, put k (RText (int_str d)) None ks)
      | Some (RText s, e) \<Rightarrow>
          (case parse_int s of None \<Rightarrow> None | Some n \<Rightarrow> Some (n + d, put k (RText (int_str (n + d))) e ks))
      | Some _ \<Rightarrow> None)"

text \<open>Sorted sets: a member has one score. A key whose last member goes is gone.\<close>

definition zput :: "string \<Rightarrow> (string \<times> rtime) list \<Rightarrow> rtime option \<Rightarrow> keyspace \<Rightarrow> keyspace" where
  "zput k zs e ks = (if zs = [] then cmd_del k ks else put k (RZset zs) e ks)"

definition zget :: "rtime \<Rightarrow> string \<Rightarrow> keyspace \<Rightarrow> ((string \<times> rtime) list \<times> rtime option) option" where
  "zget now k ks =
     (case entry now ks k of
        None \<Rightarrow> Some ([], None)
      | Some (RZset zs, e) \<Rightarrow> Some (zs, e)
      | Some _ \<Rightarrow> None)"

definition cmd_zadd :: "rtime \<Rightarrow> string \<Rightarrow> string \<Rightarrow> rtime \<Rightarrow> keyspace \<Rightarrow> keyspace option" where
  "cmd_zadd now k m score ks = do { (zs, e) \<leftarrow> zget now k ks; Some (zput k (AList.update m score zs) e ks) }"

definition cmd_zrem :: "rtime \<Rightarrow> string \<Rightarrow> string \<Rightarrow> keyspace \<Rightarrow> keyspace option" where
  "cmd_zrem now k m ks = do { (zs, e) \<leftarrow> zget now k ks; Some (zput k (AList.delete m zs) e ks) }"

definition cmd_zremrangebyscore :: "rtime \<Rightarrow> string \<Rightarrow> rtime \<Rightarrow> rtime \<Rightarrow> keyspace \<Rightarrow> keyspace option" where
  "cmd_zremrangebyscore now k lo hi ks = do {
     (zs, e) \<leftarrow> zget now k ks;
     Some (zput k (filter (\<lambda>z. \<not> (lo \<le> snd z \<and> snd z \<le> hi)) zs) e ks)
   }"

definition cmd_zcard :: "rtime \<Rightarrow> string \<Rightarrow> keyspace \<Rightarrow> int option" where
  "cmd_zcard now k ks = do { (zs, e) \<leftarrow> zget now k ks; Some (int (length zs)) }"

section \<open>State of a process\<close>

datatype connecting = Pong | Refused | BadUrl

record call =
  c_now :: rtime
  c_connect :: connecting
  c_up :: "nat \<Rightarrow> bool"

record shared =
  s_client :: bool
  s_available :: bool
  s_keys :: keyspace
  s_progress :: "(string \<times> json) list"
  s_cancelled :: "string list"
  s_sets :: "(string \<times> string list) list"
  s_counters :: "(string \<times> int) list"

definition get_redis :: "call \<Rightarrow> shared \<Rightarrow> shared option" where
  "get_redis c st =
     (if s_client st then Some st
      else (case c_connect c of
              Pong \<Rightarrow> Some (st\<lparr>s_client := True, s_available := True\<rparr>)
            | Refused \<Rightarrow> Some (st\<lparr>s_client := True, s_available := False\<rparr>)
            | BadUrl \<Rightarrow> None))"

definition is_redis_available :: "call \<Rightarrow> shared \<Rightarrow> bool \<times> shared" where
  "is_redis_available c st =
     (let st' = (if s_client st then st else case get_redis c st of None \<Rightarrow> st | Some t \<Rightarrow> t)
      in (s_available st', st'))"

definition close_redis :: "shared \<Rightarrow> shared" where
  "close_redis st = (if s_client st then st\<lparr>s_client := False, s_available := False\<rparr> else st)"

section \<open>Progress documents\<close>

definition progress_key :: "string \<Rightarrow> string" where
  "progress_key key = ''progress:'' @ key"

definition cancelled_key :: "string \<Rightarrow> string" where
  "cancelled_key key = ''cancelled:'' @ key"

definition set_progress :: "call \<Rightarrow> string \<Rightarrow> json \<Rightarrow> int \<Rightarrow> shared \<Rightarrow> shared option" where
  "set_progress c key data ttl st =
     (let (ok, st) = is_redis_available c st
      in if ok \<and> c_up c 0
         then map_option (\<lambda>ks. st\<lparr>s_keys := ks\<rparr>) (cmd_set (c_now c) (progress_key key) (RJson data) ttl (s_keys st))
         else Some (st\<lparr>s_progress := AList.update key data (s_progress st)\<rparr>))"

definition get_progress :: "call \<Rightarrow> string \<Rightarrow> shared \<Rightarrow> (json option \<times> shared) option" where
  "get_progress c key st =
     (let (ok, st) = is_redis_available c st
      in if ok \<and> c_up c 0
         then (case cmd_get (c_now c) (progress_key key) (s_keys st) of
                 None \<Rightarrow> None
               | Some None \<Rightarrow> Some (None, st)
               | Some (Some (RJson j)) \<Rightarrow> Some (Some j, st)
               | Some (Some v) \<Rightarrow> if v = RText [] then Some (None, st) else None)
         else Some (map_of (s_progress st) key, st))"

definition delete_progress :: "call \<Rightarrow> string \<Rightarrow> shared \<Rightarrow> shared" where
  "delete_progress c key st =
     (let (ok, st) = is_redis_available c st;
          st = (if ok \<and> c_up c 0 then st\<lparr>s_keys := cmd_del (progress_key key) (s_keys st)\<rparr> else st)
      in st\<lparr>s_progress := AList.delete key (s_progress st)\<rparr>)"

section \<open>Cancellation marks\<close>

definition mark_cancelled :: "call \<Rightarrow> string \<Rightarrow> int \<Rightarrow> shared \<Rightarrow> shared option" where
  "mark_cancelled c key ttl st =
     (if s_available st \<and> c_up c 0
      then map_option (\<lambda>ks. st\<lparr>s_keys := ks\<rparr>) (cmd_set (c_now c) (cancelled_key key) (RText ''1'') ttl (s_keys st))
      else Some (st\<lparr>s_cancelled := List.insert key (s_cancelled st)\<rparr>))"

definition is_cancelled :: "call \<Rightarrow> string \<Rightarrow> shared \<Rightarrow> bool option" where
  "is_cancelled c key st =
     (if s_available st \<and> c_up c 0
      then map_option (\<lambda>v. v \<noteq> None) (cmd_get (c_now c) (cancelled_key key) (s_keys st))
      else Some (key \<in> set (s_cancelled st)))"

definition clear_cancelled :: "call \<Rightarrow> string \<Rightarrow> shared \<Rightarrow> shared" where
  "clear_cancelled c key st =
     (let st = (if s_available st \<and> c_up c 0 then st\<lparr>s_keys := cmd_del (cancelled_key key) (s_keys st)\<rparr> else st)
      in st\<lparr>s_cancelled := removeAll key (s_cancelled st)\<rparr>)"

section \<open>Sets\<close>

definition mem_add :: "string \<Rightarrow> string \<Rightarrow> shared \<Rightarrow> shared" where
  "mem_add set_name v st =
     st\<lparr>s_sets := AList.update set_name (List.insert v (dict_get (s_sets st) set_name [])) (s_sets st)\<rparr>"

text \<open>The member is added by one command and the time to live set by a second; when only the
  first reaches the server the member is in both stores.\<close>

definition add_to_set :: "call \<Rightarrow> string \<Rightarrow> string \<Rightarrow> int option \<Rightarrow> shared \<Rightarrow> shared option" where
  "add_to_set c set_name v ttl st =
     (if s_available st \<and> c_up c 0
      then (case cmd_sadd (c_now c) set_name v (s_keys st) of
              None \<Rightarrow> None
            | Some ks \<Rightarrow>
                (case ttl of
                   None \<Rightarrow> Some (st\<lparr>s_keys := ks\<rparr>)
                 | Some ex \<Rightarrow>
                     if ex = 0 then Some (st\<lparr>s_keys := ks\<rparr>)
                     else if c_up c 1 then Some (st\<lparr>s_keys := cmd_expire (c_now c) set_name ex ks\<rparr>)
                     else Some (mem_add set_name v (st\<lparr>s_keys := ks\<rparr>))))
      else Some (mem_add set_name v st))"

definition remove_from_set :: "call \<Rightarrow> string \<Rightarrow> string \<Rightarrow> shared \<Rightarrow> shared option" where
  "remove_from_set c set_name v st =
     (if s_available st \<and> c_up c 0
      then map_option (\<lambda>ks. st\<lparr>s_keys := ks\<rparr>) (cmd_srem (c_now c) set_name v (s_keys st))
      else Some (case map_of (s_sets st) set_name of
                   None \<Rightarrow> st
                 | Some xs \<Rightarrow> st\<lparr>s_sets := AList.update set_name (removeAll v xs) (s_sets st)\<rparr>))"

definition is_in_set :: "call \<Rightarrow> string \<Rightarrow> string \<Rightarrow> shared \<Rightarrow> bool option" where
  "is_in_set c set_name v st =
     (if s_available st \<and> c_up c 0 then cmd_sismember (c_now c) set_name v (s_keys st)
      else Some (v \<in> set (dict_get (s_sets st) set_name [])))"

section \<open>Counters\<close>

text \<open>The pipeline of the increment is one transaction.\<close>

definition increment_counter :: "call \<Rightarrow> string \<Rightarrow> int \<Rightarrow> shared \<Rightarrow> (int \<times> shared) option" where
  "increment_counter c key ttl st =
     (if s_available st \<and> c_up c 0
      then (case cmd_incrby (c_now c) key 1 (s_keys st) of
              None \<Rightarrow> None
            | Some (n, ks) \<Rightarrow> Some (n, st\<lparr>s_keys := cmd_expire (c_now c) key ttl ks\<rparr>))
      else let n = dict_get (s_counters st) key 0 + 1
           in Some (n, st\<lparr>s_counters := AList.update key n (s_counters st)\<rparr>))"

definition get_counter :: "call \<Rightarrow> string \<Rightarrow> shared \<Rightarrow> int option" where
  "get_counter c key st =
     (if s_available st \<and> c_up c 0
      then (case cmd_get (c_now c) key (s_keys st) of
              None \<Rightarrow> None
            | Some None \<Rightarrow> Some 0
            | Some (Some (RText s)) \<Rightarrow> if s = [] then Some 0 else parse_int s
            | Some (Some _) \<Rightarrow> None)
      else Some (dict_get (s_counters st) key 0))"

definition decrement_counter :: "call \<Rightarrow> string \<Rightarrow> shared \<Rightarrow> shared option" where
  "decrement_counter c key st =
     (if s_available st \<and> c_up c 0
      then map_option (\<lambda>(n, ks). st\<lparr>s_keys := ks\<rparr>) (cmd_incrby (c_now c) key (- 1) (s_keys st))
      else Some (st\<lparr>s_counters := AList.update key (max 0 (dict_get (s_counters st) key 0 - 1)) (s_counters st)\<rparr>))"

section \<open>Sliding window\<close>

text \<open>The member is the time and a random suffix, given as the parameter \<open>member\<close>. The four
  commands are one transaction.\<close>

definition sliding_window_rate ::
    "call \<Rightarrow> string \<Rightarrow> string \<Rightarrow> int \<Rightarrow> int \<Rightarrow> shared \<Rightarrow> ((bool \<times> int) \<times> shared) option" where
  "sliding_window_rate c member key window limit st =
     (if s_available st \<and> c_up c 0
      then do {
        k1 \<leftarrow> cmd_zremrangebyscore (c_now c) key 0 (c_now c - of_int window) (s_keys st);
        k2 \<leftarrow> cmd_zadd (c_now c) key member (c_now c) k1;
        count \<leftarrow> cmd_zcard (c_now c) key k2;
        let k3 = cmd_expire (c_now c) key (window + 1) k2;
        Some ((\<not> count > limit, count), st\<lparr>s_keys := k3\<rparr>)
      }
      else Some ((True, 0), st))"

section \<open>Laws of the keyspace\<close>

lemma prefixed_keys [simp]:
  "progress_key k = progress_key k' \<longleftrightarrow> k = k'" "cancelled_key k = cancelled_key k' \<longleftrightarrow> k = k'"
  "progress_key k \<noteq> cancelled_key k'" "cancelled_key k \<noteq> progress_key k'"
  by (simp_all add: progress_key_def cancelled_key_def)

lemma entry_put [simp]:
  "entry now (put k v e ks) k' =
     (if k' = k then (if entry_live now (v, e) then Some (v, e) else None) else entry now ks k')"
  by (simp add: entry_def put_def map_of_update)

lemma entry_del [simp]: "entry now (cmd_del k ks) k' = (if k' = k then None else entry now ks k')"
  by (simp add: entry_def cmd_del_def AList.delete_conv')

lemma entry_live_None [simp]: "entry_live now (v, None)"
  by (simp add: entry_live_def)

lemma entry_live_Some [simp]: "entry_live now (v, Some t) \<longleftrightarrow> now < t"
  by (simp add: entry_live_def)

lemma entry_Nil [simp]: "entry now [] k = None"
  by (simp add: entry_def)

text \<open>An entry seen later was there earlier, unless it was set in between.\<close>

lemma entry_mono: "entry now' ks k = Some e \<Longrightarrow> now \<le> now' \<Longrightarrow> entry now ks k = Some e"
  by (cases e) (auto simp: entry_def entry_live_def split: option.splits if_splits)

lemma zget_live: "zget now k ks = Some (zs, e) \<Longrightarrow> entry_live now (v, e)"
  by (auto simp: zget_def entry_def entry_live_def split: option.splits rvalue.splits if_splits)

lemma zget_zput:
  "entry_live now (RZset zs, e) \<Longrightarrow> zget now k (zput k zs e ks) = Some (zs, if zs = [] then None else e)"
  by (simp add: zput_def zget_def)

end
