(* ===== verification/Redis_Laws.thy ===== *)
theory Redis_Laws
  imports Redis_Store
begin

text \<open>
  The shared state of \<open>core/redis.py\<close> against an abstract specification. The locale
  \<open>shared_store\<close> is the contract: every operation of a store answers what the specification
  answers and stays related to it. It is interpreted on the operations with Redis up and on
  the operations with the in-memory fallback, so that the two answer alike.
\<close>

section \<open>Operations and their specification\<close>

datatype op =
    SetProgress string json int
  | GetProgress string
  | DeleteProgress string
  | MarkCancelled string int
  | IsCancelled string
  | ClearCancelled string
  | AddToSet string string "int option"
  | RemoveFromSet string string
  | IsInSet string string
  | Increment string int
  | GetCounter string
  | Decrement string

datatype reply = Done | Doc "json option" | Flag bool | Num int

fun exec :: "call \<Rightarrow> op \<Rightarrow> shared \<Rightarrow> (reply \<times> shared) option" where
  "exec c (SetProgress k d ttl) st = map_option (Pair Done) (set_progress c k d ttl st)"
| "exec c (GetProgress k) st = map_option (\<lambda>(d, st). (Doc d, st)) (get_progress c k st)"
| "exec c (DeleteProgress k) st = Some (Done, delete_progress c k st)"
| "exec c (MarkCancelled k ttl) st = map_option (Pair Done) (mark_cancelled c k ttl st)"
| "exec c (IsCancelled k) st = map_option (\<lambda>b. (Flag b, st)) (is_cancelled c k st)"
| "exec c (ClearCancelled k) st = Some (Done, clear_cancelled c k st)"
| "exec c (AddToSet n v ttl) st = map_option (Pair Done) (add_to_set c n v ttl st)"
| "exec c (RemoveFromSet n v) st = map_option (Pair Done) (remove_from_set c n v st)"
| "exec c (IsInSet n v) st = map_option (\<lambda>b. (Flag b, st)) (is_in_set c n v st)"
| "exec c (Increment k ttl) st = map_option (\<lambda>(n, st). (Num n, st)) (increment_counter c k ttl st)"
| "exec c (GetCounter k) st = map_option (\<lambda>n. (Num n, st)) (get_counter c k st)"
| "exec c (Decrement k) st = map_option (Pair Done) (decrement_counter c k st)"

record abstract =
  a_progress :: "string \<Rightarrow> json option"
  a_cancelled :: "string \<Rightarrow> bool"
  a_member :: "string \<Rightarrow> string \<Rightarrow> bool"
  a_counter :: "string \<Rightarrow> int"

fun spec :: "op \<Rightarrow> abstract \<Rightarrow> reply \<times> abstract" where
  "spec (SetProgress k d ttl) a = (Done, a\<lparr>a_progress := (a_progress a)(k \<mapsto> d)\<rparr>)"
| "spec (GetProgress k) a = (Doc (a_progress a k), a)"
| "spec (DeleteProgress k) a = (Done, a\<lparr>a_progress := (a_progress a)(k := None)\<rparr>)"
| "spec (MarkCancelled k ttl) a = (Done, a\<lparr>a_cancelled := (a_cancelled a)(k := True)\<rparr>)"
| "spec (IsCancelled k) a = (Flag (a_cancelled a k), a)"
| "spec (ClearCancelled k) a = (Done, a\<lparr>a_cancelled := (a_cancelled a)(k := False)\<rparr>)"
| "spec (AddToSet n v ttl) a = (Done, a\<lparr>a_member := (a_member a)(n := (a_member a n)(v := True))\<rparr>)"
| "spec (RemoveFromSet n v) a = (Done, a\<lparr>a_member := (a_member a)(n := (a_member a n)(v := False))\<rparr>)"
| "spec (IsInSet n v) a = (Flag (a_member a n v), a)"
| "spec (Increment k ttl) a = (Num (a_counter a k + 1), a\<lparr>a_counter := (a_counter a)(k := a_counter a k + 1)\<rparr>)"
| "spec (GetCounter k) a = (Num (a_counter a k), a)"
| "spec (Decrement k) a = (Done, a\<lparr>a_counter := (a_counter a)(k := a_counter a k - 1)\<rparr>)"

text \<open>When an operation is comparable at all: it happens by the time \<open>T\<close>, what it sets lives
  beyond \<open>T\<close>, the connection works, set and counter names come from two lists that do not
  clash with each other or with the prefixed keys, and no counter is decremented at zero.\<close>

fun lasting :: "rtime \<Rightarrow> call \<Rightarrow> op \<Rightarrow> bool" where
  "lasting T c (SetProgress k d ttl) = (0 < ttl \<and> T < c_now c + of_int ttl)"
| "lasting T c (MarkCancelled k ttl) = (0 < ttl \<and> T < c_now c + of_int ttl)"
| "lasting T c (AddToSet n v (Some ttl)) = (0 \<le> ttl \<and> (ttl \<noteq> 0 \<longrightarrow> T < c_now c + of_int ttl))"
| "lasting T c (Increment k ttl) = (0 < ttl \<and> T < c_now c + of_int ttl)"
| "lasting T c _ = True"

fun named :: "string list \<Rightarrow> string list \<Rightarrow> abstract \<Rightarrow> op \<Rightarrow> bool" where
  "named S C a (AddToSet n v ttl) = (n \<in> set S)"
| "named S C a (RemoveFromSet n v) = (n \<in> set S)"
| "named S C a (IsInSet n v) = (n \<in> set S)"
| "named S C a (Increment k ttl) = (k \<in> set C)"
| "named S C a (GetCounter k) = (k \<in> set C)"
| "named S C a (Decrement k) = (k \<in> set C \<and> a_counter a k > 0)"
| "named S C a _ = True"

definition clash_free :: "string list \<Rightarrow> string list \<Rightarrow> bool" where
  "clash_free S C \<longleftrightarrow> list_all (\<lambda>n. n \<notin> set C) S \<and>
     list_all (\<lambda>n. \<not> starts_with n ''progress:'' \<and> \<not> starts_with n ''cancelled:'') (S @ C)"

definition op_ok :: "rtime \<Rightarrow> string list \<Rightarrow> string list \<Rightarrow> abstract \<Rightarrow> call \<Rightarrow> op \<Rightarrow> bool" where
  "op_ok T S C a c x \<longleftrightarrow> c_now c \<le> T \<and> c_up c 0 \<and> c_up c 1 \<and> lasting T c x \<and> named S C a x \<and> clash_free S C"

section \<open>The contract\<close>

locale shared_store =
  fixes rel :: "abstract \<Rightarrow> shared \<Rightarrow> bool"
    and ok :: "abstract \<Rightarrow> call \<Rightarrow> op \<Rightarrow> bool"
  assumes refines: "rel a st \<Longrightarrow> ok a c x \<Longrightarrow>
    \<exists>st'. exec c x st = Some (fst (spec x a), st') \<and> rel (snd (spec x a)) st'"

primrec run :: "(call \<times> op) list \<Rightarrow> shared \<Rightarrow> (reply list \<times> shared) option" where
  "run [] st = Some ([], st)"
| "run (x # xs) st = do { (r, st) \<leftarrow> exec (fst x) (snd x) st; (rs, st) \<leftarrow> run xs st; Some (r # rs, st) }"

primrec spec_run :: "(call \<times> op) list \<Rightarrow> abstract \<Rightarrow> reply list" where
  "spec_run [] a = []"
| "spec_run (x # xs) a = fst (spec (snd x) a) # spec_run xs (snd (spec (snd x) a))"

primrec run_ok :: "(abstract \<Rightarrow> call \<Rightarrow> op \<Rightarrow> bool) \<Rightarrow> (call \<times> op) list \<Rightarrow> abstract \<Rightarrow> bool" where
  "run_ok P [] a = True"
| "run_ok P (x # xs) a = (P a (fst x) (snd x) \<and> run_ok P xs (snd (spec (snd x) a)))"

context shared_store
begin

lemma run_refines: "rel a st \<Longrightarrow> run_ok ok xs a \<Longrightarrow> \<exists>st'. run xs st = Some (spec_run xs a, st')"
proof (induction xs arbitrary: a st)
  case (Cons x xs)
  then obtain st' where "exec (fst x) (snd x) st = Some (fst (spec (snd x) a), st')" "rel (snd (spec (snd x) a)) st'"
    using refines by fastforce
  with Cons show ?case by fastforce
qed simp

end

section \<open>The fallback in memory\<close>

definition mem_rel :: "abstract \<Rightarrow> shared \<Rightarrow> bool" where
  "mem_rel a st \<longleftrightarrow> s_client st \<and> \<not> s_available st \<and> a_progress a = map_of (s_progress st) \<and>
     a_cancelled a = (\<lambda>k. k \<in> set (s_cancelled st)) \<and>
     a_member a = (\<lambda>n v. v \<in> set (dict_get (s_sets st) n [])) \<and>
     a_counter a = (\<lambda>k. dict_get (s_counters st) k 0)"

lemma is_redis_available_client [simp]: "s_client st \<Longrightarrow> is_redis_available c st = (s_available st, st)"
  by (simp add: is_redis_available_def)

lemmas store_ops = set_progress_def get_progress_def delete_progress_def mark_cancelled_def is_cancelled_def
  clear_cancelled_def add_to_set_def remove_from_set_def is_in_set_def increment_counter_def get_counter_def
  decrement_counter_def mem_add_def

lemma mem_refines:
  assumes "mem_rel a st" "op_ok T S C a c x"
  shows "\<exists>st'. exec c x st = Some (fst (spec x a), st') \<and> mem_rel (snd (spec x a)) st'"
  using assms
  by (cases x)
    (auto simp: mem_rel_def store_ops op_ok_def map_of_update AList.delete_conv' fun_eq_iff Let_def dict_get_def
      split: option.splits)

interpretation memory: shared_store mem_rel "op_ok T S C" for T S C
  by unfold_locales (rule mem_refines)

section \<open>Redis\<close>

definition holds_set :: "(rvalue \<times> rtime option) option \<Rightarrow> (string \<Rightarrow> bool) \<Rightarrow> bool" where
  "holds_set e m = (case e of None \<Rightarrow> m = (\<lambda>v. False) | Some (RSet xs, t) \<Rightarrow> m = (\<lambda>v. v \<in> set xs) | _ \<Rightarrow> False)"

definition holds_num :: "(rvalue \<times> rtime option) option \<Rightarrow> int \<Rightarrow> bool" where
  "holds_num e n = (case e of None \<Rightarrow> n = 0 | Some (RText s, t) \<Rightarrow> s = int_str n | _ \<Rightarrow> False)"

definition holds_mark :: "(rvalue \<times> rtime option) option \<Rightarrow> bool \<Rightarrow> bool" where
  "holds_mark e b = (map_option fst e = (if b then Some (RText ''1'') else None))"

definition stable :: "rtime \<Rightarrow> keyspace \<Rightarrow> bool" where
  "stable T ks \<longleftrightarrow> (\<forall>k e. map_of ks k = Some e \<longrightarrow> entry_live T e)"

definition redis_rel :: "rtime \<Rightarrow> string list \<Rightarrow> string list \<Rightarrow> abstract \<Rightarrow> shared \<Rightarrow> bool" where
  "redis_rel T S C a st \<longleftrightarrow> s_client st \<and> s_available st \<and>
     stable T (s_keys st) \<and>
     (\<forall>k. map_option fst (map_of (s_keys st) (progress_key k)) = map_option RJson (a_progress a k)) \<and>
     (\<forall>k. holds_mark (map_of (s_keys st) (cancelled_key k)) (a_cancelled a k)) \<and>
     (\<forall>n\<in>set S. holds_set (map_of (s_keys st) n) (a_member a n)) \<and>
     (\<forall>k\<in>set C. holds_num (map_of (s_keys st) k) (a_counter a k))"


lemma map_of_put [simp]: "map_of (put k v e ks) = (map_of ks)(k \<mapsto> (v, e))"
  by (simp add: put_def map_of_update)

lemma map_of_del [simp]: "map_of (cmd_del k ks) = (map_of ks)(k := None)"
  by (simp add: cmd_del_def AList.delete_conv')

lemma entry_live_before: "entry_live T e \<Longrightarrow> now \<le> T \<Longrightarrow> entry_live now e"
  by (auto simp: entry_live_def split: option.splits)

lemma stable_entry: "stable T ks \<Longrightarrow> now \<le> T \<Longrightarrow> entry now ks k = map_of ks k"
  by (auto simp: stable_def entry_def split: option.splits intro: entry_live_before)

lemma stable_put [intro]: "stable T ks \<Longrightarrow> entry_live T (v, e) \<Longrightarrow> stable T (put k v e ks)"
  by (auto simp: stable_def)

lemma stable_put_kept: "stable T ks \<Longrightarrow> map_of ks k = Some (v', e) \<Longrightarrow> stable T (put k v e ks)"
  by (rule stable_put) (force simp: stable_def entry_live_def)+

lemma stable_del [intro]: "stable T ks \<Longrightarrow> stable T (cmd_del k ks)"
  by (auto simp: stable_def)

lemma starts_with_append [simp]: "starts_with (p @ s) p"
  by (simp add: starts_with_def)

lemma clash_freeD:
  assumes "clash_free S C"
  shows "progress_key k \<notin> set S" "cancelled_key k \<notin> set S" "progress_key k \<notin> set C" "cancelled_key k \<notin> set C"
    "n \<in> set S \<Longrightarrow> n \<notin> set C"
proof -
  have p: "starts_with (progress_key k) ''progress:''" "starts_with (cancelled_key k) ''cancelled:''"
    by (simp_all only: progress_key_def cancelled_key_def starts_with_append)
  have l: "\<forall>n\<in>set S \<union> set C. \<not> starts_with n ''progress:'' \<and> \<not> starts_with n ''cancelled:''" "\<forall>n\<in>set S. n \<notin> set C"
    using assms by (simp_all add: clash_free_def list_all_iff del: append_Cons)
  show "progress_key k \<notin> set S" "progress_key k \<notin> set C" using p(1) l(1) by blast+
  show "cancelled_key k \<notin> set S" "cancelled_key k \<notin> set C" using p(2) l(1) by blast+
  show "n \<in> set S \<Longrightarrow> n \<notin> set C" using l(2) by blast
qed

text \<open>The four parts of the relation survive a change of a key of another part.\<close>

lemma redis_rel_progress:
  assumes "redis_rel T S C a st" "clash_free S C" "stable T ks"
    "map_of ks = (map_of (s_keys st))(progress_key k := e)" "map_option fst e = map_option RJson d"
  shows "redis_rel T S C (a\<lparr>a_progress := (a_progress a)(k := d)\<rparr>) (st\<lparr>s_keys := ks\<rparr>)"
  using assms clash_freeD [OF assms(2)] unfolding redis_rel_def by auto

lemma redis_rel_cancelled:
  assumes "redis_rel T S C a st" "clash_free S C" "stable T ks"
    "map_of ks = (map_of (s_keys st))(cancelled_key k := e)" "holds_mark e b"
  shows "redis_rel T S C (a\<lparr>a_cancelled := (a_cancelled a)(k := b)\<rparr>) (st\<lparr>s_keys := ks\<rparr>)"
  using assms clash_freeD [OF assms(2)] unfolding redis_rel_def by auto

lemma redis_rel_member:
  assumes "redis_rel T S C a st" "clash_free S C" "stable T ks" "n \<in> set S"
    "map_of ks = (map_of (s_keys st))(n := e)" "holds_set e m"
  shows "redis_rel T S C (a\<lparr>a_member := (a_member a)(n := m)\<rparr>) (st\<lparr>s_keys := ks\<rparr>)"
proof -
  have "progress_key k \<noteq> n" "cancelled_key k \<noteq> n" "n \<notin> set C" for k
    using clash_freeD [OF assms(2)] assms(4) by metis+
  then show ?thesis using assms unfolding redis_rel_def by auto
qed

lemma redis_rel_counter:
  assumes "redis_rel T S C a st" "clash_free S C" "stable T ks" "n \<in> set C"
    "map_of ks = (map_of (s_keys st))(n := e)" "holds_num e m"
  shows "redis_rel T S C (a\<lparr>a_counter := (a_counter a)(n := m)\<rparr>) (st\<lparr>s_keys := ks\<rparr>)"
proof -
  have "progress_key k \<noteq> n" "cancelled_key k \<noteq> n" "n \<notin> set S" for k
    using clash_freeD [OF assms(2)] assms(4) by metis+
  then show ?thesis using assms unfolding redis_rel_def by auto
qed

lemma redis_member_op:
  assumes r: "redis_rel T S C a st" and n: "n \<in> set S" and t: "now \<le> T"
  obtains "entry now (s_keys st) n = None" "map_of (s_keys st) n = None" "a_member a n = (\<lambda>v. False)"
    | xs e where "entry now (s_keys st) n = Some (RSet xs, e)" "map_of (s_keys st) n = Some (RSet xs, e)"
      "a_member a n = (\<lambda>v. v \<in> set xs)" "\<forall>w. entry_live T (w, e)"
proof -
  have "holds_set (map_of (s_keys st) n) (a_member a n)" "stable T (s_keys st)" using r n by (auto simp: redis_rel_def)
  moreover from this have "entry now (s_keys st) n = map_of (s_keys st) n" using t by (simp add: stable_entry)
  ultimately show ?thesis
    using that by (cases "map_of (s_keys st) n") (auto simp: holds_set_def stable_def entry_live_def split: rvalue.splits)
qed

lemma int_str_not_Nil [simp]: "int_str n \<noteq> []"
  by (simp add: int_str_def)

lemma redis_counter_op:
  assumes r: "redis_rel T S C a st" and n: "n \<in> set C" and t: "now \<le> T"
  obtains "entry now (s_keys st) n = None" "map_of (s_keys st) n = None" "a_counter a n = 0"
    | e where "entry now (s_keys st) n = Some (RText (int_str (a_counter a n)), e)"
      "map_of (s_keys st) n = Some (RText (int_str (a_counter a n)), e)" "\<forall>w. entry_live T (w, e)"
proof -
  have "holds_num (map_of (s_keys st) n) (a_counter a n)" "stable T (s_keys st)" using r n by (auto simp: redis_rel_def)
  moreover from this have "entry now (s_keys st) n = map_of (s_keys st) n" using t by (simp add: stable_entry)
  ultimately show ?thesis
    using that by (cases "map_of (s_keys st) n") (auto simp: holds_num_def stable_def entry_live_def split: rvalue.splits)
qed

lemma redis_progress_ops:
  assumes r: "redis_rel T S C a st" and o: "op_ok T S C a c x"
    and x: "x \<in> {SetProgress k d ttl, GetProgress k, DeleteProgress k}"
  shows "\<exists>st'. exec c x st = Some (fst (spec x a), st') \<and> redis_rel T S C (snd (spec x a)) st'"
proof -
  have f: "s_client st" "s_available st" "stable T (s_keys st)" "c_now c \<le> T" "c_up c 0" "lasting T c x" "clash_free S C"
    and g: "map_option fst (map_of (s_keys st) (progress_key k)) = map_option RJson (a_progress a k)"
    using r o by (auto simp: redis_rel_def op_ok_def)
  consider "x = SetProgress k d ttl" | "x = GetProgress k" | "x = DeleteProgress k" using x by blast
  then show ?thesis
  proof cases
    case 1
    have "stable T (put (progress_key k) (RJson d) (Some (c_now c + of_int ttl)) (s_keys st))"
      using f 1 by (intro stable_put) auto
    from redis_rel_progress [OF r f(7) this] f 1 show ?thesis by (auto simp: set_progress_def cmd_set_def)
  next
    case 2
    have e: "entry (c_now c) (s_keys st) (progress_key k) = map_of (s_keys st) (progress_key k)"
      using f by (simp add: stable_entry)
    show ?thesis using f g r 2
      by (cases "a_progress a k") (auto simp: get_progress_def cmd_get_def e)
  next
    case 3
    have s: "stable T (cmd_del (progress_key k) (s_keys st))" using f by auto
    have "redis_rel T S C a' st' \<Longrightarrow> redis_rel T S C a' (st'\<lparr>s_progress := p\<rparr>)" for a' st' p
      by (simp add: redis_rel_def)
    with redis_rel_progress [OF r f(7) s, of k None None] f 3 show ?thesis by (simp add: delete_progress_def fun_upd_def)
  qed
qed

lemma redis_cancelled_ops:
  assumes r: "redis_rel T S C a st" and o: "op_ok T S C a c x"
    and x: "x \<in> {MarkCancelled k ttl, IsCancelled k, ClearCancelled k}"
  shows "\<exists>st'. exec c x st = Some (fst (spec x a), st') \<and> redis_rel T S C (snd (spec x a)) st'"
proof -
  have f: "s_client st" "s_available st" "stable T (s_keys st)" "c_now c \<le> T" "c_up c 0" "lasting T c x" "clash_free S C"
    and g: "holds_mark (map_of (s_keys st) (cancelled_key k)) (a_cancelled a k)"
    using r o by (auto simp: redis_rel_def op_ok_def)
  consider "x = MarkCancelled k ttl" | "x = IsCancelled k" | "x = ClearCancelled k" using x by blast
  then show ?thesis
  proof cases
    case 1
    have "stable T (put (cancelled_key k) (RText ''1'') (Some (c_now c + of_int ttl)) (s_keys st))"
      using f 1 by (intro stable_put) auto
    from redis_rel_cancelled [OF r f(7) this] f 1 show ?thesis by (auto simp: mark_cancelled_def cmd_set_def holds_mark_def)
  next
    case 2
    have e: "entry (c_now c) (s_keys st) (cancelled_key k) = map_of (s_keys st) (cancelled_key k)"
      using f by (simp add: stable_entry)
    show ?thesis using f g r 2
      by (cases "a_cancelled a k") (auto simp: is_cancelled_def cmd_get_def e holds_mark_def)
  next
    case 3
    have s: "stable T (cmd_del (cancelled_key k) (s_keys st))" using f by auto
    have "redis_rel T S C a' st' \<Longrightarrow> redis_rel T S C a' (st'\<lparr>s_cancelled := p\<rparr>)" for a' st' p
      by (simp add: redis_rel_def)
    with redis_rel_cancelled [OF r f(7) s, of k None False] f 3 show ?thesis by (simp add: clear_cancelled_def holds_mark_def)
  qed
qed

lemma redis_srem:
  assumes r: "redis_rel T S C a st" and n: "n \<in> set S" and t: "now \<le> T"
  shows "\<exists>ks e. cmd_srem now n v (s_keys st) = Some ks \<and> map_of ks = (map_of (s_keys st))(n := e) \<and>
    holds_set e ((a_member a n)(v := False)) \<and> stable T ks"
proof -
  have st: "stable T (s_keys st)" using r by (simp add: redis_rel_def)
  show ?thesis
  proof (rule redis_member_op [OF r n t])
    assume "entry now (s_keys st) n = None" "map_of (s_keys st) n = None" "a_member a n = (\<lambda>v. False)"
    then show ?thesis using st by (intro exI [of _ "s_keys st"] exI [of _ None]) (simp add: cmd_srem_def holds_set_def fun_upd_idem)
  next
    fix xs e
    assume a: "entry now (s_keys st) n = Some (RSet xs, e)" "map_of (s_keys st) n = Some (RSet xs, e)"
      "a_member a n = (\<lambda>v. v \<in> set xs)" "\<forall>w. entry_live T (w, e)"
    have m: "(a_member a n)(v := False) = (\<lambda>u. u \<in> set (removeAll v xs))" using a(3) by (auto simp: fun_eq_iff)
    show ?thesis
    proof (cases "removeAll v xs = []")
      case True
      with a(1) have "cmd_srem now n v (s_keys st) = Some (cmd_del n (s_keys st))" by (simp add: cmd_srem_def)
      with True st show ?thesis by (auto simp: m holds_set_def)
    next
      case False
      with a(1) have "cmd_srem now n v (s_keys st) = Some (put n (RSet (removeAll v xs)) e (s_keys st))" by (simp add: cmd_srem_def)
      with st a(4) show ?thesis
        by (intro exI [of _ "put n (RSet (removeAll v xs)) e (s_keys st)"] exI [of _ "Some (RSet (removeAll v xs), e)"])
          (simp add: m holds_set_def stable_put)
    qed
  qed
qed

lemma redis_set_ops:
  assumes r: "redis_rel T S C a st" and o: "op_ok T S C a c x"
    and x: "x \<in> {AddToSet n v ttl, RemoveFromSet n v, IsInSet n v}"
  shows "\<exists>st'. exec c x st = Some (fst (spec x a), st') \<and> redis_rel T S C (snd (spec x a)) st'"
proof -
  have f: "s_available st" "stable T (s_keys st)" "c_now c \<le> T" "c_up c 0" "c_up c 1" "lasting T c x" "clash_free S C" "n \<in> set S"
    using r o x by (auto simp: redis_rel_def op_ok_def)
  consider "x = AddToSet n v ttl" | "x = RemoveFromSet n v" | "x = IsInSet n v" using x by blast
  then show ?thesis
  proof cases
    case 1
    define m where "m = (a_member a n)(v := True)"
    obtain ys e where ks: "cmd_sadd (c_now c) n v (s_keys st) = Some (put n (RSet ys) e (s_keys st))"
        "m = (\<lambda>u. u \<in> set ys)" "entry_live T (RSet ys, e)"
      by (rule redis_member_op [OF r f(8,3)]) (fastforce simp: cmd_sadd_def m_def fun_eq_iff entry_live_def)+
    obtain e' where e': "exec c x st = Some (Done, st\<lparr>s_keys := put n (RSet ys) e' (put n (RSet ys) e (s_keys st))\<rparr>) \<or>
        exec c x st = Some (Done, st\<lparr>s_keys := put n (RSet ys) e (s_keys st)\<rparr>)" "entry_live T (RSet ys, e')"
      using ks f 1 by (cases ttl) (fastforce simp: add_to_set_def cmd_expire_def entry_live_before)+
    have s: "stable T (put n (RSet ys) e (s_keys st))" using f ks by auto
    then have s': "stable T (put n (RSet ys) e' (put n (RSet ys) e (s_keys st)))" using e' by auto
    have h: "holds_set (Some (RSet ys, t)) m" for t using ks by (simp add: holds_set_def)
    show ?thesis
      using redis_rel_member [OF r f(7) s f(8), of "Some (RSet ys, e)" m]
        redis_rel_member [OF r f(7) s' f(8), of "Some (RSet ys, e')" m] h e'(1) 1 by (auto simp: m_def)
  next
    case 2
    define m where "m = (a_member a n)(v := False)"
    obtain ks e where ks: "cmd_srem (c_now c) n v (s_keys st) = Some ks" "map_of ks = (map_of (s_keys st))(n := e)"
        "holds_set e m" "stable T ks"
      using redis_srem [OF r f(8,3)] unfolding m_def by blast
    then show ?thesis using redis_rel_member [OF r f(7) ks(4) f(8) ks(2,3)] f 2 by (auto simp: remove_from_set_def m_def)
  next
    case 3
    show ?thesis by (rule redis_member_op [OF r f(8,3)]) (use f r 3 in \<open>auto simp: is_in_set_def cmd_sismember_def\<close>)
  qed
qed

lemma redis_counter_ops:
  assumes r: "redis_rel T S C a st" and o: "op_ok T S C a c x"
    and x: "x \<in> {Increment k ttl, GetCounter k, Decrement k}"
  shows "\<exists>st'. exec c x st = Some (fst (spec x a), st') \<and> redis_rel T S C (snd (spec x a)) st'"
proof -
  have f: "s_available st" "stable T (s_keys st)" "c_now c \<le> T" "c_up c 0" "lasting T c x" "clash_free S C" "k \<in> set C"
    using r o x by (auto simp: redis_rel_def op_ok_def)
  have inc: "\<exists>e. cmd_incrby (c_now c) k d (s_keys st) =
      Some (a_counter a k + d, put k (RText (int_str (a_counter a k + d))) e (s_keys st)) \<and>
      entry_live T (RText (int_str (a_counter a k + d)), e)" for d
    by (rule redis_counter_op [OF r f(7,3)]) (auto simp: cmd_incrby_def entry_live_def)
  have h: "holds_num (Some (RText (int_str n), t)) n" for n t by (simp add: holds_num_def)
  consider "x = Increment k ttl" | "x = GetCounter k" | "x = Decrement k" using x by blast
  then show ?thesis
  proof cases
    case 1
    let ?v = "RText (int_str (a_counter a k + 1))" and ?e = "Some (c_now c + of_int ttl)"
    obtain e where e: "cmd_incrby (c_now c) k 1 (s_keys st) = Some (a_counter a k + 1, put k ?v e (s_keys st))"
        "entry_live T (?v, e)" using inc by blast
    have l: "entry_live T (?v, ?e)" "0 < ttl" using f(5) 1 by auto
    have s: "stable T (put k ?v ?e (put k ?v e (s_keys st)))" using f(2) e(2) l(1) by (intro stable_put)
    have x': "exec c x st = Some (Num (a_counter a k + 1), st\<lparr>s_keys := put k ?v ?e (put k ?v e (s_keys st))\<rparr>)"
      using e l f(1,3,4) 1 by (simp add: increment_counter_def cmd_expire_def entry_live_before)
    show ?thesis using redis_rel_counter [OF r f(6) s f(7) _ h] x' 1 by simp
  next
    case 2
    show ?thesis
      by (rule redis_counter_op [OF r f(7,3)]) (use f r 2 in \<open>auto simp: get_counter_def cmd_get_def\<close>)
  next
    case 3
    let ?v = "RText (int_str (a_counter a k - 1))"
    obtain e where e: "cmd_incrby (c_now c) k (- 1) (s_keys st) = Some (a_counter a k - 1, put k ?v e (s_keys st))"
        "entry_live T (?v, e)" using inc [of "- 1"] by auto
    have s: "stable T (put k ?v e (s_keys st))" using f(2) e(2) by (intro stable_put)
    show ?thesis using redis_rel_counter [OF r f(6) s f(7) _ h] e f 3 by (simp add: decrement_counter_def)
  qed
qed

lemma redis_refines:
  assumes "redis_rel T S C a st" "op_ok T S C a c x"
  shows "\<exists>st'. exec c x st = Some (fst (spec x a), st') \<and> redis_rel T S C (snd (spec x a)) st'"
proof (cases x)
  case (SetProgress k d ttl)
  then show ?thesis using redis_progress_ops [OF assms, of k d ttl] by blast
next
  case (GetProgress k)
  then show ?thesis using redis_progress_ops [OF assms, of k] by blast
next
  case (DeleteProgress k)
  then show ?thesis using redis_progress_ops [OF assms, of k] by blast
next
  case (MarkCancelled k ttl)
  then show ?thesis using redis_cancelled_ops [OF assms, of k ttl] by blast
next
  case (IsCancelled k)
  then show ?thesis using redis_cancelled_ops [OF assms, of k] by blast
next
  case (ClearCancelled k)
  then show ?thesis using redis_cancelled_ops [OF assms, of k] by blast
next
  case (AddToSet n v ttl)
  then show ?thesis using redis_set_ops [OF assms, of n v ttl] by blast
next
  case (RemoveFromSet n v)
  then show ?thesis using redis_set_ops [OF assms, of n v] by blast
next
  case (IsInSet n v)
  then show ?thesis using redis_set_ops [OF assms, of n v] by blast
next
  case (Increment k ttl)
  then show ?thesis using redis_counter_ops [OF assms, of k ttl] by blast
next
  case (GetCounter k)
  then show ?thesis using redis_counter_ops [OF assms, of k] by blast
next
  case (Decrement k)
  then show ?thesis using redis_counter_ops [OF assms, of k] by blast
qed

interpretation redis: shared_store "redis_rel T S C" "op_ok T S C" for T S C
  by unfold_locales (rule redis_refines)

section \<open>The two stores answer alike\<close>

definition started :: "bool \<Rightarrow> shared" where
  "started up = \<lparr>s_client = True, s_available = up, s_keys = [], s_progress = [], s_cancelled = [],
     s_sets = [], s_counters = []\<rparr>"

definition nothing :: abstract where
  "nothing = \<lparr>a_progress = (\<lambda>k. None), a_cancelled = (\<lambda>k. False), a_member = (\<lambda>n v. False), a_counter = (\<lambda>k. 0)\<rparr>"

lemma started_rels: "mem_rel nothing (started False)" "redis_rel T S C nothing (started True)"
  by (simp_all add: mem_rel_def redis_rel_def started_def nothing_def stable_def holds_mark_def holds_set_def holds_num_def)


definition steady :: call where
  "steady = \<lparr>c_now = 0, c_connect = Pong, c_up = (\<lambda>i. True)\<rparr>"

definition sample_ops :: "(call \<times> op) list" where
  "sample_ops = map (Pair steady) [SetProgress ''deploy:p'' (JInt 3) 7200, MarkCancelled ''p'' 3600, AddToSet ''mon'' ''a'' (Some 86400),
     Increment ''n'' 7200, Increment ''n'' 7200, Decrement ''n'', GetCounter ''n'', GetProgress ''deploy:p'', IsCancelled ''p'',
     ClearCancelled ''p'', IsCancelled ''p'', IsInSet ''mon'' ''a'', RemoveFromSet ''mon'' ''a'', IsInSet ''mon'' ''a'']"


text \<open>The one difference: a counter that is decremented at zero goes negative in Redis and
  stays at zero in memory, so that the next increment reports different counts.\<close>

theorem decrement_at_zero_differs:
  "map_option fst (run [(steady, Decrement k), (steady, GetCounter k)] (started True)) = Some [Done, Num (- 1)] \<and>
   map_option fst (run [(steady, Decrement k), (steady, GetCounter k)] (started False)) = Some [Done, Num 0]"
  by (simp add: started_def steady_def decrement_counter_def get_counter_def cmd_incrby_def cmd_get_def dict_get_def)

end
