(* ===== verification/Rate_Window.thy ===== *)
theory Rate_Window
  imports Redis_Store
begin

text \<open>
  The sliding window of \<open>core/redis.py\<close> bounds the calls it allows: however the calls are
  spread, no window of the given length holds more allowed calls than the limit.
\<close>

lemma zget_expire:
  assumes "zget now k ks = Some (zs, e)" "zs \<noteq> []" "0 < ex" "now \<le> now'"
  shows "zget now' k (cmd_expire now k ex ks) = Some (if now' < now + of_int ex then (zs, Some (now + of_int ex)) else ([], None))"
proof -
  have "entry now ks k = Some (RZset zs, e)"
    using assms(1,2) by (auto simp: zget_def split: option.splits rvalue.splits)
  then show ?thesis using assms(3) by (simp add: cmd_expire_def zget_def)
qed

lemma entry_expire_other: "k' \<noteq> k \<Longrightarrow> entry now' (cmd_expire now k ex ks) k' = entry now' ks k'"
  by (simp add: cmd_expire_def split: option.splits)

text \<open>The calls made so far and the sorted set: every call still in the window is a member.\<close>

definition tracks :: "string \<Rightarrow> int \<Rightarrow> (string \<times> rtime) list \<Rightarrow> rtime \<Rightarrow> keyspace \<Rightarrow> bool" where
  "tracks key w calls t ks \<longleftrightarrow> distinct (map fst calls) \<and> (\<forall>x\<in>set calls. snd x \<le> t) \<and>
     (\<forall>now\<ge>t. \<exists>zs e. zget now key ks = Some (zs, e) \<and> distinct (map fst zs) \<and>
        {x \<in> set calls. now - of_int w < snd x} \<subseteq> set zs)"

definition in_window :: "int \<Rightarrow> rtime \<Rightarrow> (string \<times> rtime) list \<Rightarrow> nat" where
  "in_window w T calls = length (filter (\<lambda>x. T - of_int w < snd x) calls)"

lemma in_window_append [simp]: "in_window w T (xs @ ys) = in_window w T xs + in_window w T ys"
  by (simp add: in_window_def)

lemma in_window_mono: "T \<le> T' \<Longrightarrow> in_window w T' calls \<le> in_window w T calls"
  unfolding in_window_def by (induction calls) auto

lemma in_window_card: "distinct (map fst calls) \<Longrightarrow> in_window w T calls = card {x \<in> set calls. T - of_int w < snd x}"
  unfolding in_window_def by (subst distinct_card [symmetric]) (auto simp: distinct_map)

lemma update_keeps: "x \<in> set zs \<Longrightarrow> fst x \<noteq> k \<Longrightarrow> x \<in> set (AList.update k v zs)"
  by (induction zs) auto

lemma update_sets: "(k, v) \<in> set (AList.update k v zs)"
  by (induction zs) auto

lemma window_step:
  assumes t: "tracks key w calls t (s_keys st)" "t \<le> c_now c" "0 < w" "m \<notin> fst ` set calls" "s_available st" "c_up c 0"
  shows "\<exists>count st'. sliding_window_rate c m key w limit st = Some ((\<not> count > limit, count), st') \<and>
    s_available st' \<and> tracks key w (calls @ [(m, c_now c)]) (c_now c) (s_keys st') \<and>
    int (in_window w (c_now c) (calls @ [(m, c_now c)])) \<le> count"
proof -
  let ?now = "c_now c" and ?calls = "calls @ [(m, c_now c)]"
  obtain zs e where zs: "zget ?now key (s_keys st) = Some (zs, e)" "distinct (map fst zs)"
      "{x \<in> set calls. ?now - of_int w < snd x} \<subseteq> set zs"
    using t(1,2) unfolding tracks_def by blast
  define z1 where "z1 = filter (\<lambda>z. \<not> (0 \<le> snd z \<and> snd z \<le> ?now - of_int w)) zs"
  define z2 where "z2 = AList.update m ?now z1"
  define k1 where "k1 = zput key z1 e (s_keys st)"
  define e1 where "e1 = (if z1 = [] then None else e)"
  define k2 where "k2 = zput key z2 e1 k1"
  have ne: "z2 \<noteq> []" by (simp add: z2_def update_nonempty)
  have g1: "zget ?now key k1 = Some (z1, e1)" unfolding k1_def e1_def by (rule zget_zput) (rule zget_live [OF zs(1)])
  have g2: "zget ?now key k2 = Some (z2, e1)"
    unfolding k2_def using zget_zput [of ?now z2 e1 key k1] zget_live [OF g1] ne by simp
  have d2: "distinct (map fst z2)"
    unfolding z2_def z1_def by (intro AList.distinct_update distinct_map_filter zs(2))
  have sub: "{x \<in> set ?calls. ?now - of_int w < snd x} \<subseteq> set z2"
  proof
    fix x
    assume x: "x \<in> {x \<in> set ?calls. ?now - of_int w < snd x}"
    show "x \<in> set z2"
    proof (cases "x = (m, ?now)")
      case True
      then show ?thesis by (simp add: z2_def update_sets)
    next
      case False
      with x have "x \<in> set calls" by auto
      moreover from this have "fst x \<noteq> m" using t(4) by auto
      ultimately show ?thesis using x zs(3) unfolding z2_def by (intro update_keeps) (auto simp: z1_def)
    qed
  qed
  have dl: "distinct (map fst ?calls)" "\<forall>x\<in>set ?calls. snd x \<le> ?now" using t by (auto simp: tracks_def)
  have cnt: "in_window w ?now ?calls \<le> length z2"
  proof -
    have "in_window w ?now ?calls \<le> card (set z2)" unfolding in_window_card [OF dl(1)] by (rule card_mono) (use sub in auto)
    then show ?thesis using card_length [of z2] by simp
  qed
  have tr: "tracks key w ?calls ?now (cmd_expire ?now key (w + 1) k2)"
    unfolding tracks_def
  proof (intro conjI allI impI dl)
    fix now' assume n: "?now \<le> now'"
    have "{x \<in> set ?calls. now' - of_int w < snd x} = {}" if "\<not> now' < ?now + of_int (w + 1)"
      using dl(2) that by force
    moreover have "{x \<in> set ?calls. now' - of_int w < snd x} \<subseteq> set z2" using sub n by auto
    ultimately show "\<exists>zs e. zget now' key (cmd_expire ?now key (w + 1) k2) = Some (zs, e) \<and> distinct (map fst zs) \<and>
        {x \<in> set ?calls. now' - of_int w < snd x} \<subseteq> set zs"
      using zget_expire [OF g2 ne _ n, of "w + 1"] d2 t(3) by (cases "now' < ?now + of_int (w + 1)") auto
  qed
  have c1: "cmd_zremrangebyscore ?now key 0 (?now - of_int w) (s_keys st) = Some k1"
    by (simp only: cmd_zremrangebyscore_def zs(1) k1_def z1_def bind.simps prod.case)
  have c2: "cmd_zadd ?now key m ?now k1 = Some k2" by (simp add: cmd_zadd_def g1 k2_def z2_def)
  have c3: "cmd_zcard ?now key k2 = Some (int (length z2))" by (simp add: cmd_zcard_def g2)
  have "sliding_window_rate c m key w limit st =
      Some ((\<not> int (length z2) > limit, int (length z2)), st\<lparr>s_keys := cmd_expire ?now key (w + 1) k2\<rparr>)"
    using t(5,6) c1 c2 c3 by (simp add: sliding_window_rate_def Let_def)
  with tr cnt t(5) show ?thesis by (intro exI [of _ "int (length z2)"]) simp
qed

text \<open>A sequence of calls on one key, each with its member, and what each was answered.\<close>

fun window_run :: "string \<Rightarrow> int \<Rightarrow> int \<Rightarrow> (call \<times> string) list \<Rightarrow> shared \<Rightarrow> (rtime \<times> bool) list option" where
  "window_run key w limit [] st = Some []"
| "window_run key w limit ((c, m) # cs) st = do {
     ((ok, n), st') \<leftarrow> sliding_window_rate c m key w limit st;
     rest \<leftarrow> window_run key w limit cs st';
     Some ((c_now c, ok) # rest)
   }"

definition allowed_in :: "int \<Rightarrow> rtime \<Rightarrow> (rtime \<times> bool) list \<Rightarrow> nat" where
  "allowed_in w T tr = length (filter (\<lambda>x. snd x \<and> T - of_int w < fst x \<and> fst x \<le> T) tr)"

lemma window_run_bound:
  assumes "tracks key w calls t (s_keys st)" "0 < w" "s_available st"
    "list_all (\<lambda>x. c_up (fst x) 0 \<and> t \<le> c_now (fst x)) cs" "sorted (map (\<lambda>x. c_now (fst x)) cs)"
    "distinct (map snd cs)" "set (map snd cs) \<inter> fst ` set calls = {}"
  shows "\<exists>tr. window_run key w limit cs st = Some tr \<and> length tr = length cs \<and>
    (\<forall>T. allowed_in w T tr > 0 \<longrightarrow> int (in_window w T calls + allowed_in w T tr) \<le> limit)"
  using assms
proof (induction cs arbitrary: calls t st)
  case Nil
  then show ?case by (simp add: allowed_in_def)
next
  case (Cons x cs)
  obtain c m where x: "x = (c, m)" by fastforce
  have p: "t \<le> c_now c" "m \<notin> fst ` set calls" "c_up c 0" using Cons.prems by (auto simp: x)
  obtain count st' where s: "sliding_window_rate c m key w limit st = Some ((\<not> count > limit, count), st')"
      "s_available st'" "tracks key w (calls @ [(m, c_now c)]) (c_now c) (s_keys st')"
      "int (in_window w (c_now c) (calls @ [(m, c_now c)])) \<le> count"
    using window_step [OF Cons.prems(1) p(1) Cons.prems(2) p(2) Cons.prems(3) p(3)] by blast
  have "list_all (\<lambda>x. c_up (fst x) 0 \<and> c_now c \<le> c_now (fst x)) cs" "sorted (map (\<lambda>x. c_now (fst x)) cs)"
      "distinct (map snd cs)" "set (map snd cs) \<inter> fst ` set (calls @ [(m, c_now c)]) = {}"
    using Cons.prems(4-7) by (auto simp: x list_all_iff)
  from Cons.IH [OF s(3) Cons.prems(2) s(2) this] obtain tr where tr: "window_run key w limit cs st' = Some tr"
      "length tr = length cs" "\<And>T. allowed_in w T tr > 0 \<Longrightarrow> int (in_window w T (calls @ [(m, c_now c)]) + allowed_in w T tr) \<le> limit"
    by blast
  let ?h = "(c_now c, \<not> count > limit)"
  have "int (in_window w T calls + allowed_in w T (?h # tr)) \<le> limit" if a: "allowed_in w T (?h # tr) > 0" for T
  proof (cases "allowed_in w T tr > 0")
    case True
    have "allowed_in w T (?h # tr) \<le> in_window w T [(m, c_now c)] + allowed_in w T tr"
      by (auto simp: allowed_in_def in_window_def)
    with tr(3) [OF True] show ?thesis by simp
  next
    case False
    with a have h: "\<not> count > limit" "c_now c \<le> T" "allowed_in w T (?h # tr) = in_window w T [(m, c_now c)]"
      by (auto simp: allowed_in_def in_window_def split: if_splits)
    then show ?thesis using in_window_mono [OF h(2), of w "calls @ [(m, c_now c)]"] s(4) by simp
  qed
  with tr s(1) show ?case by (simp add: x)
qed


definition window_sample :: "(call \<times> string) list" where
  "window_sample = map (\<lambda>(t, m). (\<lparr>c_now = t, c_connect = Pong, c_up = (\<lambda>i. True)\<rparr>, m))
     [(10, ''a''), (20, ''b''), (30, ''c''), (75, ''d'')]"

definition empty_shared :: shared where
  "empty_shared = \<lparr>s_client = True, s_available = True, s_keys = [], s_progress = [], s_cancelled = [], s_sets = [], s_counters = []\<rparr>"


end
