(* ===== verification/Rate_Limit.thy ===== *)
theory Rate_Limit
  imports Rate_Window
begin

text \<open>
  \<open>src/src/backend/app/core/rate_limit.py\<close>: request and deploy limits, and the ban of
  addresses that only ever fail to authenticate. SHA-256 and the text of a time are the
  parameters \<open>sha\<close> and \<open>ts\<close>. The functions swallow every exception; a raise in the middle keeps
  the commands that had reached Redis.
\<close>

section \<open>Settings\<close>

record environ =
  v_disabled :: bool
  v_pytest :: bool
  v_in_tests :: bool

definition enforcement_enabled :: "environ \<Rightarrow> bool" where
  "enforcement_enabled env = (if v_disabled env then False else if v_pytest env \<and> \<not> v_in_tests env then False else True)"

definition BAN_WINDOW :: int where "BAN_WINDOW = 60"
definition BAN_THRESHOLD :: int where "BAN_THRESHOLD = 100"
definition BAN_DURATION :: int where "BAN_DURATION = 300"
definition EXEMPT_PATHS :: "string list" where "EXEMPT_PATHS = [''/api/v1/health'', ''/api/v1/ws'']"
definition MAX_REQUESTS_PER_MINUTE :: int where "MAX_REQUESTS_PER_MINUTE = 100"
definition MAX_UNAUTH_REQUESTS_PER_IP_PER_MINUTE :: int where "MAX_UNAUTH_REQUESTS_PER_IP_PER_MINUTE = 3000"
definition MAX_TUNNEL_OPENS_PER_IP_PER_MINUTE :: int where "MAX_TUNNEL_OPENS_PER_IP_PER_MINUTE = 2000"
definition MAX_CONCURRENT_DEPLOYS_PER_USER :: int where "MAX_CONCURRENT_DEPLOYS_PER_USER = 20"

section \<open>Who is calling\<close>

definition first_forwarded :: "string \<Rightarrow> string" where
  "first_forwarded s = py_strip (hd (py_split (CHR '','') s))"

definition get_client_ip :: "string option \<Rightarrow> string option \<Rightarrow> string" where
  "get_client_ip forwarded client_host =
     (case forwarded of
        Some f \<Rightarrow> if f \<noteq> [] then first_forwarded f else (case client_host of Some h \<Rightarrow> h | None \<Rightarrow> ''unknown'')
      | None \<Rightarrow> (case client_host of Some h \<Rightarrow> h | None \<Rightarrow> ''unknown''))"

definition client_ip_from_headers :: "(string \<times> string) list \<Rightarrow> string \<Rightarrow> string" where
  "client_ip_from_headers headers fallback =
     (let a = dict_get headers ''x-forwarded-for'' [];
          forwarded = (if a \<noteq> [] then a else dict_get headers ''X-Forwarded-For'' [])
      in if forwarded \<noteq> [] then first_forwarded forwarded else fallback)"

text \<open>\<open>authorization.split(" ", 1)[1]\<close> of a text that starts with "bearer " is what follows
  its first blank.\<close>

definition credential_fingerprint :: "(string \<Rightarrow> string) \<Rightarrow> string option \<Rightarrow> string option" where
  "credential_fingerprint sha authorization =
     (case authorization of
        None \<Rightarrow> None
      | Some a \<Rightarrow>
          if \<not> starts_with (py_lower a) ''bearer '' then None
          else let token = py_strip (drop 7 a) in if token = [] then None else Some (take 32 (sha token)))"

section \<open>Bans\<close>

definition ok_key :: "string \<Rightarrow> string" where "ok_key ip = ''ratelimit:auth_ok:'' @ ip"
definition fail_key :: "string \<Rightarrow> string" where "fail_key ip = ''ratelimit:auth_fail:'' @ ip"
definition ban_key :: "string \<Rightarrow> string" where "ban_key ip = ''ratelimit:banned:'' @ ip"

text \<open>A command whose error is swallowed: the state before it remains.\<close>

definition swallow :: "shared \<Rightarrow> keyspace option \<Rightarrow> shared" where
  "swallow st ks = (case ks of None \<Rightarrow> st | Some k \<Rightarrow> st\<lparr>s_keys := k\<rparr>)"

definition record_auth_success :: "call \<Rightarrow> string \<Rightarrow> shared \<Rightarrow> shared" where
  "record_auth_success c ip st =
     (if ip = [] \<or> ip = ''unknown'' then st
      else case get_redis c st of
        None \<Rightarrow> st
      | Some st \<Rightarrow> if c_up c 0 then swallow st (cmd_set (c_now c) (ok_key ip) (RText ''1'') (BAN_WINDOW * 5) (s_keys st)) else st)"

definition record_failure_pipe :: "(rtime \<Rightarrow> string) \<Rightarrow> rtime \<Rightarrow> string \<Rightarrow> keyspace \<Rightarrow> (int \<times> keyspace) option" where
  "record_failure_pipe ts now key ks = do {
     k1 \<leftarrow> cmd_zadd now key (ts now) now ks;
     k2 \<leftarrow> cmd_zremrangebyscore now key 0 (now - of_int BAN_WINDOW) k1;
     count \<leftarrow> cmd_zcard now key k2;
     Some (count, cmd_expire now key (BAN_WINDOW + 1) k2)
   }"

definition record_auth_failure :: "(rtime \<Rightarrow> string) \<Rightarrow> call \<Rightarrow> string \<Rightarrow> shared \<Rightarrow> shared" where
  "record_auth_failure ts c ip st =
     (if ip = [] \<or> ip = ''unknown'' then st
      else case get_redis c st of
        None \<Rightarrow> st
      | Some st \<Rightarrow>
          if \<not> c_up c 0 then st
          else (case cmd_get (c_now c) (ok_key ip) (s_keys st) of
                  None \<Rightarrow> st
                | Some v \<Rightarrow>
                    if v \<noteq> None \<and> v \<noteq> Some (RText []) \<or> \<not> c_up c 1 then st
                    else (case record_failure_pipe ts (c_now c) (fail_key ip) (s_keys st) of
                            None \<Rightarrow> st
                          | Some (count, ks) \<Rightarrow>
                              let st1 = st\<lparr>s_keys := ks\<rparr>
                              in if \<not> count \<ge> BAN_THRESHOLD \<or> \<not> c_up c 2 then st1
                                 else let st2 = swallow st1 (cmd_set (c_now c) (ban_key ip) (RText ''1'') BAN_DURATION ks)
                                      in if c_up c 3 then st2\<lparr>s_keys := cmd_del (fail_key ip) (s_keys st2)\<rparr> else st2)))"

definition is_banned :: "call \<Rightarrow> string \<Rightarrow> shared \<Rightarrow> bool \<times> shared" where
  "is_banned c ip st =
     (case get_redis c st of
        None \<Rightarrow> (False, st)
      | Some st \<Rightarrow>
          if \<not> c_up c 0 then (False, st)
          else (case cmd_get (c_now c) (ban_key ip) (s_keys st) of
                  None \<Rightarrow> (False, st)
                | Some v \<Rightarrow> (v \<noteq> None, st)))"

section \<open>Request, tunnel and deploy limits\<close>

definition limited :: "call \<Rightarrow> string \<Rightarrow> string \<Rightarrow> int \<Rightarrow> string \<Rightarrow> shared \<Rightarrow> (bool \<times> string) \<times> shared" where
  "limited c member key limit reason st =
     (case sliding_window_rate c member key 60 limit st of
        None \<Rightarrow> ((True, []), st)
      | Some ((allowed, _), st) \<Rightarrow> ((allowed, if \<not> allowed then reason else []), st))"

definition check_request_rate ::
    "environ \<Rightarrow> (string \<Rightarrow> string) \<Rightarrow> call \<Rightarrow> string \<Rightarrow> string option \<Rightarrow> string \<Rightarrow> shared \<Rightarrow> (bool \<times> string) \<times> shared" where
  "check_request_rate env sha c member authorization ip st =
     (if \<not> enforcement_enabled env then ((True, []), st)
      else let fp = credential_fingerprint sha authorization
           in if fp \<noteq> None \<and> fp \<noteq> Some []
              then limited c member (''ratelimit:cred:'' @ the fp) MAX_REQUESTS_PER_MINUTE ''credential rate limit'' st
              else limited c member (''ratelimit:unauth_ip:'' @ ip) MAX_UNAUTH_REQUESTS_PER_IP_PER_MINUTE
                ''unauthenticated IP rate limit'' st)"

definition check_tunnel_open_rate :: "environ \<Rightarrow> call \<Rightarrow> string \<Rightarrow> string \<Rightarrow> shared \<Rightarrow> bool \<times> shared" where
  "check_tunnel_open_rate env c member ip st =
     (if \<not> enforcement_enabled env then (True, st)
      else case sliding_window_rate c member (''ratelimit:tunnel_open:'' @ ip) 60 MAX_TUNNEL_OPENS_PER_IP_PER_MINUTE st of
        None \<Rightarrow> (True, st)
      | Some ((allowed, _), st) \<Rightarrow> (allowed, st))"

definition deploys_key :: "string \<Rightarrow> string" where "deploys_key user_id = ''ratelimit:deploys:'' @ user_id"

definition check_deploy_rate :: "call \<Rightarrow> string \<Rightarrow> shared \<Rightarrow> (bool \<times> int) \<times> shared" where
  "check_deploy_rate c user_id st =
     (case get_redis c st of
        None \<Rightarrow> ((True, 0), st)
      | Some st \<Rightarrow>
          if \<not> c_up c 0 then ((True, 0), st)
          else (case cmd_get (c_now c) (deploys_key user_id) (s_keys st) of
                  Some None \<Rightarrow> ((0 < MAX_CONCURRENT_DEPLOYS_PER_USER, 0), st)
                | Some (Some (RText s)) \<Rightarrow>
                    (case (if s = [] then Some 0 else parse_int s) of
                       None \<Rightarrow> ((True, 0), st)
                     | Some n \<Rightarrow> ((n < MAX_CONCURRENT_DEPLOYS_PER_USER, n), st))
                | _ \<Rightarrow> ((True, 0), st)))"

definition increment_deploy_count :: "call \<Rightarrow> string \<Rightarrow> shared \<Rightarrow> shared" where
  "increment_deploy_count c user_id st =
     (case increment_counter c (deploys_key user_id) 7200 st of None \<Rightarrow> st | Some (n, st) \<Rightarrow> st)"

definition decrement_deploy_count :: "call \<Rightarrow> string \<Rightarrow> shared \<Rightarrow> shared" where
  "decrement_deploy_count c user_id st =
     (case decrement_counter c (deploys_key user_id) st of None \<Rightarrow> st | Some st \<Rightarrow> st)"

section \<open>The middleware\<close>

datatype response = Forbidden | Too_many | Response int

record request =
  q_path :: string
  q_forwarded :: "string option"
  q_client :: "string option"
  q_authorization :: "string option"

text \<open>The application behind the middleware is the parameter \<open>call_next\<close>: a status code and its
  effect on the shared state. The three accesses to Redis are separate calls.\<close>

definition dispatch ::
    "environ \<Rightarrow> (string \<Rightarrow> string) \<Rightarrow> (rtime \<Rightarrow> string) \<Rightarrow> call \<Rightarrow> call \<Rightarrow> call \<Rightarrow> string \<Rightarrow>
     (shared \<Rightarrow> int \<times> shared) \<Rightarrow> request \<Rightarrow> shared \<Rightarrow> response \<times> shared" where
  "dispatch env sha ts c1 c2 c3 member call_next q st =
     (if q_path q \<in> set EXEMPT_PATHS \<or> \<not> enforcement_enabled env
      then (case call_next st of (code, st) \<Rightarrow> (Response code, st))
      else let ip = get_client_ip (q_forwarded q) (q_client q);
               (banned, st) = is_banned c1 ip st
           in if banned then (Forbidden, st)
              else let ((allowed, reason), st) = check_request_rate env sha c2 member (q_authorization q) ip st
                   in if \<not> allowed then (Too_many, st)
                      else let (code, st) = call_next st;
                               st = (if code = 401 then record_auth_failure ts c3 ip st
                                     else if 200 \<le> code \<and> code < 400 \<and> credential_fingerprint sha (q_authorization q) \<noteq> None
                                       \<and> credential_fingerprint sha (q_authorization q) \<noteq> Some []
                                     then record_auth_success c3 ip st else st)
                           in (Response code, st))"

section \<open>Who gets banned\<close>

datatype auth_event = Auth_ok string | Auth_fail string

fun auth_step :: "(rtime \<Rightarrow> string) \<Rightarrow> shared \<Rightarrow> call \<times> auth_event \<Rightarrow> shared" where
  "auth_step ts st (c, Auth_ok ip) = record_auth_success c ip st"
| "auth_step ts st (c, Auth_fail ip) = record_auth_failure ts c ip st"

definition auth_run :: "(rtime \<Rightarrow> string) \<Rightarrow> (call \<times> auth_event) list \<Rightarrow> shared \<Rightarrow> shared" where
  "auth_run ts evs st = foldl (auth_step ts) st evs"

definition fails :: "string \<Rightarrow> (call \<times> auth_event) list \<Rightarrow> rtime list" where
  "fails ip evs = map (\<lambda>x. c_now (fst x)) (filter (\<lambda>x. snd x = Auth_fail ip) evs)"

definition recent_fails :: "string \<Rightarrow> rtime \<Rightarrow> (call \<times> auth_event) list \<Rightarrow> nat" where
  "recent_fails ip now evs = length (filter (\<lambda>t. now - of_int BAN_WINDOW < t \<and> t \<le> now) (fails ip evs))"

definition justified :: "string \<Rightarrow> (call \<times> auth_event) list \<Rightarrow> bool" where
  "justified ip evs \<longleftrightarrow> (\<exists>pre c post. evs = pre @ (c, Auth_fail ip) # post \<and>
     BAN_THRESHOLD \<le> int (recent_fails ip (c_now c) (pre @ [(c, Auth_fail ip)])) \<and>
     (\<forall>x\<in>set pre. snd x = Auth_ok ip \<and> c_up (fst x) 0 \<longrightarrow> c_now (fst x) + of_int (BAN_WINDOW * 5) \<le> c_now c))"

lemma limit_keys [simp]:
  "ok_key a = ok_key b \<longleftrightarrow> a = b" "fail_key a = fail_key b \<longleftrightarrow> a = b" "ban_key a = ban_key b \<longleftrightarrow> a = b"
  "ok_key a \<noteq> fail_key b" "fail_key a \<noteq> ok_key b" "ok_key a \<noteq> ban_key b" "ban_key a \<noteq> ok_key b"
  "fail_key a \<noteq> ban_key b" "ban_key a \<noteq> fail_key b"
  by (simp_all add: ok_key_def fail_key_def ban_key_def)

lemma zput_other [simp]: "k' \<noteq> k \<Longrightarrow> map_of (zput k zs e ks) k' = map_of ks k'"
  by (simp add: zput_def cmd_del_def put_def AList.delete_conv' map_of_update)

lemma expire_other [simp]: "k' \<noteq> k \<Longrightarrow> map_of (cmd_expire now k ex ks) k' = map_of ks k'"
  by (simp add: cmd_expire_def cmd_del_def put_def AList.delete_conv' map_of_update split: option.splits)

lemma pipe_other:
  "record_failure_pipe ts now key ks = Some (n, ks') \<Longrightarrow> k \<noteq> key \<Longrightarrow> map_of ks' k = map_of ks k"
  by (auto simp: record_failure_pipe_def cmd_zadd_def cmd_zremrangebyscore_def cmd_zcard_def bind_eq_Some_conv)

text \<open>What the sorted set of failures becomes.\<close>

lemma pipe_exact:
  assumes z: "zget now key ks = Some (zs, e)"
    and z2: "z2 = filter (\<lambda>z. \<not> (0 \<le> snd z \<and> snd z \<le> now - of_int BAN_WINDOW)) (AList.update (ts now) now zs)"
  obtains ks' where "record_failure_pipe ts now key ks = Some (int (length z2), ks')"
    "\<And>now'. now \<le> now' \<Longrightarrow> \<exists>e'. zget now' key ks' = Some (if now' < now + of_int (BAN_WINDOW + 1) then z2 else [], e')"
proof -
  define z1 where "z1 = AList.update (ts now) now zs"
  define k1 where "k1 = zput key z1 e ks"
  define k2 where "k2 = zput key z2 e k1"
  have ne: "z1 \<noteq> []" by (simp add: z1_def update_nonempty)
  have g1: "zget now key k1 = Some (z1, e)"
    unfolding k1_def using zget_zput [of now z1 e key ks] zget_live [OF z] ne by simp
  have g2: "zget now key k2 = Some (z2, if z2 = [] then None else e)"
    unfolding k2_def by (rule zget_zput) (rule zget_live [OF g1])
  have c1: "cmd_zadd now key (ts now) now ks = Some k1" by (simp add: cmd_zadd_def z k1_def z1_def)
  have c2: "cmd_zremrangebyscore now key 0 (now - of_int BAN_WINDOW) k1 = Some k2"
    by (simp only: cmd_zremrangebyscore_def g1 k2_def z2 z1_def bind.simps prod.case)
  have c3: "cmd_zcard now key k2 = Some (int (length z2))" by (simp add: cmd_zcard_def g2)
  show thesis
  proof (rule that [of "cmd_expire now key (BAN_WINDOW + 1) k2"])
    show "record_failure_pipe ts now key ks = Some (int (length z2), cmd_expire now key (BAN_WINDOW + 1) k2)"
      by (simp add: record_failure_pipe_def c1 c2 c3)
    show "\<exists>e'. zget now' key (cmd_expire now key (BAN_WINDOW + 1) k2) =
        Some (if now' < now + of_int (BAN_WINDOW + 1) then z2 else [], e')" if n: "now \<le> now'" for now'
    proof (cases "z2 = []")
      case True
      then have "map_of k2 key = None" by (simp add: k2_def zput_def cmd_del_def AList.delete_conv')
      then show ?thesis using True by (simp add: cmd_expire_def entry_def zget_def)
    next
      case False
      with zget_expire [OF g2 False _ n, of "BAN_WINDOW + 1"] show ?thesis by (simp add: BAN_WINDOW_def)
    qed
  qed
qed

lemma pipe_result:
  assumes "zget now key ks = Some (zs, e)" "distinct (map fst zs)"
  obtains z2 ks' where "record_failure_pipe ts now key ks = Some (int (length z2), ks')" "distinct (map fst z2)"
    "set z2 \<subseteq> {z \<in> insert (ts now, now) (set zs). \<not> (0 \<le> snd z \<and> snd z \<le> now - of_int BAN_WINDOW)}"
    "\<And>now'. now \<le> now' \<Longrightarrow> \<exists>z3 e'. zget now' key ks' = Some (z3, e') \<and> z3 \<in> {z2, []}"
proof -
  define z2 where "z2 = filter (\<lambda>z. \<not> (0 \<le> snd z \<and> snd z \<le> now - of_int BAN_WINDOW)) (AList.update (ts now) now zs)"
  have d: "distinct (map fst z2)" unfolding z2_def by (intro distinct_map_filter AList.distinct_update assms(2))
  have sub: "set z2 \<subseteq> {z \<in> insert (ts now, now) (set zs). \<not> (0 \<le> snd z \<and> snd z \<le> now - of_int BAN_WINDOW)}"
    unfolding z2_def using update_entries_subset [of "ts now" now zs] by auto
  obtain ks' where ks': "record_failure_pipe ts now key ks = Some (int (length z2), ks')"
      "\<And>now'. now \<le> now' \<Longrightarrow> \<exists>e'. zget now' key ks' = Some (if now' < now + of_int (BAN_WINDOW + 1) then z2 else [], e')"
    by (rule pipe_exact [where ts = ts, OF assms(1) z2_def]) (rule that)
  show thesis by (rule that [OF ks'(1) d sub]) (use ks'(2) in fastforce)
qed

end
