(* ===== verification/Ban_Laws.thy ===== *)
theory Ban_Laws
  imports Rate_Limit
begin

text \<open>
  An address is banned only after enough recent failures and no recent success, whatever the
  other addresses do and whichever commands fail to reach Redis; and what the middleware lets
  through.
\<close>

lemma fails_append [simp]: "fails ip (xs @ ys) = fails ip xs @ fails ip ys"
  by (simp add: fails_def)

lemma fails_Cons [simp]: "fails ip (x # xs) = (if snd x = Auth_fail ip then [c_now (fst x)] else []) @ fails ip xs"
  by (simp add: fails_def)

lemma fails_Nil [simp]: "fails ip [] = []"
  by (simp add: fails_def)

lemma justified_append: "justified ip evs \<Longrightarrow> justified ip (evs @ xs)"
  unfolding justified_def by (metis append.assoc append_Cons)

abbreviation active_ok :: "string \<Rightarrow> call \<times> auth_event \<Rightarrow> bool" where
  "active_ok ip x \<equiv> snd x = Auth_ok ip \<and> c_up (fst x) 0"

definition ok_live :: "rtime \<Rightarrow> keyspace \<Rightarrow> string \<Rightarrow> bool" where
  "ok_live now ks ip \<longleftrightarrow> live now ks (ok_key ip) = Some (RText ''1'')"

definition ban_inv :: "(rtime \<Rightarrow> string) \<Rightarrow> string \<Rightarrow> (call \<times> auth_event) list \<Rightarrow> rtime \<Rightarrow> keyspace \<Rightarrow> bool" where
  "ban_inv ts ip evs t ks \<longleftrightarrow>
     (\<forall>now\<ge>t. \<exists>zs e. zget now (fail_key ip) ks = Some (zs, e) \<and> distinct (map fst zs) \<and>
        set zs \<subseteq> (\<lambda>u. (ts u, u)) ` set (fails ip evs)) \<and>
     (\<forall>x\<in>set evs. active_ok ip x \<longrightarrow> (\<forall>now\<ge>t. now < c_now (fst x) + of_int (BAN_WINDOW * 5) \<longrightarrow>
        ok_live now ks ip)) \<and>
     (map_of ks (ban_key ip) \<noteq> None \<longrightarrow> justified ip evs)"

lemma entry_cong: "map_of ks' k = map_of ks k \<Longrightarrow> entry now ks' k = entry now ks k"
  by (simp add: entry_def)

lemma zget_cong: "map_of ks' k = map_of ks k \<Longrightarrow> zget now k ks' = zget now k ks"
  by (simp add: zget_def entry_def)

lemma ban_inv_frame:
  assumes "ban_inv ts ip evs t ks" "t \<le> t'" "\<not> active_ok ip x"
    "\<And>k. k \<in> {ok_key ip, fail_key ip, ban_key ip} \<Longrightarrow> map_of ks' k = map_of ks k"
  shows "ban_inv ts ip (evs @ [x]) t' ks'"
proof -
  have e: "ok_live now ks' ip = ok_live now ks ip" "zget now (fail_key ip) ks' = zget now (fail_key ip) ks"
      "map_of ks' (ban_key ip) = map_of ks (ban_key ip)" for now
    using assms(4) entry_cong [of ks' "ok_key ip" ks] by (auto simp: ok_live_def intro: zget_cong)
  show ?thesis unfolding ban_inv_def e
  proof (intro conjI allI impI ballI)
    fix now assume "t' \<le> now"
    with assms(1,2) obtain zs z where "zget now (fail_key ip) ks = Some (zs, z)" "distinct (map fst zs)"
        "set zs \<subseteq> (\<lambda>u. (ts u, u)) ` set (fails ip evs)" unfolding ban_inv_def by (meson order_trans)
    then show "\<exists>zs z. zget now (fail_key ip) ks = Some (zs, z) \<and> distinct (map fst zs) \<and>
        set zs \<subseteq> (\<lambda>u. (ts u, u)) ` set (fails ip (evs @ [x]))" by auto
  next
    fix y now assume "y \<in> set (evs @ [x])" "active_ok ip y" "t' \<le> now" "now < c_now (fst y) + of_int (BAN_WINDOW * 5)"
    then show "ok_live now ks ip" using assms(1-3) unfolding ban_inv_def by auto
  next
    assume "map_of ks (ban_key ip) \<noteq> None"
    then show "justified ip (evs @ [x])" using assms(1) by (simp add: ban_inv_def justified_append)
  qed
qed

lemma cmd_set_other: "k \<noteq> k' \<Longrightarrow> s_keys (swallow st (cmd_set now k' v ex ks)) = ks' \<Longrightarrow> s_keys st = ks \<Longrightarrow> map_of ks' k = map_of ks k"
  by (auto simp: swallow_def cmd_set_def put_def map_of_update split: if_splits)

lemma get_redis_client [simp]: "s_client st \<Longrightarrow> get_redis c st = Some st"
  by (simp add: get_redis_def)

lemma auth_step_client: "s_client st \<Longrightarrow> s_client (auth_step ts st x)"
  by (cases x; cases "snd x")
    (auto simp: record_auth_success_def record_auth_failure_def swallow_def Let_def split: option.splits)

lemma auth_step_other:
  assumes "s_client st" "snd x \<noteq> Auth_ok ip" "snd x \<noteq> Auth_fail ip" "k \<in> {ok_key ip, fail_key ip, ban_key ip}"
  shows "map_of (s_keys (auth_step ts st x)) k = map_of (s_keys st) k"
proof (cases "snd x")
  case (Auth_ok i)
  with assms show ?thesis
    by (cases x) (auto simp: record_auth_success_def swallow_def cmd_set_def put_def map_of_update BAN_WINDOW_def)
next
  case (Auth_fail i)
  with assms show ?thesis
    by (cases x)
      (auto simp: record_auth_failure_def swallow_def cmd_set_def put_def cmd_del_def map_of_update AList.delete_conv'
        BAN_DURATION_def Let_def pipe_other split: option.splits)
qed

lemma ban_inv_success:
  assumes "ban_inv ts ip evs t (s_keys st)" "s_client st" "t \<le> c_now c" "ip \<noteq> []" "ip \<noteq> ''unknown''"
    "\<forall>x\<in>set evs. c_now (fst x) \<le> c_now c"
  shows "ban_inv ts ip (evs @ [(c, Auth_ok ip)]) (c_now c) (s_keys (record_auth_success c ip st))"
proof (cases "c_up c 0")
  case False
  then have "record_auth_success c ip st = st" using assms by (simp add: record_auth_success_def)
  with False ban_inv_frame [OF assms(1,3)] show ?thesis by simp
next
  case True
  define ks' where "ks' = put (ok_key ip) (RText ''1'') (Some (c_now c + of_int (BAN_WINDOW * 5))) (s_keys st)"
  have r: "s_keys (record_auth_success c ip st) = ks'"
    using assms True by (simp add: record_auth_success_def swallow_def cmd_set_def BAN_WINDOW_def ks'_def)
  have m: "map_of ks' k = map_of (s_keys st) k" if "k \<noteq> ok_key ip" for k using that by (simp add: ks'_def put_def map_of_update)
  have l: "ok_live now ks' ip" if "now < c_now c + of_int (BAN_WINDOW * 5)" for now
    using that by (simp add: ks'_def ok_live_def)
  have "ban_inv ts ip evs (c_now c) ks'" unfolding ban_inv_def
  proof (intro conjI ballI allI impI)
    fix now assume "c_now c \<le> now"
    then show "\<exists>zs e. zget now (fail_key ip) ks' = Some (zs, e) \<and> distinct (map fst zs) \<and>
        set zs \<subseteq> (\<lambda>u. (ts u, u)) ` set (fails ip evs)"
      using assms(1,3) zget_cong [OF m] unfolding ban_inv_def by simp
  next
    fix x now assume "x \<in> set evs" "now < c_now (fst x) + of_int (BAN_WINDOW * 5)"
    with assms(6) show "ok_live now ks' ip" by (intro l) fastforce
  next
    assume "map_of ks' (ban_key ip) \<noteq> None"
    then show "justified ip evs" using assms(1) m by (simp add: ban_inv_def)
  qed
  then show ?thesis unfolding r using l by (auto simp: ban_inv_def justified_append)
qed

lemma length_le_fails:
  assumes "distinct (map fst z)" "set z \<subseteq> {z \<in> (\<lambda>u. (ts u, u)) ` set (fails ip evs). now - of_int BAN_WINDOW < snd z \<and> snd z \<le> now}"
  shows "length z \<le> recent_fails ip now evs"
proof -
  let ?us = "filter (\<lambda>t. now - of_int BAN_WINDOW < t \<and> t \<le> now) (fails ip evs)"
  have "length z = card (set z)" using assms(1) by (simp add: distinct_card distinct_map)
  also have "\<dots> \<le> card ((\<lambda>u. (ts u, u)) ` set ?us)" by (rule card_mono) (use assms(2) in auto)
  also have "\<dots> \<le> card (set ?us)" by (rule card_image_le) simp
  also have "\<dots> \<le> length ?us" by (rule card_length)
  finally show ?thesis by (simp add: recent_fails_def)
qed

text \<open>A failure that changes the keys: no success is active, and the set holds only failures of
  the window.\<close>

lemma ban_inv_failure:
  assumes inv: "ban_inv ts ip evs t (s_keys st)" and st: "s_client st" and t: "t \<le> c_now c"
    and e: "\<forall>x\<in>set evs. c_now (fst x) \<le> c_now c \<and> 0 \<le> c_now (fst x)" "0 \<le> c_now c"
  shows "ban_inv ts ip (evs @ [(c, Auth_fail ip)]) (c_now c) (s_keys (record_auth_failure ts c ip st))"
proof -
  let ?x = "(c, Auth_fail ip)" and ?now = "c_now c" and ?ks = "s_keys st"
  let ?F = "(\<lambda>u. (ts u, u)) ` set (fails ip (evs @ [?x]))"
  have same: "ban_inv ts ip (evs @ [?x]) ?now ?ks" by (rule ban_inv_frame [OF inv t]) simp_all
  obtain zs z where zs: "zget ?now (fail_key ip) ?ks = Some (zs, z)" "distinct (map fst zs)" "set zs \<subseteq> (\<lambda>u. (ts u, u)) ` set (fails ip evs)"
    using inv t unfolding ban_inv_def by blast
  obtain z2 ks' where p: "record_failure_pipe ts ?now (fail_key ip) ?ks = Some (int (length z2), ks')" "distinct (map fst z2)"
      "set z2 \<subseteq> {z \<in> insert (ts ?now, ?now) (set zs). \<not> (0 \<le> snd z \<and> snd z \<le> ?now - of_int BAN_WINDOW)}"
      "\<And>now'. ?now \<le> now' \<Longrightarrow> \<exists>z3 e'. zget now' (fail_key ip) ks' = Some (z3, e') \<and> z3 \<in> {z2, []}"
    by (rule pipe_result [OF zs(1,2), of ts]) (rule that)
  have ks': "map_of ks' k = map_of ?ks k" if "k \<noteq> fail_key ip" for k using pipe_other [OF p(1) that] .
  have "0 \<le> u \<and> u \<le> ?now" if "u \<in> set (fails ip evs)" for u using e that by (auto simp: fails_def)
  then have z2: "set z2 \<subseteq> {z \<in> ?F. ?now - of_int BAN_WINDOW < snd z \<and> snd z \<le> ?now}"
    using p(3) zs(3) e(2) by fastforce
  have fset: "\<exists>zs e. zget now (fail_key ip) ks2 = Some (zs, e) \<and> distinct (map fst zs) \<and> set zs \<subseteq> ?F"
    if n: "?now \<le> now" and k: "map_of ks2 (fail_key ip) = map_of ks' (fail_key ip) \<or> map_of ks2 (fail_key ip) = None" for now ks2
  proof (cases "map_of ks2 (fail_key ip) = None")
    case False
    with k have "zget now (fail_key ip) ks2 = zget now (fail_key ip) ks'" by (auto intro: zget_cong)
    with p(4) [OF n] obtain z3 e' where "zget now (fail_key ip) ks2 = Some (z3, e')" "z3 \<in> {z2, []}" by auto
    with p(2) z2 show ?thesis by auto
  qed (simp add: zget_def entry_def)
  have oks: "ok_live now ks2 ip" if "x \<in> set (evs @ [?x])" "active_ok ip x" "?now \<le> now"
      "now < c_now (fst x) + of_int (BAN_WINDOW * 5)" "map_of ks2 (ok_key ip) = map_of ?ks (ok_key ip)" for x now ks2
    using same that entry_cong [OF that(5)] unfolding ban_inv_def ok_live_def by auto
  have result: "ban_inv ts ip (evs @ [?x]) ?now ks2"
    if "map_of ks2 (fail_key ip) = map_of ks' (fail_key ip) \<or> map_of ks2 (fail_key ip) = None"
      "map_of ks2 (ok_key ip) = map_of ?ks (ok_key ip)" "map_of ks2 (ban_key ip) \<noteq> None \<Longrightarrow> justified ip (evs @ [?x])" for ks2
    unfolding ban_inv_def using fset [OF _ that(1)] oks [OF _ _ _ _ that(2)] that(3) by blast
  have ban: "justified ip (evs @ [?x])"
    if "cmd_get ?now (ok_key ip) ?ks = Some v" "v = None \<or> v = Some (RText [])" "BAN_THRESHOLD \<le> int (length z2)"
    for v
  proof -
    have "\<not> ok_live ?now ?ks ip" using that(1,2) by (auto simp: cmd_get_def ok_live_def)
    then have "\<forall>x\<in>set evs. active_ok ip x \<longrightarrow> c_now (fst x) + of_int (BAN_WINDOW * 5) \<le> ?now"
      using inv t unfolding ban_inv_def by (meson leI)
    moreover have "BAN_THRESHOLD \<le> int (recent_fails ip ?now (evs @ [?x]))"
      using length_le_fails [OF p(2) z2] that(3) by linarith
    ultimately show ?thesis unfolding justified_def by (intro exI [of _ evs] exI [of _ c] exI [of _ "[]"]) simp
  qed
  have ban': "map_of ks' (ban_key ip) \<noteq> None \<Longrightarrow> justified ip (evs @ [?x])"
    using same ks' by (simp add: ban_inv_def)
  show ?thesis
  proof (cases "ip = [] \<or> ip = ''unknown'' \<or> \<not> c_up c 0 \<or> \<not> c_up c 1 \<or> cmd_get ?now (ok_key ip) ?ks = None \<or>
      (\<exists>v. cmd_get ?now (ok_key ip) ?ks = Some v \<and> v \<noteq> None \<and> v \<noteq> Some (RText []))")
    case True
    then have "record_auth_failure ts c ip st = st"
      using st by (auto simp: record_auth_failure_def split: option.splits)
    then show ?thesis using same by simp
  next
    case False
    then obtain v where v: "cmd_get ?now (ok_key ip) ?ks = Some v" "v = None \<or> v = Some (RText [])" by auto
    let ?kb = "put (ban_key ip) (RText ''1'') (Some (?now + of_int BAN_DURATION)) ks'"
    have "s_keys (record_auth_failure ts c ip st) \<in> (if BAN_THRESHOLD \<le> int (length z2) then {ks', ?kb, cmd_del (fail_key ip) ?kb} else {ks'})"
      using False st v p(1) by (auto simp: record_auth_failure_def Let_def swallow_def cmd_set_def BAN_DURATION_def)
    moreover have "ban_inv ts ip (evs @ [?x]) ?now ks'" by (rule result) (use ks' ban' in simp_all)
    moreover have "ban_inv ts ip (evs @ [?x]) ?now k2" if "BAN_THRESHOLD \<le> int (length z2)" "k2 \<in> {?kb, cmd_del (fail_key ip) ?kb}" for k2
      by (rule result) (use ks' ban [OF v that(1)] that(2) in \<open>auto simp: put_def cmd_del_def map_of_update AList.delete_conv'\<close>)
    ultimately show ?thesis by (auto split: if_splits)
  qed
qed

section \<open>Soundness and completeness of bans\<close>

lemma ban_inv_step:
  assumes "ban_inv ts ip evs t (s_keys st)" "s_client st" "t \<le> c_now (fst x)" "ip \<noteq> []" "ip \<noteq> ''unknown''"
    "\<forall>y\<in>set (evs @ [x]). c_now (fst y) \<le> c_now (fst x) \<and> 0 \<le> c_now (fst y)"
  shows "ban_inv ts ip (evs @ [x]) (c_now (fst x)) (s_keys (auth_step ts st x))"
proof -
  obtain c ev where x: "x = (c, ev)" by fastforce
  consider "ev = Auth_ok ip" | "ev = Auth_fail ip" | "ev \<noteq> Auth_ok ip" "ev \<noteq> Auth_fail ip" by blast
  then show ?thesis
  proof cases
    case 1
    then show ?thesis using ban_inv_success [OF assms(1,2)] assms(3-6) by (simp add: x)
  next
    case 2
    then show ?thesis using ban_inv_failure [OF assms(1,2)] assms(3-6) by (simp add: x)
  next
    case 3
    show ?thesis
      by (rule ban_inv_frame [OF assms(1,3)]) (use 3 auth_step_other [OF assms(2), of x ip] in \<open>simp_all add: x\<close>)
  qed
qed

lemma ban_inv_run:
  assumes "s_client st" "s_keys st = []" "ip \<noteq> []" "ip \<noteq> ''unknown''" "sorted (map (\<lambda>x. c_now (fst x)) evs)"
    "\<forall>x\<in>set evs. 0 \<le> c_now (fst x)"
  shows "s_client (auth_run ts evs st) \<and> (\<exists>t. (\<forall>x\<in>set evs. c_now (fst x) \<le> t) \<and>
    (evs \<noteq> [] \<longrightarrow> t = c_now (fst (last evs))) \<and> ban_inv ts ip evs t (s_keys (auth_run ts evs st)))"
  using assms(5,6)
proof (induction evs rule: rev_induct)
  case Nil
  then show ?case using assms by (simp add: auth_run_def ban_inv_def zget_def)
next
  case (snoc x evs)
  have p: "\<forall>y\<in>set evs. c_now (fst y) \<le> c_now (fst x)" using snoc.prems by (auto simp: sorted_append)
  obtain t where t: "s_client (auth_run ts evs st)" "ban_inv ts ip evs t (s_keys (auth_run ts evs st))"
      "evs \<noteq> [] \<longrightarrow> t = c_now (fst (last evs))"
    using snoc by (auto simp: sorted_append)
  define t' where "t' = (if evs = [] then c_now (fst x) else t)"
  have "ban_inv ts ip evs t' (s_keys (auth_run ts evs st))"
    using t assms(2) by (cases "evs = []") (auto simp: t'_def auth_run_def ban_inv_def zget_def)
  moreover have "t' \<le> c_now (fst x)" using t(3) p by (auto simp: t'_def)
  ultimately have "ban_inv ts ip (evs @ [x]) (c_now (fst x)) (s_keys (auth_step ts (auth_run ts evs st) x))"
    using t(1) assms(3,4) p snoc.prems(2) by (intro ban_inv_step) auto
  then show ?case using t(1) p by (auto simp: auth_run_def auth_step_client)
qed


text \<open>And attackers are banned: with Redis up, the failures of an address with no success add up
  within the window.\<close>

definition up_call :: "rtime \<Rightarrow> call" where
  "up_call t = \<lparr>c_now = t, c_connect = Pong, c_up = (\<lambda>i. True)\<rparr>"

abbreviation attack :: "string \<Rightarrow> rtime list \<Rightarrow> (call \<times> auth_event) list" where
  "attack ip us \<equiv> map (\<lambda>u. (up_call u, Auth_fail ip)) us"

lemma attack_run:
  assumes "s_client st" "s_keys st = []" "ip \<noteq> []" "ip \<noteq> ''unknown''" "inj ts" "distinct us" "sorted us"
    "\<forall>u\<in>set us. t0 \<le> u \<and> u < t0 + of_int BAN_WINDOW" "int (length us) < BAN_THRESHOLD"
  shows "s_client (auth_run ts (attack ip us) st) \<and> map_of (s_keys (auth_run ts (attack ip us) st)) (ok_key ip) = None \<and>
    (\<forall>now. (\<forall>u\<in>set us. u \<le> now) \<and> now < t0 + of_int BAN_WINDOW \<longrightarrow>
      (\<exists>zs e. zget now (fail_key ip) (s_keys (auth_run ts (attack ip us) st)) = Some (zs, e) \<and> distinct (map fst zs) \<and>
        set zs = (\<lambda>u. (ts u, u)) ` set us))"
  using assms(6-9)
proof (induction us rule: rev_induct)
  case Nil
  then show ?case using assms(1,2) by (simp add: auth_run_def zget_def)
next
  case (snoc u us)
  let ?st = "auth_run ts (attack ip us) st"
  have u: "t0 \<le> u" "u < t0 + of_int BAN_WINDOW" "\<forall>v\<in>set us. v \<le> u" "u \<notin> set us"
    using snoc.prems by (auto simp: sorted_append)
  have ih: "s_client ?st" "map_of (s_keys ?st) (ok_key ip) = None" using snoc by (auto simp: sorted_append)
  obtain zs e where zs: "zget u (fail_key ip) (s_keys ?st) = Some (zs, e)" "distinct (map fst zs)" "set zs = (\<lambda>u. (ts u, u)) ` set us"
    using snoc u by (auto simp: sorted_append)
  define z2 where "z2 = filter (\<lambda>z. \<not> (0 \<le> snd z \<and> snd z \<le> u - of_int BAN_WINDOW)) (AList.update (ts u) u zs)"
  have fresh: "ts u \<notin> fst ` set zs" using zs(3) u(4) assms(5) by (auto dest: injD)
  have keep: "z2 = AList.update (ts u) u zs" unfolding z2_def
    using set_update_new [OF fresh] zs(3) u snoc.prems(3) by (auto simp: filter_id_conv)
  have s2: "set z2 = (\<lambda>u. (ts u, u)) ` set (us @ [u])" "distinct (map fst z2)"
    using set_update_new [OF fresh] zs(2,3) by (auto simp: keep AList.distinct_update)
  have "length zs = length us"
    using distinct_card [of zs] zs snoc.prems(1) by (simp add: distinct_map card_image inj_on_def distinct_card)
  then have l: "length z2 = length us + 1"
    using arg_cong [OF map_fst_update_new [OF fresh, of u], of length] by (simp add: keep)
  obtain ks' where p: "record_failure_pipe ts u (fail_key ip) (s_keys ?st) = Some (int (length z2), ks')"
      "\<And>now'. u \<le> now' \<Longrightarrow> \<exists>e'. zget now' (fail_key ip) ks' = Some (if now' < u + of_int (BAN_WINDOW + 1) then z2 else [], e')"
    by (rule pipe_exact [where ts = ts, OF zs(1) z2_def]) (rule that)
  have r: "auth_step ts ?st (up_call u, Auth_fail ip) = ?st\<lparr>s_keys := ks'\<rparr>"
    using ih assms(3,4) p(1) l snoc.prems(4)
    by (simp add: record_auth_failure_def up_call_def cmd_get_def entry_def Let_def)
  have n: "\<exists>zs e. zget now (fail_key ip) ks' = Some (zs, e) \<and> distinct (map fst zs) \<and> set zs = (\<lambda>u. (ts u, u)) ` set (us @ [u])"
    if "u \<le> now" "now < t0 + of_int BAN_WINDOW" for now
    using p(2) [OF that(1)] that u(1) s2 by (auto simp: BAN_WINDOW_def)
  show ?case using ih r n pipe_other [OF p(1), of "ok_key ip"] by (simp add: auth_run_def)
qed

lemma attack_bans:
  assumes "s_client st" "s_keys st = []" "ip \<noteq> []" "ip \<noteq> ''unknown''" "inj ts" "distinct us" "sorted us"
    "\<forall>u\<in>set us. t0 \<le> u \<and> u < t0 + of_int BAN_WINDOW" "us \<noteq> []" "int (length us) = BAN_THRESHOLD"
  shows "fst (is_banned (up_call (last us)) ip (auth_run ts (attack ip us) st))"
proof -
  obtain vs u where us: "us = vs @ [u]" using assms(9) by (metis append_butlast_last_id)
  let ?st = "auth_run ts (attack ip vs) st"
  have v: "t0 \<le> u" "u < t0 + of_int BAN_WINDOW" "\<forall>v\<in>set vs. v \<le> u" "u \<notin> set vs" "distinct vs" "sorted vs"
      "\<forall>u\<in>set vs. t0 \<le> u \<and> u < t0 + of_int BAN_WINDOW" "int (length vs) < BAN_THRESHOLD"
    using assms(6-10) by (auto simp: us sorted_append)
  have ih: "s_client ?st" "map_of (s_keys ?st) (ok_key ip) = None"
    using attack_run [OF assms(1-5) v(5-8)] by blast+
  obtain zs e where zs: "zget u (fail_key ip) (s_keys ?st) = Some (zs, e)" "distinct (map fst zs)" "set zs = (\<lambda>u. (ts u, u)) ` set vs"
    using attack_run [OF assms(1-5) v(5-8)] v(2,3) by blast
  define z2 where "z2 = filter (\<lambda>z. \<not> (0 \<le> snd z \<and> snd z \<le> u - of_int BAN_WINDOW)) (AList.update (ts u) u zs)"
  have fresh: "ts u \<notin> fst ` set zs" using zs(3) v(4) assms(5) by (auto dest: injD)
  have "z2 = AList.update (ts u) u zs" unfolding z2_def
    using set_update_new [OF fresh] zs(3) v by (auto simp: filter_id_conv)
  then have "length z2 = length zs + 1" using arg_cong [OF map_fst_update_new [OF fresh, of u], of length] by simp
  moreover have "length zs = length vs"
    using distinct_card [of zs] zs v(5) by (simp add: distinct_map card_image inj_on_def distinct_card)
  ultimately have l: "int (length z2) = BAN_THRESHOLD" using assms(10) by (simp add: us)
  obtain ks' where p: "record_failure_pipe ts u (fail_key ip) (s_keys ?st) = Some (int (length z2), ks')"
    by (rule pipe_exact [where ts = ts, OF zs(1) z2_def]) (rule that)
  have "auth_step ts ?st (up_call u, Auth_fail ip) = ?st\<lparr>s_keys := cmd_del (fail_key ip)
      (put (ban_key ip) (RText ''1'') (Some (u + of_int BAN_DURATION)) ks')\<rparr>"
    using ih assms(3,4) p l
    by (simp add: record_auth_failure_def up_call_def cmd_get_def entry_def Let_def swallow_def cmd_set_def BAN_DURATION_def)
  then show ?thesis using ih by (simp add: us auth_run_def is_banned_def up_call_def cmd_get_def BAN_DURATION_def)
qed

definition sample_ts :: "rtime \<Rightarrow> string" where
  "sample_ts t = int_str (fst (quotient_of t)) @ CHR ''/'' # int_str (snd (quotient_of t))"

lemma int_str_no_slash: "CHR ''/'' \<notin> set (int_str i)"
proof -
  have "CHR ''/'' \<notin> set (nat_str n)" for n
    using nat_str_digits [of n] by (auto simp: list_all_iff is_digit_def)
  then show ?thesis by (simp add: int_str_def)
qed

lemma inj_sample_ts: "inj sample_ts"
proof (rule injI)
  fix x y assume "sample_ts x = sample_ts y"
  then have "quotient_of x = quotient_of y"
    by (simp add: sample_ts_def append_sep_inject int_str_no_slash prod_eq_iff)
  then show "x = y" by (rule quotient_of_inject)
qed

definition half_seconds :: "rtime list" where
  "half_seconds = map (\<lambda>i. of_nat i / 2) [1..<101]"


end
