(* ===== verification/Redis_Locks.thy ===== *)
theory Redis_Locks
  imports Redis_Store
begin

text \<open>
  The distributed lock and the semaphore of \<open>src/src/backend/app/core/redis.py\<close>, as any number
  of clients run them: every command on the server is one step, steps of different clients
  interleave freely, and time passes between them. A client of a lock is its token, a client of
  the semaphore the token of one \<open>acquire\<close>. The contract of both is that of \<open>invariant_system\<close>.
\<close>

section \<open>The lock\<close>

datatype lock_phase =
    LIdle
  | LWaiting rtime
  | LSleeping rtime
  | LHolding rtime

record lock_sys =
  l_now :: rtime
  l_keys :: keyspace
  l_phase :: "string \<Rightarrow> lock_phase"

text \<open>\<open>SET name token NX EX timeout\<close> and the script that deletes the key of its owner.\<close>

definition lock_set :: "rtime \<Rightarrow> string \<Rightarrow> string \<Rightarrow> int \<Rightarrow> keyspace \<Rightarrow> (bool \<times> keyspace) option" where
  "lock_set now name token timeout ks =
     (if entry now ks name \<noteq> None then Some (False, ks)
      else map_option (Pair True) (cmd_set now name (RText token) timeout ks))"

definition lock_release :: "rtime \<Rightarrow> string \<Rightarrow> string \<Rightarrow> keyspace \<Rightarrow> keyspace" where
  "lock_release now name token ks = (if live now ks name = Some (RText token) then cmd_del name ks else ks)"

datatype lock_event =
    LTick rtime
  | LAcquire string bool
  | LCheck string
  | LPoll string
  | LRelease string
  | LForce

text \<open>\<open>LCheck\<close> is the loop test of \<open>acquire\<close> followed by the sleep, or giving up at the
  deadline; \<open>LPoll\<close> the attempt after the sleep. \<open>LForce\<close> is \<open>_release_stale_lock\<close>, which the
  failure callback of a job calls.\<close>

fun lock_exec :: "string \<Rightarrow> int \<Rightarrow> lock_event \<Rightarrow> lock_sys \<Rightarrow> lock_sys option" where
  "lock_exec name timeout (LTick d) s = (if 0 \<le> d then Some (s\<lparr>l_now := l_now s + d\<rparr>) else None)"
| "lock_exec name timeout (LAcquire tok blocking) s =
     (if l_phase s tok \<noteq> LIdle then None
      else case lock_set (l_now s) name tok timeout (l_keys s) of
        None \<Rightarrow> None
      | Some (True, ks) \<Rightarrow> Some (s\<lparr>l_keys := ks, l_phase := (l_phase s)(tok := LHolding (l_now s))\<rparr>)
      | Some (False, ks) \<Rightarrow>
          Some (if blocking then s\<lparr>l_phase := (l_phase s)(tok := LWaiting (l_now s + of_int timeout))\<rparr> else s))"
| "lock_exec name timeout (LCheck tok) s =
     (case l_phase s tok of
        LWaiting d \<Rightarrow> Some (s\<lparr>l_phase := (l_phase s)(tok := if l_now s < d then LSleeping d else LIdle)\<rparr>)
      | _ \<Rightarrow> None)"
| "lock_exec name timeout (LPoll tok) s =
     (case l_phase s tok of
        LSleeping d \<Rightarrow>
          (case lock_set (l_now s) name tok timeout (l_keys s) of
             None \<Rightarrow> None
           | Some (True, ks) \<Rightarrow> Some (s\<lparr>l_keys := ks, l_phase := (l_phase s)(tok := LHolding (l_now s))\<rparr>)
           | Some (False, ks) \<Rightarrow> Some (s\<lparr>l_phase := (l_phase s)(tok := LWaiting d)\<rparr>))
      | _ \<Rightarrow> None)"
| "lock_exec name timeout (LRelease tok) s =
     Some (s\<lparr>l_keys := lock_release (l_now s) name tok (l_keys s), l_phase := (l_phase s)(tok := LIdle)\<rparr>)"
| "lock_exec name timeout LForce s = Some (s\<lparr>l_keys := cmd_del name (l_keys s)\<rparr>)"

definition lock_start :: "rtime \<Rightarrow> lock_sys" where
  "lock_start now = \<lparr>l_now = now, l_keys = [], l_phase = (\<lambda>tok. LIdle)\<rparr>"

text \<open>A client holds the lock while its lease lasts.\<close>

definition holds_lock :: "int \<Rightarrow> lock_sys \<Rightarrow> string \<Rightarrow> bool" where
  "holds_lock timeout s tok = (case l_phase s tok of LHolding t \<Rightarrow> l_now s < t + of_int timeout | _ \<Rightarrow> False)"

definition lock_inv :: "string \<Rightarrow> int \<Rightarrow> lock_sys \<Rightarrow> bool" where
  "lock_inv name timeout s \<longleftrightarrow> (\<forall>tok t. l_phase s tok = LHolding t \<longrightarrow> l_now s < t + of_int timeout \<longrightarrow>
     map_of (l_keys s) name = Some (RText tok, Some (t + of_int timeout)))"

definition lock_step :: "string \<Rightarrow> int \<Rightarrow> lock_sys \<Rightarrow> lock_sys \<Rightarrow> bool" where
  "lock_step name timeout s s' \<longleftrightarrow> (\<exists>ev. ev \<noteq> LForce \<and> lock_exec name timeout ev s = Some s')"

lemma lock_set_Some:
  assumes "lock_set now name tok timeout ks = Some (ok, ks')"
  shows "if ok then entry now ks name = None \<and> map_of ks' = (map_of ks)(name \<mapsto> (RText tok, Some (now + of_int timeout)))
    else ks' = ks"
  using assms by (cases "entry now ks name") (auto simp: lock_set_def cmd_set_def put_def map_of_update split: if_splits)

lemma lock_inv_entry:
  "lock_inv name timeout s \<Longrightarrow> holds_lock timeout s tok \<Longrightarrow> \<exists>t. entry (l_now s) (l_keys s) name = Some (RText tok, t)"
  by (auto simp: lock_inv_def holds_lock_def entry_def entry_live_def split: lock_phase.splits)

lemma lock_inv_acquired:
  assumes "lock_inv name timeout s" "lock_set (l_now s) name tok timeout (l_keys s) = Some (True, ks)"
  shows "lock_inv name timeout (s\<lparr>l_keys := ks, l_phase := (l_phase s)(tok := LHolding (l_now s))\<rparr>)"
proof -
  have ks: "entry (l_now s) (l_keys s) name = None" "map_of ks name = Some (RText tok, Some (l_now s + of_int timeout))"
    using lock_set_Some [OF assms(2)] by auto
  have "\<not> l_now s < t + of_int timeout" if "l_phase s u = LHolding t" for u t
    using lock_inv_entry [OF assms(1), of u] ks(1) that by (auto simp: holds_lock_def)
  with ks(2) show ?thesis by (auto simp: lock_inv_def)
qed

lemma lock_inv_step:
  assumes "lock_inv name timeout s" "lock_step name timeout s s'"
  shows "lock_inv name timeout s'"
proof -
  obtain ev where ev: "ev \<noteq> LForce" "lock_exec name timeout ev s = Some s'" using assms(2) by (auto simp: lock_step_def)
  show ?thesis
  proof (cases ev)
    case (LTick d)
    with ev assms(1) show ?thesis by (auto simp: lock_inv_def split: if_splits)
  next
    case (LAcquire tok b)
    with ev obtain ok ks where a: "lock_set (l_now s) name tok timeout (l_keys s) = Some (ok, ks)"
        "s' = (if ok then s\<lparr>l_keys := ks, l_phase := (l_phase s)(tok := LHolding (l_now s))\<rparr>
          else if b then s\<lparr>l_phase := (l_phase s)(tok := LWaiting (l_now s + of_int timeout))\<rparr> else s)"
      by (auto split: if_splits option.splits bool.splits)
    show ?thesis
    proof (cases ok)
      case True
      with a lock_inv_acquired [OF assms(1)] show ?thesis by simp
    next
      case False
      with a assms(1) show ?thesis by (auto simp: lock_inv_def)
    qed
  next
    case (LPoll tok)
    with ev obtain d ok ks where a: "lock_set (l_now s) name tok timeout (l_keys s) = Some (ok, ks)"
        "s' = (if ok then s\<lparr>l_keys := ks, l_phase := (l_phase s)(tok := LHolding (l_now s))\<rparr>
          else s\<lparr>l_phase := (l_phase s)(tok := LWaiting d)\<rparr>)"
      by (auto split: lock_phase.splits option.splits bool.splits)
    show ?thesis
    proof (cases ok)
      case True
      with a lock_inv_acquired [OF assms(1)] show ?thesis by simp
    next
      case False
      with a assms(1) show ?thesis by (auto simp: lock_inv_def)
    qed
  next
    case (LCheck tok)
    with ev assms(1) show ?thesis by (auto simp: lock_inv_def split: lock_phase.splits if_splits)
  next
    case (LRelease tok)
    with ev assms(1) show ?thesis
      by (auto simp: lock_inv_def lock_release_def entry_def cmd_del_def AList.delete_conv' split: if_splits)
  qed (use ev in simp)
qed

interpretation lock: invariant_system "\<lambda>s. s = lock_start t" "lock_step name timeout" "lock_inv name timeout"
  for t name timeout
proof unfold_locales
  show "lock_inv name timeout s" if "s = lock_start t" for s
    using that by (simp add: lock_inv_def lock_start_def)
qed (rule lock_inv_step)

text \<open>C10: the lock is exclusive: however clients interleave, wait, time out and release, at most
  one of them holds the lock within its lease, as long as no failure callback force-releases it.\<close>

theorem lock_mutual_exclusion:
  assumes "(lock_step name timeout)\<^sup>*\<^sup>* (lock_start t) s" "holds_lock timeout s a" "holds_lock timeout s b"
  shows "a = b"
proof -
  have "lock_inv name timeout s" using lock.reachable_inv [of "lock_start t" t] assms(1) by simp
  from lock_inv_entry [OF this assms(2)] lock_inv_entry [OF this assms(3)] show ?thesis by auto
qed

primrec lock_run :: "string \<Rightarrow> int \<Rightarrow> lock_event list \<Rightarrow> lock_sys \<Rightarrow> lock_sys option" where
  "lock_run name timeout [] s = Some s"
| "lock_run name timeout (e # es) s = do { s' \<leftarrow> lock_exec name timeout e s; lock_run name timeout es s' }"

lemma lock_run_steps:
  "lock_run name timeout es s = Some s' \<Longrightarrow> LForce \<notin> set es \<Longrightarrow> (lock_step name timeout)\<^sup>*\<^sup>* s s'"
proof (induction es arbitrary: s)
  case (Cons e es)
  then obtain u where "lock_exec name timeout e s = Some u" "lock_run name timeout es u = Some s'"
    by (auto simp: bind_eq_Some_conv)
  moreover from this(1) Cons.prems have "lock_step name timeout s u"
    unfolding lock_step_def by (intro exI [of _ e]) auto
  ultimately show ?case using Cons by (auto intro: converse_rtranclp_into_rtranclp)
qed simp

definition handover :: "lock_event list" where
  "handover = [LAcquire ''a'' True, LTick 1, LAcquire ''b'' True, LCheck ''b'', LRelease ''a'', LTick (1 / 5), LPoll ''b'']"

theorem lock_mutual_exclusion_witness:
  "\<exists>s. lock_run ''lock:network:h'' 120 handover (lock_start 0) = Some s \<and> (\<forall>x. holds_lock 120 s x \<longrightarrow> ''b'' = x)"
proof -
  have "case lock_run ''lock:network:h'' 120 handover (lock_start 0) of None \<Rightarrow> False | Some s \<Rightarrow> holds_lock 120 s ''b''" by code_simp
  then obtain s where s: "lock_run ''lock:network:h'' 120 handover (lock_start 0) = Some s" "holds_lock 120 s ''b''"
    using case_option_ex by blast
  have "LForce \<notin> set handover" by (simp add: handover_def)
  from lock_mutual_exclusion [OF lock_run_steps [OF s(1) this] s(2)] s(1) show ?thesis by blast
qed

text \<open>The forced release breaks exclusion: a failure callback that deletes the key of a lock
  another job holds lets a third client take it while the lease of the holder lasts.\<close>

theorem forced_release_breaks_exclusion:
  "\<exists>s. lock_run ''lock:network:h'' 120 [LAcquire ''a'' True, LTick 1, LForce, LAcquire ''b'' True] (lock_start 0) = Some s \<and>
    holds_lock 120 s ''a'' \<and> holds_lock 120 s ''b''"
  by (rule case_option_ex) code_simp

end
