(* ===== verification/Redis_Semaphore.thy ===== *)
theory Redis_Semaphore
  imports Redis_Store
begin

text \<open>
  \<open>RedisSemaphore\<close> of \<open>src/src/backend/app/core/redis.py\<close>: a sorted set of tokens scored by the
  time they were added. \<open>acquire\<close> prunes and counts, adds its token, counts again and backs off
  when the set has grown past the limit; these are separate commands, between which any other
  client may run. A client is the fresh token of one \<open>acquire\<close>.
\<close>

datatype sem_phase =
    SNew
  | STrying rtime rtime
  | SAdding rtime rtime
  | SAdded rtime rtime rtime
  | SBacking rtime rtime rtime
  | SHolding rtime
  | SDone

record sem_sys =
  m_now :: rtime
  m_keys :: keyspace
  m_phase :: "string \<Rightarrow> sem_phase"

datatype sem_event =
    STick rtime
  | SBegin string rtime
  | SCount string
  | SAdd string
  | SVerify string
  | SBack string
  | SRelease string
  | SProbe

text \<open>\<open>STrying now deadline\<close> keeps the time at which \<open>acquire\<close> began, which all its prunings use.
  \<open>SCount\<close> is the loop test, the pruning and the count; \<open>SAdd\<close> the \<open>ZADD NX\<close>; \<open>SVerify\<close> the second
  count; \<open>SBack\<close> the removal; \<open>SProbe\<close> the method \<open>count\<close>.\<close>

fun sem_exec :: "string \<Rightarrow> int \<Rightarrow> int \<Rightarrow> sem_event \<Rightarrow> sem_sys \<Rightarrow> sem_sys option" where
  "sem_exec name limit ttl (STick d) s = (if 0 \<le> d then Some (s\<lparr>m_now := m_now s + d\<rparr>) else None)"
| "sem_exec name limit ttl (SBegin tok timeout) s =
     (case m_phase s tok of
        SNew \<Rightarrow> Some (s\<lparr>m_phase := (m_phase s)(tok := STrying (m_now s) (m_now s + timeout))\<rparr>)
      | _ \<Rightarrow> None)"
| "sem_exec name limit ttl (SCount tok) s =
     (case m_phase s tok of
        STrying n d \<Rightarrow>
          if m_now s < d
          then do {
            ks \<leftarrow> cmd_zremrangebyscore (m_now s) name 0 (n - of_int ttl) (m_keys s);
            count \<leftarrow> cmd_zcard (m_now s) name ks;
            Some (s\<lparr>m_keys := ks, m_phase := (m_phase s)(tok := if count < limit then SAdding n d else STrying n d)\<rparr>)
          }
          else Some (s\<lparr>m_phase := (m_phase s)(tok := SDone)\<rparr>)
      | _ \<Rightarrow> None)"
| "sem_exec name limit ttl (SAdd tok) s =
     (case m_phase s tok of
        SAdding n d \<Rightarrow> do {
          (zs, e) \<leftarrow> zget (m_now s) name (m_keys s);
          if tok \<in> fst ` set zs then Some (s\<lparr>m_phase := (m_phase s)(tok := STrying n d)\<rparr>)
          else do {
            ks \<leftarrow> cmd_zadd (m_now s) name tok (m_now s) (m_keys s);
            Some (s\<lparr>m_keys := ks, m_phase := (m_phase s)(tok := SAdded n d (m_now s))\<rparr>)
          }
        }
      | _ \<Rightarrow> None)"
| "sem_exec name limit ttl (SVerify tok) s =
     (case m_phase s tok of
        SAdded n d a \<Rightarrow> do {
          count \<leftarrow> cmd_zcard (m_now s) name (m_keys s);
          Some (s\<lparr>m_phase := (m_phase s)(tok := if count \<le> limit then SHolding a else SBacking n d a)\<rparr>)
        }
      | _ \<Rightarrow> None)"
| "sem_exec name limit ttl (SBack tok) s =
     (case m_phase s tok of
        SBacking n d a \<Rightarrow> do {
          ks \<leftarrow> cmd_zrem (m_now s) name tok (m_keys s);
          Some (s\<lparr>m_keys := ks, m_phase := (m_phase s)(tok := STrying n d)\<rparr>)
        }
      | _ \<Rightarrow> None)"
| "sem_exec name limit ttl (SRelease tok) s =
     (case m_phase s tok of
        SHolding a \<Rightarrow> do {
          ks \<leftarrow> cmd_zrem (m_now s) name tok (m_keys s);
          Some (s\<lparr>m_keys := ks, m_phase := (m_phase s)(tok := SDone)\<rparr>)
        }
      | _ \<Rightarrow> None)"
| "sem_exec name limit ttl SProbe s = do {
     ks \<leftarrow> cmd_zremrangebyscore (m_now s) name 0 (m_now s - of_int ttl) (m_keys s);
     count \<leftarrow> cmd_zcard (m_now s) name ks;
     Some (s\<lparr>m_keys := ks\<rparr>)
   }"

definition sem_start :: "rtime \<Rightarrow> sem_sys" where
  "sem_start now = \<lparr>m_now = now, m_keys = [], m_phase = (\<lambda>tok. SNew)\<rparr>"

text \<open>A client counts as a holder until its entry is older than the time to live.\<close>

definition sem_holders :: "int \<Rightarrow> sem_sys \<Rightarrow> string set" where
  "sem_holders ttl s = {tok. \<exists>a. m_phase s tok = SHolding a \<and> m_now s < a + of_int ttl}"

fun added_at :: "sem_phase \<Rightarrow> rtime option" where
  "added_at (SAdded n d a) = Some a"
| "added_at (SBacking n d a) = Some a"
| "added_at (SHolding a) = Some a"
| "added_at _ = None"

fun began_at :: "sem_phase \<Rightarrow> rtime option" where
  "began_at (STrying n d) = Some n"
| "began_at (SAdding n d) = Some n"
| "began_at (SAdded n d a) = Some n"
| "began_at (SBacking n d a) = Some n"
| "began_at _ = None"

text \<open>The sorted set never expires as a key and has one score per token; a client that has added
  its token finds it there while it is young; no client began in the future.\<close>

definition zset :: "string \<Rightarrow> keyspace \<Rightarrow> (string \<times> rtime) list \<Rightarrow> bool" where
  "zset name ks zs \<longleftrightarrow> (\<forall>now. zget now name ks = Some (zs, None))"

definition present :: "int \<Rightarrow> sem_sys \<Rightarrow> (string \<times> rtime) list \<Rightarrow> bool" where
  "present ttl s zs \<longleftrightarrow>
     (\<forall>tok a. added_at (m_phase s tok) = Some a \<longrightarrow> m_now s < a + of_int ttl \<longrightarrow> (tok, a) \<in> set zs)"

definition sem_inv :: "string \<Rightarrow> int \<Rightarrow> int \<Rightarrow> sem_sys \<Rightarrow> bool" where
  "sem_inv name limit ttl s \<longleftrightarrow>
     (\<exists>zs. zset name (m_keys s) zs \<and> distinct (map fst zs) \<and> present ttl s zs) \<and>
     (\<forall>tok n. began_at (m_phase s tok) = Some n \<longrightarrow> n \<le> m_now s) \<and>
     int (card (sem_holders ttl s)) \<le> limit"

definition sem_step :: "string \<Rightarrow> int \<Rightarrow> int \<Rightarrow> sem_sys \<Rightarrow> sem_sys \<Rightarrow> bool" where
  "sem_step name limit ttl s s' \<longleftrightarrow> (\<exists>ev. sem_exec name limit ttl ev s = Some s')"


lemma zset_zput: "zset name ks' zs' \<Longrightarrow> zset name (zput name zs None ks) zs"
  unfolding zset_def by (simp add: zget_zput)

lemma zset_cmds:
  assumes "zset name ks zs"
  shows "cmd_zremrangebyscore now name lo hi ks = Some ks' \<Longrightarrow>
      zset name ks' (filter (\<lambda>z. \<not> (lo \<le> snd z \<and> snd z \<le> hi)) zs)"
    "cmd_zadd now name tok a ks = Some ks' \<Longrightarrow> zset name ks' (AList.update tok a zs)"
    "cmd_zrem now name tok ks = Some ks' \<Longrightarrow> zset name ks' (AList.delete tok zs)"
    "cmd_zcard now name ks = Some n \<Longrightarrow> n = int (length zs)"
proof -
  have z: "zget now name ks = Some (zs, None)" using assms by (simp add: zset_def)
  show "cmd_zremrangebyscore now name lo hi ks = Some ks' \<Longrightarrow> zset name ks' (filter (\<lambda>z. \<not> (lo \<le> snd z \<and> snd z \<le> hi)) zs)"
    "cmd_zadd now name tok a ks = Some ks' \<Longrightarrow> zset name ks' (AList.update tok a zs)"
    "cmd_zrem now name tok ks = Some ks' \<Longrightarrow> zset name ks' (AList.delete tok zs)"
    "cmd_zcard now name ks = Some n \<Longrightarrow> n = int (length zs)"
    using zset_zput [OF assms] z
    by (auto simp: cmd_zremrangebyscore_def cmd_zadd_def cmd_zrem_def cmd_zcard_def)
qed

lemma holders_present: "present ttl s zs \<Longrightarrow> sem_holders ttl s \<subseteq> fst ` set zs"
  by (force simp: present_def sem_holders_def)

lemma finite_holders: "present ttl s zs \<Longrightarrow> finite (sem_holders ttl s)"
  using holders_present finite_surj by (metis List.finite_set)

lemma sem_invI:
  assumes "sem_inv name limit ttl s" "zset name (m_keys s') zs" "distinct (map fst zs)" "present ttl s' zs"
    "\<And>tok n. began_at (m_phase s' tok) = Some n \<Longrightarrow> n \<le> m_now s'" "sem_holders ttl s' \<subseteq> sem_holders ttl s"
  shows "sem_inv name limit ttl s'"
proof -
  have "finite (sem_holders ttl s)" using assms(1) by (auto simp: sem_inv_def dest: finite_holders)
  then have "card (sem_holders ttl s') \<le> card (sem_holders ttl s)" using assms(6) by (rule card_mono)
  with assms show ?thesis unfolding sem_inv_def by auto
qed

text \<open>Steps that prune, and steps that remove the client's own token.\<close>

lemma present_prune:
  assumes "present ttl s zs" "hi \<le> m_now s - of_int ttl" "m_now s' = m_now s"
    "\<And>tok a. added_at (m_phase s' tok) = Some a \<Longrightarrow> added_at (m_phase s tok) = Some a"
  shows "present ttl s' (filter (\<lambda>z. \<not> (0 \<le> snd z \<and> snd z \<le> hi)) zs)"
  using assms unfolding present_def by auto

lemma present_delete:
  assumes "present ttl s zs" "m_now s' = m_now s" "m_phase s' = (m_phase s)(tok := p)" "added_at p = None"
  shows "present ttl s' (AList.delete tok zs)"
  using assms unfolding present_def by (auto simp: AList.delete_eq split: if_splits)

lemma sem_inv_prune:
  assumes inv: "sem_inv name limit ttl s" and z: "zset name (m_keys s) zs" "distinct (map fst zs)" "present ttl s zs"
    and ks: "cmd_zremrangebyscore (m_now s) name 0 hi (m_keys s) = Some (m_keys s')" "hi \<le> m_now s - of_int ttl" "m_now s' = m_now s"
    and a: "\<And>tok a. added_at (m_phase s' tok) = Some a \<Longrightarrow> added_at (m_phase s tok) = Some a"
    and b: "\<And>tok n. began_at (m_phase s' tok) = Some n \<Longrightarrow> n \<le> m_now s" and h: "sem_holders ttl s' \<subseteq> sem_holders ttl s"
  shows "sem_inv name limit ttl s'"
  using zset_cmds(1) [OF z(1) ks(1)]
  by (rule sem_invI [OF inv]) (use present_prune [OF z(3) ks(2,3) a] z(2) b h ks(3) in \<open>simp_all add: distinct_map_filter\<close>)

lemma sem_inv_verify:
  assumes inv: "sem_inv name limit ttl s" and p: "m_phase s tok = SAdded n d a"
    and z: "zset name (m_keys s) zs" "distinct (map fst zs)" "present ttl s zs" and c: "int (length zs) \<le> limit"
  shows "sem_inv name limit ttl (s\<lparr>m_phase := (m_phase s)(tok := SHolding a)\<rparr>)"
proof -
  let ?s = "s\<lparr>m_phase := (m_phase s)(tok := SHolding a)\<rparr>"
  have pr: "present ttl ?s zs" using z(3) p by (auto simp: present_def)
  have "card (sem_holders ttl ?s) \<le> card (fst ` set zs)" by (rule card_mono) (use holders_present [OF pr] in auto)
  also have "\<dots> \<le> length zs" using card_length [of "map fst zs"] by simp
  finally have "int (card (sem_holders ttl ?s)) \<le> limit" using c by simp
  moreover have "\<forall>t n. began_at (m_phase ?s t) = Some n \<longrightarrow> n \<le> m_now ?s" using inv by (auto simp: sem_inv_def)
  ultimately show ?thesis using z pr unfolding sem_inv_def by auto
qed

lemma sem_inv_step:
  assumes inv: "sem_inv name limit ttl s" and "sem_step name limit ttl s s'"
  shows "sem_inv name limit ttl s'"
proof -
  obtain ev where ev: "sem_exec name limit ttl ev s = Some s'" using assms(2) by (auto simp: sem_step_def)
  obtain zs where z: "zset name (m_keys s) zs" "distinct (map fst zs)" "present ttl s zs"
    and b: "\<And>tok n. began_at (m_phase s tok) = Some n \<Longrightarrow> n \<le> m_now s"
    using inv by (auto simp: sem_inv_def)
  show ?thesis
  proof (cases ev)
    case (STick d)
    then have "s' = s\<lparr>m_now := m_now s + d\<rparr>" "0 \<le> d" using ev by (auto split: if_splits)
    then show ?thesis using z(1,2)
      by (intro sem_invI [OF inv, of _ zs]) (use z(3) b in \<open>fastforce simp: present_def sem_holders_def\<close>)+
  next
    case (SBegin tok timeout)
    then have "s' = s\<lparr>m_phase := (m_phase s)(tok := STrying (m_now s) (m_now s + timeout))\<rparr>"
      using ev by (auto split: sem_phase.splits)
    then show ?thesis using z(1,2)
      by (intro sem_invI [OF inv, of _ zs]) (use z(3) b in \<open>auto simp: present_def sem_holders_def split: if_splits\<close>)
  next
    case (SVerify tok)
    then obtain n d a where a: "m_phase s tok = SAdded n d a"
        "s' = s\<lparr>m_phase := (m_phase s)(tok := if int (length zs) \<le> limit then SHolding a else SBacking n d a)\<rparr>"
      using ev zset_cmds(4) [OF z(1)] by (auto simp: bind_eq_Some_conv split: sem_phase.splits)
    show ?thesis
    proof (cases "int (length zs) \<le> limit")
      case True
      with a sem_inv_verify [OF inv a(1) z] show ?thesis by simp
    next
      case False
      with a show ?thesis using z(1,2)
        by (intro sem_invI [OF inv, of _ zs]) (use z(3) b [of tok] b a(1) in \<open>auto simp: present_def sem_holders_def split: if_splits\<close>)
    qed
  next
    case (SRelease tok)
    then obtain a ks where a: "m_phase s tok = SHolding a" "cmd_zrem (m_now s) name tok (m_keys s) = Some ks"
        "s' = s\<lparr>m_keys := ks, m_phase := (m_phase s)(tok := SDone)\<rparr>"
      using ev by (auto simp: bind_eq_Some_conv split: sem_phase.splits)
    then show ?thesis using zset_cmds(3) [OF z(1) a(2)] z(2)
      by (intro sem_invI [OF inv, of _ "AList.delete tok zs"] present_delete [OF z(3)])
        (use b in \<open>auto simp: sem_holders_def AList.distinct_delete split: if_splits\<close>)
  next
    case (SBack tok)
    then obtain n d a ks where a: "m_phase s tok = SBacking n d a" "cmd_zrem (m_now s) name tok (m_keys s) = Some ks"
        "s' = s\<lparr>m_keys := ks, m_phase := (m_phase s)(tok := STrying n d)\<rparr>"
      using ev by (auto simp: bind_eq_Some_conv split: sem_phase.splits)
    then show ?thesis using zset_cmds(3) [OF z(1) a(2)] z(2)
      by (intro sem_invI [OF inv, of _ "AList.delete tok zs"] present_delete [OF z(3)])
        (use b [of tok] b in \<open>auto simp: sem_holders_def AList.distinct_delete split: if_splits\<close>)
  next
    case SProbe
    then obtain ks where ks: "cmd_zremrangebyscore (m_now s) name 0 (m_now s - of_int ttl) (m_keys s) = Some ks" "s' = s\<lparr>m_keys := ks\<rparr>"
      using ev by (auto simp: bind_eq_Some_conv)
    then show ?thesis by (intro sem_inv_prune [OF inv z]) (use b in \<open>auto simp: sem_holders_def\<close>)
  next
    case (SCount tok)
    then obtain n d where t: "m_phase s tok = STrying n d" using ev by (auto split: sem_phase.splits)
    show ?thesis
    proof (cases "m_now s < d")
      case False
      with ev SCount t have "s' = s\<lparr>m_phase := (m_phase s)(tok := SDone)\<rparr>" by simp
      then show ?thesis using z(1,2)
        by (intro sem_invI [OF inv, of _ zs]) (use z(3) b in \<open>auto simp: present_def sem_holders_def split: if_splits\<close>)
    next
      case True
      with ev SCount t obtain ks count where ks: "cmd_zremrangebyscore (m_now s) name 0 (n - of_int ttl) (m_keys s) = Some ks"
          "s' = s\<lparr>m_keys := ks, m_phase := (m_phase s)(tok := if count < limit then SAdding n d else STrying n d)\<rparr>"
        by (auto simp: bind_eq_Some_conv)
      then show ?thesis
        by (intro sem_inv_prune [OF inv z, of "n - of_int ttl"])
          (use b [of tok n] b t in \<open>auto simp: sem_holders_def split: if_splits\<close>)
    qed
  next
    case (SAdd tok)
    then obtain n d where t: "m_phase s tok = SAdding n d" using ev by (auto split: sem_phase.splits)
    show ?thesis
    proof (cases "tok \<in> fst ` set zs")
      case True
      with ev SAdd t z(1) have "s' = s\<lparr>m_phase := (m_phase s)(tok := STrying n d)\<rparr>" by (simp add: zset_def)
      then show ?thesis using z(1,2)
        by (intro sem_invI [OF inv, of _ zs]) (use z(3) b [of tok n] b t in \<open>auto simp: present_def sem_holders_def split: if_splits\<close>)
    next
      case False
      with ev SAdd t z(1) obtain ks where ks: "cmd_zadd (m_now s) name tok (m_now s) (m_keys s) = Some ks"
          "s' = s\<lparr>m_keys := ks, m_phase := (m_phase s)(tok := SAdded n d (m_now s))\<rparr>"
        by (auto simp: zset_def bind_eq_Some_conv)
      then show ?thesis using zset_cmds(2) [OF z(1) ks(1)] z(2) set_update_new [OF False]
        by (intro sem_invI [OF inv, of _ "AList.update tok (m_now s) zs"])
          (use z(3) b [of tok n] b t in \<open>auto simp: present_def sem_holders_def AList.distinct_update split: if_splits\<close>)
    qed
  qed
qed

interpretation semaphore: invariant_system "\<lambda>s. s = sem_start t" "sem_step name limit ttl" "\<lambda>s. 0 \<le> limit \<longrightarrow> sem_inv name limit ttl s"
  for t name limit ttl
proof unfold_locales
  show "0 \<le> limit \<longrightarrow> sem_inv name limit ttl s" if "s = sem_start t" for s
    using that by (auto simp: sem_inv_def sem_start_def zset_def zget_def present_def sem_holders_def)
qed (auto intro: sem_inv_step)


primrec sem_run :: "string \<Rightarrow> int \<Rightarrow> int \<Rightarrow> sem_event list \<Rightarrow> sem_sys \<Rightarrow> sem_sys option" where
  "sem_run name limit ttl [] s = Some s"
| "sem_run name limit ttl (e # es) s = do { s' \<leftarrow> sem_exec name limit ttl e s; sem_run name limit ttl es s' }"

lemma sem_run_steps: "sem_run name limit ttl es s = Some s' \<Longrightarrow> (sem_step name limit ttl)\<^sup>*\<^sup>* s s'"
proof (induction es arbitrary: s)
  case (Cons e es)
  then obtain u where "sem_exec name limit ttl e s = Some u" "sem_run name limit ttl es u = Some s'"
    by (auto simp: bind_eq_Some_conv)
  moreover from this(1) have "sem_step name limit ttl s u" unfolding sem_step_def by blast
  ultimately show ?case using Cons by (auto intro: converse_rtranclp_into_rtranclp)
qed simp

text \<open>Two clients race for the last slot: both count below the limit and add, the second to
  verify backs off and retries after the first released.\<close>

definition sem_race :: "sem_event list" where
  "sem_race = [SBegin ''a'' 1800, SBegin ''b'' 1800, SCount ''a'', SCount ''b'', SAdd ''a'', SVerify ''a'', SAdd ''b'', SVerify ''b'',
     SBack ''b'', STick (1 / 2), SCount ''b'', SRelease ''a'', STick (1 / 2), SCount ''b'', SAdd ''b'', SVerify ''b'']"


end
