(* ===== verification/Job_Queue.thy ===== *)
theory Job_Queue
  imports Redis_Store Eip_Service
begin

text \<open>
  \<open>src/src/backend/app/core/redis.py\<close>, background jobs: enqueueing with the fallback to a thread,
  the project's pointer to its job, job status with the detection of dead workers, and the
  callbacks of finished and failed jobs.

  The job store of RQ is a state component like the keyspace: jobs by id, the ids in each
  queue and the names of the registered workers. What leaves the process is logged: a
  notification, a function started in a thread, a workload run marked as interrupted.
\<close>

record destroy_ctx =
  x_project_id :: string
  x_host_id :: "string option"
  x_vni_map :: json
  x_topology :: json
  x_dns_provider_id :: "string option"
  x_domain :: "string option"

datatype job_fn =
    Stop_project string
  | Destroy_project destroy_ctx
  | Run_workload json
  | Other_job string

datatype event =
    Notify string json
  | Thread job_fn
  | Workload_interrupted string string

record rq_job =
  j_fn :: job_fn
  j_status :: "string option"
  j_worker :: "string option"
  j_origin :: string
  j_project :: "string option"
  j_host :: "string option"

record rq =
  rq_jobs :: "(string \<times> rq_job) list"
  rq_queues :: "(string \<times> string list) list"
  rq_workers :: "string list"

record world =
  w_db :: database
  w_cloud :: "cloud_call list"
  w_shared :: shared
  w_rq :: rq
  w_log :: "event list"

definition QUEUE_DEPLOY :: string where "QUEUE_DEPLOY = ''project_lifecycle''"

definition job_key :: "string \<Rightarrow> string" where "job_key pid = ''job:project:'' @ pid"

abbreviation with_keys :: "world \<Rightarrow> keyspace \<Rightarrow> world" where
  "with_keys w ks \<equiv> w\<lparr>w_shared := (w_shared w)\<lparr>s_keys := ks\<rparr>\<rparr>"

abbreviation logged :: "world \<Rightarrow> event \<Rightarrow> world" where
  "logged w e \<equiv> w\<lparr>w_log := w_log w @ [e]\<rparr>"

section \<open>Enqueueing\<close>

text \<open>Storing the pointer is part of the guarded block: when that command fails, the job is
  queued already and the function is started in a thread as well.\<close>

definition enqueue_job ::
    "call \<Rightarrow> string \<Rightarrow> job_fn \<Rightarrow> string \<Rightarrow> string option \<Rightarrow> string option \<Rightarrow> world \<Rightarrow> world" where
  "enqueue_job c new_id fn queue_name project_id host_id w =
     (let (ok, sh) = is_redis_available c (w_shared w);
          w = w\<lparr>w_shared := sh\<rparr>
      in if ok \<and> c_up c 0
         then let job = \<lparr>j_fn = fn, j_status = Some ''queued'', j_worker = None, j_origin = queue_name,
                    j_project = (if opt_truthy project_id then project_id else None),
                    j_host = (if opt_truthy host_id then host_id else None)\<rparr>;
                  q = w_rq w;
                  w = w\<lparr>w_rq := q\<lparr>rq_jobs := AList.update new_id job (rq_jobs q),
                    rq_queues := AList.update queue_name (dict_get (rq_queues q) queue_name [] @ [new_id]) (rq_queues q)\<rparr>\<rparr>
              in if opt_truthy project_id
                 then (case (if c_up c 1 then cmd_set (c_now c) (job_key (the project_id)) (RText new_id) 7200 (s_keys (w_shared w)) else None) of
                         None \<Rightarrow> logged w (Thread fn)
                       | Some ks \<Rightarrow> with_keys w ks)
                 else w
         else logged w (Thread fn))"

section \<open>The pointer from a project to its job\<close>

definition delete_job :: "string \<Rightarrow> rq \<Rightarrow> rq" where
  "delete_job jid q = q\<lparr>rq_jobs := AList.delete jid (rq_jobs q),
     rq_queues := map (\<lambda>(n, ids). (n, removeAll jid ids)) (rq_queues q)\<rparr>"

definition clear_project_job_ref :: "call \<Rightarrow> nat \<Rightarrow> string \<Rightarrow> string option \<Rightarrow> world \<Rightarrow> world" where
  "clear_project_job_ref c i pid job_id w =
     (case get_redis c (w_shared w) of
        None \<Rightarrow> w
      | Some sh \<Rightarrow>
          let w = w\<lparr>w_shared := sh\<rparr>
          in if \<not> c_up c i then w
             else let w = with_keys w (cmd_del (job_key pid) (s_keys sh))
                  in if opt_truthy job_id \<and> c_up c (i + 1) then w\<lparr>w_rq := delete_job (the job_id) (w_rq w)\<rparr> else w)"

record job_info =
  ji_job_id :: string
  ji_status :: string
  ji_position :: "(int \<times> int) option"

definition normalize_rq_status :: "string option \<Rightarrow> string" where
  "normalize_rq_status status = (case status of None \<Rightarrow> [] | Some s \<Rightarrow> s)"

fun list_index :: "'a list \<Rightarrow> 'a \<Rightarrow> nat option" where
  "list_index [] x = None"
| "list_index (y # ys) x = (if y = x then Some 0 else map_option Suc (list_index ys x))"

definition queue_position :: "rq \<Rightarrow> string \<Rightarrow> string \<Rightarrow> int \<times> int" where
  "queue_position q origin jid =
     (let ids = dict_get (rq_queues q) origin []
      in (case list_index ids jid of None \<Rightarrow> 0 | Some i \<Rightarrow> int i + 1, int (length ids)))"

text \<open>A started job whose worker is not registered any more is dead.\<close>

definition dead_worker :: "rq \<Rightarrow> rq_job \<Rightarrow> bool" where
  "dead_worker q job =
     (let worker = py_strip (case j_worker job of None \<Rightarrow> [] | Some s \<Rightarrow> s)
      in worker = [] \<or> worker \<notin> set (rq_workers q))"

definition get_job_info :: "call \<Rightarrow> string \<Rightarrow> world \<Rightarrow> job_info option \<times> world" where
  "get_job_info c pid w =
     (if \<not> s_available (w_shared w) \<or> \<not> c_up c 0 then (None, w)
      else case cmd_get (c_now c) (job_key pid) (s_keys (w_shared w)) of
        Some (Some (RText jid)) \<Rightarrow>
          if jid = [] \<or> \<not> c_up c 1 then (None, w)
          else (case map_of (rq_jobs (w_rq w)) jid of
                  None \<Rightarrow> (None, w)
                | Some job \<Rightarrow>
                    let status = normalize_rq_status (j_status job)
                    in if status = ''started'' \<and> py_strip (case j_worker job of None \<Rightarrow> [] | Some s \<Rightarrow> s) = []
                       then (None, clear_project_job_ref c 4 pid (Some jid) w)
                       else if status = ''started'' \<and> \<not> c_up c 2 then (None, w)
                       else if status = ''started'' \<and> dead_worker (w_rq w) job
                       then (None, clear_project_job_ref c 4 pid (Some jid) w)
                       else if status = ''queued'' \<and> \<not> c_up c 3 then (None, w)
                       else (Some \<lparr>ji_job_id = jid, ji_status = status,
                               ji_position = (if status = ''queued'' then Some (queue_position (w_rq w) (j_origin job) jid) else None)\<rparr>, w))
      | _ \<Rightarrow> (None, w))"

section \<open>Callbacks of finished jobs\<close>

definition inflight_key :: "string \<Rightarrow> string" where "inflight_key host_id = ''inflight:deploys:'' @ host_id"

definition record_deploy_start :: "call \<Rightarrow> string \<Rightarrow> shared \<Rightarrow> shared" where
  "record_deploy_start c host_id st =
     (case increment_counter c (inflight_key host_id) 7200 st of None \<Rightarrow> st | Some (n, st) \<Rightarrow> st)"

definition record_deploy_end :: "call \<Rightarrow> string \<Rightarrow> shared \<Rightarrow> shared" where
  "record_deploy_end c host_id st =
     (case decrement_counter c (inflight_key host_id) st of None \<Rightarrow> st | Some st \<Rightarrow> st)"

definition release_stale_lock :: "call \<Rightarrow> string \<Rightarrow> shared \<Rightarrow> shared" where
  "release_stale_lock c key st =
     (if s_available st \<and> c_up c 0 then st\<lparr>s_keys := cmd_del key (s_keys st)\<rparr> else st)"

definition network_lock :: "string \<Rightarrow> string" where "network_lock host_id = ''lock:network:'' @ host_id"

text \<open>The accesses of a callback to Redis are separate calls, numbered.\<close>

definition on_job_success :: "(nat \<Rightarrow> call) \<Rightarrow> rq_job \<Rightarrow> world \<Rightarrow> world" where
  "on_job_success cs job w =
     (let w = (if opt_truthy (j_host job) then w\<lparr>w_shared := record_deploy_end (cs 0) (the (j_host job)) (w_shared w)\<rparr> else w)
      in if opt_truthy (j_project job) \<and> c_up (cs 1) 0
         then with_keys w (cmd_del (job_key (the (j_project job))) (s_keys (w_shared w))) else w)"

definition cleanup_host_locks :: "(nat \<Rightarrow> call) \<Rightarrow> string option \<Rightarrow> string option \<Rightarrow> world \<Rightarrow> world" where
  "cleanup_host_locks cs host_id project_id w =
     (if opt_truthy host_id
      then w\<lparr>w_shared := release_stale_lock (cs 1) (network_lock (the host_id))
               (record_deploy_end (cs 0) (the host_id) (w_shared w))\<rparr>
      else if opt_truthy project_id
      then (case project_by_id (w_db w) (the project_id) of
              None \<Rightarrow> w
            | Some p \<Rightarrow>
                if opt_truthy (p_host_id p)
                then w\<lparr>w_shared := release_stale_lock (cs 1) (network_lock (the (p_host_id p))) (w_shared w)\<rparr>
                else w)
      else w)"

definition fail_workload_run_from_job :: "rq_job \<Rightarrow> string \<Rightarrow> string option \<Rightarrow> world \<Rightarrow> world" where
  "fail_workload_run_from_job job exc_type exc_value w =
     (case j_fn job of
        Run_workload (JStr run_id) \<Rightarrow>
          logged w (Workload_interrupted run_id
            (if exc_type = ''AbandonedJobError''
             then ''Interrupted: the worker restarted or the node was lost before this workload finished''
             else case exc_value of
               Some m \<Rightarrow> ''Failed: '' @ m
             | None \<Rightarrow> ''Failed: workload job ended unexpectedly''))
      | _ \<Rightarrow> w)"

text \<open>A changed project row gets the current time as its update time.\<close>

definition touched :: "time \<Rightarrow> project \<Rightarrow> project" where
  "touched now p = p\<lparr>p_updated_at := now\<rparr>"

definition set_project_error_state :: "time \<Rightarrow> string \<Rightarrow> string option \<Rightarrow> database \<Rightarrow> database" where
  "set_project_error_state now pid exc_value db =
     (case project_by_id db pid of
        None \<Rightarrow> db
      | Some p \<Rightarrow>
          if p_state p \<in> {''deploying'', ''starting'', ''stopping'', ''deleting''}
          then let err_msg = py_strip (case exc_value of None \<Rightarrow> [] | Some m \<Rightarrow> m)
               in store_project (touched now (p\<lparr>p_state := ''error'',
                    p_deploy_error := Some (if err_msg \<noteq> [] then err_msg @ ''. Please retry.''
                      else ''Job failed unexpectedly. Please retry.'')\<rparr>)) db
          else db)"

definition on_job_failure :: "(nat \<Rightarrow> call) \<Rightarrow> time \<Rightarrow> rq_job \<Rightarrow> string \<Rightarrow> string option \<Rightarrow> world \<Rightarrow> world" where
  "on_job_failure cs now job exc_type exc_value w =
     (let w = cleanup_host_locks cs (j_host job) (j_project job) (fail_workload_run_from_job job exc_type exc_value w)
      in if \<not> opt_truthy (j_project job) then w
         else if exc_type \<noteq> ''AbandonedJobError''
         then let pid = the (j_project job);
                  w = w\<lparr>w_shared := delete_progress (cs 2) (''deploy:'' @ pid) (w_shared w)\<rparr>;
                  w = (if c_up (cs 3) 0 then with_keys w (cmd_del (job_key pid) (s_keys (w_shared w))) else w)
              in w\<lparr>w_db := set_project_error_state now pid exc_value (w_db w)\<rparr>
         else w)"

end
