(* ===== verification/Project_Timer.thy ===== *)
theory Project_Timer
  imports Job_Queue
begin

text \<open>
  \<open>src/src/backend/app/services/project_timer.py\<close>: one pass over the projects stops those whose
  auto-stop time has come, deletes those whose lifetime is over, warns shortly before either,
  and recovers projects that are stuck in a transitional state without a job.

  A loop over rows of the session reloads a row when it gets to it, because every commit
  expires the loaded rows; a row that is gone raises. A raise ends the pass: what was committed
  stays. \<open>stop_project_async\<close> drives the agents of the hosts and is the parameter \<open>t_stop\<close>
  (\<^term>\<open>None\<close> when it raises). Times are microseconds; a time in a notification is the number.
\<close>

record timer_env =
  t_now :: time
  t_dry :: bool
  t_call :: "string \<Rightarrow> call"
  t_new_id :: "string \<Rightarrow> string"
  t_stop :: "string \<Rightarrow> world \<Rightarrow> world option"
  t_cloud :: cloud

record timer_result =
  r_auto_stop :: "string list"
  r_auto_delete :: "string list"
  r_auto_stop_warned :: "string list"
  r_auto_delete_warned :: "string list"
  r_stuck_recovered :: "string list"

type_synonym timer_state = "world \<times> timer_result"

definition WARNING_MINUTES :: int where "WARNING_MINUTES = 5"
definition MINUTE :: int where "MINUTE = 60000000"
definition TRANSITIONAL_STATES :: "string list" where
  "TRANSITIONAL_STATES = [''deploying'', ''stopping'', ''starting'', ''reconfiguring'', ''migrating'']"

text \<open>A loop whose body may raise; the flag says whether it did.\<close>

fun raising_loop :: "('a \<Rightarrow> 's \<Rightarrow> 's \<times> bool) \<Rightarrow> 'a list \<Rightarrow> 's \<Rightarrow> 's \<times> bool" where
  "raising_loop f [] s = (s, False)"
| "raising_loop f (x # xs) s = (case f x s of (s', True) \<Rightarrow> (s', True) | (s', False) \<Rightarrow> raising_loop f xs s')"

definition then_run :: "'s \<times> bool \<Rightarrow> ('s \<Rightarrow> 's \<times> bool) \<Rightarrow> 's \<times> bool" where
  "then_run x f = (if snd x then x else f (fst x))"

text \<open>The comparison of a nullable column with a time selects nothing when it is null.\<close>

definition due :: "time option \<Rightarrow> time \<Rightarrow> bool" where
  "due t now = (case t of None \<Rightarrow> False | Some x \<Rightarrow> x \<le> now)"

definition later :: "time option \<Rightarrow> time \<Rightarrow> bool" where
  "later t now = (case t of None \<Rightarrow> False | Some x \<Rightarrow> x > now)"

abbreviation with_row :: "world \<Rightarrow> project \<Rightarrow> world" where
  "with_row w p \<equiv> w\<lparr>w_db := store_project p (w_db w)\<rparr>"

definition query_ids :: "(project \<Rightarrow> bool) \<Rightarrow> world \<Rightarrow> string list" where
  "query_ids sel w = map p_id (filter sel (d_projects (w_db w)))"

section \<open>Expired timers\<close>

definition fired :: "string \<Rightarrow> json" where
  "fired timer = JObj [(''type'', JStr ''timer_fired''), (''timer'', JStr timer)]"

definition spawn_stop :: "timer_env \<Rightarrow> string \<Rightarrow> world \<Rightarrow> world" where
  "spawn_stop env pid w = enqueue_job (t_call env pid) (t_new_id env pid) (Stop_project pid) QUEUE_DEPLOY (Some pid) None w"

definition stopped_row :: "project \<Rightarrow> project" where
  "stopped_row p = p\<lparr>p_state := ''stopping'', p_auto_stopped := True, p_auto_stop_started_at := None,
     p_auto_stop_expires_at := None, p_auto_stop_warned := False\<rparr>"

definition fire_stop :: "timer_env \<Rightarrow> string \<Rightarrow> timer_state \<Rightarrow> timer_state \<times> bool" where
  "fire_stop env pid st =
     (case project_by_id (w_db (fst st)) pid of
        None \<Rightarrow> (st, True)
      | Some p \<Rightarrow>
          let res = (snd st)\<lparr>r_auto_stop := r_auto_stop (snd st) @ [pid]\<rparr>
          in if t_dry env then ((fst st, res), False)
             else ((spawn_stop env pid (logged (with_row (fst st) (touched (t_now env) (stopped_row p)))
                      (Notify pid (fired ''auto_stop''))), res), False))"

definition destroy_ctx_of :: "project \<Rightarrow> destroy_ctx" where
  "destroy_ctx_of p = \<lparr>x_project_id = p_id p, x_host_id = p_host_id p, x_vni_map = py_or (p_vni_map p) (JObj []),
     x_topology = py_or (p_deployed_topology p) (py_or (p_topology p) (JObj [])),
     x_dns_provider_id = p_dns_provider_id p, x_domain = p_domain p\<rparr>"

text \<open>Releasing the addresses of the project: an error is logged and the next one is tried.\<close>

fun release_loop :: "cloud \<Rightarrow> elastic_ip list \<Rightarrow> eip_state \<Rightarrow> eip_state" where
  "release_loop cl [] st = st"
| "release_loop cl (e # es) st = release_loop cl es (fst (release_eip cl (reload_eip (fst st) e) st))"

text \<open>The row of the project goes; addresses that still name it keep a null project.\<close>

definition delete_project_row :: "string \<Rightarrow> database \<Rightarrow> database" where
  "delete_project_row pid db = db\<lparr>d_projects := filter (\<lambda>p. p_id p \<noteq> pid) (d_projects db),
     d_eips := map (\<lambda>e. if e_project_id e = Some pid then e\<lparr>e_project_id := None\<rparr> else e) (d_eips db)\<rparr>"

definition finish_delete :: "timer_env \<Rightarrow> project \<Rightarrow> world \<Rightarrow> world" where
  "finish_delete env p w =
     (let pid = p_id p;
          w = logged w (Notify pid (JObj [(''type'', JStr ''project-deleted'')]));
          w = (if opt_truthy (p_host_id p) \<and> p_state p \<in> {''stopped'', ''error''}
               then enqueue_job (t_call env pid) (t_new_id env pid) (Destroy_project (destroy_ctx_of p)) QUEUE_DEPLOY (Some pid) None w
               else w);
          (db, calls) = release_loop (t_cloud env) (filter (\<lambda>e. e_project_id e = Some pid) (d_eips (w_db w))) (w_db w, w_cloud w)
      in w\<lparr>w_db := delete_project_row pid db, w_cloud := calls\<rparr>)"

definition delete_project :: "timer_env \<Rightarrow> project \<Rightarrow> world \<Rightarrow> world \<times> bool" where
  "delete_project env p w =
     (if p_state p = ''active''
      then let w = with_row w (touched (t_now env) (p\<lparr>p_state := ''stopping''\<rparr>))
           in (case t_stop env (p_id p) w of
                 None \<Rightarrow> (w, True)
               | Some w' \<Rightarrow>
                   (case project_by_id (w_db w') (p_id p) of
                      None \<Rightarrow> (w', True)
                    | Some p' \<Rightarrow> (finish_delete env p' w', False)))
      else (finish_delete env p w, False))"

definition fire_delete :: "timer_env \<Rightarrow> string \<Rightarrow> timer_state \<Rightarrow> timer_state \<times> bool" where
  "fire_delete env pid st =
     (case project_by_id (w_db (fst st)) pid of
        None \<Rightarrow> (st, True)
      | Some p \<Rightarrow>
          if p_state p \<in> set TRANSITIONAL_STATES then (st, False)
          else let res = (snd st)\<lparr>r_auto_delete := r_auto_delete (snd st) @ [pid]\<rparr>
               in if t_dry env then ((fst st, res), False)
                  else (case delete_project env p (logged (fst st) (Notify pid (fired ''auto_delete''))) of
                          (w, raised) \<Rightarrow> ((w, res), raised)))"

definition stop_due :: "time \<Rightarrow> project \<Rightarrow> bool" where
  "stop_due now p \<longleftrightarrow> due (p_auto_stop_expires_at p) now \<and> p_state p = ''active''"

definition delete_due :: "time \<Rightarrow> project \<Rightarrow> bool" where
  "delete_due now p \<longleftrightarrow> due (p_lifetime_expires_at p) now \<and> p_state p \<in> {''active'', ''stopped'', ''error'', ''draft''}"

definition process_expired_timers :: "timer_env \<Rightarrow> timer_state \<Rightarrow> timer_state \<times> bool" where
  "process_expired_timers env st =
     then_run (raising_loop (fire_stop env) (query_ids (stop_due (t_now env)) (fst st)) st)
       (\<lambda>st. raising_loop (fire_delete env) (query_ids (delete_due (t_now env)) (fst st)) st)"

section \<open>Warnings\<close>

text \<open>\<open>round(x)\<close>: to the nearest integer, halves to the even one.\<close>

definition py_round :: "rat \<Rightarrow> int" where
  "py_round x = (let f = \<lfloor>x\<rfloor>; r = x - of_int f
     in if r < 1 / 2 then f else if r > 1 / 2 then f + 1 else if even f then f else f + 1)"

definition warning :: "string \<Rightarrow> time \<Rightarrow> time \<Rightarrow> json" where
  "warning timer expires now = JObj [(''type'', JStr ''timer_warning''), (''timer'', JStr timer), (''expires_at'', JInt expires),
     (''minutes_remaining'', JInt (py_round (of_int (expires - now) / of_int MINUTE)))]"

definition warn_stop :: "timer_env \<Rightarrow> string \<Rightarrow> timer_state \<Rightarrow> timer_state \<times> bool" where
  "warn_stop env pid st =
     (case project_by_id (w_db (fst st)) pid of
        None \<Rightarrow> (st, True)
      | Some p \<Rightarrow>
          let res = (snd st)\<lparr>r_auto_stop_warned := r_auto_stop_warned (snd st) @ [pid]\<rparr>
          in if t_dry env then ((fst st, res), False)
             else (case p_auto_stop_expires_at p of
                     None \<Rightarrow> ((fst st, res), False)
                   | Some e \<Rightarrow> ((logged (with_row (fst st) (touched (t_now env) (p\<lparr>p_auto_stop_warned := True\<rparr>)))
                       (Notify pid (warning ''auto_stop'' e (t_now env))), res), False)))"

definition warn_delete :: "timer_env \<Rightarrow> string \<Rightarrow> timer_state \<Rightarrow> timer_state \<times> bool" where
  "warn_delete env pid st =
     (case project_by_id (w_db (fst st)) pid of
        None \<Rightarrow> (st, True)
      | Some p \<Rightarrow>
          let res = (snd st)\<lparr>r_auto_delete_warned := r_auto_delete_warned (snd st) @ [pid]\<rparr>
          in if t_dry env then ((fst st, res), False)
             else (case p_lifetime_expires_at p of
                     None \<Rightarrow> ((fst st, res), False)
                   | Some e \<Rightarrow> ((logged (with_row (fst st) (touched (t_now env) (p\<lparr>p_auto_delete_warned := True\<rparr>)))
                       (Notify pid (warning ''auto_delete'' e (t_now env))), res), False)))"

definition stop_warning_due :: "time \<Rightarrow> time \<Rightarrow> project \<Rightarrow> bool" where
  "stop_warning_due now threshold p \<longleftrightarrow> due (p_auto_stop_expires_at p) threshold \<and> later (p_auto_stop_expires_at p) now \<and>
     \<not> p_auto_stop_warned p \<and> p_state p = ''active''"

definition delete_warning_due :: "time \<Rightarrow> time \<Rightarrow> project \<Rightarrow> bool" where
  "delete_warning_due now threshold p \<longleftrightarrow> due (p_lifetime_expires_at p) threshold \<and> later (p_lifetime_expires_at p) now \<and>
     \<not> p_auto_delete_warned p \<and> p_state p \<notin> set TRANSITIONAL_STATES"

definition process_timer_warnings :: "timer_env \<Rightarrow> time \<Rightarrow> timer_state \<Rightarrow> timer_state \<times> bool" where
  "process_timer_warnings env threshold st =
     then_run (raising_loop (warn_stop env) (query_ids (stop_warning_due (t_now env) threshold) (fst st)) st)
       (\<lambda>st. raising_loop (warn_delete env) (query_ids (delete_warning_due (t_now env) threshold) (fst st)) st)"

section \<open>Stuck projects\<close>

definition started_deploy_is_zombie :: "string \<Rightarrow> project \<Rightarrow> json option \<Rightarrow> bool" where
  "started_deploy_is_zombie status p progress \<longleftrightarrow> status = ''started'' \<and> p_state p = ''deploying'' \<and>
     \<not> (case progress of None \<Rightarrow> False | Some j \<Rightarrow> truthy j)"

text \<open>The message has an em dash, here its three UTF-8 bytes.\<close>

definition lost_job_message :: "string \<Rightarrow> string" where
  "lost_job_message old_state =
     ''Background job lost while '' @ old_state @ [CHR '' '', CHR 0xE2, CHR 0x80, CHR 0x94, CHR '' ''] @ ''please retry''"

definition mark_project_error :: "timer_env \<Rightarrow> project \<Rightarrow> job_info option \<Rightarrow> timer_state \<Rightarrow> timer_state" where
  "mark_project_error env p info st =
     (let pid = p_id p;
          msg = lost_job_message (p_state p);
          w = (case info of
                 None \<Rightarrow> fst st
               | Some i \<Rightarrow> if ji_job_id i \<noteq> [] then clear_project_job_ref (t_call env pid) 8 pid (Some (ji_job_id i)) (fst st) else fst st);
          w = with_row w (touched (t_now env) (p\<lparr>p_state := ''error'', p_deploy_error := Some msg\<rparr>))
      in (logged w (Notify pid (JObj [(''type'', JStr ''project-state''), (''state'', JStr ''error''), (''deploy_error'', JStr msg)])),
          (snd st)\<lparr>r_stuck_recovered := r_stuck_recovered (snd st) @ [pid]\<rparr>))"

definition mark_or_list :: "timer_env \<Rightarrow> project \<Rightarrow> job_info option \<Rightarrow> timer_state \<Rightarrow> timer_state" where
  "mark_or_list env p info st =
     (if t_dry env then (fst st, (snd st)\<lparr>r_stuck_recovered := r_stuck_recovered (snd st) @ [p_id p]\<rparr>)
      else mark_project_error env p info st)"

definition recover_one_stuck_project :: "timer_env \<Rightarrow> string \<Rightarrow> timer_state \<Rightarrow> timer_state \<times> bool" where
  "recover_one_stuck_project env pid st =
     (case project_by_id (w_db (fst st)) pid of
        None \<Rightarrow> (st, True)
      | Some p \<Rightarrow>
          let (info, w) = get_job_info (t_call env pid) pid (fst st);
              status = (case info of None \<Rightarrow> [] | Some i \<Rightarrow> ji_status i)
          in if status \<in> {''queued'', ''started''}
             then (if status = ''started'' \<and> p_state p = ''deploying''
                   then (case get_progress (t_call env (''progress:'' @ pid)) (''deploy:'' @ pid) (w_shared w) of
                           None \<Rightarrow> ((w, snd st), True)
                         | Some (progress, sh) \<Rightarrow>
                             let w = w\<lparr>w_shared := sh\<rparr>
                             in if started_deploy_is_zombie status p progress
                                then (mark_or_list env p info
                                        (if t_dry env then w else clear_project_job_ref (t_call env pid) 6 pid (map_option ji_job_id info) w, snd st), False)
                                else ((w, snd st), False))
                   else ((w, snd st), False))
             else (mark_or_list env p info (w, snd st), False))"

definition stuck :: "time \<Rightarrow> project \<Rightarrow> bool" where
  "stuck grace p \<longleftrightarrow> p_state p \<in> {''deploying'', ''starting'', ''stopping'', ''reconfiguring''} \<and> p_updated_at p < grace"

definition recover_stuck_projects :: "timer_env \<Rightarrow> timer_state \<Rightarrow> timer_state \<times> bool" where
  "recover_stuck_projects env st =
     (let (ok, sh) = is_redis_available (t_call env []) (w_shared (fst st));
          st = ((fst st)\<lparr>w_shared := sh\<rparr>, snd st)
      in if \<not> ok then (st, False)
         else raising_loop (recover_one_stuck_project env) (query_ids (stuck (t_now env - 5 * MINUTE)) (fst st)) st)"

section \<open>One pass\<close>

definition no_result :: timer_result where
  "no_result = \<lparr>r_auto_stop = [], r_auto_delete = [], r_auto_stop_warned = [], r_auto_delete_warned = [], r_stuck_recovered = []\<rparr>"

definition check_project_timers :: "timer_env \<Rightarrow> world \<Rightarrow> timer_state" where
  "check_project_timers env w =
     fst (then_run (then_run (process_expired_timers env (w, no_result))
       (process_timer_warnings env (t_now env + WARNING_MINUTES * MINUTE)))
       (recover_stuck_projects env))"

end
