(* ===== verification/Timer_Laws.thy ===== *)
theory Timer_Laws
  imports Project_Timer
begin

text \<open>
  What one pass of the timers does to each project, that a dry run changes nothing, and that
  projects whose job died are recovered.
\<close>

section \<open>Rows of projects\<close>

abbreviation row :: "world \<Rightarrow> string \<Rightarrow> project option" where
  "row w i \<equiv> project_by_id (w_db w) i"

definition unique_ids :: "world \<Rightarrow> bool" where
  "unique_ids w \<longleftrightarrow> distinct (map p_id (d_projects (w_db w)))"

lemma find_map_replace:
  "find (\<lambda>p. p_id p = i) (map (\<lambda>x. if p_id x = p_id q then q else x) ps) =
     (if i = p_id q \<and> find (\<lambda>p. p_id p = i) ps \<noteq> None then Some q else find (\<lambda>p. p_id p = i) ps)"
  by (induction ps) auto

lemma project_by_id_store:
  "project_by_id (store_project q db) i = (if i = p_id q \<and> project_by_id db i \<noteq> None then Some q else project_by_id db i)"
  unfolding project_by_id_def store_project_def by (simp add: find_map_replace del: not_None_eq)

lemma store_project_ids [simp]: "map p_id (d_projects (store_project q db)) = map p_id (d_projects db)"
  by (auto simp: store_project_def)

lemma find_filter_id:
  "find (\<lambda>p. p_id p = i) (filter (\<lambda>p. p_id p \<noteq> j) ps) = (if i = j then None else find (\<lambda>p. p_id p = i) ps)"
  by (induction ps) auto

lemma project_by_id_delete_row: "project_by_id (delete_project_row j db) i = (if i = j then None else project_by_id db i)"
  by (simp add: project_by_id_def delete_project_row_def find_filter_id)

lemma project_by_id_cong: "d_projects db' = d_projects db \<Longrightarrow> project_by_id db' i = project_by_id db i"
  by (simp add: project_by_id_def)

lemma query_ids_iff:
  assumes "unique_ids w"
  shows "i \<in> set (query_ids sel w) \<longleftrightarrow> (\<exists>p. row w i = Some p \<and> sel p)"
proof -
  have "distinct (map p_id ps) \<Longrightarrow> i \<in> p_id ` set (filter sel ps) \<longleftrightarrow> (\<exists>p. find (\<lambda>p. p_id p = i) ps = Some p \<and> sel p)" for ps
    by (induction ps) force+
  with assms show ?thesis by (simp add: query_ids_def unique_ids_def project_by_id_def)
qed

lemma query_ids_distinct: "unique_ids w \<Longrightarrow> distinct (query_ids sel w)"
  by (simp add: unique_ids_def query_ids_def distinct_map_filter)

lemma enqueue_frame [simp]:
  "w_db (enqueue_job c n f q p h w) = w_db w" "w_cloud (enqueue_job c n f q p h w) = w_cloud w"
  by (simp_all add: enqueue_job_def Let_def split_beta split: option.splits)

lemma clear_frame [simp]:
  "w_db (clear_project_job_ref c i p j w) = w_db w" "w_cloud (clear_project_job_ref c i p j w) = w_cloud w"
  "w_log (clear_project_job_ref c i p j w) = w_log w"
  by (simp_all add: clear_project_job_ref_def Let_def split: option.splits)

lemma job_info_frame [simp]:
  "w_db (snd (get_job_info c p w)) = w_db w" "w_cloud (snd (get_job_info c p w)) = w_cloud w"
  "w_log (snd (get_job_info c p w)) = w_log w"
  by (simp_all add: get_job_info_def Let_def split: option.splits rvalue.splits)

lemma release_eip_projects [simp]: "d_projects (fst (fst (release_eip cl e st))) = d_projects (fst st)"
  by (auto simp: release_eip_def disassociate_eip_def Let_def split_beta split: option.splits)

lemma release_loop_projects [simp]: "d_projects (fst (release_loop cl es st)) = d_projects (fst st)"
  by (induction es arbitrary: st) simp_all

section \<open>Loops\<close>

lemma raising_loop_inv:
  assumes "I s" "\<And>x s. x \<in> set xs \<Longrightarrow> I s \<Longrightarrow> I (fst (f x s))"
  shows "I (fst (raising_loop f xs s))"
  using assms
proof (induction xs arbitrary: s)
  case (Cons x xs)
  then have "I (fst (f x s))" by simp
  with Cons show ?case by (cases "f x s") (auto split: bool.splits)
qed simp

lemma then_run_inv: "I (fst x) \<Longrightarrow> (\<And>s. I s \<Longrightarrow> I (fst (f s))) \<Longrightarrow> I (fst (then_run x f))"
  by (simp add: then_run_def)

lemma fst_case_flag: "fst (case x of (s, True) \<Rightarrow> (s, True) | (s, False) \<Rightarrow> (s, False)) = fst x"
  by (cases x) (simp split: bool.splits)

section \<open>Dry runs\<close>

definition untouched :: "world \<Rightarrow> timer_state \<Rightarrow> bool" where
  "untouched w st \<longleftrightarrow> w_db (fst st) = w_db w \<and> w_cloud (fst st) = w_cloud w \<and> w_log (fst st) = w_log w"

lemma dry_steps:
  assumes "t_dry env" "untouched w st"
  shows "untouched w (fst (fire_stop env pid st))" "untouched w (fst (fire_delete env pid st))"
    "untouched w (fst (warn_stop env pid st))" "untouched w (fst (warn_delete env pid st))"
    "untouched w (fst (recover_one_stuck_project env pid st))"
proof -
  show "untouched w (fst (fire_stop env pid st))" "untouched w (fst (fire_delete env pid st))"
    "untouched w (fst (warn_stop env pid st))" "untouched w (fst (warn_delete env pid st))"
    using assms by (simp_all add: untouched_def fire_stop_def fire_delete_def warn_stop_def warn_delete_def Let_def split: option.splits)
  have "untouched w (snd (get_job_info c pid (fst st)), r)" for c r using assms(2) by (simp add: untouched_def)
  then show "untouched w (fst (recover_one_stuck_project env pid st))"
    using assms by (auto simp: recover_one_stuck_project_def Let_def split_beta mark_or_list_def untouched_def split: option.splits)
qed

text \<open>A dry run only reports: it changes no row, calls no cloud, starts no job and sends no
  notification.\<close>

theorem dry_run_changes_nothing:
  assumes "t_dry env" "fst (check_project_timers env w) = w'"
  shows "w_db w' = w_db w \<and> w_cloud w' = w_cloud w \<and> w_log w' = w_log w"
proof -
  let ?I = "untouched w"
  note loop = raising_loop_inv [where I = ?I] and run = then_run_inv [where I = ?I]
  have "?I (fst (process_expired_timers env st))" if "?I st" for st
    unfolding process_expired_timers_def by (rule run; rule loop) (simp_all add: that dry_steps assms(1))
  moreover have "?I (fst (process_timer_warnings env t st))" if "?I st" for t st
    unfolding process_timer_warnings_def by (rule run; rule loop) (simp_all add: that dry_steps assms(1))
  moreover have "?I (fst (recover_stuck_projects env st))" if "?I st" for st
  proof -
    have s: "?I ((fst st)\<lparr>w_shared := sh\<rparr>, snd st)" for sh using that by (simp add: untouched_def)
    have "?I (fst (raising_loop (recover_one_stuck_project env) ids ((fst st)\<lparr>w_shared := sh\<rparr>, snd st)))" for ids sh
      by (rule loop) (simp_all add: s dry_steps assms(1))
    then show ?thesis using s by (simp add: recover_stuck_projects_def Let_def split_beta)
  qed
  moreover have "?I (w, no_result)" by (simp add: untouched_def)
  ultimately have "?I (check_project_timers env w)"
    unfolding check_project_timers_def by (intro run) simp_all
  with assms(2) show ?thesis by (simp add: untouched_def)
qed

section \<open>Stopping\<close>

lemma fire_stop_row:
  assumes "\<not> t_dry env" "row (fst st) pid = Some p"
  shows "\<exists>st'. fire_stop env pid st = (st', False) \<and> w_db (fst st') = store_project (touched (t_now env) (stopped_row p)) (w_db (fst st))"
  using assms by (simp add: fire_stop_def Let_def spawn_stop_def)

lemma row_id: "row w i = Some p \<Longrightarrow> p_id p = i"
  using project_by_idD by blast

lemma touched_id [simp]: "p_id (touched now p) = p_id p" "p_id (stopped_row p) = p_id p"
  by (simp_all add: touched_def stopped_row_def)

lemma stop_loop:
  assumes "\<not> t_dry env" "unique_ids (fst st)" "distinct ids" "\<forall>i\<in>set ids. row (fst st) i \<noteq> None"
  shows "\<exists>st'. raising_loop (fire_stop env) ids st = (st', False) \<and> unique_ids (fst st') \<and>
    (\<forall>i. row (fst st') i = (if i \<in> set ids then map_option (\<lambda>p. touched (t_now env) (stopped_row p)) (row (fst st) i) else row (fst st) i))"
  using assms(2-4)
proof (induction ids arbitrary: st)
  case (Cons j ids)
  then obtain p where p: "row (fst st) j = Some p" by auto
  then obtain st1 where st1: "fire_stop env j st = (st1, False)"
      "w_db (fst st1) = store_project (touched (t_now env) (stopped_row p)) (w_db (fst st))"
    using fire_stop_row [OF assms(1)] by blast
  have r: "row (fst st1) i = (if i = j then Some (touched (t_now env) (stopped_row p)) else row (fst st) i)" for i
    using p row_id [OF p] by (simp add: st1(2) project_by_id_store)
  have "unique_ids (fst st1)" using Cons.prems(1) by (simp add: unique_ids_def st1(2))
  moreover have "\<forall>i\<in>set ids. row (fst st1) i \<noteq> None" using Cons.prems(3) r by auto
  moreover have "distinct ids" using Cons.prems(2) by simp
  ultimately obtain st' where "raising_loop (fire_stop env) ids st1 = (st', False)" "unique_ids (fst st')"
      "\<forall>i. row (fst st') i = (if i \<in> set ids then map_option (\<lambda>p. touched (t_now env) (stopped_row p)) (row (fst st1) i) else row (fst st1) i)"
    using Cons.IH by blast
  then show ?case using st1(1) p r Cons.prems(2) by auto
qed simp

section \<open>Deleting\<close>

text \<open>Stopping a project changes that project's row and no other.\<close>

definition stop_local :: "timer_env \<Rightarrow> bool" where
  "stop_local env \<longleftrightarrow> (\<forall>pid w w'. t_stop env pid w = Some w' \<longrightarrow>
     (\<exists>q. p_id q = pid \<and> d_projects (w_db w') = d_projects (store_project q (w_db w))))"

lemma finish_delete_row:
  "row (finish_delete env p w) i = (if i = p_id p then None else row w i)"
  "unique_ids w \<Longrightarrow> unique_ids (finish_delete env p w)"
proof -
  obtain db where db: "w_db (finish_delete env p w) = delete_project_row (p_id p) db" "d_projects db = d_projects (w_db w)"
    by (simp add: finish_delete_def Let_def split_beta)
  show "row (finish_delete env p w) i = (if i = p_id p then None else row w i)"
    using project_by_id_cong [OF db(2)] by (simp add: db(1) project_by_id_delete_row)
  show "unique_ids w \<Longrightarrow> unique_ids (finish_delete env p w)"
    by (simp add: unique_ids_def db delete_project_row_def distinct_map_filter)
qed

lemma delete_project_row_gone:
  assumes "stop_local env" "\<And>w. t_stop env (p_id p) w \<noteq> None" "row w (p_id p) = Some p" "unique_ids w"
  shows "\<exists>w'. delete_project env p w = (w', False) \<and> unique_ids w' \<and>
    (\<forall>i. row w' i = (if i = p_id p then None else row w i))"
proof (cases "p_state p = ''active''")
  case True
  let ?q = "touched (t_now env) (p\<lparr>p_state := ''stopping''\<rparr>)"
  let ?w = "w\<lparr>w_db := store_project ?q (w_db w)\<rparr>"
  obtain w1 where w1: "t_stop env (p_id p) ?w = Some w1" using assms(2) by blast
  then obtain q where q: "p_id q = p_id p" "d_projects (w_db w1) = d_projects (store_project q (w_db ?w))"
    using assms(1) unfolding stop_local_def by blast
  have r: "row w1 i = (if i = p_id p then Some q else row w i)" for i
    using project_by_id_cong [OF q(2)] q(1) assms(3) by (simp add: project_by_id_store touched_def)
  have "unique_ids w1" using assms(4) by (simp add: unique_ids_def q(2))
  then show ?thesis using True w1 r q(1) finish_delete_row(1) [of env q w1] finish_delete_row(2) [of w1 env q] by (simp add: delete_project_def Let_def)
next
  case False
  then show ?thesis using finish_delete_row(1) [of env p w] finish_delete_row(2) [of w env p] assms(4) by (simp add: delete_project_def)
qed

lemma delete_loop:
  assumes "\<not> t_dry env" "stop_local env" "\<And>pid w. t_stop env pid w \<noteq> None"
    "unique_ids (fst st)" "distinct ids" "\<forall>i\<in>set ids. \<exists>p. row (fst st) i = Some p \<and> p_state p \<notin> set TRANSITIONAL_STATES"
  shows "\<exists>st'. raising_loop (fire_delete env) ids st = (st', False) \<and> unique_ids (fst st') \<and>
    (\<forall>i. row (fst st') i = (if i \<in> set ids then None else row (fst st) i))"
  using assms(4-6)
proof (induction ids arbitrary: st)
  case (Cons j ids)
  then obtain p where p: "row (fst st) j = Some p" "p_state p \<notin> set TRANSITIONAL_STATES" by auto
  let ?w = "logged (fst st) (Notify j (fired ''auto_delete''))"
  have "row ?w (p_id p) = Some p" "unique_ids ?w" using p Cons.prems(1) by (simp_all add: row_id [OF p(1)] unique_ids_def)
  then obtain w' where w': "delete_project env p ?w = (w', False)" "unique_ids w'" "\<forall>i. row w' i = (if i = j then None else row (fst st) i)"
    using delete_project_row_gone [OF assms(2,3), where p = p and w = ?w] by (auto simp: row_id [OF p(1)])
  then obtain st1 where st1: "fire_delete env j st = (st1, False)" "fst st1 = w'"
    using p assms(1) by (simp add: fire_delete_def Let_def)
  have "\<forall>i\<in>set ids. \<exists>p. row (fst st1) i = Some p \<and> p_state p \<notin> set TRANSITIONAL_STATES"
    using Cons.prems(2,3) w'(3) st1(2) by auto
  moreover have "distinct ids" "unique_ids (fst st1)" using Cons.prems(2) w'(2) st1(2) by simp_all
  ultimately obtain st' where "raising_loop (fire_delete env) ids st1 = (st', False)" "unique_ids (fst st')"
      "\<forall>i. row (fst st') i = (if i \<in> set ids then None else row (fst st1) i)"
    using Cons.IH by blast
  then show ?case using st1 w'(3) by auto
qed simp

section \<open>Warnings and recovery keep the rows\<close>

definition warned_row :: "time \<Rightarrow> project \<Rightarrow> project \<Rightarrow> bool" where
  "warned_row now p p' \<longleftrightarrow> p_state p' = p_state p \<and> p_auto_stopped p' = p_auto_stopped p \<and>
     (p_updated_at p' = p_updated_at p \<or> p_updated_at p' = now)"

definition recovered_row :: "time \<Rightarrow> project \<Rightarrow> project \<Rightarrow> bool" where
  "recovered_row now p p' \<longleftrightarrow> p_auto_stopped p' = p_auto_stopped p \<and>
     (p_state p' = p_state p \<or> stuck (now - 5 * MINUTE) p \<and> p_state p' = ''error'')"

definition rows_related :: "(project \<Rightarrow> project \<Rightarrow> bool) \<Rightarrow> world \<Rightarrow> timer_state \<Rightarrow> bool" where
  "rows_related R w st \<longleftrightarrow> unique_ids (fst st) \<and> (\<forall>i. rel_option R (row w i) (row (fst st) i))"

lemma rows_related_store:
  assumes "rows_related R w (w1, r1)" "row w1 (p_id q) = Some p" "\<And>p0. row w (p_id q) = Some p0 \<Longrightarrow> R p0 p \<Longrightarrow> R p0 q"
    "w_db w2 = store_project q (w_db w1)"
  shows "rows_related R w (w2, r2)"
  unfolding rows_related_def
proof (intro conjI allI)
  show "unique_ids (fst (w2, r2))" using assms(1) by (simp add: rows_related_def unique_ids_def assms(4))
  fix i
  have "rel_option R (row w i) (row w1 i)" "row w2 i = (if i = p_id q \<and> row w1 i \<noteq> None then Some q else row w1 i)"
    using assms(1,4) by (simp_all add: rows_related_def project_by_id_store)
  then show "rel_option R (row w i) (row (fst (w2, r2)) i)"
    using assms(2,3) by (cases "row w i"; cases "row w1 i") auto
qed

lemma rows_related_same: "rows_related R w (w1, r1) \<Longrightarrow> w_db w2 = w_db w1 \<Longrightarrow> rows_related R w (w2, r2)"
  by (simp add: rows_related_def unique_ids_def)

lemma warn_steps:
  assumes "rows_related (warned_row (t_now env)) w st"
  shows "rows_related (warned_row (t_now env)) w (fst (warn_stop env pid st))"
    "rows_related (warned_row (t_now env)) w (fst (warn_delete env pid st))"
proof -
  obtain w1 r1 where st: "st = (w1, r1)" by fastforce
  have a: "rows_related (warned_row (t_now env)) w (w1, r1)" using assms by (simp add: st)
  have "rows_related (warned_row (t_now env)) w (w2, r2)"
    if "row w1 pid = Some p" "w_db w2 = store_project (touched (t_now env) q) (w_db w1)"
      "p_id q = p_id p" "p_state q = p_state p" "p_auto_stopped q = p_auto_stopped p" for p q w2 r2
    by (rule rows_related_store [OF a _ _ that(2), of p]) (use that row_id [OF that(1)] in \<open>auto simp: warned_row_def touched_def\<close>)
  note store = this
  show "rows_related (warned_row (t_now env)) w (fst (warn_stop env pid st))"
  proof (cases "row w1 pid")
    case (Some p)
    show ?thesis
    proof (cases "t_dry env \<or> p_auto_stop_expires_at p = None")
      case True
      then show ?thesis using Some rows_related_same [OF a] by (auto simp: st warn_stop_def Let_def)
    next
      case False
      then show ?thesis using Some by (auto simp: st warn_stop_def Let_def intro!: store [OF Some, of _ "p\<lparr>p_auto_stop_warned := True\<rparr>"])
    qed
  qed (use a in \<open>simp add: st warn_stop_def\<close>)
  show "rows_related (warned_row (t_now env)) w (fst (warn_delete env pid st))"
  proof (cases "row w1 pid")
    case (Some p)
    show ?thesis
    proof (cases "t_dry env \<or> p_lifetime_expires_at p = None")
      case True
      then show ?thesis using Some rows_related_same [OF a] by (auto simp: st warn_delete_def Let_def)
    next
      case False
      then show ?thesis using Some by (auto simp: st warn_delete_def Let_def intro!: store [OF Some, of _ "p\<lparr>p_auto_delete_warned := True\<rparr>"])
    qed
  qed (use a in \<open>simp add: st warn_delete_def\<close>)
qed

lemma mark_or_list_related:
  assumes a: "rows_related (recovered_row (t_now env)) w (w1, r1)" and p: "row w1 (p_id p) = Some p"
    and q: "\<And>p0. row w (p_id p) = Some p0 \<Longrightarrow> stuck (t_now env - 5 * MINUTE) p0"
  shows "rows_related (recovered_row (t_now env)) w (mark_or_list env p info (w1, r1))"
proof (cases "t_dry env")
  case True
  then show ?thesis using rows_related_same [OF a] by (simp add: mark_or_list_def)
next
  case False
  let ?q = "touched (t_now env) (p\<lparr>p_state := ''error'', p_deploy_error := Some (lost_job_message (p_state p))\<rparr>)"
  obtain w2 r2 where m: "mark_or_list env p info (w1, r1) = (w2, r2)" by fastforce
  then have "w_db w2 = store_project ?q (w_db w1)"
    using False by (auto simp: mark_or_list_def mark_project_error_def Let_def split: option.splits if_splits)
  from rows_related_store [OF a _ _ this, of p r2] p q show ?thesis
    by (auto simp: m touched_def recovered_row_def)
qed

lemma recover_step:
  assumes a: "rows_related (recovered_row (t_now env)) w st"
    and q: "\<And>p0. row w pid = Some p0 \<Longrightarrow> stuck (t_now env - 5 * MINUTE) p0"
  shows "rows_related (recovered_row (t_now env)) w (fst (recover_one_stuck_project env pid st))"
proof (cases "row (fst st) pid")
  case (Some p)
  have "rows_related (recovered_row (t_now env)) w (w1, r1)" if "w_db w1 = w_db (fst st)" for w1 r1
    using a that by (simp add: rows_related_def unique_ids_def)
  note same = this
  have "rows_related (recovered_row (t_now env)) w (mark_or_list env p info (w1, r1))" if "w_db w1 = w_db (fst st)" for info w1 r1
    by (rule mark_or_list_related [OF same [OF that]]) (use Some that q row_id [OF Some] in auto)
  with same Some show ?thesis
    by (auto simp: recover_one_stuck_project_def Let_def split_beta split: option.splits)
qed (use a in \<open>simp add: recover_one_stuck_project_def\<close>)

lemma warnings_rows:
  assumes "unique_ids (fst st)"
  shows "rows_related (warned_row (t_now env)) (fst st) (fst (process_timer_warnings env t st))"
proof -
  have "rel_option (warned_row (t_now env)) x x" for x by (cases x) (simp_all add: warned_row_def)
  then have s: "rows_related (warned_row (t_now env)) (fst st) st" using assms by (simp add: rows_related_def)
  note loop = raising_loop_inv [where I = "rows_related (warned_row (t_now env)) (fst st)"]
    and run = then_run_inv [where I = "rows_related (warned_row (t_now env)) (fst st)"]
  show ?thesis unfolding process_timer_warnings_def by (rule run; rule loop) (simp_all add: s warn_steps)
qed

lemma recover_rows:
  assumes "unique_ids (fst st)"
  shows "rows_related (recovered_row (t_now env)) (fst st) (fst (recover_stuck_projects env st))"
proof -
  have "rel_option (recovered_row (t_now env)) x x" for x by (cases x) (simp_all add: recovered_row_def)
  then have s: "rows_related (recovered_row (t_now env)) (fst st) ((fst st)\<lparr>w_shared := sh\<rparr>, snd st)" for sh
    using assms by (simp add: rows_related_def unique_ids_def)
  let ?ids = "\<lambda>sh. query_ids (stuck (t_now env - 5 * MINUTE)) ((fst st)\<lparr>w_shared := sh\<rparr>)"
  have "stuck (t_now env - 5 * MINUTE) p0" if "pid \<in> set (?ids sh)" "row (fst st) pid = Some p0" for pid sh p0
    using that assms query_ids_iff [of "(fst st)\<lparr>w_shared := sh\<rparr>" pid] by (simp add: unique_ids_def)
  then have "rows_related (recovered_row (t_now env)) (fst st)
      (fst (raising_loop (recover_one_stuck_project env) (?ids sh) ((fst st)\<lparr>w_shared := sh\<rparr>, snd st)))" for sh
    by (intro raising_loop_inv [where I = "rows_related (recovered_row (t_now env)) (fst st)"] s recover_step) auto
  then show ?thesis using s by (simp add: recover_stuck_projects_def Let_def split_beta)
qed

lemma warned_recovered: "warned_row now p q \<Longrightarrow> recovered_row now q r \<Longrightarrow> recovered_row now p r"
  by (auto simp: warned_row_def recovered_row_def stuck_def MINUTE_def)

section \<open>The whole pass\<close>

lemma expired_rows:
  assumes "\<not> t_dry env" "stop_local env" "\<And>pid w. t_stop env pid w \<noteq> None" "unique_ids w"
  obtains st where "process_expired_timers env (w, r) = (st, False)" "unique_ids (fst st)"
    "\<And>i p. row w i = Some p \<Longrightarrow> row (fst st) i = (if stop_due (t_now env) p then Some (touched (t_now env) (stopped_row p))
      else if delete_due (t_now env) p then None else Some p)"
    "\<And>i. row w i = None \<Longrightarrow> row (fst st) i = None"
proof -
  let ?ids = "query_ids (stop_due (t_now env)) w"
  have ids: "i \<in> set ?ids \<longleftrightarrow> (\<exists>p. row w i = Some p \<and> stop_due (t_now env) p)" for i by (rule query_ids_iff [OF assms(4)])
  obtain st1 where st1: "raising_loop (fire_stop env) ?ids (w, r) = (st1, False)" "unique_ids (fst st1)"
      "\<forall>i. row (fst st1) i = (if i \<in> set ?ids then map_option (\<lambda>p. touched (t_now env) (stopped_row p)) (row w i) else row w i)"
  proof -
    have "unique_ids (fst (w, r))" "\<forall>i\<in>set ?ids. row (fst (w, r)) i \<noteq> None" using assms(4) ids by auto
    from stop_loop [OF assms(1) this(1) query_ids_distinct [OF assms(4)] this(2)] show thesis using that by auto
  qed
  let ?ids2 = "query_ids (delete_due (t_now env)) (fst st1)"
  have ids2: "i \<in> set ?ids2 \<longleftrightarrow> (\<exists>p. row (fst st1) i = Some p \<and> delete_due (t_now env) p)" for i
    by (rule query_ids_iff [OF st1(2)])
  have "\<forall>i\<in>set ?ids2. \<exists>p. row (fst st1) i = Some p \<and> p_state p \<notin> set TRANSITIONAL_STATES"
    by (auto simp: ids2 delete_due_def TRANSITIONAL_STATES_def)
  then obtain st where st: "raising_loop (fire_delete env) ?ids2 st1 = (st, False)" "unique_ids (fst st)"
      "\<forall>i. row (fst st) i = (if i \<in> set ?ids2 then None else row (fst st1) i)"
    using delete_loop [OF assms(1-3) st1(2) query_ids_distinct [OF st1(2)]] by metis
  show thesis
  proof (rule that [OF _ st(2)])
    show "process_expired_timers env (w, r) = (st, False)"
      using st1(1) st(1) by (simp add: process_expired_timers_def then_run_def)
    show "row (fst st) i = (if stop_due (t_now env) p then Some (touched (t_now env) (stopped_row p))
        else if delete_due (t_now env) p then None else Some p)" if "row w i = Some p" for i p
      using that st(3) st1(3) ids [of i] ids2 [of i] by (auto simp: delete_due_def touched_def stopped_row_def)
    show "row (fst st) i = None" if "row w i = None" for i
      using that st(3) st1(3) by (auto split: if_splits)
  qed
qed

lemma timer_pass_rows:
  assumes "\<not> t_dry env" "stop_local env" "\<And>pid w. t_stop env pid w \<noteq> None" "unique_ids w" "row w i = Some p"
    "fst (check_project_timers env w) = w'"
  shows "if stop_due (t_now env) p then \<exists>p'. row w' i = Some p' \<and> p_state p' = ''stopping'' \<and> p_auto_stopped p'
    else if delete_due (t_now env) p then row w' i = None
    else \<exists>p'. row w' i = Some p' \<and> p_auto_stopped p' = p_auto_stopped p \<and>
      (p_state p' = p_state p \<or> stuck (t_now env - 5 * MINUTE) p \<and> p_state p' = ''error'')"
proof -
  let ?now = "t_now env" and ?t = "t_now env + WARNING_MINUTES * MINUTE"
  obtain s1 where s1: "process_expired_timers env (w, no_result) = (s1, False)" "unique_ids (fst s1)"
      "\<And>i p. row w i = Some p \<Longrightarrow> row (fst s1) i = (if stop_due ?now p then Some (touched ?now (stopped_row p))
        else if delete_due ?now p then None else Some p)"
    by (rule expired_rows [OF assms(1-4)]) (rule that)
  define s2 where "s2 = process_timer_warnings env ?t s1"
  have r2: "rows_related (warned_row ?now) (fst s1) (fst s2)" unfolding s2_def by (rule warnings_rows [OF s1(2)])
  define s3 where "s3 = (if snd s2 then fst s2 else fst (recover_stuck_projects env (fst s2)))"
  have refl: "rel_option (recovered_row ?now) x x" for x by (cases x) (simp_all add: recovered_row_def)
  have u2: "unique_ids (fst (fst s2))" using r2 by (simp add: rows_related_def)
  have r3: "rel_option (recovered_row ?now) (row (fst (fst s2)) i) (row (fst s3) i)"
    using recover_rows [OF u2, of env] refl by (auto simp: s3_def rows_related_def)
  have w': "w' = fst s3"
    using assms(6) s1(1) by (auto simp: check_project_timers_def then_run_def s3_def s2_def)
  have r2': "rel_option (warned_row ?now) (row (fst s1) i) (row (fst (fst s2)) i)" using r2 by (simp add: rows_related_def)
  have "rel_option (recovered_row ?now) (row (fst s1) i) (row (fst s3) i)"
    using r2' r3 warned_recovered by (cases "row (fst s1) i"; cases "row (fst (fst s2)) i"; cases "row (fst s3) i") auto
  moreover have "\<not> stuck (?now - 5 * MINUTE) (touched ?now (stopped_row p))" by (simp add: stuck_def touched_def MINUTE_def)
  ultimately show ?thesis using s1(3) [OF assms(5)] unfolding w'
    by (cases "row (fst s3) i") (auto simp: recovered_row_def touched_def stopped_row_def split: if_splits)
qed


end
