(* ===== verification/Recovery_Laws.thy ===== *)
theory Recovery_Laws
  imports Timer_Laws
begin

text \<open>
  Recovery of projects whose background job died: the callback of an abandoned job leaves the
  project in its transitional state, and the next pass of the timers after the grace period puts
  it into error. A deletion that dies is not recovered.
\<close>

section \<open>Dead jobs\<close>

text \<open>The pointer of the project names no job, or a started job of a worker that is gone.\<close>

definition dead_job :: "rtime \<Rightarrow> string \<Rightarrow> world \<Rightarrow> bool" where
  "dead_job now pid w = (case entry now (s_keys (w_shared w)) (job_key pid) of
     None \<Rightarrow> True
   | Some (RText jid, e) \<Rightarrow>
       (case map_of (rq_jobs (w_rq w)) jid of
          None \<Rightarrow> True
        | Some job \<Rightarrow> j_status job = Some ''started'' \<and> dead_worker (w_rq w) job)
   | Some _ \<Rightarrow> True)"

definition redis_up :: "shared \<Rightarrow> bool" where
  "redis_up st \<longleftrightarrow> s_client st \<and> s_available st"

definition progress_ok :: "world \<Rightarrow> bool" where
  "progress_ok w \<longleftrightarrow> (\<forall>k v e. map_of (s_keys (w_shared w)) (progress_key k) = Some (v, e) \<longrightarrow> (\<exists>j. v = RJson j))"

lemma job_keys [simp]: "job_key a = job_key b \<longleftrightarrow> a = b" "job_key a \<noteq> progress_key b" "progress_key b \<noteq> job_key a"
  "job_key a \<noteq> inflight_key b" "job_key a \<noteq> network_lock b" "inflight_key b \<noteq> job_key a" "network_lock b \<noteq> job_key a"
  by (simp_all add: job_key_def progress_key_def inflight_key_def network_lock_def)

lemma dead_job_info:
  assumes "dead_job (c_now c) pid w" "redis_up (w_shared w)" "\<And>n. c_up c n"
  shows "fst (get_job_info c pid w) = None"
proof (cases "entry (c_now c) (s_keys (w_shared w)) (job_key pid)")
  case None
  then show ?thesis by (simp add: get_job_info_def cmd_get_def)
next
  case (Some a)
  then show ?thesis using assms
    by (cases a)
      (auto simp: dead_job_def get_job_info_def cmd_get_def Let_def normalize_rq_status_def split: rvalue.splits option.splits)
qed

text \<open>A step of recovery deletes pointers and jobs, nothing else of Redis and RQ.\<close>

definition only_deletes :: "world \<Rightarrow> world \<Rightarrow> bool" where
  "only_deletes w w' \<longleftrightarrow> redis_up (w_shared w') \<and>
     (\<forall>k. map_of (s_keys (w_shared w')) k \<in> {map_of (s_keys (w_shared w)) k, None}) \<and>
     (\<forall>j. map_of (rq_jobs (w_rq w')) j \<in> {map_of (rq_jobs (w_rq w)) j, None}) \<and>
     rq_workers (w_rq w') = rq_workers (w_rq w)"

lemma only_deletes_refl: "redis_up (w_shared w) \<Longrightarrow> only_deletes w w"
  by (simp add: only_deletes_def)

lemma only_deletes_trans: "only_deletes u v \<Longrightarrow> only_deletes v w \<Longrightarrow> only_deletes u w"
  unfolding only_deletes_def by (metis insert_iff singletonD)

lemma only_deletes_cong:
  "only_deletes u v \<Longrightarrow> w_shared w = w_shared v \<Longrightarrow> w_rq w = w_rq v \<Longrightarrow> only_deletes u w"
  by (simp add: only_deletes_def)

lemma only_deletes_frame [simp]:
  "only_deletes u (v\<lparr>w_db := d\<rparr>) = only_deletes u v" "only_deletes u (v\<lparr>w_log := l\<rparr>) = only_deletes u v"
  by (simp_all add: only_deletes_def)

lemma dead_job_deletes:
  assumes "only_deletes w w'" "dead_job now pid w"
  shows "dead_job now pid w'"
proof -
  have k: "map_of (s_keys (w_shared w')) (job_key pid) \<in> {map_of (s_keys (w_shared w)) (job_key pid), None}"
    and j: "\<And>j. map_of (rq_jobs (w_rq w')) j \<in> {map_of (rq_jobs (w_rq w)) j, None}"
    and wk: "rq_workers (w_rq w') = rq_workers (w_rq w)"
    using assms(1) by (auto simp: only_deletes_def)
  have "entry now (s_keys (w_shared w')) (job_key pid) \<in> {entry now (s_keys (w_shared w)) (job_key pid), None}"
    using k by (auto simp: entry_def)
  moreover have "dead_worker (w_rq w') job = dead_worker (w_rq w) job" for job by (simp add: dead_worker_def wk)
  ultimately show ?thesis using assms(2) j unfolding dead_job_def
    by (auto split: option.splits rvalue.splits) (metis insert_iff option.distinct(1) option.inject singletonD)+
qed

lemma progress_ok_deletes: "only_deletes w w' \<Longrightarrow> progress_ok w \<Longrightarrow> progress_ok w'"
  unfolding only_deletes_def progress_ok_def by (metis insert_iff option.distinct(1) singletonD)

lemma clear_only_deletes: "redis_up (w_shared w) \<Longrightarrow> only_deletes w (clear_project_job_ref c i p j w)"
  by (auto simp: clear_project_job_ref_def get_redis_def redis_up_def only_deletes_def Let_def delete_job_def cmd_del_def
      AList.delete_conv')

lemma job_info_only_deletes: "redis_up (w_shared w) \<Longrightarrow> only_deletes w (snd (get_job_info c p w))"
  using clear_only_deletes only_deletes_refl by (simp add: get_job_info_def Let_def split: option.splits rvalue.splits)

lemma get_progress_up:
  assumes "redis_up st"
    "\<And>k v e. map_of (s_keys st) (progress_key k) = Some (v, e) \<Longrightarrow> \<exists>j. v = RJson j"
  shows "\<exists>d. get_progress c k st = Some (d, st)"
proof -
  have "\<exists>d. cmd_get (c_now c) (progress_key k) (s_keys st) = Some (map_option RJson d)"
  proof (cases "entry (c_now c) (s_keys st) (progress_key k)")
    case None
    then show ?thesis by (intro exI [of _ None]) (simp add: cmd_get_def)
  next
    case (Some a)
    then have "map_of (s_keys st) (progress_key k) = Some a" by (auto simp: entry_def split: option.splits if_splits)
    then obtain j where "fst a = RJson j" using assms(2) [of k "fst a" "snd a"] by auto
    with Some show ?thesis by (intro exI [of _ "Some j"]) (simp add: cmd_get_def)
  qed
  then obtain d where "cmd_get (c_now c) (progress_key k) (s_keys st) = Some (map_option RJson d)" by blast
  then show ?thesis using assms(1) by (cases d) (auto simp: get_progress_def redis_up_def is_redis_available_def)
qed

lemma mark_or_list_deletes:
  "redis_up (w_shared w) \<Longrightarrow> only_deletes w (fst (mark_or_list env p info (w, r)))"
  using clear_only_deletes [of w] only_deletes_refl [of w]
  by (auto simp: mark_or_list_def mark_project_error_def Let_def intro: only_deletes_cong split: option.splits)

section \<open>Recovery reaches every dead job\<close>

lemma mark_or_list_row:
  assumes "\<not> t_dry env" "row w (p_id p) \<noteq> None"
  shows "row (fst (mark_or_list env p info (w, r))) k =
    (if k = p_id p then Some (touched (t_now env) (p\<lparr>p_state := ''error'', p_deploy_error := Some (lost_job_message (p_state p))\<rparr>)) else row w k)"
  using assms by (auto simp: mark_or_list_def mark_project_error_def Let_def project_by_id_store touched_def split: option.splits)

lemma recover_one_effect:
  assumes p: "row (fst st) j = Some p" and e: "\<not> t_dry env" "\<And>q n. c_up (t_call env q) n"
    and u: "redis_up (w_shared (fst st))" "progress_ok (fst st)"
  shows "\<exists>st'. recover_one_stuck_project env j st = (st', False) \<and> only_deletes (fst st) (fst st') \<and>
    (\<forall>k. k \<noteq> j \<longrightarrow> row (fst st') k = row (fst st) k) \<and> row (fst st') j \<noteq> None \<and>
    (dead_job (c_now (t_call env j)) j (fst st) \<longrightarrow> (\<exists>p'. row (fst st') j = Some p' \<and> p_state p' = ''error''))"
proof -
  define w1 where "w1 = snd (get_job_info (t_call env j) j (fst st))"
  define info where "info = fst (get_job_info (t_call env j) j (fst st))"
  have i: "get_job_info (t_call env j) j (fst st) = (info, w1)" by (simp add: w1_def info_def)
  have d1: "only_deletes (fst st) w1" unfolding w1_def by (rule job_info_only_deletes [OF u(1)])
  have db: "w_db w1 = w_db (fst st)" by (simp add: w1_def)
  have u1: "redis_up (w_shared w1)" "progress_ok w1" using d1 progress_ok_deletes [OF d1 u(2)] by (auto simp: only_deletes_def)
  obtain d where g: "get_progress (t_call env (''progress:'' @ j)) (''deploy:'' @ j) (w_shared w1) = Some (d, w_shared w1)"
    using get_progress_up [OF u1(1)] u1(2) unfolding progress_ok_def by blast
  have mark: "only_deletes (fst st) (fst (mark_or_list env p info (w2, r))) \<and>
      (\<forall>k. k \<noteq> j \<longrightarrow> row (fst (mark_or_list env p info (w2, r))) k = row (fst st) k) \<and>
      (\<exists>p'. row (fst (mark_or_list env p info (w2, r))) j = Some p' \<and> p_state p' = ''error'')"
    if "only_deletes w1 w2" "w_db w2 = w_db (fst st)" for w2 r
  proof -
    have "redis_up (w_shared w2)" using that(1) by (simp add: only_deletes_def)
    from mark_or_list_deletes [OF this] have "only_deletes (fst st) (fst (mark_or_list env p info (w2, r)))"
      using d1 that(1) only_deletes_trans by blast
    then show ?thesis
      using mark_or_list_row [OF e(1), of w2 p info r] that(2) p row_id [OF p] by (auto simp: touched_def)
  qed
  have dead: "info = None" if "dead_job (c_now (t_call env j)) j (fst st)"
    unfolding info_def by (rule dead_job_info [OF that u(1)]) (rule e(2))
  note r = recover_one_stuck_project_def [of env j st]
  consider "info = None \<or> (\<exists>x. info = Some x \<and> ji_status x \<notin> {''queued'', ''started''})"
    | x where "info = Some x" "ji_status x \<in> {''queued'', ''started''}" "\<not> (ji_status x = ''started'' \<and> p_state p = ''deploying'')"
    | x where "info = Some x" "ji_status x = ''started''" "p_state p = ''deploying''" by (cases info) auto
  then show ?thesis
  proof cases
    case 1
    then have "recover_one_stuck_project env j st = (mark_or_list env p info (w1, snd st), False)"
      using r p i by (auto simp: Let_def)
    then show ?thesis using mark [OF only_deletes_refl [OF u1(1)] db, of "snd st"] by auto
  next
    case (2 x)
    then have "recover_one_stuck_project env j st = ((w1, snd st), False)" using r p i by (auto simp: Let_def)
    then show ?thesis using d1 db p dead 2(1) by auto
  next
    case (3 x)
    show ?thesis
    proof (cases "started_deploy_is_zombie ''started'' p d")
      case True
      then have "recover_one_stuck_project env j st =
          (mark_or_list env p info (clear_project_job_ref (t_call env j) 6 j (map_option ji_job_id info) w1, snd st), False)"
        using r p i 3 g e(1) by (simp add: Let_def)
      then show ?thesis using mark [OF clear_only_deletes [OF u1(1)], of "t_call env j" 6 j "map_option ji_job_id info" "snd st"] db by auto
    next
      case False
      then have "recover_one_stuck_project env j st = ((w1, snd st), False)" using r p i 3 g by (simp add: Let_def)
      then show ?thesis using d1 db p dead 3(1) by auto
    qed
  qed
qed

lemma recover_loop:
  assumes "distinct ids" "\<forall>j\<in>set ids. row (fst st) j \<noteq> None" "\<not> t_dry env" "\<And>q n. c_up (t_call env q) n"
    "redis_up (w_shared (fst st))" "progress_ok (fst st)"
  shows "(\<forall>k. k \<notin> set ids \<longrightarrow> row (fst (fst (raising_loop (recover_one_stuck_project env) ids st))) k = row (fst st) k) \<and>
    (i \<in> set ids \<longrightarrow> dead_job (c_now (t_call env i)) i (fst st) \<longrightarrow>
      (\<exists>p'. row (fst (fst (raising_loop (recover_one_stuck_project env) ids st))) i = Some p' \<and> p_state p' = ''error''))"
  using assms(1,2,5,6)
proof (induction ids arbitrary: st)
  case (Cons j ids)
  then obtain p where "row (fst st) j = Some p" by auto
  from recover_one_effect [OF this assms(3,4) Cons.prems(3,4)] obtain st1 where
    st1: "recover_one_stuck_project env j st = (st1, False)" "only_deletes (fst st) (fst st1)"
      "\<And>k. k \<noteq> j \<Longrightarrow> row (fst st1) k = row (fst st) k" "row (fst st1) j \<noteq> None"
      "dead_job (c_now (t_call env j)) j (fst st) \<Longrightarrow> \<exists>p'. row (fst st1) j = Some p' \<and> p_state p' = ''error''" by blast
  have "\<forall>k\<in>set ids. row (fst st1) k \<noteq> None" using Cons.prems(2) st1(3,4) by (metis list.set_intros(2))
  moreover have "redis_up (w_shared (fst st1))" using st1(2) by (simp add: only_deletes_def)
  moreover have "progress_ok (fst st1)" using progress_ok_deletes [OF st1(2)] Cons.prems(4) by blast
  ultimately have ih: "\<forall>k. k \<notin> set ids \<longrightarrow> row (fst (fst (raising_loop (recover_one_stuck_project env) ids st1))) k = row (fst st1) k"
      "i \<in> set ids \<longrightarrow> dead_job (c_now (t_call env i)) i (fst st1) \<longrightarrow>
        (\<exists>p'. row (fst (fst (raising_loop (recover_one_stuck_project env) ids st1))) i = Some p' \<and> p_state p' = ''error'')"
    using Cons.IH [of st1] Cons.prems(1) by simp_all
  have l: "raising_loop (recover_one_stuck_project env) (j # ids) st = raising_loop (recover_one_stuck_project env) ids st1"
    by (simp add: st1(1))
  show ?case unfolding l using ih st1(3,5) Cons.prems(1) dead_job_deletes [OF st1(2)] by (auto simp del: split_paired_Ex)
qed simp

text \<open>The callback of an abandoned job changes neither rows nor pointers.\<close>

lemma abandoned_keeps:
  "w_db (on_job_failure cs t job ''AbandonedJobError'' m w) = w_db w"
  "w_rq (on_job_failure cs t job ''AbandonedJobError'' m w) = w_rq w"
  by (auto simp: on_job_failure_def cleanup_host_locks_def fail_workload_run_from_job_def Let_def
      split: option.splits job_fn.splits json.splits)

lemma decrement_other:
  "decrement_counter c k st = Some st' \<Longrightarrow> k' \<noteq> k \<Longrightarrow> map_of (s_keys st') k' = map_of (s_keys st) k'"
  by (auto simp: decrement_counter_def cmd_incrby_def put_def map_of_update split: if_splits option.splits rvalue.splits)

lemma counter_state:
  "decrement_counter c k st = Some st' \<Longrightarrow> s_client st' = s_client st \<and> s_available st' = s_available st"
  by (auto simp: decrement_counter_def split: if_splits option.splits)

lemma callback_shared:
  assumes "k \<notin> range inflight_key" "k \<notin> range network_lock"
  shows "map_of (s_keys (w_shared (on_job_failure cs t job ''AbandonedJobError'' m w))) k = map_of (s_keys (w_shared w)) k"
    "redis_up (w_shared (on_job_failure cs t job ''AbandonedJobError'' m w)) = redis_up (w_shared w)"
proof -
  have e: "map_of (s_keys (record_deploy_end c h st)) k = map_of (s_keys st) k" "redis_up (record_deploy_end c h st) = redis_up st" for c h st
  proof -
    have "k \<noteq> inflight_key h" using assms(1) by blast
    then show "map_of (s_keys (record_deploy_end c h st)) k = map_of (s_keys st) k" "redis_up (record_deploy_end c h st) = redis_up st"
      by (cases "decrement_counter c (inflight_key h) st";
          simp add: record_deploy_end_def redis_up_def decrement_other counter_state)+
  qed
  have l: "map_of (s_keys (release_stale_lock c (network_lock h) st)) k = map_of (s_keys st) k"
      "redis_up (release_stale_lock c (network_lock h) st) = redis_up st" for c h st
    using assms(2) by (auto simp: release_stale_lock_def redis_up_def cmd_del_def AList.delete_conv')
  have f: "w_shared (fail_workload_run_from_job job x m w) = w_shared w" for x
    by (auto simp: fail_workload_run_from_job_def split: job_fn.splits json.splits)
  show "map_of (s_keys (w_shared (on_job_failure cs t job ''AbandonedJobError'' m w))) k = map_of (s_keys (w_shared w)) k"
    "redis_up (w_shared (on_job_failure cs t job ''AbandonedJobError'' m w)) = redis_up (w_shared w)"
    by (simp_all add: on_job_failure_def cleanup_host_locks_def Let_def e l f split: option.splits)
qed


text \<open>A deletion that is abandoned is never recovered: the callback leaves the project in
  the state \<open>deleting\<close>, which no pass of the timers changes.\<close>

theorem abandoned_deletion_stays:
  assumes "w1 = on_job_failure cs t job ''AbandonedJobError'' m w" "unique_ids w" "row w i = Some p" "p_state p = ''deleting''"
    "\<not> t_dry env" "stop_local env" "\<And>pid w. t_stop env pid w \<noteq> None"
  shows "\<exists>p'. row (fst (check_project_timers env w1)) i = Some p' \<and> p_state p' = ''deleting''"
proof -
  have db: "w_db w1 = w_db w" by (simp add: assms(1) abandoned_keeps)
  have "\<not> stop_due (t_now env) p" "\<not> delete_due (t_now env) p" "\<not> stuck (t_now env - 5 * MINUTE) p"
    using assms(4) by (auto simp: stop_due_def delete_due_def stuck_def)
  with timer_pass_rows [OF assms(5-7), of w1 i p] assms(2-4) show ?thesis by (auto simp: unique_ids_def db)
qed

section \<open>Sample worlds\<close>

text \<open>Concrete instances of the theorems on timers and recovery: two projects, one due to be
  stopped and one whose deploy job died with its worker.\<close>

definition sample_call :: call where
  "sample_call = \<lparr>c_now = 1000, c_connect = Pong, c_up = (\<lambda>i. True)\<rparr>"

definition sample_stop :: "string \<Rightarrow> world \<Rightarrow> world option" where
  "sample_stop pid w = Some (case row w pid of None \<Rightarrow> w | Some p \<Rightarrow> with_row w (p\<lparr>p_state := ''stopped''\<rparr>))"

definition sample_env :: "bool \<Rightarrow> timer_env" where
  "sample_env dry = \<lparr>t_now = 1000000000, t_dry = dry, t_call = (\<lambda>p. sample_call), t_new_id = (\<lambda>p. ''job-'' @ p),
     t_stop = sample_stop, t_cloud = sample_cloud\<rparr>"

definition dead_worker_job :: rq_job where
  "dead_worker_job = \<lparr>j_fn = Other_job ''deploy'', j_status = Some ''started'', j_worker = Some ''worker-1'',
     j_origin = QUEUE_DEPLOY, j_project = Some ''b'', j_host = Some ''h''\<rparr>"

definition sample_world :: "string \<Rightarrow> world" where
  "sample_world state = \<lparr>
     w_db = empty_db\<lparr>d_projects := [
       (sample_project ''a'' JNull)\<lparr>p_state := ''active'', p_auto_stop_expires_at := Some 999000000\<rparr>,
       (sample_project ''b'' JNull)\<lparr>p_state := state\<rparr>]\<rparr>,
     w_cloud = [],
     w_shared = \<lparr>s_client = True, s_available = True, s_keys = [(job_key ''b'', RText ''j1'', Some 5000)],
       s_progress = [], s_cancelled = [], s_sets = [], s_counters = []\<rparr>,
     w_rq = \<lparr>rq_jobs = [(''j1'', dead_worker_job)], rq_queues = [], rq_workers = [''worker-2'']\<rparr>,
     w_log = []\<rparr>"

lemma sample_stop_local: "stop_local (sample_env d)"
  unfolding stop_local_def
proof (intro allI impI)
  fix pid w w' assume s: "t_stop (sample_env d) pid w = Some w'"
  show "\<exists>q. p_id q = pid \<and> d_projects (w_db w') = d_projects (store_project q (w_db w))"
  proof (cases "row w pid")
    case None
    then have "\<forall>x\<in>set (d_projects (w_db w)). p_id x \<noteq> pid" by (auto simp: project_by_id_def find_None_iff)
    then have "map (\<lambda>x. if p_id x = pid then q else x) (d_projects (w_db w)) = d_projects (w_db w)" for q
      by (intro map_idI) auto
    then show ?thesis using s None
      by (intro exI [of _ "sample_project pid JNull"]) (simp add: sample_env_def sample_stop_def store_project_def sample_project_def)
  next
    case (Some p)
    then show ?thesis using s row_id [OF Some]
      by (intro exI [of _ "p\<lparr>p_state := ''stopped''\<rparr>"]) (auto simp: sample_env_def sample_stop_def)
  qed
qed

lemma sample_env_facts:
  "t_stop (sample_env d) pid w \<noteq> None" "c_up (t_call (sample_env d) q) n" "t_dry (sample_env d) = d"
  by (simp_all add: sample_env_def sample_stop_def sample_call_def)

lemma sample_unique: "unique_ids (sample_world state)"
  by (simp add: unique_ids_def sample_world_def sample_project_def empty_db_def)

lemma sample_rows:
  "row (sample_world state) ''a'' = Some ((sample_project ''a'' JNull)\<lparr>p_state := ''active'', p_auto_stop_expires_at := Some 999000000\<rparr>)"
  "row (sample_world state) ''b'' = Some ((sample_project ''b'' JNull)\<lparr>p_state := state\<rparr>)"
  by (simp_all add: project_by_id_def sample_world_def sample_project_def empty_db_def)

theorem dry_run_changes_nothing_witness:
  "w_db (fst (check_project_timers (sample_env True) (sample_world ''deploying''))) = w_db (sample_world ''deploying'') \<and>
   w_cloud (fst (check_project_timers (sample_env True) (sample_world ''deploying''))) = w_cloud (sample_world ''deploying'') \<and>
   w_log (fst (check_project_timers (sample_env True) (sample_world ''deploying''))) = w_log (sample_world ''deploying'')"
  by (rule dry_run_changes_nothing) (simp_all add: sample_env_facts)



theorem abandoned_deletion_stays_witness:
  "\<exists>p'. row (fst (check_project_timers (sample_env False)
     (on_job_failure (\<lambda>i. sample_call) 0 dead_worker_job ''AbandonedJobError'' None (sample_world ''deleting'')))) ''b'' = Some p' \<and>
     p_state p' = ''deleting''"
  by (rule abandoned_deletion_stays [OF refl sample_unique sample_rows(2) _ _ sample_stop_local sample_env_facts(1)])
    (simp_all add: sample_env_facts(3))

end
