(* ===== verification/Cluster_Access.thy ===== *)
theory Cluster_Access
  imports Models
begin

text \<open>
  \<open>src/src/backend/app/services/ocp/api_tunnel.py\<close>, from the topology of a project to the ways its
  nested clusters can be reached: the access rows of the clusters and the ordered dial targets;
  with \<open>kubeconfig_server_host\<close> of \<open>kubeconfig_merge.py\<close> and \<open>_cluster_key\<close> of
  \<open>ops_pod_install.py\<close>. The YAML parser, the Kubernetes API and the decrypted credentials of a
  provider are parameters.
\<close>

record cluster_access =
  ca_id :: string
  ca_name :: string
  ca_api_vip :: string
  ca_base_domain :: string
  ca_kubeconfig :: string
  ca_kubeconfig_available :: bool
  ca_tls_server_name :: string
  ca_route_hostname :: string

record dial_target =
  dt_host :: string
  dt_port :: int
  dt_via :: string
  dt_tls_server_name :: string
  dt_force_insecure :: bool
  dt_namespace :: string
  dt_pod_name :: string
  dt_api_vip :: string

definition API_PORT :: int where "API_PORT = 6443"
definition ROUTE_PASSTHROUGH_PORT :: int where "ROUTE_PASSTHROUGH_PORT = 443"

section \<open>Reading the topology\<close>

definition project_topology :: "project \<Rightarrow> json" where
  "project_topology p = py_or (p_deployed_topology p) (py_or (p_topology p) (JObj []))"

text \<open>\<open>d.get(k) or v\<close>.\<close>

definition get_or_else :: "json \<Rightarrow> string \<Rightarrow> json \<Rightarrow> json option" where
  "get_or_else d k v = map_option (\<lambda>x. py_or x v) (get d k)"

definition nodes_of :: "json \<Rightarrow> json list option" where
  "nodes_of topology = do { ns \<leftarrow> get_or topology ''nodes'' (JList []); iter (py_or ns (JList [])) }"

fun first_gateway :: "json list \<Rightarrow> json list option" where
  "first_gateway [] = Some []"
| "first_gateway (n # ns) = do {
     data \<leftarrow> get_or_else n ''data'' (JObj []);
     subtype \<leftarrow> get data ''subtype'';
     if subtype = JStr ''gateway''
     then do { eps \<leftarrow> get_or_else data ''externalEndpoints'' (JList []); iter eps }
     else first_gateway ns
   }"

definition gateway_endpoints :: "json \<Rightarrow> json list option" where
  "gateway_endpoints topology = nodes_of topology \<bind> first_gateway"

definition text_is :: "json \<Rightarrow> string \<Rightarrow> string \<Rightarrow> bool option" where
  "text_is ep k s = do { v \<leftarrow> get_or_else ep k (JStr []); Some (str_is v s) }"

fun route_hostname_loop :: "string \<Rightarrow> json list \<Rightarrow> string option" where
  "route_hostname_loop vip [] = Some []"
| "route_hostname_loop vip (ep # eps) = do {
     same \<leftarrow> text_is ep ''vmIp'' vip;
     if \<not> same then route_hostname_loop vip eps
     else do {
       route \<leftarrow> text_is ep ''type'' ''route'';
       if \<not> route then route_hostname_loop vip eps
       else do {
         pv \<leftarrow> get_or_else ep ''port'' (JInt 0);
         port \<leftarrow> int_of_json pv;
         if port = 80 \<or> port = 443 then route_hostname_loop vip eps
         else do {
           hv \<leftarrow> get_or_else ep ''hostname'' (JStr []);
           host \<leftarrow> map_option py_strip (py_str hv);
           if host \<noteq> [] then Some host else route_hostname_loop vip eps
         }
       }
     }
   }"

definition route_hostname_for_vip :: "json \<Rightarrow> string \<Rightarrow> string option" where
  "route_hostname_for_vip topology vip =
     (if vip = [] then Some [] else gateway_endpoints topology \<bind> route_hostname_loop vip)"

text \<open>\<open>s in v\<close> for a text \<open>s\<close>.\<close>

fun contains_text :: "string \<Rightarrow> string \<Rightarrow> bool" where
  "contains_text s [] = (s = [])"
| "contains_text s (c # cs) = (starts_with (c # cs) s \<or> contains_text s cs)"

fun text_in :: "string \<Rightarrow> json \<Rightarrow> bool option" where
  "text_in s (JStr t) = Some (contains_text s t)"
| "text_in s (JList xs) = Some (JStr s \<in> set xs)"
| "text_in s (JObj kvs) = Some (s \<in> fst ` set kvs)"
| "text_in s _ = None"

definition is_worker :: "json \<Rightarrow> bool option" where
  "is_worker data = do {
     role \<leftarrow> get_or_else data ''clusterRole'' (JStr []);
     tags \<leftarrow> get_or_else data ''tags'' (JObj []);
     group \<leftarrow> get_or tags ''AnsibleGroup'' (JStr []);
     if role = JStr ''worker'' then Some True
     else if truthy role then Some False
     else text_in ''workers'' group
   }"

fun cp_kubeconfig_loop :: "string \<Rightarrow> json list \<Rightarrow> string option" where
  "cp_kubeconfig_loop cid [] = Some []"
| "cp_kubeconfig_loop cid (n # ns) = do {
     vm \<leftarrow> has_type ''vmNode'' n;
     if \<not> vm then cp_kubeconfig_loop cid ns
     else do {
       data \<leftarrow> get_or_else n ''data'' (JObj []);
       c \<leftarrow> get data ''clusterId'';
       if c \<noteq> JStr cid then cp_kubeconfig_loop cid ns
       else do {
         worker \<leftarrow> is_worker data;
         if worker then cp_kubeconfig_loop cid ns
         else do {
           kc \<leftarrow> get_or_else data ''ocpKubeconfig'' (JStr []);
           (case as_str kc of
              Some t \<Rightarrow> if py_strip t \<noteq> [] then Some t else cp_kubeconfig_loop cid ns
            | None \<Rightarrow> cp_kubeconfig_loop cid ns)
         }
       }
     }
   }"

definition cp_kubeconfig :: "json \<Rightarrow> string \<Rightarrow> string option" where
  "cp_kubeconfig topology cid = nodes_of topology \<bind> cp_kubeconfig_loop cid"

section \<open>The server of a kubeconfig\<close>

text \<open>\<open>^https://([^:/]+)(:\d+)?\<close>: the host and the port part.\<close>

definition server_host_match :: "string \<Rightarrow> (string \<times> string) option" where
  "server_host_match s =
     (if \<not> starts_with s ''https://'' then None
      else let rest = drop 8 s;
               host = takeWhile (\<lambda>c. c \<noteq> CHR '':'' \<and> c \<noteq> CHR ''/'') rest;
               after = drop (length host) rest;
               digits = takeWhile is_digit (drop 1 after)
           in if host = [] then None
              else Some (host, if starts_with after '':'' \<and> digits \<noteq> [] then CHR '':'' # digits else []))"

fun first_server_host :: "json list \<Rightarrow> string option" where
  "first_server_host [] = Some []"
| "first_server_host (e # es) =
     (case (if is_obj e then get e ''cluster'' else None) of
        None \<Rightarrow> first_server_host es
      | Some cl \<Rightarrow>
          if \<not> is_obj cl then first_server_host es
          else do {
            server \<leftarrow> get_or cl ''server'' (JStr []);
            text \<leftarrow> py_str server;
            (case server_host_match text of Some (h, _) \<Rightarrow> Some h | None \<Rightarrow> first_server_host es)
          })"

definition kubeconfig_server_host :: "(string \<Rightarrow> json option) \<Rightarrow> string \<Rightarrow> string option" where
  "kubeconfig_server_host safe_load kc =
     (if py_strip kc = [] then Some []
      else case safe_load kc of
        None \<Rightarrow> Some []
      | Some doc \<Rightarrow>
          if \<not> is_obj doc then Some []
          else do {
            cs \<leftarrow> get_or doc ''clusters'' (JList []);
            es \<leftarrow> iter (py_or cs (JList []));
            first_server_host es
          })"

section \<open>Access rows\<close>

definition cluster_key :: "json \<Rightarrow> string option" where
  "cluster_key cluster = do {
     i \<leftarrow> get cluster ''id'';
     n \<leftarrow> get cluster ''name'';
     py_str (py_or i (py_or n (JStr ''cluster'')))
   }"

definition stripped_field :: "json \<Rightarrow> string \<Rightarrow> string option" where
  "stripped_field d k = do { v \<leftarrow> get_or_else d k (JStr []); map_option py_strip (py_str v) }"

definition access_row :: "(string \<Rightarrow> json option) \<Rightarrow> json \<Rightarrow> json \<Rightarrow> cluster_access option" where
  "access_row safe_load topology cluster = do {
     cid \<leftarrow> cluster_key cluster;
     nv \<leftarrow> get_or_else cluster ''name'' (JStr cid);
     nt \<leftarrow> map_option py_strip (py_str nv);
     let name = (if nt \<noteq> [] then nt else cid);
     api_vip \<leftarrow> stripped_field cluster ''apiVip'';
     base_domain \<leftarrow> stripped_field cluster ''baseDomain'';
     kc \<leftarrow> cp_kubeconfig topology cid;
     host \<leftarrow> kubeconfig_server_host safe_load kc;
     let api_host = (if host = [] \<and> name \<noteq> [] \<and> base_domain \<noteq> []
                     then ''api.'' @ name @ ''.'' @ base_domain else host);
     route \<leftarrow> route_hostname_for_vip topology api_vip;
     Some \<lparr>ca_id = cid, ca_name = name, ca_api_vip = api_vip, ca_base_domain = base_domain,
           ca_kubeconfig = kc, ca_kubeconfig_available = (kc \<noteq> []), ca_tls_server_name = api_host,
           ca_route_hostname = route\<rparr>
   }"

definition list_cluster_access :: "(string \<Rightarrow> json option) \<Rightarrow> project \<Rightarrow> cluster_access list option" where
  "list_cluster_access safe_load p = do {
     let topology = project_topology p;
     cs \<leftarrow> get_or_else topology ''clusters'' (JList []);
     xs \<leftarrow> iter cs;
     omap (access_row safe_load topology) (filter is_obj xs)
   }"

definition get_cluster_access :: "(string \<Rightarrow> json option) \<Rightarrow> project \<Rightarrow> string \<Rightarrow> cluster_access option option" where
  "get_cluster_access safe_load p cluster_id =
     (let needle = py_lower (py_strip cluster_id)
      in if needle = [] then Some None
         else do {
           rows \<leftarrow> list_cluster_access safe_load p;
           Some (find (\<lambda>r. py_lower (ca_id r) = needle \<or> py_lower (ca_name r) = needle) rows)
         })"

section \<open>Dial targets\<close>

definition provider_type :: "host \<Rightarrow> database \<Rightarrow> string" where
  "provider_type h db =
     (if \<not> opt_truthy (h_provider_id h) then ''troshkad''
      else case provider_by_id db (the (h_provider_id h)) of
        None \<Rightarrow> ''troshkad''
      | Some v \<Rightarrow> if v_type v \<noteq> [] then v_type v else ''troshkad'')"

fun vm_name_loop :: "string \<Rightarrow> json list \<Rightarrow> string option" where
  "vm_name_loop vip [] = Some []"
| "vm_name_loop vip (ep # eps) = do {
     same \<leftarrow> text_is ep ''vmIp'' vip;
     if same then do { v \<leftarrow> get_or_else ep ''vmName'' (JStr []); py_str v } else vm_name_loop vip eps
   }"

definition vm_name_for_api_vip :: "json \<Rightarrow> string \<Rightarrow> string option" where
  "vm_name_for_api_vip topology vip = gateway_endpoints topology \<bind> vm_name_loop vip"

fun listen_port_loop :: "string \<Rightarrow> json list \<Rightarrow> int option option" where
  "listen_port_loop vip [] = Some None"
| "listen_port_loop vip (ep # eps) = do {
     same \<leftarrow> text_is ep ''vmIp'' vip;
     if \<not> same then listen_port_loop vip eps
     else do {
       route \<leftarrow> text_is ep ''type'' ''route'';
       if \<not> route then listen_port_loop vip eps
       else do {
         pv \<leftarrow> get_or_else ep ''port'' (JInt 0);
         port \<leftarrow> int_of_json pv;
         if port = 80 \<or> port = 443 \<or> port \<le> 0 then listen_port_loop vip eps else Some (Some port)
       }
     }
   }"

definition gateway_listen_port_for_vip :: "json \<Rightarrow> string \<Rightarrow> int option option" where
  "gateway_listen_port_for_vip topology vip = gateway_endpoints topology \<bind> listen_port_loop vip"

text \<open>The Kubernetes API: pods (name and phase) by namespace and label, and services (cluster
  address and ports) by namespace and name; \<^term>\<open>None\<close> when the call raises.\<close>

record kube_api =
  ka_pods :: "string \<Rightarrow> string \<Rightarrow> (string \<times> string) list option"
  ka_service :: "string \<Rightarrow> string \<Rightarrow> (string option \<times> int list) option"

definition gateway_pod_name :: "kube_api \<Rightarrow> string \<Rightarrow> string \<Rightarrow> string" where
  "gateway_pod_name core namespace pid =
     (case ka_pods core namespace (''app=troshka-gateway-'' @ take 8 pid) of
        None \<Rightarrow> []
      | Some items \<Rightarrow>
          (case find (\<lambda>pod. snd pod = ''Running'') items of
             Some pod \<Rightarrow> fst pod
           | None \<Rightarrow> (case items of [] \<Rightarrow> [] | pod # _ \<Rightarrow> fst pod)))"

definition gateway_pod_targets ::
    "kube_api \<Rightarrow> string \<Rightarrow> string \<Rightarrow> cluster_access \<Rightarrow> int option \<Rightarrow> dial_target list" where
  "gateway_pod_targets core namespace pid cluster listen_port =
     (let pod_name = gateway_pod_name core namespace pid
      in if pod_name = [] then []
         else map (\<lambda>(via, port).
             \<lparr>dt_host = pod_name, dt_port = port, dt_via = via, dt_tls_server_name = ca_tls_server_name cluster,
              dt_force_insecure = False, dt_namespace = namespace, dt_pod_name = pod_name,
              dt_api_vip = ca_api_vip cluster\<rparr>)
           ((case listen_port of None \<Rightarrow> [] | Some p \<Rightarrow> [(''kubevirt-pf'', p)]) @ [(''kubevirt-exec'', API_PORT)]))"

definition direct_target :: "string \<Rightarrow> int \<Rightarrow> string \<Rightarrow> bool \<Rightarrow> dial_target" where
  "direct_target h port sni insecure =
     \<lparr>dt_host = h, dt_port = port, dt_via = ''direct'', dt_tls_server_name = sni, dt_force_insecure = insecure,
      dt_namespace = [], dt_pod_name = [], dt_api_vip = []\<rparr>"

definition service_name :: "string \<Rightarrow> string" where
  "service_name vm_name = take 63 (''rt-'' @ vm_name @ ''-'' @ int_str API_PORT)"

definition service_dial_target ::
    "kube_api \<Rightarrow> string \<Rightarrow> cluster_access \<Rightarrow> json \<Rightarrow> int option \<Rightarrow> dial_target option option" where
  "service_dial_target core namespace cluster topology listen_port = do {
     vm_name \<leftarrow> vm_name_for_api_vip topology (ca_api_vip cluster);
     if vm_name = [] then Some None
     else (case ka_service core (service_name vm_name) namespace of
             None \<Rightarrow> Some None
           | Some (ip, ports) \<Rightarrow>
               let cluster_ip = (case ip of None \<Rightarrow> [] | Some t \<Rightarrow> t);
                   default_port = (case listen_port of Some p \<Rightarrow> if p \<noteq> 0 then p else API_PORT | None \<Rightarrow> API_PORT)
               in if cluster_ip = [] \<or> cluster_ip = ''None'' \<or> cluster_ip = ''none'' then Some None
                  else Some (Some (direct_target cluster_ip (case ports of [] \<Rightarrow> default_port | p # _ \<Rightarrow> p)
                                     (ca_tls_server_name cluster) False)))
   }"

definition route_target :: "cluster_access \<Rightarrow> dial_target list" where
  "route_target cluster =
     (if ca_route_hostname cluster = [] then []
      else [direct_target (ca_route_hostname cluster) ROUTE_PASSTHROUGH_PORT (ca_route_hostname cluster) True])"

record dial_env =
  de_credentials :: "provider \<Rightarrow> json option"
  de_clients :: "provider \<Rightarrow> kube_api option"

definition project_ns :: "dial_env \<Rightarrow> provider \<Rightarrow> string \<Rightarrow> string option" where
  "project_ns e v pid = do {
     creds \<leftarrow> de_credentials e v;
     prefix \<leftarrow> get_or creds ''project_prefix'' (JStr ''troshka-'');
     t \<leftarrow> py_str prefix;
     Some (t @ take 8 pid)
   }"

definition kubevirt_dial_targets ::
    "dial_env \<Rightarrow> provider \<Rightarrow> string \<Rightarrow> cluster_access \<Rightarrow> json \<Rightarrow> dial_target list option" where
  "kubevirt_dial_targets e v pid cluster topology = do {
     namespace \<leftarrow> project_ns e v pid;
     listen_port \<leftarrow> gateway_listen_port_for_vip topology (ca_api_vip cluster);
     inside \<leftarrow> (case de_clients e v of
        None \<Rightarrow> Some []
      | Some core \<Rightarrow>
          if ca_api_vip cluster = [] then Some []
          else do {
            svc \<leftarrow> service_dial_target core namespace cluster topology listen_port;
            Some (gateway_pod_targets core namespace pid cluster listen_port
                  @ (case svc of None \<Rightarrow> [] | Some t \<Rightarrow> [t]))
          });
     Some (inside @ route_target cluster)
   }"

definition uses_kubevirt_native_dial :: "host \<Rightarrow> database \<Rightarrow> bool" where
  "uses_kubevirt_native_dial h db = (h_host_type h = ''kubevirt-cluster'' \<or> provider_type h db = ''kubevirt'')"

datatype dial_error = No_api_vip string | Dial_raised

definition troshkad_target :: "cluster_access \<Rightarrow> dial_target" where
  "troshkad_target cluster =
     \<lparr>dt_host = ca_api_vip cluster, dt_port = API_PORT, dt_via = ''troshkad'',
      dt_tls_server_name = ca_tls_server_name cluster, dt_force_insecure = False,
      dt_namespace = [], dt_pod_name = [], dt_api_vip = []\<rparr>"

definition native_targets :: "dial_env \<Rightarrow> project \<Rightarrow> cluster_access \<Rightarrow> host \<Rightarrow> database \<Rightarrow> dial_target list option" where
  "native_targets e p cluster h db =
     (if \<not> uses_kubevirt_native_dial h db then Some []
      else case (if opt_truthy (h_provider_id h) then provider_by_id db (the (h_provider_id h)) else None) of
        Some v \<Rightarrow> kubevirt_dial_targets e v (p_id p) cluster (project_topology p)
      | None \<Rightarrow> Some (route_target cluster))"

definition resolve_dial_targets ::
    "dial_env \<Rightarrow> project \<Rightarrow> cluster_access \<Rightarrow> host \<Rightarrow> database \<Rightarrow> dial_error + dial_target list" where
  "resolve_dial_targets e p cluster h db =
     (case native_targets e p cluster h db of
        None \<Rightarrow> Inl Dial_raised
      | Some (t # ts) \<Rightarrow> Inr (t # ts)
      | Some [] \<Rightarrow>
          if ca_api_vip cluster = [] then Inl (No_api_vip (''Cluster '' @ ca_name cluster @ '' has no apiVip''))
          else Inr [troshkad_target cluster])"

definition resolve_dial_target ::
    "dial_env \<Rightarrow> project \<Rightarrow> cluster_access \<Rightarrow> host \<Rightarrow> database \<Rightarrow> dial_error + dial_target" where
  "resolve_dial_target e p cluster h db = map_sum id hd (resolve_dial_targets e p cluster h db)"

end
