(* ===== verification/Tunnel_Session.thy ===== *)
theory Tunnel_Session
  imports Cluster_Access "HOL-Library.Word"
begin

unbundle bit_operations_syntax

text \<open>
  \<open>src/src/backend/app/tunnel/framing.py\<close>: a binary frame is the stream id as four bytes, the
  most significant first, and the payload. Bytes are 8-bit words; the id is any Python integer
  when packing and a 32-bit word in the header. \<^term>\<open>None\<close> is the ValueError.
\<close>

type_synonym byte = "8 word"

definition HEADER_size :: nat where "HEADER_size = 4"

definition header_pack :: "32 word \<Rightarrow> byte list" where
  "header_pack w = map (\<lambda>k. ucast (drop_bit k w)) [24, 16, 8, 0]"

definition header_unpack :: "byte list \<Rightarrow> 32 word" where
  "header_unpack bs = foldl (\<lambda>w b. push_bit 8 w OR ucast b) 0 (take HEADER_size bs)"

definition pack_frame :: "int \<Rightarrow> byte list \<Rightarrow> byte list option" where
  "pack_frame stream_id payload =
     (if stream_id < 0 \<or> stream_id > 0xFFFFFFFF then None
      else Some (header_pack (word_of_int stream_id) @ payload))"

definition unpack_frame :: "byte list \<Rightarrow> (int \<times> byte list) option" where
  "unpack_frame data =
     (if length data < HEADER_size then None
      else Some (uint (header_unpack data), drop HEADER_size data))"

lemma header_pack_length [simp]: "length (header_pack w) = HEADER_size"
  by (simp add: header_pack_def HEADER_size_def)

lemma header_unpack_pack: "header_unpack (header_pack w @ payload) = w"
proof (rule bit_word_eqI)
  fix n assume "n < LENGTH(32)"
  then have n: "n < 32" by simp
  obtain k m where km: "n = k + m" "m < 8" "k \<in> {0, 8, 16, 24}"
  proof (rule that [of "8 * (n div 8)" "n mod 8"])
    show "8 * (n div 8) \<in> {0, 8, 16, 24}" using n by auto
  qed simp_all
  then consider "n = m" | "n = 8 + m" | "n = 16 + m" | "n = 24 + m" by auto
  then show "bit (header_unpack (header_pack w @ payload)) n = bit w n"
    by cases (use km(2) in \<open>simp_all add: header_unpack_def header_pack_def HEADER_size_def bit_simps\<close>)
qed

lemma header_pack_unpack:
  assumes "HEADER_size \<le> length bs"
  shows "header_pack (header_unpack bs) = take HEADER_size bs"
proof -
  obtain a b c d xs where bs: "bs = a # b # c # d # xs"
    using assms by (auto simp: HEADER_size_def Suc_le_length_iff numeral_eq_Suc)
  have "header_pack (header_unpack bs) = [a, b, c, d]"
    by (auto simp: bs header_unpack_def header_pack_def HEADER_size_def bit_eq_iff bit_simps dest: bit_imp_le_length)
  then show ?thesis by (simp add: bs HEADER_size_def)
qed

text \<open>Framing is a bijection: packing succeeds exactly for ids of 32 bits and unpacking gives
  back the id and the payload; and a frame that unpacks is the packing of what it gives.\<close>

theorem frame_roundtrip:
  "(pack_frame sid payload \<noteq> None) = (0 \<le> sid \<and> sid < 2 ^ 32) \<and>
   Option.bind (pack_frame sid payload) unpack_frame = (if 0 \<le> sid \<and> sid < 2 ^ 32 then Some (sid, payload) else None) \<and>
   Option.bind (unpack_frame frame) (\<lambda>(s, p). pack_frame s p) = (if HEADER_size \<le> length frame then Some frame else None)"
proof (intro conjI)
  show "(pack_frame sid payload \<noteq> None) = (0 \<le> sid \<and> sid < 2 ^ 32)" by (auto simp: pack_frame_def)
  show "Option.bind (pack_frame sid payload) unpack_frame = (if 0 \<le> sid \<and> sid < 2 ^ 32 then Some (sid, payload) else None)"
    by (auto simp: pack_frame_def unpack_frame_def header_unpack_pack uint_word_of_int_eq take_bit_int_eq_self)
  have "uint (header_unpack frame) < 2 ^ 32" "0 \<le> uint (header_unpack frame)"
    using uint_lt2p [of "header_unpack frame"] by simp_all
  then show "Option.bind (unpack_frame frame) (\<lambda>(s, p). pack_frame s p) = (if HEADER_size \<le> length frame then Some frame else None)"
    by (auto simp: unpack_frame_def pack_frame_def header_pack_unpack)
qed

text \<open>
  \<open>src/src/backend/app/tunnel/session.py\<close>: one dialled transport, many TCP streams over one
  WebSocket. The receive loop handles one message at a time, while a relay task per stream reads
  its socket; a step is what one of them does between two suspensions. Sockets and their relay
  tasks share a number. \<open>ms_open\<close> and \<open>ms_open_pfs\<close> are the sockets and port-forwards that exist
  outside, \<open>ms_orphans\<close> the sockets a dialling thread produced after its time was up.
\<close>

section \<open>State\<close>

datatype ms_phase = Looping | Dialing int | Ended

datatype ws_out = Out_json json | Out_bytes "byte list"

record tunnel_session =
  ms_candidate :: "dial_target option"
  ms_pf :: "nat option"
  ms_provider :: bool
  ms_streams :: "(int \<times> nat) list"
  ms_socks :: "(int \<times> nat) list"
  ms_closed :: bool
  ms_phase :: ms_phase
  ms_cancelled :: "(int \<times> nat) list"
  ms_late :: nat
  ms_next :: nat
  ms_open :: "nat list"
  ms_open_pfs :: "nat list"
  ms_orphans :: "nat list"
  ms_sent :: "ws_out list"

definition new_session :: "bool \<Rightarrow> tunnel_session" where
  "new_session provider =
     \<lparr>ms_candidate = None, ms_pf = None, ms_provider = provider, ms_streams = [], ms_socks = [],
      ms_closed = False, ms_phase = Looping, ms_cancelled = [], ms_late = 0, ms_next = 0, ms_open = [],
      ms_open_pfs = [], ms_orphans = [], ms_sent = []\<rparr>"

definition send_json :: "json \<Rightarrow> tunnel_session \<Rightarrow> tunnel_session" where
  "send_json j s = s\<lparr>ms_sent := ms_sent s @ [Out_json j]\<rparr>"

section \<open>Closing\<close>

definition close_pf :: "tunnel_session \<Rightarrow> tunnel_session" where
  "close_pf s =
     (case ms_pf s of
        None \<Rightarrow> s
      | Some k \<Rightarrow> s\<lparr>ms_pf := None, ms_open_pfs := removeAll k (ms_open_pfs s)\<rparr>)"

definition stream_msg :: "string \<Rightarrow> int \<Rightarrow> json" where
  "stream_msg t sid = JObj [(''type'', JStr t), (''stream_id'', JInt sid)]"

definition stream_error :: "int \<Rightarrow> string \<Rightarrow> json" where
  "stream_error sid err = JObj [(''type'', JStr ''error''), (''stream_id'', JInt sid), (''error'', JStr err)]"

text \<open>\<open>current\<close> is the relay task that runs the call, if one does; \<open>notify\<close> says whether a
  notification is wanted and can be sent.\<close>

definition close_stream :: "nat option \<Rightarrow> bool \<Rightarrow> int \<Rightarrow> tunnel_session \<Rightarrow> tunnel_session" where
  "close_stream current notify sid s =
     (let task = map_of (ms_streams s) sid;
          s' = s\<lparr>ms_streams := AList.delete sid (ms_streams s), ms_socks := AList.delete sid (ms_socks s),
                 ms_open := (case map_of (ms_socks s) sid of None \<Rightarrow> ms_open s | Some k \<Rightarrow> removeAll k (ms_open s)),
                 ms_cancelled := (case task of
                    Some t \<Rightarrow> if Some t \<noteq> current then (sid, t) # ms_cancelled s else ms_cancelled s
                  | None \<Rightarrow> ms_cancelled s)\<rparr>
      in if notify then send_json (stream_msg ''close'' sid) s' else s')"

definition shutdown_session :: "tunnel_session \<Rightarrow> tunnel_session" where
  "shutdown_session s =
     (let s = s\<lparr>ms_closed := True, ms_phase := Ended\<rparr>
      in close_pf (foldl (\<lambda>s sid. close_stream None False sid s) s (map fst (ms_streams s))))"

section \<open>Dialling\<close>

text \<open>The parameter opens a port-forward for a candidate; it raises or takes too long when it
  returns \<^term>\<open>None\<close>.\<close>

definition dial_candidate :: "(dial_target \<Rightarrow> nat option) \<Rightarrow> dial_target \<Rightarrow> tunnel_session \<Rightarrow> tunnel_session option" where
  "dial_candidate open_pf t s =
     (if dt_via t = ''kubevirt-pf''
      then if \<not> ms_provider s then None
           else map_option (\<lambda>k. s\<lparr>ms_pf := Some k, ms_open_pfs := ms_open_pfs s @ [k], ms_candidate := Some t\<rparr>) (open_pf t)
      else if dt_via t \<in> {''kubevirt-exec'', ''troshkad'', ''direct''} then Some (s\<lparr>ms_candidate := Some t\<rparr>)
      else None)"

definition ready_msg :: "dial_target \<Rightarrow> json" where
  "ready_msg t = JObj [(''type'', JStr ''ready''), (''via'', JStr (dt_via t)),
     (''tls_server_name'', JStr (dt_tls_server_name t)), (''force_insecure'', JBool (dt_force_insecure t)),
     (''multiplex'', JBool True)]"

fun dial :: "(dial_target \<Rightarrow> nat option) \<Rightarrow> dial_target list \<Rightarrow> tunnel_session \<Rightarrow> (json option) \<times> tunnel_session" where
  "dial open_pf [] s = (None, s)"
| "dial open_pf (t # ts) s =
     (case dial_candidate open_pf t s of
        Some s' \<Rightarrow> (Some (ready_msg t), s')
      | None \<Rightarrow> dial open_pf ts (close_pf s))"

text \<open>The start of \<open>run\<close>: dial, announce the session and enter the loop; \<open>sent\<close> says whether the
  announcement could be sent.\<close>

definition start_session :: "(dial_target \<Rightarrow> nat option) \<Rightarrow> bool \<Rightarrow> dial_target list \<Rightarrow> bool \<Rightarrow> tunnel_session" where
  "start_session open_pf provider targets sent =
     (case dial open_pf targets (new_session provider) of
        (None, s) \<Rightarrow> shutdown_session s
      | (Some ready, s) \<Rightarrow> if sent then send_json ready s else shutdown_session s)"

section \<open>Streams\<close>

definition can_dial_stream :: "tunnel_session \<Rightarrow> bool" where
  "can_dial_stream s =
     (case ms_candidate s of
        None \<Rightarrow> False
      | Some t \<Rightarrow>
          if dt_via t = ''kubevirt-pf'' then ms_pf s \<noteq> None
          else if dt_via t = ''kubevirt-exec'' then ms_provider s
          else True)"

definition reply_or_end :: "bool \<Rightarrow> json \<Rightarrow> tunnel_session \<Rightarrow> tunnel_session" where
  "reply_or_end sent j s = (if sent then send_json j s else shutdown_session s)"

definition open_stream :: "int \<Rightarrow> bool \<Rightarrow> int \<Rightarrow> tunnel_session \<Rightarrow> tunnel_session" where
  "open_stream max_streams sent sid s =
     (if sid \<in> fst ` set (ms_streams s) then reply_or_end sent (stream_error sid ''stream exists'') s
      else if int (length (ms_streams s)) \<ge> max_streams then reply_or_end sent (stream_error sid ''too many streams'') s
      else s\<lparr>ms_phase := Dialing sid\<rparr>)"

definition stream_dialed :: "bool \<Rightarrow> int \<Rightarrow> tunnel_session \<Rightarrow> tunnel_session" where
  "stream_dialed sent sid s =
     (let k = ms_next s
      in reply_or_end sent (stream_msg ''opened'' sid)
           (s\<lparr>ms_phase := Looping, ms_next := Suc k, ms_open := k # ms_open s,
              ms_socks := AList.update sid k (ms_socks s), ms_streams := AList.update sid k (ms_streams s)\<rparr>))"

definition stream_not_dialed :: "bool \<Rightarrow> string \<Rightarrow> int \<Rightarrow> tunnel_session \<Rightarrow> tunnel_session" where
  "stream_not_dialed sent err sid s = reply_or_end sent (stream_error sid (take 200 err)) (s\<lparr>ms_phase := Looping\<rparr>)"

definition handle_control :: "int \<Rightarrow> bool \<Rightarrow> json option \<Rightarrow> tunnel_session \<Rightarrow> tunnel_session" where
  "handle_control max_streams sent msg s =
     (case msg of
        None \<Rightarrow> s
      | Some m \<Rightarrow>
          (case (get m ''type'', get_or_else m ''stream_id'' (JInt 0) \<bind> int_of_json) of
             (Some typ, Some sid) \<Rightarrow>
               if typ = JStr ''open'' then open_stream max_streams sent sid s
               else if typ = JStr ''close'' then close_stream None False sid s
               else s
           | _ \<Rightarrow> shutdown_session s))"

definition forward_frame :: "bool \<Rightarrow> byte list \<Rightarrow> tunnel_session \<Rightarrow> tunnel_session" where
  "forward_frame delivered data s =
     (case unpack_frame data of
        None \<Rightarrow> s
      | Some (sid, payload) \<Rightarrow>
          if sid \<notin> fst ` set (ms_socks s) then s
          else if delivered then s else close_stream None False sid s)"

section \<open>Steps\<close>

datatype ms_event =
    Text "json option" bool
  | Bytes "byte list" bool
  | Idle
  | Receive_failed
  | Stream_dialed bool
  | Stream_failed string bool
  | Stream_timeout string bool
  | Late_socket
  | Relay int nat "byte list"
  | Relay_ends int nat bool
  | Cancelled_ends int nat bool

text \<open>\<open>Text\<close> carries the parsed control message, \<^term>\<open>None\<close> when it is not JSON. A relay task either
  forwards data, ends by itself, or ends because it was cancelled.\<close>

fun ms_step :: "int \<Rightarrow> ms_event \<Rightarrow> tunnel_session \<Rightarrow> tunnel_session option" where
  "ms_step m (Text msg sent) s = (if ms_phase s = Looping then Some (handle_control m sent msg s) else None)"
| "ms_step m (Bytes data delivered) s =
     (if ms_phase s = Looping then Some (if data = [] then s else forward_frame delivered data s) else None)"
| "ms_step m Idle s =
     (if ms_phase s = Looping then Some (if ms_streams s = [] then shutdown_session s else s) else None)"
| "ms_step m Receive_failed s = (if ms_phase s = Looping then Some (shutdown_session s) else None)"
| "ms_step m (Stream_dialed sent) s =
     (case ms_phase s of Dialing sid \<Rightarrow> if can_dial_stream s then Some (stream_dialed sent sid s) else None | _ \<Rightarrow> None)"
| "ms_step m (Stream_failed err sent) s =
     (case ms_phase s of Dialing sid \<Rightarrow> Some (stream_not_dialed sent err sid s) | _ \<Rightarrow> None)"
| "ms_step m (Stream_timeout err sent) s =
     (case ms_phase s of Dialing sid \<Rightarrow> Some (stream_not_dialed sent err sid (s\<lparr>ms_late := Suc (ms_late s)\<rparr>)) | _ \<Rightarrow> None)"
| "ms_step m Late_socket s =
     (if 0 < ms_late s
      then Some (s\<lparr>ms_late := ms_late s - 1, ms_next := Suc (ms_next s), ms_open := ms_next s # ms_open s,
                   ms_orphans := ms_next s # ms_orphans s\<rparr>)
      else None)"
| "ms_step m (Relay sid k data) s =
     (if map_of (ms_streams s) sid = Some k
      then Some (case pack_frame sid data of
             Some frame \<Rightarrow> s\<lparr>ms_sent := ms_sent s @ [Out_bytes frame]\<rparr>
           | None \<Rightarrow> close_stream (Some k) True sid s)
      else None)"
| "ms_step m (Relay_ends sid k sent) s =
     (if map_of (ms_streams s) sid = Some k then Some (close_stream (Some k) sent sid s) else None)"
| "ms_step m (Cancelled_ends sid k sent) s =
     (if (sid, k) \<in> set (ms_cancelled s)
      then Some (close_stream (Some k) sent sid (s\<lparr>ms_cancelled := remove1 (sid, k) (ms_cancelled s)\<rparr>))
      else None)"

end
