(* ===== verification/Tunnel_Session_Laws.thy ===== *)
theory Tunnel_Session_Laws
  imports Tunnel_Session
begin

text \<open>
  A tunnel session owns what it opens: its streams are capped, every open socket is registered
  under one stream, and when the session has ended nothing it registered is left open.
\<close>

definition ms_inv :: "int \<Rightarrow> tunnel_session \<Rightarrow> bool" where
  "ms_inv m s \<longleftrightarrow>
     ms_socks s = ms_streams s \<and> distinct (map fst (ms_streams s)) \<and> distinct (map snd (ms_streams s)) \<and>
     set (ms_open s) = snd ` set (ms_streams s) \<union> set (ms_orphans s) \<and>
     snd ` set (ms_streams s) \<inter> set (ms_orphans s) = {} \<and>
     (\<forall>k \<in> set (ms_open s). k < ms_next s) \<and>
     int (length (ms_streams s)) \<le> max 0 m \<and>
     (\<forall>sid. ms_phase s = Dialing sid \<longrightarrow> sid \<notin> fst ` set (ms_streams s) \<and> int (length (ms_streams s)) < m) \<and>
     (ms_phase s = Ended \<longrightarrow> ms_streams s = [] \<and> ms_pf s = None) \<and>
     ms_open_pfs s = (case ms_pf s of None \<Rightarrow> [] | Some k \<Rightarrow> [k])"

section \<open>Closing keeps the invariant\<close>

lemma delete_values:
  assumes "distinct (map fst d)" "distinct (map snd d)" "map_of d sid = Some k"
  shows "snd ` set (AList.delete sid d) = snd ` set d - {k}"
proof -
  have k: "(sid, k) \<in> set d" using assms(3) by (rule map_of_SomeD)
  have "v = k \<longleftrightarrow> i = sid" if "(i, v) \<in> set d" for i v
    using k assms(2) eq_key_imp_eq_value[OF assms(1), of i v k] inj_onD[of snd "set d" "(i, v)" "(sid, k)"] that
    by (auto simp: distinct_map)
  then show ?thesis by (force simp: AList.delete_eq)
qed

lemma delete_length: "length (AList.delete sid d) \<le> length d"
  by (simp add: AList.delete_eq)

lemma delete_distinct:
  "distinct (map fst d) \<Longrightarrow> distinct (map fst (AList.delete sid d))"
  "distinct (map snd d) \<Longrightarrow> distinct (map snd (AList.delete sid d))"
  by (simp_all add: AList.delete_eq distinct_map_filter)

lemma delete_subset: "set (AList.delete sid d) \<subseteq> set d"
  by (auto simp: AList.delete_eq)

lemma close_stream_fields [simp]:
  "ms_streams (close_stream c n sid s) = AList.delete sid (ms_streams s)"
  "ms_socks (close_stream c n sid s) = AList.delete sid (ms_socks s)"
  "ms_orphans (close_stream c n sid s) = ms_orphans s"
  "ms_next (close_stream c n sid s) = ms_next s"
  "ms_phase (close_stream c n sid s) = ms_phase s"
  "ms_pf (close_stream c n sid s) = ms_pf s"
  "ms_open_pfs (close_stream c n sid s) = ms_open_pfs s"
  "ms_open (close_stream c n sid s) =
     (case map_of (ms_socks s) sid of None \<Rightarrow> ms_open s | Some k \<Rightarrow> removeAll k (ms_open s))"
  by (simp_all add: close_stream_def send_json_def Let_def)

lemma close_stream_inv:
  assumes "ms_inv m s"
  shows "ms_inv m (close_stream c n sid s)"
proof -
  let ?d = "ms_streams s"
  have d: "distinct (map fst ?d)" "distinct (map snd ?d)" "ms_socks s = ?d"
    and o: "set (ms_open s) = snd ` set ?d \<union> set (ms_orphans s)" "snd ` set ?d \<inter> set (ms_orphans s) = {}"
    using assms by (simp_all add: ms_inv_def)
  have owned: "set (ms_open (close_stream c n sid s)) = snd ` set (AList.delete sid ?d) \<union> set (ms_orphans s)"
  proof (cases "map_of ?d sid")
    case None
    then have "AList.delete sid ?d = ?d" by (simp add: AList.delete_id map_of_eq_None_iff)
    then show ?thesis using None d o by simp
  next
    case (Some k)
    then have "k \<notin> set (ms_orphans s)" using o(2) by (force dest: map_of_SomeD)
    then show ?thesis using delete_values[OF d(1,2) Some] o d(3) Some by auto
  qed
  let ?d' = "AList.delete sid ?d"
  have sub: "set ?d' \<subseteq> set ?d" and len: "length ?d' \<le> length ?d"
    by (rule delete_subset, rule delete_length)
  have apart: "snd ` set ?d' \<inter> set (ms_orphans s) = {}" using sub o(2) by auto
  have "set (ms_open (close_stream c n sid s)) \<subseteq> set (ms_open s)" by (auto split: option.split)
  moreover have old: "\<forall>k\<in>set (ms_open s). k < ms_next s" "int (length ?d) \<le> max 0 m"
    "\<forall>sid. ms_phase s = Dialing sid \<longrightarrow> sid \<notin> fst ` set ?d \<and> int (length ?d) < m"
    "ms_phase s = Ended \<longrightarrow> ?d = [] \<and> ms_pf s = None"
    "ms_open_pfs s = (case ms_pf s of None \<Rightarrow> [] | Some k \<Rightarrow> [k])"
    using assms unfolding ms_inv_def by blast+
  ultimately have bound: "\<forall>k\<in>set (ms_open (close_stream c n sid s)). k < ms_next s" by blast
  have cap: "int (length ?d') \<le> max 0 m" using old(2) len by linarith
  have pending: "\<forall>i. ms_phase s = Dialing i \<longrightarrow> i \<notin> fst ` set ?d' \<and> int (length ?d') < m"
    using old(3) sub len by (meson image_mono le_less_trans of_nat_mono subsetD)
  have over: "ms_phase s = Ended \<longrightarrow> ?d' = [] \<and> ms_pf s = None" using old(4) by auto
  show ?thesis
    unfolding ms_inv_def close_stream_fields(1-7) d(3)
    by (intro conjI refl delete_distinct d(1,2) owned apart bound cap pending over old(5))
qed

lemma close_all_streams:
  "ms_streams (foldl (\<lambda>s sid. close_stream None False sid s) s ids) = filter (\<lambda>p. fst p \<notin> set ids) (ms_streams s)"
  by (induction ids arbitrary: s) (auto simp: AList.delete_eq intro: filter_cong)

lemma close_all_inv:
  "ms_inv m s \<Longrightarrow> ms_inv m (foldl (\<lambda>s sid. close_stream None False sid s) s ids)"
  by (induction ids arbitrary: s) (auto intro: close_stream_inv)

lemma close_all_fields [simp]:
  "ms_phase (foldl (\<lambda>s sid. close_stream None False sid s) s ids) = ms_phase s"
  by (induction ids arbitrary: s) auto

lemma close_stream_phase: "close_stream c n sid (s\<lparr>ms_phase := p\<rparr>) = (close_stream c n sid s)\<lparr>ms_phase := p\<rparr>"
  by (simp add: close_stream_def send_json_def Let_def split: option.split)

lemma close_all_phase:
  "foldl (\<lambda>s sid. close_stream None False sid s) (s\<lparr>ms_phase := p\<rparr>) ids =
     (foldl (\<lambda>s sid. close_stream None False sid s) s ids)\<lparr>ms_phase := p\<rparr>"
  by (induction ids arbitrary: s) (simp_all add: close_stream_phase)

lemma close_pf_fields [simp]:
  "ms_streams (close_pf s) = ms_streams s" "ms_socks (close_pf s) = ms_socks s" "ms_pf (close_pf s) = None"
  "ms_open (close_pf s) = ms_open s" "ms_orphans (close_pf s) = ms_orphans s" "ms_next (close_pf s) = ms_next s"
  "ms_phase (close_pf s) = ms_phase s"
  by (simp_all add: close_pf_def split: option.split)

lemma close_pf_open: "ms_open_pfs s = (case ms_pf s of None \<Rightarrow> [] | Some k \<Rightarrow> [k]) \<Longrightarrow> ms_open_pfs (close_pf s) = []"
  by (simp add: close_pf_def split: option.splits)

text \<open>The end does not depend on the phase the session was in.\<close>

lemma shutdown_inv:
  assumes "ms_inv m (s\<lparr>ms_phase := Looping\<rparr>)"
  shows "ms_inv m (shutdown_session s)"
proof -
  let ?s0 = "s\<lparr>ms_closed := True, ms_phase := Looping\<rparr>" and ?close = "foldl (\<lambda>s sid. close_stream None False sid s)"
  let ?t = "?close ?s0 (map fst (ms_streams s))"
  have t: "ms_inv m ?t" by (rule close_all_inv) (use assms in \<open>simp add: ms_inv_def\<close>)
  have empty: "ms_streams ?t = []" by (simp add: close_all_streams filter_empty_conv)
  have "shutdown_session s = close_pf (?t\<lparr>ms_phase := Ended\<rparr>)"
    using close_all_phase[where s = ?s0 and p = Ended] by (simp add: shutdown_session_def Let_def)
  then show ?thesis
    using t empty close_pf_open[of "?t\<lparr>ms_phase := Ended\<rparr>"] by (simp add: ms_inv_def)
qed

lemma ms_inv_looping: "ms_inv m s \<Longrightarrow> ms_phase s \<noteq> Ended \<Longrightarrow> ms_inv m (s\<lparr>ms_phase := Looping\<rparr>)"
  by (simp add: ms_inv_def)

lemma send_inv [simp]: "ms_inv m (send_json j s) = ms_inv m s"
  by (simp add: ms_inv_def send_json_def)

lemma sent_inv [simp]: "ms_inv m (s\<lparr>ms_sent := x\<rparr>) = ms_inv m s"
  by (simp add: ms_inv_def)

lemma reply_inv:
  assumes "ms_inv m s" "ms_phase s = Looping"
  shows "ms_inv m (reply_or_end sent j s)"
  using assms shutdown_inv[of m s] ms_inv_looping[of m s] by (simp add: reply_or_end_def)

section \<open>Steps\<close>

lemma open_stream_inv:
  assumes "ms_inv m s" "ms_phase s = Looping"
  shows "ms_inv m (open_stream m sent sid s)"
  using assms reply_inv[OF assms] by (auto simp: open_stream_def ms_inv_def)

lemma stream_dialed_inv:
  assumes "ms_inv m s" "ms_phase s = Dialing sid"
  shows "ms_inv m (stream_dialed sent sid s)"
proof -
  have "sid \<notin> fst ` set (ms_streams s)" using assms by (simp add: ms_inv_def)
  note new = update_new[OF this]
  have "ms_next s \<notin> set (ms_open s)" using assms(1) by (auto simp: ms_inv_def)
  then show ?thesis
    unfolding stream_dialed_def Let_def
    by (intro reply_inv) (use assms new in \<open>auto simp: ms_inv_def less_Suc_eq\<close>)
qed

lemma not_dialed_inv:
  assumes "ms_inv m s" "ms_phase s = Dialing sid"
  shows "ms_inv m (stream_not_dialed sent err sid s)"
  unfolding stream_not_dialed_def by (rule reply_inv) (use assms ms_inv_looping[of m s] in simp_all)

lemma handle_control_inv:
  assumes "ms_inv m s" "ms_phase s = Looping"
  shows "ms_inv m (handle_control m sent msg s)"
  using assms open_stream_inv[OF assms] close_stream_inv[OF assms(1)] shutdown_inv[of m s] ms_inv_looping[of m s]
  by (auto simp: handle_control_def split: option.split)

lemma late_socket_inv:
  assumes "ms_inv m s"
  shows "ms_inv m (s\<lparr>ms_late := l, ms_next := Suc (ms_next s), ms_open := ms_next s # ms_open s,
     ms_orphans := ms_next s # ms_orphans s\<rparr>)"
proof -
  have "ms_next s \<notin> set (ms_open s)" and bound: "\<forall>k\<in>set (ms_open s). k < ms_next s"
    and o: "set (ms_open s) = snd ` set (ms_streams s) \<union> set (ms_orphans s)"
    using assms by (auto simp: ms_inv_def)
  then have "ms_next s \<notin> snd ` set (ms_streams s)" by blast
  moreover have "\<forall>k\<in>set (ms_next s # ms_open s). k < Suc (ms_next s)"
    using bound by (simp add: less_Suc_eq)
  ultimately show ?thesis using assms unfolding ms_inv_def by simp
qed

lemma ms_inv_step:
  assumes "ms_inv m s" "ms_step m e s = Some t"
  shows "ms_inv m t"
proof (cases e)
  case (Text msg sent)
  then show ?thesis using assms handle_control_inv by (auto split: if_splits)
next
  case (Bytes data delivered)
  then show ?thesis
    using assms close_stream_inv[OF assms(1)] by (auto simp: forward_frame_def split: if_splits option.splits)
next
  case Idle
  then show ?thesis using assms shutdown_inv ms_inv_looping by (auto split: if_splits)
next
  case Receive_failed
  then show ?thesis using assms shutdown_inv ms_inv_looping by (auto split: if_splits)
next
  case (Stream_dialed sent)
  then show ?thesis using assms stream_dialed_inv by (auto split: ms_phase.splits if_splits)
next
  case (Stream_failed err sent)
  then show ?thesis using assms not_dialed_inv by (auto split: ms_phase.splits)
next
  case (Stream_timeout err sent)
  then obtain sid where sid: "ms_phase s = Dialing sid" "t = stream_not_dialed sent err sid (s\<lparr>ms_late := Suc (ms_late s)\<rparr>)"
    using assms by (auto split: ms_phase.splits)
  have "ms_inv m (s\<lparr>ms_late := Suc (ms_late s)\<rparr>)" using assms by (simp add: ms_inv_def)
  then show ?thesis using not_dialed_inv sid by simp
next
  case Late_socket
  then show ?thesis using assms late_socket_inv[OF assms(1)] by (auto split: if_splits)
next
  case (Relay sid k data)
  then show ?thesis
    using assms close_stream_inv[OF assms(1)] by (auto split: if_splits option.splits)
next
  case (Relay_ends sid k sent)
  then show ?thesis using assms close_stream_inv[OF assms(1)] by (auto split: if_splits)
next
  case (Cancelled_ends sid k sent)
  then have t: "t = close_stream (Some k) sent sid (s\<lparr>ms_cancelled := remove1 (sid, k) (ms_cancelled s)\<rparr>)"
    using assms by (auto split: if_splits)
  show ?thesis unfolding t by (rule close_stream_inv) (use assms in \<open>simp add: ms_inv_def\<close>)
qed

section \<open>The start\<close>

lemma dial_inv:
  assumes "ms_inv m s" "ms_pf s = None" "ms_phase s = Looping" "dial open_pf ts s = (r, s')"
  shows "ms_inv m s' \<and> ms_phase s' = Looping"
  using assms
proof (induction ts arbitrary: s)
  case (Cons t ts)
  have same: "close_pf s = s" using Cons.prems(2) by (simp add: close_pf_def)
  show ?case
  proof (cases "dial_candidate open_pf t s")
    case None
    then show ?thesis using Cons same by simp
  next
    case (Some u)
    then have "s' = u" using Cons.prems(4) by simp
    moreover have "ms_inv m u \<and> ms_phase u = Looping"
    proof -
      have "(\<exists>k. u = s\<lparr>ms_pf := Some k, ms_open_pfs := ms_open_pfs s @ [k], ms_candidate := Some t\<rparr>) \<or> u = s\<lparr>ms_candidate := Some t\<rparr>"
        using Some by (simp add: dial_candidate_def split: if_splits) blast
      then show ?thesis using Cons.prems(1-3) by (elim disjE exE) (simp_all add: ms_inv_def)
    qed
    ultimately show ?thesis by simp
  qed
qed simp

lemma start_inv: "ms_inv m (start_session open_pf provider targets sent)"
proof -
  obtain r s where d: "dial open_pf targets (new_session provider) = (r, s)" by fastforce
  have "ms_inv m s \<and> ms_phase s = Looping"
    by (rule dial_inv[OF _ _ _ d]) (simp_all add: new_session_def ms_inv_def)
  then show ?thesis
    using shutdown_inv[of m s] ms_inv_looping[of m s] by (cases r) (simp_all add: start_session_def d)
qed

interpretation multiplex: invariant_system
  "\<lambda>s. \<exists>open_pf provider targets sent. s = start_session open_pf provider targets sent"
  "\<lambda>s t. \<exists>e. ms_step m e s = Some t" "ms_inv m" for m
  by unfold_locales (auto intro: start_inv ms_inv_step)

text \<open>C15: whatever the client sends, however dialling goes and in whatever order the relay tasks
  end, a session has at most the configured number of streams, no id twice; the sockets that are
  open are those of its streams, one each, and those a dialling thread delivered after its time was
  up; and once the session has ended only the latter are open and no port-forward is.\<close>
theorem session_owns_sockets:
  assumes "(\<lambda>s t. \<exists>e. ms_step m e s = Some t)\<^sup>*\<^sup>* (start_session open_pf provider targets sent) s"
  shows "int (length (ms_streams s)) \<le> max 0 m \<and> distinct (map fst (ms_streams s)) \<and>
     ms_socks s = ms_streams s \<and> distinct (map snd (ms_socks s)) \<and>
     set (ms_open s) = snd ` set (ms_socks s) \<union> set (ms_orphans s) \<and>
     (ms_phase s = Ended \<longrightarrow> set (ms_open s) = set (ms_orphans s) \<and> ms_open_pfs s = [])"
proof -
  have "ms_inv m s" by (rule multiplex.reachable_inv[OF _ assms]) blast
  then show ?thesis by (auto simp: ms_inv_def)
qed

section \<open>A session\<close>

definition agent_target :: dial_target where
  "agent_target = \<lparr>dt_host = ''10.0.0.5'', dt_port = 6443, dt_via = ''troshkad'', dt_tls_server_name = ''api.lab'',
     dt_force_insecure = False, dt_namespace = [], dt_pod_name = [], dt_api_vip = []\<rparr>"

definition two_streams :: "ms_event list" where
  "two_streams = [Text (Some (stream_msg ''open'' 7)) True, Stream_dialed True,
     Text (Some (stream_msg ''open'' 8)) True, Stream_timeout ''timed out'' True, Late_socket,
     Text (Some (stream_msg ''close'' 7)) True, Cancelled_ends 7 0 True, Idle]"

definition run_events :: "int \<Rightarrow> ms_event list \<Rightarrow> tunnel_session \<Rightarrow> tunnel_session option" where
  "run_events m es s = ofold (\<lambda>s e. ms_step m e s) s es"

theorem session_owns_sockets_witness:
  "\<exists>s. run_events 32 two_streams (start_session (\<lambda>t. None) False [agent_target] True) = Some s \<and>
     ms_phase s = Ended \<and> set (ms_open s) = set (ms_orphans s) \<and> ms_orphans s = [1]"
proof -
  let ?run = "run_events 32 two_streams (start_session (\<lambda>t. None) False [agent_target] True)"
  have "case ?run of None \<Rightarrow> False | Some s \<Rightarrow> ms_phase s = Ended \<and> ms_orphans s = [1]"
    by code_simp
  then obtain s where s: "?run = Some s" "ms_phase s = Ended" "ms_orphans s = [1]"
    by (cases ?run) auto
  from session_owns_sockets[OF ofold_reachable[OF s(1)[unfolded run_events_def]]] s(2)
  have "set (ms_open s) = set (ms_orphans s)" by blast
  then show ?thesis using s by blast
qed

end
