(* ===== verification/Auth.thy ===== *)
theory Auth
  imports Models
begin

text \<open>
  \<open>src/src/backend/app/core/auth.py\<close>: who a request is from, which role the user has, and what a
  project-scoped API key may reach; with the rows of \<open>models/user.py\<close> and \<open>models/api_key.py\<close>.

  The hash of a key and the decoding of a JWT are parameters (libraries), as are the Kubernetes
  listing of groups and the clock. Header names are lower case, as the framework stores and
  looks them up. A raise is a value: \<open>HTTP\<close> for an \<open>HTTPException\<close>, \<open>Raised\<close> for any other.
\<close>

section \<open>Rows and configuration\<close>

record user_row =
  usr_id :: string
  usr_email :: string
  usr_display_name :: "string option"
  usr_role :: string
  usr_auth_source :: string

record api_key =
  key_id :: string
  key_user_id :: string
  key_hash :: string
  key_is_active :: bool
  key_last_used_at :: "time option"
  key_expires_at :: "time option"
  key_project_id :: "string option"
  key_scopes :: "string list option"

definition is_scoped :: "api_key \<Rightarrow> bool" where
  "is_scoped k = (key_project_id k \<noteq> None)"

definition has_scope :: "api_key \<Rightarrow> string \<Rightarrow> bool" where
  "has_scope k perm = (if \<not> is_scoped k then True else perm \<in> set (case key_scopes k of None \<Rightarrow> [] | Some xs \<Rightarrow> xs))"

record auth_state =
  a_users :: "user_row list"
  a_keys :: "api_key list"
  a_groups_cache :: json
  a_groups_cache_time :: rat

record auth_config =
  f_oauth_enabled :: bool
  f_admin_users :: string
  f_allowed_users :: string
  f_operator_users :: string
  f_allowed_groups :: string
  f_admin_groups :: string
  f_operator_groups :: string

datatype auth_error = HTTP int string | Raised

type_synonym 'a outcome = "auth_error + 'a"

definition user_by_email :: "auth_state \<Rightarrow> string \<Rightarrow> user_row option" where
  "user_by_email st email = find (\<lambda>u. usr_email u = email) (a_users st)"

definition user_by_id :: "auth_state \<Rightarrow> string \<Rightarrow> user_row option" where
  "user_by_id st i = find (\<lambda>u. usr_id u = i) (a_users st)"

definition parse_csv :: "string \<Rightarrow> string list" where
  "parse_csv v = remdups (map (\<lambda>x. py_lower (py_strip x)) (filter (\<lambda>x. py_strip x \<noteq> []) (py_split (CHR '','') v)))"

definition admin_users :: "auth_config \<Rightarrow> string list" where "admin_users f = parse_csv (f_admin_users f)"
definition allowed_users :: "auth_config \<Rightarrow> string list" where "allowed_users f = parse_csv (f_allowed_users f)"
definition operator_users :: "auth_config \<Rightarrow> string list" where "operator_users f = parse_csv (f_operator_users f)"
definition allowed_groups :: "auth_config \<Rightarrow> string list" where "allowed_groups f = parse_csv (f_allowed_groups f)"
definition admin_groups :: "auth_config \<Rightarrow> string list" where "admin_groups f = parse_csv (f_admin_groups f)"
definition operator_groups :: "auth_config \<Rightarrow> string list" where "operator_groups f = parse_csv (f_operator_groups f)"

section \<open>OpenShift groups\<close>

definition GROUPS_CACHE_TTL :: rat where "GROUPS_CACHE_TTL = 60"

datatype listing = No_client | Listing json | Listing_failed

definition fetch_openshift_groups :: "rat \<Rightarrow> listing \<Rightarrow> auth_state \<Rightarrow> json \<times> auth_state" where
  "fetch_openshift_groups now api st =
     (if truthy (a_groups_cache st) \<and> now - a_groups_cache_time st < GROUPS_CACHE_TTL
      then (a_groups_cache st, st)
      else case api of
        No_client \<Rightarrow> (JList [], st)
      | Listing_failed \<Rightarrow> (a_groups_cache st, st)
      | Listing result \<Rightarrow>
          (case get_or result ''items'' (JList []) of
             None \<Rightarrow> (a_groups_cache st, st)
           | Some items \<Rightarrow> (items, st\<lparr>a_groups_cache := items, a_groups_cache_time := now\<rparr>)))"

definition identities :: "string \<Rightarrow> string option \<Rightarrow> string list" where
  "identities username email = username # (case email of Some e \<Rightarrow> if e \<noteq> [] then [e] else [] | None \<Rightarrow> [])"

definition in_group :: "string list \<Rightarrow> json \<Rightarrow> bool option" where
  "in_group ids g = do {
     us \<leftarrow> get_or g ''users'' (JList []);
     xs \<leftarrow> iter us;
     ks \<leftarrow> omap hkey xs;
     Some (list_ex (\<lambda>i. JStr i \<in> set ks) ids)
   }"

definition group_name :: "json \<Rightarrow> string option" where
  "group_name g = do { m \<leftarrow> index g ''metadata''; n \<leftarrow> index m ''name''; s \<leftarrow> as_str n; Some (py_lower s) }"

definition get_user_groups :: "json \<Rightarrow> string \<Rightarrow> string option \<Rightarrow> string list option" where
  "get_user_groups groups username email = do {
     gs \<leftarrow> iter groups;
     mine \<leftarrow> ofilter (in_group (identities username email)) gs;
     omap group_name mine
   }"

definition meets :: "string list \<Rightarrow> string list \<Rightarrow> bool" where
  "meets xs ys = list_ex (\<lambda>x. x \<in> set ys) xs"

definition group_role :: "auth_config \<Rightarrow> string list \<Rightarrow> string option" where
  "group_role f gs =
     (if gs = [] then None
      else if meets gs (admin_groups f) then Some ''admin''
      else if meets gs (operator_groups f) then Some ''operator''
      else if meets gs (allowed_groups f) then Some ''user''
      else None)"

definition role_for_groups ::
    "rat \<Rightarrow> listing \<Rightarrow> auth_config \<Rightarrow> string \<Rightarrow> string option \<Rightarrow> auth_state \<Rightarrow> string option outcome \<times> auth_state" where
  "role_for_groups now api f username email st =
     (if username = [] then (Inr None, st)
      else let (groups, st) = fetch_openshift_groups now api st
           in case get_user_groups groups username email of
                None \<Rightarrow> (Inl Raised, st)
              | Some gs \<Rightarrow> (Inr (group_role f gs), st))"

definition role_for_email :: "auth_config \<Rightarrow> string \<Rightarrow> string" where
  "role_for_email f email =
     (if py_lower email \<in> set (admin_users f) then ''admin''
      else if py_lower email \<in> set (operator_users f) then ''operator'' else ''user'')"

definition resolve_role ::
    "rat \<Rightarrow> listing \<Rightarrow> auth_config \<Rightarrow> string \<Rightarrow> string option \<Rightarrow> auth_state \<Rightarrow> string outcome \<times> auth_state" where
  "resolve_role now api f email ocp_username st =
     (if py_lower email \<in> set (admin_users f) then (Inr ''admin'', st)
      else if py_lower email \<in> set (operator_users f) then (Inr ''operator'', st)
      else case ocp_username of
        None \<Rightarrow> (Inr ''user'', st)
      | Some name \<Rightarrow>
          if name = [] then (Inr ''user'', st)
          else (case role_for_groups now api f name (Some email) st of
                  (Inl e, st) \<Rightarrow> (Inl e, st)
                | (Inr None, st) \<Rightarrow> (Inr ''user'', st)
                | (Inr (Some r), st) \<Rightarrow> (Inr r, st)))"

section \<open>Access\<close>

definition enforce_access ::
    "rat \<Rightarrow> listing \<Rightarrow> auth_config \<Rightarrow> string \<Rightarrow> string option \<Rightarrow> auth_state \<Rightarrow> unit outcome \<times> auth_state" where
  "enforce_access now api f email ocp_username st =
     (if allowed_groups f \<noteq> [] \<and> opt_truthy ocp_username
      then let (groups, st) = fetch_openshift_groups now api st
           in case get_user_groups groups (the ocp_username) (Some email) of
                None \<Rightarrow> (Inl Raised, st)
              | Some gs \<Rightarrow>
                  if meets gs (allowed_groups f @ admin_groups f @ operator_groups f) then (Inr (), st)
                  else if allowed_users f \<noteq> [] \<and> py_lower email \<in> set (allowed_users f) then (Inr (), st)
                  else (Inl (HTTP 403 (''Access denied: user '' @ CHR 0x27 # the ocp_username @ CHR 0x27 # '' is not in an allowed group.'')), st)
      else if allowed_users f \<noteq> [] \<and> py_lower email \<notin> set (allowed_users f)
      then (Inl (HTTP 403 (''Access denied for user '' @ email)), st)
      else (Inr (), st))"

definition SCOPED_KEY_ROUTE_ALLOWLIST :: "(string \<times> string) list" where
  "SCOPED_KEY_ROUTE_ALLOWLIST = [(''get_project'', ''topology:read''), (''vm_exec'', ''vm:exec'')]"

record api_request =
  aq_headers :: "(string \<times> string) list"
  aq_route :: string
  aq_project_id :: "string option"

definition header :: "api_request \<Rightarrow> string \<Rightarrow> string option" where
  "header q name = map_of (aq_headers q) name"

definition enforce_scoped_key_access :: "api_request \<Rightarrow> api_key option \<Rightarrow> unit outcome" where
  "enforce_scoped_key_access q key =
     (case key of
        None \<Rightarrow> Inr ()
      | Some k \<Rightarrow>
          if \<not> is_scoped k then Inr ()
          else case map_of SCOPED_KEY_ROUTE_ALLOWLIST (aq_route q) of
            None \<Rightarrow> Inl (HTTP 403 ''API key is not authorized for this action'')
          | Some perm \<Rightarrow>
              if key_project_id k \<noteq> aq_project_id q \<or> \<not> has_scope k perm
              then Inl (HTTP 403 ''API key is not authorized for this project or action'')
              else Inr ())"

section \<open>Identities\<close>

definition get_user_from_oauth_headers :: "api_request \<Rightarrow> (string \<times> string) option" where
  "get_user_from_oauth_headers q =
     (case header q ''x-forwarded-email'' of
        None \<Rightarrow> None
      | Some email \<Rightarrow>
          if email = [] then None
          else Some (email, case header q ''x-forwarded-user'' of None \<Rightarrow> email | Some u \<Rightarrow> u))"

definition authorization :: "api_request \<Rightarrow> string" where
  "authorization q = (case header q ''authorization'' of None \<Rightarrow> [] | Some a \<Rightarrow> a)"

definition get_user_from_jwt :: "(string \<Rightarrow> json option) \<Rightarrow> api_request \<Rightarrow> json option" where
  "get_user_from_jwt decode_jwt q =
     (if \<not> starts_with (authorization q) ''Bearer '' then None else decode_jwt (drop 7 (authorization q)))"

definition store_user :: "user_row \<Rightarrow> auth_state \<Rightarrow> auth_state" where
  "store_user u st = st\<lparr>a_users := map (\<lambda>x. if usr_id x = usr_id u then u else x) (a_users st)\<rparr>"

definition refreshed_sso_user :: "string option \<Rightarrow> string \<Rightarrow> user_row \<Rightarrow> user_row" where
  "refreshed_sso_user display_name role u =
     (let u = (if usr_auth_source u = ''invited'' then u\<lparr>usr_auth_source := ''sso''\<rparr> else u);
          u = (if opt_truthy display_name \<and> \<not> opt_truthy (usr_display_name u) then u\<lparr>usr_display_name := display_name\<rparr> else u)
      in if usr_role u \<noteq> role then u\<lparr>usr_role := role\<rparr> else u)"

definition upsert_sso_user ::
    "string \<Rightarrow> string \<Rightarrow> string option \<Rightarrow> string \<Rightarrow> auth_state \<Rightarrow> user_row \<times> auth_state" where
  "upsert_sso_user new_id email display_name role st =
     (case user_by_email st email of
        None \<Rightarrow>
          let u = \<lparr>usr_id = new_id, usr_email = email,
                   usr_display_name = (if opt_truthy display_name then display_name
                                       else Some (hd (py_split (CHR ''@'') email))),
                   usr_role = role, usr_auth_source = ''sso''\<rparr>
          in (u, st\<lparr>a_users := a_users st @ [u]\<rparr>)
      | Some u \<Rightarrow>
          let u' = refreshed_sso_user display_name role u
          in (u', if u' \<noteq> u then store_user u' st else st))"

definition dev_email :: string where "dev_email = ''local-dev@troshka''"

definition get_or_create_dev_user :: "string \<Rightarrow> auth_state \<Rightarrow> user_row \<times> auth_state" where
  "get_or_create_dev_user new_id st =
     (case user_by_email st dev_email of
        Some u \<Rightarrow> (u, st)
      | None \<Rightarrow>
          let u = \<lparr>usr_id = new_id, usr_email = dev_email, usr_display_name = Some ''local-dev'',
                   usr_role = ''admin'', usr_auth_source = ''dev''\<rparr>
          in (u, st\<lparr>a_users := a_users st @ [u]\<rparr>))"

definition expired :: "time \<Rightarrow> api_key \<Rightarrow> bool" where
  "expired now k = (case key_expires_at k of None \<Rightarrow> False | Some t \<Rightarrow> t < now)"

definition store_key :: "api_key \<Rightarrow> auth_state \<Rightarrow> auth_state" where
  "store_key k st = st\<lparr>a_keys := map (\<lambda>x. if key_id x = key_id k then k else x) (a_keys st)\<rparr>"

definition active_key :: "auth_state \<Rightarrow> string \<Rightarrow> api_key option" where
  "active_key st hashed = find (\<lambda>k. key_hash k = hashed \<and> key_is_active k) (a_keys st)"

text \<open>The user of the key and the key that \<open>request.state.api_key\<close> then names.\<close>

definition get_user_from_api_key ::
    "(string \<Rightarrow> string) \<Rightarrow> time \<Rightarrow> api_request \<Rightarrow> auth_state \<Rightarrow> (user_row option \<times> api_key option) \<times> auth_state" where
  "get_user_from_api_key hash now q st =
     (if \<not> starts_with (authorization q) ''Bearer trk_'' then ((None, None), st)
      else case active_key st (hash (drop 7 (authorization q))) of
        None \<Rightarrow> ((None, None), st)
      | Some k \<Rightarrow>
          if expired now k then ((None, None), st)
          else let k' = k\<lparr>key_last_used_at := Some now\<rparr>;
                   st' = store_key k' st
               in ((user_by_id st' (key_user_id k'), Some k'), st'))"

section \<open>The current user\<close>

text \<open>What the environment gives one request: the time, the id of a new row, and for the first
  and the second look at the groups the time and the answer of the cluster.\<close>

record auth_env =
  v_now :: time
  v_new_id :: string
  v_hash :: "string \<Rightarrow> string"
  v_decode_jwt :: "string \<Rightarrow> json option"
  v_time :: "nat \<Rightarrow> rat"
  v_groups :: "nat \<Rightarrow> listing"

definition sso_login :: "auth_env \<Rightarrow> auth_config \<Rightarrow> string \<Rightarrow> string \<Rightarrow> auth_state \<Rightarrow> user_row outcome \<times> auth_state" where
  "sso_login v f email username st =
     (case enforce_access (v_time v 0) (v_groups v 0) f email (Some username) st of
        (Inl e, st) \<Rightarrow> (Inl e, st)
      | (Inr _, st) \<Rightarrow>
          (case resolve_role (v_time v 1) (v_groups v 1) f email (Some username) st of
             (Inl e, st) \<Rightarrow> (Inl e, st)
           | (Inr role, st) \<Rightarrow>
               (case upsert_sso_user (v_new_id v) email (Some username) role st of (u, st) \<Rightarrow> (Inr u, st))))"

text \<open>The JWT path returns \<^term>\<open>None\<close> when it does not identify a user; a claim that is not a
  text raises in the query.\<close>

definition jwt_user :: "auth_env \<Rightarrow> auth_config \<Rightarrow> api_request \<Rightarrow> auth_state \<Rightarrow> user_row option outcome \<times> auth_state" where
  "jwt_user v f q st =
     (case get_user_from_jwt (v_decode_jwt v) q of
        None \<Rightarrow> (Inr None, st)
      | Some info \<Rightarrow>
          if \<not> truthy info then (Inr None, st)
          else case (get info ''email'', get info ''sub'') of
            (Some e, Some s) \<Rightarrow>
              (let email = py_or e s
               in if \<not> truthy email then (Inr None, st)
                  else case as_str email of
                    None \<Rightarrow> (Inl Raised, st)
                  | Some t \<Rightarrow>
                      (case enforce_access (v_time v 0) (v_groups v 0) f t None st of
                         (Inl e, st) \<Rightarrow> (Inl e, st)
                       | (Inr _, st) \<Rightarrow> (Inr (user_by_email st t), st)))
          | _ \<Rightarrow> (Inl Raised, st))"

definition jwt_or_dev_user :: "auth_env \<Rightarrow> auth_config \<Rightarrow> api_request \<Rightarrow> auth_state \<Rightarrow> user_row outcome \<times> auth_state" where
  "jwt_or_dev_user v f q st =
     (case jwt_user v f q st of
        (Inl e, st) \<Rightarrow> (Inl e, st)
      | (Inr (Some u), st) \<Rightarrow> (Inr u, st)
      | (Inr None, st) \<Rightarrow>
          if \<not> f_oauth_enabled f
          then (case get_or_create_dev_user (v_new_id v) st of (u, st) \<Rightarrow> (Inr u, st))
          else (Inl (HTTP 401 ''Not authenticated''), st))"

definition key_user_access :: "auth_env \<Rightarrow> auth_config \<Rightarrow> api_request \<Rightarrow> user_row \<Rightarrow> api_key option \<Rightarrow> auth_state \<Rightarrow> user_row outcome \<times> auth_state" where
  "key_user_access v f q u key st =
     (case enforce_access (v_time v 0) (v_groups v 0) f (usr_email u) None st of
        (Inl e, st) \<Rightarrow> (Inl e, st)
      | (Inr _, st) \<Rightarrow>
          (case enforce_scoped_key_access q key of Inl e \<Rightarrow> (Inl e, st) | Inr _ \<Rightarrow> (Inr u, st)))"

definition get_current_user :: "auth_env \<Rightarrow> auth_config \<Rightarrow> api_request \<Rightarrow> auth_state \<Rightarrow> user_row outcome \<times> auth_state" where
  "get_current_user v f q st =
     (case (if f_oauth_enabled f then get_user_from_oauth_headers q else None) of
        Some (email, username) \<Rightarrow> sso_login v f email username st
      | None \<Rightarrow>
          (case get_user_from_api_key (v_hash v) (v_now v) q st of
             ((Some u, key), st) \<Rightarrow> key_user_access v f q u key st
           | ((None, key), st) \<Rightarrow> jwt_or_dev_user v f q st))"

section \<open>Roles\<close>

definition role_level :: "string \<Rightarrow> int" where
  "role_level r = dict_get [(''user'', 0), (''operator'', 1), (''admin'', 2)] r 0"

definition require_role :: "string \<Rightarrow> user_row \<Rightarrow> user_row outcome" where
  "require_role min_role u =
     (if role_level (usr_role u) < role_level min_role then Inl (HTTP 403 (''Requires '' @ min_role @ '' role'')) else Inr u)"

end
