(* ===== verification/Tunnel_Registry.thy ===== *)
theory Tunnel_Registry
  imports Prelude "HOL-Library.Multiset"
begin

text \<open>
  \<open>src/src/backend/app/tunnel/limits.py\<close>: the caps on tunnel sessions per pod, user and project.
  The registry counts; what it promises is about the sessions that are open, so it is related to
  the multiset of open sessions.
\<close>

definition int_env :: "string option \<Rightarrow> int \<Rightarrow> int" where
  "int_env raw dflt =
     (case raw of
        None \<Rightarrow> dflt
      | Some s \<Rightarrow> if s = [] then dflt else (case parse_int s of None \<Rightarrow> dflt | Some n \<Rightarrow> n))"

record caps =
  MAX_SESSIONS_PER_POD :: int
  MAX_STREAMS_PER_SESSION :: int
  MAX_SESSIONS_PER_USER :: int
  MAX_SESSIONS_PER_PROJECT :: int
  DIAL_TIMEOUT_S :: int
  STREAM_IDLE_S :: int

definition caps_of :: "(string \<Rightarrow> string option) \<Rightarrow> caps" where
  "caps_of env = \<lparr>
     MAX_SESSIONS_PER_POD = int_env (env ''TROSHKA_TUNNEL__MAX_SESSIONS_PER_POD'') 100,
     MAX_STREAMS_PER_SESSION = int_env (env ''TROSHKA_TUNNEL__MAX_STREAMS_PER_SESSION'') 32,
     MAX_SESSIONS_PER_USER = int_env (env ''TROSHKA_TUNNEL__MAX_SESSIONS_PER_USER'') 20,
     MAX_SESSIONS_PER_PROJECT = int_env (env ''TROSHKA_TUNNEL__MAX_SESSIONS_PER_PROJECT'') 10,
     DIAL_TIMEOUT_S = int_env (env ''TROSHKA_TUNNEL__DIAL_TIMEOUT_S'') 15,
     STREAM_IDLE_S = int_env (env ''TROSHKA_TUNNEL__STREAM_IDLE_S'') 60\<rparr>"

record registry =
  g_by_user :: "(string \<times> int) list"
  g_by_project :: "(string \<times> int) list"
  g_total :: int

definition empty_registry :: registry where
  "empty_registry = \<lparr>g_by_user = [], g_by_project = [], g_total = 0\<rparr>"

text \<open>\<^term>\<open>None\<close> as the reason is success.\<close>

definition try_acquire :: "caps \<Rightarrow> string \<Rightarrow> string \<Rightarrow> registry \<Rightarrow> string option \<times> registry" where
  "try_acquire cp user_id project_id g =
     (if g_total g \<ge> MAX_SESSIONS_PER_POD cp then (Some ''tunnel pod at capacity'', g)
      else if dict_get (g_by_user g) user_id 0 \<ge> MAX_SESSIONS_PER_USER cp then (Some ''too many tunnels for user'', g)
      else if dict_get (g_by_project g) project_id 0 \<ge> MAX_SESSIONS_PER_PROJECT cp then (Some ''too many tunnels for project'', g)
      else (None, \<lparr>g_by_user = AList.update user_id (dict_get (g_by_user g) user_id 0 + 1) (g_by_user g),
                   g_by_project = AList.update project_id (dict_get (g_by_project g) project_id 0 + 1) (g_by_project g),
                   g_total = g_total g + 1\<rparr>))"

definition drop_one :: "string \<Rightarrow> (string \<times> int) list \<Rightarrow> (string \<times> int) list" where
  "drop_one k d = (let n = dict_get d k 0 - 1 in if n \<le> 0 then AList.delete k d else AList.update k n d)"

definition release_session :: "string \<Rightarrow> string \<Rightarrow> registry \<Rightarrow> registry" where
  "release_session user_id project_id g =
     \<lparr>g_by_user = drop_one user_id (g_by_user g), g_by_project = drop_one project_id (g_by_project g),
      g_total = max 0 (g_total g - 1)\<rparr>"

section \<open>The open sessions\<close>

type_synonym session = "string \<times> string"

definition counts :: "(string \<times> int) list \<Rightarrow> string multiset \<Rightarrow> bool" where
  "counts d M \<longleftrightarrow> (\<forall>k. map_of d k = (if k \<in># M then Some (int (count M k)) else None))"

definition reg_abs :: "registry \<Rightarrow> session multiset \<Rightarrow> bool" where
  "reg_abs g S \<longleftrightarrow> counts (g_by_user g) (image_mset fst S) \<and> counts (g_by_project g) (image_mset snd S) \<and>
     g_total g = int (size S)"

text \<open>The specification: a session may open while the caps are not reached.\<close>

definition may_open :: "caps \<Rightarrow> session \<Rightarrow> session multiset \<Rightarrow> bool" where
  "may_open cp s S \<longleftrightarrow> int (size S) < MAX_SESSIONS_PER_POD cp \<and>
     int (count (image_mset fst S) (fst s)) < MAX_SESSIONS_PER_USER cp \<and>
     int (count (image_mset snd S) (snd s)) < MAX_SESSIONS_PER_PROJECT cp"

lemma counts_get: "counts d M \<Longrightarrow> dict_get d k 0 = int (count M k)"
  by (simp add: counts_def dict_get_def not_in_iff)

lemma counts_add: "counts d M \<Longrightarrow> counts (AList.update k (dict_get d k 0 + 1) d) (add_mset k M)"
  using counts_get [of d M k] by (auto simp: counts_def map_of_update)

lemma counts_drop:
  assumes "counts d M" "k \<in># M"
  shows "counts (drop_one k d) (M - {#k#})"
proof -
  have n: "dict_get d k 0 = int (count M k)" by (rule counts_get [OF assms(1)])
  have m: "x \<in># M - {#k#} \<longleftrightarrow> (if x = k then 1 < count M k else x \<in># M)" for x
    by (auto simp: in_diff_count)
  show ?thesis
  proof (cases "count M k \<le> 1")
    case True
    then have "drop_one k d = AList.delete k d" by (simp add: drop_one_def n)
    then show ?thesis using assms(1) True unfolding counts_def m by (auto simp: AList.delete_conv')
  next
    case False
    then have "drop_one k d = AList.update k (int (count M k) - 1) d" by (simp add: drop_one_def n)
    then show ?thesis using assms(1) False unfolding counts_def m by (auto simp: map_of_update of_nat_diff)
  qed
qed

lemma try_acquire_spec:
  assumes "reg_abs g S"
  shows "(fst (try_acquire cp u p g) = None) = may_open cp (u, p) S"
    "may_open cp (u, p) S \<Longrightarrow> reg_abs (snd (try_acquire cp u p g)) (add_mset (u, p) S)"
    "\<not> may_open cp (u, p) S \<Longrightarrow> snd (try_acquire cp u p g) = g"
proof -
  have c: "dict_get (g_by_user g) u 0 = int (count (image_mset fst S) u)" "dict_get (g_by_project g) p 0 = int (count (image_mset snd S) p)"
    and t: "g_total g = int (size S)"
    using assms counts_get unfolding reg_abs_def by blast+
  show "(fst (try_acquire cp u p g) = None) = may_open cp (u, p) S" "\<not> may_open cp (u, p) S \<Longrightarrow> snd (try_acquire cp u p g) = g"
    by (auto simp: try_acquire_def may_open_def c t)
  show "reg_abs (snd (try_acquire cp u p g)) (add_mset (u, p) S)" if "may_open cp (u, p) S"
    using that assms counts_add [of "g_by_user g" "image_mset fst S" u] counts_add [of "g_by_project g" "image_mset snd S" p]
    by (simp add: try_acquire_def may_open_def reg_abs_def c t)
qed

lemma release_spec:
  assumes "reg_abs g S" "(u, p) \<in># S"
  shows "reg_abs (release_session u p g) (S - {#(u, p)#})"
proof -
  have "u \<in># image_mset fst S" "p \<in># image_mset snd S" using assms(2) by force+
  moreover have "image_mset fst (S - {#(u, p)#}) = image_mset fst S - {#u#}" "image_mset snd (S - {#(u, p)#}) = image_mset snd S - {#p#}"
    using assms(2) by (simp_all add: image_mset_Diff)
  moreover have "max 0 (int (size S) - 1) = int (size (S - {#(u, p)#}))"
    using size_Suc_Diff1 [OF assms(2)] by linarith
  ultimately show ?thesis using assms(1) counts_drop by (simp add: reg_abs_def release_session_def)
qed

section \<open>Refinement\<close>

text \<open>A pod's history: sessions ask to open, and open ones end.\<close>

datatype pod_event = Ask string string | End string string

fun pod_step :: "caps \<Rightarrow> registry \<times> session multiset \<Rightarrow> pod_event \<Rightarrow> (registry \<times> session multiset) option" where
  "pod_step cp (g, S) (Ask u p) =
     (case try_acquire cp u p g of
        (None, g') \<Rightarrow> Some (g', add_mset (u, p) S)
      | (Some reason, g') \<Rightarrow> Some (g', S))"
| "pod_step cp (g, S) (End u p) =
     (if (u, p) \<in># S then Some (release_session u p g, S - {#(u, p)#}) else None)"

definition within_caps :: "caps \<Rightarrow> session multiset \<Rightarrow> bool" where
  "within_caps cp S \<longleftrightarrow> int (size S) \<le> max 0 (MAX_SESSIONS_PER_POD cp) \<and>
     (\<forall>u. int (count (image_mset fst S) u) \<le> max 0 (MAX_SESSIONS_PER_USER cp)) \<and>
     (\<forall>p. int (count (image_mset snd S) p) \<le> max 0 (MAX_SESSIONS_PER_PROJECT cp))"

definition pod_inv :: "caps \<Rightarrow> registry \<times> session multiset \<Rightarrow> bool" where
  "pod_inv cp x \<longleftrightarrow> reg_abs (fst x) (snd x) \<and> within_caps cp (snd x)"

lemma within_caps_sub: "within_caps cp S \<Longrightarrow> T \<subseteq># S \<Longrightarrow> within_caps cp T"
  unfolding within_caps_def
  by (meson image_mset_subseteq_mono le_trans mset_subset_eq_count of_nat_mono order_trans size_mset_mono)

lemma within_caps_add: "within_caps cp S \<Longrightarrow> may_open cp s S \<Longrightarrow> within_caps cp (add_mset s S)"
  by (auto simp: within_caps_def may_open_def)

lemma pod_inv_step:
  assumes "pod_inv cp x" "pod_step cp x e = Some y"
  shows "pod_inv cp y"
proof -
  obtain g S where x: "x = (g, S)" by fastforce
  have r: "reg_abs g S" and c: "within_caps cp S" using assms(1) by (simp_all add: x pod_inv_def)
  show ?thesis
  proof (cases e)
    case (Ask u p)
    show ?thesis
    proof (cases "may_open cp (u, p) S")
      case True
      then have "fst (try_acquire cp u p g) = None" using try_acquire_spec(1) [OF r] by simp
      then have "y = (snd (try_acquire cp u p g), add_mset (u, p) S)"
        using assms(2) by (cases "try_acquire cp u p g") (simp add: x Ask)
      then show ?thesis using try_acquire_spec(2) [OF r True] within_caps_add [OF c True] by (simp add: pod_inv_def)
    next
      case False
      then have "fst (try_acquire cp u p g) \<noteq> None" using try_acquire_spec(1) [OF r] by simp
      then have "y = (g, S)" using assms(2) try_acquire_spec(3) [OF r False] by (cases "try_acquire cp u p g") (auto simp: x Ask)
      then show ?thesis using r c by (simp add: pod_inv_def)
    qed
  next
    case (End u p)
    then have "(u, p) \<in># S" "y = (release_session u p g, S - {#(u, p)#})" using assms(2) by (auto simp: x split: if_splits)
    then show ?thesis using release_spec [OF r] within_caps_sub [OF c, of "S - {#(u, p)#}"] by (simp add: pod_inv_def)
  qed
qed

interpretation pod: invariant_system "\<lambda>x. x = (empty_registry, {#})" "\<lambda>x y. \<exists>e. pod_step cp x e = Some y" "pod_inv cp" for cp
proof unfold_locales
  show "pod_inv cp x" if "x = (empty_registry, {#})" for x
    using that by (simp add: pod_inv_def reg_abs_def counts_def empty_registry_def within_caps_def)
qed (blast intro: pod_inv_step)

text \<open>C18: the registry implements the caps on open sessions: after any history of openings and
  endings its counters are those of the sessions that are open, these are within all caps, and
  the next request is admitted exactly when the caps allow one more.\<close>

theorem registry_refines_sessions:
  assumes "(\<lambda>x y. \<exists>e. pod_step cp x e = Some y)\<^sup>*\<^sup>* (empty_registry, {#}) (g, S)"
  shows "reg_abs g S \<and> within_caps cp S \<and> (fst (try_acquire cp u p g) = None) = may_open cp (u, p) S"
proof -
  have "pod_inv cp (g, S)" using pod.reachable_inv [of "(empty_registry, {#})" cp "(g, S)"] assms by simp
  then show ?thesis using try_acquire_spec(1) [of g S] by (simp add: pod_inv_def)
qed

definition one_project_caps :: caps where
  "one_project_caps = \<lparr>MAX_SESSIONS_PER_POD = 100, MAX_STREAMS_PER_SESSION = 32, MAX_SESSIONS_PER_USER = 20,
     MAX_SESSIONS_PER_PROJECT = 1, DIAL_TIMEOUT_S = 15, STREAM_IDLE_S = 60\<rparr>"

theorem registry_refines_sessions_witness:
  "\<exists>g S. ofold (pod_step one_project_caps) (empty_registry, {#}) [Ask ''u'' ''p'', Ask ''v'' ''p'', Ask ''v'' ''q'', End ''u'' ''p''] = Some (g, S) \<and>
     reg_abs g S \<and> within_caps one_project_caps S \<and> (fst (try_acquire one_project_caps ''w'' ''q'' g) = None) = may_open one_project_caps (''w'', ''q'') S"
proof -
  have "ofold (pod_step one_project_caps) (empty_registry, {#}) [Ask ''u'' ''p'', Ask ''v'' ''p'', Ask ''v'' ''q'', End ''u'' ''p''] \<noteq> None"
    by (simp add: try_acquire_def one_project_caps_def empty_registry_def)
  then obtain g S where gS: "ofold (pod_step one_project_caps) (empty_registry, {#}) [Ask ''u'' ''p'', Ask ''v'' ''p'', Ask ''v'' ''q'', End ''u'' ''p''] = Some (g, S)"
    by auto
  then show ?thesis using registry_refines_sessions [OF ofold_reachable [OF gS]] by blast
qed

end
