(* ===== verification/Tunnel_Service.thy ===== *)
theory Tunnel_Service
  imports Auth Cluster_Access Rate_Limit Tunnel_Registry
begin

text \<open>
  \<open>src/src/backend/app/tunnel/auth.py\<close> and \<open>src/src/backend/app/tunnel/ws.py\<close>: who may open a
  tunnel, and the WebSocket handler around a session. The handler is split where other handlers
  run: \<open>tunnel_open\<close> is everything up to the session, \<open>tunnel_end\<close> the \<open>finally\<close> after it.
\<close>

section \<open>Authorisation\<close>

definition token_from_websocket :: "(string \<times> string) list \<Rightarrow> string option" where
  "token_from_websocket headers =
     (let auth = dict_get headers ''authorization'' []
      in if starts_with (py_lower auth) ''bearer trk_''
         then (let token = py_strip (drop 7 auth) in if token = [] then None else Some token)
         else None)"

text \<open>The user, and the accounts with the use of the key noted in the open transaction.\<close>

definition resolve_user :: "(string \<Rightarrow> string) \<Rightarrow> time \<Rightarrow> string option \<Rightarrow> auth_state \<Rightarrow> user_row option \<times> auth_state" where
  "resolve_user hash now token st =
     (case token of
        None \<Rightarrow> (None, st)
      | Some t \<Rightarrow>
          if \<not> starts_with t ''trk_'' then (None, st)
          else case active_key st (hash t) of
            None \<Rightarrow> (None, st)
          | Some k \<Rightarrow>
              if is_scoped k \<or> expired now k then (None, st)
              else let st' = store_key (k\<lparr>key_last_used_at := Some now\<rparr>) st
                   in (user_by_id st' (key_user_id k), st'))"

record tunnel_ctx =
  tc_user_id :: string
  tc_project_id :: string
  tc_cluster :: cluster_access
  tc_targets :: "dial_target list"
  tc_host :: host
  tc_provider :: "provider option"

datatype grant = Refuse int string | Grant tunnel_ctx

record tunnel_env =
  te_now :: time
  te_hash :: "string \<Rightarrow> string"
  te_safe_load :: "string \<Rightarrow> json option"
  te_dial :: dial_env
  te_error_text :: string

definition dial_error_text :: "tunnel_env \<Rightarrow> dial_error \<Rightarrow> string" where
  "dial_error_text e err = (case err of No_api_vip m \<Rightarrow> m | Dial_raised \<Rightarrow> te_error_text e)"

definition auth_failed :: grant where "auth_failed = Refuse 1011 ''Auth failed''"

text \<open>The provider row whose credentials can be read; \<^term>\<open>None\<close> when reading them raises.\<close>

definition session_provider :: "tunnel_env \<Rightarrow> host \<Rightarrow> database \<Rightarrow> provider option option" where
  "session_provider e h db =
     (if \<not> opt_truthy (h_provider_id h) then Some None
      else case provider_by_id db (the (h_provider_id h)) of
        None \<Rightarrow> Some None
      | Some v \<Rightarrow> map_option (\<lambda>_. Some v) (de_credentials (te_dial e) v))"

definition grant_session :: "tunnel_env \<Rightarrow> user_row \<Rightarrow> project \<Rightarrow> cluster_access \<Rightarrow> host \<Rightarrow> database \<Rightarrow> grant" where
  "grant_session e u p cluster h db =
     (case resolve_dial_targets (te_dial e) p cluster h db of
        Inl err \<Rightarrow> Refuse 1013 (take 120 (dial_error_text e err))
      | Inr [] \<Rightarrow> Refuse 1013 ''No dial path for cluster''
      | Inr (t # ts) \<Rightarrow>
          (case session_provider e h db of
             None \<Rightarrow> auth_failed
           | Some v \<Rightarrow> Grant \<lparr>tc_user_id = usr_id u, tc_project_id = p_id p, tc_cluster = cluster,
                              tc_targets = t # ts, tc_host = h, tc_provider = v\<rparr>))"

definition authorize_user :: "tunnel_env \<Rightarrow> user_row \<Rightarrow> string \<Rightarrow> string \<Rightarrow> database \<Rightarrow> grant" where
  "authorize_user e u project_id cluster_id db =
     (case project_by_id db project_id of
        None \<Rightarrow> Refuse 4004 ''Project not found''
      | Some p \<Rightarrow>
          if p_owner_id p \<noteq> usr_id u \<and> usr_role u \<noteq> ''admin'' then Refuse 4003 ''Access denied''
          else case get_cluster_access (te_safe_load e) p cluster_id of
            None \<Rightarrow> auth_failed
          | Some None \<Rightarrow> Refuse 4004 ''Cluster kubeconfig not available''
          | Some (Some cluster) \<Rightarrow>
              if \<not> ca_kubeconfig_available cluster then Refuse 4004 ''Cluster kubeconfig not available''
              else if \<not> opt_truthy (p_host_id p) then Refuse 4004 ''Project has no host''
              else case host_by_id db (the (p_host_id p)) of
                None \<Rightarrow> Refuse 4004 ''Host not found''
              | Some h \<Rightarrow> grant_session e u p cluster h db)"

text \<open>The transaction is committed on success only.\<close>

definition authorize_tunnel_session ::
    "tunnel_env \<Rightarrow> (string \<times> string) list \<Rightarrow> string \<Rightarrow> string \<Rightarrow> database \<Rightarrow> auth_state \<Rightarrow> grant \<times> auth_state" where
  "authorize_tunnel_session e headers project_id cluster_id db st =
     (case resolve_user (te_hash e) (te_now e) (token_from_websocket headers) st of
        (None, st') \<Rightarrow> (Refuse 4001 ''Unauthorized'', st)
      | (Some u, st') \<Rightarrow>
          (case authorize_user e u project_id cluster_id db of
             Refuse code reason \<Rightarrow> (Refuse code reason, st)
           | Grant ctx \<Rightarrow> (Grant ctx, st')))"

section \<open>The WebSocket handler\<close>

record tunnel_pod =
  tp_shared :: shared
  tp_registry :: registry
  tp_accounts :: auth_state

datatype opened =
    Closed int string
  | Accept_raised string string
  | Running tunnel_ctx

record tunnel_request =
  tq_headers :: "(string \<times> string) list"
  tq_client :: "string option"
  tq_project_id :: string
  tq_cluster_id :: string
  tq_accepted :: bool

definition caller_ip :: "tunnel_request \<Rightarrow> string" where
  "caller_ip q = client_ip_from_headers (tq_headers q) (case tq_client q of Some h \<Rightarrow> h | None \<Rightarrow> ''unknown'')"

text \<open>\<open>calls\<close> gives the clock and the state of Redis at the three accesses, \<open>member\<close> the random
  part of the window entry. \<open>tq_accepted\<close> is whether the handshake succeeds.\<close>

definition admit_session :: "caps \<Rightarrow> call \<Rightarrow> string \<Rightarrow> bool \<Rightarrow> tunnel_ctx \<Rightarrow> tunnel_pod \<Rightarrow> opened \<times> tunnel_pod" where
  "admit_session caps c ip accepted ctx pod =
     (case try_acquire caps (tc_user_id ctx) (tc_project_id ctx) (tp_registry pod) of
        (Some reason, reg) \<Rightarrow> (Closed 1013 (take 120 reason), pod\<lparr>tp_registry := reg\<rparr>)
      | (None, reg) \<Rightarrow>
          let pod = pod\<lparr>tp_registry := reg, tp_shared := record_auth_success c ip (tp_shared pod)\<rparr>
          in (if accepted then Running ctx else Accept_raised (tc_user_id ctx) (tc_project_id ctx), pod))"

definition tunnel_open ::
    "caps \<Rightarrow> environ \<Rightarrow> tunnel_env \<Rightarrow> (rtime \<Rightarrow> string) \<Rightarrow> (nat \<Rightarrow> call) \<Rightarrow> string \<Rightarrow> database \<Rightarrow>
     tunnel_request \<Rightarrow> tunnel_pod \<Rightarrow> opened \<times> tunnel_pod" where
  "tunnel_open caps env e ts calls member db q pod =
     (let ip = caller_ip q;
          (banned, sh) = is_banned (calls 0) ip (tp_shared pod);
          pod = pod\<lparr>tp_shared := sh\<rparr>
      in if banned then (Closed 4003 ''banned'', pod)
         else let (allowed, sh) = check_tunnel_open_rate env (calls 1) member ip (tp_shared pod);
                  pod = pod\<lparr>tp_shared := sh\<rparr>
              in if \<not> allowed then (Closed 1013 ''too many tunnel opens'', pod)
                 else case authorize_tunnel_session e (tq_headers q) (tq_project_id q) (tq_cluster_id q) db (tp_accounts pod) of
                   (Refuse code reason, acc) \<Rightarrow>
                     (Closed (if code = 0 then 4001 else code)
                        (take 120 (if reason = [] then ''Unauthorized'' else reason)),
                      pod\<lparr>tp_shared := record_auth_failure ts (calls 2) ip (tp_shared pod)\<rparr>)
                 | (Grant ctx, acc) \<Rightarrow>
                     admit_session caps (calls 2) ip (tq_accepted q) ctx (pod\<lparr>tp_accounts := acc\<rparr>))"

definition tunnel_end :: "string \<Rightarrow> string \<Rightarrow> tunnel_pod \<Rightarrow> tunnel_pod" where
  "tunnel_end user_id pid pod = pod\<lparr>tp_registry := release_session user_id pid (tp_registry pod)\<rparr>"

end
