(* ===== verification/Tunnel_Laws.thy ===== *)
theory Tunnel_Laws
  imports Tunnel_Service
begin

text \<open>
  Who gets a tunnel, what the handler does to the session caps, and where a session dials.
\<close>

section \<open>Admission\<close>

definition entitled ::
    "tunnel_env \<Rightarrow> database \<Rightarrow> auth_state \<Rightarrow> (string \<times> string) list \<Rightarrow> string \<Rightarrow> string \<Rightarrow> string \<Rightarrow> bool" where
  "entitled e db acc headers project_id user_id pid \<longleftrightarrow>
     (\<exists>token k u p. token_from_websocket headers = Some token \<and>
        k \<in> set (a_keys acc) \<and> key_hash k = te_hash e token \<and> key_is_active k \<and>
        key_project_id k = None \<and> \<not> expired (te_now e) k \<and>
        u \<in> set (a_users acc) \<and> usr_id u = key_user_id k \<and> usr_id u = user_id \<and>
        p \<in> set (d_projects db) \<and> p_id p = project_id \<and> p_id p = pid \<and>
        (p_owner_id p = usr_id u \<or> usr_role u = ''admin''))"

lemma resolve_userD:
  assumes "resolve_user hash now token st = (Some u, st')"
  shows "\<exists>t k. token = Some t \<and> k \<in> set (a_keys st) \<and> key_hash k = hash t \<and> key_is_active k \<and>
    key_project_id k = None \<and> \<not> expired now k \<and> u \<in> set (a_users st) \<and> usr_id u = key_user_id k"
proof -
  from assms obtain t where t: "token = Some t" "starts_with t ''trk_''"
    by (auto simp: resolve_user_def split: option.splits if_splits)
  from assms t obtain k where k: "active_key st (hash t) = Some k" "\<not> is_scoped k" "\<not> expired now k"
      "user_by_id st (key_user_id k) = Some u"
    by (auto simp: resolve_user_def Let_def user_by_id_def store_key_def split: option.splits if_splits)
  then show ?thesis
    using t(1) find_SomeD[of _ "a_keys st" k] find_SomeD[of _ "a_users st" u]
    by (auto simp: active_key_def user_by_id_def is_scoped_def)
qed

lemma authorize_userD:
  assumes "authorize_user e u project_id cluster_id db = Grant ctx"
  shows "\<exists>p. p \<in> set (d_projects db) \<and> p_id p = project_id \<and> tc_project_id ctx = p_id p \<and> tc_user_id ctx = usr_id u \<and>
    (p_owner_id p = usr_id u \<or> usr_role u = ''admin'')"
proof -
  from assms obtain p where p: "project_by_id db project_id = Some p"
    by (auto simp: authorize_user_def split: option.splits)
  from assms p obtain cluster h where own: "p_owner_id p = usr_id u \<or> usr_role u = ''admin''"
      and g: "grant_session e u p cluster h db = Grant ctx"
    by (auto simp: authorize_user_def auth_failed_def split: option.splits if_splits)
  from g have "tc_project_id ctx = p_id p \<and> tc_user_id ctx = usr_id u"
    by (auto simp: grant_session_def auth_failed_def split: sum.splits list.splits option.splits)
  then show ?thesis using own project_by_idD[OF p] by auto
qed

lemma authorize_entitled:
  assumes "authorize_tunnel_session e headers project_id cluster_id db st = (Grant ctx, st')"
  shows "entitled e db st headers project_id (tc_user_id ctx) (tc_project_id ctx)"
proof -
  obtain ou s where r: "resolve_user (te_hash e) (te_now e) (token_from_websocket headers) st = (ou, s)" by fastforce
  from assms r obtain u where u: "ou = Some u" "authorize_user e u project_id cluster_id db = Grant ctx"
    by (auto simp: authorize_tunnel_session_def split: option.splits grant.splits)
  show ?thesis
    using resolve_userD[OF r[unfolded u(1)]] authorize_userD[OF u(2)] unfolding entitled_def by metis
qed

lemma admit_session_cases:
  assumes "admit_session cp c ip acc ctx pod = (out, pod')" and "reg_abs (tp_registry pod) S"
  shows "(\<exists>reason. out = Closed 1013 reason \<and> tp_registry pod' = tp_registry pod \<and>
            \<not> may_open cp (tc_user_id ctx, tc_project_id ctx) S) \<or>
         (out = (if acc then Running ctx else Accept_raised (tc_user_id ctx) (tc_project_id ctx)) \<and>
            may_open cp (tc_user_id ctx, tc_project_id ctx) S \<and>
            reg_abs (tp_registry pod') (add_mset (tc_user_id ctx, tc_project_id ctx) S))"
proof -
  obtain r reg where t: "try_acquire cp (tc_user_id ctx) (tc_project_id ctx) (tp_registry pod) = (r, reg)" by fastforce
  show ?thesis
    using assms(1) t try_acquire_spec[OF assms(2), of cp "tc_user_id ctx" "tc_project_id ctx"]
    by (cases r) (auto simp: admit_session_def Let_def)
qed

text \<open>C14: the handler starts a session only for a caller that is not banned and that presents an
  active, unexpired and unscoped API key of the owner of the project or of an administrator, and
  only while the caps allow one more session, which it then counts. A refused request leaves the
  counters as they were. When the handshake fails after admission, the session is counted although
  none runs, and nothing takes it back.\<close>
theorem tunnel_admission:
  assumes "tunnel_open cp env e ts calls member db q pod = (out, pod')" and "reg_abs (tp_registry pod) S"
  shows "case out of
     Closed code reason \<Rightarrow> tp_registry pod' = tp_registry pod
   | Running ctx \<Rightarrow>
       tq_accepted q \<and> \<not> fst (is_banned (calls 0) (caller_ip q) (tp_shared pod)) \<and>
       entitled e db (tp_accounts pod) (tq_headers q) (tq_project_id q) (tc_user_id ctx) (tc_project_id ctx) \<and>
       may_open cp (tc_user_id ctx, tc_project_id ctx) S \<and>
       reg_abs (tp_registry pod') (add_mset (tc_user_id ctx, tc_project_id ctx) S) \<and>
       reg_abs (tp_registry (tunnel_end (tc_user_id ctx) (tc_project_id ctx) pod')) S
   | Accept_raised user_id pid \<Rightarrow>
       \<not> tq_accepted q \<and>
       entitled e db (tp_accounts pod) (tq_headers q) (tq_project_id q) user_id pid \<and>
       reg_abs (tp_registry pod') (add_mset (user_id, pid) S)"
proof -
  obtain banned sh where b: "is_banned (calls 0) (caller_ip q) (tp_shared pod) = (banned, sh)" by fastforce
  obtain allowed sh' where a: "check_tunnel_open_rate env (calls 1) member (caller_ip q) sh = (allowed, sh')" by fastforce
  obtain g acc where g: "authorize_tunnel_session e (tq_headers q) (tq_project_id q) (tq_cluster_id q) db (tp_accounts pod) = (g, acc)"
    by fastforce
  note unfolded = assms(1)[unfolded tunnel_open_def Let_def b prod.case]
  show ?thesis
  proof (cases "banned \<or> \<not> allowed \<or> (\<exists>code reason. g = Refuse code reason)")
    case True
    then show ?thesis using unfolded a g by (auto split: if_splits)
  next
    case False
    then obtain ctx where ctx: "g = Grant ctx" by (cases g) auto
    let ?pod = "pod\<lparr>tp_shared := sh', tp_accounts := acc\<rparr>"
    have admit: "admit_session cp (calls 2) (caller_ip q) (tq_accepted q) ctx ?pod = (out, pod')"
      using unfolded a g ctx False by auto
    have ent: "entitled e db (tp_accounts pod) (tq_headers q) (tq_project_id q) (tc_user_id ctx) (tc_project_id ctx)"
      using authorize_entitled g ctx by blast
    have ended: "reg_abs (tp_registry (tunnel_end u p pod')) S"
      if "reg_abs (tp_registry pod') (add_mset (u, p) S)" for u p
      using release_spec[OF that, of u p] by (simp add: tunnel_end_def)
    have reg: "reg_abs (tp_registry ?pod) S" using assms(2) by simp
    from admit_session_cases[OF admit reg] show ?thesis
      using ent ended b False by (auto split: if_splits)
  qed
qed

section \<open>Dial targets\<close>

definition published :: "json \<Rightarrow> string \<Rightarrow> int \<Rightarrow> bool" where
  "published topology vip port \<longleftrightarrow>
     (\<exists>eps ep. gateway_endpoints topology = Some eps \<and> ep \<in> set eps \<and> text_is ep ''vmIp'' vip = Some True \<and>
        text_is ep ''type'' ''route'' = Some True \<and>
        (\<exists>pv. get_or_else ep ''port'' (JInt 0) = Some pv \<and> int_of_json pv = Some port) \<and>
        port \<notin> {80, 443} \<and> 0 < port)"

lemma listen_port_loopD:
  "listen_port_loop vip eps = Some (Some port) \<Longrightarrow>
     \<exists>ep \<in> set eps. text_is ep ''vmIp'' vip = Some True \<and> text_is ep ''type'' ''route'' = Some True \<and>
        (\<exists>pv. get_or_else ep ''port'' (JInt 0) = Some pv \<and> int_of_json pv = Some port) \<and> port \<notin> {80, 443} \<and> 0 < port"
proof (induction eps)
  case (Cons ep eps)
  from Cons.prems obtain same where same: "text_is ep ''vmIp'' vip = Some same"
    by (auto simp: bind_eq_Some_conv)
  show ?case
  proof (cases "listen_port_loop vip eps = Some (Some port)")
    case True
    then show ?thesis using Cons.IH by (meson list.set_intros(2))
  next
    case False
    then have "same" "text_is ep ''type'' ''route'' = Some True"
      and "\<exists>pv. get_or_else ep ''port'' (JInt 0) = Some pv \<and> int_of_json pv = Some port \<and> port \<notin> {80, 443} \<and> 0 < port"
      using Cons.prems same by (auto simp: bind_eq_Some_conv not_le split: if_splits)
    then show ?thesis using same by auto
  qed
qed simp

lemma published_listen_port:
  "gateway_listen_port_for_vip topology vip = Some (Some port) \<Longrightarrow> published topology vip port"
  using listen_port_loopD[of vip _ port]
  by (fastforce simp: gateway_listen_port_for_vip_def published_def bind_eq_Some_conv)

lemma route_targetD:
  "t \<in> set (route_target c) \<Longrightarrow> t = direct_target (ca_route_hostname c) 443 (ca_route_hostname c) True"
  by (auto simp: route_target_def ROUTE_PASSTHROUGH_PORT_def split: if_splits)

definition good_target :: "json \<Rightarrow> cluster_access \<Rightarrow> dial_target \<Rightarrow> bool" where
  "good_target topology cluster t \<longleftrightarrow>
     (dt_via t = ''kubevirt-pf'' \<longrightarrow> published topology (ca_api_vip cluster) (dt_port t)) \<and>
     (dt_force_insecure t \<longrightarrow> t = direct_target (ca_route_hostname cluster) 443 (ca_route_hostname cluster) True) \<and>
     (\<not> dt_force_insecure t \<longrightarrow> dt_tls_server_name t = ca_tls_server_name cluster) \<and>
     dt_via t \<in> {''kubevirt-pf'', ''kubevirt-exec'', ''troshkad'', ''direct''}"

lemma good_route: "t \<in> set (route_target c) \<Longrightarrow> good_target topology c t"
  by (drule route_targetD) (simp add: good_target_def direct_target_def)

lemma good_pod_targets:
  assumes "gateway_listen_port_for_vip topology (ca_api_vip c) = Some lp"
    and "t \<in> set (gateway_pod_targets core ns pid c lp)"
  shows "good_target topology c t"
  using assms published_listen_port[of topology "ca_api_vip c"]
  by (cases lp) (auto simp: gateway_pod_targets_def Let_def good_target_def split: if_splits)

lemma good_service:
  assumes "service_dial_target core ns c topology lp = Some (Some t)"
  shows "good_target topology c t"
  using assms
  by (auto simp: service_dial_target_def Let_def good_target_def direct_target_def bind_eq_Some_conv
      split: if_splits option.splits)

lemma good_kubevirt_targets:
  assumes "kubevirt_dial_targets e v pid c topology = Some ts" and "t \<in> set ts"
  shows "good_target topology c t"
proof -
  from assms(1) obtain ns lp inside where lp: "gateway_listen_port_for_vip topology (ca_api_vip c) = Some lp"
    and inside: "(case de_clients e v of
        None \<Rightarrow> Some []
      | Some core \<Rightarrow>
          if ca_api_vip c = [] then Some []
          else do {
            svc \<leftarrow> service_dial_target core ns c topology lp;
            Some (gateway_pod_targets core ns pid c lp @ (case svc of None \<Rightarrow> [] | Some t \<Rightarrow> [t]))
          }) = Some inside"
    and ts: "ts = inside @ route_target c"
    by (auto simp: kubevirt_dial_targets_def bind_eq_Some_conv)
  from assms(2) ts consider "t \<in> set inside" | "t \<in> set (route_target c)" by auto
  then show ?thesis
  proof cases
    case 1
    then show ?thesis
      using inside good_pod_targets[OF lp, of t] good_service[of _ ns c topology lp t]
      by (auto simp: bind_eq_Some_conv split: option.splits if_splits)
  qed (rule good_route)
qed

text \<open>The dial targets of a cluster are never empty when they can be resolved. A port-forward
  only ever goes to a port that the gateway of the topology publishes for the API address, and
  never to a web port; certificate checks are skipped only for the public route of the cluster,
  and every other target keeps the server name of its kubeconfig; a host that is not native
  KubeVirt is reached through its agent only.\<close>
theorem dial_targets_sound:
  assumes "resolve_dial_targets e p cluster h db = Inr ts"
  shows "ts \<noteq> [] \<and> (\<forall>t \<in> set ts. good_target (project_topology p) cluster t) \<and>
     (\<not> uses_kubevirt_native_dial h db \<longrightarrow> ts = [troshkad_target cluster])"
proof -
  obtain ns where ns: "native_targets e p cluster h db = Some ns"
    using assms by (auto simp: resolve_dial_targets_def split: option.splits)
  have good: "good_target (project_topology p) cluster t" if "t \<in> set ns" for t
    using ns that good_kubevirt_targets good_route
    by (auto simp: native_targets_def split: if_splits option.splits)
  have agent: "good_target (project_topology p) cluster (troshkad_target cluster)"
    by (simp add: good_target_def troshkad_target_def)
  show ?thesis
  proof (cases ns)
    case Nil
    then show ?thesis using assms ns agent by (auto simp: resolve_dial_targets_def split: if_splits)
  next
    case (Cons t ts')
    then have "ts = ns" using assms ns by (simp add: resolve_dial_targets_def)
    moreover have "uses_kubevirt_native_dial h db"
      using ns Cons by (auto simp: native_targets_def split: if_splits)
    ultimately show ?thesis using good Cons by blast
  qed
qed

section \<open>A tunnel\<close>

definition tunnel_topology :: json where
  "tunnel_topology = JObj [(''nodes'', JList [
       JObj [(''type'', JStr ''vmNode''), (''data'', JObj [(''clusterId'', JStr ''c1''), (''clusterRole'', JStr ''master''),
         (''ocpKubeconfig'', JStr ''kubeconfig'')])],
       JObj [(''type'', JStr ''networkNode''), (''data'', JObj [(''subtype'', JStr ''gateway''),
         (''externalEndpoints'', JList [JObj [(''vmIp'', JStr ''10.0.0.5''), (''type'', JStr ''route''),
            (''port'', JInt 6444), (''hostname'', JStr ''api.apps.lab'')]])])]]),
     (''clusters'', JList [JObj [(''id'', JStr ''c1''), (''name'', JStr ''alpha''), (''apiVip'', JStr ''10.0.0.5''),
       (''baseDomain'', JStr ''lab.example'')]])]"

definition tunnel_project :: project where
  "tunnel_project = (sample_project ''p1'' tunnel_topology)\<lparr>p_owner_id := ''u1'', p_host_id := Some ''h1''\<rparr>"

definition tunnel_host :: host where
  "tunnel_host = (sample_host ''h1'')\<lparr>h_provider_id := Some ''v1'', h_host_type := ''kubevirt-cluster''\<rparr>"

definition tunnel_db :: database where
  "tunnel_db = empty_db\<lparr>d_projects := [tunnel_project], d_hosts := [tunnel_host], d_providers := [(sample_provider ''kubevirt'')\<lparr>v_id := ''v1''\<rparr>]\<rparr>"

definition tunnel_accounts :: auth_state where
  "tunnel_accounts = \<lparr>a_users = [\<lparr>usr_id = ''u1'', usr_email = ''ann@lab.example'', usr_display_name = None,
       usr_role = ''user'', usr_auth_source = ''sso''\<rparr>],
     a_keys = [\<lparr>key_id = ''k1'', key_user_id = ''u1'', key_hash = ''terces_krt'', key_is_active = True,
       key_last_used_at = None, key_expires_at = None, key_project_id = None, key_scopes = None\<rparr>],
     a_groups_cache = JList [], a_groups_cache_time = 0\<rparr>"

definition one_pod_api :: kube_api where
  "one_pod_api = \<lparr>ka_pods = (\<lambda>ns label. Some [(''gw-0'', ''Running'')]), ka_service = (\<lambda>name ns. None)\<rparr>"

definition sample_dial_env :: dial_env where
  "sample_dial_env = \<lparr>de_credentials = (\<lambda>v. Some (JObj [])), de_clients = (\<lambda>v. Some one_pod_api)\<rparr>"

definition sample_tunnel_env :: tunnel_env where
  "sample_tunnel_env = \<lparr>te_now = 1000, te_hash = rev, te_safe_load = (\<lambda>t. None), te_dial = sample_dial_env,
     te_error_text = ''error''\<rparr>"

definition down_call :: "nat \<Rightarrow> call" where
  "down_call i = \<lparr>c_now = 0, c_connect = Refused, c_up = (\<lambda>_. False)\<rparr>"

definition fresh_pod :: tunnel_pod where
  "fresh_pod = \<lparr>tp_shared = \<lparr>s_client = False, s_available = False, s_keys = [], s_progress = [], s_cancelled = [],
       s_sets = [], s_counters = []\<rparr>, tp_registry = empty_registry, tp_accounts = tunnel_accounts\<rparr>"

definition tunnel_call :: "bool \<Rightarrow> tunnel_request" where
  "tunnel_call accepted = \<lparr>tq_headers = [(''authorization'', ''Bearer trk_secret'')], tq_client = Some ''192.0.2.1'',
     tq_project_id = ''p1'', tq_cluster_id = ''Alpha'', tq_accepted = accepted\<rparr>"

definition open_sample :: "bool \<Rightarrow> opened \<times> tunnel_pod" where
  "open_sample accepted = tunnel_open (caps_of (\<lambda>n. None)) \<lparr>v_disabled = False, v_pytest = False, v_in_tests = False\<rparr>
     sample_tunnel_env (\<lambda>t. []) down_call ''m'' tunnel_db (tunnel_call accepted) fresh_pod"

theorem tunnel_admission_witness:
  "(\<exists>ctx pod. open_sample True = (Running ctx, pod) \<and>
      entitled sample_tunnel_env tunnel_db tunnel_accounts (tq_headers (tunnel_call True)) ''p1'' (tc_user_id ctx) (tc_project_id ctx)) \<and>
   (\<exists>u p pod. open_sample False = (Accept_raised u p, pod) \<and> reg_abs (tp_registry pod) {#(u, p)#})"
proof -
  have fresh: "reg_abs (tp_registry fresh_pod) {#}"
    by (simp add: fresh_pod_def empty_registry_def reg_abs_def counts_def)
  have "case open_sample True of (Running ctx, pod) \<Rightarrow> True | _ \<Rightarrow> False" by code_simp
  then obtain ctx pod where run: "open_sample True = (Running ctx, pod)"
    by (auto split: prod.splits opened.splits)
  have "case open_sample False of (Accept_raised u p, pod) \<Rightarrow> True | _ \<Rightarrow> False" by code_simp
  then obtain u p pod' where fail: "open_sample False = (Accept_raised u p, pod')"
    by (auto split: prod.splits opened.splits)
  have pod: "tp_accounts fresh_pod = tunnel_accounts" "tq_project_id (tunnel_call a) = ''p1''" for a
    by (simp_all add: fresh_pod_def tunnel_call_def)
  from tunnel_admission[OF run[unfolded open_sample_def] fresh] tunnel_admission[OF fail[unfolded open_sample_def] fresh]
  show ?thesis using run fail by (simp add: pod)
qed

theorem dial_targets_sound_witness:
  "\<exists>cluster ts. get_cluster_access (\<lambda>t. None) tunnel_project ''alpha'' = Some (Some cluster) \<and>
     resolve_dial_targets sample_dial_env tunnel_project cluster tunnel_host tunnel_db = Inr ts \<and>
     map dt_via ts = [''kubevirt-pf'', ''kubevirt-exec'', ''direct''] \<and>
     (\<forall>t \<in> set ts. good_target (project_topology tunnel_project) cluster t)"
proof -
  have "case get_cluster_access (\<lambda>t. None) tunnel_project ''alpha'' of
      Some (Some c) \<Rightarrow> (case resolve_dial_targets sample_dial_env tunnel_project c tunnel_host tunnel_db of
          Inr ts \<Rightarrow> map dt_via ts = [''kubevirt-pf'', ''kubevirt-exec'', ''direct''] | Inl _ \<Rightarrow> False)
    | _ \<Rightarrow> False"
    by code_simp
  then obtain c ts where c: "get_cluster_access (\<lambda>t. None) tunnel_project ''alpha'' = Some (Some c)"
    "resolve_dial_targets sample_dial_env tunnel_project c tunnel_host tunnel_db = Inr ts"
    "map dt_via ts = [''kubevirt-pf'', ''kubevirt-exec'', ''direct'']"
    by (auto split: option.splits sum.splits)
  show ?thesis
    by (intro exI[of _ c] exI[of _ ts] conjI c) (simp add: dial_targets_sound[OF c(2)])
qed

end
