(* ===== verification/Auth_Laws.thy ===== *)
theory Auth_Laws
  imports Auth
begin

text \<open>
  What authentication guarantees: a project-scoped key reaches only the listed routes of its own
  project, and roles change only as the configuration says.
\<close>

section \<open>What the checks change\<close>

lemma fetch_frame [simp]:
  "a_users (snd (fetch_openshift_groups now api st)) = a_users st"
  "a_keys (snd (fetch_openshift_groups now api st)) = a_keys st"
  by (auto simp: fetch_openshift_groups_def split: listing.splits option.splits)

lemma enforce_access_frame [simp]:
  "a_users (snd (enforce_access now api f email name st)) = a_users st"
  "a_keys (snd (enforce_access now api f email name st)) = a_keys st"
  by (auto simp: enforce_access_def Let_def split: option.splits prod.splits)
    (metis fetch_frame snd_conv)+

lemma role_for_groups_frame [simp]:
  "a_users (snd (role_for_groups now api f name email st)) = a_users st"
  by (auto simp: role_for_groups_def Let_def split: option.splits prod.splits)
    (metis fetch_frame(1) snd_conv)+

lemma resolve_role_frame [simp]:
  "a_users (snd (resolve_role now api f email name st)) = a_users st"
proof -
  have "a_users s = a_users st" if "role_for_groups now api f n (Some email) st = (r, s)" for n r s
    using role_for_groups_frame[of now api f n "Some email" st] that by simp
  then show ?thesis
    by (auto simp: resolve_role_def split: option.splits prod.splits sum.splits)
qed

lemma enforce_access_email:
  "enforce_access now api f email None st =
     (if allowed_users f = [] \<or> py_lower email \<in> set (allowed_users f) then Inr ()
      else Inl (HTTP 403 (''Access denied for user '' @ email)), st)"
  by (auto simp: enforce_access_def)

lemma user_by_id_store_key [simp]: "user_by_id (store_key k st) i = user_by_id st i"
  by (simp add: user_by_id_def store_key_def)

section \<open>Project-scoped keys\<close>

definition scoped_may :: "api_key \<Rightarrow> api_request \<Rightarrow> bool" where
  "scoped_may k q \<longleftrightarrow>
     aq_project_id q = key_project_id k \<and>
     (case key_scopes k of
        None \<Rightarrow> False
      | Some perms \<Rightarrow>
          aq_route q = ''get_project'' \<and> ''topology:read'' \<in> set perms \<or>
          aq_route q = ''vm_exec'' \<and> ''vm:exec'' \<in> set perms)"

definition scoped_refusal :: "api_request \<Rightarrow> string" where
  "scoped_refusal q =
     (if aq_route q = ''get_project'' \<or> aq_route q = ''vm_exec''
      then ''API key is not authorized for this project or action''
      else ''API key is not authorized for this action'')"

lemma allowlist_lookup:
  "map_of SCOPED_KEY_ROUTE_ALLOWLIST r =
     (if r = ''get_project'' then Some ''topology:read'' else if r = ''vm_exec'' then Some ''vm:exec'' else None)"
  by (simp add: SCOPED_KEY_ROUTE_ALLOWLIST_def)

lemma scoped_key_access:
  assumes "is_scoped k"
  shows "enforce_scoped_key_access q (Some k) =
    (if scoped_may k q then Inr () else Inl (HTTP 403 (scoped_refusal q)))"
proof -
  consider "aq_route q = ''get_project''" | "aq_route q = ''vm_exec''"
    | "aq_route q \<noteq> ''get_project''" "aq_route q \<noteq> ''vm_exec''" by blast
  then show ?thesis
    by cases (use assms in \<open>simp_all add: enforce_scoped_key_access_def allowlist_lookup scoped_may_def
        scoped_refusal_def has_scope_def eq_commute split: option.split\<close>)
qed

text \<open>C16: a request that presents a valid project-scoped API key and no proxy identity is served,
  as the owner of the key, exactly when the owner may use the service and the route is one of the
  two listed ones, for the project of the key and with the permission in its scopes. Every other
  request gets a 403: it never falls through to another way of authentication. No account changes.\<close>
theorem scoped_key_confined:
  assumes "\<not> f_oauth_enabled f \<or> get_user_from_oauth_headers q = None"
    and "starts_with (authorization q) ''Bearer trk_''"
    and "active_key st (v_hash v (drop 7 (authorization q))) = Some k"
    and "\<not> expired (v_now v) k" and "is_scoped k"
    and "user_by_id st (key_user_id k) = Some u"
  shows "fst (get_current_user v f q st) =
           (if allowed_users f \<noteq> [] \<and> py_lower (usr_email u) \<notin> set (allowed_users f)
            then Inl (HTTP 403 (''Access denied for user '' @ usr_email u))
            else if scoped_may k q then Inr u else Inl (HTTP 403 (scoped_refusal q))) \<and>
         a_users (snd (get_current_user v f q st)) = a_users st"
proof -
  define k' where "k' = k\<lparr>key_last_used_at := Some (v_now v)\<rparr>"
  have key: "get_user_from_api_key (v_hash v) (v_now v) q st = ((Some u, Some k'), store_key k' st)"
    using assms by (simp add: get_user_from_api_key_def Let_def k'_def)
  have current: "get_current_user v f q st = key_user_access v f q u (Some k') (store_key k' st)"
    using assms(1) key by (auto simp: get_current_user_def)
  have "is_scoped k'" and may: "scoped_may k' q = scoped_may k q"
    using assms(5) by (simp_all add: is_scoped_def scoped_may_def k'_def)
  note scoped = scoped_key_access[OF this(1), of q, unfolded may]
  show ?thesis
    by (simp add: current key_user_access_def enforce_access_email scoped store_key_def)
qed

section \<open>Roles\<close>

text \<open>The role the configuration gives a user who is in the groups \<open>gs\<close>.\<close>

definition configured_role :: "auth_config \<Rightarrow> string \<Rightarrow> string list \<Rightarrow> string" where
  "configured_role f email gs =
     (if py_lower email \<in> set (admin_users f) then ''admin''
      else if py_lower email \<in> set (operator_users f) then ''operator''
      else if set gs \<inter> set (admin_groups f) \<noteq> {} then ''admin''
      else if set gs \<inter> set (operator_groups f) \<noteq> {} then ''operator''
      else ''user'')"

text \<open>Groups of the user in a listing the cluster gave, now or for the cache.\<close>

definition known_listing :: "auth_env \<Rightarrow> auth_state \<Rightarrow> json \<Rightarrow> bool" where
  "known_listing v st groups \<longleftrightarrow>
     groups = JList [] \<or> groups = a_groups_cache st \<or>
     (\<exists>i\<in>{0, 1}. \<exists>r. v_groups v i = Listing r \<and> get_or r ''items'' (JList []) = Some groups)"

lemma meets_iff: "meets xs ys \<longleftrightarrow> set xs \<inter> set ys \<noteq> {}"
  by (auto simp: meets_def list_ex_iff)

lemma fetch_known:
  assumes "fetch_openshift_groups (v_time v i) (v_groups v i) s = (groups, s')" and "i \<in> {0, 1}"
    and "known_listing v st (a_groups_cache s)"
  shows "known_listing v st groups \<and> known_listing v st (a_groups_cache s')"
proof (cases "v_groups v i")
  case (Listing r)
  then show ?thesis
    using assms by (force simp: fetch_openshift_groups_def known_listing_def split: if_splits option.splits)
qed (use assms in \<open>auto simp: fetch_openshift_groups_def known_listing_def split: if_splits\<close>)

lemma enforce_known:
  assumes "known_listing v st (a_groups_cache s)"
  shows "known_listing v st (a_groups_cache (snd (enforce_access (v_time v 0) (v_groups v 0) f email name s)))"
  using fetch_known[of v 0 s] assms
  by (auto simp: enforce_access_def Let_def split: option.splits prod.splits)

lemma resolve_role_configured:
  assumes "resolve_role (v_time v 1) (v_groups v 1) f email (Some name) s = (Inr r, s')"
    and "known_listing v st (a_groups_cache s)"
  shows "\<exists>groups gs. known_listing v st groups \<and>
           (name = [] \<and> gs = [] \<or> get_user_groups groups name (Some email) = Some gs \<or> gs = [] \<and>
             py_lower email \<in> set (admin_users f) \<union> set (operator_users f)) \<and>
           r = configured_role f email gs"
proof (cases "py_lower email \<in> set (admin_users f) \<union> set (operator_users f) \<or> name = []")
  case True
  then have "r = configured_role f email []"
    using assms(1) by (auto simp: resolve_role_def configured_role_def split: if_splits)
  then show ?thesis
    using True assms(2) by blast
next
  case False
  obtain groups s1 where fetch: "fetch_openshift_groups (v_time v 1) (v_groups v 1) s = (groups, s1)"
    by fastforce
  have "known_listing v st groups"
    using fetch_known[OF fetch _ assms(2)] by simp
  moreover have "\<exists>gs. get_user_groups groups name (Some email) = Some gs \<and> r = configured_role f email gs"
    using assms(1) False fetch
    by (auto simp: resolve_role_def role_for_groups_def group_role_def configured_role_def meets_iff
        split: option.splits if_splits sum.splits)
  ultimately show ?thesis by blast
qed

lemma store_user_rows: "w \<in> set (a_users (store_user u st)) \<Longrightarrow> w = u \<or> w \<in> set (a_users st)"
  by (auto simp: store_user_def split: if_splits)

lemma refreshed_row [simp]:
  "usr_email (refreshed_sso_user d r u) = usr_email u" "usr_role (refreshed_sso_user d r u) = r"
  by (simp_all add: refreshed_sso_user_def Let_def)

lemma upsert_rows:
  assumes "w \<in> set (a_users (snd (upsert_sso_user i email d r st)))"
  shows "w \<in> set (a_users st) \<or> usr_email w = email \<and> usr_role w = r"
proof (cases "user_by_email st email")
  case None
  then show ?thesis using assms by (auto simp: upsert_sso_user_def Let_def)
next
  case (Some u)
  then have "usr_email u = email" by (auto simp: user_by_email_def find_Some_iff)
  then show ?thesis
    using assms Some store_user_rows[of w "refreshed_sso_user d r u" st]
    by (auto simp: upsert_sso_user_def Let_def split: if_splits)
qed

lemma sso_rows:
  assumes "w \<in> set (a_users (snd (sso_login v f email name st)))"
  shows "w \<in> set (a_users st) \<or> usr_email w = email \<and>
    (\<exists>s. resolve_role (v_time v 1) (v_groups v 1) f email (Some name)
            (snd (enforce_access (v_time v 0) (v_groups v 0) f email (Some name) st)) = (Inr (usr_role w), s))"
proof -
  obtain r0 s0 where acc: "enforce_access (v_time v 0) (v_groups v 0) f email (Some name) st = (r0, s0)"
    by fastforce
  have u0: "a_users s0 = a_users st"
    using enforce_access_frame(1)[of "v_time v 0" "v_groups v 0" f email "Some name" st] acc by simp
  obtain r1 s1 where res: "resolve_role (v_time v 1) (v_groups v 1) f email (Some name) s0 = (r1, s1)"
    by fastforce
  have u1: "a_users s1 = a_users st"
    using resolve_role_frame[of "v_time v 1" "v_groups v 1" f email "Some name" s0] u0 unfolding res by simp
  show ?thesis
    using assms upsert_rows[of w "v_new_id v" email "Some name" _ s1]
    by (cases r0; cases r1) (auto simp: sso_login_def acc res u0 u1 case_prod_beta simp del: One_nat_def)
qed

lemma jwt_user_state: "snd (jwt_user v f q st) = st"
  by (simp add: jwt_user_def Let_def enforce_access_email split: option.split)

lemma dev_user_rows:
  "w \<in> set (a_users (snd (get_or_create_dev_user i st))) \<Longrightarrow>
     w \<in> set (a_users st) \<or> usr_email w = dev_email \<and> usr_role w = ''admin''"
  by (auto simp: get_or_create_dev_user_def Let_def simp del: list.inject split: option.splits)

lemma jwt_or_dev_rows:
  assumes "w \<in> set (a_users (snd (jwt_or_dev_user v f q st)))"
  shows "w \<in> set (a_users st) \<or> \<not> f_oauth_enabled f \<and> usr_email w = dev_email \<and> usr_role w = ''admin''"
proof -
  obtain r where jwt: "jwt_user v f q st = (r, st)"
    using jwt_user_state[of v f q st] by (metis prod.collapse)
  show ?thesis
  proof (cases "r = Inr None \<and> \<not> f_oauth_enabled f")
    case True
    then show ?thesis
      using assms jwt dev_user_rows[of w "v_new_id v" st] by (simp add: jwt_or_dev_user_def case_prod_beta)
  next
    case False
    then show ?thesis
      using assms jwt by (cases r) (auto simp: jwt_or_dev_user_def split: option.splits)
  qed
qed

text \<open>C38: whatever a request presents, afterwards every account has the role it had before, or it
  is the account of the address the proxy forwarded and has the role the configuration gives that
  address: by its own listing, else by the groups it is in according to the cluster; or it is the
  development account and the proxy is switched off.\<close>
theorem roles_follow_configuration:
  assumes "w \<in> set (a_users (snd (get_current_user v f q st)))"
  shows "w \<in> set (a_users st) \<or>
    (f_oauth_enabled f \<and> header q ''x-forwarded-email'' = Some (usr_email w) \<and>
     (\<exists>groups gs name. known_listing v st groups \<and>
        (gs = [] \<and> (name = [] \<or> py_lower (usr_email w) \<in> set (admin_users f) \<union> set (operator_users f)) \<or>
         get_user_groups groups name (Some (usr_email w)) = Some gs) \<and>
        (name = usr_email w \<or> header q ''x-forwarded-user'' = Some name) \<and>
        usr_role w = configured_role f (usr_email w) gs)) \<or>
    (\<not> f_oauth_enabled f \<and> usr_email w = dev_email \<and> usr_role w = ''admin'')"
proof (cases "if f_oauth_enabled f then get_user_from_oauth_headers q else None")
  case None
  obtain ou k s where key: "get_user_from_api_key (v_hash v) (v_now v) q st = ((ou, k), s)"
    by (metis prod.collapse)
  then have same: "a_users s = a_users st"
    by (auto simp: get_user_from_api_key_def Let_def store_key_def split: option.splits if_splits)
  have current: "get_current_user v f q st =
      (case ou of Some u \<Rightarrow> key_user_access v f q u k s | None \<Rightarrow> jwt_or_dev_user v f q s)"
    using None key by (auto simp: get_current_user_def split: option.split)
  show ?thesis
  proof (cases ou)
    case None
    then show ?thesis
      using assms jwt_or_dev_rows[of w v f q s] by (auto simp only: current same option.case)
  next
    case (Some u)
    have "a_users (snd (key_user_access v f q u k s)) = a_users s"
      by (simp add: key_user_access_def enforce_access_email split: sum.split)
    then show ?thesis
      using assms Some by (simp only: current same option.case simp_thms)
  qed
next
  case (Some p)
  obtain email name where p: "p = (email, name)" by (cases p)
  have on: "f_oauth_enabled f" and oauth: "get_user_from_oauth_headers q = Some (email, name)"
    using Some p by (auto split: if_splits)
  then have email: "header q ''x-forwarded-email'' = Some email"
    and name: "name = email \<or> header q ''x-forwarded-user'' = Some name"
    by (auto simp: get_user_from_oauth_headers_def split: option.splits if_splits)
  have "w \<in> set (a_users (snd (sso_login v f email name st)))"
    using assms on oauth by (simp add: get_current_user_def)
  from sso_rows[OF this] show ?thesis
  proof (elim disjE conjE exE)
    fix s
    assume w: "usr_email w = email"
      and role: "resolve_role (v_time v 1) (v_groups v 1) f email (Some name)
            (snd (enforce_access (v_time v 0) (v_groups v 0) f email (Some name) st)) = (Inr (usr_role w), s)"
    have "known_listing v st (a_groups_cache st)" by (simp add: known_listing_def)
    from resolve_role_configured[OF role enforce_known[OF this]] show ?thesis
      using on email name unfolding w by blast
  qed simp
qed

section \<open>A login\<close>

definition lab_config :: auth_config where
  "lab_config = \<lparr>f_oauth_enabled = True, f_admin_users = ''root@lab.example, Boss@lab.example'',
     f_allowed_users = [], f_operator_users = [], f_allowed_groups = ''students'',
     f_admin_groups = ''teachers'', f_operator_groups = []\<rparr>"

definition lab_key :: api_key where
  "lab_key = \<lparr>key_id = ''k1'', key_user_id = ''u1'', key_hash = ''terces'', key_is_active = True,
     key_last_used_at = None, key_expires_at = Some 2000, key_project_id = Some ''p1'',
     key_scopes = Some [''topology:read'']\<rparr>"

definition lab_accounts :: auth_state where
  "lab_accounts = \<lparr>a_users = [\<lparr>usr_id = ''u1'', usr_email = ''ann@lab.example'', usr_display_name = None,
       usr_role = ''user'', usr_auth_source = ''invited''\<rparr>],
     a_keys = [lab_key], a_groups_cache = JList [], a_groups_cache_time = 0\<rparr>"

definition lab_groups :: json where
  "lab_groups = JObj [(''items'', JList [JObj [(''metadata'', JObj [(''name'', JStr ''Teachers'')]),
     (''users'', JList [JStr ''ann@lab.example''])]])]"

definition lab_auth_env :: auth_env where
  "lab_auth_env = \<lparr>v_now = 1000, v_new_id = ''u2'', v_hash = (\<lambda>key. rev (drop 4 key)),
     v_decode_jwt = (\<lambda>t. None), v_time = (\<lambda>i. of_nat i), v_groups = (\<lambda>i. Listing lab_groups)\<rparr>"

definition key_request :: "string \<Rightarrow> string \<Rightarrow> api_request" where
  "key_request route pid = \<lparr>aq_headers = [(''authorization'', ''Bearer trk_secret'')], aq_route = route,
     aq_project_id = Some pid\<rparr>"

definition sso_request :: api_request where
  "sso_request = \<lparr>aq_headers = [(''x-forwarded-email'', ''ann@lab.example''), (''x-forwarded-user'', ''ann'')],
     aq_route = ''list_projects'', aq_project_id = None\<rparr>"

theorem scoped_key_confined_witness:
  "fst (get_current_user lab_auth_env lab_config (key_request ''get_project'' ''p1'') lab_accounts)
     = Inr (hd (a_users lab_accounts)) \<and>
   fst (get_current_user lab_auth_env lab_config (key_request ''delete_project'' ''p1'') lab_accounts)
     = Inl (HTTP 403 (scoped_refusal (key_request ''delete_project'' ''p1'')))"
proof -
  have facts: "get_user_from_oauth_headers (key_request r p) = None"
    "starts_with (authorization (key_request r p)) ''Bearer trk_''"
    "active_key lab_accounts (v_hash lab_auth_env (drop 7 (authorization (key_request r p)))) = Some lab_key"
    "\<not> expired (v_now lab_auth_env) lab_key" "is_scoped lab_key"
    "user_by_id lab_accounts (key_user_id lab_key) = Some (hd (a_users lab_accounts))" for r p
    by (simp_all add: key_request_def get_user_from_oauth_headers_def header_def authorization_def
        starts_with_def active_key_def lab_accounts_def lab_auth_env_def lab_key_def expired_def is_scoped_def
        user_by_id_def)
  have open_to_all: "allowed_users lab_config = []"
    by (simp add: allowed_users_def lab_config_def parse_csv_def py_strip_def)
  have may: "scoped_may lab_key (key_request ''get_project'' ''p1'')"
    "\<not> scoped_may lab_key (key_request ''delete_project'' ''p1'')"
    by (simp_all add: scoped_may_def lab_key_def key_request_def)
  show ?thesis
    using scoped_key_confined[OF disjI2, OF facts, of lab_config]
    by (simp add: open_to_all may)
qed

theorem roles_follow_configuration_witness:
  "\<exists>w. w \<in> set (a_users (snd (get_current_user lab_auth_env lab_config sso_request lab_accounts))) \<and>
     usr_role w = ''admin'' \<and>
     (w \<in> set (a_users lab_accounts) \<or> header sso_request ''x-forwarded-email'' = Some (usr_email w) \<or> usr_email w = dev_email)"
proof -
  define w where "w = \<lparr>usr_id = ''u1'', usr_email = ''ann@lab.example'', usr_display_name = Some ''ann'',
       usr_role = ''admin'', usr_auth_source = ''sso''\<rparr>"
  have "a_users (snd (get_current_user lab_auth_env lab_config sso_request lab_accounts)) = [w]"
    unfolding w_def by code_simp
  then have "w \<in> set (a_users (snd (get_current_user lab_auth_env lab_config sso_request lab_accounts)))"
    by simp
  from this roles_follow_configuration[OF this] show ?thesis
    by (intro exI[of _ w]) (auto simp: w_def)
qed

end
