(* ===== verification/Kubeconfig.thy ===== *)
theory Kubeconfig
  imports Cluster_Access
begin

text \<open>
  \<open>src/src/backend/app/services/ocp/kubeconfig_merge.py\<close>: validating harvested credentials,
  rewriting the server of a kubeconfig and merging the kubeconfigs of several clusters into one.
  YAML loading and dumping are the parameters \<open>safe_load\<close> (\<^term>\<open>None\<close> for a YAML error) and
  \<open>safe_dump\<close>; documents are the JSON values of \<open>Py_Json\<close>.
\<close>

section \<open>Validation\<close>

definition is_alnum :: "char \<Rightarrow> bool" where
  "is_alnum c = (is_digit c \<or> (of_char c :: nat) \<in> {65..90} \<or> (of_char c :: nat) \<in> {97..122})"

text \<open>\<open>^[A-Za-z0-9]+(-[A-Za-z0-9]+){3,}$\<close> on a stripped text.\<close>

definition is_valid_kubeadmin_password :: "string option \<Rightarrow> bool" where
  "is_valid_kubeadmin_password raw =
     (case raw of
        None \<Rightarrow> False
      | Some r \<Rightarrow>
          let text = py_strip r; parts = py_split (CHR ''-'') text
          in \<not> starts_with text ''cat:'' \<and> 4 \<le> length parts \<and>
             list_all (\<lambda>p. p \<noteq> [] \<and> list_all is_alnum p) parts)"

definition is_valid_kubeconfig :: "(string \<Rightarrow> json option) \<Rightarrow> string \<Rightarrow> bool" where
  "is_valid_kubeconfig safe_load text =
     (py_strip text \<noteq> [] \<and> \<not> starts_with (dropWhile is_blank text) ''cat:'' \<and>
      (case safe_load text of
         Some (JObj kvs) \<Rightarrow>
           (map_of kvs ''kind'' = Some (JStr ''Config'') \<or> (case map_of kvs ''clusters'' of Some v \<Rightarrow> truthy v | None \<Rightarrow> False)) \<and>
           (case map_of kvs ''contexts'' of Some v \<Rightarrow> truthy v | None \<Rightarrow> False)
       | _ \<Rightarrow> False))"

section \<open>Rewriting the server\<close>

text \<open>\<open>^\d+\.\d+\.\d+\.\d+$\<close>; the end may be before a last newline.\<close>

definition is_ipv4_text :: "string \<Rightarrow> bool" where
  "is_ipv4_text s =
     (let t = (if s \<noteq> [] \<and> last s = CHR 0x0A then butlast s else s); parts = py_split (CHR ''.'') t
      in length parts = 4 \<and> list_all (\<lambda>p. p \<noteq> [] \<and> list_all is_digit p) parts)"

definition set_cluster_tls_name :: "json \<Rightarrow> string \<Rightarrow> bool \<Rightarrow> string option \<Rightarrow> json option" where
  "set_cluster_tls_name cl orig_host preserve sni =
     (if opt_truthy sni then set_item cl ''tls-server-name'' (JStr (the sni))
      else if \<not> preserve then Some cl
      else do {
        existing \<leftarrow> stripped_field cl ''tls-server-name'';
        if existing \<noteq> [] then set_item cl ''tls-server-name'' (JStr existing)
        else if \<not> is_ipv4_text orig_host then set_item cl ''tls-server-name'' (JStr orig_host)
        else Some cl
      })"

fun without :: "string \<Rightarrow> json \<Rightarrow> json" where
  "without k (JObj kvs) = JObj (AList.delete k kvs)"
| "without k j = j"

record rewrite_opts =
  rw_port :: "int option"
  rw_preserve :: bool
  rw_sni :: "string option"
  rw_skip_ip :: bool
  rw_insecure :: bool

text \<open>The changed cluster, or \<^term>\<open>Some None\<close> when the entry is left alone.\<close>

definition rewrite_cluster_server :: "rewrite_opts \<Rightarrow> string \<Rightarrow> json \<Rightarrow> json option option" where
  "rewrite_cluster_server opts new_host cl =
     (if \<not> is_obj cl then Some None
      else do {
        server \<leftarrow> get_or cl ''server'' (JStr []);
        text \<leftarrow> py_str server;
        (case server_host_match text of
           None \<Rightarrow> Some None
         | Some (orig_host, orig_port) \<Rightarrow>
             if rw_skip_ip opts \<and> is_ipv4_text orig_host then Some None
             else do {
               let suffix = (case rw_port opts of Some p \<Rightarrow> CHR '':'' # int_str p | None \<Rightarrow> orig_port);
               cl \<leftarrow> set_item cl ''server'' (JStr (''https://'' @ new_host @ suffix));
               cl \<leftarrow> set_cluster_tls_name cl orig_host (rw_preserve opts) (rw_sni opts);
               cl \<leftarrow> (if rw_insecure opts then set_item cl ''insecure-skip-tls-verify'' (JBool True) else Some cl);
               Some (Some (if rw_insecure opts
                           then without ''certificate-authority'' (without ''certificate-authority-data'' cl) else cl))
             })
      })"

text \<open>One entry of the list: the new entry and whether it changed.\<close>

definition rewrite_entry :: "rewrite_opts \<Rightarrow> string \<Rightarrow> json \<Rightarrow> (json \<times> bool) option" where
  "rewrite_entry opts new_host entry =
     (case (if is_obj entry then get entry ''cluster'' else Some JNull) of
        None \<Rightarrow> None
      | Some cl \<Rightarrow> do {
          r \<leftarrow> rewrite_cluster_server opts new_host cl;
          (case r of
             None \<Rightarrow> Some (entry, False)
           | Some cl' \<Rightarrow> map_option (\<lambda>e. (e, True)) (set_item entry ''cluster'' cl'))
        })"

definition rewrite_kubeconfig_server ::
    "(string \<Rightarrow> json option) \<Rightarrow> (json \<Rightarrow> string) \<Rightarrow> rewrite_opts \<Rightarrow> string \<Rightarrow> string \<Rightarrow> string option" where
  "rewrite_kubeconfig_server safe_load safe_dump opts kc new_host =
     (if new_host = [] \<or> py_strip kc = [] then Some kc
      else case safe_load kc of
        None \<Rightarrow> Some kc
      | Some doc \<Rightarrow>
          if \<not> is_obj doc then Some kc
          else do {
            cs \<leftarrow> get_or doc ''clusters'' (JList []);
            es \<leftarrow> iter (py_or cs (JList []));
            rs \<leftarrow> omap (rewrite_entry opts new_host) es;
            if \<not> list_ex snd rs then Some kc
            else map_option safe_dump (set_item doc ''clusters'' (JList (map fst rs)))
          })"

definition rewrite_kubeconfig_server_to_host ::
    "(string \<Rightarrow> json option) \<Rightarrow> (json \<Rightarrow> string) \<Rightarrow> string \<Rightarrow> string \<Rightarrow> string option" where
  "rewrite_kubeconfig_server_to_host safe_load safe_dump kc api_host =
     rewrite_kubeconfig_server safe_load safe_dump
       \<lparr>rw_port = None, rw_preserve = True, rw_sni = None, rw_skip_ip = True, rw_insecure = False\<rparr> kc api_host"

definition localhost_kubeconfig ::
    "(string \<Rightarrow> json option) \<Rightarrow> (json \<Rightarrow> string) \<Rightarrow> string \<Rightarrow> int \<Rightarrow> string \<Rightarrow> bool \<Rightarrow> string option" where
  "localhost_kubeconfig safe_load safe_dump kc local_port sni force_insecure =
     rewrite_kubeconfig_server safe_load safe_dump
       \<lparr>rw_port = Some local_port, rw_preserve = True, rw_sni = (if sni = [] then None else Some sni),
        rw_skip_ip = False, rw_insecure = force_insecure\<rparr> kc ''127.0.0.1''"

section \<open>Context names\<close>

definition name_char :: "char \<Rightarrow> bool" where
  "name_char c = (is_digit c \<or> (of_char c :: nat) \<in> {97..122} \<or> c = CHR ''.'' \<or> c = CHR ''_'' \<or> c = CHR ''-'')"

text \<open>\<open>re.sub(r"[^a-z0-9._-]+", "-", s)\<close>.\<close>

fun slug_runs :: "bool \<Rightarrow> string \<Rightarrow> string" where
  "slug_runs inside [] = []"
| "slug_runs inside (c # cs) =
     (if name_char c then c # slug_runs False cs
      else if inside then slug_runs True cs
      else CHR ''-'' # slug_runs True cs)"

definition strip_dashes :: "string \<Rightarrow> string" where
  "strip_dashes s = rev (dropWhile (\<lambda>c. c = CHR ''-'') (rev (dropWhile (\<lambda>c. c = CHR ''-'') s)))"

definition sanitize_context_name :: "string \<Rightarrow> string" where
  "sanitize_context_name name =
     (let slug = strip_dashes (slug_runs False (py_lower (py_strip name)))
      in if slug \<noteq> [] then slug else ''cluster'')"

definition numbered :: "string \<Rightarrow> nat \<Rightarrow> string" where
  "numbered name i = name @ ''-'' @ nat_str i"

lemma numbered_inject [simp]: "numbered name i = numbered name j \<longleftrightarrow> i = j"
  by (simp add: numbered_def)

text \<open>The counter ends because the names seen are finitely many.\<close>

function next_number :: "string list \<Rightarrow> string \<Rightarrow> nat \<Rightarrow> nat" where
  "next_number seen name i = (if numbered name i \<in> set seen then next_number seen name (Suc i) else i)"
  by auto

lemma numbered_finite: "finite {j. i \<le> j \<and> numbered name j \<in> set seen}"
proof (rule finite_imageD)
  show "finite (numbered name ` {j. i \<le> j \<and> numbered name j \<in> set seen})"
    by (rule finite_subset[of _ "set seen"]) auto
qed (simp add: inj_on_def)

termination next_number
proof (relation "measure (\<lambda>(seen, name, i). card {j. i \<le> j \<and> numbered name j \<in> set seen})")
  fix seen name i
  assume "numbered name i \<in> set seen"
  then have "i \<in> {j. i \<le> j \<and> numbered name j \<in> set seen}" "i \<notin> {j. Suc i \<le> j \<and> numbered name j \<in> set seen}" by auto
  moreover have "{j. Suc i \<le> j \<and> numbered name j \<in> set seen} \<subseteq> {j. i \<le> j \<and> numbered name j \<in> set seen}" by auto
  ultimately have "{j. Suc i \<le> j \<and> numbered name j \<in> set seen} \<subset> {j. i \<le> j \<and> numbered name j \<in> set seen}" by blast
  then show "((seen, name, Suc i), seen, name, i) \<in> measure (\<lambda>(seen, name, i). card {j. i \<le> j \<and> numbered name j \<in> set seen})"
    using numbered_finite[of i name seen] by (simp add: psubset_card_mono)
qed simp

declare next_number.simps [simp del]

definition unique_context_name :: "string \<Rightarrow> string list \<Rightarrow> string" where
  "unique_context_name base seen =
     (let name = sanitize_context_name base
      in if name \<notin> set seen then name else numbered name (next_number seen name 2))"

section \<open>Merging\<close>

record merged =
  mg_clusters :: "json list"
  mg_contexts :: "json list"
  mg_users :: "json list"
  mg_current :: string

definition has_name :: "json \<Rightarrow> json \<Rightarrow> bool option" where
  "has_name v c = map_option (\<lambda>n. n = v) (get c ''name'')"

definition pick_context :: "json \<Rightarrow> json option option" where
  "pick_context cfg = do {
     cv \<leftarrow> get_or_else cfg ''contexts'' (JList []);
     contexts \<leftarrow> iter cv;
     (case contexts of
        [] \<Rightarrow> Some None
      | first # _ \<Rightarrow> do {
          cur \<leftarrow> get cfg ''current-context'';
          found \<leftarrow> ofind (has_name cur) contexts;
          Some (Some (case found of Some c \<Rightarrow> py_or c first | None \<Rightarrow> first))
        })
   }"

definition source_entry :: "json \<Rightarrow> string \<Rightarrow> json \<Rightarrow> string \<Rightarrow> json option option" where
  "source_entry cfg k body field = do {
     l \<leftarrow> get_or_else cfg k (JList []);
     es \<leftarrow> iter l;
     if es = [] then Some None else do { v \<leftarrow> get body field; ofind (has_name v) es }
   }"

definition source_cluster_user :: "json \<Rightarrow> json \<Rightarrow> (json option \<times> json option) option" where
  "source_cluster_user cfg body = do {
     cluster_entry \<leftarrow> source_entry cfg ''clusters'' body ''cluster'';
     user_entry \<leftarrow> source_entry cfg ''users'' body ''user'';
     Some (cluster_entry, user_entry)
   }"

definition context_body :: "string \<Rightarrow> json \<Rightarrow> (string \<times> json) list" where
  "context_body name ns =
     [(''cluster'', JStr name), (''user'', JStr name)] @ (if truthy ns then [(''namespace'', ns)] else [])"

definition append_merged_context :: "merged \<Rightarrow> string \<Rightarrow> json \<Rightarrow> json \<Rightarrow> json \<Rightarrow> merged option" where
  "append_merged_context mg name cluster_entry user_entry body = do {
     cl \<leftarrow> get_or cluster_entry ''cluster'' (JObj []);
     us \<leftarrow> get_or user_entry ''user'' (JObj []);
     ns \<leftarrow> get body ''namespace'';
     Some (mg\<lparr>mg_clusters := mg_clusters mg @ [JObj [(''name'', JStr name), (''cluster'', cl)]],
              mg_users := mg_users mg @ [JObj [(''name'', JStr name), (''user'', us)]],
              mg_contexts := mg_contexts mg @ [JObj [(''name'', JStr name), (''context'', JObj (context_body name ns))]],
              mg_current := (if mg_current mg = [] then name else mg_current mg)\<rparr>)
   }"

definition merge_document :: "string \<Rightarrow> json \<Rightarrow> merged \<times> string list \<Rightarrow> (merged \<times> string list) option" where
  "merge_document display cfg st = do {
     ctx \<leftarrow> pick_context cfg;
     (case ctx of
        None \<Rightarrow> Some st
      | Some c \<Rightarrow>
          if \<not> truthy c then Some st
          else do {
            bv \<leftarrow> get_or c ''context'' (JObj []);
            let body = py_or bv (JObj []);
            entries \<leftarrow> source_cluster_user cfg body;
            (case entries of
               (Some ce, Some ue) \<Rightarrow>
                 if truthy ce \<and> truthy ue
                 then let name = unique_context_name display (snd st)
                      in map_option (\<lambda>mg. (mg, snd st @ [name])) (append_merged_context (fst st) name ce ue body)
                 else Some st
             | _ \<Rightarrow> Some st)
          })
   }"

definition merge_one_kubeconfig ::
    "(string \<Rightarrow> json option) \<Rightarrow> merged \<times> string list \<Rightarrow> string \<times> string \<Rightarrow> (merged \<times> string list) option" where
  "merge_one_kubeconfig safe_load st source =
     (case source of (display, raw) \<Rightarrow>
        if raw = [] then Some st
        else case safe_load raw of
          None \<Rightarrow> Some st
        | Some cfg \<Rightarrow> if \<not> is_obj cfg then Some st else merge_document display cfg st)"

definition no_contexts :: merged where
  "no_contexts = \<lparr>mg_clusters = [], mg_contexts = [], mg_users = [], mg_current = []\<rparr>"

definition merged_document :: "merged \<Rightarrow> json" where
  "merged_document mg = JObj [(''apiVersion'', JStr ''v1''), (''kind'', JStr ''Config''),
     (''clusters'', JList (mg_clusters mg)), (''contexts'', JList (mg_contexts mg)), (''users'', JList (mg_users mg)),
     (''current-context'', JStr (mg_current mg))]"

definition merge_loop :: "(string \<Rightarrow> json option) \<Rightarrow> (string \<times> string) list \<Rightarrow> (merged \<times> string list) option" where
  "merge_loop safe_load sources = ofold (merge_one_kubeconfig safe_load) (no_contexts, []) sources"

definition merge_kubeconfigs ::
    "(string \<Rightarrow> json option) \<Rightarrow> (json \<Rightarrow> string) \<Rightarrow> (string \<times> string) list \<Rightarrow> string option" where
  "merge_kubeconfigs safe_load safe_dump sources =
     map_option (\<lambda>st. safe_dump (merged_document (fst st))) (merge_loop safe_load sources)"

end
