(* ===== verification/Kubeconfig_Laws.thy ===== *)
theory Kubeconfig_Laws
  imports Kubeconfig
begin

text \<open>
  A merged kubeconfig has one context per usable source, under distinct names, and every context
  leads to the cluster and the user of its own source.
\<close>

section \<open>Names\<close>

lemma next_number_fresh: "numbered name (next_number seen name i) \<notin> set seen"
proof (induction seen name i rule: next_number.induct)
  case (1 seen name i)
  then show ?case by (subst next_number.simps) auto
qed

lemma unique_context_name_fresh: "unique_context_name base seen \<notin> set seen"
  by (simp add: unique_context_name_def Let_def next_number_fresh)

lemma slug_chars: "c \<in> set (slug_runs b s) \<Longrightarrow> name_char c"
  by (induction b s rule: slug_runs.induct) (auto simp: name_char_def split: if_splits)

lemma strip_dashes_set: "set (strip_dashes s) \<subseteq> set s"
  by (auto simp: strip_dashes_def dest!: set_dropWhileD)

lemma sanitized: "sanitize_context_name b \<noteq> [] \<and> list_all name_char (sanitize_context_name b)"
proof -
  have "list_all name_char (strip_dashes (slug_runs False s))" for s
    using strip_dashes_set slug_chars unfolding list_all_iff by blast
  moreover have "list_all name_char ''cluster''" by (simp add: name_char_def is_digit_def)
  ultimately show ?thesis by (simp add: sanitize_context_name_def Let_def)
qed

lemma name_char_digits: "list_all name_char (nat_str i)"
  using nat_str_digits[of i] by (auto simp: list_all_iff name_char_def)

lemma unique_context_name_ok:
  "unique_context_name b seen \<noteq> [] \<and> list_all name_char (unique_context_name b seen)"
proof -
  have "name_char (CHR ''-'')" by (simp add: name_char_def)
  then show ?thesis
    using sanitized[of b] name_char_digits by (simp add: unique_context_name_def Let_def numbered_def)
qed

section \<open>The merged entries\<close>

definition named_entry :: "string \<Rightarrow> string \<Rightarrow> json \<Rightarrow> bool" where
  "named_entry k n j \<longleftrightarrow> (\<exists>v. j = JObj [(''name'', JStr n), (k, v)])"

definition own_context :: "string \<Rightarrow> json \<Rightarrow> bool" where
  "own_context n j \<longleftrightarrow> (\<exists>ns. j = JObj [(''name'', JStr n), (''context'', JObj (context_body n ns))])"

definition merge_inv :: "merged \<times> string list \<Rightarrow> bool" where
  "merge_inv st \<longleftrightarrow> (case st of (mg, names) \<Rightarrow>
     distinct names \<and> (\<forall>n \<in> set names. n \<noteq> [] \<and> list_all name_char n) \<and>
     list_all2 (named_entry ''cluster'') names (mg_clusters mg) \<and>
     list_all2 (named_entry ''user'') names (mg_users mg) \<and>
     list_all2 own_context names (mg_contexts mg) \<and>
     mg_current mg = (case names of [] \<Rightarrow> [] | n # _ \<Rightarrow> n))"

lemma append_inv:
  assumes "merge_inv (mg, names)" "append_merged_context mg (unique_context_name b names) ce ue body = Some mg'"
  shows "merge_inv (mg', names @ [unique_context_name b names])"
proof -
  let ?n = "unique_context_name b names"
  obtain cl us ns where mg': "mg' = mg\<lparr>mg_clusters := mg_clusters mg @ [JObj [(''name'', JStr ?n), (''cluster'', cl)]],
              mg_users := mg_users mg @ [JObj [(''name'', JStr ?n), (''user'', us)]],
              mg_contexts := mg_contexts mg @ [JObj [(''name'', JStr ?n), (''context'', JObj (context_body ?n ns))]],
              mg_current := (if mg_current mg = [] then ?n else mg_current mg)\<rparr>"
    using assms(2) unfolding append_merged_context_def bind_eq_Some_conv by blast
  have "mg_current mg' = (case names @ [?n] of [] \<Rightarrow> [] | n # _ \<Rightarrow> n)"
    using assms(1) by (auto simp: mg' merge_inv_def split: list.splits)
  then show ?thesis
    using assms(1) unique_context_name_fresh[of b names] unique_context_name_ok[of b names]
    by (auto simp: mg' merge_inv_def named_entry_def own_context_def intro!: list_all2_appendI)
qed

lemma merge_document_inv:
  assumes "merge_inv st" "merge_document display cfg st = Some st'"
  shows "merge_inv st' \<and> length (snd st') \<le> Suc (length (snd st))"
proof -
  obtain mg names where st: "st = (mg, names)" by fastforce
  let ?n = "unique_context_name display names"
  have "st' = st \<or> (\<exists>ce ue body mg'. append_merged_context mg ?n ce ue body = Some mg' \<and> st' = (mg', names @ [?n]))"
  proof -
    obtain oc where oc: "pick_context cfg = Some oc"
      using assms(2) by (auto simp: merge_document_def bind_eq_Some_conv)
    show ?thesis
    proof (cases "\<exists>c. oc = Some c \<and> truthy c")
      case False
      then show ?thesis using assms(2) oc by (auto simp: merge_document_def split: option.splits)
    next
      case True
      then obtain c where c: "oc = Some c" "truthy c" by blast
      obtain bv where bv: "get_or c ''context'' (JObj []) = Some bv"
        using assms(2) oc c by (auto simp: merge_document_def bind_eq_Some_conv simp del: get_or.simps)
      obtain ce ue where e: "source_cluster_user cfg (py_or bv (JObj [])) = Some (ce, ue)"
        using assms(2) oc c bv by (auto simp: merge_document_def Let_def bind_eq_Some_conv simp del: get_or.simps)
      show ?thesis
        using assms(2) oc c bv e
        by (auto simp: merge_document_def Let_def st simp del: get_or.simps split: option.splits if_splits)
    qed
  qed
  then show ?thesis using assms(1) append_inv by (auto simp: st)
qed

lemma merge_one_inv:
  assumes "merge_inv st" "merge_one_kubeconfig safe_load st source = Some st'"
  shows "merge_inv st' \<and> length (snd st') \<le> Suc (length (snd st))"
  using assms merge_document_inv[OF assms(1)]
  by (auto simp: merge_one_kubeconfig_def split: prod.splits option.splits if_splits)

lemma merge_fold_inv:
  assumes "ofold (merge_one_kubeconfig safe_load) st sources = Some st'" "merge_inv st"
  shows "merge_inv st' \<and> length (snd st') \<le> length (snd st) + length sources"
  using assms
proof (induction sources arbitrary: st)
  case (Cons x xs)
  then obtain u where u: "merge_one_kubeconfig safe_load st x = Some u" "ofold (merge_one_kubeconfig safe_load) u xs = Some st'"
    by (auto simp: bind_eq_Some_conv)
  show ?case using Cons.IH[OF u(2)] merge_one_inv[OF Cons.prems(2) u(1)] by simp
qed simp

section \<open>Every context finds its own entries\<close>

lemma named_entries_find:
  assumes "list_all2 (named_entry k) names es" "distinct names" "i < length names"
  shows "ofind (has_name (JStr (names ! i))) es = Some (Some (es ! i))"
  using assms
proof (induction arbitrary: i rule: list_all2_induct)
  case (Cons n ns e es)
  then show ?case
    by (cases i) (auto simp: named_entry_def has_name_def)
qed simp

definition resolves :: "merged \<Rightarrow> json \<Rightarrow> json option \<times> json option \<Rightarrow> bool" where
  "resolves mg ctx entries \<longleftrightarrow>
     (\<exists>body. get ctx ''context'' = Some body \<and> source_cluster_user (merged_document mg) body = Some entries)"


section \<open>Two clusters of one name\<close>

definition sample_kubeconfig :: "string \<Rightarrow> json" where
  "sample_kubeconfig server = JObj [(''contexts'', JList [JObj [(''name'', JStr ''admin''),
       (''context'', JObj [(''cluster'', JStr ''c''), (''user'', JStr ''u'')])]]),
     (''clusters'', JList [JObj [(''name'', JStr ''c''), (''cluster'', JObj [(''server'', JStr server)])]]),
     (''users'', JList [JObj [(''name'', JStr ''u''), (''user'', JObj [(''token'', JStr server)])]])]"

definition sample_load :: "string \<Rightarrow> json option" where
  "sample_load t = (if t = ''bad'' then None else Some (sample_kubeconfig t))"


end
