(* ===== verification/Managed_Groups.thy ===== *)
theory Managed_Groups
  imports Auth "HOL-Library.List_Lexorder" "HOL-Library.Char_ord"
begin

text \<open>
  \<open>src/src/backend/app/services/group_access.py\<close> and the handlers of \<open>src/src/backend/app/api/groups.py\<close>
  and \<open>src/src/backend/app/api/users.py\<close> that change who manages a group. Handlers of different
  requests run at the same time, each in a transaction: a step is what a transaction does between
  two waits, row locks are held until it ends, and a query sees what was committed before it.
\<close>

section \<open>Rows\<close>

type_synonym assignment = "string \<times> string"

text \<open>An assignment names the group and the user.\<close>

datatype tx =
    Tx_none
  | Removing string string
  | Remove_checked string string
  | Adding bool string string string
  | Adding_locked string string
  | Deleting string
  | Deleting_groups string "string list" "string list"
  | Delete_checked string "string list"

record groups_db =
  gd_groups :: "string list"
  gd_users :: "string list"
  gd_managers :: "assignment list"
  gd_members :: "assignment list"
  gd_group_lock :: "string \<Rightarrow> nat option"
  gd_user_lock :: "string \<Rightarrow> nat option"
  gd_tx :: "nat \<Rightarrow> tx"
  gd_retired :: "string list"

text \<open>\<open>gd_retired\<close> records the ids of deleted groups: a new group gets a new id.\<close>

definition start_groups :: "string list \<Rightarrow> groups_db" where
  "start_groups users = \<lparr>gd_groups = [], gd_users = users, gd_managers = [], gd_members = [],
     gd_group_lock = (\<lambda>_. None), gd_user_lock = (\<lambda>_. None), gd_tx = (\<lambda>_. Tx_none), gd_retired = []\<rparr>"

section \<open>Policy\<close>

definition billing_owner_ids :: "groups_db \<Rightarrow> user_row \<Rightarrow> string list option" where
  "billing_owner_ids db u =
     (if usr_role u = ''admin'' then None
      else let managed = map fst (filter (\<lambda>a. snd a = usr_id u) (gd_managers db))
           in Some (remdups (usr_id u # map snd (filter (\<lambda>a. fst a \<in> set managed) (gd_members db)))))"

definition require_billing_owner :: "groups_db \<Rightarrow> user_row \<Rightarrow> string option \<Rightarrow> unit outcome" where
  "require_billing_owner db u owner =
     (case billing_owner_ids db u of
        None \<Rightarrow> Inr ()
      | Some scope \<Rightarrow> if owner \<in> Some ` set scope then Inr () else Inl (HTTP 403 ''Access denied''))"

definition may_manage :: "groups_db \<Rightarrow> bool \<Rightarrow> string \<Rightarrow> string \<Rightarrow> bool" where
  "may_manage db admin caller g = (g \<in> set (gd_groups db) \<and> (admin \<or> (g, caller) \<in> set (gd_managers db)))"

definition manager_count :: "assignment list \<Rightarrow> string \<Rightarrow> nat" where
  "manager_count ms g = length (filter (\<lambda>a. fst a = g) ms)"

text \<open>Whether \<open>prevent_last_manager_removal\<close> passes.\<close>

definition removal_allowed :: "assignment list \<Rightarrow> string \<Rightarrow> string \<Rightarrow> bool" where
  "removal_allowed ms g u = ((g, u) \<notin> set ms \<or> \<not> manager_count ms g \<le> 1)"

section \<open>Transactions\<close>

definition ends :: "nat \<Rightarrow> groups_db \<Rightarrow> groups_db" where
  "ends c db = db\<lparr>gd_tx := (gd_tx db)(c := Tx_none),
     gd_group_lock := (\<lambda>g. if gd_group_lock db g = Some c then None else gd_group_lock db g),
     gd_user_lock := (\<lambda>u. if gd_user_lock db u = Some c then None else gd_user_lock db u)\<rparr>"

definition phase_of :: "nat \<Rightarrow> tx \<Rightarrow> groups_db \<Rightarrow> groups_db" where
  "phase_of c t db = db\<lparr>gd_tx := (gd_tx db)(c := t)\<rparr>"

definition lock_group :: "nat \<Rightarrow> string \<Rightarrow> groups_db \<Rightarrow> groups_db" where
  "lock_group c g db = db\<lparr>gd_group_lock := (gd_group_lock db)(g := Some c)\<rparr>"

definition lock_user :: "nat \<Rightarrow> string \<Rightarrow> groups_db \<Rightarrow> groups_db" where
  "lock_user c u db = db\<lparr>gd_user_lock := (gd_user_lock db)(u := Some c)\<rparr>"

definition group_free :: "nat \<Rightarrow> string \<Rightarrow> groups_db \<Rightarrow> bool" where
  "group_free c g db = (gd_group_lock db g = None \<or> gd_group_lock db g = Some c)"

datatype group_event =
    Create_group string
  | Delete_group nat string
  | Add_member string string
  | Remove_member nat string string
  | Remove_manager nat bool string string string
  | Remove_check nat
  | Remove_commit nat
  | Add_manager nat bool string string string
  | Add_lock nat
  | Add_commit nat
  | Delete_user nat string
  | Delete_read nat
  | Delete_lock nat
  | Delete_check nat
  | Delete_commit nat

text \<open>The first step of a handler waits for its first lock and checks the right to manage the group
  (\<open>require_managed_group\<close>); a refusal ends the transaction. \<open>Remove_manager c admin caller g u\<close> and
  \<open>Add_manager c admin caller g u\<close> name the transaction, the caller, the group and the user.\<close>

fun group_step :: "group_event \<Rightarrow> groups_db \<Rightarrow> groups_db option" where
  "group_step (Create_group g) db =
     (if g \<in> set (gd_groups db) \<union> set (gd_retired db) then None
      else Some (db\<lparr>gd_groups := g # gd_groups db\<rparr>))"
| "group_step (Delete_group c g) db =
     (if gd_tx db c = Tx_none \<and> gd_group_lock db g = None \<and> g \<in> set (gd_groups db)
      then Some (db\<lparr>gd_members := filter (\<lambda>a. fst a \<noteq> g) (gd_members db),
                    gd_managers := filter (\<lambda>a. fst a \<noteq> g) (gd_managers db),
                    gd_groups := removeAll g (gd_groups db), gd_retired := g # gd_retired db\<rparr>)
      else None)"
| "group_step (Add_member g u) db =
     (if g \<in> set (gd_groups db) \<and> u \<in> set (gd_users db) \<and> gd_group_lock db g = None \<and> gd_user_lock db u = None
      then Some (if (g, u) \<in> set (gd_members db) then db else db\<lparr>gd_members := (g, u) # gd_members db\<rparr>)
      else None)"
| "group_step (Remove_member c g u) db =
     (if g \<in> set (gd_groups db) \<and> gd_group_lock db g = None
      then Some (db\<lparr>gd_members := removeAll (g, u) (gd_members db)\<rparr>) else None)"
| "group_step (Remove_manager c admin caller g u) db =
     (if gd_tx db c = Tx_none \<and> gd_group_lock db g = None
      then Some (if may_manage db admin caller g then phase_of c (Removing g u) (lock_group c g db) else db)
      else None)"
| "group_step (Remove_check c) db =
     (case gd_tx db c of
        Removing g u \<Rightarrow>
          Some (if removal_allowed (gd_managers db) g u then phase_of c (Remove_checked g u) db else ends c db)
      | _ \<Rightarrow> None)"
| "group_step (Remove_commit c) db =
     (case gd_tx db c of
        Remove_checked g u \<Rightarrow> Some (ends c (db\<lparr>gd_managers := removeAll (g, u) (gd_managers db)\<rparr>))
      | _ \<Rightarrow> None)"
| "group_step (Add_manager c admin caller g u) db =
     (if gd_tx db c = Tx_none \<and> gd_user_lock db u = None
      then Some (if may_manage db admin caller g \<and> u \<in> set (gd_users db)
                 then phase_of c (Adding admin caller g u) (lock_user c u db) else db)
      else None)"
| "group_step (Add_lock c) db =
     (case gd_tx db c of
        Adding admin caller g u \<Rightarrow>
          if gd_group_lock db g \<noteq> None then None
          else Some (if may_manage db admin caller g then phase_of c (Adding_locked g u) (lock_group c g db) else ends c db)
      | _ \<Rightarrow> None)"
| "group_step (Add_commit c) db =
     (case gd_tx db c of
        Adding_locked g u \<Rightarrow>
          Some (ends c (if (g, u) \<in> set (gd_managers db) then db else db\<lparr>gd_managers := (g, u) # gd_managers db\<rparr>))
      | _ \<Rightarrow> None)"
| "group_step (Delete_user c u) db =
     (if gd_tx db c = Tx_none \<and> gd_user_lock db u = None
      then Some (if u \<in> set (gd_users db) then phase_of c (Deleting u) (lock_user c u db) else db)
      else None)"
| "group_step (Delete_read c) db =
     (case gd_tx db c of
        Deleting u \<Rightarrow>
          Some (phase_of c (Deleting_groups u (sort (map fst (filter (\<lambda>a. snd a = u) (gd_managers db)))) []) db)
      | _ \<Rightarrow> None)"
| "group_step (Delete_lock c) db =
     (case gd_tx db c of
        Deleting_groups u (g # todo) locked \<Rightarrow>
          if g \<notin> set (gd_groups db) then Some (phase_of c (Deleting_groups u todo locked) db)
          else if group_free c g db then Some (phase_of c (Deleting_groups u todo (g # locked)) (lock_group c g db))
          else None
      | _ \<Rightarrow> None)"
| "group_step (Delete_check c) db =
     (case gd_tx db c of
        Deleting_groups u [] locked \<Rightarrow>
          Some (if list_all (\<lambda>g. removal_allowed (gd_managers db) g u) locked
                then phase_of c (Delete_checked u locked) db else ends c db)
      | _ \<Rightarrow> None)"
| "group_step (Delete_commit c) db =
     (case gd_tx db c of
        Delete_checked u locked \<Rightarrow>
          Some (ends c (db\<lparr>gd_members := filter (\<lambda>a. snd a \<noteq> u) (gd_members db),
                           gd_managers := filter (\<lambda>a. snd a \<noteq> u) (gd_managers db),
                           gd_users := removeAll u (gd_users db)\<rparr>))
      | _ \<Rightarrow> None)"

end
