(* ===== verification/Managed_Groups_Laws.thy ===== *)
theory Managed_Groups_Laws
  imports Managed_Groups
begin

text \<open>
  A group that has a manager never loses its last one, however the handlers interleave; and who
  may see whose bills.
\<close>

section \<open>What a transaction may rely on\<close>

definition tx_ok :: "groups_db \<Rightarrow> nat \<Rightarrow> bool" where
  "tx_ok db c \<longleftrightarrow> (case gd_tx db c of
     Tx_none \<Rightarrow> True
   | Removing g u \<Rightarrow> gd_group_lock db g = Some c
   | Remove_checked g u \<Rightarrow> gd_group_lock db g = Some c \<and> removal_allowed (gd_managers db) g u
   | Adding admin caller g u \<Rightarrow> gd_user_lock db u = Some c
   | Adding_locked g u \<Rightarrow> gd_user_lock db u = Some c \<and> gd_group_lock db g = Some c
   | Deleting u \<Rightarrow> gd_user_lock db u = Some c
   | Deleting_groups u todo locked \<Rightarrow>
       gd_user_lock db u = Some c \<and> (\<forall>g \<in> set locked. gd_group_lock db g = Some c) \<and>
       (\<forall>g. (g, u) \<in> set (gd_managers db) \<longrightarrow> g \<in> set todo \<union> set locked)
   | Delete_checked u locked \<Rightarrow>
       gd_user_lock db u = Some c \<and> (\<forall>g \<in> set locked. gd_group_lock db g = Some c) \<and>
       (\<forall>g. (g, u) \<in> set (gd_managers db) \<longrightarrow> g \<in> set locked) \<and>
       (\<forall>g \<in> set locked. removal_allowed (gd_managers db) g u))"

definition groups_inv :: "groups_db \<Rightarrow> bool" where
  "groups_inv db \<longleftrightarrow> (\<forall>c. tx_ok db c) \<and> distinct (gd_managers db) \<and>
     fst ` set (gd_managers db) \<subseteq> set (gd_groups db) \<and> set (gd_groups db) \<inter> set (gd_retired db) = {} \<and>
     (\<forall>g c. gd_group_lock db g = Some c \<longrightarrow> g \<in> set (gd_groups db))"

text \<open>What another transaction leaves to the transaction \<open>c\<close>: its phase, its locks, the managers
  of the groups it has locked, and no new assignment of a user it has locked.\<close>

definition leaves :: "nat \<Rightarrow> groups_db \<Rightarrow> groups_db \<Rightarrow> bool" where
  "leaves c db db' \<longleftrightarrow> gd_tx db' c = gd_tx db c \<and>
     (\<forall>g. gd_group_lock db g = Some c \<longrightarrow> gd_group_lock db' g = Some c \<and>
        filter (\<lambda>a. fst a = g) (gd_managers db') = filter (\<lambda>a. fst a = g) (gd_managers db)) \<and>
     (\<forall>u. gd_user_lock db u = Some c \<longrightarrow> gd_user_lock db' u = Some c \<and>
        (\<forall>g. (g, u) \<in> set (gd_managers db') \<longrightarrow> (g, u) \<in> set (gd_managers db)))"

lemma removal_allowed_cong:
  assumes "filter (\<lambda>a. fst a = g) ms' = filter (\<lambda>a. fst a = g) ms"
  shows "removal_allowed ms' g u = removal_allowed ms g u"
proof -
  have "(g, u) \<in> set ms' \<longleftrightarrow> (g, u) \<in> set ms"
  proof -
    have "(g, u) \<in> set (filter (\<lambda>a. fst a = g) ms') \<longleftrightarrow> (g, u) \<in> set (filter (\<lambda>a. fst a = g) ms)"
      unfolding assms ..
    then show ?thesis by simp
  qed
  then show ?thesis unfolding removal_allowed_def manager_count_def assms by simp
qed

lemma tx_ok_left:
  assumes "tx_ok db c" "leaves c db db'"
  shows "tx_ok db' c"
proof -
  note left = assms(2)[unfolded leaves_def]
  have tx: "gd_tx db' c = gd_tx db c" using left by blast
  have gl: "gd_group_lock db g = Some c \<Longrightarrow> gd_group_lock db' g = Some c" for g using left by blast
  have ul: "gd_user_lock db u = Some c \<Longrightarrow> gd_user_lock db' u = Some c" for u using left by blast
  have ra: "removal_allowed (gd_managers db') g u = removal_allowed (gd_managers db) g u"
    if "gd_group_lock db g = Some c" for g u
    by (rule removal_allowed_cong) (use left that in blast)
  have as: "gd_user_lock db u = Some c \<Longrightarrow> (g, u) \<in> set (gd_managers db') \<Longrightarrow> (g, u) \<in> set (gd_managers db)" for g u
    using left by blast
  show ?thesis
  proof (cases "gd_tx db c")
    case (Deleting_groups u todo locked)
    then show ?thesis using assms(1) gl ul as unfolding tx_ok_def tx by auto
  next
    case (Delete_checked u locked)
    then show ?thesis using assms(1) gl ul ra as unfolding tx_ok_def tx by auto
  qed (use assms(1) gl ul ra in \<open>auto simp: tx_ok_def tx\<close>)
qed

lemma leaves_same:
  assumes "gd_managers db' = gd_managers db" "gd_tx db' d = gd_tx db d"
    and "\<And>g. gd_group_lock db g = Some d \<Longrightarrow> gd_group_lock db' g = Some d"
    and "\<And>u. gd_user_lock db u = Some d \<Longrightarrow> gd_user_lock db' u = Some d"
  shows "leaves d db db'"
  using assms by (simp add: leaves_def)

lemma leaves_ends: "c \<noteq> d \<Longrightarrow> leaves d db db' \<Longrightarrow> leaves d db (ends c db')"
  by (auto simp: leaves_def ends_def)

lemma tx_ok_ended [simp]: "tx_ok (ends c db) c"
  by (simp add: tx_ok_def ends_def)

lemma ends_fields [simp]:
  "gd_managers (ends c db) = gd_managers db" "gd_groups (ends c db) = gd_groups db"
  "gd_retired (ends c db) = gd_retired db" "gd_tx (ends c db) = (gd_tx db)(c := Tx_none)"
  "gd_group_lock (ends c db) g = Some d \<longleftrightarrow> gd_group_lock db g = Some d \<and> d \<noteq> c"
  "gd_user_lock (ends c db) u = Some d \<longleftrightarrow> gd_user_lock db u = Some d \<and> d \<noteq> c"
  by (auto simp: ends_def)

text \<open>A step of the transaction \<open>c\<close> keeps the invariant when it leaves the others alone.\<close>

lemma groups_invI:
  assumes "groups_inv db" "\<And>d. d \<noteq> c \<Longrightarrow> leaves d db db'" "tx_ok db' c"
    and "distinct (gd_managers db')" "fst ` set (gd_managers db') \<subseteq> set (gd_groups db')"
    and "set (gd_groups db') \<inter> set (gd_retired db') = {}"
    and "\<And>g d. gd_group_lock db' g = Some d \<Longrightarrow> g \<in> set (gd_groups db')"
  shows "groups_inv db'"
  using assms tx_ok_left unfolding groups_inv_def by metis

section \<open>Every step keeps the invariant\<close>

lemma inv_ends: "groups_inv db \<Longrightarrow> groups_inv (ends c db)"
  by (rule groups_invI[where c = c]) (auto simp: groups_inv_def intro: leaves_same)

lemma inv_remove_start:
  assumes "groups_inv db" "gd_group_lock db g = None" "g \<in> set (gd_groups db)"
  shows "groups_inv (phase_of c (Removing g u) (lock_group c g db))"
  by (rule groups_invI[where c = c, OF assms(1)])
    (use assms in \<open>auto simp: groups_inv_def phase_of_def lock_group_def tx_ok_def intro!: leaves_same split: if_splits\<close>)

lemma inv_user_start:
  assumes "groups_inv db" "gd_user_lock db u = None" "t = Deleting u \<or> (\<exists>a x g. t = Adding a x g u)"
  shows "groups_inv (phase_of c t (lock_user c u db))"
  by (rule groups_invI[where c = c, OF assms(1)])
    (use assms in \<open>auto simp: groups_inv_def phase_of_def lock_user_def tx_ok_def intro!: leaves_same\<close>)

lemma inv_phase:
  assumes "groups_inv db" "tx_ok (phase_of c t db) c"
  shows "groups_inv (phase_of c t db)"
  by (rule groups_invI[where c = c, OF assms(1)])
    (use assms in \<open>auto simp: groups_inv_def phase_of_def intro!: leaves_same\<close>)

lemma inv_lock:
  assumes "groups_inv db" "group_free c g db" "g \<in> set (gd_groups db)" "tx_ok (phase_of c t (lock_group c g db)) c"
  shows "groups_inv (phase_of c t (lock_group c g db))"
  by (rule groups_invI[where c = c, OF assms(1)])
    (use assms in \<open>auto simp: groups_inv_def phase_of_def lock_group_def group_free_def intro!: leaves_same split: if_splits\<close>)

lemma inv_remove_commit:
  assumes inv: "groups_inv db" and tx: "gd_tx db c = Remove_checked g u"
  shows "groups_inv (ends c (db\<lparr>gd_managers := removeAll (g, u) (gd_managers db)\<rparr>))"
proof (rule groups_invI[where c = c, OF inv])
  have "tx_ok db c" using inv by (simp add: groups_inv_def)
  then have lock: "gd_group_lock db g = Some c" by (simp add: tx_ok_def tx)
  fix d assume "d \<noteq> c"
  then show "leaves d db (ends c (db\<lparr>gd_managers := removeAll (g, u) (gd_managers db)\<rparr>))"
    using lock by (intro leaves_ends) (auto simp: leaves_def removeAll_filter_not_eq intro: filter_cong)
qed (use inv in \<open>auto simp: groups_inv_def distinct_removeAll\<close>)

lemma inv_add_commit:
  assumes inv: "groups_inv db" and tx: "gd_tx db c = Adding_locked g u" and new: "(g, u) \<notin> set (gd_managers db)"
  shows "groups_inv (ends c (db\<lparr>gd_managers := (g, u) # gd_managers db\<rparr>))"
proof (rule groups_invI[where c = c, OF inv])
  have ok: "tx_ok db c" using inv by (simp add: groups_inv_def)
  then have lock: "gd_group_lock db g = Some c" "gd_user_lock db u = Some c" by (simp_all add: tx_ok_def tx)
  fix d assume "d \<noteq> c"
  then show "leaves d db (ends c (db\<lparr>gd_managers := (g, u) # gd_managers db\<rparr>))"
    using lock by (intro leaves_ends) (auto simp: leaves_def)
next
  have "tx_ok db c" using inv by (simp add: groups_inv_def)
  then have "g \<in> set (gd_groups db)" using inv by (auto simp: groups_inv_def tx_ok_def tx)
  then show "fst ` set (gd_managers (ends c (db\<lparr>gd_managers := (g, u) # gd_managers db\<rparr>)))
      \<subseteq> set (gd_groups (ends c (db\<lparr>gd_managers := (g, u) # gd_managers db\<rparr>)))"
    using inv by (auto simp: groups_inv_def)
qed (use inv new in \<open>auto simp: groups_inv_def\<close>)

lemma inv_delete_commit:
  assumes inv: "groups_inv db" and tx: "gd_tx db c = Delete_checked u locked"
  shows "groups_inv (ends c (db\<lparr>gd_members := m, gd_managers := filter (\<lambda>a. snd a \<noteq> u) (gd_managers db), gd_users := us\<rparr>))"
proof (rule groups_invI[where c = c, OF inv])
  have "tx_ok db c" using inv by (simp add: groups_inv_def)
  then have own: "(g, u) \<in> set (gd_managers db) \<Longrightarrow> gd_group_lock db g = Some c" for g by (auto simp: tx_ok_def tx)
  fix d assume d: "d \<noteq> c"
  have "filter (\<lambda>a. fst a = g) (filter (\<lambda>a. snd a \<noteq> u) (gd_managers db)) = filter (\<lambda>a. fst a = g) (gd_managers db)"
    if "gd_group_lock db g = Some d" for g
    using that own[of g] d by (auto simp: filter_filter intro!: filter_cong)
  then show "leaves d db (ends c (db\<lparr>gd_members := m, gd_managers := filter (\<lambda>a. snd a \<noteq> u) (gd_managers db), gd_users := us\<rparr>))"
    using d by (intro leaves_ends) (auto simp: leaves_def)
qed (use inv in \<open>auto simp: groups_inv_def\<close>)

lemma inv_delete_group:
  assumes inv: "groups_inv db" and free: "gd_group_lock db g = None" and tx: "gd_tx db c = Tx_none"
  shows "groups_inv (db\<lparr>gd_members := m, gd_managers := filter (\<lambda>a. fst a \<noteq> g) (gd_managers db),
     gd_groups := removeAll g (gd_groups db), gd_retired := g # gd_retired db\<rparr>)"
proof (rule groups_invI[where c = c, OF inv])
  fix d
  have "filter (\<lambda>a. fst a = h) (filter (\<lambda>a. fst a \<noteq> g) (gd_managers db)) = filter (\<lambda>a. fst a = h) (gd_managers db)"
    if "gd_group_lock db h = Some d" for h
    using that free by (auto simp: filter_filter intro!: filter_cong)
  then show "leaves d db (db\<lparr>gd_members := m, gd_managers := filter (\<lambda>a. fst a \<noteq> g) (gd_managers db),
     gd_groups := removeAll g (gd_groups db), gd_retired := g # gd_retired db\<rparr>)"
    by (auto simp: leaves_def)
qed (use inv free tx in \<open>auto simp: groups_inv_def tx_ok_def\<close>)

lemma inv_other_tables:
  assumes "groups_inv db"
  shows "groups_inv (db\<lparr>gd_members := m\<rparr>)"
    and "g \<notin> set (gd_retired db) \<Longrightarrow> groups_inv (db\<lparr>gd_groups := g # gd_groups db\<rparr>)"
  using assms by (auto simp: groups_inv_def tx_ok_def cong: tx.case_cong)

lemma groups_inv_tx: "groups_inv db \<Longrightarrow> tx_ok db c"
  by (simp add: groups_inv_def)

lemma groups_inv_step:
  assumes inv: "groups_inv db" and step: "group_step e db = Some db'"
  shows "groups_inv db'"
proof (cases e)
  case (Create_group g)
  then show ?thesis using step inv_other_tables(2)[OF inv] by (auto split: if_splits)
next
  case (Delete_group c g)
  then show ?thesis using step inv_delete_group[OF inv, of g c] by (auto split: if_splits)
next
  case (Add_member g u)
  then show ?thesis using step inv inv_other_tables(1)[OF inv] by (auto split: if_splits)
next
  case (Remove_member c g u)
  then show ?thesis using step inv_other_tables(1)[OF inv] by (auto split: if_splits)
next
  case (Remove_manager c admin caller g u)
  then show ?thesis
    using step inv inv_remove_start[OF inv, of g c u] by (auto simp: may_manage_def split: if_splits)
next
  case (Remove_check c)
  then obtain g u where tx: "gd_tx db c = Removing g u"
    and db': "db' = (if removal_allowed (gd_managers db) g u then phase_of c (Remove_checked g u) db else ends c db)"
    using step by (auto split: tx.splits)
  have "tx_ok (phase_of c (Remove_checked g u) db) c" if "removal_allowed (gd_managers db) g u"
    using groups_inv_tx[OF inv, of c] that by (simp add: tx_ok_def tx phase_of_def)
  then show ?thesis using inv_phase[OF inv] inv_ends[OF inv] by (simp add: db')
next
  case (Remove_commit c)
  then show ?thesis using step inv_remove_commit[OF inv] by (auto split: tx.splits)
next
  case (Add_manager c admin caller g u)
  then show ?thesis using step inv inv_user_start[OF inv, of u] by (auto split: if_splits)
next
  case (Add_lock c)
  then obtain admin caller g u where tx: "gd_tx db c = Adding admin caller g u" and free: "gd_group_lock db g = None"
    and db': "db' = (if may_manage db admin caller g then phase_of c (Adding_locked g u) (lock_group c g db) else ends c db)"
    using step by (auto split: tx.splits if_splits)
  have "tx_ok (phase_of c (Adding_locked g u) (lock_group c g db)) c"
    using groups_inv_tx[OF inv, of c] by (simp add: tx_ok_def tx phase_of_def lock_group_def)
  then show ?thesis
    using inv_lock[OF inv, of c g] free inv_ends[OF inv] by (auto simp: db' may_manage_def group_free_def)
next
  case (Add_commit c)
  then show ?thesis using step inv_add_commit[OF inv] inv_ends[OF inv] by (auto split: tx.splits)
next
  case (Delete_user c u)
  then show ?thesis using step inv inv_user_start[OF inv, of u] by (auto split: if_splits)
next
  case (Delete_read c)
  then obtain u where tx: "gd_tx db c = Deleting u"
    and db': "db' = phase_of c (Deleting_groups u (sort (map fst (filter (\<lambda>a. snd a = u) (gd_managers db)))) []) db"
    using step by (auto split: tx.splits)
  have "tx_ok db' c"
    using groups_inv_tx[OF inv, of c] by (force simp: tx_ok_def tx phase_of_def db')
  then show ?thesis using inv_phase[OF inv] by (simp add: db')
next
  case (Delete_lock c)
  then obtain u g todo locked where tx: "gd_tx db c = Deleting_groups u (g # todo) locked"
    and db': "(g \<notin> set (gd_groups db) \<and> db' = phase_of c (Deleting_groups u todo locked) db) \<or>
      (g \<in> set (gd_groups db) \<and> group_free c g db \<and> db' = phase_of c (Deleting_groups u todo (g # locked)) (lock_group c g db))"
    using step by (auto split: tx.splits list.splits if_splits)
  have ok: "tx_ok db c" by (rule groups_inv_tx[OF inv])
  have gone: "(h, u) \<notin> set (gd_managers db)" if "h \<notin> set (gd_groups db)" for h
    using inv that by (force simp: groups_inv_def)
  from db' show ?thesis
  proof (elim disjE conjE)
    assume a: "g \<notin> set (gd_groups db)" and db': "db' = phase_of c (Deleting_groups u todo locked) db"
    have "tx_ok db' c" using ok gone[OF a] by (auto simp: tx_ok_def tx phase_of_def db')
    then show ?thesis using inv_phase[OF inv] by (simp add: db')
  next
    assume a: "g \<in> set (gd_groups db)" "group_free c g db"
      and db': "db' = phase_of c (Deleting_groups u todo (g # locked)) (lock_group c g db)"
    have "tx_ok db' c" using ok by (auto simp: tx_ok_def tx phase_of_def lock_group_def db')
    then show ?thesis using inv_lock[OF inv a(2,1)] by (simp add: db')
  qed
next
  case (Delete_check c)
  then obtain u locked where tx: "gd_tx db c = Deleting_groups u [] locked"
    and db': "db' = (if list_all (\<lambda>g. removal_allowed (gd_managers db) g u) locked then phase_of c (Delete_checked u locked) db else ends c db)"
    using step by (auto split: tx.splits list.splits)
  have "tx_ok (phase_of c (Delete_checked u locked) db) c" if "list_all (\<lambda>g. removal_allowed (gd_managers db) g u) locked"
    using groups_inv_tx[OF inv, of c] that by (auto simp: tx_ok_def tx phase_of_def list_all_iff)
  then show ?thesis using inv_phase[OF inv] inv_ends[OF inv] by (simp add: db')
next
  case (Delete_commit c)
  then show ?thesis using step inv_delete_commit[OF inv] by (auto split: tx.splits)
qed

interpretation groups: invariant_system "\<lambda>db. \<exists>users. db = start_groups users" "\<lambda>s t. \<exists>e. group_step e s = Some t" groups_inv
proof unfold_locales
  show "groups_inv s" if "\<exists>users. s = start_groups users" for s
    using that by (auto simp: start_groups_def groups_inv_def tx_ok_def)
qed (blast intro: groups_inv_step)

section \<open>The last manager\<close>

lemma manager_count_pos: "0 < manager_count ms g \<longleftrightarrow> (\<exists>u. (g, u) \<in> set ms)"
  by (force simp: manager_count_def filter_empty_conv)

lemma removal_keeps_one:
  assumes "distinct ms" "removal_allowed ms g u" "0 < manager_count ms g"
  shows "\<exists>w. w \<noteq> u \<and> (g, w) \<in> set ms"
proof (cases "(g, u) \<in> set ms")
  case True
  let ?gs = "filter (\<lambda>a. fst a = g) ms"
  have "2 \<le> length ?gs" using assms(2) True by (simp add: removal_allowed_def manager_count_def)
  moreover have "distinct ?gs" using assms(1) by simp
  ultimately have "\<not> set ?gs \<subseteq> {(g, u)}"
    by (metis card_mono distinct_card finite.emptyI finite.insertI is_singletonI is_singleton_altdef not_less_eq_eq numeral_2_eq_2 One_nat_def)
  then show ?thesis by auto
next
  case False
  then show ?thesis using assms(3) by (auto simp: manager_count_pos)
qed

lemma step_keeps_manager:
  assumes inv: "groups_inv db" and step: "group_step e db = Some db'"
    and has: "0 < manager_count (gd_managers db) g" and there: "g \<in> set (gd_groups db')"
  shows "0 < manager_count (gd_managers db') g"
proof -
  have d: "distinct (gd_managers db)" using inv by (simp add: groups_inv_def)
  obtain w where w: "(g, w) \<in> set (gd_managers db)" using has by (auto simp: manager_count_pos)
  show ?thesis
  proof (cases e)
    case (Remove_commit c)
    then obtain h u where tx: "gd_tx db c = Remove_checked h u"
      and db': "gd_managers db' = removeAll (h, u) (gd_managers db)" using step by (auto split: tx.splits)
    have "removal_allowed (gd_managers db) h u" using groups_inv_tx[OF inv, of c] by (simp add: tx_ok_def tx)
    then show ?thesis using removal_keeps_one[OF d, of h u] has by (auto simp: db' manager_count_pos)
  next
    case (Delete_commit c)
    then obtain u locked where tx: "gd_tx db c = Delete_checked u locked"
      and db': "gd_managers db' = filter (\<lambda>a. snd a \<noteq> u) (gd_managers db)" using step by (auto split: tx.splits)
    have "(g, u) \<in> set (gd_managers db) \<Longrightarrow> removal_allowed (gd_managers db) g u"
      using groups_inv_tx[OF inv, of c] by (auto simp: tx_ok_def tx)
    then have "removal_allowed (gd_managers db) g u" by (auto simp: removal_allowed_def)
    from removal_keeps_one[OF d this has] show ?thesis by (auto simp: db' manager_count_pos)
  next
    case (Delete_group c h)
    then have "h \<noteq> g" using step there by (auto split: if_splits)
    then show ?thesis using step Delete_group w by (auto simp: manager_count_pos split: if_splits)
  qed (use step w in \<open>auto simp: manager_count_pos phase_of_def lock_group_def lock_user_def
        split: if_splits tx.splits list.splits\<close>)
qed

lemma step_retires:
  assumes "group_step e db = Some db'"
  shows "set (gd_retired db) \<subseteq> set (gd_retired db') \<and>
    (\<forall>g \<in> set (gd_groups db). g \<in> set (gd_groups db') \<union> set (gd_retired db'))"
  using assms
  by (cases e) (auto simp: phase_of_def lock_group_def lock_user_def split: if_splits tx.splits list.splits)

text \<open>C34: however the handlers for creating and deleting groups, adding and removing members and
  managers and deleting users interleave, a group that has a manager at some time still has one at
  every later time at which it exists.\<close>
theorem last_manager_kept:
  assumes "(\<lambda>s t. \<exists>e. group_step e s = Some t)\<^sup>*\<^sup>* (start_groups users) s"
    and "(\<lambda>s t. \<exists>e. group_step e s = Some t)\<^sup>*\<^sup>* s t"
    and "0 < manager_count (gd_managers s) g" and "g \<in> set (gd_groups t)"
  shows "0 < manager_count (gd_managers t) g"
proof -
  have inv: "groups_inv s" by (rule groups.reachable_inv[OF _ assms(1)]) blast
  have "groups_inv t \<and> (g \<in> set (gd_groups t) \<and> 0 < manager_count (gd_managers t) g \<or> g \<in> set (gd_retired t))"
    using assms(2)
  proof (induction rule: rtranclp_induct)
    case base
    then show ?case using inv assms(3) by (force simp: groups_inv_def manager_count_pos)
  next
    case (step y z)
    then obtain e where e: "group_step e y = Some z" by blast
    show ?case
      using step.IH groups_inv_step[OF _ e] step_keeps_manager[OF _ e] step_retires[OF e] by blast
  qed
  then show ?thesis using assms(4) by (auto simp: groups_inv_def)
qed

section \<open>Two managers leave at once\<close>

definition two_leave :: "group_event list" where
  "two_leave = [Create_group ''g'', Add_manager 0 True ''root'' ''g'' ''ann'', Add_lock 0, Add_commit 0,
     Add_manager 0 False ''ann'' ''g'' ''bob'', Add_lock 0, Add_commit 0]"

definition both_removed :: "group_event list" where
  "both_removed = [Delete_user 1 ''ann'', Remove_manager 2 False ''bob'' ''g'' ''bob'', Delete_read 1, Remove_check 2,
     Remove_commit 2, Delete_lock 1, Delete_check 1]"

theorem last_manager_kept_witness:
  "\<exists>s t. ofold (\<lambda>db e. group_step e db) (start_groups [''ann'', ''bob'']) two_leave = Some s \<and>
     ofold (\<lambda>db e. group_step e db) s both_removed = Some t \<and>
     gd_managers t = [(''g'', ''ann'')] \<and> gd_tx t 1 = Tx_none \<and> 0 < manager_count (gd_managers t) ''g''"
proof -
  let ?run = "ofold (\<lambda>db e. group_step e db)"
  have "case ?run (start_groups [''ann'', ''bob'']) two_leave of None \<Rightarrow> False | Some s \<Rightarrow>
      0 < manager_count (gd_managers s) ''g'' \<and>
      (case ?run s both_removed of None \<Rightarrow> False | Some t \<Rightarrow>
         ''g'' \<in> set (gd_groups t) \<and> gd_managers t = [(''g'', ''ann'')] \<and> gd_tx t 1 = Tx_none)"
    by code_simp
  then obtain s t where s: "?run (start_groups [''ann'', ''bob'']) two_leave = Some s" "0 < manager_count (gd_managers s) ''g''"
    and t: "?run s both_removed = Some t" "''g'' \<in> set (gd_groups t)" "gd_managers t = [(''g'', ''ann'')]" "gd_tx t 1 = Tx_none"
    by (auto split: option.splits)
  from last_manager_kept[OF ofold_reachable[OF s(1)] ofold_reachable[OF t(1)] s(2) t(2)]
  show ?thesis using s(1) t by blast
qed

section \<open>Whose bills\<close>

text \<open>A user may see the bills of an owner exactly when the user is an administrator, the owner, or
  a manager of a group the owner is a member of.\<close>

lemma billing_scope:
  "require_billing_owner db u (Some owner) = Inr () \<longleftrightarrow>
     usr_role u = ''admin'' \<or> owner = usr_id u \<or>
     (\<exists>g. (g, usr_id u) \<in> set (gd_managers db) \<and> (g, owner) \<in> set (gd_members db))"
proof (cases "usr_role u = ''admin''")
  case False
  let ?managed = "map fst (filter (\<lambda>a. snd a = usr_id u) (gd_managers db))"
  have m: "g \<in> set ?managed \<longleftrightarrow> (g, usr_id u) \<in> set (gd_managers db)" for g by force
  have "owner \<in> snd ` {a \<in> set (gd_members db). fst a \<in> set ?managed} \<longleftrightarrow>
      (\<exists>g. (g, usr_id u) \<in> set (gd_managers db) \<and> (g, owner) \<in> set (gd_members db))"
    unfolding m by force
  moreover have "Some x \<in> Some ` A \<longleftrightarrow> x \<in> A" for x :: string and A by auto
  ultimately show ?thesis
    using False by (simp add: require_billing_owner_def billing_owner_ids_def Let_def del: remdups.simps)
qed (simp add: require_billing_owner_def billing_owner_ids_def)

end
