(* ===== verification/Worker_Scaling.thy ===== *)
theory Worker_Scaling
  imports Prelude
begin

text \<open>
  \<open>src/src/backend/app/services/worker_scaling.py\<close>: how many worker replicas, and how large a
  connection pool, the database can carry. The two Kubernetes deployments are the state; the
  limit of the database is a parameter.
\<close>

section \<open>Arithmetic\<close>

definition DEFAULT_CONN_RESERVE :: int where "DEFAULT_CONN_RESERVE = 10"

definition compute_max_workers :: "int \<Rightarrow> int \<Rightarrow> int \<Rightarrow> int \<Rightarrow> int \<Rightarrow> int" where
  "compute_max_workers max_connections backend_replicas backend_conns worker_conns reserve =
     (let budget = max_connections - max 0 reserve - max 0 backend_replicas * max 0 backend_conns;
          per_worker = (if worker_conns > 0 then worker_conns else 1)
      in max 1 (budget div per_worker))"

definition clamp_replicas :: "int \<Rightarrow> int \<Rightarrow> int" where
  "clamp_replicas desired max_workers = max 1 (min desired (max 1 max_workers))"

definition db_pool_fits :: "int \<Rightarrow> int \<Rightarrow> int \<Rightarrow> int \<Rightarrow> int \<Rightarrow> int \<Rightarrow> bool" where
  "db_pool_fits max_connections pool_size max_overflow backend_replicas worker_replicas reserve =
     (let per_proc = max 0 pool_size + max 0 max_overflow
      in (max 0 backend_replicas + max 0 worker_replicas) * per_proc + max 0 reserve \<le> max_connections)"

section \<open>Deployments\<close>

text \<open>An environment entry has a name and perhaps a value; a deployment has the environments of
  its containers.\<close>

type_synonym env = "(string \<times> string option) list"

record deployment =
  dp_replicas :: "int option"
  dp_containers :: "env list"

record fleet =
  fl_worker :: deployment
  fl_backend :: deployment

definition POOL_SIZE :: string where "POOL_SIZE = ''TROSHKA_DATABASE__POOL_SIZE''"
definition MAX_OVERFLOW :: string where "MAX_OVERFLOW = ''TROSHKA_DATABASE__MAX_OVERFLOW''"

definition env_int :: "deployment \<Rightarrow> string \<Rightarrow> int \<Rightarrow> int" where
  "env_int dep name d =
     (case find (\<lambda>e. fst e = name \<and> snd e \<noteq> None) (concat (dp_containers dep)) of
        Some (_, Some v) \<Rightarrow> (case parse_int v of Some i \<Rightarrow> i | None \<Rightarrow> d)
      | _ \<Rightarrow> d)"

definition deploy_conns_per_proc :: "deployment \<Rightarrow> int" where
  "deploy_conns_per_proc dep = env_int dep POOL_SIZE 5 + env_int dep MAX_OVERFLOW 10"

definition replicas :: "deployment \<Rightarrow> int" where
  "replicas dep = (case dp_replicas dep of Some n \<Rightarrow> n | None \<Rightarrow> 0)"

record scaling_status =
  sc_worker_replicas :: int
  sc_max_workers :: int
  sc_max_connections :: int
  sc_worker_conns :: int
  sc_backend_conns :: int
  sc_backend_replicas :: int
  sc_pool_size :: int
  sc_max_overflow :: int

definition worker_scaling_status :: "int \<Rightarrow> fleet \<Rightarrow> scaling_status" where
  "worker_scaling_status max_connections fl =
     (let w = fl_worker fl; b = fl_backend fl
      in \<lparr>sc_worker_replicas = replicas w,
          sc_max_workers = compute_max_workers max_connections (replicas b) (deploy_conns_per_proc b)
            (deploy_conns_per_proc w) DEFAULT_CONN_RESERVE,
          sc_max_connections = max_connections, sc_worker_conns = deploy_conns_per_proc w,
          sc_backend_conns = deploy_conns_per_proc b, sc_backend_replicas = replicas b,
          sc_pool_size = env_int b POOL_SIZE 5, sc_max_overflow = env_int b MAX_OVERFLOW 10\<rparr>)"

definition scale_workers :: "int \<Rightarrow> int \<Rightarrow> fleet \<Rightarrow> scaling_status \<times> fleet" where
  "scale_workers max_connections delta fl =
     (let st = worker_scaling_status max_connections fl;
          target = clamp_replicas (sc_worker_replicas st + delta) (sc_max_workers st)
      in (st\<lparr>sc_worker_replicas := target\<rparr>, fl\<lparr>fl_worker := (fl_worker fl)\<lparr>dp_replicas := Some target\<rparr>\<rparr>))"

definition patch_env :: "(string \<times> string) list \<Rightarrow> env \<Rightarrow> env" where
  "patch_env wanted env =
     map (\<lambda>e. case map_of wanted (fst e) of Some v \<Rightarrow> (fst e, Some v) | None \<Rightarrow> e) env
     @ map (\<lambda>(n, v). (n, Some v)) (filter (\<lambda>w. fst w \<notin> fst ` set env) wanted)"

definition wanted_env :: "int \<Rightarrow> int \<Rightarrow> (string \<times> string) list" where
  "wanted_env pool_size max_overflow = [(POOL_SIZE, int_str pool_size), (MAX_OVERFLOW, int_str max_overflow)]"

definition patch_pool_env :: "int \<Rightarrow> int \<Rightarrow> deployment \<Rightarrow> deployment" where
  "patch_pool_env pool_size max_overflow dep =
     dep\<lparr>dp_containers := map (patch_env (wanted_env pool_size max_overflow)) (dp_containers dep)\<rparr>"

text \<open>\<^term>\<open>None\<close> when the pool is rejected.\<close>

definition set_db_pool :: "int \<Rightarrow> int \<Rightarrow> int \<Rightarrow> fleet \<Rightarrow> fleet option" where
  "set_db_pool max_connections pool_size max_overflow fl =
     (let st = worker_scaling_status max_connections fl
      in if \<not> db_pool_fits (sc_max_connections st) pool_size max_overflow (sc_backend_replicas st)
              (sc_worker_replicas st) DEFAULT_CONN_RESERVE
         then None
         else Some (fl\<lparr>fl_backend := patch_pool_env pool_size max_overflow (fl_backend fl),
                       fl_worker := patch_pool_env pool_size max_overflow (fl_worker fl)\<rparr>))"

section \<open>The connections of the fleet\<close>

definition connections :: "fleet \<Rightarrow> int" where
  "connections fl = max 0 (replicas (fl_worker fl)) * max 0 (deploy_conns_per_proc (fl_worker fl))
     + max 0 (replicas (fl_backend fl)) * max 0 (deploy_conns_per_proc (fl_backend fl)) + DEFAULT_CONN_RESERVE"

lemma scaled_within:
  assumes "compute_max_workers m b bc wc r = k" "1 < k" "0 \<le> n" "n \<le> k" "0 \<le> r"
  shows "n * max 0 wc + max 0 b * max 0 bc + r \<le> m"
proof -
  define budget where "budget = m - r - max 0 b * max 0 bc"
  define per where "per = (if wc > 0 then wc else 1)"
  have k: "k = budget div per" and per: "0 < per"
    using assms by (auto simp: compute_max_workers_def Let_def budget_def per_def)
  have "n * max 0 wc \<le> k * per" using assms by (intro mult_mono) (auto simp: per_def)
  also have "\<dots> \<le> budget" using per by (simp add: k) (metis add.commute le_add_same_cancel2 mod_div_mult_eq pos_mod_sign)
  finally show ?thesis by (simp add: budget_def)
qed

lemma patched_value:
  assumes "dp_containers dep \<noteq> []" "map_of wanted name = Some v" "distinct (map fst wanted)"
  shows "find (\<lambda>e. fst e = name \<and> snd e \<noteq> None) (concat (map (patch_env wanted) (dp_containers dep))) = Some (name, Some v)"
proof -
  have keys: "(\<exists>x \<in> set (patch_env wanted env). fst x = name) \<and> (\<forall>x \<in> set (patch_env wanted env). fst x = name \<longrightarrow> snd x = Some v)" for env
  proof -
    have "\<forall>x \<in> set (patch_env wanted env). fst x = name \<longrightarrow> snd x = Some v"
      using assms(2,3) by (auto simp: patch_env_def split: option.splits prod.splits dest: map_of_SomeD eq_key_imp_eq_value)
    moreover have "name \<in> fst ` set (patch_env wanted env)"
    proof (cases "name \<in> fst ` set env")
      case True
      then show ?thesis using assms(2) by (force simp: patch_env_def image_iff)
    next
      case False
      then show ?thesis using map_of_SomeD[OF assms(2)] by (force simp: patch_env_def)
    qed
    ultimately show ?thesis by (auto simp: image_iff)
  qed
  let ?es = "concat (map (patch_env wanted) (dp_containers dep))"
  have "\<exists>x \<in> set ?es. fst x = name \<and> snd x \<noteq> None" using keys assms(1) by (cases "dp_containers dep") fastforce+
  then have "find (\<lambda>e. fst e = name \<and> snd e \<noteq> None) ?es \<noteq> None" unfolding find_None_iff by blast
  then obtain e where e: "find (\<lambda>e. fst e = name \<and> snd e \<noteq> None) ?es = Some e" by blast
  have "e \<in> set ?es \<and> fst e = name" using e unfolding find_Some_iff by (metis nth_mem)
  then have "e = (name, Some v)" using keys by (cases e) fastforce
  with e show ?thesis by simp
qed

lemma patched_conns:
  assumes "dp_containers dep \<noteq> []"
  shows "deploy_conns_per_proc (patch_pool_env p q dep) = p + q"
proof -
  have names: "POOL_SIZE \<noteq> MAX_OVERFLOW" by (simp add: POOL_SIZE_def MAX_OVERFLOW_def)
  then have "env_int (patch_pool_env p q dep) POOL_SIZE d = p" "env_int (patch_pool_env p q dep) MAX_OVERFLOW d = q" for d
    using patched_value[OF assms, of "wanted_env p q"] by (simp_all add: env_int_def patch_pool_env_def wanted_env_def)
  then show ?thesis by (simp add: deploy_conns_per_proc_def)
qed

section \<open>Sequences of requests\<close>

datatype scaling_request = Scale int | Pool int int

fun scaling_step :: "int \<Rightarrow> fleet \<Rightarrow> scaling_request \<Rightarrow> fleet" where
  "scaling_step m fl (Scale delta) = snd (scale_workers m delta fl)"
| "scaling_step m fl (Pool p q) = (case set_db_pool m p q fl of None \<Rightarrow> fl | Some fl' \<Rightarrow> fl')"

definition fleet_ok :: "int \<Rightarrow> fleet \<Rightarrow> bool" where
  "fleet_ok m fl \<longleftrightarrow> connections fl \<le> m \<or> replicas (fl_worker fl) \<le> 1"

lemma scale_ok: "fleet_ok m (snd (scale_workers m delta fl))"
proof -
  let ?k = "compute_max_workers m (replicas (fl_backend fl)) (deploy_conns_per_proc (fl_backend fl))
    (deploy_conns_per_proc (fl_worker fl)) DEFAULT_CONN_RESERVE"
  define n where "n = clamp_replicas (replicas (fl_worker fl) + delta) ?k"
  have n: "1 \<le> n" "n \<le> max 1 ?k" by (auto simp: n_def clamp_replicas_def)
  have same: "deploy_conns_per_proc (fl_worker fl\<lparr>dp_replicas := Some n\<rparr>) = deploy_conns_per_proc (fl_worker fl)"
    by (simp add: deploy_conns_per_proc_def env_int_def)
  have worker: "replicas (fl_worker fl\<lparr>dp_replicas := Some n\<rparr>) = n" by (simp add: replicas_def)
  have "n \<le> 1 \<or> n * max 0 (deploy_conns_per_proc (fl_worker fl))
      + max 0 (replicas (fl_backend fl)) * max 0 (deploy_conns_per_proc (fl_backend fl)) + DEFAULT_CONN_RESERVE \<le> m"
    using scaled_within[OF refl, of m "replicas (fl_backend fl)" "deploy_conns_per_proc (fl_backend fl)"
        "deploy_conns_per_proc (fl_worker fl)" DEFAULT_CONN_RESERVE n] n
    by (cases "1 < ?k") (auto simp: DEFAULT_CONN_RESERVE_def)
  moreover have "snd (scale_workers m delta fl) = fl\<lparr>fl_worker := (fl_worker fl)\<lparr>dp_replicas := Some n\<rparr>\<rparr>"
    by (simp add: scale_workers_def worker_scaling_status_def Let_def n_def)
  ultimately show ?thesis
    using n by (auto simp: fleet_ok_def connections_def same worker)
qed

lemma pool_ok:
  assumes "set_db_pool m p q fl = Some fl'" "dp_containers (fl_worker fl) \<noteq> []" "dp_containers (fl_backend fl) \<noteq> []"
  shows "connections fl' \<le> m"
proof -
  let ?w = "max 0 (replicas (fl_worker fl))" and ?b = "max 0 (replicas (fl_backend fl))" and ?per = "max 0 p + max 0 q"
  have fl': "fl' = fl\<lparr>fl_backend := patch_pool_env p q (fl_backend fl), fl_worker := patch_pool_env p q (fl_worker fl)\<rparr>"
    and fits: "(?b + ?w) * ?per + DEFAULT_CONN_RESERVE \<le> m"
    using assms(1)
    by (auto simp: set_db_pool_def worker_scaling_status_def db_pool_fits_def Let_def DEFAULT_CONN_RESERVE_def split: if_splits)
  have "connections fl' = ?w * max 0 (p + q) + ?b * max 0 (p + q) + DEFAULT_CONN_RESERVE"
    using assms(2,3) by (simp add: fl' connections_def patched_conns) (simp add: patch_pool_env_def replicas_def)
  also have "\<dots> = (?b + ?w) * max 0 (p + q) + DEFAULT_CONN_RESERVE" by (simp add: algebra_simps)
  also have "\<dots> \<le> (?b + ?w) * ?per + DEFAULT_CONN_RESERVE" by (intro add_right_mono mult_left_mono) auto
  finally show ?thesis using fits by linarith
qed

lemma containers_kept [simp]:
  "dp_containers (fl_worker (scaling_step m fl r)) = [] \<longleftrightarrow> dp_containers (fl_worker fl) = []"
  "dp_containers (fl_backend (scaling_step m fl r)) = [] \<longleftrightarrow> dp_containers (fl_backend fl) = []"
  by (cases r; auto simp: scale_workers_def set_db_pool_def patch_pool_env_def Let_def)+

text \<open>C35: no sequence of scaling and pool requests takes the fleet beyond the connections the
  database allows, the reserve included: as long as deployments have a container, a fleet that is
  within the limit stays within it, or is down to one worker.\<close>
theorem fleet_within_connections:
  assumes "dp_containers (fl_worker fl) \<noteq> []" "dp_containers (fl_backend fl) \<noteq> []" "fleet_ok m fl"
  shows "fleet_ok m (foldl (scaling_step m) fl rs)"
  using assms
proof (induction rs arbitrary: fl)
  case (Cons r rs)
  have "fleet_ok m (scaling_step m fl r)"
  proof (cases r)
    case (Scale delta)
    then show ?thesis using scale_ok by simp
  next
    case (Pool p q)
    then show ?thesis using Cons.prems pool_ok[of m p q fl] by (auto simp: fleet_ok_def split: option.split)
  qed
  then show ?case using Cons by simp
qed simp

definition small_fleet :: fleet where
  "small_fleet = \<lparr>fl_worker = \<lparr>dp_replicas = Some 1, dp_containers = [[(POOL_SIZE, Some ''2''), (MAX_OVERFLOW, Some ''3'')]]\<rparr>,
     fl_backend = \<lparr>dp_replicas = Some 2, dp_containers = [[]]\<rparr>\<rparr>"

theorem fleet_within_connections_witness:
  "fleet_ok 100 (foldl (scaling_step 100) small_fleet [Scale 50, Pool 5 10, Pool 3 2, Scale 5]) \<and>
   replicas (fl_worker (foldl (scaling_step 100) small_fleet [Scale 50, Pool 5 10, Pool 3 2, Scale 5])) = 16"
proof
  show "fleet_ok 100 (foldl (scaling_step 100) small_fleet [Scale 50, Pool 5 10, Pool 3 2, Scale 5])"
    by (rule fleet_within_connections) (simp_all add: small_fleet_def fleet_ok_def replicas_def)
  show "replicas (fl_worker (foldl (scaling_step 100) small_fleet [Scale 50, Pool 5 10, Pool 3 2, Scale 5])) = 16"
    by code_simp
qed

end
