(* ===== verification/Topology_Json.thy ===== *)
theory Topology_Json
  imports Vxlan Cluster_Access
begin

text \<open>
  What the functions of \<open>src/src/backend/app/services/deploy_topology.py\<close> share: indexing the
  nodes of a canvas by id, the map from NICs to networks that its edges make, Python's text
  operations on ids and handles, addresses and networks given as JSON values, and the DHCP range of
  a network.
\<close>

section \<open>Values\<close>

text \<open>\<open>ipaddress.ip_network(v, strict=False)\<close> and \<open>ipaddress.ip_address(v)\<close>: an integer is an address,
  the text form of any other value but a text is rejected.\<close>

fun address_of_json :: "json \<Rightarrow> int option" where
  "address_of_json (JStr s) = addr_of_text s"
| "address_of_json (JInt i) = (if 0 \<le> i \<and> i < 2 ^ 32 then Some i else None)"
| "address_of_json (JBool b) = Some (if b then 1 else 0)"
| "address_of_json _ = None"

fun network_of_json :: "json \<Rightarrow> ip4_network option" where
  "network_of_json (JStr s) = ip_network s"
| "network_of_json j = map_option (\<lambda>a. \<lparr>net_addr = a, net_prefix = 32\<rparr>) (address_of_json j)"

text \<open>\<open>address in network\<close>.\<close>

definition in_network :: "int \<Rightarrow> ip4_network \<Rightarrow> bool" where
  "in_network a n = (mask_addr a (net_prefix n) = net_addr n)"

text \<open>\<open>s.replace(p, "")\<close> for a text \<open>p\<close> that is not empty.\<close>

function remove_text :: "string \<Rightarrow> string \<Rightarrow> string" where
  "remove_text p [] = []"
| "remove_text p (c # cs) =
     (if starts_with (c # cs) p then remove_text p (drop (length p - 1) cs) else c # remove_text p cs)"
  by pat_completeness auto
termination by (relation "measure (length \<circ> snd)") auto

text \<open>\<open>d.get(k, v)\<close> of a dictionary with JSON values as keys.\<close>

definition lookup :: "(json \<times> 'v) list \<Rightarrow> json \<Rightarrow> 'v \<Rightarrow> 'v option" where
  "lookup m k v = map_option (\<lambda>k. dict_get m k v) (hkey k)"

section \<open>Nodes and edges\<close>

definition topo_edges :: "json \<Rightarrow> json list option" where
  "topo_edges topology = do { es \<leftarrow> get_or topology ''edges'' (JList []); iter es }"

definition add_node :: "(json \<times> json) list \<Rightarrow> json \<Rightarrow> (json \<times> json) list option" where
  "add_node m n = do { i \<leftarrow> index n ''id''; k \<leftarrow> hkey i; Some (AList.update k n m) }"

definition nodes_by_id :: "json \<Rightarrow> (json \<times> json) list option" where
  "nodes_by_id topology = do { ns \<leftarrow> topo_nodes topology; ofold add_node [] ns }"

definition VM_NODE :: json where "VM_NODE = JStr ''vmNode''"
definition CONTAINER_NODE :: json where "CONTAINER_NODE = JStr ''containerNode''"
definition NETWORK_NODE :: json where "NETWORK_NODE = JStr ''networkNode''"
definition STORAGE_NODE :: json where "STORAGE_NODE = JStr ''storageNode''"

definition is_nic_edge :: "(json \<times> json) list \<Rightarrow> json \<Rightarrow> json \<Rightarrow> json \<Rightarrow> bool option" where
  "is_nic_edge nbi net_id vm_id handle = do {
     n \<leftarrow> lookup nbi net_id (JObj []);
     t \<leftarrow> get n ''type'';
     if t \<noteq> NETWORK_NODE then Some False
     else do {
       v \<leftarrow> lookup nbi vm_id (JObj []);
       vt \<leftarrow> get v ''type'';
       if vt \<noteq> VM_NODE \<and> vt \<noteq> CONTAINER_NODE then Some False
       else text_in ''nic-'' handle
     }
   }"

definition nic_handle_step ::
    "(json \<times> json) list \<Rightarrow> (json \<times> json) list \<Rightarrow> json \<times> json \<times> json \<Rightarrow> (json \<times> json) list option" where
  "nic_handle_step nbi m x = (case x of (handle, net_id, vm_id) \<Rightarrow> do {
     b \<leftarrow> is_nic_edge nbi net_id vm_id handle;
     if \<not> b then Some m
     else do {
       h \<leftarrow> as_str handle;
       let raw = remove_text ''-bottom'' (remove_text ''-top'' h);
       Some (if starts_with raw ''nic-'' then AList.update (JStr (drop 4 raw)) net_id m else m)
     }
   })"

definition nic_edge_step ::
    "(json \<times> json) list \<Rightarrow> (json \<times> json) list \<Rightarrow> json \<Rightarrow> (json \<times> json) list option" where
  "nic_edge_step nbi m edge = do {
     src \<leftarrow> get_or edge ''source'' (JStr []);
     tgt \<leftarrow> get_or edge ''target'' (JStr []);
     th \<leftarrow> get_or edge ''targetHandle'' (JStr []);
     sh \<leftarrow> get_or edge ''sourceHandle'' (JStr []);
     ofold (nic_handle_step nbi) m [(th, src, tgt), (sh, tgt, src)]
   }"

definition build_nic_to_network_map :: "json \<Rightarrow> (json \<times> json) list \<Rightarrow> (json \<times> json) list option" where
  "build_nic_to_network_map topology nbi = do {
     es \<leftarrow> topo_edges topology;
     ofold (nic_edge_step nbi) [] es
   }"

section \<open>The DHCP range of a network\<close>

definition compute_dhcp_bounds :: "json \<Rightarrow> json \<Rightarrow> json \<Rightarrow> json \<times> json" where
  "compute_dhcp_bounds cidr range_start range_end =
     (if \<not> truthy cidr then (range_start, range_end)
      else (case network_of_json cidr of
          None \<Rightarrow> (range_start, range_end)
        | Some net \<Rightarrow>
            if hosts_len net > 10
            then (if truthy range_start then range_start
                  else JStr (addr_text (hosts_first net + min 9 (hosts_len net - 2))),
                  if truthy range_end then range_end
                  else JStr (addr_text (hosts_first net + hosts_len net - 1)))
            else (range_start, range_end)))"

definition get_dhcp_range :: "json \<Rightarrow> (int \<times> int) option option" where
  "get_dhcp_range net_data = do {
     s \<leftarrow> get_or net_data ''dhcpRangeStart'' (JStr []);
     e \<leftarrow> get_or net_data ''dhcpRangeEnd'' (JStr []);
     cidr \<leftarrow> get_or net_data ''cidr'' (JStr []);
     let (range_start, range_end) =
       (if \<not> truthy s \<or> \<not> truthy e then compute_dhcp_bounds cidr s e else (s, e));
     Some (if truthy range_start \<and> truthy range_end
           then (case (address_of_json range_start, address_of_json range_end) of
               (Some a, Some b) \<Rightarrow> Some (a, b)
             | _ \<Rightarrow> None)
           else None)
   }"

section \<open>Equality of documents\<close>

text \<open>
  Python's \<open>==\<close> on JSON documents: numbers compare by value whatever their type, dictionaries
  regardless of the order of their keys. It is reflexive on documents whose objects have distinct
  keys, as all that a JSON parser or a Python program makes.
\<close>

lemma size_snd_entry [termination_simp]:
  "kv \<in> set kvs \<Longrightarrow> size (snd kv) < Suc (size_list (size_prod (\<lambda>_. 0) size) kvs)"
proof (induction kvs)
  case (Cons a kvs)
  then show ?case by (cases a) auto
qed simp

fun py_eq :: "json \<Rightarrow> json \<Rightarrow> bool" where
  "py_eq (JList xs) (JList ys) = list_all2 py_eq xs ys"
| "py_eq (JObj as) (JObj bs) =
     (length as = length bs \<and>
      (\<forall>kv \<in> set as. case map_of bs (fst kv) of None \<Rightarrow> False | Some w \<Rightarrow> py_eq (snd kv) w))"
| "py_eq (JStr s) (JStr t) = (s = t)"
| "py_eq JNull JNull = True"
| "py_eq a b = (case (num_of a, num_of b) of (Some x, Some y) \<Rightarrow> x = y | _ \<Rightarrow> False)"

fun wf_json :: "json \<Rightarrow> bool" where
  "wf_json (JList xs) = list_all wf_json xs"
| "wf_json (JObj kvs) = (distinct (map fst kvs) \<and> (\<forall>kv \<in> set kvs. wf_json (snd kv)))"
| "wf_json _ = True"

lemma py_eq_refl: "wf_json j \<Longrightarrow> py_eq j j"
proof (induction j rule: wf_json.induct)
  case (1 xs)
  then show ?case by (auto simp: list_all_iff list_all2_same)
next
  case (2 kvs)
  then show ?case by (auto simp: list_all_iff)
qed auto

lemma py_eq_list_refl: "\<forall>x \<in> set xs. wf_json x \<Longrightarrow> list_all2 py_eq xs xs"
  by (simp add: list_all2_same py_eq_refl)

lemma wf_get_or: "wf_json d \<Longrightarrow> wf_json v \<Longrightarrow> get_or d k v = Some x \<Longrightarrow> wf_json x"
  by (cases d) (auto dest!: map_of_SomeD split: option.splits)

lemma wf_get: "wf_json d \<Longrightarrow> get d k = Some x \<Longrightarrow> wf_json x"
  unfolding get_def by (rule wf_get_or) auto

lemma wf_index: "wf_json d \<Longrightarrow> index d k = Some x \<Longrightarrow> wf_json x"
  by (cases d) (auto dest!: map_of_SomeD)

lemma wf_set_item: "wf_json d \<Longrightarrow> wf_json v \<Longrightarrow> set_item d k v = Some x \<Longrightarrow> wf_json x"
  using update_entries_subset by (cases d) (fastforce simp: distinct_update_keys)+

lemma wf_iter: "wf_json d \<Longrightarrow> iter d = Some xs \<Longrightarrow> x \<in> set xs \<Longrightarrow> wf_json x"
  by (cases d) (auto simp: list_all_iff)

text \<open>\<open>d.pop(k, None)\<close>.\<close>

fun pop_item :: "json \<Rightarrow> string \<Rightarrow> json option" where
  "pop_item (JObj kvs) k = Some (JObj (AList.delete k kvs))"
| "pop_item _ k = None"

lemma wf_pop_item: "wf_json d \<Longrightarrow> pop_item d k = Some x \<Longrightarrow> wf_json x"
proof (cases d)
  case (JObj kvs)
  have "set (AList.delete k kvs) \<subseteq> set kvs" by (simp add: AList.delete_eq)
  moreover assume "wf_json d" "pop_item d k = Some x"
  ultimately show ?thesis using JObj by (fastforce simp: distinct_delete)
qed auto

lemma get_or_pop_item:
  "pop_item j k = Some j' \<Longrightarrow> get_or j' k' d = (if k' = k then Some d else get_or j k' d)"
  by (cases j) (auto simp: AList.delete_conv')

text \<open>\<open>isinstance(v, list)\<close>.\<close>

fun as_list :: "json \<Rightarrow> json list option" where
  "as_list (JList xs) = Some xs"
| "as_list _ = None"

end
