(* ===== verification/Topology_Validation.thy ===== *)
theory Topology_Validation
  imports Topology_Json
begin

text \<open>
  The checks of \<open>deploy_topology.py\<close> on a canvas before it is deployed: names, addresses, Ceph lab
  addresses and passwords, and the warnings about reserved addresses. A message is a constructor
  with the values it quotes.
\<close>

datatype claim =
    Gateway_address
  | Dnsmasq_address
  | Exec_address
  | Showroom_address
  | Dns_record json
  | Load_balancer
  | Nic_of json
  | Vip_of json string

datatype topo_error =
    Duplicate_name string json
  | Duplicate_ip json json json json
  | Bmc_without_password json
  | Ceph_no_network json
  | Ceph_no_lab_ip json
  | Ceph_ip_outside json string json string
  | Ceph_ip_invalid json string
  | Ceph_ip_conflict json string claim json
  | Ceph_ip_in_pool json string json

datatype topo_warning =
    Vm_overlaps json string claim
  | Cluster_overlaps json string string claim

section \<open>SMBIOS identifiers\<close>

text \<open>\<open>uuid.UUID(s)\<close>: prefixes, braces and dashes are dropped, and 32 characters have to be left that
  \<open>int(s, 16)\<close> accepts: blanks around, a sign, a prefix, digits grouped by single underscores.\<close>

definition is_hex :: "char \<Rightarrow> bool" where
  "is_hex c = (is_digit c \<or> c \<in> set ''abcdefABCDEF'')"

definition hex_groups :: "string \<Rightarrow> bool" where
  "hex_groups s = list_all (\<lambda>p. p \<noteq> [] \<and> list_all is_hex p) (py_split (CHR ''_'') s)"

definition hex_text :: "string \<Rightarrow> bool" where
  "hex_text s =
     (let t = py_strip s; u = (if starts_with t ''+'' then tl t else t)
      in if starts_with u ''0x'' \<or> starts_with u ''0X''
         then hex_groups (if starts_with (drop 2 u) ''_'' then drop 3 u else drop 2 u)
         else hex_groups u)"

definition strip_braces :: "string \<Rightarrow> string" where
  "strip_braces s = rev (dropWhile (\<lambda>c. c \<in> set ''{}'') (rev (dropWhile (\<lambda>c. c \<in> set ''{}'') s)))"

definition uuid_text_ok :: "string \<Rightarrow> bool" where
  "uuid_text_ok s =
     (let h = remove_text ''-'' (strip_braces (remove_text ''uuid:'' (remove_text ''urn:'' s)))
      in length h = 32 \<and> hex_text h)"

definition is_valid_smbios_uuid :: "json \<Rightarrow> bool" where
  "is_valid_smbios_uuid value =
     (truthy value \<and> (case py_str value of None \<Rightarrow> False | Some s \<Rightarrow> uuid_text_ok s))"

section \<open>Names\<close>

definition name_bucket :: "json \<Rightarrow> string option" where
  "name_bucket t =
     (if t = VM_NODE then Some ''VM'' else if t = NETWORK_NODE then Some ''Network''
      else if t = STORAGE_NODE then Some ''Disk'' else None)"

definition name_step ::
    "topo_error list \<times> ((string \<times> json) \<times> json) list \<Rightarrow> json \<Rightarrow>
     (topo_error list \<times> ((string \<times> json) \<times> json) list) option" where
  "name_step st node = do {
     data \<leftarrow> node_data node;
     nm \<leftarrow> get data ''name'';
     lb \<leftarrow> get_or data ''label'' (JStr []);
     let name = py_or nm lb;
     t \<leftarrow> get node ''type'';
     if \<not> truthy name then Some st
     else (case name_bucket t of
         None \<Rightarrow> Some st
       | Some bucket \<Rightarrow> do {
           k \<leftarrow> hkey name;
           if (bucket, k) \<in> fst ` set (snd st) then Some (fst st @ [Duplicate_name bucket name], snd st)
           else do { i \<leftarrow> index node ''id''; Some (fst st, AList.update (bucket, k) i (snd st)) }
         })
   }"

definition validate_topology_names :: "json \<Rightarrow> topo_error list option" where
  "validate_topology_names topology = do {
     ns \<leftarrow> topo_nodes topology;
     st \<leftarrow> ofold name_step ([], []) ns;
     Some (fst st)
   }"

section \<open>Addresses of NICs\<close>

definition is_workload :: "json \<Rightarrow> bool option" where
  "is_workload node = map_option (\<lambda>t. t = VM_NODE \<or> t = CONTAINER_NODE) (get node ''type'')"

text \<open>The loop over the NICs of one node; the second component is \<open>per_network\<close>, keyed by network
  and address.\<close>

definition duplicate_ip_step ::
    "(json \<times> json) list \<Rightarrow> (json \<times> json) list \<Rightarrow> json \<Rightarrow>
     topo_error list \<times> ((json \<times> json) \<times> json) list \<Rightarrow> json \<Rightarrow>
     (topo_error list \<times> ((json \<times> json) \<times> json) list) option" where
  "duplicate_ip_step nbi nic_map vm_name st nic = do {
     ip \<leftarrow> get_or nic ''ip'' (JStr []);
     if \<not> truthy ip then Some st
     else do {
       i \<leftarrow> index nic ''id'';
       net_id \<leftarrow> lookup nic_map i (JStr ''unconnected'');
       net \<leftarrow> lookup nbi net_id (JObj []);
       nd \<leftarrow> node_data net;
       net_name \<leftarrow> get_or nd ''name'' (JStr ''unconnected'');
       k \<leftarrow> hkey ip;
       (case map_of (snd st) (net_id, k) of
          Some other \<Rightarrow> Some (fst st @ [Duplicate_ip ip net_name other vm_name], snd st)
        | None \<Rightarrow> Some (fst st, AList.update (net_id, k) vm_name (snd st)))
     }
   }"

definition duplicate_ip_node ::
    "(json \<times> json) list \<Rightarrow> (json \<times> json) list \<Rightarrow>
     topo_error list \<times> ((json \<times> json) \<times> json) list \<Rightarrow> json \<Rightarrow>
     (topo_error list \<times> ((json \<times> json) \<times> json) list) option" where
  "duplicate_ip_node nbi nic_map st node = do {
     w \<leftarrow> is_workload node;
     if \<not> w then Some st
     else do {
       data \<leftarrow> node_data node;
       vm_name \<leftarrow> get_or data ''name'' (JStr ''?'');
       nv \<leftarrow> get_or data ''nics'' (JList []);
       nics \<leftarrow> iter nv;
       ofold (duplicate_ip_step nbi nic_map vm_name) st nics
     }
   }"

definition check_duplicate_ips ::
    "json \<Rightarrow> (json \<times> json) list \<Rightarrow> (json \<times> json) list \<Rightarrow> topo_error list option" where
  "check_duplicate_ips topology nbi nic_map = do {
     ns \<leftarrow> topo_nodes topology;
     st \<leftarrow> ofold (duplicate_ip_node nbi nic_map) ([], []) ns;
     Some (fst st)
   }"

section \<open>Addresses claimed on a network\<close>

definition default_ceph_lab_ip :: "string \<Rightarrow> string" where
  "default_ceph_lab_ip cidr =
     (if CHR ''/'' \<notin> set cidr then []
      else (case py_split (CHR ''.'') (hd (py_split (CHR ''/'') cidr)) of
          [a, b, c, _] \<Rightarrow> a @ ''.'' @ b @ ''.'' @ c @ ''.4''
        | _ \<Rightarrow> []))"

definition network_node_by_id :: "json \<Rightarrow> json \<Rightarrow> json option option" where
  "network_node_by_id topology network_id = do {
     ns \<leftarrow> topo_nodes topology;
     ofind (\<lambda>node. do {
       i \<leftarrow> get node ''id'';
       t \<leftarrow> get node ''type'';
       Some (i = network_id \<and> t = NETWORK_NODE)
     }) ns
   }"

type_synonym claims = "(string \<times> claim) list"

definition claim_cidr_infra_ips :: "string \<Rightarrow> claims \<Rightarrow> claims" where
  "claim_cidr_infra_ips cidr claimed =
     (if cidr = [] then claimed
      else (case ip_network cidr of
          None \<Rightarrow> claimed
        | Some net \<Rightarrow>
            let c1 = (if net_addr net + 1 < 2 ^ 32
                      then AList.update (addr_text (net_addr net + 1)) Gateway_address claimed else claimed)
            in (if net_addr net + 2 < 2 ^ 32
                then AList.update (addr_text (net_addr net + 2)) Dnsmasq_address c1 else c1)))"

definition claim_dns_records_and_lb :: "json \<Rightarrow> claims \<Rightarrow> claims option" where
  "claim_dns_records_and_lb net_data claimed = do {
     rv \<leftarrow> get_or_else net_data ''dnsRecords'' (JList []);
     recs \<leftarrow> iter rv;
     c1 \<leftarrow> ofold (\<lambda>c rec. do {
       ip \<leftarrow> stripped_field rec ''ip'';
       name \<leftarrow> get_or_else rec ''name'' (JStr ''dns record'');
       Some (if ip = [] then c else AList.update ip (Dns_record name) c)
     }) claimed recs;
     lb_ip \<leftarrow> stripped_field net_data ''lbIp'';
     Some (if lb_ip = [] then c1 else AList.update lb_ip Load_balancer c1)
   }"

definition claim_nic ::
    "json \<Rightarrow> (json \<times> json) list \<Rightarrow> json \<Rightarrow> claims \<Rightarrow> json \<Rightarrow> claims option" where
  "claim_nic network_id nic_map name claimed nic = do {
     i \<leftarrow> get_or nic ''id'' (JStr []);
     net \<leftarrow> lookup nic_map i JNull;
     if net \<noteq> network_id then Some claimed
     else do {
       ip \<leftarrow> stripped_field nic ''ip'';
       Some (if ip = [] then claimed else AList.update ip (Nic_of name) claimed)
     }
   }"

definition claim_node_nics ::
    "json \<Rightarrow> (json \<times> json) list \<Rightarrow> claims \<Rightarrow> json \<Rightarrow> claims option" where
  "claim_node_nics network_id nic_map claimed node = do {
     w \<leftarrow> is_workload node;
     if \<not> w then Some claimed
     else do {
       data \<leftarrow> node_data node;
       name \<leftarrow> get_or data ''name'' (JStr ''?'');
       nv \<leftarrow> get_or data ''nics'' (JList []);
       nics \<leftarrow> iter nv;
       ofold (claim_nic network_id nic_map name) claimed nics
     }
   }"

definition claim_nic_ips_for_network ::
    "json \<Rightarrow> json \<Rightarrow> (json \<times> json) list \<Rightarrow> claims \<Rightarrow> claims option" where
  "claim_nic_ips_for_network topology network_id nic_map claimed = do {
     ns \<leftarrow> topo_nodes topology;
     ofold (claim_node_nics network_id nic_map) claimed ns
   }"

definition vip_keys :: "(string \<times> string \<times> string) list" where
  "vip_keys = [(''apiVip'', ''api_vip'', ''API VIP''), (''ingressVip'', ''ingress_vip'', ''ingress VIP'')]"

definition claim_vip_keys :: "json \<Rightarrow> json \<Rightarrow> bool \<Rightarrow> claims \<Rightarrow> claims option" where
  "claim_vip_keys source cname snake_fallback claimed =
     ofold (\<lambda>c (key, snake, label). do {
       v \<leftarrow> get source key;
       s \<leftarrow> get source snake;
       t \<leftarrow> py_str (py_or (if snake_fallback then py_or v s else v) (JStr []));
       let ip = py_strip t;
       Some (if ip = [] then c else AList.update ip (Vip_of cname label) c)
     }) claimed vip_keys"

definition claim_topology_cluster_vips :: "json \<Rightarrow> json \<Rightarrow> claims \<Rightarrow> claims option" where
  "claim_topology_cluster_vips topology network_id claimed = do {
     cv \<leftarrow> get_or_else topology ''clusters'' (JList []);
     clusters \<leftarrow> iter cv;
     ofold (\<lambda>c cluster. do {
       nv \<leftarrow> get_or_else cluster ''networkIds'' (JList []);
       ids \<leftarrow> iter nv;
       ks \<leftarrow> omap hkey ids;
       if network_id \<notin> set ks then Some c
       else do {
         name \<leftarrow> get_or_else cluster ''name'' (JStr ''cluster'');
         claim_vip_keys cluster name True c
       }
     }) claimed clusters
   }"

definition claim_cluster_node_vips :: "json \<Rightarrow> claims \<Rightarrow> claims option" where
  "claim_cluster_node_vips topology claimed = do {
     ns \<leftarrow> topo_nodes topology;
     ofold (\<lambda>c node. do {
       b \<leftarrow> has_type ''clusterNode'' node;
       if \<not> b then Some c
       else do {
         data \<leftarrow> node_data node;
         name \<leftarrow> get_or_else data ''name'' (JStr ''cluster'');
         claim_vip_keys data name False c
       }
     }) claimed ns
   }"

text \<open>An empty map given by the caller is falsy, and computed again.\<close>

definition collect_ips_on_network ::
    "json \<Rightarrow> json \<Rightarrow> (json \<times> json) list \<Rightarrow> (json \<times> json) list \<Rightarrow> claims option" where
  "collect_ips_on_network topology network_id nbi0 nic_map0 = do {
     nn \<leftarrow> network_node_by_id topology network_id;
     (case nn of
        None \<Rightarrow> Some []
      | Some net \<Rightarrow> do {
          net_data \<leftarrow> node_data net;
          cv \<leftarrow> get_or_else net_data ''cidr'' (JStr []);
          cidr \<leftarrow> py_str cv;
          c1 \<leftarrow> claim_dns_records_and_lb net_data (claim_cidr_infra_ips cidr []);
          nbi \<leftarrow> (if nbi0 \<noteq> [] then Some nbi0 else nodes_by_id topology);
          nic_map \<leftarrow> (if nic_map0 \<noteq> [] then Some nic_map0 else build_nic_to_network_map topology nbi);
          c2 \<leftarrow> claim_nic_ips_for_network topology network_id nic_map c1;
          c3 \<leftarrow> claim_topology_cluster_vips topology network_id c2;
          claim_cluster_node_vips topology c3
        })
   }"

section \<open>Ceph lab addresses\<close>

definition lab_ip_in_dhcp_pool :: "string \<Rightarrow> json \<Rightarrow> bool option" where
  "lab_ip_in_dhcp_pool lab_ip net_data = do {
     dhcp \<leftarrow> get net_data ''dhcp'';
     if \<not> truthy dhcp then Some False
     else do {
       r \<leftarrow> get_dhcp_range net_data;
       Some (case (r, addr_of_text lab_ip) of
           (Some (start, stop), Some ip) \<Rightarrow> start \<le> ip \<and> ip \<le> stop
         | _ \<Rightarrow> False)
     }
   }"

definition ceph_lab_ip_cidr_error :: "string \<Rightarrow> string \<Rightarrow> json \<Rightarrow> json \<Rightarrow> topo_error option" where
  "ceph_lab_ip_cidr_error lab_ip cidr ceph_name net_label =
     (case addr_of_text lab_ip of
        None \<Rightarrow> Some (Ceph_ip_invalid ceph_name lab_ip)
      | Some a \<Rightarrow>
          if cidr = [] then None
          else (case ip_network cidr of
              None \<Rightarrow> Some (Ceph_ip_invalid ceph_name lab_ip)
            | Some net \<Rightarrow> if in_network a net then None else Some (Ceph_ip_outside ceph_name lab_ip net_label cidr)))"

definition ceph_lab_ip_conflict_error ::
    "string \<Rightarrow> json \<Rightarrow> json \<Rightarrow> json \<Rightarrow> claims \<Rightarrow> topo_error list option" where
  "ceph_lab_ip_conflict_error lab_ip ceph_name net_label net_data claimed =
     (case map_of claimed lab_ip of
        Some c \<Rightarrow> Some [Ceph_ip_conflict ceph_name lab_ip c net_label]
      | None \<Rightarrow> do {
          pool \<leftarrow> lab_ip_in_dhcp_pool lab_ip net_data;
          Some (if pool then [Ceph_ip_in_pool ceph_name lab_ip net_label] else [])
        })"

definition validate_one_ceph_lab_ip ::
    "json \<Rightarrow> json \<Rightarrow> (json \<times> json) list \<Rightarrow> (json \<times> json) list \<Rightarrow> topo_error list option" where
  "validate_one_ceph_lab_ip node topology nbi nic_map = do {
     data \<leftarrow> node_data node;
     nm \<leftarrow> get data ''name'';
     lb \<leftarrow> get data ''label'';
     let ceph_name = py_or nm (py_or lb (JStr ''Ceph Storage''));
     network_ref \<leftarrow> stripped_field data ''networkRef'';
     nn \<leftarrow> network_node_by_id topology (JStr network_ref);
     (case nn of
        None \<Rightarrow> Some [Ceph_no_network ceph_name]
      | Some net \<Rightarrow>
          if network_ref = [] then Some [Ceph_no_network ceph_name]
          else do {
            net_data \<leftarrow> node_data net;
            nl \<leftarrow> get net_data ''name'';
            let net_label = py_or nl (JStr network_ref);
            cv \<leftarrow> get_or_else net_data ''cidr'' (JStr []);
            cidr \<leftarrow> py_str cv;
            given \<leftarrow> stripped_field data ''labIp'';
            let lab_ip = (if given = [] then default_ceph_lab_ip cidr else given);
            if lab_ip = [] then Some [Ceph_no_lab_ip ceph_name]
            else (case ceph_lab_ip_cidr_error lab_ip cidr ceph_name net_label of
                Some e \<Rightarrow> Some [e]
              | None \<Rightarrow> do {
                  claimed \<leftarrow> collect_ips_on_network topology (JStr network_ref) nbi nic_map;
                  ceph_lab_ip_conflict_error lab_ip ceph_name net_label net_data claimed
                })
          })
   }"

definition ceph_errors ::
    "json \<Rightarrow> (json \<times> json) list \<Rightarrow> (json \<times> json) list \<Rightarrow> json \<Rightarrow> topo_error list option" where
  "ceph_errors topology nbi nic_map node = do {
     b \<leftarrow> has_type ''cephClusterNode'' node;
     if b then validate_one_ceph_lab_ip node topology nbi nic_map else Some []
   }"

definition validate_ceph_lab_ips :: "json \<Rightarrow> topo_error list option" where
  "validate_ceph_lab_ips topology = do {
     nbi \<leftarrow> nodes_by_id topology;
     nic_map \<leftarrow> build_nic_to_network_map topology nbi;
     ns \<leftarrow> topo_nodes topology;
     errs \<leftarrow> omap (ceph_errors topology nbi nic_map) ns;
     Some (concat errs)
   }"

definition validate_topology_ips :: "json \<Rightarrow> topo_error list option" where
  "validate_topology_ips topology = do {
     nbi \<leftarrow> nodes_by_id topology;
     nic_map \<leftarrow> build_nic_to_network_map topology nbi;
     dup \<leftarrow> check_duplicate_ips topology nbi nic_map;
     ceph \<leftarrow> validate_ceph_lab_ips topology;
     Some (dup @ ceph)
   }"

definition bmc_error :: "json \<Rightarrow> topo_error list option" where
  "bmc_error node = do {
     data \<leftarrow> node_data node;
     t \<leftarrow> get node ''type'';
     if t \<noteq> NETWORK_NODE then Some []
     else do {
       nt \<leftarrow> get data ''networkType'';
       pw \<leftarrow> get data ''bmcPassword'';
       name \<leftarrow> get_or data ''name'' (JStr ''?'');
       Some (if nt = JStr ''bmc'' \<and> \<not> truthy pw then [Bmc_without_password name] else [])
     }
   }"

definition validate_topology_passwords :: "json \<Rightarrow> topo_error list option" where
  "validate_topology_passwords topology = do {
     ns \<leftarrow> topo_nodes topology;
     errs \<leftarrow> omap bmc_error ns;
     Some (concat errs)
   }"

section \<open>Warnings about reserved addresses\<close>

definition infra_offsets :: "(int \<times> claim) list" where
  "infra_offsets = [(1, Gateway_address), (2, Dnsmasq_address), (3, Exec_address), (9, Showroom_address)]"

definition add_infra_ips :: "claims \<Rightarrow> json \<Rightarrow> claims option" where
  "add_infra_ips infra node = do {
     b \<leftarrow> has_type ''networkNode'' node;
     if \<not> b then Some infra
     else do {
       data \<leftarrow> node_data node;
       cidr \<leftarrow> get_or data ''cidr'' (JStr []);
       if \<not> truthy cidr then Some infra
       else (case network_of_json cidr of
           None \<Rightarrow> Some infra
         | Some net \<Rightarrow> ofold (\<lambda>m ol. do {
             ip \<leftarrow> infra_ip net (fst ol);
             Some (AList.update ip (snd ol) m)
           }) infra infra_offsets)
     }
   }"

definition network_infra_ips :: "json \<Rightarrow> claims option" where
  "network_infra_ips topology = do { ns \<leftarrow> topo_nodes topology; ofold add_infra_ips [] ns }"

text \<open>\<open>v[:n]\<close>.\<close>

fun py_prefix :: "nat \<Rightarrow> json \<Rightarrow> json option" where
  "py_prefix n (JStr s) = Some (JStr (take n s))"
| "py_prefix n (JList xs) = Some (JList (take n xs))"
| "py_prefix n _ = None"

definition vm_infra_overlap_warnings :: "json \<Rightarrow> claims \<Rightarrow> topo_warning list option" where
  "vm_infra_overlap_warnings node infra = do {
     data \<leftarrow> node_data node;
     lb \<leftarrow> get data ''label'';
     nm \<leftarrow> get data ''name'';
     i \<leftarrow> get_or node ''id'' (JStr []);
     name \<leftarrow> (if truthy (py_or lb nm) then Some (py_or lb nm) else py_prefix 8 i);
     nv \<leftarrow> get_or data ''nics'' (JList []);
     nics \<leftarrow> iter nv;
     ws \<leftarrow> omap (\<lambda>nic. do {
       ip \<leftarrow> stripped_field nic ''ip'';
       Some (case map_of infra ip of None \<Rightarrow> [] | Some c \<Rightarrow> [Vm_overlaps name ip c])
     }) nics;
     Some (concat ws)
   }"

definition cluster_infra_overlap_warnings :: "json \<Rightarrow> claims \<Rightarrow> topo_warning list option" where
  "cluster_infra_overlap_warnings node infra = do {
     data \<leftarrow> node_data node;
     cname \<leftarrow> get_or data ''name'' (JStr ''cluster'');
     ws \<leftarrow> omap (\<lambda>(key, _, label). do {
       ip \<leftarrow> stripped_field data key;
       Some (case map_of infra ip of None \<Rightarrow> [] | Some c \<Rightarrow> [Cluster_overlaps cname label ip c])
     }) vip_keys;
     Some (concat ws)
   }"

definition node_overlap_warnings :: "claims \<Rightarrow> json \<Rightarrow> topo_warning list option" where
  "node_overlap_warnings infra node = do {
     t \<leftarrow> get node ''type'';
     if t = VM_NODE then vm_infra_overlap_warnings node infra
     else if t = JStr ''clusterNode'' then cluster_infra_overlap_warnings node infra
     else Some []
   }"

definition infra_ip_overlap_warnings :: "json \<Rightarrow> topo_warning list option" where
  "infra_ip_overlap_warnings topology = do {
     infra \<leftarrow> network_infra_ips topology;
     if infra = [] then Some []
     else do {
       ns \<leftarrow> topo_nodes topology;
       ws \<leftarrow> omap (node_overlap_warnings infra) ns;
       Some (concat ws)
     }
   }"

end
