(* ===== verification/Topology_Validation_Laws.thy ===== *)
theory Topology_Validation_Laws
  imports Topology_Validation
begin

text \<open>
  What an empty list of errors means. The loops over names and over NIC addresses have one
  contract, the locale \<open>claim_loop\<close>: each element claims some keys, and a key that is already taken
  costs an error.
\<close>

section \<open>Loops that claim keys\<close>

fun claim_keys :: "'k list \<Rightarrow> nat \<times> 'k set \<Rightarrow> nat \<times> 'k set" where
  "claim_keys [] s = s"
| "claim_keys (k # ks) s = claim_keys ks (if k \<in> snd s then (fst s + 1, snd s) else (fst s, insert k (snd s)))"

lemma claim_keys_append: "claim_keys (ks @ ls) s = claim_keys ls (claim_keys ks s)"
  by (induction ks arbitrary: s) auto

lemma claim_keys_count: "fst (claim_keys ks s) + card (set ks - snd s) = fst s + length ks"
proof (induction ks arbitrary: s)
  case (Cons k ks)
  show ?case
  proof (cases "k \<in> snd s")
    case True
    then have "set (k # ks) - snd s = set ks - snd s" by auto
    with True show ?thesis using Cons[of "(fst s + 1, snd s)"] by simp
  next
    case False
    then have "set (k # ks) - snd s = insert k (set ks - insert k (snd s))" by auto
    then have "card (set (k # ks) - snd s) = Suc (card (set ks - insert k (snd s)))" by simp
    with False show ?thesis using Cons[of "(fst s, insert k (snd s))"] by simp
  qed
qed simp

corollary claim_keys_none: "fst (claim_keys ks (0, {})) = 0 \<longleftrightarrow> distinct ks"
proof -
  have "fst (claim_keys ks (0, {})) + card (set ks) = length ks" using claim_keys_count[of ks "(0, {})"] by simp
  then show ?thesis using card_distinct[of ks] distinct_card[of ks] by auto
qed

definition claim_state :: "'e list \<times> ('k \<times> 'v) list \<Rightarrow> nat \<times> 'k set" where
  "claim_state st = (length (fst st), fst ` set (snd st))"

lemma claim_state_simps [simp]:
  "fst (claim_state st) = length (fst st)" "snd (claim_state st) = fst ` set (snd st)"
  "claim_state (es, AList.update k v m) = (length es, insert k (fst ` set m))"
  "claim_state (es @ [e], m) = (Suc (length es), fst ` set m)"
  by (simp_all add: claim_state_def dom_update)

locale claim_loop =
  fixes step :: "'e list \<times> ('k \<times> 'v) list \<Rightarrow> 'a \<Rightarrow> ('e list \<times> ('k \<times> 'v) list) option"
    and keys :: "'a \<Rightarrow> 'k list"
  assumes step_claims: "step st x = Some st' \<Longrightarrow> claim_state st' = claim_keys (keys x) (claim_state st)"
begin

lemma loop_claims: "ofold step st xs = Some st' \<Longrightarrow> claim_state st' = claim_keys (concat (map keys xs)) (claim_state st)"
  by (induction xs arbitrary: st) (auto simp: bind_eq_Some_conv claim_keys_append dest!: step_claims)

lemma no_errors_iff:
  assumes "ofold step ([], []) xs = Some st"
  shows "fst st = [] \<longleftrightarrow> distinct (concat (map keys xs))"
proof -
  have "claim_state st = claim_keys (concat (map keys xs)) (0, {})"
    using loop_claims[OF assms] by (simp add: claim_state_def)
  then have "length (fst st) = fst (claim_keys (concat (map keys xs)) (0, {}))" by (metis claim_state_def fst_conv)
  then show ?thesis using claim_keys_none[of "concat (map keys xs)"] by auto
qed

end

section \<open>Names and addresses\<close>

definition node_label :: "json \<Rightarrow> (string \<times> json) list" where
  "node_label node =
     (case do { data \<leftarrow> node_data node; nm \<leftarrow> get data ''name''; lb \<leftarrow> get_or data ''label'' (JStr []);
                t \<leftarrow> get node ''type''; Some (py_or nm lb, name_bucket t) } of
        Some (name, Some bucket) \<Rightarrow> if truthy name then [(bucket, name)] else []
      | _ \<Rightarrow> [])"

lemma name_step_claims:
  assumes "name_step st node = Some st'"
  shows "claim_state st' = claim_keys (node_label node) (claim_state st)"
proof -
  obtain data nm lb t where d: "node_data node = Some data" "get data ''name'' = Some nm"
    "get_or data ''label'' (JStr []) = Some lb" "get node ''type'' = Some t"
    using assms by (auto simp: name_step_def bind_eq_Some_conv Let_def)
  show ?thesis
  proof (cases "truthy (py_or nm lb) \<and> name_bucket t \<noteq> None")
    case False
    then show ?thesis using assms d by (auto simp: name_step_def node_label_def Let_def split: option.splits)
  next
    case True
    then obtain b where b: "name_bucket t = Some b" by auto
    then have label: "node_label node = [(b, py_or nm lb)]" using d True by (simp add: node_label_def)
    obtain k where k: "hkey (py_or nm lb) = Some k" using assms d True b by (auto simp: name_step_def Let_def bind_eq_Some_conv)
    then have "k = py_or nm lb" by (rule hkey_SomeD)
    with assms d True b k show ?thesis
      by (cases "(b, py_or nm lb) \<in> fst ` set (snd st)") (auto simp: name_step_def Let_def bind_eq_Some_conv label simp del: image_eqI)
  qed
qed

interpretation names: claim_loop name_step node_label
  by unfold_locales (rule name_step_claims)

definition node_nics :: "json \<Rightarrow> json list" where
  "node_nics node =
     (if is_workload node = Some True
      then (case do { data \<leftarrow> node_data node; nv \<leftarrow> get_or data ''nics'' (JList []); iter nv } of
          Some nics \<Rightarrow> nics
        | None \<Rightarrow> [])
      else [])"

definition nic_address :: "(json \<times> json) list \<Rightarrow> json \<Rightarrow> (json \<times> json) list" where
  "nic_address nic_map nic =
     (case do { ip \<leftarrow> get_or nic ''ip'' (JStr []); i \<leftarrow> index nic ''id'';
                net_id \<leftarrow> lookup nic_map i (JStr ''unconnected''); Some (net_id, ip) } of
        Some (net_id, ip) \<Rightarrow> if truthy ip then [(net_id, ip)] else []
      | None \<Rightarrow> [])"

definition node_addresses :: "(json \<times> json) list \<Rightarrow> json \<Rightarrow> (json \<times> json) list" where
  "node_addresses nic_map node = concat (map (nic_address nic_map) (node_nics node))"

lemma duplicate_ip_step_claims:
  assumes "duplicate_ip_step nbi nic_map vm st nic = Some st'"
  shows "claim_state st' = claim_keys (nic_address nic_map nic) (claim_state st)"
proof -
  obtain ip where ip: "get_or nic ''ip'' (JStr []) = Some ip"
    using assms by (auto simp: duplicate_ip_step_def bind_eq_Some_conv)
  show ?thesis
  proof (cases "truthy ip")
    case False
    then show ?thesis using assms ip by (auto simp: duplicate_ip_step_def nic_address_def bind_eq_Some_conv split: option.splits)
  next
    case True
    then obtain i net_id k net nd nn where
      i: "index nic ''id'' = Some i" "lookup nic_map i (JStr ''unconnected'') = Some net_id" and k: "hkey ip = Some k"
      and s: "st' = (case map_of (snd st) (net_id, k) of
          Some other \<Rightarrow> (fst st @ [Duplicate_ip ip nn other vm], snd st)
        | None \<Rightarrow> (fst st, AList.update (net_id, k) vm (snd st)))"
      using assms ip by (auto simp: duplicate_ip_step_def bind_eq_Some_conv split: option.splits)
    then have "k = ip" by (blast dest: hkey_SomeD)
    moreover have "nic_address nic_map nic = [(net_id, ip)]" using ip i True by (simp add: nic_address_def)
    ultimately show ?thesis
      using s by (cases "map_of (snd st) (net_id, ip)") (simp_all add: map_of_eq_None_iff, metis map_of_eq_None_iff option.distinct(1))
  qed
qed

interpretation nic_loop: claim_loop "duplicate_ip_step nbi nic_map vm" "nic_address nic_map" for nbi nic_map vm
  by unfold_locales (rule duplicate_ip_step_claims)

lemma duplicate_ip_node_claims:
  assumes "duplicate_ip_node nbi nic_map st node = Some st'"
  shows "claim_state st' = claim_keys (node_addresses nic_map node) (claim_state st)"
  using assms
  by (auto simp: duplicate_ip_node_def node_addresses_def node_nics_def bind_eq_Some_conv split: if_splits option.splits
      dest!: nic_loop.loop_claims)

interpretation addresses: claim_loop "duplicate_ip_node nbi nic_map" "node_addresses nic_map" for nbi nic_map
  by unfold_locales (rule duplicate_ip_node_claims)

section \<open>Ceph lab addresses\<close>

text \<open>The network a Ceph node names, its data and CIDR, and the lab address.\<close>

definition ceph_lab :: "json \<Rightarrow> json \<Rightarrow> (string \<times> json \<times> string \<times> string) option" where
  "ceph_lab topology node = do {
     data \<leftarrow> node_data node;
     network_ref \<leftarrow> stripped_field data ''networkRef'';
     nn \<leftarrow> network_node_by_id topology (JStr network_ref);
     net \<leftarrow> nn;
     net_data \<leftarrow> node_data net;
     cv \<leftarrow> get_or_else net_data ''cidr'' (JStr []);
     cidr \<leftarrow> py_str cv;
     given \<leftarrow> stripped_field data ''labIp'';
     Some (network_ref, net_data, cidr, if given = [] then default_ceph_lab_ip cidr else given)
   }"

lemma ofold_keeps:
  assumes "ofold f c xs = Some d" "\<And>x c d. f c x = Some d \<Longrightarrow> S c \<subseteq> S d"
  shows "S c \<subseteq> S d"
  using assms by (induction xs arbitrary: c) (auto simp: bind_eq_Some_conv, blast)

definition claimed_ips :: "claims \<Rightarrow> string set" where
  "claimed_ips c = fst ` set c"

lemma claimed_ips_update [simp]: "claimed_ips (AList.update k v c) = insert k (claimed_ips c)"
  by (simp add: claimed_ips_def dom_update)

lemma claim_vip_keys_keeps: "claim_vip_keys s n b c = Some d \<Longrightarrow> claimed_ips c \<subseteq> claimed_ips d"
  unfolding claim_vip_keys_def
  by (erule ofold_keeps) (auto simp: bind_eq_Some_conv Let_def split: if_splits prod.splits)

lemma cluster_vips_keep:
  "claim_topology_cluster_vips t n c = Some d \<Longrightarrow> claimed_ips c \<subseteq> claimed_ips d"
  "claim_cluster_node_vips t c = Some d \<Longrightarrow> claimed_ips c \<subseteq> claimed_ips d"
proof -
  assume "claim_topology_cluster_vips t n c = Some d"
  then show "claimed_ips c \<subseteq> claimed_ips d"
    unfolding claim_topology_cluster_vips_def bind_eq_Some_conv
    by (elim exE conjE ofold_keeps) (auto simp: bind_eq_Some_conv split: if_splits dest: claim_vip_keys_keeps)
next
  assume "claim_cluster_node_vips t c = Some d"
  then show "claimed_ips c \<subseteq> claimed_ips d"
    unfolding claim_cluster_node_vips_def bind_eq_Some_conv
    by (elim exE conjE ofold_keeps) (auto simp: bind_eq_Some_conv split: if_splits dest: claim_vip_keys_keeps)
qed

lemma dns_records_keep: "claim_dns_records_and_lb nd c = Some d \<Longrightarrow> claimed_ips c \<subseteq> claimed_ips d"
proof -
  assume "claim_dns_records_and_lb nd c = Some d"
  then obtain recs e where e: "ofold (\<lambda>c rec. do {
       ip \<leftarrow> stripped_field rec ''ip'';
       name \<leftarrow> get_or_else rec ''name'' (JStr ''dns record'');
       Some (if ip = [] then c else AList.update ip (Dns_record name) c)
     }) c recs = Some e" and d: "d = e \<or> (\<exists>ip. d = AList.update ip Load_balancer e)"
    by (auto simp: claim_dns_records_and_lb_def bind_eq_Some_conv split: if_splits)
  have "claimed_ips c \<subseteq> claimed_ips e"
    using e by (rule ofold_keeps) (auto simp: bind_eq_Some_conv)
  with d show ?thesis by (auto simp:)
qed

lemma claim_nic_keeps: "claim_nic n m name c nic = Some d \<Longrightarrow> claimed_ips c \<subseteq> claimed_ips d"
  by (auto simp: claim_nic_def bind_eq_Some_conv split: if_splits)

lemma claim_node_keeps: "claim_node_nics n m c node = Some d \<Longrightarrow> claimed_ips c \<subseteq> claimed_ips d"
  by (auto simp: claim_node_nics_def bind_eq_Some_conv split: if_splits elim: ofold_keeps[OF _ claim_nic_keeps, THEN subsetD])

text \<open>A loop that keeps what it claimed has claimed what each element claims.\<close>

lemma ofold_claims:
  assumes "ofold f c xs = Some d" "x \<in> set xs" "\<And>x c d. f c x = Some d \<Longrightarrow> S c \<subseteq> S d"
    and "\<And>c d. f c x = Some d \<Longrightarrow> k \<in> S d"
  shows "k \<in> S d"
  using assms
proof (induction xs arbitrary: c)
  case (Cons y ys)
  then obtain e where e: "f c y = Some e" "ofold f e ys = Some d" by (auto simp: bind_eq_Some_conv)
  show ?case
  proof (cases "x = y")
    case True
    then have "k \<in> S e" using Cons.prems(4) e(1) by blast
    then show ?thesis using ofold_keeps[of f e ys d S] e(2) Cons.prems(3) by blast
  next
    case False
    then show ?thesis using Cons.IH[OF e(2)] Cons.prems by auto
  qed
qed simp

lemma node_nicsD:
  assumes "nic \<in> set (node_nics w)"
  shows "\<exists>data nv. is_workload w = Some True \<and> node_data w = Some data \<and> get_or data ''nics'' (JList []) = Some nv \<and>
    iter nv = Some (node_nics w)"
proof -
  have w: "is_workload w = Some True" using assms by (cases "is_workload w = Some True") (simp_all add: node_nics_def)
  obtain nics where "do { data \<leftarrow> node_data w; nv \<leftarrow> get_or data ''nics'' (JList []); iter nv } = Some nics"
    using assms w by (cases "do { data \<leftarrow> node_data w; nv \<leftarrow> get_or data ''nics'' (JList []); iter nv }") (simp_all add: node_nics_def)
  with w show ?thesis by (auto simp: node_nics_def bind_eq_Some_conv)
qed

lemma nics_claimed:
  assumes "claim_nic_ips_for_network t ref nic_map c = Some d" "topo_nodes t = Some ns"
    and "w \<in> set ns" "nic \<in> set (node_nics w)" "get_or nic ''id'' (JStr []) = Some i" "lookup nic_map i JNull = Some ref"
    and "stripped_field nic ''ip'' = Some ip" "ip \<noteq> []"
  shows "ip \<in> claimed_ips d"
proof -
  have loop: "ofold (claim_node_nics ref nic_map) c ns = Some d"
    using assms(1,2) by (simp add: claim_nic_ips_for_network_def)
  have nic: "ip \<in> claimed_ips d'" if "claim_nic ref nic_map name c' nic = Some d'" for name c' d'
    using that assms(5-8) by (auto simp: claim_nic_def)
  have node: "ip \<in> claimed_ips d'" if w: "claim_node_nics ref nic_map c' w = Some d'" for c' d'
  proof -
    obtain name where fold: "ofold (claim_nic ref nic_map name) c' (node_nics w) = Some d'"
      using w node_nicsD[OF assms(4)] by (auto simp: claim_node_nics_def bind_eq_Some_conv)
    show ?thesis by (rule ofold_claims[where S = claimed_ips, OF fold assms(4)]) (blast intro: nic claim_nic_keeps[THEN subsetD])+
  qed
  show ?thesis by (rule ofold_claims[where S = claimed_ips, OF loop assms(3)]) (blast intro: node claim_node_keeps[THEN subsetD])+
qed

lemma collect_keeps:
  assumes "collect_ips_on_network t ref nbi nic_map = Some claimed" "network_node_by_id t ref = Some (Some net)"
    and map: "nodes_by_id t = Some nbi" "build_nic_to_network_map t nbi = Some nic_map"
  shows "\<exists>nd cv cidr c1 c2. node_data net = Some nd \<and> get_or_else nd ''cidr'' (JStr []) = Some cv \<and> py_str cv = Some cidr \<and>
    claimed_ips (claim_cidr_infra_ips cidr []) \<subseteq> claimed_ips c1 \<and>
    claim_nic_ips_for_network t ref nic_map c1 = Some c2 \<and>
    claimed_ips c1 \<subseteq> claimed_ips c2 \<and> claimed_ips c2 \<subseteq> claimed_ips claimed"
proof -
  obtain nd cv cidr c1 c2 c3 where s: "node_data net = Some nd" "get_or_else nd ''cidr'' (JStr []) = Some cv" "py_str cv = Some cidr"
    "claim_dns_records_and_lb nd (claim_cidr_infra_ips cidr []) = Some c1"
    "claim_nic_ips_for_network t ref nic_map c1 = Some c2" "claim_topology_cluster_vips t ref c2 = Some c3"
    "claim_cluster_node_vips t c3 = Some claimed"
  proof -
    have "(if nbi \<noteq> [] then Some nbi else nodes_by_id t) = Some nbi"
      "(if nic_map \<noteq> [] then Some nic_map else build_nic_to_network_map t nbi) = Some nic_map" using map by simp_all
    then show thesis using assms(1,2) that by (auto simp: collect_ips_on_network_def bind_eq_Some_conv)
  qed
  moreover have "claimed_ips (claim_cidr_infra_ips cidr []) \<subseteq> claimed_ips c1" using s(4) by (rule dns_records_keep)
  moreover have "claimed_ips c1 \<subseteq> claimed_ips c2"
    using s(5) by (auto simp: claim_nic_ips_for_network_def bind_eq_Some_conv elim!: ofold_keeps[OF _ claim_node_keeps, THEN subsetD])
  moreover have "claimed_ips c2 \<subseteq> claimed_ips claimed" using cluster_vips_keep s(6,7) by blast
  ultimately show ?thesis by blast
qed

definition ceph_placed :: "json \<Rightarrow> json list \<Rightarrow> (json \<times> json) list \<Rightarrow> json \<Rightarrow> bool" where
  "ceph_placed topology ns nic_map node =
     (case ceph_lab topology node of
        None \<Rightarrow> False
      | Some (network_ref, net_data, cidr, ip) \<Rightarrow>
          (case addr_of_text ip of
             None \<Rightarrow> False
           | Some a \<Rightarrow>
               (cidr = [] \<or> (case ip_network cidr of
                   None \<Rightarrow> False
                 | Some net \<Rightarrow> in_network a net \<and> ip \<notin> claimed_ips (claim_cidr_infra_ips cidr []))) \<and>
               lab_ip_in_dhcp_pool ip net_data = Some False \<and>
               list_all (\<lambda>w. list_all (\<lambda>nic.
                   Option.bind (get_or nic ''id'' (JStr [])) (\<lambda>i. lookup nic_map i JNull) = Some (JStr network_ref) \<longrightarrow>
                   stripped_field nic ''ip'' \<noteq> Some ip) (node_nics w)) ns))"

lemma validated_ceph_placed:
  assumes "validate_one_ceph_lab_ip node t nbi nic_map = Some []" "topo_nodes t = Some ns"
    and map: "nodes_by_id t = Some nbi" "build_nic_to_network_map t nbi = Some nic_map"
  shows "ceph_placed t ns nic_map node"
proof -
  obtain data nm lb ref nn where d: "node_data node = Some data" "stripped_field data ''networkRef'' = Some ref"
    "get data ''name'' = Some nm" "get data ''label'' = Some lb"
    "network_node_by_id t (JStr ref) = Some nn"
    using assms(1) by (auto simp: validate_one_ceph_lab_ip_def bind_eq_Some_conv Let_def)
  from assms(1) d obtain net nd nl cv cidr given where n: "nn = Some net" "node_data net = Some nd" "get nd ''name'' = Some nl"
    "get_or_else nd ''cidr'' (JStr []) = Some cv" "py_str cv = Some cidr" "stripped_field data ''labIp'' = Some given"
    by (auto simp: validate_one_ceph_lab_ip_def bind_eq_Some_conv Let_def split: option.splits if_splits)
  define ip where "ip = (if given = [] then default_ceph_lab_ip cidr else given)"
  have lab: "ceph_lab t node = Some (ref, nd, cidr, ip)" using d n by (simp add: ceph_lab_def ip_def)
  from assms(1) d n obtain claimed where c: "ip \<noteq> []"
    "ceph_lab_ip_cidr_error ip cidr (py_or nm (py_or lb (JStr ''Ceph Storage''))) (py_or nl (JStr ref)) = None"
    "collect_ips_on_network t (JStr ref) nbi nic_map = Some claimed"
    "ceph_lab_ip_conflict_error ip (py_or nm (py_or lb (JStr ''Ceph Storage''))) (py_or nl (JStr ref)) nd claimed = Some []"
    by (auto simp: validate_one_ceph_lab_ip_def bind_eq_Some_conv Let_def ip_def split: option.splits if_splits)
  from c(4) have free: "ip \<notin> claimed_ips claimed" and pool: "lab_ip_in_dhcp_pool ip nd = Some False"
    by (auto simp: ceph_lab_ip_conflict_error_def bind_eq_Some_conv map_of_eq_None_iff claimed_ips_def split: option.splits if_splits)
  obtain c1 c2 where k: "claimed_ips (claim_cidr_infra_ips cidr []) \<subseteq> claimed_ips c1"
    "claim_nic_ips_for_network t (JStr ref) nic_map c1 = Some c2"
    "claimed_ips c1 \<subseteq> claimed_ips c2" "claimed_ips c2 \<subseteq> claimed_ips claimed"
    using collect_keeps[OF c(3) _ map] d n by auto
  have nics: "stripped_field nic ''ip'' \<noteq> Some ip"
    if "w \<in> set ns" "nic \<in> set (node_nics w)"
      "Option.bind (get_or nic ''id'' (JStr [])) (\<lambda>i. lookup nic_map i JNull) = Some (JStr ref)" for w nic
    using that nics_claimed[OF k(2) assms(2)] free k(4) c(1) unfolding bind_eq_Some_conv by blast
  show ?thesis
    using c(2) free k pool nics
    by (auto simp: ceph_placed_def lab ceph_lab_ip_cidr_error_def list_all_iff split: option.splits if_splits)
qed


definition canvas_vm :: "string \<Rightarrow> string \<Rightarrow> string \<Rightarrow> json" where
  "canvas_vm name nic ip = JObj [(''id'', JStr name), (''type'', JStr ''vmNode''),
     (''data'', JObj [(''name'', JStr name), (''nics'', JList [JObj [(''id'', JStr nic), (''ip'', JStr ip)]])])]"

definition canvas_edge :: "string \<Rightarrow> string \<Rightarrow> json" where
  "canvas_edge vm nic = JObj [(''source'', JStr ''net''), (''target'', JStr vm), (''targetHandle'', JStr (''nic-'' @ nic @ ''-top''))]"

definition ceph_canvas :: json where
  "ceph_canvas = JObj [(''nodes'', JList [
      JObj [(''id'', JStr ''net''), (''type'', JStr ''networkNode''),
        (''data'', JObj [(''name'', JStr ''lab''), (''cidr'', JStr ''10.0.0.0/24''), (''dhcp'', JBool True)])],
      canvas_vm ''a'' ''n1'' ''10.0.0.5'', canvas_vm ''b'' ''n2'' ''10.0.0.6'',
      JObj [(''id'', JStr ''ceph''), (''type'', JStr ''cephClusterNode''), (''data'', JObj [(''networkRef'', JStr ''net'')])]]),
     (''edges'', JList [canvas_edge ''a'' ''n1'', canvas_edge ''b'' ''n2''])]"


end
