(* ===== verification/Showroom.thy ===== *)
theory Showroom
  imports Topology_Json Vxlan_Gateway
begin

text \<open>
  The showroom and the gateway in \<open>deploy_topology.py\<close>: the forwards and outbound ports that a
  showroom needs are put on the gateway before every deployment, and taken away when the showroom
  is gone. The functions change the topology in place; here they return whether they report a
  change and the new document. The identifier of a new external address is a parameter.
\<close>

section \<open>Nodes\<close>

definition is_gateway_node :: "json \<Rightarrow> bool option" where
  "is_gateway_node node =
     (if \<not> truthy node then Some False
      else do {
        t \<leftarrow> get node ''type'';
        if t \<noteq> NETWORK_NODE then Some False
        else do { data \<leftarrow> node_data node; s \<leftarrow> get data ''subtype''; Some (s = JStr ''gateway'') }
      })"

definition find_gateway_node :: "json \<Rightarrow> json option option" where
  "find_gateway_node topology = do { ns \<leftarrow> topo_nodes topology; ofind is_gateway_node ns }"

definition plain_subtypes :: "json list" where
  "plain_subtypes = [JNull, JStr ''network'', JStr ''dhcp'', JStr ''dns'']"

definition is_plain_network :: "json \<Rightarrow> bool option" where
  "is_plain_network node =
     (if \<not> truthy node then Some False
      else do {
        t \<leftarrow> get node ''type'';
        if t \<noteq> NETWORK_NODE then Some False
        else do { data \<leftarrow> node_data node; s \<leftarrow> get data ''subtype''; Some (s \<in> set plain_subtypes) }
      })"

text \<open>The gateway is changed in place: the first gateway node of the list.\<close>

fun put_gateway :: "json \<Rightarrow> json list \<Rightarrow> json list option" where
  "put_gateway g [] = Some []"
| "put_gateway g (n # ns) = do {
     b \<leftarrow> is_gateway_node n;
     if b then Some (g # ns) else map_option ((#) n) (put_gateway g ns)
   }"

definition with_gateway_data :: "json \<Rightarrow> json \<Rightarrow> json \<Rightarrow> json option" where
  "with_gateway_data topology gateway data = do {
     g \<leftarrow> set_item gateway ''data'' data;
     ns \<leftarrow> topo_nodes topology;
     ns' \<leftarrow> put_gateway g ns;
     set_item topology ''nodes'' (JList ns')
   }"

section \<open>Outbound ports\<close>

definition SHOWROOM_MANAGED_OUTBOUND_PORTS :: "string list" where
  "SHOWROOM_MANAGED_OUTBOUND_PORTS = [''53'', ''443'']"

definition parse_outbound_port_entries :: "string \<Rightarrow> string list" where
  "parse_outbound_port_entries outbound_ports =
     filter (\<lambda>p. p \<noteq> []) (map py_strip (py_split (CHR '','') outbound_ports))"

definition entry_has_port :: "string \<Rightarrow> string \<Rightarrow> bool" where
  "entry_has_port entry port =
     (entry = port \<or> CHR ''/'' \<in> set entry \<and> takeWhile (\<lambda>c. c \<noteq> CHR ''/'') entry = port)"

definition outbound_entries_include_port :: "string list \<Rightarrow> string \<Rightarrow> bool" where
  "outbound_entries_include_port entries port = list_ex (\<lambda>e. entry_has_port e port) entries"

fun join_commas :: "string list \<Rightarrow> string" where
  "join_commas [] = []"
| "join_commas [x] = x"
| "join_commas (x # y # ys) = x @ CHR '','' # join_commas (y # ys)"

definition add_port :: "string list \<times> string list \<Rightarrow> string \<Rightarrow> string list \<times> string list" where
  "add_port st port =
     (if outbound_entries_include_port (fst st) port then st else (fst st @ [port], snd st @ [port]))"

definition inject_showroom_outbound_ports :: "string \<Rightarrow> string \<times> string list" where
  "inject_showroom_outbound_ports outbound_ports =
     (let (entries, added) =
        foldl add_port (parse_outbound_port_entries outbound_ports, []) SHOWROOM_MANAGED_OUTBOUND_PORTS
      in (join_commas entries, added))"

definition strip_showroom_outbound_ports :: "string \<Rightarrow> json list \<Rightarrow> string option" where
  "strip_showroom_outbound_ports outbound_ports managed =
     (if managed = [] then Some outbound_ports
      else do {
        ks \<leftarrow> omap hkey managed;
        Some (join_commas (filter (\<lambda>e. JStr e \<notin> set ks \<and>
            \<not> (CHR ''/'' \<in> set e \<and> JStr (takeWhile (\<lambda>c. c \<noteq> CHR ''/'') e) \<in> set ks))
          (parse_outbound_port_entries outbound_ports)))
      })"

definition text_field :: "json \<Rightarrow> string \<Rightarrow> string option" where
  "text_field d k = do { v \<leftarrow> get_or_else d k (JStr []); py_str v }"

definition list_field :: "json \<Rightarrow> string \<Rightarrow> json list option" where
  "list_field d k = do { v \<leftarrow> get_or_else d k (JList []); iter v }"

definition RESTRICT :: json where "RESTRICT = JStr ''restrict''"

definition gateway_allows_dns_upstream :: "json \<Rightarrow> bool option" where
  "gateway_allows_dns_upstream gateway_data = do {
     policy \<leftarrow> get_or gateway_data ''outboundPolicy'' (JStr ''allow-all'');
     if policy \<noteq> RESTRICT then Some True
     else do {
       ports \<leftarrow> text_field gateway_data ''outboundPorts'';
       Some (outbound_entries_include_port (parse_outbound_port_entries ports) ''53'')
     }
   }"

definition ensure_showroom_restrict_outbound :: "json \<Rightarrow> (bool \<times> json) option" where
  "ensure_showroom_restrict_outbound data = do {
     policy \<leftarrow> get data ''outboundPolicy'';
     if policy \<noteq> RESTRICT then Some (False, data)
     else do {
       ports \<leftarrow> text_field data ''outboundPorts'';
       let (new_ports, added) = inject_showroom_outbound_ports ports;
       if added = [] then Some (False, data)
       else do {
         d1 \<leftarrow> set_item data ''outboundPorts'' (JStr new_ports);
         managed \<leftarrow> list_field d1 ''showroomManagedOutbound'';
         ks \<leftarrow> omap hkey managed;
         d2 \<leftarrow> set_item d1 ''showroomManagedOutbound''
           (JList (foldl (\<lambda>acc x. add_once x acc) [] (ks @ map JStr added)));
         Some (True, d2)
       }
     }
   }"

section \<open>Forwards\<close>

definition web_port :: "json \<Rightarrow> bool" where
  "web_port p = (str_is p ''443'' \<or> str_is p ''80'')"

definition is_showroom_infra_ip :: "json \<Rightarrow> bool option" where
  "is_showroom_infra_ip ip = do {
     s \<leftarrow> as_str (py_or ip (JStr []));
     Some (case py_split (CHR ''.'') s of
         [a, b, _, d] \<Rightarrow> a = ''172'' \<and> b = ''30'' \<and> d = ''3''
       | _ \<Rightarrow> False)
   }"

definition is_showroom_managed_forward :: "json \<Rightarrow> bool option" where
  "is_showroom_managed_forward pf = do {
     m \<leftarrow> get pf ''managedByShowroom'';
     ep \<leftarrow> get pf ''extPort'';
     ip \<leftarrow> get pf ''intPort'';
     if truthy m then Some True
     else if \<not> (str_is ep ''443'' \<and> str_is ip ''80'') then Some False
     else do {
       ii \<leftarrow> get pf ''intIp'';
       s \<leftarrow> as_str (py_or ii (JStr []));
       Some (starts_with (py_strip s) ''172.30.'' \<and> ends_with (py_strip s) ''.3'')
     }
   }"

definition keeps_beside_showroom :: "json \<Rightarrow> bool option" where
  "keeps_beside_showroom pf = do {
     ii \<leftarrow> get_or pf ''intIp'' (JStr []);
     infra \<leftarrow> is_showroom_infra_ip ii;
     m \<leftarrow> get pf ''managedByShowroom'';
     ep \<leftarrow> get pf ''extPort'';
     Some (infra \<or> truthy m \<or> \<not> web_port ep)
   }"

definition filter_non_showroom_web_forwards :: "json list \<Rightarrow> json list option" where
  "filter_non_showroom_web_forwards merged = ofilter keeps_beside_showroom merged"

definition served_by_route :: "json \<Rightarrow> bool option" where
  "served_by_route pf = do {
     ep \<leftarrow> get pf ''extPort'';
     ip \<leftarrow> get pf ''intPort'';
     Some (web_port ep \<or> str_is ep ''6443'' \<or>
       (case py_str (py_or ip (JStr [])) of None \<Rightarrow> False | Some t \<Rightarrow> py_strip t = ''6443''))
   }"

definition bind_one_forward_eip :: "string \<Rightarrow> bool \<Rightarrow> json \<Rightarrow> json option" where
  "bind_one_forward_eip eip_id route_web pf = do {
     m \<leftarrow> is_showroom_managed_forward pf;
     entry \<leftarrow> (if m then set_item pf ''managedByShowroom'' (JBool True) else Some pf);
     route \<leftarrow> served_by_route pf;
     if route_web \<and> route then pop_item entry ''extIpId''
     else if eip_id \<noteq> [] then do {
       x \<leftarrow> get_or_else pf ''extIpId'' (JStr eip_id);
       set_item entry ''extIpId'' x }
     else Some entry
   }"

definition bind_showroom_forwards_to_eip :: "json list \<Rightarrow> string \<Rightarrow> bool \<Rightarrow> json list option" where
  "bind_showroom_forwards_to_eip merged eip_id route_web =
     (if eip_id = [] \<and> \<not> route_web then Some merged
      else omap (bind_one_forward_eip eip_id route_web) merged)"

definition PORTFORWARD :: json where "PORTFORWARD = JStr ''nat-portforward''"
definition NAT :: json where "NAT = JStr ''nat''"

definition desired_showroom_gateway_mode :: "json list \<Rightarrow> json option" where
  "desired_showroom_gateway_mode merged = do {
     b \<leftarrow> oany (\<lambda>pf. do {
       x \<leftarrow> get pf ''extIpId'';
       m \<leftarrow> get pf ''managedByShowroom'';
       Some (truthy x \<or> truthy m)
     }) merged;
     Some (if b then PORTFORWARD else NAT)
   }"

definition apply_showroom_gateway_mode :: "json \<Rightarrow> json list \<Rightarrow> (bool \<times> json) option" where
  "apply_showroom_gateway_mode data merged = do {
     desired \<leftarrow> desired_showroom_gateway_mode merged;
     mode \<leftarrow> get data ''gatewayMode'';
     if mode \<noteq> desired then map_option (Pair True) (set_item data ''gatewayMode'' desired)
     else Some (False, data)
   }"

section \<open>External addresses\<close>

definition external_ips :: "json \<Rightarrow> json list option" where
  "external_ips topology = do { v \<leftarrow> get_or_else topology ''externalIps'' (JList []); as_list v }"

definition is_user_added_external_ip :: "json \<Rightarrow> bool option" where
  "is_user_added_external_ip eip = map_option (\<lambda>v. v = JBool False) (get eip ''auto'')"

definition auto_external_ip :: "string \<Rightarrow> json" where
  "auto_external_ip fresh =
     JObj [(''id'', JStr fresh), (''name'', JStr ''IP-1''), (''ip'', JStr []), (''auto'', JBool True)]"

definition ensure_showroom_external_ips :: "string \<Rightarrow> json \<Rightarrow> (bool \<times> json) option" where
  "ensure_showroom_external_ips fresh topology = do {
     has \<leftarrow> topology_has_showroom topology;
     if \<not> has then Some (False, topology)
     else do {
       gw \<leftarrow> find_gateway_node topology;
       ext \<leftarrow> get topology ''externalIps'';
       if gw = None \<or> truthy ext then Some (False, topology)
       else map_option (Pair True) (set_item topology ''externalIps'' (JList [auto_external_ip fresh]))
     }
   }"

definition strip_auto_showroom_external_ip :: "json \<Rightarrow> (bool \<times> json) option" where
  "strip_auto_showroom_external_ip topology = do {
     ext \<leftarrow> external_ips topology;
     (case ext of
        [e] \<Rightarrow> do {
          user \<leftarrow> is_user_added_external_ip e;
          name \<leftarrow> get e ''name'';
          vm \<leftarrow> get e ''vmId'';
          if \<not> user \<and> name = JStr ''IP-1'' \<and> \<not> truthy vm
          then map_option (Pair True) (set_item topology ''externalIps'' (JList []))
          else Some (False, topology)
        }
      | _ \<Rightarrow> Some (False, topology))
   }"

definition maybe_strip_unused_auto_external_ip :: "json \<Rightarrow> json list \<Rightarrow> (bool \<times> json) option" where
  "maybe_strip_unused_auto_external_ip topology gateway_pfs = do {
     ext \<leftarrow> external_ips topology;
     (case ext of
        [e] \<Rightarrow> do {
          user \<leftarrow> is_user_added_external_ip e;
          ip \<leftarrow> get e ''ip'';
          name \<leftarrow> get e ''name'';
          i \<leftarrow> get e ''id'';
          if user \<or> truthy ip \<or> name \<noteq> JStr ''IP-1'' then Some (False, topology)
          else do {
            used \<leftarrow> oany (\<lambda>pf. map_option (\<lambda>x. py_eq x i) (get pf ''extIpId'')) gateway_pfs;
            if used then Some (False, topology)
            else map_option (Pair True) (set_item topology ''externalIps'' (JList []))
          }
        }
      | _ \<Rightarrow> Some (False, topology))
   }"

definition showroom_needs_eip :: "json option \<Rightarrow> bool \<Rightarrow> bool option" where
  "showroom_needs_eip gateway route_web =
     (if \<not> route_web then Some True
      else (case gateway of
          None \<Rightarrow> Some False
        | Some g \<Rightarrow> do {
            data \<leftarrow> node_data g;
            pfs \<leftarrow> list_field data ''portForwards'';
            oany (\<lambda>pf. map_option (\<lambda>p. \<not> web_port p) (get pf ''extPort'')) pfs
          }))"

section \<open>Putting the showroom on the gateway\<close>

definition merged_forwards :: "json \<Rightarrow> (json \<times> int) list \<Rightarrow> bool \<Rightarrow> json list \<Rightarrow> json list option" where
  "merged_forwards topology vni_map route_web existing = do {
     let first_vni = (case vni_map of [] \<Rightarrow> None | (_, v) # rest \<Rightarrow> Some (foldl min v (map snd rest)));
     injected \<leftarrow> inject_showroom_port_forward existing topology first_vni route_web;
     kept \<leftarrow> filter_non_showroom_web_forwards injected;
     ext \<leftarrow> external_ips topology;
     eip_id \<leftarrow> (case ext of [] \<Rightarrow> Some [] | e # _ \<Rightarrow> do { i \<leftarrow> get_or e ''id'' (JStr []); py_str i });
     bind_showroom_forwards_to_eip kept eip_id route_web
   }"

definition put_forwards :: "json \<Rightarrow> json list \<Rightarrow> json list \<Rightarrow> (bool \<times> json) option" where
  "put_forwards data existing merged =
     (if list_all2 py_eq merged existing then Some (False, data)
      else map_option (Pair True) (set_item data ''portForwards'' (JList merged)))"

definition sync_showroom_gateway_forwards ::
    "json \<Rightarrow> json \<Rightarrow> (json \<times> int) list \<Rightarrow> bool \<Rightarrow> (bool \<times> json) option" where
  "sync_showroom_gateway_forwards topology gateway vni_map route_web = do {
     data \<leftarrow> node_data gateway;
     existing \<leftarrow> list_field data ''portForwards'';
     merged \<leftarrow> merged_forwards topology vni_map route_web existing;
     (c1, d1) \<leftarrow> put_forwards data existing merged;
     (c2, d2) \<leftarrow> apply_showroom_gateway_mode d1 merged;
     (c3, d3) \<leftarrow> ensure_showroom_restrict_outbound d2;
     t \<leftarrow> with_gateway_data topology gateway d3;
     Some (c1 \<or> c2 \<or> c3, t)
   }"

section \<open>Taking the showroom off the gateway\<close>

definition strip_forwards :: "json \<Rightarrow> (bool \<times> json list \<times> json) option" where
  "strip_forwards data = do {
     existing \<leftarrow> list_field data ''portForwards'';
     stripped \<leftarrow> ofilter (\<lambda>pf. map_option Not (is_showroom_infra_forward pf)) existing;
     if stripped = existing then Some (False, existing, data)
     else do {
       d1 \<leftarrow> set_item data ''portForwards'' (JList stripped);
       mode \<leftarrow> get d1 ''gatewayMode'';
       d2 \<leftarrow> (if stripped = [] \<and> mode = PORTFORWARD then set_item d1 ''gatewayMode'' NAT else Some d1);
       Some (True, stripped, d2)
     }
   }"

definition strip_outbound :: "json \<Rightarrow> (bool \<times> json) option" where
  "strip_outbound data = do {
     policy \<leftarrow> get data ''outboundPolicy'';
     if policy \<noteq> RESTRICT then Some (False, data)
     else do {
       managed \<leftarrow> list_field data ''showroomManagedOutbound'';
       if managed = [] then Some (False, data)
       else do {
         ports \<leftarrow> text_field data ''outboundPorts'';
         new_ports \<leftarrow> strip_showroom_outbound_ports ports managed;
         d1 \<leftarrow> (if new_ports \<noteq> ports then set_item data ''outboundPorts'' (JStr new_ports) else Some data);
         d2 \<leftarrow> pop_item d1 ''showroomManagedOutbound'';
         Some (new_ports \<noteq> ports, d2)
       }
     }
   }"

definition strip_gateway_showroom_forwards :: "json \<Rightarrow> (bool \<times> json list \<times> json) option" where
  "strip_gateway_showroom_forwards data = do {
     (c1, pfs, d1) \<leftarrow> strip_forwards data;
     (c2, d2) \<leftarrow> strip_outbound d1;
     Some (c1 \<or> c2, pfs, d2)
   }"

definition strip_showroom_gateway_access :: "json \<Rightarrow> (bool \<times> json) option" where
  "strip_showroom_gateway_access topology = do {
     gw \<leftarrow> find_gateway_node topology;
     (c1, pfs, t1) \<leftarrow> (case gw of
         None \<Rightarrow> Some (False, [], topology)
       | Some g \<Rightarrow> do {
           data \<leftarrow> node_data g;
           (c, pfs, d) \<leftarrow> strip_gateway_showroom_forwards data;
           t \<leftarrow> with_gateway_data topology g d;
           Some (c, pfs, t)
         });
     (c2, t2) \<leftarrow> maybe_strip_unused_auto_external_ip t1 pfs;
     Some (c1 \<or> c2, t2)
   }"

section \<open>The entry point\<close>

definition ROUTE_PROVIDERS :: "string list" where
  "ROUTE_PROVIDERS = [''ocpvirt'', ''kubevirt'']"

definition inject_showroom_gateway_port_forwards ::
    "string \<Rightarrow> json \<Rightarrow> (json \<times> int) list \<Rightarrow> string option \<Rightarrow> (bool \<times> json) option" where
  "inject_showroom_gateway_port_forwards fresh topology vni_map ptype = do {
     has \<leftarrow> topology_has_showroom topology;
     if \<not> has then strip_showroom_gateway_access topology
     else do {
       gw \<leftarrow> find_gateway_node topology;
       let route_web = (case ptype of None \<Rightarrow> False | Some p \<Rightarrow> p \<in> set ROUTE_PROVIDERS);
       needs \<leftarrow> showroom_needs_eip gw route_web;
       (c1, t1) \<leftarrow> (if needs then ensure_showroom_external_ips fresh topology
                     else strip_auto_showroom_external_ip topology);
       (case gw of
          None \<Rightarrow> Some (c1, t1)
        | Some g \<Rightarrow> do {
            (c2, t2) \<leftarrow> sync_showroom_gateway_forwards t1 g vni_map route_web;
            Some (c1 \<or> c2, t2)
          })
     }
   }"

end
