(* ===== verification/Showroom_Ports.thy ===== *)
theory Showroom_Ports
  imports Showroom
begin

text \<open>
  The outbound ports of the gateway: what the showroom adds is exactly what stripping takes away.
\<close>

definition clean_entry :: "string \<Rightarrow> bool" where
  "clean_entry e \<longleftrightarrow> e \<noteq> [] \<and> py_strip e = e \<and> CHR '','' \<notin> set e"

lemma dropWhile_id: "dropWhile P (dropWhile P xs) = dropWhile P xs"
  by (induction xs) auto

lemma dropWhile_rev_dropWhile:
  "dropWhile P (rev (dropWhile P (rev (dropWhile P xs)))) = rev (dropWhile P (rev (dropWhile P xs)))"
proof (cases "dropWhile P xs")
  case (Cons y ys)
  then have "\<not> P y" using hd_dropWhile[of P xs] by simp
  then have "dropWhile P (rev ys @ [y]) = dropWhile P (rev ys) @ [y]"
    by (cases "\<forall>x \<in> set ys. P x") (auto simp: dropWhile_append dropWhile_eq_Nil_conv)
  with \<open>\<not> P y\<close> Cons show ?thesis by simp
next
  case Nil
  show ?thesis unfolding Nil by simp
qed

lemma py_strip_idem [simp]: "py_strip (py_strip s) = py_strip s"
  by (simp add: py_strip_def dropWhile_rev_dropWhile dropWhile_id)

lemma set_py_strip: "set (py_strip s) \<subseteq> set s"
  by (auto simp: py_strip_def dest!: set_dropWhileD)

lemma py_split_pieces: "p \<in> set (py_split c s) \<Longrightarrow> c \<notin> set p"
proof (induction s arbitrary: p)
  case (Cons x xs)
  then show ?case by (cases "py_split c xs") (auto split: if_splits)
qed simp

lemma parse_clean: "e \<in> set (parse_outbound_port_entries s) \<Longrightarrow> clean_entry e"
  using set_py_strip py_split_pieces by (fastforce simp: parse_outbound_port_entries_def clean_entry_def)

lemma split_join: "es \<noteq> [] \<Longrightarrow> \<forall>e \<in> set es. CHR '','' \<notin> set e \<Longrightarrow> py_split (CHR '','') (join_commas es) = es"
  by (induction es rule: join_commas.induct) (simp_all add: py_split_no_sep py_split_sep)

lemma parse_join:
  assumes "\<forall>e \<in> set es. clean_entry e"
  shows "parse_outbound_port_entries (join_commas es) = es"
proof (cases "es = []")
  case True
  then show ?thesis by (simp add: parse_outbound_port_entries_def py_strip_def)
next
  case False
  then have "py_split (CHR '','') (join_commas es) = es" using assms by (intro split_join) (auto simp: clean_entry_def)
  moreover have "map py_strip es = es" using assms by (intro map_idI) (auto simp: clean_entry_def)
  moreover have "filter (\<lambda>p. p \<noteq> []) es = es" using assms by (intro filter_True) (auto simp: clean_entry_def)
  ultimately show ?thesis by (simp add: parse_outbound_port_entries_def)
qed

lemma managed_ports: "clean_entry ''53''" "clean_entry ''443''" "\<not> entry_has_port ''53'' ''443''" "\<not> entry_has_port ''443'' ''53''"
  by (simp_all add: clean_entry_def entry_has_port_def py_strip_def is_blank_def)

definition missing_ports :: "string list \<Rightarrow> string list" where
  "missing_ports es = filter (\<lambda>p. \<not> outbound_entries_include_port es p) SHOWROOM_MANAGED_OUTBOUND_PORTS"

lemma missing_clean: "p \<in> set (missing_ports es) \<Longrightarrow> clean_entry p"
  using managed_ports(1,2) by (auto simp: missing_ports_def SHOWROOM_MANAGED_OUTBOUND_PORTS_def split: if_splits)

lemma inject_ports_eq:
  "inject_showroom_outbound_ports s =
     (let es = parse_outbound_port_entries s in (join_commas (es @ missing_ports es), missing_ports es))"
  using managed_ports(3,4)
  by (simp add: inject_showroom_outbound_ports_def SHOWROOM_MANAGED_OUTBOUND_PORTS_def add_port_def missing_ports_def
      outbound_entries_include_port_def Let_def)

lemma injected_parse:
  assumes "inject_showroom_outbound_ports s = (s', added)"
  shows "parse_outbound_port_entries s' = parse_outbound_port_entries s @ added"
    and "added = missing_ports (parse_outbound_port_entries s)"
proof -
  have e: "s' = join_commas (parse_outbound_port_entries s @ added)" "added = missing_ports (parse_outbound_port_entries s)"
    using assms by (auto simp: inject_ports_eq Let_def)
  show "added = missing_ports (parse_outbound_port_entries s)" by (rule e(2))
  show "parse_outbound_port_entries s' = parse_outbound_port_entries s @ added"
    unfolding e(1) using parse_clean missing_clean e(2) by (intro parse_join) auto
qed

lemma injected_complete:
  assumes "p \<in> set SHOWROOM_MANAGED_OUTBOUND_PORTS"
  shows "outbound_entries_include_port (es @ missing_ports es) p"
  using assms by (auto simp: outbound_entries_include_port_def missing_ports_def list_ex_iff entry_has_port_def)

lemma missing_after: "missing_ports (es @ missing_ports es) = []"
  using injected_complete[of _ es] by (auto simp: missing_ports_def[of "es @ missing_ports es"] filter_empty_conv)

text \<open>No entry of the user names a port that was missing, so stripping removes what was added.\<close>

lemma strip_injected:
  assumes "inject_showroom_outbound_ports s = (s', added)" "added \<noteq> []"
  shows "strip_showroom_outbound_ports s' (map JStr added) = Some (join_commas (parse_outbound_port_entries s))"
proof -
  let ?es = "parse_outbound_port_entries s"
  let ?keep = "\<lambda>e. JStr e \<notin> set (map JStr added) \<and>
    \<not> (CHR ''/'' \<in> set e \<and> JStr (takeWhile (\<lambda>c. c \<noteq> CHR ''/'') e) \<in> set (map JStr added))"
  have added: "added = missing_ports ?es" by (rule injected_parse(2)[OF assms(1)])
  have "?keep e" if "e \<in> set ?es" for e
    using that by (auto simp: added missing_ports_def outbound_entries_include_port_def list_ex_iff entry_has_port_def)
  then have "filter ?keep ?es = ?es" by (intro filter_True) blast
  moreover have "filter ?keep added = []" by (auto simp: filter_empty_conv)
  moreover have "omap hkey (map JStr added) = Some (map JStr added)" by (induction added) auto
  ultimately show ?thesis
    using assms(2) by (simp only: strip_showroom_outbound_ports_def injected_parse(1)[OF assms(1)]) simp
qed

section \<open>The data of the gateway\<close>

lemma get_set_item_other: "set_item d k v = Some d' \<Longrightarrow> k' \<noteq> k \<Longrightarrow> get d' k' = get d k'"
  by (simp add: get_def get_or_set_item)

lemma get_set_item_same: "set_item d k v = Some d' \<Longrightarrow> get d' k = Some v"
  by (simp add: get_def get_or_set_item)

lemma get_pop_item: "pop_item d k = Some d' \<Longrightarrow> get d' k' = (if k' = k then Some JNull else get d k')"
  by (simp add: get_def get_or_pop_item)

lemma get_present: "get d k = Some v \<Longrightarrow> v \<noteq> JNull \<Longrightarrow> get_or d k w = Some v"
  by (cases d) (auto simp: get_def split: option.splits)

lemma field_cong:
  "get d k = get d' k \<Longrightarrow> text_field d k = text_field d' k" "get d k = get d' k \<Longrightarrow> list_field d k = list_field d' k"
  by (simp_all add: text_field_def list_field_def get_or_else_def)

lemma ensure_outboundE:
  assumes "ensure_showroom_restrict_outbound data = Some (c, d)"
  obtains (same) "\<not> c" "d = data"
      "get data ''outboundPolicy'' \<noteq> Some RESTRICT \<or>
       (\<exists>ports. text_field data ''outboundPorts'' = Some ports \<and> missing_ports (parse_outbound_port_entries ports) = [])"
    | (added) ports s' added d1 managed where "c" "get data ''outboundPolicy'' = Some RESTRICT"
      "text_field data ''outboundPorts'' = Some ports" "inject_showroom_outbound_ports ports = (s', added)" "added \<noteq> []"
      "set_item data ''outboundPorts'' (JStr s') = Some d1" "list_field d1 ''showroomManagedOutbound'' = Some managed"
      "omap hkey managed = Some managed"
      "set_item d1 ''showroomManagedOutbound'' (JList (foldl (\<lambda>acc x. add_once x acc) [] (managed @ map JStr added))) = Some d"
proof -
  obtain policy where policy: "get data ''outboundPolicy'' = Some policy"
    using assms by (auto simp: ensure_showroom_restrict_outbound_def bind_eq_Some_conv)
  show thesis
  proof (cases "policy = RESTRICT")
    case False
    then show thesis using same assms policy by (auto simp: ensure_showroom_restrict_outbound_def)
  next
    case True
    then obtain ports where ports: "text_field data ''outboundPorts'' = Some ports"
      using assms policy by (auto simp: ensure_showroom_restrict_outbound_def bind_eq_Some_conv)
    obtain s' added where inj: "inject_showroom_outbound_ports ports = (s', added)" by fastforce
    show thesis
    proof (cases "added = []")
      case empty: True
      then show thesis
        using same assms policy True ports inj injected_parse(2)[OF inj] by (auto simp: ensure_showroom_restrict_outbound_def)
    next
      case False
      obtain d1 managed ks where m: "c" "set_item data ''outboundPorts'' (JStr s') = Some d1"
        "list_field d1 ''showroomManagedOutbound'' = Some managed" "omap hkey managed = Some ks"
        "set_item d1 ''showroomManagedOutbound'' (JList (foldl (\<lambda>acc x. add_once x acc) [] (ks @ map JStr added))) = Some d"
        using assms policy True ports inj False
        by (auto simp: ensure_showroom_restrict_outbound_def bind_eq_Some_conv)
      have "ks = managed" using m(4) by (rule omap_hkey)
      with added[OF m(1)] policy True ports inj False m show thesis by auto
    qed
  qed
qed

lemma foldl_add_once: "distinct (ys @ xs) \<Longrightarrow> foldl (\<lambda>acc x. add_once x acc) ys xs = ys @ xs"
proof (induction xs arbitrary: ys)
  case (Cons a xs)
  then have "foldl (\<lambda>acc x. add_once x acc) (ys @ [a]) xs = ys @ a # xs" using Cons.IH[of "ys @ [a]"] by simp
  then show ?case using Cons.prems by (simp add: add_once_def)
qed simp

text \<open>C40: the outbound ports survive a showroom. When the showroom is put on a restricted gateway that
  carries no managed ports yet, DNS and HTTPS are open afterwards; taking the showroom off leaves
  the entries the gateway had, no managed ports, and every other setting of the gateway as it was.\<close>
theorem outbound_ports_roundtrip:
  assumes "ensure_showroom_restrict_outbound data = Some (True, d1)"
    and "get data ''showroomManagedOutbound'' = Some JNull" "text_field data ''outboundPorts'' = Some ports"
  shows "gateway_allows_dns_upstream d1 = Some True \<and>
    (\<exists>d2 ports' ports''. strip_outbound d1 = Some (True, d2) \<and>
      text_field d1 ''outboundPorts'' = Some ports' \<and> text_field d2 ''outboundPorts'' = Some ports'' \<and>
      outbound_entries_include_port (parse_outbound_port_entries ports') ''443'' \<and>
      parse_outbound_port_entries ports'' = parse_outbound_port_entries ports \<and>
      get d2 ''showroomManagedOutbound'' = Some JNull \<and>
      (\<forall>k. k \<noteq> ''outboundPorts'' \<longrightarrow> get d2 k = get data k))"
  using assms(1)
proof (cases rule: ensure_outboundE)
  case (added ports0 s' added d0 managed)
  let ?es = "parse_outbound_port_entries ports"
  have ports: "ports0 = ports" using added(3) assms(3) by simp
  have inj: "inject_showroom_outbound_ports ports = (s', added)" using added(4) ports by simp
  have "get d0 ''showroomManagedOutbound'' = Some JNull"
    using get_set_item_other[OF added(6)] assms(2) by simp
  then have managed: "managed = []" using added(7) by (simp add: list_field_def get_or_else_def py_or_def)
  have "distinct added"
    using injected_parse(2)[OF inj] by (simp add: missing_ports_def SHOWROOM_MANAGED_OUTBOUND_PORTS_def)
  then have "foldl (\<lambda>acc x. add_once x acc) [] (map JStr added) = map JStr added"
    using foldl_add_once[of "[]" "map JStr added"] by (simp add: distinct_map inj_on_def)
  then have d1: "set_item d0 ''showroomManagedOutbound'' (JList (map JStr added)) = Some d1" using added(9) managed by simp
  have fields: "get d1 ''outboundPorts'' = Some (JStr s')" "get d1 ''outboundPolicy'' = Some RESTRICT"
    "get d1 ''showroomManagedOutbound'' = Some (JList (map JStr added))"
    using get_set_item_other[OF d1] get_set_item_same[OF d1] get_set_item_same[OF added(6)] get_set_item_other[OF added(6)] added(2)
    by simp_all
  have s': "text_field d1 ''outboundPorts'' = Some s'"
    using fields(1) by (simp add: text_field_def get_or_else_def py_or_def)
  have incl: "outbound_entries_include_port (parse_outbound_port_entries s') p" if "p \<in> set SHOWROOM_MANAGED_OUTBOUND_PORTS" for p
    using injected_complete[OF that, of ?es] injected_parse[OF inj] by simp
  have dns: "gateway_allows_dns_upstream d1 = Some True"
    using get_present[OF fields(2)] s' incl[of "''53''"]
    by (simp add: gateway_allows_dns_upstream_def SHOWROOM_MANAGED_OUTBOUND_PORTS_def RESTRICT_def)
  have new: "strip_showroom_outbound_ports s' (map JStr added) = Some (join_commas ?es)" by (rule strip_injected[OF inj added(5)])
  have parse: "parse_outbound_port_entries (join_commas ?es) = ?es" using parse_clean by (intro parse_join) blast
  then have changed: "join_commas ?es \<noteq> s'" using injected_parse(1)[OF inj] added(5) by auto
  obtain d3 d2 where d2: "set_item d1 ''outboundPorts'' (JStr (join_commas ?es)) = Some d3"
    "pop_item d3 ''showroomManagedOutbound'' = Some d2"
    using fields(1) by (cases d1) (auto simp: get_def)
  have strip: "strip_outbound d1 = Some (True, d2)"
    using fields(2,3) s' new changed d2 added(5)
    by (simp add: strip_outbound_def list_field_def get_or_else_def py_or_def)
  have rest: "get d2 k = get data k" if "k \<noteq> ''outboundPorts''" for k
    using that get_pop_item[OF d2(2)] get_set_item_other[OF d2(1)] get_set_item_other[OF d1] get_set_item_other[OF added(6)] assms(2)
    by (cases "k = ''showroomManagedOutbound''") simp_all
  have "text_field d2 ''outboundPorts'' = Some (join_commas ?es)"
    using get_pop_item[OF d2(2)] get_set_item_same[OF d2(1)] by (simp add: text_field_def get_or_else_def py_or_def)
  then show ?thesis
    using dns strip s' incl[of "''443''"] parse rest get_pop_item[OF d2(2), of "''showroomManagedOutbound''"]
    by (auto simp: SHOWROOM_MANAGED_OUTBOUND_PORTS_def)
qed simp

definition restricted_gateway :: json where
  "restricted_gateway = JObj [(''subtype'', JStr ''gateway''), (''outboundPolicy'', JStr ''restrict''), (''outboundPorts'', JStr ''22, 53/udp'')]"

theorem outbound_ports_roundtrip_witness:
  "\<exists>d1 d2. ensure_showroom_restrict_outbound restricted_gateway = Some (True, d1) \<and>
     text_field d1 ''outboundPorts'' = Some ''22,53/udp,443'' \<and> strip_outbound d1 = Some (True, d2) \<and>
     (\<forall>k. k \<noteq> ''outboundPorts'' \<longrightarrow> get d2 k = get restricted_gateway k)"
proof -
  have "case ensure_showroom_restrict_outbound restricted_gateway of
      Some (c, d1) \<Rightarrow> c \<and> text_field d1 ''outboundPorts'' = Some ''22,53/udp,443'' | None \<Rightarrow> False" by code_simp
  then obtain d1 where d1: "ensure_showroom_restrict_outbound restricted_gateway = Some (True, d1)"
    "text_field d1 ''outboundPorts'' = Some ''22,53/udp,443''" by (auto split: option.splits)
  moreover have "get restricted_gateway ''showroomManagedOutbound'' = Some JNull"
    "text_field restricted_gateway ''outboundPorts'' = Some ''22, 53/udp''" by code_simp+
  ultimately show ?thesis using outbound_ports_roundtrip by blast
qed

end
