(* ===== verification/Showroom_Sync.thy ===== *)
theory Showroom_Sync
  imports Showroom_Ports
begin

text \<open>
  Synchronising the gateway with the showroom is idempotent: a second run finds nothing to do and
  reports no change, so a deployed topology does not drift.
\<close>

section \<open>Replacing the data of the gateway\<close>

lemma gateway_not_showroom: "is_gateway_node g = Some True \<Longrightarrow> is_showroom_node g = Some False"
  by (cases g) (auto simp: is_gateway_node_def is_showroom_node_def has_type_def NETWORK_NODE_def bind_eq_Some_conv split: if_splits)

lemma put_gateway_found:
  assumes "ofind is_gateway_node ns = Some (Some g)" "is_gateway_node g' = Some True"
  shows "\<exists>ns'. put_gateway g' ns = Some ns' \<and> ofind is_gateway_node ns' = Some (Some g') \<and> put_gateway g' ns' = Some ns' \<and>
    oany is_showroom_node ns' = oany is_showroom_node ns \<and> g \<in> set ns"
  using assms(1)
proof (induction ns)
  case (Cons n ns)
  then obtain b where b: "is_gateway_node n = Some b" by (auto simp: bind_eq_Some_conv)
  show ?case
  proof (cases b)
    case True
    then have "n = g" using Cons.prems b by simp
    then show ?thesis using b True assms(2) gateway_not_showroom by simp
  next
    case False
    then obtain ns' where "put_gateway g' ns = Some ns'" "ofind is_gateway_node ns' = Some (Some g')" "put_gateway g' ns' = Some ns'"
      "oany is_showroom_node ns' = oany is_showroom_node ns" "g \<in> set ns"
      using Cons b by auto
    then show ?thesis using b False by (intro exI[of _ "n # ns'"]) (simp cong: if_cong)
  qed
qed simp

lemma set_item_present: "get d k = Some v \<Longrightarrow> v \<noteq> JNull \<Longrightarrow> set_item d k v = Some d"
  by (cases d) (auto simp: get_def update_triv split: option.splits)

lemma gateway_kept:
  assumes "is_gateway_node g = Some True" "node_data g = Some data" "get d ''subtype'' = get data ''subtype''"
    and "set_item g ''data'' d = Some g'"
  shows "is_gateway_node g' = Some True \<and> node_data g' = Some d \<and> set_item g' ''data'' d = Some g'"
proof -
  obtain kvs where g: "g = JObj kvs" using assms(4) by (cases g) auto
  have "truthy g'" using assms(4) g by (cases kvs) auto
  moreover have "get g' ''type'' = get g ''type''" using get_set_item_other[OF assms(4)] by simp
  moreover have "node_data g' = Some d" using get_or_set_item[OF assms(4)] by (simp add: node_data_def)
  moreover have "get d ''subtype'' = Some (JStr ''gateway'')" "get g ''type'' = Some NETWORK_NODE"
    using assms(1,2,3) by (auto simp: is_gateway_node_def bind_eq_Some_conv split: if_splits)
  ultimately show ?thesis using set_item_again[OF assms(4)] by (simp add: is_gateway_node_def)
qed

lemma with_gateway_data_fix:
  assumes "with_gateway_data t g d = Some t'" "find_gateway_node t = Some (Some g)"
    and "node_data g = Some data" "get d ''subtype'' = get data ''subtype''"
  shows "\<exists>g'. find_gateway_node t' = Some (Some g') \<and> node_data g' = Some d \<and> with_gateway_data t' g' d = Some t' \<and>
    topology_has_showroom t' = topology_has_showroom t \<and> (\<forall>k. k \<noteq> ''nodes'' \<longrightarrow> get t' k = get t k)"
proof -
  obtain g' ns ns' where s: "set_item g ''data'' d = Some g'" "topo_nodes t = Some ns" "put_gateway g' ns = Some ns'"
    "set_item t ''nodes'' (JList ns') = Some t'"
    using assms(1) by (auto simp: with_gateway_data_def bind_eq_Some_conv)
  have found: "ofind is_gateway_node ns = Some (Some g)" using assms(2) s(2) by (simp add: find_gateway_node_def)
  then have "is_gateway_node g = Some True" by (blast dest: ofind_Some_Some)
  then have g': "is_gateway_node g' = Some True" "node_data g' = Some d" "set_item g' ''data'' d = Some g'"
    using gateway_kept[OF _ assms(3,4) s(1)] by blast+
  have nodes: "topo_nodes t' = Some ns'" using get_or_set_item[OF s(4)] by (simp add: topo_nodes_def)
  have "ofind is_gateway_node ns' = Some (Some g') \<and> put_gateway g' ns' = Some ns' \<and>
      oany is_showroom_node ns' = oany is_showroom_node ns"
    using put_gateway_found[OF found g'(1)] s(3) by auto
  moreover have "set_item t' ''nodes'' (JList ns') = Some t'" by (rule set_item_again[OF s(4)])
  moreover have "get t' k = get t k" if "k \<noteq> ''nodes''" for k using that get_set_item_other[OF s(4)] by simp
  ultimately show ?thesis
    using g' nodes s(2) by (auto simp: find_gateway_node_def with_gateway_data_def topology_has_showroom_def)
qed

section \<open>Binding a forward\<close>

definition bound :: "string \<Rightarrow> bool \<Rightarrow> json \<Rightarrow> json option" where
  "bound eip_id route_web pf =
     (if eip_id = [] \<and> \<not> route_web then Some pf else bind_one_forward_eip eip_id route_web pf)"

lemma bind_forwards_bound: "bind_showroom_forwards_to_eip ms eip rw = omap (bound eip rw) ms"
proof -
  have "omap Some ms = Some ms" by (induction ms) auto
  moreover have "bound eip rw = (if eip = [] \<and> \<not> rw then Some else bind_one_forward_eip eip rw)"
    by (auto simp: bound_def fun_eq_iff)
  ultimately show ?thesis by (simp add: bind_showroom_forwards_to_eip_def)
qed

lemma bind_oneE:
  assumes "bind_one_forward_eip eip rw pf = Some pf'"
  obtains m entry route where "is_showroom_managed_forward pf = Some m" "served_by_route pf = Some route"
    "m \<and> set_item pf ''managedByShowroom'' (JBool True) = Some entry \<or> \<not> m \<and> entry = pf"
    "rw \<and> route \<and> pop_item entry ''extIpId'' = Some pf' \<or>
     \<not> (rw \<and> route) \<and> eip \<noteq> [] \<and>
       (\<exists>x. get_or_else pf ''extIpId'' (JStr eip) = Some x \<and> set_item entry ''extIpId'' x = Some pf') \<or>
     \<not> (rw \<and> route) \<and> eip = [] \<and> pf' = entry"
  using assms that by (auto simp: bind_one_forward_eip_def bind_eq_Some_conv split: if_splits)

definition bind_keys :: "string list" where
  "bind_keys = [''managedByShowroom'', ''extIpId'']"

lemma bound_fields:
  assumes "bound eip rw pf = Some pf'" "k \<notin> set bind_keys"
  shows "get_or pf' k v = get_or pf k v"
proof (cases "eip = [] \<and> \<not> rw")
  case False
  then have "bind_one_forward_eip eip rw pf = Some pf'" using assms(1) by (auto simp: bound_def split: if_splits)
  then show ?thesis
    using assms(2) by (elim bind_oneE) (auto simp: bind_keys_def get_or_set_item get_or_pop_item)
qed (use assms in \<open>simp add: bound_def\<close>)

lemma bound_managed:
  assumes "bound eip rw pf = Some pf'" "get pf ''managedByShowroom'' = Some m"
  shows "\<exists>m'. get pf' ''managedByShowroom'' = Some m' \<and> (truthy m \<longrightarrow> truthy m')"
proof (cases "eip = [] \<and> \<not> rw")
  case False
  then have "bind_one_forward_eip eip rw pf = Some pf'" using assms(1) by (auto simp: bound_def split: if_splits)
  then show ?thesis
    using assms(2) by (elim bind_oneE) (auto simp: get_def get_or_set_item get_or_pop_item)
qed (use assms in \<open>simp add: bound_def\<close>)

lemma bound_again:
  assumes "bound eip rw pf = Some pf'"
  shows "bound eip rw pf' = Some pf'"
proof (cases "eip = [] \<and> \<not> rw")
  case False
  then have one: "bind_one_forward_eip eip rw pf = Some pf'" using assms(1) by (auto simp: bound_def split: if_splits)
  have same: "get pf' k = get pf k" if "k \<notin> set bind_keys" for k
    using bound_fields[OF assms that] by (simp add: get_def)
  have ports: "get pf' ''extPort'' = get pf ''extPort''" "get pf' ''intPort'' = get pf ''intPort''" "get pf' ''intIp'' = get pf ''intIp''"
    by (simp_all add: same bind_keys_def)
  from one obtain m entry route where s: "is_showroom_managed_forward pf = Some m" "served_by_route pf = Some route"
    "m \<and> set_item pf ''managedByShowroom'' (JBool True) = Some entry \<or> \<not> m \<and> entry = pf"
    "rw \<and> route \<and> pop_item entry ''extIpId'' = Some pf' \<or>
     \<not> (rw \<and> route) \<and> eip \<noteq> [] \<and>
       (\<exists>x. get_or_else pf ''extIpId'' (JStr eip) = Some x \<and> set_item entry ''extIpId'' x = Some pf') \<or>
     \<not> (rw \<and> route) \<and> eip = [] \<and> pf' = entry"
    by (rule bind_oneE)
  have route: "served_by_route pf' = Some route" using s(2) ports by (simp add: served_by_route_def)
  have flag: "get pf' ''managedByShowroom'' = (if m then Some (JBool True) else get pf ''managedByShowroom'')"
    using s(3,4) by (auto simp: get_def get_or_set_item get_or_pop_item)
  have managed: "is_showroom_managed_forward pf' = Some m"
  proof (cases m)
    case True
    then show ?thesis using s(1) ports flag by (auto simp: is_showroom_managed_forward_def bind_eq_Some_conv)
  next
    case False
    then have "is_showroom_managed_forward pf' = is_showroom_managed_forward pf"
      using ports flag by (simp add: is_showroom_managed_forward_def cong: if_cong)
    then show ?thesis using s(1) by simp
  qed
  have entry: "(if m then set_item pf' ''managedByShowroom'' (JBool True) else Some pf') = Some pf'"
    using flag set_item_present[of pf' "''managedByShowroom''" "JBool True"] by simp
  have "rw \<and> route \<longrightarrow> pop_item pf' ''extIpId'' = Some pf'"
    using s(4) by (cases entry) (auto simp: delete_idem)
  moreover have "set_item pf' ''extIpId'' x = Some pf' \<and> get_or_else pf' ''extIpId'' (JStr eip) = Some x"
    if "get_or_else pf ''extIpId'' (JStr eip) = Some x" "set_item entry ''extIpId'' x = Some pf'" "eip \<noteq> []" for x
    using that set_item_again[OF that(2)] get_set_item_same[OF that(2)] by (auto simp: get_or_else_def py_or_def)
  ultimately have "bind_one_forward_eip eip rw pf' = Some pf'"
    using s(4) by (auto simp: bind_one_forward_eip_def managed entry route)
  then show ?thesis using False by (auto simp: bound_def)
qed (use assms in \<open>simp add: bound_def\<close>)

section \<open>Merging again\<close>

lemma bound_get: "bound eip rw pf = Some pf' \<Longrightarrow> k \<notin> set bind_keys \<Longrightarrow> get pf' k = get pf k"
  by (simp add: get_def bound_fields)

lemma bound_kept: "bound eip rw pf = Some pf' \<Longrightarrow> keeps_beside_showroom pf = Some True \<Longrightarrow> keeps_beside_showroom pf' = Some True"
proof -
  assume b: "bound eip rw pf = Some pf'" and k: "keeps_beside_showroom pf = Some True"
  obtain ii infra m ep where f: "get_or pf ''intIp'' (JStr []) = Some ii" "is_showroom_infra_ip ii = Some infra"
    "get pf ''managedByShowroom'' = Some m" "get pf ''extPort'' = Some ep" "infra \<or> truthy m \<or> \<not> web_port ep"
    using k by (auto simp: keeps_beside_showroom_def bind_eq_Some_conv)
  obtain m' where "get pf' ''managedByShowroom'' = Some m'" "truthy m \<longrightarrow> truthy m'" using bound_managed[OF b f(3)] by blast
  moreover have "get_or pf' ''intIp'' (JStr []) = Some ii" using f(1) bound_fields[OF b, of "''intIp''"] by (simp add: bind_keys_def)
  moreover have "get pf' ''extPort'' = Some ep" using f(4) bound_get[OF b, of "''extPort''"] by (simp add: bind_keys_def)
  ultimately show ?thesis using f(2,5) by (auto simp: keeps_beside_showroom_def)
qed

lemma omap_bound_again: "omap (bound eip rw) xs = Some ys \<Longrightarrow> omap (bound eip rw) ys = Some ys"
  by (induction xs arbitrary: ys) (auto simp: bind_eq_Some_conv dest: bound_again)

abbreviation not_https :: "json \<Rightarrow> bool option" where
  "not_https pf \<equiv> map_option (\<lambda>p. \<not> str_is p ''443'') (get pf ''extPort'')"

lemma showroom_forward_kept: "keeps_beside_showroom (showroom_forward v rw) = Some True"
proof -
  have "\<forall>s. \<exists>b. is_showroom_infra_ip (JStr s) = Some b" by (auto simp: is_showroom_infra_ip_def py_or_def)
  then obtain b where "\<And>s. is_showroom_infra_ip (JStr s) = Some (b s)" by metis
  then show ?thesis by (simp add: keeps_beside_showroom_def showroom_forward_def Let_def)
qed

lemma ofilter_id: "\<forall>x \<in> set xs. p x = Some True \<Longrightarrow> ofilter p xs = Some xs"
  using ofilter_total[of xs p "\<lambda>_. True"] by simp

lemma ofilter_app:
  "ofilter p (xs @ ys) = do { as \<leftarrow> ofilter p xs; bs \<leftarrow> ofilter p ys; Some (as @ bs) }"
  by (induction xs) (auto split: bind_splits)

lemma omap_app: "omap f (xs @ ys) = do { as \<leftarrow> omap f xs; bs \<leftarrow> omap f ys; Some (as @ bs) }"
  by (induction xs) (auto split: bind_splits)

text \<open>The merge as one function of the forwards: without a VNI it filters and binds, with one it
  replaces what is on port 443.\<close>

definition merge_with :: "json option \<Rightarrow> string \<Rightarrow> bool \<Rightarrow> json list \<Rightarrow> json list option" where
  "merge_with sf eip rw existing = do {
     injected \<leftarrow> (case sf of None \<Rightarrow> Some existing | Some f \<Rightarrow> map_option (\<lambda>xs. xs @ [f]) (ofilter not_https existing));
     kept \<leftarrow> ofilter keeps_beside_showroom injected;
     omap (bound eip rw) kept
   }"

lemma merge_with_again:
  assumes "merge_with sf eip rw existing = Some merged"
    and "\<And>f. sf = Some f \<Longrightarrow> keeps_beside_showroom f = Some True \<and> not_https f = Some False"
  shows "merge_with sf eip rw merged = Some merged"
proof (cases sf)
  case None
  then obtain kept where kept: "ofilter keeps_beside_showroom existing = Some kept" "omap (bound eip rw) kept = Some merged"
    using assms(1) by (auto simp: merge_with_def bind_eq_Some_conv)
  then have "\<forall>x \<in> set merged. keeps_beside_showroom x = Some True"
    by (auto simp: ofilter_Some dest!: omap_result intro: bound_kept)
  then show ?thesis using None omap_bound_again[OF kept(2)] by (simp add: merge_with_def ofilter_id)
next
  case (Some f)
  have f: "keeps_beside_showroom f = Some True" "not_https f = Some False" using assms(2)[OF Some] by auto
  obtain xs ys zs f' where s: "ofilter not_https existing = Some xs" "ofilter keeps_beside_showroom xs = Some ys"
    "omap (bound eip rw) ys = Some zs" "bound eip rw f = Some f'" "merged = zs @ [f']"
    using assms(1) Some f by (auto simp: merge_with_def bind_eq_Some_conv ofilter_app omap_app)
  have z: "keeps_beside_showroom z = Some True \<and> not_https z = Some True" if mem: "z \<in> set zs" for z
  proof -
    obtain y where y: "y \<in> set ys" "bound eip rw y = Some z" using omap_result[OF s(3) mem] by blast
    then have "keeps_beside_showroom y = Some True" "not_https y = Some True" using s(1,2) by (auto simp: ofilter_Some)
    then show ?thesis using bound_kept[OF y(2)] bound_get[OF y(2), of "''extPort''"] by (simp add: bind_keys_def)
  qed
  obtain ep where "get f' ''extPort'' = Some ep" "str_is ep ''443''"
    using f(2) bound_get[OF s(4), of "''extPort''"] by (auto simp: bind_keys_def)
  moreover have "ofilter not_https zs = Some zs" using z by (blast intro: ofilter_id)
  ultimately have "ofilter not_https merged = Some zs" using s(5) by (simp add: ofilter_app)
  moreover have "ofilter keeps_beside_showroom (zs @ [f]) = Some (zs @ [f])" using z f(1) by (intro ofilter_id) auto
  ultimately show ?thesis
    using Some s(4,5) omap_bound_again[OF s(3)] by (simp add: merge_with_def omap_app)
qed

definition first_eip :: "json \<Rightarrow> string option" where
  "first_eip topology = do {
     ext \<leftarrow> external_ips topology;
     (case ext of [] \<Rightarrow> Some [] | e # _ \<Rightarrow> do { i \<leftarrow> get_or e ''id'' (JStr []); py_str i })
   }"

definition forward_of :: "(json \<times> int) list \<Rightarrow> bool \<Rightarrow> json option" where
  "forward_of vni_map rw =
     (case vni_map of [] \<Rightarrow> None
      | (_, v) # rest \<Rightarrow>
          let first = foldl min v (map snd rest) in if first = 0 then None else Some (showroom_forward first rw))"

lemma merged_forwards_with:
  assumes "topology_has_showroom t = Some True"
  shows "merged_forwards t vm rw existing = Some merged \<longleftrightarrow>
    (\<exists>eip. first_eip t = Some eip \<and> merge_with (forward_of vm rw) eip rw existing = Some merged)"
proof -
  let ?first = "case vm of [] \<Rightarrow> None | (_, v) # rest \<Rightarrow> Some (foldl min v (map snd rest))"
  have inj: "inject_showroom_port_forward existing t ?first rw =
      (case forward_of vm rw of None \<Rightarrow> Some existing | Some f \<Rightarrow> map_option (\<lambda>xs. xs @ [f]) (ofilter not_https existing))"
  proof (cases vm)
    case (Cons kv rest)
    then show ?thesis
      using assms by (cases kv, cases "ofilter not_https existing")
        (simp_all add: forward_of_def inject_showroom_port_forward_def Let_def)
  qed (simp add: forward_of_def inject_showroom_port_forward_def)
  show ?thesis
    unfolding merged_forwards_def merge_with_def filter_non_showroom_web_forwards_def Let_def inj first_eip_def bind_forwards_bound
    by (auto simp: bind_eq_Some_conv)
qed

lemma merged_again:
  assumes "merged_forwards t vm rw existing = Some merged" "topology_has_showroom t = Some True"
  shows "merged_forwards t vm rw merged = Some merged"
proof -
  have "keeps_beside_showroom f = Some True \<and> not_https f = Some False" if f: "forward_of vm rw = Some f" for f
  proof -
    obtain v where "f = showroom_forward v rw"
      using f by (cases vm) (auto simp: forward_of_def Let_def split: if_splits)
    then show ?thesis using showroom_forward_kept by (simp add: showroom_forward_def Let_def)
  qed
  then show ?thesis using assms merge_with_again merged_forwards_with by metis
qed

section \<open>Synchronising again\<close>

lemma external_ips_cong: "get t ''externalIps'' = get t' ''externalIps'' \<Longrightarrow> external_ips t = external_ips t'"
  by (simp add: external_ips_def get_or_else_def)

lemma merged_forwards_cong:
  "topology_has_showroom t = topology_has_showroom t' \<Longrightarrow> get t ''externalIps'' = get t' ''externalIps'' \<Longrightarrow>
   merged_forwards t vm rw existing = merged_forwards t' vm rw existing"
proof -
  assume t: "topology_has_showroom t = topology_has_showroom t'" "get t ''externalIps'' = get t' ''externalIps''"
  have "inject_showroom_port_forward existing t v rw = inject_showroom_port_forward existing t' v rw" for v
    by (cases v) (simp_all add: inject_showroom_port_forward_def t(1) cong: if_cong)
  then show ?thesis by (simp add: merged_forwards_def external_ips_cong[OF t(2)])
qed

lemma apply_modeE:
  assumes "apply_showroom_gateway_mode d ms = Some (c, d')"
  obtains desired where "desired_showroom_gateway_mode ms = Some desired" "get d' ''gatewayMode'' = Some desired"
    "\<And>k. k \<noteq> ''gatewayMode'' \<Longrightarrow> get d' k = get d k" "apply_showroom_gateway_mode d' ms = Some (False, d')"
proof -
  obtain desired mode where s: "desired_showroom_gateway_mode ms = Some desired" "get d ''gatewayMode'' = Some mode"
    "(if mode \<noteq> desired then map_option (Pair True) (set_item d ''gatewayMode'' desired) else Some (False, d)) = Some (c, d')"
    using assms by (auto simp: apply_showroom_gateway_mode_def bind_eq_Some_conv)
  have d': "get d' ''gatewayMode'' = Some desired" "\<And>k. k \<noteq> ''gatewayMode'' \<Longrightarrow> get d' k = get d k"
    using s(2,3) get_set_item_same get_set_item_other by (auto split: if_splits)
  then have "apply_showroom_gateway_mode d' ms = Some (False, d')" using s(1) by (simp add: apply_showroom_gateway_mode_def)
  with s(1) d' show thesis by (rule that)
qed

lemma ensure_outbound_again:
  assumes "ensure_showroom_restrict_outbound d = Some (c, d')"
  shows "ensure_showroom_restrict_outbound d' = Some (False, d') \<and>
    (\<forall>k. k \<notin> {''outboundPorts'', ''showroomManagedOutbound''} \<longrightarrow> get d' k = get d k)"
  using assms
proof (cases rule: ensure_outboundE)
  case same
  then show ?thesis using assms by simp
next
  case (added ports s' added d1 managed)
  have f: "get d' ''outboundPolicy'' = Some RESTRICT" "get d' ''outboundPorts'' = Some (JStr s')"
    using get_set_item_other[OF added(9)] get_set_item_other[OF added(6)] get_set_item_same[OF added(6)] added(2) by simp_all
  then have "text_field d' ''outboundPorts'' = Some s'" by (simp add: text_field_def get_or_else_def py_or_def)
  moreover have "snd (inject_showroom_outbound_ports s') = []"
    using injected_parse[OF added(4)] by (simp add: inject_ports_eq Let_def missing_after)
  ultimately have "ensure_showroom_restrict_outbound d' = Some (False, d')"
    using f by (auto simp: ensure_showroom_restrict_outbound_def split: prod.splits)
  moreover have "get d' k = get d k" if "k \<notin> {''outboundPorts'', ''showroomManagedOutbound''}" for k
    using that get_set_item_other[OF added(9)] get_set_item_other[OF added(6)] by simp
  ultimately show ?thesis by blast
qed

lemma wf_node:
  assumes "wf_json t" "topo_nodes t = Some ns" "n \<in> set ns"
  shows "wf_json n"
proof -
  obtain v where v: "get_or t ''nodes'' (JList []) = Some v" "iter v = Some ns"
    using assms(2) by (auto simp: topo_nodes_def bind_eq_Some_conv)
  have "wf_json v" using wf_get_or[OF assms(1) _ v(1)] by simp
  then show ?thesis using v(2) assms(3) by (rule wf_iter)
qed

lemma wf_list_field:
  assumes "wf_json d" "list_field d k = Some xs" "x \<in> set xs"
  shows "wf_json x"
proof -
  obtain v where v: "get d k = Some v" "iter (py_or v (JList [])) = Some xs"
    using assms(2) by (auto simp: list_field_def get_or_else_def bind_eq_Some_conv)
  have "wf_json (py_or v (JList []))" using wf_get[OF assms(1) v(1)] by (simp add: py_or_def)
  then show ?thesis using v(2) assms(3) by (rule wf_iter)
qed

lemma wf_bound: "bound eip rw pf = Some pf' \<Longrightarrow> wf_json pf \<Longrightarrow> wf_json pf'"
proof (cases "eip = [] \<and> \<not> rw")
  case False
  assume b: "bound eip rw pf = Some pf'" and wf: "wf_json pf"
  have "bind_one_forward_eip eip rw pf = Some pf'" using b False by (auto simp: bound_def split: if_splits)
  then show ?thesis
  proof (rule bind_oneE)
    fix m entry route
    assume e: "m \<and> set_item pf ''managedByShowroom'' (JBool True) = Some entry \<or> \<not> m \<and> entry = pf"
      and r: "rw \<and> route \<and> pop_item entry ''extIpId'' = Some pf' \<or>
       \<not> (rw \<and> route) \<and> eip \<noteq> [] \<and>
         (\<exists>x. get_or_else pf ''extIpId'' (JStr eip) = Some x \<and> set_item entry ''extIpId'' x = Some pf') \<or>
       \<not> (rw \<and> route) \<and> eip = [] \<and> pf' = entry"
    have "wf_json entry" using e wf wf_set_item[OF wf, of "JBool True"] by auto
    moreover have "wf_json x" if "get_or_else pf ''extIpId'' (JStr eip) = Some x" for x
      using that wf_get[OF wf] by (auto simp: get_or_else_def py_or_def split: if_splits)
    ultimately show "wf_json pf'" using r wf_set_item wf_pop_item by blast
  qed
qed (simp add: bound_def)

lemma wf_merged:
  assumes "merged_forwards t vm rw existing = Some merged" "topology_has_showroom t = Some True" "\<forall>x \<in> set existing. wf_json x"
  shows "\<forall>x \<in> set merged. wf_json x"
proof -
  obtain eip where m: "merge_with (forward_of vm rw) eip rw existing = Some merged"
    using assms(1,2) merged_forwards_with by blast
  have f: "wf_json f" if "forward_of vm rw = Some f" for f
    using that by (cases vm) (auto simp: forward_of_def Let_def showroom_forward_def split: if_splits)
  obtain injected kept where s: "(case forward_of vm rw of None \<Rightarrow> Some existing
      | Some f \<Rightarrow> map_option (\<lambda>xs. xs @ [f]) (ofilter not_https existing)) = Some injected"
    "ofilter keeps_beside_showroom injected = Some kept" "omap (bound eip rw) kept = Some merged"
    using m by (auto simp: merge_with_def bind_eq_Some_conv)
  have "\<forall>x \<in> set injected. wf_json x" using s(1) f assms(3) by (auto simp: ofilter_Some split: option.splits)
  then have "\<forall>x \<in> set kept. wf_json x" using s(2) by (auto simp: ofilter_Some)
  then show ?thesis using s(3) wf_bound by (blast dest: omap_result)
qed

lemma sync_fix:
  assumes "sync_showroom_gateway_forwards t g vm rw = Some (c, t')" "find_gateway_node t = Some (Some g)"
    and "topology_has_showroom t = Some True" "wf_json t"
  obtains g' data existing existing' merged d where "find_gateway_node t' = Some (Some g')" "topology_has_showroom t' = Some True"
    "\<forall>k. k \<noteq> ''nodes'' \<longrightarrow> get t' k = get t k" "sync_showroom_gateway_forwards t' g' vm rw = Some (False, t')"
    "node_data g = Some data" "list_field data ''portForwards'' = Some existing"
    "merged_forwards t vm rw existing = Some merged" "node_data g' = Some d"
    "list_field d ''portForwards'' = Some existing'" "existing' \<in> {existing, merged}"
proof -
  obtain data existing merged c1 d1 c2 d2 c3 d3 where s: "node_data g = Some data" "list_field data ''portForwards'' = Some existing"
    "merged_forwards t vm rw existing = Some merged"
    "put_forwards data existing merged = Some (c1, d1)"
    "apply_showroom_gateway_mode d1 merged = Some (c2, d2)" "ensure_showroom_restrict_outbound d2 = Some (c3, d3)"
    "with_gateway_data t g d3 = Some t'"
    using assms(1) by (clarsimp simp: sync_showroom_gateway_forwards_def bind_eq_Some_conv)
  obtain ns where ns: "topo_nodes t = Some ns" "g \<in> set ns"
    using assms(2) by (auto simp: find_gateway_node_def bind_eq_Some_conv dest: ofind_Some_Some)
  have "wf_json data"
    using wf_get_or[OF wf_node[OF assms(4) ns], of "JObj []"] s(1) by (auto simp: node_data_def)
  then have wf: "\<forall>x \<in> set merged. wf_json x" using wf_merged[OF s(3) assms(3)] wf_list_field s(2) by blast
  obtain desired where mode: "get d2 ''gatewayMode'' = Some desired" "desired_showroom_gateway_mode merged = Some desired"
    "\<And>k. k \<noteq> ''gatewayMode'' \<Longrightarrow> get d2 k = get d1 k" using apply_modeE[OF s(5)] by blast
  have outbound: "ensure_showroom_restrict_outbound d3 = Some (False, d3)"
    "\<And>k. k \<notin> {''outboundPorts'', ''showroomManagedOutbound''} \<Longrightarrow> get d3 k = get d2 k"
    using ensure_outbound_again[OF s(6)] by blast+
  have first: "get d1 k = get data k" if "k \<noteq> ''portForwards''" for k
    using s(4) that get_set_item_other by (auto simp: put_forwards_def split: if_splits)
  have "get d3 ''subtype'' = get data ''subtype''" by (simp add: outbound(2) mode(3) first)
  then obtain g' where g': "find_gateway_node t' = Some (Some g')" "node_data g' = Some d3" "with_gateway_data t' g' d3 = Some t'"
    "topology_has_showroom t' = Some True" "\<And>k. k \<noteq> ''nodes'' \<Longrightarrow> get t' k = get t k"
    using with_gateway_data_fix[OF s(7) assms(2) s(1)] assms(3) by auto
  define existing' where "existing' = (if list_all2 py_eq merged existing then existing else merged)"
  have "get d3 ''portForwards'' = get d1 ''portForwards''" by (simp add: outbound(2) mode(3))
  then have ex': "list_field d3 ''portForwards'' = Some existing'"
    using s(2,4) get_set_item_same[of data "''portForwards''" "JList merged" d1]
    by (auto simp: put_forwards_def existing'_def list_field_def get_or_else_def py_or_def split: if_splits)
  have "merged_forwards t vm rw existing' = Some merged"
    using s(3) merged_again[OF s(3) assms(3)] by (simp add: existing'_def)
  then have m': "merged_forwards t' vm rw existing' = Some merged"
    using merged_forwards_cong[of t' t] g'(4,5) assms(3) by simp
  have eq: "list_all2 py_eq merged existing'" using py_eq_list_refl[OF wf] by (simp add: existing'_def)
  have "apply_showroom_gateway_mode d3 merged = Some (False, d3)"
    using mode(1,2) outbound(2)[of "''gatewayMode''"] by (simp add: apply_showroom_gateway_mode_def)
  then have same: "sync_showroom_gateway_forwards t' g' vm rw = Some (False, t')"
    using g'(2,3) ex' m' eq outbound(1) by (simp add: sync_showroom_gateway_forwards_def put_forwards_def)
  have "existing' \<in> {existing, merged}" by (simp add: existing'_def)
  with g'(1,4) _ same s(1-3) g'(2) ex' show thesis by (rule that) (use g'(5) in blast)
qed

section \<open>The external address\<close>

lemma ensure_external_fix:
  assumes "ensure_showroom_external_ips fresh t = Some (c, t1)" "topology_has_showroom t = Some True" "find_gateway_node t = Some gw"
    and "wf_json t"
  shows "wf_json t1 \<and> topology_has_showroom t1 = Some True \<and> find_gateway_node t1 = Some gw \<and>
    (gw = None \<and> t1 = t \<or> gw \<noteq> None \<and> (\<exists>ext. get t1 ''externalIps'' = Some ext \<and> truthy ext))"
proof -
  obtain ext where ext: "get t ''externalIps'' = Some ext"
    using assms(1-3) by (auto simp: ensure_showroom_external_ips_def bind_eq_Some_conv)
  show ?thesis
  proof (cases "gw = None \<or> truthy ext")
    case True
    then show ?thesis using assms ext by (auto simp: ensure_showroom_external_ips_def)
  next
    case False
    then have set: "set_item t ''externalIps'' (JList [auto_external_ip fresh]) = Some t1"
      using assms(1-3) ext by (auto simp: ensure_showroom_external_ips_def)
    have "topo_nodes t1 = topo_nodes t" using get_or_set_item[OF set] by (simp add: topo_nodes_def)
    moreover have "wf_json t1" using wf_set_item[OF assms(4) _ set] by (simp add: auto_external_ip_def)
    ultimately show ?thesis
      using False get_set_item_same[OF set] assms(2,3) by (simp add: topology_has_showroom_def find_gateway_node_def)
  qed
qed

lemma strip_auto_fix:
  assumes "strip_auto_showroom_external_ip t = Some (c, t1)" "topology_has_showroom t = b" "find_gateway_node t = gw" "wf_json t"
  shows "wf_json t1 \<and> topology_has_showroom t1 = b \<and> find_gateway_node t1 = gw \<and>
    (\<forall>t2. get t2 ''externalIps'' = get t1 ''externalIps'' \<longrightarrow> strip_auto_showroom_external_ip t2 = Some (False, t2))"
proof -
  obtain ext where ext: "external_ips t = Some ext" using assms(1) by (auto simp: strip_auto_showroom_external_ip_def bind_eq_Some_conv)
  show ?thesis
  proof (cases "t1 = t \<and> \<not> c")
    case True
    have "strip_auto_showroom_external_ip t2 = Some (False, t2)" if "get t2 ''externalIps'' = get t ''externalIps''" for t2
    proof -
      have "external_ips t2 = Some ext" using external_ips_cong[OF that] ext by simp
      then show ?thesis
        using assms(1) ext True by (auto simp: strip_auto_showroom_external_ip_def bind_eq_Some_conv split: list.splits if_splits)
    qed
    then show ?thesis using True assms(2-4) by simp
  next
    case False
    then have set: "set_item t ''externalIps'' (JList []) = Some t1"
      using assms(1) ext by (auto simp: strip_auto_showroom_external_ip_def bind_eq_Some_conv split: list.splits if_splits)
    have "topo_nodes t1 = topo_nodes t" using get_or_set_item[OF set] by (simp add: topo_nodes_def)
    moreover have "wf_json t1" using wf_set_item[OF assms(4) _ set] by simp
    moreover have "strip_auto_showroom_external_ip t2 = Some (False, t2)" if "get t2 ''externalIps'' = get t1 ''externalIps''" for t2
      using that get_set_item_same[OF set] by (simp add: strip_auto_showroom_external_ip_def external_ips_def get_or_else_def py_or_def)
    ultimately show ?thesis using assms(2,3) by (simp add: topology_has_showroom_def find_gateway_node_def)
  qed
qed

section \<open>Whether the forwards need an address\<close>

abbreviation not_web :: "json \<Rightarrow> bool option" where
  "not_web pf \<equiv> map_option (\<lambda>p. \<not> web_port p) (get pf ''extPort'')"

lemma oany_defined: "\<forall>x \<in> set xs. p x \<noteq> None \<Longrightarrow> oany p xs = Some (\<exists>x \<in> set xs. p x = Some True)"
  using oany_total[of xs p "\<lambda>x. p x = Some True"] by fastforce

lemma merge_needs:
  assumes "merge_with sf eip rw existing = Some merged"
    and "\<And>f. sf = Some f \<Longrightarrow> not_https f = Some False \<and> not_web f = Some False"
  shows "oany not_web merged = oany not_web existing"
proof -
  obtain injected kept where s: "(case sf of None \<Rightarrow> Some existing
      | Some f \<Rightarrow> map_option (\<lambda>xs. xs @ [f]) (ofilter not_https existing)) = Some injected"
    "ofilter keeps_beside_showroom injected = Some kept" "omap (bound eip rw) kept = Some merged"
    using assms(1) by (auto simp: merge_with_def bind_eq_Some_conv)
  have kept: "x \<in> set kept \<longleftrightarrow> x \<in> set injected \<and> keeps_beside_showroom x = Some True" for x
    using s(2) by (auto simp: ofilter_Some)
  have keep: "keeps_beside_showroom x = Some True" if "x \<in> set injected" "not_web x = Some True" for x
    using s(2) that by (auto simp: ofilter_Some keeps_beside_showroom_def bind_eq_Some_conv)
  have inj: "x \<in> set injected \<and> not_web x = Some True \<longleftrightarrow> x \<in> set existing \<and> not_web x = Some True" for x
    using s(1) assms(2) by (auto simp: ofilter_Some web_port_def split: option.splits)
  have same: "not_web y = not_web x" if "bound eip rw x = Some y" for x y
    using bound_get[OF that, of "''extPort''"] by (simp add: bind_keys_def)
  have "(\<exists>y \<in> set merged. not_web y = Some True) \<longleftrightarrow> (\<exists>x \<in> set kept. not_web x = Some True)"
    using omap_result[OF s(3)] omap_member[OF s(3)] same by metis
  also have "\<dots> \<longleftrightarrow> (\<exists>x \<in> set existing. not_web x = Some True)" using kept keep inj by blast
  finally have ex: "(\<exists>y \<in> set merged. not_web y = Some True) \<longleftrightarrow> (\<exists>x \<in> set existing. not_web x = Some True)" .
  have "not_web x \<noteq> None" if "x \<in> set existing" for x
    using s(1,2) that by (cases sf) (fastforce simp: ofilter_Some keeps_beside_showroom_def bind_eq_Some_conv)+
  moreover have "not_web y \<noteq> None" if y: "y \<in> set merged" for y
  proof -
    obtain x where x: "x \<in> set kept" "bound eip rw x = Some y" using omap_result[OF s(3) y] by blast
    then have "keeps_beside_showroom x = Some True" using kept by blast
    then obtain ep where "get x ''extPort'' = Some ep" by (auto simp: keeps_beside_showroom_def bind_eq_Some_conv)
    then have "not_web y = Some (\<not> web_port ep)" using same[OF x(2)] by simp
    then show ?thesis by (metis option.distinct(1))
  qed
  ultimately show ?thesis using ex by (simp add: oany_defined)
qed

section \<open>Taking off again\<close>

lemma strip_forwards_again:
  assumes "strip_forwards data = Some (c, pfs, d)"
  shows "list_field d ''portForwards'' = Some pfs \<and> get d ''subtype'' = get data ''subtype'' \<and>
    (\<forall>d'. get d' ''portForwards'' = get d ''portForwards'' \<longrightarrow> strip_forwards d' = Some (False, pfs, d'))"
proof -
  let ?keep = "\<lambda>pf. map_option Not (is_showroom_infra_forward pf)"
  obtain existing stripped where s: "list_field data ''portForwards'' = Some existing" "ofilter ?keep existing = Some stripped"
    using assms by (auto simp: strip_forwards_def bind_eq_Some_conv)
  have again: "ofilter ?keep stripped = Some stripped" using s(2) by (auto simp: ofilter_Some intro!: ofilter_id)
  have d: "list_field d ''portForwards'' = Some pfs \<and> pfs = stripped \<and> get d ''subtype'' = get data ''subtype''"
  proof (cases "stripped = existing")
    case True
    then show ?thesis using assms s by (auto simp: strip_forwards_def)
  next
    case False
    then obtain d1 mode where d1: "set_item data ''portForwards'' (JList stripped) = Some d1" "get d1 ''gatewayMode'' = Some mode"
      "(if stripped = [] \<and> mode = PORTFORWARD then set_item d1 ''gatewayMode'' NAT else Some d1) = Some d" "pfs = stripped"
      using assms s by (auto simp: strip_forwards_def bind_eq_Some_conv)
    have "get d ''portForwards'' = get d1 ''portForwards''" "get d ''subtype'' = get d1 ''subtype''"
      using d1(3) get_set_item_other[of d1 "''gatewayMode''" NAT d] by (auto split: if_splits)
    moreover have "get d1 ''portForwards'' = Some (JList stripped)" "get d1 ''subtype'' = get data ''subtype''"
      using get_set_item_same[OF d1(1)] get_set_item_other[OF d1(1)] by simp_all
    ultimately show ?thesis using d1(4) by (simp add: list_field_def get_or_else_def py_or_def)
  qed
  have "strip_forwards d' = Some (False, pfs, d')" if "get d' ''portForwards'' = get d ''portForwards''" for d'
    using field_cong(2)[OF that] d again by (simp add: strip_forwards_def)
  with d show ?thesis by simp
qed

lemma strip_outbound_again:
  assumes "strip_outbound data = Some (c, d)"
  shows "strip_outbound d = Some (False, d) \<and>
    (\<forall>k. k \<notin> {''outboundPorts'', ''showroomManagedOutbound''} \<longrightarrow> get d k = get data k)"
proof -
  obtain policy where policy: "get data ''outboundPolicy'' = Some policy"
    using assms by (auto simp: strip_outbound_def bind_eq_Some_conv)
  show ?thesis
  proof (cases "policy \<noteq> RESTRICT \<or> list_field data ''showroomManagedOutbound'' = Some []")
    case True
    then have "d = data \<and> \<not> c" using assms policy by (auto simp: strip_outbound_def split: if_splits)
    then show ?thesis using assms by simp
  next
    case False
    then obtain new d1 where d1: "d1 = data \<or> set_item data ''outboundPorts'' (JStr new) = Some d1"
      "pop_item d1 ''showroomManagedOutbound'' = Some d"
      using assms policy by (auto simp: strip_outbound_def bind_eq_Some_conv split: if_splits)
    have other: "get d k = get data k" if "k \<notin> {''outboundPorts'', ''showroomManagedOutbound''}" for k
      using that d1(1) get_pop_item[OF d1(2)] get_set_item_other by auto
    moreover have "get d ''showroomManagedOutbound'' = Some JNull" using get_pop_item[OF d1(2)] by simp
    ultimately show ?thesis
      using policy False by (simp add: strip_outbound_def list_field_def get_or_else_def py_or_def)
  qed
qed

lemma strip_gateway_again:
  assumes "strip_gateway_showroom_forwards data = Some (c, pfs, d)"
  shows "strip_gateway_showroom_forwards d = Some (False, pfs, d) \<and> get d ''subtype'' = get data ''subtype''"
proof -
  obtain c1 d1 c2 where s: "strip_forwards data = Some (c1, pfs, d1)" "strip_outbound d1 = Some (c2, d)"
    using assms by (auto simp: strip_gateway_showroom_forwards_def bind_eq_Some_conv)
  have "strip_outbound d = Some (False, d)" "get d ''portForwards'' = get d1 ''portForwards''" "get d ''subtype'' = get d1 ''subtype''"
    using strip_outbound_again[OF s(2)] by auto
  then show ?thesis using strip_forwards_again[OF s(1)] by (simp add: strip_gateway_showroom_forwards_def)
qed

lemma maybe_strip_again:
  assumes "maybe_strip_unused_auto_external_ip t pfs = Some (c, t')"
  shows "maybe_strip_unused_auto_external_ip t' pfs = Some (False, t') \<and>
    (t' = t \<or> set_item t ''externalIps'' (JList []) = Some t')"
proof (cases "t' = t \<and> \<not> c")
  case True
  then show ?thesis using assms by simp
next
  case False
  then have set: "set_item t ''externalIps'' (JList []) = Some t'"
  proof -
    obtain ext where ext: "external_ips t = Some ext"
      using assms by (auto simp: maybe_strip_unused_auto_external_ip_def bind_eq_Some_conv)
    show ?thesis
    proof (cases "\<exists>e. ext = [e]")
      case True
      then show ?thesis
        using assms ext False by (auto simp: maybe_strip_unused_auto_external_ip_def bind_eq_Some_conv split: if_splits)
    next
      case no: False
      then have "(case ext of [e] \<Rightarrow> f e | _ \<Rightarrow> g) = g" for f and g :: "(bool \<times> json) option"
        by (simp split: list.split)
      then show ?thesis using assms ext False by (simp add: maybe_strip_unused_auto_external_ip_def)
    qed
  qed
  then show ?thesis
    using get_set_item_same[OF set]
    by (simp add: maybe_strip_unused_auto_external_ip_def external_ips_def get_or_else_def py_or_def)
qed

end
