(* ===== verification/Showroom_Laws.thy ===== *)
theory Showroom_Laws
  imports Showroom_Sync
begin

text \<open>
  The entry point \<open>inject_showroom_gateway_port_forwards\<close>: the two branches, and its theorem.
\<close>

lemma strip_access_fix:
  assumes "strip_showroom_gateway_access t = Some (c, t')" "topology_has_showroom t = b"
  shows "strip_showroom_gateway_access t' = Some (False, t') \<and> topology_has_showroom t' = b"
proof -
  obtain gw where gw: "find_gateway_node t = Some gw" using assms(1) by (auto simp: strip_showroom_gateway_access_def bind_eq_Some_conv)
  have later: "topology_has_showroom t2 = topology_has_showroom t1 \<and> find_gateway_node t2 = find_gateway_node t1 \<and> topo_nodes t2 = topo_nodes t1"
    if "t2 = t1 \<or> set_item t1 ''externalIps'' (JList []) = Some t2" for t1 t2
    using that get_or_set_item[of t1 "''externalIps''" "JList []" t2]
    by (auto simp: topo_nodes_def topology_has_showroom_def find_gateway_node_def)
  show ?thesis
  proof (cases gw)
    case None
    then obtain c2 where s: "maybe_strip_unused_auto_external_ip t [] = Some (c2, t')"
      using assms(1) gw by (auto simp: strip_showroom_gateway_access_def bind_eq_Some_conv)
    then show ?thesis
      using maybe_strip_again[OF s] later[of t' t] gw None assms(2) by (simp add: strip_showroom_gateway_access_def)
  next
    case (Some g)
    obtain data c0 pfs d t1 c2 where s: "node_data g = Some data" "strip_gateway_showroom_forwards data = Some (c0, pfs, d)"
      "with_gateway_data t g d = Some t1" "maybe_strip_unused_auto_external_ip t1 pfs = Some (c2, t')"
      using assms(1) gw Some by (clarsimp simp: strip_showroom_gateway_access_def bind_eq_Some_conv)
    have again: "strip_gateway_showroom_forwards d = Some (False, pfs, d)" "get d ''subtype'' = get data ''subtype''"
      using strip_gateway_again[OF s(2)] by auto
    obtain g' where g': "find_gateway_node t1 = Some (Some g')" "node_data g' = Some d" "with_gateway_data t1 g' d = Some t1"
      "topology_has_showroom t1 = topology_has_showroom t"
      using with_gateway_data_fix[OF s(3) _ s(1) again(2)] gw Some by auto
    have e: "maybe_strip_unused_auto_external_ip t' pfs = Some (False, t')"
      and t': "t' = t1 \<or> set_item t1 ''externalIps'' (JList []) = Some t'" using maybe_strip_again[OF s(4)] by auto
    have "with_gateway_data t' g' d = Some t'"
    proof -
      obtain g2 ns ns' where w: "set_item g' ''data'' d = Some g2" "topo_nodes t1 = Some ns" "put_gateway g2 ns = Some ns'"
        "set_item t1 ''nodes'' (JList ns') = Some t1"
        using g'(3) by (auto simp: with_gateway_data_def bind_eq_Some_conv)
      have "get t1 ''nodes'' = Some (JList ns')" by (rule get_set_item_same[OF w(4)])
      then have "get t' ''nodes'' = Some (JList ns')" using t' get_set_item_other[of t1 "''externalIps''" "JList []" t'] by auto
      then have "set_item t' ''nodes'' (JList ns') = Some t'" by (rule set_item_present) simp
      then show ?thesis using w later[OF t'] by (simp add: with_gateway_data_def)
    qed
    then show ?thesis
      using later[OF t'] g' again e assms(2) by (simp add: strip_showroom_gateway_access_def)
  qed
qed

lemma forward_of_https: "forward_of vm rw = Some f \<Longrightarrow> not_https f = Some False \<and> not_web f = Some False"
  by (cases vm) (auto simp: forward_of_def Let_def showroom_forward_def web_port_def split: if_splits)

lemma needs_fix:
  assumes "showroom_needs_eip (Some g) rw = Some needs" "topology_has_showroom t = Some True" "node_data g = Some data"
    and "list_field data ''portForwards'' = Some existing" "merged_forwards t vm rw existing = Some merged"
    and "node_data g' = Some d" "list_field d ''portForwards'' = Some existing'" "existing' \<in> {existing, merged}"
  shows "showroom_needs_eip (Some g') rw = Some needs"
proof (cases rw)
  case True
  obtain eip where "merge_with (forward_of vm rw) eip rw existing = Some merged"
    using merged_forwards_with[OF assms(2)] assms(5) by blast
  then have "oany not_web merged = oany not_web existing" using forward_of_https by (rule merge_needs)
  then have "oany not_web existing' = oany not_web existing" using assms(8) by auto
  then show ?thesis using True assms by (simp add: showroom_needs_eip_def)
qed (use assms(1) in \<open>simp add: showroom_needs_eip_def\<close>)

text \<open>C25: synchronising the gateway with the showroom is idempotent. After a run that does not fail,
  with or without a showroom on the canvas, on every provider, a second run leaves the topology as it
  is and reports no change, whatever identifier it would have given a new address.\<close>
theorem showroom_sync_idempotent:
  assumes "inject_showroom_gateway_port_forwards fresh t vm ptype = Some (c, t')" "wf_json t"
  shows "inject_showroom_gateway_port_forwards fresh' t' vm ptype = Some (False, t')"
proof -
  define rw where "rw = (case ptype of None \<Rightarrow> False | Some p \<Rightarrow> p \<in> set ROUTE_PROVIDERS)"
  obtain has where has: "topology_has_showroom t = Some has"
    using assms(1) by (auto simp: inject_showroom_gateway_port_forwards_def bind_eq_Some_conv)
  show ?thesis
  proof (cases has)
    case False
    then have strip: "strip_showroom_gateway_access t = Some (c, t')"
      using assms(1) has by (simp add: inject_showroom_gateway_port_forwards_def)
    show ?thesis using strip_access_fix[OF strip has] False by (simp add: inject_showroom_gateway_port_forwards_def)
  next
    case True
    then obtain gw needs c1 t1 where s: "find_gateway_node t = Some gw" "showroom_needs_eip gw rw = Some needs"
      "(if needs then ensure_showroom_external_ips fresh t else strip_auto_showroom_external_ip t) = Some (c1, t1)"
      "(case gw of None \<Rightarrow> Some (c1, t1)
        | Some g \<Rightarrow> do { (c2, t2) \<leftarrow> sync_showroom_gateway_forwards t1 g vm rw; Some (c1 \<or> c2, t2) }) = Some (c, t')"
      using assms(1) has
      by (clarsimp simp: inject_showroom_gateway_port_forwards_def bind_eq_Some_conv Let_def simp flip: rw_def)
    have t1: "wf_json t1" "topology_has_showroom t1 = Some True" "find_gateway_node t1 = Some gw"
      using s(3) ensure_external_fix[of fresh t c1 t1 gw] strip_auto_fix[of t c1 t1] has True s(1) assms(2) by (auto split: if_splits)
    have ext: "(if needs then ensure_showroom_external_ips fresh' t2 else strip_auto_showroom_external_ip t2) = Some (False, t2)"
      if t2: "topology_has_showroom t2 = Some True" "find_gateway_node t2 = Some gw2" "(gw2 = None) = (gw = None)"
        "get t2 ''externalIps'' = get t1 ''externalIps''" for t2 gw2
    proof (cases needs)
      case False
      then show ?thesis using s(3) t2(4) strip_auto_fix[of t c1 t1 "Some True" "Some gw"] has True s(1) assms(2) by simp
    next
      case needed: True
      have "gw = None \<or> (\<exists>ext. get t1 ''externalIps'' = Some ext \<and> truthy ext)"
        using needed s(3) ensure_external_fix[of fresh t c1 t1 gw] has True s(1) assms(2) by auto
      moreover obtain ext where "get t1 ''externalIps'' = Some ext"
        using t1(2) by (cases t1) (auto simp: topology_has_showroom_def topo_nodes_def)
      ultimately show ?thesis using needed t2 by (auto simp: ensure_showroom_external_ips_def)
    qed
    show ?thesis
    proof (cases gw)
      case None
      then have "t' = t1" using s(4) by simp
      then show ?thesis
        using ext[OF t1(2,3)] t1 None s(2) by (simp add: inject_showroom_gateway_port_forwards_def Let_def flip: rw_def)
    next
      case (Some g)
      then obtain c2 where sync: "sync_showroom_gateway_forwards t1 g vm rw = Some (c2, t')"
        using s(4) by (auto simp: bind_eq_Some_conv)
      obtain g' data existing existing' merged d where f: "find_gateway_node t' = Some (Some g')" "topology_has_showroom t' = Some True"
        "\<forall>k. k \<noteq> ''nodes'' \<longrightarrow> get t' k = get t1 k" "sync_showroom_gateway_forwards t' g' vm rw = Some (False, t')"
        "node_data g = Some data" "list_field data ''portForwards'' = Some existing"
        "merged_forwards t1 vm rw existing = Some merged" "node_data g' = Some d"
        "list_field d ''portForwards'' = Some existing'" "existing' \<in> {existing, merged}"
        by (rule sync_fix[OF sync t1(3)[unfolded Some] t1(2,1)])
      have "showroom_needs_eip (Some g') rw = Some needs"
        using needs_fix[OF _ t1(2) f(5-10)] s(2) Some by blast
      then show ?thesis
        using ext[OF f(2,1)] f(1-4) Some by (simp add: inject_showroom_gateway_port_forwards_def Let_def flip: rw_def)
    qed
  qed
qed

definition showroom_canvas :: json where
  "showroom_canvas = JObj [(''nodes'', JList [
      JObj [(''id'', JStr ''s''), (''type'', JStr ''containerNode''), (''data'', JObj [(''isShowroom'', JBool True)])],
      JObj [(''id'', JStr ''gw''), (''type'', JStr ''networkNode''), (''data'', JObj [(''subtype'', JStr ''gateway''),
        (''outboundPolicy'', JStr ''restrict''),
        (''portForwards'', JList [JObj [(''extPort'', JStr ''22''), (''intIp'', JStr ''10.0.0.5''), (''intPort'', JInt 22)],
           JObj [(''extPort'', JInt 443), (''intIp'', JStr ''10.0.0.6''), (''intPort'', JInt 443)]])])]])]"

theorem showroom_sync_idempotent_witness:
  "\<exists>t'. inject_showroom_gateway_port_forwards ''a'' showroom_canvas [(JStr ''net'', 7)] (Some ''ec2'') = Some (True, t') \<and>
     inject_showroom_gateway_port_forwards ''b'' t' [(JStr ''net'', 7)] (Some ''ec2'') = Some (False, t')"
proof -
  have "case inject_showroom_gateway_port_forwards ''a'' showroom_canvas [(JStr ''net'', 7)] (Some ''ec2'') of
      None \<Rightarrow> False | Some ct \<Rightarrow> fst ct" "wf_json showroom_canvas" by code_simp+
  then obtain t' where "inject_showroom_gateway_port_forwards ''a'' showroom_canvas [(JStr ''net'', 7)] (Some ''ec2'') = Some (True, t')"
    "wf_json showroom_canvas" by (auto split: option.splits)
  then show ?thesis using showroom_sync_idempotent by blast
qed

end
