(* ===== verification/Topology_Egress.thy ===== *)
theory Topology_Egress
  imports Showroom "HOL-Library.List_Lexorder" "HOL-Library.Char_ord"
begin

text \<open>
  Networks behind the gateway in \<open>deploy_topology.py\<close>: which lab networks are connected to it, in
  which order they serve as the default route of a cluster, and which one answers the DNS queries
  of the showroom; with the checks of the showroom. Sets are lists without repetitions; the
  order in which Python visits a set is a parameter.
\<close>

section \<open>Networks connected to the gateway\<close>

definition network_dns_enabled :: "json \<Rightarrow> bool option" where
  "network_dns_enabled data = do {
     dns \<leftarrow> get data ''dns'';
     s \<leftarrow> get data ''subtype'';
     Some (truthy dns \<or> s = JStr ''dns'')
   }"

definition peer_lab_network_on_gateway_edge ::
    "json \<Rightarrow> json \<Rightarrow> (json \<times> json) list \<Rightarrow> json option option" where
  "peer_lab_network_on_gateway_edge edge gateway_id nbi = do {
     src \<leftarrow> get_or edge ''source'' (JStr []);
     tgt \<leftarrow> get_or edge ''target'' (JStr []);
     if src \<noteq> gateway_id \<and> tgt \<noteq> gateway_id then Some None
     else do {
       peer \<leftarrow> lookup nbi (if src = gateway_id then tgt else src) JNull;
       plain \<leftarrow> is_plain_network peer;
       Some (if plain then Some peer else None)
     }
   }"

definition data_or_empty :: "json \<Rightarrow> json option" where
  "data_or_empty node = get_or_else node ''data'' (JObj [])"

definition add_indexed :: "(json \<times> json) list \<Rightarrow> json \<Rightarrow> (json \<times> json) list option" where
  "add_indexed m node = do {
     i \<leftarrow> get node ''id'';
     nid \<leftarrow> (if truthy i then Some i else do { d \<leftarrow> data_or_empty node; get d ''id'' });
     if truthy nid then do { s \<leftarrow> py_str nid; Some (AList.update (JStr s) node m) } else Some m
   }"

definition topology_nodes_by_id :: "json \<Rightarrow> (json \<times> json) list option" where
  "topology_nodes_by_id topology = do { ns \<leftarrow> topo_nodes topology; ofold add_indexed [] ns }"

definition add_connected :: "json \<Rightarrow> (json \<times> json) list \<Rightarrow> json list \<Rightarrow> json \<Rightarrow> json list option" where
  "add_connected gateway_id nbi acc edge = do {
     p \<leftarrow> peer_lab_network_on_gateway_edge edge gateway_id nbi;
     (case p of
        None \<Rightarrow> Some acc
      | Some peer \<Rightarrow> do { i \<leftarrow> index peer ''id''; k \<leftarrow> hkey i; Some (add_once k acc) })
   }"

definition gateway_connected_network_ids :: "json \<Rightarrow> json list option" where
  "gateway_connected_network_ids topology = do {
     gw \<leftarrow> find_gateway_node topology;
     (case gw of
        None \<Rightarrow> Some []
      | Some g \<Rightarrow> do {
          nbi \<leftarrow> topology_nodes_by_id topology;
          gid \<leftarrow> index g ''id'';
          es \<leftarrow> topo_edges topology;
          ofold (add_connected gid nbi) [] es
        })
   }"

definition is_network_gateway_connected :: "json \<Rightarrow> json \<Rightarrow> bool option" where
  "is_network_gateway_connected topology network_id = do {
     ids \<leftarrow> gateway_connected_network_ids topology;
     k \<leftarrow> hkey network_id;
     Some (k \<in> set ids)
   }"

section \<open>The default route of a cluster\<close>

definition is_post_install_auxiliary_network :: "json \<Rightarrow> bool option" where
  "is_post_install_auxiliary_network node =
     (if \<not> truthy node then Some False
      else do {
        t \<leftarrow> get node ''type'';
        if t \<noteq> NETWORK_NODE then Some False
        else do {
          data \<leftarrow> data_or_empty node;
          nt \<leftarrow> get data ''networkType'';
          nm \<leftarrow> get data ''name'';
          Some (nt = JStr ''migration'' \<or>
            (case py_str (py_or nm (JStr [])) of None \<Rightarrow> False | Some s \<Rightarrow> py_lower s = ''migration''))
        }
      })"

definition eligible_egress_network_node :: "(json \<times> json) list \<Rightarrow> json \<Rightarrow> json option option" where
  "eligible_egress_network_node nbi net_id = do {
     node \<leftarrow> lookup nbi net_id JNull;
     if \<not> truthy node then Some None
     else do {
       aux \<leftarrow> is_post_install_auxiliary_network node;
       if aux then Some None
       else do { plain \<leftarrow> is_plain_network node; Some (if plain then Some node else None) }
     }
   }"

definition is_control_plane_vm :: "json \<Rightarrow> json \<Rightarrow> bool option" where
  "is_control_plane_vm data cluster_id = do {
     c \<leftarrow> get data ''clusterId'';
     if \<not> py_eq c cluster_id then Some False
     else do {
       role \<leftarrow> get data ''clusterRole'';
       if role = JStr ''control-plane'' then Some True
       else do {
         tags \<leftarrow> get_or_else data ''tags'' (JObj []);
         group \<leftarrow> get tags ''AnsibleGroup'';
         Some (group = JStr ''controllers'')
       }
     }
   }"

definition find_control_plane_vm :: "json \<Rightarrow> json \<Rightarrow> json option option" where
  "find_control_plane_vm cluster_id topology = do {
     ns \<leftarrow> topo_nodes topology;
     ofind (\<lambda>node. do {
       t \<leftarrow> get node ''type'';
       if t \<noteq> VM_NODE then Some False
       else do { d \<leftarrow> data_or_empty node; is_control_plane_vm d cluster_id }
     }) ns
   }"

definition cp_primary_ip :: "json \<Rightarrow> string option" where
  "cp_primary_ip cp_node = do {
     d \<leftarrow> data_or_empty cp_node;
     nv \<leftarrow> get_or_else d ''nics'' (JList []);
     nics \<leftarrow> as_list nv;
     (case nics of
        [] \<Rightarrow> Some []
      | n # _ \<Rightarrow> stripped_field (py_or n (JObj [])) ''ip'')
   }"

fun network_containing_ip :: "json list \<Rightarrow> (json \<times> json) list \<Rightarrow> int \<Rightarrow> json option option" where
  "network_containing_ip [] nbi addr = Some None"
| "network_containing_ip (net_id # ids) nbi addr = do {
     e \<leftarrow> eligible_egress_network_node nbi net_id;
     (case e of
        None \<Rightarrow> network_containing_ip ids nbi addr
      | Some node \<Rightarrow> do {
          d \<leftarrow> data_or_empty node;
          cidr \<leftarrow> get_or d ''cidr'' (JStr []);
          (case network_of_json cidr of
             None \<Rightarrow> network_containing_ip ids nbi addr
           | Some net \<Rightarrow> if in_network addr net then Some (Some node) else network_containing_ip ids nbi addr)
        })
   }"

definition control_plane_network_for_cluster ::
    "(json list \<Rightarrow> json list) \<Rightarrow> json \<Rightarrow> json \<Rightarrow> json list \<Rightarrow> (json \<times> json) list \<Rightarrow> json option option" where
  "control_plane_network_for_cluster visit cluster topology gw_ids nbi = do {
     cid \<leftarrow> get cluster ''id'';
     cp \<leftarrow> find_control_plane_vm cid topology;
     (case cp of
        None \<Rightarrow> Some None
      | Some cp_node \<Rightarrow> do {
          cp_ip \<leftarrow> cp_primary_ip cp_node;
          (case addr_of_text cp_ip of
             None \<Rightarrow> Some None
           | Some addr \<Rightarrow> network_containing_ip (visit gw_ids) nbi addr)
        })
   }"

text \<open>The networks ranked so far, and the ids that were seen.\<close>

type_synonym ranking = "json list \<times> json list"

definition append_ranked_network :: "json option \<Rightarrow> ranking \<Rightarrow> ranking option" where
  "append_ranked_network n st =
     (case n of
        None \<Rightarrow> Some st
      | Some node \<Rightarrow> do {
          net_id \<leftarrow> get_or node ''id'' (JStr []);
          if \<not> truthy net_id then Some st
          else do {
            k \<leftarrow> hkey net_id;
            Some (if k \<in> set (fst st) then st else (fst st @ [k], snd st @ [node]))
          }
        })"

definition dns_egress_step :: "json list \<Rightarrow> (json \<times> json) list \<Rightarrow> ranking \<Rightarrow> json \<Rightarrow> ranking option" where
  "dns_egress_step gw_ids nbi st net_id = do {
     k \<leftarrow> hkey net_id;
     if k \<notin> set gw_ids then Some st
     else do {
       e \<leftarrow> eligible_egress_network_node nbi net_id;
       (case e of
          None \<Rightarrow> Some st
        | Some node \<Rightarrow> do {
            d \<leftarrow> data_or_empty node;
            dns \<leftarrow> network_dns_enabled d;
            if dns then append_ranked_network (Some node) st else Some st
          })
     }
   }"

definition cluster_egress_step :: "json list \<Rightarrow> (json \<times> json) list \<Rightarrow> ranking \<Rightarrow> json \<Rightarrow> ranking option" where
  "cluster_egress_step gw_ids nbi st net_id = do {
     k \<leftarrow> hkey net_id;
     if k \<notin> set gw_ids then Some st
     else do {
       e \<leftarrow> eligible_egress_network_node nbi net_id;
       append_ranked_network e st
     }
   }"

definition rank_dns_egress_networks :: "json list \<Rightarrow> json list \<Rightarrow> (json \<times> json) list \<Rightarrow> ranking \<Rightarrow> ranking option" where
  "rank_dns_egress_networks net_ids gw_ids nbi st = ofold (dns_egress_step gw_ids nbi) st net_ids"

definition rank_cluster_network_ids :: "json list \<Rightarrow> json list \<Rightarrow> (json \<times> json) list \<Rightarrow> ranking \<Rightarrow> ranking option" where
  "rank_cluster_network_ids net_ids gw_ids nbi st = ofold (cluster_egress_step gw_ids nbi) st net_ids"

text \<open>\<open>sorted(gw_ids)\<close>: the ids are texts.\<close>

definition sorted_ids :: "json list \<Rightarrow> json list option" where
  "sorted_ids ids = map_option (\<lambda>ss. map JStr (sort ss)) (omap as_str ids)"

definition remaining_step :: "(json \<times> json) list \<Rightarrow> json list \<Rightarrow> json list \<Rightarrow> json \<Rightarrow> json list option" where
  "remaining_step nbi seen acc net_id = do {
     e \<leftarrow> eligible_egress_network_node nbi net_id;
     (case e of
        None \<Rightarrow> Some acc
      | Some node \<Rightarrow> do {
          i \<leftarrow> get node ''id'';
          k \<leftarrow> hkey i;
          Some (if k \<in> set seen then acc else acc @ [node])
        })
   }"

definition id_text :: "json \<Rightarrow> string option" where
  "id_text node = do { i \<leftarrow> get_or node ''id'' (JStr []); py_str i }"

definition rank_remaining_gw_networks :: "json list \<Rightarrow> (json \<times> json) list \<Rightarrow> ranking \<Rightarrow> json list option" where
  "rank_remaining_gw_networks gw_ids nbi st = do {
     ids \<leftarrow> sorted_ids gw_ids;
     remaining \<leftarrow> ofold (remaining_step nbi (fst st)) [] ids;
     keyed \<leftarrow> omap (\<lambda>n. map_option (\<lambda>s. (s, n)) (id_text n)) remaining;
     Some (snd st @ map snd (sort_key fst keyed))
   }"

definition rank_cluster_egress_network_nodes :: "(json list \<Rightarrow> json list) \<Rightarrow> json \<Rightarrow> json \<Rightarrow> json list option" where
  "rank_cluster_egress_network_nodes visit cluster topology = do {
     gw_ids \<leftarrow> gateway_connected_network_ids topology;
     if gw_ids = [] then Some []
     else do {
       nbi \<leftarrow> topology_nodes_by_id topology;
       net_ids \<leftarrow> list_field cluster ''networkIds'';
       s1 \<leftarrow> rank_dns_egress_networks net_ids gw_ids nbi ([], []);
       s2 \<leftarrow> rank_cluster_network_ids net_ids gw_ids nbi s1;
       cp \<leftarrow> control_plane_network_for_cluster visit cluster topology gw_ids nbi;
       s3 \<leftarrow> append_ranked_network cp s2;
       rank_remaining_gw_networks gw_ids nbi s3
     }
   }"

definition cluster_egress_network_node :: "(json list \<Rightarrow> json list) \<Rightarrow> json \<Rightarrow> json \<Rightarrow> json option option" where
  "cluster_egress_network_node visit cluster topology = do {
     ranked \<leftarrow> rank_cluster_egress_network_nodes visit cluster topology;
     Some (case ranked of [] \<Rightarrow> None | n # _ \<Rightarrow> Some n)
   }"

definition cluster_egress_network_id :: "(json list \<Rightarrow> json list) \<Rightarrow> json \<Rightarrow> json \<Rightarrow> string option" where
  "cluster_egress_network_id visit cluster topology = do {
     n \<leftarrow> cluster_egress_network_node visit cluster topology;
     (case n of
        None \<Rightarrow> Some []
      | Some node \<Rightarrow> do {
          d \<leftarrow> data_or_empty node;
          di \<leftarrow> get_or d ''id'' (JStr []);
          i \<leftarrow> get_or node ''id'' di;
          py_str i
        })
   }"

fun nic_on_network :: "(json \<times> json) list \<Rightarrow> json \<Rightarrow> nat \<Rightarrow> json list \<Rightarrow> (nat \<times> json) option option" where
  "nic_on_network nic_map network_id i [] = Some None"
| "nic_on_network nic_map network_id i (nic # nics) = do {
     nid \<leftarrow> get_or nic ''id'' (JStr []);
     net \<leftarrow> (if truthy nid then lookup nic_map nid JNull else Some JNull);
     if truthy nid \<and> net = network_id then Some (Some (i, nic))
     else nic_on_network nic_map network_id (Suc i) nics
   }"

fun position_of :: "json \<Rightarrow> json list \<Rightarrow> nat option" where
  "position_of x [] = None"
| "position_of x (y # ys) = (if py_eq y x then Some 0 else map_option Suc (position_of x ys))"

definition vm_nic_for_network :: "json \<Rightarrow> json \<Rightarrow> json \<Rightarrow> json \<Rightarrow> (nat \<times> json) option option" where
  "vm_nic_for_network vm_node network_id cluster topology = do {
     data \<leftarrow> data_or_empty vm_node;
     nv \<leftarrow> get_or_else data ''nics'' (JList []);
     nics \<leftarrow> as_list nv;
     if nics = [] \<or> \<not> truthy network_id then Some None
     else do {
       nbi \<leftarrow> topology_nodes_by_id topology;
       nic_map \<leftarrow> build_nic_to_network_map topology nbi;
       found \<leftarrow> nic_on_network nic_map network_id 0 nics;
       (case found of
          Some r \<Rightarrow> Some (Some r)
        | None \<Rightarrow> do {
            iv \<leftarrow> get_or_else cluster ''networkIds'' (JList []);
            net_ids \<leftarrow> as_list iv;
            Some (case position_of network_id net_ids of
                None \<Rightarrow> None
              | Some i \<Rightarrow> if i < length nics then Some (i, nics ! i) else None)
          })
     }
   }"

section \<open>DNS for the showroom\<close>

definition resolve_network_gateway :: "json \<Rightarrow> json \<Rightarrow> json option" where
  "resolve_network_gateway net_data cidr = do {
     gateway \<leftarrow> get_or (py_or net_data (JObj [])) ''dhcpGateway'' (JStr []);
     Some (if truthy gateway then gateway
           else if \<not> truthy cidr then JStr []
           else (case network_of_json cidr of
               None \<Rightarrow> JStr []
             | Some n \<Rightarrow> (case hosts_nth n 0 of None \<Rightarrow> JStr [] | Some a \<Rightarrow> JStr (addr_text a))))
   }"

definition resolve_network_dns_nameserver :: "json \<Rightarrow> json \<Rightarrow> json option" where
  "resolve_network_dns_nameserver net_data cidr = do {
     server \<leftarrow> stripped_field (py_or net_data (JObj [])) ''dnsServerIp'';
     if server \<noteq> [] then Some (JStr server) else resolve_network_gateway net_data cidr
   }"

definition name_or_label :: "json \<Rightarrow> string option" where
  "name_or_label data = do {
     nm \<leftarrow> get data ''name'';
     lb \<leftarrow> get data ''label'';
     map_option py_strip (py_str (py_or nm (py_or lb (JStr []))))
   }"

fun dns_network_loop :: "json \<Rightarrow> (json \<times> json) list \<Rightarrow> json list \<Rightarrow> string option" where
  "dns_network_loop gid nbi [] = Some []"
| "dns_network_loop gid nbi (edge # es) = do {
     p \<leftarrow> peer_lab_network_on_gateway_edge edge gid nbi;
     (case p of
        None \<Rightarrow> dns_network_loop gid nbi es
      | Some peer \<Rightarrow> do {
          data \<leftarrow> node_data peer;
          dns \<leftarrow> network_dns_enabled data;
          if \<not> dns then dns_network_loop gid nbi es
          else do {
            name \<leftarrow> name_or_label data;
            if name \<noteq> [] then Some name else dns_network_loop gid nbi es
          }
        })
   }"

definition gateway_connected_dns_network_name :: "json \<Rightarrow> string option" where
  "gateway_connected_dns_network_name topology = do {
     gw \<leftarrow> find_gateway_node topology;
     (case gw of
        None \<Rightarrow> Some []
      | Some g \<Rightarrow> do {
          data \<leftarrow> node_data g;
          allows \<leftarrow> gateway_allows_dns_upstream data;
          if \<not> allows then Some []
          else do {
            nbi \<leftarrow> nodes_by_id topology;
            gid \<leftarrow> index g ''id'';
            es \<leftarrow> topo_edges topology;
            dns_network_loop gid nbi es
          }
        })
   }"

fun showroom_dns_choice :: "json list \<Rightarrow> string option" where
  "showroom_dns_choice [] = Some []"
| "showroom_dns_choice (node # ns) = do {
     b \<leftarrow> is_showroom_node node;
     if \<not> b then showroom_dns_choice ns
     else do {
       d \<leftarrow> node_data node;
       name \<leftarrow> stripped_field d ''dnsNetwork'';
       if name \<noteq> [] then Some name else showroom_dns_choice ns
     }
   }"

definition showroom_dns_network_name :: "json \<Rightarrow> string option" where
  "showroom_dns_network_name topology = do {
     cfg \<leftarrow> get_or_else topology ''showroom'' (JObj []);
     name \<leftarrow> stripped_field cfg ''dns_network'';
     if name \<noteq> [] then Some name
     else do {
       ns \<leftarrow> topo_nodes topology;
       chosen \<leftarrow> showroom_dns_choice ns;
       if chosen \<noteq> [] then Some chosen else gateway_connected_dns_network_name topology
     }
   }"

definition find_lab_network_by_name :: "json \<Rightarrow> string \<Rightarrow> json option option" where
  "find_lab_network_by_name topology name0 =
     (let name = py_strip name0
      in if name = [] then Some None
         else do {
           ns \<leftarrow> topo_nodes topology;
           ofind (\<lambda>node. do {
             plain \<leftarrow> is_plain_network node;
             if \<not> plain then Some False
             else do {
               data \<leftarrow> node_data node;
               nm \<leftarrow> get data ''name'';
               lb \<leftarrow> get data ''label'';
               Some (nm = JStr name \<or> lb = JStr name)
             }
           }) ns
         })"

definition nameserver_for_lab_network :: "json option \<Rightarrow> json option" where
  "nameserver_for_lab_network n =
     (case n of
        None \<Rightarrow> Some (JStr [])
      | Some node \<Rightarrow> do {
          data \<leftarrow> node_data node;
          cidr \<leftarrow> get_or data ''cidr'' (JStr []);
          if \<not> truthy cidr then Some (JStr []) else resolve_network_dns_nameserver data cidr
        })"

definition gateway_connected_dns_nameserver :: "json \<Rightarrow> json option" where
  "gateway_connected_dns_nameserver topology = do {
     name \<leftarrow> gateway_connected_dns_network_name topology;
     if name = [] then Some (JStr [])
     else do { n \<leftarrow> find_lab_network_by_name topology name; nameserver_for_lab_network n }
   }"

definition showroom_dns_nameserver :: "json \<Rightarrow> json option" where
  "showroom_dns_nameserver topology = do {
     name \<leftarrow> showroom_dns_network_name topology;
     if name \<noteq> [] then do { n \<leftarrow> find_lab_network_by_name topology name; nameserver_for_lab_network n }
     else gateway_connected_dns_nameserver topology
   }"

definition showroom_infra_network :: "(json \<times> int) list \<Rightarrow> json \<Rightarrow> json \<Rightarrow> json list" where
  "showroom_infra_network vni_map mac dns =
     (case showroom_transit_octet3 vni_map of
        None \<Rightarrow> []
      | Some o3 \<Rightarrow>
          [JObj ([(''bridge'', JStr []), (''mac'', mac), (''ip'', JStr (ip4 o3 3)),
             (''cidr'', JStr (ip4 o3 0 @ ''/24'')), (''gateway'', JStr (ip4 o3 2)), (''infra_transit'', JBool True)]
             @ (if truthy dns then [(''dns_nameserver'', dns)] else []))])"

section \<open>Checks of the showroom\<close>

datatype showroom_error =
    Dns_not_enabled_anywhere
  | Dns_network_missing string
  | Dns_network_without_dns string
  | Dns_network_without_cidr string
  | Dns_network_unconnected string
  | Several_showrooms
  | Gateway_required
  | Content_repo_required
  | Dns_outbound_blocked

definition showroom_content_repo :: "json \<Rightarrow> json \<Rightarrow> string option" where
  "showroom_content_repo topology showroom_node = do {
     cfg \<leftarrow> get_or_else topology ''showroom'' (JObj []);
     repo \<leftarrow> stripped_field cfg ''content_repo'';
     if repo \<noteq> [] then Some repo
     else do { data \<leftarrow> node_data showroom_node; stripped_field data ''contentRepo'' }
   }"

definition validate_showroom_dns_config :: "json \<Rightarrow> showroom_error list option" where
  "validate_showroom_dns_config topology = do {
     name \<leftarrow> showroom_dns_network_name topology;
     if name = [] then Some [Dns_not_enabled_anywhere]
     else do {
       n \<leftarrow> find_lab_network_by_name topology name;
       (case n of
          None \<Rightarrow> Some [Dns_network_missing name]
        | Some node \<Rightarrow> do {
            data \<leftarrow> node_data node;
            dns \<leftarrow> network_dns_enabled data;
            if \<not> dns then Some [Dns_network_without_dns name]
            else do {
              cidr \<leftarrow> get data ''cidr'';
              if \<not> truthy cidr then Some [Dns_network_without_cidr name]
              else do {
                i \<leftarrow> index node ''id'';
                connected \<leftarrow> is_network_gateway_connected topology i;
                Some (if connected then [] else [Dns_network_unconnected name])
              }
            }
          })
     }
   }"

definition validate_showroom_topology :: "json \<Rightarrow> showroom_error list option" where
  "validate_showroom_topology topology = do {
     ns \<leftarrow> topo_nodes topology;
     rooms \<leftarrow> ofilter is_showroom_node ns;
     (case rooms of
        [] \<Rightarrow> Some []
      | [showroom] \<Rightarrow> do {
          gw \<leftarrow> find_gateway_node topology;
          cfg \<leftarrow> get_or_else topology ''showroom'' (JObj []);
          enabled \<leftarrow> get_or cfg ''enabled'' (JBool True);
          let e1 = (if gw = None then [Gateway_required] else []);
          if \<not> truthy enabled then Some e1
          else do {
            repo \<leftarrow> showroom_content_repo topology showroom;
            dns \<leftarrow> validate_showroom_dns_config topology;
            allows \<leftarrow> (case gw of None \<Rightarrow> Some True | Some g \<Rightarrow> do { d \<leftarrow> node_data g; gateway_allows_dns_upstream d });
            Some (e1 @ (if repo = [] then [Content_repo_required] else []) @ dns
                  @ (if allows then [] else [Dns_outbound_blocked]))
          }
        }
      | _ \<Rightarrow> Some [Several_showrooms])
   }"

text \<open>Addresses of the transit network.\<close>

definition transit_host :: "string \<Rightarrow> json \<Rightarrow> bool option" where
  "transit_host octet ip = do {
     s \<leftarrow> as_str (py_or ip (JStr []));
     Some (case py_split (CHR ''.'') s of
         [a, b, _, d] \<Rightarrow> a = ''172'' \<and> b = ''30'' \<and> d = octet
       | _ \<Rightarrow> False)
   }"

definition is_terminator_ip :: "json \<Rightarrow> bool option" where "is_terminator_ip ip = transit_host ''1'' ip"
definition is_ops_infra_ip :: "json \<Rightarrow> bool option" where "is_ops_infra_ip ip = transit_host ''4'' ip"

definition ops_infra_ip :: "(json \<times> int) list \<Rightarrow> string" where
  "ops_infra_ip vni_map = (case showroom_transit_octet3 vni_map of None \<Rightarrow> [] | Some o3 \<Rightarrow> ip4 o3 4)"

end
