(* ===== verification/Egress_Laws.thy ===== *)
theory Egress_Laws
  imports Topology_Egress
begin

text \<open>
  The ranking of the egress networks is a ranking: every eligible network behind the gateway occurs
  once, and nothing else; a DNS network of the cluster comes first.
\<close>

definition node_key :: "json \<Rightarrow> json" where
  "node_key node = (case get node ''id'' of Some i \<Rightarrow> i | None \<Rightarrow> JNull)"

definition text_id :: "json \<Rightarrow> bool" where
  "text_id node = (case node_key node of JStr s \<Rightarrow> s \<noteq> [] | _ \<Rightarrow> False)"

lemma text_idE:
  assumes "text_id n"
  obtains s where "get n ''id'' = Some (JStr s)" "s \<noteq> []" "node_key n = JStr s"
  using assms by (auto simp: text_id_def node_key_def split: option.splits json.splits)

definition egress_index :: "(json \<times> json) list \<Rightarrow> bool" where
  "egress_index nbi = (\<forall>(k, n) \<in> set nbi. text_id n \<and> k = node_key n)"

lemma indexed:
  assumes "topology_nodes_by_id t = Some nbi" "topo_nodes t = Some ns" "\<forall>n \<in> set ns. text_id n"
  shows "egress_index nbi"
proof -
  have "ofold add_indexed [] ns = Some nbi" using assms(1,2) by (simp add: topology_nodes_by_id_def)
  then show ?thesis
  proof (rule ofold_invariant)
    show "egress_index []" by (simp add: egress_index_def)
    show "egress_index v" if "x \<in> set ns" "egress_index u" "add_indexed u x = Some v" for u x v
    proof -
      have "text_id x" using assms(3) that(1) by blast
      then obtain s where s: "get x ''id'' = Some (JStr s)" "s \<noteq> []" "node_key x = JStr s" by (rule text_idE)
      then have "v = AList.update (JStr s) x u" using that(3) by (simp add: add_indexed_def)
      then show ?thesis
        using that(1,2) s(3) assms(3) update_entries_subset[of "JStr s" x u] by (auto simp: egress_index_def)
    qed
  qed
qed

lemma eligible_key:
  assumes "eligible_egress_network_node nbi k = Some (Some n)" "egress_index nbi"
  shows "node_key n = k \<and> text_id n"
proof -
  have "map_of nbi k = Some n"
    using assms(1) by (auto simp: eligible_egress_network_node_def lookup_def dict_get_def bind_eq_Some_conv dest!: hkey_SomeD
        split: if_splits option.splits)
  then show ?thesis using assms(2) by (auto simp: egress_index_def dest!: map_of_SomeD)
qed

definition ranked_ok :: "json list \<Rightarrow> (json \<times> json) list \<Rightarrow> ranking \<Rightarrow> bool" where
  "ranked_ok gw nbi st \<longleftrightarrow> fst st = map node_key (snd st) \<and> distinct (fst st) \<and>
     (\<forall>n \<in> set (snd st). node_key n \<in> set gw \<and> eligible_egress_network_node nbi (node_key n) = Some (Some n))"

lemma append_ranked:
  assumes "append_ranked_network (Some n) st = Some st'" "text_id n"
  shows "st' = (if node_key n \<in> set (fst st) then st else (fst st @ [node_key n], snd st @ [n]))"
proof -
  obtain s where s: "get n ''id'' = Some (JStr s)" "s \<noteq> []" "node_key n = JStr s" by (rule text_idE[OF assms(2)])
  then have "get_or n ''id'' (JStr []) = Some (JStr s)" by (cases n) (auto simp: get_def split: option.splits)
  with s show ?thesis using assms(1) by (auto simp: append_ranked_network_def)
qed

lemma append_ranked_ok:
  assumes "append_ranked_network e st = Some st'" "ranked_ok gw nbi st" "egress_index nbi"
    and "\<And>n. e = Some n \<Longrightarrow> \<exists>k \<in> set gw. eligible_egress_network_node nbi k = Some (Some n)"
  shows "ranked_ok gw nbi st'"
proof (cases e)
  case None
  then show ?thesis using assms(1,2) by (simp add: append_ranked_network_def)
next
  case (Some n)
  then obtain k where k: "k \<in> set gw" "eligible_egress_network_node nbi k = Some (Some n)" using assms(4) by blast
  then have n: "node_key n = k" "text_id n" using eligible_key assms(3) by blast+
  then show ?thesis
    using append_ranked[of n st st'] assms(1,2) Some k by (auto simp: ranked_ok_def)
qed

definition dns_egress :: "json list \<Rightarrow> (json \<times> json) list \<Rightarrow> json \<Rightarrow> bool" where
  "dns_egress gw nbi k =
     (k \<in> set gw \<and>
      (case eligible_egress_network_node nbi k of
         Some (Some n) \<Rightarrow> Option.bind (data_or_empty n) network_dns_enabled = Some True
       | _ \<Rightarrow> False))"

lemma dns_stepD:
  assumes "dns_egress_step gw nbi st k = Some st'"
  shows "\<not> dns_egress gw nbi k \<and> st' = st \<or>
    dns_egress gw nbi k \<and> (\<exists>n. eligible_egress_network_node nbi k = Some (Some n) \<and> append_ranked_network (Some n) st = Some st')"
  using assms
  by (auto simp: dns_egress_step_def dns_egress_def bind_eq_Some_conv dest!: hkey_SomeD split: if_splits option.splits)

lemma cluster_stepD:
  assumes "cluster_egress_step gw nbi st k = Some st'"
  shows "st' = st \<or> k \<in> set gw \<and> (\<exists>n. eligible_egress_network_node nbi k = Some (Some n) \<and> append_ranked_network (Some n) st = Some st')"
proof -
  obtain e where "k \<notin> set gw \<and> st' = st \<or> k \<in> set gw \<and> eligible_egress_network_node nbi k = Some e \<and> append_ranked_network e st = Some st'"
    using assms by (auto simp: cluster_egress_step_def bind_eq_Some_conv dest!: hkey_SomeD split: if_splits)
  then show ?thesis by (cases e) (auto simp: append_ranked_network_def)
qed

lemma steps_ok:
  assumes "ranked_ok gw nbi st" "egress_index nbi"
  shows "dns_egress_step gw nbi st k = Some st' \<Longrightarrow> ranked_ok gw nbi st'"
    and "cluster_egress_step gw nbi st k = Some st' \<Longrightarrow> ranked_ok gw nbi st'"
proof -
  have app: "ranked_ok gw nbi st'"
    if "k \<in> set gw" "eligible_egress_network_node nbi k = Some (Some n)" "append_ranked_network (Some n) st = Some st'" for n
    using append_ranked_ok[OF that(3) assms] that(1,2) by auto
  show "ranked_ok gw nbi st'" if "dns_egress_step gw nbi st k = Some st'"
    using dns_stepD[OF that] assms(1) app by (auto simp: dns_egress_def)
  show "ranked_ok gw nbi st'" if "cluster_egress_step gw nbi st k = Some st'"
    using cluster_stepD[OF that] assms(1) app by auto
qed

lemma append_extends: "append_ranked_network e st = Some st' \<Longrightarrow> \<exists>ys. snd st' = snd st @ ys"
  by (auto simp: append_ranked_network_def bind_eq_Some_conv split: option.splits if_splits)

lemma ofold_extends:
  assumes "ofold f st xs = Some st'" "\<And>st x st'. f st x = Some st' \<Longrightarrow> \<exists>ys. snd st' = snd st @ ys"
  shows "\<exists>ys. snd st' = snd st @ ys"
  using assms(1)
proof (induction xs arbitrary: st)
  case (Cons x xs)
  then obtain st1 where st1: "f st x = Some st1" "ofold f st1 xs = Some st'" by (auto simp: bind_eq_Some_conv)
  then show ?case using assms(2)[OF st1(1)] Cons.IH[OF st1(2)] by auto
qed simp

lemma dns_first:
  assumes "ofold (dns_egress_step gw nbi) ([], []) ks = Some st" "find (dns_egress gw nbi) ks = Some k" "egress_index nbi"
  shows "\<exists>n rest. eligible_egress_network_node nbi k = Some (Some n) \<and> snd st = n # rest"
  using assms(1,2)
proof (induction ks)
  case (Cons x xs)
  then obtain st1 where st1: "dns_egress_step gw nbi ([], []) x = Some st1" "ofold (dns_egress_step gw nbi) st1 xs = Some st"
    by (auto simp: bind_eq_Some_conv)
  show ?case
  proof (cases "dns_egress gw nbi x")
    case False
    then have "st1 = ([], [])" using dns_stepD[OF st1(1)] by blast
    then show ?thesis using Cons.IH st1(2) Cons.prems(2) False by simp
  next
    case True
    then have "x = k" using Cons.prems(2) by simp
    obtain n where n: "eligible_egress_network_node nbi x = Some (Some n)" "append_ranked_network (Some n) ([], []) = Some st1"
      using dns_stepD[OF st1(1)] True by blast
    have "snd st1 = [n]" using append_ranked[OF n(2)] eligible_key[OF n(1) assms(3)] by simp
    moreover have "\<exists>ys. snd st = snd st1 @ ys"
      using st1(2) by (rule ofold_extends) (metis append_Nil2 append_extends dns_stepD)
    ultimately show ?thesis using n(1) \<open>x = k\<close> by auto
  qed
qed simp

lemma containing_eligible:
  "network_containing_ip ids nbi addr = Some (Some n) \<Longrightarrow> \<exists>k \<in> set ids. eligible_egress_network_node nbi k = Some (Some n)"
  by (induction ids) (auto simp: bind_eq_Some_conv split: option.splits if_splits)

lemma control_plane_eligible:
  assumes "control_plane_network_for_cluster visit c t gw nbi = Some (Some n)" "set (visit gw) = set gw"
  shows "\<exists>k \<in> set gw. eligible_egress_network_node nbi k = Some (Some n)"
  using assms containing_eligible
  by (fastforce simp: control_plane_network_for_cluster_def bind_eq_Some_conv split: option.splits)

text \<open>What is left is appended, each network once.\<close>

lemma remaining_fold:
  assumes "ofold (remaining_step nbi seen) acc ids = Some acc'" "egress_index nbi" "distinct ids"
  shows "acc' = acc @ List.map_filter (\<lambda>k. case eligible_egress_network_node nbi k of
      Some (Some n) \<Rightarrow> if k \<in> set seen then None else Some n | _ \<Rightarrow> None) ids \<and>
    (\<forall>k \<in> set ids. eligible_egress_network_node nbi k \<noteq> None)"
  using assms
proof (induction ids arbitrary: acc)
  case Nil
  then show ?case by (simp add: map_filter_simps)
next
  case (Cons k ids)
  then obtain acc1 where acc1: "remaining_step nbi seen acc k = Some acc1" "ofold (remaining_step nbi seen) acc1 ids = Some acc'"
    by (auto simp: bind_eq_Some_conv)
  then obtain e where s: "remaining_step nbi seen acc k = Some acc1" "ofold (remaining_step nbi seen) acc1 ids = Some acc'"
    "eligible_egress_network_node nbi k = Some e" by (auto simp: bind_eq_Some_conv remaining_step_def)
  have "acc1 = acc @ (case e of Some n \<Rightarrow> if k \<in> set seen then [] else [n] | None \<Rightarrow> [])"
  proof (cases e)
    case None
    then show ?thesis using s by (simp add: remaining_step_def)
  next
    case (Some n)
    have "node_key n = k" "text_id n" using eligible_key s(3) Some Cons.prems(2) by blast+
    then obtain s' where "get n ''id'' = Some (JStr s')" "k = JStr s'" using text_idE by metis
    then show ?thesis using s Some by (auto simp: remaining_step_def)
  qed
  moreover have "acc' = acc1 @ List.map_filter (\<lambda>k. case eligible_egress_network_node nbi k of
      Some (Some n) \<Rightarrow> if k \<in> set seen then None else Some n | _ \<Rightarrow> None) ids \<and>
    (\<forall>k \<in> set ids. eligible_egress_network_node nbi k \<noteq> None)"
    using Cons.IH[OF s(2) Cons.prems(2)] Cons.prems(3) by simp
  ultimately show ?case using s(3) by (auto simp: map_filter_simps split: option.splits)
qed

lemma map_filter_keys:
  "(\<And>k n. k \<in> set ids \<Longrightarrow> f k = Some n \<Longrightarrow> g n = k) \<Longrightarrow> map g (List.map_filter f ids) = filter (\<lambda>k. f k \<noteq> None) ids"
  by (induction ids) (auto simp: map_filter_simps split: option.splits)

lemma sorted_ids_set:
  assumes "sorted_ids gw = Some ids"
  shows "set ids = set gw" "distinct gw \<Longrightarrow> distinct ids"
proof -
  obtain ss where ss: "omap as_str gw = Some ss" "ids = map JStr (sort ss)" using assms by (auto simp: sorted_ids_def)
  have "map JStr ss = gw" using ss(1) by (induction gw arbitrary: ss) (auto simp: bind_eq_Some_conv elim!: as_str.elims)
  then show "set ids = set gw" "distinct gw \<Longrightarrow> distinct ids" using ss(2) by (auto simp: distinct_map)
qed

lemma rank_remaining_ok:
  assumes "rank_remaining_gw_networks gw nbi st = Some ranked" "ranked_ok gw nbi st" "egress_index nbi" "distinct gw"
  shows "distinct (map node_key ranked) \<and> set ranked = {n. \<exists>k \<in> set gw. eligible_egress_network_node nbi k = Some (Some n)} \<and>
    (\<exists>ys. ranked = snd st @ ys)"
proof -
  let ?f = "\<lambda>k. case eligible_egress_network_node nbi k of Some (Some n) \<Rightarrow> if k \<in> set (fst st) then None else Some n | _ \<Rightarrow> None"
  obtain ids remaining keyed where s: "sorted_ids gw = Some ids" "ofold (remaining_step nbi (fst st)) [] ids = Some remaining"
    "omap (\<lambda>n. map_option (\<lambda>s. (s, n)) (id_text n)) remaining = Some keyed" "ranked = snd st @ map snd (sort_key fst keyed)"
    using assms(1) by (auto simp: rank_remaining_gw_networks_def bind_eq_Some_conv)
  have ids: "set ids = set gw" "distinct ids" using sorted_ids_set[OF s(1)] assms(4) by auto
  have rem: "remaining = List.map_filter ?f ids" using remaining_fold[OF s(2) assms(3) ids(2)] by simp
  have snd: "map snd keyed = remaining" using s(3) by (induction remaining arbitrary: keyed) (auto simp: bind_eq_Some_conv)
  have key: "node_key n = k \<and> k \<notin> set (fst st) \<and> eligible_egress_network_node nbi k = Some (Some n)" if "?f k = Some n" for k n
    using that eligible_key[OF _ assms(3)] by (auto split: option.splits if_splits)
  have keys: "map node_key remaining = filter (\<lambda>k. ?f k \<noteq> None) ids"
    unfolding rem by (rule map_filter_keys) (use key in blast)
  then have "distinct (map node_key (map snd keyed))" using ids(2) snd by simp
  then have "distinct (map (node_key \<circ> snd) (sort_key fst keyed))" by (simp add: distinct_map)
  moreover have "node_key ` set remaining \<inter> set (fst st) = {}"
  proof -
    have "node_key ` set remaining = set (filter (\<lambda>k. ?f k \<noteq> None) ids)" using keys by (metis set_map)
    then show ?thesis using key by fastforce
  qed
  moreover have st: "fst st = map node_key (snd st)" "distinct (fst st)"
    "\<And>n. n \<in> set (snd st) \<Longrightarrow> node_key n \<in> set gw \<and> eligible_egress_network_node nbi (node_key n) = Some (Some n)"
    using assms(2) by (auto simp: ranked_ok_def)
  moreover have "node_key ` snd ` set keyed = node_key ` set remaining" by (simp add: snd[symmetric])
  ultimately have "distinct (map node_key ranked)" using s(4) by (simp add: image_comp Int_commute)
  moreover have "set ranked = {n. \<exists>k \<in> set gw. eligible_egress_network_node nbi k = Some (Some n)}"
  proof -
    have "set ranked = set (snd st) \<union> set remaining" by (simp add: s(4) snd[symmetric])
    moreover have "set remaining = {n. \<exists>k \<in> set gw. ?f k = Some n}"
      unfolding rem using ids(1) by (auto simp: map_filter_def) (force)
    moreover have "?f k = Some n \<or> n \<in> set (snd st)" if "eligible_egress_network_node nbi k = Some (Some n)" for k n
      using that st by (cases "k \<in> set (fst st)") auto
    ultimately show ?thesis using st(3) key by blast
  qed
  ultimately show ?thesis using s(4) by blast
qed

lemma gateway_ids_distinct: "gateway_connected_network_ids t = Some gw \<Longrightarrow> distinct gw"
proof -
  assume "gateway_connected_network_ids t = Some gw"
  then consider "gw = []" | gid nbi es where "ofold (add_connected gid nbi) [] es = Some gw"
    by (auto simp: gateway_connected_network_ids_def bind_eq_Some_conv split: option.splits)
  then show ?thesis
  proof cases
    case 2
    then show ?thesis
      by (rule ofold_invariant[where I = distinct])
        (auto simp: add_connected_def bind_eq_Some_conv distinct_add_once split: option.splits)
  qed simp
qed

text \<open>The ranking of the egress networks of a cluster is complete and has no duplicates. When the
  nodes have texts as ids, it lists exactly the eligible networks connected to the gateway, each
  once, whatever order the set of networks is visited in; and when a network of the cluster is
  behind the gateway and serves DNS, the first such network of the cluster comes first.\<close>
theorem egress_ranking:
  assumes "rank_cluster_egress_network_nodes visit cluster t = Some ranked" "\<And>xs. set (visit xs) = set xs"
    and "topo_nodes t = Some ns" "\<forall>n \<in> set ns. text_id n"
    and "gateway_connected_network_ids t = Some gw" "topology_nodes_by_id t = Some nbi" "list_field cluster ''networkIds'' = Some ids"
  shows "distinct (map node_key ranked) \<and>
    set ranked = {n. \<exists>k \<in> set gw. eligible_egress_network_node nbi k = Some (Some n)} \<and>
    (\<forall>k. find (dns_egress gw nbi) ids = Some k \<longrightarrow>
      (\<exists>n rest. eligible_egress_network_node nbi k = Some (Some n) \<and> ranked = n # rest))"
proof (cases "gw = []")
  case True
  then have "find (dns_egress gw nbi) ids = None" by (simp add: find_None_iff dns_egress_def)
  then show ?thesis using True assms(1,5) by (simp add: rank_cluster_egress_network_nodes_def)
next
  case False
  obtain s1 s2 cp s3 where s: "ofold (dns_egress_step gw nbi) ([], []) ids = Some s1" "ofold (cluster_egress_step gw nbi) s1 ids = Some s2"
    "control_plane_network_for_cluster visit cluster t gw nbi = Some cp" "append_ranked_network cp s2 = Some s3"
    "rank_remaining_gw_networks gw nbi s3 = Some ranked"
    using assms(1,5-7) False
    by (auto simp: rank_cluster_egress_network_nodes_def bind_eq_Some_conv rank_dns_egress_networks_def rank_cluster_network_ids_def)
  have ix: "egress_index nbi" by (rule indexed[OF assms(6,3,4)])
  have "ranked_ok gw nbi ([], [])" by (simp add: ranked_ok_def)
  with s(1) have "ranked_ok gw nbi s1" by (rule ofold_invariant) (rule steps_ok(1)[OF _ ix])
  with s(2) have "ranked_ok gw nbi s2" by (rule ofold_invariant) (rule steps_ok(2)[OF _ ix])
  then have s3: "ranked_ok gw nbi s3"
    by (rule append_ranked_ok[OF s(4) _ ix]) (use control_plane_eligible[of visit cluster t gw nbi] s(3) assms(2) in blast)
  have all: "distinct (map node_key ranked) \<and> set ranked = {n. \<exists>k \<in> set gw. eligible_egress_network_node nbi k = Some (Some n)} \<and>
    (\<exists>ys. ranked = snd s3 @ ys)"
    by (rule rank_remaining_ok[OF s(5) s3 ix gateway_ids_distinct[OF assms(5)]])
  have "\<exists>n rest. eligible_egress_network_node nbi k = Some (Some n) \<and> ranked = n # rest"
    if "find (dns_egress gw nbi) ids = Some k" for k
  proof -
    have "\<exists>ys. snd s2 = snd s1 @ ys" using s(2) by (rule ofold_extends) (metis append_Nil2 append_extends cluster_stepD)
    then show ?thesis using dns_first[OF s(1) that ix] append_extends[OF s(4)] all by auto
  qed
  with all show ?thesis by blast
qed

definition egress_net :: "string \<Rightarrow> string \<Rightarrow> bool \<Rightarrow> json" where
  "egress_net i cidr dns = JObj [(''id'', JStr i), (''type'', JStr ''networkNode''),
     (''data'', JObj [(''name'', JStr i), (''cidr'', JStr cidr), (''dns'', JBool dns)])]"

definition egress_canvas :: json where
  "egress_canvas = JObj [(''nodes'', JList [
      JObj [(''id'', JStr ''gw''), (''type'', JStr ''networkNode''), (''data'', JObj [(''subtype'', JStr ''gateway'')])],
      egress_net ''a'' ''10.0.0.0/24'' False, egress_net ''b'' ''10.0.1.0/24'' True, egress_net ''migration'' ''10.0.2.0/24'' True]),
    (''edges'', JList (map (\<lambda>i. JObj [(''source'', JStr ''gw''), (''target'', JStr i)]) [''a'', ''b'', ''migration'']))]"

definition egress_cluster :: json where
  "egress_cluster = JObj [(''id'', JStr ''c''), (''networkIds'', JList [JStr ''a'', JStr ''b''])]"

theorem egress_ranking_witness:
  "\<exists>ranked. rank_cluster_egress_network_nodes rev egress_cluster egress_canvas = Some ranked \<and>
     distinct (map node_key ranked) \<and> map node_key ranked = [JStr ''b'', JStr ''a'']"
proof -
  have "case rank_cluster_egress_network_nodes rev egress_cluster egress_canvas of None \<Rightarrow> False
      | Some r \<Rightarrow> map node_key r = [JStr ''b'', JStr ''a'']"
    "case topo_nodes egress_canvas of None \<Rightarrow> False | Some ns \<Rightarrow> list_all text_id ns"
    "gateway_connected_network_ids egress_canvas \<noteq> None" "topology_nodes_by_id egress_canvas \<noteq> None"
    "list_field egress_cluster ''networkIds'' \<noteq> None"
    by code_simp+
  then obtain r ns gw nbi ids where "rank_cluster_egress_network_nodes rev egress_cluster egress_canvas = Some r"
    "map node_key r = [JStr ''b'', JStr ''a'']" "topo_nodes egress_canvas = Some ns" "\<forall>n \<in> set ns. text_id n"
    "gateway_connected_network_ids egress_canvas = Some gw" "topology_nodes_by_id egress_canvas = Some nbi"
    "list_field egress_cluster ''networkIds'' = Some ids"
    by (auto simp: list_all_iff split: option.splits)
  then show ?thesis using egress_ranking[of rev egress_cluster egress_canvas r ns gw nbi ids] by simp
qed

end
