(* ===== verification/Topology_Extract.thy ===== *)
theory Topology_Extract
  imports Topology_Egress
begin

text \<open>
  What \<open>deploy_topology.py\<close> extracts from a canvas for the host agents: VMs and containers with their
  networks, disks and volumes, and the order of the disks. The result of a function is the
  dictionary it builds. A VM's missing BMC MAC address is drawn at random: the draws are a parameter.
\<close>

section \<open>Nodes\<close>

definition filter_topology_for_host :: "json \<Rightarrow> json list \<Rightarrow> json option" where
  "filter_topology_for_host topology vm_node_ids = do {
     ns \<leftarrow> topo_nodes topology;
     kept \<leftarrow> ofilter (\<lambda>n. do {
       t \<leftarrow> get n ''type'';
       if t \<noteq> VM_NODE then Some True
       else do { i \<leftarrow> index n ''id''; k \<leftarrow> hkey i; Some (k \<in> set vm_node_ids) }
     }) ns;
     sv \<leftarrow> get_or topology ''startOrder'' (JList []);
     es \<leftarrow> iter sv;
     order \<leftarrow> ofilter (\<lambda>e. do { i \<leftarrow> get e ''vmId''; k \<leftarrow> hkey i; Some (k \<in> set vm_node_ids) }) es;
     t1 \<leftarrow> set_item topology ''nodes'' (JList kept);
     set_item t1 ''startOrder'' (JList order)
   }"

text \<open>Fields copied from the data of a node: the name in the result, the name in the data, whether
  a falsy value is replaced too, and the default.\<close>

type_synonym field_spec = "string \<times> string \<times> bool \<times> json"

definition extract_fields :: "json \<Rightarrow> field_spec list \<Rightarrow> (string \<times> json) list option" where
  "extract_fields data specs =
     omap (\<lambda>(out, key, alt, v). map_option (Pair out) (if alt then get_or_else data key v else get_or data key v)) specs"

definition vm_fields :: "field_spec list" where
  "vm_fields = [(''name'', ''name'', False, JStr ''vm''), (''vcpus'', ''vcpus'', False, JInt 2),
     (''ram_gb'', ''ram'', False, JInt 4), (''os'', ''os'', False, JStr []), (''nics'', ''nics'', False, JList []),
     (''disk_controllers'', ''diskControllers'', False, JList []),
     (''boot_devices'', ''bootDevices'', False, JList [JStr ''hd'']), (''cloud_init'', ''cloudInit'', False, JBool False),
     (''firmware'', ''firmware'', False, JStr ''bios''), (''secure_boot'', ''secureBoot'', False, JBool False),
     (''machine_type'', ''machineType'', True, JStr []), (''video_model'', ''videoModel'', False, JStr ''virtio''),
     (''input_model'', ''inputModel'', False, JStr ''virtio''), (''serial_exec_type'', ''serialExecType'', True, JStr []),
     (''headless'', ''headless'', False, JNull)]"

definition vm_flags :: "field_spec list" where
  "vm_flags = [(''recertEnabled'', ''recertEnabled'', False, JBool False), (''ocpMonitor'', ''ocpMonitor'', False, JBool False),
     (''configureBastionBrowser'', ''configureBastionBrowser'', False, JBool False)]"

definition extract_vm :: "json \<Rightarrow> json list option" where
  "extract_vm node = do {
     t \<leftarrow> get node ''type'';
     if t \<noteq> VM_NODE then Some []
     else do {
       data \<leftarrow> node_data node;
       i \<leftarrow> index node ''id'';
       fields \<leftarrow> extract_fields data vm_fields;
       u1 \<leftarrow> get data ''smbiosUuid'';
       u2 \<leftarrow> get data ''uuid'';
       flags \<leftarrow> extract_fields data vm_flags;
       Some [JObj ((''node_id'', i) # fields @ (''uuid'', py_or u1 u2) # flags)]
     }
   }"

definition extract_vms :: "json \<Rightarrow> json list option" where
  "extract_vms topology = do { ns \<leftarrow> topo_nodes topology; vs \<leftarrow> omap extract_vm ns; Some (concat vs) }"

definition container_fields :: "field_spec list" where
  "container_fields = [(''name'', ''name'', False, JStr ''container''), (''image'', ''image'', False, JStr []),
     (''registry_credential_id'', ''registryCredentialId'', False, JNull),
     (''registry_credential_name'', ''registryCredentialName'', False, JNull),
     (''cpus'', ''cpus'', False, JInt 1), (''memory_mb'', ''memory'', False, JInt 512),
     (''nics'', ''nics'', False, JList []), (''env_vars'', ''envVars'', False, JList []), (''ports'', ''ports'', False, JList []),
     (''command'', ''command'', False, JNull), (''restart_policy'', ''restartPolicy'', False, JStr ''always''),
     (''privileged'', ''privileged'', False, JBool False), (''mounts'', ''mounts'', False, JList []),
     (''is_pod'', ''isPod'', False, JBool False), (''init_containers'', ''initContainers'', False, JList []),
     (''pod_containers'', ''podContainers'', False, JList []), (''build_content'', ''buildContent'', False, JBool True)]"

definition extract_container :: "json \<Rightarrow> json list option" where
  "extract_container node = do {
     t \<leftarrow> get node ''type'';
     if t \<noteq> CONTAINER_NODE then Some []
     else do {
       data \<leftarrow> node_data node;
       i \<leftarrow> index node ''id'';
       fields \<leftarrow> extract_fields data container_fields;
       Some [JObj ((''node_id'', i) # fields)]
     }
   }"

definition extract_containers :: "json \<Rightarrow> json list option" where
  "extract_containers topology = do { ns \<leftarrow> topo_nodes topology; cs \<leftarrow> omap extract_container ns; Some (concat cs) }"

section \<open>VM definitions for the showroom\<close>

definition add_network_name :: "(json \<times> string) list \<Rightarrow> json \<Rightarrow> (json \<times> string) list option" where
  "add_network_name names node = do {
     t \<leftarrow> get node ''type'';
     if t \<noteq> NETWORK_NODE then Some names
     else do {
       data \<leftarrow> node_data node;
       name \<leftarrow> get data ''name'';
       if \<not> truthy name then Some names
       else do { i \<leftarrow> index node ''id''; k \<leftarrow> hkey i; s \<leftarrow> py_str name; Some (AList.update k s names) }
     }
   }"

definition network_names_by_id :: "json \<Rightarrow> (json \<times> string) list option" where
  "network_names_by_id topology = do { ns \<leftarrow> topo_nodes topology; ofold add_network_name [] ns }"

definition add_nic_edge ::
    "(json \<times> string) list \<Rightarrow> (json \<times> (string \<times> string) list) list \<Rightarrow> json \<Rightarrow>
     (json \<times> (string \<times> string) list) list option" where
  "add_nic_edge names result edge = do {
     hv \<leftarrow> get_or_else edge ''targetHandle'' (JStr []);
     handle \<leftarrow> as_str hv;
     if \<not> starts_with handle ''nic-'' then Some result
     else do {
       src \<leftarrow> get_or edge ''source'' (JStr []);
       name \<leftarrow> lookup names src [];
       if name = [] then Some result
       else do {
         tgt \<leftarrow> get_or edge ''target'' (JStr []);
         k \<leftarrow> hkey tgt;
         Some (AList.update k (dict_get result k [] @ [(handle, name)]) result)
       }
     }
   }"

definition nic_edges_by_vm ::
    "json \<Rightarrow> (json \<times> string) list \<Rightarrow> (json \<times> (string \<times> string) list) list option" where
  "nic_edges_by_vm topology names = do { es \<leftarrow> topo_edges topology; ofold (add_nic_edge names) [] es }"

definition nic_network_name :: "json \<Rightarrow> (string \<times> string) list \<Rightarrow> string option" where
  "nic_network_name nic_id edges =
     (if \<not> truthy nic_id \<or> edges = [] then Some []
      else do {
        s \<leftarrow> as_str nic_id;
        Some (case find (\<lambda>(handle, _). contains_text s handle) edges of None \<Rightarrow> [] | Some (_, name) \<Rightarrow> name)
      })"

definition vm_def_step ::
    "(json \<times> (string \<times> string) list) list \<Rightarrow> (json \<times> json) list \<times> (json \<times> json) list \<Rightarrow> json \<Rightarrow>
     ((json \<times> json) list \<times> (json \<times> json) list) option" where
  "vm_def_step nic_edges st node = do {
     t \<leftarrow> get node ''type'';
     if t \<noteq> VM_NODE then Some st
     else do {
       data \<leftarrow> node_data node;
       nm \<leftarrow> get_or data ''name'' (JStr ''vm'');
       name \<leftarrow> hkey nm;
       i \<leftarrow> index node ''id'';
       edges \<leftarrow> lookup nic_edges i [];
       nv \<leftarrow> get_or data ''nics'' (JList []);
       nics \<leftarrow> iter nv;
       ns \<leftarrow> omap (\<lambda>nic. do {
         ni \<leftarrow> get_or nic ''id'' (JStr []);
         net \<leftarrow> nic_network_name ni edges;
         ip \<leftarrow> get_or nic ''ip'' (JStr []);
         Some (JObj [(''network'', JStr net), (''ip'', ip)])
       }) nics;
       user \<leftarrow> get_or_else data ''loginUser'' (JStr ''cloud-user'');
       pw \<leftarrow> get_or_else data ''cloudUserPassword'' (JStr []);
       Some (AList.update name (JObj [(''nics'', JList ns), (''login_user'', user), (''cloud_user_password'', pw)]) (fst st),
             AList.update name i (snd st))
     }
   }"

definition build_vms_def_from_topology :: "json \<Rightarrow> ((json \<times> json) list \<times> (json \<times> json) list) option" where
  "build_vms_def_from_topology topology = do {
     names \<leftarrow> network_names_by_id topology;
     nic_edges \<leftarrow> nic_edges_by_vm topology names;
     ns \<leftarrow> topo_nodes topology;
     ofold (vm_def_step nic_edges) ([], []) ns
   }"

section \<open>Handles\<close>

definition drop_suffix :: "string \<Rightarrow> string \<Rightarrow> string" where
  "drop_suffix s p = take (length s - length p) s"

definition handle_sides :: "string list" where
  "handle_sides = [''-top'', ''-bottom'', ''-left'', ''-right'']"

definition extract_nic_id :: "string \<Rightarrow> string" where
  "extract_nic_id handle =
     (if \<not> contains_text ''nic-'' handle then []
      else let h = (case find (ends_with handle) handle_sides of None \<Rightarrow> handle | Some p \<Rightarrow> drop_suffix handle p)
           in if starts_with h ''nic-'' then drop 4 h else h)"

definition normalize_disk_port_id :: "string \<Rightarrow> string option" where
  "normalize_disk_port_id handle =
     (if \<not> starts_with handle ''dp-'' then None
      else let b = drop 3 handle;
               body = (if ends_with b ''-left'' then drop_suffix b ''-left''
                       else if ends_with b ''-right'' then drop_suffix b ''-right'' else b)
           in if body = [] then None
              else if starts_with body ''dp-'' then Some body else Some (''dp-'' @ body))"

text \<open>\<open>_extract_nic_edge\<close> and \<open>_extract_disk_edge\<close>: the handle of the VM's side of an edge when it
  starts with the prefix, and the node on the other side.\<close>

definition extract_edge :: "string \<Rightarrow> json \<Rightarrow> json \<Rightarrow> (string \<times> json) option option" where
  "extract_edge prefix edge vm_id = do {
     src \<leftarrow> get edge ''source'';
     tgt \<leftarrow> get edge ''target'';
     sh \<leftarrow> get_or edge ''sourceHandle'' (JStr []);
     th \<leftarrow> get_or edge ''targetHandle'' (JStr []);
     (if src = vm_id \<or> tgt = vm_id
      then let (handle, other) = (if src = vm_id then (sh, tgt) else (th, src))
           in if \<not> truthy handle then Some None
              else do { h \<leftarrow> as_str handle; Some (if starts_with h prefix then Some (h, other) else None) }
      else Some None)
   }"

definition extract_nic_edge :: "json \<Rightarrow> json \<Rightarrow> (string \<times> json) option option" where
  "extract_nic_edge edge vm_id = extract_edge ''nic-'' edge vm_id"

definition extract_disk_edge :: "json \<Rightarrow> json \<Rightarrow> (string \<times> json) option option" where
  "extract_disk_edge edge vm_id = extract_edge ''dp-'' edge vm_id"

definition node_with_id :: "json list \<Rightarrow> json \<Rightarrow> json option option" where
  "node_with_id ns i = ofind (\<lambda>n. map_option (\<lambda>x. x = i) (index n ''id'')) ns"

section \<open>Networks of a VM\<close>

definition metadata_bridges_for_topology :: "json \<Rightarrow> (json \<times> int) list \<Rightarrow> string list option" where
  "metadata_bridges_for_topology topology vni_map =
     (case vni_map of
        [] \<Rightarrow> Some []
      | (_, first) # _ \<Rightarrow> do {
          ns \<leftarrow> topo_nodes topology;
          r \<leftarrow> ofind (\<lambda>n. do {
            t \<leftarrow> get n ''type'';
            if t \<noteq> NETWORK_NODE then Some False
            else do { i \<leftarrow> index n ''id''; k \<leftarrow> hkey i; Some (k \<in> fst ` set vni_map) }
          }) ns;
          (case r of
             None \<Rightarrow> Some [''br-'' @ int_str first]
           | Some n \<Rightarrow> do { i \<leftarrow> index n ''id''; v \<leftarrow> map_of vni_map i; Some [''br-'' @ int_str v] })
        })"

definition resolve_nic_mac_model :: "json \<Rightarrow> string \<Rightarrow> json list \<Rightarrow> (json \<times> json) option" where
  "resolve_nic_mac_model vm_id handle ns = do {
     vm \<leftarrow> node_with_id ns vm_id;
     (case vm of
        None \<Rightarrow> Some (JStr [], JStr ''virtio'')
      | Some v \<Rightarrow> do {
          data \<leftarrow> node_data v;
          nv \<leftarrow> get_or data ''nics'' (JList []);
          nics \<leftarrow> iter nv;
          r \<leftarrow> ofind (\<lambda>nic. do { i \<leftarrow> index nic ''id''; s \<leftarrow> as_str i; Some (contains_text s handle) }) nics;
          (case r of
             None \<Rightarrow> Some (JStr [], JStr ''virtio'')
           | Some nic \<Rightarrow> do {
               mac \<leftarrow> get_or nic ''mac'' (JStr []);
               model \<leftarrow> get_or nic ''model'' (JStr ''virtio'');
               Some (mac, model) })
        })
   }"

definition random_mac :: "int \<times> int \<times> int \<Rightarrow> string" where
  "random_mac r = (case r of (a, b, c) \<Rightarrow> ''52:54:01:'' @ hex2 a @ '':'' @ hex2 b @ '':'' @ hex2 c)"

definition build_bmc_network_entry :: "int \<times> int \<times> int \<Rightarrow> json \<Rightarrow> json \<Rightarrow> string \<Rightarrow> string \<Rightarrow> json" where
  "build_bmc_network_entry draw mac model handle project_id =
     JObj [(''bridge'', JStr (''br-bmc-'' @ take 8 project_id)),
       (''mac'', if truthy mac then mac else JStr (random_mac draw)), (''nic_id'', JStr handle), (''model'', model)]"

definition network_allows_nested_macs :: "json \<Rightarrow> bool option" where
  "network_allows_nested_macs net_data = do {
     nt \<leftarrow> get net_data ''networkType'';
     explicit \<leftarrow> get net_data ''allowNestedMacs'';
     Some (truthy explicit \<or> nt = JStr ''migration'')
   }"

definition resolve_vm_network_entry ::
    "int \<times> int \<times> int \<Rightarrow> json \<Rightarrow> json \<Rightarrow> json list \<Rightarrow> (json \<times> int) list \<Rightarrow> string \<Rightarrow> (json \<times> json) list \<Rightarrow> json list option" where
  "resolve_vm_network_entry draw edge vm_id ns vni_map project_id mtu_map = do {
     e \<leftarrow> extract_nic_edge edge vm_id;
     (case e of
        None \<Rightarrow> Some []
      | Some (handle, net_id) \<Rightarrow> do {
          (mac, model) \<leftarrow> resolve_nic_mac_model vm_id handle ns;
          net \<leftarrow> node_with_id ns net_id;
          nd \<leftarrow> (case net of None \<Rightarrow> Some (JObj []) | Some n \<Rightarrow> node_data n);
          bmc \<leftarrow> (case net of None \<Rightarrow> Some False | Some _ \<Rightarrow> map_option (\<lambda>t. t = JStr ''bmc'') (get nd ''networkType''));
          if bmc then Some [build_bmc_network_entry draw mac model handle project_id]
          else do {
            k \<leftarrow> hkey net_id;
            (case map_of vni_map k of
               None \<Rightarrow> Some []
             | Some vni \<Rightarrow> do {
                 nested \<leftarrow> network_allows_nested_macs (py_or nd (JObj []));
                 let mtu = dict_get mtu_map k JNull;
                 Some [JObj ([(''bridge'', JStr (''br-'' @ int_str vni)), (''mac'', mac), (''nic_id'', JStr handle), (''model'', model)]
                   @ (if mtu \<noteq> JNull then [(''mtu'', mtu)] else [])
                   @ (if nested then [(''allow_nested_macs'', JBool True)] else []))]
               })
          }
        })
   }"

definition find_vm_networks ::
    "(nat \<Rightarrow> int \<times> int \<times> int) \<Rightarrow> json \<Rightarrow> json \<Rightarrow> (json \<times> int) list \<Rightarrow> string \<Rightarrow> (json \<times> json) list \<Rightarrow> json list option" where
  "find_vm_networks draws vm_id topology vni_map project_id mtu_map = do {
     es \<leftarrow> topo_edges topology;
     ns \<leftarrow> topo_nodes topology;
     xs \<leftarrow> omap (\<lambda>(i, e). resolve_vm_network_entry (draws i) e vm_id ns vni_map project_id mtu_map) (enumerate 0 es);
     Some (concat xs)
   }"

section \<open>Networks of a container\<close>

definition starts_with_text :: "json \<Rightarrow> string \<Rightarrow> bool option" where
  "starts_with_text v p = map_option (\<lambda>s. starts_with s p) (as_str v)"

definition edge_container_nic_binding :: "json \<Rightarrow> json \<Rightarrow> (string \<times> json) option option" where
  "edge_container_nic_binding edge cid = do {
     src \<leftarrow> get edge ''source'';
     tgt \<leftarrow> get edge ''target'';
     sh \<leftarrow> get_or edge ''sourceHandle'' (JStr []);
     th \<leftarrow> get_or edge ''targetHandle'' (JStr []);
     b1 \<leftarrow> (if src = cid then starts_with_text sh ''nic-'' else Some False);
     if b1 then do { s \<leftarrow> as_str sh; Some (Some (extract_nic_id s, tgt)) }
     else do {
       b2 \<leftarrow> (if tgt = cid then starts_with_text th ''nic-'' else Some False);
       if b2 then do { s \<leftarrow> as_str th; Some (Some (extract_nic_id s, src)) } else Some None
     }
   }"

definition container_lab_network_entry :: "json \<Rightarrow> string \<Rightarrow> int \<Rightarrow> json \<Rightarrow> json option" where
  "container_lab_network_entry nic nic_id vni net_data = do {
     cidr \<leftarrow> get_or net_data ''cidr'' (JStr []);
     mac \<leftarrow> get_or nic ''mac'' (JStr []);
     model \<leftarrow> get_or nic ''model'' (JStr ''virtio'');
     ip \<leftarrow> get_or nic ''ip'' (JStr []);
     gw \<leftarrow> resolve_network_gateway net_data cidr;
     Some (JObj [(''bridge'', JStr (''br-'' @ int_str vni)), (''mac'', mac), (''nic_id'', JStr nic_id), (''model'', model),
       (''ip'', ip), (''cidr'', cidr), (''gateway'', gw)])
   }"

definition lab_network_of_edge ::
    "json \<Rightarrow> (json \<times> int) list \<Rightarrow> (json \<times> json) list \<Rightarrow> (json \<times> json) list \<Rightarrow> json \<Rightarrow> json list option" where
  "lab_network_of_edge cid vni_map nics nbi edge = do {
     b \<leftarrow> edge_container_nic_binding edge cid;
     (case b of
        None \<Rightarrow> Some []
      | Some (nic_id, net_id) \<Rightarrow>
          if nic_id = [] \<or> \<not> truthy net_id then Some []
          else do {
            vni \<leftarrow> lookup vni_map net_id 0;
            if vni = 0 then Some []
            else do {
              let nic = dict_get nics (JStr nic_id) (JObj []);
              net \<leftarrow> lookup nbi net_id JNull;
              nd \<leftarrow> (if truthy net then node_data net else Some (JObj []));
              e \<leftarrow> container_lab_network_entry nic nic_id vni nd;
              Some [e]
            }
          })
   }"

definition lab_networks_for_container :: "json \<Rightarrow> json \<Rightarrow> json \<Rightarrow> (json \<times> int) list \<Rightarrow> json list option" where
  "lab_networks_for_container container cid topology vni_map = do {
     data \<leftarrow> node_data container;
     nv \<leftarrow> get_or data ''nics'' (JList []);
     nl \<leftarrow> iter nv;
     nics \<leftarrow> ofold add_node [] nl;
     nbi \<leftarrow> nodes_by_id topology;
     es \<leftarrow> topo_edges topology;
     xs \<leftarrow> omap (lab_network_of_edge cid vni_map nics nbi) es;
     Some (concat xs)
   }"

definition find_container_networks :: "json \<Rightarrow> json \<Rightarrow> (json \<times> int) list \<Rightarrow> json list option" where
  "find_container_networks cid topology vni_map = do {
     ns \<leftarrow> topo_nodes topology;
     c \<leftarrow> node_with_id ns cid;
     (case c of
        None \<Rightarrow> Some []
      | Some container \<Rightarrow> do {
          room \<leftarrow> is_showroom_node container;
          if room then do {
            data \<leftarrow> node_data container;
            nv \<leftarrow> get_or data ''nics'' (JList []);
            mac \<leftarrow> (if truthy nv then do {
                nics \<leftarrow> as_list nv;
                (case nics of [] \<Rightarrow> Some (JStr []) | nic # _ \<Rightarrow> get_or nic ''mac'' (JStr [])) }
              else Some (JStr []));
            dns \<leftarrow> showroom_dns_nameserver topology;
            Some (showroom_infra_network vni_map mac dns)
          }
          else lab_networks_for_container container cid topology vni_map
        })
   }"

definition find_vm_name_by_ip :: "json \<Rightarrow> string \<Rightarrow> json option" where
  "find_vm_name_by_ip topology ip = do {
     ops \<leftarrow> is_ops_infra_ip (JStr ip);
     if ops then Some (JStr ''ops'')
     else do {
       infra \<leftarrow> is_showroom_infra_ip (JStr ip);
       ns \<leftarrow> topo_nodes topology;
       room \<leftarrow> (if infra then ofind is_showroom_node ns else Some None);
       (case room of
          Some n \<Rightarrow> do { d \<leftarrow> node_data n; get_or d ''name'' (JStr ''showroom'') }
        | None \<Rightarrow> do {
            r \<leftarrow> ofind (\<lambda>n. do {
              t \<leftarrow> get n ''type'';
              if t \<noteq> VM_NODE then Some False
              else do {
                d \<leftarrow> node_data n;
                nv \<leftarrow> get_or d ''nics'' (JList []);
                nics \<leftarrow> iter nv;
                oany (\<lambda>nic. map_option (\<lambda>x. x = JStr ip) (get nic ''ip'')) nics
              }
            }) ns;
            (case r of
               None \<Rightarrow> Some (JStr (map (\<lambda>c. if c = CHR ''.'' then CHR ''-'' else c) ip))
             | Some n \<Rightarrow> do {
                 d \<leftarrow> node_data n;
                 i \<leftarrow> index n ''id'';
                 p \<leftarrow> as_str i;
                 get_or d ''name'' (JStr (take 8 p))
               })
          })
     }
   }"

end
