(* ===== verification/Address_Assign.thy ===== *)
theory Address_Assign
  imports Topology_Extract
begin

text \<open>
  Addresses that a deployment assigns by itself: container NICs without an address take one from the
  DHCP range of their network, the OSDs of a Ceph cluster take static addresses from the top of
  theirs, and every network gets a concrete MTU (\<open>deploy_topology.py\<close>, \<open>network_mtu.py\<close>). The
  functions change the canvas in place; here they return it. A set of addresses is a list without
  duplicates.
\<close>

section \<open>Addresses in use\<close>

definition add_used :: "json list \<Rightarrow> json \<Rightarrow> json list option" where
  "add_used used ip = (if truthy ip then map_option (\<lambda>k. add_once k used) (hkey ip) else Some used)"

definition add_node_used_ips :: "json list \<Rightarrow> json \<Rightarrow> json list option" where
  "add_node_used_ips used node = do {
     data \<leftarrow> node_data node;
     nv \<leftarrow> get_or data ''nics'' (JList []);
     nics \<leftarrow> iter nv;
     u1 \<leftarrow> ofold (\<lambda>u nic. do { ip \<leftarrow> get_or nic ''ip'' (JStr []); add_used u ip }) used nics;
     t \<leftarrow> get node ''type'';
     u2 \<leftarrow> (if t = JStr ''cephClusterNode''
           then do { ov \<leftarrow> get data ''osdIps''; ips \<leftarrow> iter (py_or ov (JList [])); ofold add_used u1 ips }
           else Some u1);
     if t \<noteq> NETWORK_NODE then Some u2
     else do {
       cidr \<leftarrow> get_or data ''cidr'' (JStr []);
       Some (if \<not> truthy cidr then u2
             else (case network_of_json cidr of
                 None \<Rightarrow> u2
               | Some net \<Rightarrow> if net_addr net + 1 < 2 ^ 32 then add_once (JStr (addr_text (net_addr net + 1))) u2 else u2))
     }
   }"

definition collect_used_ips :: "json \<Rightarrow> json list option" where
  "collect_used_ips topology = do { ns \<leftarrow> topo_nodes topology; ofold add_node_used_ips [] ns }"

section \<open>Containers\<close>

definition container_edge_network :: "json \<Rightarrow> json list \<Rightarrow> (json \<times> json) list \<Rightarrow> json \<Rightarrow> json option option" where
  "container_edge_network node_id handles net_nodes edge = do {
     src \<leftarrow> get_or edge ''source'' (JStr []);
     tgt \<leftarrow> get_or edge ''target'' (JStr []);
     sh \<leftarrow> get_or edge ''sourceHandle'' (JStr []);
     th \<leftarrow> get_or edge ''targetHandle'' (JStr []);
     if src = node_id \<and> sh \<in> set handles then map_option (map_of net_nodes) (hkey tgt)
     else if tgt = node_id \<and> th \<in> set handles then map_option (map_of net_nodes) (hkey src)
     else Some None
   }"

primrec first_edge_network :: "json \<Rightarrow> json list \<Rightarrow> (json \<times> json) list \<Rightarrow> json list \<Rightarrow> json option option" where
  "first_edge_network node_id handles net_nodes [] = Some None"
| "first_edge_network node_id handles net_nodes (e # es) = do {
     n \<leftarrow> container_edge_network node_id handles net_nodes e;
     (case n of Some nn \<Rightarrow> Some (Some nn) | None \<Rightarrow> first_edge_network node_id handles net_nodes es)
   }"

definition find_container_network :: "json \<Rightarrow> json \<Rightarrow> json list \<Rightarrow> (json \<times> json) list \<Rightarrow> json option option" where
  "find_container_network node_id nic es net_nodes = do {
     i \<leftarrow> index nic ''id'';
     s \<leftarrow> py_str i;
     first_edge_network node_id [JStr (''nic-'' @ s @ ''-top''), JStr (''nic-'' @ s @ ''-bottom'')] net_nodes es
   }"

function pick_available_ip :: "int \<Rightarrow> int \<Rightarrow> json list \<Rightarrow> json option" where
  "pick_available_ip start_int end_int used =
     (if end_int < start_int then None
      else let candidate = JStr (addr_text start_int)
           in if candidate \<notin> set used then Some candidate else pick_available_ip (start_int + 1) end_int used)"
  by pat_completeness auto
termination by (relation "measure (\<lambda>(s, e, _). nat (e + 1 - s))") auto

declare pick_available_ip.simps [simp del]

definition container_nic_range :: "json \<Rightarrow> json \<Rightarrow> json list \<Rightarrow> (json \<times> json) list \<Rightarrow> (int \<times> int) option option" where
  "container_nic_range node nic es net_nodes = do {
     node_id \<leftarrow> index node ''id'';
     n \<leftarrow> find_container_network node_id nic es net_nodes;
     (case n of
        None \<Rightarrow> Some None
      | Some nn \<Rightarrow> do {
          net_data \<leftarrow> node_data nn;
          cidr \<leftarrow> get_or net_data ''cidr'' (JStr []);
          if \<not> truthy cidr then Some None else get_dhcp_range net_data
        })
   }"

definition assign_container_nic_ip ::
    "json \<Rightarrow> json list \<Rightarrow> (json \<times> json) list \<Rightarrow> json list \<times> json list \<Rightarrow> json \<Rightarrow> (json list \<times> json list) option" where
  "assign_container_nic_ip node es net_nodes st nic = (case st of (nics, used) \<Rightarrow> do {
     ip \<leftarrow> get nic ''ip'';
     if truthy ip then Some (nics @ [nic], used)
     else do {
       r \<leftarrow> container_nic_range node nic es net_nodes;
       (case Option.bind r (\<lambda>(s, e). pick_available_ip s e used) of
          None \<Rightarrow> Some (nics @ [nic], used)
        | Some candidate \<Rightarrow> do { nic' \<leftarrow> set_item nic ''ip'' candidate; Some (nics @ [nic'], add_once candidate used) })
     }
   })"

definition assign_container_node ::
    "json list \<Rightarrow> (json \<times> json) list \<Rightarrow> json list \<times> json list \<Rightarrow> json \<Rightarrow> (json list \<times> json list) option" where
  "assign_container_node es net_nodes st node = (case st of (nodes, used) \<Rightarrow> do {
     t \<leftarrow> get node ''type'';
     if t \<noteq> CONTAINER_NODE then Some (nodes @ [node], used)
     else do {
       data \<leftarrow> node_data node;
       nv \<leftarrow> get_or data ''nics'' (JList []);
       nics \<leftarrow> iter nv;
       if nics = [] then Some (nodes @ [node], used)
       else do {
         (nics', used') \<leftarrow> ofold (assign_container_nic_ip node es net_nodes) ([], used) nics;
         data' \<leftarrow> set_item data ''nics'' (JList nics');
         node' \<leftarrow> set_item node ''data'' data';
         Some (nodes @ [node'], used')
       }
     }
   })"

definition auto_assign_container_ips :: "json \<Rightarrow> json option" where
  "auto_assign_container_ips topology = do {
     ns \<leftarrow> topo_nodes topology;
     es \<leftarrow> topo_edges topology;
     used \<leftarrow> collect_used_ips topology;
     networks \<leftarrow> ofilter (has_type ''networkNode'') ns;
     net_nodes \<leftarrow> ofold add_node [] networks;
     (ns', used') \<leftarrow> ofold (assign_container_node es net_nodes) ([], used) ns;
     if ns = [] then Some topology else set_item topology ''nodes'' (JList ns')
   }"

section \<open>Ceph OSDs\<close>

definition CEPH_OSD_MIN :: int where "CEPH_OSD_MIN = 1"
definition CEPH_OSD_MAX :: int where "CEPH_OSD_MAX = 6"

text \<open>The loop over \<open>reversed(list(net.hosts()))\<close>, from the address \<open>a\<close> down to the first host.\<close>

function pick_down :: "int \<Rightarrow> int \<Rightarrow> json \<Rightarrow> int \<Rightarrow> json list \<Rightarrow> json list \<Rightarrow> json list" where
  "pick_down low a gateway count used picked =
     (if a < low then picked
      else let ip = JStr (addr_text a)
           in if ip = gateway \<or> ip \<in> set used then pick_down low (a - 1) gateway count used picked
              else if count \<le> int (length picked) + 1 then picked @ [ip]
              else pick_down low (a - 1) gateway count used (picked @ [ip]))"
  by pat_completeness auto
termination by (relation "measure (\<lambda>(low, a, _). nat (a + 1 - low))") auto

declare pick_down.simps [simp del]

definition pick_high_free_ips :: "string \<Rightarrow> int \<Rightarrow> json list \<Rightarrow> json list option" where
  "pick_high_free_ips cidr count used =
     (if count \<le> 0 \<or> cidr = [] then Some []
      else (case ip_network cidr of
          None \<Rightarrow> Some []
        | Some net \<Rightarrow>
            if net_addr net + 1 < 2 ^ 32
            then Some (pick_down (hosts_first net) (hosts_first net + hosts_len net - 1)
                   (JStr (addr_text (net_addr net + 1))) count used [])
            else None))"

definition text_of_field :: "json \<Rightarrow> string \<Rightarrow> string option" where
  "text_of_field data k = do { v \<leftarrow> get data k; py_str (py_or v (JStr [])) }"

definition add_stripped :: "json \<Rightarrow> json list \<Rightarrow> string \<Rightarrow> json list option" where
  "add_stripped data used k =
     map_option (\<lambda>s. if py_strip s = [] then used else add_once (JStr (py_strip s)) used) (text_of_field data k)"

definition reserve_node :: "string \<Rightarrow> json list \<Rightarrow> json \<Rightarrow> json list option" where
  "reserve_node default_mon used node = do {
     data \<leftarrow> node_data node;
     t \<leftarrow> get node ''type'';
     if t = JStr ''clusterNode'' then ofold (add_stripped data) used [''apiVip'', ''ingressVip'']
     else if t = JStr ''cephClusterNode''
     then do {
       s \<leftarrow> text_of_field data ''labIp'';
       Some (add_once (JStr (if py_strip s = [] then default_mon else py_strip s)) used)
     }
     else Some used
   }"

definition ceph_reserved_ips :: "json \<Rightarrow> string \<Rightarrow> json list option" where
  "ceph_reserved_ips topology cidr = do {
     used \<leftarrow> collect_used_ips topology;
     let (u1, default_mon) =
       (case ip_network cidr of
          None \<Rightarrow> (used, [])
        | Some net \<Rightarrow>
            (if net_addr net + 2 < 2 ^ 32 then add_once (JStr (addr_text (net_addr net + 2))) used else used,
             if net_addr net + 4 < 2 ^ 32 then addr_text (net_addr net + 4) else []));
     ns \<leftarrow> topo_nodes topology;
     u2 \<leftarrow> ofold (reserve_node default_mon) u1 ns;
     Some (removeAll (JStr []) u2)
   }"

primrec cidr_for_network_ref :: "json list \<Rightarrow> string \<Rightarrow> string option" where
  "cidr_for_network_ref [] network_ref = Some []"
| "cidr_for_network_ref (node # ns) network_ref = do {
     t \<leftarrow> get node ''type'';
     if t \<noteq> NETWORK_NODE then cidr_for_network_ref ns network_ref
     else do {
       data \<leftarrow> node_data node;
       sub \<leftarrow> get data ''subtype'';
       if sub = JStr ''gateway'' then cidr_for_network_ref ns network_ref
       else do {
         own \<leftarrow> get_or node ''id'' (JStr []);
         i \<leftarrow> get_or data ''id'' own;
         nid \<leftarrow> get node ''id'';
         if i = JStr network_ref \<or> nid = JStr network_ref then text_of_field data ''cidr''
         else cidr_for_network_ref ns network_ref
       }
     }
   }"

text \<open>\<open>ip in {str(h) for h in net.hosts()}\<close>.\<close>

fun is_host_text :: "ip4_network \<Rightarrow> json \<Rightarrow> bool" where
  "is_host_text net (JStr s) =
     (case addr_of_text s of
        None \<Rightarrow> False
      | Some a \<Rightarrow> addr_text a = s \<and> hosts_first net \<le> a \<and> a < hosts_first net + hosts_len net)"
| "is_host_text net _ = False"

primrec keep_valid_osd_ips :: "(json \<Rightarrow> bool) \<Rightarrow> json list \<Rightarrow> int \<Rightarrow> json list \<Rightarrow> json list \<Rightarrow> json list" where
  "keep_valid_osd_ips valid_host reserved osd_count kept [] = kept"
| "keep_valid_osd_ips valid_host reserved osd_count kept (ip # ips) =
     (let kept' = (if valid_host ip \<and> ip \<notin> set reserved \<and> ip \<notin> set kept then kept @ [ip] else kept)
      in if osd_count \<le> int (length kept') then kept' else keep_valid_osd_ips valid_host reserved osd_count kept' ips)"

definition osd_count_of :: "json \<Rightarrow> int option" where
  "osd_count_of data = do {
     v \<leftarrow> get data ''osdCount'';
     c \<leftarrow> int_of_json (py_or v (JInt 3));
     Some (max CEPH_OSD_MIN (min CEPH_OSD_MAX c))
   }"

definition assign_osd_ips :: "json \<Rightarrow> json \<Rightarrow> json option" where
  "assign_osd_ips topology data = do {
     ns \<leftarrow> topo_nodes topology;
     ref \<leftarrow> text_of_field data ''networkRef'';
     cidr \<leftarrow> cidr_for_network_ref ns ref;
     (case ip_network cidr of
        None \<Rightarrow> Some data
      | Some net \<Rightarrow> do {
          osd_count \<leftarrow> osd_count_of data;
          all_reserved \<leftarrow> ceph_reserved_ips topology cidr;
          ov \<leftarrow> get data ''osdIps'';
          given \<leftarrow> iter (py_or ov (JList []));
          own \<leftarrow> omap hkey given;
          let reserved = filter (\<lambda>ip. ip \<notin> set own) all_reserved;
          let kept = keep_valid_osd_ips (is_host_text net) reserved osd_count [] given;
          let need = osd_count - int (length kept);
          more \<leftarrow> (if need > 0 then pick_high_free_ips cidr need (reserved @ kept) else Some []);
          set_item data ''osdIps'' (JList (kept @ more))
        })
   }"

fun set_first :: "('a \<Rightarrow> bool option) \<Rightarrow> ('a \<Rightarrow> 'a option) \<Rightarrow> 'a list \<Rightarrow> 'a list option" where
  "set_first p f [] = Some []"
| "set_first p f (x # xs) = do {
     b \<leftarrow> p x;
     if b then map_option (\<lambda>y. y # xs) (f x) else map_option (\<lambda>ys. x # ys) (set_first p f xs)
   }"

definition auto_assign_ceph_osd_ips :: "json \<Rightarrow> json option" where
  "auto_assign_ceph_osd_ips topology = do {
     ns \<leftarrow> topo_nodes topology;
     ns' \<leftarrow> set_first (has_type ''cephClusterNode'') (\<lambda>ceph. do {
       data \<leftarrow> node_data ceph;
       data' \<leftarrow> assign_osd_ips topology data;
       set_item ceph ''data'' data'
     }) ns;
     if ns = [] then Some topology else set_item topology ''nodes'' (JList ns')
   }"

section \<open>MTU\<close>

text \<open>The warnings of \<open>resolve_network_mtu\<close>, in the order the text joins them.\<close>

datatype mtu_warning =
    Uplink_unknown
  | Mtu_reduced int int int int
  | Mtu_raised int

definition MESH_OVERHEAD :: int where "MESH_OVERHEAD = 110"
definition MTU_FLOOR :: int where "MTU_FLOOR = 1280"
definition DEFAULT_FALLBACK_MTU :: int where "DEFAULT_FALLBACK_MTU = 1500"

definition resolve_network_mtu :: "json \<Rightarrow> int option \<Rightarrow> bool \<Rightarrow> (int \<times> mtu_warning list) option" where
  "resolve_network_mtu network_data host_uplink_mtu spans_hosts = do {
     requested \<leftarrow> get (py_or network_data (JObj [])) ''mtu'';
     (case host_uplink_mtu of
        None \<Rightarrow> Some (DEFAULT_FALLBACK_MTU, [Uplink_unknown])
      | Some uplink \<Rightarrow> do {
          let overhead = (if spans_hosts then MESH_OVERHEAD else 0);
          let ceiling = uplink - overhead;
          candidate \<leftarrow> (if requested \<in> {JNull, JStr [], JStr ''auto''} then Some ceiling else int_of_json requested);
          let (c1, w1) = (if candidate > ceiling then (ceiling, [Mtu_reduced candidate ceiling uplink overhead]) else (candidate, []));
          Some (if c1 < MTU_FLOOR then (MTU_FLOOR, w1 @ [Mtu_raised c1]) else (c1, w1))
        })
   }"

definition network_mtu_map :: "json \<Rightarrow> int option \<Rightarrow> bool \<Rightarrow> (json \<times> int) list option" where
  "network_mtu_map topology host_uplink_mtu spans_hosts = do {
     ns \<leftarrow> topo_nodes topology;
     ofold (\<lambda>m node. do {
       t \<leftarrow> get node ''type'';
       if t \<noteq> NETWORK_NODE then Some m
       else do {
         data \<leftarrow> node_data node;
         (mtu, _) \<leftarrow> resolve_network_mtu data host_uplink_mtu spans_hosts;
         i \<leftarrow> index node ''id'';
         k \<leftarrow> hkey i;
         Some (AList.update k mtu m)
       }
     }) [] ns
   }"

definition resolve_node_mtu ::
    "int option \<Rightarrow> bool \<Rightarrow> json list \<times> (json \<times> mtu_warning list) list \<Rightarrow> json \<Rightarrow>
     (json list \<times> (json \<times> mtu_warning list) list) option" where
  "resolve_node_mtu host_uplink_mtu spans_hosts st node = (case st of (done_nodes, warnings) \<Rightarrow> do {
     t \<leftarrow> get node ''type'';
     if t \<noteq> NETWORK_NODE then Some (done_nodes @ [node], warnings)
     else do {
       data \<leftarrow> node_data node;
       (mtu, warn) \<leftarrow> resolve_network_mtu data host_uplink_mtu spans_hosts;
       data' \<leftarrow> set_item data ''mtu'' (JInt mtu);
       node' \<leftarrow> set_item node ''data'' data';
       if warn = [] then Some (done_nodes @ [node'], warnings)
       else do {
         i \<leftarrow> index node ''id'';
         name \<leftarrow> get_or data' ''name'' i;
         Some (done_nodes @ [node'], warnings @ [(name, warn)])
       }
     }
   })"

definition resolve_topology_mtus :: "json \<Rightarrow> int option \<Rightarrow> bool \<Rightarrow> (json \<times> (json \<times> mtu_warning list) list) option" where
  "resolve_topology_mtus topology host_uplink_mtu spans_hosts = do {
     ns \<leftarrow> topo_nodes topology;
     (ns', warnings) \<leftarrow> ofold (resolve_node_mtu host_uplink_mtu spans_hosts) ([], []) ns;
     t \<leftarrow> (if ns = [] then Some topology else set_item topology ''nodes'' (JList ns'));
     Some (t, warnings)
   }"

end
