(* ===== verification/Topology_Disks.thy ===== *)
theory Topology_Disks
  imports Topology_Extract
begin

text \<open>
  Disks, volumes, boot devices and BMC settings of a canvas, and the names of files and domains on
  a host (\<open>deploy_topology.py\<close>). SHA-256 is a parameter; a storage pool is its mode.
\<close>

section \<open>Disks of a VM\<close>

definition resolve_disk_bus :: "json \<Rightarrow> string \<Rightarrow> json list \<Rightarrow> (json \<times> json) option" where
  "resolve_disk_bus vm_id handle ns = do {
     vm \<leftarrow> node_with_id ns vm_id;
     (case (vm, normalize_disk_port_id handle) of
        (Some v, Some port_id) \<Rightarrow> do {
          data \<leftarrow> node_data v;
          cv \<leftarrow> get_or data ''diskControllers'' (JList []);
          cs \<leftarrow> iter cv;
          r \<leftarrow> ofind (\<lambda>dc. map_option (\<lambda>i. i = JStr port_id) (index dc ''id'')) cs;
          (case r of
             None \<Rightarrow> Some (JStr ''virtio'', JNull)
           | Some dc \<Rightarrow> do { bus \<leftarrow> get_or dc ''bus'' (JStr ''virtio''); rr \<leftarrow> get dc ''rotationRate''; Some (bus, rr) })
        }
      | _ \<Rightarrow> Some (JStr ''virtio'', JNull))
   }"

definition storage_node_with_id :: "json list \<Rightarrow> json \<Rightarrow> json option option" where
  "storage_node_with_id ns i =
     ofind (\<lambda>n. do {
       x \<leftarrow> index n ''id'';
       if x \<noteq> i then Some False else map_option (\<lambda>t. t = STORAGE_NODE) (get n ''type'')
     }) ns"

definition disk_fields :: "field_spec list" where
  "disk_fields = [(''source'', ''source'', False, JStr ''blank''), (''library_item_id'', ''libraryItemId'', False, JNull),
     (''patternId'', ''patternId'', False, JNull), (''patternDiskId'', ''patternDiskId'', False, JNull),
     (''snapshotItemId'', ''snapshotItemId'', False, JNull)]"

definition disk_of_edge :: "json \<Rightarrow> json list \<Rightarrow> json \<Rightarrow> json list option" where
  "disk_of_edge vm_id ns edge = do {
     e \<leftarrow> extract_disk_edge edge vm_id;
     (case e of
        None \<Rightarrow> Some []
      | Some (handle, storage_id) \<Rightarrow> do {
          st \<leftarrow> storage_node_with_id ns storage_id;
          (case st of
             None \<Rightarrow> Some []
           | Some storage \<Rightarrow> do {
               sdata \<leftarrow> node_data storage;
               (bus, rr) \<leftarrow> resolve_disk_bus vm_id handle ns;
               name \<leftarrow> get_or sdata ''name'' (JStr ''disk'');
               size \<leftarrow> get_or sdata ''size'' (JInt 10);
               fmt \<leftarrow> get_or sdata ''format'' (JStr ''qcow2'');
               fields \<leftarrow> extract_fields sdata disk_fields;
               given \<leftarrow> get sdata ''format'';
               iso \<leftarrow> get_or sdata ''bootableIso'' (JBool False);
               Some [JObj ([(''node_id'', storage_id), (''name'', name), (''size_gb'', size), (''format'', fmt), (''bus'', bus)]
                 @ fields
                 @ (if rr \<noteq> JNull then [(''rotation_rate'', rr)] else [])
                 @ (if given = JStr ''iso'' then [(''bootable_iso'', JBool (truthy iso))] else []))]
             })
        })
   }"

definition find_vm_disks :: "json \<Rightarrow> json \<Rightarrow> json list option" where
  "find_vm_disks vm_id topology = do {
     es \<leftarrow> topo_edges topology;
     ns \<leftarrow> topo_nodes topology;
     xs \<leftarrow> omap (disk_of_edge vm_id ns) es;
     Some (concat xs)
   }"

section \<open>Boot order\<close>

text \<open>Disks are dictionaries with a \<open>node_id\<close>; \<open>disk_id\<close> is \<open>d["node_id"]\<close> as a key.\<close>

definition disk_id :: "json \<Rightarrow> json option" where
  "disk_id d = do { i \<leftarrow> index d ''node_id''; hkey i }"

definition index_disks :: "(json \<times> json) list \<Rightarrow> json \<Rightarrow> (json \<times> json) list option" where
  "index_disks m d = do { i \<leftarrow> disk_id d; Some (if i \<in> fst ` set m then m else m @ [(i, d)]) }"

definition boot_step :: "(json \<times> json) list \<Rightarrow> json list \<times> json list \<Rightarrow> json \<Rightarrow> (json list \<times> json list) option" where
  "boot_step by_id st dev = do {
     k \<leftarrow> hkey dev;
     (case map_of by_id k of
        None \<Rightarrow> Some st
      | Some d \<Rightarrow> do {
          i \<leftarrow> disk_id d;
          Some (if i \<in> set (snd st) then st else (fst st @ [d], snd st @ [i]))
        })
   }"

definition rest_step :: "json list \<times> json list \<Rightarrow> json \<Rightarrow> (json list \<times> json list) option" where
  "rest_step st d = do {
     i \<leftarrow> disk_id d;
     Some (if i \<in> set (snd st) then st else (fst st @ [d], snd st @ [i]))
   }"

definition order_vm_disks_by_boot :: "json list \<Rightarrow> json list \<Rightarrow> json list option" where
  "order_vm_disks_by_boot vm_disks boot_devices =
     (if boot_devices = [] then Some vm_disks
      else do {
        by_id \<leftarrow> ofold index_disks [] vm_disks;
        s1 \<leftarrow> ofold (boot_step by_id) ([], []) boot_devices;
        s2 \<leftarrow> ofold rest_step s1 vm_disks;
        Some (fst s2)
      })"

definition auto_detect_boot_devs :: "bool \<Rightarrow> bool \<Rightarrow> string list" where
  "auto_detect_boot_devs has_iso has_disk =
     (if has_iso \<and> has_disk then [''cdrom'', ''hd''] else if has_iso then [''cdrom'']
      else if has_disk then [''hd''] else [''network''])"

definition boot_type_map :: "(json \<times> string) list" where
  "boot_type_map = [(JStr ''hd'', ''hd''), (JStr ''disk'', ''hd''), (JStr ''network'', ''network''), (JStr ''cdrom'', ''cdrom'')]"

definition boot_dev_step :: "(json \<times> json) list \<Rightarrow> string list \<Rightarrow> json \<Rightarrow> string list option" where
  "boot_dev_step storage_nodes devs d = do {
     k \<leftarrow> hkey d;
     (case map_of boot_type_map k of
        Some dev \<Rightarrow> Some (add_once dev devs)
      | None \<Rightarrow>
          (case map_of storage_nodes k of
             None \<Rightarrow> Some devs
           | Some n \<Rightarrow> do {
               data \<leftarrow> node_data n;
               fmt \<leftarrow> get data ''format'';
               Some (add_once (if fmt = JStr ''iso'' then ''cdrom'' else ''hd'') devs)
             }))
   }"

definition map_boot_dev_entries :: "json list \<Rightarrow> (json \<times> json) list \<Rightarrow> bool \<Rightarrow> bool \<Rightarrow> string list option" where
  "map_boot_dev_entries raw storage_nodes has_cdrom_controller has_bootable_iso = do {
     devs \<leftarrow> ofold (boot_dev_step storage_nodes) [] raw;
     let devs2 = (if has_cdrom_controller \<and> has_bootable_iso \<and> ''cdrom'' \<notin> set devs then devs @ [''cdrom''] else devs);
     Some (if devs2 = [] then [''hd''] else devs2)
   }"

definition resolve_boot_devs :: "json \<Rightarrow> json list \<Rightarrow> json \<Rightarrow> string list option" where
  "resolve_boot_devs vm vm_disks topology = do {
     ns \<leftarrow> topo_nodes topology;
     storage \<leftarrow> ofilter (has_type ''storageNode'') ns;
     storage_nodes \<leftarrow> ofold add_node [] storage;
     raw \<leftarrow> get vm ''boot_devices'';
     has_bootable_iso \<leftarrow> oany (\<lambda>d. do {
       f \<leftarrow> index d ''format'';
       if f \<noteq> JStr ''iso'' then Some False else map_option truthy (get_or d ''bootable_iso'' (JBool False))
     }) vm_disks;
     has_disk \<leftarrow> oany (\<lambda>d. map_option (\<lambda>f. f \<noteq> JStr ''iso'') (index d ''format'')) vm_disks;
     cv \<leftarrow> get_or vm ''disk_controllers'' (JList []);
     cs \<leftarrow> iter cv;
     has_cdrom_controller \<leftarrow> oany (\<lambda>dc. do {
       bus \<leftarrow> get dc ''bus'';
       if bus \<noteq> JStr ''sata'' then Some False
       else do { nm \<leftarrow> get_or dc ''name'' (JStr []); text_in ''cdrom'' nm }
     }) cs;
     if \<not> truthy raw \<or> (raw = JList [JStr ''hd''] \<and> has_bootable_iso)
     then Some (auto_detect_boot_devs has_bootable_iso has_disk)
     else do { devs \<leftarrow> iter raw; map_boot_dev_entries devs storage_nodes has_cdrom_controller has_bootable_iso }
   }"

section \<open>Files and domains\<close>

definition shared_pool :: "string option \<Rightarrow> bool" where
  "shared_pool pool = (case pool of None \<Rightarrow> False | Some mode \<Rightarrow> starts_with mode ''shared'')"

definition vm_dir :: "string \<Rightarrow> string option \<Rightarrow> string" where
  "vm_dir project_id pool =
     (if shared_pool pool then ''/var/lib/troshka/shared/vms/'' @ project_id else ''/var/lib/troshka/vms/'' @ project_id)"

definition digits_suffix :: "string \<Rightarrow> string" where
  "digits_suffix s = rev (takeWhile is_digit (rev s))"

definition short_disk_id :: "string \<Rightarrow> string" where
  "short_disk_id s =
     (let ds = digits_suffix s
      in if ds \<noteq> [] \<and> ends_with (drop_suffix s ds) ''-disk-'' then CHR ''d'' # ds else take 8 s)"

definition disk_part :: "string \<Rightarrow> string \<Rightarrow> string" where
  "disk_part vm_node_id disk_node_id =
     (let p = short_disk_id disk_node_id
      in if p = take 8 vm_node_id then drop (length disk_node_id - 8) disk_node_id else p)"

definition disk_path :: "string \<Rightarrow> string \<Rightarrow> string \<Rightarrow> string \<Rightarrow> string option \<Rightarrow> string" where
  "disk_path project_id vm_node_id disk_node_id fmt pool =
     vm_dir project_id pool @ ''/'' @ take 8 vm_node_id @ ''-'' @ disk_part vm_node_id disk_node_id @ ''.'' @ fmt"

definition seed_path :: "string \<Rightarrow> string \<Rightarrow> string option \<Rightarrow> string" where
  "seed_path project_id vm_node_id pool = vm_dir project_id pool @ ''/'' @ take 8 vm_node_id @ ''-seed.iso''"

definition image_cache_path :: "string \<Rightarrow> string \<Rightarrow> string option \<Rightarrow> string" where
  "image_cache_path item_id fmt pool =
     (if shared_pool pool then ''/var/lib/troshka/shared/images/'' else ''/var/lib/troshka/images/'') @ item_id @ ''.'' @ fmt"

definition pattern_cache_path :: "string \<Rightarrow> string \<Rightarrow> string \<Rightarrow> string" where
  "pattern_cache_path pattern_id disk fmt =
     ''/var/lib/troshka/local/cache/patterns/'' @ pattern_id @ ''/'' @ disk @ ''.'' @ fmt"

definition snapshot_cache_path :: "string \<Rightarrow> string \<Rightarrow> string \<Rightarrow> string" where
  "snapshot_cache_path item_id disk fmt = ''/var/lib/troshka/cache/snapshots/'' @ item_id @ ''/'' @ disk @ ''.'' @ fmt"

text \<open>\<open>s.rsplit(c, 1)[-1]\<close>.\<close>

definition after_last :: "char \<Rightarrow> string \<Rightarrow> string" where
  "after_last c s = rev (takeWhile (\<lambda>x. x \<noteq> c) (rev s))"

definition ext_from_s3_key :: "string \<Rightarrow> string \<Rightarrow> string" where
  "ext_from_s3_key s3_key dflt =
     (let tail = after_last (CHR ''/'') s3_key in if CHR ''.'' \<in> set tail then after_last (CHR ''.'') tail else dflt)"

definition is_lower_hex :: "char \<Rightarrow> bool" where
  "is_lower_hex c = (is_digit c \<or> c \<in> set ''abcdef'')"

definition domain_id_segment :: "(string \<Rightarrow> string) \<Rightarrow> string \<Rightarrow> string" where
  "domain_id_segment sha256_hex identifier =
     (let prefix = py_lower (take 8 identifier)
      in if length prefix = 8 \<and> list_all is_lower_hex prefix then prefix else take 8 (sha256_hex identifier))"

definition vm_domain_name :: "(string \<Rightarrow> string) \<Rightarrow> string \<Rightarrow> string \<Rightarrow> string" where
  "vm_domain_name sha256_hex project_id node_id =
     ''troshka-'' @ domain_id_segment sha256_hex project_id @ ''-'' @ domain_id_segment sha256_hex node_id"

section \<open>Volumes of a container\<close>

definition mount_side :: "json \<Rightarrow> bool option" where
  "mount_side h = (if \<not> truthy h then Some False else starts_with_text h ''mnt-'')"

definition resolve_mount_edge :: "json \<Rightarrow> json \<Rightarrow> json option" where
  "resolve_mount_edge edge cid = do {
     src \<leftarrow> get edge ''source'';
     tgt \<leftarrow> get edge ''target'';
     sh \<leftarrow> get_or edge ''sourceHandle'' (JStr []);
     th \<leftarrow> get_or edge ''targetHandle'' (JStr []);
     b1 \<leftarrow> (if src = cid then mount_side th else Some False);
     if b1 then Some tgt
     else do {
       b2 \<leftarrow> (if tgt = cid then mount_side sh else Some False);
       if b2 then Some src
       else do {
         b3 \<leftarrow> (if tgt = cid then mount_side th else Some False);
         if b3 then Some src
         else do {
           b4 \<leftarrow> (if src = cid then mount_side sh else Some False);
           Some (if b4 then tgt else JNull)
         }
       }
     }
   }"

definition volume_of_edge ::
    "string \<Rightarrow> string \<Rightarrow> string option \<Rightarrow> json list \<Rightarrow> (json \<times> json) list \<Rightarrow> json \<Rightarrow> json list option" where
  "volume_of_edge cid project_id pool ns mounts edge = do {
     disk \<leftarrow> resolve_mount_edge edge (JStr cid);
     if \<not> truthy disk then Some []
     else do {
       n \<leftarrow> storage_node_with_id ns disk;
       (case n of
          None \<Rightarrow> Some []
        | Some disk_node \<Rightarrow> do {
            info \<leftarrow> lookup mounts disk (JObj []);
            dd \<leftarrow> node_data disk_node;
            d \<leftarrow> as_str disk;
            path \<leftarrow> get_or info ''mountPath'' (JStr ''/data'');
            size \<leftarrow> get_or dd ''size'' (JInt 10);
            Some [JObj [(''disk_path'', JStr (disk_path project_id cid d ''raw'' pool)),
              (''mount_dir'', JStr (vm_dir project_id pool @ ''/mnt-'' @ take 8 d)),
              (''mount_path'', path), (''size_gb'', size), (''node_id'', disk)]]
          })
     }
   }"

definition find_container_volumes :: "string \<Rightarrow> json \<Rightarrow> string \<Rightarrow> string option \<Rightarrow> json list option" where
  "find_container_volumes cid topology project_id pool = do {
     ns \<leftarrow> topo_nodes topology;
     c \<leftarrow> node_with_id ns (JStr cid);
     (case c of
        None \<Rightarrow> Some []
      | Some container \<Rightarrow> do {
          data \<leftarrow> node_data container;
          mv \<leftarrow> get_or data ''mounts'' (JList []);
          ml \<leftarrow> iter mv;
          mounts \<leftarrow> ofold (\<lambda>m x. do { i \<leftarrow> index x ''diskNodeId''; k \<leftarrow> hkey i; Some (AList.update k x m) }) [] ml;
          es \<leftarrow> topo_edges topology;
          xs \<leftarrow> omap (volume_of_edge cid project_id pool ns mounts) es;
          Some (concat xs)
        })
   }"

section \<open>BMC\<close>

definition find_bmc_network :: "json \<Rightarrow> json option option" where
  "find_bmc_network topology = do {
     ns \<leftarrow> topo_nodes topology;
     ofind (\<lambda>n. do {
       t \<leftarrow> get n ''type'';
       if t \<noteq> NETWORK_NODE then Some False
       else do { d \<leftarrow> node_data n; map_option (\<lambda>x. x = JStr ''bmc'') (get d ''networkType'') }
     }) ns
   }"

definition bmc_vm :: "(string \<Rightarrow> string) \<Rightarrow> string \<Rightarrow> json \<Rightarrow> json list option" where
  "bmc_vm sha256_hex project_id node = do {
     t \<leftarrow> get node ''type'';
     if t \<noteq> VM_NODE then Some []
     else do {
       d \<leftarrow> node_data node;
       enabled \<leftarrow> get d ''bmcEnabled'';
       if \<not> truthy enabled then Some []
       else do {
         ip \<leftarrow> get_or d ''bmcIp'' (JStr []);
         if \<not> truthy ip then Some []
         else do {
           i \<leftarrow> index node ''id'';
           s \<leftarrow> as_str i;
           Some [JObj [(''node_id'', i), (''domain_name'', JStr (vm_domain_name sha256_hex project_id s)), (''bmc_ip'', ip)]]
         }
       }
     }
   }"

definition find_bmc_vms :: "(string \<Rightarrow> string) \<Rightarrow> json \<Rightarrow> string \<Rightarrow> json list option" where
  "find_bmc_vms sha256_hex topology project_id = do {
     ns \<leftarrow> topo_nodes topology; xs \<leftarrow> omap (bmc_vm sha256_hex project_id) ns; Some (concat xs) }"

definition bmc_nic_entry :: "json \<Rightarrow> string \<Rightarrow> json \<Rightarrow> json list option" where
  "bmc_nic_entry data handle nic = do {
     i \<leftarrow> index nic ''id'';
     s \<leftarrow> as_str i;
     ip \<leftarrow> get nic ''ip'';
     mac \<leftarrow> get nic ''mac'';
     name \<leftarrow> get_or data ''name'' (JStr []);
     Some (if contains_text s handle \<and> truthy ip \<and> truthy mac
           then [JObj [(''mac'', mac), (''ip'', ip), (''name'', name)]] else [])
   }"

definition collect_vm_bmc_dhcp_entries :: "json \<Rightarrow> json list \<Rightarrow> json \<Rightarrow> json list option" where
  "collect_vm_bmc_dhcp_entries node es bmc_net_id = do {
     vm_id \<leftarrow> index node ''id'';
     xs \<leftarrow> omap (\<lambda>edge. do {
       e \<leftarrow> extract_nic_edge edge vm_id;
       (case e of
          None \<Rightarrow> Some []
        | Some (handle, net_id) \<Rightarrow>
            if net_id \<noteq> bmc_net_id then Some []
            else do {
              data \<leftarrow> node_data node;
              nv \<leftarrow> get_or data ''nics'' (JList []);
              nics \<leftarrow> iter nv;
              ys \<leftarrow> omap (bmc_nic_entry data handle) nics;
              Some (concat ys)
            })
     }) es;
     Some (concat xs)
   }"

definition collect_bmc_dhcp_hosts :: "json \<Rightarrow> json \<Rightarrow> json list option" where
  "collect_bmc_dhcp_hosts topology bmc_net_id = do {
     es \<leftarrow> topo_edges topology;
     ns \<leftarrow> topo_nodes topology;
     vms \<leftarrow> ofilter (has_type ''vmNode'') ns;
     xs \<leftarrow> omap (\<lambda>n. collect_vm_bmc_dhcp_entries n es bmc_net_id) vms;
     Some (concat xs)
   }"

definition extract_bmc_config :: "(string \<Rightarrow> string) \<Rightarrow> json \<Rightarrow> string \<Rightarrow> json option" where
  "extract_bmc_config sha256_hex topology project_id = do {
     net \<leftarrow> find_bmc_network topology;
     (case net of
        None \<Rightarrow> Some JNull
      | Some n \<Rightarrow> do {
          vms \<leftarrow> find_bmc_vms sha256_hex topology project_id;
          if vms = [] then Some JNull
          else do {
            i \<leftarrow> index n ''id'';
            hosts \<leftarrow> collect_bmc_dhcp_hosts topology i;
            d \<leftarrow> index n ''data'';
            Some (JObj [(''bmc_network'', d), (''vms'', JList vms), (''dhcp_hosts'', JList hosts)])
          }
        })
   }"

end
