(* ===== verification/Disk_Laws.thy ===== *)
theory Disk_Laws
  imports Topology_Disks "HOL-Library.Multiset"
begin

text \<open>
  The boot order of a VM's disks against a reference definition, and which disks of a project share
  a file on a host.
\<close>

section \<open>Boot order\<close>

text \<open>\<open>first_seen\<close> keeps the first occurrence of every element.\<close>

primrec first_seen :: "'a list \<Rightarrow> 'a list" where
  "first_seen [] = []"
| "first_seen (x # xs) = x # removeAll x (first_seen xs)"

lemma set_first_seen [simp]: "set (first_seen xs) = set xs"
  by (induction xs) auto

lemma distinct_first_seen [simp]: "distinct (first_seen xs)"
  by (induction xs) (auto simp: distinct_removeAll)

lemma foldl_add_once_eq: "foldl (\<lambda>acc x. add_once x acc) acc xs = acc @ filter (\<lambda>x. x \<notin> set acc) (first_seen xs)"
proof (induction xs arbitrary: acc)
  case (Cons x xs)
  show ?case
  proof (cases "x \<in> set acc")
    case True
    then have "filter (\<lambda>y. y \<notin> set acc) (removeAll x (first_seen xs)) = filter (\<lambda>y. y \<notin> set acc) (first_seen xs)"
      by (auto simp: removeAll_filter_not_eq intro: filter_cong)
    then show ?thesis using True Cons.IH by (simp add: add_once_def)
  next
    case False
    have "filter (\<lambda>y. y \<notin> set (acc @ [x])) (first_seen xs) = filter (\<lambda>y. y \<notin> set acc) (removeAll x (first_seen xs))"
      by (auto simp: removeAll_filter_not_eq intro: filter_cong)
    then show ?thesis using False Cons.IH[of "acc @ [x]"] by (simp add: add_once_def)
  qed
qed simp

lemma indexed_disks:
  assumes "omap disk_id ds = Some ids"
  shows "\<exists>by_id. ofold index_disks m ds = Some by_id \<and> map_of by_id = map_of (zip ids ds) ++ map_of m"
  using assms
proof (induction ds arbitrary: ids m)
  case (Cons d ds)
  then obtain i js where i: "disk_id d = Some i" "omap disk_id ds = Some js" "ids = i # js"
    by (auto simp: bind_eq_Some_conv)
  define m' where "m' = (if i \<in> fst ` set m then m else m @ [(i, d)])"
  obtain by_id where b: "ofold index_disks m' ds = Some by_id" "map_of by_id = map_of (zip js ds) ++ map_of m'"
    using Cons.IH[OF i(2)] by blast
  have "map_of (zip js ds) ++ map_of m' = map_of (zip ids (d # ds)) ++ map_of m"
    using map_of_eq_None_iff[of m i]
    by (auto simp: m'_def i(3) fun_eq_iff map_add_def split: option.splits)
  moreover have "index_disks m d = Some m'" using i(1) by (simp add: index_disks_def m'_def)
  ultimately show ?case using b by simp
qed simp

definition chosen :: "(json \<Rightarrow> json) \<Rightarrow> json list \<Rightarrow> json list \<times> json list" where
  "chosen pick is = (map pick is, is)"

lemma boot_loop:
  assumes "omap hkey boot = Some ks" "\<And>k d. map_of by_id k = Some d \<Longrightarrow> pick k = d \<and> disk_id d = Some k"
  shows "ofold (boot_step by_id) (chosen pick seen) boot =
    Some (chosen pick (foldl (\<lambda>acc x. add_once x acc) seen (filter (\<lambda>k. k \<in> dom (map_of by_id)) ks)))"
  using assms(1)
proof (induction boot arbitrary: ks seen)
  case (Cons dev boot)
  then obtain js where js: "hkey dev = Some dev" "omap hkey boot = Some js" "ks = dev # js"
    by (auto simp: bind_eq_Some_conv dest: hkey_SomeD)
  show ?case
  proof (cases "map_of by_id dev")
    case None
    then show ?thesis using js Cons.IH[OF js(2)] by (simp add: boot_step_def domIff)
  next
    case (Some d)
    then have d: "pick dev = d" "disk_id d = Some dev" using assms(2) by blast+
    have "boot_step by_id (chosen pick seen) dev = Some (chosen pick (add_once dev seen))"
      using js(1) Some d by (simp add: boot_step_def chosen_def add_once_def)
    moreover have "dev \<in> dom (map_of by_id)" using Some by blast
    ultimately show ?thesis using js(3) Cons.IH[OF js(2), of "add_once dev seen"] by simp
  qed
qed simp

lemma rest_loop:
  assumes "omap disk_id ds = Some ids" "\<And>i. i \<in> set ids - set seen \<Longrightarrow> map_of (zip ids ds) i = Some (pick i)"
  shows "ofold rest_step (chosen pick seen) ds = Some (chosen pick (foldl (\<lambda>acc x. add_once x acc) seen ids))"
  using assms
proof (induction ds arbitrary: ids seen)
  case (Cons d ds)
  then obtain i js where i: "disk_id d = Some i" "omap disk_id ds = Some js" "ids = i # js"
    by (auto simp: bind_eq_Some_conv)
  have "i \<notin> set seen \<Longrightarrow> pick i = d" using Cons.prems(2)[of i] i(3) by simp
  then have "rest_step (chosen pick seen) d = Some (chosen pick (add_once i seen))"
    using i(1) by (simp add: rest_step_def chosen_def add_once_def)
  moreover have "map_of (zip js ds) j = Some (pick j)" if "j \<in> set js - set (add_once i seen)" for j
    using that Cons.prems(2)[of j] i(3) by auto
  ultimately show ?case using i(3) Cons.IH[OF i(2), of "add_once i seen"] by simp
qed simp

lemma zip_disks: "omap disk_id ds = Some ids \<Longrightarrow> map_of (zip ids ds) i = Some d \<Longrightarrow> disk_id d = Some i"
  by (auto simp: omap_Some list_all2_conv_all_nth in_set_zip dest!: map_of_SomeD)

lemma first_seen_filter: "first_seen (filter P xs) = filter P (first_seen xs)"
  by (induction xs) (auto simp: removeAll_filter_not_eq filter_filter conj_commute intro: filter_cong)

lemma first_seen_append: "first_seen (xs @ ys) = first_seen xs @ filter (\<lambda>y. y \<notin> set xs) (first_seen ys)"
  by (induction xs) (auto simp: removeAll_filter_not_eq intro: filter_cong)

lemma order_vm_disks:
  assumes "boot \<noteq> []" "omap disk_id ds = Some ids" "omap hkey boot = Some ks"
  shows "order_vm_disks_by_boot ds boot =
    Some (map (\<lambda>i. the (map_of (zip ids ds) i)) (first_seen (filter (\<lambda>k. k \<in> set ids) ks @ ids)))"
proof -
  define pick where "pick i = the (map_of (zip ids ds) i)" for i
  obtain by_id where b: "ofold index_disks [] ds = Some by_id" "map_of by_id = map_of (zip ids ds)"
    using indexed_disks[OF assms(2), of "[]"] by auto
  have len: "length ids = length ds" using omap_length[OF assms(2)] .
  have dom: "k \<in> dom (map_of by_id) \<longleftrightarrow> k \<in> set ids" for k
    unfolding b(2) using len by (simp add: dom_map_of_conv_image_fst flip: set_map)
  have boot: "ofold (boot_step by_id) (chosen pick []) boot =
      Some (chosen pick (first_seen (filter (\<lambda>k. k \<in> set ids) ks)))"
    using boot_loop[OF assms(3), of by_id pick "[]"] zip_disks[OF assms(2)] b(2) dom
    by (simp add: pick_def foldl_add_once_eq)
  have "map_of (zip ids ds) i = Some (pick i)" if "i \<in> set ids" for i
    using that dom[of i] b(2) by (auto simp: pick_def)
  then have "ofold rest_step (chosen pick (first_seen (filter (\<lambda>k. k \<in> set ids) ks))) ds =
      Some (chosen pick (first_seen (filter (\<lambda>k. k \<in> set ids) ks @ ids)))"
    using rest_loop[OF assms(2), of _ pick] by (simp add: foldl_add_once_eq first_seen_append)
  then show ?thesis
    using assms(1) b(1) boot by (simp add: order_vm_disks_by_boot_def chosen_def pick_def)
qed

lemma pick_all:
  assumes "distinct ids" "length ids = length ds"
  shows "map (\<lambda>i. the (map_of (zip ids ds) i)) ids = ds"
  using assms by (intro nth_equalityI) (auto simp: map_of_zip_nth)

lemma mset_first_seen: "distinct ys \<Longrightarrow> set xs \<subseteq> set ys \<Longrightarrow> mset (first_seen (xs @ ys)) = mset ys"
  by (intro set_eq_iff_mset_eq_distinct[THEN iffD1]) auto

text \<open>C27: Boot order. The disks of a VM are handed to the host in the order of the boot devices that
  name a disk, then in the order of the canvas, each disk once: the loops over the boot devices and
  the disks compute the first occurrences of the one list followed by the other. When the disks have
  different ids, no disk is lost or duplicated.
\<close>

theorem disks_in_boot_order:
  assumes "boot \<noteq> []" "omap disk_id ds = Some ids" "omap hkey boot = Some ks"
  shows "case order_vm_disks_by_boot ds boot of
      None \<Rightarrow> False
    | Some out \<Rightarrow> omap disk_id out = Some (first_seen (filter (\<lambda>k. k \<in> set ids) ks @ ids)) \<and>
        set out \<subseteq> set ds \<and> (distinct ids \<longrightarrow> mset out = mset ds)"
proof -
  define out where "out = map (\<lambda>i. the (map_of (zip ids ds) i)) (first_seen (filter (\<lambda>k. k \<in> set ids) ks @ ids))"
  have len: "length ids = length ds" using omap_length[OF assms(2)] .
  have pick: "\<exists>d \<in> set ds. map_of (zip ids ds) i = Some d \<and> disk_id d = Some i" if "i \<in> set ids" for i
  proof -
    have "i \<in> dom (map_of (zip ids ds))" using that len by (simp add: dom_map_of_conv_image_fst flip: set_map)
    then obtain d where d: "map_of (zip ids ds) i = Some d" by blast
    then show ?thesis using zip_disks[OF assms(2) d] by (auto dest!: map_of_SomeD set_zip_rightD)
  qed
  have "omap disk_id out = Some (first_seen (filter (\<lambda>k. k \<in> set ids) ks @ ids))"
    using pick by (force simp: omap_Some out_def list_all2_conv_all_nth dest: nth_mem)
  moreover have "set out \<subseteq> set ds" using pick by (force simp: out_def)
  moreover have "mset out = mset ds" if "distinct ids"
  proof -
    have "mset out = mset (map (\<lambda>i. the (map_of (zip ids ds) i)) ids)"
      unfolding out_def mset_map by (subst mset_first_seen[OF that]) auto
    then show ?thesis using pick_all[OF that len] by simp
  qed
  ultimately show ?thesis using order_vm_disks[OF assms] by (simp add: out_def)
qed

definition sample_disk :: "string \<Rightarrow> json" where
  "sample_disk i = JObj [(''node_id'', JStr i), (''format'', JStr ''qcow2'')]"

theorem disks_in_boot_order_witness:
  "order_vm_disks_by_boot [sample_disk ''data'', sample_disk ''root''] [JStr ''network'', JStr ''root''] =
     Some [sample_disk ''root'', sample_disk ''data''] \<and>
   mset [sample_disk ''root'', sample_disk ''data''] = mset [sample_disk ''data'', sample_disk ''root'']"
proof -
  have "order_vm_disks_by_boot [sample_disk ''data'', sample_disk ''root''] [JStr ''network'', JStr ''root''] =
     Some [sample_disk ''root'', sample_disk ''data'']" by code_simp
  then show ?thesis
    using disks_in_boot_order[of "[JStr ''network'', JStr ''root'']" "[sample_disk ''data'', sample_disk ''root'']"
        "[JStr ''data'', JStr ''root'']" "[JStr ''network'', JStr ''root'']"]
    by (simp add: sample_disk_def disk_id_def)
qed

section \<open>Files\<close>

text \<open>\<open>member_disk\<close> is the id of disk \<open>n\<close> that the canvas gives to a cluster member.\<close>

definition member_disk :: "string \<Rightarrow> nat \<Rightarrow> string" where
  "member_disk member n = member @ ''-disk-'' @ nat_str n"

lemma digits_suffix_disk: "digits_suffix (s @ ''-disk-'' @ nat_str n) = nat_str n"
proof -
  have "\<And>c. c \<in> set (rev (nat_str n)) \<Longrightarrow> is_digit c" using nat_str_digits[of n] by (simp add: list_all_iff)
  then have "takeWhile is_digit (rev (nat_str n) @ CHR ''-'' # r) = rev (nat_str n)" for r
    by (subst takeWhile_append2) (simp_all add: is_digit_def)
  from this[of "rev (s @ ''-disk'')"] show ?thesis by (simp add: digits_suffix_def)
qed

lemma ends_with_append [simp]: "ends_with (s @ p) p"
  by (simp add: ends_with_def)

lemma drop_suffix_append [simp]: "drop_suffix (s @ p) p = s"
  by (simp add: drop_suffix_def)

lemma short_member_disk: "short_disk_id (member_disk member n) = CHR ''d'' # nat_str n"
proof -
  have "drop_suffix ((member @ ''-disk-'') @ nat_str n) (nat_str n) = member @ ''-disk-''" by (rule drop_suffix_append)
  moreover have "ends_with (member @ ''-disk-'') ''-disk-''" by (rule ends_with_append)
  ultimately show ?thesis
    using digits_suffix_disk[of member n] by (simp only: short_disk_id_def member_disk_def Let_def append_assoc) simp
qed

lemma length_nat_str: "n < 10 ^ Suc k \<Longrightarrow> length (nat_str n) \<le> Suc k"
proof (induction k arbitrary: n)
  case (Suc k)
  show ?case
  proof (cases "n < 10")
    case False
    have "n div 10 < 10 ^ Suc k" using Suc.prems by (simp add: less_mult_imp_div_less)
    then have "length (nat_digits (n div 10)) \<le> Suc k" using Suc.IH by (simp add: nat_str_def)
    then show ?thesis using False by (subst nat_str_def, subst nat_digits.simps) simp
  qed (simp add: nat_str_def nat_digits.simps)
qed (simp add: nat_str_def nat_digits.simps)

lemma member_disk_part:
  assumes "8 \<le> length member" "n < 10 ^ 6"
  shows "disk_part member (member_disk member n) = CHR ''d'' # nat_str n"
proof -
  have "length (nat_str n) \<le> 6" using assms(2) length_nat_str[of n 5] by simp
  then have "length (CHR ''d'' # nat_str n) \<noteq> length (take 8 member)" using assms(1) by simp
  then have "CHR ''d'' # nat_str n \<noteq> take 8 member" by metis
  then show ?thesis by (simp add: disk_part_def short_member_disk Let_def)
qed

text \<open>Files of cluster members. Two disks that the canvas gives to cluster members have the same file
  exactly when the members' ids agree in their first eight characters and the disks have the same
  number, and the seed images collide with them: members of one cluster, whose ids begin with the
  cluster's, are not told apart.
\<close>

theorem member_disks_share_file:
  assumes "8 \<le> length a" "8 \<le> length b" "m < 10 ^ 6" "n < 10 ^ 6"
  shows "(disk_path project_id a (member_disk a m) fmt pool = disk_path project_id b (member_disk b n) fmt pool
      \<longleftrightarrow> take 8 a = take 8 b \<and> m = n) \<and>
    (seed_path project_id a pool = seed_path project_id b pool \<longleftrightarrow> take 8 a = take 8 b)"
  using assms by (simp add: disk_path_def seed_path_def member_disk_part)

theorem member_disks_share_file_witness:
  "disk_path ''p1'' ''ocp-54230q-cp-0'' (member_disk ''ocp-54230q-cp-0'' 0) ''qcow2'' None =
   disk_path ''p1'' ''ocp-54230q-cp-1'' (member_disk ''ocp-54230q-cp-1'' 0) ''qcow2'' None"
  by (rule member_disks_share_file[THEN conjunct1, THEN iffD2]) simp_all

end
