(* ===== verification/Address_Laws.thy ===== *)
theory Address_Laws
  imports Address_Assign Disk_Laws
begin

text \<open>
  The addresses that a deployment assigns are free, pairwise different and in range, for container
  NICs and for OSDs; the MTU of a network stays within the uplink's.
\<close>

section \<open>Loops that assign addresses\<close>

definition fresh :: "(json \<Rightarrow> bool) \<Rightarrow> json list \<Rightarrow> json list \<Rightarrow> bool" where
  "fresh good used new \<longleftrightarrow> distinct new \<and> set new \<inter> set used = {} \<and> (\<forall>ip \<in> set new. good ip)"

text \<open>
  A loop over NICs, or over nodes, whose state is the list of the updated items and the addresses in
  use: an item gains the addresses that the step adds to those in use.
\<close>

locale address_loop =
  fixes step :: "json list \<times> json list \<Rightarrow> json \<Rightarrow> (json list \<times> json list) option"
    and ips :: "json \<Rightarrow> json list"
    and good :: "json \<Rightarrow> bool"
  assumes step: "step (items, used) x = Some st \<Longrightarrow>
    \<exists>y new. st = (items @ [y], used @ new) \<and> mset (ips y) = mset (ips x) + mset new \<and> fresh good used new"
begin

lemma loop:
  "ofold step (items, used) xs = Some (items', used') \<Longrightarrow>
    \<exists>ys new. items' = items @ ys \<and> used' = used @ new \<and>
      mset (concat (map ips ys)) = mset (concat (map ips xs)) + mset new \<and> fresh good used new"
proof (induction xs arbitrary: items used)
  case Nil
  then show ?case by (simp add: fresh_def)
next
  case (Cons x xs)
  then obtain st where st: "step (items, used) x = Some st" "ofold step st xs = Some (items', used')"
    by (auto simp: bind_eq_Some_conv)
  obtain y d where y: "st = (items @ [y], used @ d)" "mset (ips y) = mset (ips x) + mset d" "fresh good used d"
    using step[OF st(1)] by blast
  obtain ys new where ys: "items' = (items @ [y]) @ ys" "used' = (used @ d) @ new"
      "mset (concat (map ips ys)) = mset (concat (map ips xs)) + mset new" "fresh good (used @ d) new"
    using Cons.IH[OF st(2)[unfolded y(1)]] by blast
  have "fresh good used (d @ new)" using y(3) ys(4) by (auto simp: fresh_def)
  moreover have "mset (concat (map ips (y # ys))) = mset (concat (map ips (x # xs))) + mset (d @ new)"
    using y(2) ys(3) by simp
  ultimately show ?case using ys(1,2) by (intro exI[of _ "y # ys"] exI[of _ "d @ new"]) simp
qed

end

section \<open>Containers\<close>

lemma pick_available_ip_Some:
  "pick_available_ip s e used = Some ip \<Longrightarrow> ip \<notin> set used \<and> (\<exists>a. s \<le> a \<and> a \<le> e \<and> ip = JStr (addr_text a))"
proof (induction s e used rule: pick_available_ip.induct)
  case (1 s e used)
  show ?case
  proof (cases "e < s \<or> JStr (addr_text s) \<notin> set used")
    case True
    then show ?thesis using "1.prems" by (subst (asm) pick_available_ip.simps) (auto split: if_splits)
  next
    case False
    then have "pick_available_ip (s + 1) e used = Some ip"
      using "1.prems" by (subst (asm) pick_available_ip.simps) simp
    then have "ip \<notin> set used \<and> (\<exists>a. s + 1 \<le> a \<and> a \<le> e \<and> ip = JStr (addr_text a))"
      using "1.IH" False by simp
    then show ?thesis by (elim conjE exE, intro conjI exI) auto
  qed
qed

text \<open>The address text lies in the DHCP range of one of the networks.\<close>

definition in_dhcp_range :: "json list \<Rightarrow> json \<Rightarrow> bool" where
  "in_dhcp_range networks ip \<longleftrightarrow>
     (\<exists>n \<in> set networks. \<exists>d s e a. node_data n = Some d \<and> get_dhcp_range d = Some (Some (s, e)) \<and> s \<le> a \<and> a \<le> e \<and>
        ip = JStr (addr_text a))"

definition nic_ips :: "json \<Rightarrow> json list" where
  "nic_ips nic = (case get nic ''ip'' of Some ip \<Rightarrow> if truthy ip then [ip] else [] | None \<Rightarrow> [])"

definition container_node_ips :: "json \<Rightarrow> json list" where
  "container_node_ips node =
     (if get node ''type'' = Some CONTAINER_NODE
      then (case do { data \<leftarrow> node_data node; nv \<leftarrow> get_or data ''nics'' (JList []); iter nv } of
              Some nics \<Rightarrow> concat (map nic_ips nics)
            | None \<Rightarrow> [])
      else [])"

lemma edge_network_in:
  "first_edge_network i hs nn es = Some (Some n) \<Longrightarrow> n \<in> snd ` set nn"
proof (induction es)
  case (Cons e es)
  then obtain r where r: "container_edge_network i hs nn e = Some r"
      "(case r of Some x \<Rightarrow> Some (Some x) | None \<Rightarrow> first_edge_network i hs nn es) = Some (Some n)"
    by (auto simp: bind_eq_Some_conv)
  have "r = Some n \<Longrightarrow> n \<in> snd ` set nn"
    using r(1) by (force simp: container_edge_network_def bind_eq_Some_conv dest!: map_of_SomeD split: if_splits)
  then show ?case using r(2) Cons.IH by (cases r) auto
qed simp

lemma container_nic_range_in:
  assumes "container_nic_range node nic es nn = Some (Some (s, e))"
  shows "\<exists>n \<in> snd ` set nn. \<exists>d. node_data n = Some d \<and> get_dhcp_range d = Some (Some (s, e))"
proof -
  obtain i f where f: "find_container_network i nic es nn = Some f"
      "(case f of None \<Rightarrow> Some None | Some n \<Rightarrow> do {
          net_data \<leftarrow> node_data n;
          cidr \<leftarrow> get_or net_data ''cidr'' (JStr []);
          if \<not> truthy cidr then Some None else get_dhcp_range net_data }) = Some (Some (s, e))"
    using assms by (auto simp: container_nic_range_def bind_eq_Some_conv)
  then obtain n where n: "f = Some n" by (cases f) auto
  have "n \<in> snd ` set nn"
    using f(1) n by (auto simp: find_container_network_def bind_eq_Some_conv dest: edge_network_in)
  moreover have "\<exists>d. node_data n = Some d \<and> get_dhcp_range d = Some (Some (s, e))"
    using f(2) n by (auto simp: bind_eq_Some_conv split: if_splits)
  ultimately show ?thesis by blast
qed

lemma assign_nic_cases:
  assumes "assign_container_nic_ip node es nn (nics, used) nic = Some st"
  shows "st = (nics @ [nic], used) \<or>
    (\<exists>ip s e a nic'. get nic ''ip'' = Some ip \<and> \<not> truthy ip \<and> container_nic_range node nic es nn = Some (Some (s, e)) \<and>
      pick_available_ip s e used = Some a \<and> set_item nic ''ip'' a = Some nic' \<and> st = (nics @ [nic'], add_once a used))"
  using assms unfolding assign_container_nic_ip_def
  by (clarsimp simp: bind_eq_Some_conv split: if_splits option.splits)
    (metis (no_types, lifting))

lemma assign_nic_step:
  assumes "assign_container_nic_ip node es nn (nics, used) nic = Some st"
  shows "\<exists>y new. st = (nics @ [y], used @ new) \<and> mset (nic_ips y) = mset (nic_ips nic) + mset new \<and>
    fresh (in_dhcp_range (map snd nn)) used new"
  using assign_nic_cases[OF assms]
proof (elim disjE exE conjE)
  assume "st = (nics @ [nic], used)"
  then show ?thesis by (intro exI[of _ nic] exI[of _ "[]"]) (simp add: fresh_def)
next
  fix ip s e a nic'
  assume ip: "get nic ''ip'' = Some ip" "\<not> truthy ip"
    and a: "container_nic_range node nic es nn = Some (Some (s, e))" "pick_available_ip s e used = Some a"
      "set_item nic ''ip'' a = Some nic'" "st = (nics @ [nic'], add_once a used)"
  obtain b where b: "a \<notin> set used" "s \<le> b" "b \<le> e" "a = JStr (addr_text b)"
    using pick_available_ip_Some[OF a(2)] by blast
  have "in_dhcp_range (map snd nn) a"
    using container_nic_range_in[OF a(1)] b unfolding in_dhcp_range_def set_map by blast
  moreover have "get nic' ''ip'' = Some a" using get_or_set_item[OF a(3)] by (simp add: get_def)
  then have "nic_ips nic' = [a]" using b(4) by (simp add: nic_ips_def addr_text_def)
  moreover have "nic_ips nic = []" using ip by (simp add: nic_ips_def)
  ultimately show ?thesis
    using a(4) b(1) by (intro exI[of _ nic'] exI[of _ "[a]"]) (simp add: fresh_def add_once_def)
qed

interpretation nic_loop: address_loop "assign_container_nic_ip node es nn" nic_ips "in_dhcp_range (map snd nn)"
  for node es nn
  by unfold_locales (rule assign_nic_step)

lemma assign_node_cases:
  assumes "assign_container_node es nn (nodes, used) node = Some st"
  shows "st = (nodes @ [node], used) \<or>
    (\<exists>data nv nics nics' used' data' node'. get node ''type'' = Some CONTAINER_NODE \<and> node_data node = Some data \<and>
      get_or data ''nics'' (JList []) = Some nv \<and> iter nv = Some nics \<and>
      ofold (assign_container_nic_ip node es nn) ([], used) nics = Some (nics', used') \<and>
      set_item data ''nics'' (JList nics') = Some data' \<and> set_item node ''data'' data' = Some node' \<and>
      st = (nodes @ [node'], used'))"
  using assms unfolding assign_container_node_def
  by (clarsimp simp: bind_eq_Some_conv split: if_splits) (metis (no_types, lifting))

lemma assign_node_step:
  assumes "assign_container_node es nn (nodes, used) node = Some st"
  shows "\<exists>y new. st = (nodes @ [y], used @ new) \<and> mset (container_node_ips y) = mset (container_node_ips node) + mset new \<and>
    fresh (in_dhcp_range (map snd nn)) used new"
  using assign_node_cases[OF assms]
proof (elim disjE exE conjE)
  assume "st = (nodes @ [node], used)"
  then show ?thesis by (intro exI[of _ node] exI[of _ "[]"]) (simp add: fresh_def)
next
  fix data nv nics nics' used' data' node'
  assume t: "get node ''type'' = Some CONTAINER_NODE"
    and d: "node_data node = Some data" "get_or data ''nics'' (JList []) = Some nv" "iter nv = Some nics"
    and f: "ofold (assign_container_nic_ip node es nn) ([], used) nics = Some (nics', used')"
    and s: "set_item data ''nics'' (JList nics') = Some data'" "set_item node ''data'' data' = Some node'"
    and st: "st = (nodes @ [node'], used')"
  obtain new where new: "used' = used @ new" "mset (concat (map nic_ips nics')) = mset (concat (map nic_ips nics)) + mset new"
      "fresh (in_dhcp_range (map snd nn)) used new"
    using nic_loop.loop[OF f] by auto
  have "get node' ''type'' = Some CONTAINER_NODE" using t get_or_set_item[OF s(2)] by (simp add: get_def)
  moreover have "node_data node' = Some data'" using get_or_set_item[OF s(2)] by (simp add: node_data_def)
  moreover have "get_or data' ''nics'' (JList []) = Some (JList nics')" using get_or_set_item[OF s(1)] by simp
  ultimately have "container_node_ips node' = concat (map nic_ips nics')" by (simp add: container_node_ips_def)
  moreover have "container_node_ips node = concat (map nic_ips nics)" using t d by (simp add: container_node_ips_def)
  ultimately show ?thesis using st new by auto
qed

interpretation node_loop: address_loop "assign_container_node es nn" container_node_ips "in_dhcp_range (map snd nn)"
  for es nn
  by unfold_locales (rule assign_node_step)

definition container_ips :: "json \<Rightarrow> json list" where
  "container_ips topology =
     (case topo_nodes topology of Some ns \<Rightarrow> concat (map container_node_ips ns) | None \<Rightarrow> [])"

lemma indexed_networks:
  assumes "ofold add_node m ns = Some nn"
  shows "snd ` set nn \<subseteq> snd ` set m \<union> set ns"
  using assms
proof (induction ns arbitrary: m)
  case (Cons n ns)
  then obtain m' where m: "add_node m n = Some m'" "ofold add_node m' ns = Some nn" by (auto simp: bind_eq_Some_conv)
  then obtain k where "m' = AList.update k n m" by (auto simp: add_node_def bind_eq_Some_conv)
  then have "ofold add_node (AList.update k n m) ns = Some nn" using m(2) by simp
  from Cons.IH[OF this] show ?case using update_values_subset[of k n m] by auto
qed auto

lemma in_dhcp_range_mono: "set xs \<subseteq> set ys \<Longrightarrow> in_dhcp_range xs ip \<Longrightarrow> in_dhcp_range ys ip"
  unfolding in_dhcp_range_def by blast


definition sample_canvas :: json where
  "sample_canvas = JObj [(''nodes'', JList [
      JObj [(''id'', JStr ''n1''), (''type'', JStr ''networkNode''), (''data'', JObj [(''cidr'', JStr ''10.0.0.0/24'')])],
      JObj [(''id'', JStr ''v1''), (''type'', JStr ''vmNode''),
        (''data'', JObj [(''nics'', JList [JObj [(''id'', JStr ''a''), (''ip'', JStr ''10.0.0.10'')]])])],
      JObj [(''id'', JStr ''c1''), (''type'', JStr ''containerNode''),
        (''data'', JObj [(''nics'', JList [JObj [(''id'', JStr ''b'')]])])]]),
    (''edges'', JList [JObj [(''source'', JStr ''n1''), (''target'', JStr ''c1''), (''targetHandle'', JStr ''nic-b-top'')]])]"

definition sample_assigned :: json where
  "sample_assigned = (case auto_assign_container_ips sample_canvas of Some t \<Rightarrow> t | None \<Rightarrow> JNull)"

lemma sample_canvas_assigned:
  "auto_assign_container_ips sample_canvas = Some sample_assigned"
  "container_ips sample_assigned = [JStr ''10.0.0.11'']" "container_ips sample_canvas = []"
  by code_simp+

lemma sample_canvas_used: "collect_used_ips sample_canvas = Some [JStr ''10.0.0.1'', JStr ''10.0.0.10'']"
  by code_simp


end
