(* ===== verification/Osd_Laws.thy ===== *)
theory Osd_Laws
  imports Address_Laws
begin

text \<open>
  The OSD addresses of a Ceph cluster: which entries are kept, that the added ones are free, and that
  the list is complete unless the network has no address left. The MTU of a network.
\<close>

section \<open>Addresses and their texts\<close>

lemma hd_nat_digits: "0 < n \<Longrightarrow> hd (nat_digits n) \<noteq> 0"
proof (induction n rule: nat_digits.induct)
  case (1 n)
  show ?case
  proof (cases "n < 10")
    case False
    then show ?thesis using 1 by (subst nat_digits.simps) simp
  qed (use 1 in \<open>simp add: nat_digits.simps\<close>)
qed

lemma hd_nat_str: "0 < n \<Longrightarrow> hd (nat_str n) \<noteq> CHR ''0''"
proof -
  assume n: "0 < n"
  define d where "d = hd (nat_digits n)"
  have "d < 10" "d \<noteq> 0" using nat_digits_less[of d n] hd_nat_digits[OF n] by (simp_all add: d_def)
  then have "of_char (digit_char d) \<noteq> (of_char (CHR ''0'') :: nat)" by (simp add: of_char_digit)
  then show ?thesis by (auto simp: nat_str_def d_def hd_map)
qed

lemma octet_of_text_nat_str: "n < 256 \<Longrightarrow> octet_of_text (nat_str n) = Some (int n)"
proof -
  assume n: "n < 256"
  have "length (nat_str n) \<le> 3" using length_nat_str[of n 2] n by simp
  moreover have "nat_str n = ''0'' \<or> hd (nat_str n) \<noteq> CHR ''0''"
    using hd_nat_str[of n] by (cases n) (auto simp: nat_str_def nat_digits.simps digit_char_def)
  ultimately show ?thesis using nat_str_digits[of n] n by (auto simp: octet_of_text_def)
qed

lemma addr_of_text_addr_text:
  assumes "0 \<le> a" "a < 2 ^ 32"
  shows "addr_of_text (addr_text a) = Some a"
proof -
  have octet: "octet_of_text (int_str (i mod 256)) = Some (i mod 256)" for i
  proof -
    have "\<not> i mod 256 < 0" by (simp add: not_less)
    then show ?thesis using octet_of_text_nat_str[of "nat (i mod 256)"] by (simp add: int_str_def nat_less_iff)
  qed
  show ?thesis
    by (simp only: addr_of_text_def py_split_addr_text list.case octet Option.bind.simps addr_split[OF assms, symmetric])
qed

lemma addr_of_text_less: "addr_of_text s = Some a \<Longrightarrow> a < 2 ^ 32"
  by (auto simp: addr_of_text_def bind_eq_Some_conv dest!: octet_bounds split: list.splits)

lemma find_in_set: "find P xs = Some x \<Longrightarrow> x \<in> set xs"
  by (auto simp: find_Some_iff)

lemma prefix_le:
  assumes "prefix_of_text s = Some k"
  shows "k \<le> 32"
proof -
  have r: "k \<le> 32" if "(case find P [0..<33] of Some k \<Rightarrow> Some k | None \<Rightarrow> find Q [0..<33]) = Some k" for P Q :: "nat \<Rightarrow> bool"
    using that by (auto dest: find_in_set split: option.splits)
  show ?thesis
  proof (cases "s \<noteq> [] \<and> list_all is_digit s \<and> digits_val s \<le> 32")
    case True
    then show ?thesis using assms by (simp add: prefix_of_text_def)
  next
    case False
    then obtain m :: int where "(case find (\<lambda>k. m = 2 ^ 32 - 2 ^ (32 - k)) [0..<33] of
        Some k \<Rightarrow> Some k | None \<Rightarrow> find (\<lambda>k. m = 2 ^ (32 - k) - 1) [0..<33]) = Some k"
      using assms unfolding prefix_of_text_def by (simp only: if_False bind_eq_Some_conv) blast
    then show ?thesis by (rule r)
  qed
qed

lemma mask_addr_block:
  assumes "0 \<le> a" "a < 2 ^ 32" "k \<le> 32"
  shows "mask_addr a k + 2 ^ (32 - k) \<le> 2 ^ 32"
proof -
  define m :: int where "m = 2 ^ (32 - k)"
  have m: "0 < m" "(2::int) ^ 32 = 2 ^ k * m" using assms(3) by (simp_all add: m_def flip: power_add)
  have "a div m * m \<le> a" using pos_mod_sign[OF m(1), of a] by (simp flip: minus_mod_eq_div_mult)
  then have "a div m * m < 2 ^ k * m" using assms(2) m(2) by linarith
  then have "a div m < 2 ^ k" using m(1) by simp
  then have "(a div m + 1) * m \<le> 2 ^ k * m" using m(1) by (intro mult_right_mono) auto
  then show ?thesis using m by (simp add: mask_addr_def minus_mod_eq_div_mult distrib_right flip: m_def)
qed

lemma ip_networkE:
  assumes "ip_network s = Some net"
  obtains a k where "0 \<le> a" "a < 2 ^ 32" "k \<le> 32" "net = \<lparr>net_addr = mask_addr a k, net_prefix = k\<rparr>"
proof -
  have "(\<exists>a t. addr_of_text t = Some a \<and> net = \<lparr>net_addr = a, net_prefix = 32\<rparr>) \<or>
      (\<exists>a k t p. addr_of_text t = Some a \<and> prefix_of_text p = Some k \<and> net = \<lparr>net_addr = mask_addr a k, net_prefix = k\<rparr>)"
    using assms by (auto simp: ip_network_def bind_eq_Some_conv split: list.split_asm)
  moreover have "mask_addr a 32 = a" for a by (simp add: mask_addr_def)
  ultimately show ?thesis
    using that addr_of_text_nonneg addr_of_text_less prefix_le by (metis le_refl)
qed

lemma hosts_bounds:
  assumes "ip_network s = Some net"
  shows "0 \<le> hosts_first net" "hosts_first net + hosts_len net \<le> 2 ^ 32"
proof -
  show "0 \<le> hosts_first net" using ip_network_nonneg[OF assms] by (simp add: hosts_first_def)
  obtain a k where a: "0 \<le> a" "a < 2 ^ 32" "k \<le> 32" "net = \<lparr>net_addr = mask_addr a k, net_prefix = k\<rparr>"
    using assms by (rule ip_networkE)
  then have "net_prefix net \<le> 32 \<and> net_addr net + 2 ^ (32 - net_prefix net) \<le> 2 ^ 32"
    using mask_addr_block[OF a(1-3)] by simp
  moreover have "net_prefix net = 31 \<Longrightarrow> 32 - net_prefix net = 1" by simp
  ultimately show "hosts_first net + hosts_len net \<le> 2 ^ 32"
    by (auto simp: hosts_first_def hosts_len_def)
qed

lemma is_host_text_iff:
  assumes "ip_network s = Some net"
  shows "is_host_text net ip \<longleftrightarrow>
    (\<exists>a. hosts_first net \<le> a \<and> a < hosts_first net + hosts_len net \<and> ip = JStr (addr_text a))"
  using hosts_bounds[OF assms]
  by (cases ip) (auto simp: addr_of_text_addr_text split: option.splits)

section \<open>The list of OSD addresses\<close>

lemma keep_valid_eq:
  assumes "int (length kept) < n" "\<forall>ip \<in> set given. ip \<notin> set reserved"
  shows "keep_valid_osd_ips v reserved n kept given =
    take (nat n) (kept @ filter (\<lambda>ip. ip \<notin> set kept) (first_seen (filter v given)))"
  using assms
proof (induction given arbitrary: kept)
  case (Cons ip ips)
  show ?case
  proof (cases "v ip \<and> ip \<notin> set kept")
    case True
    let ?rest = "filter (\<lambda>j. j \<notin> set (kept @ [ip])) (first_seen (filter v ips))"
    have eq: "filter (\<lambda>j. j \<notin> set kept) (first_seen (filter v (ip # ips))) = ip # ?rest"
      using True by (auto simp: removeAll_filter_not_eq intro!: filter_cong)
    show ?thesis
    proof (cases "n \<le> int (length kept) + 1")
      case True
      then have "nat n = length (kept @ [ip])" using Cons.prems(1) by simp
      then have "take (nat n) (kept @ ip # ?rest) = kept @ [ip]" by simp
      then show ?thesis using True \<open>v ip \<and> ip \<notin> set kept\<close> Cons.prems(2) unfolding eq by simp
    next
      case False
      then show ?thesis using \<open>v ip \<and> ip \<notin> set kept\<close> Cons.prems Cons.IH[of "kept @ [ip]"] unfolding eq by simp
    qed
  next
    case False
    then have "filter (\<lambda>j. j \<notin> set kept) (first_seen (filter v (ip # ips))) =
        filter (\<lambda>j. j \<notin> set kept) (first_seen (filter v ips))"
      by (auto simp: removeAll_filter_not_eq intro!: filter_cong)
    then show ?thesis using False Cons.prems Cons.IH[of kept] by auto
  qed
qed simp

lemma pick_down_picks:
  assumes "0 \<le> low" "a < 2 ^ 32" "int (length picked) < n"
  shows "\<exists>extra. pick_down low a gw n used picked = picked @ extra \<and> distinct extra \<and>
    set extra \<subseteq> {JStr (addr_text b) |b. low \<le> b \<and> b \<le> a} - insert gw (set used) \<and> int (length (picked @ extra)) \<le> n \<and>
    (int (length (picked @ extra)) < n \<longrightarrow> {JStr (addr_text b) |b. low \<le> b \<and> b \<le> a} \<subseteq> insert gw (set used \<union> set extra))"
  using assms
proof (induction low a gw n used picked rule: pick_down.induct)
  case (1 low a gw n used picked)
  let ?ip = "JStr (addr_text a)" and ?H = "\<lambda>a. {JStr (addr_text b) |b. low \<le> b \<and> b \<le> a}"
  show ?case
  proof (cases "a < low")
    case True
    then show ?thesis using "1.prems"(3) by (subst pick_down.simps) auto
  next
    case False
    have H: "?H a = insert ?ip (?H (a - 1))" using False by (auto intro: le_neq_trans)
    have ni: "?ip \<notin> ?H (a - 1)"
    proof
      assume "?ip \<in> ?H (a - 1)"
      then obtain b where "low \<le> b" "b \<le> a - 1" "addr_text a = addr_text b" by auto
      then show False using addr_text_inject[of a b] False "1.prems"(1,2) by linarith
    qed
    show ?thesis
    proof (cases "?ip = gw \<or> ?ip \<in> set used")
      case True
      then show ?thesis
        using "1.IH"(1)[OF False refl True] "1.prems" False H by (subst pick_down.simps) auto
    next
      case new: False
      show ?thesis
      proof (cases "n \<le> int (length picked) + 1")
        case True
        then show ?thesis using False new H "1.prems"(3) by (subst pick_down.simps) simp
      next
        case extra: False
        then obtain m where m: "pick_down low (a - 1) gw n used (picked @ [?ip]) = (picked @ [?ip]) @ m" "distinct m"
            "set m \<subseteq> ?H (a - 1) - insert gw (set used)" "int (length ((picked @ [?ip]) @ m)) \<le> n"
            "int (length ((picked @ [?ip]) @ m)) < n \<longrightarrow> ?H (a - 1) \<subseteq> insert gw (set used \<union> set m)"
          using "1.IH"(2)[OF False refl new extra] "1.prems" by auto
        have "pick_down low a gw n used picked = picked @ ?ip # m"
          using False new extra m(1) by (subst pick_down.simps) simp
        then show ?thesis using m(2-5) ni new H by (intro exI[of _ "?ip # m"]) auto
      qed
    qed
  qed
qed

definition host_texts :: "ip4_network \<Rightarrow> json set" where
  "host_texts net = {JStr (addr_text a) |a. hosts_first net \<le> a \<and> a < hosts_first net + hosts_len net}"

lemma pick_high_picks:
  assumes "pick_high_free_ips cidr n used = Some extra" "ip_network cidr = Some net" "0 < n"
  shows "distinct extra \<and> set extra \<subseteq> host_texts net - insert (JStr (addr_text (net_addr net + 1))) (set used) \<and>
    int (length extra) \<le> n \<and>
    (int (length extra) < n \<longrightarrow> host_texts net \<subseteq> insert (JStr (addr_text (net_addr net + 1))) (set used \<union> set extra))"
proof -
  have "cidr \<noteq> []" using assms(2) by (auto simp: ip_network_def addr_of_text_def octet_of_text_def)
  then have "extra = pick_down (hosts_first net) (hosts_first net + hosts_len net - 1) (JStr (addr_text (net_addr net + 1))) n used []"
    using assms by (auto simp: pick_high_free_ips_def split: if_splits)
  moreover have "{JStr (addr_text b) |b. hosts_first net \<le> b \<and> b \<le> hosts_first net + hosts_len net - 1} = host_texts net"
    by (auto simp: host_texts_def)
  ultimately show ?thesis
    using pick_down_picks[of "hosts_first net" "hosts_first net + hosts_len net - 1" "[]" n "JStr (addr_text (net_addr net + 1))" used]
      hosts_bounds[OF assms(2)] assms(3) by auto
qed

definition kept_osd_ips :: "ip4_network \<Rightarrow> int \<Rightarrow> json list \<Rightarrow> json list" where
  "kept_osd_ips net n given = take (nat n) (first_seen (filter (is_host_text net) given))"

lemma osd_count_bounds: "osd_count_of data = Some n \<Longrightarrow> 1 \<le> n \<and> n \<le> 6"
  by (auto simp: osd_count_of_def bind_eq_Some_conv CEPH_OSD_MIN_def CEPH_OSD_MAX_def)

lemma assign_osd_ipsE:
  assumes "assign_osd_ips topology data = Some data'" "topo_nodes topology = Some ns"
    and "text_of_field data ''networkRef'' = Some ref" "cidr_for_network_ref ns ref = Some cidr" "ip_network cidr = Some net"
    and "osd_count_of data = Some n" "ceph_reserved_ips topology cidr = Some reserved"
    and "get data ''osdIps'' = Some ov" "iter (py_or ov (JList [])) = Some given"
  obtains extra where "index data' ''osdIps'' = Some (JList (kept_osd_ips net n given @ extra))"
    "(if n - int (length (kept_osd_ips net n given)) > 0
      then pick_high_free_ips cidr (n - int (length (kept_osd_ips net n given)))
        (filter (\<lambda>ip. ip \<notin> set given) reserved @ kept_osd_ips net n given)
      else Some []) = Some extra"
proof -
  have "omap hkey given = Some given"
    using assms by (auto simp: assign_osd_ips_def bind_eq_Some_conv dest: omap_hkey)
  moreover have "keep_valid_osd_ips (is_host_text net) (filter (\<lambda>ip. ip \<notin> set given) reserved) n [] given = kept_osd_ips net n given"
    using osd_count_bounds[OF assms(6)] by (subst keep_valid_eq) (auto simp: kept_osd_ips_def)
  ultimately obtain extra where extra: "(if n - int (length (kept_osd_ips net n given)) > 0
      then pick_high_free_ips cidr (n - int (length (kept_osd_ips net n given)))
        (filter (\<lambda>ip. ip \<notin> set given) reserved @ kept_osd_ips net n given)
      else Some []) = Some extra" "set_item data ''osdIps'' (JList (kept_osd_ips net n given @ extra)) = Some data'"
    using assms by (auto simp: assign_osd_ips_def bind_eq_Some_conv Let_def cong: if_cong)
  then show ?thesis using that index_set_item[OF extra(2)] by simp
qed

lemma kept_all_hosts:
  assumes "int (length (kept_osd_ips net n given)) < n" "ip \<in> set given" "is_host_text net ip"
  shows "ip \<in> set (kept_osd_ips net n given)"
  using assms by (auto simp: kept_osd_ips_def min_def split: if_splits)

text \<open>C27: OSD addresses. The list becomes the first \<open>osdCount\<close> different entries that are hosts of the Ceph
  network, followed by added ones: all are different hosts of the network, the added ones are neither
  reserved nor the gateway, and the list has \<open>osdCount\<close> entries unless every host but the gateway is
  reserved or in it. The entries that are kept are not compared with the reserved addresses.
\<close>

theorem osd_addresses_assigned:
  assumes "assign_osd_ips topology data = Some data'" "topo_nodes topology = Some ns"
    and "text_of_field data ''networkRef'' = Some ref" "cidr_for_network_ref ns ref = Some cidr" "ip_network cidr = Some net"
    and "osd_count_of data = Some n" "ceph_reserved_ips topology cidr = Some reserved"
    and "get data ''osdIps'' = Some ov" "iter (py_or ov (JList [])) = Some given"
  shows "\<exists>ips added. index data' ''osdIps'' = Some (JList ips) \<and> ips = kept_osd_ips net n given @ added \<and>
    distinct ips \<and> set ips \<subseteq> host_texts net \<and> int (length ips) \<le> n \<and>
    set added \<inter> insert (JStr (addr_text (net_addr net + 1))) (set reserved) = {} \<and>
    (int (length ips) < n \<longrightarrow> host_texts net \<subseteq> insert (JStr (addr_text (net_addr net + 1))) (set reserved \<union> set ips))"
proof -
  define kept where "kept = kept_osd_ips net n given"
  obtain extra where extra: "index data' ''osdIps'' = Some (JList (kept @ extra))"
      "(if n - int (length kept) > 0
        then pick_high_free_ips cidr (n - int (length kept)) (filter (\<lambda>ip. ip \<notin> set given) reserved @ kept) else Some []) = Some extra"
    using assign_osd_ipsE[OF assms] unfolding kept_def by metis
  have host: "is_host_text net ip \<longleftrightarrow> ip \<in> host_texts net" for ip
    using is_host_text_iff[OF assms(5)] by (auto simp: host_texts_def)
  have kept: "distinct kept" "set kept \<subseteq> host_texts net" "int (length kept) \<le> n"
  proof -
    show "distinct kept" by (simp add: kept_def kept_osd_ips_def)
    have "set kept \<subseteq> set (first_seen (filter (is_host_text net) given))"
      unfolding kept_def kept_osd_ips_def by (rule set_take_subset)
    then show "set kept \<subseteq> host_texts net" using host by auto
    show "int (length kept) \<le> n" using osd_count_bounds[OF assms(6)] by (auto simp: kept_def kept_osd_ips_def min_def)
  qed
  show ?thesis
  proof (cases "int (length kept) < n")
    case False
    then show ?thesis using extra kept by (intro exI[of _ kept] exI[of _ "[]"]) (simp add: kept_def)
  next
    case True
    have all: "ip \<in> set kept" if "ip \<in> set given" "ip \<in> host_texts net" for ip
      using kept_all_hosts[of net n given ip] True that host by (simp add: kept_def)
    have pick: "pick_high_free_ips cidr (n - int (length kept)) (filter (\<lambda>ip. ip \<notin> set given) reserved @ kept) = Some extra"
      using extra(2) True by simp
    have "set extra \<inter> set reserved = {}" using pick_high_picks[OF pick assms(5)] True all by auto
    then show ?thesis
      using pick_high_picks[OF pick assms(5)] True kept extra(1) unfolding kept_def[symmetric]
      by (intro exI[of _ "kept @ extra"] exI[of _ extra]) auto
  qed
qed

definition sample_ceph_data :: json where
  "sample_ceph_data = JObj [(''networkRef'', JStr ''n1''), (''osdIps'', JList [JStr ''10.0.0.6''])]"

definition sample_ceph_canvas :: json where
  "sample_ceph_canvas = JObj [(''nodes'', JList [
      JObj [(''id'', JStr ''n1''), (''type'', JStr ''networkNode''), (''data'', JObj [(''cidr'', JStr ''10.0.0.0/29'')])],
      JObj [(''id'', JStr ''v1''), (''type'', JStr ''vmNode''),
        (''data'', JObj [(''nics'', JList [JObj [(''id'', JStr ''a''), (''ip'', JStr ''10.0.0.6'')]])])],
      JObj [(''id'', JStr ''s1''), (''type'', JStr ''cephClusterNode''), (''data'', sample_ceph_data)]])]"

definition sample_net :: ip4_network where
  "sample_net = \<lparr>net_addr = 167772160, net_prefix = 29\<rparr>"

lemma sample_ceph:
  "assign_osd_ips sample_ceph_canvas sample_ceph_data =
     Some (JObj [(''networkRef'', JStr ''n1''), (''osdIps'', JList [JStr ''10.0.0.6'', JStr ''10.0.0.5'', JStr ''10.0.0.3''])])"
  "text_of_field sample_ceph_data ''networkRef'' = Some ''n1''"
  "Option.bind (topo_nodes sample_ceph_canvas) (\<lambda>ns. cidr_for_network_ref ns ''n1'') = Some ''10.0.0.0/29''"
  "ip_network ''10.0.0.0/29'' = Some sample_net"
  "osd_count_of sample_ceph_data = Some 3"
  "ceph_reserved_ips sample_ceph_canvas ''10.0.0.0/29'' =
     Some [JStr ''10.0.0.1'', JStr ''10.0.0.6'', JStr ''10.0.0.2'', JStr ''10.0.0.4'']"
  "get sample_ceph_data ''osdIps'' = Some (JList [JStr ''10.0.0.6''])"
  "iter (py_or (JList [JStr ''10.0.0.6'']) (JList [])) = Some [JStr ''10.0.0.6'']"
  "kept_osd_ips sample_net 3 [JStr ''10.0.0.6''] = [JStr ''10.0.0.6'']"
  by code_simp+

theorem osd_addresses_assigned_witness:
  "\<exists>added. [JStr ''10.0.0.6'', JStr ''10.0.0.5'', JStr ''10.0.0.3''] = JStr ''10.0.0.6'' # added \<and>
     set added \<inter> {JStr ''10.0.0.1'', JStr ''10.0.0.6'', JStr ''10.0.0.2'', JStr ''10.0.0.4''} = {}"
proof -
  obtain ns where ns: "topo_nodes sample_ceph_canvas = Some ns" "cidr_for_network_ref ns ''n1'' = Some ''10.0.0.0/29''"
    using sample_ceph(3) by (auto simp: bind_eq_Some_conv)
  show ?thesis
    using osd_addresses_assigned[OF sample_ceph(1) ns(1) sample_ceph(2) ns(2) sample_ceph(4-8)] sample_ceph(9) by auto
qed

section \<open>MTU\<close>

lemma resolve_mtu_cases:
  assumes "resolve_network_mtu data (Some uplink) spans = Some (mtu, warn)"
  shows "MTU_FLOOR \<le> mtu \<and> (mtu \<le> uplink - (if spans then MESH_OVERHEAD else 0) \<or> mtu = MTU_FLOOR)"
  using assms by (auto simp: resolve_network_mtu_def bind_eq_Some_conv Let_def split: if_splits)

lemma resolve_mtu_int:
  assumes "get (py_or data (JObj [])) ''mtu'' = Some (JInt m)"
  shows "resolve_network_mtu data (Some uplink) spans =
    (let ceiling = uplink - (if spans then MESH_OVERHEAD else 0);
         (c1, w1) = (if m > ceiling then (ceiling, [Mtu_reduced m ceiling uplink (if spans then MESH_OVERHEAD else 0)]) else (m, []))
     in Some (if c1 < MTU_FLOOR then (MTU_FLOOR, w1 @ [Mtu_raised c1]) else (c1, w1)))"
  using assms by (simp add: resolve_network_mtu_def Let_def)

lemma no_warning:
  assumes "resolve_network_mtu data (Some uplink) spans = Some (mtu, [])"
  shows "mtu \<le> uplink - (if spans then MESH_OVERHEAD else 0)"
  using assms by (auto simp: resolve_network_mtu_def bind_eq_Some_conv Let_def split: if_splits)

lemma resolve_mtu_again:
  assumes "resolve_network_mtu data uplink spans = Some (mtu, warn)" "set_item data ''mtu'' (JInt mtu) = Some data'"
  shows "\<exists>warn'. resolve_network_mtu data' uplink spans = Some (mtu, warn') \<and> (warn = [] \<longrightarrow> warn' = [])"
proof -
  obtain kvs where d: "data = JObj kvs" "data' = JObj (AList.update ''mtu'' (JInt mtu) kvs)"
    using assms(2) by (cases data) auto
  have "truthy data'" using d(2) by (cases kvs) auto
  then have m: "get (py_or data' (JObj [])) ''mtu'' = Some (JInt mtu)" by (simp add: py_or_def d(2) map_of_update)
  show ?thesis
  proof (cases uplink)
    case None
    then show ?thesis using assms(1) m by (auto simp: resolve_network_mtu_def bind_eq_Some_conv)
  next
    case (Some u)
    then have "MTU_FLOOR \<le> mtu \<and> (mtu \<le> u - (if spans then MESH_OVERHEAD else 0) \<or> mtu = MTU_FLOOR)"
        "warn = [] \<Longrightarrow> mtu \<le> u - (if spans then MESH_OVERHEAD else 0)"
      using assms(1) resolve_mtu_cases no_warning by blast+
    then show ?thesis unfolding Some resolve_mtu_int[OF m] by (cases spans) (auto simp: Let_def)
  qed
qed

definition mtu_fixed :: "int option \<Rightarrow> bool \<Rightarrow> json \<Rightarrow> bool" where
  "mtu_fixed uplink spans node \<longleftrightarrow>
     (\<forall>ns ws. \<exists>ws'. resolve_node_mtu uplink spans (ns, ws) node = Some (ns @ [node], ws @ ws'))"

definition mtu_in_bounds :: "int option \<Rightarrow> bool \<Rightarrow> json \<Rightarrow> bool" where
  "mtu_in_bounds uplink spans node \<longleftrightarrow>
     (\<exists>data mtu. node_data node = Some data \<and> index data ''mtu'' = Some (JInt mtu) \<and>
       (case uplink of
          None \<Rightarrow> mtu = DEFAULT_FALLBACK_MTU
        | Some u \<Rightarrow> MTU_FLOOR \<le> mtu \<and> (mtu \<le> u - (if spans then MESH_OVERHEAD else 0) \<or> mtu = MTU_FLOOR)))"

lemma resolve_bounds:
  assumes "resolve_network_mtu data uplink spans = Some (mtu, warn)"
  shows "case uplink of None \<Rightarrow> mtu = DEFAULT_FALLBACK_MTU
    | Some u \<Rightarrow> MTU_FLOOR \<le> mtu \<and> (mtu \<le> u - (if spans then MESH_OVERHEAD else 0) \<or> mtu = MTU_FLOOR)"
  using assms resolve_mtu_cases by (cases uplink) (auto simp: resolve_network_mtu_def bind_eq_Some_conv)

lemma resolve_node:
  assumes "resolve_node_mtu uplink spans (ns, ws) node = Some st"
  shows "\<exists>node' ws'. st = (ns @ [node'], ws @ ws') \<and> mtu_fixed uplink spans node' \<and>
    (get node' ''type'' = Some NETWORK_NODE \<longrightarrow> mtu_in_bounds uplink spans node')"
proof (cases "get node ''type'' = Some NETWORK_NODE")
  case False
  then show ?thesis using assms by (auto simp: resolve_node_mtu_def mtu_fixed_def bind_eq_Some_conv split: if_splits)
next
  case True
  then obtain data mtu warn data' node' where
      d: "node_data node = Some data" "resolve_network_mtu data uplink spans = Some (mtu, warn)" and
      s: "set_item data ''mtu'' (JInt mtu) = Some data'" "set_item node ''data'' data' = Some node'" and
      st: "\<exists>ws'. st = (ns @ [node'], ws @ ws')" and w: "warn = [] \<or> index node ''id'' \<noteq> None"
    using assms by (auto 0 4 simp: resolve_node_mtu_def bind_eq_Some_conv split: if_splits)
  obtain warn' where w': "resolve_network_mtu data' uplink spans = Some (mtu, warn')" "warn = [] \<longrightarrow> warn' = []"
    using resolve_mtu_again[OF d(2) s(1)] by blast
  have g: "get node' ''type'' = Some NETWORK_NODE" "node_data node' = Some data'"
    using True get_or_set_item[OF s(2)] by (simp_all add: get_def node_data_def)
  have "warn' \<noteq> [] \<Longrightarrow> \<exists>i. index node' ''id'' = Some i" using w w'(2) index_set_item[OF s(2)] by auto
  moreover have "is_obj data'" using s(1) by (cases data) auto
  then obtain nm where "\<And>i. get_or data' ''name'' i = Some (nm i)" by (cases data') auto
  ultimately have "mtu_fixed uplink spans node'"
    using g w'(1) set_item_again[OF s(1)] set_item_again[OF s(2)]
    by (auto simp: mtu_fixed_def resolve_node_mtu_def)
  moreover have "mtu_in_bounds uplink spans node'"
    using g(2) index_set_item[OF s(1)] resolve_bounds[OF d(2)] by (auto simp: mtu_in_bounds_def)
  ultimately show ?thesis using st by blast
qed

lemma resolve_nodes:
  assumes "ofold (resolve_node_mtu uplink spans) (ns, ws) xs = Some (ns', ws')"
  shows "\<exists>ys. ns' = ns @ ys \<and> (\<forall>y \<in> set ys. mtu_fixed uplink spans y \<and>
    (get y ''type'' = Some NETWORK_NODE \<longrightarrow> mtu_in_bounds uplink spans y))"
  using assms
proof (induction xs arbitrary: ns ws)
  case (Cons x xs)
  then obtain st where st: "resolve_node_mtu uplink spans (ns, ws) x = Some st"
      "ofold (resolve_node_mtu uplink spans) st xs = Some (ns', ws')" by (auto simp: bind_eq_Some_conv)
  obtain y w where y: "st = (ns @ [y], ws @ w)" "mtu_fixed uplink spans y"
      "get y ''type'' = Some NETWORK_NODE \<longrightarrow> mtu_in_bounds uplink spans y"
    using resolve_node[OF st(1)] by blast
  obtain ys where "ns' = (ns @ [y]) @ ys" "\<forall>y \<in> set ys. mtu_fixed uplink spans y \<and>
      (get y ''type'' = Some NETWORK_NODE \<longrightarrow> mtu_in_bounds uplink spans y)"
    using Cons.IH[OF st(2)[unfolded y(1)]] by blast
  then show ?case using y by (intro exI[of _ "y # ys"]) simp
qed simp

lemma fixed_nodes:
  "\<forall>y \<in> set ys. mtu_fixed uplink spans y \<Longrightarrow>
    \<exists>ws'. ofold (resolve_node_mtu uplink spans) (ns, ws) ys = Some (ns @ ys, ws')"
proof (induction ys arbitrary: ns ws)
  case (Cons y ys)
  then obtain w where "resolve_node_mtu uplink spans (ns, ws) y = Some (ns @ [y], ws @ w)"
    unfolding mtu_fixed_def list.set_intros by (meson list.set_intros(1))
  then show ?case using Cons.IH[of "ns @ [y]" "ws @ w"] Cons.prems by simp
qed simp

text \<open>
  MTU. After the MTUs of a canvas are resolved, every network has one: the fallback when the uplink
  is unknown, otherwise at least the floor and at most what the uplink leaves beside the mesh's overhead,
  unless that is below the floor. Resolving again changes nothing.
\<close>

theorem resolved_mtus:
  assumes "resolve_topology_mtus topology uplink spans = Some (topology', warnings)"
  shows "\<exists>ns warnings'. topo_nodes topology' = Some ns \<and>
    (\<forall>n \<in> set ns. get n ''type'' = Some NETWORK_NODE \<longrightarrow> mtu_in_bounds uplink spans n) \<and>
    resolve_topology_mtus topology' uplink spans = Some (topology', warnings')"
proof -
  obtain ns ns' where ns: "topo_nodes topology = Some ns"
      "ofold (resolve_node_mtu uplink spans) ([], []) ns = Some (ns', warnings)"
      "(if ns = [] then Some topology else set_item topology ''nodes'' (JList ns')) = Some topology'"
    using assms by (auto simp: resolve_topology_mtus_def bind_eq_Some_conv)
  have ys: "\<forall>y \<in> set ns'. mtu_fixed uplink spans y \<and> (get y ''type'' = Some NETWORK_NODE \<longrightarrow> mtu_in_bounds uplink spans y)"
    using resolve_nodes[OF ns(2)] by simp
  have t: "topo_nodes topology' = Some ns'" "(if ns' = [] then Some topology' else set_item topology' ''nodes'' (JList ns')) = Some topology'"
    using ns get_or_set_item[of topology "''nodes''" "JList ns'" topology'] set_item_again[of topology "''nodes''" "JList ns'" topology']
    by (auto simp: topo_nodes_def split: if_splits)
  obtain ws where "ofold (resolve_node_mtu uplink spans) ([], []) ns' = Some (ns', ws)"
    using fixed_nodes[of ns' uplink spans "[]" "[]"] ys by auto
  then show ?thesis using t ys by (auto simp: resolve_topology_mtus_def)
qed

definition sample_mtus :: json where
  "sample_mtus = JObj [(''nodes'', JList [JObj [(''id'', JStr ''n1''), (''type'', JStr ''networkNode''),
     (''data'', JObj [(''mtu'', JInt 9000)])]])]"

theorem resolved_mtus_witness:
  "\<exists>t w. resolve_topology_mtus sample_mtus (Some 1500) True = Some (t, w) \<and>
     w = [(JStr ''n1'', [Mtu_reduced 9000 1390 1500 110])] \<and>
     (\<exists>w'. resolve_topology_mtus t (Some 1500) True = Some (t, w'))"
proof -
  have "resolve_topology_mtus sample_mtus (Some 1500) True =
      Some (JObj [(''nodes'', JList [JObj [(''id'', JStr ''n1''), (''type'', JStr ''networkNode''),
        (''data'', JObj [(''mtu'', JInt 1390)])]])], [(JStr ''n1'', [Mtu_reduced 9000 1390 1500 110])])"
    by code_simp
  from this resolved_mtus[OF this] show ?thesis by blast
qed

end
