(* ===== verification/Topology_Diff.thy ===== *)
theory Topology_Diff
  imports Topology_Json "HOL-Library.List_Lexorder" "HOL-Library.Char_ord"
begin

text \<open>
  What changed between the canvas and what was deployed (\<open>deploy_topology.py\<close>): the VMs and networks
  that were added or removed, the VMs whose data changed, the Ceph cluster, and the VMs whose domain
  has to be defined anew. Data are compared with Python's \<open>==\<close>.
\<close>

section \<open>Ceph\<close>

definition find_ceph_node :: "json \<Rightarrow> json option option" where
  "find_ceph_node topology = do {
     nv \<leftarrow> get topology ''nodes'';
     ns \<leftarrow> iter (py_or nv (JList []));
     ofind (has_type ''cephClusterNode'') ns
   }"

text \<open>
  \<open>json.dumps(v, sort_keys=True)\<close> up to the text: two documents have the same text exactly when they
  are the same once the entries of every object are sorted by their keys.
\<close>

fun key_sorted :: "json \<Rightarrow> json" where
  "key_sorted (JList xs) = JList (map key_sorted xs)"
| "key_sorted (JObj kvs) = JObj (sort_key fst (map (\<lambda>kv. (fst kv, key_sorted (snd kv))) kvs))"
| "key_sorted j = j"

definition ceph_data_changed :: "json \<Rightarrow> json \<Rightarrow> bool option" where
  "ceph_data_changed current deployed = do {
     cur \<leftarrow> find_ceph_node current;
     dep \<leftarrow> find_ceph_node deployed;
     (case (cur, dep) of
        (None, None) \<Rightarrow> Some False
      | (Some c, Some d) \<Rightarrow> do {
          a \<leftarrow> get c ''data'';
          b \<leftarrow> get d ''data'';
          Some (key_sorted (py_or a (JObj [])) \<noteq> key_sorted (py_or b (JObj [])))
        }
      | _ \<Rightarrow> Some True)
   }"

section \<open>VMs and networks\<close>

definition categorize_step :: "(json \<times> json) list \<Rightarrow> json list \<times> json list \<Rightarrow> json \<times> json \<Rightarrow> (json list \<times> json list) option" where
  "categorize_step reference st entry = (case (st, entry) of ((vms, networks), (nid, node)) \<Rightarrow>
     if nid \<in> fst ` set reference then Some (vms, networks)
     else do {
       t \<leftarrow> get node ''type'';
       Some (if t = VM_NODE then (vms @ [node], networks)
             else if t = NETWORK_NODE then (vms, networks @ [node]) else (vms, networks))
     })"

definition categorize_new_nodes :: "(json \<times> json) list \<Rightarrow> (json \<times> json) list \<Rightarrow> (json list \<times> json list) option" where
  "categorize_new_nodes source reference = ofold (categorize_step reference) ([], []) source"

definition skip_keys :: "string list" where
  "skip_keys = [''status'', ''redeployStep'', ''redeployDetail'', ''liveBootDevs'']"

fun compared_data :: "json \<Rightarrow> json option" where
  "compared_data (JObj kvs) = Some (JObj (filter (\<lambda>kv. fst kv \<notin> set skip_keys) kvs))"
| "compared_data _ = None"

definition vm_changed :: "(json \<times> json) list \<Rightarrow> json \<times> json \<Rightarrow> bool option" where
  "vm_changed dep_nodes entry = (case entry of (nid, node) \<Rightarrow>
     (case map_of dep_nodes nid of
        None \<Rightarrow> Some False
      | Some dep_node \<Rightarrow> do {
          t \<leftarrow> get node ''type'';
          if t \<noteq> VM_NODE then Some False
          else do {
            cur \<leftarrow> node_data node;
            cur_data \<leftarrow> compared_data cur;
            dep \<leftarrow> node_data dep_node;
            dep_data \<leftarrow> compared_data dep;
            Some (\<not> py_eq cur_data dep_data)
          }
        }))"

definition find_changed_vms :: "(json \<times> json) list \<Rightarrow> (json \<times> json) list \<Rightarrow> json list option" where
  "find_changed_vms cur_nodes dep_nodes = map_option (map snd) (ofilter (vm_changed dep_nodes) cur_nodes)"

record topology_diff =
  added_vms :: "json list"
  removed_vms :: "json list"
  changed_vms :: "json list"
  added_networks :: "json list"
  removed_networks :: "json list"
  ceph_added :: bool
  ceph_removed :: bool
  ceph_changed :: bool
  has_changes :: bool

definition diff_topologies :: "json \<Rightarrow> json \<Rightarrow> topology_diff option" where
  "diff_topologies current deployed = do {
     cur_nodes \<leftarrow> nodes_by_id current;
     dep_nodes \<leftarrow> nodes_by_id deployed;
     (av, an) \<leftarrow> categorize_new_nodes cur_nodes dep_nodes;
     (rv, rn) \<leftarrow> categorize_new_nodes dep_nodes cur_nodes;
     cv \<leftarrow> find_changed_vms cur_nodes dep_nodes;
     c \<leftarrow> find_ceph_node current;
     d \<leftarrow> find_ceph_node deployed;
     let ca = (c \<noteq> None \<and> d = None);
     let cr = (d \<noteq> None \<and> c = None);
     cc \<leftarrow> ceph_data_changed current deployed;
     Some \<lparr>added_vms = av, removed_vms = rv, changed_vms = cv, added_networks = an, removed_networks = rn,
       ceph_added = ca, ceph_removed = cr, ceph_changed = cc,
       has_changes = (av \<noteq> [] \<or> rv \<noteq> [] \<or> cv \<noteq> [] \<or> an \<noteq> [] \<or> rn \<noteq> [] \<or> ca \<or> cr \<or> cc)\<rparr>
   }"

section \<open>Redeployment\<close>

text \<open>
  \<open>sorted(controllers, key=lambda dc: dc.get("id") or "")\<close>: keys that are all texts, or all numbers,
  have an order; one controller needs none; other keys, and texts beside numbers, are rejected.
\<close>

definition sorted_by_id :: "(json \<times> json) list \<Rightarrow> json list option" where
  "sorted_by_id keyed =
     (case omap (\<lambda>(k, v). map_option (\<lambda>s. (s, v)) (as_str k)) keyed of
        Some texts \<Rightarrow> Some (map snd (sort_key fst texts))
      | None \<Rightarrow>
          (case omap (\<lambda>(k, v). map_option (\<lambda>r. (r, v)) (num_of k)) keyed of
             Some nums \<Rightarrow> Some (map snd (sort_key fst nums))
           | None \<Rightarrow> if length keyed \<le> 1 then Some (map snd keyed) else None))"

definition normalize_disk_controllers :: "json \<Rightarrow> json list option" where
  "normalize_disk_controllers controllers = do {
     cs \<leftarrow> iter (py_or controllers (JList []));
     keyed \<leftarrow> omap (\<lambda>dc. do {
       i \<leftarrow> get dc ''id'';
       bus \<leftarrow> get_or dc ''bus'' (JStr ''virtio'');
       rr \<leftarrow> get dc ''rotationRate'';
       Some (py_or i (JStr []), JObj [(''id'', i), (''bus'', bus), (''rotationRate'', rr)])
     }) cs;
     sorted_by_id keyed
   }"

definition vm_redeploy_spec :: "json \<Rightarrow> json option" where
  "vm_redeploy_spec data = do {
     firmware \<leftarrow> get_or data ''firmware'' (JStr ''bios'');
     secure \<leftarrow> get_or data ''secureBoot'' (JBool False);
     video \<leftarrow> get_or data ''videoModel'' (JStr ''virtio'');
     input \<leftarrow> get_or data ''inputModel'' (JStr ''virtio'');
     u1 \<leftarrow> get data ''smbiosUuid'';
     u2 \<leftarrow> get data ''uuid'';
     u3 \<leftarrow> get data ''domainUuid'';
     cv \<leftarrow> get data ''diskControllers'';
     cs \<leftarrow> normalize_disk_controllers cv;
     iso \<leftarrow> get data ''pxeBootIsoId'';
     iso_name \<leftarrow> get data ''pxeBootIsoName'';
     Some (JObj [(''firmware'', firmware), (''secureBoot'', secure), (''videoModel'', video), (''inputModel'', input),
       (''smbiosUuid'', py_or u1 (py_or u2 u3)), (''diskControllers'', JList cs), (''pxeBootIsoId'', iso),
       (''pxeBootIsoName'', iso_name)])
   }"

definition needs_redeploy :: "(json \<times> json) list \<Rightarrow> json \<times> json \<Rightarrow> bool option" where
  "needs_redeploy dep_nodes entry = (case entry of (nid, node) \<Rightarrow>
     (case map_of dep_nodes nid of
        None \<Rightarrow> Some False
      | Some dep_node \<Rightarrow> do {
          cur \<leftarrow> node_data node;
          dep \<leftarrow> node_data dep_node;
          a \<leftarrow> vm_redeploy_spec cur;
          b \<leftarrow> vm_redeploy_spec dep;
          Some (\<not> py_eq a b)
        }))"

definition vm_nodes_by_id :: "json \<Rightarrow> (json \<times> json) list option" where
  "vm_nodes_by_id topology = do {
     ns \<leftarrow> topo_nodes topology;
     vs \<leftarrow> ofilter (has_type ''vmNode'') ns;
     ofold add_node [] vs
   }"

definition vm_ids_needing_redeploy :: "json \<Rightarrow> json \<Rightarrow> json list option" where
  "vm_ids_needing_redeploy current deployed = do {
     cur_nodes \<leftarrow> vm_nodes_by_id current;
     dep_nodes \<leftarrow> vm_nodes_by_id deployed;
     map_option (map fst) (ofilter (needs_redeploy dep_nodes) cur_nodes)
   }"

end
