(* ===== verification/Diff_Laws.thy ===== *)
theory Diff_Laws
  imports Topology_Diff
begin

text \<open>
  The difference of a canvas with itself is empty, and a VM whose domain has to be defined anew is
  always one of the changed VMs: the fields of a redeployment respect Python's \<open>==\<close>.
\<close>

section \<open>Operations respect \<open>==\<close>\<close>

lemma map_of_keys_eq:
  assumes "distinct (map fst as)" "distinct (map fst bs)" "length as = length bs" "fst ` set as \<subseteq> fst ` set bs"
  shows "fst ` set as = fst ` set bs"
proof -
  have "card (fst ` set as) = card (fst ` set bs)"
    using assms(1-3) by (metis distinct_card length_map list.set_map)
  then show ?thesis using assms(4) by (intro card_subset_eq) auto
qed

lemma py_eq_objE:
  assumes "py_eq (JObj as) b"
  obtains bs where "b = JObj bs" "length as = length bs"
    "\<forall>kv \<in> set as. case map_of bs (fst kv) of None \<Rightarrow> False | Some w \<Rightarrow> py_eq (snd kv) w"
  using assms by (cases b) auto

lemma py_eq_map_of:
  assumes "py_eq (JObj as) (JObj bs)" "wf_json (JObj as)" "wf_json (JObj bs)"
  shows "rel_option py_eq (map_of as k) (map_of bs k)"
proof -
  have len: "length as = length bs" and
      el: "\<And>kv. kv \<in> set as \<Longrightarrow> case map_of bs (fst kv) of None \<Rightarrow> False | Some w \<Rightarrow> py_eq (snd kv) w"
    using assms(1) by auto
  have "fst kv \<in> fst ` set bs" if "kv \<in> set as" for kv
    using el[OF that] map_of_eq_None_iff[of bs "fst kv"] by (auto split: option.splits)
  then have keys: "fst ` set as = fst ` set bs"
    using assms(2,3) len by (intro map_of_keys_eq) auto
  show ?thesis
  proof (cases "map_of as k")
    case None
    then have "map_of bs k = None" using keys by (simp add: map_of_eq_None_iff)
    with None show ?thesis by simp
  next
    case (Some v)
    then show ?thesis using el[OF map_of_SomeD[OF Some]] by (auto split: option.splits)
  qed
qed

lemma py_eq_get_or:
  assumes "py_eq a b" "wf_json a" "wf_json b" "py_eq v v" "get_or a k v = Some x"
  shows "\<exists>y. get_or b k v = Some y \<and> py_eq x y"
proof -
  obtain as where as: "a = JObj as" using assms(5) by (cases a) auto
  then obtain bs where bs: "b = JObj bs" using py_eq_objE assms(1) by blast
  show ?thesis
    using py_eq_map_of[of as bs k] assms as bs by (auto split: option.splits)
qed

lemma py_eq_get: "py_eq a b \<Longrightarrow> wf_json a \<Longrightarrow> wf_json b \<Longrightarrow> get a k = Some x \<Longrightarrow> \<exists>y. get b k = Some y \<and> py_eq x y"
  unfolding get_def by (rule py_eq_get_or) auto

lemma py_eq_truthy: "py_eq a b \<Longrightarrow> truthy a = truthy b"
  by (cases a; cases b) (auto split: if_splits)

lemma py_eq_or: "py_eq a b \<Longrightarrow> py_eq c d \<Longrightarrow> py_eq (py_or a c) (py_or b d)"
  using py_eq_truthy by (auto simp: py_or_def)

lemma py_eq_as_str: "py_eq a b \<Longrightarrow> as_str a = as_str b"
  by (cases a; cases b) auto

lemma py_eq_num_of: "py_eq a b \<Longrightarrow> num_of a = num_of b"
  by (cases a; cases b) auto

lemma list_all2_insort_key:
  assumes "list_all2 R xs ys" "R x y" "\<And>a b. R a b \<Longrightarrow> f a = g b"
  shows "list_all2 R (insort_key f x xs) (insort_key g y ys)"
  using assms(1) by (induction rule: list_all2_induct) (use assms(2,3) in \<open>force+\<close>)

lemma list_all2_sort_key:
  assumes "list_all2 R xs ys" "\<And>a b. R a b \<Longrightarrow> f a = g b"
  shows "list_all2 R (sort_key f xs) (sort_key g ys)"
  using assms(1)
proof (induction rule: list_all2_induct)
  case (Cons x xs y ys)
  then show ?case using list_all2_insort_key[OF Cons(3) Cons(1) assms(2)] by simp
qed simp

text \<open>Equal documents of distinct keys; the operations of the model relate them.\<close>

definition same :: "json \<Rightarrow> json \<Rightarrow> bool" where
  "same a b \<longleftrightarrow> py_eq a b \<and> wf_json a \<and> wf_json b"

lemma rel_bind:
  "rel_option R m n \<Longrightarrow> (\<And>x y. R x y \<Longrightarrow> rel_option S (f x) (g y)) \<Longrightarrow> rel_option S (Option.bind m f) (Option.bind n g)"
  by (cases m; cases n) auto

lemma rel_omap:
  assumes "list_all2 R xs ys" "\<And>x y. R x y \<Longrightarrow> rel_option S (f x) (g y)"
  shows "rel_option (list_all2 S) (omap f xs) (omap g ys)"
  using assms(1)
proof (induction rule: list_all2_induct)
  case (Cons x xs y ys)
  show ?case unfolding omap.simps
    by (rule rel_bind[OF assms(2)[OF Cons(1)]], rule rel_bind[OF Cons(3)]) auto
qed simp

lemma same_get_or: "same a b \<Longrightarrow> same v v \<Longrightarrow> rel_option same (get_or a k v) (get_or b k v)"
proof -
  assume s: "same a b" "same v v"
  show ?thesis
  proof (cases "get_or a k v")
    case None
    then have "\<not> is_obj a" by simp
    then have "\<not> is_obj b" using s(1) by (cases a; cases b) (auto simp: same_def)
    then show ?thesis using None by (metis get_or_eq_None option.rel_intros(1))
  next
    case (Some x)
    then obtain y where "get_or b k v = Some y" "py_eq x y"
      using py_eq_get_or[of a b v k x] s by (auto simp: same_def)
    then show ?thesis using Some s wf_get_or[of a v k x] wf_get_or[of b v k y] by (auto simp: same_def)
  qed
qed

lemma same_get: "same a b \<Longrightarrow> rel_option same (get a k) (get b k)"
  unfolding get_def by (rule same_get_or) (auto simp: same_def)

lemma same_or: "same a b \<Longrightarrow> same c d \<Longrightarrow> same (py_or a c) (py_or b d)"
  using py_eq_or by (auto simp: same_def py_or_def)

lemma same_consts: "same (JStr s) (JStr s)" "same (JBool c) (JBool c)" "same JNull JNull" "same (JList []) (JList [])"
  by (auto simp: same_def)

lemma sorted_by_id_same:
  assumes "list_all2 (\<lambda>x y. py_eq (fst x) (fst y) \<and> same (snd x) (snd y)) xs ys"
  shows "rel_option (list_all2 same) (sorted_by_id xs) (sorted_by_id ys)"
proof -
  have srt: "list_all2 same (map snd (sort_key fst us)) (map snd (sort_key fst vs))"
    if "list_all2 (\<lambda>u v. fst u = fst v \<and> same (snd u) (snd v)) us vs" for us vs :: "('k :: linorder \<times> json) list"
    using list_all2_sort_key[OF that, of fst fst] by (auto simp: list_all2_map1 list_all2_map2 elim: list_all2_mono)
  have texts: "rel_option (list_all2 (\<lambda>u v. fst u = fst v \<and> same (snd u) (snd v)))
      (omap (\<lambda>(k, v). map_option (\<lambda>s. (s, v)) (as_str k)) xs) (omap (\<lambda>(k, v). map_option (\<lambda>s. (s, v)) (as_str k)) ys)"
    by (rule rel_omap[OF assms]) (auto simp: option.rel_map option.rel_refl dest!: py_eq_as_str)
  have nums: "rel_option (list_all2 (\<lambda>u v. fst u = fst v \<and> same (snd u) (snd v)))
      (omap (\<lambda>(k, v). map_option (\<lambda>s. (s, v)) (num_of k)) xs) (omap (\<lambda>(k, v). map_option (\<lambda>s. (s, v)) (num_of k)) ys)"
    by (rule rel_omap[OF assms]) (auto simp: option.rel_map option.rel_refl dest!: py_eq_num_of)
  have rest: "length xs = length ys" "list_all2 same (map snd xs) (map snd ys)"
    using assms by (auto simp: list_all2_map1 list_all2_map2 dest: list_all2_lengthD elim: list_all2_mono)
  show ?thesis
    unfolding sorted_by_id_def
    using texts nums rest by (auto simp: rel_option_iff srt split: option.splits)
qed

lemma same_controller:
  assumes "same i j" "same b c" "same r s"
  shows "py_eq (py_or i (JStr [])) (py_or j (JStr []))"
    and "same (JObj [(''id'', i), (''bus'', b), (''rotationRate'', r)]) (JObj [(''id'', j), (''bus'', c), (''rotationRate'', s)])"
  using assms py_eq_or[of i j "JStr []" "JStr []"] by (simp_all add: same_def)

lemma normalize_same:
  assumes "same a b"
  shows "rel_option (list_all2 same) (normalize_disk_controllers a) (normalize_disk_controllers b)"
proof -
  define item where "item = (\<lambda>dc. do {
       i \<leftarrow> get dc ''id'';
       bus \<leftarrow> get_or dc ''bus'' (JStr ''virtio'');
       rr \<leftarrow> get dc ''rotationRate'';
       Some (py_or i (JStr []), JObj [(''id'', i), (''bus'', bus), (''rotationRate'', rr)])
     })"
  have item: "rel_option (\<lambda>x y. py_eq (fst x) (fst y) \<and> same (snd x) (snd y)) (item x) (item y)" if "same x y" for x y
    unfolding item_def
    by (rule rel_bind[OF same_get[OF that]], rule rel_bind[OF same_get_or[OF that same_consts(1)]],
        rule rel_bind[OF same_get[OF that]]) (simp only: option.rel_inject fst_conv snd_conv, intro conjI same_controller)
  have body: "rel_option (list_all2 same) (Option.bind (omap item xs) sorted_by_id) (Option.bind (omap item ys) sorted_by_id)"
    if "list_all2 same xs ys" for xs ys
    by (rule rel_bind[OF rel_omap[OF that item]]) (auto intro: sorted_by_id_same)
  have nd: "normalize_disk_controllers c = Option.bind (iter (py_or c (JList []))) (\<lambda>cs. Option.bind (omap item cs) sorted_by_id)" for c
    by (simp add: normalize_disk_controllers_def item_def)
  have chars: "omap item (map (\<lambda>kv. JStr (f kv)) kvs) = (if kvs = [] then Some [] else None)" for f and kvs :: "'x list"
    by (cases kvs) (auto simp: item_def get_def)
  have "same (py_or a (JList [])) (py_or b (JList []))" using same_or[OF assms same_consts(4)] .
  moreover have "list_all2 same xs ys" if "same (JList xs) (JList ys)" for xs ys
    using that by (auto simp: same_def list_all_iff list_all2_conv_all_nth)
  ultimately show ?thesis unfolding nd
    by (cases "py_or a (JList [])"; cases "py_or b (JList [])")
      (auto simp: same_def chars body list_all2_same list_all_iff sorted_by_id_def split: if_splits)
qed

lemma redeploy_spec_same:
  assumes "same a b"
  shows "rel_option py_eq (vm_redeploy_spec a) (vm_redeploy_spec b)"
  unfolding vm_redeploy_spec_def
  by (intro rel_bind[OF same_get[OF assms]] rel_bind[OF same_get_or[OF assms]] rel_bind[OF normalize_same] same_consts)
    (use py_eq_or in \<open>auto simp: same_def elim: list_all2_mono\<close>)

section \<open>The nodes of a canvas by id\<close>

definition node_ids :: "json \<Rightarrow> json list option" where
  "node_ids topology = do { ns \<leftarrow> topo_nodes topology; omap (\<lambda>n. index n ''id'') ns }"

lemma add_nodes_zip:
  assumes "ofold add_node m ns = Some m'" "omap (\<lambda>n. index n ''id'') ns = Some ids" "distinct (map fst m @ ids)"
  shows "m' = m @ zip ids ns"
  using assms
proof (induction ns arbitrary: m ids)
  case (Cons n ns)
  then obtain i js where i: "index n ''id'' = Some i" "omap (\<lambda>n. index n ''id'') ns = Some js" "ids = i # js"
    by (auto simp: bind_eq_Some_conv)
  have "add_node m n = Some (AList.update i n m)"
    using Cons.prems(1) i(1) by (auto simp: add_node_def bind_eq_Some_conv dest: hkey_SomeD)
  moreover have "AList.update i n m = m @ [(i, n)]" using Cons.prems(3) i(3) by (intro update_new) auto
  ultimately have "ofold add_node (m @ [(i, n)]) ns = Some m'" using Cons.prems(1) by simp
  from Cons.IH[OF this i(2)] show ?case using Cons.prems(3) i(3) by simp
qed simp

lemma zip_idD:
  assumes "omap (\<lambda>n. index n ''id'') ns = Some ids"
  shows "(i, n) \<in> set (zip ids ns) \<longleftrightarrow> n \<in> set ns \<and> index n ''id'' = Some i"
  using assms by (auto simp: omap_Some list_all2_conv_all_nth in_set_zip in_set_conv_nth)

text \<open>All nodes, and the VM nodes, of a canvas whose nodes have different ids.\<close>

lemma nodes_lookup:
  assumes "nodes_by_id t = Some m" "topo_nodes t = Some ns" "node_ids t = Some ids" "distinct ids"
  shows "(i, n) \<in> set m \<longleftrightarrow> n \<in> set ns \<and> index n ''id'' = Some i" and "map_of m i = Some n \<longleftrightarrow> (i, n) \<in> set m"
proof -
  have o: "omap (\<lambda>n. index n ''id'') ns = Some ids" using assms(2,3) by (simp add: node_ids_def)
  have m: "m = zip ids ns"
    using add_nodes_zip[of "[]" ns m ids] assms o by (simp add: nodes_by_id_def)
  show "(i, n) \<in> set m \<longleftrightarrow> n \<in> set ns \<and> index n ''id'' = Some i" unfolding m by (rule zip_idD[OF o])
  have "distinct (map fst m)" using assms(4) omap_length[OF o] by (simp add: m)
  then show "map_of m i = Some n \<longleftrightarrow> (i, n) \<in> set m" by (simp add: map_of_eq_Some_iff)
qed

lemma omap_filter: "omap f xs = Some ys \<Longrightarrow> \<exists>zs. omap f (filter P xs) = Some zs \<and> set zs \<subseteq> set ys \<and> (distinct ys \<longrightarrow> distinct zs)"
proof (induction xs arbitrary: ys)
  case (Cons x xs)
  then obtain y us where y: "f x = Some y" "omap f xs = Some us" "ys = y # us" by (auto simp: bind_eq_Some_conv)
  obtain zs where "omap f (filter P xs) = Some zs" "set zs \<subseteq> set us" "distinct us \<longrightarrow> distinct zs"
    using Cons.IH[OF y(2)] by blast
  then show ?case using y by (cases "P x") auto
qed simp

lemma vm_nodes_lookup:
  assumes "vm_nodes_by_id t = Some m" "topo_nodes t = Some ns" "node_ids t = Some ids" "distinct ids"
  shows "(i, n) \<in> set m \<longleftrightarrow> n \<in> set ns \<and> index n ''id'' = Some i \<and> get n ''type'' = Some VM_NODE"
proof -
  obtain vs where vs: "ofilter (has_type ''vmNode'') ns = Some vs" "ofold add_node [] vs = Some m"
    using assms(1,2) by (auto simp: vm_nodes_by_id_def bind_eq_Some_conv)
  have eq: "vs = filter (\<lambda>n. get n ''type'' = Some VM_NODE) ns"
    using vs(1) by (auto simp: ofilter_Some has_type_def VM_NODE_def intro!: filter_cong)
  obtain js where js: "omap (\<lambda>n. index n ''id'') vs = Some js" "distinct js"
    using omap_filter[of "\<lambda>n. index n ''id''" ns ids] assms(2-4) by (auto simp: node_ids_def eq)
  have m: "m = zip js vs" using add_nodes_zip[OF vs(2) js(1)] js(2) by simp
  show ?thesis unfolding m zip_idD[OF js(1)] by (auto simp: eq)
qed

section \<open>Redeployment is a change\<close>

lemma map_of_filter_keys: "k \<notin> S \<Longrightarrow> map_of (filter (\<lambda>kv. fst kv \<notin> S) kvs) k = map_of kvs k"
  by (induction kvs) auto

lemma compared_get_or: "compared_data a = Some a' \<Longrightarrow> k \<notin> set skip_keys \<Longrightarrow> get_or a' k v = get_or a k v"
  by (cases a) (auto simp: map_of_filter_keys)

lemma compared_redeploy: "compared_data a = Some a' \<Longrightarrow> vm_redeploy_spec a' = vm_redeploy_spec a"
  by (simp add: vm_redeploy_spec_def get_def compared_get_or skip_keys_def)

lemma wf_compared: "compared_data a = Some a' \<Longrightarrow> wf_json a \<Longrightarrow> wf_json a'"
  by (cases a) (auto intro: distinct_map_filter)

lemma wf_node_data: "wf_json n \<Longrightarrow> node_data n = Some d \<Longrightarrow> wf_json d"
  unfolding node_data_def by (rule wf_get_or) auto

lemma wf_topo_nodes: "wf_json t \<Longrightarrow> topo_nodes t = Some ns \<Longrightarrow> n \<in> set ns \<Longrightarrow> wf_json n"
proof -
  assume t: "wf_json t" "topo_nodes t = Some ns" "n \<in> set ns"
  then obtain v where v: "get_or t ''nodes'' (JList []) = Some v" "iter v = Some ns"
    by (auto simp: topo_nodes_def bind_eq_Some_conv)
  have "wf_json v" using wf_get_or[OF t(1) _ v(1)] by simp
  then show ?thesis using wf_iter v(2) t(3) by blast
qed

lemma unchanged_no_redeploy:
  assumes "wf_json node" "wf_json dep" "map_of m1 nid = Some dep" "map_of m2 nid = Some dep"
    and "get node ''type'' = Some VM_NODE" "vm_changed m1 (nid, node) = Some False" "needs_redeploy m2 (nid, node) = Some b"
  shows "\<not> b"
proof -
  obtain cur cd dd d where d: "node_data node = Some cur" "compared_data cur = Some cd"
      "node_data dep = Some d" "compared_data d = Some dd" "py_eq cd dd"
    using assms(3,5,6) by (auto simp: vm_changed_def bind_eq_Some_conv)
  obtain a c where s: "vm_redeploy_spec cur = Some a" "vm_redeploy_spec d = Some c" "b \<longleftrightarrow> \<not> py_eq a c"
    using assms(4,7) d(1,3) by (auto simp: needs_redeploy_def bind_eq_Some_conv)
  have "same cd dd"
    using d wf_compared[OF d(2)] wf_compared[OF d(4)] wf_node_data[OF assms(1)] wf_node_data[OF assms(2)] by (simp add: same_def)
  then have "rel_option py_eq (vm_redeploy_spec cd) (vm_redeploy_spec dd)" by (rule redeploy_spec_same)
  then show ?thesis using s compared_redeploy[OF d(2)] compared_redeploy[OF d(4)] by simp
qed

text \<open>C26: Redeployment. Whenever a VM's domain has to be defined anew, the difference of the canvases
  lists that VM as changed; so a deployment that looks at the changed VMs only misses none.
\<close>

theorem redeploy_is_change:
  assumes "vm_ids_needing_redeploy current deployed = Some ids" "diff_topologies current deployed = Some d"
    and "wf_json current" "wf_json deployed"
    and "node_ids current = Some cs" "distinct cs" "node_ids deployed = Some ds" "distinct ds"
  shows "\<forall>i \<in> set ids. \<exists>n \<in> set (changed_vms d). index n ''id'' = Some i"
proof
  fix i assume i: "i \<in> set ids"
  obtain cv dv where v: "vm_nodes_by_id current = Some cv" "vm_nodes_by_id deployed = Some dv"
      "map_option (map fst) (ofilter (needs_redeploy dv) cv) = Some ids"
    using assms(1) by (auto simp: vm_ids_needing_redeploy_def bind_eq_Some_conv)
  obtain cm dm where m: "nodes_by_id current = Some cm" "nodes_by_id deployed = Some dm"
      "find_changed_vms cm dm = Some (changed_vms d)"
    using assms(2) by (auto simp: diff_topologies_def bind_eq_Some_conv Let_def)
  obtain cn dn where n: "topo_nodes current = Some cn" "topo_nodes deployed = Some dn"
    using assms(5,7) by (auto simp: node_ids_def bind_eq_Some_conv)
  obtain node where node: "(i, node) \<in> set cv" "needs_redeploy dv (i, node) = Some True"
    using v(3) i by (auto simp: ofilter_Some)
  then obtain dep where dep: "map_of dv i = Some dep" by (auto simp: needs_redeploy_def split: option.splits)
  have nd: "node \<in> set cn" "index node ''id'' = Some i" "get node ''type'' = Some VM_NODE"
    using node(1) vm_nodes_lookup[OF v(1) n(1) assms(5,6)] by auto
  have dp: "dep \<in> set dn" "index dep ''id'' = Some i"
    using map_of_SomeD[OF dep] vm_nodes_lookup[OF v(2) n(2) assms(7,8)] by auto
  have dm: "map_of dm i = Some dep" using nodes_lookup[OF m(2) n(2) assms(7,8)] dp by blast
  have cm: "(i, node) \<in> set cm" using nodes_lookup(1)[OF m(1) n(1) assms(5,6)] nd by blast
  obtain b where b: "vm_changed dm (i, node) = Some b"
    using m(3) cm by (auto simp: find_changed_vms_def ofilter_Some)
  have "b" using unchanged_no_redeploy[OF _ _ dm dep nd(3) _ node(2)] b
      wf_topo_nodes[OF assms(3) n(1) nd(1)] wf_topo_nodes[OF assms(4) n(2) dp(1)] by (cases b) auto
  then have "(i, node) \<in> set (filter (\<lambda>x. vm_changed dm x = Some True) cm)" using cm b by simp
  moreover have "changed_vms d = map snd (filter (\<lambda>x. vm_changed dm x = Some True) cm)"
    using m(3) by (auto simp: find_changed_vms_def ofilter_Some)
  ultimately have "node \<in> set (changed_vms d)" by force
  then show "\<exists>n \<in> set (changed_vms d). index n ''id'' = Some i" using nd(2) by blast
qed

definition sample_vm :: "string \<Rightarrow> string \<Rightarrow> json" where
  "sample_vm firmware status = JObj [(''nodes'', JList [JObj [(''id'', JStr ''v1''), (''type'', JStr ''vmNode''),
     (''data'', JObj [(''firmware'', JStr firmware), (''status'', JStr status)])]])]"

theorem redeploy_is_change_witness:
  "vm_ids_needing_redeploy (sample_vm ''uefi'' ''up'') (sample_vm ''bios'' ''down'') = Some [JStr ''v1''] \<and>
   (\<exists>d. diff_topologies (sample_vm ''uefi'' ''up'') (sample_vm ''bios'' ''down'') = Some d \<and>
     (\<exists>n \<in> set (changed_vms d). index n ''id'' = Some (JStr ''v1'')))"
proof -
  have r: "vm_ids_needing_redeploy (sample_vm ''uefi'' ''up'') (sample_vm ''bios'' ''down'') = Some [JStr ''v1'']" by code_simp
  have "case diff_topologies (sample_vm ''uefi'' ''up'') (sample_vm ''bios'' ''down'') of None \<Rightarrow> False | Some d \<Rightarrow> True"
    by code_simp
  then obtain d where d: "diff_topologies (sample_vm ''uefi'' ''up'') (sample_vm ''bios'' ''down'') = Some d"
    by (auto split: option.splits)
  have w: "wf_json (sample_vm f s)" "node_ids (sample_vm f s) = Some [JStr ''v1'']" for f s
    by (simp_all add: sample_vm_def node_ids_def topo_nodes_def)
  show ?thesis using r d redeploy_is_change[OF r d w(1) w(1) w(2) _ w(2)] by auto
qed

section \<open>Nothing changed\<close>

lemma categorize_known:
  assumes "set src \<subseteq> set reference"
  shows "categorize_new_nodes src reference = Some ([], [])"
proof -
  have "categorize_step reference st x = Some st" if "x \<in> set src" for st x
  proof -
    have "fst x \<in> fst ` set reference" using that assms by blast
    then show ?thesis by (cases st; cases x) (simp add: categorize_step_def)
  qed
  then have "ofold (categorize_step reference) st src = Some st" for st by (induction src) auto
  then show ?thesis by (simp add: categorize_new_nodes_def)
qed

lemma unchanged_self:
  assumes "distinct (map fst m)" "\<forall>(k, n) \<in> set m. wf_json n" "find_changed_vms m m = Some vs"
  shows "vs = []"
proof -
  have "vm_changed m (k, n) \<noteq> Some True" if "(k, n) \<in> set m" for k n
  proof
    assume c: "vm_changed m (k, n) = Some True"
    have "map_of m k = Some n" using assms(1) that by (simp add: map_of_eq_Some_iff)
    then obtain d d' where d: "node_data n = Some d" "compared_data d = Some d'" "\<not> py_eq d' d'"
      using c by (auto simp: vm_changed_def bind_eq_Some_conv split: if_splits)
    then show False using wf_compared[OF d(2)] wf_node_data[of n d] assms(2) that py_eq_refl[of d'] by blast
  qed
  then show ?thesis using assms(3) by (auto simp: find_changed_vms_def ofilter_Some filter_empty_conv)
qed

lemma nodes_by_id_wf:
  assumes "ofold add_node m ns = Some m'" "distinct (map fst m)" "\<forall>(k, n) \<in> set m. wf_json n" "\<forall>n \<in> set ns. wf_json n"
  shows "distinct (map fst m') \<and> (\<forall>(k, n) \<in> set m'. wf_json n)"
  using assms
proof (induction ns arbitrary: m)
  case (Cons n ns)
  then obtain u where u: "add_node m n = Some u" "ofold add_node u ns = Some m'" by (auto simp: bind_eq_Some_conv)
  obtain k where "u = AList.update k n m" using u(1) by (auto simp: add_node_def bind_eq_Some_conv)
  then have k: "ofold add_node (AList.update k n m) ns = Some m'" using u(2) by simp
  have "\<forall>(i, x) \<in> set (AList.update k n m). wf_json x"
    using update_entries_subset[of k n m] Cons.prems(3,4) by auto
  then show ?case using Cons.IH[OF k] distinct_update_keys[OF Cons.prems(2)] Cons.prems(4) by simp
qed simp

text \<open>
  Nothing changed. The difference of a canvas with itself reports no change of any kind, whatever
  its nodes are.
\<close>

theorem diff_self_empty:
  assumes "wf_json topology" "diff_topologies topology topology = Some d"
  shows "d = \<lparr>added_vms = [], removed_vms = [], changed_vms = [], added_networks = [], removed_networks = [],
    ceph_added = False, ceph_removed = False, ceph_changed = False, has_changes = False\<rparr>"
proof -
  obtain m where m: "nodes_by_id topology = Some m" using assms(2) by (auto simp: diff_topologies_def bind_eq_Some_conv)
  obtain ns where ns: "topo_nodes topology = Some ns" "ofold add_node [] ns = Some m"
    using m by (auto simp: nodes_by_id_def bind_eq_Some_conv)
  have w: "distinct (map fst m) \<and> (\<forall>(k, n) \<in> set m. wf_json n)"
    using nodes_by_id_wf[OF ns(2)] wf_topo_nodes[OF assms(1) ns(1)] by auto
  obtain vs c cc where d: "find_changed_vms m m = Some vs" "find_ceph_node topology = Some c"
      "ceph_data_changed topology topology = Some cc"
      "d = \<lparr>added_vms = [], removed_vms = [], changed_vms = vs, added_networks = [], removed_networks = [],
        ceph_added = False, ceph_removed = False, ceph_changed = cc, has_changes = (vs \<noteq> [] \<or> cc)\<rparr>"
    using assms(2) m categorize_known[of m m]
    by (auto simp: diff_topologies_def bind_eq_Some_conv Let_def simp del: not_None_eq)
  have "\<not> cc" using d(2,3) by (cases c) (auto simp: ceph_data_changed_def bind_eq_Some_conv)
  moreover have "vs = []" using unchanged_self[OF _ _ d(1)] w by blast
  ultimately show ?thesis using d(4) by simp
qed

theorem diff_self_empty_witness:
  "\<exists>d. diff_topologies (sample_vm ''bios'' ''up'') (sample_vm ''bios'' ''up'') = Some d \<and> \<not> has_changes d"
proof -
  have "case diff_topologies (sample_vm ''bios'' ''up'') (sample_vm ''bios'' ''up'') of None \<Rightarrow> False | Some d \<Rightarrow> True" by code_simp
  then obtain d where d: "diff_topologies (sample_vm ''bios'' ''up'') (sample_vm ''bios'' ''up'') = Some d"
    by (auto split: option.splits)
  have "wf_json (sample_vm ''bios'' ''up'')" by (simp add: sample_vm_def)
  from diff_self_empty[OF this d] show ?thesis using d by simp
qed

end
