(* ===== verification/Topology_Specs.thy ===== *)
theory Topology_Specs
  imports Topology_Disks
begin

text \<open>
  The custom resources that a KubeVirt deployment makes of the VMs of a canvas: their disks with the
  image each starts from, NICs, boot order and settings; and the check of their disk buses against
  what the cluster supports (\<open>deploy_topology.py\<close>, \<open>providers/kubevirt_capabilities.py\<close>).
\<close>

section \<open>Disks\<close>

definition storage_node_data :: "json \<Rightarrow> json \<Rightarrow> json option" where
  "storage_node_data topology storage_id = do {
     ns \<leftarrow> topo_nodes topology;
     n \<leftarrow> ofind (\<lambda>node. do {
       i \<leftarrow> get node ''id'';
       t \<leftarrow> get node ''type'';
       Some (i = storage_id \<and> t = STORAGE_NODE)
     }) ns;
     (case n of None \<Rightarrow> Some (JObj []) | Some node \<Rightarrow> node_data node)
   }"

text \<open>\<open>dict(v)\<close> of a dictionary or of an empty list or text.\<close>

fun py_dict :: "json \<Rightarrow> json option" where
  "py_dict (JObj kvs) = Some (JObj kvs)"
| "py_dict (JList xs) = (if xs = [] then Some (JObj []) else None)"
| "py_dict (JStr s) = (if s = [] then Some (JObj []) else None)"
| "py_dict _ = None"

definition merge_disk_storage_data :: "json \<Rightarrow> json \<Rightarrow> json option" where
  "merge_disk_storage_data disk topology = do {
     storage_id \<leftarrow> get_or disk ''node_id'' (JStr []);
     sd0 \<leftarrow> storage_node_data topology storage_id;
     sd \<leftarrow> py_dict sd0;
     r \<leftarrow> get disk ''resolvedS3Path'';
     own \<leftarrow> get sd ''resolvedS3Path'';
     sd1 \<leftarrow> (if truthy r \<and> \<not> truthy own then set_item sd ''resolvedS3Path'' r else Some sd);
     c \<leftarrow> get disk ''centralSource'';
     sd2 \<leftarrow> (if c \<noteq> JNull \<and> index sd1 ''centralSource'' = None then set_item sd1 ''centralSource'' c else Some sd1);
     s \<leftarrow> get disk ''diskSource'';
     if truthy s \<and> index sd2 ''diskSource'' = None then set_item sd2 ''diskSource'' s else Some sd2
   }"

definition with_source_size :: "(string \<times> json) list \<Rightarrow> int \<Rightarrow> (string \<times> json) list" where
  "with_source_size entry source_size_gb =
     entry @ (if source_size_gb > 0 then [(''sourceSizeGb'', JInt source_size_gb)] else [])"

text \<open>The fields that the image source adds to the disk, if it applies.\<close>

definition apply_pattern_disk_image ::
    "json \<Rightarrow> json \<Rightarrow> json \<Rightarrow> int \<Rightarrow> (string \<times> json) list option option" where
  "apply_pattern_disk_image disk sd central source_size_gb = do {
     dp \<leftarrow> get disk ''patternId'';
     sp \<leftarrow> get sd ''patternId'';
     if \<not> truthy dp \<and> \<not> truthy sp then Some None
     else do {
       pd \<leftarrow> get_or sd ''patternDiskId'' (JStr []);
       r \<leftarrow> get sd ''resolvedS3Path'';
       path \<leftarrow> (if truthy r then Some r
               else do { p \<leftarrow> py_str (py_or dp sp); d \<leftarrow> py_str pd;
                         Some (JStr (''patterns/'' @ p @ ''/'' @ d @ ''.qcow2'')) });
       src \<leftarrow> get_or sd ''diskSource'' (JStr ''central'');
       Some (Some (with_source_size [(''patternImage'', JObj [(''s3Path'', path), (''format'', JStr ''qcow2''),
         (''central'', central), (''source'', src)])] source_size_gb))
     }
   }"

definition apply_library_disk_image ::
    "json \<Rightarrow> json \<Rightarrow> json \<Rightarrow> json \<Rightarrow> int \<Rightarrow> (string \<times> json) list option option" where
  "apply_library_disk_image disk sd fmt central source_size_gb = do {
     a \<leftarrow> get disk ''library_item_id'';
     b \<leftarrow> get disk ''libraryItemId'';
     c \<leftarrow> get sd ''libraryItemId'';
     let lib_id = py_or a (py_or b c);
     if \<not> truthy lib_id then Some None
     else do {
       r \<leftarrow> get sd ''resolvedS3Path'';
       path \<leftarrow> (if truthy r then Some r
               else do { l \<leftarrow> py_str lib_id; f \<leftarrow> py_str fmt; Some (JStr (''library/'' @ l @ ''.'' @ f)) });
       Some (Some (with_source_size [(''libraryImage'', JObj [(''s3Path'', path), (''format'', fmt), (''central'', central)])]
         source_size_gb))
     }
   }"

definition apply_disk_image_source :: "json \<Rightarrow> json \<Rightarrow> json \<Rightarrow> json \<Rightarrow> json \<Rightarrow> (string \<times> json) list option" where
  "apply_disk_image_source disk sd source fmt central = do {
     sz \<leftarrow> get_or sd ''sourceSizeGb'' (JInt 0);
     source_size_gb \<leftarrow> int_of_json (py_or sz (JInt 0));
     p \<leftarrow> (if source = JStr ''pattern'' then apply_pattern_disk_image disk sd central source_size_gb else Some None);
     (case p of
        Some entry \<Rightarrow> Some entry
      | None \<Rightarrow> do {
          l \<leftarrow> (if source = JStr ''library'' then apply_library_disk_image disk sd fmt central source_size_gb else Some None);
          (case l of
             Some entry \<Rightarrow> Some entry
           | None \<Rightarrow> do {
               r \<leftarrow> get sd ''resolvedS3Path'';
               Some (if source = JStr ''snapshot'' \<and> truthy r
                     then [(''libraryImage'', JObj [(''s3Path'', r), (''format'', fmt), (''central'', central)])]
                     else [(''blank'', JBool True)])
             })
        })
   }"

definition build_troshkavm_disk_spec :: "json \<Rightarrow> json \<Rightarrow> json option" where
  "build_troshkavm_disk_spec disk topology = do {
     storage_id \<leftarrow> get_or disk ''node_id'' (JStr []);
     sd \<leftarrow> merge_disk_storage_data disk topology;
     sfmt \<leftarrow> get_or sd ''format'' (JStr ''qcow2'');
     fmt \<leftarrow> get_or disk ''format'' sfmt;
     ssize \<leftarrow> get_or sd ''size'' (JInt 20);
     dsize \<leftarrow> get_or disk ''size'' ssize;
     size_gb \<leftarrow> get_or disk ''size_gb'' dsize;
     dsrc \<leftarrow> get disk ''source'';
     ssrc \<leftarrow> get_or sd ''source'' (JStr ''blank'');
     central \<leftarrow> get_or sd ''centralSource'' (JBool False);
     n \<leftarrow> (if truthy size_gb then int_of_json size_gb else Some 20);
     bus \<leftarrow> get_or disk ''bus'' (JStr ''virtio'');
     rr \<leftarrow> get disk ''rotation_rate'';
     image \<leftarrow> apply_disk_image_source disk sd (py_or dsrc ssrc) fmt central;
     Some (JObj ([(''id'', storage_id), (''sizeGb'', JInt n), (''bus'', bus), (''format'', fmt)]
       @ (if rr \<noteq> JNull then [(''rotationRate'', rr)] else []) @ image))
   }"

section \<open>NICs\<close>

definition nic_network_ref :: "json \<Rightarrow> json \<Rightarrow> string option" where
  "nic_network_ref nic_id topology = do {
     nbi \<leftarrow> nodes_by_id topology;
     nic_map \<leftarrow> build_nic_to_network_map topology nbi;
     net_id \<leftarrow> lookup nic_map nic_id (JStr []);
     if \<not> truthy net_id then Some [] else do { s \<leftarrow> as_str net_id; Some (''net-'' @ take 8 s) }
   }"

definition nic_spec :: "json \<Rightarrow> json \<Rightarrow> json option" where
  "nic_spec topology nic = do {
     i \<leftarrow> get_or nic ''id'' (JStr []);
     mac \<leftarrow> get_or nic ''mac'' (JStr []);
     model \<leftarrow> get_or nic ''model'' (JStr ''virtio'');
     ref \<leftarrow> (if truthy topology then nic_network_ref i topology else Some []);
     Some (JObj ([(''id'', i), (''mac'', mac), (''model'', model)] @ (if ref = [] then [] else [(''networkRef'', JStr ref)])))
   }"

definition build_troshkavm_nic_specs :: "json \<Rightarrow> json \<Rightarrow> json list option" where
  "build_troshkavm_nic_specs vm_data topology = do {
     nv \<leftarrow> get_or vm_data ''nics'' (JList []);
     nics \<leftarrow> iter nv;
     omap (nic_spec topology) nics
   }"

section \<open>The VM\<close>

definition resolve_vm_firmware :: "json \<Rightarrow> json \<Rightarrow> json option" where
  "resolve_vm_firmware vm vm_data = do {
     a \<leftarrow> get vm ''firmware'';
     b \<leftarrow> get_or vm_data ''firmware'' (JStr ''bios'');
     secure \<leftarrow> get vm_data ''secureBoot'';
     Some (if py_or a b = JStr ''uefi'' \<and> truthy secure then JStr ''uefi-secure'' else py_or a b)
   }"

text \<open>\<open>v * 1024\<close>: a number, or a text or list repeated.\<close>

fun times_1024 :: "json \<Rightarrow> json option" where
  "times_1024 (JInt i) = Some (JInt (i * 1024))"
| "times_1024 (JFloat r) = Some (JFloat (r * 1024))"
| "times_1024 (JBool b) = Some (JInt (if b then 1024 else 0))"
| "times_1024 (JStr s) = Some (JStr (concat (replicate 1024 s)))"
| "times_1024 (JList xs) = Some (JList (concat (replicate 1024 xs)))"
| "times_1024 _ = None"

definition vm_data_of :: "json \<Rightarrow> json \<Rightarrow> json option" where
  "vm_data_of topology vm_id = do {
     ns \<leftarrow> topo_nodes topology;
     n \<leftarrow> ofind (\<lambda>node. do {
       i \<leftarrow> get node ''id'';
       t \<leftarrow> get node ''type'';
       Some (i = vm_id \<and> t = VM_NODE)
     }) ns;
     (case n of None \<Rightarrow> Some (JObj []) | Some node \<Rightarrow> node_data node)
   }"

definition vm_setting_fields :: "field_spec list" where
  "vm_setting_fields = [(''powerOnAtDeploy'', ''powerOnAtDeploy'', False, JBool True),
     (''recertEnabled'', ''recertEnabled'', False, JBool False), (''ocpMonitor'', ''ocpMonitor'', False, JBool False),
     (''configureBastionBrowser'', ''configureBastionBrowser'', False, JBool False),
     (''bmcEnabled'', ''bmcEnabled'', False, JBool False), (''videoModel'', ''videoModel'', False, JStr ''virtio''),
     (''inputModel'', ''inputModel'', False, JStr ''virtio''), (''serialModel'', ''serialModel'', False, JStr ''isa''),
     (''serialConsole'', ''serialConsole'', False, JBool True), (''serialExecType'', ''serialExecType'', False, JStr [])]"

definition vm_optional_fields :: "json \<Rightarrow> (string \<times> json) list option" where
  "vm_optional_fields vm_data = do {
     headless \<leftarrow> get vm_data ''headless'';
     bmc \<leftarrow> get vm_data ''bmcIp'';
     gf \<leftarrow> get vm_data ''guestfishCommands'';
     legacy \<leftarrow> get vm_data ''legacyRootBus'';
     nested \<leftarrow> get vm_data ''nestedVirt'';
     p1 \<leftarrow> get vm_data ''pxeBootIsoS3Path'';
     p2 \<leftarrow> get vm_data ''pxeBootIsoResolvedPath'';
     iso \<leftarrow> get vm_data ''pxeBootIsoId'';
     Some ((if headless \<noteq> JNull then [(''headless'', JBool (truthy headless))] else [])
       @ (if truthy bmc then [(''bmcIp'', bmc)] else [])
       @ (if truthy gf then [(''guestfishCommands'', gf)] else [])
       @ (if truthy legacy then [(''legacyRootBus'', JBool True)] else [])
       @ (if truthy nested then [(''nestedVirt'', JBool True)] else [])
       @ (if truthy iso \<and> truthy (py_or p1 p2)
          then [(''cdrom'', JObj [(''libraryIsoId'', iso), (''s3Path'', py_or p1 p2)])] else []))
   }"

definition vm_disks_in_boot_order :: "json \<Rightarrow> json \<Rightarrow> json \<Rightarrow> json list option" where
  "vm_disks_in_boot_order vm_id vm_data topology = do {
     ds \<leftarrow> find_vm_disks vm_id topology;
     bv \<leftarrow> get_or vm_data ''bootDevices'' (JList []);
     if truthy bv then do { boot \<leftarrow> iter bv; order_vm_disks_by_boot ds boot } else Some ds
   }"

definition build_troshkavm_vm_spec :: "json \<Rightarrow> json \<Rightarrow> json \<Rightarrow> json option" where
  "build_troshkavm_vm_spec vm_id vm topology = do {
     vm_data \<leftarrow> vm_data_of topology vm_id;
     ds \<leftarrow> vm_disks_in_boot_order vm_id vm_data topology;
     disk_specs \<leftarrow> omap (\<lambda>d. build_troshkavm_disk_spec d topology) ds;
     i \<leftarrow> get_or vm_data ''id'' vm_id;
     name \<leftarrow> get_or vm ''name'' (JStr ''vm'');
     cpus \<leftarrow> get_or vm ''vcpus'' (JInt 2);
     ram \<leftarrow> get_or vm ''ram_gb'' (JInt 4);
     memory \<leftarrow> times_1024 ram;
     firmware \<leftarrow> resolve_vm_firmware vm vm_data;
     u1 \<leftarrow> get vm_data ''smbiosUuid'';
     u2 \<leftarrow> get_or vm_data ''domainUuid'' (JStr []);
     os \<leftarrow> get_or vm ''os'' (JStr []);
     settings \<leftarrow> extract_fields vm_data vm_setting_fields;
     nics \<leftarrow> build_troshkavm_nic_specs vm_data topology;
     boot \<leftarrow> get_or vm_data ''bootDevices'' (JList []);
     c1 \<leftarrow> get_or vm_data ''ciGeneratedUserData'' (JStr []);
     c2 \<leftarrow> get_or vm_data ''ciUserData'' (JStr []);
     nc \<leftarrow> get_or vm_data ''ciNetworkConfig'' (JStr []);
     opts \<leftarrow> vm_optional_fields vm_data;
     Some (JObj ([(''vmId'', i), (''name'', name), (''cpus'', cpus), (''memory'', memory), (''firmware'', firmware),
         (''smbiosUuid'', py_or u1 u2), (''os'', os)] @ settings
       @ [(''disks'', JList disk_specs), (''nics'', JList nics), (''bootOrder'', boot),
          (''cloudInit'', JObj [(''userData'', py_or c1 c2), (''networkConfig'', nc)])] @ opts))
   }"

section \<open>Disk buses\<close>

text \<open>The error names the VM and quotes the bus in capitals.\<close>

datatype bus_error = Unsupported_bus json string

definition first_bad_bus :: "(json \<Rightarrow> bool) \<Rightarrow> json \<Rightarrow> json \<Rightarrow> json \<Rightarrow> bus_error option option" where
  "first_bad_bus bad topology vm_id vm = do {
     spec \<leftarrow> build_troshkavm_vm_spec vm_id vm topology;
     dv \<leftarrow> get_or spec ''disks'' (JList []);
     ds \<leftarrow> iter dv;
     d \<leftarrow> ofind (\<lambda>disk. do { b \<leftarrow> get_or disk ''bus'' (JStr ''virtio''); k \<leftarrow> hkey b; Some (bad k) }) ds;
     (case d of
        None \<Rightarrow> Some None
      | Some disk \<Rightarrow> do {
          b \<leftarrow> get_or disk ''bus'' (JStr ''virtio'');
          bus \<leftarrow> as_str b;
          s \<leftarrow> as_str vm_id;
          name \<leftarrow> get_or vm ''name'' (JStr (take 8 s));
          Some (Some (Unsupported_bus name bus))
        })
   }"

primrec check_vm_buses ::
    "(json \<Rightarrow> bool) \<Rightarrow> json \<Rightarrow> (json \<times> json) list \<Rightarrow> json list \<Rightarrow> bus_error option option" where
  "check_vm_buses bad topology vms [] = Some None"
| "check_vm_buses bad topology vms (vm_id # ids) = do {
     vm \<leftarrow> lookup vms vm_id JNull;
     e \<leftarrow> (if truthy vm then first_bad_bus bad topology vm_id vm else Some None);
     (case e of Some err \<Rightarrow> Some (Some err) | None \<Rightarrow> check_vm_buses bad topology vms ids)
   }"

definition vms_by_node_id :: "json \<Rightarrow> (json \<times> json) list option" where
  "vms_by_node_id topology = do {
     vs \<leftarrow> extract_vms topology;
     ofold (\<lambda>m v. do { i \<leftarrow> index v ''node_id''; k \<leftarrow> hkey i; Some (AList.update k v m) }) [] vs
   }"

definition KUBEVIRT_UNSUPPORTED_DISK_BUSES :: "json list" where
  "KUBEVIRT_UNSUPPORTED_DISK_BUSES = [JStr ''ide'']"

definition validate_vm_disk_buses_against_capabilities :: "json \<Rightarrow> json list \<Rightarrow> json \<Rightarrow> bus_error option option" where
  "validate_vm_disk_buses_against_capabilities current vm_ids capabilities = do {
     bv \<leftarrow> get capabilities ''diskBuses'';
     bs \<leftarrow> iter (py_or bv (JList []));
     allowed \<leftarrow> omap hkey bs;
     if allowed = [] then Some None
     else do { vms \<leftarrow> vms_by_node_id current; check_vm_buses (\<lambda>b. b \<notin> set allowed) current vms vm_ids }
   }"

definition validate_kubevirt_vm_disk_buses :: "json \<Rightarrow> json list \<Rightarrow> json \<Rightarrow> bus_error option option" where
  "validate_kubevirt_vm_disk_buses current vm_ids capabilities =
     (if truthy capabilities then validate_vm_disk_buses_against_capabilities current vm_ids capabilities
      else do { vms \<leftarrow> vms_by_node_id current;
                check_vm_buses (\<lambda>b. b \<in> set KUBEVIRT_UNSUPPORTED_DISK_BUSES) current vms vm_ids })"

definition DEFAULT_KUBEVIRT_CAPABILITIES :: "(string \<times> json) list" where
  "DEFAULT_KUBEVIRT_CAPABILITIES = [(''featureGates'', JList []), (''videoConfigEnabled'', JBool False),
     (''diskBuses'', JList [JStr ''virtio'', JStr ''scsi'', JStr ''sata'']), (''videoModels'', JList []),
     (''inputModels'', JList [JStr ''virtio'', JStr ''usb'', JStr ''ps2''])]"

definition normalize_capabilities :: "json \<Rightarrow> json option" where
  "normalize_capabilities raw =
     (if \<not> truthy raw then Some JNull
      else do {
        kv \<leftarrow> get raw ''kubevirt'';
        (case kv of
           JObj kvs \<Rightarrow> do {
             version \<leftarrow> get_or raw ''version'' (JInt 1);
             updated \<leftarrow> get raw ''updatedAt'';
             Some (JObj [(''version'', version), (''updatedAt'', updated),
               (''kubevirt'', JObj (map (\<lambda>(k, v). (k, case map_of kvs k of
                    Some x \<Rightarrow> if x = JNull then v else x | None \<Rightarrow> v)) DEFAULT_KUBEVIRT_CAPABILITIES))])
           }
         | _ \<Rightarrow> Some JNull)
      })"

definition get_kubevirt_capabilities :: "json \<Rightarrow> json option" where
  "get_kubevirt_capabilities doc =
     (if \<not> truthy doc then Some (JObj DEFAULT_KUBEVIRT_CAPABILITIES)
      else do { kv \<leftarrow> get doc ''kubevirt''; if truthy kv then index doc ''kubevirt'' else Some (JObj DEFAULT_KUBEVIRT_CAPABILITIES) })"

end
