(* ===== verification/Spec_Laws.thy ===== *)
theory Spec_Laws
  imports Topology_Specs
begin

text \<open>
  The disk of a custom resource starts from exactly one source, and VMs that pass the check of their
  disk buses have none that the cluster rejects.
\<close>

section \<open>Image sources\<close>

definition image_keys :: "string list" where
  "image_keys = [''patternImage'', ''libraryImage'', ''blank'']"

lemma pattern_keys:
  "apply_pattern_disk_image disk sd c n = Some (Some fs) \<Longrightarrow> filter (\<lambda>k. k \<in> set image_keys) (map fst fs) = [''patternImage'']"
  by (auto simp: apply_pattern_disk_image_def with_source_size_def image_keys_def bind_eq_Some_conv split: if_splits)

lemma library_keys:
  "apply_library_disk_image disk sd f c n = Some (Some fs) \<Longrightarrow> filter (\<lambda>k. k \<in> set image_keys) (map fst fs) = [''libraryImage'']"
  by (auto simp: apply_library_disk_image_def with_source_size_def image_keys_def bind_eq_Some_conv Let_def split: if_splits)

lemma source_keys:
  assumes "apply_disk_image_source disk sd src f c = Some fs"
  shows "\<exists>k \<in> set image_keys. filter (\<lambda>k. k \<in> set image_keys) (map fst fs) = [k]"
proof -
  obtain n p where p: "(if src = JStr ''pattern'' then apply_pattern_disk_image disk sd c n else Some None) = Some p"
      "(case p of Some entry \<Rightarrow> Some entry
        | None \<Rightarrow> do {
            l \<leftarrow> (if src = JStr ''library'' then apply_library_disk_image disk sd f c n else Some None);
            (case l of Some entry \<Rightarrow> Some entry
             | None \<Rightarrow> do {
                 r \<leftarrow> get sd ''resolvedS3Path'';
                 Some (if src = JStr ''snapshot'' \<and> truthy r
                       then [(''libraryImage'', JObj [(''s3Path'', r), (''format'', f), (''central'', c)])]
                       else [(''blank'', JBool True)])
               })
          }) = Some fs"
    using assms unfolding apply_disk_image_source_def bind_eq_Some_conv by blast
  show ?thesis
  proof (cases p)
    case (Some e)
    then have "apply_pattern_disk_image disk sd c n = Some (Some fs)" using p by (auto split: if_splits)
    then show ?thesis using pattern_keys by (force simp: image_keys_def)
  next
    case None
    then obtain l where l: "(if src = JStr ''library'' then apply_library_disk_image disk sd f c n else Some None) = Some l"
        "(case l of Some entry \<Rightarrow> Some entry
          | None \<Rightarrow> do {
              r \<leftarrow> get sd ''resolvedS3Path'';
              Some (if src = JStr ''snapshot'' \<and> truthy r
                    then [(''libraryImage'', JObj [(''s3Path'', r), (''format'', f), (''central'', c)])]
                    else [(''blank'', JBool True)])
            }) = Some fs"
      using p(2) unfolding None option.case bind_eq_Some_conv by blast
    show ?thesis
    proof (cases l)
      case (Some e)
      then have "apply_library_disk_image disk sd f c n = Some (Some fs)" using l by (auto split: if_splits)
      then show ?thesis using library_keys by (force simp: image_keys_def)
    next
      case None
      then show ?thesis using l(2) by (auto simp: bind_eq_Some_conv image_keys_def split: if_splits)
    qed
  qed
qed

text \<open>
  Disk sources. Every disk of a VM's custom resource has exactly one of a pattern image, a library
  image and the mark of a blank disk, and the bus and id of the disk it was made from.
\<close>

theorem disk_spec_has_one_source:
  assumes "build_troshkavm_disk_spec disk topology = Some spec"
  shows "\<exists>kvs k. spec = JObj kvs \<and> filter (\<lambda>k. k \<in> set image_keys) (map fst kvs) = [k] \<and>
    get spec ''bus'' = get_or disk ''bus'' (JStr ''virtio'') \<and> get spec ''id'' = get_or disk ''node_id'' (JStr [])"
proof -
  obtain i sd src f c fs n bus rr where fs: "apply_disk_image_source disk sd src f c = Some fs"
      "get_or disk ''node_id'' (JStr []) = Some i" "get_or disk ''bus'' (JStr ''virtio'') = Some bus"
      "spec = JObj ([(''id'', i), (''sizeGb'', JInt n), (''bus'', bus), (''format'', f)]
        @ (if rr \<noteq> JNull then [(''rotationRate'', rr)] else []) @ fs)"
    using assms unfolding build_troshkavm_disk_spec_def bind_eq_Some_conv by blast
  obtain k where "filter (\<lambda>k. k \<in> set image_keys) (map fst fs) = [k]" using source_keys[OF fs(1)] by blast
  then show ?thesis using fs(2-) by (simp add: image_keys_def)
qed

definition sample_snapshot :: json where
  "sample_snapshot = JObj [(''node_id'', JStr ''d1''), (''source'', JStr ''snapshot''), (''resolvedS3Path'', JStr ''s/1.qcow2'')]"

theorem disk_spec_has_one_source_witness:
  "\<exists>spec. build_troshkavm_disk_spec sample_snapshot (JObj []) = Some spec \<and> get spec ''id'' = Some (JStr ''d1'') \<and>
     index spec ''libraryImage'' \<noteq> None \<and> index spec ''blank'' = None"
proof -
  have "case build_troshkavm_disk_spec sample_snapshot (JObj []) of None \<Rightarrow> False
    | Some spec \<Rightarrow> index spec ''libraryImage'' \<noteq> None \<and> index spec ''blank'' = None" by code_simp
  then obtain spec where s: "build_troshkavm_disk_spec sample_snapshot (JObj []) = Some spec"
      "index spec ''libraryImage'' \<noteq> None \<and> index spec ''blank'' = None" by (auto split: option.splits)
  have "get spec ''id'' = get_or sample_snapshot ''node_id'' (JStr [])" using disk_spec_has_one_source[OF s(1)] by blast
  then show ?thesis using s by (simp add: sample_snapshot_def)
qed

section \<open>Disk buses\<close>

definition bus_rejected :: "json \<Rightarrow> json \<Rightarrow> bool" where
  "bus_rejected capabilities bus =
     (if \<not> truthy capabilities then bus \<in> set KUBEVIRT_UNSUPPORTED_DISK_BUSES
      else (case do { bv \<leftarrow> get capabilities ''diskBuses''; iter (py_or bv (JList [])) } of
              None \<Rightarrow> False
            | Some allowed \<Rightarrow> allowed \<noteq> [] \<and> bus \<notin> set allowed))"

lemma check_passed:
  assumes "check_vm_buses bad topology vms ids = Some None" "i \<in> set ids" "map_of vms i = Some vm" "truthy vm"
  shows "first_bad_bus bad topology i vm = Some None"
  using assms
proof (induction ids)
  case (Cons j ids)
  obtain v e where v: "lookup vms j JNull = Some v" "(if truthy v then first_bad_bus bad topology j v else Some None) = Some e"
      "(case e of Some err \<Rightarrow> Some (Some err) | None \<Rightarrow> check_vm_buses bad topology vms ids) = Some None"
    using Cons.prems(1) unfolding check_vm_buses.simps bind_eq_Some_conv by blast
  then have e: "e = None" "check_vm_buses bad topology vms ids = Some None" by (cases e; simp)+
  show ?case
  proof (cases "i = j")
    case True
    then have "v = vm" using v(1) Cons.prems(3) by (auto simp: lookup_def dict_get_def dest!: hkey_SomeD)
    then show ?thesis using v(2) e(1) Cons.prems(4) True by simp
  next
    case False
    then show ?thesis using Cons.IH[OF e(2)] Cons.prems by simp
  qed
qed simp

lemma no_bad_bus:
  assumes "first_bad_bus bad topology i vm = Some None" "build_troshkavm_vm_spec i vm topology = Some spec"
    and "index spec ''disks'' = Some (JList ds)" "disk \<in> set ds" "get_or disk ''bus'' (JStr ''virtio'') = Some bus"
  shows "\<not> bad bus"
proof -
  define p where "p = (\<lambda>disk. do { b \<leftarrow> get_or disk ''bus'' (JStr ''virtio''); k \<leftarrow> hkey b; Some (bad k) })"
  have g: "get_or spec ''disks'' (JList []) = Some (JList ds)" using assms(3) by (cases spec) auto
  have "ofind p ds \<noteq> None \<and> (\<forall>x. ofind p ds \<noteq> Some (Some x))"
    using assms(1,2) g unfolding first_bad_bus_def p_def[symmetric]
    by (auto simp: bind_eq_Some_conv split: option.split_asm)
  then have "ofind p ds = Some None" by (metis option.exhaust)
  then have "p disk = Some False" using assms(4) by (simp add: ofind_Some_None)
  then show ?thesis using assms(5) by (auto simp: p_def bind_eq_Some_conv dest!: hkey_SomeD)
qed

text \<open>Disk buses. When the check of the VMs to deploy reports nothing, no disk in the custom resource
  of any of them has a bus that the cluster's published capabilities leave out, or, without
  capabilities, that KubeVirt does not support.
\<close>

theorem checked_buses_supported:
  assumes "validate_kubevirt_vm_disk_buses current ids capabilities = Some None" "i \<in> set ids"
    and "vms_by_node_id current = Some vms" "map_of vms i = Some vm" "truthy vm"
    and "build_troshkavm_vm_spec i vm current = Some spec"
    and "index spec ''disks'' = Some (JList ds)" "disk \<in> set ds" "get_or disk ''bus'' (JStr ''virtio'') = Some bus"
  shows "\<not> bus_rejected capabilities bus"
proof (cases "truthy capabilities")
  case False
  then have "check_vm_buses (\<lambda>b. b \<in> set KUBEVIRT_UNSUPPORTED_DISK_BUSES) current vms ids = Some None"
    using assms(1,3) by (simp add: validate_kubevirt_vm_disk_buses_def)
  from no_bad_bus[OF check_passed[OF this assms(2,4,5)] assms(6-)] show ?thesis using False by (simp add: bus_rejected_def)
next
  case True
  then obtain bv bs where b: "get capabilities ''diskBuses'' = Some bv" "iter (py_or bv (JList [])) = Some bs" "omap hkey bs = Some bs"
      "bs = [] \<or> check_vm_buses (\<lambda>b. b \<notin> set bs) current vms ids = Some None"
    using assms(1,3)
    by (auto simp: validate_kubevirt_vm_disk_buses_def validate_vm_disk_buses_against_capabilities_def bind_eq_Some_conv
        dest: omap_hkey split: if_splits)
  then have "bs = [] \<or> bus \<in> set bs" using no_bad_bus[OF check_passed[OF _ assms(2,4,5)] assms(6-)] by blast
  then show ?thesis using True b(1,2) by (auto simp: bus_rejected_def)
qed

definition sample_vm_canvas :: json where
  "sample_vm_canvas = JObj [(''nodes'', JList [
      JObj [(''id'', JStr ''v1''), (''type'', JStr ''vmNode''),
        (''data'', JObj [(''diskControllers'', JList [JObj [(''id'', JStr ''dp-1''), (''bus'', JStr ''scsi'')]])])],
      JObj [(''id'', JStr ''d1''), (''type'', JStr ''storageNode'')]]),
    (''edges'', JList [JObj [(''source'', JStr ''v1''), (''target'', JStr ''d1''), (''sourceHandle'', JStr ''dp-dp-1-left''),
      (''targetHandle'', JStr ''disk'')]])]"

definition sample_capabilities :: json where
  "sample_capabilities = JObj [(''diskBuses'', JList [JStr ''virtio'', JStr ''scsi''])]"

definition sample_vm_entry :: json where
  "sample_vm_entry = (case extract_vms sample_vm_canvas of Some [vm] \<Rightarrow> vm | _ \<Rightarrow> JNull)"

definition sample_spec :: json where
  "sample_spec = (case build_troshkavm_vm_spec (JStr ''v1'') sample_vm_entry sample_vm_canvas of Some s \<Rightarrow> s | None \<Rightarrow> JNull)"

definition sample_disk_spec :: json where
  "sample_disk_spec = JObj [(''id'', JStr ''d1''), (''sizeGb'', JInt 10), (''bus'', JStr ''scsi''), (''format'', JStr ''qcow2''),
     (''blank'', JBool True)]"

lemma sample_buses:
  "validate_kubevirt_vm_disk_buses sample_vm_canvas [JStr ''v1''] sample_capabilities = Some None"
  "vms_by_node_id sample_vm_canvas = Some [(JStr ''v1'', sample_vm_entry)]"
  "truthy sample_vm_entry"
  "build_troshkavm_vm_spec (JStr ''v1'') sample_vm_entry sample_vm_canvas = Some sample_spec"
  "index sample_spec ''disks'' = Some (JList [sample_disk_spec])"
  by code_simp+

theorem checked_buses_supported_witness:
  "\<not> bus_rejected sample_capabilities (JStr ''scsi'') \<and> bus_rejected sample_capabilities (JStr ''sata'')"
proof
  show "\<not> bus_rejected sample_capabilities (JStr ''scsi'')"
    by (rule checked_buses_supported[OF sample_buses(1) _ sample_buses(2) _ sample_buses(3-5), of sample_disk_spec])
      (simp, simp, simp, code_simp)
  show "bus_rejected sample_capabilities (JStr ''sata'')" by code_simp
qed

end
