(* ===== verification/Instance_Rates.thy ===== *)
theory Instance_Rates
  imports Metering_Math
begin

text \<open>
  Prices of hosts (\<open>src/src/backend/app/services/instance_rates.py\<close>): the catalogue of instance
  prices, and how the hourly price of a host is split into rates per vCPU and per GiB of RAM. The
  catalogue is a JSON file of the repository and a parameter here.
\<close>

definition RATE_KEYS :: "string list" where
  "RATE_KEYS = [''vcpu_hour'', ''ram_gib_hour'', ''disk_gib_hour'', ''eip_hour'', ''ceph_gib_hour'']"

type_synonym rate_map = "(string \<times> rat) list"

definition kubevirt_unit_rates :: "json \<Rightarrow> rate_map option" where
  "kubevirt_unit_rates catalog = do {
     k \<leftarrow> get catalog ''kubevirt_unit_rates'';
     let raw = py_or k (JObj []);
     omap (\<lambda>key. do { v \<leftarrow> get raw key; if v = JNull then Some (key, 0) else map_option (Pair key) (py_float v) }) RATE_KEYS
   }"

definition PROVIDER_ALIAS :: "(string \<times> string) list" where
  "PROVIDER_ALIAS = [(''aws'', ''ec2''), (''ec2'', ''ec2''), (''gcp'', ''gcp''), (''azure'', ''azure'')]"

definition lookup_instance :: "json \<Rightarrow> string \<Rightarrow> string option \<Rightarrow> json option option" where
  "lookup_instance catalog provider_type instance_type =
     (case instance_type of
        None \<Rightarrow> Some None
      | Some [] \<Rightarrow> Some None
      | Some itype \<Rightarrow> do {
          ps \<leftarrow> get catalog ''providers'';
          f \<leftarrow> get (py_or ps (JObj [])) (dict_get PROVIDER_ALIAS provider_type provider_type);
          row \<leftarrow> get (py_or f (JObj [])) itype;
          Some (if truthy row then Some row else None)
        })"

definition rate_or_zero :: "rate_map \<Rightarrow> string \<Rightarrow> rat" where
  "rate_or_zero m k = dict_get m k 0"

definition apportion_hourly :: "rat \<Rightarrow> rat \<Rightarrow> rat \<Rightarrow> rate_map \<Rightarrow> rate_map" where
  "apportion_hourly hourly_usd vcpus ram_gib base =
     (let cpu_w = vcpus * rate_or_zero base ''vcpu_hour'';
          ram_w = ram_gib * rate_or_zero base ''ram_gib_hour'';
          weight = cpu_w + ram_w
      in if hourly_usd \<le> 0 \<or> weight \<le> 0 then base
         else let b1 = (if vcpus > 0 then AList.update ''vcpu_hour'' (hourly_usd * (cpu_w / weight) / vcpus) base else base)
              in if ram_gib > 0 then AList.update ''ram_gib_hour'' (hourly_usd * (ram_w / weight) / ram_gib) b1 else b1)"

text \<open>\<open>re.compile(r"^(\d+)c-(\d+)g$")\<close>.\<close>

definition sized :: "char \<Rightarrow> string \<Rightarrow> nat option" where
  "sized unit s =
     (if s \<noteq> [] \<and> List.last s = unit \<and> butlast s \<noteq> [] \<and> list_all is_digit (butlast s) then Some (digits_val (butlast s)) else None)"

definition ocpvirt_size :: "string \<Rightarrow> (nat \<times> nat) option" where
  "ocpvirt_size s =
     (case py_split (CHR ''-'') s of
        [a, b] \<Rightarrow> do { c \<leftarrow> sized (CHR ''c'') a; g \<leftarrow> sized (CHR ''g'') b; Some (c, g) }
      | _ \<Rightarrow> None)"

definition ocpvirt_host_hourly :: "json \<Rightarrow> string option \<Rightarrow> (rat \<times> rat \<times> rat) option option" where
  "ocpvirt_host_hourly catalog instance_type =
     (case ocpvirt_size (case instance_type of None \<Rightarrow> [] | Some s \<Rightarrow> s) of
        None \<Rightarrow> Some None
      | Some (c, g) \<Rightarrow> do {
          kv \<leftarrow> kubevirt_unit_rates catalog;
          Some (Some (of_nat c * rate_or_zero kv ''vcpu_hour'' + of_nat g * rate_or_zero kv ''ram_gib_hour'', of_nat c, of_nat g))
        })"

text \<open>\<open>row.get(k) or x\<close> as a number.\<close>

definition row_number :: "json \<Rightarrow> string \<Rightarrow> rat \<Rightarrow> rat option" where
  "row_number row k dflt = do { v \<leftarrow> get row k; if truthy v then py_float v else Some dflt }"

definition opt_number :: "rat option \<Rightarrow> rat" where
  "opt_number v = (case v of None \<Rightarrow> 0 | Some x \<Rightarrow> x)"

definition catalog_capacity :: "json \<Rightarrow> string \<Rightarrow> string option \<Rightarrow> rat option \<Rightarrow> rat option \<Rightarrow> (rat \<times> rat) option" where
  "catalog_capacity catalog provider_type instance_type host_vcpus host_ram_gib = do {
     r \<leftarrow> lookup_instance catalog provider_type instance_type;
     (case r of
        Some row \<Rightarrow> do { v \<leftarrow> row_number row ''vcpus'' 0; m \<leftarrow> row_number row ''ram_gib'' 0; Some (v, m) }
      | None \<Rightarrow> Some (opt_number host_vcpus, opt_number host_ram_gib))
   }"

definition host_capacity :: "json \<Rightarrow> string \<Rightarrow> string option \<Rightarrow> rat option \<Rightarrow> rat option \<Rightarrow> (rat \<times> rat) option" where
  "host_capacity catalog provider_type instance_type host_vcpus host_ram_gib = do {
     parsed \<leftarrow> (if provider_type = ''ocpvirt'' then ocpvirt_host_hourly catalog instance_type else Some None);
     (case parsed of
        Some (_, vcpus, ram_gib) \<Rightarrow> Some (vcpus, ram_gib)
      | None \<Rightarrow> catalog_capacity catalog provider_type instance_type host_vcpus host_ram_gib)
   }"

definition rates_for_host :: "json \<Rightarrow> string \<Rightarrow> string option \<Rightarrow> rat option \<Rightarrow> rat option \<Rightarrow> rate_map option option" where
  "rates_for_host catalog provider_type instance_type host_vcpus host_ram_gib =
     (if provider_type = ''kubevirt'' then map_option Some (kubevirt_unit_rates catalog)
      else if provider_type = ''ocpvirt'' then do {
        parsed \<leftarrow> ocpvirt_host_hourly catalog instance_type;
        base \<leftarrow> kubevirt_unit_rates catalog;
        Some (Some (case parsed of None \<Rightarrow> base | Some (hourly, vcpus, ram_gib) \<Rightarrow> apportion_hourly hourly vcpus ram_gib base))
      }
      else do {
        r \<leftarrow> lookup_instance catalog provider_type instance_type;
        (case r of
           None \<Rightarrow> Some None
         | Some row \<Rightarrow> do {
             vcpus \<leftarrow> row_number row ''vcpus'' (opt_number host_vcpus);
             ram_gib \<leftarrow> row_number row ''ram_gib'' (opt_number host_ram_gib);
             h \<leftarrow> index row ''hourly_usd'';
             hourly \<leftarrow> py_float h;
             base \<leftarrow> kubevirt_unit_rates catalog;
             Some (Some (apportion_hourly hourly vcpus ram_gib base))
           })
      })"

section \<open>Laws\<close>

lemma omap_keyed: "omap f ks = Some m \<Longrightarrow> (\<And>k x. f k = Some x \<Longrightarrow> fst x = k) \<Longrightarrow> map fst m = ks"
  by (induction ks arbitrary: m) (auto simp: bind_eq_Some_conv)

lemma kubevirt_rates_keys:
  assumes "kubevirt_unit_rates catalog = Some m"
  shows "map fst m = RATE_KEYS"
proof -
  from assms obtain k where "omap (\<lambda>key. do { v \<leftarrow> get (py_or k (JObj [])) key;
      if v = JNull then Some (key, 0) else map_option (Pair key) (py_float v) }) RATE_KEYS = Some m"
    unfolding kubevirt_unit_rates_def Let_def bind_eq_Some_conv by blast
  then show ?thesis by (rule omap_keyed) (auto simp: bind_eq_Some_conv split: if_splits)
qed

lemma update_rate: "rate_or_zero (AList.update k v m) k' = (if k' = k then v else rate_or_zero m k')"
  by (simp add: rate_or_zero_def dict_get_def map_of_update)

lemma apportion_keys: "fst ` set m \<subseteq> fst ` set (apportion_hourly h v r m)"
  by (auto simp: apportion_hourly_def Let_def dom_map_of_conv_image_fst[symmetric] map_of_update domIff split: if_splits)

text \<open>
  Splitting the price of a host loses nothing: what the vCPUs and the RAM cost at the rates is the
  hourly price, when the base rates weigh both.
\<close>

theorem apportioned_price:
  assumes "0 < hourly" "0 < vcpus" "0 < ram" "0 < rate_or_zero base ''vcpu_hour''" "0 < rate_or_zero base ''ram_gib_hour''"
  shows "vcpus * rate_or_zero (apportion_hourly hourly vcpus ram base) ''vcpu_hour'' +
    ram * rate_or_zero (apportion_hourly hourly vcpus ram base) ''ram_gib_hour'' = hourly"
proof -
  let ?c = "vcpus * rate_or_zero base ''vcpu_hour''" and ?r = "ram * rate_or_zero base ''ram_gib_hour''"
  have cancel: "0 < x \<Longrightarrow> x * (y / x) = y" for x y :: rat by simp
  have w: "0 < ?c + ?r" using assms by (simp add: add_pos_pos)
  have "hourly * (?c / (?c + ?r)) + hourly * (?r / (?c + ?r)) = hourly * ((?c + ?r) / (?c + ?r))"
    by (simp only: distrib_left add_divide_distrib)
  also have "\<dots> = hourly" using w by simp
  finally have price: "hourly * (?c / (?c + ?r)) + hourly * (?r / (?c + ?r)) = hourly" .
  have "vcpus * (hourly * (?c / (?c + ?r)) / vcpus) + ram * (hourly * (?r / (?c + ?r)) / ram) = hourly"
    using price by (simp only: cancel [OF assms(2)] cancel [OF assms(3)])
  moreover have "rate_or_zero (apportion_hourly hourly vcpus ram base) ''vcpu_hour'' = hourly * (?c / (?c + ?r)) / vcpus"
    "rate_or_zero (apportion_hourly hourly vcpus ram base) ''ram_gib_hour'' = hourly * (?r / (?c + ?r)) / ram"
    using assms w by (simp_all add: apportion_hourly_def Let_def update_rate)
  ultimately show ?thesis by (simp only:)
qed

end
