(* ===== verification/Metering_Store.thy ===== *)
theory Metering_Store
  imports Instance_Rates Models Cluster_Access
begin

text \<open>
  The tables of the metering service (\<open>src/src/backend/app/models/metering.py\<close>, with the columns of
  \<open>host.py\<close> and \<open>project.py\<close> it reads) and the rates and the snapshot of a project
  (\<open>src/src/backend/app/services/metering_service.py\<close>). The rate defaults are written by
  \<open>PUT /metering/rates\<close> as numbers; the override of a host is any JSON object. The configuration,
  the price catalogue, the cached VM states and the iteration orders of sets are the environment.
\<close>

section \<open>Tables\<close>

record m_host = host +
  mh_instance_type :: "string option"
  mh_billing_mode :: "string option"
  mh_metering_rates :: json

record m_project = project +
  mp_budget_usd :: "rat option"
  mp_budget_warned :: bool
  mp_budget_stopped :: bool
  mp_disks :: "(string \<times> int) list"

record metering_interval =
  mi_id :: nat
  mi_project_id :: string
  mi_kind :: string
  mi_resource_id :: string
  mi_qty :: rat
  mi_unit_rate :: rat
  mi_host_id :: json
  mi_provider_type :: json
  mi_started_at :: time
  mi_ended_at :: "time option"

record kind_line =
  kl_kind :: string
  kl_hours :: rat
  kl_qty_hours :: rat
  kl_subtotal :: rat
  kl_unit_rate :: rat
  kl_hosts :: "json list"

record project_invoice =
  iv_project_id :: string
  iv_project_name :: string
  iv_owner_id :: string
  iv_total_usd :: rat
  iv_by_kind :: "kind_line list"
  iv_period_start :: time
  iv_period_end :: time
  iv_finalized_at :: time

record project_line =
  pl_project_id :: string
  pl_project_name :: string
  pl_subtotal :: rat
  pl_by_kind :: "usage_line list"

record monthly_statement =
  ms_owner_id :: "string option"
  ms_period_start :: time
  ms_period_end :: time
  ms_total_usd :: rat
  ms_by_project :: "project_line list"
  ms_status :: string
  ms_finalized_at :: "time option"

record metering_db =
  mt_hosts :: "m_host list"
  mt_providers :: "provider list"
  mt_projects :: "m_project list"
  mt_eips :: "elastic_ip list"
  mt_rate_defaults :: "(string \<times> rate_map) list"
  mt_intervals :: "metering_interval list"
  mt_invoices :: "project_invoice list"
  mt_statements :: "monthly_statement list"
  mt_next_id :: nat

record metering_env =
  me_enabled :: bool
  me_warn_ratio :: rat
  me_nested_factor :: rat
  me_catalog :: json
  me_cached_states :: "string \<Rightarrow> json"
  me_set_order :: "desired list \<Rightarrow> desired list"
  me_owner_order :: "string option list \<Rightarrow> string option list"

text \<open>A \<open>Numeric(18, 6)\<close> column keeps six decimals, rounding half away from zero. The rounding is
  seen when the row is read again after the commit.\<close>

definition numeric6 :: "rat \<Rightarrow> rat" where
  "numeric6 q = (if q < 0 then - of_int \<lfloor>- q * 1000000 + 1 / 2\<rfloor> else of_int \<lfloor>q * 1000000 + 1 / 2\<rfloor>) / 1000000"

definition commit_interval :: "metering_interval \<Rightarrow> metering_interval" where
  "commit_interval row = row\<lparr>mi_qty := numeric6 (mi_qty row), mi_unit_rate := numeric6 (mi_unit_rate row)\<rparr>"

definition commit :: "metering_db \<Rightarrow> metering_db" where
  "commit db = db\<lparr>
     mt_intervals := map commit_interval (mt_intervals db),
     mt_invoices := map (\<lambda>i. i\<lparr>iv_total_usd := numeric6 (iv_total_usd i)\<rparr>) (mt_invoices db),
     mt_statements := map (\<lambda>s. s\<lparr>ms_total_usd := numeric6 (ms_total_usd s)\<rparr>) (mt_statements db)\<rparr>"

section \<open>Rates of a host\<close>

definition load_type_rates :: "metering_db \<Rightarrow> (string \<times> rate_map) list" where
  "load_type_rates db = mt_rate_defaults db"

definition typed_rate_row :: "string \<Rightarrow> (string \<times> rate_map) list \<Rightarrow> rate_map" where
  "typed_rate_row ptype type_rates =
     (let typed = dict_get type_rates ptype []
      in if typed \<noteq> [] then typed
         else if ptype = ''ec2'' then dict_get type_rates ''aws'' []
         else if ptype = ''aws'' then dict_get type_rates ''ec2'' []
         else [])"

definition apply_rate_map :: "rate_map \<Rightarrow> json \<Rightarrow> rate_map option" where
  "apply_rate_map out rates =
     (if \<not> truthy rates then Some out
      else (case rates of
              JObj kvs \<Rightarrow> ofold (\<lambda>out (key, v).
                if key \<in> set RATE_KEYS \<and> v \<noteq> JNull then map_option (\<lambda>x. AList.update key x out) (py_float v)
                else Some out) out kvs
            | _ \<Rightarrow> None))"

definition rates_json :: "rate_map \<Rightarrow> json" where
  "rates_json m = JObj (map (apsnd JFloat) m)"

definition dict_update :: "('k \<times> 'v) list \<Rightarrow> ('k \<times> 'v) list \<Rightarrow> ('k \<times> 'v) list" where
  "dict_update m n = foldl (\<lambda>m (k, v). AList.update k v m) m n"

definition DEFAULT_TYPES :: "string list" where
  "DEFAULT_TYPES = [''ec2'', ''aws'', ''gcp'', ''azure'', ''kubevirt'', ''ocpvirt'', ''libvirt'', ''unknown'']"

definition merge_rate_maps :: "metering_env \<Rightarrow> (string \<times> rate_map) list \<Rightarrow> (string \<times> rate_map) list option" where
  "merge_rate_maps env stored = do {
     fallback \<leftarrow> kubevirt_unit_rates (me_catalog env);
     Some (map (\<lambda>ptype. (ptype, dict_update fallback (dict_get stored ptype [])))
       (sort (remdups (DEFAULT_TYPES @ map fst stored))))
   }"

text \<open>\<open>float(host.total_vcpus) if host and host.total_vcpus else None\<close>, and the same for the RAM in GiB.\<close>

definition host_vcpus :: "m_host option \<Rightarrow> rat option" where
  "host_vcpus hst = (case hst of None \<Rightarrow> None | Some h \<Rightarrow> if h_total_vcpus h = 0 then None else Some (of_int (h_total_vcpus h)))"

definition host_ram :: "m_host option \<Rightarrow> rat option" where
  "host_ram hst = (case hst of None \<Rightarrow> None | Some h \<Rightarrow> if h_total_ram_mb h = 0 then None else Some (of_int (h_total_ram_mb h) / 1024))"

definition host_billing_mode :: "m_host option \<Rightarrow> string" where
  "host_billing_mode hst =
     (case hst of None \<Rightarrow> ''shared'' | Some h \<Rightarrow> (case mh_billing_mode h of None \<Rightarrow> ''shared'' | Some s \<Rightarrow> if s = [] then ''shared'' else s))"

definition host_instance_type :: "m_host option \<Rightarrow> string option" where
  "host_instance_type hst = (case hst of None \<Rightarrow> None | Some h \<Rightarrow> mh_instance_type h)"

definition nested_discount :: "metering_env \<Rightarrow> m_host option \<Rightarrow> string \<Rightarrow> rate_map \<Rightarrow> rate_map" where
  "nested_discount env hst ptype out =
     (if host_billing_mode hst \<noteq> ''dedicated'' \<and> ptype \<noteq> ''kubevirt''
      then let o1 = AList.update ''vcpu_hour'' (rate_or_zero out ''vcpu_hour'' * me_nested_factor env) out
           in AList.update ''ram_gib_hour'' (rate_or_zero o1 ''ram_gib_hour'' * me_nested_factor env) o1
      else out)"

definition compose_host_rates :: "metering_env \<Rightarrow> m_host option \<Rightarrow> string \<Rightarrow> (string \<times> rate_map) list \<Rightarrow> rate_map option" where
  "compose_host_rates env hst ptype type_rates = do {
     base \<leftarrow> kubevirt_unit_rates (me_catalog env);
     out \<leftarrow> apply_rate_map base (rates_json (typed_rate_row ptype type_rates));
     derived \<leftarrow> rates_for_host (me_catalog env) ptype (host_instance_type hst) (host_vcpus hst) (host_ram hst);
     let out = (case derived of None \<Rightarrow> out | Some d \<Rightarrow> dict_update out d);
     let out = nested_discount env hst ptype out;
     apply_rate_map out (case hst of None \<Rightarrow> JNull | Some h \<Rightarrow> mh_metering_rates h)
   }"

section \<open>Snapshot of a project\<close>

definition topo_list :: "json \<Rightarrow> string \<Rightarrow> json list option" where
  "topo_list topology k = do { v \<leftarrow> get (py_or topology (JObj [])) k; iter (py_or v (JList [])) }"

definition start_auto_map :: "json \<Rightarrow> (string \<times> bool) list option" where
  "start_auto_map topology = do {
     entries \<leftarrow> topo_list topology ''startOrder'';
     ofold (\<lambda>out entry. do {
       vid \<leftarrow> get entry ''vmId'';
       if truthy vid then
         (case index entry ''autoStart'' of
            None \<Rightarrow> Some out
          | Some a \<Rightarrow> map_option (\<lambda>s. AList.update s (a \<noteq> JBool False) out) (py_str vid))
       else Some out
     }) [] entries
   }"

text \<open>\<open>d.get(k)\<close> for a key that is itself a JSON value: the keys of a document are texts, and a list
  or an object is not hashable.\<close>

definition get_key :: "json \<Rightarrow> json \<Rightarrow> json option" where
  "get_key d k = (case k of JStr s \<Rightarrow> get d s | JList _ \<Rightarrow> None | JObj _ \<Rightarrow> None | _ \<Rightarrow> if is_obj d then Some JNull else None)"

text \<open>\<open>data.get(a) or data.get(b) or ... or x\<close>.\<close>

fun get_first :: "json \<Rightarrow> string list \<Rightarrow> json \<Rightarrow> json option" where
  "get_first d [] dflt = Some dflt"
| "get_first d (k # ks) dflt = do { v \<leftarrow> get d k; if truthy v then Some v else get_first d ks dflt }"

definition opt_bool :: "bool option \<Rightarrow> json" where
  "opt_bool b = (case b of None \<Rightarrow> JNull | Some x \<Rightarrow> JBool x)"

definition typed_data :: "string \<Rightarrow> json \<Rightarrow> json option option" where
  "typed_data ty node = do {
     t \<leftarrow> get node ''type'';
     if t \<noteq> JStr ty then Some None
     else do { d \<leftarrow> get node ''data''; Some (Some (py_or d (JObj []))) }
   }"

definition vm_entry :: "json \<Rightarrow> (string \<times> bool) list \<Rightarrow> json \<Rightarrow> json list option" where
  "vm_entry live_states auto_map node = do {
     td \<leftarrow> typed_data ''vmNode'' node;
     (case td of
        None \<Rightarrow> Some []
      | Some data \<Rightarrow> do {
          g \<leftarrow> get data ''ram_gib'';
          ram \<leftarrow> (if g = JNull then get_first data [''ram''] (JInt 0) else Some g);
          nid \<leftarrow> get node ''id'';
          running \<leftarrow> get data ''running'';
          st \<leftarrow> get data ''state'';
          pw \<leftarrow> get data ''power'';
          live \<leftarrow> get_key live_states nid;
          vcpus \<leftarrow> get_first data [''vcpus''] (JInt 0);
          h \<leftarrow> get data ''hostId'';
          h' \<leftarrow> get data ''host_id'';
          s \<leftarrow> py_str nid;
          pod \<leftarrow> get data ''powerOnAtDeploy'';
          defr \<leftarrow> get data ''deferOcpInstall'';
          Some [JObj [(''id'', nid), (''running'', running), (''state'', py_or st pw), (''live_state'', live),
            (''vcpus'', vcpus), (''ram_gib'', ram), (''host_id'', py_or h h'), (''auto_start'', opt_bool (map_of auto_map s)),
            (''power_on_at_deploy'', pod), (''defer_ocp_install'', defr)]]
        })
   }"

definition vm_nodes :: "json \<Rightarrow> json \<Rightarrow> json list option" where
  "vm_nodes topology live_states = do {
     auto_map \<leftarrow> start_auto_map topology;
     nodes \<leftarrow> topo_list topology ''nodes'';
     map_option concat (omap (vm_entry (py_or live_states (JObj [])) auto_map) nodes)
   }"

definition storage_entry :: "json \<Rightarrow> json \<Rightarrow> json list option" where
  "storage_entry node data = do {
     size \<leftarrow> get_first data [''size_gib'', ''sizeGb'', ''size''] (JInt 0);
     nid \<leftarrow> get node ''id'';
     h \<leftarrow> get data ''hostId'';
     h' \<leftarrow> get data ''host_id'';
     Some [JObj [(''id'', nid), (''size_gib'', size), (''host_id'', py_or h h')]]
   }"

definition disk_entry :: "json \<Rightarrow> json list option" where
  "disk_entry node = do {
     td \<leftarrow> typed_data ''storageNode'' node;
     (case td of
        None \<Rightarrow> Some []
      | Some data \<Rightarrow> do {
          f \<leftarrow> get data ''format'';
          fmt \<leftarrow> map_option py_lower (py_str (py_or f (JStr [])));
          iso \<leftarrow> get data ''bootableIso'';
          if fmt = ''iso'' \<or> truthy iso then Some [] else storage_entry node data
        })
   }"

definition topology_disks :: "json \<Rightarrow> json list option" where
  "topology_disks topology = do { nodes \<leftarrow> topo_list topology ''nodes''; map_option concat (omap disk_entry nodes) }"

definition ceph_entry :: "json \<Rightarrow> json list option" where
  "ceph_entry node = do {
     td \<leftarrow> typed_data ''storageNode'' node;
     (case td of
        None \<Rightarrow> Some []
      | Some data \<Rightarrow> do {
          c \<leftarrow> get data ''ceph'';
          k \<leftarrow> get data ''kind'';
          b \<leftarrow> get data ''backend'';
          is_ceph \<leftarrow> (if truthy c \<or> k = JStr ''ceph'' then Some True
                     else map_option (\<lambda>s. contains_text ''ceph'' (py_lower s)) (py_str (py_or b (JStr []))));
          if is_ceph then storage_entry node data else Some []
        })
   }"

definition ceph_nodes :: "json \<Rightarrow> json list option" where
  "ceph_nodes topology = do { nodes \<leftarrow> topo_list topology ''nodes''; map_option concat (omap ceph_entry nodes) }"

definition host_provider_type :: "metering_db \<Rightarrow> m_host option \<Rightarrow> string" where
  "host_provider_type db hst =
     (case hst of
        None \<Rightarrow> ''unknown''
      | Some h \<Rightarrow>
          (case h_provider_id h of
             None \<Rightarrow> ''unknown''
           | Some i \<Rightarrow> if i = [] then ''unknown''
               else (case find (\<lambda>v. v_id v = i) (mt_providers db) of
                       None \<Rightarrow> ''unknown''
                     | Some v \<Rightarrow> if v_type v = [] then ''unknown'' else v_type v)))"

definition opt_json :: "string option \<Rightarrow> json" where
  "opt_json v = (case v of None \<Rightarrow> JNull | Some s \<Rightarrow> JStr s)"

definition snapshot_disks :: "m_project \<Rightarrow> json \<Rightarrow> json list option" where
  "snapshot_disks p topology = do {
     let own = map (\<lambda>(i, size). JObj [(''id'', JStr i), (''size_gib'', JInt size), (''host_id'', opt_json (p_host_id p))]) (mp_disks p);
     items \<leftarrow> topology_disks topology;
     st \<leftarrow> ofold (\<lambda>(disks, seen) item. do {
         i \<leftarrow> index item ''id'';
         k \<leftarrow> hkey i;
         Some (if k \<in> set seen then (disks, seen) else (disks @ [item], k # seen))
       }) (own, map (\<lambda>(i, _). JStr i) (mp_disks p)) items;
     Some (fst st)
   }"

definition meter_topology :: "m_project \<Rightarrow> json" where
  "meter_topology p = py_or (p_deployed_topology p) (py_or (p_topology p) (JObj []))"

definition snapshot_eips :: "metering_db \<Rightarrow> m_project \<Rightarrow> json list" where
  "snapshot_eips db p =
     map (\<lambda>e. JObj [(''id'', JStr (e_id e)), (''host_id'', py_or (opt_json (e_host_id e)) (opt_json (p_host_id p)))])
       (filter (\<lambda>e. e_project_id e = Some (p_id p) \<and> e_state e \<in> {''associated'', ''allocated''}) (mt_eips db))"

text \<open>The snapshot: the document that \<^const>\<open>desired_resources\<close> reads, and the rates of the host, which the
  code keeps under the key \<open>host_rates\<close> of it.\<close>

definition build_snapshot :: "metering_env \<Rightarrow> metering_db \<Rightarrow> m_project \<Rightarrow> (json \<times> rate_map) option option" where
  "build_snapshot env db p =
     (case p_host_id p of
        None \<Rightarrow> Some None
      | Some hid \<Rightarrow>
          if hid = [] \<or> p_state p = ''draft'' then Some None
          else do {
            let hst = find (\<lambda>h. h_id h = hid) (mt_hosts db);
            let ptype = host_provider_type db hst;
            let topology = meter_topology p;
            let cached = py_or (me_cached_states env (p_id p)) (JObj []);
            live \<leftarrow> get cached ''states'';
            disks \<leftarrow> snapshot_disks p topology;
            cap \<leftarrow> host_capacity (me_catalog env) ptype (host_instance_type hst) (host_vcpus hst) (host_ram hst);
            host_rates \<leftarrow> compose_host_rates env hst ptype (load_type_rates db);
            vms \<leftarrow> vm_nodes topology live;
            ceph \<leftarrow> ceph_nodes topology;
            Some (Some (JObj [(''provider_type'', JStr ptype), (''host_id'', JStr hid),
              (''billing_mode'', JStr (host_billing_mode hst)), (''host_vcpus'', JFloat (fst cap)),
              (''host_ram_gib'', JFloat (snd cap)), (''project_state'', JStr (p_state p)), (''vms'', JList vms),
              (''disks'', JList disks), (''eips'', JList (snapshot_eips db p)), (''ceph'', JList ceph)], host_rates))
          })"

end
