(* ===== verification/Metering_Service.thy ===== *)
theory Metering_Service
  imports Metering_Store Meter_Diff
begin

text \<open>
  The meters, budgets and invoices of \<open>src/src/backend/app/services/metering_service.py\<close>. A reconcile is
  a plan read from the open meters (the ids to close, the meters to open with their rates) followed by
  the writes; an exception that leaves a function is \<^term>\<open>None\<close>, and the notifications and the stop
  job of the budget are the effects it returns.
\<close>

section \<open>Opening and closing meters\<close>

definition open_rows :: "metering_db \<Rightarrow> string \<Rightarrow> metering_interval list" where
  "open_rows db pid = filter (\<lambda>r. mi_project_id r = pid \<and> mi_ended_at r = None) (mt_intervals db)"

abbreviation interval_key :: "metering_interval \<Rightarrow> string \<times> string" where
  "interval_key r \<equiv> (mi_kind r, mi_resource_id r)"

definition close_intervals :: "nat list \<Rightarrow> time \<Rightarrow> metering_db \<Rightarrow> metering_db" where
  "close_intervals ids now db =
     db\<lparr>mt_intervals := map (\<lambda>r. if mi_id r \<in> set ids then r\<lparr>mi_ended_at := Some now\<rparr> else r) (mt_intervals db)\<rparr>"

definition open_interval :: "string \<Rightarrow> time \<Rightarrow> metering_db \<Rightarrow> desired \<times> rat \<Rightarrow> metering_db" where
  "open_interval pid now db = (\<lambda>((kind, rid, qty, hid, ptype), rate).
     db\<lparr>mt_intervals := mt_intervals db @ [\<lparr>mi_id = mt_next_id db, mi_project_id = pid, mi_kind = kind,
          mi_resource_id = rid, mi_qty = qty, mi_unit_rate = rate, mi_host_id = hid, mi_provider_type = ptype,
          mi_started_at = now, mi_ended_at = None\<rparr>],
        mt_next_id := mt_next_id db + 1\<rparr>)"

record rate_tables =
  rt_host :: rate_map
  rt_types :: "(string \<times> rate_map) list"
  rt_fallback :: rate_map

abbreviation known_rates :: "rate_map \<Rightarrow> rates" where
  "known_rates m \<equiv> map (apsnd Some) m"

text \<open>\<open>resolve_rate(kind, ptype, host_rates, type_rates, fallback)\<close>; a provider type that is not a text
  is in no table.\<close>

definition meter_rate :: "rate_tables \<Rightarrow> string \<Rightarrow> json \<Rightarrow> rat" where
  "meter_rate rt kind ptype =
     resolve_rate kind (case ptype of JStr s \<Rightarrow> s | _ \<Rightarrow> []) (known_rates (rt_host rt))
       (if is_str ptype then map (apsnd (\<lambda>m. known_rates m)) (rt_types rt) else []) (known_rates (rt_fallback rt))"

type_synonym close_open = "(string \<times> string) list \<times> desired list"

definition reopen_step ::
    "rate_tables \<Rightarrow> ((string \<times> string) \<times> rat \<times> json \<times> json) list \<Rightarrow> close_open \<Rightarrow> metering_interval \<Rightarrow> close_open" where
  "reopen_step rt desired_map st row =
     (let (close_keys, to_open) = st; key = interval_key row
      in if key \<in> set close_keys then st
         else (case map_of desired_map key of
                 None \<Rightarrow> st
               | Some (qty, hid, ptype) \<Rightarrow>
                   if \<bar>mi_unit_rate row - meter_rate rt (mi_kind row) ptype\<bar> \<le> 1 / 1000000 then st
                   else (key # close_keys,
                         if key \<in> desired_key ` set to_open then to_open
                         else to_open @ [(mi_kind row, mi_resource_id row, qty, hid, ptype)])))"

definition reopen_changed_rates :: "rate_tables \<Rightarrow> metering_interval list \<Rightarrow> desired list \<Rightarrow> close_open \<Rightarrow> close_open" where
  "reopen_changed_rates rt open_list desired st = foldl (reopen_step rt (desired_map_of desired)) st open_list"

definition reconcile_keys :: "rate_tables \<Rightarrow> metering_interval list \<Rightarrow> desired list \<Rightarrow> close_open" where
  "reconcile_keys rt open_list desired =
     (let (to_close, to_open) = diff_intervals (map (\<lambda>r. (mi_kind r, mi_resource_id r, mi_qty r)) open_list) desired
      in reopen_changed_rates rt open_list desired (map open_key to_close, to_open))"

record meter_plan =
  pn_close :: "nat list"
  pn_open :: "(desired \<times> rat) list"

definition reconcile_plan :: "rate_tables \<Rightarrow> metering_interval list \<Rightarrow> desired list \<Rightarrow> meter_plan" where
  "reconcile_plan rt open_list desired =
     (let (close_keys, to_open) = reconcile_keys rt open_list desired
      in \<lparr>pn_close = map mi_id (filter (\<lambda>r. interval_key r \<in> set close_keys) open_list),
          pn_open = map (\<lambda>d. (d, meter_rate rt (fst d) (snd (snd (snd (snd d)))))) to_open\<rparr>)"

definition apply_plan :: "string \<Rightarrow> time \<Rightarrow> meter_plan \<Rightarrow> metering_db \<Rightarrow> metering_db" where
  "apply_plan pid now plan db = foldl (open_interval pid now) (close_intervals (pn_close plan) now db) (pn_open plan)"

section \<open>Spend and budget\<close>

definition project_rows :: "metering_db \<Rightarrow> string \<Rightarrow> metering_interval list" where
  "project_rows db pid = filter (\<lambda>r. mi_project_id r = pid) (mt_intervals db)"

definition payload_row :: "metering_interval \<Rightarrow> usage_row" where
  "payload_row r = \<lparr>ur_kind = Some (mi_kind r), ur_qty = Some (mi_qty r), ur_rate = Some (mi_unit_rate r),
     ur_started_at = Some (mi_started_at r), ur_ended_at = mi_ended_at r\<rparr>"

definition live_spend_total :: "metering_db \<Rightarrow> string \<Rightarrow> time \<Rightarrow> rat option" where
  "live_spend_total db pid now = spend_total (map payload_row (project_rows db pid)) now"

datatype budget_effect =
    Budget_warning string rat rat
  | Budget_stop string rat rat
  | Spawn_stop string

definition warn_budget :: "metering_env \<Rightarrow> rat \<Rightarrow> rat \<Rightarrow> m_project \<Rightarrow> m_project \<times> budget_effect list" where
  "warn_budget env spend cap p =
     (if spend \<ge> me_warn_ratio env * cap \<and> \<not> mp_budget_warned p
      then (p\<lparr>mp_budget_warned := True\<rparr>, [Budget_warning (p_id p) spend cap]) else (p, []))"

definition stop_budget :: "rat \<Rightarrow> rat \<Rightarrow> m_project \<Rightarrow> m_project \<times> budget_effect list" where
  "stop_budget spend cap p =
     (if spend \<ge> cap \<and> p_state p = ''active'' \<and> \<not> mp_budget_stopped p
      then (p\<lparr>mp_budget_stopped := True\<rparr>, [Spawn_stop (p_id p), Budget_stop (p_id p) spend cap]) else (p, []))"

definition apply_budget :: "metering_env \<Rightarrow> m_project \<Rightarrow> rat \<Rightarrow> m_project \<times> budget_effect list" where
  "apply_budget env p spend =
     (case mp_budget_usd p of
        None \<Rightarrow> (p, [])
      | Some cap \<Rightarrow>
          if cap \<le> 0 then (p, [])
          else let (p1, es1) = warn_budget env spend cap p; (p2, es2) = stop_budget spend cap p1 in (p2, es1 @ es2))"

definition store_m_project :: "m_project \<Rightarrow> metering_db \<Rightarrow> metering_db" where
  "store_m_project p db = db\<lparr>mt_projects := map (\<lambda>q. if p_id q = p_id p then p else q) (mt_projects db)\<rparr>"

section \<open>Reconcile\<close>

record reconciled =
  rc_db :: metering_db
  rc_effects :: "budget_effect list"
  rc_spend :: rat

definition reconcile_snapshot ::
    "metering_env \<Rightarrow> metering_db \<Rightarrow> m_project \<Rightarrow> time \<Rightarrow> json \<times> rate_map \<Rightarrow> reconciled option" where
  "reconcile_snapshot env db p now snap = do {
     fallback \<leftarrow> kubevirt_unit_rates (me_catalog env);
     desired \<leftarrow> desired_resources (fst snap);
     let rt = \<lparr>rt_host = snd snap, rt_types = load_type_rates db, rt_fallback = fallback\<rparr>;
     let plan = reconcile_plan rt (open_rows db (p_id p)) (me_set_order env desired);
     let db1 = apply_plan (p_id p) now plan db;
     spend \<leftarrow> live_spend_total db1 (p_id p) now;
     let (p', effects) = apply_budget env p spend;
     Some \<lparr>rc_db = store_m_project p' db1, rc_effects = effects, rc_spend = spend\<rparr>
   }"

definition reconcile_project ::
    "metering_env \<Rightarrow> metering_db \<Rightarrow> m_project \<Rightarrow> time \<Rightarrow> (json \<times> rate_map) option \<Rightarrow> reconciled option" where
  "reconcile_project env db p now snapshot =
     (if \<not> me_enabled env then Some \<lparr>rc_db = db, rc_effects = [], rc_spend = 0\<rparr>
      else do {
        snap \<leftarrow> (case snapshot of Some s \<Rightarrow> Some (Some s) | None \<Rightarrow> build_snapshot env db p);
        (case snap of
           None \<Rightarrow> do { spend \<leftarrow> live_spend_total db (p_id p) now; Some \<lparr>rc_db = db, rc_effects = [], rc_spend = spend\<rparr> }
         | Some s \<Rightarrow> reconcile_snapshot env db p now s)
      })"

section \<open>Lines of the meters by kind\<close>

definition unit_row :: "time \<Rightarrow> metering_interval \<Rightarrow> usage_row" where
  "unit_row now r = \<lparr>ur_kind = None, ur_qty = Some 1, ur_rate = Some 1, ur_started_at = Some (mi_started_at r),
     ur_ended_at = Some (case mi_ended_at r of None \<Rightarrow> now | Some t \<Rightarrow> t)\<rparr>"

definition new_line :: "string \<Rightarrow> kind_line" where
  "new_line kind = \<lparr>kl_kind = kind, kl_hours = 0, kl_qty_hours = 0, kl_subtotal = 0, kl_unit_rate = 0, kl_hosts = []\<rparr>"

type_synonym line_acc = "(string \<times> kind_line) list \<times> (string \<times> usage_row list) list"

text \<open>The loop over the rows that \<open>live_spend\<close> and \<open>freeze_invoice\<close> both have.\<close>

definition line_step :: "time \<Rightarrow> line_acc \<Rightarrow> metering_interval \<Rightarrow> line_acc option" where
  "line_step now acc r = do {
     cost \<leftarrow> spend_total [payload_row r] now;
     hours \<leftarrow> spend_total [unit_row now r] now;
     let bucket = dict_get (fst acc) (mi_kind r) (new_line (mi_kind r));
     let bucket = bucket\<lparr>kl_qty_hours := kl_qty_hours bucket + mi_qty r * hours,
           kl_subtotal := kl_subtotal bucket + cost,
           kl_hosts := (if truthy (mi_host_id r) \<and> mi_host_id r \<notin> set (kl_hosts bucket)
                        then kl_hosts bucket @ [mi_host_id r] else kl_hosts bucket)\<rparr>;
     Some (AList.update (mi_kind r) bucket (fst acc),
           AList.update (mi_kind r) (dict_get (snd acc) (mi_kind r) [] @ [unit_row now r]) (snd acc))
   }"

definition finish_kind_line :: "time \<Rightarrow> (string \<times> usage_row list) list \<Rightarrow> kind_line \<Rightarrow> kind_line" where
  "finish_kind_line now spans line =
     line\<lparr>kl_hours := covered_seconds (dict_get spans (kl_kind line) []) now / 3600,
          kl_unit_rate := (if kl_qty_hours line > 0 then kl_subtotal line / kl_qty_hours line else 0)\<rparr>"

text \<open>The extremes of a list that is not empty.\<close>

definition earliest :: "time list \<Rightarrow> time" where "earliest ts = foldl min (hd ts) ts"

definition latest :: "time list \<Rightarrow> time" where "latest ts = foldl max (hd ts) ts"

definition running_window :: "m_project \<Rightarrow> metering_interval list \<Rightarrow> time \<Rightarrow> time option \<times> time option" where
  "running_window p rows now =
     (let since = (if rows \<noteq> [] then Some (earliest (map mi_started_at rows)) else p_deploy_started_at p)
      in if list_ex (\<lambda>r. mi_ended_at r = None) rows then (since, None)
         else if rows \<noteq> [] then (since, Some (latest (List.map_filter mi_ended_at rows)))
         else if p_state p \<in> {''stopped'', ''stopping''} then (since, Some now)
         else (since, None))"

record spend_report =
  sr_total_usd :: rat
  sr_by_kind :: "(string \<times> rat) list"
  sr_lines :: "kind_line list"
  sr_budget_usd :: "rat option"
  sr_budget_warned :: bool
  sr_budget_stopped :: bool
  sr_running_seconds :: rat
  sr_running_since :: "time option"
  sr_running_until :: "time option"

definition add_kind_cost :: "time \<Rightarrow> (string \<times> rat) list \<Rightarrow> metering_interval \<Rightarrow> (string \<times> rat) list option" where
  "add_kind_cost now m r = do {
     cost \<leftarrow> spend_total [payload_row r] now;
     Some (AList.update (mi_kind r) (dict_get m (mi_kind r) 0 + cost) m)
   }"

definition live_spend :: "metering_db \<Rightarrow> m_project \<Rightarrow> time \<Rightarrow> spend_report option" where
  "live_spend db p now = do {
     let rows = project_rows db (p_id p);
     by_kind \<leftarrow> ofold (add_kind_cost now) (map (\<lambda>(k, _). (k, 0)) KIND_TO_RATE) rows;
     acc \<leftarrow> ofold (line_step now) ([], []) rows;
     spend \<leftarrow> spend_total (map payload_row rows) now;
     let (since, until) = running_window p rows now;
     Some \<lparr>sr_total_usd = spend, sr_by_kind = by_kind,
       sr_lines = map (finish_kind_line now (snd acc)) (sort_key kl_kind (map snd (fst acc))),
       sr_budget_usd = mp_budget_usd p, sr_budget_warned = mp_budget_warned p, sr_budget_stopped = mp_budget_stopped p,
       sr_running_seconds = covered_seconds (map payload_row rows) now, sr_running_since = since, sr_running_until = until\<rparr>
   }"

end
