(* ===== verification/Metering_Statements.thy ===== *)
theory Metering_Statements
  imports Metering_Service
begin

text \<open>
  Invoices and monthly statements of \<open>src/src/backend/app/services/metering_service.py\<close>, and the loops that
  run the meters. A statement is found by its owner and the start of its month; the query takes the first.
\<close>

section \<open>The month of a time\<close>

text \<open>\<open>datetime\<close> keeps year, month and day; a time is a number here, so the year and the month are computed
  as \<open>date.fromordinal\<close> does, from the days since the first of year 1.\<close>

definition year_of_day :: "int \<Rightarrow> int" where
  "year_of_day n =
     (let n400 = n div 146097; r = n mod 146097;
          n100 = r div 36524; r1 = r mod 36524;
          n4 = r1 div 1461; r2 = r1 mod 1461;
          n1 = r2 div 365;
          year = n400 * 400 + 1 + n100 * 100 + n4 * 4 + n1
      in if n1 = 4 \<or> n100 = 4 then year - 1 else year)"

definition month_of_day :: "int \<Rightarrow> int \<Rightarrow> int" where
  "month_of_day y n = (case find (\<lambda>m. n < days_before_year y + days_before_month y (m + 1)) [1..11] of None \<Rightarrow> 12 | Some m \<Rightarrow> m)"

definition year_month :: "time \<Rightarrow> int \<times> int" where
  "year_month t = (let n = t div DAY + 719162; y = year_of_day n in (y, month_of_day y n))"

section \<open>Statements\<close>

primrec update_first :: "('a \<Rightarrow> bool) \<Rightarrow> ('a \<Rightarrow> 'a) \<Rightarrow> 'a list \<Rightarrow> 'a list" where
  "update_first P f [] = []"
| "update_first P f (x # xs) = (if P x then f x # xs else x # update_first P f xs)"

primrec delete_first :: "('a \<Rightarrow> bool) \<Rightarrow> 'a list \<Rightarrow> 'a list" where
  "delete_first P [] = []"
| "delete_first P (x # xs) = (if P x then xs else x # delete_first P xs)"

definition statement_is :: "string option \<Rightarrow> time \<Rightarrow> monthly_statement \<Rightarrow> bool" where
  "statement_is owner start s \<longleftrightarrow> ms_owner_id s = owner \<and> ms_period_start s = start"

definition draft_statement :: "string option \<Rightarrow> time \<Rightarrow> time \<Rightarrow> monthly_statement" where
  "draft_statement owner start stop = \<lparr>ms_owner_id = owner, ms_period_start = start, ms_period_end = stop,
     ms_total_usd = 0, ms_by_project = [], ms_status = ''draft'', ms_finalized_at = None\<rparr>"

definition get_or_create_statement :: "metering_db \<Rightarrow> string option \<Rightarrow> int \<Rightarrow> int \<Rightarrow> (metering_db \<times> monthly_statement) option" where
  "get_or_create_statement db owner year month = do {
     (start, stop) \<leftarrow> month_bounds year month;
     Some (case find (statement_is owner start) (mt_statements db) of
             Some s \<Rightarrow> (db, s)
           | None \<Rightarrow> let s = draft_statement owner start stop
               in (db\<lparr>mt_statements := mt_statements db @ [s]\<rparr>, s))
   }"

definition set_project_month_lines :: "string \<Rightarrow> string \<Rightarrow> rat \<Rightarrow> usage_line list \<Rightarrow> monthly_statement \<Rightarrow> monthly_statement" where
  "set_project_month_lines pid pname subtotal by_kind s =
     (let kept = filter (\<lambda>l. pl_project_id l \<noteq> pid) (ms_by_project s);
          added = (if subtotal > 0 \<or> by_kind \<noteq> []
                   then kept @ [\<lparr>pl_project_id = pid, pl_project_name = pname, pl_subtotal = subtotal, pl_by_kind = by_kind\<rparr>]
                   else kept);
          projects = sort_key (\<lambda>l. (pl_project_name l, pl_project_id l)) added
      in s\<lparr>ms_by_project := projects, ms_total_usd := sum_list (map pl_subtotal projects)\<rparr>)"

definition interval_payload :: "time \<Rightarrow> metering_interval \<Rightarrow> usage_row" where
  "interval_payload now r =
     (payload_row r)\<lparr>ur_ended_at := Some (case mi_ended_at r of None \<Rightarrow> now | Some t \<Rightarrow> t)\<rparr>"

text \<open>The body of both loops: the usage of a month replaces the project's line of a statement that is
  not final.\<close>

definition contribute_month :: "m_project \<Rightarrow> metering_interval list \<Rightarrow> time \<Rightarrow> metering_db \<Rightarrow> int \<times> int \<Rightarrow> metering_db option" where
  "contribute_month p rows now db ym = do {
     (start, stop) \<leftarrow> month_bounds (fst ym) (snd ym);
     (db1, s) \<leftarrow> get_or_create_statement db (Some (p_owner_id p)) (fst ym) (snd ym);
     if ms_status s = ''final'' then Some db1
     else let (subtotal, by_kind) = period_usage (map (interval_payload now) rows) start stop now
          in Some (db1\<lparr>mt_statements := update_first (statement_is (Some (p_owner_id p)) start)
               (set_project_month_lines (p_id p) (p_name p) subtotal by_kind) (mt_statements db1)\<rparr>)
   }"

definition contribute_intervals_to_months :: "metering_db \<Rightarrow> m_project \<Rightarrow> metering_interval list \<Rightarrow> time \<Rightarrow> metering_db option" where
  "contribute_intervals_to_months db p rows now =
     (if rows = [] \<or> p_owner_id p = [] then Some db
      else do {
        months \<leftarrow> months_spanned (year_month (earliest (map mi_started_at rows))) now;
        ofold (contribute_month p rows now) db months
      })"

section \<open>Invoice of a project\<close>

record frozen =
  fz_db :: metering_db
  fz_effects :: "budget_effect list"
  fz_invoice :: project_invoice

definition make_invoice :: "m_project \<Rightarrow> metering_interval list \<Rightarrow> time \<Rightarrow> project_invoice option" where
  "make_invoice p rows now = do {
     acc \<leftarrow> ofold (line_step now) ([], []) rows;
     let lines = map (finish_kind_line now (snd acc)) (map snd (fst acc));
     Some \<lparr>iv_project_id = p_id p, iv_project_name = p_name p, iv_owner_id = p_owner_id p,
       iv_total_usd = sum_list (map kl_subtotal lines), iv_by_kind = lines,
       iv_period_start = (if rows \<noteq> [] then earliest (map mi_started_at rows) else now),
       iv_period_end = now, iv_finalized_at = now\<rparr>
   }"

definition close_all :: "string \<Rightarrow> time \<Rightarrow> metering_db \<Rightarrow> metering_db" where
  "close_all pid now db = close_intervals (map mi_id (open_rows db pid)) now db"

definition freeze_invoice :: "metering_env \<Rightarrow> metering_db \<Rightarrow> m_project \<Rightarrow> time \<Rightarrow> frozen option" where
  "freeze_invoice env db p now = do {
     rc \<leftarrow> reconcile_project env db p now None;
     let db1 = close_all (p_id p) now (rc_db rc);
     let rows = project_rows db1 (p_id p);
     invoice \<leftarrow> make_invoice p rows now;
     db2 \<leftarrow> contribute_intervals_to_months (db1\<lparr>mt_invoices := mt_invoices db1 @ [invoice]\<rparr>) p rows now;
     Some \<lparr>fz_db = db2, fz_effects = rc_effects rc, fz_invoice = invoice\<rparr>
   }"

section \<open>Final statements\<close>

definition finalize_owner_statement ::
    "metering_db \<Rightarrow> string option \<Rightarrow> time \<Rightarrow> time \<Rightarrow> metering_db \<times> monthly_statement option" where
  "finalize_owner_statement db owner start now =
     (case find (statement_is owner start) (mt_statements db) of
        None \<Rightarrow> (db, None)
      | Some s \<Rightarrow>
          if ms_status s = ''final'' then (db, Some s)
          else if ms_by_project s = []
          then (db\<lparr>mt_statements := delete_first (statement_is owner start) (mt_statements db)\<rparr>, None)
          else let s' = s\<lparr>ms_total_usd := sum_list (map pl_subtotal (ms_by_project s)), ms_status := ''final'',
                        ms_finalized_at := Some now\<rparr>
               in (db\<lparr>mt_statements := update_first (statement_is owner start) (\<lambda>_. s') (mt_statements db)\<rparr>, Some s'))"

definition billed_projects :: "metering_db \<Rightarrow> m_project list" where
  "billed_projects db = filter (\<lambda>p. p_state p \<noteq> ''draft'' \<and> p_host_id p \<noteq> None) (mt_projects db)"

definition finalize_project ::
    "time \<Rightarrow> int \<times> int \<Rightarrow> metering_db \<times> string option list \<Rightarrow> m_project \<Rightarrow> (metering_db \<times> string option list) option" where
  "finalize_project now ym st p =
     (if p_owner_id p = [] then Some st
      else let owners = List.insert (Some (p_owner_id p)) (snd st); rows = project_rows (fst st) (p_id p)
           in if rows = [] then Some (fst st, owners)
              else map_option (\<lambda>db. (db, owners)) (contribute_month p rows now (fst st) ym))"

definition finalize_step ::
    "time \<Rightarrow> time \<Rightarrow> metering_db \<times> monthly_statement list \<Rightarrow> string option \<Rightarrow> metering_db \<times> monthly_statement list" where
  "finalize_step start now st owner =
     (let (db, r) = finalize_owner_statement (fst st) owner start now
      in (db, snd st @ (case r of None \<Rightarrow> [] | Some s \<Rightarrow> [s])))"

definition finalize_month ::
    "metering_env \<Rightarrow> metering_db \<Rightarrow> int \<times> int \<Rightarrow> time \<Rightarrow> (metering_db \<times> monthly_statement list) option" where
  "finalize_month env db ym now =
     (if \<not> me_enabled env then Some (db, [])
      else do {
        (start, stop) \<leftarrow> month_bounds (fst ym) (snd ym);
        if now < stop then Some (db, [])
        else do {
          (db1, owners) \<leftarrow> ofold (finalize_project now ym) (db, []) (billed_projects db);
          let drafts = filter (\<lambda>s. ms_period_start s = start \<and> ms_status s = ''draft'') (mt_statements db1);
          let owners = foldl (\<lambda>os s. List.insert (ms_owner_id s) os) owners drafts;
          Some (foldl (finalize_step start now) (db1, []) (me_owner_order env owners))
        }
      })"

definition maybe_finalize_previous_month :: "metering_env \<Rightarrow> metering_db \<Rightarrow> time \<Rightarrow> metering_db" where
  "maybe_finalize_previous_month env db now =
     (case finalize_month env db (previous_month (year_month now)) now of None \<Rightarrow> db | Some r \<Rightarrow> commit (fst r))"

section \<open>Running the meters\<close>

text \<open>Each of these starts from a committed database. An exception rolls back to it.\<close>

definition touch_metering :: "metering_env \<Rightarrow> m_project \<Rightarrow> time \<Rightarrow> metering_db \<Rightarrow> metering_db \<times> budget_effect list" where
  "touch_metering env p now db =
     (if \<not> me_enabled env \<or> \<not> opt_truthy (p_host_id p) then (db, [])
      else (case reconcile_project env db p now None of None \<Rightarrow> (db, []) | Some r \<Rightarrow> (commit (rc_db r), rc_effects r)))"

text \<open>The poll visits the projects of one query; each is reconciled at its own time and committed.\<close>

definition poll_project ::
    "metering_env \<Rightarrow> (string \<Rightarrow> time) \<Rightarrow> metering_db \<times> budget_effect list \<Rightarrow> m_project \<Rightarrow> metering_db \<times> budget_effect list" where
  "poll_project env clock st p =
     (case reconcile_project env (fst st) p (clock (p_id p)) None of
        None \<Rightarrow> st
      | Some r \<Rightarrow> (commit (rc_db r), snd st @ rc_effects r))"

definition reconcile_all_projects :: "metering_env \<Rightarrow> (string \<Rightarrow> time) \<Rightarrow> metering_db \<Rightarrow> metering_db \<times> budget_effect list" where
  "reconcile_all_projects env clock db =
     (if \<not> me_enabled env then (db, []) else foldl (poll_project env clock) (db, []) (billed_projects db))"

text \<open>A failed freeze is logged and the deletion goes on. Nothing has been written when the snapshot
  fails; a failure of the calendar, after year 9999, is not distinguished.\<close>

definition safe_freeze_invoice :: "metering_env \<Rightarrow> m_project \<Rightarrow> time \<Rightarrow> metering_db \<Rightarrow> metering_db \<times> budget_effect list" where
  "safe_freeze_invoice env p now db =
     (if \<not> me_enabled env then (db, [])
      else (case freeze_invoice env db p now of None \<Rightarrow> (db, []) | Some f \<Rightarrow> (fz_db f, fz_effects f)))"

text \<open>The end of \<open>undeploy_project\<close> (\<open>src/src/backend/app/api/projects.py\<close>), after the infrastructure is
  destroyed: the project becomes a draft without a host, and the metering is touched.\<close>

definition undeployed :: "m_project \<Rightarrow> m_project" where
  "undeployed p = p\<lparr>p_state := ''draft'', p_host_id := None, p_vni_map := JNull, p_deploy_error := None\<rparr>"

definition undeploy_project :: "metering_env \<Rightarrow> m_project \<Rightarrow> time \<Rightarrow> metering_db \<Rightarrow> metering_db \<times> budget_effect list" where
  "undeploy_project env p now db = touch_metering env (undeployed p) now (commit (store_m_project (undeployed p) db))"

section \<open>Sample project\<close>

definition sample_menv :: metering_env where
  "sample_menv = \<lparr>me_enabled = True, me_warn_ratio = 4 / 5, me_nested_factor = 1 / 2,
     me_catalog = JObj [(''kubevirt_unit_rates'', JObj [(''vcpu_hour'', JFloat (1 / 10)), (''ram_gib_hour'', JFloat (1 / 100))])],
     me_cached_states = (\<lambda>_. JNull), me_set_order = (\<lambda>ds. ds), me_owner_order = (\<lambda>os. os)\<rparr>"

definition sample_vm_node :: json where
  "sample_vm_node = JObj [(''id'', JStr ''vm''), (''type'', JStr ''vmNode''),
     (''data'', JObj [(''vcpus'', JInt 2), (''ram'', JInt 4)])]"

definition sample_m_project :: m_project where
  "sample_m_project = project.extend ((sample_project ''p'' (JObj [(''nodes'', JList [sample_vm_node])]))\<lparr>p_state := ''active'', p_host_id := Some ''h''\<rparr>)
     \<lparr>mp_budget_usd = Some 10, mp_budget_warned = False, mp_budget_stopped = False, mp_disks = [(''d'', 20)]\<rparr>"

definition sample_m_host :: m_host where
  "sample_m_host = host.extend (sample_host ''h'')
     \<lparr>mh_instance_type = None, mh_billing_mode = None, mh_metering_rates = JNull\<rparr>"

definition sample_mdb :: metering_db where
  "sample_mdb = \<lparr>mt_hosts = [sample_m_host], mt_providers = [sample_provider ''ec2''], mt_projects = [sample_m_project], mt_eips = [],
     mt_rate_defaults = [], mt_intervals = [], mt_invoices = [], mt_statements = [], mt_next_id = 0\<rparr>"

end
