(* ===== verification/Meter_Intervals.thy ===== *)
theory Meter_Intervals
  imports Metering_Statements
begin

text \<open>
  The meters of a project over time: whatever reconciles, freezes, month ends, commits and deletions
  run one after the other, two meters of one resource never run at the same time. Two reconciles
  that interleave break this.
\<close>

section \<open>The plan of a reconcile\<close>

lemma desired_map_keys: "distinct (map fst (desired_map_of ds))"
proof -
  have "distinct (map fst (foldl (\<lambda>m (k, r, q, h, p). AList.update (k, r) (q, h, p) m) m ds))"
    if "distinct (map fst m)" for m :: "((string \<times> string) \<times> rat \<times> json \<times> json) list"
    using that by (induction ds arbitrary: m) (auto simp: distinct_update)
  then show ?thesis by (simp add: desired_map_of_def)
qed

lemma open_map_keys: "fst ` set (open_map_of rows) = open_key ` set rows"
proof -
  have "fst ` set (foldl (\<lambda>m (kind, rid, qty). AList.update (kind, rid) qty m) m rows) = fst ` set m \<union> open_key ` set rows"
    for m :: "((string \<times> string) \<times> rat) list"
  proof (induction rows arbitrary: m)
    case (Cons r rows)
    then show ?case by (cases r) (auto simp: dom_map_of_conv_image_fst [symmetric] map_of_update)
  qed simp
  from this [of "[]"] show ?thesis by (simp add: open_map_of_def)
qed

lemma map_filter_keys_distinct:
  "distinct (map fst m) \<Longrightarrow> (\<And>x y. f x = Some y \<Longrightarrow> g y = fst x) \<Longrightarrow>
     distinct (map g (List.map_filter f m)) \<and> g ` set (List.map_filter f m) \<subseteq> fst ` set m"
proof (induction m)
  case (Cons a m)
  then have ih: "distinct (map g (List.map_filter f m))" "g ` set (List.map_filter f m) \<subseteq> fst ` set m" by auto
  show ?case
  proof (cases "f a")
    case None
    with ih show ?thesis by (auto simp: map_filter_simps)
  next
    case (Some y)
    moreover have "g y = fst a" using Cons.prems(2) Some by blast
    moreover have "fst a \<notin> fst ` set m" using Cons.prems(1) by simp
    ultimately show ?thesis using ih by (auto simp: map_filter_simps)
  qed
qed (simp add: map_filter_simps)

lemma map_filter_memI: "x \<in> set xs \<Longrightarrow> f x = Some y \<Longrightarrow> y \<in> set (List.map_filter f xs)"
  by (induction xs) (auto simp: map_filter_simps split: option.splits)

lemma map_filter_memD: "y \<in> set (List.map_filter f xs) \<Longrightarrow> \<exists>x\<in>set xs. f x = Some y"
  by (induction xs) (auto simp: map_filter_simps split: option.splits)

text \<open>What is opened has one entry per resource, and what is open and opened again is closed.\<close>

definition plan_keys :: "(string \<times> string) set \<Rightarrow> close_open \<Rightarrow> bool" where
  "plan_keys open_keys st \<longleftrightarrow> distinct (map desired_key (snd st)) \<and>
     (\<forall>k\<in>open_keys. k \<in> desired_key ` set (snd st) \<longrightarrow> k \<in> set (fst st))"

lemma diff_plan_keys:
  assumes "diff_intervals rows ds = (to_close, to_open)"
  shows "plan_keys (open_key ` set rows) (map open_key to_close, to_open)"
proof -
  let ?om = "open_map_of rows" and ?dm = "desired_map_of ds"
  let ?close = "\<lambda>((k, r), qty). (case map_of ?dm (k, r) of None \<Rightarrow> Some (k, r, qty)
      | Some (q, _, _) \<Rightarrow> if same_qty q qty then None else Some (k, r, qty))"
  let ?open = "\<lambda>((k, r), (qty, hid, ptype)). (case map_of ?om (k, r) of None \<Rightarrow> Some (k, r, qty, hid, ptype)
      | Some q \<Rightarrow> if same_qty q qty then None else Some (k, r, qty, hid, ptype))"
  have c: "to_close = List.map_filter ?close ?om" and op: "to_open = List.map_filter ?open ?dm"
    using assms unfolding diff_intervals_def Let_def by (simp_all only: prod.inject)
  have fst_open: "?open x = Some y \<Longrightarrow> desired_key y = fst x" for x y
    by (cases x) (auto split: option.splits if_splits)
  have "distinct (map desired_key to_open)"
    unfolding op using map_filter_keys_distinct [OF desired_map_keys, of ?open desired_key] fst_open by blast
  moreover have "k \<in> open_key ` set to_close" if k: "k \<in> open_key ` set rows" "k \<in> desired_key ` set to_open" for k
  proof -
    from k(1) have "k \<in> fst ` set ?om" by (simp only: open_map_keys)
    then obtain q where q: "map_of ?om k = Some q" by (metis domD dom_map_of_conv_image_fst)
    from k(2) obtain d where d: "d \<in> set to_open" "k = desired_key d" by blast
    from d(1) obtain x where x: "x \<in> set ?dm" "?open x = Some d" unfolding op using map_filter_memD by meson
    obtain kk rr qty hid ptype where xs: "x = ((kk, rr), qty, hid, ptype)" by (metis surj_pair)
    have kx: "k = (kk, rr)" using fst_open [OF x(2)] d(2) xs by simp
    have ne: "\<not> same_qty q qty" using x(2) q unfolding xs kx by (auto split: if_splits)
    have dm: "map_of ?dm (kk, rr) = Some (qty, hid, ptype)" using x(1) desired_map_keys xs by simp
    have "?close (k, q) = Some (kk, rr, q)" unfolding kx using dm ne by (simp add: abs_minus_commute)
    moreover have "(k, q) \<in> set ?om" using q by (rule map_of_SomeD)
    ultimately have "(kk, rr, q) \<in> set to_close" unfolding c using map_filter_memI by meson
    then show ?thesis by (force simp: kx)
  qed
  ultimately show ?thesis by (simp add: plan_keys_def)
qed

lemma reopen_step_keys: "plan_keys ks st \<Longrightarrow> plan_keys ks (reopen_step rt dm st row)"
  by (cases st) (auto simp: plan_keys_def reopen_step_def Let_def split: option.splits)

lemma reopen_keys: "plan_keys ks st \<Longrightarrow> plan_keys ks (reopen_changed_rates rt rows ds st)"
  unfolding reopen_changed_rates_def
proof (induction rows arbitrary: st)
  case (Cons r rows)
  from Cons.IH [OF reopen_step_keys [OF Cons.prems]] show ?case by simp
qed simp

lemma reconcile_keys_ok: "plan_keys (interval_key ` set rows) (reconcile_keys rt rows ds)"
proof -
  obtain c d where cd: "diff_intervals (map (\<lambda>r. (mi_kind r, mi_resource_id r, mi_qty r)) rows) ds = (c, d)" by fastforce
  from reopen_keys [OF diff_plan_keys [OF cd]] show ?thesis
    by (simp add: reconcile_keys_def cd image_image)
qed

text \<open>A plan for a project's open meters: it closes open meters only, opens at most one meter per
  resource and only for resources whose open meters it closes.\<close>

definition plan_for :: "metering_interval list \<Rightarrow> meter_plan \<Rightarrow> bool" where
  "plan_for rows plan \<longleftrightarrow> set (pn_close plan) \<subseteq> mi_id ` set rows \<and> distinct (map (\<lambda>x. desired_key (fst x)) (pn_open plan)) \<and>
     (\<forall>r\<in>set rows. \<forall>x\<in>set (pn_open plan). desired_key (fst x) = interval_key r \<longrightarrow> mi_id r \<in> set (pn_close plan))"

lemma reconcile_plan_for: "plan_for rows (reconcile_plan rt rows ds)"
proof -
  obtain c d where cd: "reconcile_keys rt rows ds = (c, d)" by fastforce
  with reconcile_keys_ok [of rows rt ds] have "distinct (map desired_key d)"
    "\<forall>k\<in>interval_key ` set rows. k \<in> desired_key ` set d \<longrightarrow> k \<in> set c" by (simp_all add: plan_keys_def)
  then show ?thesis by (force simp: plan_for_def reconcile_plan_def cd comp_def)
qed

section \<open>Meters of one resource follow each other\<close>

definition same_meter :: "metering_interval \<Rightarrow> metering_interval \<Rightarrow> bool" where
  "same_meter a b \<longleftrightarrow> mi_project_id a = mi_project_id b \<and> interval_key a = interval_key b"

definition meter_before :: "metering_interval \<Rightarrow> metering_interval \<Rightarrow> bool" where
  "meter_before a b \<longleftrightarrow> mi_id a < mi_id b \<and>
     (same_meter a b \<longrightarrow> (case mi_ended_at a of None \<Rightarrow> False | Some e \<Rightarrow> e \<le> mi_started_at b))"

definition row_ok :: "time \<Rightarrow> nat \<Rightarrow> metering_interval \<Rightarrow> bool" where
  "row_ok t n r \<longleftrightarrow> mi_id r < n \<and> mi_started_at r \<le> t \<and>
     (case mi_ended_at r of None \<Rightarrow> True | Some e \<Rightarrow> mi_started_at r \<le> e \<and> e \<le> t)"

definition meters_ok :: "time \<Rightarrow> metering_db \<Rightarrow> bool" where
  "meters_ok t db \<longleftrightarrow> sorted_wrt meter_before (mt_intervals db) \<and> list_all (row_ok t (mt_next_id db)) (mt_intervals db)"

lemma row_ok_mono: "row_ok t n r \<Longrightarrow> t \<le> t' \<Longrightarrow> n \<le> n' \<Longrightarrow> row_ok t' n' r"
  by (auto simp: row_ok_def split: option.splits)

lemma meters_ok_cong:
  "mt_intervals db' = mt_intervals db \<Longrightarrow> mt_next_id db' = mt_next_id db \<Longrightarrow> meters_ok t db' = meters_ok t db"
  by (simp add: meters_ok_def)

lemma meters_ok_later: "meters_ok t db \<Longrightarrow> t \<le> t' \<Longrightarrow> meters_ok t' db"
  unfolding meters_ok_def list_all_iff using row_ok_mono by blast

lemma meters_ok_filter: "meters_ok t db \<Longrightarrow> meters_ok t (db\<lparr>mt_intervals := filter P (mt_intervals db)\<rparr>)"
  by (auto simp: meters_ok_def list_all_iff sorted_wrt_filter)

lemma meters_ok_map:
  assumes "meters_ok t db" "\<And>r. r \<in> set (mt_intervals db) \<Longrightarrow> row_ok t (mt_next_id db) r \<Longrightarrow> row_ok t' (mt_next_id db) (f r)"
    "\<And>a b. a \<in> set (mt_intervals db) \<Longrightarrow> b \<in> set (mt_intervals db) \<Longrightarrow> meter_before a b \<Longrightarrow> meter_before (f a) (f b)"
  shows "meters_ok t' (db\<lparr>mt_intervals := map f (mt_intervals db)\<rparr>)"
proof -
  have "sorted_wrt (\<lambda>a b. meter_before (f a) (f b)) (mt_intervals db)"
    using assms(1,3) sorted_wrt_mono_rel [of "mt_intervals db" meter_before] by (auto simp: meters_ok_def)
  with assms(1,2) show ?thesis by (simp add: meters_ok_def sorted_wrt_map list_all_iff)
qed

lemma meters_ok_commit: "meters_ok t db \<Longrightarrow> meters_ok t (commit db)"
proof -
  assume "meters_ok t db"
  then have "meters_ok t (db\<lparr>mt_intervals := map commit_interval (mt_intervals db)\<rparr>)"
    by (rule meters_ok_map) (auto simp: row_ok_def commit_interval_def meter_before_def same_meter_def split: option.splits)
  then show ?thesis by (simp add: meters_ok_def commit_def)
qed

lemma row_id_unique:
  assumes "meters_ok t db" "a \<in> set (mt_intervals db)" "b \<in> set (mt_intervals db)" "mi_id a = mi_id b"
  shows "a = b"
proof -
  have "sorted_wrt (\<lambda>a b. mi_id a < mi_id b) (mt_intervals db)"
    using assms(1) by (auto simp: meters_ok_def meter_before_def elim: sorted_wrt_mono_rel [rotated])
  then have "distinct (map mi_id (mt_intervals db))" by (simp add: sorted_wrt_map strict_sorted_iff flip: sorted_wrt_map)
  with assms(2-4) show ?thesis using distinct_key_eq by metis
qed

lemma close_meters_ok:
  assumes "meters_ok t db" "t \<le> now" "set ids \<subseteq> mi_id ` set (open_rows db pid)"
  shows "meters_ok now (close_intervals ids now db)"
  unfolding close_intervals_def
proof (rule meters_ok_map [OF assms(1)])
  fix r assume r: "r \<in> set (mt_intervals db)" "row_ok t (mt_next_id db) r"
  show "row_ok now (mt_next_id db) (if mi_id r \<in> set ids then r\<lparr>mi_ended_at := Some now\<rparr> else r)"
    using r assms(2) by (auto simp: row_ok_def split: option.splits)
next
  fix a b assume ab: "a \<in> set (mt_intervals db)" "b \<in> set (mt_intervals db)" "meter_before a b"
  have "mi_ended_at a = None" if "mi_id a \<in> set ids"
    using that assms(3) row_id_unique [OF assms(1) ab(1)] by (auto simp: open_rows_def)
  then show "meter_before (if mi_id a \<in> set ids then a\<lparr>mi_ended_at := Some now\<rparr> else a)
      (if mi_id b \<in> set ids then b\<lparr>mi_ended_at := Some now\<rparr> else b)"
    using ab(3) by (auto simp: meter_before_def same_meter_def split: option.splits)
qed

lemma open_meter_ok:
  assumes "meters_ok now db" "desired_key (fst d) \<notin> interval_key ` set (open_rows db pid)"
  shows "meters_ok now (open_interval pid now db d) \<and>
    interval_key ` set (open_rows (open_interval pid now db d) pid) = insert (desired_key (fst d)) (interval_key ` set (open_rows db pid))"
proof -
  obtain kind rid qty hid ptype rate where d: "d = ((kind, rid, qty, hid, ptype), rate)" by (metis surj_pair)
  let ?new = "\<lparr>mi_id = mt_next_id db, mi_project_id = pid, mi_kind = kind, mi_resource_id = rid, mi_qty = qty, mi_unit_rate = rate,
      mi_host_id = hid, mi_provider_type = ptype, mi_started_at = now, mi_ended_at = None\<rparr>"
  have "meter_before r ?new" if r: "r \<in> set (mt_intervals db)" for r
  proof -
    have ok: "row_ok now (mt_next_id db) r" using assms(1) r by (simp add: meters_ok_def list_all_iff)
    have "mi_ended_at r \<noteq> None" if "same_meter r ?new"
      using that assms(2) r unfolding d same_meter_def open_rows_def by force
    with ok show ?thesis by (auto simp: meter_before_def row_ok_def split: option.splits)
  qed
  moreover have "list_all (row_ok now (Suc (mt_next_id db))) (mt_intervals db)"
    using assms(1) row_ok_mono [of now "mt_next_id db" _ now "Suc (mt_next_id db)"] by (auto simp: meters_ok_def list_all_iff)
  ultimately show ?thesis using assms(1)
    by (auto simp: d open_interval_def meters_ok_def sorted_wrt_append row_ok_def open_rows_def)
qed

lemma open_meters_ok:
  "meters_ok now db \<Longrightarrow> distinct (map (\<lambda>d. desired_key (fst d)) ds) \<Longrightarrow>
     (\<lambda>d. desired_key (fst d)) ` set ds \<inter> interval_key ` set (open_rows db pid) = {} \<Longrightarrow>
     meters_ok now (foldl (open_interval pid now) db ds)"
proof (induction ds arbitrary: db)
  case (Cons d ds)
  from Cons.prems have "desired_key (fst d) \<notin> interval_key ` set (open_rows db pid)" by auto
  note new = open_meter_ok [OF Cons.prems(1) this]
  have "(\<lambda>d. desired_key (fst d)) ` set ds \<inter> interval_key ` set (open_rows (open_interval pid now db d) pid) = {}"
    unfolding conjunct2 [OF new] using Cons.prems(2,3) by auto
  with Cons.IH [OF conjunct1 [OF new]] Cons.prems(2) show ?case by simp
qed simp

lemma close_intervals_rows:
  "mt_intervals (close_intervals ids now db) =
     map (\<lambda>r. if mi_id r \<in> set ids then r\<lparr>mi_ended_at := Some now\<rparr> else r) (mt_intervals db)"
  by (simp add: close_intervals_def)

lemma open_rows_closed:
  "open_rows (close_intervals ids now db) pid = filter (\<lambda>r. mi_id r \<notin> set ids) (open_rows db pid)"
proof -
  have "filter (\<lambda>r. mi_project_id r = pid \<and> mi_ended_at r = None)
      (map (\<lambda>r. if mi_id r \<in> set ids then r\<lparr>mi_ended_at := Some now\<rparr> else r) rows) =
    filter (\<lambda>r. mi_id r \<notin> set ids) (filter (\<lambda>r. mi_project_id r = pid \<and> mi_ended_at r = None) rows)" for rows
    by (induction rows) auto
  then show ?thesis unfolding open_rows_def close_intervals_rows .
qed

lemma plan_meters_ok:
  assumes "meters_ok t db" "t \<le> now" "plan_for (open_rows db pid) plan"
  shows "meters_ok now (apply_plan pid now plan db)"
proof -
  note plan = assms(3) [unfolded plan_for_def]
  have "meters_ok now (close_intervals (pn_close plan) now db)" using close_meters_ok assms(1,2) plan by blast
  moreover have "(\<lambda>d. desired_key (fst d)) ` set (pn_open plan) \<inter>
      interval_key ` set (open_rows (close_intervals (pn_close plan) now db) pid) = {}"
    using plan unfolding open_rows_closed by fastforce
  ultimately show ?thesis unfolding apply_plan_def using open_meters_ok plan by blast
qed

section \<open>Every operation keeps the meters apart\<close>

lemma store_project_frame [simp]:
  "mt_intervals (store_m_project p db) = mt_intervals db" "mt_next_id (store_m_project p db) = mt_next_id db"
  "mt_statements (store_m_project p db) = mt_statements db" "mt_invoices (store_m_project p db) = mt_invoices db"
  by (simp_all add: store_m_project_def)

lemma reconcile_snapshot_plan:
  assumes "reconcile_snapshot env db p now snap = Some r"
  obtains rt ds p' where
    "rc_db r = store_m_project p' (apply_plan (p_id p) now (reconcile_plan rt (open_rows db (p_id p)) ds) db)"
    "live_spend_total (apply_plan (p_id p) now (reconcile_plan rt (open_rows db (p_id p)) ds) db) (p_id p) now = Some (rc_spend r)"
  using assms unfolding reconcile_snapshot_def Let_def bind_eq_Some_conv split_beta by fastforce

text \<open>A reconcile leaves the database as it is, or applies a plan.\<close>

lemma reconcile_project_cases:
  assumes "reconcile_project env db p now snapshot = Some r"
  obtains (same) "rc_db r = db"
  | (plan) rt ds p' where
    "rc_db r = store_m_project p' (apply_plan (p_id p) now (reconcile_plan rt (open_rows db (p_id p)) ds) db)"
proof (cases "me_enabled env")
  case True
  with assms obtain snap where s: "(case snap of None \<Rightarrow> do { spend \<leftarrow> live_spend_total db (p_id p) now;
      Some \<lparr>rc_db = db, rc_effects = [], rc_spend = spend\<rparr> } | Some s \<Rightarrow> reconcile_snapshot env db p now s) = Some r"
    by (auto simp: reconcile_project_def bind_eq_Some_conv)
  show thesis
  proof (cases snap)
    case None
    with s show thesis by (intro same) (auto simp: bind_eq_Some_conv)
  next
    case (Some snap')
    with s have "reconcile_snapshot env db p now snap' = Some r" by simp
    then show thesis by (rule reconcile_snapshot_plan) (rule plan)
  qed
qed (use assms same in \<open>auto simp: reconcile_project_def\<close>)

lemma reconcile_meters_ok:
  assumes "reconcile_project env db p now snapshot = Some r" "meters_ok t db" "t \<le> now"
  shows "meters_ok now (rc_db r)"
  using assms(1)
proof (cases rule: reconcile_project_cases)
  case same
  with assms show ?thesis by (simp add: meters_ok_later)
next
  case (plan rt ds p')
  from plan_meters_ok [OF assms(2,3) reconcile_plan_for] show ?thesis
    by (simp add: plan meters_ok_cong [of "store_m_project _ _"])
qed

lemma close_all_ok: "meters_ok t db \<Longrightarrow> t \<le> now \<Longrightarrow> meters_ok now (close_all pid now db)"
  unfolding close_all_def by (rule close_meters_ok) auto

lemma contribute_month_frame:
  "contribute_month p rows now db ym = Some db' \<Longrightarrow>
     mt_intervals db' = mt_intervals db \<and> mt_next_id db' = mt_next_id db \<and> mt_invoices db' = mt_invoices db \<and> mt_projects db' = mt_projects db"
  unfolding contribute_month_def get_or_create_statement_def
  by (auto simp: bind_eq_Some_conv Let_def split: option.splits if_splits prod.splits)

lemma contribute_frame:
  assumes "contribute_intervals_to_months db p rows now = Some db'"
  shows "mt_intervals db' = mt_intervals db \<and> mt_next_id db' = mt_next_id db \<and> mt_invoices db' = mt_invoices db"
proof (cases "rows = [] \<or> p_owner_id p = []")
  case False
  with assms obtain months where "ofold (contribute_month p rows now) db months = Some db'"
    by (auto simp: contribute_intervals_to_months_def bind_eq_Some_conv)
  then show ?thesis by (rule ofold_invariant) (auto dest: contribute_month_frame)
qed (use assms in \<open>auto simp: contribute_intervals_to_months_def\<close>)

text \<open>What a freeze is made of.\<close>

lemma freeze_invoice_parts:
  assumes "freeze_invoice env db p now = Some f"
  obtains rc db1 where "reconcile_project env db p now None = Some rc" "db1 = close_all (p_id p) now (rc_db rc)"
    "make_invoice p (project_rows db1 (p_id p)) now = Some (fz_invoice f)"
    "contribute_intervals_to_months (db1\<lparr>mt_invoices := mt_invoices db1 @ [fz_invoice f]\<rparr>) p (project_rows db1 (p_id p)) now = Some (fz_db f)"
  using assms by (auto simp: freeze_invoice_def bind_eq_Some_conv Let_def)

lemma freeze_rows:
  assumes "freeze_invoice env db p now = Some f"
  obtains rc where "reconcile_project env db p now None = Some rc"
    "mt_intervals (fz_db f) = mt_intervals (close_all (p_id p) now (rc_db rc))"
    "mt_next_id (fz_db f) = mt_next_id (close_all (p_id p) now (rc_db rc))"
  using assms by (rule freeze_invoice_parts) (auto dest: contribute_frame)

lemma freeze_meters_ok:
  assumes "freeze_invoice env db p now = Some f" "meters_ok t db" "t \<le> now"
  shows "meters_ok now (fz_db f)"
  using assms(1)
proof (rule freeze_rows)
  fix rc assume rc: "reconcile_project env db p now None = Some rc"
    "mt_intervals (fz_db f) = mt_intervals (close_all (p_id p) now (rc_db rc))"
    "mt_next_id (fz_db f) = mt_next_id (close_all (p_id p) now (rc_db rc))"
  from close_all_ok [OF reconcile_meters_ok [OF rc(1) assms(2,3)] order_refl]
  show "meters_ok now (fz_db f)" by (simp add: meters_ok_cong [OF rc(2,3)])
qed

lemma finalize_owner_frame:
  "mt_intervals (fst (finalize_owner_statement db owner start now)) = mt_intervals db \<and>
   mt_next_id (fst (finalize_owner_statement db owner start now)) = mt_next_id db"
  by (simp add: finalize_owner_statement_def Let_def split: option.splits)

lemma finalize_steps_frame:
  "mt_intervals (fst (foldl (finalize_step start now) st owners)) = mt_intervals (fst st) \<and>
   mt_next_id (fst (foldl (finalize_step start now) st owners)) = mt_next_id (fst st)"
  by (induction owners arbitrary: st) (simp_all add: finalize_step_def finalize_owner_frame split_beta)

lemma finalize_project_frame:
  "finalize_project now ym st p = Some st' \<Longrightarrow>
     mt_intervals (fst st') = mt_intervals (fst st) \<and> mt_next_id (fst st') = mt_next_id (fst st)"
  unfolding finalize_project_def by (auto simp: Let_def dest: contribute_month_frame split: if_splits)

lemma finalize_month_cases:
  assumes "finalize_month env db ym now = Some (db', ss)"
  obtains (same) "db' = db" "ss = []"
  | (run) start stop db1 owners order where "month_bounds (fst ym) (snd ym) = Some (start, stop)" "stop \<le> now"
    "ofold (finalize_project now ym) (db, []) (billed_projects db) = Some (db1, owners)"
    "foldl (finalize_step start now) (db1, []) order = (db', ss)"
  using assms unfolding finalize_month_def Let_def
  by (auto simp: bind_eq_Some_conv not_less split: if_splits prod.splits)

lemma finalize_meters_ok:
  assumes "finalize_month env db ym now = Some (db', ss)" "meters_ok t db"
  shows "meters_ok t db'"
  using assms(1)
proof (cases rule: finalize_month_cases)
  case same
  with assms(2) show ?thesis by simp
next
  case (run start stop db1 owners order)
  from run(3) have "mt_intervals (fst (db1, owners)) = mt_intervals db \<and> mt_next_id (fst (db1, owners)) = mt_next_id db"
    by (rule ofold_invariant) (auto dest: finalize_project_frame)
  with finalize_steps_frame [of start now "(db1, [])" order] run(4) assms(2) show ?thesis
    by (simp add: meters_ok_cong [of db' db])
qed

section \<open>Histories\<close>

text \<open>One step of the meters, with the time of the last one: a reconcile, a freeze or a month end at a
  later time, a commit, the deletion of a project with its meters, or any change of the tables of hosts,
  providers, projects, addresses, rates and invoices.\<close>

inductive meter_step :: "time \<times> metering_db \<Rightarrow> time \<times> metering_db \<Rightarrow> bool" where
  reconcile: "t \<le> now \<Longrightarrow> reconcile_project env db p now snapshot = Some r \<Longrightarrow> meter_step (t, db) (now, rc_db r)"
| freeze: "t \<le> now \<Longrightarrow> freeze_invoice env db p now = Some f \<Longrightarrow> meter_step (t, db) (now, fz_db f)"
| month_end: "t \<le> now \<Longrightarrow> finalize_month env db ym now = Some (db', ss) \<Longrightarrow> meter_step (t, db) (now, db')"
| committed: "meter_step (t, db) (t, commit db)"
| deleted: "meter_step (t, db) (t, db\<lparr>mt_intervals := filter (\<lambda>r. mi_project_id r \<noteq> pid) (mt_intervals db)\<rparr>)"
| other: "mt_intervals db' = mt_intervals db \<Longrightarrow> mt_next_id db' = mt_next_id db \<Longrightarrow> mt_statements db' = mt_statements db \<Longrightarrow>
    meter_step (t, db) (t, db')"

inductive_cases meter_stepE: "meter_step s s'"

lemma meter_step_ok: "meter_step s s' \<Longrightarrow> meters_ok (fst s) (snd s) \<Longrightarrow> meters_ok (fst s') (snd s')"
proof (induction rule: meter_step.induct)
  case (reconcile t now env db p snapshot r)
  then show ?case using reconcile_meters_ok by simp
next
  case (freeze t now env db p f)
  then show ?case using freeze_meters_ok by simp
next
  case (month_end t now env db ym db' ss)
  then show ?case using finalize_meters_ok meters_ok_later by (metis fst_conv snd_conv)
next
  case (committed t db)
  then show ?case using meters_ok_commit by simp
next
  case (deleted t db pid)
  then show ?case using meters_ok_filter by simp
next
  case (other db' db t)
  then show ?case by (simp add: meters_ok_def)
qed

lemma meter_steps_ok: "meter_step\<^sup>*\<^sup>* s s' \<Longrightarrow> meters_ok (fst s) (snd s) \<Longrightarrow> meters_ok (fst s') (snd s')"
  by (induction rule: rtranclp_induct) (auto intro: meter_step_ok)

definition meter_runs :: "time \<Rightarrow> metering_interval \<Rightarrow> bool" where
  "meter_runs x r \<longleftrightarrow> mi_started_at r \<le> x \<and> (case mi_ended_at r of None \<Rightarrow> True | Some e \<Rightarrow> x < e)"

text \<open>The meters that run for a resource of a project at a time.\<close>

definition running_meters :: "metering_db \<Rightarrow> string \<Rightarrow> string \<times> string \<Rightarrow> time \<Rightarrow> metering_interval list" where
  "running_meters db pid key x =
     filter (\<lambda>r. mi_project_id r = pid \<and> interval_key r = key \<and> meter_runs x r) (mt_intervals db)"

lemma meters_apart:
  assumes "meters_ok t db"
  shows "length (running_meters db pid key x) \<le> 1"
proof (rule ccontr)
  assume "\<not> ?thesis"
  then obtain a b rest where ab: "running_meters db pid key x = a # b # rest"
    by (cases "running_meters db pid key x"; cases "tl (running_meters db pid key x)") auto
  have "sorted_wrt meter_before (running_meters db pid key x)"
    using assms by (simp add: meters_ok_def running_meters_def sorted_wrt_filter)
  with ab have before: "meter_before a b" by simp
  have "{a, b} \<subseteq> set (running_meters db pid key x)" by (simp add: ab)
  then have "same_meter a b" "meter_runs x a" "meter_runs x b" by (auto simp: running_meters_def same_meter_def)
  with before show False by (auto simp: meter_before_def meter_runs_def split: option.splits)
qed



text \<open>Nothing makes two reconciles of one project exclude each other. Two that read the same open meters
  and then both write leave two open meters for one resource, which are billed side by side.\<close>

definition vcpu_desired :: desired where "vcpu_desired = (''vcpu'', ''vm'', 2, JStr ''h'', JStr ''ec2'')"

theorem concurrent_reconciles_meter_twice:
  "let rt = \<lparr>rt_host = [(''vcpu_hour'', 1 / 10)], rt_types = [], rt_fallback = []\<rparr>;
       plan = reconcile_plan rt (open_rows sample_mdb ''p'') [vcpu_desired];
       db = apply_plan ''p'' 6 plan (apply_plan ''p'' 5 plan sample_mdb)
   in length (running_meters db ''p'' (''vcpu'', ''vm'') 7) = 2 \<and>
      live_spend_total db ''p'' 3600000005 = Some (1 / 5 + 1 / 5 - 1 / 18000000000)"
  by code_simp

text \<open>The stored quantity has six decimals and the comparison a tolerance of a billionth: a meter for the 31700 MiB
  of a host is closed and opened again by every reconcile, and a rate of 0.0000925493 is stored as 0.000093.\<close>

theorem rounded_quantity_reopens:
  "let rt = \<lparr>rt_host = [], rt_types = [], rt_fallback = []\<rparr>;
       ds = [(''ram'', ''host:h'', 31700 / 1024, JStr ''h'', JStr ''ocpvirt'')];
       db = commit (apply_plan ''p'' 5 (reconcile_plan rt [] ds) sample_mdb);
       plan = reconcile_plan rt (open_rows db ''p'') ds
   in pn_close plan = [0] \<and> length (pn_open plan) = 1 \<and> numeric6 (925493 / 10000000000) = 93 / 1000000"
  by code_simp

end
