(* ===== verification/Meter_Converges.thy ===== *)
theory Meter_Converges
  imports Meter_Intervals
begin

text \<open>After a reconcile the open meters of a project are those of the resources that its snapshot asks for.\<close>

lemma desired_map_dom: "fst ` set (desired_map_of ds) = desired_key ` set ds"
proof -
  have "fst ` set (foldl (\<lambda>m (k, r, q, h, p). AList.update (k, r) (q, h, p) m) m ds) = fst ` set m \<union> desired_key ` set ds"
    for m :: "((string \<times> string) \<times> rat \<times> json \<times> json) list"
  proof (induction ds arbitrary: m)
    case (Cons d ds)
    then show ?case by (cases d) (auto simp: dom_map_of_conv_image_fst [symmetric] map_of_update)
  qed simp
  from this [of "[]"] show ?thesis by (simp add: desired_map_of_def)
qed

lemma open_map_keys_distinct: "distinct (map fst (open_map_of rows))"
proof -
  have "distinct (map fst (foldl (\<lambda>m (kind, rid, qty). AList.update (kind, rid) qty m) m rows))"
    if "distinct (map fst m)" for m :: "((string \<times> string) \<times> rat) list"
    using that by (induction rows arbitrary: m) (auto simp: distinct_update)
  then show ?thesis by (simp add: open_map_of_def)
qed

text \<open>Of the open and the desired resources: what is open and not desired is closed, what is desired and not
  open is opened, and what is both is opened again exactly when it is closed.\<close>

definition plan_exact :: "(string \<times> string) set \<Rightarrow> (string \<times> string) set \<Rightarrow> close_open \<Rightarrow> bool" where
  "plan_exact open_keys want st \<longleftrightarrow>
     (let c = set (fst st); n = desired_key ` set (snd st)
      in n \<subseteq> want \<and> want \<subseteq> open_keys \<union> n \<and> open_keys - want \<subseteq> c \<and> c \<inter> want \<subseteq> n \<and> c \<subseteq> open_keys)"

lemma diff_plan_exact:
  assumes "diff_intervals rows ds = (to_close, to_open)"
  shows "plan_exact (open_key ` set rows) (desired_key ` set ds) (map open_key to_close, to_open)"
proof -
  let ?om = "open_map_of rows" and ?dm = "desired_map_of ds"
  let ?close = "\<lambda>((k, r), qty). (case map_of ?dm (k, r) of None \<Rightarrow> Some (k, r, qty)
      | Some (q, _, _) \<Rightarrow> if same_qty q qty then None else Some (k, r, qty))"
  let ?open = "\<lambda>((k, r), (qty, hid, ptype)). (case map_of ?om (k, r) of None \<Rightarrow> Some (k, r, qty, hid, ptype)
      | Some q \<Rightarrow> if same_qty q qty then None else Some (k, r, qty, hid, ptype))"
  have c: "to_close = List.map_filter ?close ?om" and op: "to_open = List.map_filter ?open ?dm"
    using assms unfolding diff_intervals_def Let_def by (simp_all only: prod.inject)
  have key_open: "?open x = Some y \<Longrightarrow> desired_key y = fst x" for x y by (cases x) (auto split: option.splits if_splits)
  have key_close: "?close x = Some y \<Longrightarrow> open_key y = fst x" for x y by (cases x) (auto split: option.splits if_splits)
  have dom_o: "k \<in> open_key ` set rows \<longleftrightarrow> (\<exists>q. map_of ?om k = Some q)" for k
    by (metis domIff dom_map_of_conv_image_fst not_Some_eq open_map_keys)
  have dom_d: "k \<in> desired_key ` set ds \<longleftrightarrow> (\<exists>v. map_of ?dm k = Some v)" for k
    by (metis domIff dom_map_of_conv_image_fst not_Some_eq desired_map_dom)
  have opened: "k \<in> desired_key ` set to_open" if "map_of ?dm k = Some v" "?open (k, v) = Some y" for k v y
    unfolding op using that key_open map_filter_memI [OF map_of_SomeD] by (metis (no_types, lifting) fst_conv image_eqI)
  have closed: "k \<in> open_key ` set to_close" if "map_of ?om k = Some q" "?close (k, q) = Some y" for k q y
    unfolding c using that key_close map_filter_memI [OF map_of_SomeD] by (metis (no_types, lifting) fst_conv image_eqI)
  have sub_n: "desired_key ` set to_open \<subseteq> desired_key ` set ds"
    using map_filter_keys_distinct [OF desired_map_keys, of ?open desired_key] key_open unfolding op desired_map_dom by blast
  have sub_c: "\<exists>x\<in>set ?om. ?close x = Some r \<and> fst x = open_key r" if "r \<in> set to_close" for r
    using that key_close unfolding c by (metis (no_types, lifting) map_filter_memD)
  have "k \<in> open_key ` set rows \<union> desired_key ` set to_open" if k: "k \<in> desired_key ` set ds" for k
  proof (cases "map_of ?om k")
    case None
    from k obtain v where v: "map_of ?dm k = Some v" using dom_d by blast
    then show ?thesis using opened [OF v] None by (cases k; cases v) auto
  qed (use dom_o in blast)
  moreover have "k \<in> open_key ` set to_close" if "k \<in> open_key ` set rows" "k \<notin> desired_key ` set ds" for k
  proof -
    from that(1) dom_o obtain q where q: "map_of ?om k = Some q" by blast
    have "map_of ?dm k = None" using that(2) dom_d [of k] by (meson not_Some_eq)
    then show ?thesis using closed [OF q] by (cases k) auto
  qed
  moreover have "k \<in> desired_key ` set to_open" if k: "k \<in> open_key ` set to_close" "k \<in> desired_key ` set ds" for k
  proof -
    from k(1) obtain x where x: "x \<in> set ?om" "?close x \<noteq> None" "fst x = k" using sub_c by (metis (no_types, lifting) imageE option.distinct(1))
    obtain v where v: "map_of ?dm k = Some v" using k(2) dom_d by blast
    have "(k, snd x) \<in> set ?om" using x(1) by (simp flip: x(3))
    with open_map_keys_distinct have q: "map_of ?om k = Some (snd x)" by (rule map_of_is_SomeI)
    obtain kk rr qty where xs: "x = ((kk, rr), qty)" by (metis surj_pair)
    obtain want hid ptype where vs: "v = (want, hid, ptype)" by (metis surj_pair)
    have kx: "k = (kk, rr)" using x(3) xs by simp
    have "\<not> same_qty want qty" using x(2) v unfolding xs vs kx by (simp split: if_splits)
    then have "?open (k, v) = Some (kk, rr, want, hid, ptype)" using q unfolding xs vs kx by (simp add: abs_minus_commute)
    then show ?thesis by (rule opened [OF v])
  qed
  moreover have "open_key ` set to_close \<subseteq> open_key ` set rows"
  proof (rule image_subsetI)
    fix r assume "r \<in> set to_close"
    from sub_c [OF this] have "open_key r \<in> fst ` set ?om" by (metis (no_types, lifting) image_eqI)
    then show "open_key r \<in> open_key ` set rows" by (simp only: open_map_keys)
  qed
  ultimately show ?thesis using sub_n by (simp add: plan_exact_def Let_def subset_iff)
qed

lemma reopen_step_exact:
  assumes "plan_exact ks (fst ` set dm) st" "interval_key row \<in> ks"
  shows "plan_exact ks (fst ` set dm) (reopen_step rt dm st row)"
proof -
  have "interval_key row \<in> fst ` set dm" if "map_of dm (interval_key row) = Some v" for v
    using that by (metis domI dom_map_of_conv_image_fst)
  with assms show ?thesis
    by (cases st) (auto simp: plan_exact_def reopen_step_def Let_def split: option.splits)
qed

lemma reconcile_keys_exact: "plan_exact (interval_key ` set rows) (desired_key ` set ds) (reconcile_keys rt rows ds)"
proof -
  obtain c d where cd: "diff_intervals (map (\<lambda>r. (mi_kind r, mi_resource_id r, mi_qty r)) rows) ds = (c, d)" by fastforce
  have "plan_exact ks (fst ` set dm) (foldl (reopen_step rt dm) st rs)"
    if "plan_exact ks (fst ` set dm) st" "interval_key ` set rs \<subseteq> ks" for ks dm st rs
    using that by (induction rs arbitrary: st) (simp_all add: reopen_step_exact)
  from this [where dm = "desired_map_of ds", unfolded desired_map_dom, OF diff_plan_exact [OF cd], of rows] show ?thesis
    by (simp add: reconcile_keys_def reopen_changed_rates_def cd image_image)
qed

lemma apply_plan_open:
  "interval_key ` set (open_rows (apply_plan pid now plan db) pid) =
     interval_key ` {r \<in> set (open_rows db pid). mi_id r \<notin> set (pn_close plan)} \<union> (\<lambda>x. desired_key (fst x)) ` set (pn_open plan)"
proof -
  have "open_rows (open_interval pid now db d) pid = open_rows db pid @ drop (length (mt_intervals db)) (mt_intervals (open_interval pid now db d))"
    "interval_key ` set (drop (length (mt_intervals db)) (mt_intervals (open_interval pid now db d))) = {desired_key (fst d)}" for db d
    by (simp_all add: open_rows_def open_interval_def split_beta)
  then have "interval_key ` set (open_rows (open_interval pid now db d) pid) = insert (desired_key (fst d)) (interval_key ` set (open_rows db pid))" for db d
    by (simp add: image_Un)
  then have "interval_key ` set (open_rows (foldl (open_interval pid now) db ds) pid) =
      interval_key ` set (open_rows db pid) \<union> (\<lambda>x. desired_key (fst x)) ` set ds" for db ds
    by (induction ds arbitrary: db) auto
  then show ?thesis by (simp add: apply_plan_def open_rows_closed set_filter)
qed

lemma plan_opens_wanted:
  assumes "meters_ok t db"
  shows "interval_key ` set (open_rows (apply_plan pid now (reconcile_plan rt (open_rows db pid) ds) db) pid) = desired_key ` set ds"
proof -
  obtain c d where cd: "reconcile_keys rt (open_rows db pid) ds = (c, d)" by fastforce
  let ?plan = "reconcile_plan rt (open_rows db pid) ds"
  have pc: "pn_close ?plan = map mi_id (filter (\<lambda>r. interval_key r \<in> set c) (open_rows db pid))"
    by (simp add: reconcile_plan_def cd)
  have uniq: "a = b" if "a \<in> set (open_rows db pid)" "b \<in> set (open_rows db pid)" "mi_id a = mi_id b" for a b
    using that row_id_unique [OF assms] by (simp add: open_rows_def)
  have "mi_id r \<in> set (pn_close ?plan) \<longleftrightarrow> interval_key r \<in> set c" if r: "r \<in> set (open_rows db pid)" for r
    using r uniq unfolding pc by fastforce
  then have "interval_key ` {r \<in> set (open_rows db pid). mi_id r \<notin> set (pn_close ?plan)} = interval_key ` set (open_rows db pid) - set c" by blast
  moreover have "(\<lambda>x. desired_key (fst x)) ` set (pn_open ?plan) = desired_key ` set d"
    by (simp add: reconcile_plan_def cd image_image)
  ultimately show ?thesis
    using reconcile_keys_exact [of "open_rows db pid" ds rt] unfolding apply_plan_open cd plan_exact_def Let_def by auto
qed

text \<open>C28: a reconcile meters what the snapshot asks for: afterwards the project has an open meter for exactly the
  desired resources, whatever was open before and in whatever order the set of them is visited.\<close>

theorem reconcile_meters_the_desired:
  assumes "reconcile_project env db p now (Some snap) = Some r" "me_enabled env" "desired_resources (fst snap) = Some ds"
    "set (me_set_order env ds) = set ds" "meters_ok t db"
  shows "interval_key ` set (open_rows (rc_db r) (p_id p)) = desired_key ` set ds"
proof -
  have "reconcile_snapshot env db p now snap = Some r" using assms(1,2) by (simp add: reconcile_project_def)
  then obtain rt p' where "rc_db r = store_m_project p' (apply_plan (p_id p) now
      (reconcile_plan rt (open_rows db (p_id p)) (me_set_order env ds)) db)"
    unfolding reconcile_snapshot_def Let_def bind_eq_Some_conv split_beta assms(3) by fastforce
  then have "open_rows (rc_db r) (p_id p) = open_rows (apply_plan (p_id p) now
      (reconcile_plan rt (open_rows db (p_id p)) (me_set_order env ds)) db) (p_id p)" by (simp add: open_rows_def)
  then show ?thesis by (simp only: plan_opens_wanted [OF assms(5)] assms(4))
qed

definition eip_snapshot :: json where
  "eip_snapshot = JObj [(''project_state'', JStr ''active''), (''host_id'', JStr ''h''),
     (''eips'', JList [JObj [(''id'', JStr ''e'')]])]"

theorem reconcile_meters_the_desired_witness:
  "case reconcile_project sample_menv sample_mdb sample_m_project 5 (Some (eip_snapshot, [])) of
     None \<Rightarrow> False
   | Some r \<Rightarrow> interval_key ` set (open_rows (rc_db r) ''p'') = {(''eip'', ''e'')}"
proof -
  have "case reconcile_project sample_menv sample_mdb sample_m_project 5 (Some (eip_snapshot, [])) of
     None \<Rightarrow> False | Some r \<Rightarrow> True" by code_simp
  then obtain r where r: "reconcile_project sample_menv sample_mdb sample_m_project 5 (Some (eip_snapshot, [])) = Some r"
    by (auto split: option.splits)
  have "me_enabled sample_menv" "p_id sample_m_project = ''p''" by code_simp+
  moreover have "desired_resources (fst (eip_snapshot, [] :: rate_map)) = Some [(''eip'', ''e'', 1, JStr ''h'', JStr ''unknown'')]" by code_simp
  moreover have "set (me_set_order sample_menv ds) = set ds" for ds by (simp add: sample_menv_def)
  moreover have "meters_ok 0 sample_mdb" by (simp add: meters_ok_def sample_mdb_def)
  ultimately show ?thesis using reconcile_meters_the_desired [OF r] unfolding r by simp
qed

end
