(* ===== verification/Invoice_Laws.thy ===== *)
theory Invoice_Laws
  imports Meter_Intervals
begin

text \<open>
  Invoices, budgets, rates and statements: an invoice bills the spend of the meters, a final statement is
  never changed, a budget stops a project once, and what an undeploy leaves running.
\<close>

section \<open>Spend\<close>

definition row_cost :: "time \<Rightarrow> metering_interval \<Rightarrow> rat" where
  "row_cost now r = interval_cost (mi_qty r) (mi_unit_rate r) (mi_started_at r) (case mi_ended_at r of None \<Rightarrow> now | Some t \<Rightarrow> t)"

lemma add_spend_payload: "add_spend now acc (payload_row r) = Some (acc + row_cost now r)"
  by (simp add: add_spend_def payload_row_def row_cost_def)

lemma spend_payload: "spend_total (map payload_row rows) now = Some (sum_list (map (row_cost now) rows))"
proof -
  have "ofold (add_spend now) acc (map payload_row rows) = Some (acc + sum_list (map (row_cost now) rows))" for acc
    by (induction rows arbitrary: acc) (simp_all add: add_spend_payload add.assoc)
  then show ?thesis by (simp add: spend_total_def)
qed

lemma spend_unit: "\<exists>h. spend_total [unit_row now r] now = Some h"
  by (simp add: spend_total_def add_spend_def unit_row_def)

section \<open>Lines by kind\<close>

definition lines_inv :: "line_acc \<Rightarrow> rat \<Rightarrow> bool" where
  "lines_inv acc c \<longleftrightarrow> distinct (map fst (fst acc)) \<and> (\<forall>(k, l)\<in>set (fst acc). kl_kind l = k) \<and>
     (\<Sum>kl\<leftarrow>fst acc. kl_subtotal (snd kl)) = c"

lemma line_step_inv:
  assumes "lines_inv acc c"
  shows "\<exists>acc'. line_step now acc r = Some acc' \<and> lines_inv acc' (c + row_cost now r)"
proof -
  obtain h where h: "spend_total [unit_row now r] now = Some h" using spend_unit by blast
  have cost: "spend_total [payload_row r] now = Some (row_cost now r)" using spend_payload [of "[r]"] by simp
  define b where "b = dict_get (fst acc) (mi_kind r) (new_line (mi_kind r))"
  define b' where "b' = b\<lparr>kl_qty_hours := kl_qty_hours b + mi_qty r * h, kl_subtotal := kl_subtotal b + row_cost now r,
      kl_hosts := (if truthy (mi_host_id r) \<and> mi_host_id r \<notin> set (kl_hosts b) then kl_hosts b @ [mi_host_id r] else kl_hosts b)\<rparr>"
  let ?lines = "AList.update (mi_kind r) b' (fst acc)"
  have step: "line_step now acc r = Some (?lines, AList.update (mi_kind r) (dict_get (snd acc) (mi_kind r) [] @ [unit_row now r]) (snd acc))"
    by (simp add: line_step_def cost h b_def b'_def Let_def)
  have "kl_kind b = mi_kind r"
    using assms by (auto simp: b_def dict_get_def new_line_def lines_inv_def dest!: map_of_SomeD split: option.splits)
  then have "\<forall>(k, l)\<in>set ?lines. kl_kind l = k"
    using assms update_entries_subset [of "mi_kind r" b' "fst acc"] by (fastforce simp: lines_inv_def b'_def)
  moreover have "(\<Sum>kl\<leftarrow>?lines. kl_subtotal (snd kl)) = c + row_cost now r"
    using assms sum_update [of "fst acc" kl_subtotal "mi_kind r" b']
    by (auto simp: lines_inv_def b'_def b_def dict_get_def new_line_def split: option.splits)
  ultimately show ?thesis using assms by (simp add: step lines_inv_def distinct_update_keys)
qed

lemma lines_fold:
  "lines_inv acc c \<Longrightarrow> \<exists>acc'. ofold (line_step now) acc rows = Some acc' \<and> lines_inv acc' (c + sum_list (map (row_cost now) rows))"
proof (induction rows arbitrary: acc c)
  case (Cons r rows)
  from line_step_inv [OF Cons.prems, of now r] obtain acc1 where a: "line_step now acc r = Some acc1" "lines_inv acc1 (c + row_cost now r)" by blast
  from Cons.IH [OF a(2)] a(1) show ?case by (simp add: add.assoc)
qed simp

lemma make_invoice_total:
  "\<exists>inv. make_invoice p rows now = Some inv \<and> iv_total_usd inv = sum_list (map (row_cost now) rows) \<and>
     sum_list (map kl_subtotal (iv_by_kind inv)) = iv_total_usd inv \<and> distinct (map kl_kind (iv_by_kind inv))"
proof -
  have "lines_inv ([], []) 0" by (simp add: lines_inv_def)
  from lines_fold [OF this, of now rows] obtain acc where acc: "ofold (line_step now) ([], []) rows = Some acc"
    "lines_inv acc (sum_list (map (row_cost now) rows))" by auto
  have f: "kl_subtotal (finish_kind_line now s l) = kl_subtotal l" "kl_kind (finish_kind_line now s l) = kl_kind l" for s l
    by (simp_all add: finish_kind_line_def)
  have "map (\<lambda>x. kl_kind (snd x)) (fst acc) = map fst (fst acc)" using acc(2) by (auto simp: lines_inv_def)
  then have "distinct (map (\<lambda>x. kl_kind (snd x)) (fst acc))" using acc(2) by (simp only: lines_inv_def)
  with acc show ?thesis by (simp add: make_invoice_def f comp_def lines_inv_def)
qed

lemma closed_all: "open_rows (close_all pid now db) pid = []"
  unfolding close_all_def open_rows_closed by (auto simp: filter_empty_conv)

lemma closed_cost: "mi_ended_at r \<noteq> None \<Longrightarrow> row_cost t r = row_cost t' r"
  by (auto simp: row_cost_def)

lemma project_rows_cong: "mt_intervals db' = mt_intervals db \<Longrightarrow> project_rows db' pid = project_rows db pid \<and> open_rows db' pid = open_rows db pid"
  by (simp add: project_rows_def open_rows_def)

text \<open>C9: an invoice bills what the meters spent: freezing closes every meter of the project, the total of the
  invoice is the spend of the project at any later time, and its lines, one per kind, add up to it.\<close>

theorem invoice_bills_the_spend:
  assumes "freeze_invoice env db p now = Some f"
  shows "open_rows (fz_db f) (p_id p) = [] \<and> live_spend_total (fz_db f) (p_id p) later = Some (iv_total_usd (fz_invoice f)) \<and>
    sum_list (map kl_subtotal (iv_by_kind (fz_invoice f))) = iv_total_usd (fz_invoice f) \<and>
    distinct (map kl_kind (iv_by_kind (fz_invoice f)))"
  using assms
proof (rule freeze_invoice_parts)
  fix rc db1
  assume db1: "db1 = close_all (p_id p) now (rc_db rc)" "make_invoice p (project_rows db1 (p_id p)) now = Some (fz_invoice f)"
    and c: "contribute_intervals_to_months (db1\<lparr>mt_invoices := mt_invoices db1 @ [fz_invoice f]\<rparr>) p (project_rows db1 (p_id p)) now = Some (fz_db f)"
  from contribute_frame [OF c] have rows: "project_rows (fz_db f) (p_id p) = project_rows db1 (p_id p)"
    "open_rows (fz_db f) (p_id p) = open_rows db1 (p_id p)" using project_rows_cong [of "fz_db f" db1] by simp_all
  have none: "open_rows db1 (p_id p) = []" by (simp add: db1 closed_all)
  then have "row_cost later r = row_cost now r" if "r \<in> set (project_rows db1 (p_id p))" for r
    using that closed_cost by (auto simp: open_rows_def project_rows_def filter_empty_conv)
  then have "sum_list (map (row_cost later) (project_rows db1 (p_id p))) = sum_list (map (row_cost now) (project_rows db1 (p_id p)))"
    by (simp cong: map_cong)
  with make_invoice_total [of p "project_rows db1 (p_id p)" now] db1(2) rows none show ?thesis
    by (simp add: live_spend_total_def spend_payload)
qed

theorem invoice_bills_the_spend_witness:
  "case freeze_invoice sample_menv sample_mdb sample_m_project 5 of
     None \<Rightarrow> False
   | Some f \<Rightarrow> open_rows (fz_db f) ''p'' = [] \<and> live_spend_total (fz_db f) ''p'' 9 = Some (iv_total_usd (fz_invoice f)) \<and>
       length (iv_by_kind (fz_invoice f)) = 3"
proof -
  have ok: "case freeze_invoice sample_menv sample_mdb sample_m_project 5 of None \<Rightarrow> False
      | Some f \<Rightarrow> length (iv_by_kind (fz_invoice f)) = 3" by code_simp
  then obtain f where f: "freeze_invoice sample_menv sample_mdb sample_m_project 5 = Some f" by (auto split: option.splits)
  have "p_id sample_m_project = ''p''" by code_simp
  with invoice_bills_the_spend [OF f, of 9] ok show ?thesis unfolding f by simp
qed

section \<open>Budget\<close>

text \<open>The budget stops a project at most once: a stop is spawned exactly when the spend has reached a positive
  budget of an active project that was not stopped for it, the flag is set with it, and while the flag
  stays no spend spawns another; the warning flag is set when the spend reaches its share of the budget.\<close>

theorem budget_stops_once:
  "(let (p', es) = apply_budget env p spend
    in (Spawn_stop (p_id p) \<in> set es \<longleftrightarrow>
         (case mp_budget_usd p of None \<Rightarrow> False
          | Some cap \<Rightarrow> 0 < cap \<and> cap \<le> spend \<and> p_state p = ''active'' \<and> \<not> mp_budget_stopped p)) \<and>
       mp_budget_stopped p' = (mp_budget_stopped p \<or> Spawn_stop (p_id p) \<in> set es) \<and>
       \<not> (Spawn_stop (p_id p) \<in> set es \<and> Spawn_stop (p_id p) \<in> set (snd (apply_budget env p' spend'))) \<and>
       mp_budget_warned p' = (mp_budget_warned p \<or>
         (case mp_budget_usd p of None \<Rightarrow> False | Some cap \<Rightarrow> 0 < cap \<and> me_warn_ratio env * cap \<le> spend)))"
  by (auto simp: apply_budget_def warn_budget_def stop_budget_def Let_def split: option.splits)

section \<open>Undeploy\<close>

lemma open_rows_commit: "open_rows (commit db) pid = map commit_interval (open_rows db pid)"
  by (simp add: open_rows_def commit_def filter_map comp_def commit_interval_def)

lemma live_spend_defined: "\<exists>s. live_spend_total db pid now = Some s"
  by (simp add: live_spend_total_def spend_payload)


section \<open>Rates\<close>

lemma update_same_keys: "k \<in> fst ` set m \<Longrightarrow> map fst (AList.update k v m) = map fst m"
  by (induction m) auto

lemma rate_map_fold_keys:
  "ofold (\<lambda>out (key, v). if key \<in> set RATE_KEYS \<and> v \<noteq> JNull then map_option (\<lambda>x. AList.update key x out) (py_float v)
     else Some out) out kvs = Some m \<Longrightarrow> map fst out = RATE_KEYS \<Longrightarrow> map fst m = RATE_KEYS"
proof (erule ofold_invariant)
  fix u :: rate_map and x :: "string \<times> json" and v
  assume "map fst u = RATE_KEYS"
    "(case x of (key, w) \<Rightarrow> if key \<in> set RATE_KEYS \<and> w \<noteq> JNull then map_option (\<lambda>y. AList.update key y u) (py_float w) else Some u) = Some v"
  then show "map fst v = RATE_KEYS"
    by (auto simp: update_same_keys split: if_splits prod.splits simp flip: set_map)
qed

lemma apply_rate_map_keys: "apply_rate_map out j = Some m \<Longrightarrow> map fst out = RATE_KEYS \<Longrightarrow> map fst m = RATE_KEYS"
  unfolding apply_rate_map_def by (auto split: if_splits json.splits dest: rate_map_fold_keys)

lemma apply_numbers: "\<exists>m. apply_rate_map out (rates_json r) = Some m"
proof -
  have "\<exists>m. ofold (\<lambda>out (key, v). if key \<in> set RATE_KEYS \<and> v \<noteq> JNull then map_option (\<lambda>x. AList.update key x out) (py_float v)
     else Some out) out (map (apsnd JFloat) r) = Some m"
    by (induction r arbitrary: out) auto
  then show ?thesis by (simp add: apply_rate_map_def rates_json_def)
qed

lemma update_middle:
  "distinct (map fst (pre @ (k, w) # post)) \<Longrightarrow> AList.update k v (pre @ (k, w) # post) = pre @ (k, v) # post"
  by (induction pre) auto

lemma dict_update_same_keys:
  assumes "map fst m = map fst n" "distinct (map fst n)"
  shows "dict_update m n = n"
proof -
  have "foldl (\<lambda>m (k, v). AList.update k v m) (pre @ m) n = pre @ n"
    if "map fst m = map fst n" "distinct (map fst (pre @ n))" for pre
    using that
  proof (induction n arbitrary: m pre)
    case (Cons kv n)
    then obtain w m' where m: "m = (fst kv, w) # m'" "map fst m' = map fst n" by (cases m) auto
    then have "distinct (map fst (pre @ (fst kv, w) # m'))" using Cons.prems(2) by (simp add: m(2) flip: set_map)
    from update_middle [OF this, of "snd kv"] Cons.IH [OF m(2), of "pre @ [kv]"] Cons.prems(2) show ?case
      by (simp add: m(1) split_beta)
  qed simp
  from this [of "[]"] assms show ?thesis by (simp add: dict_update_def)
qed

lemma rate_keys_distinct: "distinct RATE_KEYS" by code_simp

lemma apportion_same_keys: "map fst base = RATE_KEYS \<Longrightarrow> map fst (apportion_hourly h v r base) = RATE_KEYS"
  by (simp add: apportion_hourly_def Let_def update_same_keys RATE_KEYS_def flip: set_map)

lemma apportion_kubevirt_keys: "kubevirt_unit_rates catalog = Some b \<Longrightarrow> map fst (apportion_hourly h v r b) = RATE_KEYS"
  by (intro apportion_same_keys kubevirt_rates_keys)

lemma rates_for_host_keys:
  "rates_for_host catalog ptype itype v r = Some (Some d) \<Longrightarrow> map fst d = RATE_KEYS"
  unfolding rates_for_host_def
  by (auto simp: bind_eq_Some_conv split: if_splits option.splits intro: kubevirt_rates_keys apportion_kubevirt_keys)

text \<open>Where the price of a host is known, by its provider type or by the catalogue, the defaults that an administrator
  stores for the provider type have no effect on any of its rates.\<close>

theorem type_defaults_overridden:
  assumes "rates_for_host (me_catalog env) ptype (host_instance_type hst) (host_vcpus hst) (host_ram hst) = Some (Some d)"
  shows "compose_host_rates env hst ptype type_rates = compose_host_rates env hst ptype []"
proof (cases "kubevirt_unit_rates (me_catalog env)")
  case (Some base)
  have keys: "map fst base = RATE_KEYS" using Some by (rule kubevirt_rates_keys)
  have over: "dict_update out d = d" if "apply_rate_map base j = Some out" for out j
    using apply_rate_map_keys [OF that keys] rates_for_host_keys [OF assms] rate_keys_distinct
    by (intro dict_update_same_keys) simp_all
  obtain o1 o2 where "apply_rate_map base (rates_json (typed_rate_row ptype type_rates)) = Some o1"
    "apply_rate_map base (rates_json (typed_rate_row ptype [])) = Some o2" using apply_numbers by metis
  then show ?thesis using over by (simp add: compose_host_rates_def Some assms Let_def)
qed (simp add: compose_host_rates_def)

theorem type_defaults_overridden_witness:
  "compose_host_rates sample_menv (Some sample_m_host) ''kubevirt'' [(''kubevirt'', [(''vcpu_hour'', 7)])] =
     compose_host_rates sample_menv (Some sample_m_host) ''kubevirt'' [] \<and>
   compose_host_rates sample_menv (Some sample_m_host) ''kubevirt'' [] \<noteq> None"
proof -
  have "case rates_for_host (me_catalog sample_menv) ''kubevirt'' (host_instance_type (Some sample_m_host))
      (host_vcpus (Some sample_m_host)) (host_ram (Some sample_m_host)) of Some (Some d) \<Rightarrow> True | _ \<Rightarrow> False" by code_simp
  then obtain d where "rates_for_host (me_catalog sample_menv) ''kubevirt'' (host_instance_type (Some sample_m_host))
      (host_vcpus (Some sample_m_host)) (host_ram (Some sample_m_host)) = Some (Some d)" by (auto split: option.splits)
  from type_defaults_overridden [OF this] have
    "compose_host_rates sample_menv (Some sample_m_host) ''kubevirt'' [(''kubevirt'', [(''vcpu_hour'', 7)])] =
     compose_host_rates sample_menv (Some sample_m_host) ''kubevirt'' []" .
  moreover have "compose_host_rates sample_menv (Some sample_m_host) ''kubevirt'' [] \<noteq> None" by code_simp
  ultimately show ?thesis by blast
qed

end
