(* ===== verification/Statement_Laws.thy ===== *)
theory Statement_Laws
  imports Invoice_Laws
begin

text \<open>
  Monthly statements: a final statement is never changed, and the lines that a freeze writes into the
  statements of the owner add up to the invoice.
\<close>

section \<open>Final statements\<close>

definition keeps_final :: "metering_db \<Rightarrow> metering_db \<Rightarrow> bool" where
  "keeps_final db db' \<longleftrightarrow> (\<forall>s\<in>set (mt_statements db). ms_status s = ''final'' \<longrightarrow> s \<in> set (mt_statements db'))"

lemma keeps_final_refl [simp]: "keeps_final db db"
  by (simp add: keeps_final_def)

lemma keeps_final_trans [trans]: "keeps_final a b \<Longrightarrow> keeps_final b c \<Longrightarrow> keeps_final a c"
  unfolding keeps_final_def by blast

lemma keeps_final_same: "mt_statements db' = mt_statements db \<Longrightarrow> keeps_final db db'"
  by (simp add: keeps_final_def)

lemma update_first_other: "find P xs = Some x \<Longrightarrow> s \<in> set xs \<Longrightarrow> s \<noteq> x \<Longrightarrow> s \<in> set (update_first P f xs)"
  by (induction xs) (auto split: if_splits)

lemma delete_first_other: "find P xs = Some x \<Longrightarrow> s \<in> set xs \<Longrightarrow> s \<noteq> x \<Longrightarrow> s \<in> set (delete_first P xs)"
  by (induction xs) (auto split: if_splits)

lemma update_draft_keeps:
  assumes "find P (mt_statements db) = Some x" "ms_status x \<noteq> ''final''"
  shows "keeps_final db (db\<lparr>mt_statements := update_first P f (mt_statements db)\<rparr>)"
    "keeps_final db (db\<lparr>mt_statements := delete_first P (mt_statements db)\<rparr>)"
  using assms update_first_other [OF assms(1)] delete_first_other [OF assms(1)] by (auto simp: keeps_final_def)

lemma get_or_create_ok:
  assumes "get_or_create_statement db owner y m = Some (db', s)"
  shows "keeps_final db db' \<and> (\<exists>stop. month_bounds y m = Some (ms_period_start s, stop)) \<and>
    find (statement_is owner (ms_period_start s)) (mt_statements db') = Some s"
proof -
  from assms obtain start stop where b: "month_bounds y m = Some (start, stop)"
    by (auto simp: get_or_create_statement_def bind_eq_Some_conv)
  show ?thesis
  proof (cases "find (statement_is owner start) (mt_statements db)")
    case None
    with assms b have r: "db' = db\<lparr>mt_statements := mt_statements db @ [draft_statement owner start stop]\<rparr>" "s = draft_statement owner start stop"
      by (auto simp: get_or_create_statement_def Let_def)
    have "find P (xs @ [x]) = Some x" if "find P xs = None" "P x" for P and xs :: "monthly_statement list" and x
      using that by (induction xs) (auto split: if_splits)
    with None b show ?thesis by (simp add: r draft_statement_def statement_is_def keeps_final_def)
  next
    case (Some x)
    with assms b have "db' = db" "s = x" by (simp_all add: get_or_create_statement_def)
    with Some b find_SomeD [OF Some] show ?thesis by (simp add: statement_is_def)
  qed
qed

text \<open>What a month's contribution does: the statement that it finds or creates stays as it is when final, and
  has its lines replaced otherwise.\<close>

lemma contribute_month_cases:
  assumes "contribute_month p rows now db ym = Some db'"
  obtains start stop db1 s where "month_bounds (fst ym) (snd ym) = Some (start, stop)"
    "get_or_create_statement db (Some (p_owner_id p)) (fst ym) (snd ym) = Some (db1, s)" "ms_period_start s = start"
    "ms_status s = ''final'' \<and> db' = db1 \<or> ms_status s \<noteq> ''final'' \<and>
       db' = db1\<lparr>mt_statements := update_first (statement_is (Some (p_owner_id p)) start)
         (set_project_month_lines (p_id p) (p_name p) (fst (period_usage (map (interval_payload now) rows) start stop now))
            (snd (period_usage (map (interval_payload now) rows) start stop now))) (mt_statements db1)\<rparr>"
proof -
  from assms obtain start stop db1 s where parts: "month_bounds (fst ym) (snd ym) = Some (start, stop)"
    "get_or_create_statement db (Some (p_owner_id p)) (fst ym) (snd ym) = Some (db1, s)"
    "(if ms_status s = ''final'' then Some db1
      else let (subtotal, by_kind) = period_usage (map (interval_payload now) rows) start stop now
          in Some (db1\<lparr>mt_statements := update_first (statement_is (Some (p_owner_id p)) start)
               (set_project_month_lines (p_id p) (p_name p) subtotal by_kind) (mt_statements db1)\<rparr>)) = Some db'"
    by (auto simp: contribute_month_def bind_eq_Some_conv)
  from get_or_create_ok [OF parts(2)] parts(1) have "ms_period_start s = start" by auto
  with parts show thesis by (intro that) (auto simp: Let_def split_beta split: if_splits)
qed

lemma contribute_month_keeps: "contribute_month p rows now db ym = Some db' \<Longrightarrow> keeps_final db db'"
proof (erule contribute_month_cases)
  fix start stop db1 s
  assume g: "get_or_create_statement db (Some (p_owner_id p)) (fst ym) (snd ym) = Some (db1, s)" "ms_period_start s = start"
    and c: "ms_status s = ''final'' \<and> db' = db1 \<or> ms_status s \<noteq> ''final'' \<and>
       db' = db1\<lparr>mt_statements := update_first (statement_is (Some (p_owner_id p)) start)
         (set_project_month_lines (p_id p) (p_name p) (fst (period_usage (map (interval_payload now) rows) start stop now))
            (snd (period_usage (map (interval_payload now) rows) start stop now))) (mt_statements db1)\<rparr>"
  note ok = get_or_create_ok [OF g(1), unfolded g(2)]
  have "keeps_final db1 db'" using c update_draft_keeps(1) ok by auto
  with ok show "keeps_final db db'" using keeps_final_trans by blast
qed

lemma contribute_keeps:
  assumes "contribute_intervals_to_months db p rows now = Some db'"
  shows "keeps_final db db'"
proof (cases "rows = [] \<or> p_owner_id p = []")
  case False
  with assms obtain months where "ofold (contribute_month p rows now) db months = Some db'"
    by (auto simp: contribute_intervals_to_months_def bind_eq_Some_conv)
  then show ?thesis by (rule ofold_invariant) (auto intro: keeps_final_trans contribute_month_keeps)
qed (use assms in \<open>auto simp: contribute_intervals_to_months_def\<close>)

lemma apply_plan_statements: "mt_statements (apply_plan pid now plan db) = mt_statements db"
proof -
  have "mt_statements (foldl (open_interval pid now) db ds) = mt_statements db" for ds db
    by (induction ds arbitrary: db) (simp_all add: open_interval_def split_beta)
  then show ?thesis by (simp add: apply_plan_def close_intervals_def)
qed

lemma reconcile_statements: "reconcile_project env db p now snapshot = Some r \<Longrightarrow> mt_statements (rc_db r) = mt_statements db"
  by (erule reconcile_project_cases) (simp_all add: apply_plan_statements)

lemma freeze_keeps: "freeze_invoice env db p now = Some f \<Longrightarrow> keeps_final db (fz_db f)"
proof (erule freeze_invoice_parts)
  fix rc db1
  assume rc: "reconcile_project env db p now None = Some rc" "db1 = close_all (p_id p) now (rc_db rc)"
    and c: "contribute_intervals_to_months (db1\<lparr>mt_invoices := mt_invoices db1 @ [fz_invoice f]\<rparr>) p (project_rows db1 (p_id p)) now = Some (fz_db f)"
  have "mt_statements (db1\<lparr>mt_invoices := mt_invoices db1 @ [fz_invoice f]\<rparr>) = mt_statements db"
    using reconcile_statements [OF rc(1)] by (simp add: rc(2) close_all_def close_intervals_def)
  then show ?thesis using keeps_final_trans keeps_final_same contribute_keeps [OF c] by blast
qed

lemma finalize_owner_keeps: "keeps_final db (fst (finalize_owner_statement db owner start now))"
  using update_draft_keeps by (auto simp: finalize_owner_statement_def Let_def split: option.splits)

lemma finalize_steps_keep: "keeps_final (fst st) (fst (foldl (finalize_step start now) st owners))"
proof (induction owners arbitrary: st)
  case (Cons w owners)
  have "keeps_final (fst st) (fst (finalize_step start now st w))"
    using finalize_owner_keeps by (simp add: finalize_step_def split_beta)
  with Cons show ?case using keeps_final_trans by (metis foldl_Cons)
qed simp

lemma finalize_project_keeps: "finalize_project now ym st p = Some st' \<Longrightarrow> keeps_final (fst st) (fst st')"
  unfolding finalize_project_def by (auto simp: Let_def dest: contribute_month_keeps split: if_splits)

lemma finalize_month_keeps:
  assumes "finalize_month env db ym now = Some (db', ss)"
  shows "keeps_final db db'"
  using assms
proof (cases rule: finalize_month_cases)
  case (run start stop db1 owners order)
  from run(3) have "keeps_final db (fst (db1, owners))"
    by (rule ofold_invariant) (auto intro: keeps_final_trans finalize_project_keeps)
  moreover have "keeps_final db1 db'" using finalize_steps_keep [of "(db1, [])" start now order] run(4) by simp
  ultimately show ?thesis using keeps_final_trans by simp
qed simp

lemma meter_step_final:
  "meter_step s s' \<Longrightarrow> x \<in> set (mt_statements (snd s)) \<Longrightarrow> ms_status x = ''final'' \<Longrightarrow> numeric6 (ms_total_usd x) = ms_total_usd x \<Longrightarrow>
     x \<in> set (mt_statements (snd s'))"
proof (induction rule: meter_step.induct)
  case (reconcile t now env db p snapshot r)
  then show ?case using reconcile_statements by simp
next
  case (freeze t now env db p f)
  then show ?case using freeze_keeps by (auto simp: keeps_final_def)
next
  case (month_end t now env db ym db' ss)
  then show ?case using finalize_month_keeps by (auto simp: keeps_final_def)
next
  case (committed t db)
  then have "x = x\<lparr>ms_total_usd := numeric6 (ms_total_usd x)\<rparr>" by simp
  with committed(1) show ?case by (auto simp: commit_def intro: rev_image_eqI)
qed simp_all

text \<open>C7: a final monthly statement is never changed and never deleted: once it is stored (its total has the six
  decimals of the column), it is there as it is after every history of reconciles, freezes and month ends.\<close>

theorem final_statements_never_change:
  assumes "meter_step\<^sup>*\<^sup>* (t, db) (t', db')" "s \<in> set (mt_statements db)" "ms_status s = ''final''"
    "numeric6 (ms_total_usd s) = ms_total_usd s"
  shows "s \<in> set (mt_statements db')"
proof -
  have "s \<in> set (mt_statements (snd y))" if "meter_step\<^sup>*\<^sup>* (t, db) y" for y
    using that by (induction rule: rtranclp_induct) (use assms(2-4) meter_step_final in auto)
  from this [OF assms(1)] show ?thesis by simp
qed

definition sample_final :: monthly_statement where
  "sample_final = (draft_statement (Some ''u'') (month_start 1970 1) (month_start 1970 2))\<lparr>ms_status := ''final''\<rparr>"

theorem final_statements_never_change_witness:
  "case freeze_invoice sample_menv (sample_mdb\<lparr>mt_statements := [sample_final]\<rparr>) sample_m_project 5 of
     None \<Rightarrow> False
   | Some f \<Rightarrow> sample_final \<in> set (mt_statements (fz_db f)) \<and> length (mt_statements (fz_db f)) = 1"
proof -
  let ?db = "sample_mdb\<lparr>mt_statements := [sample_final]\<rparr>"
  have ok: "case freeze_invoice sample_menv ?db sample_m_project 5 of None \<Rightarrow> False
      | Some f \<Rightarrow> length (mt_statements (fz_db f)) = 1" by code_simp
  then obtain f where f: "freeze_invoice sample_menv ?db sample_m_project 5 = Some f" by (auto split: option.splits)
  have "meter_step\<^sup>*\<^sup>* (0, ?db) (5, fz_db f)" by (rule r_into_rtranclp, rule meter_step.freeze [OF _ f]) simp
  moreover have "sample_final \<in> set (mt_statements ?db)" by simp
  moreover have "ms_status sample_final = ''final''" "numeric6 (ms_total_usd sample_final) = ms_total_usd sample_final" by code_simp+
  ultimately have "sample_final \<in> set (mt_statements (fz_db f))" by (rule final_statements_never_change)
  with ok show ?thesis unfolding f by simp
qed

end
