(* ===== verification/Month_Lines.thy ===== *)
theory Month_Lines
  imports Statement_Laws
begin

text \<open>The lines that freezing a project writes into the monthly statements of its owner add up to the invoice.\<close>

section \<open>The month of a time contains it\<close>

lemma year_bounds:
  fixes n :: int
  shows "days_before_year (year_of_day n) \<le> n \<and> n < days_before_year (year_of_day n + 1)"
proof -
  define a where "a = n div 146097" define r where "r = n mod 146097"
  define b where "b = r div 36524" define r1 where "r1 = r mod 36524"
  define c where "c = r1 div 1461" define r2 where "r2 = r1 mod 1461"
  define e where "e = r2 div 365" define r3 where "r3 = r2 mod 365"
  have n: "n = 146097 * a + r" "r = 36524 * b + r1" "r1 = 1461 * c + r2" "r2 = 365 * e + r3"
    by (simp_all add: a_def r_def b_def r1_def c_def r2_def e_def r3_def)
  have bd: "0 \<le> r" "r < 146097" "0 \<le> r1" "r1 < 36524" "0 \<le> r2" "r2 < 1461" "0 \<le> r3" "r3 < 365"
    by (simp_all add: r_def r1_def r2_def r3_def)
  have b: "0 \<le> b" "b \<le> 4" and c: "0 \<le> c" "c \<le> 24" and e: "0 \<le> e" "e \<le> 4" using n bd by linarith+
  have split: "days_before_year (400 * a' + 100 * b' + 4 * c' + e' + 1) = 146097 * a' + 36524 * b' + 1461 * c' + 365 * e'"
    if "0 \<le> b'" "b' \<le> 3" "0 \<le> c'" "c' \<le> 24" "0 \<le> e'" "e' \<le> 3" for a' b' c' e' :: int
  proof -
    have "(400 * a' + 100 * b' + 4 * c' + e') div 4 = 100 * a' + 25 * b' + c'" "(400 * a' + 100 * b' + 4 * c' + e') div 100 = 4 * a' + b'"
      "(400 * a' + 100 * b' + 4 * c' + e') div 400 = a'" using that by (auto intro!: div_pos_pos_trivial simp: algebra_simps)
    then show ?thesis by (simp add: days_before_year_def)
  qed
  have y: "year_of_day n = (if e = 4 \<or> b = 4 then 400 * a + 100 * b + 4 * c + e else 400 * a + 100 * b + 4 * c + e + 1)"
    by (simp add: year_of_day_def Let_def a_def b_def c_def e_def r_def r1_def r2_def)
  consider "b = 4" | "b \<le> 3" "e = 4" | "b \<le> 3" "e \<le> 3" using b e by linarith
  then show ?thesis
  proof cases
    case 1
    then have "r1 = 0" using n bd by linarith
    then have "c = 0" "e = 0" "r3 = 0" using n bd c e by linarith+
    with 1 y n split [of 3 24 3 a] split [of 0 0 0 "a + 1"] show ?thesis by (simp add: algebra_simps)
  next
    case 2
    then have "r3 = 0" "c \<le> 23" using n bd by linarith+
    with 2 y n split [of b c 3 a] split [of b "c + 1" 0 a] b c show ?thesis by (simp add: algebra_simps)
  next
    case 3
    have "days_before_year (400 * a + 100 * b + 4 * c + e + 1) = n - r3" using 3 split [of b c e a] b c e n by simp
    with 3 y bd days_next_year [of "400 * a + 100 * b + 4 * c + e + 1"] show ?thesis by simp
  qed
qed

lemma find_upto:
  "find P [i..j] = Some m \<Longrightarrow> i \<le> m \<and> m \<le> j \<and> P m \<and> (i < m \<longrightarrow> \<not> P (m - 1))"
proof (induction i j rule: upto.induct)
  case (1 i j)
  show ?case
  proof (cases "i \<le> j")
    case True
    show ?thesis
    proof (cases "P i")
      case False
      with 1(2) True have rest: "find P [i + 1..j] = Some m" by (simp add: upto_rec1)
      from 1(1) [OF True this] False show ?thesis by (cases "m = i + 1") auto
    qed (use 1(2) True in \<open>simp add: upto_rec1\<close>)
  qed (use 1(2) in simp)
qed

lemma days_before_first [simp]: "days_before_month y 1 = 0"
  by (simp add: days_before_month_def)

text \<open>Every time lies in the month that is computed for it: not before the first of that month, and before the
  first of the next.\<close>

lemma month_of_time:
  assumes "year_month t = (y, m)"
  shows "1 \<le> m \<and> m \<le> 12 \<and> month_start y m \<le> t \<and> t < (let (y', m') = next_month y m in month_start y' m')"
proof -
  define n where "n = t div DAY + 719162"
  have ym: "y = year_of_day n" "m = month_of_day y n" using assms by (auto simp: year_month_def Let_def n_def)
  have year: "days_before_year y \<le> n" "n < days_before_year (y + 1)" using year_bounds ym(1) by blast+
  have days: "1 \<le> m \<and> m \<le> 12 \<and> days_before_year y + days_before_month y m \<le> n \<and>
      (if m = 12 then True else n < days_before_year y + days_before_month y (m + 1))"
  proof (cases "find (\<lambda>m. n < days_before_year y + days_before_month y (m + 1)) [1..11]")
    case None
    then have "\<not> n < days_before_year y + days_before_month y 12" by (auto simp: find_None_iff)
    with None show ?thesis by (simp add: ym(2) month_of_day_def)
  next
    case (Some k)
    from find_upto [OF this] year(1) have "1 \<le> k" "k \<le> 11" "n < days_before_year y + days_before_month y (k + 1)"
      "days_before_year y + days_before_month y k \<le> n" by (cases "k = 1"; simp)+
    with Some show ?thesis by (simp add: ym(2) month_of_day_def)
  qed
  have t: "(n - 719162) * DAY \<le> t" "t < (n - 719162 + 1) * DAY"
    using minus_mod_eq_mult_div [of t DAY] pos_mod_bound [of DAY t] pos_mod_sign [of DAY t]
    by (simp_all add: n_def DAY_def algebra_simps)
  have mono: "x \<le> n \<Longrightarrow> (x - 719162) * DAY \<le> t" and mono': "n < x \<Longrightarrow> t < (x - 719162) * DAY" for x
    using t mult_right_mono [of "x - 719162" "n - 719162" DAY] mult_right_mono [of "n - 719162 + 1" "x - 719162" DAY] by (simp_all add: DAY_def)
  show ?thesis
  proof (cases "m = 12")
    case True
    then have "t < month_start (y + 1) 1" using mono' year(2) by (simp add: month_start_def)
    with True days mono show ?thesis by (simp add: month_start_def)
  next
    case False
    with days mono mono' show ?thesis by (simp add: month_start_def)
  qed
qed

section \<open>Lines of a project\<close>

definition project_month :: "metering_db \<Rightarrow> string \<Rightarrow> string \<Rightarrow> int \<times> int \<Rightarrow> rat" where
  "project_month db owner pid ym =
     (case find (statement_is (Some owner) (month_start (fst ym) (snd ym))) (mt_statements db) of
        None \<Rightarrow> 0
      | Some s \<Rightarrow> sum_list (map pl_subtotal (filter (\<lambda>l. pl_project_id l = pid) (ms_by_project s))))"

definition no_final :: "string \<Rightarrow> metering_db \<Rightarrow> bool" where
  "no_final owner db \<longleftrightarrow> (\<forall>s\<in>set (mt_statements db). ms_owner_id s = Some owner \<longrightarrow> ms_status s \<noteq> ''final'')"

lemma find_update_first: "find P xs = Some x \<Longrightarrow> P (f x) \<Longrightarrow> find P (update_first P f xs) = Some (f x)"
  by (induction xs) (auto split: if_splits)

lemma find_update_other:
  "(\<And>x. P x \<Longrightarrow> P (f x)) \<Longrightarrow> (\<And>x. P x \<Longrightarrow> \<not> Q x) \<Longrightarrow> find Q (update_first P f xs) = find Q xs"
  by (induction xs) auto

lemma find_snoc_other: "\<not> Q x \<Longrightarrow> find Q (xs @ [x]) = find Q xs"
  by (induction xs) auto

lemma update_first_set: "x \<in> set (update_first P f xs) \<Longrightarrow> x \<in> set xs \<or> (\<exists>y\<in>set xs. P y \<and> x = f y)"
  by (induction xs) (auto split: if_splits)

lemma usage_empty: "snd (period_usage rows a b now) = [] \<Longrightarrow> fst (period_usage rows a b now) = 0"
  using period_usage_correct [of rows a b now] by (simp add: split_beta Let_def)

lemma set_lines_keeps:
  "ms_owner_id (set_project_month_lines pid pname sub kinds s) = ms_owner_id s"
  "ms_period_start (set_project_month_lines pid pname sub kinds s) = ms_period_start s"
  "ms_status (set_project_month_lines pid pname sub kinds s) = ms_status s"
  by (simp_all add: set_project_month_lines_def Let_def)

lemma set_lines_subtotal:
  assumes "kinds = [] \<Longrightarrow> sub = 0"
  shows "sum_list (map pl_subtotal (filter (\<lambda>l. pl_project_id l = pid) (ms_by_project (set_project_month_lines pid pname sub kinds s)))) = sub"
proof -
  have kept: "filter (\<lambda>l. pl_project_id l = pid) (filter (\<lambda>l. pl_project_id l \<noteq> pid) ls) = []" for ls
    by (auto simp: filter_empty_conv)
  have "kinds \<noteq> [] \<or> sub = 0" using assms by blast
  then show ?thesis
    by (auto simp: set_project_month_lines_def Let_def filter_sort sum_list_sort kept)
qed

lemma month_bounds_start: "month_bounds y m = Some (start, stop) \<Longrightarrow> start = month_start y m"
  by (auto simp: month_bounds_def split: if_splits)

lemma get_or_create_other:
  assumes "get_or_create_statement db owner y m = Some (db1, s)" "start' \<noteq> month_start y m"
  shows "find (statement_is w start') (mt_statements db1) = find (statement_is w start') (mt_statements db)"
proof -
  from assms(1) obtain start stop where b: "month_bounds y m = Some (start, stop)"
    by (auto simp: get_or_create_statement_def bind_eq_Some_conv)
  have "\<not> statement_is w start' (draft_statement owner start stop)"
    using assms(2) month_bounds_start [OF b] by (simp add: statement_is_def draft_statement_def)
  with assms(1) b show ?thesis
    by (auto simp: get_or_create_statement_def Let_def find_snoc_other split: option.splits)
qed

lemma get_or_create_no_final:
  assumes "get_or_create_statement db owner y m = Some (db1, s)" "no_final w db"
  shows "no_final w db1"
  using assms by (auto simp: get_or_create_statement_def no_final_def bind_eq_Some_conv Let_def draft_statement_def split: option.splits)

lemma contribute_month_line:
  assumes "contribute_month p rows now db ym = Some db'" "no_final (p_owner_id p) db"
  shows "project_month db' (p_owner_id p) (p_id p) ym = month_total (map (interval_payload now) rows) now ym"
    "no_final (p_owner_id p) db'"
    "month_start (fst ym') (snd ym') \<noteq> month_start (fst ym) (snd ym) \<Longrightarrow>
       project_month db' (p_owner_id p) (p_id p) ym' = project_month db (p_owner_id p) (p_id p) ym'"
proof -
  let ?use = "\<lambda>start stop. period_usage (map (interval_payload now) rows) start stop now"
  obtain start stop db1 s where m: "month_bounds (fst ym) (snd ym) = Some (start, stop)"
    and g: "get_or_create_statement db (Some (p_owner_id p)) (fst ym) (snd ym) = Some (db1, s)" "ms_period_start s = start"
    and c: "ms_status s = ''final'' \<and> db' = db1 \<or> ms_status s \<noteq> ''final'' \<and>
       db' = db1\<lparr>mt_statements := update_first (statement_is (Some (p_owner_id p)) start)
         (set_project_month_lines (p_id p) (p_name p) (fst (?use start stop)) (snd (?use start stop))) (mt_statements db1)\<rparr>"
    using assms(1) by (rule contribute_month_cases)
  note start = month_bounds_start [OF m]
  note ok = get_or_create_ok [OF g(1), unfolded g(2)]
  note nf = get_or_create_no_final [OF g(1) assms(2)]
  from ok have s: "s \<in> set (mt_statements db1)" "statement_is (Some (p_owner_id p)) start s" using find_SomeD by metis+
  with nf have "ms_status s \<noteq> ''final''" by (auto simp: no_final_def statement_is_def)
  with c have db': "mt_statements db' = update_first (statement_is (Some (p_owner_id p)) start)
      (set_project_month_lines (p_id p) (p_name p) (fst (?use start stop)) (snd (?use start stop))) (mt_statements db1)" by simp
  have "find (statement_is (Some (p_owner_id p)) start) (mt_statements db') =
      Some (set_project_month_lines (p_id p) (p_name p) (fst (?use start stop)) (snd (?use start stop)) s)"
    unfolding db' using ok s(2) by (intro find_update_first) (auto simp: statement_is_def set_lines_keeps)
  moreover have "snd (?use start stop) = [] \<Longrightarrow> fst (?use start stop) = 0" by (rule usage_empty)
  ultimately show "project_month db' (p_owner_id p) (p_id p) ym = month_total (map (interval_payload now) rows) now ym"
    by (simp add: project_month_def month_total_def m start set_lines_subtotal)
  show "no_final (p_owner_id p) db'"
    unfolding no_final_def db' using nf by (auto simp: no_final_def set_lines_keeps dest!: update_first_set)
  assume ne: "month_start (fst ym') (snd ym') \<noteq> month_start (fst ym) (snd ym)"
  have "find (statement_is (Some (p_owner_id p)) (month_start (fst ym') (snd ym'))) (mt_statements db') =
      find (statement_is (Some (p_owner_id p)) (month_start (fst ym') (snd ym'))) (mt_statements db1)"
    unfolding db' using ne start by (intro find_update_other) (auto simp: statement_is_def set_lines_keeps)
  with get_or_create_other [OF g(1) ne] show
    "project_month db' (p_owner_id p) (p_id p) ym' = project_month db (p_owner_id p) (p_id p) ym'"
    by (simp add: project_month_def)
qed

lemma contribute_months_lines:
  "ofold (contribute_month p rows now) db months = Some db' \<Longrightarrow> no_final (p_owner_id p) db \<Longrightarrow>
     distinct (map (\<lambda>ym. month_start (fst ym) (snd ym)) months) \<Longrightarrow>
     (\<forall>ym\<in>set months. project_month db' (p_owner_id p) (p_id p) ym = month_total (map (interval_payload now) rows) now ym) \<and>
     (\<forall>ym'. month_start (fst ym') (snd ym') \<notin> (\<lambda>ym. month_start (fst ym) (snd ym)) ` set months \<longrightarrow>
        project_month db' (p_owner_id p) (p_id p) ym' = project_month db (p_owner_id p) (p_id p) ym')"
proof (induction months arbitrary: db)
  case (Cons ym months)
  from Cons.prems(1) obtain db1 where db1: "contribute_month p rows now db ym = Some db1"
    "ofold (contribute_month p rows now) db1 months = Some db'" by (auto simp: bind_eq_Some_conv)
  note line = contribute_month_line [OF db1(1) Cons.prems(2)]
  note ih = Cons.IH [OF db1(2) line(2)]
  have "project_month db' (p_owner_id p) (p_id p) ym = project_month db1 (p_owner_id p) (p_id p) ym"
    using ih Cons.prems(3) by (metis (no_types, lifting) distinct.simps(2) list.set_map list.simps(9))
  with ih line(1,3) Cons.prems(3) show ?case by auto
qed simp

lemma months_loop_starts:
  "months_loop y m stop = Some months \<Longrightarrow>
     distinct (map (\<lambda>ym. month_start (fst ym) (snd ym)) months) \<and> (\<forall>ym\<in>set months. month_start y m \<le> month_start (fst ym) (snd ym))"
proof (induction y m stop arbitrary: months rule: months_loop.induct)
  case (1 y m stop)
  have v: "valid_month y m" using 1(2) by (subst (asm) months_loop.simps) (auto split: if_splits)
  show ?case
  proof (cases "month_start y m \<le> stop")
    case False
    then have "months = []" using 1(2) v by (subst (asm) months_loop.simps) auto
    then show ?thesis by simp
  next
    case True
    obtain y' m' where n: "next_month y m = (y', m')" by fastforce
    with 1(2) v True obtain rest where rest: "months_loop y' m' stop = Some rest" "months = (y, m) # rest"
      by (subst (asm) months_loop.simps) (auto simp: bind_eq_Some_conv)
    have lt: "month_start y m < month_start y' m'" using month_start_less n v by (auto simp: valid_month_def)
    from 1(1) [OF _ True n [symmetric] refl rest(1)] v lt show ?thesis by (fastforce simp: rest(2))
  qed
qed

lemma foldl_min: "t \<in> set ts \<Longrightarrow> foldl min x ts \<le> t" for x :: int
proof -
  have low: "foldl min x ts \<le> x" for x :: int and ts by (induction ts arbitrary: x) (simp, simp, meson min.cobounded1 order_trans)
  show "t \<in> set ts \<Longrightarrow> foldl min x ts \<le> t" for x :: int
    by (induction ts arbitrary: x) (auto intro: order_trans [OF low])
qed

lemma earliest_le: "t \<in> set ts \<Longrightarrow> earliest ts \<le> t"
  unfolding earliest_def by (rule foldl_min)

lemma make_invoice_empty: "make_invoice p [] now = Some iv \<Longrightarrow> iv_by_kind iv = []"
  by (auto simp: make_invoice_def)

lemma make_invoice_start:
  "make_invoice p rows now = Some iv \<Longrightarrow> iv_period_start iv = (if rows \<noteq> [] then earliest (map mi_started_at rows) else now)"
  by (auto simp: make_invoice_def bind_eq_Some_conv Let_def)

text \<open>C29: the monthly statements of the owner add up to the invoice: when none of them is final yet and the project has meters, the lines of the
  project in the statements of the months from its first meter to the freeze sum to the invoice total.\<close>

theorem frozen_months_add_up:
  assumes "freeze_invoice env db p now = Some f" "meters_ok t db" "t \<le> now" "p_owner_id p \<noteq> []" "no_final (p_owner_id p) db"
    "months_spanned (year_month (iv_period_start (fz_invoice f))) now = Some months" "iv_by_kind (fz_invoice f) \<noteq> []"
  shows "sum_list (map (project_month (fz_db f) (p_owner_id p) (p_id p)) months) = iv_total_usd (fz_invoice f)"
  using assms(1)
proof (rule freeze_invoice_parts)
  fix rc db1
  assume rc: "reconcile_project env db p now None = Some rc" and db1: "db1 = close_all (p_id p) now (rc_db rc)"
    and inv: "make_invoice p (project_rows db1 (p_id p)) now = Some (fz_invoice f)"
    and c: "contribute_intervals_to_months (db1\<lparr>mt_invoices := mt_invoices db1 @ [fz_invoice f]\<rparr>) p (project_rows db1 (p_id p)) now = Some (fz_db f)"
  let ?rows = "project_rows db1 (p_id p)" and ?db = "db1\<lparr>mt_invoices := mt_invoices db1 @ [fz_invoice f]\<rparr>"
  have iv: "iv_total_usd (fz_invoice f) = sum_list (map (row_cost now) ?rows)" using make_invoice_total [of p ?rows now] inv by simp
  have iv_start: "iv_period_start (fz_invoice f) = (if ?rows \<noteq> [] then earliest (map mi_started_at ?rows) else now)"
    using inv by (rule make_invoice_start)
  have stm: "mt_statements ?db = mt_statements db"
    using reconcile_statements [OF rc] by (simp add: db1 close_all_def close_intervals_def)
  then have nf: "no_final (p_owner_id p) ?db" using assms(5) by (simp add: no_final_def)
  obtain y m where ym: "year_month (iv_period_start (fz_invoice f)) = (y, m)" by fastforce
  have ok: "meters_ok now db1" unfolding db1 using close_all_ok [OF reconcile_meters_ok [OF rc assms(2,3)]] by blast
  have closed: "\<exists>e. mi_ended_at r = Some e \<and> e \<le> now" if "r \<in> set ?rows" for r
    using that ok closed_all [of "p_id p" now "rc_db rc"]
    by (fastforce simp: project_rows_def open_rows_def db1 [symmetric] meters_ok_def list_all_iff row_ok_def filter_empty_conv split: option.splits)
  have pay: "map (interval_payload now) ?rows = map payload_row ?rows"
    using closed by (fastforce simp: interval_payload_def payload_row_def)
  have "billed_row (month_start y m) now now (payload_row r)" if "r \<in> set ?rows" for r
  proof -
    have "month_start y m \<le> iv_period_start (fz_invoice f)" using month_of_time [OF ym] by blast
    moreover have "iv_period_start (fz_invoice f) \<le> mi_started_at r" using that earliest_le iv_start by auto
    ultimately show ?thesis using closed [OF that] by (auto simp: billed_row_def payload_row_def)
  qed
  then have spend: "sum_list (map (month_total (map payload_row ?rows) now) months) = sum_list (map (row_cost now) ?rows)"
    using months_spend [OF assms(6) [unfolded ym], of "map payload_row ?rows" now] by (simp add: spend_payload)
  have "?rows \<noteq> []" using inv assms(7) make_invoice_empty by metis
  with c assms(4,6) iv_start have "ofold (contribute_month p ?rows now) ?db months = Some (fz_db f)"
    by (simp add: contribute_intervals_to_months_def)
  moreover have "distinct (map (\<lambda>ym. month_start (fst ym) (snd ym)) months)"
    using months_loop_starts assms(6) by (auto simp: months_spanned_def)
  ultimately have "map (project_month (fz_db f) (p_owner_id p) (p_id p)) months = map (month_total (map payload_row ?rows) now) months"
    using contribute_months_lines [OF _ nf] by (simp add: pay)
  from arg_cong [OF this, of sum_list] spend iv show ?thesis by (simp only:)
qed

text \<open>An undeployed project whose meter ran from 16 January to 2 February 1970.\<close>

definition metered_db :: metering_db where
  "metered_db = sample_mdb\<lparr>mt_intervals := [\<lparr>mi_id = 0, mi_project_id = ''p'', mi_kind = ''vcpu'', mi_resource_id = ''vm'', mi_qty = 2,
     mi_unit_rate = 1 / 10, mi_host_id = JStr ''h'', mi_provider_type = JStr ''ec2'', mi_started_at = 15 * DAY, mi_ended_at = None\<rparr>],
     mt_next_id := 1\<rparr>"

theorem frozen_months_add_up_witness:
  "case freeze_invoice sample_menv metered_db (undeployed sample_m_project) (32 * DAY) of
     None \<Rightarrow> False
   | Some f \<Rightarrow> sum_list (map (project_month (fz_db f) ''u'' ''p'') [(1970, 1), (1970, 2)]) = iv_total_usd (fz_invoice f) \<and>
       iv_total_usd (fz_invoice f) = 408 / 5"
proof -
  have ok: "case freeze_invoice sample_menv metered_db (undeployed sample_m_project) (32 * DAY) of None \<Rightarrow> False
    | Some f \<Rightarrow> iv_total_usd (fz_invoice f) = 408 / 5 \<and> iv_by_kind (fz_invoice f) \<noteq> [] \<and>
        months_spanned (year_month (iv_period_start (fz_invoice f))) (32 * DAY) = Some [(1970, 1), (1970, 2)]" by code_simp
  then obtain f where f: "freeze_invoice sample_menv metered_db (undeployed sample_m_project) (32 * DAY) = Some f" by (auto split: option.splits)
  have "meters_ok (15 * DAY) metered_db" "no_final (p_owner_id (undeployed sample_m_project)) metered_db"
    by (simp_all add: meters_ok_def metered_db_def row_ok_def no_final_def sample_mdb_def)
  moreover have "p_owner_id (undeployed sample_m_project) = ''u''" "p_id (undeployed sample_m_project) = ''p''" by code_simp+
  ultimately show ?thesis
    using frozen_months_add_up [OF f, of "15 * DAY" "[(1970, 1), (1970, 2)]"] ok unfolding f by (simp add: DAY_def)
qed

end
