(* ===== verification/Group_Metering.thy ===== *)
theory Group_Metering
  imports Month_Lines Managed_Groups
begin

text \<open>
  The usage report of a managed group (\<open>src/src/backend/app/services/group_metering.py\<close>) and the rate
  and finalize handlers of \<open>src/src/backend/app/api/metering.py\<close>. Users are given with their email and
  display name, memberships as in \<open>Managed_Groups\<close>.
\<close>

section \<open>Members\<close>

record report_user =
  ru_id :: string
  ru_email :: string
  ru_display_name :: "string option"

definition scoped_members :: "groups_db \<Rightarrow> report_user list \<Rightarrow> string \<Rightarrow> string option \<Rightarrow> report_user list outcome" where
  "scoped_members gdb users group_id owner_id =
     (let joined = concat (map (\<lambda>a. filter (\<lambda>u. ru_id u = snd a) users) (filter (\<lambda>a. fst a = group_id) (gd_members gdb)));
          members = sort_key ru_email (case owner_id of None \<Rightarrow> joined | Some i \<Rightarrow> filter (\<lambda>u. ru_id u = i) joined)
      in if owner_id \<noteq> None \<and> members = [] then Inl (HTTP 404 ''Group member not found'') else Inr members)"

section \<open>Usage of a member\<close>

record usage_report =
  mu_owner_id :: string
  mu_owner_email :: string
  mu_display_name :: "string option"
  mu_status :: string
  mu_total_usd :: "rat option"
  mu_by_project :: "project_line list"

definition usage_of_rows :: "(string \<times> usage_row list) list \<Rightarrow> string \<Rightarrow> usage_row list" where
  "usage_of_rows intervals pid = dict_get intervals pid []"

text \<open>A surviving project replaces its stored draft line, or removes it when it has no usage.\<close>

definition member_line ::
    "(string \<times> usage_row list) list \<Rightarrow> time \<Rightarrow> time \<Rightarrow> time \<Rightarrow> (string \<times> project_line) list \<Rightarrow> m_project \<Rightarrow> (string \<times> project_line) list" where
  "member_line intervals start stop now lines p =
     (let (sub, kinds) = period_usage (usage_of_rows intervals (p_id p)) start stop now;
          rest = AList.delete (p_id p) lines
      in if kinds \<noteq> []
         then rest @ [(p_id p, \<lparr>pl_project_id = p_id p, pl_project_name = p_name p, pl_subtotal = sub, pl_by_kind = kinds\<rparr>)]
         else rest)"

definition stored_lines :: "monthly_statement option \<Rightarrow> (string \<times> project_line) list" where
  "stored_lines st =
     (case st of None \<Rightarrow> [] | Some s \<Rightarrow> foldl (\<lambda>m l. AList.update (pl_project_id l) l m) [] (ms_by_project s))"

definition provisional_usage ::
    "report_user \<Rightarrow> m_project list \<Rightarrow> (string \<times> usage_row list) list \<Rightarrow> monthly_statement option \<Rightarrow> time \<Rightarrow> time \<Rightarrow> time \<Rightarrow> usage_report" where
  "provisional_usage u projects intervals st start stop now =
     (let available = (st \<noteq> None \<or> list_ex (\<lambda>p. usage_of_rows intervals (p_id p) \<noteq> []) projects);
          lines = foldl (member_line intervals start stop now) (stored_lines st) projects;
          by_project = sort_key (\<lambda>l. (pl_project_name l, pl_project_id l)) (map snd lines)
      in \<lparr>mu_owner_id = ru_id u, mu_owner_email = ru_email u, mu_display_name = ru_display_name u,
          mu_status = (if available then ''provisional'' else ''unavailable''),
          mu_total_usd = (if available then Some (sum_list (map pl_subtotal by_project)) else None),
          mu_by_project = by_project\<rparr>)"

definition member_usage ::
    "report_user \<Rightarrow> m_project list \<Rightarrow> (string \<times> usage_row list) list \<Rightarrow> monthly_statement option \<Rightarrow> time \<Rightarrow> time \<Rightarrow> time \<Rightarrow> usage_report" where
  "member_usage u projects intervals st start stop now =
     (case st of
        Some s \<Rightarrow>
          if ms_status s = ''final''
          then \<lparr>mu_owner_id = ru_id u, mu_owner_email = ru_email u, mu_display_name = ru_display_name u,
                mu_status = ''final'', mu_total_usd = Some (ms_total_usd s), mu_by_project = ms_by_project s\<rparr>
          else provisional_usage u projects intervals st start stop now
      | None \<Rightarrow> provisional_usage u projects intervals st start stop now)"

section \<open>Report of a group\<close>

record active_project =
  ap_id :: string
  ap_state :: string
  ap_owner_id :: string
  ap_owner_email :: "string option"
  ap_total_usd :: "rat option"
  ap_by_kind :: "usage_line list"

record group_usage =
  gr_group_id :: string
  gr_period_start :: time
  gr_period_end :: time
  gr_total_usd :: rat
  gr_members :: "usage_report list"
  gr_active :: "active_project list"

definition group_intervals :: "metering_db \<Rightarrow> m_project list \<Rightarrow> (string \<times> usage_row list) list" where
  "group_intervals db projects =
     foldl (\<lambda>m r. AList.update (mi_project_id r) (dict_get m (mi_project_id r) [] @ [payload_row r]) m) []
       (filter (\<lambda>r. mi_project_id r \<in> p_id ` set projects) (mt_intervals db))"

definition active_report :: "report_user list \<Rightarrow> (string \<times> usage_row list) list \<Rightarrow> time \<Rightarrow> m_project \<Rightarrow> active_project" where
  "active_report members intervals now p =
     (let rows = usage_of_rows intervals (p_id p); (sub, lines) = period_usage rows (month_start 1 1) now now
      in \<lparr>ap_id = p_id p, ap_state = p_state p, ap_owner_id = p_owner_id p,
          ap_owner_email = map_of (rev (map (\<lambda>u. (ru_id u, ru_email u)) members)) (p_owner_id p),
          ap_total_usd = (if rows \<noteq> [] then Some sub else None), ap_by_kind = lines\<rparr>)"

definition group_report :: "metering_db \<Rightarrow> string \<Rightarrow> report_user list \<Rightarrow> int \<Rightarrow> int \<Rightarrow> time \<Rightarrow> group_usage option" where
  "group_report db group_id members year month now = do {
     (start, stop) \<leftarrow> month_bounds year month;
     let owner_ids = map ru_id members;
     let projects = filter (\<lambda>p. p_owner_id p \<in> set owner_ids) (mt_projects db);
     let intervals = group_intervals db projects;
     let statement = (\<lambda>i. map_of (rev (map (\<lambda>s. (ms_owner_id s, s))
           (filter (\<lambda>s. ms_owner_id s \<in> Some ` set owner_ids \<and> ms_period_start s = start) (mt_statements db)))) (Some i));
     let reports = map (\<lambda>u. member_usage u (filter (\<lambda>p. p_owner_id p = ru_id u) projects) intervals (statement (ru_id u)) start stop now) members;
     Some \<lparr>gr_group_id = group_id, gr_period_start = start, gr_period_end = stop,
       gr_total_usd = sum_list (map (\<lambda>r. or_zero (mu_total_usd r)) reports), gr_members = reports,
       gr_active = map (active_report members intervals now) (filter (\<lambda>p. p_state p \<noteq> ''draft'') projects)\<rparr>
   }"

section \<open>Rates and month ends on request\<close>

definition clean_rate_block :: "json \<Rightarrow> rate_map option" where
  "clean_rate_block block = map_option concat (omap (\<lambda>key.
     (case index block key of
        None \<Rightarrow> if is_obj block then Some [] else None
      | Some v \<Rightarrow> if v = JNull then Some [] else map_option (\<lambda>x. [(key, x)]) (py_float v))) RATE_KEYS)"

definition put_rates :: "metering_env \<Rightarrow> metering_db \<Rightarrow> (string \<times> json) list \<Rightarrow> (metering_db \<times> (string \<times> rate_map) list) outcome option" where
  "put_rates env db body =
     (if \<not> me_enabled env then Some (Inl (HTTP 404 ''Metering is disabled''))
      else do {
        rates \<leftarrow> ofold (\<lambda>rates (ptype, block). map_option (\<lambda>m. AList.update ptype m rates) (clean_rate_block (py_or block (JObj []))))
          (mt_rate_defaults db) body;
        merged \<leftarrow> merge_rate_maps env rates;
        Some (Inr (db\<lparr>mt_rate_defaults := rates\<rparr>, merged))
      })"

definition post_finalize_month ::
    "metering_env \<Rightarrow> metering_db \<Rightarrow> int \<Rightarrow> int \<Rightarrow> time \<Rightarrow> (metering_db \<times> monthly_statement list) outcome option" where
  "post_finalize_month env db year month now =
     (if \<not> me_enabled env then Some (Inl (HTTP 404 ''Metering is disabled''))
      else do { (db', rows) \<leftarrow> finalize_month env db (year, month) now; Some (Inr (commit db', rows)) })"

text \<open>A caller who may see the spend of a project but is neither its owner nor an administrator does not
  trigger the reconcile, whose budget could stop the project.\<close>

definition project_metering ::
    "metering_env \<Rightarrow> groups_db \<Rightarrow> metering_db \<Rightarrow> user_row \<Rightarrow> string \<Rightarrow> time \<Rightarrow>
      (metering_db \<times> budget_effect list \<times> spend_report) outcome option" where
  "project_metering env gdb db u pid now =
     (if \<not> me_enabled env then Some (Inl (HTTP 404 ''Metering is disabled''))
      else (case find (\<lambda>p. p_id p = pid) (mt_projects db) of
              None \<Rightarrow> Some (Inl (HTTP 404 ''Project not found''))
            | Some p \<Rightarrow>
                (case require_billing_owner gdb u (Some (p_owner_id p)) of
                   Inl e \<Rightarrow> Some (Inl e)
                 | Inr _ \<Rightarrow>
                     if p_owner_id p = usr_id u \<or> usr_role u = ''admin''
                     then do {
                       rc \<leftarrow> reconcile_project env db p now None;
                       let db1 = commit (rc_db rc);
                       p' \<leftarrow> find (\<lambda>p. p_id p = pid) (mt_projects db1);
                       report \<leftarrow> live_spend db1 p' now;
                       Some (Inr (db1, rc_effects rc, report))
                     }
                     else do { report \<leftarrow> live_spend db p now; Some (Inr (db, [], report)) })))"

section \<open>Laws\<close>

lemma stored_lines_keys: "distinct (map fst (stored_lines st)) \<and> (\<forall>kl\<in>set (stored_lines st). pl_project_id (snd kl) = fst kl)"
proof -
  have "distinct (map fst (foldl (\<lambda>m l. AList.update (pl_project_id l) l m) m ls)) \<and>
      (\<forall>kl\<in>set (foldl (\<lambda>m l. AList.update (pl_project_id l) l m) m ls). pl_project_id (snd kl) = fst kl)"
    if "distinct (map fst m) \<and> (\<forall>kl\<in>set m. pl_project_id (snd kl) = fst kl)" for m :: "(string \<times> project_line) list" and ls
    using that
  proof (induction ls arbitrary: m)
    case (Cons l ls)
    have "\<forall>kl\<in>set (AList.update (pl_project_id l) l m). pl_project_id (snd kl) = fst kl"
      using Cons.prems update_entries_subset [of "pl_project_id l" l m] by fastforce
    moreover have "distinct (map fst (AList.update (pl_project_id l) l m))" using Cons.prems by (simp add: distinct_update)
    ultimately show ?case unfolding foldl_Cons by (intro Cons.IH conjI)
  qed simp
  note lines = this [of "[]"]
  show ?thesis
  proof (cases st)
    case (Some s)
    show ?thesis unfolding stored_lines_def Some option.case by (rule lines) simp
  qed (simp add: stored_lines_def)
qed

lemma member_line_keys:
  assumes "distinct (map fst m) \<and> (\<forall>kl\<in>set m. pl_project_id (snd kl) = fst kl)"
  shows "distinct (map fst (member_line intervals start stop now m p)) \<and>
    (\<forall>kl\<in>set (member_line intervals start stop now m p). pl_project_id (snd kl) = fst kl)"
proof -
  have "set (AList.delete (p_id p) m) \<subseteq> set m" "p_id p \<notin> fst ` set (AList.delete (p_id p) m)"
    by (auto simp: AList.delete_eq)
  with assms show ?thesis by (auto simp: member_line_def Let_def split_beta AList.distinct_delete)
qed

text \<open>A project is listed at most once in the usage of a member.\<close>

theorem member_projects_distinct:
  "distinct (map pl_project_id (mu_by_project (provisional_usage u projects intervals st start stop now)))"
proof -
  let ?lines = "foldl (member_line intervals start stop now) (stored_lines st) projects"
  have "distinct (map fst ?lines) \<and> (\<forall>kl\<in>set ?lines. pl_project_id (snd kl) = fst kl)"
    using stored_lines_keys [of st]
  proof (induction projects rule: rev_induct)
    case (snoc p projects)
    from member_line_keys [OF snoc.IH [OF snoc.prems]] show ?case by simp
  qed simp
  moreover from this have "map pl_project_id (map snd ?lines) = map fst ?lines" by simp
  ultimately have "distinct (map pl_project_id (map snd ?lines))" by (simp only:)
  then have "distinct (map pl_project_id (sort_key f (map snd ?lines)))" for f :: "project_line \<Rightarrow> string \<times> string"
    by (metis distinct_map distinct_sort set_sort)
  then show ?thesis by (simp add: provisional_usage_def Let_def)
qed

text \<open>Looking at the spend of somebody else's project, as the manager of a group may, changes nothing and stops
  nothing.\<close>

theorem delegated_view_changes_nothing:
  assumes "project_metering env gdb db u pid now = Some (Inr (db', effects, report))" "usr_role u \<noteq> ''admin''"
    "find (\<lambda>p. p_id p = pid) (mt_projects db) = Some p" "p_owner_id p \<noteq> usr_id u"
  shows "db' = db \<and> effects = [] \<and> (\<exists>scope. billing_owner_ids gdb u = Some scope \<and> p_owner_id p \<in> set scope)"
  using assms
  by (auto simp: project_metering_def require_billing_owner_def bind_eq_Some_conv billing_owner_ids_def Let_def split: if_splits sum.splits)

end
