(* ===== verification/Ws_Pubsub.thy ===== *)
theory Ws_Pubsub
  imports Models Topology_Disks
begin

text \<open>
  \<open>src/src/backend/app/services/ws_pubsub.py\<close>: the WebSocket subscribers of a backend process, the bridge
  that carries notifications between processes through Redis, and the poller that caches the states of VMs
  and notifies about changes. A WebSocket is a number; what the hosts and clusters answer, the deploy
  progress and the iteration order of a set are parameters.
\<close>

section \<open>Subscribers\<close>

type_synonym subscribers = "(string \<times> nat list) list"

definition subscribe :: "string \<Rightarrow> nat \<Rightarrow> subscribers \<Rightarrow> subscribers" where
  "subscribe pid ws subs = AList.update pid (List.insert ws (dict_get subs pid [])) subs"

definition discard_sockets :: "string \<Rightarrow> nat list \<Rightarrow> subscribers \<Rightarrow> subscribers" where
  "discard_sockets pid dead subs =
     (let s = dict_get subs pid []
      in if s = [] then subs
         else let kept = filter (\<lambda>w. w \<notin> set dead) s
              in if kept = [] then AList.delete pid subs else AList.update pid kept subs)"

definition unsubscribe :: "string \<Rightarrow> nat \<Rightarrow> subscribers \<Rightarrow> subscribers" where
  "unsubscribe pid ws subs = discard_sockets pid [ws] subs"

text \<open>The coroutine that sends: \<open>alive\<close> tells which sockets take the text. It returns who got it and removes
  the others.\<close>

definition send_to_subscribers :: "(nat \<Rightarrow> bool) \<Rightarrow> string \<Rightarrow> subscribers \<Rightarrow> nat list \<times> subscribers" where
  "send_to_subscribers alive pid subs =
     (let s = dict_get subs pid []; dead = filter (\<lambda>w. \<not> alive w) s
      in (filter alive s, if dead \<noteq> [] then discard_sockets pid dead subs else subs))"

section \<open>The bridge between processes\<close>

record pod =
  pd_loop :: bool
  pd_subs :: subscribers

definition deliver_locally :: "(nat \<Rightarrow> bool) \<Rightarrow> string \<Rightarrow> pod \<Rightarrow> nat list \<times> pod" where
  "deliver_locally alive pid p =
     (if \<not> pd_loop p \<or> map_of (pd_subs p) pid = None then ([], p)
      else let (got, subs) = send_to_subscribers alive pid (pd_subs p) in (got, p\<lparr>pd_subs := subs\<rparr>))"

datatype pubsub_message = Pubsub string string "json option"

text \<open>A message of the Redis connection: its type, its channel, and its data, \<^term>\<open>None\<close> when it is not JSON.\<close>

definition dispatch_pubsub_message :: "(nat \<Rightarrow> bool) \<Rightarrow> pubsub_message \<Rightarrow> pod \<Rightarrow> nat list \<times> pod" where
  "dispatch_pubsub_message alive m p =
     (case m of Pubsub ty channel data \<Rightarrow>
        if ty \<noteq> ''pmessage'' \<or> \<not> starts_with channel ''project:'' \<or> data = None then ([], p)
        else deliver_locally alive (drop 8 channel) p)"

text \<open>\<open>notify_project\<close> in process \<open>i\<close>: it delivers to its own clients and publishes; every process, \<open>i\<close> included,
  listens to \<open>project:*\<close> and dispatches what Redis sends it. The result is who received the message, as pairs
  of process and socket in the order of delivery.\<close>

definition dispatch_all :: "(nat \<Rightarrow> bool) \<Rightarrow> pubsub_message \<Rightarrow> pod list \<Rightarrow> (nat \<times> nat) list \<times> pod list" where
  "dispatch_all alive m pods =
     (let rs = map (dispatch_pubsub_message alive m) pods
      in (concat (map (\<lambda>(j, r). map (Pair j) (fst r)) (enumerate 0 rs)), map snd rs))"

definition notify_project :: "(nat \<Rightarrow> bool) \<Rightarrow> bool \<Rightarrow> nat \<Rightarrow> string \<Rightarrow> json \<Rightarrow> pod list \<Rightarrow> (nat \<times> nat) list \<times> pod list" where
  "notify_project alive redis i pid message pods =
     (let (got, p) = deliver_locally alive pid (pods ! i);
          pods1 = pods[i := p]
      in if redis
         then let (rest, pods2) = dispatch_all alive (Pubsub ''pmessage'' (''project:'' @ pid) (Some message)) pods1
              in (map (Pair i) got @ rest, pods2)
         else (map (Pair i) got, pods1))"

definition pattern_channel :: "string \<Rightarrow> string" where
  "pattern_channel pattern_id = ''pattern:'' @ pattern_id"

section \<open>Polling\<close>

definition should_skip_vm_poll_for_progress :: "json \<Rightarrow> bool option" where
  "should_skip_vm_poll_for_progress prog =
     (if \<not> truthy prog then Some False
      else do {
        s \<leftarrow> get_or prog ''step'' (JStr []);
        step \<leftarrow> py_str s;
        Some (\<not> (step = [] \<or> starts_with step ''ocp-install'' \<or> step = ''control-plane-usable'' \<or> starts_with step ''reconfigur''))
      })"

definition VM_STOPPED_STATES :: "string list" where
  "VM_STOPPED_STATES = [''shut_off'', ''shutting_down'', ''crashed'', ''suspended'', ''Stopped'']"

definition normalize_vm_state :: "json \<Rightarrow> json" where
  "normalize_vm_state st =
     (case st of
        JStr s \<Rightarrow> if s \<in> set VM_STOPPED_STATES then JStr ''stopped'' else if s = ''Running'' then JStr ''running'' else JStr s
      | _ \<Rightarrow> st)"

text \<open>\<open>node.get("data", {}).get("id", node.get("id", ""))\<close>, of a text.\<close>

definition poll_node_id :: "json \<Rightarrow> string option" where
  "poll_node_id node = do {
     d \<leftarrow> node_data node;
     own \<leftarrow> get_or node ''id'' (JStr []);
     i \<leftarrow> get_or d ''id'' own;
     as_str i
   }"

definition poll_nodes :: "json \<Rightarrow> json list option" where
  "poll_nodes topology = topo_nodes (py_or topology (JObj []))"

type_synonym vm_states = "(string \<times> json) list"

section \<open>States of VMs on a cluster\<close>

definition paused_condition :: "json \<Rightarrow> bool option" where
  "paused_condition c = do {
     ty \<leftarrow> get c ''type'';
     st \<leftarrow> get c ''status'';
     Some (ty = JStr ''Paused'' \<and> str_is st ''True'')
   }"

text \<open>Whether \<open>_vmi_paused_info\<close> (\<open>providers/ocpvirt.py\<close>) finds a pause; its reason is not used here.\<close>

definition vmi_paused :: "json \<Rightarrow> bool option" where
  "vmi_paused vmi = do {
     s \<leftarrow> get vmi ''status'';
     let status = py_or s (JObj []);
     ps \<leftarrow> get status ''printableStatus'';
     txt \<leftarrow> as_str (py_or ps (JStr []));
     if py_strip txt = ''Paused'' then Some True
     else do {
       cs \<leftarrow> get status ''conditions'';
       conds \<leftarrow> iter (py_or cs (JList []));
       oany paused_condition conds
     }
   }"

definition vmi_phase_step :: "vm_states \<Rightarrow> json \<Rightarrow> vm_states option" where
  "vmi_phase_step phases vmi = do {
     paused \<leftarrow> vmi_paused vmi;
     md \<leftarrow> index vmi ''metadata'';
     n \<leftarrow> index md ''name'';
     name \<leftarrow> as_str n;
     if paused then Some (AList.update name (JStr ''paused'') phases)
     else do {
       st \<leftarrow> get_or vmi ''status'' (JObj []);
       ph \<leftarrow> get_or st ''phase'' (JStr ''Unknown'');
       Some (AList.update name ph phases)
     }
   }"

definition kv_state_step :: "vm_states \<Rightarrow> vm_states \<Rightarrow> json \<Rightarrow> vm_states option" where
  "kv_state_step phases states node = do {
     vm \<leftarrow> has_type ''vmNode'' node;
     if \<not> vm then Some states
     else do {
       i \<leftarrow> poll_node_id node;
       Some (AList.update i (dict_get phases (''troshka-vm-'' @ take 8 i) (JStr ''Stopped'')) states)
     }
   }"

text \<open>\<open>vmis\<close> is what the cluster lists, \<^term>\<open>None\<close> when the provider is gone or the request fails. Any exception
  gives no states.\<close>

definition fetch_kubevirt_vm_states :: "json \<Rightarrow> json option \<Rightarrow> vm_states option" where
  "fetch_kubevirt_vm_states topology vmis =
     do {
       raw \<leftarrow> vmis;
       let listed = (if is_obj raw then raw else JObj []);
       its \<leftarrow> get_or listed ''items'' (JList []);
       items \<leftarrow> iter its;
       phases \<leftarrow> ofold vmi_phase_step [] items;
       nodes \<leftarrow> poll_nodes topology;
       states \<leftarrow> ofold (kv_state_step phases) [] nodes;
       if states = [] then None else Some states
     }"

section \<open>States of a project\<close>

record poll_env =
  pe_sha256_hex :: "string \<Rightarrow> string"
  pe_redeploy_progress :: vm_states
  pe_deploy_progress :: "string \<Rightarrow> json"
  pe_host_states :: "string \<Rightarrow> vm_states option"
  pe_vmis :: "string \<Rightarrow> string \<Rightarrow> json option"
  pe_host_order :: "string list \<Rightarrow> string list"

definition map_vm_state_step ::
    "poll_env \<Rightarrow> string \<Rightarrow> vm_states \<Rightarrow> bool \<Rightarrow> vm_states \<times> vm_states \<Rightarrow> json \<Rightarrow> (vm_states \<times> vm_states) option" where
  "map_vm_state_step env pid batch is_kubevirt st node = do {
     vm \<leftarrow> has_type ''vmNode'' node;
     if \<not> vm then Some st
     else do {
       i \<leftarrow> poll_node_id node;
       let dom = vm_domain_name (pe_sha256_hex env) pid i;
       if \<not> is_kubevirt \<and> map_of (pe_redeploy_progress env) dom \<noteq> None
       then Some (AList.update i (JStr ''redeploying'') (fst st),
                  AList.update i (the (map_of (pe_redeploy_progress env) dom)) (snd st))
       else let state = dict_get batch (if is_kubevirt then i else dom) (JStr ''not_found'')
            in Some (if state = JStr ''not_found'' then st else (AList.update i (normalize_vm_state state) (fst st), snd st))
     }
   }"

text \<open>\<open>batch = kv_batch or host_batch\<close>; the boot devices are always empty.\<close>

definition map_vm_states_for_project ::
    "poll_env \<Rightarrow> project \<Rightarrow> vm_states option \<Rightarrow> vm_states option \<Rightarrow> (vm_states \<times> vm_states) option" where
  "map_vm_states_for_project env p host_batch kv_batch =
     (case (case kv_batch of Some (s # ss) \<Rightarrow> kv_batch | _ \<Rightarrow> host_batch) of
        None \<Rightarrow> Some ([], [])
      | Some batch \<Rightarrow> do {
          nodes \<leftarrow> poll_nodes (p_topology p);
          ofold (map_vm_state_step env (p_id p) batch (kv_batch \<noteq> None)) ([], []) nodes
        })"

definition get_vm_states_for_project ::
    "poll_env \<Rightarrow> project \<Rightarrow> vm_states option \<Rightarrow> vm_states option \<Rightarrow> (vm_states \<times> vm_states) option" where
  "get_vm_states_for_project env p host_batch kv_batch =
     (if p_state p \<in> {''active'', ''stopped''} then map_vm_states_for_project env p host_batch kv_batch else Some ([], []))"

section \<open>Cache and notifications\<close>

record poll_cache =
  pc_project_state :: string
  pc_deploy_error :: "string option"
  pc_deploy_progress :: json
  pc_vm_states :: vm_states
  pc_vm_progress :: vm_states

datatype notification =
    Project_state string "string option"
  | Deploy_progress json
  | Vm_state vm_states vm_states

abbreviation dict_ne :: "vm_states \<Rightarrow> vm_states \<Rightarrow> bool" where
  "dict_ne a b \<equiv> \<not> py_eq (JObj a) (JObj b)"

text \<open>The log lines about changed states are not modelled; canvas nodes have an id.\<close>

definition project_messages :: "poll_cache option \<Rightarrow> project \<Rightarrow> notification list" where
  "project_messages prev p =
     (if (case prev of None \<Rightarrow> True | Some c \<Rightarrow> pc_project_state c \<noteq> p_state p \<or> pc_deploy_error c \<noteq> p_deploy_error p)
      then [Project_state (p_state p) (p_deploy_error p)] else [])"

definition progress_messages :: "poll_cache option \<Rightarrow> json \<Rightarrow> notification list" where
  "progress_messages prev dp =
     (if truthy dp \<and> \<not> py_eq dp (case prev of None \<Rightarrow> JNull | Some c \<Rightarrow> pc_deploy_progress c) then [Deploy_progress dp] else [])"

definition vm_messages :: "poll_cache option \<Rightarrow> vm_states \<Rightarrow> vm_states \<Rightarrow> notification list" where
  "vm_messages prev vm_states vm_progress =
     (if vm_states \<noteq> [] \<and>
         (case prev of None \<Rightarrow> True | Some c \<Rightarrow> dict_ne vm_states (pc_vm_states c) \<or> dict_ne vm_progress (pc_vm_progress c))
      then [Vm_state vm_states vm_progress] else [])"

definition check_and_notify_project_changes ::
    "project \<Rightarrow> json \<Rightarrow> vm_states \<Rightarrow> vm_states \<Rightarrow> (string \<times> poll_cache) list \<Rightarrow> (string \<times> poll_cache) list \<times> notification list" where
  "check_and_notify_project_changes p dp vm_states vm_progress last_states =
     (let prev = map_of last_states (p_id p)
      in (AList.update (p_id p)
            \<lparr>pc_project_state = p_state p, pc_deploy_error = p_deploy_error p, pc_deploy_progress = dp,
             pc_vm_states = (if vm_states \<noteq> [] then vm_states else (case prev of None \<Rightarrow> [] | Some c \<Rightarrow> pc_vm_states c)),
             pc_vm_progress = vm_progress\<rparr> last_states,
          project_messages prev p @ progress_messages prev dp @ vm_messages prev vm_states vm_progress))"

definition get_cached_vm_states :: "(string \<times> poll_cache) list \<Rightarrow> string \<Rightarrow> json" where
  "get_cached_vm_states last_states pid =
     (case map_of last_states pid of
        None \<Rightarrow> JNull
      | Some c \<Rightarrow> JObj [(''states'', JObj (pc_vm_states c)), (''container_states'', JObj []), (''progress'', JObj (pc_vm_progress c))])"

section \<open>A pass of the poller\<close>

definition assigned_hosts :: "project \<Rightarrow> string list" where
  "assigned_hosts p = (case p_host_assignments p of None \<Rightarrow> [] | Some as \<Rightarrow> map snd as)"

definition collect_hosts_to_query :: "project list \<Rightarrow> string list" where
  "collect_hosts_to_query projects =
     foldl (\<lambda>hs p. if assigned_hosts p \<noteq> [] then foldl (\<lambda>hs h. List.insert h hs) hs (assigned_hosts p)
                   else if opt_truthy (p_host_id p) then List.insert (the (p_host_id p)) hs else hs) [] projects"

definition fetch_troshkad_host_states :: "poll_env \<Rightarrow> host \<Rightarrow> (string \<times> vm_states) list \<Rightarrow> (string \<times> vm_states) list" where
  "fetch_troshkad_host_states env h states =
     (if h_agent_status h \<noteq> ''connected'' \<or> map_of states (h_id h) \<noteq> None then states
      else (case pe_host_states env (h_id h) of None \<Rightarrow> states | Some batch \<Rightarrow> AList.update (h_id h) batch states))"

definition fetch_kubevirt_states_for_host ::
    "poll_env \<Rightarrow> string \<Rightarrow> project list \<Rightarrow> string list \<Rightarrow> (string \<times> vm_states) list \<Rightarrow> (string \<times> vm_states) list" where
  "fetch_kubevirt_states_for_host env host_id projects deploying states =
     foldl (\<lambda>states p.
       if p_id p \<in> set deploying then states
       else if p_host_id p = Some host_id \<or> host_id \<in> set (assigned_hosts p)
       then (case fetch_kubevirt_vm_states (p_topology p) (pe_vmis env host_id (p_id p)) of
               None \<Rightarrow> states | Some kv \<Rightarrow> AList.update (p_id p) kv states)
       else states) states projects"

type_synonym batches = "(string \<times> vm_states) list \<times> (string \<times> vm_states) list"

definition batch_step :: "poll_env \<Rightarrow> database \<Rightarrow> project list \<Rightarrow> string list \<Rightarrow> string list \<Rightarrow> batches \<Rightarrow> string \<Rightarrow> batches" where
  "batch_step env db projects deploying_hosts deploying st host_id =
     (case host_by_id db host_id of
        None \<Rightarrow> st
      | Some h \<Rightarrow>
          if \<not> opt_truthy (h_ip_address h) then st
          else if h_host_type h = ''kubevirt-cluster''
          then (fst st, fetch_kubevirt_states_for_host env host_id projects deploying (snd st))
          else if host_id \<notin> set deploying_hosts then (fetch_troshkad_host_states env h (fst st), snd st)
          else st)"

definition batch_fetch_vm_states :: "poll_env \<Rightarrow> database \<Rightarrow> project list \<Rightarrow> string list \<Rightarrow> string list \<Rightarrow> batches" where
  "batch_fetch_vm_states env db projects deploying_hosts deploying =
     foldl (batch_step env db projects deploying_hosts deploying) ([], []) (pe_host_order env (collect_hosts_to_query projects))"

definition collect_host_batch_for_project :: "poll_env \<Rightarrow> project \<Rightarrow> (string \<times> vm_states) list \<Rightarrow> vm_states option" where
  "collect_host_batch_for_project env p host_states =
     (if assigned_hosts p \<noteq> []
      then Some (foldl (\<lambda>b h. case map_of host_states h of None \<Rightarrow> b | Some s \<Rightarrow> foldl (\<lambda>b (k, v). AList.update k v b) b s)
             [] (pe_host_order env (remdups (assigned_hosts p))))
      else if opt_truthy (p_host_id p) then map_of host_states (the (p_host_id p)) else None)"

definition notify_polled ::
    "poll_env \<Rightarrow> batches \<Rightarrow> (string \<times> poll_cache) list \<times> (string \<times> notification) list \<Rightarrow> project \<Rightarrow>
      ((string \<times> poll_cache) list \<times> (string \<times> notification) list) option" where
  "notify_polled env b st p = do {
     r \<leftarrow> get_vm_states_for_project env p (collect_host_batch_for_project env p (fst b)) (map_of (snd b) (p_id p));
     let (cache, ms) = check_and_notify_project_changes p (pe_deploy_progress env (p_id p)) (fst r) (snd r) (fst st);
     Some (cache, snd st @ map (Pair (p_id p)) ms)
   }"

text \<open>The loop over the projects: an exception ends the pass and leaves what was done, and the stale entries stay.\<close>

fun notify_all_projects ::
    "poll_env \<Rightarrow> batches \<Rightarrow> string list \<Rightarrow> (string \<times> poll_cache) list \<times> (string \<times> notification) list \<Rightarrow> project list \<Rightarrow>
      (string \<times> poll_cache) list \<times> (string \<times> notification) list" where
  "notify_all_projects env b ids st [] = (filter (\<lambda>kc. fst kc \<in> set ids) (fst st), snd st)"
| "notify_all_projects env b ids st (p # ps) =
     (case notify_polled env b st p of None \<Rightarrow> st | Some st' \<Rightarrow> notify_all_projects env b ids st' ps)"

definition deploying_ids :: "poll_env \<Rightarrow> project list \<Rightarrow> (string list \<times> string list) option" where
  "deploying_ids env projects =
     ofold (\<lambda>(ids, hosts) p. do {
       skip \<leftarrow> should_skip_vm_poll_for_progress (pe_deploy_progress env (p_id p));
       Some (if \<not> skip then (ids, hosts)
             else (List.insert (p_id p) ids,
                   foldl (\<lambda>hs h. List.insert h hs) (if opt_truthy (p_host_id p) then List.insert (the (p_host_id p)) hosts else hosts) (assigned_hosts p)))
     }) ([], []) projects"

definition polled_projects :: "database \<Rightarrow> project list" where
  "polled_projects db =
     filter (\<lambda>p. (p_host_id p \<noteq> None \<or> p_host_assignments p \<noteq> None) \<and> p_state p \<in> {''active'', ''stopped''}) (d_projects db)"

definition poll_active_projects ::
    "poll_env \<Rightarrow> database \<Rightarrow> (string \<times> poll_cache) list \<Rightarrow> (string \<times> poll_cache) list \<times> (string \<times> notification) list" where
  "poll_active_projects env db cache =
     (let projects = polled_projects db
      in if projects = [] then (cache, [])
         else (case deploying_ids env projects of
                 None \<Rightarrow> (cache, [])
               | Some (ids, hosts) \<Rightarrow>
                   notify_all_projects env (batch_fetch_vm_states env db projects hosts ids) (map p_id projects) (cache, []) projects))"

text \<open>\<open>_filter_running_vms\<close> of \<open>services/deploy_service.py\<close>: the VMs that a pause or a hibernation of a project acts on.\<close>

definition filter_running_vms :: "(string \<times> poll_cache) list \<Rightarrow> string \<Rightarrow> json list \<Rightarrow> json list option" where
  "filter_running_vms last_states pid vms =
     (let states = (case map_of last_states pid of None \<Rightarrow> [] | Some c \<Rightarrow> pc_vm_states c)
      in ofilter (\<lambda>v. do { i \<leftarrow> index v ''node_id''; k \<leftarrow> hkey i;
           Some (case k of JStr s \<Rightarrow> map_of states s = Some (JStr ''running'') | _ \<Rightarrow> False) }) vms)"

end
