(* ===== verification/Ws_Laws.thy ===== *)
theory Ws_Laws
  imports Ws_Pubsub
begin

text \<open>
  The subscriber table implements a set of subscriptions without empty entries; how often a client gets a
  notification; the poller notifies about changes only, and what its cache holds.
\<close>

section \<open>The interface of a subscription table\<close>

text \<open>An operation removes sockets from an entry or adds one.\<close>

type_synonym ('k, 'w) sub_op = "'k \<times> 'w list + 'k \<times> 'w"

definition run_ops :: "('k \<Rightarrow> 'w \<Rightarrow> 't \<Rightarrow> 't) \<Rightarrow> ('k \<Rightarrow> 'w list \<Rightarrow> 't \<Rightarrow> 't) \<Rightarrow> ('k, 'w) sub_op list \<Rightarrow> 't \<Rightarrow> 't" where
  "run_ops add rem ops t = foldl (\<lambda>t. case_sum (\<lambda>(k, ws). rem k ws t) (\<lambda>(k, w). add k w t)) t ops"

text \<open>A client is subscribed after the operations exactly when the last one on it subscribed it.\<close>

fun subscribed :: "('k, 'w) sub_op list \<Rightarrow> 'k \<Rightarrow> 'w \<Rightarrow> bool \<Rightarrow> bool" where
  "subscribed [] k w b = b"
| "subscribed (Inl (k', ws) # ops) k w b = subscribed ops k w (b \<and> \<not> (k' = k \<and> w \<in> set ws))"
| "subscribed (Inr (k', w') # ops) k w b = subscribed ops k w (b \<or> (k' = k \<and> w' = w))"

locale subscription_table =
  fixes ok :: "'t \<Rightarrow> bool" and pairs :: "'t \<Rightarrow> ('k \<times> 'w) set"
    and add :: "'k \<Rightarrow> 'w \<Rightarrow> 't \<Rightarrow> 't" and rem :: "'k \<Rightarrow> 'w list \<Rightarrow> 't \<Rightarrow> 't"
  assumes add_ok: "ok t \<Longrightarrow> ok (add k w t)"
    and add_pairs: "ok t \<Longrightarrow> pairs (add k w t) = insert (k, w) (pairs t)"
    and rem_ok: "ok t \<Longrightarrow> ok (rem k ws t)"
    and rem_pairs: "ok t \<Longrightarrow> pairs (rem k ws t) = pairs t - {k} \<times> set ws"
begin

lemma run_ok:
  "ok t \<Longrightarrow> ok (run_ops add rem ops t) \<and> ((k, w) \<in> pairs (run_ops add rem ops t) \<longleftrightarrow> subscribed ops k w ((k, w) \<in> pairs t))"
proof (induction ops arbitrary: t)
  case (Cons x ops)
  consider (rem) k' ws where "x = Inl (k', ws)" | (add) k' w' where "x = Inr (k', w')" by (cases x) auto
  then show ?case
  proof cases
    case rem
    have "(k, w) \<in> pairs (rem k' ws t) \<longleftrightarrow> (k, w) \<in> pairs t \<and> \<not> (k' = k \<and> w \<in> set ws)" using rem_pairs [OF Cons.prems] by auto
    with Cons.IH [OF rem_ok [OF Cons.prems, of k' ws]] show ?thesis by (simp add: run_ops_def rem)
  next
    case add
    have "(k, w) \<in> pairs (add k' w' t) \<longleftrightarrow> (k, w) \<in> pairs t \<or> (k' = k \<and> w' = w)" using add_pairs [OF Cons.prems] by auto
    with Cons.IH [OF add_ok [OF Cons.prems, of k' w']] show ?thesis by (simp add: run_ops_def add)
  qed
qed (simp add: run_ops_def)

end

definition subs_ok :: "subscribers \<Rightarrow> bool" where
  "subs_ok subs \<longleftrightarrow> distinct (map fst subs) \<and> (\<forall>(k, ws)\<in>set subs. ws \<noteq> [] \<and> distinct ws)"

definition subs_pairs :: "subscribers \<Rightarrow> (string \<times> nat) set" where
  "subs_pairs subs = {(k, w). w \<in> set (dict_get subs k [])}"

lemma subs_ok_get: "subs_ok subs \<Longrightarrow> distinct (dict_get subs k [])"
  by (auto simp: subs_ok_def dict_get_def dest!: map_of_SomeD split: option.splits)

lemma subs_update_ok: "subs_ok subs \<Longrightarrow> ws \<noteq> [] \<Longrightarrow> distinct ws \<Longrightarrow> subs_ok (AList.update k ws subs)"
  using update_entries_subset [of k ws subs] by (fastforce simp: subs_ok_def distinct_update)

lemma subs_delete_ok: "subs_ok subs \<Longrightarrow> subs_ok (AList.delete k subs)"
  unfolding subs_ok_def by (auto simp: AList.distinct_delete) (auto simp: AList.delete_eq)

interpretation ws: subscription_table subs_ok subs_pairs subscribe discard_sockets
proof
  fix subs k w assume ok: "subs_ok subs"
  show "subs_ok (subscribe k w subs)"
    unfolding subscribe_def by (rule subs_update_ok [OF ok]) (use subs_ok_get [OF ok] in \<open>auto simp: List.insert_def\<close>)
  show "subs_pairs (subscribe k w subs) = insert (k, w) (subs_pairs subs)"
    by (auto simp: subs_pairs_def subscribe_def split: if_splits)
next
  fix subs k ws assume ok: "subs_ok subs"
  show "subs_ok (discard_sockets k ws subs)"
    unfolding discard_sockets_def Let_def using subs_delete_ok [OF ok] subs_update_ok [OF ok] subs_ok_get [OF ok] ok by simp
  show "subs_pairs (discard_sockets k ws subs) = subs_pairs subs - {k} \<times> set ws"
    by (auto simp: subs_pairs_def discard_sockets_def Let_def filter_empty_conv split: if_splits)
qed

text \<open>C32: the subscriber table implements the set of subscriptions: after any sequence of subscriptions and
  removals (disconnects and dead sockets) no entry is empty or repeats a socket, and a socket is in the table
  exactly when the last operation on it subscribed it.\<close>

theorem subscribers_refine_set:
  "subs_ok (run_ops subscribe discard_sockets ops []) \<and>
   ((pid, w) \<in> subs_pairs (run_ops subscribe discard_sockets ops []) \<longleftrightarrow> subscribed ops pid w False)"
  using ws.run_ok [of "[]" ops pid w] by (simp add: subs_ok_def subs_pairs_def)

section \<open>Delivery\<close>

lemma deliver_got:
  assumes "pd_loop p" "\<forall>w. alive w"
  shows "deliver_locally alive pid p = (dict_get (pd_subs p) pid [], p)"
  using assms by (simp add: deliver_locally_def send_to_subscribers_def Let_def dict_get_def split: option.splits)

lemma dispatch_got:
  assumes "pd_loop p" "\<forall>w. alive w"
  shows "dispatch_pubsub_message alive (Pubsub ''pmessage'' (''project:'' @ pid) (Some m)) p = (dict_get (pd_subs p) pid [], p)"
proof -
  have "starts_with (''project:'' @ pid) ''project:''" by (simp add: starts_with_def)
  moreover have "drop 8 (''project:'' @ pid) = pid" by simp
  ultimately show ?thesis using deliver_got [OF assms] by (simp add: dispatch_pubsub_message_def)
qed

lemma count_list_map_Pair: "count_list (map (Pair j) xs) (i, w) = (if i = j then count_list xs w else 0)"
  by (induction xs) auto

lemma count_enumerate:
  "count_list (concat (map (\<lambda>(j, xs). map (Pair j) xs) (enumerate n xss))) (i, w) =
     (if n \<le> i \<and> i < n + length xss then count_list (xss ! (i - n)) w else 0)"
proof (induction xss arbitrary: n)
  case (Cons xs xss)
  show ?case
  proof (cases "i = n")
    case False
    then show ?thesis using Cons [of "Suc n"] by (auto simp: count_list_map_Pair nth_Cons' Suc_diff_Suc)
  qed (use Cons [of "Suc n"] in \<open>simp add: count_list_map_Pair\<close>)
qed simp

lemma count_distinct: "distinct xs \<Longrightarrow> count_list xs x = (if x \<in> set xs then 1 else 0)"
  by (induction xs) auto

text \<open>C31: how often a client gets a notification. With Redis every subscribed client of another process gets it
  once, and every subscribed client of the notifying process twice: once directly and once through the bridge.
  Without Redis only the clients of the notifying process get it, once. Nobody else gets it.\<close>

theorem notification_deliveries:
  assumes "i < length pods" "\<forall>p\<in>set pods. pd_loop p \<and> subs_ok (pd_subs p)" "\<forall>w. alive w" "j < length pods"
  shows "count_list (fst (notify_project alive redis i pid m pods)) (j, w) =
    (if w \<in> set (dict_get (pd_subs (pods ! j)) pid []) then (if j = i then 1 else 0) + (if redis then 1 else 0) else 0)"
proof -
  have loops: "pd_loop (pods ! n)" "distinct (dict_get (pd_subs (pods ! n)) pid [])" if "n < length pods" for n
    using that assms(2) subs_ok_get by (meson nth_mem)+
  note here = deliver_got [OF loops(1) [OF assms(1)] assms(3), of pid]
  let ?m = "Pubsub ''pmessage'' (''project:'' @ pid) (Some m)"
  have all: "map (dispatch_pubsub_message alive ?m) pods = map (\<lambda>p. (dict_get (pd_subs p) pid [], p)) pods"
    using assms(2,3) dispatch_got by auto
  have "concat (map (\<lambda>(j, r). map (Pair j) (fst r)) (enumerate 0 (map (\<lambda>p. (dict_get (pd_subs p) pid [], p)) pods))) =
      concat (map (\<lambda>(j, xs). map (Pair j) xs) (enumerate 0 (map (\<lambda>p. dict_get (pd_subs p) pid []) pods)))"
    by (simp add: enumerate_map_upt enumerate_eq_zip zip_map2 comp_def split_beta)
  then have "count_list (fst (dispatch_all alive ?m pods)) (j, w) = count_list (dict_get (pd_subs (pods ! j)) pid []) w"
    using assms(4) unfolding dispatch_all_def Let_def all by (simp add: count_enumerate)
  moreover have "count_list (dict_get (pd_subs (pods ! j)) pid []) w = (if w \<in> set (dict_get (pd_subs (pods ! j)) pid []) then 1 else 0)"
    using count_distinct loops(2) [OF assms(4)] by fast
  ultimately show ?thesis
    by (cases "j = i") (simp_all add: notify_project_def here split_beta Let_def count_list_map_Pair)
qed

definition sample_pods :: "pod list" where
  "sample_pods = [\<lparr>pd_loop = True, pd_subs = [(''p'', [1])]\<rparr>, \<lparr>pd_loop = True, pd_subs = [(''p'', [2]), (''q'', [3])]\<rparr>]"

theorem notification_deliveries_witness:
  "count_list (fst (notify_project (\<lambda>_. True) True 0 ''p'' JNull sample_pods)) (0, 1) = 2 \<and>
   count_list (fst (notify_project (\<lambda>_. True) True 0 ''p'' JNull sample_pods)) (1, 2) = 1"
proof -
  have pods: "\<forall>p\<in>set sample_pods. pd_loop p \<and> subs_ok (pd_subs p)" "length sample_pods = 2"
    by (simp_all add: sample_pods_def subs_ok_def)
  show ?thesis
    using notification_deliveries [OF _ pods(1), of 0 "\<lambda>_. True" 0 True "''p''" JNull 1]
      notification_deliveries [OF _ pods(1), of 0 "\<lambda>_. True" 1 True "''p''" JNull 2]
    by (simp add: pods(2)) (simp add: sample_pods_def dict_get_def)
qed

section \<open>The poller\<close>

lemma py_eq_states: "distinct (map fst a) \<Longrightarrow> \<forall>kv\<in>set a. wf_json (snd kv) \<Longrightarrow> py_eq (JObj a) (JObj a)"
  by (rule py_eq_refl) simp

text \<open>The poller notifies about changes only: checking a project again with the same row, progress and states
  sends nothing.\<close>

theorem unchanged_project_is_quiet:
  assumes "check_and_notify_project_changes p dp states progress cache = (cache', ms)"
    "wf_json dp" "wf_json (JObj states)" "wf_json (JObj progress)"
  shows "check_and_notify_project_changes p dp states progress cache' = (cache', [])"
proof -
  have c: "map_of cache' (p_id p) = Some \<lparr>pc_project_state = p_state p, pc_deploy_error = p_deploy_error p, pc_deploy_progress = dp,
      pc_vm_states = (if states \<noteq> [] then states else (case map_of cache (p_id p) of None \<Rightarrow> [] | Some c \<Rightarrow> pc_vm_states c)),
      pc_vm_progress = progress\<rparr>"
    using assms(1) by (auto simp: check_and_notify_project_changes_def Let_def map_of_update)
  have "AList.update (p_id p) c cache' = cache'" if "map_of cache' (p_id p) = Some c" for c
    using that by (induction cache') (auto split: if_splits)
  with c py_eq_refl [OF assms(2)] py_eq_refl [OF assms(3)] py_eq_refl [OF assms(4)] show ?thesis
    by (cases "states = []"; cases "map_of cache (p_id p)") (simp_all add: check_and_notify_project_changes_def Let_def project_messages_def progress_messages_def vm_messages_def)
qed

theorem unchanged_project_is_quiet_witness:
  "let p = sample_project ''p'' JNull;
       cache' = fst (check_and_notify_project_changes p JNull [(''vm'', JStr ''running'')] [] [])
   in check_and_notify_project_changes p JNull [(''vm'', JStr ''running'')] [] cache' = (cache', []) \<and>
      get_cached_vm_states cache' ''p'' \<noteq> JNull"
proof -
  define p where "p = sample_project ''p'' JNull"
  obtain cache' ms where c: "check_and_notify_project_changes p JNull [(''vm'', JStr ''running'')] [] [] = (cache', ms)" by fastforce
  from unchanged_project_is_quiet [OF this] have "check_and_notify_project_changes p JNull [(''vm'', JStr ''running'')] [] cache' = (cache', [])" by simp
  moreover have "map_of cache' ''p'' \<noteq> None" using c by (auto simp: check_and_notify_project_changes_def p_def sample_project_def Let_def)
  ultimately show ?thesis using c by (auto simp: p_def Let_def get_cached_vm_states_def)
qed

text \<open>A pass over no project leaves the cache as it is: the states of the last project that was stopped being polled
  stay.\<close>

theorem last_project_stays_cached: "polled_projects db = [] \<Longrightarrow> poll_active_projects env db cache = (cache, [])"
  by (simp add: poll_active_projects_def Let_def)

text \<open>A process that does not poll has no cached states, and in it a pause or a hibernation of a project acts on no VM.\<close>

theorem no_poller_no_running_vms: "filter_running_vms [] pid vms = Some vms' \<Longrightarrow> vms' = []"
  by (auto simp: filter_running_vms_def py_loops bind_eq_Some_conv filter_empty_conv split: json.splits)

text \<open>A whole pass: the entries of projects that are not polled any more are evicted.\<close>

lemma notify_all_evicts:
  "(\<And>st p. p \<in> set ps \<Longrightarrow> notify_polled env b st p \<noteq> None) \<Longrightarrow> fst ` set (fst (notify_all_projects env b ids st ps)) \<subseteq> set ids"
proof (induction ps arbitrary: st)
  case (Cons p ps)
  from Cons.prems [of p st] obtain st' where "notify_polled env b st p = Some st'" by auto
  with Cons.IH [of st'] Cons.prems show ?case by simp
qed auto

end
