(* ===== verification/Gc_Agent.thy ===== *)
theory Gc_Agent
  imports Topology_Json
begin

text \<open>
  The garbage collector of the host agent, the handlers \<open>gc/discover\<close> and \<open>gc/clean\<close> of
  \<open>src/src/troshkad/troshkad.py\<close>: what of a host they call an orphan, and what they remove. The host
  is the record of its files, domains, storage pools, containers, bridges, network namespaces and
  processes. The listing commands return the names in it; a command that does not exit with 0
  prints nothing on its standard output and changes nothing. How each command ends, which deletions
  fail, and where symbolic links lead are fields of the environment. Log lines are not modelled.
\<close>

section \<open>The host\<close>

record fs_node =
  f_path :: string
  f_dir :: bool
  f_atime :: rat
  f_mtime :: rat

record vm_domain =
  dom_name :: string
  dom_running :: bool
  dom_bridges :: "string list"

record dir_pool =
  pool_name :: string
  pool_path :: string
  pool_active :: bool

record pod_container =
  ctr_name :: string
  ctr_pod :: string

record net_namespace =
  ns_name :: string
  ns_links :: "string list"

record host_process =
  pr_command :: string
  pr_pidfile :: string

record agent_host =
  ah_fs :: "fs_node list"
  ah_domains :: "vm_domain list"
  ah_pools :: "dir_pool list"
  ah_containers :: "pod_container list"
  ah_bridges :: "string list"
  ah_namespaces :: "net_namespace list"
  ah_processes :: "host_process list"
  ah_dangling :: nat

text \<open>How a command ends: with code 0, with another code, or with a timeout, which
  \<open>subprocess.run\<close> raises. \<open>_run_cmd\<close> turns both failures into a RuntimeError.\<close>

datatype cmd_end = Exit_0 | Exit_other | Timed_out

record agent_env =
  ae_storage_mode :: string
  ae_shared_mount :: string
  ae_local_mount :: string
  ae_realpath :: "string \<Rightarrow> string"
  ae_now :: rat
  ae_run :: "string list \<Rightarrow> cmd_end"
  ae_lists :: "string \<Rightarrow> bool"
  ae_deletes :: "string \<Rightarrow> bool"
  ae_rmtree_left :: "string \<Rightarrow> string list option"
  ae_tmpdirs :: "string list"

definition cmd_ok :: "agent_env \<Rightarrow> string list \<Rightarrow> bool" where
  "cmd_ok env cmd = (ae_run env cmd = Exit_0)"

section \<open>Paths and files\<close>

definition TROSHKA_DIR :: string where "TROSHKA_DIR = ''/var/lib/troshka''"
definition VMS_DIR :: string where "VMS_DIR = ''/var/lib/troshka/vms''"
definition BMC_DIR :: string where "BMC_DIR = ''/var/lib/troshka/bmc''"
definition SHARED_DIR :: string where "SHARED_DIR = ''/var/lib/troshka/shared''"
definition LOCAL_DIR :: string where "LOCAL_DIR = ''/var/lib/troshka/local''"

fun join_slash :: "string list \<Rightarrow> string" where
  "join_slash [] = []"
| "join_slash [c] = c"
| "join_slash (c # cs) = c @ CHR ''/'' # join_slash cs"

text \<open>\<open>os.path.normpath\<close>.\<close>

definition norm_step :: "bool \<Rightarrow> string list \<Rightarrow> string \<Rightarrow> string list" where
  "norm_step absolute acc c =
     (if c = [] \<or> c = ''.'' then acc
      else if c \<noteq> ''..'' \<or> (\<not> absolute \<and> acc = []) \<or> (acc \<noteq> [] \<and> last acc = ''..'') then acc @ [c]
      else butlast acc)"

definition normpath :: "string \<Rightarrow> string" where
  "normpath p =
     (let lead = (if \<not> starts_with p ''/'' then []
                  else if starts_with p ''//'' \<and> \<not> starts_with p ''///'' then ''//'' else ''/'');
          r = lead @ join_slash (foldl (norm_step (lead \<noteq> [])) [] (py_split (CHR ''/'') p))
      in if r = [] then ''.'' else r)"

text \<open>\<open>os.path.join(d, e)\<close> for a name \<open>e\<close> without a slash.\<close>

definition path_join :: "string \<Rightarrow> string \<Rightarrow> string" where
  "path_join d e = d @ CHR ''/'' # e"

definition path_exists :: "agent_host \<Rightarrow> string \<Rightarrow> bool" where
  "path_exists h p = list_ex (\<lambda>n. f_path n = p) (ah_fs h)"

definition is_dir :: "agent_host \<Rightarrow> string \<Rightarrow> bool" where
  "is_dir h p = list_ex (\<lambda>n. f_path n = p \<and> f_dir n) (ah_fs h)"

definition is_file :: "agent_host \<Rightarrow> string \<Rightarrow> bool" where
  "is_file h p = list_ex (\<lambda>n. f_path n = p \<and> \<not> f_dir n) (ah_fs h)"

definition entry_name :: "string \<Rightarrow> bool" where
  "entry_name e = (e \<noteq> [] \<and> CHR ''/'' \<notin> set e \<and> e \<noteq> ''.'' \<and> e \<noteq> ''..'')"

definition dir_entries :: "agent_host \<Rightarrow> string \<Rightarrow> string list" where
  "dir_entries h d =
     filter entry_name (map (\<lambda>n. drop (length d + 1) (f_path n))
       (filter (\<lambda>n. starts_with (f_path n) (d @ ''/'')) (ah_fs h)))"

text \<open>A path and what is below it.\<close>

definition below :: "string \<Rightarrow> string \<Rightarrow> bool" where
  "below p q = (q = p \<or> starts_with q (p @ ''/''))"

text \<open>\<open>shutil.rmtree\<close>: false for the OSError, after which some of the tree may be gone.\<close>

definition rmtree :: "agent_env \<Rightarrow> string \<Rightarrow> agent_host \<Rightarrow> bool \<times> agent_host" where
  "rmtree env p h =
     (if \<not> is_dir h p then (False, h)
      else case ae_rmtree_left env p of
        None \<Rightarrow> (True, h\<lparr>ah_fs := filter (\<lambda>n. \<not> below p (f_path n)) (ah_fs h)\<rparr>)
      | Some left \<Rightarrow> (False, h\<lparr>ah_fs := filter (\<lambda>n. \<not> below p (f_path n) \<or> f_path n \<in> set left) (ah_fs h)\<rparr>))"

text \<open>\<open>os.remove\<close> and \<open>os.rmdir\<close>: false for the OSError.\<close>

definition drop_path :: "string \<Rightarrow> agent_host \<Rightarrow> agent_host" where
  "drop_path p h = h\<lparr>ah_fs := filter (\<lambda>n. f_path n \<noteq> p) (ah_fs h)\<rparr>"

definition os_remove :: "agent_env \<Rightarrow> string \<Rightarrow> agent_host \<Rightarrow> bool \<times> agent_host" where
  "os_remove env p h =
     (if is_file h p \<and> ae_deletes env p then (True, drop_path p h) else (False, h))"

definition os_rmdir :: "agent_env \<Rightarrow> string \<Rightarrow> agent_host \<Rightarrow> bool \<times> agent_host" where
  "os_rmdir env p h =
     (if is_dir h p \<and> dir_entries h p = [] \<and> ae_deletes env p then (True, drop_path p h) else (False, h))"

text \<open>\<open>_validate_path\<close>: \<^term>\<open>None\<close> for the ValueError.\<close>

definition allowed_prefixes :: "agent_env \<Rightarrow> string list" where
  "allowed_prefixes env =
     [TROSHKA_DIR @ ''/'', ''/opt/troshka/'', ''/var/log/troshka-''] @
     (if ae_storage_mode env = ''shared''
      then [ae_shared_mount env @ ''/'', ae_local_mount env @ ''/'', TROSHKA_DIR @ ''/seeds/''] else [])"

definition validate_path :: "agent_env \<Rightarrow> agent_host \<Rightarrow> string \<Rightarrow> string option" where
  "validate_path env h path =
     (let normalized = normpath path; real = ae_realpath env normalized
      in if \<not> list_ex (starts_with normalized) (allowed_prefixes env) then None
         else if path_exists h normalized
         then (if list_ex (starts_with real) (allowed_prefixes env) then Some real else None)
         else Some normalized)"

section \<open>Discovery\<close>

definition vms_dirs :: "string list" where
  "vms_dirs = [VMS_DIR, SHARED_DIR @ ''/vms'', LOCAL_DIR @ ''/vms'']"

definition discover_orphan_dirs :: "agent_env \<Rightarrow> agent_host \<Rightarrow> string list \<Rightarrow> string list" where
  "discover_orphan_dirs env h known_project_ids =
     concat (map (\<lambda>d. map (\<lambda>e. path_join d e @ ''/'')
         (filter (\<lambda>e. e \<notin> set known_project_ids \<and> is_dir h (path_join d e)) (dir_entries h d)))
       (filter (\<lambda>d. path_exists h d \<and> ae_lists env d) vms_dirs))"

text \<open>\<open>ctr_name.split("-", 2)[1]\<close>: a name that starts with \<open>troshka-\<close> has two parts at least.\<close>

definition ctr_project :: "string \<Rightarrow> string" where
  "ctr_project name = py_split (CHR ''-'') name ! 1"

definition PODMAN_PS :: "string list" where
  "PODMAN_PS = [''podman'', ''ps'', ''-a'', ''--filter'', ''name=troshka-'', ''--format'', ''{{.Names}}'']"

definition discover_orphan_containers :: "agent_env \<Rightarrow> agent_host \<Rightarrow> string list \<Rightarrow> string list" where
  "discover_orphan_containers env h known_project_ids =
     (if \<not> cmd_ok env PODMAN_PS then []
      else filter (\<lambda>c. starts_with c ''troshka-'' \<and>
             \<not> list_ex (\<lambda>pid. starts_with pid (ctr_project c)) known_project_ids)
           (map ctr_name (ah_containers h)))"

definition VIRSH_LIST :: "string list" where
  "VIRSH_LIST = [''virsh'', ''list'', ''--all'', ''--name'']"

definition discover_orphan_domains :: "agent_env \<Rightarrow> agent_host \<Rightarrow> string list \<Rightarrow> string list" where
  "discover_orphan_domains env h known_domains =
     (if \<not> cmd_ok env VIRSH_LIST then []
      else filter (\<lambda>d. starts_with d ''troshka-'' \<and> \<not> list_ex (starts_with d) known_domains)
           (map dom_name (ah_domains h)))"

text \<open>\<open>_collect_vm_bridges\<close>: \<^term>\<open>None\<close> for a timeout. The exit code of the listing is not looked at.\<close>

definition vm_bridges_step :: "agent_env \<Rightarrow> string list \<Rightarrow> vm_domain \<Rightarrow> string list option" where
  "vm_bridges_step env acc d =
     (case ae_run env [''virsh'', ''dumpxml'', dom_name d] of
        Timed_out \<Rightarrow> None
      | Exit_other \<Rightarrow> Some acc
      | Exit_0 \<Rightarrow> Some (acc @ dom_bridges d))"

definition collect_vm_bridges :: "agent_env \<Rightarrow> agent_host \<Rightarrow> string list option" where
  "collect_vm_bridges env h =
     (case ae_run env VIRSH_LIST of
        Timed_out \<Rightarrow> None
      | Exit_other \<Rightarrow> Some []
      | Exit_0 \<Rightarrow> ofold (vm_bridges_step env) [] (ah_domains h))"

definition check_bridge_is_orphan :: "agent_env \<Rightarrow> string list \<Rightarrow> string \<Rightarrow> bool option" where
  "check_bridge_is_orphan env all_vm_bridges b =
     (if \<not> starts_with b ''br-'' \<or> b \<in> set all_vm_bridges then Some False
      else if starts_with b ''br-bmc-'' then Some False
      else case ae_run env [''ip'', ''link'', ''show'', b] of
        Timed_out \<Rightarrow> None | e \<Rightarrow> Some (e = Exit_0))"

definition find_orphan_host_bridges :: "agent_env \<Rightarrow> agent_host \<Rightarrow> string list \<Rightarrow> string list option" where
  "find_orphan_host_bridges env h all_vm_bridges =
     (case ae_run env [''ip'', ''-o'', ''link'', ''show'', ''type'', ''bridge''] of
        Timed_out \<Rightarrow> None
      | Exit_other \<Rightarrow> Some []
      | Exit_0 \<Rightarrow> ofilter (check_bridge_is_orphan env all_vm_bridges) (ah_bridges h))"

definition discover_orphan_bridges :: "agent_env \<Rightarrow> agent_host \<Rightarrow> string list" where
  "discover_orphan_bridges env h =
     (case collect_vm_bridges env h \<bind> find_orphan_host_bridges env h of None \<Rightarrow> [] | Some bs \<Rightarrow> bs)"

definition netns_of :: "string \<Rightarrow> string" where
  "netns_of pid = ''troshka-'' @ take 8 pid"

definition discover_orphan_namespaces :: "agent_env \<Rightarrow> agent_host \<Rightarrow> string list \<Rightarrow> string list" where
  "discover_orphan_namespaces env h known_project_ids =
     (if \<not> cmd_ok env [''ip'', ''netns'', ''list''] then []
      else filter (\<lambda>n. starts_with n ''troshka-'' \<and> n \<notin> set (map netns_of known_project_ids))
           (map ns_name (ah_namespaces h)))"

record cache_item =
  ci_path :: string
  ci_type :: string
  ci_age_hours :: int

definition cache_dirs :: "agent_env \<Rightarrow> (string \<times> string) list" where
  "cache_dirs env =
     [(ae_local_mount env @ ''/cache/patterns'', ''pattern''), (TROSHKA_DIR @ ''/cache/patterns'', ''pattern''),
      (TROSHKA_DIR @ ''/cache/snapshots'', ''snapshot''), (TROSHKA_DIR @ ''/images'', ''image''),
      (LOCAL_DIR @ ''/cache/patterns'', ''pattern''), (LOCAL_DIR @ ''/cache/snapshots'', ''snapshot''),
      (SHARED_DIR @ ''/images'', ''image''), (SHARED_DIR @ ''/cache/patterns'', ''pattern''),
      (SHARED_DIR @ ''/cache/snapshots'', ''snapshot'')]"

definition cache_items_of :: "agent_env \<Rightarrow> agent_host \<Rightarrow> string \<Rightarrow> string \<Rightarrow> cache_item list" where
  "cache_items_of env h p t =
     (case find (\<lambda>n. f_path n = p) (ah_fs h) of
        None \<Rightarrow> []
      | Some n \<Rightarrow> [\<lparr>ci_path = p, ci_type = t, ci_age_hours = py_int ((ae_now env - f_atime n) / 3600)\<rparr>])"

definition discover_cache_items :: "agent_env \<Rightarrow> agent_host \<Rightarrow> cache_item list" where
  "discover_cache_items env h =
     concat (map (\<lambda>(d, t). concat (map (\<lambda>e. cache_items_of env h (path_join d e) t) (dir_entries h d)))
       (filter (\<lambda>(d, t). path_exists h d \<and> ae_lists env d) (cache_dirs env)))"

text \<open>\<open>glob.glob(d/pre*suf)\<close>, the names of the files it finds.\<close>

definition glob_names :: "agent_env \<Rightarrow> agent_host \<Rightarrow> string \<Rightarrow> string \<Rightarrow> string \<Rightarrow> string list" where
  "glob_names env h d pre suf =
     (if ae_lists env d
      then filter (\<lambda>e. starts_with e pre \<and> ends_with (drop (length pre) e) suf) (dir_entries h d) else [])"

definition lease_prefix :: "string \<Rightarrow> string" where
  "lease_prefix e = hd (py_split (CHR ''-'') (remove_text ''dnsmasq-'' e))"

text \<open>The lease files of unknown projects are removed by the discovery itself.\<close>

definition discover_orphan_leases :: "agent_env \<Rightarrow> string list \<Rightarrow> agent_host \<Rightarrow> agent_host" where
  "discover_orphan_leases env known_project_ids h =
     foldl (\<lambda>h e. if lease_prefix e \<notin> set (map (take 8) known_project_ids)
                  then snd (os_remove env (path_join TROSHKA_DIR e) h) else h)
       h (glob_names env h TROSHKA_DIR ''dnsmasq-'' ''.leases'')"

definition discover_orphan_bmc :: "agent_env \<Rightarrow> agent_host \<Rightarrow> string list \<Rightarrow> string list option" where
  "discover_orphan_bmc env h known_bmc_project_ids =
     (if \<not> is_dir h BMC_DIR then Some []
      else if \<not> ae_lists env BMC_DIR then None
      else Some (filter (\<lambda>e. is_dir h (path_join BMC_DIR e) \<and> e \<notin> set known_bmc_project_ids)
                   (dir_entries h BMC_DIR)))"

definition discover_stale_temps :: "agent_env \<Rightarrow> agent_host \<Rightarrow> string list" where
  "discover_stale_temps env h =
     (let tmpdir = path_join (ae_local_mount env) ''tmp''
      in if \<not> path_exists h tmpdir \<or> \<not> ae_lists env tmpdir then []
         else filter (\<lambda>p. p \<notin> set (map (ae_realpath env) (ae_tmpdirs env)))
                (map (\<lambda>e. ae_realpath env (path_join tmpdir e)) (dir_entries h tmpdir)))"

definition AGENT_ISO_NAME :: string where "AGENT_ISO_NAME = ''agent.x86_64.iso''"
definition STALE_AGENT_ISO_AGE :: rat where "STALE_AGENT_ISO_AGE = 6 * 3600"
definition AGENT_ISO_SCAN_ROOT :: string where "AGENT_ISO_SCAN_ROOT = ''/tmp''"

definition stale_agent_iso :: "agent_env \<Rightarrow> agent_host \<Rightarrow> string \<Rightarrow> bool" where
  "stale_agent_iso env h d =
     (is_dir h d \<and>
      (case find (\<lambda>n. f_path n = path_join d AGENT_ISO_NAME \<and> \<not> f_dir n) (ah_fs h) of
         None \<Rightarrow> False
       | Some n \<Rightarrow> \<not> (ae_now env - f_mtime n < STALE_AGENT_ISO_AGE)))"

definition discover_stale_agent_isos :: "agent_env \<Rightarrow> agent_host \<Rightarrow> string list" where
  "discover_stale_agent_isos env h =
     (if \<not> ae_lists env AGENT_ISO_SCAN_ROOT then []
      else filter (stale_agent_iso env h) (map (path_join AGENT_ISO_SCAN_ROOT) (dir_entries h AGENT_ISO_SCAN_ROOT)))"

definition discover_dangling_images :: "agent_env \<Rightarrow> agent_host \<Rightarrow> bool" where
  "discover_dangling_images env h =
     (cmd_ok env [''podman'', ''images'', ''-f'', ''dangling=true'', ''-q''] \<and> ah_dangling h \<noteq> 0)"

definition discover_orphan_metadata :: "agent_env \<Rightarrow> agent_host \<Rightarrow> string list \<Rightarrow> string list" where
  "discover_orphan_metadata env h known_project_ids =
     filter (\<lambda>x. x \<notin> set (map (take 8) known_project_ids))
       (map (\<lambda>e. remove_text ''.py'' (remove_text ''metadata-'' e))
         (glob_names env h ''/opt/troshka'' ''metadata-'' ''.py''))"

section \<open>Storage pools\<close>

definition list_all_pool_names :: "agent_env \<Rightarrow> agent_host \<Rightarrow> string list" where
  "list_all_pool_names env h =
     (if cmd_ok env [''virsh'', ''pool-list'', ''--all'', ''--name''] then map pool_name (ah_pools h) else [])"

definition pool_target_path :: "agent_env \<Rightarrow> agent_host \<Rightarrow> string \<Rightarrow> string" where
  "pool_target_path env h name =
     (if \<not> cmd_ok env [''virsh'', ''pool-dumpxml'', name] then []
      else case find (\<lambda>q. pool_name q = name) (ah_pools h) of
        None \<Rightarrow> [] | Some q \<Rightarrow> py_strip (pool_path q))"

definition strip_slash :: "string \<Rightarrow> string" where
  "strip_slash s = rev (dropWhile (\<lambda>c. c = CHR ''/'') (rev (dropWhile (\<lambda>c. c = CHR ''/'') s)))"

definition VMS_POOL_PREFIXES :: "string list" where
  "VMS_POOL_PREFIXES = [SHARED_DIR @ ''/vms/'', TROSHKA_DIR @ ''/vms/'']"

definition project_from_vms_target :: "string \<Rightarrow> string" where
  "project_from_vms_target target =
     (case find (starts_with target) VMS_POOL_PREFIXES of
        None \<Rightarrow> []
      | Some pref \<Rightarrow> hd (py_split (CHR ''/'') (strip_slash (drop (length pref) target))))"

definition discover_orphan_pools :: "agent_env \<Rightarrow> agent_host \<Rightarrow> string list \<Rightarrow> string list" where
  "discover_orphan_pools env h known_project_ids =
     filter (\<lambda>name. let proj = project_from_vms_target (pool_target_path env h name)
                     in proj \<noteq> [] \<and> proj \<notin> set known_project_ids)
       (list_all_pool_names env h)"

section \<open>The discovery handler\<close>

record gc_orphans =
  go_dirs :: "string list"
  go_domains :: "string list"
  go_pools :: "string list"
  go_containers :: "string list"
  go_bridges :: "string list"
  go_namespaces :: "string list"
  go_cache_items :: "cache_item list"
  go_bmc :: "string list"
  go_metadata :: "string list"
  go_stale_temps :: "string list"
  go_stale_isos :: "string list"
  go_dangling :: bool

text \<open>\<^term>\<open>None\<close>: the handler raises and the job has failed. The leases are gone then.\<close>

definition handle_gc_discover ::
  "agent_env \<Rightarrow> string list \<Rightarrow> string list \<Rightarrow> string list \<Rightarrow> agent_host \<Rightarrow> gc_orphans option \<times> agent_host" where
  "handle_gc_discover env known_project_ids known_domains known_bmc h =
     (let h' = discover_orphan_leases env known_project_ids h
      in (map_option (\<lambda>bmc.
            \<lparr>go_dirs = discover_orphan_dirs env h known_project_ids,
             go_domains = discover_orphan_domains env h known_domains,
             go_pools = discover_orphan_pools env h known_project_ids,
             go_containers = discover_orphan_containers env h known_project_ids,
             go_bridges = discover_orphan_bridges env h,
             go_namespaces = discover_orphan_namespaces env h known_project_ids,
             go_cache_items = discover_cache_items env h,
             go_bmc = bmc,
             go_metadata = discover_orphan_metadata env h' known_project_ids,
             go_stale_temps = discover_stale_temps env h',
             go_stale_isos = discover_stale_agent_isos env h',
             go_dangling = discover_dangling_images env h'\<rparr>)
          (discover_orphan_bmc env h' known_bmc), h'))"


section \<open>Cleaning\<close>

text \<open>An action on the host: \<^term>\<open>None\<close> when an exception leaves it. A cleaning step returns how many
  things it removed, and a loop over them their sum.\<close>

type_synonym 'a action = "agent_host \<Rightarrow> 'a option \<times> agent_host"

definition and_then :: "'a action \<Rightarrow> ('a \<Rightarrow> 'b action) \<Rightarrow> 'b action" where
  "and_then m f h = (case m h of (None, h') \<Rightarrow> (None, h') | (Some x, h') \<Rightarrow> f x h')"

definition give :: "'a \<Rightarrow> 'a action" where
  "give x h = (Some x, h)"

fun clean_each :: "('x \<Rightarrow> nat action) \<Rightarrow> 'x list \<Rightarrow> nat action" where
  "clean_each f [] = give 0"
| "clean_each f (x # xs) = and_then (f x) (\<lambda>k. and_then (clean_each f xs) (\<lambda>n. give (k + n)))"

text \<open>The second attempt at a directory: its files one by one, then the directory.\<close>

definition clean_dir_retry :: "agent_env \<Rightarrow> string \<Rightarrow> nat action" where
  "clean_dir_retry env path h =
     (case validate_path env h path of
        None \<Rightarrow> (None, h)
      | Some v \<Rightarrow>
          if \<not> is_dir h v \<or> \<not> ae_lists env v then (Some 0, h)
          else let h' = foldl (\<lambda>h e. snd (os_remove env (path_join v e) h)) h (dir_entries h v);
                   (gone, h'') = os_rmdir env v h'
               in (Some (if gone then 1 else 0), h''))"

definition clean_dir :: "agent_env \<Rightarrow> string \<Rightarrow> nat action" where
  "clean_dir env path h =
     (case validate_path env h path of
        None \<Rightarrow> (None, h)
      | Some v \<Rightarrow>
          if \<not> is_dir h v then (Some 0, h)
          else case rmtree env v h of
            (True, h') \<Rightarrow> (Some 1, h')
          | (False, h') \<Rightarrow> clean_dir_retry env path h')"

definition clean_orphan_dirs :: "agent_env \<Rightarrow> string list \<Rightarrow> nat action" where
  "clean_orphan_dirs env = clean_each (clean_dir env)"

definition gc_hex :: "char \<Rightarrow> bool" where
  "gc_hex c = (c \<in> set ''abcdef0123456789'')"

text \<open>\<open>_DOMAIN_RE\<close> and \<open>_BRIDGE_RE\<close>.\<close>

definition valid_domain_name :: "string \<Rightarrow> bool" where
  "valid_domain_name s =
     (case py_split (CHR ''-'') s of
        [a, b, c] \<Rightarrow> a = ''troshka'' \<and> length b = 8 \<and> length c = 8 \<and> list_all gc_hex (b @ c)
      | _ \<Rightarrow> False)"

definition valid_bridge_name :: "string \<Rightarrow> bool" where
  "valid_bridge_name s =
     list_ex (\<lambda>pre. starts_with s pre \<and> drop (length pre) s \<noteq> [] \<and> list_all gc_hex (drop (length pre) s))
       [''br-troshka-'', ''br-bmc-'', ''br-'']"

definition stop_domain :: "string \<Rightarrow> agent_host \<Rightarrow> agent_host" where
  "stop_domain d h = h\<lparr>ah_domains := map (\<lambda>x. if dom_name x = d then x\<lparr>dom_running := False\<rparr> else x) (ah_domains h)\<rparr>"

definition drop_domain :: "string \<Rightarrow> agent_host \<Rightarrow> agent_host" where
  "drop_domain d h = h\<lparr>ah_domains := filter (\<lambda>x. dom_name x \<noteq> d) (ah_domains h)\<rparr>"

definition clean_domain :: "agent_env \<Rightarrow> string \<Rightarrow> nat action" where
  "clean_domain env d h =
     (if \<not> valid_domain_name d then (Some 0, h)
      else let h1 = (if cmd_ok env [''virsh'', ''destroy'', d] then stop_domain d h else h)
           in if cmd_ok env [''virsh'', ''undefine'', d, ''--nvram''] then (Some 1, drop_domain d h1)
              else (Some 0, h1))"

definition clean_orphan_domains :: "agent_env \<Rightarrow> string list \<Rightarrow> nat action" where
  "clean_orphan_domains env = clean_each (clean_domain env)"

text \<open>\<open>_container_pod\<close>: \<^term>\<open>None\<close> when the container is gone; a timeout counts as standalone.\<close>

definition container_pod :: "agent_env \<Rightarrow> agent_host \<Rightarrow> string \<Rightarrow> string option" where
  "container_pod env h ctr =
     (case ae_run env [''podman'', ''container'', ''inspect'', ctr, ''--format'', ''{{.Pod}}''] of
        Exit_0 \<Rightarrow> map_option ctr_pod (find (\<lambda>c. ctr_name c = ctr) (ah_containers h))
      | Exit_other \<Rightarrow> None
      | Timed_out \<Rightarrow> Some [])"

definition drop_containers :: "(pod_container \<Rightarrow> bool) \<Rightarrow> agent_host \<Rightarrow> agent_host" where
  "drop_containers P h = h\<lparr>ah_containers := filter (\<lambda>c. \<not> P c) (ah_containers h)\<rparr>"

text \<open>\<open>podman stop\<close> changes nothing that is modelled.\<close>

fun clean_orphan_containers_from :: "agent_env \<Rightarrow> string list \<Rightarrow> string list \<Rightarrow> nat action" where
  "clean_orphan_containers_from env pods [] = give 0"
| "clean_orphan_containers_from env pods (ctr # ctrs) = (\<lambda>h.
     if \<not> starts_with ctr ''troshka-'' then clean_orphan_containers_from env pods ctrs h
     else case container_pod env h ctr of
       None \<Rightarrow> clean_orphan_containers_from env pods ctrs h
     | Some pod \<Rightarrow>
         if pod \<noteq> [] then
           if pod \<in> set pods \<or> \<not> cmd_ok env [''podman'', ''pod'', ''rm'', ''-f'', pod]
           then clean_orphan_containers_from env pods ctrs h
           else and_then (clean_orphan_containers_from env (pod # pods) ctrs) (\<lambda>n. give (n + 1))
                  (drop_containers (\<lambda>c. ctr_pod c = pod) h)
         else if cmd_ok env [''podman'', ''rm'', ''-f'', ctr]
         then and_then (clean_orphan_containers_from env pods ctrs) (\<lambda>n. give (n + 1))
                (drop_containers (\<lambda>c. ctr_name c = ctr) h)
         else clean_orphan_containers_from env pods ctrs h)"

definition clean_orphan_containers :: "agent_env \<Rightarrow> string list \<Rightarrow> nat action" where
  "clean_orphan_containers env = clean_orphan_containers_from env []"

text \<open>\<open>pool-destroy\<close> and \<open>pool-undefine\<close>: \<^term>\<open>None\<close> for a timeout of either, which is not caught.\<close>

definition pool_destroy :: "agent_env \<Rightarrow> string \<Rightarrow> unit action" where
  "pool_destroy env name h =
     (case ae_run env [''virsh'', ''pool-destroy'', name] of
        Timed_out \<Rightarrow> (None, h)
      | Exit_other \<Rightarrow> (Some (), h)
      | Exit_0 \<Rightarrow> (Some (), h\<lparr>ah_pools := map (\<lambda>q. if pool_name q = name then q\<lparr>pool_active := False\<rparr> else q) (ah_pools h)\<rparr>))"

definition pool_undefine :: "agent_env \<Rightarrow> string \<Rightarrow> bool action" where
  "pool_undefine env name h =
     (case ae_run env [''virsh'', ''pool-undefine'', name] of
        Timed_out \<Rightarrow> (None, h)
      | Exit_other \<Rightarrow> (Some False, h)
      | Exit_0 \<Rightarrow> (Some True, h\<lparr>ah_pools := filter (\<lambda>q. pool_name q \<noteq> name) (ah_pools h)\<rparr>))"

definition undefine_pool :: "agent_env \<Rightarrow> string \<Rightarrow> bool action" where
  "undefine_pool env name = and_then (pool_destroy env name) (\<lambda>_. pool_undefine env name)"

definition clean_pool :: "agent_env \<Rightarrow> string \<Rightarrow> nat action" where
  "clean_pool env name h =
     (if project_from_vms_target (pool_target_path env h name) = [] then (Some 0, h)
      else and_then (undefine_pool env name) (\<lambda>ok. give (if ok then 1 else 0)) h)"

definition clean_orphan_pools :: "agent_env \<Rightarrow> string list \<Rightarrow> nat action" where
  "clean_orphan_pools env = clean_each (clean_pool env)"

text \<open>\<open>_handle_pool_cleanup\<close>, which the destruction of a project calls for its own directory.\<close>

definition rstrip_slash :: "string \<Rightarrow> string" where
  "rstrip_slash s = rev (dropWhile (\<lambda>c. c = CHR ''/'') (rev s))"

fun cleanup_pools :: "agent_env \<Rightarrow> string \<Rightarrow> string list \<Rightarrow> string list action" where
  "cleanup_pools env target [] = give []"
| "cleanup_pools env target (name # names) = (\<lambda>h.
     if rstrip_slash (pool_target_path env h name) = target
     then and_then (undefine_pool env name) (\<lambda>ok. and_then (cleanup_pools env target names)
            (\<lambda>ns. give (if ok then name # ns else ns))) h
     else cleanup_pools env target names h)"

definition handle_pool_cleanup :: "agent_env \<Rightarrow> string \<Rightarrow> string list action" where
  "handle_pool_cleanup env target_dir h =
     (case validate_path env h target_dir of
        None \<Rightarrow> (None, h)
      | Some v \<Rightarrow> cleanup_pools env (rstrip_slash v) (list_all_pool_names env h) h)"

definition remove_bmc_bridge :: "agent_env \<Rightarrow> string \<Rightarrow> agent_host \<Rightarrow> agent_host" where
  "remove_bmc_bridge env project_id h =
     (let bridge = ''br-bmc-'' @ take 8 project_id; ns = ''troshka-'' @ take 8 project_id;
          h1 = (if cmd_ok env [''ip'', ''netns'', ''exec'', ns, ''ip'', ''link'', ''del'', bridge]
                then h\<lparr>ah_namespaces := map (\<lambda>s. if ns_name s = ns then s\<lparr>ns_links := removeAll bridge (ns_links s)\<rparr> else s)
                        (ah_namespaces h)\<rparr> else h)
      in if cmd_ok env [''ip'', ''link'', ''del'', bridge]
         then h1\<lparr>ah_bridges := removeAll bridge (ah_bridges h1)\<rparr> else h1)"

definition kill_bmc_processes :: "string \<Rightarrow> agent_host \<Rightarrow> agent_host" where
  "kill_bmc_processes bmc_dir h =
     (let files = map (path_join bmc_dir)
            (filter (\<lambda>e. (starts_with e ''sushy-'' \<and> ends_with e ''.pid'') \<or> e = ''vbmcd.pid'') (dir_entries h bmc_dir))
      in h\<lparr>ah_processes := filter (\<lambda>p. pr_pidfile p \<notin> set files) (ah_processes h)\<rparr>)"

definition clean_bmc_dir :: "agent_env \<Rightarrow> string \<Rightarrow> nat action" where
  "clean_bmc_dir env project_id h =
     (let bmc_dir = path_join BMC_DIR project_id
      in if \<not> is_dir h bmc_dir then (Some 0, h)
         else and_then (undefine_pool env (''troshka-vmedia-'' @ take 8 project_id))
                (\<lambda>_ h. (Some 1, snd (rmtree env bmc_dir h))) (kill_bmc_processes bmc_dir h))"

definition clean_orphan_bmc :: "agent_env \<Rightarrow> string list \<Rightarrow> nat action" where
  "clean_orphan_bmc env = clean_each (\<lambda>project_id.
     and_then (clean_bmc_dir env project_id) (\<lambda>k h. (Some k, remove_bmc_bridge env project_id h)))"

definition clean_stale_temp :: "agent_env \<Rightarrow> string \<Rightarrow> nat action" where
  "clean_stale_temp env path h =
     (let real_tmpdir = ae_realpath env (path_join (ae_local_mount env) ''tmp''); real_path = ae_realpath env path
      in if \<not> starts_with real_path (real_tmpdir @ ''/'') then (Some 0, h)
         else let (ok, h') = (if is_dir h real_path then rmtree env real_path h else os_remove env real_path h)
              in (Some (if ok then 1 else 0), h'))"

definition clean_stale_temps :: "agent_env \<Rightarrow> string list \<Rightarrow> nat action" where
  "clean_stale_temps env = clean_each (clean_stale_temp env)"

definition clean_bridge :: "agent_env \<Rightarrow> string \<Rightarrow> nat action" where
  "clean_bridge env b h =
     (if valid_bridge_name b \<and> cmd_ok env [''ip'', ''link'', ''delete'', b]
      then (Some 1, h\<lparr>ah_bridges := removeAll b (ah_bridges h)\<rparr>) else (Some 0, h))"

definition clean_orphan_bridges :: "agent_env \<Rightarrow> string list \<Rightarrow> nat action" where
  "clean_orphan_bridges env = clean_each (clean_bridge env)"

definition clean_namespace :: "agent_env \<Rightarrow> string \<Rightarrow> nat action" where
  "clean_namespace env ns h =
     (if starts_with ns ''troshka-'' \<and> cmd_ok env [''ip'', ''netns'', ''delete'', ns]
      then (Some 1, h\<lparr>ah_namespaces := filter (\<lambda>s. ns_name s \<noteq> ns) (ah_namespaces h)\<rparr>) else (Some 0, h))"

definition clean_orphan_namespaces :: "agent_env \<Rightarrow> string list \<Rightarrow> nat action" where
  "clean_orphan_namespaces env = clean_each (clean_namespace env)"

definition clean_cache_item :: "agent_env \<Rightarrow> string \<Rightarrow> nat action" where
  "clean_cache_item env path h =
     (case validate_path env h path of
        None \<Rightarrow> (Some 0, h)
      | Some v \<Rightarrow>
          let (ok, h') = (if is_dir h v then rmtree env v h else os_remove env v h)
          in (Some (if ok then 1 else 0), h'))"

definition clean_cache_items :: "agent_env \<Rightarrow> string list \<Rightarrow> nat action" where
  "clean_cache_items env = clean_each (clean_cache_item env)"

text \<open>A script and its log. A deletion that fails for another reason than a missing file raises.\<close>

definition clean_metadata_path :: "agent_env \<Rightarrow> string \<Rightarrow> nat action" where
  "clean_metadata_path env p h =
     (if \<not> path_exists h p then (Some 0, h)
      else case os_remove env p h of (True, h') \<Rightarrow> (Some 1, h') | (False, h') \<Rightarrow> (None, h'))"

definition clean_metadata :: "agent_env \<Rightarrow> string \<Rightarrow> nat action" where
  "clean_metadata env project_id h =
     (let script = ''metadata-'' @ take 8 project_id @ ''.py'';
          h1 = (if cmd_ok env [''pkill'', ''-9'', ''-f'', script]
                then h\<lparr>ah_processes := filter (\<lambda>p. \<not> contains_text script (pr_command p)) (ah_processes h)\<rparr> else h)
      in clean_each (clean_metadata_path env)
           [''/opt/troshka/'' @ script, ''/var/log/troshka-metadata-'' @ take 8 project_id @ ''.log''] h1)"

definition clean_orphan_metadata :: "agent_env \<Rightarrow> string list \<Rightarrow> nat action" where
  "clean_orphan_metadata env = clean_each (clean_metadata env)"

definition clean_agent_iso :: "agent_env \<Rightarrow> string \<Rightarrow> nat action" where
  "clean_agent_iso env path h =
     (let root = ae_realpath env AGENT_ISO_SCAN_ROOT; rp = ae_realpath env path
      in if rp = root \<or> \<not> starts_with rp (root @ ''/'') then (Some 0, h)
         else let (ok, h') = rmtree env rp h in (Some (if ok then 1 else 0), h'))"

definition clean_stale_agent_isos :: "agent_env \<Rightarrow> string list \<Rightarrow> nat action" where
  "clean_stale_agent_isos env = clean_each (clean_agent_iso env)"

text \<open>The number of words the prune command prints: one per image.\<close>

definition clean_dangling_images :: "agent_env \<Rightarrow> bool \<Rightarrow> nat action" where
  "clean_dangling_images env prune h =
     (if prune \<and> cmd_ok env [''podman'', ''image'', ''prune'', ''-f'']
      then (Some (ah_dangling h), h\<lparr>ah_dangling := 0\<rparr>) else (Some 0, h))"

record gc_clean_params =
  gp_domains :: "string list"
  gp_pools :: "string list"
  gp_dirs :: "string list"
  gp_containers :: "string list"
  gp_bridges :: "string list"
  gp_namespaces :: "string list"
  gp_cache_items :: "string list"
  gp_bmc :: "string list"
  gp_metadata :: "string list"
  gp_stale_temps :: "string list"
  gp_stale_isos :: "string list"
  gp_prune_images :: bool

record gc_removed =
  gr_dirs :: nat
  gr_domains :: nat
  gr_pools :: nat
  gr_containers :: nat
  gr_bridges :: nat
  gr_namespaces :: nat
  gr_agent_isos :: nat
  gr_images :: nat
  gr_cache :: nat
  gr_bmc :: nat
  gr_metadata :: nat
  gr_temps :: nat

definition handle_gc_clean :: "agent_env \<Rightarrow> gc_clean_params \<Rightarrow> gc_removed action" where
  "handle_gc_clean env ps =
     and_then (clean_orphan_domains env (gp_domains ps)) (\<lambda>domains.
     and_then (clean_orphan_pools env (gp_pools ps)) (\<lambda>pools.
     and_then (clean_orphan_dirs env (gp_dirs ps)) (\<lambda>dirs.
     and_then (clean_orphan_containers env (gp_containers ps)) (\<lambda>containers.
     and_then (clean_orphan_bridges env (gp_bridges ps)) (\<lambda>bridges.
     and_then (clean_orphan_namespaces env (gp_namespaces ps)) (\<lambda>namespaces.
     and_then (clean_cache_items env (gp_cache_items ps)) (\<lambda>cache.
     and_then (clean_orphan_bmc env (gp_bmc ps)) (\<lambda>bmc.
     and_then (clean_orphan_metadata env (gp_metadata ps)) (\<lambda>metadata.
     and_then (clean_stale_temps env (gp_stale_temps ps)) (\<lambda>temps.
     and_then (clean_stale_agent_isos env (gp_stale_isos ps)) (\<lambda>isos.
     and_then (clean_dangling_images env (gp_prune_images ps)) (\<lambda>images.
     give \<lparr>gr_dirs = dirs, gr_domains = domains, gr_pools = pools, gr_containers = containers,
           gr_bridges = bridges, gr_namespaces = namespaces, gr_agent_isos = isos, gr_images = images,
           gr_cache = cache, gr_bmc = bmc, gr_metadata = metadata, gr_temps = temps\<rparr>))))))))))))"

end
