(* ===== verification/Gc_Service.thy ===== *)
theory Gc_Service
  imports Gc_Agent Capacity
begin

text \<open>
  \<open>src/src/backend/app/services/gc_service.py\<close>: a host is compared with the database, and what no
  known project owns is removed by the agent (\<open>Gc_Agent\<close>). A job on the agent runs to its end before
  the backend continues; whether the request arrives, and whether the backend learns the result, are
  fields of the environment, and so is the order in which Python lists a set. The
  theorems are in \<open>Gc_Laws\<close>.
\<close>

section \<open>Capacity\<close>

definition gc_topology :: "project \<Rightarrow> json" where
  "gc_topology p = py_or (p_deployed_topology p) (py_or (p_topology p) (JObj []))"

definition gc_need :: "json \<Rightarrow> (rat \<times> rat) option" where
  "gc_need n = do {
     t \<leftarrow> get n ''type'';
     if t = VM_NODE then do { c \<leftarrow> data_num ''vcpus'' 0 n; r \<leftarrow> data_num ''ram'' 0 n; Some (c, r * 1024) }
     else if t = CONTAINER_NODE then do { c \<leftarrow> data_num ''cpus'' 0 n; r \<leftarrow> data_num ''memory'' 0 n; Some (c, r) }
     else Some (0, 0)
   }"

definition gc_sync_host_capacity :: "database \<Rightarrow> host \<Rightarrow> host option" where
  "gc_sync_host_capacity db h = do {
     (cpu, ram) \<leftarrow> ofold (\<lambda>acc p. do { ns \<leftarrow> topo_nodes (gc_topology p); ofold (add_need gc_need) acc ns }) (0, 0)
       (filter (\<lambda>p. p_host_id p = Some (h_id h) \<and> p_state p \<in> {''active'', ''stopped''}) (d_projects db));
     Some (h\<lparr>h_used_vcpus := cpu, h_used_ram_mb := ram\<rparr>)
   }"

section \<open>What is known\<close>

definition get_pool_host_ids :: "database \<Rightarrow> host \<Rightarrow> string list" where
  "get_pool_host_ids db h =
     (if \<not> opt_truthy (h_storage_pool_id h) then [h_id h]
      else map h_id (filter (\<lambda>x. h_storage_pool_id x = h_storage_pool_id h) (d_hosts db)))"

definition on_hosts :: "string list \<Rightarrow> project \<Rightarrow> bool" where
  "on_hosts hids p = (case p_host_id p of None \<Rightarrow> False | Some i \<Rightarrow> i \<in> set hids)"

definition known_states :: "string list" where
  "known_states = [''deploying'', ''reconfiguring'', ''active'', ''stopped'']"

definition known_projects :: "database \<Rightarrow> string list \<Rightarrow> project list" where
  "known_projects db hids = filter (\<lambda>p. on_hosts hids p \<and> p_state p \<in> set known_states) (d_projects db)"

definition collect_known_projects_and_domains :: "database \<Rightarrow> string list \<Rightarrow> string list \<times> string list" where
  "collect_known_projects_and_domains db hids =
     (let ps = known_projects db hids in (map p_id ps, map (\<lambda>p. ''troshka-'' @ take 8 (p_id p)) ps))"

definition is_bmc_network :: "json \<Rightarrow> bool option" where
  "is_bmc_network n = do {
     t \<leftarrow> has_type ''networkNode'' n;
     if \<not> t then Some False else do { d \<leftarrow> node_data n; v \<leftarrow> get d ''networkType''; Some (v = JStr ''bmc'') }
   }"

definition collect_bmc_project_ids :: "database \<Rightarrow> string list \<Rightarrow> string list option" where
  "collect_bmc_project_ids db hids = do {
     ps \<leftarrow> ofilter (\<lambda>p. do { ns \<leftarrow> topo_nodes (gc_topology p); oany is_bmc_network ns })
       (filter (on_hosts hids) (d_projects db));
     Some (map p_id ps)
   }"

section \<open>Discovery and cleaning through the agent\<close>

record gc_env =
  ge_agent :: agent_env
  ge_starts :: "string \<Rightarrow> bool"
  ge_answers :: "string \<Rightarrow> bool"
  ge_set_list :: "string list \<Rightarrow> string list"

text \<open>\<open>start_job\<close> and \<open>wait_for_job\<close>: \<^term>\<open>None\<close> when either raises.\<close>

definition run_job :: "gc_env \<Rightarrow> string \<Rightarrow> 'a action \<Rightarrow> 'a option action" where
  "run_job env path m ah =
     (if \<not> ge_starts env path then (None, ah)
      else case m ah of (r, ah') \<Rightarrow> (if ge_answers env path then Some r else None, ah'))"

definition host_reachable :: "host \<Rightarrow> bool" where
  "host_reachable h = (opt_truthy (h_ip_address h) \<and> h_agent_status h = ''connected'')"

datatype gc_discovery = Not_reachable | Discovery_failed | Orphans gc_orphans

definition discover_orphans :: "gc_env \<Rightarrow> database \<Rightarrow> host \<Rightarrow> gc_discovery action" where
  "discover_orphans env db h ah =
     (if \<not> host_reachable h then (Some Not_reachable, ah)
      else let hids = get_pool_host_ids db h; (ids, domains) = collect_known_projects_and_domains db hids
           in case collect_bmc_project_ids db hids of
                None \<Rightarrow> (None, ah)
              | Some bmc \<Rightarrow>
                  (case run_job env ''/gc/discover'' (handle_gc_discover (ge_agent env) ids domains bmc) ah of
                     (None, ah') \<Rightarrow> (None, ah')
                   | (Some None, ah') \<Rightarrow> (Some Discovery_failed, ah')
                   | (Some (Some orphans), ah') \<Rightarrow> (Some (Orphans orphans), ah')))"

record gc_db =
  gd_db :: database
  gd_pattern_ids :: "string list"
  gd_item_ids :: "string list"

text \<open>The last component of a path, without what follows its last point.\<close>

definition cache_entry_id :: "string \<Rightarrow> string" where
  "cache_entry_id path =
     (let e = last (py_split (CHR ''/'') (rstrip_slash path))
      in if CHR ''.'' \<in> set e then rev (drop 1 (dropWhile (\<lambda>c. c \<noteq> CHR ''.'') (rev e))) else e)"

definition find_orphaned_cache :: "gc_db \<Rightarrow> cache_item list \<Rightarrow> string list" where
  "find_orphaned_cache gd items =
     filter (\<lambda>p. cache_entry_id p \<notin> set (gd_pattern_ids gd @ gd_item_ids gd)) (map ci_path items)"

record gc_cleaned =
  gl_success :: bool
  gl_cleaned :: nat
  gl_cache_cleaned :: nat
  gl_agent_isos_cleaned :: nat
  gl_images_pruned :: nat

datatype gc_cleanup = Clean_not_reachable | Cleaned gc_cleaned | Would_clean nat | Nothing_to_clean

text \<open>The parameters of the cleaning job: the leftover temporary files go with the cache items.\<close>

definition clean_params :: "gc_env \<Rightarrow> gc_db \<Rightarrow> gc_orphans \<Rightarrow> gc_clean_params" where
  "clean_params env gd orphans =
     \<lparr>gp_domains = ge_set_list env (go_domains orphans), gp_pools = ge_set_list env (go_pools orphans),
      gp_dirs = ge_set_list env (go_dirs orphans), gp_containers = ge_set_list env (go_containers orphans),
      gp_bridges = ge_set_list env (go_bridges orphans), gp_namespaces = ge_set_list env (go_namespaces orphans),
      gp_cache_items = ge_set_list env (find_orphaned_cache gd (go_cache_items orphans) @ go_stale_temps orphans),
      gp_bmc = go_bmc orphans, gp_metadata = go_metadata orphans, gp_stale_temps = [],
      gp_stale_isos = ge_set_list env (go_stale_isos orphans), gp_prune_images = go_dangling orphans\<rparr>"

definition params_count :: "gc_clean_params \<Rightarrow> nat" where
  "params_count ps =
     length (gp_dirs ps) + length (gp_domains ps) + length (gp_containers ps) + length (gp_bridges ps) +
     length (gp_namespaces ps) + length (gp_bmc ps) + length (gp_cache_items ps) + length (gp_stale_isos ps)"

definition clean_orphans :: "gc_env \<Rightarrow> gc_db \<Rightarrow> host \<Rightarrow> gc_orphans \<Rightarrow> gc_cleanup action" where
  "clean_orphans env gd h orphans ah =
     (if \<not> host_reachable h then (Some Clean_not_reachable, ah)
      else let ps = clean_params env gd orphans
           in case run_job env ''/gc/clean'' (handle_gc_clean (ge_agent env) ps) ah of
                (None, ah') \<Rightarrow> (None, ah')
              | (Some r, ah') \<Rightarrow>
                  (Some (Cleaned \<lparr>gl_success = (r \<noteq> None), gl_cleaned = params_count ps,
                     gl_cache_cleaned = length (gp_cache_items ps),
                     gl_agent_isos_cleaned = (case r of None \<Rightarrow> length (gp_stale_isos ps) | Some x \<Rightarrow> gr_agent_isos x),
                     gl_images_pruned = (case r of None \<Rightarrow> 0 | Some x \<Rightarrow> gr_images x)\<rparr>), ah'))"

definition count_total_orphans :: "gc_orphans \<Rightarrow> nat" where
  "count_total_orphans orphans =
     length (go_dirs orphans) + length (go_domains orphans) + length (go_containers orphans) +
     length (go_bridges orphans) + length (go_namespaces orphans) + length (go_bmc orphans)"

section \<open>The collection on one host\<close>

record gc_report =
  gt_skipped :: "nat option"
  gt_capacity_changed :: bool
  gt_discovery :: "gc_discovery option"
  gt_orphans_found :: nat
  gt_cache_orphaned :: nat
  gt_stale_temps_found :: nat
  gt_agent_isos_found :: nat
  gt_dangling_images_found :: nat
  gt_cleanup :: "gc_cleanup option"

definition empty_report :: gc_report where
  "empty_report = \<lparr>gt_skipped = None, gt_capacity_changed = False, gt_discovery = None, gt_orphans_found = 0,
     gt_cache_orphaned = 0, gt_stale_temps_found = 0, gt_agent_isos_found = 0, gt_dangling_images_found = 0,
     gt_cleanup = None\<rparr>"

definition reconcile_clean_orphans ::
  "gc_env \<Rightarrow> gc_db \<Rightarrow> host \<Rightarrow> gc_orphans \<Rightarrow> bool \<Rightarrow> gc_report \<Rightarrow> gc_report action" where
  "reconcile_clean_orphans env gd h orphans dry_run report ah =
     (let cache = length (find_orphaned_cache gd (go_cache_items orphans));
          temps = length (go_stale_temps orphans); isos = length (go_stale_isos orphans);
          dangling = (if go_dangling orphans then 1 else 0);
          cleanable = count_total_orphans orphans + cache + temps + (isos + dangling);
          report = report\<lparr>gt_orphans_found := cleanable, gt_cache_orphaned := cache, gt_stale_temps_found := temps,
                          gt_agent_isos_found := isos, gt_dangling_images_found := dangling\<rparr>
      in if cleanable > 0 \<and> \<not> dry_run
         then and_then (clean_orphans env gd h orphans) (\<lambda>c. give (report\<lparr>gt_cleanup := Some c\<rparr>)) ah
         else if cleanable > 0 then (Some (report\<lparr>gt_cleanup := Some (Would_clean cleanable)\<rparr>), ah)
         else (Some (report\<lparr>gt_cleanup := Some Nothing_to_clean\<rparr>), ah))"

definition gc_skip_while_deploying :: "database \<Rightarrow> string \<Rightarrow> nat option" where
  "gc_skip_while_deploying db host_id =
     (let n = length (filter (\<lambda>p. p_host_id p = Some host_id \<and> p_state p \<in> {''deploying'', ''reconfiguring''})
                (d_projects db))
      in if n > 0 then Some n else None)"

text \<open>\<open>reconcile_host\<close> up to the cleaning of the orphans, which is where it ends for a cluster or when
  the scan does not succeed. \<^term>\<open>None\<close>: the report is an error. What follows the cleaning (network repair,
  object storage, routes, shared cache entries) and the reconciliation of a cluster are not part of it.\<close>

definition reconcile_host_orphans ::
  "gc_env \<Rightarrow> gc_db \<Rightarrow> string \<Rightarrow> bool \<Rightarrow> agent_host \<Rightarrow> gc_report option \<times> gc_db \<times> agent_host" where
  "reconcile_host_orphans env gd host_id dry_run ah =
     (case host_by_id (gd_db gd) host_id of
        None \<Rightarrow> (None, gd, ah)
      | Some h \<Rightarrow>
          if gc_skip_while_deploying (gd_db gd) host_id \<noteq> None
          then (Some (empty_report\<lparr>gt_skipped := gc_skip_while_deploying (gd_db gd) host_id\<rparr>), gd, ah)
          else case gc_sync_host_capacity (gd_db gd) h of
            None \<Rightarrow> (None, gd, ah)
          | Some h' \<Rightarrow>
              let gd' = gd\<lparr>gd_db := store_host h' (gd_db gd)\<rparr>;
                  report = empty_report\<lparr>gt_capacity_changed :=
                    (h_used_vcpus h' \<noteq> h_used_vcpus h \<or> h_used_ram_mb h' \<noteq> h_used_ram_mb h)\<rparr>
              in if h_host_type h' = ''kubevirt-cluster'' then (Some report, gd', ah)
                 else if \<not> host_reachable h' then (Some (report\<lparr>gt_discovery := Some Not_reachable\<rparr>), gd', ah)
                 else case discover_orphans env (gd_db gd') h' ah of
                   (None, ah1) \<Rightarrow> (None, gd', ah1)
                 | (Some (Orphans orphans), ah1) \<Rightarrow>
                     (case reconcile_clean_orphans env gd' h' orphans dry_run
                             (report\<lparr>gt_discovery := Some (Orphans orphans)\<rparr>) ah1 of
                        (r, ah2) \<Rightarrow> (r, gd', ah2))
                 | (Some d, ah1) \<Rightarrow> (Some (report\<lparr>gt_discovery := Some d\<rparr>), gd', ah1))"

section \<open>The shared cache of a pool\<close>

record cache_entry =
  ce_id :: string
  ce_storage_pool_id :: string
  ce_item_id :: string
  ce_status :: string
  ce_file_path :: string
  ce_created_at :: time

definition reconcile_shared_cache_entries :: "gc_db \<Rightarrow> host \<Rightarrow> cache_entry list \<Rightarrow> cache_entry list" where
  "reconcile_shared_cache_entries gd h entries =
     (if \<not> opt_truthy (h_storage_pool_id h) then entries
      else filter (\<lambda>e. \<not> (Some (ce_storage_pool_id e) = h_storage_pool_id h \<and>
                          ce_item_id e \<notin> set (gd_pattern_ids gd @ gd_item_ids gd))) entries)"

definition extract_node_item_ids :: "json \<Rightarrow> json list option" where
  "extract_node_item_ids n = do {
     t \<leftarrow> get n ''type'';
     if t = STORAGE_NODE then do {
       d \<leftarrow> node_data n;
       a \<leftarrow> get d ''libraryItemId'';
       b \<leftarrow> get d ''patternDiskId'';
       Some (filter truthy [a, b])
     }
     else if t = VM_NODE then do { d \<leftarrow> node_data n; a \<leftarrow> get d ''pxeBootIsoId''; Some (filter truthy [a]) }
     else Some []
   }"

text \<open>\<open>set.update\<close> raises on a value that is not hashable.\<close>

definition collect_referenced_items :: "project list \<Rightarrow> json list option" where
  "collect_referenced_items ps =
     ofold (\<lambda>acc p. do {
       ns \<leftarrow> topo_nodes (gc_topology p);
       ofold (\<lambda>acc n. do { ids \<leftarrow> extract_node_item_ids n; ks \<leftarrow> omap hkey ids; Some (acc @ ks) }) acc ns
     }) [] ps"

definition only_cache :: "string \<Rightarrow> gc_clean_params" where
  "only_cache path = \<lparr>gp_domains = [], gp_pools = [], gp_dirs = [], gp_containers = [], gp_bridges = [],
     gp_namespaces = [], gp_cache_items = [path], gp_bmc = [], gp_metadata = [], gp_stale_temps = [],
     gp_stale_isos = [], gp_prune_images = False\<rparr>"

text \<open>Entries are removed from the table one by one, each after its job unless the job raised.\<close>

fun evict_stale_cache_entries :: "gc_env \<Rightarrow> cache_entry list \<Rightarrow> cache_entry list \<Rightarrow> agent_host \<Rightarrow> cache_entry list \<times> agent_host" where
  "evict_stale_cache_entries env [] entries ah = (entries, ah)"
| "evict_stale_cache_entries env (e # es) entries ah =
     (case run_job env ''/gc/clean''
             (handle_gc_clean (ge_agent env) (only_cache (''/var/lib/troshka/shared/'' @ ce_file_path e))) ah of
        (None, ah') \<Rightarrow> evict_stale_cache_entries env es entries ah'
      | (Some _, ah') \<Rightarrow> evict_stale_cache_entries env es (filter (\<lambda>x. ce_id x \<noteq> ce_id e) entries) ah')"

definition STALE_CACHE_AGE :: time where "STALE_CACHE_AGE = 168 * 3600 * 1000000"

text \<open>The result: the totals of the report (entries, stale, evictable, evicted), the table and the host.\<close>

definition pool_cache_eviction ::
  "gc_env \<Rightarrow> time \<Rightarrow> database \<Rightarrow> string \<Rightarrow> host list \<Rightarrow> bool \<Rightarrow> cache_entry list \<Rightarrow> agent_host \<Rightarrow>
     ((nat \<times> nat \<times> nat \<times> nat) \<times> cache_entry list \<times> agent_host) option" where
  "pool_cache_eviction env now db pool_id hosts dry_run entries ah = do {
     referenced \<leftarrow> collect_referenced_items
       (filter (\<lambda>p. on_hosts (map h_id hosts) p \<and> p_state p \<in> {''active'', ''stopped''}) (d_projects db));
     let mine = filter (\<lambda>e. ce_storage_pool_id e = pool_id) entries;
         stale = filter (\<lambda>e. ce_status e = ''ready'' \<and> ce_created_at e < now - STALE_CACHE_AGE) mine;
         evictable = filter (\<lambda>e. JStr (ce_item_id e) \<notin> set referenced) stale;
         run = evictable \<noteq> [] \<and> \<not> dry_run
     in Some ((length mine, length stale, length evictable, if run then length evictable else 0),
              if run then evict_stale_cache_entries env evictable entries ah else (entries, ah))
   }"

text \<open>The sweep of a pool's shared storage through one of its hosts.\<close>

definition pool_orphan_cleanup :: "gc_env \<Rightarrow> gc_db \<Rightarrow> host \<Rightarrow> bool \<Rightarrow> gc_report \<Rightarrow> gc_report action" where
  "pool_orphan_cleanup env gd scan_host dry_run report ah =
     (if h_agent_status scan_host \<noteq> ''connected'' then (Some report, ah)
      else case discover_orphans env (gd_db gd) scan_host ah of
        (None, ah1) \<Rightarrow> (None, ah1)
      | (Some (Orphans orphans), ah1) \<Rightarrow>
          (let found = count_total_orphans orphans;
               cleanable = found + length (go_cache_items orphans) + length (go_stale_temps orphans);
               report = report\<lparr>gt_discovery := Some (Orphans orphans), gt_orphans_found := found\<rparr>
           in if cleanable > 0 \<and> \<not> dry_run
              then and_then (clean_orphans env gd scan_host orphans) (\<lambda>c. give (report\<lparr>gt_cleanup := Some c\<rparr>)) ah1
              else if cleanable > 0 then (Some (report\<lparr>gt_cleanup := Some (Would_clean cleanable)\<rparr>), ah1)
              else (Some report, ah1))
      | (Some d, ah1) \<Rightarrow> (Some (report\<lparr>gt_discovery := Some d, gt_orphans_found := 0\<rparr>), ah1))"

text \<open>\<open>_is_kubevirt_project_ns\<close>.\<close>

definition is_kubevirt_project_ns :: "string \<Rightarrow> bool" where
  "is_kubevirt_project_ns name =
     (starts_with name ''troshka-'' \<and>
      (let suffix = drop 8 name in length suffix = 8 \<and> list_all gc_hex suffix))"

definition CACHE_NAMESPACE :: string where "CACHE_NAMESPACE = ''troshka-cache''"

text \<open>\<open>_detect_orphan_kubevirt_namespaces\<close> on the names and phases of the listed namespaces.\<close>

definition detect_orphan_kubevirt_namespaces :: "database \<Rightarrow> (string \<times> string option) list \<Rightarrow> string list" where
  "detect_orphan_kubevirt_namespaces db nss =
     map fst (filter (\<lambda>(name, phase). name \<noteq> CACHE_NAMESPACE \<and> is_kubevirt_project_ns name \<and>
         phase \<noteq> Some ''Terminating'' \<and> drop 8 name \<notin> set (map (\<lambda>p. take 8 (p_id p)) (d_projects db))) nss)"

end
