(* ===== verification/Gc_Laws.thy ===== *)
theory Gc_Laws
  imports Gc_Service
begin

text \<open>
  What a garbage collection (\<open>Gc_Service\<close> over \<open>Gc_Agent\<close>) can and cannot remove. The proof of safety
  carries one invariant, \<open>sparing\<close>, through the stages of the cleaning: nothing that a project owned
  at the start is missing. Paths are compared by the first name below a scanned directory.
\<close>

section \<open>Loops of actions\<close>

lemma and_then_invariant:
  assumes "I (snd (m h))" "\<And>x h'. m h = (Some x, h') \<Longrightarrow> I h' \<Longrightarrow> I (snd (f x h'))"
  shows "I (snd (and_then m f h))"
proof (cases "m h")
  case (Pair r h')
  with assms show ?thesis by (cases r) (auto simp: and_then_def)
qed

lemma snd_give [simp]: "snd (give x h) = h"
  by (simp add: give_def)

lemma clean_each_invariant:
  assumes "\<And>x h. x \<in> set xs \<Longrightarrow> I h \<Longrightarrow> I (snd (f x h))" "I h"
  shows "I (snd (clean_each f xs h))"
  using assms
proof (induction xs arbitrary: h)
  case Nil
  then show ?case by simp
next
  case (Cons x xs)
  have f: "I (snd (f x h))" using Cons.prems by simp
  have rest: "I (snd (and_then (clean_each f xs) (\<lambda>n. give (k + n)) h'))" if "I h'" for k h'
  proof (rule and_then_invariant)
    show "I (snd (clean_each f xs h'))"
      by (rule Cons.IH) (simp_all add: Cons.prems(1) that)
    show "I (snd (give (k + n) h''))" if "I h''" for n h'' using that by simp
  qed
  show ?case unfolding clean_each.simps by (rule and_then_invariant, rule f, erule rest)
qed

section \<open>Text\<close>

lemma starts_with_Nil [simp]: "starts_with s []"
  by (simp add: starts_with_def)

lemma starts_with_Cons [simp]:
  "starts_with (c # s) (d # p) = (c = d \<and> starts_with s p)" "\<not> starts_with [] (d # p)"
  by (auto simp: starts_with_def)

lemma starts_with_iff: "starts_with s p \<longleftrightarrow> (\<exists>t. s = p @ t)"
  unfolding starts_with_def by (metis append_eq_conv_conj append_take_drop_id)

lemma starts_with_cancel [simp]: "starts_with (a @ s) (a @ p) = starts_with s p"
  by (auto simp: starts_with_iff)

lemma starts_with_take: "starts_with s (take n s)"
  by (metis append_take_drop_id starts_with_iff)

text \<open>Two names without a slash, one followed by more of a path.\<close>

lemma slash_split_eq:
  assumes "CHR ''/'' \<notin> set a" "CHR ''/'' \<notin> set b" "a @ CHR ''/'' # s = b @ CHR ''/'' # t"
  shows "a = b"
  using assms
proof (induction a arbitrary: b)
  case Nil
  then show ?case by (cases b) auto
next
  case (Cons x a)
  then show ?case by (cases b) auto
qed

section \<open>What a project owns on a host\<close>

definition vm_path :: "string \<Rightarrow> string \<Rightarrow> bool" where
  "vm_path pid q = list_ex (\<lambda>d. below (path_join d pid) q) vms_dirs"

definition bmc_path :: "string \<Rightarrow> string \<Rightarrow> bool" where
  "bmc_path pid q = below (path_join BMC_DIR pid) q"

text \<open>Nothing of the project that \<open>h\<close> has is missing or changed in \<open>h'\<close>: the files of its VMs, its
  domains, the storage pools of its VM directories, its containers and its network namespace.\<close>

definition keeps_files :: "(string \<Rightarrow> bool) \<Rightarrow> agent_host \<Rightarrow> agent_host \<Rightarrow> bool" where
  "keeps_files P h h' = (\<forall>n\<in>set (ah_fs h). P (f_path n) \<longrightarrow> n \<in> set (ah_fs h'))"

definition keeps_domains :: "string \<Rightarrow> agent_host \<Rightarrow> agent_host \<Rightarrow> bool" where
  "keeps_domains pid h h' =
     (\<forall>d\<in>set (ah_domains h). starts_with (dom_name d) (netns_of pid) \<longrightarrow> d \<in> set (ah_domains h'))"

definition keeps_pools :: "string \<Rightarrow> agent_host \<Rightarrow> agent_host \<Rightarrow> bool" where
  "keeps_pools pid h h' =
     (\<forall>q\<in>set (ah_pools h). project_from_vms_target (py_strip (pool_path q)) = pid \<and>
        \<not> starts_with (pool_name q) ''troshka-vmedia-'' \<longrightarrow> q \<in> set (ah_pools h'))"

definition project_container :: "string \<Rightarrow> pod_container \<Rightarrow> bool" where
  "project_container pid c = (starts_with (ctr_name c) ''troshka-'' \<and> ctr_project (ctr_name c) = take 8 pid)"

definition keeps_containers :: "string \<Rightarrow> agent_host \<Rightarrow> agent_host \<Rightarrow> bool" where
  "keeps_containers pid h h' = (\<forall>c\<in>set (ah_containers h). project_container pid c \<longrightarrow> c \<in> set (ah_containers h'))"

definition keeps_namespace :: "string \<Rightarrow> agent_host \<Rightarrow> agent_host \<Rightarrow> bool" where
  "keeps_namespace pid h h' = (netns_of pid \<in> ns_name ` set (ah_namespaces h) \<longrightarrow>
     netns_of pid \<in> ns_name ` set (ah_namespaces h'))"

section \<open>Files\<close>

text \<open>No deletion of \<open>p\<close> touches a path with \<open>P\<close>.\<close>

definition clear_of :: "(string \<Rightarrow> bool) \<Rightarrow> string \<Rightarrow> bool" where
  "clear_of P p = (\<forall>q. P q \<longrightarrow> \<not> below p q)"

lemma below_self [simp]: "below p p"
  by (simp add: below_def)

lemma keeps_files_refl [simp]: "keeps_files P h h"
  by (simp add: keeps_files_def)

lemma keeps_files_frame: "ah_fs h' = ah_fs h'' \<Longrightarrow> keeps_files P h h' = keeps_files P h h''"
  by (simp add: keeps_files_def)

lemma rmtree_keeps: "clear_of P p \<Longrightarrow> keeps_files P h0 h \<Longrightarrow> keeps_files P h0 (snd (rmtree env p h))"
  by (auto simp: rmtree_def keeps_files_def clear_of_def split: option.splits)

lemma drop_path_keeps: "clear_of P p \<Longrightarrow> keeps_files P h0 h \<Longrightarrow> keeps_files P h0 (drop_path p h)"
  by (auto simp: drop_path_def keeps_files_def clear_of_def)

lemma os_remove_keeps: "clear_of P p \<Longrightarrow> keeps_files P h0 h \<Longrightarrow> keeps_files P h0 (snd (os_remove env p h))"
  by (simp add: os_remove_def drop_path_keeps)

lemma os_rmdir_keeps: "clear_of P p \<Longrightarrow> keeps_files P h0 h \<Longrightarrow> keeps_files P h0 (snd (os_rmdir env p h))"
  by (simp add: os_rmdir_def drop_path_keeps)

lemma below_trans_join: "below (path_join p e) q \<Longrightarrow> below p q"
  by (auto simp: below_def path_join_def starts_with_iff)

lemma clear_of_join: "clear_of P p \<Longrightarrow> clear_of P (path_join p e)"
  unfolding clear_of_def by (blast dest: below_trans_join)

lemma removes_keep:
  assumes "clear_of P p" "keeps_files P h0 h"
  shows "keeps_files P h0 (foldl (\<lambda>h e. snd (os_remove env (path_join p e) h)) h es)"
  using assms(2) by (induction es arbitrary: h) (simp_all add: os_remove_keeps clear_of_join assms(1))

text \<open>What a cleaning of \<open>path\<close> may delete: its normal form, or where that leads.\<close>

definition validated_clear :: "agent_env \<Rightarrow> (string \<Rightarrow> bool) \<Rightarrow> string \<Rightarrow> bool" where
  "validated_clear env P path = (clear_of P (normpath path) \<and> clear_of P (ae_realpath env (normpath path)))"

lemma validate_path_clear:
  "validated_clear env P path \<Longrightarrow> validate_path env h path = Some v \<Longrightarrow> clear_of P v"
  by (auto simp: validate_path_def validated_clear_def Let_def split: if_splits)

lemma clean_dir_retry_keeps:
  assumes "validated_clear env P path" "keeps_files P h0 h"
  shows "keeps_files P h0 (snd (clean_dir_retry env path h))"
proof (cases "validate_path env h path")
  case None
  then show ?thesis using assms(2) by (simp add: clean_dir_retry_def)
next
  case (Some v)
  then have "clear_of P v" using assms(1) by (rule validate_path_clear [rotated])
  then show ?thesis using assms(2) Some
    by (simp add: clean_dir_retry_def Let_def split_beta os_rmdir_keeps removes_keep)
qed

lemma clean_dir_keeps:
  assumes "validated_clear env P path" "keeps_files P h0 h"
  shows "keeps_files P h0 (snd (clean_dir env path h))"
proof (cases "validate_path env h path")
  case None
  then show ?thesis using assms(2) by (simp add: clean_dir_def)
next
  case (Some v)
  have k: "keeps_files P h0 (snd (rmtree env v h))"
    using assms Some by (intro rmtree_keeps validate_path_clear)
  obtain b h' where r: "rmtree env v h = (b, h')" by (cases "rmtree env v h")
  then have "keeps_files P h0 (snd (clean_dir_retry env path h'))"
    using k assms(1) by (intro clean_dir_retry_keeps) simp_all
  then show ?thesis using assms(2) Some r k by (cases b) (simp_all add: clean_dir_def)
qed

section \<open>What each stage of a cleaning leaves alone\<close>

definition owned_path :: "bool \<Rightarrow> string \<Rightarrow> string \<Rightarrow> bool" where
  "owned_path bmc pid q = (vm_path pid q \<or> (bmc \<and> bmc_path pid q))"

definition spared :: "bool \<Rightarrow> string \<Rightarrow> agent_host \<Rightarrow> agent_host \<Rightarrow> bool" where
  "spared bmc pid h h' \<longleftrightarrow> keeps_files (owned_path bmc pid) h h' \<and> keeps_domains pid h h' \<and> keeps_pools pid h h' \<and>
     keeps_containers pid h h' \<and> keeps_namespace pid h h'"

text \<open>The invariant of the cleaning: no container appears either.\<close>

definition sparing :: "bool \<Rightarrow> string \<Rightarrow> agent_host \<Rightarrow> agent_host \<Rightarrow> bool" where
  "sparing bmc pid h0 h \<longleftrightarrow> spared bmc pid h0 h \<and> set (ah_containers h) \<subseteq> set (ah_containers h0)"

lemmas keeps_defs = keeps_domains_def keeps_pools_def keeps_containers_def keeps_namespace_def

lemma sparing_refl: "sparing bmc pid h h"
  by (simp add: sparing_def spared_def keeps_defs)

named_theorems gc_frame \<open>what the operations on files leave unchanged\<close>

lemma rmtree_frame [gc_frame]:
  "ah_domains (snd (rmtree env p h)) = ah_domains h" "ah_pools (snd (rmtree env p h)) = ah_pools h"
  "ah_containers (snd (rmtree env p h)) = ah_containers h" "ah_namespaces (snd (rmtree env p h)) = ah_namespaces h"
  by (simp_all add: rmtree_def split: option.splits)

lemma os_remove_frame [gc_frame]:
  "ah_domains (snd (os_remove env p h)) = ah_domains h" "ah_pools (snd (os_remove env p h)) = ah_pools h"
  "ah_containers (snd (os_remove env p h)) = ah_containers h" "ah_namespaces (snd (os_remove env p h)) = ah_namespaces h"
  by (simp_all add: os_remove_def drop_path_def)

lemma os_rmdir_frame [gc_frame]:
  "ah_domains (snd (os_rmdir env p h)) = ah_domains h" "ah_pools (snd (os_rmdir env p h)) = ah_pools h"
  "ah_containers (snd (os_rmdir env p h)) = ah_containers h" "ah_namespaces (snd (os_rmdir env p h)) = ah_namespaces h"
  by (simp_all add: os_rmdir_def drop_path_def)

lemma removes_frame [gc_frame]:
  "ah_domains (foldl (\<lambda>h e. snd (os_remove env (path_join p e) h)) h es) =
     ah_domains h"
  "ah_pools (foldl (\<lambda>h e. snd (os_remove env (path_join p e) h)) h es) =
     ah_pools h"
  "ah_containers (foldl (\<lambda>h e. snd (os_remove env (path_join p e) h)) h es) =
     ah_containers h"
  "ah_namespaces (foldl (\<lambda>h e. snd (os_remove env (path_join p e) h)) h es) =
     ah_namespaces h"
  by (induction es arbitrary: h) (simp_all add: os_remove_frame)

lemma clean_dir_retry_frame [gc_frame]:
  "ah_domains (snd (clean_dir_retry env p h)) = ah_domains h" "ah_pools (snd (clean_dir_retry env p h)) = ah_pools h"
  "ah_containers (snd (clean_dir_retry env p h)) = ah_containers h"
  "ah_namespaces (snd (clean_dir_retry env p h)) = ah_namespaces h"
  by (simp_all add: clean_dir_retry_def Let_def split_beta gc_frame split: option.splits)

text \<open>Only files change: enough that those of the project stay.\<close>

lemma sparing_files:
  assumes "sparing bmc pid h0 h" "keeps_files (owned_path bmc pid) h0 h'"
    and "ah_domains h' = ah_domains h" "ah_pools h' = ah_pools h" "ah_containers h' = ah_containers h"
    and "ah_namespaces h' = ah_namespaces h"
  shows "sparing bmc pid h0 h'"
  using assms by (simp add: sparing_def spared_def keeps_defs)

lemma sparing_fs: "sparing bmc pid h0 h \<Longrightarrow> keeps_files (owned_path bmc pid) h0 h"
  by (simp add: sparing_def spared_def)

lemma rmtree_sparing:
  "clear_of (owned_path bmc pid) p \<Longrightarrow> sparing bmc pid h0 h \<Longrightarrow> sparing bmc pid h0 (snd (rmtree env p h))"
  by (rule sparing_files) (simp_all add: gc_frame rmtree_keeps sparing_fs)

lemma os_remove_sparing:
  "clear_of (owned_path bmc pid) p \<Longrightarrow> sparing bmc pid h0 h \<Longrightarrow> sparing bmc pid h0 (snd (os_remove env p h))"
  by (rule sparing_files) (simp_all add: gc_frame os_remove_keeps sparing_fs)

lemma clean_dir_frame:
  "ah_domains (snd (clean_dir env p h)) = ah_domains h" "ah_pools (snd (clean_dir env p h)) = ah_pools h"
  "ah_containers (snd (clean_dir env p h)) = ah_containers h" "ah_namespaces (snd (clean_dir env p h)) = ah_namespaces h"
proof -
  have "ah_domains (snd (clean_dir env p h)) = ah_domains h \<and> ah_pools (snd (clean_dir env p h)) = ah_pools h \<and>
    ah_containers (snd (clean_dir env p h)) = ah_containers h \<and> ah_namespaces (snd (clean_dir env p h)) = ah_namespaces h"
  proof (cases "validate_path env h p")
    case None
    then show ?thesis by (simp add: clean_dir_def)
  next
    case (Some v)
    obtain b h' where r: "rmtree env v h = (b, h')" by (cases "rmtree env v h")
    then show ?thesis using Some rmtree_frame [of env v h]
      by (cases b) (simp_all add: clean_dir_def clean_dir_retry_frame)
  qed
  then show "ah_domains (snd (clean_dir env p h)) = ah_domains h" "ah_pools (snd (clean_dir env p h)) = ah_pools h"
    "ah_containers (snd (clean_dir env p h)) = ah_containers h" "ah_namespaces (snd (clean_dir env p h)) = ah_namespaces h"
    by simp_all
qed

lemma clean_dir_sparing:
  "validated_clear env (owned_path bmc pid) p \<Longrightarrow> sparing bmc pid h0 h \<Longrightarrow> sparing bmc pid h0 (snd (clean_dir env p h))"
  by (rule sparing_files) (simp_all add: clean_dir_frame clean_dir_keeps sparing_fs)

lemma clean_cache_item_sparing:
  "validated_clear env (owned_path bmc pid) p \<Longrightarrow> sparing bmc pid h0 h \<Longrightarrow>
     sparing bmc pid h0 (snd (clean_cache_item env p h))"
  by (auto simp: clean_cache_item_def split_beta intro!: rmtree_sparing os_remove_sparing
      dest: validate_path_clear split: option.splits)

lemma clean_domain_sparing:
  assumes "\<not> starts_with d (netns_of pid)" "sparing bmc pid h0 h"
  shows "sparing bmc pid h0 (snd (clean_domain env d h))"
proof -
  have "x \<in> set (ah_domains (drop_domain d h))" "x \<in> set (ah_domains (stop_domain d h))"
      "x \<in> set (ah_domains (drop_domain d (stop_domain d h)))"
    if "x \<in> set (ah_domains h)" "starts_with (dom_name x) (netns_of pid)" for x
    using that assms(1) by (force simp: drop_domain_def stop_domain_def image_iff)+
  then show ?thesis using assms(2)
    by (auto simp: clean_domain_def Let_def sparing_def spared_def keeps_defs keeps_files_def drop_domain_def stop_domain_def)
qed

lemma clean_namespace_sparing:
  assumes "ns \<noteq> netns_of pid" "sparing bmc pid h0 h"
  shows "sparing bmc pid h0 (snd (clean_namespace env ns h))"
  using assms by (auto simp: clean_namespace_def sparing_def spared_def keeps_defs keeps_files_def image_iff)

lemma clean_bridge_sparing: "sparing bmc pid h0 h \<Longrightarrow> sparing bmc pid h0 (snd (clean_bridge env b h))"
  by (simp add: clean_bridge_def sparing_def spared_def keeps_defs keeps_files_def)

lemma clean_images_sparing: "sparing bmc pid h0 h \<Longrightarrow> sparing bmc pid h0 (snd (clean_dangling_images env b h))"
  by (simp add: clean_dangling_images_def sparing_def spared_def keeps_defs keeps_files_def)

definition project_pool :: "string \<Rightarrow> dir_pool \<Rightarrow> bool" where
  "project_pool pid q = (project_from_vms_target (py_strip (pool_path q)) = pid \<and>
     \<not> starts_with (pool_name q) ''troshka-vmedia-'')"

lemma undefine_pool_sparing:
  assumes "\<forall>q\<in>set (ah_pools h0). pool_name q = name \<longrightarrow> \<not> project_pool pid q" "sparing bmc pid h0 h"
  shows "sparing bmc pid h0 (snd (undefine_pool env name h))"
  unfolding undefine_pool_def
proof (rule and_then_invariant)
  show "sparing bmc pid h0 (snd (pool_destroy env name h))"
    using assms by (auto simp: pool_destroy_def sparing_def spared_def keeps_defs keeps_files_def project_pool_def image_iff
      split: cmd_end.splits)
  show "sparing bmc pid h0 (snd (pool_undefine env name h'))" if "sparing bmc pid h0 h'" for h'
    using assms(1) that by (auto simp: pool_undefine_def sparing_def spared_def keeps_defs keeps_files_def project_pool_def
      split: cmd_end.splits)
qed

lemma clean_pool_sparing:
  assumes "\<forall>q\<in>set (ah_pools h0). pool_name q = name \<longrightarrow> \<not> project_pool pid q" "sparing bmc pid h0 h"
  shows "sparing bmc pid h0 (snd (clean_pool env name h))"
proof (cases "project_from_vms_target (pool_target_path env h name) = []")
  case True
  then show ?thesis using assms(2) by (simp add: clean_pool_def)
next
  case False
  have "sparing bmc pid h0 (snd (and_then (undefine_pool env name) (\<lambda>ok. give (if ok then 1 else 0)) h))"
    by (rule and_then_invariant) (simp_all add: undefine_pool_sparing [OF assms])
  with False show ?thesis by (simp add: clean_pool_def)
qed

text \<open>A container name that neither is one of the project's nor shares a pod with one.\<close>

definition foreign_container :: "string \<Rightarrow> agent_host \<Rightarrow> string \<Rightarrow> bool" where
  "foreign_container pid h0 ctr \<longleftrightarrow> (\<forall>c\<in>set (ah_containers h0). ctr_name c = ctr \<longrightarrow> \<not> project_container pid c \<and>
     (ctr_pod c \<noteq> [] \<longrightarrow> (\<forall>d\<in>set (ah_containers h0). ctr_pod d = ctr_pod c \<longrightarrow> \<not> project_container pid d)))"

lemma drop_containers_sparing:
  assumes "\<forall>c\<in>set (ah_containers h0). P c \<longrightarrow> \<not> project_container pid c" "sparing bmc pid h0 h"
  shows "sparing bmc pid h0 (drop_containers P h)"
  using assms by (auto simp: drop_containers_def sparing_def spared_def keeps_defs keeps_files_def)

lemma container_pod_foreign:
  assumes "container_pod env h ctr = Some pod" "foreign_container pid h0 ctr" "sparing bmc pid h0 h"
  shows "pod \<noteq> [] \<Longrightarrow> \<forall>c\<in>set (ah_containers h0). ctr_pod c = pod \<longrightarrow> \<not> project_container pid c"
    "\<forall>c\<in>set (ah_containers h0). ctr_name c = ctr \<longrightarrow> \<not> project_container pid c"
proof -
  show "\<forall>c\<in>set (ah_containers h0). ctr_name c = ctr \<longrightarrow> \<not> project_container pid c"
    using assms(2) by (simp add: foreign_container_def)
  assume "pod \<noteq> []"
  with assms(1) obtain c where "find (\<lambda>c. ctr_name c = ctr) (ah_containers h) = Some c" "ctr_pod c = pod"
    by (auto simp: container_pod_def split: cmd_end.splits)
  then have c: "c \<in> set (ah_containers h)" "ctr_name c = ctr" "ctr_pod c = pod"
    using find_SomeD [of "\<lambda>c. ctr_name c = ctr"] by blast+
  then have "c \<in> set (ah_containers h0)" using assms(3) by (auto simp: sparing_def)
  then show "\<forall>c\<in>set (ah_containers h0). ctr_pod c = pod \<longrightarrow> \<not> project_container pid c"
    using assms(2) c \<open>pod \<noteq> []\<close> by (auto simp: foreign_container_def)
qed

lemma clean_containers_sparing:
  assumes "\<forall>c\<in>set ctrs. foreign_container pid h0 c" "sparing bmc pid h0 h"
  shows "sparing bmc pid h0 (snd (clean_orphan_containers_from env pods ctrs h))"
  using assms
proof (induction ctrs arbitrary: pods h)
  case Nil
  then show ?case by simp
next
  case (Cons c ctrs)
  have IH: "sparing bmc pid h0 h' \<Longrightarrow> sparing bmc pid h0 (snd (clean_orphan_containers_from env pods' ctrs h'))" for pods' h'
    by (rule Cons.IH) (use Cons.prems(1) in simp_all)
  have IH1: "sparing bmc pid h0 h' \<Longrightarrow>
      sparing bmc pid h0 (snd (and_then (clean_orphan_containers_from env pods' ctrs) (\<lambda>n. give (Suc n)) h'))" for pods' h'
    by (rule and_then_invariant) (simp_all add: IH)
  have f: "foreign_container pid h0 c" using Cons.prems(1) by simp
  show ?case
  proof (cases "container_pod env h c")
    case None
    then show ?thesis by (simp add: IH Cons.prems(2))
  next
    case (Some pod)
    note d = container_pod_foreign [OF Some f Cons.prems(2)]
    show ?thesis using Some
      by (simp add: IH Cons.prems(2) IH1 drop_containers_sparing d)
  qed
qed

lemma remove_bmc_bridge_names:
  "ns_name ` set (ah_namespaces (remove_bmc_bridge env x h)) = ns_name ` set (ah_namespaces h)"
proof -
  have "map ns_name (map (\<lambda>s. if ns_name s = n then s\<lparr>ns_links := removeAll b (ns_links s)\<rparr> else s) ss) = map ns_name ss" for n b ss
    by simp
  then have "map ns_name (ah_namespaces (remove_bmc_bridge env x h)) = map ns_name (ah_namespaces h)"
    unfolding remove_bmc_bridge_def Let_def by (auto simp del: append.simps list.map_comp map_map)
  then show ?thesis by (metis list.set_map)
qed

lemma remove_bmc_bridge_frame:
  "ah_fs (remove_bmc_bridge env x h) = ah_fs h" "ah_domains (remove_bmc_bridge env x h) = ah_domains h"
  "ah_pools (remove_bmc_bridge env x h) = ah_pools h" "ah_containers (remove_bmc_bridge env x h) = ah_containers h"
  by (simp_all add: remove_bmc_bridge_def Let_def)

lemma remove_bmc_bridge_sparing: "sparing bmc pid h0 h \<Longrightarrow> sparing bmc pid h0 (remove_bmc_bridge env x h)"
  by (simp add: sparing_def spared_def keeps_defs keeps_files_def remove_bmc_bridge_names remove_bmc_bridge_frame)

lemma kill_bmc_sparing: "sparing bmc pid h0 h \<Longrightarrow> sparing bmc pid h0 (kill_bmc_processes d h)"
  by (simp add: kill_bmc_processes_def Let_def sparing_def spared_def keeps_defs keeps_files_def)

lemma clean_bmc_sparing:
  assumes "clear_of (owned_path bmc pid) (path_join BMC_DIR x)" "sparing bmc pid h0 h"
  shows "sparing bmc pid h0 (snd (and_then (clean_bmc_dir env x) (\<lambda>k h. (Some k, remove_bmc_bridge env x h)) h))"
proof (rule and_then_invariant)
  have n: "\<forall>q\<in>set (ah_pools h0). pool_name q = ''troshka-vmedia-'' @ take 8 x \<longrightarrow> \<not> project_pool pid q"
    by (auto simp: project_pool_def)
  have "sparing bmc pid h0 (snd (and_then (undefine_pool env (''troshka-vmedia-'' @ take 8 x))
      (\<lambda>_ h. (Some 1, snd (rmtree env (path_join BMC_DIR x) h))) (kill_bmc_processes (path_join BMC_DIR x) h)))"
  proof (rule and_then_invariant)
    show "sparing bmc pid h0 (snd (undefine_pool env (''troshka-vmedia-'' @ take 8 x) (kill_bmc_processes (path_join BMC_DIR x) h)))"
      by (rule undefine_pool_sparing, rule n, rule kill_bmc_sparing, rule assms)
  qed (simp add: assms(1) rmtree_sparing)
  then show "sparing bmc pid h0 (snd (clean_bmc_dir env x h))"
    using assms(2) unfolding clean_bmc_dir_def Let_def
    by (cases "is_dir h (path_join BMC_DIR x)") (simp_all only: not_True_eq_False not_False_eq_True if_True if_False snd_conv)
  show "sparing bmc pid h0 (snd (Some k, remove_bmc_bridge env x h'))" if "sparing bmc pid h0 h'" for k :: nat and h'
    using that by (simp add: remove_bmc_bridge_sparing)
qed

lemma clean_metadata_path_sparing:
  assumes "clear_of (owned_path bmc pid) p" "sparing bmc pid h0 h"
  shows "sparing bmc pid h0 (snd (clean_metadata_path env p h))"
  using os_remove_sparing [OF assms, of env] assms(2)
  by (auto simp: clean_metadata_path_def split: prod.splits bool.splits)

lemma clean_agent_iso_sparing:
  assumes "clear_of (owned_path bmc pid) (ae_realpath env p)" "sparing bmc pid h0 h"
  shows "sparing bmc pid h0 (snd (clean_agent_iso env p h))"
  using rmtree_sparing [OF assms, of env] assms(2) by (simp add: clean_agent_iso_def Let_def split_beta)

section \<open>Where the collector deletes\<close>

text \<open>The directories whose entries it looks at.\<close>

definition scanned_dirs :: "string list" where
  "scanned_dirs = vms_dirs @ [BMC_DIR, AGENT_ISO_SCAN_ROOT, LOCAL_DIR @ ''/cache/patterns'', TROSHKA_DIR @ ''/cache/patterns'',
     TROSHKA_DIR @ ''/cache/snapshots'', TROSHKA_DIR @ ''/images'', LOCAL_DIR @ ''/cache/snapshots'',
     SHARED_DIR @ ''/images'', SHARED_DIR @ ''/cache/patterns'', SHARED_DIR @ ''/cache/snapshots'', path_join LOCAL_DIR ''tmp'']"

text \<open>The local mount is where it is by default, and no entry of these directories is a symbolic link.\<close>

definition plain_layout :: "agent_env \<Rightarrow> bool" where
  "plain_layout env \<longleftrightarrow> ae_local_mount env = LOCAL_DIR \<and>
     (\<forall>d\<in>set scanned_dirs. \<forall>e. entry_name e \<longrightarrow> ae_realpath env (path_join d e) = path_join d e)"

lemmas dir_defs = TROSHKA_DIR_def VMS_DIR_def BMC_DIR_def SHARED_DIR_def LOCAL_DIR_def AGENT_ISO_SCAN_ROOT_def path_join_def

lemma below_component:
  assumes "below (path_join d e) q" "CHR ''/'' \<notin> set e"
  shows "\<exists>t. q = d @ CHR ''/'' # t \<and> takeWhile (\<lambda>c. c \<noteq> CHR ''/'') t = e"
proof -
  have tw: "takeWhile (\<lambda>c. c \<noteq> CHR ''/'') (e @ CHR ''/'' # t) = e" for t
    using assms(2) by (induction e) auto
  have te: "takeWhile (\<lambda>c. c \<noteq> CHR ''/'') e = e"
    using assms(2) by (induction e) auto
  consider "q = d @ CHR ''/'' # e" | t where "q = d @ CHR ''/'' # (e @ CHR ''/'' # t)"
    using assms(1) unfolding below_def path_join_def starts_with_iff by force
  then show ?thesis using tw te by cases blast+
qed

lemma owned_component:
  assumes "owned_path bmc pid q" "CHR ''/'' \<notin> set pid"
  shows "\<exists>d t. q = d @ CHR ''/'' # t \<and> takeWhile (\<lambda>c. c \<noteq> CHR ''/'') t = pid \<and> (d \<in> set vms_dirs \<or> (bmc \<and> d = BMC_DIR))"
proof -
  obtain d where "below (path_join d pid) q" "d \<in> set vms_dirs \<or> (bmc \<and> d = BMC_DIR)"
    using assms(1) unfolding owned_path_def vm_path_def bmc_path_def list_ex_iff by blast
  then show ?thesis using below_component [OF _ assms(2)] by blast
qed

text \<open>Two directories, neither of which contains the other.\<close>

definition apart :: "string \<Rightarrow> string \<Rightarrow> bool" where
  "apart a b \<longleftrightarrow> \<not> starts_with (a @ ''/'') (b @ ''/'') \<and> \<not> starts_with (b @ ''/'') (a @ ''/'')"

lemma starts_with_either: "p @ s = q @ t \<Longrightarrow> starts_with p q \<or> starts_with q p"
  by (auto simp: starts_with_iff append_eq_append_conv2)

lemma apart_paths: "apart a b \<Longrightarrow> a @ CHR ''/'' # s \<noteq> b @ CHR ''/'' # t"
  using starts_with_either [of "a @ ''/''" s "b @ ''/''" t] by (auto simp: apart_def)

lemma scanned_apart:
  "\<forall>d\<in>set scanned_dirs. \<forall>d'\<in>set (BMC_DIR # vms_dirs). d = d' \<or> apart d d'"
  by code_simp

lemma owned_start:
  assumes "owned_path bmc pid q"
  shows "starts_with q ''/var/lib/troshka/''"
  using assms
  by (auto simp: owned_path_def vm_path_def bmc_path_def below_def vms_dirs_def dir_defs starts_with_iff)

lemma scanned_clear:
  assumes "d \<in> set scanned_dirs" "CHR ''/'' \<notin> set e" "CHR ''/'' \<notin> set pid"
    and "d \<in> set vms_dirs \<Longrightarrow> e \<noteq> pid" "bmc \<Longrightarrow> d = BMC_DIR \<Longrightarrow> e \<noteq> pid"
  shows "clear_of (owned_path bmc pid) (path_join d e)"
  unfolding clear_of_def
proof (intro allI impI notI)
  fix q
  assume "owned_path bmc pid q" "below (path_join d e) q"
  then obtain d' t' t where q: "q = d' @ CHR ''/'' # t'" "takeWhile (\<lambda>c. c \<noteq> CHR ''/'') t' = pid"
      "d' \<in> set vms_dirs \<or> (bmc \<and> d' = BMC_DIR)" "q = d @ CHR ''/'' # t" "takeWhile (\<lambda>c. c \<noteq> CHR ''/'') t = e"
    using owned_component [of bmc pid q] below_component [of d e q] assms(2,3) by blast
  have "d = d' \<Longrightarrow> e = pid" using q by simp
  then have ne: "d \<noteq> d'" using q(3) assms(4,5) by auto
  have "d' \<in> set (BMC_DIR # vms_dirs)" using q(3) by auto
  then have "d @ CHR ''/'' # t \<noteq> d' @ CHR ''/'' # t'"
    using scanned_apart assms(1) ne by (blast dest: apart_paths)
  then show False using q(1,4) by simp
qed

lemma other_clear: "clear_of (owned_path bmc pid) (''/opt/troshka/'' @ s)" "clear_of (owned_path bmc pid) (''/var/log/'' @ s)"
    "clear_of (owned_path bmc pid) (''/var/lib/troshka/dnsmasq-'' @ s)"
proof -
  show "clear_of (owned_path bmc pid) (''/opt/troshka/'' @ s)" "clear_of (owned_path bmc pid) (''/var/log/'' @ s)"
    unfolding clear_of_def by (auto simp: below_def starts_with_iff dest!: owned_start)
  show "clear_of (owned_path bmc pid) (''/var/lib/troshka/dnsmasq-'' @ s)"
    unfolding clear_of_def
    by (auto simp: owned_path_def vm_path_def bmc_path_def below_def vms_dirs_def dir_defs starts_with_iff)
qed

lemma py_split_append: "py_split c (a @ c # b) = py_split c a @ py_split c b"
proof (induction a)
  case Nil
  then show ?case by simp
next
  case (Cons x a)
  have "py_split c a \<noteq> []" by (cases a) (auto split: list.splits)
  with Cons show ?case by (auto split: list.splits)
qed

lemma normpath_entry:
  assumes "d \<in> set scanned_dirs" "entry_name e"
  shows "normpath (path_join d e) = path_join d e" "normpath (path_join d e @ ''/'') = path_join d e"
proof -
  have e: "py_split (CHR ''/'') (d @ CHR ''/'' # e) = py_split (CHR ''/'') d @ [e]"
      "py_split (CHR ''/'') (d @ CHR ''/'' # e @ ''/'') = py_split (CHR ''/'') d @ [e, []]"
    using assms(2) by (simp_all add: py_split_append py_split_no_sep entry_name_def)
  have s: "norm_step a acc e = acc @ [e]" "norm_step a acc [] = acc" for a acc
    using assms(2) by (simp_all add: norm_step_def entry_name_def)
  define cs where "cs = foldl (norm_step True) [] (py_split (CHR ''/'') d)"
  have all: "\<forall>d\<in>set scanned_dirs. starts_with d ''/'' \<and> \<not> starts_with d ''//'' \<and> d \<noteq> ''/'' \<and>
      foldl (norm_step True) [] (py_split (CHR ''/'') d) \<noteq> [] \<and> 
      CHR ''/'' # join_slash (foldl (norm_step True) [] (py_split (CHR ''/'') d)) = d"
    by code_simp
  have j: "xs \<noteq> [] \<Longrightarrow> join_slash (xs @ [e]) = join_slash xs @ CHR ''/'' # e" for xs
    by (induction xs rule: join_slash.induct) simp_all
  have cs: "starts_with d ''/''" "\<not> starts_with d ''//''" "d \<noteq> ''/''" "cs \<noteq> []" "CHR ''/'' # join_slash cs = d"
    using all assms(1) unfolding cs_def by blast+
  then have "CHR ''/'' # join_slash (cs @ [e]) = d @ CHR ''/'' # e" using j by auto
  note cs = cs(1-3) cs_def [symmetric] this
  obtain x ys where "d = CHR ''/'' # x # ys" "x \<noteq> CHR ''/''" using cs(1-3) by (cases d; cases "tl d") auto
  then have l: "starts_with (d @ z) ''/''" "\<not> starts_with (d @ z) ''//''" for z by simp_all
  show "normpath (path_join d e) = path_join d e" "normpath (path_join d e @ ''/'') = path_join d e"
    using cs l [of "CHR ''/'' # e"] l [of "CHR ''/'' # e @ ''/''"] by (simp_all add: normpath_def path_join_def Let_def e s)
qed

lemma validated_entry:
  assumes "plain_layout env" "d \<in> set scanned_dirs" "entry_name e" "clear_of P (path_join d e)"
  shows "validated_clear env P (path_join d e)" "validated_clear env P (path_join d e @ ''/'')"
  using assms by (simp_all add: validated_clear_def normpath_entry plain_layout_def)

section \<open>A cleaning spares what its lists do not name\<close>

definition harmless :: "agent_env \<Rightarrow> bool \<Rightarrow> string \<Rightarrow> agent_host \<Rightarrow> gc_clean_params \<Rightarrow> bool" where
  "harmless env bmc pid h0 ps \<longleftrightarrow>
     (\<forall>d\<in>set (gp_domains ps). \<not> starts_with d (netns_of pid)) \<and>
     (\<forall>n\<in>set (gp_pools ps). \<forall>q\<in>set (ah_pools h0). pool_name q = n \<longrightarrow> \<not> project_pool pid q) \<and>
     (\<forall>p\<in>set (gp_dirs ps @ gp_cache_items ps). validated_clear env (owned_path bmc pid) p) \<and>
     (\<forall>c\<in>set (gp_containers ps). foreign_container pid h0 c) \<and>
     netns_of pid \<notin> set (gp_namespaces ps) \<and>
     (\<forall>x\<in>set (gp_bmc ps). clear_of (owned_path bmc pid) (path_join BMC_DIR x)) \<and>
     gp_stale_temps ps = [] \<and>
     (\<forall>p\<in>set (gp_stale_isos ps). clear_of (owned_path bmc pid) (ae_realpath env p))"

lemma clean_metadata_sparing:
  assumes "sparing bmc pid h0 h"
  shows "sparing bmc pid h0 (snd (clean_metadata env x h))"
  unfolding clean_metadata_def Let_def
proof (rule clean_each_invariant)
  let ?script = "''metadata-'' @ take 8 x @ ''.py''"
  have o: "clear_of (owned_path bmc pid) (''/opt/troshka/'' @ ?script)"
      "clear_of (owned_path bmc pid) (''/var/log/'' @ ''troshka-metadata-'' @ take 8 x @ ''.log'')"
    by (rule other_clear)+
  show "sparing bmc pid h0 (snd (clean_metadata_path env p h'))"
    if "p \<in> set [''/opt/troshka/'' @ ?script, ''/var/log/troshka-metadata-'' @ take 8 x @ ''.log'']" "sparing bmc pid h0 h'" for p h'
    using that o by (intro clean_metadata_path_sparing) auto
  show "sparing bmc pid h0 (if cmd_ok env [''pkill'', ''-9'', ''-f'', ?script]
      then h\<lparr>ah_processes := filter (\<lambda>p. \<not> contains_text ?script (pr_command p)) (ah_processes h)\<rparr> else h)"
    using assms by (simp add: sparing_def spared_def keeps_defs keeps_files_def)
qed

definition preserves :: "(agent_host \<Rightarrow> bool) \<Rightarrow> 'a action \<Rightarrow> bool" where
  "preserves I m = (\<forall>h. I h \<longrightarrow> I (snd (m h)))"

lemma preserves_give: "preserves I (give x)"
  by (simp add: preserves_def)

lemma preserves_and_then: "preserves I m \<Longrightarrow> (\<And>x. preserves I (f x)) \<Longrightarrow> preserves I (and_then m f)"
  unfolding preserves_def by (intro allI impI, rule and_then_invariant) simp_all

lemma and_then_preserves: "I (snd (m h)) \<Longrightarrow> (\<And>x. preserves I (f x)) \<Longrightarrow> I (snd (and_then m f h))"
  unfolding preserves_def by (rule and_then_invariant) simp_all

lemma preserves_clean_each: "(\<And>x h. x \<in> set xs \<Longrightarrow> I h \<Longrightarrow> I (snd (f x h))) \<Longrightarrow> preserves I (clean_each f xs)"
  unfolding preserves_def by (intro allI impI, rule clean_each_invariant)

lemma handle_gc_clean_sparing:
  assumes ps: "harmless env bmc pid h0 ps" and h: "sparing bmc pid h0 h"
  shows "sparing bmc pid h0 (snd (handle_gc_clean env ps h))"
proof -
  let ?I = "sparing bmc pid h0"
  note H = ps [unfolded harmless_def]
  have "preserves ?I (clean_orphan_domains env (gp_domains ps))"
    unfolding clean_orphan_domains_def
    by (rule preserves_clean_each) (use H in \<open>simp_all add: clean_domain_sparing\<close>)
  moreover have "preserves ?I (clean_orphan_pools env (gp_pools ps))"
    unfolding clean_orphan_pools_def
    by (rule preserves_clean_each) (use H in \<open>simp_all add: clean_pool_sparing\<close>)
  moreover have "preserves ?I (clean_orphan_dirs env (gp_dirs ps))"
    unfolding clean_orphan_dirs_def
    by (rule preserves_clean_each) (use H in \<open>simp_all add: clean_dir_sparing\<close>)
  moreover have "preserves ?I (clean_orphan_containers env (gp_containers ps))"
    unfolding preserves_def clean_orphan_containers_def using H by (simp add: clean_containers_sparing)
  moreover have "preserves ?I (clean_orphan_bridges env (gp_bridges ps))"
    unfolding clean_orphan_bridges_def
    by (rule preserves_clean_each) (simp_all add: clean_bridge_sparing)
  moreover have "preserves ?I (clean_orphan_namespaces env (gp_namespaces ps))"
    unfolding clean_orphan_namespaces_def
    by (rule preserves_clean_each) (use H in \<open>auto intro!: clean_namespace_sparing\<close>)
  moreover have "preserves ?I (clean_cache_items env (gp_cache_items ps))"
    unfolding clean_cache_items_def
    by (rule preserves_clean_each) (use H in \<open>simp_all add: clean_cache_item_sparing\<close>)
  moreover have "preserves ?I (clean_orphan_bmc env (gp_bmc ps))"
    unfolding clean_orphan_bmc_def
    by (rule preserves_clean_each) (use H in \<open>simp_all add: clean_bmc_sparing\<close>)
  moreover have "preserves ?I (clean_orphan_metadata env (gp_metadata ps))"
    unfolding clean_orphan_metadata_def
    by (rule preserves_clean_each) (simp_all add: clean_metadata_sparing)
  moreover have "preserves ?I (clean_stale_temps env (gp_stale_temps ps))"
    using H by (simp add: clean_stale_temps_def preserves_give)
  moreover have "preserves ?I (clean_stale_agent_isos env (gp_stale_isos ps))"
    unfolding clean_stale_agent_isos_def
    by (rule preserves_clean_each) (use H in \<open>simp_all add: clean_agent_iso_sparing\<close>)
  moreover have "preserves ?I (clean_dangling_images env (gp_prune_images ps))"
    by (simp add: preserves_def clean_images_sparing)
  ultimately have "preserves ?I (handle_gc_clean env ps)"
    unfolding handle_gc_clean_def by (intro preserves_and_then preserves_give)
  then show ?thesis using h by (simp add: preserves_def)
qed

section \<open>What a discovery can name\<close>

lemma dir_entries_name: "e \<in> set (dir_entries h d) \<Longrightarrow> entry_name e"
  by (simp add: dir_entries_def)

lemma entry_name_no_slash: "entry_name e \<Longrightarrow> CHR ''/'' \<notin> set e"
  by (simp add: entry_name_def)

lemma vms_scanned: "d \<in> set vms_dirs \<Longrightarrow> d \<in> set scanned_dirs"
  by (simp add: scanned_dirs_def)

lemma discover_dirs_clear:
  assumes "path \<in> set (discover_orphan_dirs env h known)" "pid \<in> set known" "CHR ''/'' \<notin> set pid" "plain_layout env"
  shows "validated_clear env (owned_path bmc pid) path"
proof -
  obtain d e where d: "d \<in> set vms_dirs" "e \<in> set (dir_entries h d)" "e \<notin> set known" "path = path_join d e @ ''/''"
    using assms(1) by (auto simp: discover_orphan_dirs_def)
  have "d \<noteq> BMC_DIR" using d(1) by (auto simp: vms_dirs_def dir_defs)
  then have "clear_of (owned_path bmc pid) (path_join d e)"
    using assms(2,3) d by (intro scanned_clear) (auto simp: vms_scanned dest: dir_entries_name entry_name_no_slash)
  then show ?thesis
    using validated_entry [OF assms(4) vms_scanned [OF d(1)] dir_entries_name [OF d(2)]] d(4) by simp
qed

lemma scanned_others:
  "\<forall>d\<in>set (map fst (cache_dirs env)). d \<noteq> BMC_DIR \<and> d \<notin> set vms_dirs \<and> d \<in> set scanned_dirs" if "ae_local_mount env = LOCAL_DIR"
  using that by (simp add: cache_dirs_def scanned_dirs_def vms_dirs_def dir_defs)

lemma discover_cache_clear:
  assumes "c \<in> set (discover_cache_items env h)" "CHR ''/'' \<notin> set pid" "plain_layout env"
  shows "validated_clear env (owned_path bmc pid) (ci_path c)"
proof -
  obtain d t e where d: "(d, t) \<in> set (cache_dirs env)" "e \<in> set (dir_entries h d)" "c \<in> set (cache_items_of env h (path_join d e) t)"
    using assms(1) by (auto simp: discover_cache_items_def)
  have "d \<in> set (map fst (cache_dirs env))" using d(1) by force
  then have s: "d \<noteq> BMC_DIR" "d \<notin> set vms_dirs" "d \<in> set scanned_dirs"
    using scanned_others assms(3) unfolding plain_layout_def by blast+
  have "clear_of (owned_path bmc pid) (path_join d e)"
    using s assms(2) d(2) by (intro scanned_clear) (auto dest: dir_entries_name entry_name_no_slash)
  moreover have "ci_path c = path_join d e" using d(3) by (auto simp: cache_items_of_def split: option.splits)
  ultimately show ?thesis using validated_entry [OF assms(3) s(3) dir_entries_name [OF d(2)]] by simp
qed

lemma discover_temps_clear:
  assumes "p \<in> set (discover_stale_temps env h)" "CHR ''/'' \<notin> set pid" "plain_layout env"
  shows "validated_clear env (owned_path bmc pid) p"
proof -
  let ?d = "path_join LOCAL_DIR ''tmp''"
  obtain e where e: "e \<in> set (dir_entries h ?d)" "p = ae_realpath env (path_join ?d e)"
    using assms(1,3) by (auto simp: discover_stale_temps_def plain_layout_def Let_def split: if_splits)
  have s: "?d \<in> set scanned_dirs" "?d \<noteq> BMC_DIR" "?d \<notin> set vms_dirs"
    by (simp_all add: scanned_dirs_def vms_dirs_def dir_defs)
  have n: "entry_name e" using e(1) by (rule dir_entries_name)
  have p: "p = path_join ?d e" using e(2) assms(3) s(1) n unfolding plain_layout_def by blast
  have "clear_of (owned_path bmc pid) (path_join ?d e)"
    using s assms(2) n by (intro scanned_clear) (auto dest: entry_name_no_slash)
  then show ?thesis unfolding p by (rule validated_entry(1) [OF assms(3) s(1) n])
qed

lemma discover_isos_clear:
  assumes "p \<in> set (discover_stale_agent_isos env h)" "CHR ''/'' \<notin> set pid" "plain_layout env"
  shows "clear_of (owned_path bmc pid) (ae_realpath env p)"
proof -
  obtain e where e: "e \<in> set (dir_entries h AGENT_ISO_SCAN_ROOT)" "p = path_join AGENT_ISO_SCAN_ROOT e"
    using assms(1) by (auto simp: discover_stale_agent_isos_def split: if_splits)
  have s: "AGENT_ISO_SCAN_ROOT \<in> set scanned_dirs" "AGENT_ISO_SCAN_ROOT \<noteq> BMC_DIR" "AGENT_ISO_SCAN_ROOT \<notin> set vms_dirs"
    by (simp_all add: scanned_dirs_def vms_dirs_def dir_defs)
  have n: "entry_name e" using e(1) by (rule dir_entries_name)
  have "ae_realpath env p = path_join AGENT_ISO_SCAN_ROOT e"
    using e(2) assms(3) s(1) n unfolding plain_layout_def by blast
  then show ?thesis using s assms(2) n by (auto intro!: scanned_clear dest: entry_name_no_slash)
qed

lemma discover_bmc_clear:
  assumes "discover_orphan_bmc env h known = Some xs" "x \<in> set xs" "CHR ''/'' \<notin> set pid" "bmc \<Longrightarrow> pid \<in> set known"
  shows "clear_of (owned_path bmc pid) (path_join BMC_DIR x)"
proof -
  have x: "x \<in> set (dir_entries h BMC_DIR)" "x \<notin> set known"
    using assms(1,2) by (auto simp: discover_orphan_bmc_def split: if_splits)
  have s: "BMC_DIR \<in> set scanned_dirs" "BMC_DIR \<notin> set vms_dirs"
    by (simp_all add: scanned_dirs_def vms_dirs_def dir_defs)
  show ?thesis
    using s x assms(3,4) by (intro scanned_clear) (auto dest: dir_entries_name entry_name_no_slash)
qed

text \<open>A pod holds the containers of one project.\<close>

definition pods_unmixed :: "agent_host \<Rightarrow> bool" where
  "pods_unmixed h = (\<forall>c\<in>set (ah_containers h). \<forall>d\<in>set (ah_containers h). ctr_pod c \<noteq> [] \<and> ctr_pod c = ctr_pod d \<and>
     starts_with (ctr_name c) ''troshka-'' \<and> starts_with (ctr_name d) ''troshka-'' \<longrightarrow>
     ctr_project (ctr_name c) = ctr_project (ctr_name d))"

lemma discover_containers_foreign:
  assumes "ctr \<in> set (discover_orphan_containers env h known)" "pid \<in> set known" "pods_unmixed h"
  shows "foreign_container pid h ctr"
proof -
  have ctr: "starts_with ctr ''troshka-''" "\<not> list_ex (\<lambda>pid. starts_with pid (ctr_project ctr)) known"
    using assms(1) unfolding discover_orphan_containers_def by (simp_all split: if_splits)
  then have ne: "ctr_project ctr \<noteq> take 8 pid"
    using assms(2) starts_with_take [of pid 8] by (auto simp: list_ex_iff)
  show ?thesis unfolding foreign_container_def
  proof (intro ballI impI conjI)
    fix c assume c: "c \<in> set (ah_containers h)" "ctr_name c = ctr"
    then show "\<not> project_container pid c" using ne by (simp add: project_container_def)
    fix d assume "ctr_pod c \<noteq> []" "d \<in> set (ah_containers h)" "ctr_pod d = ctr_pod c"
    then show "\<not> project_container pid d"
      using assms(3) c ctr(1) ne unfolding pods_unmixed_def project_container_def by metis
  qed
qed

lemma discover_pools_foreign:
  assumes "n \<in> set (discover_orphan_pools env h known)" "pid \<in> set known" "distinct (map pool_name (ah_pools h))"
    and "q \<in> set (ah_pools h)" "pool_name q = n"
  shows "\<not> project_pool pid q"
proof -
  let ?proj = "project_from_vms_target (pool_target_path env h n)"
  have n: "?proj \<noteq> []" "?proj \<notin> set known"
    using assms(1) unfolding discover_orphan_pools_def by (simp_all add: Let_def)
  obtain q' where q': "find (\<lambda>q. pool_name q = n) (ah_pools h) = Some q'"
    using assms(4,5) by (cases "find (\<lambda>q. pool_name q = n) (ah_pools h)") (auto simp: find_None_iff)
  have "q' = q"
  proof (rule inj_onD)
    show "inj_on pool_name (set (ah_pools h))" using assms(3) by (simp add: distinct_map)
    show "pool_name q' = pool_name q" "q' \<in> set (ah_pools h)" using find_SomeD [OF q'] assms(5) by simp_all
  qed (rule assms(4))
  moreover have "pool_target_path env h n = [] \<or> pool_target_path env h n = py_strip (pool_path q')"
    using q' by (simp add: pool_target_path_def)
  moreover have "project_from_vms_target [] = []" by (simp add: project_from_vms_target_def VMS_POOL_PREFIXES_def dir_defs)
  ultimately have "?proj = project_from_vms_target (py_strip (pool_path q))" using n(1) by metis
  then show ?thesis using n(2) assms(2) by (auto simp: project_pool_def)
qed

section \<open>A collection spares what a known project owns\<close>

lemma leases_sparing: "sparing bmc pid h (discover_orphan_leases env known h)"
proof -
  have step: "sparing bmc pid h (snd (os_remove env (path_join TROSHKA_DIR e) h'))"
    if "starts_with e ''dnsmasq-''" "sparing bmc pid h h'" for e h'
  proof -
    obtain t where "e = ''dnsmasq-'' @ t" using \<open>starts_with e ''dnsmasq-''\<close> unfolding starts_with_iff by blast
    then have "path_join TROSHKA_DIR e = ''/var/lib/troshka/dnsmasq-'' @ t" by (simp add: dir_defs)
    then show ?thesis using os_remove_sparing [OF other_clear(3) that(2)] by (simp only:)
  qed
  have "sparing bmc pid h (foldl (\<lambda>h e. if lease_prefix e \<notin> set (map (take 8) known)
      then snd (os_remove env (path_join TROSHKA_DIR e) h) else h) h' es)"
    if "\<forall>e\<in>set es. starts_with e ''dnsmasq-''" "sparing bmc pid h h'" for es h'
    using that by (induction es arbitrary: h') (simp_all add: step del: starts_with_Cons)
  then show ?thesis unfolding discover_orphan_leases_def
    by (simp add: glob_names_def sparing_refl del: starts_with_Cons)
qed

lemma discovered_harmless:
  assumes d: "handle_gc_discover (ge_agent env) known domains known_bmc h = (Some orphans, h')"
    and pid: "pid \<in> set known" "netns_of pid \<in> set domains" "bmc \<Longrightarrow> pid \<in> set known_bmc" "CHR ''/'' \<notin> set pid"
    and h: "plain_layout (ge_agent env)" "distinct (map pool_name (ah_pools h))" "pods_unmixed h"
    and s: "\<forall>xs. set (ge_set_list env xs) = set xs"
  shows "harmless (ge_agent env) bmc pid h (clean_params env gd orphans)"
proof -
  let ?e = "ge_agent env"
  obtain b where o: "discover_orphan_bmc ?e (discover_orphan_leases ?e known h) known_bmc = Some b"
    "go_bmc orphans = b" "go_dirs orphans = discover_orphan_dirs ?e h known"
    "go_domains orphans = discover_orphan_domains ?e h domains" "go_pools orphans = discover_orphan_pools ?e h known"
    "go_containers orphans = discover_orphan_containers ?e h known"
    "go_namespaces orphans = discover_orphan_namespaces ?e h known" "go_cache_items orphans = discover_cache_items ?e h"
    "go_stale_temps orphans = discover_stale_temps ?e (discover_orphan_leases ?e known h)"
    "go_stale_isos orphans = discover_stale_agent_isos ?e (discover_orphan_leases ?e known h)"
    using d by (auto simp: handle_gc_discover_def Let_def)
  have "\<forall>x\<in>set (go_domains orphans). \<not> starts_with x (netns_of pid)"
    using pid(2) unfolding o(4) discover_orphan_domains_def by (auto simp: list_ex_iff)
  moreover have "netns_of pid \<notin> set (go_namespaces orphans)"
    using pid(1) unfolding o(7) discover_orphan_namespaces_def by auto
  moreover have "\<forall>p\<in>set (find_orphaned_cache gd (go_cache_items orphans) @ go_stale_temps orphans).
      validated_clear ?e (owned_path bmc pid) p"
    unfolding find_orphaned_cache_def o(8,9)
    using discover_cache_clear [OF _ pid(4) h(1)] discover_temps_clear [OF _ pid(4) h(1)] by auto
  moreover have "\<forall>p\<in>set (go_dirs orphans). validated_clear ?e (owned_path bmc pid) p"
    unfolding o(3) using discover_dirs_clear [OF _ pid(1,4) h(1)] by blast
  moreover have "\<forall>n\<in>set (go_pools orphans). \<forall>q\<in>set (ah_pools h). pool_name q = n \<longrightarrow> \<not> project_pool pid q"
    unfolding o(5) using discover_pools_foreign [OF _ pid(1) h(2)] by blast
  moreover have "\<forall>c\<in>set (go_containers orphans). foreign_container pid h c"
    unfolding o(6) using discover_containers_foreign [OF _ pid(1) h(3)] by blast
  moreover have "\<forall>x\<in>set (go_bmc orphans). clear_of (owned_path bmc pid) (path_join BMC_DIR x)"
    unfolding o(2) using discover_bmc_clear [OF o(1) _ pid(4)] pid(3) by blast
  moreover have "\<forall>p\<in>set (go_stale_isos orphans). clear_of (owned_path bmc pid) (ae_realpath ?e p)"
    unfolding o(10) using discover_isos_clear [OF _ pid(4) h(1)] by blast
  ultimately show ?thesis unfolding harmless_def clean_params_def using s by auto
qed

definition has_bmc_network :: "project \<Rightarrow> bool" where
  "has_bmc_network p = (do { ns \<leftarrow> topo_nodes (gc_topology p); oany is_bmc_network ns } = Some True)"

lemma collected_bmc:
  assumes "collect_bmc_project_ids db hids = Some ids" "p \<in> set (d_projects db)" "on_hosts hids p" "has_bmc_network p"
  shows "p_id p \<in> set ids"
  using assms unfolding collect_bmc_project_ids_def has_bmc_network_def
  by (auto simp: bind_eq_Some_conv ofilter_Some)

lemma run_job_snd: "snd (run_job env path m h) = h \<or> snd (run_job env path m h) = snd (m h)"
  by (simp add: run_job_def split_beta)

lemma clean_orphans_snd:
  "snd (clean_orphans env gd h orphans ah) = ah \<or>
   snd (clean_orphans env gd h orphans ah) = snd (handle_gc_clean (ge_agent env) (clean_params env gd orphans) ah)"
  using run_job_snd [of env "''/gc/clean''" "handle_gc_clean (ge_agent env) (clean_params env gd orphans)" ah]
  by (auto simp: clean_orphans_def Let_def split: prod.splits option.splits)

lemma reconcile_clean_snd:
  "snd (reconcile_clean_orphans env gd h orphans dry_run report ah) = ah \<or>
   snd (reconcile_clean_orphans env gd h orphans dry_run report ah) = snd (clean_orphans env gd h orphans ah)"
  by (auto simp: reconcile_clean_orphans_def Let_def and_then_def split: prod.splits option.splits)

lemma discover_orphans_cases:
  assumes "discover_orphans env db h ah = (r, ah1)"
  obtains "ah1 = ah" "\<forall>x. r \<noteq> Some (Orphans x)"
  | bmc where "collect_bmc_project_ids db (get_pool_host_ids db h) = Some bmc"
      "ah1 = snd (handle_gc_discover (ge_agent env) (map p_id (known_projects db (get_pool_host_ids db h)))
         (map (\<lambda>p. ''troshka-'' @ take 8 (p_id p)) (known_projects db (get_pool_host_ids db h))) bmc ah)"
      "\<And>x. r = Some (Orphans x) \<Longrightarrow>
         fst (handle_gc_discover (ge_agent env) (map p_id (known_projects db (get_pool_host_ids db h)))
         (map (\<lambda>p. ''troshka-'' @ take 8 (p_id p)) (known_projects db (get_pool_host_ids db h))) bmc ah) = Some x"
  using assms unfolding discover_orphans_def collect_known_projects_and_domains_def run_job_def Let_def
  by (force split: if_splits option.splits prod.splits)

lemma pool_host_ids_stored:
  assumes "distinct (map h_id (d_hosts db))" "h \<in> set (d_hosts db)" "h_id h' = h_id h"
    "h_storage_pool_id h' = h_storage_pool_id h"
  shows "get_pool_host_ids (store_host h' db) h' = get_pool_host_ids db h"
proof -
  have "map h_id (filter (\<lambda>x. h_storage_pool_id x = q) (map (\<lambda>x. if h_id x = h_id h' then h' else x) hs)) =
      map h_id (filter (\<lambda>x. h_storage_pool_id x = q) hs)" if "set hs \<subseteq> set (d_hosts db)" for q hs
    using that
  proof (induction hs)
    case Nil
    then show ?case by simp
  next
    case (Cons x hs)
    have "h_id x = h_id h \<Longrightarrow> x = h"
      using Cons.prems assms(1,2) by (auto simp: distinct_map dest: inj_onD)
    then show ?case using Cons assms(3,4) by auto
  qed
  then show ?thesis using assms(3,4) by (simp add: get_pool_host_ids_def store_host_def)
qed

lemma reconcile_host_cases:
  assumes "reconcile_host_orphans env gd host_id dry_run ah = (r, gd', ah')" "host_by_id (gd_db gd) host_id = Some h"
  obtains "ah' = ah"
  | h1 d ah1 where "gc_sync_host_capacity (gd_db gd) h = Some h1" "discover_orphans env (store_host h1 (gd_db gd)) h1 ah = (d, ah1)"
      "ah' = ah1"
  | h1 x ah1 gd1 report where "gc_sync_host_capacity (gd_db gd) h = Some h1"
      "discover_orphans env (store_host h1 (gd_db gd)) h1 ah = (Some (Orphans x), ah1)"
      "ah' = snd (reconcile_clean_orphans env gd1 h1 x dry_run report ah1)"
  using assms unfolding reconcile_host_orphans_def Let_def
  by (auto split: if_splits option.splits prod.splits gc_discovery.splits) (metis snd_conv)+

lemma gc_sync_frame:
  assumes "gc_sync_host_capacity db h = Some h'"
  shows "h_id h' = h_id h" "h_storage_pool_id h' = h_storage_pool_id h"
  using assms unfolding gc_sync_host_capacity_def by (auto simp: bind_eq_Some_conv)

text \<open>A discovery, and the cleaning of what it found.\<close>

lemma discovery_sparing:
  assumes d: "discover_orphans env db h ah = (r, ah1)"
    and p: "p \<in> set (known_projects db (get_pool_host_ids db h))" "CHR ''/'' \<notin> set (p_id p)"
    and w: "plain_layout (ge_agent env)" "distinct (map pool_name (ah_pools ah))" "pods_unmixed ah"
    and s: "\<forall>xs. set (ge_set_list env xs) = set xs"
  shows "sparing (has_bmc_network p) (p_id p) ah ah1"
    "r = Some (Orphans x) \<Longrightarrow> harmless (ge_agent env) (has_bmc_network p) (p_id p) ah (clean_params env gd x)"
proof -
  let ?known = "map p_id (known_projects db (get_pool_host_ids db h))"
  let ?domains = "map (\<lambda>p. ''troshka-'' @ take 8 (p_id p)) (known_projects db (get_pool_host_ids db h))"
  have kd: "p_id p \<in> set ?known" "netns_of (p_id p) \<in> set ?domains"
    using p(1) unfolding netns_of_def by auto
  from d have "sparing (has_bmc_network p) (p_id p) ah ah1 \<and>
    (r = Some (Orphans x) \<longrightarrow> harmless (ge_agent env) (has_bmc_network p) (p_id p) ah (clean_params env gd x))"
  proof (cases rule: discover_orphans_cases)
    case 1
    then show ?thesis by (simp add: sparing_refl)
  next
    case (2 bmc)
    obtain o' h' where g: "handle_gc_discover (ge_agent env) ?known ?domains bmc ah = (o', h')"
      by (cases "handle_gc_discover (ge_agent env) ?known ?domains bmc ah")
    have "h' = discover_orphan_leases (ge_agent env) ?known ah"
      using g by (simp add: handle_gc_discover_def Let_def)
    then have sp: "sparing (has_bmc_network p) (p_id p) ah ah1"
      using 2(2) g leases_sparing by (simp only: snd_conv)
    have b: "has_bmc_network p \<Longrightarrow> p_id p \<in> set bmc"
      using collected_bmc [OF 2(1)] p(1) by (simp add: known_projects_def)
    have "harmless (ge_agent env) (has_bmc_network p) (p_id p) ah (clean_params env gd x)" if "r = Some (Orphans x)"
    proof (rule discovered_harmless [OF _ kd b p(2) w s])
      show "handle_gc_discover (ge_agent env) ?known ?domains bmc ah = (Some x, h')"
        using 2(3) [OF that] g by (simp only: fst_conv)
    qed
    with sp show ?thesis by blast
  qed
  then show "sparing (has_bmc_network p) (p_id p) ah ah1"
    "r = Some (Orphans x) \<Longrightarrow> harmless (ge_agent env) (has_bmc_network p) (p_id p) ah (clean_params env gd x)"
    by blast+
qed

section \<open>Sample\<close>

text \<open>Two projects of one host: one is active, the other was left by a failed start.\<close>

definition gc_lab_project :: "string \<Rightarrow> string \<Rightarrow> project" where
  "gc_lab_project i st = \<lparr>p_id = i, p_name = ''lab'', p_owner_id = ''u'', p_provider_id = None, p_host_id = Some ''h1'',
     p_mesh_network_host_id = None, p_host_assignments = None, p_state = st, p_auto_stop_started_at = None,
     p_auto_stop_expires_at = None, p_auto_stop_warned = False, p_auto_delete_warned = False, p_auto_stopped = False,
     p_lifetime_expires_at = None, p_topology = JNull, p_vni_map = JNull, p_deploy_error = None, p_deploy_started_at = None,
     p_updated_at = 0,
     p_deployed_topology = JObj [(''nodes'', JList [JObj [(''type'', JStr ''networkNode''),
       (''data'', JObj [(''networkType'', JStr ''bmc'')])]])],
     p_dns_provider_id = None, p_domain = None\<rparr>"

definition gc_lab_db :: gc_db where
  "gc_lab_db = \<lparr>gd_db = empty_db\<lparr>d_hosts := [sample_host ''h1''],
     d_projects := [gc_lab_project ''aaaaaaaa-1'' ''active'', gc_lab_project ''bbbbbbbb-1'' ''error'']\<rparr>,
     gd_pattern_ids = [], gd_item_ids = []\<rparr>"

definition gc_lab_agent :: agent_env where
  "gc_lab_agent = \<lparr>ae_storage_mode = ''local'', ae_shared_mount = SHARED_DIR, ae_local_mount = LOCAL_DIR,
     ae_realpath = id, ae_now = 0, ae_run = (\<lambda>_. Exit_0), ae_lists = (\<lambda>_. True), ae_deletes = (\<lambda>_. True),
     ae_rmtree_left = (\<lambda>_. None), ae_tmpdirs = []\<rparr>"

definition gc_lab_env :: gc_env where
  "gc_lab_env = \<lparr>ge_agent = gc_lab_agent, ge_starts = (\<lambda>_. True), ge_answers = (\<lambda>_. True), ge_set_list = remdups\<rparr>"

definition gc_lab_host :: agent_host where
  "gc_lab_host = \<lparr>ah_fs = map (\<lambda>p. \<lparr>f_path = p, f_dir = True, f_atime = 0, f_mtime = 0\<rparr>)
       [VMS_DIR, VMS_DIR @ ''/aaaaaaaa-1'', VMS_DIR @ ''/bbbbbbbb-1'', BMC_DIR, BMC_DIR @ ''/aaaaaaaa-1''],
     ah_domains = [\<lparr>dom_name = ''troshka-aaaaaaaa-00000001'', dom_running = True, dom_bridges = [''br-7'']\<rparr>,
                   \<lparr>dom_name = ''troshka-bbbbbbbb-00000001'', dom_running = True, dom_bridges = []\<rparr>],
     ah_pools = [\<lparr>pool_name = ''p1'', pool_path = VMS_DIR @ ''/aaaaaaaa-1'', pool_active = True\<rparr>],
     ah_containers = [\<lparr>ctr_name = ''troshka-aaaaaaaa-00000002'', ctr_pod = ''pod1''\<rparr>,
                      \<lparr>ctr_name = ''troshka-bbbbbbbb-00000002'', ctr_pod = ''pod2''\<rparr>],
     ah_bridges = [''br-7''], ah_namespaces = [\<lparr>ns_name = ''troshka-aaaaaaaa'', ns_links = []\<rparr>],
     ah_processes = [], ah_dangling = 0\<rparr>"

definition gc_lab_run :: "gc_report option \<times> gc_db \<times> agent_host" where
  "gc_lab_run = reconcile_host_orphans gc_lab_env gc_lab_db ''h1'' False gc_lab_host"

lemma gc_lab_setting:
  "plain_layout (ge_agent gc_lab_env)" "distinct (map pool_name (ah_pools gc_lab_host))" "pods_unmixed gc_lab_host"
  "\<forall>xs. set (ge_set_list gc_lab_env xs) = set xs" "distinct (map h_id (d_hosts (gd_db gc_lab_db)))"
  "host_by_id (gd_db gc_lab_db) ''h1'' = Some (sample_host ''h1'')"
  "get_pool_host_ids (gd_db gc_lab_db) (sample_host ''h1'') = [''h1'']"
  "gc_lab_project ''aaaaaaaa-1'' ''active'' \<in> set (d_projects (gd_db gc_lab_db))"
  by (simp_all add: plain_layout_def gc_lab_env_def gc_lab_agent_def gc_lab_host_def pods_unmixed_def gc_lab_db_def
      empty_db_def host_by_id_def sample_host_def get_pool_host_ids_def ctr_project_def)

lemma gc_lab_run_parts:
  "reconcile_host_orphans gc_lab_env gc_lab_db ''h1'' False gc_lab_host = (fst gc_lab_run, fst (snd gc_lab_run), snd (snd gc_lab_run))"
  by (simp add: gc_lab_run_def)

text \<open>C8: A collection on a host never takes anything from a project that is active, stopped, deploying
  or being reconfigured on a host of the same storage pool: whatever commands and deletions fail and
  whether or not the backend hears of the result, the files of its VMs, its domains, the libvirt pools
  of its VM directory, its containers and its network namespace stay as they were, and so do the
  files of its virtual BMCs if its canvas has a BMC network. The host has its default layout without
  symbolic links in the directories that are scanned, pools have distinct names and a pod holds the
  containers of one project; host ids are a primary key.\<close>

theorem gc_spares_known_projects:
  assumes "reconcile_host_orphans env gd host_id dry_run ah = (r, gd', ah')"
    and "host_by_id (gd_db gd) host_id = Some h" "distinct (map h_id (d_hosts (gd_db gd)))"
    and "p \<in> set (d_projects (gd_db gd))" "on_hosts (get_pool_host_ids (gd_db gd) h) p"
    and "p_state p \<in> {''active'', ''stopped'', ''deploying'', ''reconfiguring''}" "CHR ''/'' \<notin> set (p_id p)"
    and "plain_layout (ge_agent env)" "distinct (map pool_name (ah_pools ah))" "pods_unmixed ah"
    and "\<forall>xs. set (ge_set_list env xs) = set xs"
  shows "spared (has_bmc_network p) (p_id p) ah ah'"
proof -
  have k: "p \<in> set (known_projects (store_host h1 (gd_db gd)) (get_pool_host_ids (store_host h1 (gd_db gd)) h1))"
    if "gc_sync_host_capacity (gd_db gd) h = Some h1" for h1
    using assms(4-6) pool_host_ids_stored [OF assms(3) _ gc_sync_frame [OF that]] host_by_idD [OF assms(2)]
    by (auto simp: known_projects_def known_states_def)
  note sp = discovery_sparing [OF _ k assms(7-11)]
  from assms(1,2) have "sparing (has_bmc_network p) (p_id p) ah ah'"
  proof (cases rule: reconcile_host_cases)
    case 1
    then show ?thesis by (simp add: sparing_refl)
  next
    case (2 h1 d ah1)
    then show ?thesis using sp(1) by blast
  next
    case (3 h1 x ah1 gd1 report)
    have "sparing (has_bmc_network p) (p_id p) ah (snd (handle_gc_clean (ge_agent env) (clean_params env gd1 x) ah1))"
      using 3(1,2) by (intro handle_gc_clean_sparing sp(1) sp(2)) simp_all
    moreover have "sparing (has_bmc_network p) (p_id p) ah ah1" using 3(1,2) sp(1) by blast
    ultimately show ?thesis
      using 3(3) reconcile_clean_snd [of env gd1 h1 x dry_run report ah1] clean_orphans_snd [of env gd1 h1 x ah1] by auto
  qed
  then show ?thesis by (simp add: sparing_def)
qed

theorem gc_spares_known_projects_witness:
  "spared True ''aaaaaaaa-1'' gc_lab_host (snd (snd gc_lab_run)) \<and>
   map f_path (ah_fs (snd (snd gc_lab_run))) = [VMS_DIR, VMS_DIR @ ''/aaaaaaaa-1'', BMC_DIR, BMC_DIR @ ''/aaaaaaaa-1'']"
proof
  have b: "has_bmc_network (gc_lab_project ''aaaaaaaa-1'' ''active'')"
    by code_simp
  have i: "p_id (gc_lab_project ''aaaaaaaa-1'' ''active'') = ''aaaaaaaa-1''" by (simp add: gc_lab_project_def)
  have "spared (has_bmc_network (gc_lab_project ''aaaaaaaa-1'' ''active'')) (p_id (gc_lab_project ''aaaaaaaa-1'' ''active''))
      gc_lab_host (snd (snd gc_lab_run))"
    by (rule gc_spares_known_projects [OF gc_lab_run_parts gc_lab_setting(6,5,8) _ _ _ gc_lab_setting(1-4)])
      (simp_all add: gc_lab_setting(7) on_hosts_def gc_lab_project_def)
  then show "spared True ''aaaaaaaa-1'' gc_lab_host (snd (snd gc_lab_run))" unfolding i using b by simp
  show "map f_path (ah_fs (snd (snd gc_lab_run))) = [VMS_DIR, VMS_DIR @ ''/aaaaaaaa-1'', BMC_DIR, BMC_DIR @ ''/aaaaaaaa-1'']"
    by code_simp
qed

section \<open>Which domains remain\<close>

text \<open>The stages after the first leave the domains alone.\<close>

lemma undefine_pool_domains: "ah_domains (snd (undefine_pool env n h)) = ah_domains h"
  unfolding undefine_pool_def
  by (rule and_then_invariant [where I = "\<lambda>h'. ah_domains h' = ah_domains h"])
    (auto simp: pool_destroy_def pool_undefine_def split: cmd_end.splits)

lemma clean_containers_domains: "ah_domains (snd (clean_orphan_containers_from env pods cs h)) = ah_domains h"
proof (induction cs arbitrary: pods h)
  case Nil
  then show ?case by simp
next
  case (Cons c cs)
  have a: "ah_domains (snd (and_then (clean_orphan_containers_from env pods' cs) (\<lambda>n. give (Suc n)) (drop_containers P h))) = ah_domains h"
    for pods' P
    by (rule and_then_invariant [where I = "\<lambda>h'. ah_domains h' = ah_domains h"]) (simp_all add: Cons.IH drop_containers_def)
  show ?case by (cases "container_pod env h c") (simp_all add: Cons.IH a)
qed

lemma clean_step_domains:
  "ah_domains (snd (clean_pool env n h)) = ah_domains h"
  "ah_domains (snd (and_then (clean_bmc_dir env n) (\<lambda>k h. (Some (k::nat), remove_bmc_bridge env n h)) h)) = ah_domains h"
  "ah_domains (snd (clean_metadata env n h)) = ah_domains h"
  "ah_domains (snd (clean_cache_item env n h)) = ah_domains h"
  "ah_domains (snd (clean_agent_iso env n h)) = ah_domains h"
  "ah_domains (snd (clean_stale_temp env n h)) = ah_domains h"
proof -
  let ?I = "\<lambda>h'. ah_domains h' = ah_domains h"
  have "ah_domains (snd (and_then (undefine_pool env n) (\<lambda>ok. give (if ok then 1 else (0::nat))) h)) = ah_domains h"
    by (rule and_then_invariant [where I = ?I]) (simp_all add: undefine_pool_domains)
  then show "ah_domains (snd (clean_pool env n h)) = ah_domains h" by (simp add: clean_pool_def)
  have "ah_domains (snd (and_then (undefine_pool env m) (\<lambda>_ h. (Some (Suc 0), snd (rmtree env d h))) (kill_bmc_processes d h))) = ah_domains h"
    for m d
    by (rule and_then_invariant [where I = ?I]) (simp_all add: undefine_pool_domains rmtree_frame kill_bmc_processes_def Let_def)
  then have "ah_domains (snd (clean_bmc_dir env n h)) = ah_domains h"
    unfolding clean_bmc_dir_def Let_def by (simp del: append.simps)
  then show "ah_domains (snd (and_then (clean_bmc_dir env n) (\<lambda>k h. (Some (k::nat), remove_bmc_bridge env n h)) h)) = ah_domains h"
    by (rule and_then_invariant [where I = ?I]) (simp add: remove_bmc_bridge_frame)
  have "ah_domains (snd (clean_metadata_path env p h')) = ah_domains h'" for p h'
    using os_remove_frame(1) [of env p h'] by (auto simp: clean_metadata_path_def split: prod.splits bool.splits)
  then show "ah_domains (snd (clean_metadata env n h)) = ah_domains h"
    unfolding clean_metadata_def Let_def by (intro clean_each_invariant [where I = ?I]) simp_all
  show "ah_domains (snd (clean_cache_item env n h)) = ah_domains h"
    by (simp add: clean_cache_item_def split_beta gc_frame split: option.splits)
  show "ah_domains (snd (clean_agent_iso env n h)) = ah_domains h" "ah_domains (snd (clean_stale_temp env n h)) = ah_domains h"
    by (simp_all add: clean_agent_iso_def clean_stale_temp_def Let_def split_beta gc_frame)
qed

lemma later_stages_domains:
  "preserves (\<lambda>h. ah_domains h = X) (clean_orphan_pools env ns)"
  "preserves (\<lambda>h. ah_domains h = X) (clean_orphan_dirs env ns)"
  "preserves (\<lambda>h. ah_domains h = X) (clean_orphan_containers env ns)"
  "preserves (\<lambda>h. ah_domains h = X) (clean_orphan_bridges env ns)"
  "preserves (\<lambda>h. ah_domains h = X) (clean_orphan_namespaces env ns)"
  "preserves (\<lambda>h. ah_domains h = X) (clean_cache_items env ns)"
  "preserves (\<lambda>h. ah_domains h = X) (clean_orphan_bmc env ns)"
  "preserves (\<lambda>h. ah_domains h = X) (clean_orphan_metadata env ns)"
  "preserves (\<lambda>h. ah_domains h = X) (clean_stale_temps env ns)"
  "preserves (\<lambda>h. ah_domains h = X) (clean_stale_agent_isos env ns)"
  "preserves (\<lambda>h. ah_domains h = X) (clean_dangling_images env b)"
  unfolding clean_orphan_pools_def clean_orphan_dirs_def clean_orphan_containers_def clean_orphan_bridges_def
    clean_orphan_namespaces_def clean_cache_items_def clean_orphan_bmc_def clean_orphan_metadata_def clean_stale_temps_def
    clean_stale_agent_isos_def
  by ((rule preserves_clean_each, simp add: clean_step_domains clean_dir_frame clean_bridge_def clean_namespace_def)
      | simp add: preserves_def clean_containers_domains clean_dangling_images_def)+

lemma clean_domains_all:
  assumes "\<forall>cmd. ae_run env cmd = Exit_0"
  shows "ah_domains (snd (clean_orphan_domains env ds h)) =
      filter (\<lambda>d. \<not> (dom_name d \<in> set ds \<and> valid_domain_name (dom_name d))) (ah_domains h) \<and>
    fst (clean_orphan_domains env ds h) \<noteq> None"
  unfolding clean_orphan_domains_def
proof (induction ds arbitrary: h)
  case Nil
  then show ?case by (simp add: give_def)
next
  case (Cons d ds)
  have ok: "cmd_ok env cmd" for cmd using assms by (simp add: cmd_ok_def)
  obtain k h' where c: "clean_domain env d h = (Some k, h')"
      "ah_domains h' = filter (\<lambda>x. \<not> (dom_name x = d \<and> valid_domain_name d)) (ah_domains h)"
  proof (cases "valid_domain_name d")
    case True
    have "filter (\<lambda>x. dom_name x \<noteq> d) (map (\<lambda>x. if dom_name x = d then x\<lparr>dom_running := False\<rparr> else x) xs) =
        filter (\<lambda>x. dom_name x \<noteq> d) xs" for xs :: "vm_domain list"
      by (induction xs) auto
    with True show thesis by (intro that [of 1 "drop_domain d (stop_domain d h)"]) (simp_all add: clean_domain_def ok drop_domain_def stop_domain_def Let_def)
  next
    case False
    then show thesis by (intro that) (simp_all add: clean_domain_def)
  qed
  obtain n h'' where r: "clean_each (clean_domain env) ds h' = (Some n, h'')"
    using Cons.IH [of h'] by (cases "clean_each (clean_domain env) ds h'") auto
  have "ah_domains h'' = filter (\<lambda>d. \<not> (dom_name d \<in> set ds \<and> valid_domain_name (dom_name d))) (ah_domains h')"
    using Cons.IH [of h'] r by simp
  moreover have "filter (\<lambda>x. \<not> (dom_name x \<in> set ds \<and> valid_domain_name (dom_name x))) (filter (\<lambda>x. \<not> (dom_name x = d \<and> valid_domain_name d)) xs) =
      filter (\<lambda>x. \<not> (dom_name x \<in> set (d # ds) \<and> valid_domain_name (dom_name x))) xs" for xs :: "vm_domain list"
    by (induction xs) auto
  ultimately show ?case using c r by (simp add: and_then_def give_def)
qed

lemma handle_gc_clean_domains:
  assumes "\<forall>cmd. ae_run env cmd = Exit_0"
  shows "ah_domains (snd (handle_gc_clean env ps h)) =
      filter (\<lambda>d. \<not> (dom_name d \<in> set (gp_domains ps) \<and> valid_domain_name (dom_name d))) (ah_domains h)"
proof -
  let ?X = "filter (\<lambda>d. \<not> (dom_name d \<in> set (gp_domains ps) \<and> valid_domain_name (dom_name d))) (ah_domains h)"
  have d: "ah_domains (snd (clean_orphan_domains env (gp_domains ps) h)) = ?X"
    using clean_domains_all [OF assms, of "gp_domains ps" h] by blast
  show ?thesis unfolding handle_gc_clean_def
    by (rule and_then_preserves [where I = "\<lambda>h. ah_domains h = ?X"], rule d)
      (intro preserves_and_then later_stages_domains preserves_give)
qed

lemma leases_domains: "ah_domains (discover_orphan_leases env known h) = ah_domains h"
proof -
  have "ah_domains (foldl (\<lambda>h e. if Q e then snd (os_remove env (path_join d e) h) else h) h es) = ah_domains h" for Q d es
    by (induction es arbitrary: h) (simp_all add: os_remove_frame)
  then show ?thesis by (simp add: discover_orphan_leases_def)
qed



end
