(* ===== verification/Spec2Isabelle.thy ===== *)
theory Spec2Isabelle
  imports Booking Vxlan_Dhcp Meter_Diff Redis_Laws Ban_Laws Redis_Locks Redis_Semaphore
    Recovery_Laws Tunnel_Session_Laws Tunnel_Laws Auth_Laws Kubeconfig_Laws Managed_Groups_Laws Worker_Scaling
    Topology_Validation_Laws Showroom_Laws Egress_Laws Osd_Laws Diff_Laws Spec_Laws Meter_Converges Group_Metering
    Ws_Laws Gc_Laws
begin

text \<open>
  Troshka runs nested-virtualisation lab environments: a user draws a topology of VMs,
  containers, networks, gateways and disks on a canvas, and the backend places it on a host
  (or on several hosts joined by a VXLAN mesh), allocates network identifiers, transit ports
  and public addresses, and hands each host agent its network configuration. Jobs run in
  workers, coordinate through Redis and are watched by a timer; usage is metered; a tunnel
  service carries cluster API connections. This development models the Python services that
  make those decisions and proves what they guarantee.

  \<^bold>\<open>Parts and theories.\<close>
  \<^item> \<open>Prelude\<close>: Python loops that may raise (the option monad), stable sorting, decimal text,
    dictionaries as association lists, and the locale \<open>invariant_system\<close>.
  \<^item> \<open>Py_Json\<close>: the JSON documents of the canvas and Python's accesses to them.
  \<^item> \<open>Models\<close>: the rows of the tables (\<open>src/src/backend/app/models/\<close>) and the database.
  \<^item> \<open>Pattern_Locations\<close>: \<open>services/pattern_locations.py\<close>; the locale \<open>disk_sourcing\<close> is the
    contract placement uses.
  \<^item> \<open>Vni_Alloc\<close>, \<open>Ipv4\<close>, \<open>Vxlan\<close>, \<open>Vxlan_Dhcp\<close>, \<open>Vxlan_Gateway\<close>: \<open>services/vxlan.py\<close>.
  \<^item> \<open>Eip_Service\<close>: \<open>services/eip_service.py\<close>.
  \<^item> \<open>Capacity\<close> (single host) and \<open>Host_Choice\<close> (its theorems), \<open>Bin_Packing\<close> (several hosts)
    and \<open>Bin_Packing_Laws\<close>, \<open>Mesh_Laws\<close> (its theorems), \<open>Placement\<close> (the entry point
    \<open>place_project\<close>) and \<open>Placement_Laws\<close>, \<open>Booking\<close> (its theorems):
    \<open>services/placement.py\<close>, and the storing of a multi-host placement from
    \<open>api/projects.py\<close>.
  \<^item> \<open>Metering_Math\<close>, \<open>Metering_Laws\<close>, \<open>Meter_Diff\<close>: \<open>services/metering_math.py\<close>.
    \<open>Instance_Rates\<close>: \<open>services/instance_rates.py\<close>. \<open>Metering_Store\<close> (tables, rates and the snapshot of a
    project), \<open>Metering_Service\<close> (meters, spend and budget) and \<open>Metering_Statements\<close> (invoices,
    monthly statements and the polls): \<open>services/metering_service.py\<close> and \<open>models/metering.py\<close>, with the
    undeploy of \<open>api/projects.py\<close>; their theorems are in \<open>Meter_Intervals\<close>, \<open>Meter_Converges\<close>, \<open>Invoice_Laws\<close>,
    \<open>Statement_Laws\<close> and \<open>Month_Lines\<close>. \<open>Group_Metering\<close>: \<open>services/group_metering.py\<close> and
    handlers of \<open>api/metering.py\<close>.
  \<^item> \<open>Redis_Store\<close>: the shared state of \<open>core/redis.py\<close> over an explicit keyspace, and its
    in-memory fallback; \<open>Redis_Laws\<close> interprets the locale \<open>shared_store\<close> on both.
    \<open>Redis_Locks\<close> and \<open>Redis_Semaphore\<close> run the commands of any number of clients in any
    order. \<open>Rate_Window\<close> has the theorem about the sliding window.
  \<^item> \<open>Ws_Pubsub\<close> and \<open>Ws_Laws\<close>: \<open>services/ws_pubsub.py\<close>, the WebSocket subscribers, the bridge between
    processes and the poller of VM states, whose cache the metering reads; the locale
    \<open>subscription_table\<close> is the contract of the subscriber table.
  \<^item> \<open>Rate_Limit\<close> and \<open>Ban_Laws\<close>: \<open>core/rate_limit.py\<close>.
  \<^item> \<open>Job_Queue\<close>: the job queue of \<open>core/redis.py\<close> and its callbacks. \<open>Project_Timer\<close>:
    \<open>services/project_timer.py\<close>, with \<open>Timer_Laws\<close> and \<open>Recovery_Laws\<close>.
  \<^item> \<open>Auth\<close> and \<open>Auth_Laws\<close>: \<open>core/auth.py\<close> with \<open>models/user.py\<close> and \<open>models/api_key.py\<close>.
  \<^item> \<open>Cluster_Access\<close>: access rows and dial targets of \<open>services/ocp/api_tunnel.py\<close>;
    \<open>Kubeconfig\<close> and \<open>Kubeconfig_Laws\<close>: \<open>services/ocp/kubeconfig_merge.py\<close>.
  \<^item> \<open>Tunnel_Registry\<close>: \<open>tunnel/limits.py\<close>. \<open>Tunnel_Session\<close> and \<open>Tunnel_Session_Laws\<close>: the frames of
    \<open>tunnel/framing.py\<close>, and \<open>tunnel/session.py\<close> as steps of the receive loop and the relay tasks. \<open>Tunnel_Service\<close>: \<open>tunnel/auth.py\<close> and \<open>tunnel/ws.py\<close>, which compose
    authentication, rate limits, dial targets and the registry; \<open>Tunnel_Laws\<close> its theorems.
  \<^item> \<open>Managed_Groups\<close> and \<open>Managed_Groups_Laws\<close>: billing scope and the transactions of
    \<open>services/group_access.py\<close>, \<open>api/groups.py\<close> and \<open>api/users.py\<close> on managers and members, as
    interleaved steps; an event stands for a request that passes the checks before its first lock,
    requests refused there (and changes of a group's name) leave these rows as they are.
    \<open>Worker_Scaling\<close>: \<open>services/worker_scaling.py\<close>.
  \<^item> All of \<open>services/deploy_topology.py\<close>: \<open>Topology_Json\<close> (with Python's \<open>==\<close>) holds what
    its parts share; \<open>Topology_Validation\<close> and \<open>Topology_Validation_Laws\<close> the checks of a canvas;
    \<open>Showroom\<close>, with \<open>Showroom_Ports\<close>, \<open>Showroom_Sync\<close> and \<open>Showroom_Laws\<close>, the gateway of a
    showroom; \<open>Topology_Egress\<close> and \<open>Egress_Laws\<close> egress networks and nameservers;
    \<open>Topology_Extract\<close>, \<open>Topology_Disks\<close> and \<open>Disk_Laws\<close> what a deployment reads off the canvas;
    \<open>Topology_Specs\<close> and \<open>Spec_Laws\<close> the custom resources of KubeVirt with
    \<open>services/providers/kubevirt_capabilities.py\<close>; \<open>Topology_Diff\<close> and \<open>Diff_Laws\<close> what changed
    since the deployment; \<open>Address_Assign\<close>, \<open>Address_Laws\<close> and \<open>Osd_Laws\<close> assigned addresses and
    MTUs, with \<open>services/network_mtu.py\<close>.
  \<^item> \<open>Gc_Agent\<close>: the handlers \<open>gc/discover\<close> and \<open>gc/clean\<close> of the host agent (\<open>src/src/troshkad/troshkad.py\<close>)
    over an explicit host; \<open>Gc_Service\<close>: \<open>services/gc_service.py\<close>, which tells the agent what is
    known and has it remove the rest; \<open>Gc_Laws\<close> its theorems.

  \<^bold>\<open>Conventions.\<close> A function that may raise returns an option, or a sum or outcome type when
  the kind of error matters; a dictionary is an association list in insertion order, a set a
  list without repetitions. A table is the list of its rows and a query a filter over it; a
  function that changes rows of the session returns the changed database. Floats are the
  rationals they denote and times are integers (microseconds) or, in Redis, rationals. The
  Redis keyspace and the job store are parts of the state with the documented meaning of their
  commands; other code outside the repository's Python sources (cloud SDKs, the clock, the
  configuration file, hash functions, the iteration order of a set) is a parameter.

  \<^bold>\<open>What is shown.\<close> Capacity: the recount of a host is the sum of what its projects need, the
  search returns the least loaded host that fits, packing is sound (every workload placed once,
  within capacity, anti-affinity respected) and complete when one host suffices, and sequences
  of placements never overbook a host. Networking: VNIs are never reissued, transit ports and
  DHCP reservations do not collide, the showroom forward is the only one on port 443. Addresses:
  the life-cycle invariant under arbitrary cloud failures and the power-cycle round trip.
  Metering: months add up to the spend, covered time is the measure of a union, the meter
  difference converges; over any history of the service meters of a resource never overlap and
  final statements never change; a reconcile opens exactly the desired meters, an invoice bills
  the spend, and the months of its owner add up to it; a budget stops a project once; what an
  undeploy leaves running and which rates have no effect. Coordination: lock and semaphore bounds under every interleaving, the
  sliding window, bans only of cold addresses, equivalence of the Redis store and its fallback.
  Notifications: how often a client
  gets one, that the poller reports changes only. Timers: the effect of a pass, dry runs, recovery of abandoned jobs. Tunnel: frame round trip,
  session caps, who may open a tunnel, where it dials, and that a session leaves no socket open.
  Accounts: what a project-scoped key reaches and where roles come from. Kubeconfigs: merged
  contexts are distinct and lead to their own clusters. Groups: a group with a manager keeps one.
  Workers: the fleet stays within the connections of the database. Canvases: one that passes the
  checks is well-formed; the synchronisation of the showroom's gateway is idempotent and its ports
  can be taken back; egress networks are ranked completely; disks follow the boot order, and which
  share a file; assigned addresses are free and in range; a VM to be defined anew is a changed VM;
  checked disk buses are supported. Collections: nothing a known project owns on a host is removed, and
  which domains remain. Several theorems state behaviour that a comment contradicts or that looks
  unintended; the manifest lists them.

  \<^bold>\<open>Bounds.\<close> No fuel is used: every loop is structural or has a measure (the search for the next
  free transit port and for a free context name terminate because the used ones are finite); the
  waiting loops of locks, semaphores and tunnel sessions are step relations.

  \<^bold>\<open>Not modelled.\<close> The rest of the host agent, the provider drivers, the operator, image transfer and the
  HTTP layer: they are I/O. Planned next: template loading, cluster scaffolding, the cluster half of the
  garbage collection, the security-group synchronisation of the address service.
\<close>

end
